(* ===== verification/Prelude.thy ===== *)
theory Prelude
  imports Main "HOL-Library.Word"
begin

text \<open>
  What the components share: the result type of the fallible C functions and the two ways the C
  sources chain them (\<open>bind_result\<close> for a call whose value is used, \<open>seq\<close> for a chain
  \<open>a && b && c\<close> or a loop of calls that returns at the first failure), the little-endian view
  of machine words as bytes and as bits, C strings, and lemmas on them.

  \<open>Out_of_memory\<close> is a \<open>return false\<close>: in the code modelled here every such return goes back to
  a blob that could not grow (\<open>grow_to_fit\<close>) or to a blob overwritten out of its bounds.
  \<open>Assertion\<close> is a failed \<open>assert\<close>, \<open>Unreachable\<close> an executed \<open>UNREACHABLE\<close> and \<open>Undefined\<close>
  an access out of the bounds of an array or through a null pointer, where C gives no meaning.
\<close>

unbundle bit_operations_syntax

named_theorems stream_simps \<open>how the emitters change the bit stream\<close>
named_theorems step_defs \<open>definitions of the emission steps\<close>

section \<open>Results\<close>

datatype error = Out_of_memory | Assertion | Unreachable | Undefined

type_synonym 'a result = "error + 'a"

definition bind_result :: "'a result \<Rightarrow> ('a \<Rightarrow> 'b result) \<Rightarrow> 'b result" where
  "bind_result r f = (case r of Inl e \<Rightarrow> Inl e | Inr x \<Rightarrow> f x)"

definition check_that :: "bool \<Rightarrow> 's \<Rightarrow> 's result" where
  "check_that P s = (if P then Inr s else Inl Assertion)"

fun seq :: "('s \<Rightarrow> 's result) list \<Rightarrow> 's \<Rightarrow> 's result" where
  "seq [] s = Inr s"
| "seq (f # fs) s = bind_result (f s) (seq fs)"

lemma bind_result_simps [simp]:
  "bind_result (Inl e) f = Inl e"
  "bind_result (Inr x) f = f x"
  by (simp_all add: bind_result_def)

lemma bind_result_Inr_iff [simp]:
  "bind_result r f = Inr y \<longleftrightarrow> (\<exists>x. r = Inr x \<and> f x = Inr y)"
  by (cases r) auto

lemma bind_result_Inl_iff:
  "bind_result r f = Inl e \<longleftrightarrow> r = Inl e \<or> (\<exists>x. r = Inr x \<and> f x = Inl e)"
  by (cases r) auto

lemma bind_result_cong [fundef_cong]:
  "r = r' \<Longrightarrow> (\<And>x. r' = Inr x \<Longrightarrow> f x = g x) \<Longrightarrow> bind_result r f = bind_result r' g"
  by (cases r') auto

lemma bind_result_assoc:
  "bind_result (bind_result r f) g = bind_result r (\<lambda>x. bind_result (f x) g)"
  by (cases r) auto

lemma check_that_Inr_iff [simp]: "check_that P s = Inr s' \<longleftrightarrow> P \<and> s' = s"
  by (auto simp: check_that_def)

lemma check_that_True [simp]: "P \<Longrightarrow> check_that P s = Inr s"
  by (simp add: check_that_def)

lemma seq_append: "seq (fs @ gs) s = bind_result (seq fs s) (seq gs)"
proof (induction fs arbitrary: s)
  case (Cons f fs)
  then show ?case by (cases "f s") simp_all
qed simp

lemma seq_fun: "seq [] = Inr" "seq (f # fs) = (\<lambda>s. bind_result (f s) (seq fs))"
  by (rule ext, simp)+

lemma seq_Cons_Inr_iff:
  "seq (f # fs) s = Inr s' \<longleftrightarrow> (\<exists>t. f s = Inr t \<and> seq fs t = Inr s')"
  by simp

text \<open>A property that every step keeps is kept by the whole chain.\<close>

lemma seq_invariant:
  assumes "seq fs s = Inr s'" and "P s"
    and "\<And>f s s'. f \<in> set fs \<Longrightarrow> P s \<Longrightarrow> f s = Inr s' \<Longrightarrow> P s'"
  shows "P s'"
  using assms
proof (induction fs arbitrary: s)
  case Nil
  then show ?case by simp
next
  case (Cons f fs)
  then obtain t where t: "f s = Inr t" "seq fs t = Inr s'" by auto
  have "P t" using Cons.prems(2) t(1) by (intro Cons.prems(3) [of f s t]) simp_all
  then show ?case
    by (rule Cons.IH [OF t(2)]) (metis Cons.prems(3) list.set_intros(2))
qed

section \<open>Words as bits and bytes, least significant first\<close>

definition word_bits :: "nat \<Rightarrow> 'a::len word \<Rightarrow> bool list" where
  "word_bits n w = map (bit w) [0..<n]"

definition le_bytes :: "nat \<Rightarrow> 'a::len word \<Rightarrow> 8 word list" where
  "le_bytes n w = map (\<lambda>i. ucast (drop_bit (8 * i) w)) [0..<n]"

definition bytes_bits :: "8 word list \<Rightarrow> bool list" where
  "bytes_bits bs = concat (map (word_bits 8) bs)"

definition bits_nat :: "bool list \<Rightarrow> nat" where
  "bits_nat bs = horner_sum of_bool 2 bs"

lemma length_word_bits [simp]: "length (word_bits n w) = n"
  by (simp add: word_bits_def)

lemma length_le_bytes [simp]: "length (le_bytes n w) = n"
  by (simp add: le_bytes_def)

lemma nth_word_bits [simp]: "i < n \<Longrightarrow> word_bits n w ! i = bit w i"
  by (simp add: word_bits_def)

lemma word_bits_0 [simp]: "word_bits 0 w = []"
  by (simp add: word_bits_def)

lemma word_bits_zero [simp]: "word_bits n 0 = replicate n False"
  by (simp add: word_bits_def list_eq_iff_nth_eq)

lemma bytes_bits_simps [simp]:
  "bytes_bits [] = []"
  "bytes_bits (b # bs) = word_bits 8 b @ bytes_bits bs"
  "bytes_bits (bs @ cs) = bytes_bits bs @ bytes_bits cs"
  by (simp_all add: bytes_bits_def)

lemma length_bytes_bits [simp]: "length (bytes_bits bs) = 8 * length bs"
  by (induction bs) simp_all

lemma bytes_bits_take: "bytes_bits (take k bs) = take (8 * k) (bytes_bits bs)"
  by (induction bs arbitrary: k) (simp_all add: take_Cons split: nat.split)

lemma bytes_bits_drop: "bytes_bits (drop k bs) = drop (8 * k) (bytes_bits bs)"
  by (induction bs arbitrary: k) (simp_all add: drop_Cons split: nat.split)

lemma word_bits_append:
  "word_bits (m + n) w = word_bits m w @ word_bits n (drop_bit m w)"
  by (rule nth_equalityI) (auto simp: nth_append bit_drop_bit_eq)

lemma word_bits_ucast:
  fixes w :: "'a::len word"
  assumes "n \<le> LENGTH('b::len)"
  shows "word_bits n (ucast w :: 'b word) = word_bits n w"
  using assms by (intro nth_equalityI) (auto simp: bit_simps)

lemma le_bytes_Suc:
  "le_bytes (Suc n) w = le_bytes n w @ [ucast (drop_bit (8 * n) w)]"
  by (simp add: le_bytes_def)

lemma bytes_bits_le_bytes:
  "bytes_bits (le_bytes n w) = word_bits (8 * n) w"
proof (induction n)
  case 0
  then show ?case by (simp add: le_bytes_def)
next
  case (Suc n)
  have "bytes_bits (le_bytes (Suc n) w) = word_bits (8 * n) w @ word_bits 8 (drop_bit (8 * n) w)"
    by (simp add: le_bytes_Suc Suc word_bits_ucast)
  also have "\<dots> = word_bits (8 * n + 8) w" by (simp add: word_bits_append)
  finally show ?case by (simp add: algebra_simps)
qed

text \<open>Reading bits back: the value of the first \<open>n\<close> bits of a word.\<close>

lemma bits_nat_word_bits:
  "bits_nat (word_bits n w) = unat (take_bit n w)"
proof -
  have "map (bit w) [0..<n] = map (bit (unat w)) [0..<n]"
    by (simp add: bit_unsigned_iff)
  then show ?thesis
    by (simp only: bits_nat_def word_bits_def horner_sum_bit_eq_take_bit unsigned_take_bit_eq)
qed

lemma of_nat_bits_nat_word_bits:
  fixes w :: "'a::len word"
  shows "of_nat (bits_nat (word_bits n w)) = take_bit n w"
  by (simp add: bits_nat_word_bits)

lemma take_bit_id:
  fixes w :: "'a::len word"
  assumes "unat w < 2 ^ n"
  shows "take_bit n w = w"
proof -
  have "unat (take_bit n w) = unat w"
    using assms by (simp add: unsigned_take_bit_eq take_bit_nat_eq_self)
  then show ?thesis by (simp add: word_unat_eq_iff)
qed

lemma unat_drop_bit:
  "unat (drop_bit k w) = unat w div 2 ^ k"
  unfolding unat_drop_bit_eq by (rule drop_bit_eq_div)

lemma take_bit_id_iff:
  fixes w :: "'a::len word"
  shows "take_bit n w = w \<longleftrightarrow> (\<forall>i. bit w i \<longrightarrow> i < n)"
  by (auto simp: bit_eq_iff bit_take_bit_iff dest: bit_imp_le_length)

text \<open>The bits of a natural number, and reading them back.\<close>

definition nat_bits :: "nat \<Rightarrow> nat \<Rightarrow> bool list" where
  "nat_bits k n = map (bit n) [0..<k]"

lemma length_nat_bits [simp]: "length (nat_bits k n) = k"
  by (simp add: nat_bits_def)

lemma bits_nat_nat_bits: "bits_nat (nat_bits k n) = n mod 2 ^ k"
  unfolding bits_nat_def nat_bits_def horner_sum_bit_eq_take_bit by (rule take_bit_eq_mod)

lemma word_bits_eq_nat_bits: "word_bits k w = nat_bits k (unat w)"
  by (simp add: word_bits_def nat_bits_def bit_unsigned_iff)

lemma word_bits_mask_check:
  fixes d :: "32 word"
  assumes "n \<le> 32"
  shows "(ucast d :: 64 word) AND NOT (push_bit n 1 - 1) = 0 \<longleftrightarrow> take_bit n d = d"
proof -
  have m: "push_bit n 1 - 1 = (mask n :: 64 word)"
    by (simp add: mask_eq_exp_minus_1)
  have "(ucast d :: 64 word) AND NOT (mask n) = 0 \<longleftrightarrow>
      (\<forall>i. \<not> bit ((ucast d :: 64 word) AND NOT (mask n)) i)"
    by (metis bit_0_eq bot_apply bot_bool_def bit_eqI)
  also have "\<dots> \<longleftrightarrow> (\<forall>i. bit d i \<longrightarrow> i < n)"
  proof -
    have "bit d i \<Longrightarrow> i < 32" for i using bit_imp_le_length [of d i] by simp
    then show ?thesis by (fastforce simp: bit_simps)
  qed
  finally have "(ucast d :: 64 word) AND NOT (mask n) = 0 \<longleftrightarrow> (\<forall>i. bit d i \<longrightarrow> i < n)" .
  then show ?thesis by (simp only: m take_bit_id_iff)
qed

section \<open>C strings\<close>

text \<open>
  A C string is its characters without the terminating zero byte. Reading a \<open>char\<close> into an
  integer sign-extends it (\<open>char\<close> is signed on the targets of the build), the cast to
  \<open>uint8_t\<close> first makes it zero-extend.
\<close>

definition char_byte :: "char \<Rightarrow> 8 word" where
  "char_byte c = of_char c"

definition byte_char :: "8 word \<Rightarrow> char" where
  "byte_char b = char_of (unat b)"

definition char_u64 :: "char \<Rightarrow> 64 word" where
  "char_u64 c = scast (char_byte c)"

definition uchar_u64 :: "char \<Rightarrow> 64 word" where
  "uchar_u64 c = ucast (char_byte c)"

definition string_bytes :: "string \<Rightarrow> 8 word list" where
  "string_bytes s = map char_byte s"

lemma length_string_bytes [simp]: "length (string_bytes s) = length s"
  by (simp add: string_bytes_def)

lemma unat_char_byte: "unat (char_byte c) = of_char c"
proof -
  have "unat (of_nat (of_char c) :: 8 word) = of_char c mod 256"
    by (simp only: unat_of_nat) simp
  then show ?thesis by (simp only: char_byte_def of_nat_of_char of_char_mod_256)
qed

lemma byte_char_byte [simp]: "byte_char (char_byte c) = c"
  by (simp add: byte_char_def unat_char_byte)

lemma char_byte_inject [simp]: "char_byte c = char_byte d \<longleftrightarrow> c = d"
  by (metis byte_char_byte)

lemma map_byte_char_string_bytes [simp]: "map byte_char (string_bytes s) = s"
  by (simp add: string_bytes_def comp_def)

section \<open>Arrays\<close>

text \<open>An index beyond an array is the error \<open>Undefined\<close>.\<close>

definition read_at :: "nat \<Rightarrow> 'a list \<Rightarrow> 'a result" where
  "read_at i xs = (if i < length xs then Inr (xs ! i) else Inl Undefined)"

definition update_at :: "nat \<Rightarrow> ('a \<Rightarrow> 'a) \<Rightarrow> 'a list \<Rightarrow> 'a list result" where
  "update_at i f xs = (if i < length xs then Inr (xs[i := f (xs ! i)]) else Inl Undefined)"

lemma read_at_Inr [simp]: "read_at i xs = Inr x \<longleftrightarrow> i < length xs \<and> x = xs ! i"
  by (auto simp: read_at_def)

lemma update_at_Inr [simp]: "update_at i f xs = Inr ys \<longleftrightarrow> i < length xs \<and> ys = xs[i := f (xs ! i)]"
  by (auto simp: update_at_def)

end
