(* ===== verification/Sinks.thy ===== *)
theory Sinks
  imports Prelude
begin

text \<open>
  The interface between the writers of the development and what they write to. A sink has a
  \<open>put\<close> operation that appends the encoding \<open>enc d\<close> of a datum to what the state already
  \<open>holds\<close>, or fails. The byte blob, the bit buffer, the records of the bitcode module and the
  parts of the container each provide it; what a chain or a loop of calls appends, and when it
  cannot fail, is proved here once.
\<close>

locale sink =
  fixes put :: "'d \<Rightarrow> 's \<Rightarrow> 's result"
    and holds :: "'s \<Rightarrow> 'e list"
    and enc :: "'d \<Rightarrow> 'e list"
    and inv :: "'s \<Rightarrow> bool"
    and legal :: "'d \<Rightarrow> bool"
  assumes put_inv: "inv s \<Longrightarrow> legal d \<Longrightarrow> put d s = Inr s' \<Longrightarrow> inv s'"
    and put_holds: "inv s \<Longrightarrow> legal d \<Longrightarrow> put d s = Inr s' \<Longrightarrow> holds s' = holds s @ enc d"
begin

lemma put_all:
  assumes "inv s" and "list_all legal ds" and "seq (map put ds) s = Inr s'"
  shows "inv s' \<and> holds s' = holds s @ concat (map enc ds)"
  using assms
proof (induction ds arbitrary: s)
  case Nil
  then show ?case by simp
next
  case (Cons d ds)
  then obtain t where t: "put d s = Inr t" "seq (map put ds) t = Inr s'" by auto
  have "inv t" "holds t = holds s @ enc d"
    using Cons.prems t put_inv put_holds by auto
  then show ?case using Cons.IH [of t] Cons.prems t by simp
qed

lemma put_all_inv:
  "inv s \<Longrightarrow> list_all legal ds \<Longrightarrow> seq (map put ds) s = Inr s' \<Longrightarrow> inv s'"
  using put_all by blast

lemma put_all_holds:
  "inv s \<Longrightarrow> list_all legal ds \<Longrightarrow> seq (map put ds) s = Inr s' \<Longrightarrow>
   holds s' = holds s @ concat (map enc ds)"
  using put_all by blast

text \<open>Nothing is ever taken back: what a sink holds is a prefix of what it holds later.\<close>

lemma put_all_prefix:
  "inv s \<Longrightarrow> list_all legal ds \<Longrightarrow> seq (map put ds) s = Inr s' \<Longrightarrow>
   take (length (holds s)) (holds s') = holds s"
  by (simp add: put_all_holds)

end

text \<open>A sink that does not fail while there is room, counted in units the provider chooses.\<close>

locale roomy_sink = sink +
  fixes room :: "'s \<Rightarrow> nat \<Rightarrow> bool"
    and cost :: "'d \<Rightarrow> nat"
  assumes put_room: "inv s \<Longrightarrow> legal d \<Longrightarrow> room s (cost d + k) \<Longrightarrow>
      \<exists>s'. put d s = Inr s' \<and> room s' k"
begin

lemma put_all_room:
  assumes "inv s" and "list_all legal ds" and "room s (sum_list (map cost ds) + k)"
  shows "\<exists>s'. seq (map put ds) s = Inr s' \<and> room s' k"
  using assms
proof (induction ds arbitrary: s)
  case Nil
  then show ?case by simp
next
  case (Cons d ds)
  have "room s (cost d + (sum_list (map cost ds) + k))"
    using Cons.prems by (simp add: add.assoc)
  then obtain t where t: "put d s = Inr t" "room t (sum_list (map cost ds) + k)"
    using put_room [of s d] Cons.prems by auto
  moreover have "inv t" using put_inv [of s d t] Cons.prems t by auto
  ultimately show ?case using Cons.IH [of t] Cons.prems by simp
qed

end

end
