(* ===== verification/Blob.thy ===== *)
theory Blob
  imports Sinks
begin

text \<open>
  The growing byte buffer of \<open>src/mesa/src/util/blob.c\<close>: \<open>struct blob\<close> with its writers, and
  \<open>struct blob_reader\<close>.

  \<open>blob_data\<close> is the written prefix of the allocation (\<open>None\<close> is the null pointer), so its
  length is \<open>blob_size\<close>. Two fields describe the process the blob lives in and are only read:
  \<open>heap_limit\<close>, the largest size for which \<open>realloc\<close> succeeds, and \<open>junk\<close>, the byte that
  reserved but not yet written memory happens to hold. Sizes are \<open>size_t\<close>: the sums the code
  checks are taken modulo \<open>2 ^ 64\<close>. Words are stored as on a little-endian host.
\<close>

record blob =
  blob_data :: "8 word list option"
  blob_allocated :: nat
  blob_size :: nat
  fixed_allocation :: bool
  out_of_memory :: bool
  heap_limit :: nat
  junk :: "8 word"

definition size_add :: "nat \<Rightarrow> nat \<Rightarrow> nat" where
  "size_add a b = (a + b) mod 2 ^ 64"

definition BLOB_INITIAL_SIZE :: nat where
  "BLOB_INITIAL_SIZE = 4096"

definition grow_to_fit :: "blob \<Rightarrow> nat \<Rightarrow> bool \<times> blob" where
  "grow_to_fit b additional =
     (if out_of_memory b then (False, b)
      else if size_add (blob_size b) additional \<le> blob_allocated b then (True, b)
      else if fixed_allocation b then (False, b\<lparr>out_of_memory := True\<rparr>)
      else
        let to_allocate =
              (if blob_allocated b = 0 then BLOB_INITIAL_SIZE
               else (blob_allocated b * 2) mod 2 ^ 64);
            to_allocate = max to_allocate (size_add (blob_allocated b) additional)
        in if heap_limit b < to_allocate then (False, b\<lparr>out_of_memory := True\<rparr>)
           else (True, b\<lparr>blob_data := Some (case blob_data b of None \<Rightarrow> [] | Some d \<Rightarrow> d),
                         blob_allocated := to_allocate\<rparr>))"

text \<open>\<open>align_uintptr\<close> of \<open>u_math.h\<close> asserts a power of two; here it is \<open>sizeof\<close> of an integer.\<close>

definition align_uintptr :: "nat \<Rightarrow> nat \<Rightarrow> nat" where
  "align_uintptr v a = size_add v (a - 1) div a * a"

definition blob_align :: "blob \<Rightarrow> nat \<Rightarrow> bool \<times> blob" where
  "blob_align b alignment =
     (let new_size = align_uintptr (blob_size b) alignment in
      if blob_size b < new_size then
        (case grow_to_fit b (new_size - blob_size b) of
           (False, b) \<Rightarrow> (False, b)
         | (True, b) \<Rightarrow>
             (True, b\<lparr>blob_data :=
                 map_option (\<lambda>d. d @ replicate (new_size - blob_size b) 0) (blob_data b),
               blob_size := new_size\<rparr>))
      else (True, b))"

definition blob_init :: "nat \<Rightarrow> 8 word \<Rightarrow> blob" where
  "blob_init limit j =
     \<lparr>blob_data = None, blob_allocated = 0, blob_size = 0, fixed_allocation = False,
      out_of_memory = False, heap_limit = limit, junk = j\<rparr>"

text \<open>A fixed blob over a caller's buffer (\<open>null = False\<close>) or over a null pointer, which only counts.\<close>

definition blob_init_fixed :: "bool \<Rightarrow> nat \<Rightarrow> nat \<Rightarrow> 8 word \<Rightarrow> blob" where
  "blob_init_fixed null n limit j =
     \<lparr>blob_data = (if null then None else Some []), blob_allocated = n, blob_size = 0,
      fixed_allocation = True, out_of_memory = False, heap_limit = limit, junk = j\<rparr>"

definition blob_overwrite_bytes :: "blob \<Rightarrow> nat \<Rightarrow> 8 word list \<Rightarrow> bool \<times> blob" where
  "blob_overwrite_bytes b offset bs =
     (let to_write = length bs in
      if size_add offset to_write < offset \<or> blob_size b < size_add offset to_write then (False, b)
      else (True, b\<lparr>blob_data :=
              map_option (\<lambda>d. take offset d @ bs @ drop (offset + to_write) d) (blob_data b)\<rparr>))"

definition blob_write_bytes :: "blob \<Rightarrow> 8 word list \<Rightarrow> bool \<times> blob" where
  "blob_write_bytes b bs =
     (case grow_to_fit b (length bs) of
        (False, b) \<Rightarrow> (False, b)
      | (True, b) \<Rightarrow>
          (True, b\<lparr>blob_data := map_option (\<lambda>d. d @ bs) (blob_data b),
                   blob_size := blob_size b + length bs\<rparr>))"

text \<open>The result is the offset reserved, \<open>-1\<close> when the blob could not grow.\<close>

definition blob_reserve_bytes :: "blob \<Rightarrow> nat \<Rightarrow> int \<times> blob" where
  "blob_reserve_bytes b to_write =
     (case grow_to_fit b to_write of
        (False, b) \<Rightarrow> (-1, b)
      | (True, b) \<Rightarrow>
          (int (blob_size b),
           b\<lparr>blob_data := map_option (\<lambda>d. d @ replicate to_write (junk b)) (blob_data b),
             blob_size := blob_size b + to_write\<rparr>))"

definition blob_reserve_uint32 :: "blob \<Rightarrow> int \<times> blob" where
  "blob_reserve_uint32 b = blob_reserve_bytes (snd (blob_align b 4)) 4"

definition blob_reserve_intptr :: "blob \<Rightarrow> int \<times> blob" where
  "blob_reserve_intptr b = blob_reserve_bytes (snd (blob_align b 8)) 8"

text \<open>The macro \<open>BLOB_WRITE_TYPE\<close>; the type of the value fixes \<open>sizeof(value)\<close>.\<close>

definition blob_write_type :: "blob \<Rightarrow> 'a::len word \<Rightarrow> bool \<times> blob" where
  "blob_write_type b value =
     (let n = LENGTH('a) div 8 in blob_write_bytes (snd (blob_align b n)) (le_bytes n value))"

definition blob_write_uint8 :: "blob \<Rightarrow> 8 word \<Rightarrow> bool \<times> blob" where
  "blob_write_uint8 = blob_write_type"

definition blob_write_uint16 :: "blob \<Rightarrow> 16 word \<Rightarrow> bool \<times> blob" where
  "blob_write_uint16 = blob_write_type"

definition blob_write_uint32 :: "blob \<Rightarrow> 32 word \<Rightarrow> bool \<times> blob" where
  "blob_write_uint32 = blob_write_type"

definition blob_write_uint64 :: "blob \<Rightarrow> 64 word \<Rightarrow> bool \<times> blob" where
  "blob_write_uint64 = blob_write_type"

definition blob_write_intptr :: "blob \<Rightarrow> 64 word \<Rightarrow> bool \<times> blob" where
  "blob_write_intptr = blob_write_type"

text \<open>The typed overwrites, with \<open>ASSERT_ALIGNED\<close>.\<close>

definition blob_overwrite_type :: "blob \<Rightarrow> nat \<Rightarrow> 'a::len word \<Rightarrow> (bool \<times> blob) result" where
  "blob_overwrite_type b offset value =
     (let n = LENGTH('a) div 8 in
      if align_uintptr offset n = offset
      then Inr (blob_overwrite_bytes b offset (le_bytes n value))
      else Inl Assertion)"

definition blob_overwrite_uint8 :: "blob \<Rightarrow> nat \<Rightarrow> 8 word \<Rightarrow> (bool \<times> blob) result" where
  "blob_overwrite_uint8 = blob_overwrite_type"

definition blob_overwrite_uint32 :: "blob \<Rightarrow> nat \<Rightarrow> 32 word \<Rightarrow> (bool \<times> blob) result" where
  "blob_overwrite_uint32 = blob_overwrite_type"

definition blob_overwrite_intptr :: "blob \<Rightarrow> nat \<Rightarrow> 64 word \<Rightarrow> (bool \<times> blob) result" where
  "blob_overwrite_intptr = blob_overwrite_type"

definition blob_write_string :: "blob \<Rightarrow> string \<Rightarrow> bool \<times> blob" where
  "blob_write_string b str = blob_write_bytes b (string_bytes str @ [0])"

section \<open>The reader\<close>

text \<open>Pointers into the data are offsets from its start.\<close>

record blob_reader =
  rd_data :: "8 word list"
  rd_end :: nat
  rd_current :: nat
  rd_overrun :: bool

definition blob_reader_init :: "8 word list \<Rightarrow> nat \<Rightarrow> blob_reader" where
  "blob_reader_init d n = \<lparr>rd_data = d, rd_end = n, rd_current = 0, rd_overrun = False\<rparr>"

definition blob_reader_align :: "blob_reader \<Rightarrow> nat \<Rightarrow> blob_reader" where
  "blob_reader_align r alignment = r\<lparr>rd_current := align_uintptr (rd_current r) alignment\<rparr>"

definition ensure_can_read :: "blob_reader \<Rightarrow> nat \<Rightarrow> bool \<times> blob_reader" where
  "ensure_can_read r n =
     (if rd_overrun r then (False, r)
      else if rd_current r \<le> rd_end r \<and> n \<le> rd_end r - rd_current r then (True, r)
      else (False, r\<lparr>rd_overrun := True\<rparr>))"

definition blob_read_bytes :: "blob_reader \<Rightarrow> nat \<Rightarrow> 8 word list option \<times> blob_reader" where
  "blob_read_bytes r n =
     (case ensure_can_read r n of
        (False, r) \<Rightarrow> (None, r)
      | (True, r) \<Rightarrow> (Some (take n (drop (rd_current r) (rd_data r))),
                       r\<lparr>rd_current := rd_current r + n\<rparr>))"

text \<open>\<open>dest\<close> is the memory copied into.\<close>

definition blob_copy_bytes ::
  "blob_reader \<Rightarrow> 8 word list \<Rightarrow> nat \<Rightarrow> 8 word list \<times> blob_reader" where
  "blob_copy_bytes r dest n =
     (case blob_read_bytes r n of
        (None, r) \<Rightarrow> (dest, r)
      | (Some bs, r) \<Rightarrow> ((if n = 0 then dest else bs @ drop n dest), r))"

definition blob_skip_bytes :: "blob_reader \<Rightarrow> nat \<Rightarrow> blob_reader" where
  "blob_skip_bytes r n =
     (case ensure_can_read r n of
        (False, r) \<Rightarrow> r
      | (True, r) \<Rightarrow> r\<lparr>rd_current := rd_current r + n\<rparr>)"

definition le_word :: "8 word list \<Rightarrow> 'a::len word" where
  "le_word bs = of_nat (bits_nat (bytes_bits bs))"

text \<open>The macro \<open>BLOB_READ_TYPE\<close>: the result stays \<open>0\<close> when the read overruns.\<close>

definition blob_read_type :: "blob_reader \<Rightarrow> 'a::len word \<times> blob_reader" where
  "blob_read_type r =
     (let n = LENGTH('a) div 8;
          (bs, r) = blob_copy_bytes (blob_reader_align r n) (le_bytes n (0 :: 'a word)) n
      in (le_word bs, r))"

definition blob_read_uint8 :: "blob_reader \<Rightarrow> 8 word \<times> blob_reader" where
  "blob_read_uint8 = blob_read_type"

definition blob_read_uint16 :: "blob_reader \<Rightarrow> 16 word \<times> blob_reader" where
  "blob_read_uint16 = blob_read_type"

definition blob_read_uint32 :: "blob_reader \<Rightarrow> 32 word \<times> blob_reader" where
  "blob_read_uint32 = blob_read_type"

definition blob_read_uint64 :: "blob_reader \<Rightarrow> 64 word \<times> blob_reader" where
  "blob_read_uint64 = blob_read_type"

definition blob_read_intptr :: "blob_reader \<Rightarrow> 64 word \<times> blob_reader" where
  "blob_read_intptr = blob_read_type"

text \<open>\<open>memchr\<close> for the zero byte, as an offset.\<close>

fun find_nul :: "8 word list \<Rightarrow> nat option" where
  "find_nul [] = None"
| "find_nul (x # xs) = (if x = 0 then Some 0 else map_option Suc (find_nul xs))"

text \<open>The result is the string's bytes without the terminator.\<close>

definition blob_read_string :: "blob_reader \<Rightarrow> (8 word list option \<times> blob_reader) result" where
  "blob_read_string r =
     (if rd_end r \<le> rd_current r then Inr (None, r\<lparr>rd_overrun := True\<rparr>)
      else case find_nul (take (rd_end r - rd_current r) (drop (rd_current r) (rd_data r))) of
        None \<Rightarrow> Inr (None, r\<lparr>rd_overrun := True\<rparr>)
      | Some nul \<Rightarrow>
          (case ensure_can_read r (nul + 1) of
             (False, r) \<Rightarrow> Inl Assertion
           | (True, r) \<Rightarrow> Inr (Some (take nul (drop (rd_current r) (rd_data r))),
                                r\<lparr>rd_current := rd_current r + (nul + 1)\<rparr>)))"

section \<open>Invariant and behaviour of the writers\<close>

text \<open>
  The size never exceeds the allocation, and a blob that has memory holds exactly \<open>blob_size\<close>
  bytes. No allocation on a 64-bit host reaches \<open>2 ^ 63\<close> bytes.
\<close>

definition blob_ok :: "blob \<Rightarrow> bool" where
  "blob_ok b \<longleftrightarrow>
     blob_size b \<le> blob_allocated b \<and> blob_allocated b < 2 ^ 63 \<and> heap_limit b < 2 ^ 63 \<and>
     (case blob_data b of
        None \<Rightarrow> fixed_allocation b \<or> blob_allocated b = 0
      | Some d \<Rightarrow> length d = blob_size b)"

definition blob_contents :: "blob \<Rightarrow> 8 word list" where
  "blob_contents b = (case blob_data b of None \<Rightarrow> [] | Some d \<Rightarrow> d)"

definition growing :: "blob \<Rightarrow> bool" where
  "growing b \<longleftrightarrow> blob_ok b \<and> \<not> fixed_allocation b"

text \<open>Enough memory for \<open>n\<close> more bytes, the doubling of the allocation included.\<close>

definition blob_room :: "blob \<Rightarrow> nat \<Rightarrow> bool" where
  "blob_room b n \<longleftrightarrow> \<not> out_of_memory b \<and> 2 * (blob_size b + n) + BLOB_INITIAL_SIZE \<le> heap_limit b"

text \<open>\<open>if (!blob_write_bytes(...)) return false;\<close>\<close>

definition blob_put :: "8 word list \<Rightarrow> blob \<Rightarrow> blob result" where
  "blob_put bs b = (case blob_write_bytes b bs of
      (True, b) \<Rightarrow> Inr b
    | (False, _) \<Rightarrow> Inl Out_of_memory)"

lemma blob_init_ok: "limit < 2 ^ 63 \<Longrightarrow> growing (blob_init limit j) \<and> blob_contents (blob_init limit j) = []"
  by (simp add: growing_def blob_ok_def blob_init_def blob_contents_def)

lemma grow_to_fit_eq:
  assumes "blob_ok b" and "n < 2 ^ 63"
  shows "grow_to_fit b n =
     (if out_of_memory b then (False, b)
      else if blob_size b + n \<le> blob_allocated b then (True, b)
      else if fixed_allocation b then (False, b\<lparr>out_of_memory := True\<rparr>)
      else
        let t = max (if blob_allocated b = 0 then BLOB_INITIAL_SIZE else 2 * blob_allocated b)
                    (blob_allocated b + n)
        in if heap_limit b < t then (False, b\<lparr>out_of_memory := True\<rparr>)
           else (True, b\<lparr>blob_data := Some (blob_contents b), blob_allocated := t\<rparr>))"
proof -
  have "(blob_allocated b * 2) mod 2 ^ 64 = 2 * blob_allocated b"
    "size_add (blob_size b) n = blob_size b + n"
    "size_add (blob_allocated b) n = blob_allocated b + n"
    using assms by (auto simp: blob_ok_def size_add_def)
  then show ?thesis by (simp only: grow_to_fit_def blob_contents_def Let_def)
qed

lemma grow_to_fit_cases:
  assumes "blob_ok b" and "n < 2 ^ 63" and "grow_to_fit b n = (r, b')"
  shows "blob_ok b'" and "blob_contents b' = blob_contents b" and "blob_size b' = blob_size b"
    and "fixed_allocation b' = fixed_allocation b" and "heap_limit b' = heap_limit b"
    and "r \<Longrightarrow> blob_size b + n \<le> blob_allocated b' \<and> \<not> out_of_memory b'"
    and "\<not> r \<Longrightarrow> out_of_memory b' \<and> blob_data b' = blob_data b"
    and "r \<Longrightarrow> 0 < n \<Longrightarrow> \<not> fixed_allocation b \<Longrightarrow> blob_data b' \<noteq> None"
  using assms unfolding grow_to_fit_eq [OF assms(1,2)]
  by (auto simp: blob_ok_def blob_contents_def Let_def split: if_splits option.splits)

lemma grow_to_fit_room:
  assumes "blob_ok b" and "n < 2 ^ 63" and "\<not> fixed_allocation b" and "blob_room b n"
  shows "fst (grow_to_fit b n)"
  using assms(3,4) unfolding grow_to_fit_eq [OF assms(1,2)]
  by (auto simp: blob_room_def Let_def max_def)

lemma blob_write_bytes_ok:
  assumes "blob_ok b" and "length bs < 2 ^ 63" and "blob_write_bytes b bs = (r, b')"
  shows "blob_ok b'" and "fixed_allocation b' = fixed_allocation b"
    and "heap_limit b' = heap_limit b"
    and "r \<Longrightarrow> blob_size b' = blob_size b + length bs \<and> \<not> out_of_memory b'"
    and "r \<Longrightarrow> \<not> fixed_allocation b \<Longrightarrow> blob_contents b' = blob_contents b @ bs"
    and "\<not> r \<Longrightarrow> out_of_memory b' \<and> blob_contents b' = blob_contents b \<and> blob_size b' = blob_size b"
proof -
  obtain g t where g: "grow_to_fit b (length bs) = (g, t)" by fastforce
  note t = grow_to_fit_cases [OF assms(1,2) g]
  have r: "r = g" and b': "b' = (if g then t\<lparr>blob_data := map_option (\<lambda>d. d @ bs) (blob_data t),
      blob_size := blob_size t + length bs\<rparr> else t)"
    using assms(3) g by (auto simp: blob_write_bytes_def split: bool.splits)
  show "blob_ok b'" "fixed_allocation b' = fixed_allocation b" "heap_limit b' = heap_limit b"
    using t by (auto simp: b' blob_ok_def split: option.splits)
  show "blob_size b' = blob_size b + length bs \<and> \<not> out_of_memory b'" if r
    using t that r b' by simp
  show "out_of_memory b' \<and> blob_contents b' = blob_contents b \<and> blob_size b' = blob_size b" if "\<not> r"
    using t that r b' by simp
  show "blob_contents b' = blob_contents b @ bs" if r and "\<not> fixed_allocation b"
    using t that r b' by (cases bs) (auto simp: blob_contents_def split: option.splits)
qed

lemma blob_put_Inr:
  "blob_put bs b = Inr b' \<longleftrightarrow> blob_write_bytes b bs = (True, b')"
  by (auto simp: blob_put_def split: prod.splits bool.splits)

lemma blob_write_bytes_room:
  assumes "growing b" and "length bs < 2 ^ 63" and "blob_room b (length bs + k)"
  shows "\<exists>b'. blob_write_bytes b bs = (True, b') \<and> blob_room b' k"
proof -
  have ok: "blob_ok b" "\<not> fixed_allocation b" using assms(1) by (simp_all add: growing_def)
  obtain g t where g: "grow_to_fit b (length bs) = (g, t)" by fastforce
  note t = grow_to_fit_cases [OF ok(1) assms(2) g]
  have "blob_room b (length bs)" using assms(3) by (simp add: blob_room_def)
  then have "g" using grow_to_fit_room [OF ok(1) assms(2) ok(2)] g by simp
  then show ?thesis
    using g t assms(3) by (simp add: blob_write_bytes_def blob_room_def algebra_simps)
qed

lemma growing_put: "growing b \<Longrightarrow> length bs < 2 ^ 63 \<Longrightarrow> blob_put bs b = Inr b' \<Longrightarrow> growing b'"
  unfolding growing_def blob_put_Inr using blob_write_bytes_ok by blast

interpretation blob_sink: roomy_sink blob_put blob_contents "\<lambda>bs. bs" growing
  "\<lambda>bs. length bs < 2 ^ 63" blob_room length
proof unfold_locales
  show "growing b'" if "growing b" "length bs < 2 ^ 63" "blob_put bs b = Inr b'" for b bs b'
    using that by (rule growing_put)
  show "blob_contents b' = blob_contents b @ bs"
    if "growing b" "length bs < 2 ^ 63" "blob_put bs b = Inr b'" for b bs b'
    using that blob_write_bytes_ok(5) by (auto simp: growing_def blob_put_Inr)
  show "\<exists>b'. blob_put bs b = Inr b' \<and> blob_room b' k"
    if "growing b" "length bs < 2 ^ 63" "blob_room b (length bs + k)" for b bs k
    using blob_write_bytes_room [OF that] by (auto simp: blob_put_Inr)
qed

lemma growing_size: "growing b \<Longrightarrow> blob_size b = length (blob_contents b)"
  by (auto simp: growing_def blob_ok_def blob_contents_def split: option.splits)

lemma blob_overwrite_bytes_ok:
  assumes "growing b" and "blob_overwrite_bytes b off bs = (r, b')"
    and "off < 2 ^ 63" and "length bs < 2 ^ 63"
  shows "growing b'" and "r \<longleftrightarrow> off + length bs \<le> blob_size b"
    and "r \<Longrightarrow> blob_contents b' =
      take off (blob_contents b) @ bs @ drop (off + length bs) (blob_contents b)"
    and "\<not> r \<Longrightarrow> b' = b" and "blob_size b' = blob_size b"
    and "out_of_memory b' = out_of_memory b" and "heap_limit b' = heap_limit b"
proof -
  have add: "size_add off (length bs) = off + length bs" using assms(3,4) by (simp add: size_add_def)
  have b': "r \<longleftrightarrow> off + length bs \<le> blob_size b"
    "b' = (if off + length bs \<le> blob_size b then b\<lparr>blob_data :=
            map_option (\<lambda>d. take off d @ bs @ drop (off + length bs) d) (blob_data b)\<rparr> else b)"
    using assms(2) by (auto simp: blob_overwrite_bytes_def add Let_def split: if_splits)
  then show "r \<longleftrightarrow> off + length bs \<le> blob_size b" "\<not> r \<Longrightarrow> b' = b"
    "blob_size b' = blob_size b" "out_of_memory b' = out_of_memory b"
    "heap_limit b' = heap_limit b"
    by auto
  show "growing b'"
    using assms(1) b' by (auto simp: growing_def blob_ok_def split: option.splits if_splits)
  show "blob_contents b' = take off (blob_contents b) @ bs @ drop (off + length bs) (blob_contents b)"
    if r
    using that assms(1) b'
    by (auto simp: blob_contents_def growing_def blob_ok_def split: option.splits)
qed

end
