(* ===== verification/Blob_Roundtrip.thy ===== *)
theory Blob_Roundtrip
  imports Blob
begin

text \<open>
  What is written with the typed writers of a blob is what the matching readers return. A client
  is a list of items; it writes them one after the other and reads them back in the same order,
  each at the alignment its type asks for.
\<close>

datatype blob_item =
  Item8 "8 word" | Item16 "16 word" | Item32 "32 word" | Item64 "64 word" | Item_string string

definition if_written :: "bool \<times> blob \<Rightarrow> blob result" where
  "if_written r = (if fst r then Inr (snd r) else Inl Out_of_memory)"

fun write_item :: "blob_item \<Rightarrow> blob \<Rightarrow> blob result" where
  "write_item (Item8 v) b = if_written (blob_write_uint8 b v)"
| "write_item (Item16 v) b = if_written (blob_write_uint16 b v)"
| "write_item (Item32 v) b = if_written (blob_write_uint32 b v)"
| "write_item (Item64 v) b = if_written (blob_write_uint64 b v)"
| "write_item (Item_string s) b = if_written (blob_write_string b s)"

text \<open>Read an item of the same type as the one given.\<close>

fun read_item :: "blob_item \<Rightarrow> blob_reader \<Rightarrow> (blob_item option \<times> blob_reader) result" where
  "read_item (Item8 _) r = (let (v, r) = blob_read_uint8 r in Inr (Some (Item8 v), r))"
| "read_item (Item16 _) r = (let (v, r) = blob_read_uint16 r in Inr (Some (Item16 v), r))"
| "read_item (Item32 _) r = (let (v, r) = blob_read_uint32 r in Inr (Some (Item32 v), r))"
| "read_item (Item64 _) r = (let (v, r) = blob_read_uint64 r in Inr (Some (Item64 v), r))"
| "read_item (Item_string _) r = bind_result (blob_read_string r)
     (\<lambda>(s, r). Inr (map_option (\<lambda>bs. Item_string (map byte_char bs)) s, r))"

fun read_items :: "blob_item list \<Rightarrow> blob_reader \<Rightarrow> (blob_item option list \<times> blob_reader) result" where
  "read_items [] r = Inr ([], r)"
| "read_items (i # is) r = bind_result (read_item i r) (\<lambda>(v, r).
     bind_result (read_items is r) (\<lambda>(vs, r). Inr (v # vs, r)))"

text \<open>A C string has no zero byte inside.\<close>

fun c_string_item :: "blob_item \<Rightarrow> bool" where
  "c_string_item (Item_string s) = (CHR 0x00 \<notin> set s \<and> length s < 2 ^ 32)"
| "c_string_item _ = True"

section \<open>What an item adds to the bytes\<close>

fun item_align :: "blob_item \<Rightarrow> nat" where
  "item_align (Item8 _) = 1"
| "item_align (Item16 _) = 2"
| "item_align (Item32 _) = 4"
| "item_align (Item64 _) = 8"
| "item_align (Item_string _) = 1"

fun item_bytes :: "blob_item \<Rightarrow> 8 word list" where
  "item_bytes (Item8 v) = le_bytes 1 v"
| "item_bytes (Item16 v) = le_bytes 2 v"
| "item_bytes (Item32 v) = le_bytes 4 v"
| "item_bytes (Item64 v) = le_bytes 8 v"
| "item_bytes (Item_string s) = string_bytes s @ [0]"

definition pad_len :: "nat \<Rightarrow> nat \<Rightarrow> nat" where
  "pad_len n a = (n + (a - 1)) div a * a - n"

lemma align_uintptr_pad:
  assumes "n < 2 ^ 63" and "0 < a" and "a \<le> 8"
  shows "align_uintptr n a = n + pad_len n a"
proof -
  have "n \<le> (n + (a - 1)) div a * a"
    using div_mult_mod_eq [of "n + (a - 1)" a]
      mod_less_divisor [OF assms(2), of "n + (a - 1)"] by linarith
  moreover have "size_add n (a - 1) = n + (a - 1)" using assms by (simp add: size_add_def)
  ultimately show ?thesis by (simp add: align_uintptr_def pad_len_def)
qed

lemma pad_len_less: "0 < a \<Longrightarrow> pad_len n a < a"
  unfolding pad_len_def
  using div_times_less_eq_dividend [of "n + (a - 1)" a] by linarith

lemma pad_len_1 [simp]: "pad_len n (Suc 0) = 0"
  by (simp add: pad_len_def)

lemma blob_align_ok:
  assumes "growing b" and "0 < a" and "a \<le> 8" and "blob_align b a = (r, b')"
  shows "growing b'" and "r \<Longrightarrow> blob_contents b' = blob_contents b @ replicate (pad_len (blob_size b) a) 0"
    and "\<not> r \<Longrightarrow> out_of_memory b'"
proof -
  let ?n = "pad_len (blob_size b) a"
  have ok: "blob_ok b" "\<not> fixed_allocation b" "blob_size b < 2 ^ 63"
    using assms(1) by (auto simp: growing_def blob_ok_def)
  have al: "align_uintptr (blob_size b) a = blob_size b + ?n"
    using align_uintptr_pad [OF ok(3) assms(2,3)] .
  have n: "?n < 2 ^ 63" using pad_len_less [OF assms(2), of "blob_size b"] assms(3) by simp
  obtain g t where g: "grow_to_fit b ?n = (g, t)" by fastforce
  note t = grow_to_fit_cases [OF ok(1) n g]
  have eq: "(r, b') = (if 0 < ?n then (if g then (True, t\<lparr>blob_data :=
      map_option (\<lambda>d. d @ replicate ?n 0) (blob_data t), blob_size := blob_size b + ?n\<rparr>)
      else (False, t)) else (True, b))"
    using assms(4) g t(3) by (auto simp: blob_align_def al Let_def split: bool.splits)
  show "growing b'"
    using eq t ok assms(1) by (auto simp: growing_def blob_ok_def split: if_splits option.splits)
  show "\<not> r \<Longrightarrow> out_of_memory b'" using eq t by (auto split: if_splits)
  show "blob_contents b' = blob_contents b @ replicate ?n 0" if r
    using eq t that ok by (auto simp: blob_contents_def split: if_splits option.splits)
qed

lemma blob_write_bytes_oom: "out_of_memory b \<Longrightarrow> fst (blob_write_bytes b bs) = False"
  by (simp add: blob_write_bytes_def grow_to_fit_def)

lemma write_bytes_aligned:
  assumes "growing b" and "0 < a" and "a \<le> 8" and "length bs < 2 ^ 63"
    and "blob_write_bytes (snd (blob_align b a)) bs = (True, b')"
  shows "growing b' \<and> blob_contents b' =
      blob_contents b @ replicate (pad_len (blob_size b) a) 0 @ bs"
proof -
  obtain r t where al: "blob_align b a = (r, t)" by fastforce
  note t = blob_align_ok [OF assms(1-3) al]
  have r
    using assms(5) al t(3) blob_write_bytes_oom [of t bs] by (cases r) auto
  have ok: "blob_ok t" "\<not> fixed_allocation t" using t(1) by (simp_all add: growing_def)
  note w = blob_write_bytes_ok [OF ok(1) assms(4), of True b']
  show ?thesis
    using assms(5) al w ok t(2) \<open>r\<close> by (simp add: growing_def)
qed

lemma if_written_Inr [simp]: "if_written p = Inr b \<longleftrightarrow> p = (True, b)"
  by (cases p) (auto simp: if_written_def)

lemma blob_align_1 [simp]: "growing b \<Longrightarrow> blob_align b (Suc 0) = (True, b)"
  by (auto simp: blob_align_def align_uintptr_def size_add_def growing_def blob_ok_def)

lemma write_item_bytes:
  assumes "growing b" and "c_string_item it" and "write_item it b = Inr b'"
  shows "growing b' \<and> blob_contents b' =
      blob_contents b @ replicate (pad_len (blob_size b) (item_align it)) 0 @ item_bytes it"
proof (cases it)
  case (Item_string s)
  then have "blob_write_bytes (snd (blob_align b 1)) (string_bytes s @ [0]) = (True, b')"
    using assms by (simp add: blob_write_string_def)
  from write_bytes_aligned [OF assms(1) _ _ _ this] show ?thesis
    using Item_string assms(2) by simp
next
  case (Item8 v)
  then have "blob_write_bytes (snd (blob_align b 1)) (le_bytes 1 v) = (True, b')"
    using assms by (simp add: blob_write_uint8_def blob_write_type_def Let_def)
  from write_bytes_aligned [OF assms(1) _ _ _ this] show ?thesis using Item8 by simp
next
  case (Item16 v)
  then have "blob_write_bytes (snd (blob_align b 2)) (le_bytes 2 v) = (True, b')"
    using assms by (simp add: blob_write_uint16_def blob_write_type_def Let_def)
  from write_bytes_aligned [OF assms(1) _ _ _ this] show ?thesis using Item16 by simp
next
  case (Item32 v)
  then have "blob_write_bytes (snd (blob_align b 4)) (le_bytes 4 v) = (True, b')"
    using assms by (simp add: blob_write_uint32_def blob_write_type_def Let_def)
  from write_bytes_aligned [OF assms(1) _ _ _ this] show ?thesis using Item32 by simp
next
  case (Item64 v)
  then have "blob_write_bytes (snd (blob_align b 8)) (le_bytes 8 v) = (True, b')"
    using assms by (simp add: blob_write_uint64_def blob_write_type_def Let_def)
  from write_bytes_aligned [OF assms(1) _ _ _ this] show ?thesis using Item64 by simp
qed

section \<open>Reading it back\<close>

lemma le_word_le_bytes:
  assumes "LENGTH('a::len) = 8 * n"
  shows "le_word (le_bytes n (v :: 'a word)) = v"
proof -
  have "take_bit (8 * n) v = v" using assms by (simp add: take_bit_word_eq_self)
  then show ?thesis
    by (simp only: le_word_def bytes_bits_le_bytes of_nat_bits_nat_word_bits)
qed

text \<open>A reader standing at the end of \<open>pre\<close> in a run of bytes.\<close>

definition reader_at :: "8 word list \<Rightarrow> 8 word list \<Rightarrow> blob_reader" where
  "reader_at pre post =
     \<lparr>rd_data = pre @ post, rd_end = length (pre @ post), rd_current = length pre, rd_overrun = False\<rparr>"

lemma blob_read_type_at:
  fixes v :: "'a::len word"
  assumes "LENGTH('a) = 8 * n" and "0 < n" and "n \<le> 8" and "length pre < 2 ^ 63"
  shows "blob_read_type (reader_at pre (replicate (pad_len (length pre) n) 0 @ le_bytes n v @ post)) =
    (v, reader_at (pre @ replicate (pad_len (length pre) n) 0 @ le_bytes n v) post)"
proof -
  let ?k = "pad_len (length pre) n"
  have n: "LENGTH('a) div 8 = n" using assms(1) by simp
  have "blob_reader_align (reader_at pre (replicate ?k 0 @ le_bytes n v @ post)) n =
      reader_at (pre @ replicate ?k 0) (le_bytes n v @ post)"
    using align_uintptr_pad [OF assms(4,2,3)] by (simp add: blob_reader_align_def reader_at_def)
  then show ?thesis
    using assms(2) le_word_le_bytes [OF assms(1), of v]
    by (simp add: blob_read_type_def n Let_def blob_copy_bytes_def blob_read_bytes_def
        ensure_can_read_def reader_at_def)
qed

lemma find_nul_append:
  "0 \<notin> set xs \<Longrightarrow> find_nul (xs @ 0 # ys) = Some (length xs)"
  by (induction xs) auto

lemma char_byte_zero [simp]: "char_byte c = 0 \<longleftrightarrow> c = CHR 0x00"
proof -
  have "char_byte (CHR 0x00) = 0" by (simp add: char_byte_def)
  then show ?thesis by (metis char_byte_inject)
qed

lemma blob_read_string_at:
  assumes "CHR 0x00 \<notin> set s"
  shows "blob_read_string (reader_at pre (string_bytes s @ 0 # post)) =
    Inr (Some (string_bytes s), reader_at (pre @ string_bytes s @ [0]) post)"
proof -
  have "0 \<notin> set (string_bytes s)" using assms by (auto simp: string_bytes_def dest: sym)
  then show ?thesis
    by (simp add: blob_read_string_def reader_at_def find_nul_append ensure_can_read_def)
qed

lemma read_item_at:
  assumes "c_string_item it" and "length pre < 2 ^ 63"
  shows "read_item it (reader_at pre
      (replicate (pad_len (length pre) (item_align it)) 0 @ item_bytes it @ post)) =
    Inr (Some it, reader_at (pre @ replicate (pad_len (length pre) (item_align it)) 0 @ item_bytes it) post)"
proof (cases it)
  case (Item8 v)
  then show ?thesis using blob_read_type_at [of 1 pre v post] assms
    by (simp add: blob_read_uint8_def)
next
  case (Item16 v)
  then show ?thesis using blob_read_type_at [of 2 pre v post] assms
    by (simp add: blob_read_uint16_def)
next
  case (Item32 v)
  then show ?thesis using blob_read_type_at [of 4 pre v post] assms
    by (simp add: blob_read_uint32_def)
next
  case (Item64 v)
  then show ?thesis using blob_read_type_at [of 8 pre v post] assms
    by (simp add: blob_read_uint64_def)
next
  case (Item_string s)
  then show ?thesis using blob_read_string_at [of s pre post] assms by simp
qed

fun items_bytes :: "nat \<Rightarrow> blob_item list \<Rightarrow> 8 word list" where
  "items_bytes n [] = []"
| "items_bytes n (i # is) =
     (let bs = replicate (pad_len n (item_align i)) 0 @ item_bytes i
      in bs @ items_bytes (n + length bs) is)"

lemma write_items_bytes:
  assumes "growing b" and "list_all c_string_item its" and "seq (map write_item its) b = Inr b'"
  shows "growing b' \<and> blob_contents b' = blob_contents b @ items_bytes (blob_size b) its"
  using assms
proof (induction its arbitrary: b)
  case (Cons i its)
  then obtain t where t: "write_item i b = Inr t" "seq (map write_item its) t = Inr b'" by auto
  have w: "growing t" "blob_contents t = blob_contents b
      @ replicate (pad_len (blob_size b) (item_align i)) 0 @ item_bytes i"
    using write_item_bytes [OF Cons.prems(1) _ t(1)] Cons.prems(2) by auto
  then show ?case
    using Cons.IH [OF w(1) _ t(2)] Cons.prems(1,2) growing_size [of b] growing_size [of t]
    by (simp add: Let_def)
qed simp

lemma read_items_at:
  assumes "list_all c_string_item its" and "length (pre @ items_bytes (length pre) its) < 2 ^ 63"
  shows "read_items its (reader_at pre (items_bytes (length pre) its @ post)) =
    Inr (map Some its, reader_at (pre @ items_bytes (length pre) its) post)"
  using assms
proof (induction its arbitrary: pre)
  case (Cons i its)
  let ?bs = "replicate (pad_len (length pre) (item_align i)) 0 @ item_bytes i"
  have "read_item i (reader_at pre (?bs @ items_bytes (length (pre @ ?bs)) its @ post)) =
      Inr (Some i, reader_at (pre @ ?bs) (items_bytes (length (pre @ ?bs)) its @ post))"
    using read_item_at [of i pre] Cons.prems by (simp add: Let_def)
  moreover have "read_items its (reader_at (pre @ ?bs) (items_bytes (length (pre @ ?bs)) its @ post)) =
      Inr (map Some its, reader_at (pre @ ?bs @ items_bytes (length (pre @ ?bs)) its) post)"
    using Cons.IH [of "pre @ ?bs"] Cons.prems by (simp add: Let_def)
  ultimately show ?case by (simp add: Let_def)
qed simp



end
