(* ===== verification/Dxil_Buffer.thy ===== *)
theory Dxil_Buffer
  imports Blob
begin

text \<open>
  The bit writer of \<open>src/mesa/src/microsoft/compiler/dxil_buffer.c\<close> and \<open>dxil_buffer.h\<close>, over
  the blob: bits collect in a 64-bit word and leave it 32 at a time. \<open>stream\<close> is the sequence of
  bits written so far; the theorems say what each operation appends to it, and that the
  variable-width numbers (VBR) can be read back.
\<close>

record dxil_buffer =
  blob :: blob
  buf :: "64 word"
  buf_bits :: nat
  abbrev_width :: nat

definition dxil_buffer_init :: "nat \<Rightarrow> 8 word \<Rightarrow> nat \<Rightarrow> dxil_buffer" where
  "dxil_buffer_init limit j w = \<lparr>blob = blob_init limit j, buf = 0, buf_bits = 0, abbrev_width = w\<rparr>"

definition flush_dword :: "dxil_buffer \<Rightarrow> dxil_buffer result" where
  "flush_dword b =
     (if \<not> (32 \<le> buf_bits b \<and> buf_bits b < 64) then Inl Assertion
      else
        let lower_bits = (ucast (buf b AND 0xFFFFFFFF) :: 32 word)
        in bind_result (blob_put (le_bytes 4 lower_bits) (blob b))
             (\<lambda>bl. Inr (b\<lparr>blob := bl, buf := drop_bit 32 (buf b), buf_bits := buf_bits b - 32\<rparr>)))"

definition dxil_buffer_emit_bits :: "dxil_buffer \<Rightarrow> 32 word \<Rightarrow> nat \<Rightarrow> dxil_buffer result" where
  "dxil_buffer_emit_bits b d width =
     (if \<not> buf_bits b < 32 then Inl Assertion
      else if \<not> (0 < width \<and> width \<le> 32) then Inl Assertion
      else if (ucast d :: 64 word) AND NOT (push_bit width 1 - 1) \<noteq> 0 then Inl Assertion
      else
        let b = b\<lparr>buf := buf b OR push_bit (buf_bits b) (ucast d), buf_bits := buf_bits b + width\<rparr>
        in if 32 \<le> buf_bits b then flush_dword b else Inr b)"

text \<open>The \<open>while\<close> loop is the recursion; the assertion on the width stands before every round.\<close>

function dxil_buffer_emit_vbr_bits :: "dxil_buffer \<Rightarrow> 64 word \<Rightarrow> nat \<Rightarrow> dxil_buffer result" where
  "dxil_buffer_emit_vbr_bits b d width =
     (if \<not> (1 < width \<and> width \<le> 32) then Inl Assertion
      else
        let tag = (push_bit (width - 1) 1 :: 32 word); mx = tag - 1
        in if ucast mx < d then
             bind_result (dxil_buffer_emit_bits b (ucast (d AND ucast mx) OR tag) width)
               (\<lambda>b. dxil_buffer_emit_vbr_bits b (drop_bit (width - 1) d) width)
           else dxil_buffer_emit_bits b (ucast d) width)"
  by pat_completeness auto
termination
proof (relation "measure (\<lambda>(b, d, width). unat d)")
  fix b b' :: dxil_buffer and d :: "64 word" and width :: nat and tag mx :: "32 word"
  assume w: "\<not> \<not> (1 < width \<and> width \<le> 32)" and mx: "ucast mx < d"
  have "0 < unat d" using mx by (metis word_less_nat_alt gr0I not_less0)
  moreover have "2 ^ 1 \<le> (2 :: nat) ^ (width - 1)" using w by (intro power_increasing) auto
  then have "unat d div 2 ^ (width - 1) \<le> unat d div 2" by (metis div_le_mono2 power_one_right zero_less_numeral)
  ultimately have "unat (drop_bit (width - 1) d) < unat d"
    by (simp only: unat_drop_bit)
  then show "((b', drop_bit (width - 1) d, width), b, d, width) \<in> measure (\<lambda>(b, d, width). unat d)"
    by simp
qed simp

declare dxil_buffer_emit_vbr_bits.simps [simp del]

definition dxil_buffer_align :: "dxil_buffer \<Rightarrow> dxil_buffer result" where
  "dxil_buffer_align b =
     (if \<not> buf_bits b < 32 then Inl Assertion
      else if buf_bits b \<noteq> 0 then flush_dword (b\<lparr>buf_bits := 32\<rparr>)
      else Inr b)"

definition dxil_buffer_emit_abbrev_id :: "dxil_buffer \<Rightarrow> 32 word \<Rightarrow> dxil_buffer result" where
  "dxil_buffer_emit_abbrev_id b i = dxil_buffer_emit_bits b i (abbrev_width b)"

section \<open>The stream of bits\<close>

definition stream :: "dxil_buffer \<Rightarrow> bool list" where
  "stream b = bytes_bits (blob_contents (blob b)) @ word_bits (buf_bits b) (buf b)"

text \<open>
  Fewer than 32 bits wait in the word, nothing lies above them, and only whole dwords have been
  written out.
\<close>

definition buffer_ok :: "dxil_buffer \<Rightarrow> bool" where
  "buffer_ok b \<longleftrightarrow> growing (blob b) \<and> buf_bits b < 32 \<and>
     take_bit (buf_bits b) (buf b) = buf b \<and> blob_size (blob b) mod 4 = 0"

definition buffer_room :: "dxil_buffer \<Rightarrow> nat \<Rightarrow> bool" where
  "buffer_room b n \<longleftrightarrow> blob_room (blob b) n"

text \<open>A field the code may emit: a width of 1 to 32 bits the value fits into.\<close>

fun field_ok :: "32 word \<times> nat \<Rightarrow> bool" where
  "field_ok (d, w) \<longleftrightarrow> 0 < w \<and> w \<le> 32 \<and> take_bit w d = d"

lemma buffer_init_ok:
  "limit < 2 ^ 63 \<Longrightarrow> buffer_ok (dxil_buffer_init limit j w) \<and> stream (dxil_buffer_init limit j w) = []"
  using blob_init_ok [of limit j]
  by (simp add: buffer_ok_def stream_def dxil_buffer_init_def) (simp add: blob_init_def)

lemma length_stream:
  "buffer_ok b \<Longrightarrow> length (stream b) = 8 * blob_size (blob b) + buf_bits b"
  by (simp add: stream_def buffer_ok_def growing_size)

lemma length_stream_mod:
  assumes "buffer_ok b"
  shows "length (stream b) mod 32 = buf_bits b"
proof -
  obtain q where q: "blob_size (blob b) = 4 * q"
    using assms by (auto simp: buffer_ok_def dvd_def mod_eq_0_iff_dvd)
  show ?thesis using assms unfolding length_stream [OF assms] q by (simp add: buffer_ok_def)
qed

lemma word_bits_or_push:
  fixes x y :: "64 word"
  assumes "take_bit n x = x" and "take_bit w y = y" and "n + w \<le> 64"
  shows "word_bits (n + w) (x OR push_bit n y) = word_bits n x @ word_bits w y"
    and "take_bit (n + w) (x OR push_bit n y) = x OR push_bit n y"
proof -
  have x: "bit x i \<Longrightarrow> i < n" and y: "bit y i \<Longrightarrow> i < w" for i
    using assms by (auto simp: take_bit_id_iff)
  show "word_bits (n + w) (x OR push_bit n y) = word_bits n x @ word_bits w y"
    using assms(3) x by (intro nth_equalityI) (auto simp: nth_append bit_simps)
  show "take_bit (n + w) (x OR push_bit n y) = x OR push_bit n y"
    using x y unfolding take_bit_id_iff by (fastforce simp: bit_simps)
qed

text \<open>Writing out a dword moves the low 32 bits; the stream does not change.\<close>

lemma flush_dword_ok:
  assumes "growing (blob b)" and "take_bit (buf_bits b) (buf b) = buf b"
    and "blob_size (blob b) mod 4 = 0" and "flush_dword b = Inr b'"
  shows "buffer_ok b' \<and> stream b' = stream b \<and> abbrev_width b' = abbrev_width b"
proof -
  let ?x = "buf b" and ?n = "buf_bits b"
  have n: "32 \<le> ?n" "?n < 64" using assms(4) by (auto simp: flush_dword_def split: if_splits)
  have low: "ucast (?x AND 0xFFFFFFFF) = (ucast ?x :: 32 word)"
  proof -
    have "(0xFFFFFFFF :: 64 word) = mask 32" by (simp add: mask_eq_exp_minus_1)
    then show ?thesis by (auto simp: bit_eq_iff bit_simps)
  qed
  obtain bl where bl: "blob_put (le_bytes 4 (ucast ?x :: 32 word)) (blob b) = Inr bl"
    and b': "b' = b\<lparr>blob := bl, buf := drop_bit 32 ?x, buf_bits := ?n - 32\<rparr>"
    using assms(4) n by (auto simp: flush_dword_def Let_def low split: if_splits)
  have g: "growing bl" and c: "blob_contents bl = blob_contents (blob b) @ le_bytes 4 (ucast ?x :: 32 word)"
    using blob_sink.put_inv [OF assms(1) _ bl] blob_sink.put_holds [OF assms(1) _ bl] by simp_all
  have sz: "blob_size bl = blob_size (blob b) + 4"
    using g c assms(1) by (simp add: growing_size)
  have "bytes_bits (le_bytes 4 (ucast ?x :: 32 word)) = word_bits 32 ?x"
    by (simp add: bytes_bits_le_bytes word_bits_ucast)
  moreover have "word_bits 32 ?x @ word_bits (?n - 32) (drop_bit 32 ?x) = word_bits ?n ?x"
    using word_bits_append [of 32 "?n - 32" ?x] n by simp
  ultimately have "stream b' = stream b" by (simp add: stream_def b' c)
  moreover have "take_bit (?n - 32) (drop_bit 32 ?x) = drop_bit 32 ?x"
    using assms(2) n by (fastforce simp: take_bit_id_iff bit_simps)
  moreover have "blob_size bl mod 4 = 0" using assms(3) sz by presburger
  ultimately show ?thesis using g n by (simp add: buffer_ok_def b')
qed

lemma emit_bits_ok:
  assumes "buffer_ok b" and "dxil_buffer_emit_bits b d w = Inr b'"
  shows "buffer_ok b' \<and> stream b' = stream b @ word_bits w d \<and> abbrev_width b' = abbrev_width b"
    and "field_ok (d, w)"
proof -
  have n: "buf_bits b < 32" "take_bit (buf_bits b) (buf b) = buf b" "growing (blob b)"
    "blob_size (blob b) mod 4 = 0"
    using assms(1) by (simp_all add: buffer_ok_def)
  have w: "0 < w" "w \<le> 32" and d: "take_bit w d = d"
    using assms(2) word_bits_mask_check [of w d]
    by (auto simp: dxil_buffer_emit_bits_def split: if_splits)
  show "field_ok (d, w)" using w d by simp
  let ?b = "b\<lparr>buf := buf b OR push_bit (buf_bits b) (ucast d), buf_bits := buf_bits b + w\<rparr>"
  have d64: "take_bit w (ucast d :: 64 word) = ucast d"
    using d by (auto simp: take_bit_id_iff bit_simps)
  note or = word_bits_or_push [OF n(2) d64]
  have s: "stream ?b = stream b @ word_bits w d"
    using or(1) n w by (simp add: stream_def word_bits_ucast)
  have t: "take_bit (buf_bits ?b) (buf ?b) = buf ?b" using or(2) n w by simp
  have e: "(if 32 \<le> buf_bits ?b then flush_dword ?b else Inr ?b) = Inr b'"
    using assms(2) w d n word_bits_mask_check [of w d]
    by (auto simp: dxil_buffer_emit_bits_def Let_def split: if_splits)
  show "buffer_ok b' \<and> stream b' = stream b @ word_bits w d \<and> abbrev_width b' = abbrev_width b"
  proof (cases "32 \<le> buf_bits ?b")
    case True
    then have "flush_dword ?b = Inr b'" using e by simp
    from flush_dword_ok [OF _ t _ this] show ?thesis using s n by simp
  next
    case False
    then have "b' = ?b" using e by simp
    then show ?thesis using s t n False by (simp add: buffer_ok_def)
  qed
qed

lemma emit_bits_room:
  assumes "buffer_ok b" and "field_ok (d, w)" and "buffer_room b (4 + k)"
  shows "\<exists>b'. dxil_buffer_emit_bits b d w = Inr b' \<and> buffer_room b' k"
proof -
  have n: "buf_bits b < 32" "growing (blob b)" using assms(1) by (simp_all add: buffer_ok_def)
  have w: "0 < w" "w \<le> 32" "take_bit w d = d" using assms(2) by simp_all
  have k: "blob_room (blob b) k" using assms(3) by (simp add: buffer_room_def blob_room_def)
  have "\<exists>bl. blob_put bs (blob b) = Inr bl \<and> blob_room bl k" if "length bs = 4" for bs
    using blob_sink.put_room [OF n(2), of bs k] assms(3) that by (simp add: buffer_room_def)
  then obtain bl where bl: "blob_put (le_bytes 4 (ucast ((buf b OR push_bit (buf_bits b) (ucast d))
      AND 0xFFFFFFFF) :: 32 word)) (blob b) = Inr bl" "blob_room bl k"
    by (metis length_le_bytes)
  have c: "(ucast d :: 64 word) AND NOT (push_bit w 1 - 1) = 0"
    using word_bits_mask_check [OF w(2)] w(3) by simp
  show ?thesis
  proof (cases "32 \<le> buf_bits b + w")
    case True
    then show ?thesis using n w c bl
      by (simp add: dxil_buffer_emit_bits_def flush_dword_def Let_def buffer_room_def)
  next
    case False
    then show ?thesis using n w c k
      by (simp add: dxil_buffer_emit_bits_def Let_def buffer_room_def)
  qed
qed

interpretation bit_sink: roomy_sink "\<lambda>(d, w) b. dxil_buffer_emit_bits b d w" stream
  "\<lambda>(d, w). word_bits w d" buffer_ok field_ok buffer_room "\<lambda>_. 4"
proof unfold_locales
  show "buffer_ok b'" if "buffer_ok b" "(case f of (d, w) \<Rightarrow> \<lambda>b. dxil_buffer_emit_bits b d w) b = Inr b'"
    for b b' and f :: "32 word \<times> nat"
    using that emit_bits_ok by (cases f) auto
  show "stream b' = stream b @ (case f of (d, w) \<Rightarrow> word_bits w d)"
    if "buffer_ok b" "(case f of (d, w) \<Rightarrow> \<lambda>b. dxil_buffer_emit_bits b d w) b = Inr b'"
    for b b' and f :: "32 word \<times> nat"
    using that emit_bits_ok by (cases f) auto
  show "\<exists>b'. (case f of (d, w) \<Rightarrow> \<lambda>b. dxil_buffer_emit_bits b d w) b = Inr b' \<and> buffer_room b' k"
    if "buffer_ok b" "field_ok f" "buffer_room b (4 + k)" for b k and f :: "32 word \<times> nat"
    using that emit_bits_room by (cases f) auto
qed

lemma align_ok:
  assumes "buffer_ok b" and "dxil_buffer_align b = Inr b'"
  shows "buffer_ok b' \<and> buf_bits b' = 0 \<and> abbrev_width b' = abbrev_width b
    \<and> stream b' = stream b @ replicate ((32 - length (stream b) mod 32) mod 32) False"
proof (cases "buf_bits b = 0")
  case True
  then show ?thesis using assms length_stream_mod [OF assms(1)] by (auto simp: dxil_buffer_align_def)
next
  case False
  let ?n = "buf_bits b" and ?b = "b\<lparr>buf_bits := 32\<rparr>"
  have n: "?n < 32" "take_bit ?n (buf b) = buf b" using assms(1) by (simp_all add: buffer_ok_def)
  have f: "flush_dword ?b = Inr b'" using assms(2) False by (auto simp: dxil_buffer_align_def split: if_splits)
  have t: "take_bit (buf_bits ?b) (buf ?b) = buf ?b" using n by (auto simp: take_bit_id_iff)
  note fl = flush_dword_ok [OF _ t _ f]
  have "bit (buf b) i \<Longrightarrow> i < ?n" for i using n(2) by (simp only: take_bit_id_iff)
  then have "drop_bit ?n (buf b) = 0"
    by (intro bit_eqI) (fastforce simp: bit_drop_bit_eq)
  then have "word_bits 32 (buf b) = word_bits ?n (buf b) @ replicate (32 - ?n) False"
    using word_bits_append [of ?n "32 - ?n" "buf b"] n by simp
  then have "stream ?b = stream b @ replicate (32 - ?n) False" by (simp add: stream_def)
  moreover have "buf_bits b' = 0" using f by (auto simp: flush_dword_def Let_def)
  ultimately show ?thesis
    using fl assms(1) False length_stream_mod [OF assms(1)] n by (simp add: buffer_ok_def)
qed

section \<open>Variable-width numbers\<close>

text \<open>
  A number in chunks of \<open>k\<close> bits, least significant first, each followed by a bit that says
  whether another chunk follows; and the reading of it.
\<close>

function vbr_enc :: "nat \<Rightarrow> nat \<Rightarrow> bool list" where
  "vbr_enc k n =
     (if k = 0 \<or> n < 2 ^ k then nat_bits k n @ [False]
      else nat_bits k n @ True # vbr_enc k (n div 2 ^ k))"
  by pat_completeness auto
termination
proof (relation "measure snd")
  fix k n :: nat
  assume "\<not> (k = 0 \<or> n < 2 ^ k)"
  then have k: "0 < k" "2 ^ k \<le> n" by auto
  then have "1 < (2 :: nat) ^ k" by (intro one_less_power) auto
  moreover have "0 < n" using k(2) by (metis gr0I le_zero_eq power_not_zero zero_neq_numeral)
  ultimately show "((k, n div 2 ^ k), k, n) \<in> measure snd" by (simp add: div_less_dividend)
qed simp

declare vbr_enc.simps [simp del]

function vbr_dec :: "nat \<Rightarrow> bool list \<Rightarrow> (nat \<times> bool list) option" where
  "vbr_dec k bs =
     (if length bs \<le> k then None
      else if bs ! k then
        (case vbr_dec k (drop (Suc k) bs) of
           None \<Rightarrow> None
         | Some (n, rest) \<Rightarrow> Some (bits_nat (take k bs) + 2 ^ k * n, rest))
      else Some (bits_nat (take k bs), drop (Suc k) bs))"
  by pat_completeness auto
termination by (relation "measure (\<lambda>(k, bs). length bs)") auto

declare vbr_dec.simps [simp del]

lemma vbr_dec_enc:
  assumes "0 < k"
  shows "vbr_dec k (vbr_enc k n @ rest) = Some (n, rest)"
  using assms
proof (induction k n rule: vbr_enc.induct)
  case (1 k n)
  show ?case
  proof (cases "n < 2 ^ k")
    case True
    then show ?thesis
      by (subst vbr_enc.simps, subst vbr_dec.simps) (simp add: nth_append bits_nat_nat_bits)
  next
    case False
    have "n mod 2 ^ k + 2 ^ k * (n div 2 ^ k) = n" by simp
    with False 1 show ?thesis
      by (subst vbr_enc.simps, subst vbr_dec.simps) (simp add: nth_append bits_nat_nat_bits)
  qed
qed

lemma mask_32_as_64: "n \<le> 32 \<Longrightarrow> (ucast (mask n :: 32 word) :: 64 word) = mask n"
  by (rule bit_eqI) (auto simp: bit_simps)

lemma unat_mask_64: "n \<le> 32 \<Longrightarrow> unat (mask n :: 64 word) = 2 ^ n - 1"
proof -
  assume n: "n \<le> 32"
  have "(2::nat) ^ n \<le> 2 ^ 32" using n by (intro power_increasing) auto
  then have "unat (of_nat (2 ^ n - 1) :: 64 word) = 2 ^ n - 1"
    by (simp only: unat_of_nat) simp
  moreover have "(mask n :: 64 word) = of_nat (2 ^ n - 1)"
    by (simp add: mask_eq_exp_minus_1 of_nat_diff)
  ultimately show ?thesis by simp
qed

lemma vbr_last_chunk:
  assumes "1 < w" and "w \<le> 32" and "d \<le> (mask (w - 1) :: 64 word)"
  shows "unat d < 2 ^ (w - 1)"
    and "word_bits w (ucast d :: 32 word) = nat_bits (w - 1) (unat d) @ [False]"
    and "field_ok (ucast d, w)"
proof -
  show lt: "unat d < 2 ^ (w - 1)"
  proof -
    have "unat d \<le> 2 ^ (w - 1) - 1"
      using assms unat_mask_64 [of "w - 1"] by (simp add: word_le_nat_alt)
    moreover have "0 < (2 :: nat) ^ (w - 1)" by simp
    ultimately show ?thesis by linarith
  qed
  then have t: "take_bit (w - 1) d = d" by (rule take_bit_id)
  then have b: "bit d i \<Longrightarrow> i < w - 1" for i by (simp only: take_bit_id_iff)
  obtain v where v: "w = Suc v" using assms(1) by (cases w) auto
  have nb: "\<not> bit d v" using b [of v] unfolding v by auto
  show "word_bits w (ucast d :: 32 word) = nat_bits (w - 1) (unat d) @ [False]"
    using assms(2) nb unfolding v
    by (intro nth_equalityI)
      (auto simp: word_bits_def nat_bits_def nth_append bit_simps less_Suc_eq)
  show "field_ok (ucast d, w)"
    using assms(1,2) b by (simp only: field_ok.simps take_bit_id_iff)
      (auto simp: bit_simps intro: less_trans [OF b])
qed

lemma vbr_chunk:
  fixes d :: "64 word"
  assumes "1 < w" and "w \<le> 32"
  shows "word_bits w (ucast (d AND mask (w - 1)) OR push_bit (w - 1) 1 :: 32 word)
      = nat_bits (w - 1) (unat d) @ [True]"
    and "field_ok (ucast (d AND mask (w - 1)) OR push_bit (w - 1) 1, w)"
proof -
  obtain v where v: "w = Suc v" using assms(1) by (cases w) auto
  show "word_bits w (ucast (d AND mask (w - 1)) OR push_bit (w - 1) 1 :: 32 word)
      = nat_bits (w - 1) (unat d) @ [True]"
    using assms unfolding v
    by (intro nth_equalityI)
      (auto simp: word_bits_def nat_bits_def nth_append bit_simps less_Suc_eq)
  show "field_ok (ucast (d AND mask (w - 1)) OR push_bit (w - 1) 1, w)"
    using assms unfolding v by (simp only: field_ok.simps take_bit_id_iff) (auto simp: bit_simps)
qed

lemma emit_vbr_bits_unfold:
  "dxil_buffer_emit_vbr_bits b d w =
     (if \<not> (1 < w \<and> w \<le> 32) then Inl Assertion
      else if mask (w - 1) < d then
        bind_result (dxil_buffer_emit_bits b (ucast (d AND mask (w - 1)) OR push_bit (w - 1) 1) w)
          (\<lambda>b. dxil_buffer_emit_vbr_bits b (drop_bit (w - 1) d) w)
      else dxil_buffer_emit_bits b (ucast d) w)"
proof -
  have "push_bit (w - 1) 1 - 1 = (mask (w - 1) :: 32 word)"
    by (simp add: mask_eq_exp_minus_1)
  then have m: "1 < w \<and> w \<le> 32 \<Longrightarrow> ucast (push_bit (w - 1) 1 - 1 :: 32 word) = (mask (w - 1) :: 64 word)"
    by (metis mask_32_as_64 diff_le_self le_trans)
  show ?thesis
  proof (cases "1 < w \<and> w \<le> 32")
    case True
    show ?thesis
      by (subst dxil_buffer_emit_vbr_bits.simps) (simp only: Let_def m [OF True])
  next
    case False
    then show ?thesis by (subst dxil_buffer_emit_vbr_bits.simps) (simp only: if_True not_False_eq_True)
  qed
qed

lemma vbr_enc_more:
  fixes d :: "64 word"
  assumes "1 < w" and "w \<le> 32" and "mask (w - 1) < d"
  shows "vbr_enc (w - 1) (unat d)
    = nat_bits (w - 1) (unat d) @ True # vbr_enc (w - 1) (unat (drop_bit (w - 1) d))"
proof -
  have "\<not> unat d < 2 ^ (w - 1)"
    using assms unat_mask_64 [of "w - 1"] by (simp add: word_less_nat_alt)
  then show ?thesis using assms by (subst vbr_enc.simps) (simp add: unat_drop_bit)
qed

lemma vbr_enc_last:
  fixes d :: "64 word"
  assumes "1 < w" and "w \<le> 32" and "\<not> mask (w - 1) < d"
  shows "vbr_enc (w - 1) (unat d) = nat_bits (w - 1) (unat d) @ [False]"
  using vbr_last_chunk(1) [of w d] assms by (subst vbr_enc.simps) (simp add: not_less)

lemma emit_vbr_bits_ok:
  assumes "buffer_ok b" and "dxil_buffer_emit_vbr_bits b d w = Inr b'"
  shows "buffer_ok b' \<and> stream b' = stream b @ vbr_enc (w - 1) (unat d) \<and>
    abbrev_width b' = abbrev_width b \<and> 1 < w \<and> w \<le> 32"
  using assms
proof (induction b d w rule: dxil_buffer_emit_vbr_bits.induct)
  case (1 b d w)
  have w: "1 < w" "w \<le> 32"
    using "1.prems"(2) by (auto simp: emit_vbr_bits_unfold [of b] split: if_splits)
  have tag: "push_bit (w - 1) 1 - 1 = (mask (w - 1) :: 32 word)"
    by (simp add: mask_eq_exp_minus_1)
  have m: "ucast (push_bit (w - 1) 1 - 1 :: 32 word) = (mask (w - 1) :: 64 word)"
    using w by (simp only: tag mask_32_as_64)
  show ?case
  proof (cases "mask (w - 1) < d")
    case True
    obtain c where c: "dxil_buffer_emit_bits b (ucast (d AND mask (w - 1)) OR push_bit (w - 1) 1) w = Inr c"
      and r: "dxil_buffer_emit_vbr_bits c (drop_bit (w - 1) d) w = Inr b'"
      using "1.prems"(2) w True by (auto simp: emit_vbr_bits_unfold [of b])
    note ok = emit_bits_ok(1) [OF "1.prems"(1) c]
    have "buffer_ok b' \<and> stream b' = stream c @ vbr_enc (w - 1) (unat (drop_bit (w - 1) d)) \<and>
        abbrev_width b' = abbrev_width c \<and> 1 < w \<and> w \<le> 32"
      using "1.IH" [OF _ refl refl, of c] w True m ok c r by simp
    then show ?thesis
      using ok vbr_enc_more [OF w True] vbr_chunk(1) [OF w, of d] by simp
  next
    case False
    then have "dxil_buffer_emit_bits b (ucast d) w = Inr b'"
      using "1.prems"(2) w by (simp add: emit_vbr_bits_unfold [of b])
    from emit_bits_ok(1) [OF "1.prems"(1) this] show ?thesis
      using w False vbr_enc_last [OF w False] vbr_last_chunk(2) [OF w, of d] by (simp add: not_less)
  qed
qed

lemma buffer_room_mono: "buffer_room b n \<Longrightarrow> m \<le> n \<Longrightarrow> buffer_room b m"
  by (simp add: buffer_room_def blob_room_def)

lemma emit_vbr_bits_room:
  assumes "buffer_ok b" and "1 < w" and "w \<le> 32"
    and "buffer_room b (4 * length (vbr_enc (w - 1) (unat d)) + k)"
  shows "\<exists>b'. dxil_buffer_emit_vbr_bits b d w = Inr b' \<and> buffer_room b' k"
  using assms
proof (induction "unat d" arbitrary: b d rule: less_induct)
  case less
  note w = less.prems(2,3)
  let ?l = "4 * length (vbr_enc (w - 1) (unat (drop_bit (w - 1) d)))"
  show ?case
  proof (cases "mask (w - 1) < d")
    case True
    have "buffer_room b (4 + (?l + k))"
      using less.prems(4) vbr_enc_more [OF w True] by (auto elim: buffer_room_mono)
    from emit_bits_room [OF less.prems(1) vbr_chunk(2) [OF w, of d] this]
    obtain c where c: "dxil_buffer_emit_bits b (ucast (d AND mask (w - 1)) OR push_bit (w - 1) 1) w = Inr c"
      "buffer_room c (?l + k)" by auto
    have "unat (drop_bit (w - 1) d) < unat d"
    proof -
      have "0 < unat d" using True by (metis word_less_nat_alt gr0I not_less0)
      moreover have "1 < (2 :: nat) ^ (w - 1)" using w by (intro one_less_power) auto
      ultimately show ?thesis by (simp add: unat_drop_bit div_less_dividend)
    qed
    from less.hyps [OF this _ w c(2)] c(1) emit_bits_ok(1) [OF less.prems(1) c(1)]
    show ?thesis using w True by (subst emit_vbr_bits_unfold) simp
  next
    case False
    have "buffer_room b (4 + k)"
      using less.prems(4) vbr_enc_last [OF w False] by (auto elim: buffer_room_mono)
    moreover have "field_ok (ucast d, w)" using vbr_last_chunk(3) [OF w] False by (simp add: not_less)
    ultimately show ?thesis
      using emit_bits_room [OF less.prems(1)] w False
      by (subst emit_vbr_bits_unfold) (simp only: if_False if_True simp_thms)
  qed
qed

section \<open>What the bit writer promises\<close>

text \<open>C28: \<open>dxil_buffer_emit_bits\<close> succeeds exactly for the fields its assertions allow (given
  memory), and appends the low \<open>width\<close> bits of the value, least significant first, whatever the
  number of bits already waiting.\<close>

theorem dxil_buffer_emit_bits_appends:
  assumes "buffer_ok b" and "buffer_room b 4"
  shows "case dxil_buffer_emit_bits b d w of
      Inr b' \<Rightarrow> 0 < w \<and> w \<le> 32 \<and> take_bit w d = d \<and> buffer_ok b' \<and>
        stream b' = stream b @ word_bits w d \<and> abbrev_width b' = abbrev_width b
    | Inl e \<Rightarrow> e = Assertion \<and> \<not> (0 < w \<and> w \<le> 32 \<and> take_bit w d = d)"
proof (cases "0 < w \<and> w \<le> 32 \<and> take_bit w d = d")
  case True
  then show ?thesis
    using emit_bits_room [OF assms(1), of d w 0] assms(2) emit_bits_ok(1) [OF assms(1)] by fastforce
next
  case False
  then have "dxil_buffer_emit_bits b d w = Inl Assertion"
    using word_bits_mask_check [of w d] by (auto simp: dxil_buffer_emit_bits_def)
  then show ?thesis using False by simp
qed

lemma dxil_buffer_emit_bits_appends_witness:
  "\<exists>b'. dxil_buffer_emit_bits (dxil_buffer_init 10000 0 2) 5 3 = Inr b' \<and>
     stream b' = word_bits 3 (5 :: 32 word)"
proof -
  let ?b = "dxil_buffer_init 10000 0 2"
  have b: "buffer_ok ?b" "stream ?b = []" using buffer_init_ok [of 10000 0 2] by simp_all
  have r: "buffer_room ?b 4"
    by (simp add: buffer_room_def blob_room_def dxil_buffer_init_def blob_init_def BLOB_INITIAL_SIZE_def)
  show ?thesis
    using dxil_buffer_emit_bits_appends [OF b(1) r, where d = 5 and w = 3] b(2) by (auto split: sum.splits)
qed

text \<open>C16: \<open>dxil_buffer_emit_vbr_bits\<close> terminates and, given memory, returns for every 64-bit value
  and every width from 2 to 32; what it appends reads back to the value, whatever follows.\<close>

theorem dxil_buffer_emit_vbr_bits_roundtrip:
  assumes "buffer_ok b" and "1 < w" and "w \<le> 32"
    and "buffer_room b (4 * length (vbr_enc (w - 1) (unat d)))"
  shows "\<exists>b' bits. dxil_buffer_emit_vbr_bits b d w = Inr b' \<and> buffer_ok b' \<and>
    stream b' = stream b @ bits \<and> abbrev_width b' = abbrev_width b \<and>
    (\<forall>rest. vbr_dec (w - 1) (bits @ rest) = Some (unat d, rest))"
proof -
  obtain b' where b': "dxil_buffer_emit_vbr_bits b d w = Inr b'"
    using emit_vbr_bits_room [of b w d 0] assms by auto
  have "\<forall>rest. vbr_dec (w - 1) (vbr_enc (w - 1) (unat d) @ rest) = Some (unat d, rest)"
    using assms by (simp add: vbr_dec_enc)
  then show ?thesis using emit_vbr_bits_ok [OF assms(1) b'] b' by blast
qed

lemma dxil_buffer_emit_vbr_bits_roundtrip_witness:
  "\<exists>b'. dxil_buffer_emit_vbr_bits (dxil_buffer_init 10000 0 2) 100 6 = Inr b' \<and>
     vbr_dec 5 (stream b') = Some (100, [])"
proof -
  let ?b = "dxil_buffer_init 10000 0 2"
  have b: "buffer_ok ?b" "stream ?b = []" using buffer_init_ok [of 10000 0 2] by simp_all
  have w5: "6 - 1 = (5 :: nat)" and u100: "unat (100 :: 64 word) = 100" by simp_all
  have "length (vbr_enc 5 100) = 12" by (simp add: vbr_enc.simps)
  then have r: "buffer_room ?b (4 * length (vbr_enc (6 - 1) (unat (100 :: 64 word))))"
    by (simp add: buffer_room_def blob_room_def dxil_buffer_init_def blob_init_def BLOB_INITIAL_SIZE_def)
  obtain b' bits where "dxil_buffer_emit_vbr_bits ?b 100 6 = Inr b'" "stream b' = stream ?b @ bits"
    "\<forall>rest. vbr_dec (6 - 1) (bits @ rest) = Some (unat (100 :: 64 word), rest)"
    using dxil_buffer_emit_vbr_bits_roundtrip [OF b(1) _ _ r] by auto
  then have "vbr_dec 5 (stream b' @ []) = Some (100, [])" using b(2)
    by (metis append_Nil append_Nil2 w5 u100)
  then show ?thesis using \<open>dxil_buffer_emit_vbr_bits ?b 100 6 = Inr b'\<close> by auto
qed

text \<open>C30: \<open>dxil_buffer_align\<close> pads the stream with zero bits to the next multiple of 32 and leaves
  no bit waiting.\<close>

theorem dxil_buffer_align_pads:
  assumes "buffer_ok b" and "buffer_room b 4"
  shows "\<exists>b'. dxil_buffer_align b = Inr b' \<and> buffer_ok b' \<and> buf_bits b' = 0 \<and>
    length (stream b') mod 32 = 0 \<and>
    (\<exists>n<32. stream b' = stream b @ replicate n False)"
proof -
  have n: "buf_bits b < 32" "growing (blob b)" using assms(1) by (simp_all add: buffer_ok_def)
  have "\<exists>bl. blob_put bs (blob b) = Inr bl" if "length bs = 4" for bs
    using blob_sink.put_room [OF n(2), of bs 0] assms(2) that by (auto simp: buffer_room_def)
  then obtain bl where "blob_put (le_bytes 4 (ucast (buf b AND 0xFFFFFFFF) :: 32 word)) (blob b) = Inr bl"
    by (metis length_le_bytes)
  then have "\<exists>b'. dxil_buffer_align b = Inr b'"
    using n by (simp add: dxil_buffer_align_def flush_dword_def Let_def)
  then obtain b' where b': "dxil_buffer_align b = Inr b'" by auto
  note ok = align_ok [OF assms(1) b']
  moreover have "length (stream b') mod 32 = 0" using ok length_stream_mod [of b'] by simp
  moreover have "\<exists>n<32. stream b' = stream b @ replicate n False"
    using ok by (intro exI [of _ "(32 - length (stream b) mod 32) mod 32"]) simp
  ultimately show ?thesis using b' by (intro exI [of _ b'] conjI) simp_all
qed

lemma dxil_buffer_align_pads_witness:
  "\<exists>b'. dxil_buffer_align (dxil_buffer_init 10000 0 2) = Inr b' \<and> stream b' = []"
proof -
  let ?b = "dxil_buffer_init 10000 0 2"
  have b: "buffer_ok ?b" "stream ?b = []" using buffer_init_ok [of 10000 0 2] by simp_all
  have r: "buffer_room ?b 4"
    by (simp add: buffer_room_def blob_room_def dxil_buffer_init_def blob_init_def BLOB_INITIAL_SIZE_def)
  obtain b' n where "dxil_buffer_align ?b = Inr b'" "n < 32" "stream b' = replicate n False"
    "length (stream b') mod 32 = 0"
    using dxil_buffer_align_pads [OF b(1) r] b(2) by auto
  then show ?thesis by auto
qed

end
