(* ===== verification/Bitcode.thy ===== *)
theory Bitcode
  imports Dxil_Buffer
begin

text \<open>
  The LLVM bitcode primitives of \<open>src/mesa/src/microsoft/compiler/dxil_module.c\<close>: blocks, plain
  and abbreviated records, abbreviation definitions. The fields \<open>buf\<close> and \<open>blocks\<close> of
  \<open>struct dxil_module\<close>, all that these functions change, are the record \<open>writer\<close>.
\<close>

text \<open>
  \<open>blocks\<close> is the used part of the array \<open>blocks[16]\<close>, innermost block first: the abbreviation
  width outside the block and the offset of its length word. Its length is \<open>num_blocks\<close>.
\<close>

record writer =
  wbuf :: dxil_buffer
  blocks :: "(nat \<times> int) list"

definition on_buf :: "(dxil_buffer \<Rightarrow> dxil_buffer result) \<Rightarrow> writer \<Rightarrow> writer result" where
  "on_buf f s = bind_result (f (wbuf s)) (\<lambda>b. Inr (s\<lparr>wbuf := b\<rparr>))"

definition emit_bits64 :: "dxil_buffer \<Rightarrow> 64 word \<Rightarrow> nat \<Rightarrow> dxil_buffer result" where
  "emit_bits64 b data width =
     (if 0xFFFFFFFF < data then
        if 32 < width then
          seq [\<lambda>b. dxil_buffer_emit_bits b (ucast (data AND 0xFFFFFFFF)) width,
               \<lambda>b. dxil_buffer_emit_bits b (ucast (drop_bit 32 data)) (width - 32)] b
        else Inl Assertion
      else dxil_buffer_emit_bits b (ucast data) width)"

datatype dxil_fixed_abbrev =
  DXIL_END_BLOCK | DXIL_ENTER_SUBBLOCK | DXIL_DEFINE_ABBREV | DXIL_UNABBREV_RECORD |
  DXIL_FIRST_APPLICATION_ABBREV

primrec fixed_abbrev_id :: "dxil_fixed_abbrev \<Rightarrow> 32 word" where
  "fixed_abbrev_id DXIL_END_BLOCK = 0"
| "fixed_abbrev_id DXIL_ENTER_SUBBLOCK = 1"
| "fixed_abbrev_id DXIL_DEFINE_ABBREV = 2"
| "fixed_abbrev_id DXIL_UNABBREV_RECORD = 3"
| "fixed_abbrev_id DXIL_FIRST_APPLICATION_ABBREV = 4"

definition emit_fixed_abbrev_id :: "dxil_fixed_abbrev \<Rightarrow> dxil_buffer \<Rightarrow> dxil_buffer result" where
  "emit_fixed_abbrev_id a b = dxil_buffer_emit_abbrev_id b (fixed_abbrev_id a)"

definition MAX_BLOCKS :: nat where
  "MAX_BLOCKS = 16"

text \<open>The result of \<open>blob_reserve_uint32\<close> is stored unchecked.\<close>

definition enter_subblock :: "32 word \<Rightarrow> nat \<Rightarrow> writer \<Rightarrow> writer result" where
  "enter_subblock i w s =
     (if \<not> length (blocks s) < MAX_BLOCKS then Inl Assertion
      else
        let outer = abbrev_width (wbuf s)
        in bind_result
             (on_buf (seq [emit_fixed_abbrev_id DXIL_ENTER_SUBBLOCK,
                           \<lambda>b. dxil_buffer_emit_vbr_bits b (ucast i) 8,
                           \<lambda>b. dxil_buffer_emit_vbr_bits b (of_nat w) 4,
                           dxil_buffer_align]) s)
             (\<lambda>s. let b = wbuf s; (offset, bl) = blob_reserve_uint32 (blob b)
                  in Inr (s\<lparr>wbuf := b\<lparr>abbrev_width := w, blob := bl\<rparr>,
                            blocks := (outer, offset) # blocks s\<rparr>)))"

text \<open>
  \<open>m->buf.blob.size - size_offset - 1\<close> is computed in \<open>size_t\<close>; the offset passed on to
  \<open>blob_overwrite_uint32\<close> is converted to \<open>size_t\<close> as well.
\<close>

definition exit_block :: "writer \<Rightarrow> writer result" where
  "exit_block s =
     (case blocks s of
        [] \<Rightarrow> Inl Assertion
      | (outer, size_offset) # rest \<Rightarrow>
          if \<not> length (blocks s) < MAX_BLOCKS then Inl Assertion
          else bind_result (on_buf (seq [emit_fixed_abbrev_id DXIL_END_BLOCK, dxil_buffer_align]) s)
            (\<lambda>s. let bl = blob (wbuf s);
                     offset = nat (size_offset mod 2 ^ 64);
                     size = nat ((int (blob_size bl) - size_offset - 1) mod 2 ^ 64) div 4
                 in bind_result (blob_overwrite_uint32 bl offset (of_nat size))
                      (\<lambda>(ok, bl). if \<not> ok then Inl Out_of_memory
                         else Inr (s\<lparr>wbuf := (wbuf s)\<lparr>blob := bl, abbrev_width := outer\<rparr>,
                                     blocks := rest\<rparr>))))"

definition emit_record_no_abbrev :: "32 word \<Rightarrow> 64 word list \<Rightarrow> dxil_buffer \<Rightarrow> dxil_buffer result" where
  "emit_record_no_abbrev code data =
     seq ([emit_fixed_abbrev_id DXIL_UNABBREV_RECORD,
           \<lambda>b. dxil_buffer_emit_vbr_bits b (ucast code) 6,
           \<lambda>b. dxil_buffer_emit_vbr_bits b (of_nat (length data)) 6] @
          map (\<lambda>d b. dxil_buffer_emit_vbr_bits b d 6) data)"

definition emit_record :: "32 word \<Rightarrow> 64 word list \<Rightarrow> writer \<Rightarrow> writer result" where
  "emit_record code data = on_buf (emit_record_no_abbrev code data)"

definition emit_record_int :: "32 word \<Rightarrow> 32 word \<Rightarrow> writer \<Rightarrow> writer result" where
  "emit_record_int code value = emit_record code [scast value]"

section \<open>Characters\<close>

text \<open>\<open>char\<close> is signed; the characters compared with are ASCII, so the order is that of the codes.\<close>

definition is_char6 :: "char \<Rightarrow> bool" where
  "is_char6 ch =
     (let n = (of_char ch :: nat) in
      (of_char (CHR ''a'') \<le> n \<and> n \<le> of_char (CHR ''z'')) \<or>
      (of_char (CHR ''A'') \<le> n \<and> n \<le> of_char (CHR ''Z'')) \<or>
      (of_char (CHR ''0'') \<le> n \<and> n \<le> of_char (CHR ''9'')) \<or>
      ch = CHR ''.'' \<or> ch = CHR ''_'')"

fun is_char6_string :: "string \<Rightarrow> bool" where
  "is_char6_string [] = True"
| "is_char6_string (c # cs) = (if \<not> is_char6 c then False else is_char6_string cs)"

fun is_char7_string :: "string \<Rightarrow> bool" where
  "is_char7_string [] = True"
| "is_char7_string (c # cs) =
     (if char_byte c AND 0x80 \<noteq> 0 then False else is_char7_string cs)"

definition encode_char6 :: "char \<Rightarrow> 32 word result" where
  "encode_char6 ch =
     (let n = (of_char ch :: nat); letters = (of_char (CHR ''z'') - of_char (CHR ''a'') + 1 :: nat) in
      if of_char (CHR ''a'') \<le> n \<and> n \<le> of_char (CHR ''z'') then Inr (of_nat (n - of_char (CHR ''a'')))
      else if of_char (CHR ''A'') \<le> n \<and> n \<le> of_char (CHR ''Z'')
        then Inr (of_nat (letters + n - of_char (CHR ''A'')))
      else if of_char (CHR ''0'') \<le> n \<and> n \<le> of_char (CHR ''9'')
        then Inr (of_nat (2 * letters + n - of_char (CHR ''0'')))
      else if ch = CHR ''.'' then Inr 62
      else if ch = CHR ''_'' then Inr 63
      else Inl Unreachable)"

section \<open>Abbreviated records\<close>

definition emit_fixed :: "dxil_buffer \<Rightarrow> 64 word \<Rightarrow> nat \<Rightarrow> dxil_buffer result" where
  "emit_fixed b data width = (if width = 0 then Inr b else emit_bits64 b data width)"

definition emit_vbr :: "dxil_buffer \<Rightarrow> 64 word \<Rightarrow> nat \<Rightarrow> dxil_buffer result" where
  "emit_vbr b data width = (if width = 0 then Inr b else dxil_buffer_emit_vbr_bits b data width)"

definition emit_char6 :: "dxil_buffer \<Rightarrow> 64 word \<Rightarrow> dxil_buffer result" where
  "emit_char6 b data = bind_result (encode_char6 (char_of (unat data)))
     (\<lambda>c. dxil_buffer_emit_bits b c 6)"

datatype operand = LITERAL "64 word" | FIXED nat | VBR nat | ARRAY | CHAR6 | BLOB

type_synonym dxil_abbrev = "operand list"

fun emit_array_elem :: "operand \<Rightarrow> 64 word \<Rightarrow> dxil_buffer \<Rightarrow> dxil_buffer result" where
  "emit_array_elem (FIXED w) d b = emit_fixed b d w"
| "emit_array_elem (VBR w) d b = emit_vbr b d w"
| "emit_array_elem CHAR6 d b = emit_char6 b d"
| "emit_array_elem _ d b = Inl Unreachable"

text \<open>
  The loop over the operands, from operand \<open>i\<close> and datum \<open>curr_data\<close> on: the lists are what is left
  of each. An unknown element type of an array is unreachable even when the array is empty.
\<close>

fun emit_operands :: "operand list \<Rightarrow> 64 word list \<Rightarrow> dxil_buffer \<Rightarrow> dxil_buffer result" where
  "emit_operands [] data b = check_that (data = []) b"
| "emit_operands (ARRAY # ops) data b =
     (case ops of
        [e] \<Rightarrow>
          bind_result (dxil_buffer_emit_vbr_bits b (of_nat (length data)) 6)
            (\<lambda>b. case e of
               FIXED _ \<Rightarrow> seq (map (emit_array_elem e) data) b
             | VBR _ \<Rightarrow> seq (map (emit_array_elem e) data) b
             | CHAR6 \<Rightarrow> seq (map (emit_array_elem e) data) b
             | _ \<Rightarrow> Inl Unreachable)
      | _ \<Rightarrow> Inl Assertion)"
| "emit_operands (BLOB # ops) data b = Inl Unreachable"
| "emit_operands (op # ops) data b =
     (case data of
        [] \<Rightarrow> Inl Assertion
      | d # ds \<Rightarrow>
          bind_result
            (case op of
               LITERAL v \<Rightarrow> check_that (d = v) b
             | FIXED w \<Rightarrow> emit_fixed b d w
             | VBR w \<Rightarrow> emit_vbr b d w
             | _ \<Rightarrow> emit_char6 b d)
            (emit_operands ops ds))"

definition emit_record_abbrev ::
  "32 word \<Rightarrow> dxil_abbrev \<Rightarrow> 64 word list \<Rightarrow> dxil_buffer \<Rightarrow> dxil_buffer result" where
  "emit_record_abbrev abbrev a data b =
     (if abbrev < fixed_abbrev_id DXIL_FIRST_APPLICATION_ABBREV then Inl Assertion
      else seq [\<lambda>b. dxil_buffer_emit_abbrev_id b abbrev, emit_operands a data] b)"

text \<open>The numbers of the operand types are those of the enumeration \<open>DXIL_OP_LITERAL\<close> and so on.\<close>

fun op_code :: "operand \<Rightarrow> 32 word" where
  "op_code (LITERAL _) = 0"
| "op_code (FIXED _) = 1"
| "op_code (VBR _) = 2"
| "op_code ARRAY = 3"
| "op_code CHAR6 = 4"
| "op_code BLOB = 5"

fun define_operand :: "operand \<Rightarrow> dxil_buffer \<Rightarrow> dxil_buffer result" where
  "define_operand (LITERAL v) =
     seq [\<lambda>b. dxil_buffer_emit_bits b 1 1, \<lambda>b. dxil_buffer_emit_vbr_bits b v 8]"
| "define_operand op =
     seq ([\<lambda>b. dxil_buffer_emit_bits b 0 1, \<lambda>b. dxil_buffer_emit_bits b (op_code op) 3] @
          (case op of
             FIXED w \<Rightarrow> [\<lambda>b. dxil_buffer_emit_vbr_bits b (of_nat w) 5]
           | VBR w \<Rightarrow> [\<lambda>b. dxil_buffer_emit_vbr_bits b (of_nat w) 5]
           | _ \<Rightarrow> []))"

definition define_abbrev :: "dxil_abbrev \<Rightarrow> writer \<Rightarrow> writer result" where
  "define_abbrev a =
     on_buf (seq ([emit_fixed_abbrev_id DXIL_DEFINE_ABBREV,
                   \<lambda>b. dxil_buffer_emit_vbr_bits b (of_nat (length a)) 5] @
                  map define_operand a))"

datatype dxil_blockinfo_code =
  DXIL_BLOCKINFO_CODE_SETBID | DXIL_BLOCKINFO_CODE_BLOCKNAME | DXIL_BLOCKINFO_CODE_SETRECORDNAME

primrec blockinfo_code :: "dxil_blockinfo_code \<Rightarrow> 32 word" where
  "blockinfo_code DXIL_BLOCKINFO_CODE_SETBID = 1"
| "blockinfo_code DXIL_BLOCKINFO_CODE_BLOCKNAME = 2"
| "blockinfo_code DXIL_BLOCKINFO_CODE_SETRECORDNAME = 3"

definition switch_to_block :: "32 word \<Rightarrow> writer \<Rightarrow> writer result" where
  "switch_to_block block = emit_record_int (blockinfo_code DXIL_BLOCKINFO_CODE_SETBID) block"

end
