(* ===== verification/Glsl_Types.thy ===== *)
theory Glsl_Types
  imports Prelude
begin

text \<open>
  The types of shader variables, from \<open>src/mesa/src/compiler/glsl_types.[ch]\<close>: what the DXIL back end
  asks of them. \<open>struct glsl_type\<close> is a tagged union. An array has its length and the type of its
  elements, a structure or an interface block the types of its fields, in order, and any other type its
  members; \<open>base_type\<close> and the other functions below read a member as the C code does, where a member
  that the constructor of a type does not set is zero.
\<close>

section \<open>Types\<close>

datatype glsl_base_type =
  GLSL_TYPE_UINT | GLSL_TYPE_INT | GLSL_TYPE_FLOAT | GLSL_TYPE_FLOAT16 | GLSL_TYPE_BFLOAT16 |
  GLSL_TYPE_FLOAT_E4M3FN | GLSL_TYPE_FLOAT_E5M2 | GLSL_TYPE_DOUBLE | GLSL_TYPE_UINT8 |
  GLSL_TYPE_INT8 | GLSL_TYPE_UINT16 | GLSL_TYPE_INT16 | GLSL_TYPE_UINT64 | GLSL_TYPE_INT64 |
  GLSL_TYPE_BOOL | GLSL_TYPE_COOPERATIVE_MATRIX | GLSL_TYPE_SAMPLER | GLSL_TYPE_TEXTURE |
  GLSL_TYPE_IMAGE | GLSL_TYPE_ATOMIC_UINT | GLSL_TYPE_STRUCT | GLSL_TYPE_INTERFACE |
  GLSL_TYPE_ARRAY | GLSL_TYPE_VOID | GLSL_TYPE_SUBROUTINE | GLSL_TYPE_ERROR

datatype glsl_sampler_dim =
  GLSL_SAMPLER_DIM_1D | GLSL_SAMPLER_DIM_2D | GLSL_SAMPLER_DIM_3D | GLSL_SAMPLER_DIM_CUBE |
  GLSL_SAMPLER_DIM_RECT | GLSL_SAMPLER_DIM_BUF | GLSL_SAMPLER_DIM_EXTERNAL |
  GLSL_SAMPLER_DIM_MS | GLSL_SAMPLER_DIM_SUBPASS | GLSL_SAMPLER_DIM_SUBPASS_MS

datatype glsl_type =
  Glsl_array "32 word" glsl_type
| Glsl_struct "glsl_type list"
| Glsl_interface "glsl_type list"
| Glsl_basic glsl_base_type "8 word" "8 word" glsl_base_type glsl_sampler_dim bool

fun base_type :: "glsl_type \<Rightarrow> glsl_base_type" where
  "base_type (Glsl_array n t) = GLSL_TYPE_ARRAY"
| "base_type (Glsl_struct ts) = GLSL_TYPE_STRUCT"
| "base_type (Glsl_interface ts) = GLSL_TYPE_INTERFACE"
| "base_type (Glsl_basic b rows cols r dim is_array) = b"

fun vector_elements :: "glsl_type \<Rightarrow> 8 word" where
  "vector_elements (Glsl_basic b rows cols r dim is_array) = rows"
| "vector_elements t = 0"

fun matrix_columns :: "glsl_type \<Rightarrow> 8 word" where
  "matrix_columns (Glsl_basic b rows cols r dim is_array) = cols"
| "matrix_columns t = 0"

fun sampled_type :: "glsl_type \<Rightarrow> glsl_base_type" where
  "sampled_type (Glsl_basic b rows cols r dim is_array) = r"
| "sampled_type t = GLSL_TYPE_VOID"

fun sampler_dimensionality :: "glsl_type \<Rightarrow> glsl_sampler_dim" where
  "sampler_dimensionality (Glsl_basic b rows cols r dim is_array) = dim"
| "sampler_dimensionality t = GLSL_SAMPLER_DIM_1D"

fun sampler_array :: "glsl_type \<Rightarrow> bool" where
  "sampler_array (Glsl_basic b rows cols r dim is_array) = is_array"
| "sampler_array t = False"

text \<open>Scalars and vectors.\<close>

abbreviation glsl_vector :: "glsl_base_type \<Rightarrow> 8 word \<Rightarrow> glsl_type" where
  "glsl_vector b n \<equiv> Glsl_basic b n 1 GLSL_TYPE_VOID GLSL_SAMPLER_DIM_1D False"

section \<open>Kinds of types\<close>

definition glsl_type_is_sampler :: "glsl_type \<Rightarrow> bool" where
  "glsl_type_is_sampler t \<longleftrightarrow> base_type t = GLSL_TYPE_SAMPLER"

definition glsl_type_is_texture :: "glsl_type \<Rightarrow> bool" where
  "glsl_type_is_texture t \<longleftrightarrow> base_type t = GLSL_TYPE_TEXTURE"

definition glsl_type_is_image :: "glsl_type \<Rightarrow> bool" where
  "glsl_type_is_image t \<longleftrightarrow> base_type t = GLSL_TYPE_IMAGE"

definition glsl_type_is_array :: "glsl_type \<Rightarrow> bool" where
  "glsl_type_is_array t \<longleftrightarrow> base_type t = GLSL_TYPE_ARRAY"

definition glsl_sampler_type_is_array :: "glsl_type \<Rightarrow> bool result" where
  "glsl_sampler_type_is_array t =
     (if glsl_type_is_sampler t \<or> glsl_type_is_texture t \<or> glsl_type_is_image t
      then Inr (sampler_array t) else Inl Assertion)"

definition glsl_base_type_bit_size :: "glsl_base_type \<Rightarrow> nat" where
  "glsl_base_type_bit_size type =
     (case type of
        GLSL_TYPE_BOOL \<Rightarrow> 32 | GLSL_TYPE_INT \<Rightarrow> 32 | GLSL_TYPE_UINT \<Rightarrow> 32 | GLSL_TYPE_FLOAT \<Rightarrow> 32
      | GLSL_TYPE_SUBROUTINE \<Rightarrow> 32
      | GLSL_TYPE_FLOAT16 \<Rightarrow> 16 | GLSL_TYPE_BFLOAT16 \<Rightarrow> 16 | GLSL_TYPE_UINT16 \<Rightarrow> 16 | GLSL_TYPE_INT16 \<Rightarrow> 16
      | GLSL_TYPE_UINT8 \<Rightarrow> 8 | GLSL_TYPE_INT8 \<Rightarrow> 8 | GLSL_TYPE_FLOAT_E4M3FN \<Rightarrow> 8
      | GLSL_TYPE_FLOAT_E5M2 \<Rightarrow> 8
      | GLSL_TYPE_DOUBLE \<Rightarrow> 64 | GLSL_TYPE_INT64 \<Rightarrow> 64 | GLSL_TYPE_UINT64 \<Rightarrow> 64 | GLSL_TYPE_IMAGE \<Rightarrow> 64
      | GLSL_TYPE_TEXTURE \<Rightarrow> 64 | GLSL_TYPE_SAMPLER \<Rightarrow> 64
      | _ \<Rightarrow> 0)"

definition glsl_base_type_is_64bit :: "glsl_base_type \<Rightarrow> bool" where
  "glsl_base_type_is_64bit type \<longleftrightarrow> glsl_base_type_bit_size type = 64"

definition glsl_base_type_is_integer :: "glsl_base_type \<Rightarrow> bool" where
  "glsl_base_type_is_integer type \<longleftrightarrow>
     type \<in> {GLSL_TYPE_UINT8, GLSL_TYPE_INT8, GLSL_TYPE_UINT16, GLSL_TYPE_INT16, GLSL_TYPE_UINT, GLSL_TYPE_INT,
       GLSL_TYPE_UINT64, GLSL_TYPE_INT64, GLSL_TYPE_BOOL, GLSL_TYPE_SAMPLER, GLSL_TYPE_TEXTURE, GLSL_TYPE_IMAGE}"

definition glsl_type_is_integer :: "glsl_type \<Rightarrow> bool" where
  "glsl_type_is_integer t \<longleftrightarrow> glsl_base_type_is_integer (base_type t)"

definition glsl_type_is_64bit :: "glsl_type \<Rightarrow> bool" where
  "glsl_type_is_64bit t \<longleftrightarrow> glsl_base_type_is_64bit (base_type t)"

definition glsl_type_is_matrix :: "glsl_type \<Rightarrow> bool" where
  "glsl_type_is_matrix t \<longleftrightarrow> 1 < matrix_columns t \<and>
     (base_type t = GLSL_TYPE_FLOAT \<or> base_type t = GLSL_TYPE_DOUBLE \<or> base_type t = GLSL_TYPE_FLOAT16)"

section \<open>Elements and sizes\<close>

fun glsl_without_array :: "glsl_type \<Rightarrow> glsl_type" where
  "glsl_without_array (Glsl_array n t) = glsl_without_array t"
| "glsl_without_array t = t"

text \<open>
  A column of a matrix is a vector of the same base type. The code looks it up among the built-in
  types, where every vector of a length that a matrix can have is found.
\<close>

definition glsl_without_array_or_matrix :: "glsl_type \<Rightarrow> glsl_type" where
  "glsl_without_array_or_matrix t =
     (let t = glsl_without_array t
      in if glsl_type_is_matrix t then glsl_vector (base_type t) (vector_elements t) else t)"

definition glsl_get_components :: "glsl_type \<Rightarrow> 32 word" where
  "glsl_get_components t = ucast (vector_elements t) * ucast (matrix_columns t)"

text \<open>
  The code below asks only arrays for their elements; of another type \<open>glsl_get_array_element\<close> returns
  the type of a column or a component, which is left out.
\<close>

fun glsl_get_array_element :: "glsl_type \<Rightarrow> glsl_type result" where
  "glsl_get_array_element (Glsl_array n t) = Inr t"
| "glsl_get_array_element t = Inl Undefined"

fun aoa_size_from :: "32 word \<Rightarrow> glsl_type \<Rightarrow> 32 word" where
  "aoa_size_from acc (Glsl_array n t) = aoa_size_from (acc * n) t"
| "aoa_size_from acc t = acc"

fun glsl_get_aoa_size :: "glsl_type \<Rightarrow> 32 word" where
  "glsl_get_aoa_size (Glsl_array n t) = aoa_size_from n t"
| "glsl_get_aoa_size t = 0"

text \<open>\<open>glsl_count_vec4_slots\<close> as it is called here: not for a vertex input, not bindless.\<close>

fun glsl_count_vec4_slots :: "glsl_type \<Rightarrow> 32 word result"
  and fields_vec4_slots :: "glsl_type list \<Rightarrow> 32 word result" where
  "glsl_count_vec4_slots (Glsl_array n t) = bind_result (glsl_count_vec4_slots t) (\<lambda>s. Inr (n * s))"
| "glsl_count_vec4_slots (Glsl_struct ts) = fields_vec4_slots ts"
| "glsl_count_vec4_slots (Glsl_interface ts) = fields_vec4_slots ts"
| "glsl_count_vec4_slots (Glsl_basic b rows cols r dim is_array) =
     (if b \<in> {GLSL_TYPE_UINT, GLSL_TYPE_INT, GLSL_TYPE_UINT8, GLSL_TYPE_INT8, GLSL_TYPE_UINT16, GLSL_TYPE_INT16,
        GLSL_TYPE_FLOAT, GLSL_TYPE_FLOAT16, GLSL_TYPE_BFLOAT16, GLSL_TYPE_FLOAT_E4M3FN, GLSL_TYPE_FLOAT_E5M2,
        GLSL_TYPE_BOOL} then Inr (ucast cols)
      else if b \<in> {GLSL_TYPE_DOUBLE, GLSL_TYPE_UINT64, GLSL_TYPE_INT64} then
        Inr (if 2 < rows then ucast cols * 2 else ucast cols)
      else if b \<in> {GLSL_TYPE_SAMPLER, GLSL_TYPE_TEXTURE, GLSL_TYPE_IMAGE} then Inr 0
      else if b = GLSL_TYPE_SUBROUTINE then Inr 1
      else Inl Assertion)"
| "fields_vec4_slots [] = Inr 0"
| "fields_vec4_slots (t # ts) =
     bind_result (glsl_count_vec4_slots t) (\<lambda>s. bind_result (fields_vec4_slots ts) (\<lambda>n. Inr (s + n)))"

fun glsl_get_component_slots :: "glsl_type \<Rightarrow> 32 word"
  and fields_component_slots :: "glsl_type list \<Rightarrow> 32 word" where
  "glsl_get_component_slots (Glsl_array n t) = n * glsl_get_component_slots t"
| "glsl_get_component_slots (Glsl_struct ts) = fields_component_slots ts"
| "glsl_get_component_slots (Glsl_interface ts) = fields_component_slots ts"
| "glsl_get_component_slots (Glsl_basic b rows cols r dim is_array) =
     (if b \<in> {GLSL_TYPE_UINT, GLSL_TYPE_INT, GLSL_TYPE_UINT8, GLSL_TYPE_INT8, GLSL_TYPE_UINT16, GLSL_TYPE_INT16,
        GLSL_TYPE_FLOAT, GLSL_TYPE_FLOAT16, GLSL_TYPE_BFLOAT16, GLSL_TYPE_FLOAT_E4M3FN, GLSL_TYPE_FLOAT_E5M2,
        GLSL_TYPE_BOOL} then ucast rows * ucast cols
      else if b \<in> {GLSL_TYPE_DOUBLE, GLSL_TYPE_UINT64, GLSL_TYPE_INT64} then 2 * (ucast rows * ucast cols)
      else if b \<in> {GLSL_TYPE_SAMPLER, GLSL_TYPE_TEXTURE, GLSL_TYPE_IMAGE} then 2
      else if b = GLSL_TYPE_SUBROUTINE then 1
      else 0)"
| "fields_component_slots [] = 0"
| "fields_component_slots (t # ts) = glsl_get_component_slots t + fields_component_slots ts"

end
