(* ===== verification/Enums.thy ===== *)
theory Enums
  imports Glsl_Types
begin

text \<open>
  The enumerations of \<open>src/mesa/src/microsoft/compiler/dxil_enums.h\<close> and \<open>dxil_module.h\<close> that the
  modelled code uses, each with the numbers that reach the output, and the name functions of
  \<open>dxil_enums.c\<close>.
\<close>

section \<open>Shader interface\<close>

datatype dxil_signature_kind =
  DXIL_SIG_INVALID | DXIL_SIG_INPUT | DXIL_SIG_OUTPUT | DXIL_SIG_PATCH_CONST_OR_PRIM

primrec dxil_signature_kind_value :: "dxil_signature_kind \<Rightarrow> nat" where
  "dxil_signature_kind_value DXIL_SIG_INVALID = 0"
| "dxil_signature_kind_value DXIL_SIG_INPUT = 1"
| "dxil_signature_kind_value DXIL_SIG_OUTPUT = 2"
| "dxil_signature_kind_value DXIL_SIG_PATCH_CONST_OR_PRIM = 3"

datatype dxil_semantic_kind =
  DXIL_SEM_ARBITRARY | DXIL_SEM_VERTEX_ID | DXIL_SEM_INSTANCE_ID | DXIL_SEM_POSITION |
  DXIL_SEM_RENDERTARGET_ARRAY_INDEX | DXIL_SEM_VIEWPORT_ARRAY_INDEX | DXIL_SEM_CLIP_DISTANCE |
  DXIL_SEM_CULL_DISTANCE | DXIL_SEM_OUTPUT_CONTROL_POINT_ID | DXIL_SEM_DOMAIN_LOCATION |
  DXIL_SEM_PRIMITIVE_ID | DXIL_SEM_GS_INSTANCE_ID | DXIL_SEM_SAMPLE_INDEX |
  DXIL_SEM_IS_FRONT_FACE | DXIL_SEM_COVERAGE | DXIL_SEM_INNER_COVERAGE | DXIL_SEM_TARGET |
  DXIL_SEM_DEPTH | DXIL_SEM_DEPTH_LE | DXIL_SEM_DEPTH_GE | DXIL_SEM_STENCIL_REF |
  DXIL_SEM_DISPATCH_THREAD_ID | DXIL_SEM_GROUP_ID | DXIL_SEM_GROUP_INDEX |
  DXIL_SEM_GROUP_THREAD_ID | DXIL_SEM_TESS_FACTOR | DXIL_SEM_INSIDE_TESS_FACTOR |
  DXIL_SEM_VIEW_ID | DXIL_SEM_BARYCENTRICS | DXIL_SEM_SHADING_RATE | DXIL_SEM_CULL_PRIMITIVE |
  DXIL_SEM_INVALID

primrec dxil_semantic_kind_value :: "dxil_semantic_kind \<Rightarrow> nat" where
  "dxil_semantic_kind_value DXIL_SEM_ARBITRARY = 0"
| "dxil_semantic_kind_value DXIL_SEM_VERTEX_ID = 1"
| "dxil_semantic_kind_value DXIL_SEM_INSTANCE_ID = 2"
| "dxil_semantic_kind_value DXIL_SEM_POSITION = 3"
| "dxil_semantic_kind_value DXIL_SEM_RENDERTARGET_ARRAY_INDEX = 4"
| "dxil_semantic_kind_value DXIL_SEM_VIEWPORT_ARRAY_INDEX = 5"
| "dxil_semantic_kind_value DXIL_SEM_CLIP_DISTANCE = 6"
| "dxil_semantic_kind_value DXIL_SEM_CULL_DISTANCE = 7"
| "dxil_semantic_kind_value DXIL_SEM_OUTPUT_CONTROL_POINT_ID = 8"
| "dxil_semantic_kind_value DXIL_SEM_DOMAIN_LOCATION = 9"
| "dxil_semantic_kind_value DXIL_SEM_PRIMITIVE_ID = 10"
| "dxil_semantic_kind_value DXIL_SEM_GS_INSTANCE_ID = 11"
| "dxil_semantic_kind_value DXIL_SEM_SAMPLE_INDEX = 12"
| "dxil_semantic_kind_value DXIL_SEM_IS_FRONT_FACE = 13"
| "dxil_semantic_kind_value DXIL_SEM_COVERAGE = 14"
| "dxil_semantic_kind_value DXIL_SEM_INNER_COVERAGE = 15"
| "dxil_semantic_kind_value DXIL_SEM_TARGET = 16"
| "dxil_semantic_kind_value DXIL_SEM_DEPTH = 17"
| "dxil_semantic_kind_value DXIL_SEM_DEPTH_LE = 18"
| "dxil_semantic_kind_value DXIL_SEM_DEPTH_GE = 19"
| "dxil_semantic_kind_value DXIL_SEM_STENCIL_REF = 20"
| "dxil_semantic_kind_value DXIL_SEM_DISPATCH_THREAD_ID = 21"
| "dxil_semantic_kind_value DXIL_SEM_GROUP_ID = 22"
| "dxil_semantic_kind_value DXIL_SEM_GROUP_INDEX = 23"
| "dxil_semantic_kind_value DXIL_SEM_GROUP_THREAD_ID = 24"
| "dxil_semantic_kind_value DXIL_SEM_TESS_FACTOR = 25"
| "dxil_semantic_kind_value DXIL_SEM_INSIDE_TESS_FACTOR = 26"
| "dxil_semantic_kind_value DXIL_SEM_VIEW_ID = 27"
| "dxil_semantic_kind_value DXIL_SEM_BARYCENTRICS = 28"
| "dxil_semantic_kind_value DXIL_SEM_SHADING_RATE = 29"
| "dxil_semantic_kind_value DXIL_SEM_CULL_PRIMITIVE = 30"
| "dxil_semantic_kind_value DXIL_SEM_INVALID = 31"

datatype dxil_prog_sig_semantic =
  DXIL_PROG_SEM_UNDEFINED | DXIL_PROG_SEM_POSITION | DXIL_PROG_SEM_CLIP_DISTANCE |
  DXIL_PROG_SEM_CULL_DISTANCE | DXIL_PROG_SEM_RENDERTARGET_ARRAY_INDEX |
  DXIL_PROG_SEM_VIEWPORT_ARRAY_INDEX | DXIL_PROG_SEM_VERTEX_ID | DXIL_PROG_SEM_PRIMITIVE_ID |
  DXIL_PROG_SEM_INSTANCE_ID | DXIL_PROG_SEM_IS_FRONTFACE | DXIL_PROG_SEM_SAMPLE_INDEX |
  DXIL_PROG_SEM_FINAL_QUAD_EDGE_TESSFACTOR | DXIL_PROG_SEM_FINAL_QUAD_INSIDE_EDGE_TESSFACTOR |
  DXIL_PROG_SEM_FINAL_TRI_EDGE_TESSFACTOR | DXIL_PROG_SEM_FINAL_TRI_INSIDE_EDGE_TESSFACTOR |
  DXIL_PROG_SEM_FINAL_LINE_DETAIL_TESSFACTOR | DXIL_PROG_SEM_FINAL_LINE_DENSITY_TESSFACTOR |
  DXIL_PROG_SEM_BARYCENTRICS | DXIL_PROG_SEM_SHADING_RATE | DXIL_PROG_SEM_CULL_PRIMITIVE |
  DXIL_PROG_SEM_TARGET | DXIL_PROG_SEM_DEPTH | DXIL_PROG_SEM_COVERAGE |
  DXIL_PROG_SEM_DEPTH_GE | DXIL_PROG_SEM_DEPTH_LE | DXIL_PROG_SEM_STENCIL_REF |
  DXIL_PROG_SEM_INNER_COVERAGE

primrec dxil_prog_sig_semantic_value :: "dxil_prog_sig_semantic \<Rightarrow> nat" where
  "dxil_prog_sig_semantic_value DXIL_PROG_SEM_UNDEFINED = 0"
| "dxil_prog_sig_semantic_value DXIL_PROG_SEM_POSITION = 1"
| "dxil_prog_sig_semantic_value DXIL_PROG_SEM_CLIP_DISTANCE = 2"
| "dxil_prog_sig_semantic_value DXIL_PROG_SEM_CULL_DISTANCE = 3"
| "dxil_prog_sig_semantic_value DXIL_PROG_SEM_RENDERTARGET_ARRAY_INDEX = 4"
| "dxil_prog_sig_semantic_value DXIL_PROG_SEM_VIEWPORT_ARRAY_INDEX = 5"
| "dxil_prog_sig_semantic_value DXIL_PROG_SEM_VERTEX_ID = 6"
| "dxil_prog_sig_semantic_value DXIL_PROG_SEM_PRIMITIVE_ID = 7"
| "dxil_prog_sig_semantic_value DXIL_PROG_SEM_INSTANCE_ID = 8"
| "dxil_prog_sig_semantic_value DXIL_PROG_SEM_IS_FRONTFACE = 9"
| "dxil_prog_sig_semantic_value DXIL_PROG_SEM_SAMPLE_INDEX = 10"
| "dxil_prog_sig_semantic_value DXIL_PROG_SEM_FINAL_QUAD_EDGE_TESSFACTOR = 11"
| "dxil_prog_sig_semantic_value DXIL_PROG_SEM_FINAL_QUAD_INSIDE_EDGE_TESSFACTOR = 12"
| "dxil_prog_sig_semantic_value DXIL_PROG_SEM_FINAL_TRI_EDGE_TESSFACTOR = 13"
| "dxil_prog_sig_semantic_value DXIL_PROG_SEM_FINAL_TRI_INSIDE_EDGE_TESSFACTOR = 14"
| "dxil_prog_sig_semantic_value DXIL_PROG_SEM_FINAL_LINE_DETAIL_TESSFACTOR = 15"
| "dxil_prog_sig_semantic_value DXIL_PROG_SEM_FINAL_LINE_DENSITY_TESSFACTOR = 16"
| "dxil_prog_sig_semantic_value DXIL_PROG_SEM_BARYCENTRICS = 23"
| "dxil_prog_sig_semantic_value DXIL_PROG_SEM_SHADING_RATE = 24"
| "dxil_prog_sig_semantic_value DXIL_PROG_SEM_CULL_PRIMITIVE = 25"
| "dxil_prog_sig_semantic_value DXIL_PROG_SEM_TARGET = 64"
| "dxil_prog_sig_semantic_value DXIL_PROG_SEM_DEPTH = 65"
| "dxil_prog_sig_semantic_value DXIL_PROG_SEM_COVERAGE = 66"
| "dxil_prog_sig_semantic_value DXIL_PROG_SEM_DEPTH_GE = 67"
| "dxil_prog_sig_semantic_value DXIL_PROG_SEM_DEPTH_LE = 68"
| "dxil_prog_sig_semantic_value DXIL_PROG_SEM_STENCIL_REF = 69"
| "dxil_prog_sig_semantic_value DXIL_PROG_SEM_INNER_COVERAGE = 70"

datatype dxil_prog_sig_comp_type =
  DXIL_PROG_SIG_COMP_TYPE_UNKNOWN | DXIL_PROG_SIG_COMP_TYPE_UINT32 |
  DXIL_PROG_SIG_COMP_TYPE_SINT32 | DXIL_PROG_SIG_COMP_TYPE_FLOAT32 |
  DXIL_PROG_SIG_COMP_TYPE_UINT16 | DXIL_PROG_SIG_COMP_TYPE_SINT16 |
  DXIL_PROG_SIG_COMP_TYPE_FLOAT16 | DXIL_PROG_SIG_COMP_TYPE_UINT64 |
  DXIL_PROG_SIG_COMP_TYPE_SINT64 | DXIL_PROG_SIG_COMP_TYPE_FLOAT64 |
  DXIL_PROG_SIG_COMP_TYPE_COUNT

primrec dxil_prog_sig_comp_type_value :: "dxil_prog_sig_comp_type \<Rightarrow> nat" where
  "dxil_prog_sig_comp_type_value DXIL_PROG_SIG_COMP_TYPE_UNKNOWN = 0"
| "dxil_prog_sig_comp_type_value DXIL_PROG_SIG_COMP_TYPE_UINT32 = 1"
| "dxil_prog_sig_comp_type_value DXIL_PROG_SIG_COMP_TYPE_SINT32 = 2"
| "dxil_prog_sig_comp_type_value DXIL_PROG_SIG_COMP_TYPE_FLOAT32 = 3"
| "dxil_prog_sig_comp_type_value DXIL_PROG_SIG_COMP_TYPE_UINT16 = 4"
| "dxil_prog_sig_comp_type_value DXIL_PROG_SIG_COMP_TYPE_SINT16 = 5"
| "dxil_prog_sig_comp_type_value DXIL_PROG_SIG_COMP_TYPE_FLOAT16 = 6"
| "dxil_prog_sig_comp_type_value DXIL_PROG_SIG_COMP_TYPE_UINT64 = 7"
| "dxil_prog_sig_comp_type_value DXIL_PROG_SIG_COMP_TYPE_SINT64 = 8"
| "dxil_prog_sig_comp_type_value DXIL_PROG_SIG_COMP_TYPE_FLOAT64 = 9"
| "dxil_prog_sig_comp_type_value DXIL_PROG_SIG_COMP_TYPE_COUNT = 10"

datatype dxil_min_precision =
  DXIL_MIN_PREC_DEFAULT | DXIL_MIN_PREC_FLOAT16 | DXIL_MIN_PREC_FLOAT2_8 |
  DXIL_MIN_PREC_RESERVED | DXIL_MIN_PREC_SINT16 | DXIL_MIN_PREC_UINT16 | DXIL_MIN_PREC_ANY16 |
  DXIL_MIN_PREC_ANY10

primrec dxil_min_precision_value :: "dxil_min_precision \<Rightarrow> nat" where
  "dxil_min_precision_value DXIL_MIN_PREC_DEFAULT = 0"
| "dxil_min_precision_value DXIL_MIN_PREC_FLOAT16 = 1"
| "dxil_min_precision_value DXIL_MIN_PREC_FLOAT2_8 = 2"
| "dxil_min_precision_value DXIL_MIN_PREC_RESERVED = 3"
| "dxil_min_precision_value DXIL_MIN_PREC_SINT16 = 4"
| "dxil_min_precision_value DXIL_MIN_PREC_UINT16 = 5"
| "dxil_min_precision_value DXIL_MIN_PREC_ANY16 = 240"
| "dxil_min_precision_value DXIL_MIN_PREC_ANY10 = 241"

datatype dxil_semantic_interpret_kind =
  DXIL_SEM_INTERP_NA | DXIL_SEM_INTERP_SV | DXIL_SEM_INTERP_SGV | DXIL_SEM_INTERP_ARB |
  DXIL_SEM_INTERP_NOT_IN_SIG | DXIL_SEM_INTERP_NOT_PACKED | DXIL_SEM_INTERP_TARGET |
  DXIL_SEM_INTERP_TESSFACTOR | DXIL_SEM_INTERP_SHADOW | DXIL_SEM_INTERP_CLIPCULL |
  DXIL_SEM_INTERP_INVALID

primrec dxil_semantic_interpret_kind_value :: "dxil_semantic_interpret_kind \<Rightarrow> nat" where
  "dxil_semantic_interpret_kind_value DXIL_SEM_INTERP_NA = 0"
| "dxil_semantic_interpret_kind_value DXIL_SEM_INTERP_SV = 1"
| "dxil_semantic_interpret_kind_value DXIL_SEM_INTERP_SGV = 2"
| "dxil_semantic_interpret_kind_value DXIL_SEM_INTERP_ARB = 3"
| "dxil_semantic_interpret_kind_value DXIL_SEM_INTERP_NOT_IN_SIG = 4"
| "dxil_semantic_interpret_kind_value DXIL_SEM_INTERP_NOT_PACKED = 5"
| "dxil_semantic_interpret_kind_value DXIL_SEM_INTERP_TARGET = 6"
| "dxil_semantic_interpret_kind_value DXIL_SEM_INTERP_TESSFACTOR = 7"
| "dxil_semantic_interpret_kind_value DXIL_SEM_INTERP_SHADOW = 8"
| "dxil_semantic_interpret_kind_value DXIL_SEM_INTERP_CLIPCULL = 9"
| "dxil_semantic_interpret_kind_value DXIL_SEM_INTERP_INVALID = 10"

datatype dxil_component_type =
  DXIL_COMP_TYPE_INVALID | DXIL_COMP_TYPE_I1 | DXIL_COMP_TYPE_I16 | DXIL_COMP_TYPE_U16 |
  DXIL_COMP_TYPE_I32 | DXIL_COMP_TYPE_U32 | DXIL_COMP_TYPE_I64 | DXIL_COMP_TYPE_U64 |
  DXIL_COMP_TYPE_F16 | DXIL_COMP_TYPE_F32 | DXIL_COMP_TYPE_F64 | DXIL_COMP_TYPE_SNORMF16 |
  DXIL_COMP_TYPE_UNORMF16 | DXIL_COMP_TYPE_SNORMF32 | DXIL_COMP_TYPE_UNORMF32 |
  DXIL_COMP_TYPE_SNORMF64 | DXIL_COMP_TYPE_UNORMF64

primrec dxil_component_type_value :: "dxil_component_type \<Rightarrow> nat" where
  "dxil_component_type_value DXIL_COMP_TYPE_INVALID = 0"
| "dxil_component_type_value DXIL_COMP_TYPE_I1 = 1"
| "dxil_component_type_value DXIL_COMP_TYPE_I16 = 2"
| "dxil_component_type_value DXIL_COMP_TYPE_U16 = 3"
| "dxil_component_type_value DXIL_COMP_TYPE_I32 = 4"
| "dxil_component_type_value DXIL_COMP_TYPE_U32 = 5"
| "dxil_component_type_value DXIL_COMP_TYPE_I64 = 6"
| "dxil_component_type_value DXIL_COMP_TYPE_U64 = 7"
| "dxil_component_type_value DXIL_COMP_TYPE_F16 = 8"
| "dxil_component_type_value DXIL_COMP_TYPE_F32 = 9"
| "dxil_component_type_value DXIL_COMP_TYPE_F64 = 10"
| "dxil_component_type_value DXIL_COMP_TYPE_SNORMF16 = 11"
| "dxil_component_type_value DXIL_COMP_TYPE_UNORMF16 = 12"
| "dxil_component_type_value DXIL_COMP_TYPE_SNORMF32 = 13"
| "dxil_component_type_value DXIL_COMP_TYPE_UNORMF32 = 14"
| "dxil_component_type_value DXIL_COMP_TYPE_SNORMF64 = 15"
| "dxil_component_type_value DXIL_COMP_TYPE_UNORMF64 = 16"

datatype dxil_interpolation_mode =
  DXIL_INTERP_UNDEFINED | DXIL_INTERP_CONSTANT | DXIL_INTERP_LINEAR |
  DXIL_INTERP_LINEAR_CENTROID | DXIL_INTERP_LINEAR_NOPERSPECTIVE |
  DXIL_INTERP_LINEAR_NOPERSPECTIVE_CENTROID | DXIL_INTERP_LINEAR_SAMPLE |
  DXIL_INTERP_LINEAR_NOPERSPECTIVE_SAMPLE | DXIL_INTERP_INVALID

primrec dxil_interpolation_mode_value :: "dxil_interpolation_mode \<Rightarrow> nat" where
  "dxil_interpolation_mode_value DXIL_INTERP_UNDEFINED = 0"
| "dxil_interpolation_mode_value DXIL_INTERP_CONSTANT = 1"
| "dxil_interpolation_mode_value DXIL_INTERP_LINEAR = 2"
| "dxil_interpolation_mode_value DXIL_INTERP_LINEAR_CENTROID = 3"
| "dxil_interpolation_mode_value DXIL_INTERP_LINEAR_NOPERSPECTIVE = 4"
| "dxil_interpolation_mode_value DXIL_INTERP_LINEAR_NOPERSPECTIVE_CENTROID = 5"
| "dxil_interpolation_mode_value DXIL_INTERP_LINEAR_SAMPLE = 6"
| "dxil_interpolation_mode_value DXIL_INTERP_LINEAR_NOPERSPECTIVE_SAMPLE = 7"
| "dxil_interpolation_mode_value DXIL_INTERP_INVALID = 8"

section \<open>Types, resources, instructions\<close>

datatype overload_type =
  DXIL_NONE | DXIL_I1 | DXIL_I16 | DXIL_I32 | DXIL_I64 | DXIL_F16 | DXIL_F32 | DXIL_F64 |
  DXIL_NUM_OVERLOADS

primrec overload_type_value :: "overload_type \<Rightarrow> nat" where
  "overload_type_value DXIL_NONE = 0"
| "overload_type_value DXIL_I1 = 1"
| "overload_type_value DXIL_I16 = 2"
| "overload_type_value DXIL_I32 = 3"
| "overload_type_value DXIL_I64 = 4"
| "overload_type_value DXIL_F16 = 5"
| "overload_type_value DXIL_F32 = 6"
| "overload_type_value DXIL_F64 = 7"
| "overload_type_value DXIL_NUM_OVERLOADS = 8"

datatype dxil_resource_class =
  DXIL_RESOURCE_CLASS_SRV | DXIL_RESOURCE_CLASS_UAV | DXIL_RESOURCE_CLASS_CBV |
  DXIL_RESOURCE_CLASS_SAMPLER

primrec dxil_resource_class_value :: "dxil_resource_class \<Rightarrow> nat" where
  "dxil_resource_class_value DXIL_RESOURCE_CLASS_SRV = 0"
| "dxil_resource_class_value DXIL_RESOURCE_CLASS_UAV = 1"
| "dxil_resource_class_value DXIL_RESOURCE_CLASS_CBV = 2"
| "dxil_resource_class_value DXIL_RESOURCE_CLASS_SAMPLER = 3"

datatype dxil_resource_kind =
  DXIL_RESOURCE_KIND_INVALID | DXIL_RESOURCE_KIND_TEXTURE1D | DXIL_RESOURCE_KIND_TEXTURE2D |
  DXIL_RESOURCE_KIND_TEXTURE2DMS | DXIL_RESOURCE_KIND_TEXTURE3D |
  DXIL_RESOURCE_KIND_TEXTURECUBE | DXIL_RESOURCE_KIND_TEXTURE1D_ARRAY |
  DXIL_RESOURCE_KIND_TEXTURE2D_ARRAY | DXIL_RESOURCE_KIND_TEXTURE2DMS_ARRAY |
  DXIL_RESOURCE_KIND_TEXTURECUBE_ARRAY | DXIL_RESOURCE_KIND_TYPED_BUFFER |
  DXIL_RESOURCE_KIND_RAW_BUFFER | DXIL_RESOURCE_KIND_STRUCTURED_BUFFER |
  DXIL_RESOURCE_KIND_CBUFFER | DXIL_RESOURCE_KIND_SAMPLER | DXIL_RESOURCE_KIND_TBUFFER

primrec dxil_resource_kind_value :: "dxil_resource_kind \<Rightarrow> nat" where
  "dxil_resource_kind_value DXIL_RESOURCE_KIND_INVALID = 0"
| "dxil_resource_kind_value DXIL_RESOURCE_KIND_TEXTURE1D = 1"
| "dxil_resource_kind_value DXIL_RESOURCE_KIND_TEXTURE2D = 2"
| "dxil_resource_kind_value DXIL_RESOURCE_KIND_TEXTURE2DMS = 3"
| "dxil_resource_kind_value DXIL_RESOURCE_KIND_TEXTURE3D = 4"
| "dxil_resource_kind_value DXIL_RESOURCE_KIND_TEXTURECUBE = 5"
| "dxil_resource_kind_value DXIL_RESOURCE_KIND_TEXTURE1D_ARRAY = 6"
| "dxil_resource_kind_value DXIL_RESOURCE_KIND_TEXTURE2D_ARRAY = 7"
| "dxil_resource_kind_value DXIL_RESOURCE_KIND_TEXTURE2DMS_ARRAY = 8"
| "dxil_resource_kind_value DXIL_RESOURCE_KIND_TEXTURECUBE_ARRAY = 9"
| "dxil_resource_kind_value DXIL_RESOURCE_KIND_TYPED_BUFFER = 10"
| "dxil_resource_kind_value DXIL_RESOURCE_KIND_RAW_BUFFER = 11"
| "dxil_resource_kind_value DXIL_RESOURCE_KIND_STRUCTURED_BUFFER = 12"
| "dxil_resource_kind_value DXIL_RESOURCE_KIND_CBUFFER = 13"
| "dxil_resource_kind_value DXIL_RESOURCE_KIND_SAMPLER = 14"
| "dxil_resource_kind_value DXIL_RESOURCE_KIND_TBUFFER = 15"

datatype dxil_sampler_kind =
  DXIL_SAMPLER_KIND_DEFAULT | DXIL_SAMPLER_KIND_COMPARISON | DXIL_SAMPLER_KIND_MONO |
  DXIL_SAMPLER_KIND_INVALID

primrec dxil_sampler_kind_value :: "dxil_sampler_kind \<Rightarrow> nat" where
  "dxil_sampler_kind_value DXIL_SAMPLER_KIND_DEFAULT = 0"
| "dxil_sampler_kind_value DXIL_SAMPLER_KIND_COMPARISON = 1"
| "dxil_sampler_kind_value DXIL_SAMPLER_KIND_MONO = 2"
| "dxil_sampler_kind_value DXIL_SAMPLER_KIND_INVALID = 3"

datatype dxil_attr_kind =
  DXIL_ATTR_KIND_NONE | DXIL_ATTR_KIND_NO_DUPLICATE | DXIL_ATTR_KIND_NO_UNWIND |
  DXIL_ATTR_KIND_READ_NONE | DXIL_ATTR_KIND_READ_ONLY

primrec dxil_attr_kind_value :: "dxil_attr_kind \<Rightarrow> nat" where
  "dxil_attr_kind_value DXIL_ATTR_KIND_NONE = 0"
| "dxil_attr_kind_value DXIL_ATTR_KIND_NO_DUPLICATE = 12"
| "dxil_attr_kind_value DXIL_ATTR_KIND_NO_UNWIND = 18"
| "dxil_attr_kind_value DXIL_ATTR_KIND_READ_NONE = 20"
| "dxil_attr_kind_value DXIL_ATTR_KIND_READ_ONLY = 21"

datatype dxil_input_primitive =
  DXIL_INPUT_PRIMITIVE_UNDEFINED | DXIL_INPUT_PRIMITIVE_POINT | DXIL_INPUT_PRIMITIVE_LINE |
  DXIL_INPUT_PRIMITIVE_TRIANGLE | DXIL_INPUT_PRIMITIVE_LINES_ADJENCY |
  DXIL_INPUT_PRIMITIVE_TRIANGLES_ADJENCY

primrec dxil_input_primitive_value :: "dxil_input_primitive \<Rightarrow> nat" where
  "dxil_input_primitive_value DXIL_INPUT_PRIMITIVE_UNDEFINED = 0"
| "dxil_input_primitive_value DXIL_INPUT_PRIMITIVE_POINT = 1"
| "dxil_input_primitive_value DXIL_INPUT_PRIMITIVE_LINE = 2"
| "dxil_input_primitive_value DXIL_INPUT_PRIMITIVE_TRIANGLE = 3"
| "dxil_input_primitive_value DXIL_INPUT_PRIMITIVE_LINES_ADJENCY = 6"
| "dxil_input_primitive_value DXIL_INPUT_PRIMITIVE_TRIANGLES_ADJENCY = 7"

datatype dxil_primitive_topology =
  DXIL_PRIMITIVE_TOPOLOGY_UNDEFINED | DXIL_PRIMITIVE_TOPOLOGY_POINT_LIST |
  DXIL_PRIMITIVE_TOPOLOGY_LINE_LIST | DXIL_PRIMITIVE_TOPOLOGY_LINE_STRIP |
  DXIL_PRIMITIVE_TOPOLOGY_TRIANGLE_LIST | DXIL_PRIMITIVE_TOPOLOGY_TRIANGLE_STRIP

primrec dxil_primitive_topology_value :: "dxil_primitive_topology \<Rightarrow> nat" where
  "dxil_primitive_topology_value DXIL_PRIMITIVE_TOPOLOGY_UNDEFINED = 0"
| "dxil_primitive_topology_value DXIL_PRIMITIVE_TOPOLOGY_POINT_LIST = 1"
| "dxil_primitive_topology_value DXIL_PRIMITIVE_TOPOLOGY_LINE_LIST = 2"
| "dxil_primitive_topology_value DXIL_PRIMITIVE_TOPOLOGY_LINE_STRIP = 3"
| "dxil_primitive_topology_value DXIL_PRIMITIVE_TOPOLOGY_TRIANGLE_LIST = 4"
| "dxil_primitive_topology_value DXIL_PRIMITIVE_TOPOLOGY_TRIANGLE_STRIP = 5"

datatype dxil_address_space =
  DXIL_AS_DEFAULT | DXIL_AS_DEVMEM | DXIL_AS_CBUF | DXIL_AS_GROUPSHARED

primrec dxil_address_space_value :: "dxil_address_space \<Rightarrow> nat" where
  "dxil_address_space_value DXIL_AS_DEFAULT = 0"
| "dxil_address_space_value DXIL_AS_DEVMEM = 1"
| "dxil_address_space_value DXIL_AS_CBUF = 2"
| "dxil_address_space_value DXIL_AS_GROUPSHARED = 3"

datatype dxil_rmw_op =
  DXIL_RMWOP_XCHG | DXIL_RMWOP_ADD | DXIL_RMWOP_SUB | DXIL_RMWOP_AND | DXIL_RMWOP_NAND |
  DXIL_RMWOP_OR | DXIL_RMWOP_XOR | DXIL_RMWOP_MAX | DXIL_RMWOP_MIN | DXIL_RMWOP_UMAX |
  DXIL_RMWOP_UMIN

primrec dxil_rmw_op_value :: "dxil_rmw_op \<Rightarrow> nat" where
  "dxil_rmw_op_value DXIL_RMWOP_XCHG = 0"
| "dxil_rmw_op_value DXIL_RMWOP_ADD = 1"
| "dxil_rmw_op_value DXIL_RMWOP_SUB = 2"
| "dxil_rmw_op_value DXIL_RMWOP_AND = 3"
| "dxil_rmw_op_value DXIL_RMWOP_NAND = 4"
| "dxil_rmw_op_value DXIL_RMWOP_OR = 5"
| "dxil_rmw_op_value DXIL_RMWOP_XOR = 6"
| "dxil_rmw_op_value DXIL_RMWOP_MAX = 7"
| "dxil_rmw_op_value DXIL_RMWOP_MIN = 8"
| "dxil_rmw_op_value DXIL_RMWOP_UMAX = 9"
| "dxil_rmw_op_value DXIL_RMWOP_UMIN = 10"

datatype dxil_atomic_ordering =
  DXIL_ATOMIC_ORDERING_NOTATOMIC | DXIL_ATOMIC_ORDERING_UNORDERED |
  DXIL_ATOMIC_ORDERING_MONOTONIC | DXIL_ATOMIC_ORDERING_ACQUIRE |
  DXIL_ATOMIC_ORDERING_RELEASE | DXIL_ATOMIC_ORDERING_ACQREL | DXIL_ATOMIC_ORDERING_SEQCST

primrec dxil_atomic_ordering_value :: "dxil_atomic_ordering \<Rightarrow> nat" where
  "dxil_atomic_ordering_value DXIL_ATOMIC_ORDERING_NOTATOMIC = 0"
| "dxil_atomic_ordering_value DXIL_ATOMIC_ORDERING_UNORDERED = 1"
| "dxil_atomic_ordering_value DXIL_ATOMIC_ORDERING_MONOTONIC = 2"
| "dxil_atomic_ordering_value DXIL_ATOMIC_ORDERING_ACQUIRE = 3"
| "dxil_atomic_ordering_value DXIL_ATOMIC_ORDERING_RELEASE = 4"
| "dxil_atomic_ordering_value DXIL_ATOMIC_ORDERING_ACQREL = 5"
| "dxil_atomic_ordering_value DXIL_ATOMIC_ORDERING_SEQCST = 6"

datatype dxil_sync_scope =
  DXIL_SYNC_SCOPE_SINGLETHREAD | DXIL_SYNC_SCOPE_CROSSTHREAD

primrec dxil_sync_scope_value :: "dxil_sync_scope \<Rightarrow> nat" where
  "dxil_sync_scope_value DXIL_SYNC_SCOPE_SINGLETHREAD = 0"
| "dxil_sync_scope_value DXIL_SYNC_SCOPE_CROSSTHREAD = 1"

datatype dxil_shader_kind =
  DXIL_PIXEL_SHADER | DXIL_VERTEX_SHADER | DXIL_GEOMETRY_SHADER | DXIL_HULL_SHADER |
  DXIL_DOMAIN_SHADER | DXIL_COMPUTE_SHADER

primrec dxil_shader_kind_value :: "dxil_shader_kind \<Rightarrow> nat" where
  "dxil_shader_kind_value DXIL_PIXEL_SHADER = 0"
| "dxil_shader_kind_value DXIL_VERTEX_SHADER = 1"
| "dxil_shader_kind_value DXIL_GEOMETRY_SHADER = 2"
| "dxil_shader_kind_value DXIL_HULL_SHADER = 3"
| "dxil_shader_kind_value DXIL_DOMAIN_SHADER = 4"
| "dxil_shader_kind_value DXIL_COMPUTE_SHADER = 5"

datatype dxil_bin_opcode =
  DXIL_BINOP_ADD | DXIL_BINOP_SUB | DXIL_BINOP_MUL | DXIL_BINOP_UDIV | DXIL_BINOP_SDIV |
  DXIL_BINOP_UREM | DXIL_BINOP_SREM | DXIL_BINOP_SHL | DXIL_BINOP_LSHR | DXIL_BINOP_ASHR |
  DXIL_BINOP_AND | DXIL_BINOP_OR | DXIL_BINOP_XOR | DXIL_BINOP_INSTR_COUNT

primrec dxil_bin_opcode_value :: "dxil_bin_opcode \<Rightarrow> nat" where
  "dxil_bin_opcode_value DXIL_BINOP_ADD = 0"
| "dxil_bin_opcode_value DXIL_BINOP_SUB = 1"
| "dxil_bin_opcode_value DXIL_BINOP_MUL = 2"
| "dxil_bin_opcode_value DXIL_BINOP_UDIV = 3"
| "dxil_bin_opcode_value DXIL_BINOP_SDIV = 4"
| "dxil_bin_opcode_value DXIL_BINOP_UREM = 5"
| "dxil_bin_opcode_value DXIL_BINOP_SREM = 6"
| "dxil_bin_opcode_value DXIL_BINOP_SHL = 7"
| "dxil_bin_opcode_value DXIL_BINOP_LSHR = 8"
| "dxil_bin_opcode_value DXIL_BINOP_ASHR = 9"
| "dxil_bin_opcode_value DXIL_BINOP_AND = 10"
| "dxil_bin_opcode_value DXIL_BINOP_OR = 11"
| "dxil_bin_opcode_value DXIL_BINOP_XOR = 12"
| "dxil_bin_opcode_value DXIL_BINOP_INSTR_COUNT = 13"

datatype dxil_cast_opcode =
  DXIL_CAST_TRUNC | DXIL_CAST_ZEXT | DXIL_CAST_SEXT | DXIL_CAST_FPTOUI | DXIL_CAST_FPTOSI |
  DXIL_CAST_UITOFP | DXIL_CAST_SITOFP | DXIL_CAST_FPTRUNC | DXIL_CAST_FPEXT |
  DXIL_CAST_PTRTOINT | DXIL_CAST_INTTOPTR | DXIL_CAST_BITCAST | DXIL_CAST_ADDRSPACECAST |
  DXIL_CAST_INSTR_COUNT

primrec dxil_cast_opcode_value :: "dxil_cast_opcode \<Rightarrow> nat" where
  "dxil_cast_opcode_value DXIL_CAST_TRUNC = 0"
| "dxil_cast_opcode_value DXIL_CAST_ZEXT = 1"
| "dxil_cast_opcode_value DXIL_CAST_SEXT = 2"
| "dxil_cast_opcode_value DXIL_CAST_FPTOUI = 3"
| "dxil_cast_opcode_value DXIL_CAST_FPTOSI = 4"
| "dxil_cast_opcode_value DXIL_CAST_UITOFP = 5"
| "dxil_cast_opcode_value DXIL_CAST_SITOFP = 6"
| "dxil_cast_opcode_value DXIL_CAST_FPTRUNC = 7"
| "dxil_cast_opcode_value DXIL_CAST_FPEXT = 8"
| "dxil_cast_opcode_value DXIL_CAST_PTRTOINT = 9"
| "dxil_cast_opcode_value DXIL_CAST_INTTOPTR = 10"
| "dxil_cast_opcode_value DXIL_CAST_BITCAST = 11"
| "dxil_cast_opcode_value DXIL_CAST_ADDRSPACECAST = 12"
| "dxil_cast_opcode_value DXIL_CAST_INSTR_COUNT = 13"

datatype dxil_cmp_pred =
  DXIL_FCMP_FALSE | DXIL_FCMP_OEQ | DXIL_FCMP_OGT | DXIL_FCMP_OGE | DXIL_FCMP_OLT |
  DXIL_FCMP_OLE | DXIL_FCMP_ONE | DXIL_FCMP_ORD | DXIL_FCMP_UNO | DXIL_FCMP_UEQ |
  DXIL_FCMP_UGT | DXIL_FCMP_UGE | DXIL_FCMP_ULT | DXIL_FCMP_ULE | DXIL_FCMP_UNE |
  DXIL_FCMP_TRUE | DXIL_ICMP_EQ | DXIL_ICMP_NE | DXIL_ICMP_UGT | DXIL_ICMP_UGE |
  DXIL_ICMP_ULT | DXIL_ICMP_ULE | DXIL_ICMP_SGT | DXIL_ICMP_SGE | DXIL_ICMP_SLT |
  DXIL_ICMP_SLE | DXIL_CMP_INSTR_COUNT

primrec dxil_cmp_pred_value :: "dxil_cmp_pred \<Rightarrow> nat" where
  "dxil_cmp_pred_value DXIL_FCMP_FALSE = 0"
| "dxil_cmp_pred_value DXIL_FCMP_OEQ = 1"
| "dxil_cmp_pred_value DXIL_FCMP_OGT = 2"
| "dxil_cmp_pred_value DXIL_FCMP_OGE = 3"
| "dxil_cmp_pred_value DXIL_FCMP_OLT = 4"
| "dxil_cmp_pred_value DXIL_FCMP_OLE = 5"
| "dxil_cmp_pred_value DXIL_FCMP_ONE = 6"
| "dxil_cmp_pred_value DXIL_FCMP_ORD = 7"
| "dxil_cmp_pred_value DXIL_FCMP_UNO = 8"
| "dxil_cmp_pred_value DXIL_FCMP_UEQ = 9"
| "dxil_cmp_pred_value DXIL_FCMP_UGT = 10"
| "dxil_cmp_pred_value DXIL_FCMP_UGE = 11"
| "dxil_cmp_pred_value DXIL_FCMP_ULT = 12"
| "dxil_cmp_pred_value DXIL_FCMP_ULE = 13"
| "dxil_cmp_pred_value DXIL_FCMP_UNE = 14"
| "dxil_cmp_pred_value DXIL_FCMP_TRUE = 15"
| "dxil_cmp_pred_value DXIL_ICMP_EQ = 32"
| "dxil_cmp_pred_value DXIL_ICMP_NE = 33"
| "dxil_cmp_pred_value DXIL_ICMP_UGT = 34"
| "dxil_cmp_pred_value DXIL_ICMP_UGE = 35"
| "dxil_cmp_pred_value DXIL_ICMP_ULT = 36"
| "dxil_cmp_pred_value DXIL_ICMP_ULE = 37"
| "dxil_cmp_pred_value DXIL_ICMP_SGT = 38"
| "dxil_cmp_pred_value DXIL_ICMP_SGE = 39"
| "dxil_cmp_pred_value DXIL_ICMP_SLT = 40"
| "dxil_cmp_pred_value DXIL_ICMP_SLE = 41"
| "dxil_cmp_pred_value DXIL_CMP_INSTR_COUNT = 42"

section \<open>Primitives\<close>

datatype mesa_prim =
  MESA_PRIM_POINTS | MESA_PRIM_LINES | MESA_PRIM_LINE_LOOP | MESA_PRIM_LINE_STRIP |
  MESA_PRIM_TRIANGLES | MESA_PRIM_TRIANGLE_STRIP | MESA_PRIM_TRIANGLE_FAN | MESA_PRIM_QUADS |
  MESA_PRIM_QUAD_STRIP | MESA_PRIM_POLYGON | MESA_PRIM_LINES_ADJACENCY |
  MESA_PRIM_LINE_STRIP_ADJACENCY | MESA_PRIM_TRIANGLES_ADJACENCY |
  MESA_PRIM_TRIANGLE_STRIP_ADJACENCY | MESA_PRIM_PATCHES | MESA_PRIM_COUNT | MESA_PRIM_UNKNOWN

section \<open>The functions of \<open>dxil_enums.c\<close>\<close>

definition dxil_get_prog_sig_comp_type :: "glsl_type \<Rightarrow> dxil_prog_sig_comp_type" where
  "dxil_get_prog_sig_comp_type type =
     (case base_type (glsl_without_array type) of
        GLSL_TYPE_UINT \<Rightarrow> DXIL_PROG_SIG_COMP_TYPE_UINT32
      | GLSL_TYPE_INT \<Rightarrow> DXIL_PROG_SIG_COMP_TYPE_SINT32
      | GLSL_TYPE_FLOAT \<Rightarrow> DXIL_PROG_SIG_COMP_TYPE_FLOAT32
      | GLSL_TYPE_FLOAT16 \<Rightarrow> DXIL_PROG_SIG_COMP_TYPE_FLOAT16
      | GLSL_TYPE_DOUBLE \<Rightarrow> DXIL_PROG_SIG_COMP_TYPE_UINT32
      | GLSL_TYPE_UINT16 \<Rightarrow> DXIL_PROG_SIG_COMP_TYPE_UINT16
      | GLSL_TYPE_INT16 \<Rightarrow> DXIL_PROG_SIG_COMP_TYPE_SINT16
      | GLSL_TYPE_UINT64 \<Rightarrow> DXIL_PROG_SIG_COMP_TYPE_UINT32
      | GLSL_TYPE_INT64 \<Rightarrow> DXIL_PROG_SIG_COMP_TYPE_SINT32
      | GLSL_TYPE_BOOL \<Rightarrow> DXIL_PROG_SIG_COMP_TYPE_UINT32
      | GLSL_TYPE_STRUCT \<Rightarrow> DXIL_PROG_SIG_COMP_TYPE_FLOAT32
      | _ \<Rightarrow> DXIL_PROG_SIG_COMP_TYPE_UNKNOWN)"

definition dxil_get_comp_type_from_prog_sig_type ::
  "dxil_prog_sig_comp_type \<Rightarrow> dxil_component_type result" where
  "dxil_get_comp_type_from_prog_sig_type type =
     (case type of
        DXIL_PROG_SIG_COMP_TYPE_UINT32 \<Rightarrow> Inr DXIL_COMP_TYPE_U32
      | DXIL_PROG_SIG_COMP_TYPE_SINT32 \<Rightarrow> Inr DXIL_COMP_TYPE_I32
      | DXIL_PROG_SIG_COMP_TYPE_FLOAT32 \<Rightarrow> Inr DXIL_COMP_TYPE_F32
      | DXIL_PROG_SIG_COMP_TYPE_UINT16 \<Rightarrow> Inr DXIL_COMP_TYPE_U16
      | DXIL_PROG_SIG_COMP_TYPE_SINT16 \<Rightarrow> Inr DXIL_COMP_TYPE_I16
      | DXIL_PROG_SIG_COMP_TYPE_FLOAT16 \<Rightarrow> Inr DXIL_COMP_TYPE_F16
      | _ \<Rightarrow> Inl Unreachable)"

definition dxil_get_comp_type :: "glsl_type \<Rightarrow> dxil_component_type result" where
  "dxil_get_comp_type type =
     (let type = glsl_without_array type;
          base = (if glsl_type_is_texture type \<or> glsl_type_is_image type
                  then sampled_type type else base_type type) in
      case base of
        GLSL_TYPE_UINT \<Rightarrow> Inr DXIL_COMP_TYPE_U32
      | GLSL_TYPE_INT \<Rightarrow> Inr DXIL_COMP_TYPE_I32
      | GLSL_TYPE_FLOAT \<Rightarrow> Inr DXIL_COMP_TYPE_F32
      | GLSL_TYPE_FLOAT16 \<Rightarrow> Inr DXIL_COMP_TYPE_F16
      | GLSL_TYPE_DOUBLE \<Rightarrow> Inr DXIL_COMP_TYPE_F64
      | GLSL_TYPE_UINT16 \<Rightarrow> Inr DXIL_COMP_TYPE_U16
      | GLSL_TYPE_INT16 \<Rightarrow> Inr DXIL_COMP_TYPE_I16
      | GLSL_TYPE_UINT64 \<Rightarrow> Inr DXIL_COMP_TYPE_U64
      | GLSL_TYPE_INT64 \<Rightarrow> Inr DXIL_COMP_TYPE_I64
      | GLSL_TYPE_BOOL \<Rightarrow> Inr DXIL_COMP_TYPE_I1
      | _ \<Rightarrow> Inl Unreachable)"

fun dxil_sampler_dim_to_resource_kind :: "glsl_sampler_dim \<Rightarrow> bool \<Rightarrow> dxil_resource_kind" where
  "dxil_sampler_dim_to_resource_kind GLSL_SAMPLER_DIM_1D is_array =
     (if is_array then DXIL_RESOURCE_KIND_TEXTURE1D_ARRAY else DXIL_RESOURCE_KIND_TEXTURE1D)"
| "dxil_sampler_dim_to_resource_kind GLSL_SAMPLER_DIM_2D is_array =
     (if is_array then DXIL_RESOURCE_KIND_TEXTURE2D_ARRAY else DXIL_RESOURCE_KIND_TEXTURE2D)"
| "dxil_sampler_dim_to_resource_kind GLSL_SAMPLER_DIM_EXTERNAL is_array =
     (if is_array then DXIL_RESOURCE_KIND_TEXTURE2D_ARRAY else DXIL_RESOURCE_KIND_TEXTURE2D)"
| "dxil_sampler_dim_to_resource_kind GLSL_SAMPLER_DIM_SUBPASS is_array =
     DXIL_RESOURCE_KIND_TEXTURE2D_ARRAY"
| "dxil_sampler_dim_to_resource_kind GLSL_SAMPLER_DIM_3D is_array = DXIL_RESOURCE_KIND_TEXTURE3D"
| "dxil_sampler_dim_to_resource_kind GLSL_SAMPLER_DIM_CUBE is_array =
     (if is_array then DXIL_RESOURCE_KIND_TEXTURECUBE_ARRAY else DXIL_RESOURCE_KIND_TEXTURECUBE)"
| "dxil_sampler_dim_to_resource_kind GLSL_SAMPLER_DIM_RECT is_array = DXIL_RESOURCE_KIND_TEXTURE2D"
| "dxil_sampler_dim_to_resource_kind GLSL_SAMPLER_DIM_BUF is_array = DXIL_RESOURCE_KIND_TYPED_BUFFER"
| "dxil_sampler_dim_to_resource_kind GLSL_SAMPLER_DIM_MS is_array =
     (if is_array then DXIL_RESOURCE_KIND_TEXTURE2DMS_ARRAY else DXIL_RESOURCE_KIND_TEXTURE2DMS)"
| "dxil_sampler_dim_to_resource_kind GLSL_SAMPLER_DIM_SUBPASS_MS is_array =
     DXIL_RESOURCE_KIND_TEXTURE2DMS_ARRAY"

definition dxil_get_resource_kind :: "glsl_type \<Rightarrow> dxil_resource_kind result" where
  "dxil_get_resource_kind type =
     (let type = glsl_without_array type
      in bind_result (glsl_sampler_type_is_array type) (\<lambda>is_array.
           if glsl_type_is_texture type \<or> glsl_type_is_image type
           then Inr (dxil_sampler_dim_to_resource_kind (sampler_dimensionality type) is_array)
           else Inl Unreachable))"

definition dxil_get_input_primitive :: "mesa_prim \<Rightarrow> dxil_input_primitive result" where
  "dxil_get_input_primitive primitive =
     (case primitive of
        MESA_PRIM_POINTS \<Rightarrow> Inr DXIL_INPUT_PRIMITIVE_POINT
      | MESA_PRIM_LINES \<Rightarrow> Inr DXIL_INPUT_PRIMITIVE_LINE
      | MESA_PRIM_LINES_ADJACENCY \<Rightarrow> Inr DXIL_INPUT_PRIMITIVE_LINES_ADJENCY
      | MESA_PRIM_TRIANGLES \<Rightarrow> Inr DXIL_INPUT_PRIMITIVE_TRIANGLE
      | MESA_PRIM_TRIANGLES_ADJACENCY \<Rightarrow> Inr DXIL_INPUT_PRIMITIVE_TRIANGLES_ADJENCY
      | _ \<Rightarrow> Inl Unreachable)"

definition dxil_get_primitive_topology :: "mesa_prim \<Rightarrow> dxil_primitive_topology result" where
  "dxil_get_primitive_topology topology =
     (case topology of
        MESA_PRIM_POINTS \<Rightarrow> Inr DXIL_PRIMITIVE_TOPOLOGY_POINT_LIST
      | MESA_PRIM_LINES \<Rightarrow> Inr DXIL_PRIMITIVE_TOPOLOGY_LINE_LIST
      | MESA_PRIM_LINE_STRIP \<Rightarrow> Inr DXIL_PRIMITIVE_TOPOLOGY_LINE_STRIP
      | MESA_PRIM_TRIANGLE_STRIP \<Rightarrow> Inr DXIL_PRIMITIVE_TOPOLOGY_TRIANGLE_STRIP
      | _ \<Rightarrow> Inl Unreachable)"

fun dxil_overload_suffix :: "overload_type \<Rightarrow> string result" where
  "dxil_overload_suffix DXIL_NONE = Inr []"
| "dxil_overload_suffix DXIL_I1 = Inr ''i1''"
| "dxil_overload_suffix DXIL_I16 = Inr ''i16''"
| "dxil_overload_suffix DXIL_I32 = Inr ''i32''"
| "dxil_overload_suffix DXIL_I64 = Inr ''i64''"
| "dxil_overload_suffix DXIL_F16 = Inr ''f16''"
| "dxil_overload_suffix DXIL_F32 = Inr ''f32''"
| "dxil_overload_suffix DXIL_F64 = Inr ''f64''"
| "dxil_overload_suffix DXIL_NUM_OVERLOADS = Inl Assertion"

end
