(* ===== verification/Module_State.thy ===== *)
theory Module_State
  imports Bitcode Enums
begin

text \<open>
  The state of \<open>src/mesa/src/microsoft/compiler/dxil_module.c\<close>: the structures of \<open>dxil_internal.h\<close>
  and the part of \<open>struct dxil_module\<close> (\<open>dxil_module.h\<close>) that the module builder and the bitcode
  emission use.

  The C code links heap nodes into lists that only ever grow at the end and hands out pointers to
  them. Here each list of the module is a HOL list and a pointer to a node is the position of the
  node: a type is a \<open>nat\<close> into \<open>type_list\<close>, a metadata node a \<open>nat\<close> into \<open>mdnode_list\<close>, and a
  \<open>struct dxil_value *\<close>, which points into a global, a function, a constant or an instruction, is a
  \<open>val_ref\<close>. Comparing pointers is comparing positions. The allocation of these small nodes
  (\<open>ralloc\<close>) is taken to succeed.
\<close>

type_synonym ty = nat
type_synonym mdref = nat

datatype dxil_type =
  TYPE_VOID
| TYPE_INTEGER nat
| TYPE_FLOAT nat
| TYPE_POINTER ty
| TYPE_STRUCT "string option" "ty list"
| TYPE_ARRAY ty nat
| TYPE_VECTOR ty nat
| TYPE_FUNCTION ty "ty list"

datatype val_ref = GVAR_REF nat | FUNC_REF nat | CONST_REF nat | INSTR_REF nat nat

record dxil_value =
  value_id :: int
  value_type :: ty

record dxil_gvar =
  gvar_name :: string
  gvar_type :: ty
  gvar_constant :: bool
  gvar_as :: dxil_address_space
  gvar_align :: int
  gvar_initializer :: "val_ref option"
  gvar_value :: dxil_value

record dxil_func =
  func_name :: string
  func_type :: ty
  func_decl :: bool
  func_attr_set :: nat
  func_value :: dxil_value

datatype dxil_attrib =
  DXIL_ATTR_ENUM dxil_attr_kind
| DXIL_ATTR_ENUM_VALUE dxil_attr_kind "64 word"
| DXIL_ATTR_STRING string
| DXIL_ATTR_STRING_VALUE string string

fun attrib_type :: "dxil_attrib \<Rightarrow> nat" where
  "attrib_type (DXIL_ATTR_ENUM _) = 0"
| "attrib_type (DXIL_ATTR_ENUM_VALUE _ _) = 1"
| "attrib_type (DXIL_ATTR_STRING _) = 3"
| "attrib_type (DXIL_ATTR_STRING_VALUE _ _) = 4"

text \<open>
  The array \<open>attrs[2]\<close> of \<open>struct attrib_set\<close> up to \<open>num_attrs\<close>; what lies beyond is never read.
\<close>

type_synonym attrib_set = "dxil_attrib list"

text \<open>
  The union of \<open>struct dxil_const\<close>. Which member is in use follows from the type of the constant;
  floating-point values are bit patterns.
\<close>

datatype const_data =
  UNDEF
| INT_VALUE "64 word"
| FLOAT_VALUE "32 word"
| DOUBLE_VALUE "64 word"
| VALUES "val_ref list"

record dxil_const =
  const_value :: dxil_value
  const_data :: const_data

datatype instr_data =
  INSTR_BINOP dxil_bin_opcode val_ref val_ref nat
| INSTR_CMP dxil_cmp_pred val_ref val_ref
| INSTR_SELECT val_ref val_ref val_ref
| INSTR_CAST dxil_cast_opcode ty val_ref
| INSTR_BR "val_ref option" nat nat
| INSTR_PHI ty "(val_ref \<times> nat) list"
| INSTR_CALL nat "val_ref list"
| INSTR_RET "val_ref option"
| INSTR_EXTRACTVAL val_ref ty nat
| INSTR_ALLOCA ty ty val_ref nat
| INSTR_GEP bool ty "val_ref list"
| INSTR_LOAD val_ref ty nat bool
| INSTR_STORE val_ref val_ref nat bool
| INSTR_ATOMICRMW val_ref val_ref dxil_rmw_op bool dxil_atomic_ordering dxil_sync_scope
| INSTR_CMPXCHG val_ref val_ref val_ref bool dxil_atomic_ordering dxil_sync_scope

record dxil_instr =
  instr_data :: instr_data
  has_value :: bool
  instr_value :: dxil_value

record dxil_func_def =
  def_func :: nat
  instr_list :: "dxil_instr list"
  basic_block_ids :: "int list"
  curr_block :: nat

text \<open>A subnode may be a null pointer.\<close>

datatype dxil_mdnode =
  MD_STRING string
| MD_VALUE ty val_ref
| MD_NODE "mdref option list"

record dxil_named_node =
  named_name :: string
  named_subnodes :: "mdref option list"

text \<open>
  The writer holds the fields \<open>buf\<close> and \<open>blocks\<close>. \<open>function_tree\<close> is the red-black tree of predefined
  functions, by name and overload, of \<open>dxil_function.c\<close>. A null pointer is \<open>None\<close>.
\<close>

record dxil_module =
  m_writer :: writer
  type_list :: "dxil_type list"
  gvar_list :: "dxil_gvar list"
  func_list :: "dxil_func list"
  func_def_list :: "dxil_func_def list"
  attr_set_list :: "attrib_set list"
  const_list :: "dxil_const list"
  mdnode_list :: "dxil_mdnode list"
  md_named_node_list :: "dxil_named_node list"
  void_type :: "ty option"
  int1_type :: "ty option"
  int8_type :: "ty option"
  int16_type :: "ty option"
  int32_type :: "ty option"
  int64_type :: "ty option"
  float16_type :: "ty option"
  float32_type :: "ty option"
  float64_type :: "ty option"
  function_tree :: "((string \<times> overload_type) \<times> nat) list"
  cur_emitting_func :: "nat option"

definition dxil_module_init :: "nat \<Rightarrow> 8 word \<Rightarrow> dxil_module" where
  "dxil_module_init limit j =
     \<lparr>m_writer = \<lparr>wbuf = dxil_buffer_init limit j 2, blocks = []\<rparr>,
      type_list = [], gvar_list = [], func_list = [], func_def_list = [], attr_set_list = [],
      const_list = [], mdnode_list = [], md_named_node_list = [],
      void_type = None, int1_type = None, int8_type = None, int16_type = None, int32_type = None,
      int64_type = None, float16_type = None, float32_type = None, float64_type = None,
      function_tree = [], cur_emitting_func = None\<rparr>"

section \<open>Following pointers\<close>

text \<open>
  A position outside its list stands for no node; the lookups then give a default that no valid
  pointer leads to.
\<close>

definition nth_or :: "'a \<Rightarrow> 'a list \<Rightarrow> nat \<Rightarrow> 'a" where
  "nth_or d xs i = (if i < length xs then xs ! i else d)"

definition no_value :: dxil_value where
  "no_value = \<lparr>value_id = -1, value_type = 0\<rparr>"

definition type_at :: "dxil_module \<Rightarrow> ty \<Rightarrow> dxil_type" where
  "type_at m t = nth_or TYPE_VOID (type_list m) t"

fun get_value :: "dxil_module \<Rightarrow> val_ref \<Rightarrow> dxil_value" where
  "get_value m (GVAR_REF i) = (if i < length (gvar_list m) then gvar_value (gvar_list m ! i) else no_value)"
| "get_value m (FUNC_REF i) = (if i < length (func_list m) then func_value (func_list m ! i) else no_value)"
| "get_value m (CONST_REF i) = (if i < length (const_list m) then const_value (const_list m ! i) else no_value)"
| "get_value m (INSTR_REF f i) =
     (if f < length (func_def_list m) \<and> i < length (instr_list (func_def_list m ! f))
      then instr_value (instr_list (func_def_list m ! f) ! i) else no_value)"

abbreviation id_of :: "dxil_module \<Rightarrow> val_ref \<Rightarrow> int" where
  "id_of m v \<equiv> value_id (get_value m v)"

abbreviation type_of :: "dxil_module \<Rightarrow> val_ref \<Rightarrow> ty" where
  "type_of m v \<equiv> value_type (get_value m v)"

text \<open>The conversion of an \<open>int\<close> to \<open>uint64_t\<close>, as in the initialisers of the record arrays.\<close>

abbreviation u64 :: "int \<Rightarrow> 64 word" where
  "u64 \<equiv> of_int"

text \<open>\<open>util_logbase2\<close> of \<open>u_math.h\<close>: the position of the highest bit of \<open>n | 1\<close>.\<close>

fun util_logbase2 :: "nat \<Rightarrow> nat" where
  "util_logbase2 n = (if n < 2 then 0 else Suc (util_logbase2 (n div 2)))"

declare util_logbase2.simps [simp del]

lemma util_logbase2_bound: "n < 2 ^ Suc (util_logbase2 n)"
proof (induction n rule: util_logbase2.induct)
  case (1 n)
  show ?case
  proof (cases "n < 2")
    case True
    then show ?thesis by (simp add: util_logbase2.simps)
  next
    case False
    then have "n div 2 < 2 ^ Suc (util_logbase2 (n div 2))" by (rule "1.IH")
    then have "n < 2 * 2 ^ Suc (util_logbase2 (n div 2))" by linarith
    then show ?thesis using False by (subst util_logbase2.simps) simp
  qed
qed

lemma util_logbase2_mono: "m \<le> n \<Longrightarrow> util_logbase2 m \<le> util_logbase2 n"
proof (induction m arbitrary: n rule: util_logbase2.induct)
  case (1 m)
  show ?case
  proof (cases "m < 2")
    case True
    then show ?thesis by (simp add: util_logbase2.simps)
  next
    case False
    then have "util_logbase2 (m div 2) \<le> util_logbase2 (n div 2)"
      using "1.IH" "1.prems" by (simp add: div_le_mono)
    then show ?thesis
      using False "1.prems" by (subst (1 2) util_logbase2.simps) simp
  qed
qed

section \<open>Interning\<close>

text \<open>\<open>LIST_FOR_EACH_ENTRY\<close> with a \<open>return\<close> at the first node that matches.\<close>

fun find_pos :: "('a \<Rightarrow> bool) \<Rightarrow> 'a list \<Rightarrow> nat option" where
  "find_pos P [] = None"
| "find_pos P (x # xs) = (if P x then Some 0 else map_option Suc (find_pos P xs))"

lemma find_pos_Some: "find_pos P xs = Some i \<Longrightarrow> i < length xs \<and> P (xs ! i)"
proof (induction xs arbitrary: i)
  case (Cons x xs)
  then show ?case by (cases "P x") auto
qed simp

lemma find_pos_first: "find_pos P xs = Some i \<Longrightarrow> j < i \<Longrightarrow> \<not> P (xs ! j)"
proof (induction xs arbitrary: i j)
  case (Cons x xs)
  then show ?case by (cases "P x"; cases j) auto
qed simp

lemma find_pos_None: "find_pos P xs = None \<longleftrightarrow> (\<forall>x \<in> set xs. \<not> P x)"
  by (induction xs) auto

lemma find_pos_append:
  "find_pos P (xs @ ys) = (case find_pos P xs of Some i \<Rightarrow> Some i
     | None \<Rightarrow> map_option ((+) (length xs)) (find_pos P ys))"
  by (induction xs) (auto simp: map_option_case split: option.splits)

end
