(* ===== verification/Interning.thy ===== *)
theory Interning
  imports Module_State
begin

text \<open>
  What the tables of a module have in common: a getter looks for the first entry that matches its
  key and appends a new one when there is none. An entry never moves and never goes away, so the
  reference that a getter returns stays good for as long as the table only grows.
\<close>

locale interning =
  fixes get :: "'k \<Rightarrow> 's \<Rightarrow> 'r \<times> 's"
    and table :: "'s \<Rightarrow> 'x list"
    and ref :: "nat \<Rightarrow> 'r"
    and matches :: "'k \<Rightarrow> 'x \<Rightarrow> bool"
    and entry :: "'k \<Rightarrow> 'x"
  assumes get_found: "find_pos (matches k) (table s) = Some i \<Longrightarrow> get k s = (ref i, s)"
    and get_new: "find_pos (matches k) (table s) = None \<Longrightarrow> get k s = (r, s') \<Longrightarrow>
      r = ref (length (table s)) \<and> table s' = table s @ [entry k]"
begin

lemma get_cases:
  assumes "get k s = (r, s')"
  obtains (found) i where "r = ref i" and "s' = s" and "i < length (table s)"
      and "matches k (table s ! i)" and "find_pos (matches k) (table s) = Some i"
    | (fresh) "r = ref (length (table s))" and "table s' = table s @ [entry k]"
      and "\<forall>x \<in> set (table s). \<not> matches k x" and "find_pos (matches k) (table s) = None"
proof (cases "find_pos (matches k) (table s)")
  case None
  then show ?thesis using fresh get_new [OF None assms] by (simp add: find_pos_None)
next
  case (Some i)
  then show ?thesis using found [OF _ _ _ _ Some] get_found [OF Some] find_pos_Some [OF Some] assms by simp
qed

lemma get_grows:
  assumes "get k s = (r, s')"
  shows "\<exists>new i. table s' = table s @ new \<and> length new \<le> 1 \<and> r = ref i \<and> i < length (table s')"
  using assms by (cases rule: get_cases) auto

lemma get_entry:
  assumes "get k s = (r, s')"
  shows "\<exists>i. r = ref i \<and> i < length (table s') \<and>
    (matches k (table s' ! i) \<or> table s' ! i = entry k)"
  using assms by (cases rule: get_cases) (auto simp: nth_append)

end

text \<open>
  A getter is canonical when it compares everything that it stores, by a key \<open>view\<close> of the entries:
  then equal requests give equal references, and different ones different references.
\<close>

locale canonical = interning get table ref matches entry
  for get :: "'k \<Rightarrow> 's \<Rightarrow> 'r \<times> 's" and table :: "'s \<Rightarrow> 'x list" and ref :: "nat \<Rightarrow> 'r"
    and matches :: "'k \<Rightarrow> 'x \<Rightarrow> bool" and entry :: "'k \<Rightarrow> 'x" +
  fixes view :: "'x \<Rightarrow> 'y"
  assumes ref_inj: "ref i = ref j \<longleftrightarrow> i = j"
    and matches_view: "matches k x \<longleftrightarrow> view x = view (entry k)"
begin

lemma get_view:
  assumes "get k s = (r, s')"
  shows "\<exists>i. r = ref i \<and> i < length (table s') \<and> view (table s' ! i) = view (entry k)"
  using assms by (cases rule: get_cases) (auto simp: nth_append matches_view)

lemma get_again:
  assumes "get k s = (r, s')" and "table t = table s' @ later"
  shows "get k t = (r, t)"
  using assms(1)
proof (cases rule: get_cases)
  case (found i)
  then have "find_pos (matches k) (table t) = Some i" using assms(2) by (simp add: find_pos_append)
  then show ?thesis using get_found found by simp
next
  case fresh
  then have "find_pos (matches k) (table t) = Some (length (table s))"
    using assms(2) by (simp add: find_pos_append matches_view)
  then show ?thesis using get_found fresh by simp
qed

lemma get_same_iff:
  assumes "get k s = (r, s')" and "table t = table s' @ later" and "get l t = (q, t')"
  shows "r = q \<longleftrightarrow> view (entry k) = view (entry l)"
proof
  assume "r = q"
  obtain i where i: "r = ref i" "i < length (table s')" "view (table s' ! i) = view (entry k)"
    using get_view [OF assms(1)] by blast
  obtain j where j: "q = ref j" "j < length (table t')" "view (table t' ! j) = view (entry l)"
    using get_view [OF assms(3)] by blast
  obtain new where "table t' = table t @ new" using get_grows [OF assms(3)] by blast
  then have "table t' ! i = table s' ! i" using assms(2) i(2) by (simp add: nth_append)
  then show "view (entry k) = view (entry l)" using i j \<open>r = q\<close> ref_inj by simp
next
  assume v: "view (entry k) = view (entry l)"
  then have "matches k = matches l" by (simp add: matches_view fun_eq_iff)
  moreover have "get k t = (r, t)" by (rule get_again [OF assms(1,2)])
  ultimately show "r = q"
    using assms(3) get_found [of k t] get_found [of l t] get_new [of k t r t] find_pos_None [of "matches k" "table t"]
    by (cases "find_pos (matches k) (table t)") auto
qed

lemma get_distinct:
  assumes "get k s = (r, s')" and "distinct (map view (table s))"
  shows "distinct (map view (table s'))"
  using assms(1) by (cases rule: get_cases) (use assms(2) in \<open>auto simp: matches_view\<close>)

end

end
