(* ===== verification/Nir_Types.thy ===== *)
theory Nir_Types
  imports Main
begin

text \<open>The types of the values of NIR (\<open>nir.h\<close>).\<close>

text \<open>The value of a type is that of its base type or-ed with a number of bits, 0 for an unsized type.\<close>

datatype nir_base_type = NIR_INVALID | NIR_INT | NIR_UINT | NIR_BOOL | NIR_FLOAT

datatype nir_alu_type = NIR_ALU_TYPE nir_base_type nat

abbreviation nir_type_bool :: nir_alu_type where "nir_type_bool \<equiv> NIR_ALU_TYPE NIR_BOOL 0"
abbreviation nir_type_bool1 :: nir_alu_type where "nir_type_bool1 \<equiv> NIR_ALU_TYPE NIR_BOOL 1"
abbreviation nir_type_float :: nir_alu_type where "nir_type_float \<equiv> NIR_ALU_TYPE NIR_FLOAT 0"
abbreviation nir_type_float16 :: nir_alu_type where "nir_type_float16 \<equiv> NIR_ALU_TYPE NIR_FLOAT 16"
abbreviation nir_type_float32 :: nir_alu_type where "nir_type_float32 \<equiv> NIR_ALU_TYPE NIR_FLOAT 32"
abbreviation nir_type_float64 :: nir_alu_type where "nir_type_float64 \<equiv> NIR_ALU_TYPE NIR_FLOAT 64"
abbreviation nir_type_int :: nir_alu_type where "nir_type_int \<equiv> NIR_ALU_TYPE NIR_INT 0"
abbreviation nir_type_int1 :: nir_alu_type where "nir_type_int1 \<equiv> NIR_ALU_TYPE NIR_INT 1"
abbreviation nir_type_int16 :: nir_alu_type where "nir_type_int16 \<equiv> NIR_ALU_TYPE NIR_INT 16"
abbreviation nir_type_int32 :: nir_alu_type where "nir_type_int32 \<equiv> NIR_ALU_TYPE NIR_INT 32"
abbreviation nir_type_int64 :: nir_alu_type where "nir_type_int64 \<equiv> NIR_ALU_TYPE NIR_INT 64"
abbreviation nir_type_uint :: nir_alu_type where "nir_type_uint \<equiv> NIR_ALU_TYPE NIR_UINT 0"
abbreviation nir_type_uint1 :: nir_alu_type where "nir_type_uint1 \<equiv> NIR_ALU_TYPE NIR_UINT 1"
abbreviation nir_type_uint16 :: nir_alu_type where "nir_type_uint16 \<equiv> NIR_ALU_TYPE NIR_UINT 16"
abbreviation nir_type_uint32 :: nir_alu_type where "nir_type_uint32 \<equiv> NIR_ALU_TYPE NIR_UINT 32"
abbreviation nir_type_uint64 :: nir_alu_type where "nir_type_uint64 \<equiv> NIR_ALU_TYPE NIR_UINT 64"

fun nir_alu_type_get_base_type :: "nir_alu_type \<Rightarrow> nir_base_type" where
  "nir_alu_type_get_base_type (NIR_ALU_TYPE base bits) = base"

fun nir_alu_type_get_type_size :: "nir_alu_type \<Rightarrow> nat" where
  "nir_alu_type_get_type_size (NIR_ALU_TYPE base bits) = bits"

end
