(* ===== verification/Types.thy ===== *)
theory Types
  imports Interning Nir_Types
begin

text \<open>
  The type table of \<open>src/mesa/src/microsoft/compiler/dxil_module.c\<close>: creating and finding types,
  and the composite types of DXIL built from them. A type is identified with its position in
  \<open>type_list\<close>, which is also its \<open>id\<close>.
\<close>

definition create_type :: "dxil_type \<Rightarrow> dxil_module \<Rightarrow> ty \<times> dxil_module" where
  "create_type t m = (length (type_list m), m\<lparr>type_list := type_list m @ [t]\<rparr>)"

text \<open>
  \<open>types_equal\<close> recurses through the table; a call of depth \<open>n\<close> is given as fuel. A pair of
  different pointers with equal structure fails its last assertion, so \<open>True\<close> is only returned for
  equal pointers. The loop of \<open>type_list_equal\<close> stops at the first difference.
\<close>

fun types_equal :: "nat \<Rightarrow> dxil_module \<Rightarrow> ty \<Rightarrow> ty \<Rightarrow> bool result"
  and type_list_equal :: "nat \<Rightarrow> dxil_module \<Rightarrow> ty list \<Rightarrow> ty list \<Rightarrow> bool result" where
  "types_equal n m lhs rhs =
     (if lhs = rhs then Inr True
      else case n of
        0 \<Rightarrow> Inl Undefined
      | Suc n \<Rightarrow>
          bind_result
            (case (type_at m lhs, type_at m rhs) of
               (TYPE_VOID, TYPE_VOID) \<Rightarrow> Inr True
             | (TYPE_FLOAT a, TYPE_FLOAT b) \<Rightarrow> Inr (a = b)
             | (TYPE_INTEGER a, TYPE_INTEGER b) \<Rightarrow> Inr (a = b)
             | (TYPE_POINTER a, TYPE_POINTER b) \<Rightarrow> types_equal n m a b
             | (TYPE_ARRAY a k, TYPE_ARRAY b l) \<Rightarrow> if k = l then types_equal n m a b else Inr False
             | (TYPE_VECTOR a k, TYPE_VECTOR b l) \<Rightarrow> if k = l then types_equal n m a b else Inr False
             | (TYPE_FUNCTION a as, TYPE_FUNCTION b bs) \<Rightarrow>
                 bind_result (types_equal n m a b)
                   (\<lambda>e. if \<not> e then Inr False else type_list_equal n m as bs)
             | (TYPE_STRUCT _ as, TYPE_STRUCT _ bs) \<Rightarrow> type_list_equal n m as bs
             | _ \<Rightarrow> Inr False)
            (\<lambda>retval. if retval then Inl Assertion else Inr retval))"
| "type_list_equal n m [] [] = Inr True"
| "type_list_equal n m (a # as) (b # bs) =
     (if length as \<noteq> length bs then Inr False
      else bind_result (types_equal n m a b)
        (\<lambda>e. if \<not> e then Inr False else type_list_equal n m as bs))"
| "type_list_equal n m _ _ = Inr False"

declare types_equal.simps [simp del]

text \<open>The depth of a type in a table is at most the length of the table.\<close>

definition same_type :: "dxil_module \<Rightarrow> ty \<Rightarrow> ty \<Rightarrow> bool result" where
  "same_type m = types_equal (Suc (length (type_list m))) m"

definition dxil_value_type_equal_to :: "dxil_module \<Rightarrow> val_ref \<Rightarrow> ty \<Rightarrow> bool result" where
  "dxil_value_type_equal_to m v rhs = same_type m (type_of m v) rhs"

definition dxil_type_to_nir_type :: "dxil_module \<Rightarrow> ty \<Rightarrow> nir_alu_type result" where
  "dxil_type_to_nir_type m t =
     (case type_at m t of
        TYPE_INTEGER b \<Rightarrow> Inr (if b = 1 then nir_type_bool else nir_type_int)
      | TYPE_FLOAT b \<Rightarrow> Inr nir_type_float
      | _ \<Rightarrow> Inl Unreachable)"

definition dxil_value_type_bitsize_equal_to :: "dxil_module \<Rightarrow> val_ref \<Rightarrow> nat \<Rightarrow> bool" where
  "dxil_value_type_bitsize_equal_to m v bitsize =
     (case type_at m (type_of m v) of
        TYPE_INTEGER b \<Rightarrow> b = bitsize
      | TYPE_FLOAT b \<Rightarrow> b = bitsize
      | _ \<Rightarrow> False)"

definition dxil_value_get_type :: "dxil_module \<Rightarrow> val_ref \<Rightarrow> ty" where
  "dxil_value_get_type m v = type_of m v"

section \<open>Scalar types, cached in the module\<close>

definition dxil_module_get_void_type :: "dxil_module \<Rightarrow> ty \<times> dxil_module" where
  "dxil_module_get_void_type m =
     (case void_type m of
        Some t \<Rightarrow> (t, m)
      | None \<Rightarrow> let (t, m) = create_type TYPE_VOID m in (t, m\<lparr>void_type := Some t\<rparr>))"

definition create_int_type :: "nat \<Rightarrow> dxil_module \<Rightarrow> ty \<times> dxil_module" where
  "create_int_type bit_size = create_type (TYPE_INTEGER bit_size)"

definition get_int1_type :: "dxil_module \<Rightarrow> ty \<times> dxil_module" where
  "get_int1_type m =
     (case int1_type m of
        Some t \<Rightarrow> (t, m)
      | None \<Rightarrow> let (t, m) = create_int_type 1 m in (t, m\<lparr>int1_type := Some t\<rparr>))"

definition get_int8_type :: "dxil_module \<Rightarrow> ty \<times> dxil_module" where
  "get_int8_type m =
     (case int8_type m of
        Some t \<Rightarrow> (t, m)
      | None \<Rightarrow> let (t, m) = create_int_type 8 m in (t, m\<lparr>int8_type := Some t\<rparr>))"

definition get_int16_type :: "dxil_module \<Rightarrow> ty \<times> dxil_module" where
  "get_int16_type m =
     (case int16_type m of
        Some t \<Rightarrow> (t, m)
      | None \<Rightarrow> let (t, m) = create_int_type 16 m in (t, m\<lparr>int16_type := Some t\<rparr>))"

definition get_int32_type :: "dxil_module \<Rightarrow> ty \<times> dxil_module" where
  "get_int32_type m =
     (case int32_type m of
        Some t \<Rightarrow> (t, m)
      | None \<Rightarrow> let (t, m) = create_int_type 32 m in (t, m\<lparr>int32_type := Some t\<rparr>))"

definition get_int64_type :: "dxil_module \<Rightarrow> ty \<times> dxil_module" where
  "get_int64_type m =
     (case int64_type m of
        Some t \<Rightarrow> (t, m)
      | None \<Rightarrow> let (t, m) = create_int_type 64 m in (t, m\<lparr>int64_type := Some t\<rparr>))"

definition create_float_type :: "nat \<Rightarrow> dxil_module \<Rightarrow> ty \<times> dxil_module" where
  "create_float_type bit_size = create_type (TYPE_FLOAT bit_size)"

definition dxil_module_get_int_type :: "nat \<Rightarrow> dxil_module \<Rightarrow> (ty \<times> dxil_module) result" where
  "dxil_module_get_int_type bit_size m =
     (if bit_size = 1 then Inr (get_int1_type m)
      else if bit_size = 8 then Inr (get_int8_type m)
      else if bit_size = 16 then Inr (get_int16_type m)
      else if bit_size = 32 then Inr (get_int32_type m)
      else if bit_size = 64 then Inr (get_int64_type m)
      else Inl Unreachable)"

definition get_float16_type :: "dxil_module \<Rightarrow> ty \<times> dxil_module" where
  "get_float16_type m =
     (case float16_type m of
        Some t \<Rightarrow> (t, m)
      | None \<Rightarrow> let (t, m) = create_float_type 16 m in (t, m\<lparr>float16_type := Some t\<rparr>))"

definition get_float32_type :: "dxil_module \<Rightarrow> ty \<times> dxil_module" where
  "get_float32_type m =
     (case float32_type m of
        Some t \<Rightarrow> (t, m)
      | None \<Rightarrow> let (t, m) = create_float_type 32 m in (t, m\<lparr>float32_type := Some t\<rparr>))"

definition get_float64_type :: "dxil_module \<Rightarrow> ty \<times> dxil_module" where
  "get_float64_type m =
     (case float64_type m of
        Some t \<Rightarrow> (t, m)
      | None \<Rightarrow> let (t, m) = create_float_type 64 m in (t, m\<lparr>float64_type := Some t\<rparr>))"

definition dxil_module_get_float_type :: "nat \<Rightarrow> dxil_module \<Rightarrow> (ty \<times> dxil_module) result" where
  "dxil_module_get_float_type bit_size m =
     (if bit_size = 16 then Inr (get_float16_type m)
      else if bit_size = 32 then Inr (get_float32_type m)
      else if bit_size = 64 then Inr (get_float64_type m)
      else Inl Unreachable)"

section \<open>Interned composite types\<close>

definition dxil_module_get_pointer_type :: "ty \<Rightarrow> dxil_module \<Rightarrow> ty \<times> dxil_module" where
  "dxil_module_get_pointer_type target m =
     (case find_pos (\<lambda>t. case t of TYPE_POINTER p \<Rightarrow> p = target | _ \<Rightarrow> False) (type_list m) of
        Some t \<Rightarrow> (t, m)
      | None \<Rightarrow> create_type (TYPE_POINTER target) m)"

text \<open>The loop over the table in \<open>dxil_module_get_struct_type\<close>, after its assertion on the name.\<close>

definition find_struct_type :: "string option \<times> ty list \<Rightarrow> dxil_module \<Rightarrow> ty \<times> dxil_module" where
  "find_struct_type = (\<lambda>(name, elem_types) m.
     case find_pos (\<lambda>t. case t of
         TYPE_STRUCT name' elems \<Rightarrow>
           if (name = None) \<noteq> (name' = None) then False
           else if name \<noteq> None \<and> name' \<noteq> name then False
           else length elems = length elem_types \<and> elems = elem_types
       | _ \<Rightarrow> False) (type_list m) of
       Some t \<Rightarrow> (t, m)
     | None \<Rightarrow> create_type (TYPE_STRUCT name elem_types) m)"

definition dxil_module_get_struct_type ::
  "string option \<Rightarrow> ty list \<Rightarrow> dxil_module \<Rightarrow> (ty \<times> dxil_module) result" where
  "dxil_module_get_struct_type name elem_types m =
     (if name = Some [] then Inl Assertion else Inr (find_struct_type (name, elem_types) m))"

definition dxil_module_get_array_type :: "ty \<Rightarrow> nat \<Rightarrow> dxil_module \<Rightarrow> ty \<times> dxil_module" where
  "dxil_module_get_array_type elem_type num_elems m =
     (case find_pos (\<lambda>t. case t of
          TYPE_ARRAY e n \<Rightarrow> e = elem_type \<and> n = num_elems | _ \<Rightarrow> False) (type_list m) of
        Some t \<Rightarrow> (t, m)
      | None \<Rightarrow> create_type (TYPE_ARRAY elem_type num_elems) m)"

definition dxil_module_get_vector_type :: "ty \<Rightarrow> nat \<Rightarrow> dxil_module \<Rightarrow> ty \<times> dxil_module" where
  "dxil_module_get_vector_type elem_type num_elems m =
     (case find_pos (\<lambda>t. case t of
          TYPE_VECTOR e n \<Rightarrow> e = elem_type \<and> n = num_elems | _ \<Rightarrow> False) (type_list m) of
        Some t \<Rightarrow> (t, m)
      | None \<Rightarrow> create_type (TYPE_VECTOR elem_type num_elems) m)"

definition dxil_module_add_function_type :: "ty \<Rightarrow> ty list \<Rightarrow> dxil_module \<Rightarrow> ty \<times> dxil_module" where
  "dxil_module_add_function_type ret_type arg_types = create_type (TYPE_FUNCTION ret_type arg_types)"

section \<open>The type table as an interned table\<close>

lemma create_type_simps: "create_type t m = (r, m') \<Longrightarrow> r = length (type_list m) \<and> type_list m' = type_list m @ [t]"
  by (auto simp: create_type_def)

interpretation pointer_types: canonical dxil_module_get_pointer_type type_list "\<lambda>i. i"
  "\<lambda>target t. t = TYPE_POINTER target" TYPE_POINTER "\<lambda>t. t"
proof unfold_locales
  have eq: "(\<lambda>t. case t of TYPE_POINTER p \<Rightarrow> p = target | _ \<Rightarrow> False) = (\<lambda>t. t = TYPE_POINTER target)" for target
    by (auto simp: fun_eq_iff split: dxil_type.splits)
  show "dxil_module_get_pointer_type k s = (i, s)"
    if "find_pos (\<lambda>t. t = TYPE_POINTER k) (type_list s) = Some i" for k s i
    using that by (simp add: dxil_module_get_pointer_type_def eq)
  show "r = length (type_list s) \<and> type_list s' = type_list s @ [TYPE_POINTER k]"
    if "find_pos (\<lambda>t. t = TYPE_POINTER k) (type_list s) = None"
      and "dxil_module_get_pointer_type k s = (r, s')" for k s r s'
    using that by (simp add: dxil_module_get_pointer_type_def eq create_type_simps)
qed auto

interpretation array_types: canonical "\<lambda>(e, n). dxil_module_get_array_type e n" type_list "\<lambda>i. i"
  "\<lambda>(e, n) t. t = TYPE_ARRAY e n" "\<lambda>(e, n). TYPE_ARRAY e n" "\<lambda>t. t"
proof unfold_locales
  have eq: "(\<lambda>t. case t of TYPE_ARRAY e' n' \<Rightarrow> e' = e \<and> n' = n | _ \<Rightarrow> False) = (\<lambda>t. t = TYPE_ARRAY e n)" for e n
    by (auto simp: fun_eq_iff split: dxil_type.splits)
  show "(case k of (e, n) \<Rightarrow> dxil_module_get_array_type e n) s = (i, s)"
    if "find_pos (case k of (e, n) \<Rightarrow> \<lambda>t. t = TYPE_ARRAY e n) (type_list s) = Some i" for k s i
    using that by (cases k) (simp add: dxil_module_get_array_type_def eq)
  show "r = length (type_list s) \<and> type_list s' = type_list s @ [case k of (e, n) \<Rightarrow> TYPE_ARRAY e n]"
    if "find_pos (case k of (e, n) \<Rightarrow> \<lambda>t. t = TYPE_ARRAY e n) (type_list s) = None"
      and "(case k of (e, n) \<Rightarrow> dxil_module_get_array_type e n) s = (r, s')" for k s r s'
    using that by (cases k) (simp add: dxil_module_get_array_type_def eq create_type_simps)
qed auto

interpretation vector_types: canonical "\<lambda>(e, n). dxil_module_get_vector_type e n" type_list "\<lambda>i. i"
  "\<lambda>(e, n) t. t = TYPE_VECTOR e n" "\<lambda>(e, n). TYPE_VECTOR e n" "\<lambda>t. t"
proof unfold_locales
  have eq: "(\<lambda>t. case t of TYPE_VECTOR e' n' \<Rightarrow> e' = e \<and> n' = n | _ \<Rightarrow> False) = (\<lambda>t. t = TYPE_VECTOR e n)" for e n
    by (auto simp: fun_eq_iff split: dxil_type.splits)
  show "(case k of (e, n) \<Rightarrow> dxil_module_get_vector_type e n) s = (i, s)"
    if "find_pos (case k of (e, n) \<Rightarrow> \<lambda>t. t = TYPE_VECTOR e n) (type_list s) = Some i" for k s i
    using that by (cases k) (simp add: dxil_module_get_vector_type_def eq)
  show "r = length (type_list s) \<and> type_list s' = type_list s @ [case k of (e, n) \<Rightarrow> TYPE_VECTOR e n]"
    if "find_pos (case k of (e, n) \<Rightarrow> \<lambda>t. t = TYPE_VECTOR e n) (type_list s) = None"
      and "(case k of (e, n) \<Rightarrow> dxil_module_get_vector_type e n) s = (r, s')" for k s r s'
    using that by (cases k) (simp add: dxil_module_get_vector_type_def eq create_type_simps)
qed auto

interpretation struct_types: canonical find_struct_type type_list "\<lambda>i. i"
  "\<lambda>(n, es) t. t = TYPE_STRUCT n es" "\<lambda>(n, es). TYPE_STRUCT n es" "\<lambda>t. t"
proof unfold_locales
  have eq: "(\<lambda>t. case t of TYPE_STRUCT name' elems \<Rightarrow>
           if (name = None) \<noteq> (name' = None) then False
           else if name \<noteq> None \<and> name' \<noteq> name then False
           else length elems = length es \<and> elems = es
       | _ \<Rightarrow> False) = (\<lambda>t. t = TYPE_STRUCT name es)" for name es
    by (auto simp: fun_eq_iff split: dxil_type.splits)
  show "find_struct_type k s = (i, s)"
    if "find_pos (case k of (n, es) \<Rightarrow> \<lambda>t. t = TYPE_STRUCT n es) (type_list s) = Some i" for k s i
    using that by (cases k) (simp add: find_struct_type_def eq)
  show "r = length (type_list s) \<and> type_list s' = type_list s @ [case k of (n, es) \<Rightarrow> TYPE_STRUCT n es]"
    if "find_pos (case k of (n, es) \<Rightarrow> \<lambda>t. t = TYPE_STRUCT n es) (type_list s) = None"
      and "find_struct_type k s = (r, s')" for k s r s'
    using that by (cases k) (simp add: find_struct_type_def eq create_type_simps)
qed auto

end
