(* ===== verification/Type_Table.thy ===== *)
theory Type_Table
  imports Types
begin

text \<open>
  The type table that the getters of \<open>Types\<close> build, whatever the order they are called in: the types
  a type is made of stand before it, the pointers kept in the module lead to the scalar types, and
  no type but a function type stands in the table twice.
\<close>

section \<open>The invariant\<close>

fun components :: "dxil_type \<Rightarrow> ty list" where
  "components (TYPE_POINTER t) = [t]"
| "components (TYPE_ARRAY t n) = [t]"
| "components (TYPE_VECTOR t n) = [t]"
| "components (TYPE_STRUCT name ts) = ts"
| "components (TYPE_FUNCTION t ts) = t # ts"
| "components _ = []"

definition scalar_types :: "dxil_type list" where
  "scalar_types = [TYPE_VOID, TYPE_INTEGER 1, TYPE_INTEGER 8, TYPE_INTEGER 16, TYPE_INTEGER 32,
     TYPE_INTEGER 64, TYPE_FLOAT 16, TYPE_FLOAT 32, TYPE_FLOAT 64]"

definition scalar_caches :: "dxil_module \<Rightarrow> ty option list" where
  "scalar_caches m = [void_type m, int1_type m, int8_type m, int16_type m, int32_type m,
     int64_type m, float16_type m, float32_type m, float64_type m]"

fun is_composite :: "dxil_type \<Rightarrow> bool" where
  "is_composite TYPE_VOID = False"
| "is_composite (TYPE_INTEGER b) = False"
| "is_composite (TYPE_FLOAT b) = False"
| "is_composite _ = True"

fun is_function_type :: "dxil_type \<Rightarrow> bool" where
  "is_function_type (TYPE_FUNCTION t ts) = True"
| "is_function_type _ = False"

fun ordered_from :: "nat \<Rightarrow> dxil_type list \<Rightarrow> bool" where
  "ordered_from i [] = True"
| "ordered_from i (t # ts) = (list_all (\<lambda>c. c < i) (components t) \<and> ordered_from (Suc i) ts)"

definition types_ok :: "dxil_module \<Rightarrow> bool" where
  "types_ok m \<longleftrightarrow>
     scalar_caches m = map (\<lambda>t. find_pos ((=) t) (type_list m)) scalar_types \<and>
     list_all (\<lambda>t. is_composite t \<or> t \<in> set scalar_types) (type_list m) \<and>
     ordered_from 0 (type_list m) \<and>
     distinct (filter (\<lambda>t. \<not> is_function_type t) (type_list m))"

text \<open>One call of a getter, with components that are in the table.\<close>

inductive type_step :: "dxil_module \<Rightarrow> dxil_module \<Rightarrow> bool" where
  void: "type_step m (snd (dxil_module_get_void_type m))"
| int: "dxil_module_get_int_type bits m = Inr (t, m') \<Longrightarrow> type_step m m'"
| float: "dxil_module_get_float_type bits m = Inr (t, m') \<Longrightarrow> type_step m m'"
| pointer: "target < length (type_list m) \<Longrightarrow> type_step m (snd (dxil_module_get_pointer_type target m))"
| struct: "list_all (\<lambda>c. c < length (type_list m)) ts \<Longrightarrow>
    dxil_module_get_struct_type name ts m = Inr (t, m') \<Longrightarrow> type_step m m'"
| array: "e < length (type_list m) \<Longrightarrow> type_step m (snd (dxil_module_get_array_type e n m))"
| vector: "e < length (type_list m) \<Longrightarrow> type_step m (snd (dxil_module_get_vector_type e n m))"
| func: "list_all (\<lambda>c. c < length (type_list m)) (t # ts) \<Longrightarrow>
    type_step m (snd (dxil_module_add_function_type t ts m))"

section \<open>Preservation\<close>

lemma ordered_from_append: "ordered_from i (ts @ us) = (ordered_from i ts \<and> ordered_from (i + length ts) us)"
  by (induction ts arbitrary: i) simp_all

lemma ordered_from_nth:
  "ordered_from i ts \<Longrightarrow> j < length ts \<Longrightarrow> c \<in> set (components (ts ! j)) \<Longrightarrow> c < i + j"
proof (induction ts arbitrary: i j)
  case (Cons t ts)
  then show ?case by (cases j) (fastforce simp: list_all_iff)+
qed simp

lemma find_pos_snoc:
  "find_pos ((=) t) (ts @ [u]) = (case find_pos ((=) t) ts of Some i \<Rightarrow> Some i
     | None \<Rightarrow> if t = u then Some (length ts) else None)"
  by (simp add: find_pos_append split: option.splits)

lemma find_pos_eq_None: "find_pos ((=) t) ts = None \<longleftrightarrow> t \<notin> set ts"
  by (auto simp: find_pos_None)

text \<open>Appending a type that is not there: a composite one, or a scalar one with its cache.\<close>

lemma types_ok_composite:
  assumes "types_ok m" and "is_composite t" and "list_all (\<lambda>c. c < length (type_list m)) (components t)"
    and "is_function_type t \<or> t \<notin> set (type_list m)"
  shows "types_ok (m\<lparr>type_list := type_list m @ [t]\<rparr>)"
proof -
  have "u \<noteq> t" if "u \<in> set scalar_types" for u using that assms(2) by (auto simp: scalar_types_def)
  then have "find_pos ((=) u) (type_list m @ [t]) = find_pos ((=) u) (type_list m)" if "u \<in> set scalar_types" for u
    using that by (auto simp: find_pos_snoc split: option.splits)
  then have "map (\<lambda>u. find_pos ((=) u) (type_list m @ [t])) scalar_types =
      map (\<lambda>u. find_pos ((=) u) (type_list m)) scalar_types" by simp
  moreover have "scalar_caches (m\<lparr>type_list := ts\<rparr>) = scalar_caches m" for ts
    by (simp add: scalar_caches_def)
  ultimately show ?thesis
    using assms by (auto simp: types_ok_def ordered_from_append)
qed

lemma types_ok_scalar:
  assumes "types_ok m" and "t \<in> set scalar_types" and "t \<notin> set (type_list m)"
    and "type_list m' = type_list m @ [t]"
    and "scalar_caches m' = map (\<lambda>u. if u = t then Some (length (type_list m))
      else find_pos ((=) u) (type_list m)) scalar_types"
  shows "types_ok m'"
proof -
  have "find_pos ((=) t) (type_list m) = None" using assms(3) by (simp add: find_pos_eq_None)
  then have "map (\<lambda>u. find_pos ((=) u) (type_list m @ [t])) scalar_types = scalar_caches m'"
    unfolding assms(5) by (auto simp: find_pos_snoc split: option.splits)
  moreover have "components t = []" "\<not> is_function_type t" using assms(2) by (auto simp: scalar_types_def)
  ultimately show ?thesis
    using assms by (auto simp: types_ok_def ordered_from_append)
qed

lemmas scalar_getters = dxil_module_get_void_type_def get_int1_type_def get_int8_type_def
  get_int16_type_def get_int32_type_def get_int64_type_def get_float16_type_def
  get_float32_type_def get_float64_type_def create_int_type_def create_float_type_def create_type_def

lemma types_ok_caches:
  "types_ok m \<Longrightarrow> scalar_caches m = map (\<lambda>t. find_pos ((=) t) (type_list m)) scalar_types"
  by (simp add: types_ok_def)

lemma scalar_getter_ok:
  assumes "types_ok m" and "t \<in> set scalar_types"
    and "find_pos ((=) t) (type_list m) = None \<Longrightarrow> type_list m' = type_list m @ [t] \<and>
      scalar_caches m' = map (\<lambda>u. if u = t then Some (length (type_list m))
        else find_pos ((=) u) (type_list m)) scalar_types"
    and "find_pos ((=) t) (type_list m) \<noteq> None \<Longrightarrow> m' = m"
  shows "types_ok m'"
  using assms types_ok_scalar [OF assms(1,2)]
  by (cases "find_pos ((=) t) (type_list m)") (auto simp: find_pos_eq_None)

lemma scalar_cache_pos:
  assumes "types_ok m"
  shows "void_type m = find_pos ((=) TYPE_VOID) (type_list m)"
    and "int1_type m = find_pos ((=) (TYPE_INTEGER 1)) (type_list m)"
    and "int8_type m = find_pos ((=) (TYPE_INTEGER 8)) (type_list m)"
    and "int16_type m = find_pos ((=) (TYPE_INTEGER 16)) (type_list m)"
    and "int32_type m = find_pos ((=) (TYPE_INTEGER 32)) (type_list m)"
    and "int64_type m = find_pos ((=) (TYPE_INTEGER 64)) (type_list m)"
    and "float16_type m = find_pos ((=) (TYPE_FLOAT 16)) (type_list m)"
    and "float32_type m = find_pos ((=) (TYPE_FLOAT 32)) (type_list m)"
    and "float64_type m = find_pos ((=) (TYPE_FLOAT 64)) (type_list m)"
  using types_ok_caches [OF assms] by (simp_all add: scalar_caches_def scalar_types_def)

lemma scalar_getters_ok:
  assumes "types_ok m"
  shows "types_ok (snd (dxil_module_get_void_type m))" and "types_ok (snd (get_int1_type m))"
    and "types_ok (snd (get_int8_type m))" and "types_ok (snd (get_int16_type m))"
    and "types_ok (snd (get_int32_type m))" and "types_ok (snd (get_int64_type m))"
    and "types_ok (snd (get_float16_type m))" and "types_ok (snd (get_float32_type m))"
    and "types_ok (snd (get_float64_type m))"
proof -
  note ok = scalar_getter_ok [OF assms]
  note c = scalar_cache_pos [OF assms] scalar_getters scalar_caches_def scalar_types_def
  show "types_ok (snd (dxil_module_get_void_type m))"
    by (rule ok [of TYPE_VOID]) (auto simp: c split: option.splits)
  show "types_ok (snd (get_int1_type m))"
    by (rule ok [of "TYPE_INTEGER 1"]) (auto simp: c split: option.splits)
  show "types_ok (snd (get_int8_type m))"
    by (rule ok [of "TYPE_INTEGER 8"]) (auto simp: c split: option.splits)
  show "types_ok (snd (get_int16_type m))"
    by (rule ok [of "TYPE_INTEGER 16"]) (auto simp: c split: option.splits)
  show "types_ok (snd (get_int32_type m))"
    by (rule ok [of "TYPE_INTEGER 32"]) (auto simp: c split: option.splits)
  show "types_ok (snd (get_int64_type m))"
    by (rule ok [of "TYPE_INTEGER 64"]) (auto simp: c split: option.splits)
  show "types_ok (snd (get_float16_type m))"
    by (rule ok [of "TYPE_FLOAT 16"]) (auto simp: c split: option.splits)
  show "types_ok (snd (get_float32_type m))"
    by (rule ok [of "TYPE_FLOAT 32"]) (auto simp: c split: option.splits)
  show "types_ok (snd (get_float64_type m))"
    by (rule ok [of "TYPE_FLOAT 64"]) (auto simp: c split: option.splits)
qed

text \<open>A composite getter either finds its type or appends it.\<close>

lemma composite_getter_ok:
  assumes "types_ok m" and "is_composite t" and "list_all (\<lambda>c. c < length (type_list m)) (components t)"
    and "m' = m \<or> m' = m\<lparr>type_list := type_list m @ [t]\<rparr> \<and> (is_function_type t \<or> t \<notin> set (type_list m))"
  shows "types_ok m'"
  using assms types_ok_composite by auto

lemma found_or_appended:
  assumes "r = (case find_pos P (type_list m) of Some i \<Rightarrow> (i, m) | None \<Rightarrow> create_type t m)" and "P t"
  shows "snd r = m \<or> snd r = m\<lparr>type_list := type_list m @ [t]\<rparr> \<and> t \<notin> set (type_list m)"
  using assms by (cases "find_pos P (type_list m)") (auto simp: create_type_def find_pos_None)

lemma pointer_type_ok:
  "types_ok m \<Longrightarrow> target < length (type_list m) \<Longrightarrow> types_ok (snd (dxil_module_get_pointer_type target m))"
  by (rule composite_getter_ok [of m "TYPE_POINTER target"])
    (use found_or_appended [OF dxil_module_get_pointer_type_def, of target m] in auto)

lemma array_type_ok:
  "types_ok m \<Longrightarrow> e < length (type_list m) \<Longrightarrow> types_ok (snd (dxil_module_get_array_type e n m))"
  by (rule composite_getter_ok [of m "TYPE_ARRAY e n"])
    (use found_or_appended [OF dxil_module_get_array_type_def, of e n m] in auto)

lemma vector_type_ok:
  "types_ok m \<Longrightarrow> e < length (type_list m) \<Longrightarrow> types_ok (snd (dxil_module_get_vector_type e n m))"
  by (rule composite_getter_ok [of m "TYPE_VECTOR e n"])
    (use found_or_appended [OF dxil_module_get_vector_type_def, of e n m] in auto)

lemma struct_type_ok:
  assumes "types_ok m" and "list_all (\<lambda>c. c < length (type_list m)) ts"
    and "dxil_module_get_struct_type name ts m = Inr (t, m')"
  shows "types_ok m'"
proof -
  have "find_struct_type (name, ts) m = (t, m')"
    using assms(3) by (auto simp: dxil_module_get_struct_type_def split: if_splits)
  then show ?thesis
    using found_or_appended [OF find_struct_type_def [THEN fun_cong, THEN fun_cong, of "(name, ts)" m, unfolded prod.case]]
      composite_getter_ok [OF assms(1), of "TYPE_STRUCT name ts" m'] assms(2) by auto
qed

lemma function_type_ok:
  "types_ok m \<Longrightarrow> list_all (\<lambda>c. c < length (type_list m)) (t # ts) \<Longrightarrow>
   types_ok (snd (dxil_module_add_function_type t ts m))"
  by (rule composite_getter_ok [of m "TYPE_FUNCTION t ts"])
    (auto simp: dxil_module_add_function_type_def create_type_def)

lemma type_step_ok: "type_step m m' \<Longrightarrow> types_ok m \<Longrightarrow> types_ok m'"
proof (induction rule: type_step.induct)
  case (int bits m t m')
  then have "m' \<in> {snd (get_int1_type m), snd (get_int8_type m), snd (get_int16_type m),
      snd (get_int32_type m), snd (get_int64_type m)}"
    by (auto simp: dxil_module_get_int_type_def split: if_splits)
  then show ?case using scalar_getters_ok [OF int.prems] by auto
next
  case (float bits m t m')
  then have "m' \<in> {snd (get_float16_type m), snd (get_float32_type m), snd (get_float64_type m)}"
    by (auto simp: dxil_module_get_float_type_def split: if_splits)
  then show ?case using scalar_getters_ok [OF float.prems] by auto
qed (auto intro: scalar_getters_ok(1) pointer_type_ok array_type_ok vector_type_ok struct_type_ok
    function_type_ok)

lemma types_ok_init: "types_ok (dxil_module_init l j)"
  by (simp add: types_ok_def dxil_module_init_def scalar_caches_def scalar_types_def)

section \<open>Comparing types\<close>

text \<open>What \<open>types_equal\<close> may answer for two types of a table: that they are the same, or, when they are
  not, that they differ or a failed assertion.\<close>

definition verdict :: "bool \<Rightarrow> bool result \<Rightarrow> bool" where
  "verdict same r \<longleftrightarrow> r = Inr same \<or> \<not> same \<and> r = Inl Assertion"

lemma verdict_bind:
  assumes "verdict same r" and "verdict same' q"
  shows "verdict (same \<and> same') (bind_result r (\<lambda>e. if \<not> e then Inr False else q))"
proof (cases same)
  case True
  then show ?thesis using assms by (simp add: verdict_def)
next
  case False
  then have "r = Inr False \<or> r = Inl Assertion" using assms(1) by (simp add: verdict_def)
  then show ?thesis using False by (elim disjE) (simp_all add: verdict_def)
qed

lemma verdict_list:
  assumes "\<And>a b. a \<in> set as \<Longrightarrow> b \<in> set bs \<Longrightarrow> verdict (a = b) (types_equal n m a b)"
  shows "verdict (as = bs) (type_list_equal n m as bs)"
  using assms
proof (induction as arbitrary: bs)
  case Nil
  then show ?case by (cases bs) (simp_all add: verdict_def)
next
  case (Cons a as)
  show ?case
  proof (cases bs)
    case Nil
    then show ?thesis by (simp add: verdict_def)
  next
    case bs: (Cons b bs')
    have "verdict (a = b) (types_equal n m a b)" "verdict (as = bs') (type_list_equal n m as bs')"
      using Cons bs by simp_all
    from verdict_bind [OF this]
    have v: "verdict (a = b \<and> as = bs') (bind_result (types_equal n m a b)
        (\<lambda>e. if \<not> e then Inr False else type_list_equal n m as bs'))" .
    show ?thesis
    proof (cases "length as = length bs'")
      case True
      then show ?thesis using v by (simp add: bs)
    next
      case False
      then have "as \<noteq> bs'" by auto
      then show ?thesis using False by (simp add: bs verdict_def)
    qed
  qed
qed

lemma types_equal_verdict:
  assumes "types_ok m"
  shows "a < length (type_list m) \<Longrightarrow> b < length (type_list m) \<Longrightarrow> max a b < n \<Longrightarrow>
    verdict (a = b) (types_equal n m a b)"
proof (induction n arbitrary: a b)
  case (Suc n)
  let ?l = "type_at m a" and ?r = "type_at m b"
  have below: "c < a" if "c \<in> set (components ?l)" for c
    using that assms Suc.prems ordered_from_nth [of 0 "type_list m" a c]
    by (simp add: types_ok_def type_at_def nth_or_def)
  have below': "c < b" if "c \<in> set (components ?r)" for c
    using that assms Suc.prems ordered_from_nth [of 0 "type_list m" b c]
    by (simp add: types_ok_def type_at_def nth_or_def)
  have IH: "verdict (c = d) (types_equal n m c d)"
    if "c \<in> set (components ?l)" "d \<in> set (components ?r)" for c d
    using Suc.IH [of c d] Suc.prems below [OF that(1)] below' [OF that(2)] by simp
  show ?case
  proof (cases "a = b")
    case True
    then show ?thesis by (simp add: verdict_def types_equal.simps)
  next
    case False
    have lst: "verdict (as = bs) (type_list_equal n m as bs)"
      if "set as \<subseteq> set (components ?l)" "set bs \<subseteq> set (components ?r)" for as bs
      using that IH by (intro verdict_list) blast
    have "\<exists>same. verdict same
        (case (?l, ?r) of
               (TYPE_VOID, TYPE_VOID) \<Rightarrow> Inr True
             | (TYPE_FLOAT a, TYPE_FLOAT b) \<Rightarrow> Inr (a = b)
             | (TYPE_INTEGER a, TYPE_INTEGER b) \<Rightarrow> Inr (a = b)
             | (TYPE_POINTER a, TYPE_POINTER b) \<Rightarrow> types_equal n m a b
             | (TYPE_ARRAY a k, TYPE_ARRAY b l) \<Rightarrow> if k = l then types_equal n m a b else Inr False
             | (TYPE_VECTOR a k, TYPE_VECTOR b l) \<Rightarrow> if k = l then types_equal n m a b else Inr False
             | (TYPE_FUNCTION a as, TYPE_FUNCTION b bs) \<Rightarrow>
                 bind_result (types_equal n m a b)
                   (\<lambda>e. if \<not> e then Inr False else type_list_equal n m as bs)
             | (TYPE_STRUCT _ as, TYPE_STRUCT _ bs) \<Rightarrow> type_list_equal n m as bs
             | _ \<Rightarrow> Inr False)" (is "\<exists>same. verdict same ?c")
    proof (cases "\<exists>x xs y ys. ?l = TYPE_FUNCTION x xs \<and> ?r = TYPE_FUNCTION y ys")
      case True
      then obtain x xs y ys where f: "?l = TYPE_FUNCTION x xs" "?r = TYPE_FUNCTION y ys" by blast
      have "verdict (x = y) (types_equal n m x y)" "verdict (xs = ys) (type_list_equal n m xs ys)"
        using IH [of x y] lst [of xs ys] f by auto
      from verdict_bind [OF this] have v: "verdict (x = y \<and> xs = ys) ?c" unfolding f by simp
      show ?thesis by (rule exI [of _ "x = y \<and> xs = ys"]) (fact v)
    next
      case no: False
      have b: "\<exists>same. verdict same (Inr x)" for x by (rule exI [of _ x]) (simp add: verdict_def)
      show ?thesis
      proof (cases ?l)
        case (TYPE_POINTER x)
        have "\<exists>same. verdict same (types_equal n m x y)" if "?r = TYPE_POINTER y" for y
          using IH [of x y] that by (auto simp: TYPE_POINTER)
        then show ?thesis unfolding TYPE_POINTER by (cases ?r) (simp_all add: b)
      next
        case (TYPE_STRUCT x xs)
        have "\<exists>same. verdict same (type_list_equal n m xs ys)" if "?r = TYPE_STRUCT y ys" for y ys
          using lst [of xs ys] that by (auto simp: TYPE_STRUCT)
        then show ?thesis unfolding TYPE_STRUCT by (cases ?r) (simp_all add: b)
      next
        case (TYPE_ARRAY x k)
        have "\<exists>same. verdict same (types_equal n m x y)" if "?r = TYPE_ARRAY y l" for y l
          using IH [of x y] that by (auto simp: TYPE_ARRAY)
        then show ?thesis unfolding TYPE_ARRAY by (cases ?r) (simp_all add: b)
      next
        case (TYPE_VECTOR x k)
        have "\<exists>same. verdict same (types_equal n m x y)" if "?r = TYPE_VECTOR y l" for y l
          using IH [of x y] that by (auto simp: TYPE_VECTOR)
        then show ?thesis unfolding TYPE_VECTOR by (cases ?r) (simp_all add: b)
      next
        case (TYPE_FUNCTION x xs)
        then show ?thesis using no by (cases ?r) (simp_all add: b)
      qed (cases ?r; simp add: b)+
    qed
    then obtain r same where r: "types_equal (Suc n) m a b =
        bind_result r (\<lambda>retval. if retval then Inl Assertion else Inr retval)" and "verdict same r"
      using False by (simp add: types_equal.simps) blast
    then have "r = Inr True \<or> r = Inr False \<or> r = Inl Assertion" unfolding verdict_def by (cases same) blast+
    then show ?thesis unfolding r using False by (elim disjE) (simp_all add: verdict_def)
  qed
qed simp

section \<open>What the type table promises\<close>

text \<open>C9: Whatever types are asked for, in whatever order, from a module just initialised: the pointers
  kept for the scalar types lead to the only copy of each, every type stands after the types it is
  made of, and no type but a function type is in the table twice.\<close>

theorem type_table_invariant:
  assumes "type_step\<^sup>*\<^sup>* (dxil_module_init l j) m"
  shows "types_ok m"
  using assms by (induction rule: rtranclp_induct) (auto intro: type_step_ok types_ok_init)

lemma type_table_invariant_witness:
  "types_ok (snd (dxil_module_get_array_type 0 4 (snd (dxil_module_get_void_type (dxil_module_init 9 0)))))"
proof (rule type_table_invariant)
  let ?m = "snd (dxil_module_get_void_type (dxil_module_init 9 0))"
  have "type_step ?m (snd (dxil_module_get_array_type 0 4 ?m))"
    by (rule type_step.array) (simp add: dxil_module_get_void_type_def dxil_module_init_def create_type_def)
  then show "type_step\<^sup>*\<^sup>* (dxil_module_init 9 0) (snd (dxil_module_get_array_type 0 4 ?m))"
    using type_step.void by (meson converse_rtranclp_into_rtranclp r_into_rtranclp)
qed



end
