(* ===== verification/Bitstream.thy ===== *)
theory Bitstream
  imports Bitcode
begin

text \<open>
  The LLVM bitstream format as a specification, independent of the code that writes it: a stream is
  a list of items (records, abbreviated records, definitions of abbreviations, blocks), and
  \<open>enc_items\<close> is its bits. \<open>emits f is\<close> states that the writer function \<open>f\<close>, when it returns,
  has appended exactly the items \<open>is\<close>; it is proved of each primitive and composes along chains
  of calls and around blocks.
\<close>

section \<open>The format\<close>

datatype item =
  Record "32 word" "64 word list"
| Abbreviated "32 word" dxil_abbrev "64 word list"
| Definition dxil_abbrev
| Block "32 word" nat "item list"

text \<open>The 6-bit characters, in the order of their codes.\<close>

definition char6_alphabet :: string where
  "char6_alphabet = ''abcdefghijklmnopqrstuvwxyzABCDEFGHIJKLMNOPQRSTUVWXYZ0123456789._''"

fun index_of :: "'a \<Rightarrow> 'a list \<Rightarrow> nat" where
  "index_of x [] = 0"
| "index_of x (y # ys) = (if x = y then 0 else Suc (index_of x ys))"

definition len_u64 :: "'a list \<Rightarrow> nat" where
  "len_u64 xs = unat (of_nat (length xs) :: 64 word)"

definition datum_char :: "64 word \<Rightarrow> char" where
  "datum_char d = char_of (unat d)"

fun scalar_bits :: "operand \<Rightarrow> 64 word \<Rightarrow> bool list" where
  "scalar_bits (FIXED w) d = nat_bits w (unat d)"
| "scalar_bits (VBR w) d = (if w = 0 then [] else vbr_enc (w - 1) (unat d))"
| "scalar_bits CHAR6 d = nat_bits 6 (index_of (datum_char d) char6_alphabet)"
| "scalar_bits _ d = []"

fun operands_bits :: "operand list \<Rightarrow> 64 word list \<Rightarrow> bool list" where
  "operands_bits [] ds = []"
| "operands_bits (ARRAY # ops) ds =
     (case ops of [e] \<Rightarrow> vbr_enc 5 (len_u64 ds) @ concat (map (scalar_bits e) ds) | _ \<Rightarrow> [])"
| "operands_bits (op # ops) ds =
     (case ds of [] \<Rightarrow> [] | d # ds \<Rightarrow> scalar_bits op d @ operands_bits ops ds)"

fun definition_bits :: "operand \<Rightarrow> bool list" where
  "definition_bits (LITERAL v) = True # vbr_enc 7 (unat v)"
| "definition_bits (FIXED w) = False # nat_bits 3 1 @ vbr_enc 4 (unat (of_nat w :: 64 word))"
| "definition_bits (VBR w) = False # nat_bits 3 2 @ vbr_enc 4 (unat (of_nat w :: 64 word))"
| "definition_bits ARRAY = False # nat_bits 3 3"
| "definition_bits CHAR6 = False # nat_bits 3 4"
| "definition_bits BLOB = False # nat_bits 3 5"

text \<open>The zero bits that align position \<open>p\<close> to 32 bits.\<close>

definition pad :: "nat \<Rightarrow> bool list" where
  "pad p = replicate ((32 - p mod 32) mod 32) False"

text \<open>
  A block: its header, aligned; the length of what follows in 32-bit words; its items under its own
  abbreviation width; the end marker, aligned.
\<close>

definition block_header :: "nat \<Rightarrow> nat \<Rightarrow> 32 word \<Rightarrow> nat \<Rightarrow> bool list" where
  "block_header w p i w' =
     (let h = nat_bits w 1 @ vbr_enc 7 (unat i) @ vbr_enc 3 (unat (of_nat w' :: 64 word))
      in h @ pad (p + length h))"

definition block_footer :: "nat \<Rightarrow> nat \<Rightarrow> bool list" where
  "block_footer w' n = nat_bits w' 0 @ pad (n + w')"

definition block_bits :: "nat \<Rightarrow> nat \<Rightarrow> 32 word \<Rightarrow> nat \<Rightarrow> bool list \<Rightarrow> bool list" where
  "block_bits w p i w' body =
     (let body = body @ block_footer w' (length body)
      in block_header w p i w' @ nat_bits 32 (length body div 32) @ body)"

fun enc_item :: "nat \<Rightarrow> nat \<Rightarrow> item \<Rightarrow> bool list"
  and enc_items :: "nat \<Rightarrow> nat \<Rightarrow> item list \<Rightarrow> bool list" where
  "enc_item w p (Record code ds) =
     nat_bits w 3 @ vbr_enc 5 (unat code) @ vbr_enc 5 (len_u64 ds) @
     concat (map (\<lambda>d. vbr_enc 5 (unat d)) ds)"
| "enc_item w p (Abbreviated i a ds) = nat_bits w (unat i) @ operands_bits a ds"
| "enc_item w p (Definition a) =
     nat_bits w 2 @ vbr_enc 4 (len_u64 a) @ concat (map definition_bits a)"
| "enc_item w p (Block i w' is) = block_bits w p i w' (enc_items w' 0 is)"
| "enc_items w p [] = []"
| "enc_items w p (i # is) =
     (let bs = enc_item w p i in bs @ enc_items w (p + length bs) is)"

text \<open>What the bit fields of an item can hold.\<close>

fun scalar_fits :: "operand \<Rightarrow> 64 word \<Rightarrow> bool" where
  "scalar_fits (LITERAL v) d \<longleftrightarrow> d = v"
| "scalar_fits (FIXED w) d \<longleftrightarrow> w = 0 \<or> w \<le> 32 \<and> unat d < 2 ^ w"
| "scalar_fits (VBR w) d \<longleftrightarrow> w = 0 \<or> 1 < w \<and> w \<le> 32"
| "scalar_fits CHAR6 d \<longleftrightarrow> datum_char d \<in> set char6_alphabet"
| "scalar_fits _ d \<longleftrightarrow> False"

definition is_scalar :: "operand \<Rightarrow> bool" where
  "is_scalar op \<longleftrightarrow> (case op of FIXED _ \<Rightarrow> True | VBR _ \<Rightarrow> True | CHAR6 \<Rightarrow> True | _ \<Rightarrow> False)"

fun operands_fit :: "operand list \<Rightarrow> 64 word list \<Rightarrow> bool" where
  "operands_fit [] ds \<longleftrightarrow> ds = []"
| "operands_fit (ARRAY # ops) ds \<longleftrightarrow>
     (case ops of [e] \<Rightarrow> is_scalar e \<and> list_all (scalar_fits e) ds | _ \<Rightarrow> False)"
| "operands_fit (op # ops) ds \<longleftrightarrow>
     (case ds of [] \<Rightarrow> False | d # ds \<Rightarrow> scalar_fits op d \<and> operands_fit ops ds)"

definition width_ok :: "nat \<Rightarrow> bool" where
  "width_ok w \<longleftrightarrow> 2 \<le> w \<and> w \<le> 32"

fun item_fits :: "nat \<Rightarrow> item \<Rightarrow> bool" where
  "item_fits w (Record code ds) \<longleftrightarrow> width_ok w \<and> length ds < 2 ^ 64"
| "item_fits w (Abbreviated i a ds) \<longleftrightarrow> width_ok w \<and> 4 \<le> i \<and> unat i < 2 ^ w \<and> operands_fit a ds"
| "item_fits w (Definition a) \<longleftrightarrow> width_ok w"
| "item_fits w (Block i w' is) \<longleftrightarrow> 0 < w \<and> w \<le> 32 \<and> 0 < w' \<and> w' \<le> 32 \<and> list_all (item_fits w') is"

section \<open>What a function on the buffer appends\<close>

text \<open>
  \<open>appends f e P\<close>: when \<open>f\<close> returns, it has appended the bits \<open>e w\<close> and \<open>P w\<close> holds, for the
  abbreviation width \<open>w\<close> in force. A buffer that is out of memory never recovers.
\<close>

definition oom :: "dxil_buffer \<Rightarrow> bool" where
  "oom b \<longleftrightarrow> out_of_memory (blob b)"

definition appends ::
  "(dxil_buffer \<Rightarrow> dxil_buffer result) \<Rightarrow> (nat \<Rightarrow> bool list) \<Rightarrow> (nat \<Rightarrow> bool) \<Rightarrow> bool" where
  "appends f e P \<longleftrightarrow> (\<forall>b b'. f b = Inr b' \<longrightarrow>
     (oom b \<longrightarrow> oom b') \<and>
     (buffer_ok b \<longrightarrow> buffer_ok b' \<and> abbrev_width b' = abbrev_width b \<and>
        stream b' = stream b @ e (abbrev_width b) \<and> P (abbrev_width b)))"

lemma appendsI:
  assumes "\<And>b b'. f b = Inr b' \<Longrightarrow> oom b \<Longrightarrow> oom b'"
    and "\<And>b b'. f b = Inr b' \<Longrightarrow> buffer_ok b \<Longrightarrow> buffer_ok b' \<and> abbrev_width b' = abbrev_width b \<and>
        stream b' = stream b @ e (abbrev_width b) \<and> P (abbrev_width b)"
  shows "appends f e P"
  using assms unfolding appends_def by blast

lemma appends_oom: "appends f e P \<Longrightarrow> f b = Inr b' \<Longrightarrow> oom b \<Longrightarrow> oom b'"
  by (simp add: appends_def)

lemma appendsD:
  "appends f e P \<Longrightarrow> f b = Inr b' \<Longrightarrow> buffer_ok b \<Longrightarrow>
   buffer_ok b' \<and> abbrev_width b' = abbrev_width b \<and> stream b' = stream b @ e (abbrev_width b) \<and>
   P (abbrev_width b)"
  by (simp add: appends_def)

lemma appends_cong:
  "appends f e P \<Longrightarrow> (\<And>w. P w \<Longrightarrow> e w = e' w \<and> P' w) \<Longrightarrow> appends f e' P'"
  unfolding appends_def by metis

lemma appends_skip: "appends Inr (\<lambda>_. []) (\<lambda>_. True)"
  by (simp add: appends_def)

lemma appends_check: "appends (check_that C) (\<lambda>_. []) (\<lambda>_. C)"
  by (simp add: appends_def)

lemma appends_fail: "appends (\<lambda>_. Inl e) (\<lambda>_. es) (\<lambda>_. False)"
  by (simp add: appends_def)

lemma appends_bind:
  assumes f: "appends f e P" and g: "appends g e' P'"
  shows "appends (\<lambda>b. bind_result (f b) g) (\<lambda>w. e w @ e' w) (\<lambda>w. P w \<and> P' w)"
proof (rule appendsI)
  fix b b' assume "bind_result (f b) g = Inr b'"
  then obtain c where c: "f b = Inr c" "g c = Inr b'" by auto
  show "oom b'" if "oom b" using that c f g by (meson appends_oom)
  show "buffer_ok b' \<and> abbrev_width b' = abbrev_width b \<and>
      stream b' = stream b @ (e (abbrev_width b) @ e' (abbrev_width b)) \<and>
      (P (abbrev_width b) \<and> P' (abbrev_width b))" if "buffer_ok b"
    using appendsD [OF f c(1) that] appendsD [OF g c(2)] by simp
qed

lemma appends_seq_Nil: "appends (seq []) (\<lambda>_. []) (\<lambda>_. True)"
  by (simp add: appends_def)

lemma appends_seq_Cons:
  assumes "appends f e P" and "appends (seq fs) e' P'"
  shows "appends (seq (f # fs)) (\<lambda>w. e w @ e' w) (\<lambda>w. P w \<and> P' w)"
  unfolding seq_fun by (rule appends_bind [OF assms])

lemma appends_seq_append:
  assumes "appends (seq fs) e P" and "appends (seq gs) e' P'"
  shows "appends (seq (fs @ gs)) (\<lambda>w. e w @ e' w) (\<lambda>w. P w \<and> P' w)"
proof -
  have "seq (fs @ gs) = (\<lambda>b. bind_result (seq fs b) (seq gs))"
    using seq_append [of fs gs] by auto
  then show ?thesis using appends_bind [OF assms] by simp
qed

lemma appends_seq_map:
  assumes "\<And>x. appends (g x) (e x) (P x)"
  shows "appends (seq (map g xs)) (\<lambda>w. concat (map (\<lambda>x. e x w) xs)) (\<lambda>w. list_all (\<lambda>x. P x w) xs)"
proof (induction xs)
  case Nil
  then show ?case by (simp add: appends_def)
next
  case (Cons x xs)
  show ?case using appends_seq_Cons [OF assms [of x] Cons] by (simp only: list.map concat.simps list.pred_inject)
qed

lemma blob_put_not_oom: "blob_put bs b = Inr b' \<Longrightarrow> \<not> out_of_memory b"
  by (auto simp: blob_put_def blob_write_bytes_def grow_to_fit_def split: prod.splits bool.splits if_splits)

lemma flush_dword_not_oom: "flush_dword b = Inr b' \<Longrightarrow> \<not> oom b"
  using blob_put_not_oom by (auto simp: flush_dword_def oom_def Let_def split: if_splits)

lemma emit_bits_oom:
  assumes "dxil_buffer_emit_bits b d w = Inr b'" and "oom b"
  shows "oom b' \<and> 0 < buf_bits b'"
proof (cases "32 \<le> buf_bits b + w")
  case True
  then have "\<not> oom (b\<lparr>buf := buf b OR push_bit (buf_bits b) (ucast d), buf_bits := buf_bits b + w\<rparr>)"
    using assms(1) flush_dword_not_oom
    by (auto simp: dxil_buffer_emit_bits_def Let_def split: if_splits)
  then show ?thesis using assms(2) by (simp add: oom_def)
next
  case False
  then show ?thesis using assms by (auto simp: dxil_buffer_emit_bits_def oom_def Let_def split: if_splits)
qed

lemma appends_bits:
  "appends (\<lambda>b. dxil_buffer_emit_bits b d w) (\<lambda>_. nat_bits w (unat d))
     (\<lambda>_. 0 < w \<and> w \<le> 32 \<and> unat d < 2 ^ w)"
proof (rule appendsI)
  fix b b' assume f: "dxil_buffer_emit_bits b d w = Inr b'"
  show "oom b'" if "oom b" using emit_bits_oom [OF f that] by simp
  assume b: "buffer_ok b"
  note ok = emit_bits_ok [OF b f]
  have "unat d < 2 ^ w"
  proof -
    have "take_bit w (unat d) = unat d" using ok(2) by (simp flip: unsigned_take_bit_eq)
    then show ?thesis by (simp add: take_bit_nat_eq_self_iff)
  qed
  then show "buffer_ok b' \<and> abbrev_width b' = abbrev_width b \<and>
      stream b' = stream b @ nat_bits w (unat d) \<and> (0 < w \<and> w \<le> 32 \<and> unat d < 2 ^ w)"
    using ok by (simp add: word_bits_eq_nat_bits)
qed

lemma appends_abbrev_id:
  "appends (\<lambda>b. dxil_buffer_emit_abbrev_id b i) (\<lambda>w. nat_bits w (unat i))
     (\<lambda>w. 0 < w \<and> w \<le> 32 \<and> unat i < 2 ^ w)"
  using appends_bits [of i] unfolding appends_def dxil_buffer_emit_abbrev_id_def by blast

lemma emit_vbr_bits_oom:
  "dxil_buffer_emit_vbr_bits b d w = Inr b' \<Longrightarrow> oom b \<Longrightarrow> oom b' \<and> 0 < buf_bits b'"
proof (induction b d w rule: dxil_buffer_emit_vbr_bits.induct)
  case (1 b d w)
  have w: "1 < w" "w \<le> 32"
    using "1.prems"(1) by (auto simp: emit_vbr_bits_unfold [of b] split: if_splits)
  have tag: "push_bit (w - 1) 1 - 1 = (mask (w - 1) :: 32 word)"
    by (simp add: mask_eq_exp_minus_1)
  have m: "ucast (push_bit (w - 1) 1 - 1 :: 32 word) = (mask (w - 1) :: 64 word)"
    using w by (simp only: tag mask_32_as_64)
  show ?case
  proof (cases "mask (w - 1) < d")
    case True
    then obtain c where c: "dxil_buffer_emit_bits b (ucast (d AND mask (w - 1)) OR push_bit (w - 1) 1) w = Inr c"
      and r: "dxil_buffer_emit_vbr_bits c (drop_bit (w - 1) d) w = Inr b'"
      using "1.prems"(1) w by (auto simp: emit_vbr_bits_unfold [of b])
    then show ?thesis
      using "1.IH" [OF _ refl refl, of c] w True m emit_bits_oom [OF c "1.prems"(2)] by simp
  next
    case False
    then have "dxil_buffer_emit_bits b (ucast d) w = Inr b'"
      using "1.prems"(1) w by (simp add: emit_vbr_bits_unfold [of b])
    then show ?thesis using emit_bits_oom "1.prems"(2) by blast
  qed
qed

lemma appends_vbr:
  "appends (\<lambda>b. dxil_buffer_emit_vbr_bits b d w) (\<lambda>_. vbr_enc (w - 1) (unat d))
     (\<lambda>_. 1 < w \<and> w \<le> 32)"
  by (rule appendsI) (auto dest: emit_vbr_bits_ok emit_vbr_bits_oom)

section \<open>The primitives of the code\<close>

lemma index_of_less: "x \<in> set xs \<Longrightarrow> index_of x xs < length xs"
  by (induction xs) auto

lemma nth_index_of: "x \<in> set xs \<Longrightarrow> xs ! index_of x xs = x"
  by (induction xs) auto

lemma length_char6_alphabet: "length char6_alphabet = 64"
  by (simp add: char6_alphabet_def)

text \<open>The code of a 6-bit character is its position in the alphabet.\<close>

definition char6_position :: "char \<Rightarrow> nat option" where
  "char6_position c =
     (let n = (of_char c :: nat) in
      if 97 \<le> n \<and> n \<le> 122 then Some (n - 97)
      else if 65 \<le> n \<and> n \<le> 90 then Some (26 + n - 65)
      else if 48 \<le> n \<and> n \<le> 57 then Some (52 + n - 48)
      else if c = CHR ''.'' then Some 62
      else if c = CHR ''_'' then Some 63
      else None)"

lemma char6_alphabet_codes:
  "char6_alphabet = map char_of [97..<123 :: nat] @ map char_of [65..<91 :: nat] @
     map char_of [48..<58 :: nat] @ ''._''"
  by code_simp

lemma nth_run:
  "k < b - a \<Longrightarrow> (map f [a..<b] @ xs) ! k = f (a + k)"
  "b - a \<le> k \<Longrightarrow> (map f [a..<b] @ xs) ! k = xs ! (k - (b - a))"
  by (simp_all add: nth_append)

lemma char6_alphabet_nth:
  "k < 26 \<Longrightarrow> char6_alphabet ! k = char_of (97 + k)"
  "26 \<le> k \<Longrightarrow> k < 52 \<Longrightarrow> char6_alphabet ! k = char_of (65 + (k - 26))"
  "52 \<le> k \<Longrightarrow> k < 62 \<Longrightarrow> char6_alphabet ! k = char_of (48 + (k - 52))"
  "char6_alphabet ! 62 = CHR ''.''" "char6_alphabet ! 63 = CHR ''_''"
proof -
  note r = nth_run [where a = 97 and b = 123] nth_run [where a = 65 and b = 91] nth_run [where a = 48 and b = 58]
  show "k < 26 \<Longrightarrow> char6_alphabet ! k = char_of (97 + k)"
    unfolding char6_alphabet_codes by (subst r(1)) simp_all
  show "26 \<le> k \<Longrightarrow> k < 52 \<Longrightarrow> char6_alphabet ! k = char_of (65 + (k - 26))"
    unfolding char6_alphabet_codes by (subst r(2), simp, subst r(3)) simp_all
  show "52 \<le> k \<Longrightarrow> k < 62 \<Longrightarrow> char6_alphabet ! k = char_of (48 + (k - 52))"
    unfolding char6_alphabet_codes by (subst r(2), simp, subst r(4), simp, subst r(5)) simp_all
qed (simp_all add: char6_alphabet_def)

lemma char6_position_nth: "k < 64 \<Longrightarrow> char6_position (char6_alphabet ! k) = Some k"
proof -
  assume k: "k < 64"
  have n: "char6_position (char_of n) =
      (if 97 \<le> n \<and> n \<le> 122 then Some (n - 97) else if 65 \<le> n \<and> n \<le> 90 then Some (26 + n - 65)
       else if 48 \<le> n \<and> n \<le> 57 then Some (52 + n - 48) else if n = 46 then Some 62
       else if n = 95 then Some 63 else None)" if "n < 256" for n :: nat
  proof -
    have "char_of n = CHR ''.'' \<longleftrightarrow> n = 46" "char_of n = CHR ''_'' \<longleftrightarrow> n = 95"
      using that by (simp_all add: char_of_eq_iff take_bit_nat_eq_self)
    moreover have "of_char (char_of n :: char) = n" using that by simp
    ultimately show ?thesis by (simp only: char6_position_def Let_def)
  qed
  consider "k < 26" | "26 \<le> k \<and> k < 52" | "52 \<le> k \<and> k < 62" | "k = 62" | "k = 63" using k by linarith
  then show ?thesis
  proof cases
    case 3
    then have "char6_position (char_of (48 + (k - 52))) = Some k" using n [of "48 + (k - 52)"] by auto
    then show ?thesis using 3 by (simp only: char6_alphabet_nth)
  qed (simp_all add: char6_alphabet_nth n, simp_all add: char6_position_def Let_def)
qed

lemma char6_position_Some:
  assumes "char6_position c = Some k"
  shows "k < 64 \<and> char6_alphabet ! k = c"
proof -
  define n where "n = (of_char c :: nat)"
  have c: "c = char_of n" by (simp add: n_def)
  from assms consider "97 \<le> n \<and> n \<le> 122 \<and> k = n - 97" | "65 \<le> n \<and> n \<le> 90 \<and> k = 26 + n - 65"
    | "48 \<le> n \<and> n \<le> 57 \<and> k = 52 + n - 48" | "c = CHR ''.'' \<and> k = 62" | "c = CHR ''_'' \<and> k = 63"
    unfolding char6_position_def n_def [symmetric] Let_def by (auto split: if_splits)
  then show ?thesis
  proof cases
    case 4
    then show ?thesis by (simp add: char6_alphabet_def)
  next
    case 5
    then show ?thesis by (simp add: char6_alphabet_def)
  next
    case 1
    then have "k < 26" "97 + k = n" by linarith+
    then have "char6_alphabet ! k = char_of n" by (metis char6_alphabet_nth(1))
    then show ?thesis using \<open>k < 26\<close> c by simp
  next
    case 2
    then have "26 \<le> k" "k < 52" "65 + (k - 26) = n" by linarith+
    then have "char6_alphabet ! k = char_of n" by (metis char6_alphabet_nth(2))
    then show ?thesis using \<open>k < 52\<close> c by simp
  next
    case 3
    then have "52 \<le> k" "k < 62" "48 + (k - 52) = n" by linarith+
    then have "char6_alphabet ! k = char_of n" by (metis char6_alphabet_nth(3))
    then show ?thesis using \<open>k < 62\<close> c by simp
  qed
qed

lemma index_of_nth: "distinct xs \<Longrightarrow> k < length xs \<Longrightarrow> index_of (xs ! k) xs = k"
proof (induction xs arbitrary: k)
  case (Cons x xs)
  then show ?case by (cases k) (auto simp: in_set_conv_nth)
qed simp

lemma distinct_char6_alphabet: "distinct char6_alphabet"
  unfolding distinct_conv_nth length_char6_alphabet by (metis char6_position_nth option.inject)

lemma char6_position_alphabet:
  "\<forall>c. char6_position c = (if c \<in> set char6_alphabet then Some (index_of c char6_alphabet) else None)"
proof
  fix c
  show "char6_position c = (if c \<in> set char6_alphabet then Some (index_of c char6_alphabet) else None)"
  proof (cases "char6_position c")
    case None
    then have "c \<notin> set char6_alphabet"
      using char6_position_nth by (auto simp: in_set_conv_nth length_char6_alphabet)
    then show ?thesis using None by simp
  next
    case (Some k)
    then show ?thesis
      using char6_position_Some [OF Some] index_of_nth [OF distinct_char6_alphabet, of k]
      by (auto simp: length_char6_alphabet in_set_conv_nth)
  qed
qed

lemma is_char6_alphabet: "is_char6 c \<longleftrightarrow> c \<in> set char6_alphabet"
proof -
  have "is_char6 c \<longleftrightarrow> char6_position c \<noteq> None"
    by (auto simp: is_char6_def char6_position_def Let_def)
  then show ?thesis using char6_position_alphabet by simp
qed

lemma encode_char6_alphabet:
  "encode_char6 c =
     (if c \<in> set char6_alphabet then Inr (of_nat (index_of c char6_alphabet)) else Inl Unreachable)"
proof -
  have "encode_char6 c = (case char6_position c of Some n \<Rightarrow> Inr (of_nat n) | None \<Rightarrow> Inl Unreachable)"
    by (auto simp: encode_char6_def char6_position_def Let_def)
  then show ?thesis using char6_position_alphabet by simp
qed

lemma appends_char6:
  "appends (\<lambda>b. emit_char6 b d) (\<lambda>_. scalar_bits CHAR6 d) (\<lambda>_. scalar_fits CHAR6 d)"
proof (cases "datum_char d \<in> set char6_alphabet")
  case True
  let ?n = "index_of (datum_char d) char6_alphabet"
  have n: "?n < 64" using index_of_less [OF True] by (simp add: length_char6_alphabet)
  then have u: "unat (of_nat ?n :: 32 word) = ?n" by (simp add: unat_of_nat)
  have "(\<lambda>b. emit_char6 b d) = (\<lambda>b. dxil_buffer_emit_bits b (of_nat ?n) 6)"
    using True by (simp add: emit_char6_def encode_char6_alphabet datum_char_def)
  then show ?thesis
    using appends_cong [OF appends_bits [of "of_nat ?n" 6]] True u by simp
next
  case False
  then have "(\<lambda>b. emit_char6 b d) = (\<lambda>_. Inl Unreachable)"
    by (simp add: emit_char6_def encode_char6_alphabet datum_char_def)
  then show ?thesis using appends_fail False by (simp add: appends_def)
qed

lemma appends_fixed:
  "appends (\<lambda>b. emit_fixed b d w) (\<lambda>_. scalar_bits (FIXED w) d) (\<lambda>_. scalar_fits (FIXED w) d)"
proof (cases "w = 0")
  case True
  then show ?thesis by (simp add: emit_fixed_def appends_def nat_bits_def)
next
  case False
  show ?thesis
  proof (cases "0xFFFFFFFF < d")
    case True
    have "\<not> (\<exists>b'. emit_fixed b d w = Inr b')" for b
      using True False by (auto simp: emit_fixed_def emit_bits64_def dxil_buffer_emit_bits_def)
    then show ?thesis by (simp add: appends_def)
  next
    case d: False
    then have "unat d < 2 ^ 32" by (simp add: word_less_nat_alt)
    then have "unat (ucast d :: 32 word) = unat d"
      by (simp add: unsigned_ucast_eq take_bit_nat_eq_self)
    moreover have "(\<lambda>b. emit_fixed b d w) = (\<lambda>b. dxil_buffer_emit_bits b (ucast d) w)"
      using False d by (simp add: emit_fixed_def emit_bits64_def)
    ultimately show ?thesis
      using appends_cong [OF appends_bits [of "ucast d" w]] by simp
  qed
qed

lemma appends_emit_vbr:
  "appends (\<lambda>b. emit_vbr b d w) (\<lambda>_. scalar_bits (VBR w) d) (\<lambda>_. scalar_fits (VBR w) d)"
proof (cases "w = 0")
  case True
  then show ?thesis by (simp add: emit_vbr_def appends_def)
next
  case False
  then have "(\<lambda>b. emit_vbr b d w) = (\<lambda>b. dxil_buffer_emit_vbr_bits b d w)"
    by (simp add: emit_vbr_def)
  then show ?thesis using False appends_cong [OF appends_vbr [of d w]] by simp
qed

lemma appends_array_elem:
  "appends (emit_array_elem e d) (\<lambda>_. scalar_bits e d) (\<lambda>_. is_scalar e \<and> scalar_fits e d)"
proof (cases e)
  case (FIXED w)
  then have "emit_array_elem e d = (\<lambda>b. emit_fixed b d w)" by auto
  then show ?thesis using appends_fixed [of d w] FIXED by (simp add: is_scalar_def)
next
  case (VBR w)
  then have "emit_array_elem e d = (\<lambda>b. emit_vbr b d w)" by auto
  then show ?thesis using appends_emit_vbr [of d w] VBR by (simp add: is_scalar_def)
next
  case CHAR6
  then have "emit_array_elem e d = (\<lambda>b. emit_char6 b d)" by auto
  then show ?thesis using appends_char6 [of d] CHAR6 by (simp add: is_scalar_def)
qed (simp_all add: appends_def is_scalar_def)

lemma appends_array:
  "appends (emit_operands [ARRAY, e] ds) (\<lambda>_. operands_bits [ARRAY, e] ds)
     (\<lambda>_. operands_fit [ARRAY, e] ds)"
proof (cases "is_scalar e")
  case True
  have "(\<lambda>b. case e of FIXED _ \<Rightarrow> seq (map (emit_array_elem e) ds) b
             | VBR _ \<Rightarrow> seq (map (emit_array_elem e) ds) b
             | CHAR6 \<Rightarrow> seq (map (emit_array_elem e) ds) b
             | _ \<Rightarrow> Inl Unreachable) = seq (map (emit_array_elem e) ds)"
    using True by (auto simp: is_scalar_def split: operand.splits)
  then have "emit_operands [ARRAY, e] ds =
      (\<lambda>b. bind_result (dxil_buffer_emit_vbr_bits b (of_nat (length ds)) 6)
         (seq (map (emit_array_elem e) ds)))"
    by (intro ext) simp
  moreover have m: "appends (seq (map (emit_array_elem e) ds)) (\<lambda>w. concat (map (scalar_bits e) ds))
      (\<lambda>w. list_all (\<lambda>d. is_scalar e \<and> scalar_fits e d) ds)"
    by (rule appends_seq_map) (rule appends_array_elem)
  have "appends (\<lambda>b. bind_result (dxil_buffer_emit_vbr_bits b (of_nat (length ds)) 6)
         (seq (map (emit_array_elem e) ds)))
     (\<lambda>w. vbr_enc 5 (len_u64 ds) @ concat (map (scalar_bits e) ds))
     (\<lambda>w. True \<and> list_all (\<lambda>d. is_scalar e \<and> scalar_fits e d) ds)"
    using appends_bind [OF appends_vbr [of "of_nat (length ds)" 6] m] by (simp add: len_u64_def)
  ultimately show ?thesis using True by (simp add: list_all_iff)
next
  case False
  have "\<not> (\<exists>b'. emit_operands [ARRAY, e] ds b = Inr b')" for b
    using False by (auto simp: is_scalar_def split: operand.splits)
  then show ?thesis by (simp add: appends_def del: emit_operands.simps)
qed

lemma appends_operands:
  "appends (emit_operands a ds) (\<lambda>_. operands_bits a ds) (\<lambda>_. operands_fit a ds)"
proof (induction a arbitrary: ds)
  case Nil
  have "emit_operands [] ds = check_that (ds = [])" by (rule ext) simp
  then show ?case using appends_check by simp
next
  case (Cons op ops)
  have scalar: ?case if "\<And>d b. (case op of LITERAL v \<Rightarrow> check_that (d = v) b
             | FIXED w \<Rightarrow> emit_fixed b d w | VBR w \<Rightarrow> emit_vbr b d w | _ \<Rightarrow> emit_char6 b d) = f d b"
    and "\<And>d. appends (f d) (\<lambda>_. scalar_bits op d) (\<lambda>_. scalar_fits op d)"
    and "op \<noteq> ARRAY" and "op \<noteq> BLOB" for f
  proof (cases ds)
    case Nil
    have "emit_operands (op # ops) ds = (\<lambda>_. Inl Assertion)"
      by (rule ext, cases op) (use that Nil in simp_all)
    then show ?thesis by (simp add: appends_def)
  next
    case (Cons d ds')
    have "emit_operands (op # ops) ds = (\<lambda>b. bind_result (f d b) (emit_operands ops ds'))"
      by (rule ext, cases op) (use that Cons that(1) [of d, symmetric] in simp_all)
    moreover have "operands_bits (op # ops) ds = scalar_bits op d @ operands_bits ops ds'"
      "operands_fit (op # ops) ds = (scalar_fits op d \<and> operands_fit ops ds')"
      using that Cons by (cases op; simp)+
    ultimately show ?thesis using appends_bind [OF that(2) Cons.IH [of ds']] by simp
  qed
  show ?case
  proof (cases op)
    case (LITERAL v)
    have "appends (check_that (d = v)) (\<lambda>_. scalar_bits op d) (\<lambda>_. scalar_fits op d)" for d
      using LITERAL appends_check [of "d = v"] by simp
    then show ?thesis using scalar [of "\<lambda>d. check_that (d = v)"] LITERAL by simp
  next
    case (FIXED w)
    then show ?thesis using scalar [of "\<lambda>d b. emit_fixed b d w"] appends_fixed [of _ w] by simp
  next
    case (VBR w)
    then show ?thesis using scalar [of "\<lambda>d b. emit_vbr b d w"] appends_emit_vbr [of _ w] by simp
  next
    case ARRAY
    show ?thesis
    proof (cases "\<exists>e. ops = [e]")
      case True
      then show ?thesis using appends_array ARRAY by blast
    next
      case False
      then have "\<not> (\<exists>b'. emit_operands (op # ops) ds b = Inr b')" for b
        using ARRAY by (auto split: list.splits)
      then show ?thesis by (simp add: appends_def)
    qed
  next
    case CHAR6
    then show ?thesis using scalar [of "\<lambda>d b. emit_char6 b d"] appends_char6 by simp
  next
    case BLOB
    have "emit_operands (op # ops) ds = (\<lambda>_. Inl Unreachable)" using BLOB by auto
    then show ?thesis by (simp add: appends_def)
  qed
qed

lemma appends_record_abbrev:
  "appends (emit_record_abbrev i a ds) (\<lambda>w. enc_item w p (Abbreviated i a ds))
     (\<lambda>w. item_fits w (Abbreviated i a ds))"
proof (cases "4 \<le> i")
  case True
  then have "emit_record_abbrev i a ds =
      seq [\<lambda>b. dxil_buffer_emit_abbrev_id b i, emit_operands a ds]"
    by (simp add: emit_record_abbrev_def fun_eq_iff linorder_not_less [symmetric])
  moreover have "2 \<le> w" if "unat i < 2 ^ w" for w
  proof -
    have "4 \<le> unat i" using True by (simp add: word_le_nat_alt)
    then have "(2 :: nat) ^ 1 < 2 ^ w" using that by simp
    then show ?thesis by (simp only: power_strict_increasing_iff)
  qed
  ultimately show ?thesis
    using True
    by (simp, intro appends_cong [OF appends_seq_Cons [OF appends_abbrev_id [of i]
        appends_seq_Cons [OF appends_operands [of a ds] appends_seq_Nil]]])
      (auto simp: width_ok_def)
next
  case False
  then have "emit_record_abbrev i a ds = (\<lambda>_. Inl Assertion)"
    by (simp add: emit_record_abbrev_def fun_eq_iff not_le)
  then show ?thesis by (simp add: appends_def)
qed

lemma appends_fixed_id:
  "appends (emit_fixed_abbrev_id a) (\<lambda>w. nat_bits w (unat (fixed_abbrev_id a)))
     (\<lambda>w. 0 < w \<and> w \<le> 32 \<and> unat (fixed_abbrev_id a) < 2 ^ w)"
  using appends_abbrev_id unfolding emit_fixed_abbrev_id_def .

lemma unat_ucast_32_64: "unat (ucast (c :: 32 word) :: 64 word) = unat c"
proof -
  have "unat c < 2 ^ 32" using unsigned_less [of c] by simp
  then show ?thesis by (simp add: unsigned_ucast_eq take_bit_nat_eq_self)
qed

lemma wide_ids: "0 < w \<Longrightarrow> w \<le> 32 \<Longrightarrow> 1 < (n :: nat) \<Longrightarrow> n < 2 ^ w \<Longrightarrow> width_ok w"
  by (cases "w = 1") (auto simp: width_ok_def)

text \<open>No stream reaches \<open>2 ^ 66\<close> bits, so the counts of a record are never truncated.\<close>

lemma appends_bounded: "appends f e P \<Longrightarrow> appends f e (\<lambda>w. P w \<and> length (e w) < 2 ^ 66)"
proof (rule appendsI)
  assume f: "appends f e P"
  fix b b' assume r: "f b = Inr b'"
  show "oom b'" if "oom b" using appends_oom [OF f r that] .
  assume "buffer_ok b"
  note a = appendsD [OF f r this]
  then have "growing (blob b')" "buf_bits b' < 32" by (simp_all add: buffer_ok_def)
  moreover obtain q where "blob_size (blob b') = 4 * q"
    using a by (auto simp: buffer_ok_def mod_eq_0_iff_dvd dvd_def)
  ultimately have "4 * q < 2 ^ 63" "buf_bits b' < 32" "length (stream b') = 32 * q + buf_bits b'"
    using a length_stream [of b'] by (simp_all add: growing_def blob_ok_def)
  moreover from this have "q < 2 ^ 61" by simp
  ultimately have "length (stream b') < 8 * 2 ^ 63" by simp
  then have "length (e (abbrev_width b)) < 2 ^ 66" using a by simp
  then show "buffer_ok b' \<and> abbrev_width b' = abbrev_width b \<and>
      stream b' = stream b @ e (abbrev_width b) \<and>
      (P (abbrev_width b) \<and> length (e (abbrev_width b)) < 2 ^ 66)"
    using a by simp
qed

lemma length_vbr_enc: "k < length (vbr_enc k n)"
  by (subst vbr_enc.simps) simp

lemma length_vbr_concat: "6 * length ds \<le> length (concat (map (\<lambda>d. vbr_enc 5 (unat d)) ds))"
proof (induction ds)
  case (Cons d ds)
  then show ?case using length_vbr_enc [of 5 "unat d"] by simp
qed simp

lemma appends_record:
  "appends (emit_record_no_abbrev code ds) (\<lambda>w. enc_item w p (Record code ds))
     (\<lambda>w. item_fits w (Record code ds))"
proof -
  have "appends (emit_record_no_abbrev code ds) (\<lambda>w. enc_item w p (Record code ds)) width_ok"
    unfolding emit_record_no_abbrev_def
    apply (rule appends_cong)
     apply (rule appends_seq_append)
      apply (rule appends_seq_Cons [OF appends_fixed_id appends_seq_Cons [OF appends_vbr
            appends_seq_Cons [OF appends_vbr appends_seq_Nil]]])
     apply (rule appends_seq_map [OF appends_vbr])
    apply (auto simp: len_u64_def unat_ucast_32_64 intro: wide_ids [where n = 3])
    done
  note b = appends_bounded [OF this]
  show ?thesis
    by (rule appends_cong [OF b]) (use length_vbr_concat [of ds] in auto)
qed

lemma appends_define_operand:
  "appends (define_operand op) (\<lambda>_. definition_bits op) (\<lambda>_. True)"
proof -
  note one = appends_bits [of 1 1] appends_bits [of 0 1]
  have nb: "nat_bits (Suc 0) (Suc 0) = [True]" "nat_bits (Suc 0) 0 = [False]"
    by (simp_all add: nat_bits_def bit_iff_odd)
  have lit: "appends (seq [\<lambda>b. dxil_buffer_emit_bits b 1 1, \<lambda>b. dxil_buffer_emit_vbr_bits b v 8])
      (\<lambda>_. True # vbr_enc 7 (unat v)) (\<lambda>_. True)" for v
    by (rule appends_cong [OF appends_seq_Cons [OF one(1) appends_seq_Cons [OF appends_vbr
            appends_seq_Nil]]]) (simp add: nb)
  have par: "appends (seq [\<lambda>b. dxil_buffer_emit_bits b 0 1, \<lambda>b. dxil_buffer_emit_bits b c 3,
        \<lambda>b. dxil_buffer_emit_vbr_bits b v 5])
      (\<lambda>_. False # nat_bits 3 (unat c) @ vbr_enc 4 (unat v)) (\<lambda>_. True)" for c v
    by (rule appends_cong [OF appends_seq_Cons [OF one(2) appends_seq_Cons [OF appends_bits
            appends_seq_Cons [OF appends_vbr appends_seq_Nil]]]]) (simp add: nb)
  have plain: "appends (seq [\<lambda>b. dxil_buffer_emit_bits b 0 1, \<lambda>b. dxil_buffer_emit_bits b c 3])
      (\<lambda>_. False # nat_bits 3 (unat c)) (\<lambda>_. True)" for c
    by (rule appends_cong [OF appends_seq_Cons [OF one(2) appends_seq_Cons [OF appends_bits
            appends_seq_Nil]]]) (simp add: nb)
  show ?thesis
  proof (cases op)
    case (LITERAL v)
    then show ?thesis using lit by simp
  next
    case (FIXED w)
    then show ?thesis using par [of 1 "of_nat w"] by simp
  next
    case (VBR w)
    then show ?thesis using par [of 2 "of_nat w"] by simp
  next
    case ARRAY
    then show ?thesis using plain [of 3] by simp
  next
    case CHAR6
    then show ?thesis using plain [of 4] by simp
  next
    case BLOB
    then show ?thesis using plain [of 5] by simp
  qed
qed

lemma appends_define_abbrev:
  "appends (seq ([emit_fixed_abbrev_id DXIL_DEFINE_ABBREV,
                   \<lambda>b. dxil_buffer_emit_vbr_bits b (of_nat (length a)) 5] @
                  map define_operand a))
     (\<lambda>w. enc_item w p (Definition a)) (\<lambda>w. item_fits w (Definition a))"
  apply (rule appends_cong)
   apply (rule appends_seq_append)
    apply (rule appends_seq_Cons [OF appends_fixed_id appends_seq_Cons [OF appends_vbr appends_seq_Nil]])
   apply (rule appends_seq_map [OF appends_define_operand])
  apply (auto simp: len_u64_def intro: wide_ids [where n = 2])
  done

end
