(* ===== verification/Emits.thy ===== *)
theory Emits
  imports Bitstream Blob_Roundtrip
begin

text \<open>
  What the functions on the whole writer emit. \<open>emits f is\<close>: when \<open>f\<close> returns it has appended the
  items \<open>is\<close>, under the abbreviation width in force and at the position reached, has left the
  stack of open blocks as it found it, and every field of the items fits its bits. The rule for
  blocks contains the back-patching of the length word by \<open>exit_block\<close>.
\<close>

definition writer_ok :: "writer \<Rightarrow> bool" where
  "writer_ok s \<longleftrightarrow> buffer_ok (wbuf s)"

definition wstream :: "writer \<Rightarrow> bool list" where
  "wstream s = stream (wbuf s)"

definition wwidth :: "writer \<Rightarrow> nat" where
  "wwidth s = abbrev_width (wbuf s)"

definition emits :: "(writer \<Rightarrow> writer result) \<Rightarrow> item list \<Rightarrow> bool" where
  "emits f is \<longleftrightarrow> (\<forall>s s'. f s = Inr s' \<longrightarrow>
     (oom (wbuf s) \<longrightarrow> oom (wbuf s')) \<and>
     (writer_ok s \<longrightarrow> writer_ok s' \<and> wwidth s' = wwidth s \<and> blocks s' = blocks s \<and>
        wstream s' = wstream s @ enc_items (wwidth s) (length (wstream s)) is \<and>
        list_all (item_fits (wwidth s)) is))"

lemma emitsI:
  assumes "\<And>s s'. f s = Inr s' \<Longrightarrow> oom (wbuf s) \<Longrightarrow> oom (wbuf s')"
    and "\<And>s s'. f s = Inr s' \<Longrightarrow> writer_ok s \<Longrightarrow>
      writer_ok s' \<and> wwidth s' = wwidth s \<and> blocks s' = blocks s \<and>
      wstream s' = wstream s @ enc_items (wwidth s) (length (wstream s)) is \<and>
      list_all (item_fits (wwidth s)) is"
  shows "emits f is"
  using assms unfolding emits_def by blast

lemma emits_oom: "emits f is \<Longrightarrow> f s = Inr s' \<Longrightarrow> oom (wbuf s) \<Longrightarrow> oom (wbuf s')"
  by (simp add: emits_def)

lemma emitsD:
  "emits f is \<Longrightarrow> f s = Inr s' \<Longrightarrow> writer_ok s \<Longrightarrow>
   writer_ok s' \<and> wwidth s' = wwidth s \<and> blocks s' = blocks s \<and>
   wstream s' = wstream s @ enc_items (wwidth s) (length (wstream s)) is \<and>
   list_all (item_fits (wwidth s)) is"
  by (simp add: emits_def)

lemma enc_items_append:
  "enc_items w p (is @ js) = enc_items w p is @ enc_items w (p + length (enc_items w p is)) js"
  by (induction "is" arbitrary: p) (simp_all add: Let_def add.assoc)

lemma emits_fail: "(\<And>s. \<exists>e. f s = Inl e) \<Longrightarrow> emits f is"
  unfolding emits_def by (metis Inl_Inr_False)

lemma emits_skip: "emits Inr []"
  by (simp add: emits_def)

lemma emits_check: "(C \<Longrightarrow> emits f is) \<Longrightarrow> emits (\<lambda>s. bind_result (check_that C s) f) is"
  unfolding emits_def by auto

lemma emits_bind:
  assumes "emits f is" and "emits g js"
  shows "emits (\<lambda>s. bind_result (f s) g) (is @ js)"
proof (rule emitsI)
  fix s s' assume "bind_result (f s) g = Inr s'"
  then obtain t where t: "f s = Inr t" "g t = Inr s'" by auto
  show "oom (wbuf s')" if "oom (wbuf s)" using that t assms by (meson emits_oom)
  assume "writer_ok s"
  from emitsD [OF assms(1) t(1) this] emitsD [OF assms(2) t(2)]
  show "writer_ok s' \<and> wwidth s' = wwidth s \<and> blocks s' = blocks s \<and>
      wstream s' = wstream s @ enc_items (wwidth s) (length (wstream s)) (is @ js) \<and>
      list_all (item_fits (wwidth s)) (is @ js)"
    by (simp add: enc_items_append)
qed

lemma emits_seq_Nil: "emits (seq []) []"
  unfolding seq_fun by (rule emits_skip)

lemma emits_seq_Cons: "emits f is \<Longrightarrow> emits (seq fs) js \<Longrightarrow> emits (seq (f # fs)) (is @ js)"
  unfolding seq_fun by (rule emits_bind)

lemma emits_seq_single: "emits f is \<Longrightarrow> emits (seq [f]) is"
  using emits_seq_Cons [OF _ emits_seq_Nil] by fastforce

lemma emits_seq_append:
  assumes "emits (seq fs) is" and "emits (seq gs) js"
  shows "emits (seq (fs @ gs)) (is @ js)"
proof -
  have "seq (fs @ gs) = (\<lambda>s. bind_result (seq fs s) (seq gs))" by (rule ext) (rule seq_append)
  then show ?thesis using emits_bind [OF assms] by simp
qed

lemma emits_seq_map:
  assumes "\<And>x. x \<in> set xs \<Longrightarrow> emits (g x) (e x)"
  shows "emits (seq (map g xs)) (concat (map e xs))"
  using assms
proof (induction xs)
  case Nil
  then show ?case by (simp add: emits_def)
next
  case (Cons x xs)
  have "emits (seq (g x # map g xs)) (e x @ concat (map e xs))"
    by (rule emits_seq_Cons) (use Cons in simp_all)
  then show ?case by (simp only: list.map concat.simps)
qed

lemma emits_on_buf:
  assumes "\<And>p. appends f (\<lambda>w. enc_item w p i) (\<lambda>w. item_fits w i)"
  shows "emits (on_buf f) [i]"
proof (rule emitsI)
  fix s s' assume "on_buf f s = Inr s'"
  then obtain b where b: "f (wbuf s) = Inr b" "s' = s\<lparr>wbuf := b\<rparr>" by (auto simp: on_buf_def)
  show "oom (wbuf s')" if "oom (wbuf s)" using appends_oom [OF assms b(1) that] b(2) by simp
  assume "writer_ok s"
  then have "buffer_ok (wbuf s)" by (simp add: writer_ok_def)
  from appendsD [OF assms b(1) this, of "length (wstream s)"]
  show "writer_ok s' \<and> wwidth s' = wwidth s \<and> blocks s' = blocks s \<and>
      wstream s' = wstream s @ enc_items (wwidth s) (length (wstream s)) [i] \<and>
      list_all (item_fits (wwidth s)) [i]"
    by (simp add: b(2) writer_ok_def wwidth_def wstream_def)
qed

lemma emits_record: "emits (emit_record code ds) [Record code ds]"
  unfolding emit_record_def by (rule emits_on_buf) (rule appends_record)

lemma emits_record_int: "emits (emit_record_int code v) [Record code [scast v]]"
  unfolding emit_record_int_def by (rule emits_record)

lemma emits_record_abbrev: "emits (on_buf (emit_record_abbrev i a ds)) [Abbreviated i a ds]"
  by (rule emits_on_buf) (rule appends_record_abbrev)

lemma emits_define_abbrev: "emits (define_abbrev a) [Definition a]"
  unfolding define_abbrev_def by (rule emits_on_buf) (rule appends_define_abbrev)

section \<open>Blocks\<close>

lemma length_pad: "(p + length (pad p)) mod 32 = 0"
proof -
  have "(p + (32 - p mod 32) mod 32) mod 32 = (p + (32 - p mod 32)) mod 32" by (simp add: mod_simps)
  also have "p + (32 - p mod 32) = 32 * (p div 32 + 1)"
  proof -
    obtain q r where "p = 32 * q + r" "r < 32"
      by (metis mult_div_mod_eq mod_less_divisor zero_less_numeral)
    then show ?thesis by simp
  qed
  finally show ?thesis by (simp add: pad_def)
qed

lemma pad_cong: "p mod 32 = q mod 32 \<Longrightarrow> pad p = pad q"
  by (simp add: pad_def)

lemma block_header_cong:
  assumes "p mod 32 = q mod 32"
  shows "block_header w p i w' = block_header w q i w'"
proof -
  have "pad (p + n) = pad (q + n)" for n
    using assms by (intro pad_cong) (metis mod_add_left_eq)
  then show ?thesis by (simp add: block_header_def Let_def)
qed

text \<open>Only the position within a 32-bit word matters.\<close>

lemma enc_item_cong: "p mod 32 = q mod 32 \<Longrightarrow> enc_item w p i = enc_item w q i"
  by (cases i) (simp_all add: block_bits_def Let_def block_header_cong [of p q])

lemma enc_items_cong: "p mod 32 = q mod 32 \<Longrightarrow> enc_items w p is = enc_items w q is"
proof (induction "is" arbitrary: p q)
  case (Cons i "is")
  have "(p + n) mod 32 = (q + n) mod 32" for n using Cons.prems by (metis mod_add_left_eq)
  then show ?case
    using Cons.IH [of "p + length (enc_item w q i)" "q + length (enc_item w q i)"]
    by (simp only: enc_items.simps Let_def enc_item_cong [OF Cons.prems])
qed simp

lemma nat_bits_of_nat: "n \<le> LENGTH('a::len) \<Longrightarrow> word_bits n (of_nat m :: 'a word) = nat_bits n m"
  by (auto simp: word_bits_eq_nat_bits nat_bits_def unsigned_of_nat bit_take_bit_iff)

lemma align_4: "n mod 4 = 0 \<Longrightarrow> n < 2 ^ 63 \<Longrightarrow> align_uintptr n 4 = n"
  by (auto simp: align_uintptr_def size_add_def)

lemma reserve_uint32_ok:
  assumes "growing b" and "blob_size b mod 4 = 0" and "blob_reserve_uint32 b = (off, b')"
  shows "out_of_memory b' \<or>
    (growing b' \<and> off = int (blob_size b) \<and> (\<exists>j. length j = 4 \<and> blob_contents b' = blob_contents b @ j))"
proof -
  have ok: "blob_ok b" "\<not> fixed_allocation b" "blob_size b < 2 ^ 63"
    using assms(1) by (auto simp: growing_def blob_ok_def)
  obtain g t where g: "grow_to_fit b 4 = (g, t)" by fastforce
  note t = grow_to_fit_cases [OF ok(1) _ g]
  have al: "blob_align b 4 = (True, b)"
    using align_4 [OF assms(2) ok(3)] by (simp add: blob_align_def)
  show ?thesis
  proof (cases g)
    case False
    then show ?thesis using assms(3) g t by (auto simp: blob_reserve_uint32_def al blob_reserve_bytes_def)
  next
    case True
    then have b': "off = int (blob_size t)" "b' = t\<lparr>blob_data := map_option (\<lambda>d. d @ replicate 4 (junk t)) (blob_data t),
             blob_size := blob_size t + 4\<rparr>"
      using assms(3) g by (auto simp: blob_reserve_uint32_def al blob_reserve_bytes_def)
    have d: "blob_data t \<noteq> None" using t(8) True ok by simp
    have "blob_contents b' = blob_contents b @ replicate 4 (junk t)"
      using d t(2) b' by (auto simp: blob_contents_def split: option.splits)
    moreover have "growing b'"
      using t True ok d b' by (auto simp: growing_def blob_ok_def split: option.splits)
    ultimately show ?thesis using b' t(3) by (intro disjI2 conjI exI [of _ "replicate 4 (junk t)"]) simp_all
  qed
qed

lemma on_buf_Inr: "on_buf f s = Inr s' \<longleftrightarrow> (\<exists>b. f (wbuf s) = Inr b \<and> s' = s\<lparr>wbuf := b\<rparr>)"
  by (auto simp: on_buf_def)

lemma align_oom: "dxil_buffer_align b = Inr b' \<Longrightarrow> oom b \<Longrightarrow> buf_bits b = 0 \<and> b' = b"
  using flush_dword_not_oom [of "b\<lparr>buf_bits := 32\<rparr>" b']
  by (auto simp: dxil_buffer_align_def oom_def split: if_splits)

lemma enter_subblock_oom:
  assumes "enter_subblock i w' s = Inr s'" and "oom (wbuf s)"
  shows False
proof -
  obtain b1 b2 b3 b4 where b: "emit_fixed_abbrev_id DXIL_ENTER_SUBBLOCK (wbuf s) = Inr b1"
    "dxil_buffer_emit_vbr_bits b1 (ucast i) 8 = Inr b2"
    "dxil_buffer_emit_vbr_bits b2 (of_nat w') 4 = Inr b3" "dxil_buffer_align b3 = Inr b4"
    using assms(1) by (auto simp: enter_subblock_def on_buf_Inr Let_def split: if_splits)
  have "oom b2"
    using b(1,2) assms(2) appends_oom [OF appends_fixed_id] appends_oom [OF appends_vbr] by blast
  then have "oom b3 \<and> 0 < buf_bits b3" using emit_vbr_bits_oom b(3) by blast
  then show False using align_oom [OF b(4)] by simp
qed

lemma enter_subblock_ok:
  assumes "writer_ok s" and "enter_subblock i w' s = Inr s'" and "\<not> oom (wbuf s')"
  shows "\<exists>o' j. writer_ok s' \<and> wwidth s' = w' \<and> blocks s' = (wwidth s, int o') # blocks s \<and>
    wstream s' = wstream s @ block_header (wwidth s) (length (wstream s)) i w' @ j \<and>
    8 * o' = length (wstream s @ block_header (wwidth s) (length (wstream s)) i w') \<and>
    o' mod 4 = 0 \<and> length j = 32 \<and> 0 < wwidth s \<and> wwidth s \<le> 32 \<and> length (blocks s) < 16"
proof -
  let ?b = "wbuf s"
  have b0: "buffer_ok ?b" using assms(1) by (simp add: writer_ok_def)
  have d: "length (blocks s) < MAX_BLOCKS"
    using assms(2) by (auto simp: enter_subblock_def split: if_splits)
  obtain b1 b2 b3 b4 where b1: "emit_fixed_abbrev_id DXIL_ENTER_SUBBLOCK ?b = Inr b1"
    and b2: "dxil_buffer_emit_vbr_bits b1 (ucast i) 8 = Inr b2"
    and b3: "dxil_buffer_emit_vbr_bits b2 (of_nat w') 4 = Inr b3"
    and b4: "dxil_buffer_align b3 = Inr b4"
    and s'0: "s' = (let (off, bl) = blob_reserve_uint32 (blob b4) in
      s\<lparr>wbuf := b4\<lparr>abbrev_width := w', blob := bl\<rparr>, blocks := (wwidth s, off) # blocks s\<rparr>)"
    using assms(2) d by (auto simp: enter_subblock_def on_buf_Inr Let_def wwidth_def case_prod_unfold)
  obtain off bl where r: "blob_reserve_uint32 (blob b4) = (off, bl)" by fastforce
  then have s': "s' = s\<lparr>wbuf := b4\<lparr>abbrev_width := w', blob := bl\<rparr>, blocks := (wwidth s, off) # blocks s\<rparr>"
    using s'0 by simp
  note a1 = appendsD [OF appends_fixed_id b1 b0]
  from a1 have "buffer_ok b1" by simp
  note a2 = appendsD [OF appends_vbr b2 this]
  from a2 have "buffer_ok b2" by simp
  note a3 = appendsD [OF appends_vbr b3 this]
  from a3 have "buffer_ok b3" by simp
  note a4 = align_ok [OF this b4]
  let ?h = "nat_bits (wwidth s) 1 @ vbr_enc 7 (unat i) @ vbr_enc 3 (unat (of_nat w' :: 64 word))"
  have s3: "stream b3 = wstream s @ ?h"
    using a1 a2 a3 by (simp add: wstream_def wwidth_def unat_ucast_32_64)
  have s4: "stream b4 = wstream s @ block_header (wwidth s) (length (wstream s)) i w'"
    using a4 s3 by (simp add: block_header_def pad_def Let_def add.assoc)
  have g: "growing (blob b4)" "blob_size (blob b4) mod 4 = 0" "buf_bits b4 = 0" "buf b4 = 0"
    using a4 by (auto simp: buffer_ok_def)
  obtain j where j: "growing bl" "off = int (blob_size (blob b4))" "length j = 4"
    "blob_contents bl = blob_contents (blob b4) @ j"
    using reserve_uint32_ok [OF g(1,2) r] assms(3) s' by (auto simp: oom_def)
  have c: "stream b4 = bytes_bits (blob_contents (blob b4))" using g by (simp add: stream_def)
  have w: "wstream s' = stream b4 @ bytes_bits j" using j(4) g c by (simp add: s' wstream_def stream_def)
  have l: "8 * blob_size (blob b4) = length (stream b4)" using g by (simp add: c growing_size)
  have "blob_size bl mod 4 = 0" using j g by (simp add: growing_size)
  then have "writer_ok s'" using j g by (simp add: writer_ok_def s' buffer_ok_def)
  then show ?thesis
    using w s4 l j g(2) a1 d by (intro exI [of _ "blob_size (blob b4)"] exI [of _ "bytes_bits j"])
      (simp add: s' wwidth_def MAX_BLOCKS_def)
qed

lemma exit_block_oom:
  assumes "exit_block s = Inr s'" and "oom (wbuf s)"
  shows False
proof -
  obtain b1 b2 where b: "emit_fixed_abbrev_id DXIL_END_BLOCK (wbuf s) = Inr b1" "dxil_buffer_align b1 = Inr b2"
    using assms(1) by (auto simp: exit_block_def on_buf_Inr Let_def split: if_splits list.splits prod.splits)
  then show False
    using assms(2) emit_bits_oom align_oom [OF b(2)]
    by (fastforce simp: emit_fixed_abbrev_id_def dxil_buffer_emit_abbrev_id_def)
qed

lemma nat_diff_mod: "m < 2 ^ 63 \<Longrightarrow> o' < m \<Longrightarrow> nat ((int m - int o' - 1) mod 2 ^ 64) = m - o' - 1"
  by (subst mod_pos_pos_trivial) (auto simp: nat_diff_distrib)

lemma exit_block_ok:
  assumes "writer_ok s" and "exit_block s = Inr s'" and "blocks s = (outer, int o') # rest"
    and "o' mod 4 = 0" and "8 * o' + 32 \<le> length (wstream s)"
  shows "writer_ok s' \<and> wwidth s' = outer \<and> blocks s' = rest \<and> 0 < wwidth s \<and> wwidth s \<le> 32 \<and>
    (let S = wstream s @ block_footer (wwidth s) (length (wstream s)) in
       wstream s' = take (8 * o') S @ nat_bits 32 ((length S - 8 * o' - 32) div 32) @ drop (8 * o' + 32) S)"
proof -
  let ?b = "wbuf s"
  have b0: "buffer_ok ?b" using assms(1) by (simp add: writer_ok_def)
  have off: "o' < 2 ^ 63"
    using assms(5) b0 by (auto simp: wstream_def length_stream buffer_ok_def growing_def blob_ok_def)
  obtain b1 b2 bl where b1: "emit_fixed_abbrev_id DXIL_END_BLOCK ?b = Inr b1"
    and b2: "dxil_buffer_align b1 = Inr b2"
    and ow: "blob_overwrite_uint32 (blob b2) (nat (int o' mod 2 ^ 64))
        (of_nat (nat ((int (blob_size (blob b2)) - int o' - 1) mod 2 ^ 64) div 4)) = Inr (True, bl)"
    and s': "s' = s\<lparr>wbuf := b2\<lparr>blob := bl, abbrev_width := outer\<rparr>, blocks := rest\<rparr>"
    using assms(2,3) by (auto simp: exit_block_def on_buf_Inr Let_def split: if_splits prod.splits)
  note a1 = appendsD [OF appends_fixed_id b1 b0]
  from a1 have "buffer_ok b1" by simp
  note a2 = align_ok [OF this b2]
  define S where "S = wstream s @ block_footer (wwidth s) (length (wstream s))"
  have S: "stream b2 = S"
    using a1 a2 by (simp add: S_def block_footer_def pad_def wstream_def wwidth_def)
  have g: "growing (blob b2)" "blob_size (blob b2) mod 4 = 0" "buf_bits b2 = 0" "buf b2 = 0"
    using a2 by (auto simp: buffer_ok_def)
  have c: "bytes_bits (blob_contents (blob b2)) = S" using g S by (simp add: stream_def)
  have l: "8 * blob_size (blob b2) = length S" using g by (simp flip: c add: growing_size)
  have m: "blob_size (blob b2) < 2 ^ 63" using g by (auto simp: growing_def blob_ok_def)
  have lt: "o' + 4 \<le> blob_size (blob b2)" using assms(5) l by (simp add: S_def)
  define n where "n = (blob_size (blob b2) - o' - 1) div 4"
  have ow': "blob_overwrite_bytes (blob b2) o' (le_bytes 4 (of_nat n :: 32 word)) = (True, bl)"
    using ow off nat_diff_mod [OF m, of o'] lt
    by (simp add: blob_overwrite_uint32_def blob_overwrite_type_def Let_def n_def nat_mod_distrib split: if_splits)
  note o = blob_overwrite_bytes_ok [OF g(1) ow' off, simplified]
  obtain q r where q: "blob_size (blob b2) = 4 * q" and r: "o' = 4 * r"
    using assms(4) g(2) by (metis mod_0_imp_dvd dvd_def)
  have "n = q - r - 1" using lt unfolding n_def q r by linarith
  moreover have "length S - 8 * o' - 32 = 32 * (q - r - 1)" using l unfolding q r by (simp add: algebra_simps)
  ultimately have n: "n = (length S - 8 * o' - 32) div 32" by simp
  have bb: "bytes_bits (take k xs) = take (8 * k) (bytes_bits xs)" "bytes_bits (drop k xs) = drop (8 * k) (bytes_bits xs)" for k xs
    by (rule bytes_bits_take, rule bytes_bits_drop)
  have ws: "wstream s' = take (8 * o') S @ nat_bits 32 n @ drop (8 * o' + 32) S"
    using o g by (simp add: s' wstream_def stream_def bb c bytes_bits_le_bytes nat_bits_of_nat)
  moreover have "writer_ok s'" using o g by (simp add: s' writer_ok_def buffer_ok_def)
  ultimately show ?thesis using a1 n by (simp add: s' S_def Let_def wwidth_def)
qed

text \<open>
  A function between \<open>enter_subblock\<close> and \<open>exit_block\<close> emits the block around its items: the length
  word, reserved on entry and written on exit, is the number of words that follow it.
\<close>

theorem emits_block:
  assumes "emits body is"
  shows "emits (seq [enter_subblock i w', body, exit_block]) [Block i w' is]"
proof (rule emitsI)
  fix s s' assume "seq [enter_subblock i w', body, exit_block] s = Inr s'"
  then obtain s1 s2 where s1: "enter_subblock i w' s = Inr s1" and s2: "body s1 = Inr s2"
    and s3: "exit_block s2 = Inr s'" by auto
  have no: "\<not> oom (wbuf s1)" using emits_oom [OF assms s2] exit_block_oom [OF s3] by blast
  show "oom (wbuf s')" if "oom (wbuf s)" using enter_subblock_oom [OF s1 that] ..
  assume ok: "writer_ok s"
  define h where "h = block_header (wwidth s) (length (wstream s)) i w'"
  obtain o' j where 1: "writer_ok s1" "wwidth s1 = w'" "blocks s1 = (wwidth s, int o') # blocks s"
    "wstream s1 = wstream s @ h @ j" "8 * o' = length (wstream s @ h)"
    "o' mod 4 = 0" "length j = 32" "0 < wwidth s" "wwidth s \<le> 32"
    using enter_subblock_ok [OF ok s1 no, folded h_def] by (elim exE conjE) (rule that)
  have p: "length (wstream s1) mod 32 = 0"
  proof -
    have "length (wstream s1) = 8 * o' + 32" using 1 by simp
    then show ?thesis using 1(6) by presburger
  qed
  note 2 = emitsD [OF assms s2 1(1)]
  define bd where "bd = enc_items w' 0 is"
  have bd: "enc_items (wwidth s1) (length (wstream s1)) is = bd"
    using enc_items_cong [of "length (wstream s1)" 0] p 1(2) by (simp add: bd_def)
  have ft: "block_footer w' (length (wstream s2)) = block_footer w' (length bd)"
  proof -
    have "(length (wstream s2) + n) mod 32 = (length bd + n) mod 32" for n
      using 2 bd p by (simp add: mod_simps add.commute) (metis add.commute mod_add_right_eq mod_mod_trivial add_0)
    then show ?thesis by (simp add: block_footer_def pad_def)
  qed
  have S: "wstream s2 @ block_footer (wwidth s2) (length (wstream s2))
      = (wstream s @ h) @ j @ bd @ block_footer w' (length bd)"
    using 1 2 bd ft by simp
  have len: "length (wstream s2) \<ge> 8 * o' + 32" using 1 2 by simp
  have 3: "writer_ok s' \<and> wwidth s' = wwidth s \<and> blocks s' = blocks s \<and> 0 < w' \<and> w' \<le> 32 \<and>
    (let S = wstream s2 @ block_footer (wwidth s2) (length (wstream s2)) in
       wstream s' = take (8 * o') S @ nat_bits 32 ((length S - 8 * o' - 32) div 32) @ drop (8 * o' + 32) S)"
    using exit_block_ok [OF _ s3, of "wwidth s" o' "blocks s"] 1 2 len by simp
  have "wstream s' = (wstream s @ h) @
      nat_bits 32 (length (bd @ block_footer w' (length bd)) div 32) @ bd @ block_footer w' (length bd)"
    using 3 1(5,7) unfolding Let_def S by simp
  then show "writer_ok s' \<and> wwidth s' = wwidth s \<and> blocks s' = blocks s \<and>
      wstream s' = wstream s @ enc_items (wwidth s) (length (wstream s)) [Block i w' is] \<and>
      list_all (item_fits (wwidth s)) [Block i w' is]"
    using 1 2 3 by (simp add: block_bits_def h_def bd_def)
qed

lemma emits_block_seq:
  assumes "emits (seq fs) is"
  shows "emits (seq (enter_subblock i w' # fs @ [exit_block])) [Block i w' is]"
proof -
  have "seq (enter_subblock i w' # fs @ [exit_block]) = seq [enter_subblock i w', seq fs, exit_block]"
  proof -
    have "seq (fs @ [exit_block]) = seq [seq fs, exit_block]" by (rule ext) (simp add: seq_append)
    then show ?thesis by (simp only: seq_fun)
  qed
  then show ?thesis using emits_block [OF assms] by simp
qed

end
