(* ===== verification/Abbrevs.thy ===== *)
theory Abbrevs
  imports Emits
begin

text \<open>
  The abbreviation tables of \<open>dxil_module.c\<close> and the functions that write records under them, the
  record codes, the block numbers, and the \<open>BLOCKINFO\<close> block that declares the abbreviations of the
  symbol-table, constant and function blocks.
\<close>

section \<open>Codes\<close>

text \<open>The enumerators of \<open>enum type_codes\<close>, \<open>constant_code\<close>, \<open>function_code\<close> and so on that reach the output.\<close>

definition TYPE_CODE_NUMENTRY :: "32 word" where "TYPE_CODE_NUMENTRY = 1"
definition TYPE_CODE_VOID :: "32 word" where "TYPE_CODE_VOID = 2"
definition TYPE_CODE_FLOAT :: "32 word" where "TYPE_CODE_FLOAT = 3"
definition TYPE_CODE_DOUBLE :: "32 word" where "TYPE_CODE_DOUBLE = 4"
definition TYPE_CODE_INTEGER :: "32 word" where "TYPE_CODE_INTEGER = 7"
definition TYPE_CODE_POINTER :: "64 word" where "TYPE_CODE_POINTER = 8"
definition TYPE_CODE_HALF :: "32 word" where "TYPE_CODE_HALF = 10"
definition TYPE_CODE_ARRAY :: "64 word" where "TYPE_CODE_ARRAY = 11"
definition TYPE_CODE_VECTOR :: "64 word" where "TYPE_CODE_VECTOR = 12"
definition TYPE_CODE_METADATA :: "32 word" where "TYPE_CODE_METADATA = 16"
definition TYPE_CODE_STRUCT_ANON :: "64 word" where "TYPE_CODE_STRUCT_ANON = 18"
definition TYPE_CODE_STRUCT_NAME :: "64 word" where "TYPE_CODE_STRUCT_NAME = 19"
definition TYPE_CODE_STRUCT_NAMED :: "64 word" where "TYPE_CODE_STRUCT_NAMED = 20"
definition TYPE_CODE_FUNCTION :: "64 word" where "TYPE_CODE_FUNCTION = 21"

definition CST_CODE_SETTYPE :: "64 word" where "CST_CODE_SETTYPE = 1"
definition CST_CODE_NULL :: "64 word" where "CST_CODE_NULL = 2"
definition CST_CODE_UNDEF :: "32 word" where "CST_CODE_UNDEF = 3"
definition CST_CODE_INTEGER :: "64 word" where "CST_CODE_INTEGER = 4"
definition CST_CODE_FLOAT :: "32 word" where "CST_CODE_FLOAT = 6"
definition CST_CODE_AGGREGATE :: "64 word" where "CST_CODE_AGGREGATE = 7"
definition CST_CODE_STRING :: "64 word" where "CST_CODE_STRING = 8"
definition CST_CODE_CSTRING :: "64 word" where "CST_CODE_CSTRING = 9"
definition CST_CODE_CE_CAST :: "64 word" where "CST_CODE_CE_CAST = 11"

definition FUNC_CODE_DECLAREBLOCKS :: "32 word" where "FUNC_CODE_DECLAREBLOCKS = 1"
definition FUNC_CODE_INST_BINOP :: "64 word" where "FUNC_CODE_INST_BINOP = 2"
definition FUNC_CODE_INST_CAST :: "64 word" where "FUNC_CODE_INST_CAST = 3"
definition FUNC_CODE_INST_RET :: "64 word" where "FUNC_CODE_INST_RET = 10"
definition FUNC_CODE_INST_BR :: "32 word" where "FUNC_CODE_INST_BR = 11"
definition FUNC_CODE_INST_UNREACHABLE :: "64 word" where "FUNC_CODE_INST_UNREACHABLE = 15"
definition FUNC_CODE_INST_PHI :: "32 word" where "FUNC_CODE_INST_PHI = 16"
definition FUNC_CODE_INST_ALLOCA :: "32 word" where "FUNC_CODE_INST_ALLOCA = 19"
definition FUNC_CODE_INST_LOAD :: "64 word" where "FUNC_CODE_INST_LOAD = 20"
definition FUNC_CODE_INST_EXTRACTVAL :: "32 word" where "FUNC_CODE_INST_EXTRACTVAL = 26"
definition FUNC_CODE_INST_CMP2 :: "32 word" where "FUNC_CODE_INST_CMP2 = 28"
definition FUNC_CODE_INST_VSELECT :: "32 word" where "FUNC_CODE_INST_VSELECT = 29"
definition FUNC_CODE_INST_CALL :: "32 word" where "FUNC_CODE_INST_CALL = 34"
definition FUNC_CODE_INST_CMPXCHG_OLD :: "32 word" where "FUNC_CODE_INST_CMPXCHG_OLD = 37"
definition FUNC_CODE_INST_ATOMICRMW :: "32 word" where "FUNC_CODE_INST_ATOMICRMW = 38"
definition FUNC_CODE_INST_GEP :: "64 word" where "FUNC_CODE_INST_GEP = 43"
definition FUNC_CODE_INST_STORE :: "32 word" where "FUNC_CODE_INST_STORE = 44"

definition VST_CODE_ENTRY :: "64 word" where "VST_CODE_ENTRY = 1"
definition VST_CODE_BBENTRY :: "64 word" where "VST_CODE_BBENTRY = 2"

definition METADATA_STRING :: "64 word" where "METADATA_STRING = 1"
definition METADATA_VALUE :: "32 word" where "METADATA_VALUE = 2"
definition METADATA_NODE :: "32 word" where "METADATA_NODE = 3"
definition METADATA_NAME :: "64 word" where "METADATA_NAME = 4"
definition METADATA_NAMED_NODE :: "32 word" where "METADATA_NAMED_NODE = 10"

datatype block_kind =
  DXIL_BLOCKINFO | DXIL_MODULE | DXIL_PARAMATTR | DXIL_PARAMATTR_GROUP | DXIL_CONST_BLOCK |
  DXIL_FUNCTION_BLOCK | DXIL_VALUE_SYMTAB_BLOCK | DXIL_METADATA_BLOCK | DXIL_TYPE_BLOCK

primrec block_number :: "block_kind \<Rightarrow> 32 word" where
  "block_number DXIL_BLOCKINFO = 0"
| "block_number DXIL_MODULE = 8"
| "block_number DXIL_PARAMATTR = 9"
| "block_number DXIL_PARAMATTR_GROUP = 10"
| "block_number DXIL_CONST_BLOCK = 11"
| "block_number DXIL_FUNCTION_BLOCK = 12"
| "block_number DXIL_VALUE_SYMTAB_BLOCK = 14"
| "block_number DXIL_METADATA_BLOCK = 15"
| "block_number DXIL_TYPE_BLOCK = 17"

section \<open>Abbreviation tables\<close>

definition TYPE_INDEX :: operand where
  "TYPE_INDEX = FIXED 32"

datatype type_table_abbrev_id =
  TYPE_TABLE_ABBREV_POINTER | TYPE_TABLE_ABBREV_FUNCTION | TYPE_TABLE_ABBREV_STRUCT_ANON |
  TYPE_TABLE_ABBREV_STRUCT_NAME | TYPE_TABLE_ABBREV_STRUCT_NAMED | TYPE_TABLE_ABBREV_ARRAY |
  TYPE_TABLE_ABBREV_VECTOR

primrec type_table_index :: "type_table_abbrev_id \<Rightarrow> nat" where
  "type_table_index TYPE_TABLE_ABBREV_POINTER = 0"
| "type_table_index TYPE_TABLE_ABBREV_FUNCTION = 1"
| "type_table_index TYPE_TABLE_ABBREV_STRUCT_ANON = 2"
| "type_table_index TYPE_TABLE_ABBREV_STRUCT_NAME = 3"
| "type_table_index TYPE_TABLE_ABBREV_STRUCT_NAMED = 4"
| "type_table_index TYPE_TABLE_ABBREV_ARRAY = 5"
| "type_table_index TYPE_TABLE_ABBREV_VECTOR = 6"

definition type_table_abbrevs :: "dxil_abbrev list" where
  "type_table_abbrevs =
     [[LITERAL TYPE_CODE_POINTER, TYPE_INDEX, LITERAL 0],
      [LITERAL TYPE_CODE_FUNCTION, FIXED 1, ARRAY, TYPE_INDEX],
      [LITERAL TYPE_CODE_STRUCT_ANON, FIXED 1, ARRAY, TYPE_INDEX],
      [LITERAL TYPE_CODE_STRUCT_NAME, ARRAY, CHAR6],
      [LITERAL TYPE_CODE_STRUCT_NAMED, FIXED 1, ARRAY, TYPE_INDEX],
      [LITERAL TYPE_CODE_ARRAY, VBR 8, TYPE_INDEX],
      [LITERAL TYPE_CODE_VECTOR, VBR 8, TYPE_INDEX]]"

text \<open>
  A record under abbreviation \<open>i\<close> of a table, whose number in the stream is \<open>i\<close> plus
  \<open>DXIL_FIRST_APPLICATION_ABBREV\<close>.
\<close>

definition emit_table_record ::
  "dxil_abbrev list \<Rightarrow> nat \<Rightarrow> 64 word list \<Rightarrow> writer \<Rightarrow> writer result" where
  "emit_table_record table i data s =
     (if i < length table
      then on_buf (emit_record_abbrev (of_nat i + fixed_abbrev_id DXIL_FIRST_APPLICATION_ABBREV)
             (table ! i) data) s
      else Inl Assertion)"

definition emit_type_table_abbrev_record ::
  "type_table_abbrev_id \<Rightarrow> 64 word list \<Rightarrow> writer \<Rightarrow> writer result" where
  "emit_type_table_abbrev_record abbrev =
     emit_table_record type_table_abbrevs (type_table_index abbrev)"

datatype const_abbrev_id =
  CONST_ABBREV_SETTYPE | CONST_ABBREV_INTEGER | CONST_ABBREV_CE_CAST | CONST_ABBREV_NULL

primrec const_index :: "const_abbrev_id \<Rightarrow> nat" where
  "const_index CONST_ABBREV_SETTYPE = 0"
| "const_index CONST_ABBREV_INTEGER = 1"
| "const_index CONST_ABBREV_CE_CAST = 2"
| "const_index CONST_ABBREV_NULL = 3"

definition const_abbrevs :: "dxil_abbrev list" where
  "const_abbrevs =
     [[LITERAL CST_CODE_SETTYPE, TYPE_INDEX],
      [LITERAL CST_CODE_INTEGER, VBR 8],
      [LITERAL CST_CODE_CE_CAST, FIXED 4, TYPE_INDEX, VBR 8],
      [LITERAL CST_CODE_NULL]]"

definition emit_const_abbrev_record :: "const_abbrev_id \<Rightarrow> 64 word list \<Rightarrow> writer \<Rightarrow> writer result" where
  "emit_const_abbrev_record abbrev = emit_table_record const_abbrevs (const_index abbrev)"

datatype func_abbrev_id =
  FUNC_ABBREV_LOAD | FUNC_ABBREV_BINOP | FUNC_ABBREV_BINOP_FLAGS | FUNC_ABBREV_CAST |
  FUNC_ABBREV_RET_VOID | FUNC_ABBREV_RET_VAL | FUNC_ABBREV_UNREACHABLE | FUNC_ABBREV_GEP

primrec func_index :: "func_abbrev_id \<Rightarrow> nat" where
  "func_index FUNC_ABBREV_LOAD = 0"
| "func_index FUNC_ABBREV_BINOP = 1"
| "func_index FUNC_ABBREV_BINOP_FLAGS = 2"
| "func_index FUNC_ABBREV_CAST = 3"
| "func_index FUNC_ABBREV_RET_VOID = 4"
| "func_index FUNC_ABBREV_RET_VAL = 5"
| "func_index FUNC_ABBREV_UNREACHABLE = 6"
| "func_index FUNC_ABBREV_GEP = 7"

definition func_abbrevs :: "dxil_abbrev list" where
  "func_abbrevs =
     [[LITERAL FUNC_CODE_INST_LOAD, VBR 6, TYPE_INDEX, VBR 4, FIXED 1],
      [LITERAL FUNC_CODE_INST_BINOP, VBR 6, VBR 6, FIXED 4],
      [LITERAL FUNC_CODE_INST_BINOP, VBR 6, VBR 6, FIXED 4, FIXED 7],
      [LITERAL FUNC_CODE_INST_CAST, VBR 6, TYPE_INDEX, FIXED 4],
      [LITERAL FUNC_CODE_INST_RET],
      [LITERAL FUNC_CODE_INST_RET, VBR 6],
      [LITERAL FUNC_CODE_INST_UNREACHABLE],
      [LITERAL FUNC_CODE_INST_GEP, FIXED 1, TYPE_INDEX, ARRAY, VBR 6]]"

definition emit_func_abbrev_record :: "func_abbrev_id \<Rightarrow> 64 word list \<Rightarrow> writer \<Rightarrow> writer result" where
  "emit_func_abbrev_record abbrev = emit_table_record func_abbrevs (func_index abbrev)"

datatype value_symtab_abbrev_id =
  VST_ABBREV_ENTRY_8 | VST_ABBREV_ENTRY_7 | VST_ABBREV_ENTRY_6 | VST_ABBREV_BBENTRY_6

primrec value_symtab_index :: "value_symtab_abbrev_id \<Rightarrow> nat" where
  "value_symtab_index VST_ABBREV_ENTRY_8 = 0"
| "value_symtab_index VST_ABBREV_ENTRY_7 = 1"
| "value_symtab_index VST_ABBREV_ENTRY_6 = 2"
| "value_symtab_index VST_ABBREV_BBENTRY_6 = 3"

definition value_symtab_abbrevs :: "dxil_abbrev list" where
  "value_symtab_abbrevs =
     [[FIXED 3, VBR 8, ARRAY, FIXED 8],
      [LITERAL VST_CODE_ENTRY, VBR 8, ARRAY, FIXED 7],
      [LITERAL VST_CODE_ENTRY, VBR 8, ARRAY, CHAR6],
      [LITERAL VST_CODE_BBENTRY, VBR 8, ARRAY, CHAR6]]"

definition emit_value_symtab_abbrev_record ::
  "value_symtab_abbrev_id \<Rightarrow> 64 word list \<Rightarrow> writer \<Rightarrow> writer result" where
  "emit_value_symtab_abbrev_record abbrev =
     emit_table_record value_symtab_abbrevs (value_symtab_index abbrev)"

datatype metadata_abbrev_id = METADATA_ABBREV_STRING | METADATA_ABBREV_NAME

primrec metadata_index :: "metadata_abbrev_id \<Rightarrow> nat" where
  "metadata_index METADATA_ABBREV_STRING = 0"
| "metadata_index METADATA_ABBREV_NAME = 1"

definition metadata_abbrevs :: "dxil_abbrev list" where
  "metadata_abbrevs =
     [[LITERAL METADATA_STRING, ARRAY, FIXED 8],
      [LITERAL METADATA_NAME, ARRAY, FIXED 8]]"

definition emit_metadata_abbrev_record ::
  "metadata_abbrev_id \<Rightarrow> 64 word list \<Rightarrow> writer \<Rightarrow> writer result" where
  "emit_metadata_abbrev_record abbrev = emit_table_record metadata_abbrevs (metadata_index abbrev)"

section \<open>Declaring the abbreviations\<close>

definition emit_value_symtab_abbrevs :: "writer \<Rightarrow> writer result" where
  "emit_value_symtab_abbrevs =
     seq (switch_to_block (block_number DXIL_VALUE_SYMTAB_BLOCK) # map define_abbrev value_symtab_abbrevs)"

definition emit_const_abbrevs :: "writer \<Rightarrow> writer result" where
  "emit_const_abbrevs =
     seq (switch_to_block (block_number DXIL_CONST_BLOCK) # map define_abbrev const_abbrevs)"

definition emit_function_abbrevs :: "writer \<Rightarrow> writer result" where
  "emit_function_abbrevs =
     seq (switch_to_block (block_number DXIL_FUNCTION_BLOCK) # map define_abbrev func_abbrevs)"

definition emit_type_table_abbrevs :: "writer \<Rightarrow> writer result" where
  "emit_type_table_abbrevs = seq (map define_abbrev type_table_abbrevs)"

definition emit_metadata_abbrevs :: "writer \<Rightarrow> writer result" where
  "emit_metadata_abbrevs = seq (map define_abbrev metadata_abbrevs)"

definition emit_blockinfo :: "writer \<Rightarrow> writer result" where
  "emit_blockinfo =
     seq [enter_subblock (block_number DXIL_BLOCKINFO) 2,
          emit_value_symtab_abbrevs,
          emit_const_abbrevs,
          emit_function_abbrevs,
          exit_block]"

section \<open>What these emit\<close>

lemma emits_table_record:
  "emits (emit_table_record table i ds) [Abbreviated (of_nat i + 4) (table ! i) ds]"
proof (cases "i < length table")
  case True
  then have "emit_table_record table i ds = on_buf (emit_record_abbrev (of_nat i + 4) (table ! i) ds)"
    by (simp add: emit_table_record_def fun_eq_iff)
  then show ?thesis using emits_record_abbrev by simp
next
  case False
  then show ?thesis by (intro emits_fail) (simp add: emit_table_record_def)
qed

lemma emits_define_abbrevs: "emits (seq (map define_abbrev table)) (map Definition table)"
proof -
  have "emits (seq (map define_abbrev table)) (concat (map (\<lambda>a. [Definition a]) table))"
    by (rule emits_seq_map) (rule emits_define_abbrev)
  then show ?thesis by simp
qed

lemma emits_switch_and_define:
  "emits (seq (switch_to_block b # map define_abbrev table))
     (Record 1 [scast b] # map Definition table)"
  using emits_seq_Cons [OF emits_record_int emits_define_abbrevs]
  by (simp add: switch_to_block_def del: seq.simps)

definition blockinfo_items :: "item list" where
  "blockinfo_items =
     Record 1 [14] # map Definition value_symtab_abbrevs @
     Record 1 [11] # map Definition const_abbrevs @
     Record 1 [12] # map Definition func_abbrevs"

lemma emits_blockinfo: "emits emit_blockinfo [Block 0 2 blockinfo_items]"
proof -
  have "emits (seq [emit_value_symtab_abbrevs, emit_const_abbrevs, emit_function_abbrevs]) blockinfo_items"
    unfolding blockinfo_items_def emit_value_symtab_abbrevs_def emit_const_abbrevs_def
      emit_function_abbrevs_def
    using emits_seq_Cons [OF emits_switch_and_define emits_seq_Cons [OF emits_switch_and_define
          emits_seq_single [OF emits_switch_and_define]],
        of 14 value_symtab_abbrevs 11 const_abbrevs 12 func_abbrevs]
    by (simp del: seq.simps)
  from emits_block [OF this, of 0 2] show ?thesis
    by (simp add: emit_blockinfo_def seq_fun emits_def bind_result_assoc)
qed

end
