(* ===== verification/Named_Types.thy ===== *)
theory Named_Types
  imports Types
begin

text \<open>
  The named structures of DXIL that \<open>dxil_module.c\<close> builds on demand: handles, the results of
  resource and constant-buffer loads, resource classes, resource bindings and properties.
\<close>

section \<open>Printing numbers\<close>

definition digit_char :: "nat \<Rightarrow> char" where
  "digit_char d = char_of (48 + d)"

fun nat_string :: "nat \<Rightarrow> string" where
  "nat_string n = (if n < 10 then [digit_char n] else nat_string (n div 10) @ [digit_char (n mod 10)])"

declare nat_string.simps [simp del]

text \<open>The conversion \<open>%d\<close>; an unsigned argument is read as a signed one.\<close>

definition print_d :: "32 word \<Rightarrow> string" where
  "print_d w = (let i = sint w in if i < 0 then CHR ''-'' # nat_string (nat (- i)) else nat_string (nat i))"

text \<open>\<open>snprintf\<close> into an array of \<open>n\<close> bytes keeps at most \<open>n - 1\<close> characters.\<close>

definition snprintf :: "nat \<Rightarrow> string \<Rightarrow> string" where
  "snprintf n s = take (n - 1) s"

section \<open>Types by overload\<close>

definition dxil_get_overload_type :: "overload_type \<Rightarrow> dxil_module \<Rightarrow> (ty \<times> dxil_module) result" where
  "dxil_get_overload_type overload m =
     (case overload of
        DXIL_I1 \<Rightarrow> Inr (get_int1_type m)
      | DXIL_I16 \<Rightarrow> Inr (get_int16_type m)
      | DXIL_I32 \<Rightarrow> Inr (get_int32_type m)
      | DXIL_I64 \<Rightarrow> Inr (get_int64_type m)
      | DXIL_F16 \<Rightarrow> Inr (get_float16_type m)
      | DXIL_F32 \<Rightarrow> Inr (get_float32_type m)
      | DXIL_F64 \<Rightarrow> Inr (get_float64_type m)
      | _ \<Rightarrow> Inl Unreachable)"

definition dxil_module_get_handle_type :: "dxil_module \<Rightarrow> (ty \<times> dxil_module) result" where
  "dxil_module_get_handle_type m =
     (let (int8, m) = get_int8_type m; (ptr, m) = dxil_module_get_pointer_type int8 m
      in dxil_module_get_struct_type (Some ''dx.types.Handle'') [ptr] m)"

definition dxil_module_get_cbuf_ret_type ::
  "overload_type \<Rightarrow> dxil_module \<Rightarrow> (ty \<times> dxil_module) result" where
  "dxil_module_get_cbuf_ret_type overload m =
     bind_result (dxil_get_overload_type overload m) (\<lambda>(t, m).
     bind_result
       (case overload of
          DXIL_I32 \<Rightarrow> Inr (4, [])
        | DXIL_F32 \<Rightarrow> Inr (4, [])
        | DXIL_I64 \<Rightarrow> Inr (2, [])
        | DXIL_F64 \<Rightarrow> Inr (2, [])
        | DXIL_I16 \<Rightarrow> Inr (8, ''.8'')
        | DXIL_F16 \<Rightarrow> Inr (8, ''.8'')
        | _ \<Rightarrow> Inl Unreachable) (\<lambda>(num_fields, additional).
     bind_result (dxil_overload_suffix overload) (\<lambda>suffix.
       dxil_module_get_struct_type
         (Some (snprintf 64 (''dx.types.CBufRet.'' @ suffix @ additional)))
         (replicate num_fields t) m)))"

definition dxil_module_get_split_double_ret_type :: "dxil_module \<Rightarrow> (ty \<times> dxil_module) result" where
  "dxil_module_get_split_double_ret_type m =
     bind_result (dxil_module_get_int_type 32 m) (\<lambda>(int32, m).
       dxil_module_get_struct_type (Some ''dx.types.splitdouble'') [int32, int32] m)"

definition dxil_module_get_type_from_comp_type ::
  "dxil_component_type \<Rightarrow> dxil_module \<Rightarrow> (ty \<times> dxil_module) result" where
  "dxil_module_get_type_from_comp_type comp_type m =
     (case comp_type of
        DXIL_COMP_TYPE_U32 \<Rightarrow> Inr (get_int32_type m)
      | DXIL_COMP_TYPE_I32 \<Rightarrow> Inr (get_int32_type m)
      | DXIL_COMP_TYPE_F32 \<Rightarrow> Inr (get_float32_type m)
      | DXIL_COMP_TYPE_F64 \<Rightarrow> Inr (get_float64_type m)
      | DXIL_COMP_TYPE_U16 \<Rightarrow> Inr (get_int16_type m)
      | DXIL_COMP_TYPE_I16 \<Rightarrow> Inr (get_int16_type m)
      | DXIL_COMP_TYPE_U64 \<Rightarrow> Inr (get_int64_type m)
      | DXIL_COMP_TYPE_I64 \<Rightarrow> Inr (get_int64_type m)
      | DXIL_COMP_TYPE_I1 \<Rightarrow> Inr (get_int1_type m)
      | _ \<Rightarrow> Inl Unreachable)"

section \<open>Resource classes\<close>

definition get_res_comp_type_name :: "dxil_component_type \<Rightarrow> string result" where
  "get_res_comp_type_name comp_type =
     (case comp_type of
        DXIL_COMP_TYPE_F64 \<Rightarrow> Inr ''double''
      | DXIL_COMP_TYPE_F32 \<Rightarrow> Inr ''float''
      | DXIL_COMP_TYPE_I32 \<Rightarrow> Inr ''int''
      | DXIL_COMP_TYPE_U32 \<Rightarrow> Inr ''uint''
      | DXIL_COMP_TYPE_I64 \<Rightarrow> Inr ''int64''
      | DXIL_COMP_TYPE_U64 \<Rightarrow> Inr ''uint64''
      | _ \<Rightarrow> Inl Unreachable)"

definition get_res_dimension_type_name :: "dxil_resource_kind \<Rightarrow> string result" where
  "get_res_dimension_type_name kind =
     (case kind of
        DXIL_RESOURCE_KIND_TYPED_BUFFER \<Rightarrow> Inr ''Buffer''
      | DXIL_RESOURCE_KIND_TEXTURE1D \<Rightarrow> Inr ''Texture1D''
      | DXIL_RESOURCE_KIND_TEXTURE1D_ARRAY \<Rightarrow> Inr ''Texture1DArray''
      | DXIL_RESOURCE_KIND_TEXTURE2D \<Rightarrow> Inr ''Texture2D''
      | DXIL_RESOURCE_KIND_TEXTURE2DMS \<Rightarrow> Inr ''Texture2DMS''
      | DXIL_RESOURCE_KIND_TEXTURE2D_ARRAY \<Rightarrow> Inr ''Texture2DArray''
      | DXIL_RESOURCE_KIND_TEXTURE2DMS_ARRAY \<Rightarrow> Inr ''Texture2DMSArray''
      | DXIL_RESOURCE_KIND_TEXTURE3D \<Rightarrow> Inr ''Texture3D''
      | DXIL_RESOURCE_KIND_TEXTURECUBE \<Rightarrow> Inr ''TextureCube''
      | DXIL_RESOURCE_KIND_TEXTURECUBE_ARRAY \<Rightarrow> Inr ''TextureCubeArray''
      | _ \<Rightarrow> Inl Unreachable)"

definition get_res_ms_postfix :: "dxil_resource_kind \<Rightarrow> string" where
  "get_res_ms_postfix kind =
     (case kind of
        DXIL_RESOURCE_KIND_TEXTURE2DMS \<Rightarrow> '', 0''
      | DXIL_RESOURCE_KIND_TEXTURE2DMS_ARRAY \<Rightarrow> '', 0''
      | _ \<Rightarrow> [])"

definition is_typed_kind :: "dxil_resource_kind \<Rightarrow> bool" where
  "is_typed_kind kind \<longleftrightarrow> kind \<in>
     {DXIL_RESOURCE_KIND_TYPED_BUFFER, DXIL_RESOURCE_KIND_TEXTURE1D,
      DXIL_RESOURCE_KIND_TEXTURE1D_ARRAY, DXIL_RESOURCE_KIND_TEXTURE2D,
      DXIL_RESOURCE_KIND_TEXTURE2D_ARRAY, DXIL_RESOURCE_KIND_TEXTURE2DMS,
      DXIL_RESOURCE_KIND_TEXTURE2DMS_ARRAY, DXIL_RESOURCE_KIND_TEXTURE3D,
      DXIL_RESOURCE_KIND_TEXTURECUBE, DXIL_RESOURCE_KIND_TEXTURECUBE_ARRAY}"

definition dxil_module_get_res_type ::
  "dxil_resource_kind \<Rightarrow> dxil_component_type \<Rightarrow> 32 word \<Rightarrow> bool \<Rightarrow> dxil_module
   \<Rightarrow> (ty \<times> dxil_module) result" where
  "dxil_module_get_res_type kind comp_type num_comps readwrite m =
     (if is_typed_kind kind then
        bind_result (dxil_module_get_type_from_comp_type comp_type m) (\<lambda>(component_type, m).
        let (vec_type, m) =
              (if num_comps = 1 then (component_type, m)
               else dxil_module_get_vector_type component_type (unat num_comps) m) in
        bind_result (get_res_comp_type_name comp_type) (\<lambda>comp_name.
        let vector_name =
              (if num_comps = 1 then snprintf 64 comp_name
               else snprintf 64 (''vector<'' @ comp_name @ '', '' @ print_d num_comps @ ''>'')) in
        bind_result (get_res_dimension_type_name kind) (\<lambda>dim_name.
        let class_name =
              snprintf 64 (''class.'' @ (if readwrite then ''RW'' else []) @ dim_name @ ''<'' @
                vector_name @ get_res_ms_postfix kind @ ''>'')
        in dxil_module_get_struct_type (Some class_name) [vec_type] m)))
      else if kind = DXIL_RESOURCE_KIND_RAW_BUFFER then
        bind_result (dxil_module_get_int_type 32 m) (\<lambda>(component_type, m).
          dxil_module_get_struct_type
            (Some (snprintf 64 (''struct.'' @ (if readwrite then ''RW'' else []) @ ''ByteAddressBuffer'')))
            [component_type] m)
      else Inl Unreachable)"

section \<open>Results of loads and queries\<close>

definition dxil_module_get_resret_type ::
  "overload_type \<Rightarrow> dxil_module \<Rightarrow> (ty \<times> dxil_module) result" where
  "dxil_module_get_resret_type overload m =
     bind_result (dxil_get_overload_type overload m) (\<lambda>(t, m).
     bind_result (dxil_module_get_int_type 32 m) (\<lambda>(int32, m).
     bind_result
       (case overload of
          DXIL_I16 \<Rightarrow> Inr ''dx.types.ResRet.i16''
        | DXIL_I32 \<Rightarrow> Inr ''dx.types.ResRet.i32''
        | DXIL_I64 \<Rightarrow> Inr ''dx.types.ResRet.i64''
        | DXIL_F16 \<Rightarrow> Inr ''dx.types.ResRet.f16''
        | DXIL_F32 \<Rightarrow> Inr ''dx.types.ResRet.f32''
        | DXIL_F64 \<Rightarrow> Inr ''dx.types.ResRet.f64''
        | _ \<Rightarrow> Inl Unreachable) (\<lambda>name.
       dxil_module_get_struct_type (Some name) [t, t, t, t, int32] m)))"

definition dxil_module_get_dimret_type :: "dxil_module \<Rightarrow> (ty \<times> dxil_module) result" where
  "dxil_module_get_dimret_type m =
     bind_result (dxil_module_get_int_type 32 m) (\<lambda>(int32, m).
       dxil_module_get_struct_type (Some ''dx.types.Dimensions'') [int32, int32, int32, int32] m)"

definition dxil_module_get_samplepos_type :: "dxil_module \<Rightarrow> (ty \<times> dxil_module) result" where
  "dxil_module_get_samplepos_type m =
     bind_result (dxil_module_get_float_type 32 m) (\<lambda>(float, m).
       dxil_module_get_struct_type (Some ''dx.types.SamplePos'') [float, float] m)"

definition dxil_module_get_res_bind_type :: "dxil_module \<Rightarrow> (ty \<times> dxil_module) result" where
  "dxil_module_get_res_bind_type m =
     bind_result (dxil_module_get_int_type 32 m) (\<lambda>(int32, m).
     bind_result (dxil_module_get_int_type 8 m) (\<lambda>(int8, m).
       dxil_module_get_struct_type (Some ''dx.types.ResBind'') [int32, int32, int32, int8] m))"

definition dxil_module_get_res_props_type :: "dxil_module \<Rightarrow> (ty \<times> dxil_module) result" where
  "dxil_module_get_res_props_type m =
     bind_result (dxil_module_get_int_type 32 m) (\<lambda>(int32, m).
       dxil_module_get_struct_type (Some ''dx.types.ResourceProperties'') [int32, int32] m)"

definition dxil_module_get_fouri32_type :: "dxil_module \<Rightarrow> (ty \<times> dxil_module) result" where
  "dxil_module_get_fouri32_type m =
     bind_result (dxil_module_get_int_type 32 m) (\<lambda>(int32, m).
       dxil_module_get_struct_type (Some ''dx.types.fouri32'') [int32, int32, int32, int32] m)"

end
