(* ===== verification/Consts.thy ===== *)
theory Consts
  imports Named_Types
begin

text \<open>
  The constants of a module (\<open>dxil_module.c\<close>): creating and finding integer, floating-point,
  aggregate and undefined constants, and the constants that describe resource bindings and
  properties. Constants are interned by type and value: integers by their 64-bit value, floats by
  the C comparison \<open>==\<close>, aggregates by the identity of their parts.
\<close>

definition create_const :: "ty \<Rightarrow> const_data \<Rightarrow> dxil_module \<Rightarrow> val_ref \<times> dxil_module" where
  "create_const type data m =
     (CONST_REF (length (const_list m)),
      m\<lparr>const_list := const_list m @
         [\<lparr>const_value = \<lparr>value_id = -1, value_type = type\<rparr>, const_data = data\<rparr>]\<rparr>)"

text \<open>
  The loop over \<open>const_list\<close> that every getter starts with: the first constant of the type that is
  not undefined and whose member compares equal; the constant is created when there is none.
\<close>

definition intern_const ::
  "(const_data \<Rightarrow> bool) \<Rightarrow> ty \<Rightarrow> const_data \<Rightarrow> dxil_module \<Rightarrow> val_ref \<times> dxil_module" where
  "intern_const equal type data m =
     (case find_pos (\<lambda>c. value_type (const_value c) = type \<and> const_data c \<noteq> UNDEF \<and> equal (const_data c))
             (const_list m) of
        Some i \<Rightarrow> (CONST_REF i, m)
      | None \<Rightarrow> create_const type data m)"

section \<open>Integers\<close>

definition get_int_const :: "ty \<Rightarrow> 64 word \<Rightarrow> dxil_module \<Rightarrow> (val_ref \<times> dxil_module) result" where
  "get_int_const type v m =
     (case type_at m type of
        TYPE_INTEGER _ \<Rightarrow> Inr (intern_const (\<lambda>d. d = INT_VALUE v) type (INT_VALUE v) m)
      | _ \<Rightarrow> Inl Assertion)"

text \<open>\<open>container_of\<close> is only meaningful for a value that sits in a constant with an integer.\<close>

definition get_int_from_const_value :: "dxil_module \<Rightarrow> val_ref \<Rightarrow> 64 word result" where
  "get_int_from_const_value m v =
     (case type_at m (type_of m v) of
        TYPE_INTEGER _ \<Rightarrow>
          (case v of
             CONST_REF i \<Rightarrow>
               (if i < length (const_list m) then
                  (case const_data (const_list m ! i) of INT_VALUE w \<Rightarrow> Inr w | _ \<Rightarrow> Inl Undefined)
                else Inl Undefined)
           | _ \<Rightarrow> Inl Undefined)
      | _ \<Rightarrow> Inl Assertion)"

definition dxil_module_get_int1_const :: "bool \<Rightarrow> dxil_module \<Rightarrow> (val_ref \<times> dxil_module) result" where
  "dxil_module_get_int1_const v m = (let (t, m) = get_int1_type m in get_int_const t (of_bool v) m)"

definition dxil_module_get_int8_const :: "8 word \<Rightarrow> dxil_module \<Rightarrow> (val_ref \<times> dxil_module) result" where
  "dxil_module_get_int8_const v m = (let (t, m) = get_int8_type m in get_int_const t (scast v) m)"

definition dxil_module_get_int16_const :: "16 word \<Rightarrow> dxil_module \<Rightarrow> (val_ref \<times> dxil_module) result" where
  "dxil_module_get_int16_const v m = (let (t, m) = get_int16_type m in get_int_const t (scast v) m)"

definition dxil_module_get_int32_const :: "32 word \<Rightarrow> dxil_module \<Rightarrow> (val_ref \<times> dxil_module) result" where
  "dxil_module_get_int32_const v m = (let (t, m) = get_int32_type m in get_int_const t (scast v) m)"

definition dxil_module_get_int64_const :: "64 word \<Rightarrow> dxil_module \<Rightarrow> (val_ref \<times> dxil_module) result" where
  "dxil_module_get_int64_const v m = (let (t, m) = get_int64_type m in get_int_const t v m)"

definition dxil_module_get_int_const ::
  "64 word \<Rightarrow> nat \<Rightarrow> dxil_module \<Rightarrow> (val_ref \<times> dxil_module) result" where
  "dxil_module_get_int_const v bit_size m =
     (let i = sint v in
      if bit_size = 1 then
        (if i = 0 \<or> i = 1 then dxil_module_get_int1_const (v \<noteq> 0) m else Inl Assertion)
      else if bit_size = 8 then
        (if -(2 ^ 7) \<le> i \<and> i \<le> 2 ^ 7 - 1 then dxil_module_get_int8_const (ucast v) m else Inl Assertion)
      else if bit_size = 16 then
        (if -(2 ^ 15) \<le> i \<and> i \<le> 2 ^ 15 - 1 then dxil_module_get_int16_const (ucast v) m else Inl Assertion)
      else if bit_size = 32 then
        (if -(2 ^ 31) \<le> i \<and> i \<le> 2 ^ 31 - 1 then dxil_module_get_int32_const (ucast v) m else Inl Assertion)
      else if bit_size = 64 then dxil_module_get_int64_const v m
      else Inl Unreachable)"

section \<open>Floating-point numbers\<close>

text \<open>
  The comparison \<open>==\<close> of IEEE numbers, on bit patterns: not-a-number is equal to nothing, the two
  zeros are equal.
\<close>

definition float_is_nan :: "32 word \<Rightarrow> bool" where
  "float_is_nan x \<longleftrightarrow> 0x7F800000 < x AND 0x7FFFFFFF"

definition float_eq :: "32 word \<Rightarrow> 32 word \<Rightarrow> bool" where
  "float_eq x y \<longleftrightarrow> \<not> float_is_nan x \<and> \<not> float_is_nan y \<and>
     (x = y \<or> (x AND 0x7FFFFFFF = 0 \<and> y AND 0x7FFFFFFF = 0))"

definition double_is_nan :: "64 word \<Rightarrow> bool" where
  "double_is_nan x \<longleftrightarrow> 0x7FF0000000000000 < x AND 0x7FFFFFFFFFFFFFFF"

definition double_eq :: "64 word \<Rightarrow> 64 word \<Rightarrow> bool" where
  "double_eq x y \<longleftrightarrow> \<not> double_is_nan x \<and> \<not> double_is_nan y \<and>
     (x = y \<or> (x AND 0x7FFFFFFFFFFFFFFF = 0 \<and> y AND 0x7FFFFFFFFFFFFFFF = 0))"

text \<open>
  A float is kept as a double and converted back when it is emitted; only a signalling
  not-a-number changes on the way, it becomes quiet.
\<close>

definition float_as_double :: "32 word \<Rightarrow> 32 word" where
  "float_as_double x = (if float_is_nan x then x OR 0x00400000 else x)"

definition dxil_module_get_float16_const :: "16 word \<Rightarrow> dxil_module \<Rightarrow> val_ref \<times> dxil_module" where
  "dxil_module_get_float16_const v m =
     (let (t, m) = get_float16_type m
      in intern_const (\<lambda>d. d = INT_VALUE (ucast v)) t (INT_VALUE (ucast v)) m)"

definition dxil_module_get_float_const :: "32 word \<Rightarrow> dxil_module \<Rightarrow> val_ref \<times> dxil_module" where
  "dxil_module_get_float_const v m =
     (let (t, m) = get_float32_type m
      in intern_const (\<lambda>d. case d of FLOAT_VALUE x \<Rightarrow> float_eq x v | _ \<Rightarrow> False)
           t (FLOAT_VALUE (float_as_double v)) m)"

definition dxil_module_get_double_const :: "64 word \<Rightarrow> dxil_module \<Rightarrow> val_ref \<times> dxil_module" where
  "dxil_module_get_double_const v m =
     (let (t, m) = get_float64_type m
      in intern_const (\<lambda>d. case d of DOUBLE_VALUE x \<Rightarrow> double_eq x v | _ \<Rightarrow> False)
           t (DOUBLE_VALUE v) m)"

section \<open>Aggregates and undefined values\<close>

text \<open>
  \<open>memcmp\<close> and \<open>memcpy\<close> over the number of parts the type gives, an \<open>unsigned int\<close>; the caller's
  array holds at least that many.
\<close>

definition intern_aggregate ::
  "ty \<Rightarrow> nat \<Rightarrow> val_ref list \<Rightarrow> dxil_module \<Rightarrow> (val_ref \<times> dxil_module) result" where
  "intern_aggregate type num vs m =
     (let n = num mod 2 ^ 32 in
      if length vs < n then Inl Undefined
      else Inr (intern_const (\<lambda>d. d = VALUES (take n vs)) type (VALUES (take n vs)) m))"

definition dxil_module_get_array_const ::
  "ty \<Rightarrow> val_ref list \<Rightarrow> dxil_module \<Rightarrow> (val_ref \<times> dxil_module) result" where
  "dxil_module_get_array_const type vs m =
     (case type_at m type of TYPE_ARRAY _ n \<Rightarrow> intern_aggregate type n vs m | _ \<Rightarrow> Inl Assertion)"

definition dxil_module_get_vector_const ::
  "ty \<Rightarrow> val_ref list \<Rightarrow> dxil_module \<Rightarrow> (val_ref \<times> dxil_module) result" where
  "dxil_module_get_vector_const type vs m =
     (case type_at m type of TYPE_VECTOR _ n \<Rightarrow> intern_aggregate type n vs m | _ \<Rightarrow> Inl Assertion)"

definition dxil_module_get_undef :: "ty \<Rightarrow> dxil_module \<Rightarrow> val_ref \<times> dxil_module" where
  "dxil_module_get_undef type m =
     (case find_pos (\<lambda>c. value_type (const_value c) = type \<and> const_data c = UNDEF) (const_list m) of
        Some i \<Rightarrow> (CONST_REF i, m)
      | None \<Rightarrow> create_const type UNDEF m)"

definition dxil_module_get_struct_const ::
  "ty \<Rightarrow> val_ref list \<Rightarrow> dxil_module \<Rightarrow> (val_ref \<times> dxil_module) result" where
  "dxil_module_get_struct_const type vs m =
     (case type_at m type of
        TYPE_STRUCT _ elems \<Rightarrow> intern_aggregate type (length elems) vs m
      | _ \<Rightarrow> Inl Assertion)"

section \<open>Resource bindings and properties\<close>

text \<open>The bounds and the space are unsigned, so they are not sign-extended here.\<close>

definition dxil_module_get_res_bind_const ::
  "32 word \<Rightarrow> 32 word \<Rightarrow> 32 word \<Rightarrow> 8 word \<Rightarrow> dxil_module \<Rightarrow> (val_ref \<times> dxil_module) result" where
  "dxil_module_get_res_bind_const lower_bound upper_bound space class m =
     bind_result (dxil_module_get_res_bind_type m) (\<lambda>(type, m).
     bind_result (dxil_module_get_int_type 32 m) (\<lambda>(int32, m).
     bind_result (dxil_module_get_int_type 8 m) (\<lambda>(int8, m).
     bind_result (get_int_const int32 (ucast lower_bound) m) (\<lambda>(a, m).
     bind_result (get_int_const int32 (ucast upper_bound) m) (\<lambda>(b, m).
     bind_result (get_int_const int32 (ucast space) m) (\<lambda>(c, m).
     bind_result (get_int_const int8 (ucast class) m) (\<lambda>(d, m).
       dxil_module_get_struct_const type [a, b, c, d] m)))))))"

text \<open>
  The unions of bit fields that make up the two dwords of resource properties, laid out from the
  least significant bit.
\<close>

definition get_basic_srv_uav_res_props_dword :: "bool \<Rightarrow> bool \<Rightarrow> bool \<Rightarrow> bool \<Rightarrow> nat \<Rightarrow> 32 word" where
  "get_basic_srv_uav_res_props_dword uav rov globally_coherent has_counter kind =
     of_nat (kind mod 256) OR push_bit 12 (of_bool uav) OR push_bit 13 (of_bool rov) OR
     push_bit 14 (of_bool globally_coherent) OR push_bit 15 (of_bool has_counter)"

definition get_typed_srv_uav_res_props_dword :: "nat \<Rightarrow> 8 word \<Rightarrow> 8 word \<Rightarrow> 32 word" where
  "get_typed_srv_uav_res_props_dword comp_type num_components sample_count =
     of_nat (comp_type mod 256) OR push_bit 8 (ucast num_components) OR
     push_bit 16 (ucast sample_count)"

definition get_sampler_res_props_dword :: "bool \<Rightarrow> 32 word" where
  "get_sampler_res_props_dword comparison =
     of_nat (dxil_resource_kind_value DXIL_RESOURCE_KIND_SAMPLER) OR push_bit 15 (of_bool comparison)"

definition md_subnode :: "dxil_module \<Rightarrow> mdref \<Rightarrow> nat \<Rightarrow> mdref result" where
  "md_subnode m n i =
     (if n < length (mdnode_list m) then
        (case mdnode_list m ! n of
           MD_NODE subs \<Rightarrow>
             if i < length subs then (case subs ! i of Some k \<Rightarrow> Inr k | None \<Rightarrow> Inl Undefined)
             else Inl Undefined
         | _ \<Rightarrow> Inl Assertion)
      else Inl Undefined)"

definition get_int_from_mdnode :: "dxil_module \<Rightarrow> mdref \<Rightarrow> nat \<Rightarrow> 64 word result" where
  "get_int_from_mdnode m mdnode subnode =
     bind_result (md_subnode m mdnode subnode) (\<lambda>k.
       if k < length (mdnode_list m) then
         (case mdnode_list m ! k of
            MD_VALUE _ v \<Rightarrow> get_int_from_const_value m v
          | _ \<Rightarrow> Inl Assertion)
       else Inl Undefined)"

text \<open>
  \<open>array_or_vector_def.num_elems\<close> read from any type: in a scalar or pointer type those bytes of the
  union are zero, in a structure or function type they are part of a pointer.
\<close>

definition num_elems_member :: "dxil_type \<Rightarrow> nat result" where
  "num_elems_member t =
     (case t of
        TYPE_ARRAY _ n \<Rightarrow> Inr n
      | TYPE_VECTOR _ n \<Rightarrow> Inr n
      | TYPE_STRUCT _ _ \<Rightarrow> Inl Undefined
      | TYPE_FUNCTION _ _ \<Rightarrow> Inl Undefined
      | _ \<Rightarrow> Inr 0)"

definition resource_vec_type :: "dxil_module \<Rightarrow> mdref \<Rightarrow> dxil_type result" where
  "resource_vec_type m mdnode =
     bind_result (md_subnode m mdnode 1) (\<lambda>k.
       case mdnode_list m ! k of
         MD_VALUE ptr _ \<Rightarrow>
           (case type_at m ptr of
              TYPE_POINTER target \<Rightarrow>
                (let res = (case type_at m target of TYPE_ARRAY e _ \<Rightarrow> e | _ \<Rightarrow> target) in
                 case type_at m res of
                   TYPE_STRUCT _ (t # _) \<Rightarrow> Inr (type_at m t)
                 | _ \<Rightarrow> Inl Undefined)
            | _ \<Rightarrow> Inl Undefined)
       | _ \<Rightarrow> Inl Undefined)"

definition fill_res_props_dwords ::
  "dxil_module \<Rightarrow> dxil_resource_class \<Rightarrow> mdref \<Rightarrow> (32 word \<times> 32 word) result" where
  "fill_res_props_dwords m class mdnode =
     (let int = get_int_from_mdnode m mdnode in
      bind_result
        (case class of
           DXIL_RESOURCE_CLASS_SRV \<Rightarrow>
             bind_result (int 6) (\<lambda>kind.
             bind_result (int 7) (\<lambda>sample_count.
               Inr (get_basic_srv_uav_res_props_dword False False False False (unat kind),
                    unat kind, ucast sample_count)))
         | DXIL_RESOURCE_CLASS_UAV \<Rightarrow>
             bind_result (int 6) (\<lambda>kind.
             bind_result (int 9) (\<lambda>rov.
             bind_result (int 7) (\<lambda>globally_coherent.
             bind_result (int 8) (\<lambda>has_counter.
               Inr (get_basic_srv_uav_res_props_dword True (rov \<noteq> 0) (globally_coherent \<noteq> 0)
                      (has_counter \<noteq> 0) (unat kind),
                    unat kind, 0)))))
         | DXIL_RESOURCE_CLASS_CBV \<Rightarrow>
             (let kind = dxil_resource_kind_value DXIL_RESOURCE_KIND_CBUFFER
              in Inr (of_nat kind, kind, 0))
         | DXIL_RESOURCE_CLASS_SAMPLER \<Rightarrow>
             bind_result (int 6) (\<lambda>k.
               Inr (get_sampler_res_props_dword
                      (unat k = dxil_sampler_kind_value DXIL_SAMPLER_KIND_COMPARISON),
                    dxil_resource_kind_value DXIL_RESOURCE_KIND_SAMPLER, 0)))
        (\<lambda>(dword0, kind, sample_count).
           if kind = dxil_resource_kind_value DXIL_RESOURCE_KIND_STRUCTURED_BUFFER \<or>
              kind = dxil_resource_kind_value DXIL_RESOURCE_KIND_INVALID then Inl Unreachable
           else if kind = dxil_resource_kind_value DXIL_RESOURCE_KIND_RAW_BUFFER \<or>
              kind = dxil_resource_kind_value DXIL_RESOURCE_KIND_SAMPLER then Inr (dword0, 0)
           else if kind = dxil_resource_kind_value DXIL_RESOURCE_KIND_CBUFFER then
             bind_result (int 6) (\<lambda>n. Inr (dword0, ucast n))
           else
             let tag_array_index = (if class = DXIL_RESOURCE_CLASS_SRV then 8 else 10) in
             bind_result (resource_vec_type m mdnode) (\<lambda>vec_type.
             bind_result (md_subnode m mdnode tag_array_index) (\<lambda>tags.
             bind_result (get_int_from_mdnode m tags 1) (\<lambda>comp_type.
             bind_result (num_elems_member vec_type) (\<lambda>n.
               Inr (dword0, get_typed_srv_uav_res_props_dword (unat comp_type) (of_nat n) sample_count)))))))"

text \<open>The end of each of the \<open>..._res_props_const\<close> functions.\<close>

definition res_props_struct ::
  "ty \<Rightarrow> 32 word \<Rightarrow> 32 word \<Rightarrow> dxil_module \<Rightarrow> (val_ref \<times> dxil_module) result" where
  "res_props_struct type dword0 dword1 m =
     bind_result (dxil_module_get_int32_const dword0 m) (\<lambda>(a, m).
     bind_result (dxil_module_get_int32_const dword1 m) (\<lambda>(b, m).
       dxil_module_get_struct_const type [a, b] m))"

definition dxil_module_get_res_props_const ::
  "dxil_resource_class \<Rightarrow> mdref \<Rightarrow> dxil_module \<Rightarrow> (val_ref \<times> dxil_module) result" where
  "dxil_module_get_res_props_const class mdnode m =
     bind_result (dxil_module_get_res_props_type m) (\<lambda>(type, m).
     bind_result (fill_res_props_dwords m class mdnode) (\<lambda>(dword0, dword1).
       res_props_struct type dword0 dword1 m))"

text \<open>The base type of a NIR ALU type, its bit size masked off.\<close>

definition comp_type_from_alu_type :: "nir_base_type \<Rightarrow> dxil_component_type result" where
  "comp_type_from_alu_type type =
     (case type of
        NIR_INT \<Rightarrow> Inr DXIL_COMP_TYPE_I32
      | NIR_UINT \<Rightarrow> Inr DXIL_COMP_TYPE_U32
      | NIR_FLOAT \<Rightarrow> Inr DXIL_COMP_TYPE_F32
      | _ \<Rightarrow> Inl Unreachable)"

text \<open>What is read of a texture instruction.\<close>

record nir_tex_instr =
  sampler_dim :: glsl_sampler_dim
  tex_is_array :: bool
  dest_type :: nir_base_type
  nir_tex_instr_dest_size :: nat

definition dxil_module_get_srv_res_props_const ::
  "nir_tex_instr \<Rightarrow> dxil_module \<Rightarrow> (val_ref \<times> dxil_module) result" where
  "dxil_module_get_srv_res_props_const tex m =
     bind_result (dxil_module_get_res_props_type m) (\<lambda>(type, m).
     let dword0 = get_basic_srv_uav_res_props_dword False False False False
           (dxil_resource_kind_value
              (dxil_sampler_dim_to_resource_kind (sampler_dim tex) (tex_is_array tex))) in
     bind_result (comp_type_from_alu_type (dest_type tex)) (\<lambda>comp_type.
     let dword1 = get_typed_srv_uav_res_props_dword (dxil_component_type_value comp_type)
           (of_nat (nir_tex_instr_dest_size tex)) 0
     in res_props_struct type dword0 dword1 m))"

definition dxil_module_get_sampler_res_props_const ::
  "bool \<Rightarrow> dxil_module \<Rightarrow> (val_ref \<times> dxil_module) result" where
  "dxil_module_get_sampler_res_props_const is_shadow m =
     bind_result (dxil_module_get_res_props_type m) (\<lambda>(type, m).
       res_props_struct type (get_sampler_res_props_dword is_shadow) 0 m)"

text \<open>
  What is read of an image intrinsic: which of the three groups of intrinsics it is in, the types
  and the atomic operation's type where it has them, its access flags, dimension, components, and
  the number of components of its format when it has one that is not \<open>PIPE_FORMAT_NONE\<close>.
\<close>

datatype image_intrinsic = image_load | image_store | other_image_intrinsic

record nir_intrinsic_instr =
  intrinsic :: image_intrinsic
  intr_dest_type :: nir_base_type
  intr_src_type :: nir_base_type
  intr_atomic_op_type :: "nir_base_type option"
  intr_access_coherent :: "bool option"
  intr_image_dim :: glsl_sampler_dim
  intr_image_array :: bool
  intr_num_components :: nat
  intr_format_components :: "nat option"

definition alu_type_from_image_intr :: "nir_intrinsic_instr \<Rightarrow> nir_base_type" where
  "alu_type_from_image_intr intr =
     (case intrinsic intr of
        image_load \<Rightarrow> intr_dest_type intr
      | image_store \<Rightarrow> intr_src_type intr
      | other_image_intrinsic \<Rightarrow>
          (case intr_atomic_op_type intr of Some t \<Rightarrow> t | None \<Rightarrow> NIR_UINT))"

definition dxil_module_get_uav_res_props_const ::
  "nir_intrinsic_instr \<Rightarrow> dxil_module \<Rightarrow> (val_ref \<times> dxil_module) result" where
  "dxil_module_get_uav_res_props_const intr m =
     bind_result (dxil_module_get_res_props_type m) (\<lambda>(type, m).
     let coherent = (case intr_access_coherent intr of Some c \<Rightarrow> c | None \<Rightarrow> False);
         dword0 = get_basic_srv_uav_res_props_dword True False coherent False
           (dxil_resource_kind_value
              (dxil_sampler_dim_to_resource_kind (intr_image_dim intr) (intr_image_array intr)));
         num_comps = (if intr_num_components intr \<noteq> 0 then intr_num_components intr else 1);
         num_comps = (case intr_format_components intr of Some n \<Rightarrow> n | None \<Rightarrow> num_comps) in
     bind_result (comp_type_from_alu_type (alu_type_from_image_intr intr)) (\<lambda>comp_type.
       res_props_struct type dword0
         (get_typed_srv_uav_res_props_dword (dxil_component_type_value comp_type) (of_nat num_comps) 0) m))"

definition dxil_module_get_buffer_res_props_const ::
  "dxil_resource_class \<Rightarrow> dxil_resource_kind \<Rightarrow> dxil_module \<Rightarrow> (val_ref \<times> dxil_module) result" where
  "dxil_module_get_buffer_res_props_const class kind m =
     bind_result (dxil_module_get_res_props_type m) (\<lambda>(type, m).
       if class = DXIL_RESOURCE_CLASS_CBV then
         res_props_struct type (of_nat (dxil_resource_kind_value kind)) (4096 * 4 * 4) m
       else
         res_props_struct type
           (get_basic_srv_uav_res_props_dword (class = DXIL_RESOURCE_CLASS_UAV) False False False
              (dxil_resource_kind_value kind)) 0 m)"

end
