(* ===== verification/Functions_Globals.thy ===== *)
theory Functions_Globals
  imports Consts
begin

text \<open>
  Adding global variables, functions and attribute sets to a module (\<open>dxil_module.c\<close>). An attribute
  set is identified by its number in the list, counted from 1; 0 is no set.
\<close>

section \<open>Global variables\<close>

definition add_gvar ::
  "string \<Rightarrow> ty \<Rightarrow> ty \<Rightarrow> dxil_address_space \<Rightarrow> int \<Rightarrow> val_ref option \<Rightarrow> dxil_module
   \<Rightarrow> val_ref \<times> dxil_module" where
  "add_gvar name type vtype as align init m =
     (GVAR_REF (length (gvar_list m)),
      m\<lparr>gvar_list := gvar_list m @
         [\<lparr>gvar_name = name, gvar_type = type, gvar_constant = (init \<noteq> None), gvar_as = as,
           gvar_align = align, gvar_initializer = init,
           gvar_value = \<lparr>value_id = -1, value_type = vtype\<rparr>\<rparr>]\<rparr>)"

definition dxil_add_global_var ::
  "string \<Rightarrow> ty \<Rightarrow> dxil_address_space \<Rightarrow> int \<Rightarrow> val_ref option \<Rightarrow> dxil_module
   \<Rightarrow> val_ref \<times> dxil_module" where
  "dxil_add_global_var name type as align init m = add_gvar name type type as align init m"

definition dxil_add_global_ptr_var ::
  "string \<Rightarrow> ty \<Rightarrow> dxil_address_space \<Rightarrow> int \<Rightarrow> val_ref option \<Rightarrow> dxil_module
   \<Rightarrow> val_ref \<times> dxil_module" where
  "dxil_add_global_ptr_var name type as align init m =
     (let (ptr, m) = dxil_module_get_pointer_type type m
      in add_gvar name type ptr as align init m)"

section \<open>Functions\<close>

text \<open>The name is cut to 253 characters; the result is the function's position.\<close>

definition add_function ::
  "string \<Rightarrow> ty \<Rightarrow> bool \<Rightarrow> nat \<Rightarrow> dxil_module \<Rightarrow> (nat \<times> dxil_module) result" where
  "add_function name type decl attr_set m =
     (case type_at m type of
        TYPE_FUNCTION ret_type _ \<Rightarrow>
          Inr (length (func_list m),
               m\<lparr>func_list := func_list m @
                  [\<lparr>func_name = take 253 name, func_type = type, func_decl = decl,
                    func_attr_set = attr_set,
                    func_value = \<lparr>value_id = -1, value_type = ret_type\<rparr>\<rparr>]\<rparr>)
      | _ \<Rightarrow> Inl Assertion)"

fun attrs_equal :: "dxil_attrib \<Rightarrow> dxil_attrib \<Rightarrow> bool" where
  "attrs_equal (DXIL_ATTR_ENUM a) (DXIL_ATTR_ENUM b) = (a = b)"
| "attrs_equal (DXIL_ATTR_ENUM_VALUE a x) (DXIL_ATTR_ENUM_VALUE b y) = (a = b \<and> x = y)"
| "attrs_equal (DXIL_ATTR_STRING a) (DXIL_ATTR_STRING b) = (a = b)"
| "attrs_equal (DXIL_ATTR_STRING_VALUE a x) (DXIL_ATTR_STRING_VALUE b y) = (a = b \<and> x = y)"
| "attrs_equal _ _ = False"

fun attr_sets_equal :: "attrib_set \<Rightarrow> attrib_set \<Rightarrow> bool" where
  "attr_sets_equal (a # as) (b # bs) = (if \<not> attrs_equal a b then False else attr_sets_equal as bs)"
| "attr_sets_equal _ _ = True"

text \<open>The loop over \<open>attr_set_list\<close> and the append after it, common to both kinds of sets.\<close>

definition find_attr_set :: "attrib_set \<Rightarrow> dxil_module \<Rightarrow> nat \<times> dxil_module" where
  "find_attr_set attrs m =
     (case find_pos (\<lambda>as. length as = length attrs \<and> attr_sets_equal as attrs) (attr_set_list m) of
        Some i \<Rightarrow> (Suc i, m)
      | None \<Rightarrow> (Suc (length (attr_set_list m)), m\<lparr>attr_set_list := attr_set_list m @ [attrs]\<rparr>))"

text \<open>
  Keys and values are null-terminated or null arrays of strings. The loop stops at the first missing
  key or after two; \<open>values\<close> may be null or hold a null for a key without a value.
\<close>

fun string_attrs :: "nat \<Rightarrow> string list \<Rightarrow> string option list \<Rightarrow> attrib_set" where
  "string_attrs 0 keys vals = []"
| "string_attrs (Suc n) [] vals = []"
| "string_attrs (Suc n) (k # keys) vals =
     (case vals of
        Some v # vals \<Rightarrow> DXIL_ATTR_STRING_VALUE k v # string_attrs n keys vals
      | None # vals \<Rightarrow> DXIL_ATTR_STRING k # string_attrs n keys vals
      | [] \<Rightarrow> DXIL_ATTR_STRING k # string_attrs n keys [])"

definition dxil_get_string_attr_set ::
  "string list \<Rightarrow> string option list \<Rightarrow> dxil_module \<Rightarrow> nat \<times> dxil_module" where
  "dxil_get_string_attr_set keys vals m =
     (let attrs = string_attrs 2 keys vals in
      if attrs = [] then (0, m) else find_attr_set attrs m)"

text \<open>The result is the position of the definition, which becomes the one instructions go to.\<close>

definition dxil_add_function_def ::
  "string \<Rightarrow> ty \<Rightarrow> nat \<Rightarrow> string list \<Rightarrow> string option list \<Rightarrow> dxil_module
   \<Rightarrow> (nat \<times> dxil_module) result" where
  "dxil_add_function_def name type num_blocks keys vals m =
     (let (attr_index, m) = dxil_get_string_attr_set keys vals m in
      bind_result (add_function name type False attr_index m) (\<lambda>(func, m).
        if num_blocks = 0 then Inl Assertion
        else Inr (length (func_def_list m),
                  m\<lparr>func_def_list := func_def_list m @
                      [\<lparr>def_func = func, instr_list = [],
                        basic_block_ids = replicate num_blocks (-1), curr_block = 0\<rparr>],
                    cur_emitting_func := Some (length (func_def_list m))\<rparr>)))"

definition get_attr_set :: "dxil_attr_kind \<Rightarrow> dxil_module \<Rightarrow> nat \<times> dxil_module" where
  "get_attr_set attr m =
     find_attr_set
       (take (if attr = DXIL_ATTR_KIND_NONE then 1 else 2)
          [DXIL_ATTR_ENUM DXIL_ATTR_KIND_NO_UNWIND, DXIL_ATTR_ENUM attr]) m"

definition dxil_add_function_decl ::
  "string \<Rightarrow> ty \<Rightarrow> dxil_attr_kind \<Rightarrow> dxil_module \<Rightarrow> (nat \<times> dxil_module) result" where
  "dxil_add_function_decl name type attr m =
     (let (attr_set, m) = get_attr_set attr m in
      if attr_set = 0 then Inl Out_of_memory else add_function name type True attr_set m)"

end
