(* ===== verification/Metadata.thy ===== *)
theory Metadata
  imports Functions_Globals
begin

text \<open>
  The metadata of a module (\<open>dxil_module.c\<close>): strings, values and nodes, each interned, and named
  nodes. A node is identified with its position in \<open>mdnode_list\<close>; its \<open>id\<close> is the position plus one,
  since zero stands for the null node.
\<close>

definition mdnode_id :: "mdref \<Rightarrow> nat" where
  "mdnode_id n = Suc n"

definition create_mdnode :: "dxil_mdnode \<Rightarrow> dxil_module \<Rightarrow> mdref \<times> dxil_module" where
  "create_mdnode n m = (length (mdnode_list m), m\<lparr>mdnode_list := mdnode_list m @ [n]\<rparr>)"

definition dxil_get_metadata_string :: "string \<Rightarrow> dxil_module \<Rightarrow> mdref \<times> dxil_module" where
  "dxil_get_metadata_string str m =
     (case find_pos (\<lambda>n. case n of MD_STRING s \<Rightarrow> s = str | _ \<Rightarrow> False) (mdnode_list m) of
        Some n \<Rightarrow> (n, m)
      | None \<Rightarrow> create_mdnode (MD_STRING str) m)"

definition dxil_get_metadata_value :: "ty \<Rightarrow> val_ref \<Rightarrow> dxil_module \<Rightarrow> mdref \<times> dxil_module" where
  "dxil_get_metadata_value type v m =
     (case find_pos (\<lambda>n. case n of MD_VALUE t w \<Rightarrow> t = type \<and> w = v | _ \<Rightarrow> False) (mdnode_list m) of
        Some n \<Rightarrow> (n, m)
      | None \<Rightarrow> create_mdnode (MD_VALUE type v) m)"

definition dxil_get_metadata_func :: "nat \<Rightarrow> dxil_module \<Rightarrow> (mdref \<times> dxil_module) result" where
  "dxil_get_metadata_func f m =
     (if f < length (func_list m) then
        let (ptr, m) = dxil_module_get_pointer_type (func_type (func_list m ! f)) m
        in Inr (dxil_get_metadata_value ptr (FUNC_REF f) m)
      else Inl Undefined)"

definition dxil_get_metadata_node :: "mdref option list \<Rightarrow> dxil_module \<Rightarrow> mdref \<times> dxil_module" where
  "dxil_get_metadata_node subnodes m =
     (case find_pos (\<lambda>n. case n of
          MD_NODE subs \<Rightarrow> length subs = length subnodes \<and> subs = subnodes | _ \<Rightarrow> False) (mdnode_list m) of
        Some n \<Rightarrow> (n, m)
      | None \<Rightarrow> create_mdnode (MD_NODE subnodes) m)"

definition metadata_int :: "ty \<Rightarrow> 64 word \<Rightarrow> dxil_module \<Rightarrow> (mdref \<times> dxil_module) result" where
  "metadata_int type v m =
     bind_result (get_int_const type v m) (\<lambda>(c, m). Inr (dxil_get_metadata_value type c m))"

definition dxil_get_metadata_int1 :: "bool \<Rightarrow> dxil_module \<Rightarrow> (mdref \<times> dxil_module) result" where
  "dxil_get_metadata_int1 v m = (let (t, m) = get_int1_type m in metadata_int t (of_bool v) m)"

definition dxil_get_metadata_int8 :: "8 word \<Rightarrow> dxil_module \<Rightarrow> (mdref \<times> dxil_module) result" where
  "dxil_get_metadata_int8 v m = (let (t, m) = get_int8_type m in metadata_int t (scast v) m)"

definition dxil_get_metadata_int32 :: "32 word \<Rightarrow> dxil_module \<Rightarrow> (mdref \<times> dxil_module) result" where
  "dxil_get_metadata_int32 v m = (let (t, m) = get_int32_type m in metadata_int t (scast v) m)"

definition dxil_get_metadata_int64 :: "64 word \<Rightarrow> dxil_module \<Rightarrow> (mdref \<times> dxil_module) result" where
  "dxil_get_metadata_int64 v m = (let (t, m) = get_int64_type m in metadata_int t v m)"

definition dxil_get_metadata_float32 :: "32 word \<Rightarrow> dxil_module \<Rightarrow> mdref \<times> dxil_module" where
  "dxil_get_metadata_float32 v m =
     (let (t, m) = get_float32_type m; (c, m) = dxil_module_get_float_const v m
      in dxil_get_metadata_value t c m)"

definition dxil_add_metadata_named_node :: "string \<Rightarrow> mdref option list \<Rightarrow> dxil_module \<Rightarrow> dxil_module" where
  "dxil_add_metadata_named_node name subnodes m =
     m\<lparr>md_named_node_list := md_named_node_list m @ [\<lparr>named_name = name, named_subnodes = subnodes\<rparr>]\<rparr>"

end
