(* ===== verification/Emit_Tables.thy ===== *)
theory Emit_Tables
  imports Abbrevs Metadata
begin

text \<open>
  Writing the tables of a module (\<open>dxil_module.c\<close>): attributes, types, module-level globals and
  functions, constants, metadata, and the symbol table. The functions take the module as it stands
  when \<open>dxil_emit_module\<close> runs; they change the writer only. The local arrays \<open>temp\<close>, \<open>data\<close> and
  \<open>record\<close> are the lists of what is stored in them, their bounds the checks before.
\<close>

type_synonym emitter = "writer \<Rightarrow> writer result"

section \<open>Attributes\<close>

text \<open>
  One attribute in the array \<open>record[128]\<close>, of which \<open>n\<close> entries are used. The bounds are checked as
  in the code: \<open>ARRAY_SIZE(record) - strlen(str)\<close> is computed in \<open>size_t\<close> and wraps around for a
  longer string, so the check then passes and the array is overrun.
\<close>

definition put_string :: "string \<Rightarrow> nat \<Rightarrow> 64 word list result" where
  "put_string str n =
     (if \<not> n < nat ((128 - int (length str)) mod 2 ^ 64) then Inl Assertion
      else if 128 < n + length str + 1 then Inl Undefined
      else Inr (map char_u64 str @ [0]))"

definition put_attrib :: "dxil_attrib \<Rightarrow> 64 word list \<Rightarrow> 64 word list result" where
  "put_attrib attr record =
     (if \<not> length record < 128 - 2 then Inl Assertion
      else
        let record = record @ [of_nat (attrib_type attr)] in
        case attr of
          DXIL_ATTR_ENUM kind \<Rightarrow> Inr (record @ [of_nat (dxil_attr_kind_value kind)])
        | DXIL_ATTR_ENUM_VALUE kind v \<Rightarrow> Inr (record @ [of_nat (dxil_attr_kind_value kind), v])
        | DXIL_ATTR_STRING k \<Rightarrow>
            bind_result (put_string k (length record)) (\<lambda>ks. Inr (record @ ks))
        | DXIL_ATTR_STRING_VALUE k v \<Rightarrow>
            bind_result (put_string k (length record)) (\<lambda>ks.
            bind_result (put_string v (length record + length ks)) (\<lambda>vs. Inr (record @ ks @ vs))))"

fun put_attribs :: "dxil_attrib list \<Rightarrow> 64 word list \<Rightarrow> 64 word list result" where
  "put_attribs [] record = Inr record"
| "put_attribs (a # as) record = bind_result (put_attrib a record) (put_attribs as)"

text \<open>\<open>PARAMATTR_GRP_CODE_ENTRY\<close> is 3, \<open>PARAMATTR_CODE_ENTRY\<close> is 2.\<close>

definition emit_attrib_group :: "32 word \<Rightarrow> 32 word \<Rightarrow> attrib_set \<Rightarrow> emitter" where
  "emit_attrib_group i slot attrs s =
     bind_result (put_attribs attrs [scast i, ucast slot]) (\<lambda>record. emit_record 3 record s)"

definition emit_attrib_group_table :: "dxil_module \<Rightarrow> emitter" where
  "emit_attrib_group_table m =
     seq (enter_subblock (block_number DXIL_PARAMATTR_GROUP) 3 #
          map (\<lambda>(i, as). emit_attrib_group (of_nat i) 0xFFFFFFFF as) (enumerate 1 (attr_set_list m)) @
          [exit_block])"

definition emit_attribute_table :: "dxil_module \<Rightarrow> emitter" where
  "emit_attribute_table m =
     seq (enter_subblock (block_number DXIL_PARAMATTR) 3 #
          map (\<lambda>(i, as). emit_record_int 2 (of_nat i)) (enumerate 1 (attr_set_list m)) @
          [exit_block])"

section \<open>Types\<close>

definition emit_float_type :: "nat \<Rightarrow> emitter" where
  "emit_float_type bit_size =
     (if bit_size = 16 then emit_record TYPE_CODE_HALF []
      else if bit_size = 32 then emit_record TYPE_CODE_FLOAT []
      else if bit_size = 64 then emit_record TYPE_CODE_DOUBLE []
      else (\<lambda>_. Inl Unreachable))"

text \<open>A type's \<open>id\<close> is an \<open>unsigned\<close>; as the argument of \<open>emit_pointer_type\<close> it becomes an \<open>int\<close>.\<close>

definition type_id :: "ty \<Rightarrow> 64 word" where
  "type_id t = ucast (of_nat t :: 32 word)"

definition type_id_int :: "ty \<Rightarrow> 64 word" where
  "type_id_int t = scast (of_nat t :: 32 word)"

definition emit_pointer_type :: "ty \<Rightarrow> emitter" where
  "emit_pointer_type target =
     emit_type_table_abbrev_record TYPE_TABLE_ABBREV_POINTER [TYPE_CODE_POINTER, type_id_int target, 0]"

definition emit_struct_name :: "string \<Rightarrow> emitter" where
  "emit_struct_name name s =
     (if length name < 256
      then emit_record (ucast TYPE_CODE_STRUCT_NAME) (map char_u64 name) s else Inl Assertion)"

definition emit_struct_name_char6 :: "string \<Rightarrow> emitter" where
  "emit_struct_name_char6 name s =
     (if length name < 256 - 1
      then emit_type_table_abbrev_record TYPE_TABLE_ABBREV_STRUCT_NAME
             (TYPE_CODE_STRUCT_NAME # map char_u64 name) s
      else Inl Assertion)"

definition emit_struct_type :: "string option \<Rightarrow> ty list \<Rightarrow> emitter" where
  "emit_struct_type name elems =
     (let (abbrev, type_code) =
            (if name \<noteq> None then (TYPE_TABLE_ABBREV_STRUCT_NAMED, TYPE_CODE_STRUCT_NAMED)
             else (TYPE_TABLE_ABBREV_STRUCT_ANON, TYPE_CODE_STRUCT_ANON))
      in seq
           [case name of
              None \<Rightarrow> Inr
            | Some n \<Rightarrow> (if is_char6_string n then emit_struct_name_char6 n else emit_struct_name n),
            check_that (length elems < 256 - 2),
            emit_type_table_abbrev_record abbrev (type_code # 0 # map type_id elems)])"

definition emit_array_type :: "ty \<Rightarrow> nat \<Rightarrow> emitter" where
  "emit_array_type elem_type num_elems =
     emit_type_table_abbrev_record TYPE_TABLE_ABBREV_ARRAY
       [TYPE_CODE_ARRAY, of_nat num_elems, type_id elem_type]"

definition emit_function_type :: "ty \<Rightarrow> ty list \<Rightarrow> emitter" where
  "emit_function_type ret_type args s =
     (if length args < 256 - 3
      then emit_type_table_abbrev_record TYPE_TABLE_ABBREV_FUNCTION
             (TYPE_CODE_FUNCTION # 0 # type_id ret_type # map type_id args) s
      else Inl Assertion)"

definition emit_vector_type :: "ty \<Rightarrow> nat \<Rightarrow> emitter" where
  "emit_vector_type elem_type num_elems =
     emit_type_table_abbrev_record TYPE_TABLE_ABBREV_VECTOR
       [TYPE_CODE_VECTOR, of_nat num_elems, type_id elem_type]"

definition emit_metadata_type :: emitter where
  "emit_metadata_type = emit_record TYPE_CODE_METADATA []"

fun emit_type :: "dxil_type \<Rightarrow> emitter" where
  "emit_type TYPE_VOID = emit_record TYPE_CODE_VOID []"
| "emit_type (TYPE_INTEGER bits) = emit_record_int TYPE_CODE_INTEGER (of_nat bits)"
| "emit_type (TYPE_FLOAT bits) = emit_float_type bits"
| "emit_type (TYPE_POINTER target) = emit_pointer_type target"
| "emit_type (TYPE_STRUCT name elems) = emit_struct_type name elems"
| "emit_type (TYPE_ARRAY elem n) = emit_array_type elem n"
| "emit_type (TYPE_FUNCTION ret args) = emit_function_type ret args"
| "emit_type (TYPE_VECTOR elem n) = emit_vector_type elem n"

definition emit_type_table :: "dxil_module \<Rightarrow> emitter" where
  "emit_type_table m =
     seq ([enter_subblock (block_number DXIL_TYPE_BLOCK) 4,
           emit_type_table_abbrevs,
           emit_record_int TYPE_CODE_NUMENTRY (of_nat (1 + length (type_list m)))] @
          map emit_type (type_list m) @
          [emit_metadata_type, exit_block])"

section \<open>Module information\<close>

text \<open>\<open>char\<close> is sign-extended in both. The codes are those of \<open>enum dxil_module_code\<close>.\<close>

definition emit_target_triple :: "string \<Rightarrow> emitter" where
  "emit_target_triple triple s =
     (if length triple < 256 then emit_record 2 (map char_u64 triple) s else Inl Assertion)"

definition emit_datalayout :: "string \<Rightarrow> emitter" where
  "emit_datalayout datalayout s =
     (if length datalayout < 256 then emit_record 3 (map char_u64 datalayout) s else Inl Assertion)"

definition emit_module_info_function :: "ty \<Rightarrow> bool \<Rightarrow> nat \<Rightarrow> emitter" where
  "emit_module_info_function type declaration attr_set_index =
     emit_record 8
       [type_id_int type, 0, of_bool declaration, 0, scast (of_nat attr_set_index :: 32 word),
        0, 0, 0, 0, 0, 0, 0, 0, 0, 0]"

definition DXIL_MODULE_CODE_GLOBALVAR :: "64 word" where
  "DXIL_MODULE_CODE_GLOBALVAR = 7"

definition as_unsigned :: "int \<Rightarrow> nat" where
  "as_unsigned i = nat (i mod 2 ^ 32)"

definition emit_module_info_global :: "dxil_module \<Rightarrow> dxil_gvar \<Rightarrow> dxil_abbrev \<Rightarrow> emitter" where
  "emit_module_info_global m gvar abbr =
     on_buf (emit_record_abbrev 4 abbr
       [DXIL_MODULE_CODE_GLOBALVAR,
        type_id (gvar_type gvar),
        push_bit 2 (of_nat (dxil_address_space_value (gvar_as gvar))) OR 2 OR
          (if gvar_constant gvar then 1 else 0),
        (case gvar_initializer gvar of Some v \<Rightarrow> u64 (id_of m v + 1) | None \<Rightarrow> 0),
        (case gvar_initializer gvar of Some v \<Rightarrow> 3 | None \<Rightarrow> 0),
        of_nat (util_logbase2 (as_unsigned (gvar_align gvar)) + 1),
        0])"

text \<open>
  The two maxima are \<open>int\<close>s that start at 0: a type's \<open>id\<close> is an \<open>unsigned\<close>, so \<open>MAX2\<close> compares
  unsigned and stores back into an \<open>int\<close>.
\<close>

definition simple_gvar_abbr :: "dxil_module \<Rightarrow> dxil_abbrev" where
  "simple_gvar_abbr m =
     (let max_global_type = fold (\<lambda>g a. max a (gvar_type g mod 2 ^ 32)) (gvar_list m) 0;
          max_alignment = fold (\<lambda>g a. max a (gvar_align g)) (gvar_list m) 0
      in [LITERAL DXIL_MODULE_CODE_GLOBALVAR,
          FIXED (util_logbase2 max_global_type + 1),
          VBR 6, VBR 6, FIXED 5,
          FIXED (util_logbase2 (as_unsigned max_alignment) + 1),
          LITERAL 0])"

definition emit_module_info :: "dxil_module \<Rightarrow> emitter" where
  "emit_module_info m =
     (let abbr = simple_gvar_abbr m in
      seq ([emit_target_triple ''dxil-ms-dx'',
            emit_datalayout
              ''e-m:e-p:32:32-i1:32-i8:32-i16:32-i32:32-i64:64-f16:32-f32:32-f64:64-n8:16:32:64'',
            define_abbrev abbr] @
           map (\<lambda>g. emit_module_info_global m g abbr) (gvar_list m) @
           map (\<lambda>f. emit_module_info_function (func_type f) (func_decl f) (func_attr_set f))
             (func_list m)))"

section \<open>Constants\<close>

definition module_const_abbrevs :: "dxil_abbrev list" where
  "module_const_abbrevs =
     [[LITERAL CST_CODE_AGGREGATE, ARRAY, FIXED 5],
      [LITERAL CST_CODE_STRING, ARRAY, FIXED 8],
      [LITERAL CST_CODE_CSTRING, ARRAY, FIXED 7],
      [LITERAL CST_CODE_CSTRING, ARRAY, CHAR6]]"

definition emit_module_const_abbrevs :: emitter where
  "emit_module_const_abbrevs = seq (map define_abbrev module_const_abbrevs)"

definition emit_set_type :: "ty \<Rightarrow> emitter" where
  "emit_set_type type = emit_const_abbrev_record CONST_ABBREV_SETTYPE [CST_CODE_SETTYPE, type_id type]"

definition emit_null_value :: emitter where
  "emit_null_value = on_buf (emit_record_no_abbrev (ucast CST_CODE_NULL) [])"

definition emit_undef_value :: emitter where
  "emit_undef_value = on_buf (emit_record_no_abbrev CST_CODE_UNDEF [])"

text \<open>
  Shifting and negating wrap around here; for the smallest 64-bit integer C leaves \<open>-value\<close>
  undefined.
\<close>

definition encode_signed :: "64 word \<Rightarrow> 64 word" where
  "encode_signed v = (if 0 \<le> sint v then push_bit 1 v else push_bit 1 (- v) OR 1)"

definition emit_int_value :: "64 word \<Rightarrow> emitter" where
  "emit_int_value v =
     (if v = 0 then emit_null_value
      else emit_const_abbrev_record CONST_ABBREV_INTEGER [CST_CODE_INTEGER, encode_signed v])"

definition emit_float16_value :: "16 word \<Rightarrow> emitter" where
  "emit_float16_value v =
     (if v = 0 then emit_null_value else on_buf (emit_record_no_abbrev CST_CODE_FLOAT [ucast v]))"

definition emit_float_value :: "32 word \<Rightarrow> emitter" where
  "emit_float_value v =
     (if v = 0 then emit_null_value else on_buf (emit_record_no_abbrev CST_CODE_FLOAT [ucast v]))"

definition emit_double_value :: "64 word \<Rightarrow> emitter" where
  "emit_double_value v =
     (if v = 0 then emit_null_value else on_buf (emit_record_no_abbrev CST_CODE_FLOAT [v]))"

definition emit_aggregate_values :: "dxil_module \<Rightarrow> val_ref list \<Rightarrow> emitter" where
  "emit_aggregate_values m vs =
     on_buf (emit_record_no_abbrev (ucast CST_CODE_AGGREGATE) (map (\<lambda>v. u64 (id_of m v)) vs))"

text \<open>The value of a constant after its type has been set: the \<open>switch\<close> of \<open>emit_consts\<close>.\<close>

definition emit_const_value :: "dxil_module \<Rightarrow> dxil_const \<Rightarrow> emitter" where
  "emit_const_value m c =
     (if const_data c = UNDEF then emit_undef_value
      else case (type_at m (value_type (const_value c)), const_data c) of
        (TYPE_INTEGER _, INT_VALUE v) \<Rightarrow> emit_int_value v
      | (TYPE_FLOAT bits, d) \<Rightarrow>
          (case d of
             INT_VALUE v \<Rightarrow> if bits = 16 then emit_float16_value (ucast v) else (\<lambda>_. Inl Unreachable)
           | FLOAT_VALUE v \<Rightarrow> if bits = 32 then emit_float_value v else (\<lambda>_. Inl Unreachable)
           | DOUBLE_VALUE v \<Rightarrow> if bits = 64 then emit_double_value v else (\<lambda>_. Inl Unreachable)
           | _ \<Rightarrow> (\<lambda>_. Inl Unreachable))
      | (TYPE_ARRAY _ _, VALUES vs) \<Rightarrow> emit_aggregate_values m vs
      | (TYPE_STRUCT _ _, VALUES vs) \<Rightarrow> emit_aggregate_values m vs
      | _ \<Rightarrow> (\<lambda>_. Inl Unreachable))"

fun emit_consts_from :: "dxil_module \<Rightarrow> ty option \<Rightarrow> dxil_const list \<Rightarrow> emitter" where
  "emit_consts_from m curr_type [] s = Inr s"
| "emit_consts_from m curr_type (c # cs) s =
     (if value_id (const_value c) < 0 then Inl Assertion
      else
        let type = value_type (const_value c) in
        seq [if curr_type \<noteq> Some type then emit_set_type type else Inr,
             emit_const_value m c,
             emit_consts_from m (Some type) cs] s)"

definition emit_consts :: "dxil_module \<Rightarrow> emitter" where
  "emit_consts m = emit_consts_from m None (const_list m)"

definition emit_module_consts :: "dxil_module \<Rightarrow> emitter" where
  "emit_module_consts m =
     seq [enter_subblock (block_number DXIL_CONST_BLOCK) 4,
          emit_module_const_abbrevs,
          emit_consts m,
          exit_block]"

section \<open>The symbol table\<close>

definition emit_symtab_entry :: "int \<Rightarrow> string \<Rightarrow> emitter" where
  "emit_symtab_entry v name s =
     (if length name < 256 - 2
      then emit_value_symtab_abbrev_record
             (if is_char6_string name then VST_ABBREV_ENTRY_6
              else if is_char7_string name then VST_ABBREV_ENTRY_7
              else VST_ABBREV_ENTRY_8)
             (VST_CODE_ENTRY # ucast (of_int v :: 32 word) # map uchar_u64 name) s
      else Inl Assertion)"

definition emit_value_symbol_table :: "dxil_module \<Rightarrow> emitter" where
  "emit_value_symbol_table m =
     seq (enter_subblock (block_number DXIL_VALUE_SYMTAB_BLOCK) 4 #
          map (\<lambda>f. emit_symtab_entry (value_id (func_value f)) (func_name f)) (func_list m) @
          map (\<lambda>g. emit_symtab_entry (value_id (gvar_value g)) (gvar_name g)) (gvar_list m) @
          [exit_block])"

section \<open>Metadata\<close>

definition emit_metadata_value :: "dxil_module \<Rightarrow> ty \<Rightarrow> val_ref \<Rightarrow> emitter" where
  "emit_metadata_value m type v s =
     (if 0 \<le> id_of m v then emit_record METADATA_VALUE [type_id type, u64 (id_of m v)] s
      else Inl Assertion)"

definition emit_metadata_string :: "string \<Rightarrow> emitter" where
  "emit_metadata_string str s =
     (if length str < 256 - 1
      then emit_metadata_abbrev_record METADATA_ABBREV_STRING (METADATA_STRING # map uchar_u64 str) s
      else Inl Assertion)"

definition subnode_id :: "mdref option \<Rightarrow> 64 word" where
  "subnode_id n = (case n of Some n \<Rightarrow> of_nat (mdnode_id n) | None \<Rightarrow> 0)"

definition emit_metadata_node :: "mdref option list \<Rightarrow> emitter" where
  "emit_metadata_node subnodes s =
     (if length subnodes < 256 then emit_record METADATA_NODE (map subnode_id subnodes) s
      else Inl Assertion)"

fun emit_mdnode :: "dxil_module \<Rightarrow> dxil_mdnode \<Rightarrow> emitter" where
  "emit_mdnode m (MD_STRING str) = emit_metadata_string str"
| "emit_mdnode m (MD_VALUE type v) = emit_metadata_value m type v"
| "emit_mdnode m (MD_NODE subnodes) = emit_metadata_node subnodes"

definition emit_metadata_nodes :: "dxil_module \<Rightarrow> emitter" where
  "emit_metadata_nodes m = seq (map (emit_mdnode m) (mdnode_list m))"

definition emit_metadata_name :: "string \<Rightarrow> emitter" where
  "emit_metadata_name name s =
     (if length name < 256 - 1
      then emit_metadata_abbrev_record METADATA_ABBREV_NAME (METADATA_NAME # map char_u64 name) s
      else Inl Assertion)"

text \<open>A null subnode would be followed: \<open>subnodes[i]->id\<close>.\<close>

definition emit_metadata_named_node :: "string \<Rightarrow> mdref option list \<Rightarrow> emitter" where
  "emit_metadata_named_node name subnodes s =
     (if \<not> length subnodes < 256 then Inl Assertion
      else if None \<in> set subnodes then Inl Undefined
      else seq [emit_metadata_name name,
                emit_record METADATA_NAMED_NODE (map (\<lambda>n. subnode_id n - 1) subnodes)] s)"

definition emit_metadata_named_nodes :: "dxil_module \<Rightarrow> emitter" where
  "emit_metadata_named_nodes m =
     seq (map (\<lambda>n. emit_metadata_named_node (named_name n) (named_subnodes n)) (md_named_node_list m))"

definition emit_metadata :: "dxil_module \<Rightarrow> emitter" where
  "emit_metadata m =
     seq [enter_subblock (block_number DXIL_METADATA_BLOCK) 3,
          emit_metadata_abbrevs,
          emit_metadata_nodes m,
          emit_metadata_named_nodes m,
          exit_block]"

end
