(* ===== verification/Instructions.thy ===== *)
theory Instructions
  imports Metadata
begin

text \<open>
  Building the instructions of the function being emitted (\<open>dxil_module.c\<close>, \<open>create_instr\<close> and the
  \<open>dxil_emit_...\<close> functions before the emission proper). A new instruction goes to the end of
  \<open>instr_list\<close> of \<open>cur_emitting_func\<close>; branches and returns end the current block.
\<close>

definition create_instr ::
  "instr_data \<Rightarrow> ty \<Rightarrow> bool \<Rightarrow> dxil_module \<Rightarrow> (val_ref \<times> dxil_module) result" where
  "create_instr d ret_type hv m =
     (case cur_emitting_func m of
        None \<Rightarrow> Inl Undefined
      | Some f \<Rightarrow>
          if f < length (func_def_list m) then
            let def = func_def_list m ! f;
                i = \<lparr>instr_data = d, has_value = hv,
                     instr_value = \<lparr>value_id = -1, value_type = ret_type\<rparr>\<rparr>
            in Inr (INSTR_REF f (length (instr_list def)),
                    m\<lparr>func_def_list := (func_def_list m)[f := def\<lparr>instr_list := instr_list def @ [i]\<rparr>]\<rparr>)
          else Inl Undefined)"

definition legal_arith_type :: "dxil_module \<Rightarrow> ty \<Rightarrow> bool" where
  "legal_arith_type m t =
     (case type_at m t of
        TYPE_INTEGER b \<Rightarrow> b = 1 \<or> b = 16 \<or> b = 32 \<or> b = 64
      | TYPE_FLOAT b \<Rightarrow> b = 16 \<or> b = 32 \<or> b = 64
      | _ \<Rightarrow> False)"

text \<open>\<open>assert(types_equal(a, b))\<close> and \<open>assert(c)\<close>.\<close>

definition assert_types_equal :: "dxil_module \<Rightarrow> ty \<Rightarrow> ty \<Rightarrow> unit result" where
  "assert_types_equal m a b = bind_result (same_type m a b) (\<lambda>e. if e then Inr () else Inl Assertion)"

definition assert :: "bool \<Rightarrow> unit result" where
  "assert c = (if c then Inr () else Inl Assertion)"

definition dxil_emit_binop ::
  "dxil_bin_opcode \<Rightarrow> val_ref \<Rightarrow> val_ref \<Rightarrow> nat \<Rightarrow> dxil_module \<Rightarrow> (val_ref \<times> dxil_module) result" where
  "dxil_emit_binop opcode op0 op1 flags m =
     bind_result (assert_types_equal m (type_of m op0) (type_of m op1)) (\<lambda>_.
     bind_result (assert (legal_arith_type m (type_of m op0))) (\<lambda>_.
       create_instr (INSTR_BINOP opcode op0 op1 flags) (type_of m op0) True m))"

definition dxil_emit_cmp ::
  "dxil_cmp_pred \<Rightarrow> val_ref \<Rightarrow> val_ref \<Rightarrow> dxil_module \<Rightarrow> (val_ref \<times> dxil_module) result" where
  "dxil_emit_cmp pred op0 op1 m =
     bind_result (assert_types_equal m (type_of m op0) (type_of m op1)) (\<lambda>_.
     bind_result (assert (legal_arith_type m (type_of m op0))) (\<lambda>_.
     let (int1, m) = get_int1_type m in create_instr (INSTR_CMP pred op0 op1) int1 True m))"

definition dxil_emit_select ::
  "val_ref \<Rightarrow> val_ref \<Rightarrow> val_ref \<Rightarrow> dxil_module \<Rightarrow> (val_ref \<times> dxil_module) result" where
  "dxil_emit_select op0 op1 op2 m =
     (let (int1, m) = get_int1_type m in
      bind_result (assert_types_equal m (type_of m op0) int1) (\<lambda>_.
      bind_result (assert_types_equal m (type_of m op1) (type_of m op2)) (\<lambda>_.
      bind_result (assert (legal_arith_type m (type_of m op1))) (\<lambda>_.
        create_instr (INSTR_SELECT op0 op1 op2) (type_of m op1) True m))))"

definition dxil_emit_cast ::
  "dxil_cast_opcode \<Rightarrow> ty \<Rightarrow> val_ref \<Rightarrow> dxil_module \<Rightarrow> (val_ref \<times> dxil_module) result" where
  "dxil_emit_cast opcode type v m =
     bind_result (assert (legal_arith_type m (type_of m v))) (\<lambda>_.
     bind_result (assert (legal_arith_type m type)) (\<lambda>_.
       create_instr (INSTR_CAST opcode type v) type True m))"

text \<open>\<open>m->cur_emitting_func->curr_block++\<close>\<close>

definition end_block :: "dxil_module \<Rightarrow> dxil_module result" where
  "end_block m =
     (case cur_emitting_func m of
        None \<Rightarrow> Inl Undefined
      | Some f \<Rightarrow>
          if f < length (func_def_list m) then
            let def = func_def_list m ! f
            in Inr (m\<lparr>func_def_list := (func_def_list m)[f := def\<lparr>curr_block := Suc (curr_block def)\<rparr>]\<rparr>)
          else Inl Undefined)"

definition dxil_emit_branch ::
  "val_ref option \<Rightarrow> nat \<Rightarrow> nat \<Rightarrow> dxil_module \<Rightarrow> dxil_module result" where
  "dxil_emit_branch cond true_block false_block m =
     bind_result
       (case cond of
          None \<Rightarrow> Inr m
        | Some c \<Rightarrow>
            (let (int1, m) = get_int1_type m in
             bind_result (assert_types_equal m (type_of m c) int1) (\<lambda>_. Inr m)))
       (\<lambda>m. let (void, m) = dxil_module_get_void_type m in
         bind_result (create_instr (INSTR_BR cond true_block false_block) void False m)
           (\<lambda>(_, m). end_block m))"

definition get_instr :: "dxil_module \<Rightarrow> val_ref \<Rightarrow> dxil_instr result" where
  "get_instr m v =
     (case v of
        INSTR_REF f i \<Rightarrow>
          if f < length (func_def_list m) \<and> i < length (instr_list (func_def_list m ! f))
          then Inr (instr_list (func_def_list m ! f) ! i) else Inl Undefined
      | _ \<Rightarrow> Inl Undefined)"

definition dxil_instr_get_return_value :: "dxil_module \<Rightarrow> val_ref \<Rightarrow> val_ref option result" where
  "dxil_instr_get_return_value m v =
     bind_result (get_instr m v) (\<lambda>i. Inr (if has_value i then Some v else None))"

definition dxil_emit_phi :: "ty \<Rightarrow> dxil_module \<Rightarrow> (val_ref \<times> dxil_module) result" where
  "dxil_emit_phi type m =
     bind_result (assert (legal_arith_type m type)) (\<lambda>_.
       create_instr (INSTR_PHI type []) type True m)"

definition set_instr_data :: "val_ref \<Rightarrow> instr_data \<Rightarrow> dxil_module \<Rightarrow> dxil_module" where
  "set_instr_data v d m =
     (case v of
        INSTR_REF f i \<Rightarrow>
          let def = func_def_list m ! f
          in m\<lparr>func_def_list := (func_def_list m)
                [f := def\<lparr>instr_list := (instr_list def)[i := (instr_list def ! i)\<lparr>instr_data := d\<rparr>]\<rparr>]\<rparr>
      | _ \<Rightarrow> m)"

text \<open>The loop over the incoming values, each checked before it is stored.\<close>

fun check_incoming :: "dxil_module \<Rightarrow> ty \<Rightarrow> (val_ref option \<times> nat) list \<Rightarrow> (val_ref \<times> nat) list result" where
  "check_incoming m type [] = Inr []"
| "check_incoming m type ((v, block) # rest) =
     (case v of
        None \<Rightarrow> Inl Assertion
      | Some v \<Rightarrow>
          bind_result (assert_types_equal m (type_of m v) type) (\<lambda>_.
          bind_result (check_incoming m type rest) (\<lambda>srcs. Inr ((v, block) # srcs))))"

definition dxil_phi_add_incoming ::
  "val_ref \<Rightarrow> (val_ref option \<times> nat) list \<Rightarrow> dxil_module \<Rightarrow> dxil_module result" where
  "dxil_phi_add_incoming instr incoming m =
     bind_result (get_instr m instr) (\<lambda>i.
       case instr_data i of
         INSTR_PHI type srcs \<Rightarrow>
           if incoming = [] then Inl Assertion
           else bind_result (check_incoming m type incoming) (\<lambda>new.
             Inr (set_instr_data instr (INSTR_PHI type (srcs @ new)) m))
       | _ \<Rightarrow> Inl Assertion)"

section \<open>Calls\<close>

fun check_args :: "dxil_module \<Rightarrow> ty list \<Rightarrow> val_ref list \<Rightarrow> unit result" where
  "check_args m (t # ts) (a # args) =
     bind_result (assert_types_equal m t (type_of m a)) (\<lambda>_. check_args m ts args)"
| "check_args m _ _ = Inr ()"

text \<open>The return and argument types of a function.\<close>

definition func_signature :: "dxil_module \<Rightarrow> nat \<Rightarrow> (ty \<times> ty list) result" where
  "func_signature m f =
     (if f < length (func_list m) then
        (case type_at m (func_type (func_list m ! f)) of
           TYPE_FUNCTION ret args \<Rightarrow> Inr (ret, args)
         | _ \<Rightarrow> Inl Undefined)
      else Inl Undefined)"

definition create_call_instr ::
  "nat \<Rightarrow> val_ref list \<Rightarrow> bool \<Rightarrow> dxil_module \<Rightarrow> (val_ref \<times> dxil_module) result" where
  "create_call_instr func args hv m =
     bind_result (func_signature m func) (\<lambda>(ret_type, arg_types).
     bind_result (assert (length args = length arg_types)) (\<lambda>_.
     bind_result (check_args m arg_types args) (\<lambda>_.
       create_instr (INSTR_CALL func args) ret_type hv m)))"

definition dxil_emit_call :: "nat \<Rightarrow> val_ref list \<Rightarrow> dxil_module \<Rightarrow> (val_ref \<times> dxil_module) result" where
  "dxil_emit_call func args m =
     bind_result (func_signature m func) (\<lambda>(ret_type, _).
     bind_result (assert (type_at m ret_type \<noteq> TYPE_VOID)) (\<lambda>_.
       create_call_instr func args True m))"

definition dxil_emit_call_void :: "nat \<Rightarrow> val_ref list \<Rightarrow> dxil_module \<Rightarrow> dxil_module result" where
  "dxil_emit_call_void func args m =
     bind_result (func_signature m func) (\<lambda>(ret_type, _).
     bind_result (assert (type_at m ret_type = TYPE_VOID)) (\<lambda>_.
     bind_result (create_call_instr func args False m) (\<lambda>(_, m). Inr m)))"

definition dxil_emit_ret_void :: "dxil_module \<Rightarrow> dxil_module result" where
  "dxil_emit_ret_void m =
     (let (void, m) = dxil_module_get_void_type m in
      bind_result (create_instr (INSTR_RET None) void False m) (\<lambda>(_, m). end_block m))"

section \<open>Aggregates and memory\<close>

definition dxil_emit_extractval :: "val_ref \<Rightarrow> nat \<Rightarrow> dxil_module \<Rightarrow> (val_ref \<times> dxil_module) result" where
  "dxil_emit_extractval src index m =
     (case type_at m (type_of m src) of
        TYPE_STRUCT _ elems \<Rightarrow>
          if index < length elems
          then create_instr (INSTR_EXTRACTVAL src (type_of m src) index) (elems ! index) True m
          else Inl Assertion
      | _ \<Rightarrow> Inl Assertion)"

definition dxil_emit_alloca ::
  "ty \<Rightarrow> val_ref \<Rightarrow> nat \<Rightarrow> dxil_module \<Rightarrow> (val_ref \<times> dxil_module) result" where
  "dxil_emit_alloca alloc_type sz align m =
     (case type_at m (type_of m sz) of
        TYPE_INTEGER _ \<Rightarrow>
          (let (return_type, m) = dxil_module_get_pointer_type alloc_type m;
               a = util_logbase2 align + 1 in
           if a < 2 ^ 5
           then create_instr (INSTR_ALLOCA alloc_type (type_of m sz) sz (a OR 2 ^ 6)) return_type True m
           else Inl Assertion)
      | _ \<Rightarrow> Inl Assertion)"

definition get_deref_type :: "dxil_module \<Rightarrow> ty \<Rightarrow> ty result" where
  "get_deref_type m t =
     (case type_at m t of
        TYPE_POINTER p \<Rightarrow> Inr p
      | TYPE_ARRAY e _ \<Rightarrow> Inr e
      | _ \<Rightarrow> Inl Unreachable)"

text \<open>The loop over the indices: each is a 32-bit integer and steps one level into the type.\<close>

fun gep_walk :: "ty \<Rightarrow> val_ref list \<Rightarrow> dxil_module \<Rightarrow> (ty \<times> dxil_module) result" where
  "gep_walk type [] m = Inr (type, m)"
| "gep_walk type (op # ops) m =
     (let (int32, m) = get_int32_type m in
      bind_result (assert (type_of m op = int32)) (\<lambda>_.
      bind_result (get_deref_type m type) (\<lambda>type. gep_walk type ops m)))"

definition dxil_emit_gep_inbounds :: "val_ref list \<Rightarrow> dxil_module \<Rightarrow> (val_ref \<times> dxil_module) result" where
  "dxil_emit_gep_inbounds operands m =
     (case operands of
        [] \<Rightarrow> Inl Assertion
      | op0 # ops \<Rightarrow>
          bind_result (get_deref_type m (type_of m op0)) (\<lambda>source_elem_type.
          bind_result (gep_walk (type_of m op0) ops m) (\<lambda>(type, m).
          let (ptr, m) = dxil_module_get_pointer_type type m
          in create_instr (INSTR_GEP True source_elem_type operands) ptr True m)))"

definition dxil_emit_load ::
  "val_ref \<Rightarrow> nat \<Rightarrow> bool \<Rightarrow> dxil_module \<Rightarrow> (val_ref \<times> dxil_module) result" where
  "dxil_emit_load ptr align is_volatile m =
     (case (case type_at m (type_of m ptr) of
              TYPE_POINTER t \<Rightarrow> Some t | TYPE_ARRAY e _ \<Rightarrow> Some e | _ \<Rightarrow> None) of
        Some type \<Rightarrow>
          create_instr (INSTR_LOAD ptr type (util_logbase2 align + 1) is_volatile) type True m
      | None \<Rightarrow> Inl Assertion)"

definition dxil_emit_store ::
  "val_ref \<Rightarrow> val_ref \<Rightarrow> nat \<Rightarrow> bool \<Rightarrow> dxil_module \<Rightarrow> dxil_module result" where
  "dxil_emit_store v ptr align is_volatile m =
     bind_result (assert (legal_arith_type m (type_of m v))) (\<lambda>_.
     let (void, m) = dxil_module_get_void_type m in
     bind_result (create_instr (INSTR_STORE v ptr (util_logbase2 align + 1) is_volatile) void False m)
       (\<lambda>(_, m). Inr m))"

definition dxil_emit_cmpxchg ::
  "val_ref \<Rightarrow> val_ref \<Rightarrow> val_ref \<Rightarrow> bool \<Rightarrow> dxil_atomic_ordering \<Rightarrow> dxil_sync_scope \<Rightarrow> dxil_module
   \<Rightarrow> (val_ref \<times> dxil_module) result" where
  "dxil_emit_cmpxchg cmpval newval ptr is_volatile order syncscope m =
     (case type_at m (type_of m ptr) of
        TYPE_POINTER t \<Rightarrow>
          create_instr (INSTR_CMPXCHG cmpval newval ptr is_volatile order syncscope) t True m
      | _ \<Rightarrow> Inl Assertion)"

definition dxil_emit_atomicrmw ::
  "val_ref \<Rightarrow> val_ref \<Rightarrow> dxil_rmw_op \<Rightarrow> bool \<Rightarrow> dxil_atomic_ordering \<Rightarrow> dxil_sync_scope \<Rightarrow> dxil_module
   \<Rightarrow> (val_ref \<times> dxil_module) result" where
  "dxil_emit_atomicrmw v ptr op is_volatile order syncscope m =
     (case type_at m (type_of m ptr) of
        TYPE_POINTER t \<Rightarrow>
          create_instr (INSTR_ATOMICRMW v ptr op is_volatile order syncscope) t True m
      | _ \<Rightarrow> Inl Assertion)"

end
