(* ===== verification/Emit_Module.thy ===== *)
theory Emit_Module
  imports Emit_Tables Instructions
begin

text \<open>
  Writing the instructions of the functions and the module as a whole (\<open>dxil_module.c\<close>), and the
  numbering of the values before. Operands are written relative to the number of the instruction.
\<close>

section \<open>Instructions\<close>

definition instr_id :: "dxil_instr \<Rightarrow> int" where
  "instr_id i = value_id (instr_value i)"

text \<open>\<open>assert(instr->value.id > v->id)\<close> and \<open>instr->value.id - v->id\<close> as a record entry.\<close>

definition precedes :: "dxil_module \<Rightarrow> dxil_instr \<Rightarrow> val_ref \<Rightarrow> bool" where
  "precedes m i v \<longleftrightarrow> id_of m v < instr_id i"

definition relative :: "dxil_module \<Rightarrow> dxil_instr \<Rightarrow> val_ref \<Rightarrow> 64 word" where
  "relative m i v = u64 (instr_id i - id_of m v)"

definition emit_binop :: "dxil_module \<Rightarrow> dxil_instr \<Rightarrow> dxil_bin_opcode \<Rightarrow> val_ref \<Rightarrow> val_ref \<Rightarrow> nat \<Rightarrow> emitter" where
  "emit_binop m i opcode op0 op1 flags s =
     (if \<not> (precedes m i op0 \<and> precedes m i op1) then Inl Assertion
      else if flags \<noteq> 0 then
        emit_func_abbrev_record FUNC_ABBREV_BINOP_FLAGS
          [FUNC_CODE_INST_BINOP, relative m i op0, relative m i op1,
           of_nat (dxil_bin_opcode_value opcode), of_nat flags] s
      else
        emit_func_abbrev_record FUNC_ABBREV_BINOP
          [FUNC_CODE_INST_BINOP, relative m i op0, relative m i op1,
           of_nat (dxil_bin_opcode_value opcode)] s)"

definition emit_cmp :: "dxil_module \<Rightarrow> dxil_instr \<Rightarrow> dxil_cmp_pred \<Rightarrow> val_ref \<Rightarrow> val_ref \<Rightarrow> emitter" where
  "emit_cmp m i pred op0 op1 s =
     (if \<not> (precedes m i op0 \<and> precedes m i op1) then Inl Assertion
      else on_buf (emit_record_no_abbrev FUNC_CODE_INST_CMP2
             [relative m i op0, relative m i op1, of_nat (dxil_cmp_pred_value pred)]) s)"

definition emit_select :: "dxil_module \<Rightarrow> dxil_instr \<Rightarrow> val_ref \<Rightarrow> val_ref \<Rightarrow> val_ref \<Rightarrow> emitter" where
  "emit_select m i op0 op1 op2 s =
     (if \<not> (precedes m i op0 \<and> precedes m i op1 \<and> precedes m i op2) then Inl Assertion
      else on_buf (emit_record_no_abbrev FUNC_CODE_INST_VSELECT
             [relative m i op1, relative m i op2, relative m i op0]) s)"

definition emit_cast :: "dxil_module \<Rightarrow> dxil_instr \<Rightarrow> dxil_cast_opcode \<Rightarrow> ty \<Rightarrow> val_ref \<Rightarrow> emitter" where
  "emit_cast m i opcode type v s =
     (if \<not> precedes m i v then Inl Assertion
      else emit_func_abbrev_record FUNC_ABBREV_CAST
             [FUNC_CODE_INST_CAST, relative m i v, type_id type,
              of_nat (dxil_cast_opcode_value opcode)] s)"

text \<open>The LLVM number of a block: it must exist and have been assigned.\<close>

definition block_id :: "dxil_func_def \<Rightarrow> nat \<Rightarrow> 64 word result" where
  "block_id func b =
     (if b < length (basic_block_ids func) \<and> 0 \<le> basic_block_ids func ! b
      then Inr (u64 (basic_block_ids func ! b)) else Inl Assertion)"

definition emit_branch ::
  "dxil_module \<Rightarrow> dxil_func_def \<Rightarrow> dxil_instr \<Rightarrow> val_ref option \<Rightarrow> nat \<Rightarrow> nat \<Rightarrow> emitter" where
  "emit_branch m func i cond succ0 succ1 s =
     bind_result (block_id func succ0) (\<lambda>b0.
       case cond of
         None \<Rightarrow> on_buf (emit_record_no_abbrev FUNC_CODE_INST_BR [b0]) s
       | Some c \<Rightarrow>
           if \<not> precedes m i c then Inl Assertion
           else bind_result (block_id func succ1) (\<lambda>b1.
             on_buf (emit_record_no_abbrev FUNC_CODE_INST_BR [b0, b1, relative m i c]) s))"

text \<open>
  The entries from incoming value \<open>k\<close> on. The array \<open>data[128]\<close> has no check: the entries of value
  63 end beyond it.
\<close>

fun phi_entries ::
  "dxil_module \<Rightarrow> dxil_func_def \<Rightarrow> dxil_instr \<Rightarrow> nat \<Rightarrow> (val_ref \<times> nat) list \<Rightarrow> 64 word list result" where
  "phi_entries m func i k [] = Inr []"
| "phi_entries m func i k ((v, block) # rest) =
     bind_result (block_id func block) (\<lambda>b.
       if 128 \<le> 1 + k * 2 + 1 then Inl Undefined
       else bind_result (phi_entries m func i (Suc k) rest) (\<lambda>es.
         Inr (encode_signed (relative m i v) # b # es)))"

definition emit_phi ::
  "dxil_module \<Rightarrow> dxil_func_def \<Rightarrow> dxil_instr \<Rightarrow> ty \<Rightarrow> (val_ref \<times> nat) list \<Rightarrow> emitter" where
  "emit_phi m func i type incoming s =
     (if incoming = [] then Inl Assertion
      else bind_result (phi_entries m func i 0 incoming) (\<lambda>es.
        on_buf (emit_record_no_abbrev FUNC_CODE_INST_PHI (type_id type # es)) s))"

text \<open>The second assertion compares the number of the instruction with the number of a type.\<close>

definition emit_extractval :: "dxil_module \<Rightarrow> dxil_instr \<Rightarrow> val_ref \<Rightarrow> ty \<Rightarrow> nat \<Rightarrow> emitter" where
  "emit_extractval m i src type idx s =
     (if \<not> precedes m i src then Inl Assertion
      else if \<not> (of_nat type :: 32 word) < of_int (instr_id i) then Inl Assertion
      else on_buf (emit_record_no_abbrev FUNC_CODE_INST_EXTRACTVAL [relative m i src, of_nat idx]) s)"

definition emit_call :: "dxil_module \<Rightarrow> dxil_instr \<Rightarrow> nat \<Rightarrow> val_ref list \<Rightarrow> emitter" where
  "emit_call m i func args s =
     (if \<not> (0 \<le> id_of m (FUNC_REF func) \<and> 0 \<le> instr_id i) then Inl Assertion
      else if \<not> id_of m (FUNC_REF func) \<le> instr_id i then Inl Assertion
      else if \<not> length args < 256 - 4 then Inl Assertion
      else if \<exists>a \<in> set args. id_of m a < 0 then Inl Assertion
      else on_buf (emit_record_no_abbrev FUNC_CODE_INST_CALL
             ([0, push_bit 15 1,
               (if func < length (func_list m) then type_id (func_type (func_list m ! func)) else 0),
               relative m i (FUNC_REF func)] @ map (relative m i) args)) s)"

definition emit_ret :: "dxil_module \<Rightarrow> val_ref option \<Rightarrow> emitter" where
  "emit_ret m v s =
     (case v of
        Some v \<Rightarrow>
          if 0 \<le> id_of m v
          then emit_func_abbrev_record FUNC_ABBREV_RET_VAL [FUNC_CODE_INST_RET, u64 (id_of m v)] s
          else Inl Assertion
      | None \<Rightarrow> emit_func_abbrev_record FUNC_ABBREV_RET_VOID [FUNC_CODE_INST_RET] s)"

definition emit_alloca :: "dxil_module \<Rightarrow> ty \<Rightarrow> ty \<Rightarrow> val_ref \<Rightarrow> nat \<Rightarrow> emitter" where
  "emit_alloca m alloc_type size_type sz align s =
     (if id_of m sz < 0 then Inl Assertion
      else on_buf (emit_record_no_abbrev FUNC_CODE_INST_ALLOCA
             [type_id alloc_type, type_id size_type, u64 (id_of m sz), of_nat align]) s)"

definition emit_gep :: "dxil_module \<Rightarrow> dxil_instr \<Rightarrow> bool \<Rightarrow> ty \<Rightarrow> val_ref list \<Rightarrow> emitter" where
  "emit_gep m i inbounds source_elem_type operands s =
     (if \<not> length operands < 256 - 3 then Inl Assertion
      else if \<exists>v \<in> set operands. \<not> precedes m i v then Inl Assertion
      else emit_func_abbrev_record FUNC_ABBREV_GEP
             ([FUNC_CODE_INST_GEP, of_bool inbounds, type_id source_elem_type] @
              map (relative m i) operands) s)"

definition emit_load :: "dxil_module \<Rightarrow> dxil_instr \<Rightarrow> val_ref \<Rightarrow> ty \<Rightarrow> nat \<Rightarrow> bool \<Rightarrow> emitter" where
  "emit_load m i ptr type align is_volatile s =
     (if \<not> precedes m i ptr then Inl Assertion
      else on_buf (emit_record_no_abbrev (ucast FUNC_CODE_INST_LOAD)
             [relative m i ptr, type_id type, of_nat align, of_bool is_volatile]) s)"

definition emit_store :: "dxil_module \<Rightarrow> dxil_instr \<Rightarrow> val_ref \<Rightarrow> val_ref \<Rightarrow> nat \<Rightarrow> bool \<Rightarrow> emitter" where
  "emit_store m i v ptr align is_volatile s =
     (if \<not> (precedes m i v \<and> precedes m i ptr) then Inl Assertion
      else on_buf (emit_record_no_abbrev FUNC_CODE_INST_STORE
             [relative m i ptr, relative m i v, of_nat align, of_bool is_volatile]) s)"

definition emit_cmpxchg ::
  "dxil_module \<Rightarrow> dxil_instr \<Rightarrow> val_ref \<Rightarrow> val_ref \<Rightarrow> val_ref \<Rightarrow> bool \<Rightarrow> dxil_atomic_ordering
   \<Rightarrow> dxil_sync_scope \<Rightarrow> emitter" where
  "emit_cmpxchg m i cmpval newval ptr is_volatile order syncscope s =
     (if \<not> (precedes m i cmpval \<and> precedes m i newval \<and> precedes m i ptr) then Inl Assertion
      else on_buf (emit_record_no_abbrev FUNC_CODE_INST_CMPXCHG_OLD
             [relative m i ptr, relative m i cmpval, relative m i newval, of_bool is_volatile,
              of_nat (dxil_atomic_ordering_value order), of_nat (dxil_sync_scope_value syncscope)]) s)"

definition emit_atomicrmw ::
  "dxil_module \<Rightarrow> dxil_instr \<Rightarrow> val_ref \<Rightarrow> val_ref \<Rightarrow> dxil_rmw_op \<Rightarrow> bool \<Rightarrow> dxil_atomic_ordering
   \<Rightarrow> dxil_sync_scope \<Rightarrow> emitter" where
  "emit_atomicrmw m i v ptr op is_volatile order syncscope s =
     (if \<not> (precedes m i v \<and> precedes m i ptr) then Inl Assertion
      else on_buf (emit_record_no_abbrev FUNC_CODE_INST_ATOMICRMW
             [relative m i ptr, relative m i v, of_nat (dxil_rmw_op_value op), of_bool is_volatile,
              of_nat (dxil_atomic_ordering_value order), of_nat (dxil_sync_scope_value syncscope)]) s)"

definition emit_instr :: "dxil_module \<Rightarrow> dxil_func_def \<Rightarrow> dxil_instr \<Rightarrow> emitter" where
  "emit_instr m func i =
     (case instr_data i of
        INSTR_BINOP opcode op0 op1 flags \<Rightarrow> emit_binop m i opcode op0 op1 flags
      | INSTR_CMP pred op0 op1 \<Rightarrow> emit_cmp m i pred op0 op1
      | INSTR_SELECT op0 op1 op2 \<Rightarrow> emit_select m i op0 op1 op2
      | INSTR_CAST opcode type v \<Rightarrow> emit_cast m i opcode type v
      | INSTR_BR cond succ0 succ1 \<Rightarrow> emit_branch m func i cond succ0 succ1
      | INSTR_PHI type incoming \<Rightarrow> emit_phi m func i type incoming
      | INSTR_CALL f args \<Rightarrow> emit_call m i f args
      | INSTR_RET v \<Rightarrow> emit_ret m v
      | INSTR_EXTRACTVAL src type idx \<Rightarrow> emit_extractval m i src type idx
      | INSTR_ALLOCA alloc_type size_type sz align \<Rightarrow> emit_alloca m alloc_type size_type sz align
      | INSTR_GEP inbounds source_elem_type operands \<Rightarrow> emit_gep m i inbounds source_elem_type operands
      | INSTR_LOAD ptr type align is_volatile \<Rightarrow> emit_load m i ptr type align is_volatile
      | INSTR_STORE v ptr align is_volatile \<Rightarrow> emit_store m i v ptr align is_volatile
      | INSTR_ATOMICRMW v ptr op is_volatile order syncscope \<Rightarrow>
          emit_atomicrmw m i v ptr op is_volatile order syncscope
      | INSTR_CMPXCHG cmpval newval ptr is_volatile order syncscope \<Rightarrow>
          emit_cmpxchg m i cmpval newval ptr is_volatile order syncscope)"

definition emit_function :: "dxil_module \<Rightarrow> dxil_func_def \<Rightarrow> emitter" where
  "emit_function m func =
     seq ([enter_subblock (block_number DXIL_FUNCTION_BLOCK) 4,
           emit_record_int FUNC_CODE_DECLAREBLOCKS (of_nat (curr_block func))] @
          map (emit_instr m func) (instr_list func) @
          [exit_block])"

section \<open>Numbering the values\<close>

definition set_id :: "int \<Rightarrow> dxil_value \<Rightarrow> dxil_value" where
  "set_id n v = v\<lparr>value_id := n\<rparr>"

fun number_instrs :: "int \<Rightarrow> dxil_instr list \<Rightarrow> dxil_instr list" where
  "number_instrs n [] = []"
| "number_instrs n (i # is) =
     i\<lparr>instr_value := set_id n (instr_value i)\<rparr> # number_instrs (if has_value i then n + 1 else n) is"

definition assign_values :: "dxil_module \<Rightarrow> dxil_module" where
  "assign_values m =
     (let gvars = map (\<lambda>(n, g). g\<lparr>gvar_value := set_id (int n) (gvar_value g)\<rparr>)
            (enumerate 0 (gvar_list m));
          next = length gvars;
          funcs = map (\<lambda>(n, f). f\<lparr>func_value := set_id (int n) (func_value f)\<rparr>)
            (enumerate next (func_list m));
          next = next + length funcs;
          consts = map (\<lambda>(n, c). c\<lparr>const_value := set_id (int n) (const_value c)\<rparr>)
            (enumerate next (const_list m));
          value_id_at_functions_start = next + length consts
      in m\<lparr>gvar_list := gvars, func_list := funcs, const_list := consts,
           func_def_list := map (\<lambda>d. d\<lparr>instr_list :=
               number_instrs (int value_id_at_functions_start) (instr_list d)\<rparr>) (func_def_list m)\<rparr>)"

section \<open>The module\<close>

definition emit_magic :: emitter where
  "emit_magic =
     on_buf (seq [\<lambda>b. dxil_buffer_emit_bits b 0x42 8,
                  \<lambda>b. dxil_buffer_emit_bits b 0x43 8,
                  \<lambda>b. dxil_buffer_emit_bits b 0xC0 8,
                  \<lambda>b. dxil_buffer_emit_bits b 0xDE 8])"

definition emit_module_block :: "dxil_module \<Rightarrow> emitter" where
  "emit_module_block m =
     seq ([enter_subblock (block_number DXIL_MODULE) 3,
           emit_record_int 1 1,
           emit_blockinfo,
           emit_attrib_group_table m,
           emit_attribute_table m,
           emit_type_table m,
           emit_module_info m,
           emit_module_consts m,
           emit_metadata m,
           emit_value_symbol_table m] @
          map (emit_function m) (func_def_list m) @
          [exit_block])"

definition dxil_emit_module :: "dxil_module \<Rightarrow> dxil_module result" where
  "dxil_emit_module m =
     (let m = assign_values m in
      bind_result (seq [emit_magic, emit_module_block m] (m_writer m))
        (\<lambda>w. Inr (m\<lparr>m_writer := w\<rparr>)))"

end
