(* ===== verification/Values.thy ===== *)
theory Values
  imports Emit_Module
begin

text \<open>
  How values are numbered and how the records of a function refer to them. A reader of bitcode numbers
  the values itself, in the order in which they come; operands are distances, so they only mean
  something when both sides count alike.
\<close>

unbundle bit_operations_syntax

section \<open>Signed numbers\<close>

text \<open>LLVM's reading of a sign-rotated number: the sign is the lowest bit, 1 is the smallest integer.\<close>

definition decode_signed :: "64 word \<Rightarrow> 64 word" where
  "decode_signed v =
     (if \<not> bit v 0 then drop_bit 1 v else if v \<noteq> 1 then - drop_bit 1 v else push_bit 63 1)"

lemma drop_push_bit: "\<not> bit (x :: 64 word) 63 \<Longrightarrow> drop_bit 1 (push_bit 1 x) = x"
proof (rule bit_eqI)
  fix n assume x: "\<not> bit x 63" and "possible_bit TYPE(64 word) n"
  then have "n < 64" by simp
  then have "n = 63 \<or> Suc n < 64" by linarith
  then show "bit (drop_bit 1 (push_bit 1 x)) n \<longleftrightarrow> bit x n"
  proof (elim disjE)
    assume n: "Suc n < 64"
    have "bit (drop_bit 1 (push_bit 1 x)) n \<longleftrightarrow> bit (push_bit 1 x) (Suc n)"
      by (simp only: bit_drop_bit_eq comp_def plus_1_eq_Suc)
    then show ?thesis using n by (simp only: bit_push_bit_iff) simp
  next
    assume n: "n = 63"
    have "bit (drop_bit 1 (push_bit 1 x)) n \<longleftrightarrow> bit (push_bit 1 x) (Suc n)"
      by (simp only: bit_drop_bit_eq comp_def plus_1_eq_Suc)
    then show ?thesis using n x by (simp only: bit_push_bit_iff) simp
  qed
qed

lemma sint_nonneg_iff: "0 \<le> sint (x :: 64 word) \<longleftrightarrow> \<not> bit x 63"
  using bit_last_iff [of x] by (simp add: not_less [symmetric])

lemma drop_push_bit_or: "\<not> bit (x :: 64 word) 63 \<Longrightarrow> drop_bit 1 (push_bit 1 x OR 1) = x"
  using drop_push_bit [of x] by (simp add: drop_bit_or)

lemma minus_sign: "bit (x :: 64 word) 63 \<Longrightarrow> x \<noteq> push_bit 63 1 \<Longrightarrow> \<not> bit (- x) 63"
proof -
  assume b: "bit x 63" and n: "x \<noteq> push_bit 63 1"
  have s: "sint x < 0" using b sint_nonneg_iff [of x] by simp
  have "sint x \<noteq> - (2 ^ 63)"
  proof
    assume "sint x = - (2 ^ 63)"
    then have "(word_of_int (sint x) :: 64 word) = word_of_int (- (2 ^ 63))" by (rule arg_cong)
    then show False using n by simp
  qed
  moreover have "- (2 ^ 63) \<le> sint x" using sint_greater_eq [of x] by simp
  ultimately have r: "0 \<le> - sint x" "- sint x < 2 ^ 63" using s by linarith+
  have "sint (- x) = signed_take_bit 63 (- sint x)" by (simp add: sint_word_ariths)
  also have "\<dots> = - sint x" using r by (simp add: signed_take_bit_int_eq_self_iff)
  finally show ?thesis using r by (simp flip: sint_nonneg_iff)
qed

lemma decode_encode_signed: "decode_signed (encode_signed x) = x"
proof (cases "bit x 63")
  case False
  then have "encode_signed x = push_bit 1 x" using sint_nonneg_iff [of x] by (simp add: encode_signed_def)
  moreover have "\<not> bit (push_bit 1 x) 0" by (simp only: bit_push_bit_iff) simp
  ultimately show ?thesis unfolding decode_signed_def by (simp only: drop_push_bit [OF False] if_True simp_thms)
next
  case True
  then have e: "encode_signed x = push_bit 1 (- x) OR 1"
    using sint_nonneg_iff [of x] by (simp add: encode_signed_def)
  have b: "bit (push_bit 1 (- x) OR 1) 0" by (simp only: bit_or_iff) simp
  show ?thesis
  proof (cases "x = push_bit 63 1")
    case True
    then have "encode_signed x = 1" unfolding e by simp
    then show ?thesis using True by (simp add: decode_signed_def)
  next
    case False
    note d = drop_push_bit_or [OF minus_sign [OF True False]]
    have "push_bit 1 (- x) OR 1 \<noteq> 1"
    proof
      assume "push_bit 1 (- x) OR 1 = 1"
      then have "- x = 0" using d by simp
      then show False using True by simp
    qed
    then show ?thesis using b d unfolding decode_signed_def e by (simp only: if_False simp_thms) simp
  qed
qed


section \<open>Numbering\<close>

text \<open>The values of a function in the order in which a reader counts them.\<close>

definition counted :: "dxil_instr list \<Rightarrow> dxil_instr list" where
  "counted = filter has_value"

lemma number_instrs_ids:
  "map instr_id (counted (number_instrs n is)) = map (\<lambda>k. n + int k) [0..<length (counted is)]"
proof (induction "is" arbitrary: n)
  case (Cons i "is")
  have "map (\<lambda>k. n + int k) [0..<Suc m] = n # map (\<lambda>k. n + 1 + int k) [0..<m]" for m
    unfolding upt_conv_Cons [OF zero_less_Suc] map_Suc_upt [symmetric] by simp
  then show ?case using Cons by (simp add: counted_def instr_id_def set_id_def)
qed (simp add: counted_def)

lemma number_instrs_same:
  "map instr_data (number_instrs n is) = map instr_data is"
  "map has_value (number_instrs n is) = map has_value is"
  "map (value_type \<circ> instr_value) (number_instrs n is) = map (value_type \<circ> instr_value) is"
  by (induction "is" arbitrary: n) (simp_all add: set_id_def)

lemma map_enumerate_ids:
  assumes "\<And>n x. f (g n x) = h n"
  shows "map (f \<circ> (\<lambda>(n, x). g n x)) (enumerate k xs) = map h [k..<k + length xs]"
proof (induction xs arbitrary: k)
  case (Cons x xs)
  have "[k..<k + length (x # xs)] = k # [Suc k..<Suc k + length xs]"
    using upt_conv_Cons [of k "k + length (x # xs)"] by simp
  then show ?case using Cons [of "Suc k"] assms by (simp del: upt_Suc)
qed simp


end
