(* ===== verification/Bitstream_Reader.thy ===== *)
theory Bitstream_Reader
  imports Abbrevs
begin

text \<open>
  A reader of LLVM bitstreams, written from the format and not from the code, and the proof that it
  reads back what the writer's items encode. It keeps what a reader of the format keeps: the
  abbreviation width and the abbreviations of the block it is in, and those that a \<open>BLOCKINFO\<close>
  block has declared for other blocks.
\<close>

section \<open>Reading fields\<close>

definition rd_fixed :: "nat \<Rightarrow> bool list \<Rightarrow> (nat \<times> bool list) option" where
  "rd_fixed w bs = (if length bs < w then None else Some (bits_nat (take w bs), drop w bs))"

definition rd_vbr :: "nat \<Rightarrow> bool list \<Rightarrow> (nat \<times> bool list) option" where
  "rd_vbr w bs = (if w < 2 then None else vbr_dec (w - 1) bs)"

fun rd_list :: "nat \<Rightarrow> (bool list \<Rightarrow> ('a \<times> bool list) option) \<Rightarrow> bool list \<Rightarrow> ('a list \<times> bool list) option" where
  "rd_list 0 rd bs = Some ([], bs)"
| "rd_list (Suc n) rd bs =
     (case rd bs of None \<Rightarrow> None
      | Some (x, bs) \<Rightarrow>
          (case rd_list n rd bs of None \<Rightarrow> None | Some (xs, bs) \<Rightarrow> Some (x # xs, bs)))"

fun rd_scalar :: "operand \<Rightarrow> bool list \<Rightarrow> (64 word \<times> bool list) option" where
  "rd_scalar (LITERAL v) bs = Some (v, bs)"
| "rd_scalar (FIXED w) bs = map_option (\<lambda>(n, bs). (of_nat n, bs)) (rd_fixed w bs)"
| "rd_scalar (VBR w) bs =
     (if w = 0 then Some (0, bs) else map_option (\<lambda>(n, bs). (of_nat n, bs)) (rd_vbr w bs))"
| "rd_scalar CHAR6 bs = map_option (\<lambda>(n, bs). (of_char (char6_alphabet ! n), bs)) (rd_fixed 6 bs)"
| "rd_scalar _ bs = None"

fun rd_operands :: "operand list \<Rightarrow> bool list \<Rightarrow> (64 word list \<times> bool list) option" where
  "rd_operands [] bs = Some ([], bs)"
| "rd_operands (ARRAY # ops) bs =
     (case ops of
        [e] \<Rightarrow> (case rd_vbr 6 bs of None \<Rightarrow> None | Some (n, bs) \<Rightarrow> rd_list n (rd_scalar e) bs)
      | _ \<Rightarrow> None)"
| "rd_operands (op # ops) bs =
     (case rd_scalar op bs of None \<Rightarrow> None
      | Some (d, bs) \<Rightarrow>
          (case rd_operands ops bs of None \<Rightarrow> None | Some (ds, bs) \<Rightarrow> Some (d # ds, bs)))"

definition rd_definition :: "bool list \<Rightarrow> (operand \<times> bool list) option" where
  "rd_definition bs =
     (case rd_fixed 1 bs of None \<Rightarrow> None
      | Some (l, bs) \<Rightarrow>
          if l = 1 then map_option (\<lambda>(n, bs). (LITERAL (of_nat n), bs)) (rd_vbr 8 bs)
          else case rd_fixed 3 bs of None \<Rightarrow> None
            | Some (c, bs) \<Rightarrow>
                if c = 1 then map_option (\<lambda>(n, bs). (FIXED n, bs)) (rd_vbr 5 bs)
                else if c = 2 then map_option (\<lambda>(n, bs). (VBR n, bs)) (rd_vbr 5 bs)
                else if c = 3 then Some (ARRAY, bs)
                else if c = 4 then Some (CHAR6, bs)
                else if c = 5 then Some (BLOB, bs)
                else None)"

definition rd_align :: "nat \<Rightarrow> bool list \<Rightarrow> bool list option" where
  "rd_align p bs = (let k = length (pad p) in if length bs < k then None else Some (drop k bs))"

section \<open>Reading items\<close>

text \<open>
  What a \<open>BLOCKINFO\<close> block declares: a record with code 1 selects a block, the definitions after it
  add to that block's abbreviations.
\<close>

fun declared :: "nat \<Rightarrow> item list \<Rightarrow> (nat \<Rightarrow> dxil_abbrev list) \<Rightarrow> nat \<Rightarrow> dxil_abbrev list" where
  "declared cur [] info = info"
| "declared cur (Record code ds # is) info =
     (if code = 1 \<and> ds \<noteq> [] then declared (unat (hd ds)) is info else declared cur is info)"
| "declared cur (Definition a # is) info = declared cur is (info(cur := info cur @ [a]))"
| "declared cur (_ # is) info = declared cur is info"

definition rd_record :: "bool list \<Rightarrow> (item \<times> bool list) option" where
  "rd_record bs =
     (case rd_vbr 6 bs of None \<Rightarrow> None
      | Some (code, bs) \<Rightarrow>
          (case rd_vbr 6 bs of None \<Rightarrow> None
           | Some (n, bs) \<Rightarrow>
               map_option (\<lambda>(ds, bs). (Record (of_nat code) (map of_nat ds), bs)) (rd_list n (rd_vbr 6) bs)))"

definition rd_define :: "bool list \<Rightarrow> (dxil_abbrev \<times> bool list) option" where
  "rd_define bs =
     (case rd_vbr 5 bs of None \<Rightarrow> None | Some (n, bs) \<Rightarrow> rd_list n rd_definition bs)"

text \<open>The header of a block after its abbreviation id: number, width, and the length in words.\<close>

definition rd_header :: "nat \<Rightarrow> bool list \<Rightarrow> ((nat \<times> nat \<times> nat) \<times> bool list) option" where
  "rd_header p bs =
     (let l = length bs in
      case rd_vbr 8 bs of None \<Rightarrow> None
      | Some (i, bs) \<Rightarrow>
          (case rd_vbr 4 bs of None \<Rightarrow> None
           | Some (w, bs) \<Rightarrow>
               (case rd_align (p + (l - length bs)) bs of None \<Rightarrow> None
                | Some bs \<Rightarrow>
                    map_option (\<lambda>(n, bs). ((i, w, n), bs)) (rd_fixed 32 bs))))"

text \<open>
  The items from position \<open>p\<close> to the end marker of the block; a nested block must be as long as
  its header says. The first argument bounds the number of items and the depth.
\<close>

fun rd_items ::
  "nat \<Rightarrow> nat \<Rightarrow> (nat \<Rightarrow> dxil_abbrev list) \<Rightarrow> dxil_abbrev list \<Rightarrow> nat \<Rightarrow> bool list
   \<Rightarrow> (item list \<times> bool list) option" where
  "rd_items 0 w info abvs p bs = None"
| "rd_items (Suc n) w info abvs p bs =
     (let cons = (\<lambda>i info abvs bs'.
            map_option (\<lambda>(is, bs). (i # is, bs))
              (rd_items n w info abvs (p + (length bs - length bs')) bs'))
      in case rd_fixed w bs of None \<Rightarrow> None
      | Some (i, bs1) \<Rightarrow>
          if i = 0 then map_option (\<lambda>bs. ([], bs)) (rd_align (p + w) bs1)
          else if i = 1 then
            (case rd_header (p + w) bs1 of None \<Rightarrow> None
             | Some ((k, w', len), bs2) \<Rightarrow>
                 (case rd_items n w' info (info k) 0 bs2 of None \<Rightarrow> None
                  | Some (is, bs3) \<Rightarrow>
                      if length bs2 - length bs3 = 32 * len
                      then cons (Block (of_nat k) w' is)
                             (if k = 0 then declared 0 is info else info) abvs bs3
                      else None))
          else if i = 2 then
            (case rd_define bs1 of None \<Rightarrow> None
             | Some (a, bs2) \<Rightarrow> cons (Definition a) info (abvs @ [a]) bs2)
          else if i = 3 then
            (case rd_record bs1 of None \<Rightarrow> None | Some (r, bs2) \<Rightarrow> cons r info abvs bs2)
          else if i - 4 < length abvs then
            (case rd_operands (abvs ! (i - 4)) bs1 of None \<Rightarrow> None
             | Some (ds, bs2) \<Rightarrow> cons (Abbreviated (of_nat i) (abvs ! (i - 4)) ds) info abvs bs2)
          else None)"

declare rd_items.simps(2) [simp del]

section \<open>Reading back fields\<close>

lemma rd_fixed_bits: "n < 2 ^ w \<Longrightarrow> rd_fixed w (nat_bits w n @ rest) = Some (n, rest)"
  by (simp add: rd_fixed_def bits_nat_nat_bits)

lemma rd_vbr_enc: "2 \<le> w \<Longrightarrow> rd_vbr w (vbr_enc (w - 1) n @ rest) = Some (n, rest)"
  by (simp add: rd_vbr_def vbr_dec_enc)

lemma rd_list_concat:
  assumes "\<And>x rest. x \<in> set xs \<Longrightarrow> rd (e x @ rest) = Some (f x, rest)"
  shows "rd_list (length xs) rd (concat (map e xs) @ rest) = Some (map f xs, rest)"
  using assms by (induction xs) simp_all

text \<open>The values an operand can carry without loss; a 6-bit character is one of the alphabet.\<close>

fun carries :: "operand \<Rightarrow> 64 word \<Rightarrow> bool" where
  "carries (LITERAL v) d \<longleftrightarrow> d = v"
| "carries (FIXED w) d \<longleftrightarrow> 0 < w"
| "carries (VBR w) d \<longleftrightarrow> 0 < w"
| "carries CHAR6 d \<longleftrightarrow> unat d < 256"
| "carries _ d \<longleftrightarrow> False"

lemma of_nat_unat_64: "of_nat (unat (d :: 64 word)) = d"
  by simp

lemma rd_scalar_bits:
  assumes "scalar_fits op d" and "carries op d"
  shows "rd_scalar op (scalar_bits op d @ rest) = Some (d, rest)"
proof (cases op)
  case CHAR6
  let ?c = "datum_char d"
  have c: "?c \<in> set char6_alphabet" "unat d < 256" using assms CHAR6 by simp_all
  have i: "index_of ?c char6_alphabet < 2 ^ 6"
    using index_of_less [OF c(1)] by (simp add: length_char6_alphabet)
  have "(of_char ?c :: 64 word) = of_nat (of_char ?c)" by (simp only: of_nat_of_char)
  also have "(of_char ?c :: nat) = unat d" using c(2) by (simp add: datum_char_def)
  finally have "(of_char ?c :: 64 word) = d" by simp
  then show ?thesis
    using rd_fixed_bits [OF i, of rest] nth_index_of [OF c(1)] CHAR6 by simp
qed (use assms in \<open>auto simp: rd_fixed_bits rd_vbr_enc [simplified]\<close>)

fun operands_carry :: "operand list \<Rightarrow> 64 word list \<Rightarrow> bool" where
  "operands_carry [] ds \<longleftrightarrow> True"
| "operands_carry (ARRAY # ops) ds \<longleftrightarrow>
     (case ops of [e] \<Rightarrow> length ds < 2 ^ 64 \<and> list_all (carries e) ds | _ \<Rightarrow> False)"
| "operands_carry (op # ops) ds \<longleftrightarrow> (case ds of [] \<Rightarrow> False | d # ds \<Rightarrow> carries op d \<and> operands_carry ops ds)"

lemma len_u64: "length ds < 2 ^ 64 \<Longrightarrow> len_u64 ds = length ds"
  by (simp add: len_u64_def unat_of_nat)

lemma rd_operands_bits:
  assumes "operands_fit a ds" and "operands_carry a ds"
  shows "rd_operands a (operands_bits a ds @ rest) = Some (ds, rest)"
  using assms
proof (induction a ds rule: operands_bits.induct)
  case (2 ops ds)
  then obtain e where e: "ops = [e]" by (auto split: list.splits)
  have "rd_list (length ds) (rd_scalar e) (concat (map (scalar_bits e) ds) @ rest)
      = Some (map (\<lambda>d. d) ds, rest)"
    by (rule rd_list_concat) (use 2 e rd_scalar_bits in \<open>auto simp: list_all_iff\<close>)
  then show ?case using 2 e rd_vbr_enc [of 6] by (simp add: len_u64)
qed (auto split: list.splits simp: rd_scalar_bits simp del: scalar_bits.simps rd_scalar.simps
      carries.simps scalar_fits.simps)

section \<open>Reading back items\<close>

definition definable :: "operand \<Rightarrow> bool" where
  "definable op \<longleftrightarrow> (case op of FIXED w \<Rightarrow> w < 2 ^ 64 | VBR w \<Rightarrow> w < 2 ^ 64 | _ \<Rightarrow> True)"

lemma rd_definition_bits: "definable op \<Longrightarrow> rd_definition (definition_bits op @ rest) = Some (op, rest)"
proof -
  assume d: "definable op"
  have f: "rd_fixed (Suc 0) (b # bs) = Some (of_bool b, bs)" for b bs
    by (simp add: rd_fixed_def bits_nat_def)
  have u: "w < 2 ^ 64 \<Longrightarrow> unat (of_nat w :: 64 word) = w" for w
    by (simp add: unat_of_nat)
  show ?thesis
    using d by (cases op)
      (simp_all add: rd_definition_def f rd_fixed_bits rd_vbr_enc [of 8, simplified]
        rd_vbr_enc [of 5, simplified] definable_def u)
qed

text \<open>
  What a reader that knows the abbreviations \<open>abvs\<close> here, and \<open>info\<close> for the blocks inside, can
  read: every abbreviated record uses the number under which its abbreviation is known, and its
  operands carry the data.
\<close>

fun readable :: "(nat \<Rightarrow> dxil_abbrev list) \<Rightarrow> dxil_abbrev list \<Rightarrow> item list \<Rightarrow> bool" where
  "readable info abvs [] \<longleftrightarrow> True"
| "readable info abvs (Record code ds # is) \<longleftrightarrow> readable info abvs is"
| "readable info abvs (Abbreviated i a ds # is) \<longleftrightarrow>
     4 \<le> unat i \<and> unat i - 4 < length abvs \<and> abvs ! (unat i - 4) = a \<and> operands_carry a ds \<and>
     readable info abvs is"
| "readable info abvs (Definition a # is) \<longleftrightarrow>
     length a < 2 ^ 64 \<and> list_all definable a \<and> readable info (abvs @ [a]) is"
| "readable info abvs (Block k w is' # is) \<longleftrightarrow>
     readable info (info (unat k)) is' \<and>
     readable (if k = 0 then declared 0 is' info else info) abvs is"

fun items_size :: "item list \<Rightarrow> nat" where
  "items_size [] = 1"
| "items_size (Block k w is' # is) = 1 + items_size is' + items_size is"
| "items_size (Record code ds # is) = 1 + items_size is"
| "items_size (Abbreviated i a ds # is) = 1 + items_size is"
| "items_size (Definition a # is) = 1 + items_size is"

abbreviation cons_item :: "item \<Rightarrow> (item list \<times> bool list) option \<Rightarrow> (item list \<times> bool list) option" where
  "cons_item i \<equiv> map_option (\<lambda>(is, bs). (i # is, bs))"

lemma width_ok_ids: "width_ok w \<Longrightarrow> (3 :: nat) < 2 ^ w"
proof -
  assume "width_ok w"
  then have "(2 :: nat) ^ 2 \<le> 2 ^ w" by (intro power_increasing) (auto simp: width_ok_def)
  then show ?thesis by simp
qed

lemma rd_items_record:
  assumes "item_fits w (Record code ds)"
  shows "rd_items (Suc n) w info abvs p (enc_item w p (Record code ds) @ rest)
    = cons_item (Record code ds) (rd_items n w info abvs (p + length (enc_item w p (Record code ds))) rest)"
proof -
  have w: "(3 :: nat) < 2 ^ w" using assms width_ok_ids by simp
  have "rd_list (length ds) (rd_vbr 6) (concat (map (\<lambda>d. vbr_enc 5 (unat d)) ds) @ rest)
      = Some (map unat ds, rest)"
    by (rule rd_list_concat) (use rd_vbr_enc [of 6] in simp)
  then have "rd_record (vbr_enc 5 (unat code) @ vbr_enc 5 (len_u64 ds) @
      concat (map (\<lambda>d. vbr_enc 5 (unat d)) ds) @ rest) = Some (Record code ds, rest)"
    using assms rd_vbr_enc [of 6] by (simp add: rd_record_def len_u64 comp_def)
  then show ?thesis using w by (simp add: rd_items.simps(2) rd_fixed_bits)
qed

lemma rd_items_definition:
  assumes "item_fits w (Definition a)" and "length a < 2 ^ 64" and "list_all definable a"
  shows "rd_items (Suc n) w info abvs p (enc_item w p (Definition a) @ rest)
    = cons_item (Definition a)
        (rd_items n w info (abvs @ [a]) (p + length (enc_item w p (Definition a))) rest)"
proof -
  have w: "(2 :: nat) < 2 ^ w" using assms width_ok_ids [of w] by simp
  have "rd_list (length a) rd_definition (concat (map definition_bits a) @ rest) = Some (map (\<lambda>x. x) a, rest)"
    by (rule rd_list_concat) (use assms(3) rd_definition_bits in \<open>auto simp: list_all_iff\<close>)
  then have "rd_define (vbr_enc 4 (len_u64 a) @ concat (map definition_bits a) @ rest) = Some (a, rest)"
    using assms(2) rd_vbr_enc [of 5] by (simp add: rd_define_def len_u64)
  then show ?thesis using w by (simp add: rd_items.simps(2) rd_fixed_bits)
qed

lemma rd_items_abbreviated:
  assumes "item_fits w (Abbreviated i a ds)" and "4 \<le> unat i" and "unat i - 4 < length abvs"
    and "abvs ! (unat i - 4) = a" and "operands_carry a ds"
  shows "rd_items (Suc n) w info abvs p (enc_item w p (Abbreviated i a ds) @ rest)
    = cons_item (Abbreviated i a ds)
        (rd_items n w info abvs (p + length (enc_item w p (Abbreviated i a ds))) rest)"
  using assms rd_operands_bits [of a ds rest] by (auto simp: rd_items.simps(2) rd_fixed_bits)

lemma rd_align_pad: "rd_align p (pad p @ rest) = Some rest"
  by (simp add: rd_align_def Let_def)

lemma rd_header_bits:
  assumes "w' \<le> 32" and "n < 2 ^ 32"
  shows "rd_header (p + w) (drop w (block_header w p k w') @ nat_bits 32 n @ rest) = Some ((unat k, w', n), rest)"
proof -
  have w': "unat (of_nat w' :: 64 word) = w'" using assms(1) by (simp add: unat_of_nat)
  have "drop w (block_header w p k w') = vbr_enc 7 (unat k) @ vbr_enc 3 w' @
      pad (p + w + length (vbr_enc 7 (unat k)) + length (vbr_enc 3 w'))"
    by (simp add: block_header_def Let_def w' add.assoc)
  then show ?thesis
    using assms(2) rd_vbr_enc [of 8] rd_vbr_enc [of 4]
    by (simp add: rd_header_def rd_fixed_bits rd_align_pad add.assoc)
qed

theorem rd_items_enc:
  assumes "readable info abvs is" and "list_all (item_fits w) is" and "0 < w"
    and "items_size is \<le> n" and "length (enc_items w p is) < 2 ^ 37"
  shows "rd_items n w info abvs p
      (enc_items w p is @ block_footer w (p + length (enc_items w p is)) @ rest) = Some (is, rest)"
  using assms
proof (induction info abvs "is" arbitrary: w n p rest rule: readable.induct)
  case (1 info abvs)
  then obtain m where "n = Suc m" by (cases n) auto
  then show ?case using 1 by (simp add: rd_items.simps(2) block_footer_def rd_fixed_bits rd_align_pad)
next
  case (2 info abvs code ds "is")
  then obtain m where m: "n = Suc m" by (cases n) auto
  have "item_fits w (Record code ds)" using 2 by simp
  from rd_items_record [OF this, of m info abvs p] 2 m show ?case
    by (simp add: Let_def del: enc_item.simps item_fits.simps flip: add.assoc)
next
  case (3 info abvs i a ds "is")
  then obtain m where m: "n = Suc m" by (cases n) auto
  have "item_fits w (Abbreviated i a ds)" using 3 by simp
  from rd_items_abbreviated [OF this, of abvs m info p] 3 m show ?case
    by (simp add: Let_def del: enc_item.simps item_fits.simps flip: add.assoc)
next
  case (4 info abvs a "is")
  then obtain m where m: "n = Suc m" by (cases n) auto
  have "item_fits w (Definition a)" using 4 by simp
  from rd_items_definition [OF this, of m info abvs p] 4 m show ?case
    by (simp add: Let_def del: enc_item.simps item_fits.simps flip: add.assoc)
next
  case (5 info abvs k w' is' "is")
  then obtain m where m: "n = Suc m" by (cases n) auto
  define body where "body = enc_items w' 0 is'"
  define foot where "foot = block_footer w' (length body)"
  define more where "more = enc_items w (p + length (enc_item w p (Block k w' is'))) is @
      block_footer w (p + length (enc_items w p (Block k w' is' # is))) @ rest"
  have f: "0 < w'" "w' \<le> 32" "list_all (item_fits w') is'" using 5 by simp_all
  have bits: "enc_item w p (Block k w' is')
      = block_header w p k w' @ nat_bits 32 (length (body @ foot) div 32) @ body @ foot"
    by (simp add: block_bits_def body_def foot_def Let_def)
  have words: "32 * (length (body @ foot) div 32) = length (body @ foot)"
  proof -
    have "(length body + w' + length (pad (length body + w'))) mod 32 = 0" by (rule length_pad)
    then have "length (body @ foot) mod 32 = 0" by (simp add: foot_def block_footer_def add.assoc)
    then show ?thesis by (metis add.right_neutral mult_div_mod_eq)
  qed
  have small: "length body + length foot < 2 ^ 37"
    using 5(7) bits by (simp add: Let_def del: enc_item.simps)
  then have count: "length (body @ foot) div 32 < 2 ^ 32" by simp
  have inner: "rd_items m w' info (info (unat k)) 0 (body @ foot @ more) = Some (is', more)"
    using "5.IH"(1) [of w' m 0 more] 5 f m small by (simp add: body_def foot_def)
  have outer: "rd_items m w (if k = 0 then declared 0 is' info else info) abvs
      (p + length (enc_item w p (Block k w' is'))) more = Some (is, rest)"
    using "5.IH"(2) [of w m "p + length (enc_item w p (Block k w' is'))" rest] 5 m
    by (simp add: more_def Let_def del: enc_item.simps flip: add.assoc)
  have hd: "block_header w p k w' = nat_bits w 1 @ drop w (block_header w p k w')"
    by (simp add: block_header_def Let_def)
  have hl: "w \<le> length (block_header w p k w')" by (simp add: block_header_def Let_def)
  have one: "(1 :: nat) < 2 ^ w" using \<open>0 < w\<close> by (intro one_less_power) auto
  have k0: "unat k = 0 \<longleftrightarrow> k = 0" by (simp add: unat_eq_0)
  have all: "enc_items w p (Block k w' is' # is) @
      block_footer w (p + length (enc_items w p (Block k w' is' # is))) @ rest
      = nat_bits w 1 @ drop w (block_header w p k w') @ nat_bits 32 (length (body @ foot) div 32) @
        body @ foot @ more"
    using bits hd by (simp add: more_def Let_def del: enc_item.simps)
  have "rd_items (Suc m) w info abvs p (nat_bits w 1 @ drop w (block_header w p k w') @
      nat_bits 32 (length (body @ foot) div 32) @ body @ foot @ more) = Some (Block k w' is' # is, rest)"
    using outer inner words one k0 hl rd_header_bits [OF f(2) count, of p w k "body @ foot @ more"]
    by (simp add: rd_items.simps(2) rd_fixed_bits bits del: enc_item.simps)
  then show ?case unfolding all m .
qed

section \<open>Bitcode files\<close>

text \<open>The bytes \<open>B C 0xC0 0xDE\<close>, then one block under abbreviation width 2 that ends the stream.\<close>

definition bitcode_magic :: nat where
  "bitcode_magic = 0xDEC04342"

definition rd_bitcode :: "bool list \<Rightarrow> item option" where
  "rd_bitcode bs =
     (case rd_fixed 32 bs of None \<Rightarrow> None
      | Some (magic, bs1) \<Rightarrow>
          if magic \<noteq> bitcode_magic then None
          else case rd_fixed 2 bs1 of None \<Rightarrow> None
          | Some (i, bs2) \<Rightarrow>
              if i \<noteq> 1 then None
              else case rd_header (32 + 2) bs2 of None \<Rightarrow> None
              | Some ((k, w, len), bs3) \<Rightarrow>
                  (case rd_items (length bs3) w (\<lambda>_. []) [] 0 bs3 of None \<Rightarrow> None
                   | Some (is, bs4) \<Rightarrow>
                       if bs4 = [] \<and> length bs3 = 32 * len then Some (Block (of_nat k) w is) else None))"

lemma items_size_length:
  "list_all (item_fits w) is \<Longrightarrow> 0 < w \<Longrightarrow> items_size is \<le> Suc (length (enc_items w p is))"
proof (induction "is" arbitrary: w p rule: items_size.induct)
  case (2 k w' is' "is")
  have "items_size is' \<le> Suc (length (enc_items w' 0 is'))" using 2 by simp
  moreover have "items_size is \<le> Suc (length (enc_items w (p + length (enc_item w p (Block k w' is'))) is))"
    using 2 by (simp del: enc_item.simps)
  moreover have "length (enc_items w' 0 is') + 32 \<le> length (enc_item w p (Block k w' is'))"
    by (simp add: block_bits_def Let_def)
  ultimately show ?case by (simp add: Let_def del: enc_item.simps)
next
  case (3 c ds "is")
  then have "items_size is \<le> Suc (length (enc_items w (p + length (enc_item w p (Record c ds))) is))" by simp
  then show ?case using \<open>0 < w\<close> by (simp add: Let_def)
next
  case (4 i a ds "is")
  then have "items_size is \<le> Suc (length (enc_items w (p + length (enc_item w p (Abbreviated i a ds))) is))" by simp
  then show ?case using \<open>0 < w\<close> by (simp add: Let_def)
next
  case (5 a "is")
  then have "items_size is \<le> Suc (length (enc_items w (p + length (enc_item w p (Definition a))) is))" by simp
  then show ?case using \<open>0 < w\<close> by (simp add: Let_def)
qed simp

theorem rd_bitcode_enc:
  assumes "readable (\<lambda>_. []) [] is" and "item_fits 2 (Block k w is)"
    and "length (enc_item 2 32 (Block k w is)) < 2 ^ 37"
  shows "rd_bitcode (nat_bits 32 bitcode_magic @ enc_item 2 32 (Block k w is)) = Some (Block k w is)"
proof -
  define body where "body = enc_items w 0 is"
  define foot where "foot = block_footer w (length body)"
  have f: "0 < w" "w \<le> 32" "list_all (item_fits w) is" using assms(2) by simp_all
  have bits: "enc_item 2 32 (Block k w is)
      = block_header 2 32 k w @ nat_bits 32 (length (body @ foot) div 32) @ body @ foot"
    by (simp add: block_bits_def body_def foot_def Let_def)
  have words: "32 * (length (body @ foot) div 32) = length (body @ foot)"
  proof -
    have "(length body + w + length (pad (length body + w))) mod 32 = 0" by (rule length_pad)
    then have "length (body @ foot) mod 32 = 0" by (simp add: foot_def block_footer_def add.assoc)
    then show ?thesis by (metis add.right_neutral mult_div_mod_eq)
  qed
  have small: "length body + length foot < 2 ^ 37" using assms(3) bits by (simp del: enc_item.simps)
  then have count: "length (body @ foot) div 32 < 2 ^ 32" by simp
  have fuel: "items_size is \<le> length (body @ foot)"
    using items_size_length [OF f(3,1), of 0] f(1) by (simp add: body_def foot_def block_footer_def)
  have inner: "rd_items (length (body @ foot)) w (\<lambda>_. []) [] 0 (body @ foot @ []) = Some (is, [])"
    using rd_items_enc [OF assms(1) f(3,1) fuel, of 0 "[]"] small by (simp add: body_def foot_def)
  have hd: "block_header 2 32 k w = nat_bits 2 1 @ drop 2 (block_header 2 32 k w)"
    by (simp add: block_header_def Let_def)
  have "rd_bitcode (nat_bits 32 bitcode_magic @ nat_bits 2 1 @ drop 2 (block_header 2 32 k w) @
      nat_bits 32 (length (body @ foot) div 32) @ body @ foot) = Some (Block k w is)"
    using inner words rd_header_bits [OF f(2) count, of 32 2 k "body @ foot"]
    by (simp add: rd_bitcode_def rd_fixed_bits bitcode_magic_def)
  then show ?thesis unfolding bits by (subst hd) (simp only: append.assoc)
qed

end
