(* ===== verification/Module_Stream.thy ===== *)
theory Module_Stream
  imports Emit_Module Bitstream_Reader
begin

text \<open>
  What \<open>dxil_emit_module\<close> writes is a bitcode file that the reader of \<open>Bitstream_Reader\<close> reads: every
  abbreviated record uses a number under which the reader knows the same abbreviation, every block
  is as long as its header says, and the functions, constants, types and metadata come in the order
  of the module's lists.
\<close>

section \<open>Emitters of plain records\<close>

lemma seq_single: "seq [f] = f"
proof (rule ext)
  show "seq [f] s = f s" for s by (cases "f s") simp_all
qed

text \<open>
  \<open>yields ab f\<close>: what \<open>f\<close> emits are records, plain or under one of the abbreviations \<open>ab\<close>. Most
  emitters write one record, \<open>yields1\<close>.
\<close>

fun plain_item :: "dxil_abbrev list \<Rightarrow> item \<Rightarrow> bool" where
  "plain_item ab (Record code ds) \<longleftrightarrow> True"
| "plain_item ab (Abbreviated i a ds) \<longleftrightarrow>
     4 \<le> unat i \<and> unat i - 4 < length ab \<and> ab ! (unat i - 4) = a \<and> operands_carry a ds"
| "plain_item ab _ \<longleftrightarrow> False"

definition yields :: "dxil_abbrev list \<Rightarrow> emitter \<Rightarrow> bool" where
  "yields ab f \<longleftrightarrow> (\<exists>is. emits f is \<and> list_all (plain_item ab) is)"

definition yields1 :: "dxil_abbrev list \<Rightarrow> emitter \<Rightarrow> bool" where
  "yields1 ab f \<longleftrightarrow> (\<exists>i. emits f [i] \<and> plain_item ab i)"

lemma yields_if_yields1: "yields1 ab f \<Longrightarrow> yields ab f"
  unfolding yields1_def yields_def by (metis list.pred_inject)

lemma yields1_fail: "(\<And>s. \<exists>e. f s = Inl e) \<Longrightarrow> yields1 ab f"
  unfolding yields1_def by (intro exI [of _ "Record 0 []"]) (simp add: emits_fail)

lemma yields1_if:
  "(c \<Longrightarrow> yields1 ab f) \<Longrightarrow> (\<not> c \<Longrightarrow> yields1 ab g) \<Longrightarrow> yields1 ab (\<lambda>s. if c then f s else g s)"
  by (cases c) simp_all

lemma yields1_check: "(\<not> c \<Longrightarrow> yields1 ab f) \<Longrightarrow> yields1 ab (\<lambda>s. if c then Inl e else f s)"
  by (rule yields1_if) (auto intro: yields1_fail)

lemma yields1_check': "(c \<Longrightarrow> yields1 ab f) \<Longrightarrow> yields1 ab (\<lambda>s. if c then f s else Inl e)"
  by (rule yields1_if) (auto intro: yields1_fail)

lemma yields1_bind:
  "(\<And>x. r = Inr x \<Longrightarrow> yields1 ab (f x)) \<Longrightarrow> yields1 ab (\<lambda>s. bind_result r (\<lambda>x. f x s))"
  by (cases r) (auto intro: yields1_fail)

lemma yields1_record: "yields1 ab (emit_record code ds)"
  unfolding yields1_def using emits_record by (metis plain_item.simps(1))

lemma yields1_record_int: "yields1 ab (emit_record_int code v)"
  unfolding emit_record_int_def by (rule yields1_record)

lemma yields1_no_abbrev: "yields1 ab (on_buf (emit_record_no_abbrev code ds))"
  using yields1_record [of ab code ds] by (simp add: emit_record_def)

text \<open>A record under abbreviation \<open>i\<close> of a table that the abbreviations in force begin with.\<close>

lemma yields1_table:
  assumes "i < length table" and "length table < 2 ^ 31" and "operands_carry (table ! i) ds"
  shows "yields1 (table @ extra) (emit_table_record table i ds)"
proof -
  have "unat (of_nat i + 4 :: 32 word) = i + 4"
  proof -
    have "(of_nat i + 4 :: 32 word) = of_nat (i + 4)" by simp
    moreover have "unat (of_nat (i + 4) :: 32 word) = i + 4"
      using assms(1,2) by (simp only: unat_of_nat) simp
    ultimately show ?thesis by metis
  qed
  then have "plain_item (table @ extra) (Abbreviated (of_nat i + 4) (table ! i) ds)"
    using assms by (simp add: nth_append)
  then show ?thesis using emits_table_record unfolding yields1_def by blast
qed

lemma yields_seq: "list_all (yields ab) fs \<Longrightarrow> yields ab (seq fs)"
proof (induction fs)
  case Nil
  then show ?case unfolding yields_def by (metis emits_seq_Nil list.pred_inject(1))
next
  case (Cons f fs)
  then obtain "is" js where "emits f is" "list_all (plain_item ab) is"
    "emits (seq fs) js" "list_all (plain_item ab) js" by (auto simp: yields_def)
  then have "emits (seq (f # fs)) (is @ js)" "list_all (plain_item ab) (is @ js)"
    using emits_seq_Cons by simp_all
  then show ?case unfolding yields_def by blast
qed

lemma yields_skip: "yields ab Inr"
  unfolding yields_def by (metis emits_skip list.pred_inject(1))

lemma yields_check: "yields ab (check_that c)"
proof -
  have "emits (check_that c) []" by (simp add: emits_def)
  then show ?thesis unfolding yields_def by (metis list.pred_inject(1))
qed

text \<open>One item for each element, in their order.\<close>

lemma yields1_map:
  assumes "\<And>x. x \<in> set xs \<Longrightarrow> yields1 ab (g x)"
  shows "\<exists>is. emits (seq (map g xs)) is \<and> list_all (plain_item ab) is \<and> length is = length xs"
  using assms
proof (induction xs)
  case Nil
  then show ?case using emits_seq_Nil by (intro exI [of _ "[]"]) (simp add: emits_def)
next
  case (Cons x xs)
  have "yields1 ab (g x)" using Cons.prems by simp
  then obtain i where "emits (g x) [i]" "plain_item ab i" unfolding yields1_def by blast
  moreover obtain "is" where "emits (seq (map g xs)) is"
    "list_all (plain_item ab) is" "length is = length xs" using Cons by auto
  ultimately have "emits (seq (g x # map g xs)) ([i] @ is) \<and> plain_item ab i \<and>
      list_all (plain_item ab) is \<and> length is = length xs" using emits_seq_Cons by blast
  then show ?case
    by (intro exI [of _ "i # is"]) (simp del: seq.simps)
qed

lemma yields_map: "(\<And>x. x \<in> set xs \<Longrightarrow> yields ab (g x)) \<Longrightarrow> yields ab (seq (map g xs))"
  by (rule yields_seq) (simp add: list_all_iff)

section \<open>Readability of lists of plain records\<close>

lemma readable_plain: "list_all (plain_item ab) is \<Longrightarrow> readable info ab is"
proof (induction "is")
  case (Cons i "is")
  then show ?case by (cases i) simp_all
qed simp

lemma readable_plain_append:
  "list_all (plain_item ab) is \<Longrightarrow> readable info ab (is @ js) = readable info ab js"
proof (induction "is")
  case (Cons i "is")
  then show ?case by (cases i) simp_all
qed simp

definition table_ok :: "dxil_abbrev list \<Rightarrow> bool" where
  "table_ok table \<longleftrightarrow> list_all (\<lambda>a. length a < 2 ^ 64 \<and> list_all definable a) table"

lemma readable_definitions:
  "table_ok table \<Longrightarrow> readable info ab (map Definition table @ is) = readable info (ab @ table) is"
  by (induction table arbitrary: ab) (simp_all add: table_ok_def)

lemmas table_defs = type_table_abbrevs_def const_abbrevs_def func_abbrevs_def
  value_symtab_abbrevs_def metadata_abbrevs_def module_const_abbrevs_def

lemma tables_ok:
  "table_ok type_table_abbrevs" "table_ok const_abbrevs" "table_ok func_abbrevs"
  "table_ok value_symtab_abbrevs" "table_ok metadata_abbrevs" "table_ok module_const_abbrevs"
  by (simp_all add: table_ok_def table_defs definable_def TYPE_INDEX_def)

section \<open>Instructions\<close>

lemma yields1_func_record:
  assumes "operands_carry (func_abbrevs ! func_index a) ds"
  shows "yields1 func_abbrevs (emit_func_abbrev_record a ds)"
proof -
  have "func_index a < length func_abbrevs" by (cases a) (simp_all add: func_abbrevs_def)
  from yields1_table [OF this _ assms, of "[]"] show ?thesis
    by (simp add: emit_func_abbrev_record_def func_abbrevs_def)
qed

lemmas yields1_intros = yields1_check yields1_check' yields1_bind yields1_no_abbrev

lemma yields1_binop: "yields1 func_abbrevs (emit_binop m i opcode op0 op1 flags)"
  unfolding emit_binop_def [abs_def]
  by (intro yields1_check yields1_if yields1_func_record) (simp_all add: func_abbrevs_def)

lemma yields1_cast: "yields1 func_abbrevs (emit_cast m i opcode type v)"
  unfolding emit_cast_def [abs_def]
  by (intro yields1_check yields1_func_record) (simp add: func_abbrevs_def TYPE_INDEX_def)

lemma yields1_branch: "yields1 ab (emit_branch m func i cond succ0 succ1)"
  unfolding emit_branch_def [abs_def]
  by (cases cond) (simp_all, (intro yields1_intros)+)

lemma yields1_phi: "yields1 ab (emit_phi m func i type incoming)"
  unfolding emit_phi_def [abs_def] by (intro yields1_intros)

lemma yields1_ret: "yields1 func_abbrevs (emit_ret m v)"
proof -
  have "yields1 func_abbrevs (emit_func_abbrev_record FUNC_ABBREV_RET_VAL [FUNC_CODE_INST_RET, d])" for d
    by (rule yields1_func_record) (simp add: func_abbrevs_def)
  moreover have "yields1 func_abbrevs (emit_func_abbrev_record FUNC_ABBREV_RET_VOID [FUNC_CODE_INST_RET])"
    by (rule yields1_func_record) (simp add: func_abbrevs_def)
  ultimately show ?thesis
    unfolding emit_ret_def [abs_def] by (cases v) (simp_all add: yields1_check')
qed

lemma yields1_gep: "yields1 func_abbrevs (emit_gep m i inbounds source_elem_type operands)"
proof -
  have "operands_carry (func_abbrevs ! func_index FUNC_ABBREV_GEP)
      ([FUNC_CODE_INST_GEP, of_bool inbounds, type_id source_elem_type] @ map (relative m i) operands)"
    if "length operands < 256 - 3"
    using that by (simp add: func_abbrevs_def TYPE_INDEX_def list_all_iff)
  then show ?thesis
    unfolding emit_gep_def [abs_def] by (intro yields1_check yields1_func_record) blast
qed

lemma yields1_plain_instrs:
  "yields1 ab (emit_cmp m i pred op0 op1)"
  "yields1 ab (emit_select m i op0 op1 op2)"
  "yields1 ab (emit_call m i f args)"
  "yields1 ab (emit_extractval m i op0 type idx)"
  "yields1 ab (emit_alloca m type type' op0 align)"
  "yields1 ab (emit_load m i op0 type align vol)"
  "yields1 ab (emit_store m i op0 op1 align vol)"
  "yields1 ab (emit_atomicrmw m i op0 op1 rmw vol order scope)"
  "yields1 ab (emit_cmpxchg m i op0 op1 op2 vol order scope)"
  unfolding emit_cmp_def [abs_def] emit_select_def [abs_def] emit_call_def [abs_def]
    emit_extractval_def [abs_def] emit_alloca_def [abs_def] emit_load_def [abs_def]
    emit_store_def [abs_def] emit_atomicrmw_def [abs_def] emit_cmpxchg_def [abs_def]
  by (intro yields1_intros)+

lemma yields1_instr: "yields1 func_abbrevs (emit_instr m func i)"
  unfolding emit_instr_def
  by (cases "instr_data i")
    (simp_all add: yields1_binop yields1_cast yields1_branch yields1_phi yields1_ret yields1_gep
      yields1_plain_instrs)

section \<open>Tables\<close>

lemma yields1_type_record:
  assumes "operands_carry (type_table_abbrevs ! type_table_index a) ds"
  shows "yields1 type_table_abbrevs (emit_type_table_abbrev_record a ds)"
proof -
  have "type_table_index a < length type_table_abbrevs"
    by (cases a) (simp_all add: type_table_abbrevs_def)
  from yields1_table [OF this _ assms, of "[]"] show ?thesis
    by (simp add: emit_type_table_abbrev_record_def type_table_abbrevs_def)
qed

lemma char6_small: "is_char6 c \<Longrightarrow> unat (char_u64 c) < 256"
proof -
  have "\<forall>c \<in> set char6_alphabet. unat (char_u64 c) < 256"
    by (simp add: char6_alphabet_def char_u64_def char_byte_def)
  then show "is_char6 c \<Longrightarrow> unat (char_u64 c) < 256" by (simp add: is_char6_alphabet)
qed

lemma is_char6_string_all: "is_char6_string s \<longleftrightarrow> list_all is_char6 s"
  by (induction s) auto

lemma yields1_struct_name_char6:
  "is_char6_string n \<Longrightarrow> yields1 type_table_abbrevs (emit_struct_name_char6 n)"
  unfolding emit_struct_name_char6_def [abs_def]
  by (intro yields1_check' yields1_type_record)
    (auto simp: type_table_abbrevs_def list_all_iff is_char6_string_all intro: char6_small)

lemma yields1_struct_name: "yields1 ab (emit_struct_name n)"
  unfolding emit_struct_name_def [abs_def] by (intro yields1_check' yields1_record)

lemma yields_struct_type: "yields type_table_abbrevs (emit_struct_type name elems)"
proof -
  have r: "yields1 type_table_abbrevs (\<lambda>s. bind_result (check_that (length elems < 256 - 2) s)
      (emit_type_table_abbrev_record a (c # 0 # map type_id elems)))"
    if "(a, c) \<in> {(TYPE_TABLE_ABBREV_STRUCT_NAMED, TYPE_CODE_STRUCT_NAMED),
        (TYPE_TABLE_ABBREV_STRUCT_ANON, TYPE_CODE_STRUCT_ANON)}" for a c
  proof (cases "length elems < 256 - 2")
    case True
    then have "operands_carry (type_table_abbrevs ! type_table_index a) (c # 0 # map type_id elems)"
      using that by (auto simp: type_table_abbrevs_def TYPE_INDEX_def list_all_iff)
    then show ?thesis using True yields1_type_record by simp
  next
    case False
    then show ?thesis by (intro yields1_fail) (simp add: check_that_def)
  qed
  have name: "yields type_table_abbrevs
      (if is_char6_string n then emit_struct_name_char6 n else emit_struct_name n)" for n
    using yields1_struct_name_char6 yields1_struct_name yields_if_yields1 by simp
  show ?thesis
  proof (cases name)
    case None
    have "emit_struct_type name elems = seq [\<lambda>s. bind_result (check_that (length elems < 256 - 2) s)
      (emit_type_table_abbrev_record TYPE_TABLE_ABBREV_STRUCT_ANON (TYPE_CODE_STRUCT_ANON # 0 # map type_id elems))]"
      by (rule ext) (simp add: emit_struct_type_def None seq_single seq_fun(2) [of _ "[_]"] flip: bind_result_assoc)
    then show ?thesis using r yields_if_yields1 by (simp add: yields_seq del: seq.simps)
  next
    case (Some n)
    have "emit_struct_type name elems = seq [if is_char6_string n then emit_struct_name_char6 n else emit_struct_name n,
      \<lambda>s. bind_result (check_that (length elems < 256 - 2) s)
      (emit_type_table_abbrev_record TYPE_TABLE_ABBREV_STRUCT_NAMED (TYPE_CODE_STRUCT_NAMED # 0 # map type_id elems))]"
      by (rule ext) (simp add: emit_struct_type_def Some seq_single seq_fun(2) [of _ "_ # _"] bind_result_assoc)
    then show ?thesis using r name yields_if_yields1 by (simp add: yields_seq del: seq.simps)
  qed
qed

lemma yields_type: "yields type_table_abbrevs (emit_type t)"
proof (cases t)
  case (TYPE_FLOAT bits)
  then show ?thesis
    by (auto simp: emit_float_type_def intro!: yields_if_yields1 yields1_record yields1_fail)
next
  case (TYPE_POINTER p)
  then show ?thesis
    by (simp add: emit_pointer_type_def yields_if_yields1 yields1_type_record
        type_table_abbrevs_def [THEN arg_cong, of "\<lambda>t. t ! _"] TYPE_INDEX_def)
next
  case (TYPE_FUNCTION ret args)
  have "yields1 type_table_abbrevs (emit_function_type ret args)"
    unfolding emit_function_type_def [abs_def]
    by (intro yields1_check' yields1_type_record)
      (simp add: type_table_abbrevs_def TYPE_INDEX_def list_all_iff)
  then show ?thesis using TYPE_FUNCTION yields_if_yields1 by simp
next
  case (TYPE_ARRAY e n)
  have "yields1 type_table_abbrevs (emit_array_type e n)"
    unfolding emit_array_type_def
    by (intro yields1_type_record) (simp add: type_table_abbrevs_def TYPE_INDEX_def)
  then show ?thesis using TYPE_ARRAY yields_if_yields1 by simp
next
  case (TYPE_VECTOR e n)
  have "yields1 type_table_abbrevs (emit_vector_type e n)"
    unfolding emit_vector_type_def
    by (intro yields1_type_record) (simp add: type_table_abbrevs_def TYPE_INDEX_def)
  then show ?thesis using TYPE_VECTOR yields_if_yields1 by simp
qed (simp_all add: yields_struct_type yields_if_yields1 yields1_record yields1_record_int)

lemma yields1_const_record:
  assumes "operands_carry (const_abbrevs ! const_index a) ds"
  shows "yields1 (const_abbrevs @ extra) (emit_const_abbrev_record a ds)"
proof -
  have "const_index a < length const_abbrevs" by (cases a) (simp_all add: const_abbrevs_def)
  from yields1_table [OF this _ assms, of extra] show ?thesis
    by (simp add: emit_const_abbrev_record_def const_abbrevs_def)
qed

lemma yields1_set_type: "yields1 (const_abbrevs @ extra) (emit_set_type t)"
  unfolding emit_set_type_def
  by (rule yields1_const_record) (simp add: const_abbrevs_def TYPE_INDEX_def)

lemma yields1_null: "yields1 ab emit_null_value"
  unfolding emit_null_value_def by (rule yields1_no_abbrev)

lemma yields1_int_value: "yields1 (const_abbrevs @ extra) (emit_int_value v)"
proof -
  have "yields1 (const_abbrevs @ extra)
      (emit_const_abbrev_record CONST_ABBREV_INTEGER [CST_CODE_INTEGER, encode_signed v])"
    by (rule yields1_const_record) (simp add: const_abbrevs_def)
  then show ?thesis using yields1_null by (simp add: emit_int_value_def)
qed

lemma yields1_const_value: "yields1 (const_abbrevs @ extra) (emit_const_value m c)"
  unfolding emit_const_value_def emit_undef_value_def emit_float16_value_def emit_float_value_def
    emit_double_value_def emit_aggregate_values_def
  by (auto split: dxil_type.splits const_data.splits
      intro: yields1_no_abbrev yields1_null yields1_int_value yields1_fail)

lemma yields_consts: "yields (const_abbrevs @ extra) (emit_consts_from m cur cs)"
proof (induction cs arbitrary: cur)
  case Nil
  have "emit_consts_from m cur [] = Inr" by (rule ext) simp
  then show ?case using yields_skip by simp
next
  case (Cons c cs)
  show ?case
  proof (cases "value_id (const_value c) < 0")
    case True
    have "yields1 (const_abbrevs @ extra) (emit_consts_from m cur (c # cs))"
      using True by (intro yields1_fail) simp
    then show ?thesis by (rule yields_if_yields1)
  next
    case False
    let ?t = "value_type (const_value c)"
    have "emit_consts_from m cur (c # cs) = seq [if cur \<noteq> Some ?t then emit_set_type ?t else Inr,
        emit_const_value m c, emit_consts_from m (Some ?t) cs]"
      using False by (intro ext) (simp add: Let_def del: seq.simps)
    moreover have "yields (const_abbrevs @ extra) (if cur \<noteq> Some ?t then emit_set_type ?t else Inr)"
      using yields1_set_type yields_if_yields1 yields_skip by simp
    ultimately show ?thesis
      using Cons.IH yields1_const_value yields_if_yields1 by (simp add: yields_seq del: seq.simps)
  qed
qed

lemma uchar_small: "unat (uchar_u64 c) < 256"
proof -
  have "unat (char_byte c) < 256" using unsigned_less [of "char_byte c"] by simp
  then show ?thesis by (simp add: uchar_u64_def unsigned_ucast_eq take_bit_nat_eq_self)
qed

lemma yields1_symtab: "yields1 value_symtab_abbrevs (emit_symtab_entry v name)"
proof -
  have c: "operands_carry (value_symtab_abbrevs ! value_symtab_index a)
      (VST_CODE_ENTRY # ucast (of_int v :: 32 word) # map uchar_u64 name)"
    if "length name < 254" "a \<noteq> VST_ABBREV_BBENTRY_6" for a
    using that uchar_small by (cases a) (auto simp: value_symtab_abbrevs_def list_all_iff)
  have "yields1 value_symtab_abbrevs (emit_value_symtab_abbrev_record a
      (VST_CODE_ENTRY # ucast (of_int v :: 32 word) # map uchar_u64 name))"
    if "length name < 254" "a \<noteq> VST_ABBREV_BBENTRY_6" for a
  proof -
    have "value_symtab_index a < length value_symtab_abbrevs"
      by (cases a) (simp_all add: value_symtab_abbrevs_def)
    from yields1_table [OF this _ c [OF that], of "[]"] show ?thesis
      by (simp add: emit_value_symtab_abbrev_record_def value_symtab_abbrevs_def)
  qed
  then show ?thesis
    unfolding emit_symtab_entry_def [abs_def] by (intro yields1_check') simp
qed

lemma yields1_metadata_record:
  assumes "operands_carry (metadata_abbrevs ! metadata_index a) ds"
  shows "yields1 metadata_abbrevs (emit_metadata_abbrev_record a ds)"
proof -
  have "metadata_index a < length metadata_abbrevs" by (cases a) (simp_all add: metadata_abbrevs_def)
  from yields1_table [OF this _ assms, of "[]"] show ?thesis
    by (simp add: emit_metadata_abbrev_record_def metadata_abbrevs_def)
qed

lemma yields1_mdnode: "yields1 metadata_abbrevs (emit_mdnode m n)"
proof (cases n)
  case (MD_STRING s)
  have "yields1 metadata_abbrevs (emit_metadata_string s)"
    unfolding emit_metadata_string_def [abs_def]
    by (intro yields1_check' yields1_metadata_record) (simp add: metadata_abbrevs_def list_all_iff)
  then show ?thesis using MD_STRING by simp
next
  case (MD_VALUE t v)
  have "yields1 metadata_abbrevs (emit_metadata_value m t v)"
    unfolding emit_metadata_value_def [abs_def] by (intro yields1_check' yields1_record)
  then show ?thesis using MD_VALUE by simp
next
  case (MD_NODE subs)
  have "yields1 metadata_abbrevs (emit_metadata_node subs)"
    unfolding emit_metadata_node_def [abs_def] by (intro yields1_check' yields1_record)
  then show ?thesis using MD_NODE by simp
qed

lemma yields_named_node: "yields metadata_abbrevs (emit_metadata_named_node name subs)"
proof (cases "length subs < 256 \<and> None \<notin> set subs")
  case True
  have "yields1 metadata_abbrevs (emit_metadata_name name)"
    unfolding emit_metadata_name_def [abs_def]
    by (intro yields1_check' yields1_metadata_record) (simp add: metadata_abbrevs_def list_all_iff)
  moreover have "emit_metadata_named_node name subs = seq [emit_metadata_name name,
      emit_record METADATA_NAMED_NODE (map (\<lambda>n. subnode_id n - 1) subs)]"
    using True by (intro ext) (simp add: emit_metadata_named_node_def del: seq.simps)
  ultimately show ?thesis
    using yields_if_yields1 yields1_record by (simp add: yields_seq del: seq.simps)
next
  case False
  then have "yields1 metadata_abbrevs (emit_metadata_named_node name subs)"
    by (intro yields1_fail) (auto simp: emit_metadata_named_node_def)
  then show ?thesis by (rule yields_if_yields1)
qed

lemma yields1_gvar: "yields1 [simple_gvar_abbr m] (emit_module_info_global m g (simple_gvar_abbr m))"
proof -
  have "plain_item [simple_gvar_abbr m]
      (Abbreviated 4 (simple_gvar_abbr m) [DXIL_MODULE_CODE_GLOBALVAR, a, b, c, d, e, 0])" for a b c d e
    by (simp add: simple_gvar_abbr_def Let_def)
  then show ?thesis
    unfolding yields1_def emit_module_info_global_def using emits_record_abbrev by blast
qed

lemma yields1_attrib_group: "yields1 ab (emit_attrib_group i slot attrs)"
  unfolding emit_attrib_group_def [abs_def] by (intro yields1_bind yields1_record)

section \<open>Blocks\<close>

lemma yields_map_seq:
  "(\<And>f. f \<in> set fs \<Longrightarrow> yields ab f) \<Longrightarrow> \<exists>is. emits (seq fs) is \<and> list_all (plain_item ab) is"
  using yields_seq [of ab fs] by (simp add: list_all_iff yields_def)

lemma block_of_plain:
  assumes "\<And>f. f \<in> set fs \<Longrightarrow> yields ab f"
  shows "\<exists>is. emits (seq (enter_subblock k w # fs @ [exit_block])) [Block k w is] \<and>
    list_all (plain_item ab) is"
  using yields_map_seq [OF assms] emits_block_seq by blast

lemma block_of_table:
  assumes "emits define (map Definition table)" and "\<And>f. f \<in> set fs \<Longrightarrow> yields (ab @ table) f"
  shows "\<exists>is. emits (seq (enter_subblock k w # (define # fs) @ [exit_block]))
      [Block k w (map Definition table @ is)] \<and> list_all (plain_item (ab @ table)) is"
proof -
  obtain "is" where "emits (seq fs) is" "list_all (plain_item (ab @ table)) is"
    using yields_map_seq [OF assms(2)] by blast
  then show ?thesis
    using emits_block_seq [OF emits_seq_Cons [OF assms(1)], of fs "is" k w] by blast
qed

lemma block_of_plain_map:
  assumes "\<And>x. x \<in> set xs \<Longrightarrow> yields1 ab (g x)"
  shows "\<exists>is. emits (seq (enter_subblock k w # map g xs @ [exit_block])) [Block k w is] \<and>
    list_all (plain_item ab) is \<and> length is = length xs"
proof -
  obtain "is" where y: "emits (seq (map g xs)) is" "list_all (plain_item ab) is" "length is = length xs"
    using yields1_map [of xs ab g, OF assms] by blast
  then show ?thesis using emits_block_seq [OF y(1), of k w] by blast
qed

lemma attrib_group_table_block:
  "\<exists>is. emits (emit_attrib_group_table m) [Block 10 3 is] \<and> list_all (plain_item []) is \<and>
     length is = length (attr_set_list m)"
  unfolding emit_attrib_group_table_def
  using block_of_plain_map [of "enumerate 1 (attr_set_list m)" "[]"
      "\<lambda>(i, as). emit_attrib_group (of_nat i) 0xFFFFFFFF as" 10 3] yields1_attrib_group
  by (auto simp del: seq.simps)

lemma attribute_table_block:
  "\<exists>is. emits (emit_attribute_table m) [Block 9 3 is] \<and> list_all (plain_item []) is \<and>
     length is = length (attr_set_list m)"
  unfolding emit_attribute_table_def
  using block_of_plain_map [of "enumerate 1 (attr_set_list m)" "[]"
      "\<lambda>(i, as). emit_record_int 2 (of_nat i)" 9 3] yields1_record_int
  by (auto simp del: seq.simps)

lemma type_table_block:
  "\<exists>is. emits (emit_type_table m) [Block 17 4 (map Definition type_table_abbrevs @ is)] \<and>
     list_all (plain_item type_table_abbrevs) is"
proof -
  have d: "emits emit_type_table_abbrevs (map Definition type_table_abbrevs)"
    unfolding emit_type_table_abbrevs_def by (rule emits_define_abbrevs)
  let ?fs = "emit_record_int TYPE_CODE_NUMENTRY (of_nat (1 + length (type_list m))) #
      map emit_type (type_list m) @ [emit_metadata_type]"
  have y: "yields ([] @ type_table_abbrevs) f" if "f \<in> set ?fs" for f
    using that yields_type yields_if_yields1 yields1_record_int yields1_record
    by (auto simp: emit_metadata_type_def)
  have "\<exists>is. emits (seq (enter_subblock 17 4 # (emit_type_table_abbrevs # ?fs) @ [exit_block]))
      [Block 17 4 (map Definition type_table_abbrevs @ is)] \<and>
      list_all (plain_item ([] @ type_table_abbrevs)) is"
    by (rule block_of_table [OF d y])
  then show ?thesis by (simp add: emit_type_table_def del: seq.simps)
qed

lemma module_consts_block:
  "\<exists>is. emits (emit_module_consts m) [Block 11 4 (map Definition module_const_abbrevs @ is)] \<and>
     list_all (plain_item (const_abbrevs @ module_const_abbrevs)) is"
proof -
  have d: "emits emit_module_const_abbrevs (map Definition module_const_abbrevs)"
    unfolding emit_module_const_abbrevs_def by (rule emits_define_abbrevs)
  have y: "yields (const_abbrevs @ module_const_abbrevs) f" if "f \<in> set [emit_consts m]" for f
    using that yields_consts by (simp add: emit_consts_def)
  have "\<exists>is. emits (seq (enter_subblock 11 4 # (emit_module_const_abbrevs # [emit_consts m]) @ [exit_block]))
      [Block 11 4 (map Definition module_const_abbrevs @ is)] \<and>
      list_all (plain_item (const_abbrevs @ module_const_abbrevs)) is"
    by (rule block_of_table [OF d y])
  then show ?thesis by (simp add: emit_module_consts_def del: seq.simps)
qed

lemma metadata_block:
  "\<exists>is. emits (emit_metadata m) [Block 15 3 (map Definition metadata_abbrevs @ is)] \<and>
     list_all (plain_item metadata_abbrevs) is"
proof -
  have d: "emits emit_metadata_abbrevs (map Definition metadata_abbrevs)"
    unfolding emit_metadata_abbrevs_def by (rule emits_define_abbrevs)
  have y: "yields ([] @ metadata_abbrevs) f"
    if "f \<in> set [emit_metadata_nodes m, emit_metadata_named_nodes m]" for f
    using that yields1_mdnode yields_if_yields1 yields_named_node
    by (auto simp: emit_metadata_nodes_def emit_metadata_named_nodes_def intro!: yields_map)
  have "\<exists>is. emits (seq (enter_subblock 15 3 #
      (emit_metadata_abbrevs # [emit_metadata_nodes m, emit_metadata_named_nodes m]) @ [exit_block]))
      [Block 15 3 (map Definition metadata_abbrevs @ is)] \<and>
      list_all (plain_item ([] @ metadata_abbrevs)) is"
    by (rule block_of_table [OF d y])
  then show ?thesis by (simp add: emit_metadata_def del: seq.simps)
qed

lemma value_symbol_table_block:
  "\<exists>is. emits (emit_value_symbol_table m) [Block 14 4 is] \<and> list_all (plain_item value_symtab_abbrevs) is \<and>
     length is = length (func_list m) + length (gvar_list m)"
proof -
  define entries where "entries =
    map (\<lambda>f. (value_id (func_value f), func_name f)) (func_list m) @
    map (\<lambda>g. (value_id (gvar_value g), gvar_name g)) (gvar_list m)"
  have "emit_value_symbol_table m = seq (enter_subblock 14 4 #
      map (\<lambda>(v, n). emit_symtab_entry v n) entries @ [exit_block])"
    by (simp add: emit_value_symbol_table_def entries_def comp_def del: seq.simps)
  then show ?thesis
    using block_of_plain_map [of entries value_symtab_abbrevs "\<lambda>(v, n). emit_symtab_entry v n" 14 4]
      yields1_symtab by (auto simp: entries_def simp del: seq.simps)
qed

lemma function_block:
  "\<exists>is. emits (emit_function m func) [Block 12 4 is] \<and> list_all (plain_item func_abbrevs) is \<and>
     length is = Suc (length (instr_list func))"
proof -
  define steps where "steps = emit_record_int FUNC_CODE_DECLAREBLOCKS (of_nat (curr_block func)) #
      map (emit_instr m func) (instr_list func)"
  have "emit_function m func = seq (enter_subblock 12 4 # map (\<lambda>f. f) steps @ [exit_block])"
    by (simp add: emit_function_def steps_def del: seq.simps)
  moreover have "yields1 func_abbrevs f" if "f \<in> set steps" for f
    using that yields1_instr yields1_record_int by (auto simp: steps_def)
  ultimately show ?thesis
    using block_of_plain_map [of steps func_abbrevs "\<lambda>f. f" 12 4] by (auto simp: steps_def simp del: seq.simps)
qed

text \<open>The two records that say what the module is compiled for.\<close>

definition target_items :: "item list" where
  "target_items =
     [Record 2 (map char_u64 ''dxil-ms-dx''),
      Record 3 (map char_u64
        ''e-m:e-p:32:32-i1:32-i8:32-i16:32-i32:32-i64:64-f16:32-f32:32-f64:64-n8:16:32:64'')]"

lemma module_info_items:
  "\<exists>is. emits (emit_module_info m) (target_items @ Definition (simple_gvar_abbr m) # is) \<and>
     list_all (plain_item [simple_gvar_abbr m]) is \<and>
     length is = length (gvar_list m) + length (func_list m)"
proof -
  define abbr where "abbr = simple_gvar_abbr m"
  define steps where "steps = map (\<lambda>g. emit_module_info_global m g abbr) (gvar_list m) @
      map (\<lambda>f. emit_module_info_function (func_type f) (func_decl f) (func_attr_set f)) (func_list m)"
  have "yields1 [abbr] f" if "f \<in> set steps" for f
    using that yields1_gvar yields1_record
    by (auto simp: steps_def abbr_def emit_module_info_function_def)
  from yields1_map [of steps "[abbr]" "\<lambda>f. f", OF this] obtain "is"
    where "is": "emits (seq steps) is" "list_all (plain_item [abbr]) is" "length is = length steps" by auto
  have str: "emits (emit_target_triple t) [Record 2 (map char_u64 t)]"
    "emits (emit_datalayout t) [Record 3 (map char_u64 t)]" for t
    using emits_record [of 2 "map char_u64 t"] emits_record [of 3 "map char_u64 t"]
    by (auto simp: emits_def emit_target_triple_def emit_datalayout_def)
  have "emit_module_info m = seq (emit_target_triple ''dxil-ms-dx'' #
      emit_datalayout ''e-m:e-p:32:32-i1:32-i8:32-i16:32-i32:32-i64:64-f16:32-f32:32-f64:64-n8:16:32:64'' #
      define_abbrev abbr # steps)"
    by (simp add: emit_module_info_def abbr_def steps_def Let_def del: seq.simps)
  then have "emits (emit_module_info m) (target_items @ Definition abbr # is)"
    using emits_seq_Cons [OF str(1) emits_seq_Cons [OF str(2) emits_seq_Cons [OF emits_define_abbrev "is"(1)]]]
    by (simp add: target_items_def del: seq.simps list.map(2))
  then show ?thesis using "is"(2,3) unfolding abbr_def by (auto simp: steps_def)
qed

section \<open>Module files\<close>

definition plain_items :: "dxil_abbrev list \<Rightarrow> nat \<Rightarrow> item list \<Rightarrow> bool" where
  "plain_items ab n is \<longleftrightarrow> list_all (plain_item ab) is \<and> length is = n"

text \<open>
  What is inside the module block of the file of a module: its blocks in their order, the tables of
  abbreviations they define, one group and one list for every attribute set, one record for every
  global variable and every function in the module information and in the symbol table, and for
  every function body one record for the number of its basic blocks and one for each instruction.
\<close>

inductive module_items :: "dxil_module \<Rightarrow> item list \<Rightarrow> bool" for m where
  "plain_items [] (length (attr_set_list m)) groups \<Longrightarrow>
   plain_items [] (length (attr_set_list m)) attributes \<Longrightarrow>
   list_all (plain_item type_table_abbrevs) types \<Longrightarrow>
   plain_items [simple_gvar_abbr m] (length (gvar_list m) + length (func_list m)) globals \<Longrightarrow>
   list_all (plain_item (const_abbrevs @ module_const_abbrevs)) consts \<Longrightarrow>
   list_all (plain_item metadata_abbrevs) metadata \<Longrightarrow>
   plain_items value_symtab_abbrevs (length (func_list m) + length (gvar_list m)) symbols \<Longrightarrow>
   list_all2 (\<lambda>f. plain_items func_abbrevs (Suc (length (instr_list f)))) (func_def_list m) bodies \<Longrightarrow>
   module_items m
     (Record 1 [1] # Block 0 2 blockinfo_items # Block 10 3 groups # Block 9 3 attributes #
      Block 17 4 (map Definition type_table_abbrevs @ types) #
      target_items @ Definition (simple_gvar_abbr m) # globals @
      Block 11 4 (map Definition module_const_abbrevs @ consts) #
      Block 15 3 (map Definition metadata_abbrevs @ metadata) #
      Block 14 4 symbols # map (Block 12 4) bodies)"

lemma emits_functions:
  "\<exists>bodies. emits (seq (map (emit_function m) fs)) (map (Block 12 4) bodies) \<and>
     list_all2 (\<lambda>f. plain_items func_abbrevs (Suc (length (instr_list f)))) fs bodies"
proof (induction fs)
  case Nil
  then show ?case using emits_seq_Nil by (intro exI [of _ "[]"]) (simp del: seq.simps)
next
  case (Cons f fs)
  then obtain bodies where b: "emits (seq (map (emit_function m) fs)) (map (Block 12 4) bodies)"
    "list_all2 (\<lambda>f. plain_items func_abbrevs (Suc (length (instr_list f)))) fs bodies" by blast
  obtain js where j: "emits (emit_function m f) [Block 12 4 js]"
    "plain_items func_abbrevs (Suc (length (instr_list f))) js"
    using function_block unfolding plain_items_def by blast
  show ?case
    using emits_seq_Cons [OF j(1) b(1)] b(2) j(2)
    by (intro exI [of _ "js # bodies"]) (simp del: seq.simps)
qed

lemma emits_module: "\<exists>is. emits (emit_module_block m) [Block 8 3 is] \<and> module_items m is"
proof -
  obtain ag where ag: "emits (emit_attrib_group_table m) [Block 10 3 ag]"
    "plain_items [] (length (attr_set_list m)) ag"
    using attrib_group_table_block unfolding plain_items_def by blast
  obtain at where at: "emits (emit_attribute_table m) [Block 9 3 at]"
    "plain_items [] (length (attr_set_list m)) at"
    using attribute_table_block unfolding plain_items_def by blast
  obtain ty where ty: "emits (emit_type_table m) [Block 17 4 (map Definition type_table_abbrevs @ ty)]"
    "list_all (plain_item type_table_abbrevs) ty" using type_table_block by blast
  obtain gs where info:
    "emits (emit_module_info m) (target_items @ Definition (simple_gvar_abbr m) # gs)"
    "plain_items [simple_gvar_abbr m] (length (gvar_list m) + length (func_list m)) gs"
    using module_info_items unfolding plain_items_def by blast
  obtain cs where cs:
    "emits (emit_module_consts m) [Block 11 4 (map Definition module_const_abbrevs @ cs)]"
    "list_all (plain_item (const_abbrevs @ module_const_abbrevs)) cs" using module_consts_block by blast
  obtain md where md: "emits (emit_metadata m) [Block 15 3 (map Definition metadata_abbrevs @ md)]"
    "list_all (plain_item metadata_abbrevs) md" using metadata_block by blast
  obtain sy where sy: "emits (emit_value_symbol_table m) [Block 14 4 sy]"
    "plain_items value_symtab_abbrevs (length (func_list m) + length (gvar_list m)) sy"
    using value_symbol_table_block unfolding plain_items_def by blast
  obtain fn where fn: "emits (seq (map (emit_function m) (func_def_list m))) (map (Block 12 4) fn)"
    "list_all2 (\<lambda>f. plain_items func_abbrevs (Suc (length (instr_list f)))) (func_def_list m) fn"
    using emits_functions by blast
  have v: "emits (emit_record_int 1 1) [Record 1 [1]]" using emits_record_int [of 1 1] by simp
  let ?steps = "emit_record_int 1 1 # emit_blockinfo # emit_attrib_group_table m #
      emit_attribute_table m # emit_type_table m # emit_module_info m # emit_module_consts m #
      emit_metadata m # emit_value_symbol_table m # map (emit_function m) (func_def_list m)"
  have "emits (seq ?steps)
      ([Record 1 [1]] @ [Block 0 2 blockinfo_items] @ [Block 10 3 ag] @ [Block 9 3 at] @
       [Block 17 4 (map Definition type_table_abbrevs @ ty)] @
       (target_items @ Definition (simple_gvar_abbr m) # gs) @
       [Block 11 4 (map Definition module_const_abbrevs @ cs)] @
       [Block 15 3 (map Definition metadata_abbrevs @ md)] @ [Block 14 4 sy] @ map (Block 12 4) fn)"
    by (intro emits_seq_Cons v emits_blockinfo ag(1) at(1) ty(1) info(1) cs(1) md(1) sy(1) fn(1))
  from emits_block_seq [OF this, of 8 3] show ?thesis
    using module_items.intros [OF ag(2) at(2) ty(2) info(2) cs(2) md(2) sy(2) fn(2)]
    by (auto simp: emit_module_block_def simp del: seq.simps)
qed

section \<open>What the reader knows\<close>

definition block_abbrevs :: "nat \<Rightarrow> dxil_abbrev list" where
  "block_abbrevs = (\<lambda>_. [])(14 := value_symtab_abbrevs, 11 := const_abbrevs, 12 := func_abbrevs)"

lemma block_abbrevs_simps [simp]:
  "block_abbrevs 14 = value_symtab_abbrevs" "block_abbrevs 11 = const_abbrevs"
  "block_abbrevs 12 = func_abbrevs" "block_abbrevs 10 = []" "block_abbrevs 9 = []"
  "block_abbrevs 17 = []" "block_abbrevs 15 = []"
  by (simp_all add: block_abbrevs_def)

lemma declared_definitions:
  "declared k (map Definition table @ is) info = declared k is (info(k := info k @ table))"
  by (induction table arbitrary: info) simp_all

lemma declared_blockinfo: "declared 0 blockinfo_items (\<lambda>_. []) = block_abbrevs"
  using declared_definitions [of 12 func_abbrevs "[]"]
  by (simp add: blockinfo_items_def declared_definitions block_abbrevs_def fun_upd_def fun_eq_iff)

lemma readable_blockinfo: "readable info [] blockinfo_items"
  using readable_definitions [OF tables_ok(3), of _ _ "[]"]
  by (simp add: blockinfo_items_def readable_definitions tables_ok)

lemma readable_bodies:
  "list_all2 (\<lambda>f. plain_items func_abbrevs (n f)) fs bodies \<Longrightarrow>
   readable block_abbrevs ab (map (Block 12 4) bodies)"
  by (induction rule: list_all2_induct) (simp_all add: plain_items_def readable_plain)

lemma util_logbase2_less: "n < 2 ^ k \<Longrightarrow> 0 < k \<Longrightarrow> util_logbase2 n < k"
proof (induction n arbitrary: k rule: util_logbase2.induct)
  case (1 n)
  show ?case
  proof (cases "n < 2")
    case True
    then show ?thesis using "1.prems" by (simp add: util_logbase2.simps)
  next
    case False
    obtain j where "k = Suc j" using "1.prems"(2) gr0_implies_Suc by blast
    then have j: "k = Suc j" "0 < j" using False "1.prems"(1) by (auto intro: Nat.gr0I)
    then have "n div 2 < 2 ^ j" using "1.prems" by (simp add: less_mult_imp_div_less mult.commute)
    then show ?thesis using "1.IH" [OF False _ j(2)] False j(1) by (subst util_logbase2.simps) simp
  qed
qed

lemma fold_max_less: "a < b \<Longrightarrow> (\<And>x. x \<in> set xs \<Longrightarrow> f x < b) \<Longrightarrow> fold (\<lambda>x a. max a (f x)) xs a < (b :: nat)"
  by (induction xs arbitrary: a) simp_all

lemma simple_gvar_abbr_ok: "table_ok [simple_gvar_abbr m]"
proof -
  have t: "util_logbase2 (fold (\<lambda>g a. max a (gvar_type g mod 2 ^ 32)) gs 0) < 32" for gs
    by (intro util_logbase2_less fold_max_less) simp_all
  have a: "util_logbase2 (as_unsigned n) < 32" for n
    by (intro util_logbase2_less) (simp_all add: as_unsigned_def)
  have "k < 32 \<Longrightarrow> definable (FIXED (k + 1))" for k by (simp add: definable_def)
  then show ?thesis using t [of "gvar_list m"] a
    by (simp add: table_ok_def simple_gvar_abbr_def Let_def)
      (simp add: definable_def)
qed

lemma readable_module:
  assumes "module_items m is"
  shows "readable (\<lambda>_. []) [] is"
  using assms
proof cases
  case (1 groups attributes types globals constants metadata symbols bodies)
  have t: "readable info ab (target_items @ is) = readable info ab is" for info ab "is"
    by (simp add: target_items_def)
  show ?thesis
    using 1 readable_bodies [OF 1(9)] simple_gvar_abbr_ok [of m]
    by (simp add: plain_items_def readable_blockinfo declared_blockinfo readable_plain t
        readable_plain_append readable_definitions tables_ok table_ok_def [of "[_]"])
qed

end
