(* ===== verification/Room.thy ===== *)
theory Room
  imports Emits
begin

text \<open>
  The other half of the correctness of the bit writer: given memory, a function of the buffer that
  has well-formed data to write returns. \<open>roomy f e P\<close> is the converse of \<open>appends f e P\<close>: when \<open>P\<close> holds
  and there is room for 4 bytes for each bit of \<open>e\<close> (every call of \<open>dxil_buffer_emit_bits\<close> writes at
  most one double word), \<open>f\<close> returns.
\<close>

section \<open>Functions on the buffer\<close>

definition roomy ::
  "(dxil_buffer \<Rightarrow> dxil_buffer result) \<Rightarrow> (nat \<Rightarrow> bool list) \<Rightarrow> (nat \<Rightarrow> bool) \<Rightarrow> bool" where
  "roomy f e P \<longleftrightarrow> (\<forall>b k. buffer_ok b \<and> P (abbrev_width b) \<and>
     buffer_room b (4 * length (e (abbrev_width b)) + k) \<longrightarrow>
     (\<exists>b'. f b = Inr b' \<and> buffer_room b' k))"

definition writes ::
  "(dxil_buffer \<Rightarrow> dxil_buffer result) \<Rightarrow> (nat \<Rightarrow> bool list) \<Rightarrow> (nat \<Rightarrow> bool) \<Rightarrow> bool" where
  "writes f e P \<longleftrightarrow> appends f e P \<and> roomy f e P"

lemma roomyD:
  "roomy f e P \<Longrightarrow> buffer_ok b \<Longrightarrow> P (abbrev_width b) \<Longrightarrow>
   buffer_room b (4 * length (e (abbrev_width b)) + k) \<Longrightarrow> \<exists>b'. f b = Inr b' \<and> buffer_room b' k"
  unfolding roomy_def by blast

lemma roomy_cong:
  assumes "roomy f e P" and "\<And>w. P' w \<Longrightarrow> P w \<and> e w = e' w"
  shows "roomy f e' P'"
  unfolding roomy_def using roomyD [OF assms(1)] assms(2) by metis

lemma writes_cong:
  assumes "writes f e P" and "\<And>w. P w = P' w" and "\<And>w. P w \<Longrightarrow> e w = e' w"
  shows "writes f e' P'"
  using assms appends_cong [of f e P e' P'] roomy_cong [of f e P P' e'] unfolding writes_def by blast

lemma writes_skip: "writes Inr (\<lambda>_. []) (\<lambda>_. True)"
  by (simp add: writes_def roomy_def appends_skip)

lemma writes_check: "writes (check_that C) (\<lambda>_. []) (\<lambda>_. C)"
  by (simp add: writes_def roomy_def appends_check)

lemma writes_fail: "(\<And>b. \<exists>e. f b = Inl e) \<Longrightarrow> writes f e (\<lambda>_. False)"
  by (simp add: writes_def roomy_def appends_def) (metis Inl_Inr_False)

lemma writes_bind:
  assumes f: "writes f e P" and g: "writes g e' P'"
  shows "writes (\<lambda>b. bind_result (f b) g) (\<lambda>w. e w @ e' w) (\<lambda>w. P w \<and> P' w)"
  unfolding writes_def
proof
  have a: "appends f e P" "appends g e' P'" "roomy f e P" "roomy g e' P'"
    using assms by (simp_all add: writes_def)
  show "appends (\<lambda>b. bind_result (f b) g) (\<lambda>w. e w @ e' w) (\<lambda>w. P w \<and> P' w)"
    by (rule appends_bind [OF a(1,2)])
  show "roomy (\<lambda>b. bind_result (f b) g) (\<lambda>w. e w @ e' w) (\<lambda>w. P w \<and> P' w)"
    unfolding roomy_def
  proof (intro allI impI)
    fix b k
    assume b: "buffer_ok b \<and> (P (abbrev_width b) \<and> P' (abbrev_width b)) \<and>
      buffer_room b (4 * length (e (abbrev_width b) @ e' (abbrev_width b)) + k)"
    then obtain c where c: "f b = Inr c" "buffer_room c (4 * length (e' (abbrev_width b)) + k)"
      using roomyD [OF a(3), of b "4 * length (e' (abbrev_width b)) + k"] by (auto simp: algebra_simps)
    then show "\<exists>b'. bind_result (f b) g = Inr b' \<and> buffer_room b' k"
      using appendsD [OF a(1) c(1)] b roomyD [OF a(4), of c k] by simp
  qed
qed

lemma writes_seq_Nil: "writes (seq []) (\<lambda>_. []) (\<lambda>_. True)"
  using writes_skip unfolding seq_fun .

lemma writes_seq_Cons:
  assumes "writes f e P" and "writes (seq fs) e' P'"
  shows "writes (seq (f # fs)) (\<lambda>w. e w @ e' w) (\<lambda>w. P w \<and> P' w)"
  unfolding seq_fun by (rule writes_bind [OF assms])

lemma writes_seq_append:
  assumes "writes (seq fs) e P" and "writes (seq gs) e' P'"
  shows "writes (seq (fs @ gs)) (\<lambda>w. e w @ e' w) (\<lambda>w. P w \<and> P' w)"
proof -
  have "seq (fs @ gs) = (\<lambda>b. bind_result (seq fs b) (seq gs))"
    using seq_append [of fs gs] by auto
  then show ?thesis using writes_bind [OF assms] by simp
qed

lemma writes_seq_map:
  assumes "\<And>x. writes (g x) (e x) (P x)"
  shows "writes (seq (map g xs)) (\<lambda>w. concat (map (\<lambda>x. e x w) xs)) (\<lambda>w. list_all (\<lambda>x. P x w) xs)"
proof (induction xs)
  case Nil
  then show ?case using writes_seq_Nil by (simp del: seq.simps)
next
  case (Cons x xs)
  show ?case using writes_seq_Cons [OF assms [of x] Cons] by (simp only: list.map concat.simps list.pred_inject)
qed

lemma writes_bits:
  "writes (\<lambda>b. dxil_buffer_emit_bits b d w) (\<lambda>_. nat_bits w (unat d))
     (\<lambda>_. 0 < w \<and> w \<le> 32 \<and> unat d < 2 ^ w)"
  unfolding writes_def
proof (intro conjI appends_bits)
  have f: "field_ok (d, w)" if "unat d < 2 ^ w" "0 < w" "w \<le> 32"
    using that by (simp add: word_unat_eq_iff unsigned_take_bit_eq take_bit_nat_eq_self)
  show "roomy (\<lambda>b. dxil_buffer_emit_bits b d w) (\<lambda>_. nat_bits w (unat d))
     (\<lambda>_. 0 < w \<and> w \<le> 32 \<and> unat d < 2 ^ w)"
    unfolding roomy_def
  proof (intro allI impI, elim conjE)
    fix b k assume "buffer_ok b" "0 < w" "w \<le> 32" "unat d < 2 ^ w"
      "buffer_room b (4 * length (nat_bits w (unat d)) + k)"
    then show "\<exists>b'. dxil_buffer_emit_bits b d w = Inr b' \<and> buffer_room b' k"
      using f buffer_room_mono [of b "4 * w + k" "4 + k"] by (intro emit_bits_room) simp_all
  qed
qed

lemma writes_abbrev_id:
  "writes (\<lambda>b. dxil_buffer_emit_abbrev_id b i) (\<lambda>w. nat_bits w (unat i))
     (\<lambda>w. 0 < w \<and> w \<le> 32 \<and> unat i < 2 ^ w)"
  using writes_bits [of i] appends_abbrev_id [of i]
  unfolding writes_def roomy_def dxil_buffer_emit_abbrev_id_def by blast

lemma writes_fixed_id:
  "writes (emit_fixed_abbrev_id a) (\<lambda>w. nat_bits w (unat (fixed_abbrev_id a)))
     (\<lambda>w. 0 < w \<and> w \<le> 32 \<and> unat (fixed_abbrev_id a) < 2 ^ w)"
  using writes_abbrev_id unfolding emit_fixed_abbrev_id_def .

lemma writes_vbr:
  "writes (\<lambda>b. dxil_buffer_emit_vbr_bits b d w) (\<lambda>_. vbr_enc (w - 1) (unat d))
     (\<lambda>_. 1 < w \<and> w \<le> 32)"
  unfolding writes_def by (intro conjI appends_vbr) (auto simp: roomy_def intro: emit_vbr_bits_room)

section \<open>Scalars, arrays and abbreviations\<close>

lemma writes_char6:
  "writes (\<lambda>b. emit_char6 b d) (\<lambda>_. scalar_bits CHAR6 d) (\<lambda>_. scalar_fits CHAR6 d)"
proof (cases "datum_char d \<in> set char6_alphabet")
  case True
  let ?n = "index_of (datum_char d) char6_alphabet"
  have n: "?n < 64" using index_of_less [OF True] by (simp add: length_char6_alphabet)
  then have u: "unat (of_nat ?n :: 32 word) = ?n" by (simp add: unat_of_nat)
  have "(\<lambda>b. emit_char6 b d) = (\<lambda>b. dxil_buffer_emit_bits b (of_nat ?n) 6)"
    using True by (simp add: emit_char6_def encode_char6_alphabet datum_char_def)
  then show ?thesis
    using writes_cong [OF writes_bits [of "of_nat ?n" 6]] True u n by simp
next
  case False
  then have "(\<lambda>b. emit_char6 b d) = (\<lambda>_. Inl Unreachable)"
    by (simp add: emit_char6_def encode_char6_alphabet datum_char_def)
  then show ?thesis using writes_fail [of "\<lambda>_. Inl Unreachable"] False by simp
qed

lemma writes_fixed:
  "writes (\<lambda>b. emit_fixed b d w) (\<lambda>_. scalar_bits (FIXED w) d) (\<lambda>_. scalar_fits (FIXED w) d)"
  unfolding writes_def
proof (intro conjI appends_fixed)
  have "\<exists>b'. emit_fixed b d w = Inr b' \<and> buffer_room b' k"
    if b: "buffer_ok b" "scalar_fits (FIXED w) d" "buffer_room b (4 * length (scalar_bits (FIXED w) d) + k)"
    for b k
  proof (cases "w = 0")
    case True
    then show ?thesis using b(3) by (auto simp: emit_fixed_def nat_bits_def)
  next
    case False
    then have w: "w \<le> 32" "unat d < 2 ^ w" using b(2) by simp_all
    have "unat d < 2 ^ 32" using w(2) power_increasing [OF w(1), of "2 :: nat"] by simp
    then have u: "unat (ucast d :: 32 word) = unat d" and d: "\<not> 0xFFFFFFFF < d"
      by (simp_all add: unsigned_ucast_eq take_bit_nat_eq_self word_less_nat_alt)
    have "\<exists>b'. dxil_buffer_emit_bits b (ucast d) w = Inr b' \<and> buffer_room b' k"
      using roomyD [OF writes_bits [of "ucast d" w, unfolded writes_def, THEN conjunct2] b(1)] b(3) w u False
      by simp
    then show ?thesis using False d by (simp add: emit_fixed_def emit_bits64_def)
  qed
  then show "roomy (\<lambda>b. emit_fixed b d w) (\<lambda>_. scalar_bits (FIXED w) d) (\<lambda>_. scalar_fits (FIXED w) d)"
    unfolding roomy_def by blast
qed

lemma writes_emit_vbr:
  "writes (\<lambda>b. emit_vbr b d w) (\<lambda>_. scalar_bits (VBR w) d) (\<lambda>_. scalar_fits (VBR w) d)"
proof (cases "w = 0")
  case True
  then have "(\<lambda>b. emit_vbr b d w) = Inr" by (simp add: emit_vbr_def fun_eq_iff)
  then show ?thesis using True writes_skip by simp
next
  case False
  then have "(\<lambda>b. emit_vbr b d w) = (\<lambda>b. dxil_buffer_emit_vbr_bits b d w)"
    by (simp add: emit_vbr_def)
  then show ?thesis using False writes_vbr [of d w] by simp
qed

lemma writes_array_elem:
  "writes (emit_array_elem e d) (\<lambda>_. scalar_bits e d) (\<lambda>_. is_scalar e \<and> scalar_fits e d)"
proof (cases e)
  case (FIXED w)
  then have "emit_array_elem e d = (\<lambda>b. emit_fixed b d w)" by auto
  then show ?thesis using writes_fixed [of d w] FIXED by (simp add: is_scalar_def)
next
  case (VBR w)
  then have "emit_array_elem e d = (\<lambda>b. emit_vbr b d w)" by auto
  then show ?thesis using writes_emit_vbr [of d w] VBR by (simp add: is_scalar_def)
next
  case CHAR6
  then have "emit_array_elem e d = (\<lambda>b. emit_char6 b d)" by auto
  then show ?thesis using writes_char6 [of d] CHAR6 by (simp add: is_scalar_def)
qed (simp_all add: writes_fail is_scalar_def)

lemma writes_array:
  "writes (emit_operands [ARRAY, e] ds) (\<lambda>_. operands_bits [ARRAY, e] ds)
     (\<lambda>_. operands_fit [ARRAY, e] ds)"
proof (cases "is_scalar e")
  case True
  have "(\<lambda>b. case e of FIXED _ \<Rightarrow> seq (map (emit_array_elem e) ds) b
             | VBR _ \<Rightarrow> seq (map (emit_array_elem e) ds) b
             | CHAR6 \<Rightarrow> seq (map (emit_array_elem e) ds) b
             | _ \<Rightarrow> Inl Unreachable) = seq (map (emit_array_elem e) ds)"
    using True by (auto simp: is_scalar_def split: operand.splits)
  then have "emit_operands [ARRAY, e] ds =
      (\<lambda>b. bind_result (dxil_buffer_emit_vbr_bits b (of_nat (length ds)) 6)
         (seq (map (emit_array_elem e) ds)))"
    by (intro ext) simp
  moreover have m: "writes (seq (map (emit_array_elem e) ds)) (\<lambda>w. concat (map (scalar_bits e) ds))
      (\<lambda>w. list_all (\<lambda>d. is_scalar e \<and> scalar_fits e d) ds)"
    by (rule writes_seq_map) (rule writes_array_elem)
  have "writes (\<lambda>b. bind_result (dxil_buffer_emit_vbr_bits b (of_nat (length ds)) 6)
         (seq (map (emit_array_elem e) ds)))
     (\<lambda>w. vbr_enc 5 (len_u64 ds) @ concat (map (scalar_bits e) ds))
     (\<lambda>w. True \<and> list_all (\<lambda>d. is_scalar e \<and> scalar_fits e d) ds)"
    using writes_bind [OF writes_vbr [of "of_nat (length ds)" 6] m] by (simp add: len_u64_def)
  ultimately show ?thesis using True by (simp add: list_all_iff)
next
  case False
  have "\<exists>e'. emit_operands [ARRAY, e] ds b = Inl e'" for b
  proof (cases "dxil_buffer_emit_vbr_bits b (of_nat (length ds)) 6")
    case (Inr c)
    then show ?thesis using False by (auto simp: is_scalar_def split: operand.splits)
  qed simp
  then have "writes (emit_operands [ARRAY, e] ds) (\<lambda>_. operands_bits [ARRAY, e] ds) (\<lambda>_. False)"
    by (rule writes_fail)
  then show ?thesis using False by (simp del: emit_operands.simps)
qed

lemma writes_operands:
  "writes (emit_operands a ds) (\<lambda>_. operands_bits a ds) (\<lambda>_. operands_fit a ds)"
proof (induction a arbitrary: ds)
  case Nil
  have "emit_operands [] ds = check_that (ds = [])" by (rule ext) simp
  then show ?case using writes_check by simp
next
  case (Cons op ops)
  have scalar: ?case if "\<And>d b. (case op of LITERAL v \<Rightarrow> check_that (d = v) b
             | FIXED w \<Rightarrow> emit_fixed b d w | VBR w \<Rightarrow> emit_vbr b d w | _ \<Rightarrow> emit_char6 b d) = f d b"
    and "\<And>d. writes (f d) (\<lambda>_. scalar_bits op d) (\<lambda>_. scalar_fits op d)"
    and "op \<noteq> ARRAY" and "op \<noteq> BLOB" for f
  proof (cases ds)
    case Nil
    have "emit_operands (op # ops) ds = (\<lambda>_. Inl Assertion)"
      by (rule ext, cases op) (use that Nil in simp_all)
    moreover have "operands_fit (op # ops) ds = False" using that Nil by (cases op) simp_all
    ultimately show ?thesis using writes_fail [of "\<lambda>_. Inl Assertion"] by simp
  next
    case (Cons d ds')
    have "emit_operands (op # ops) ds = (\<lambda>b. bind_result (f d b) (emit_operands ops ds'))"
      by (rule ext, cases op) (use that Cons that(1) [of d, symmetric] in simp_all)
    moreover have "operands_bits (op # ops) ds = scalar_bits op d @ operands_bits ops ds'"
      "operands_fit (op # ops) ds = (scalar_fits op d \<and> operands_fit ops ds')"
      using that Cons by (cases op; simp)+
    ultimately show ?thesis using writes_bind [OF that(2) Cons.IH [of ds']] by simp
  qed
  show ?case
  proof (cases op)
    case (LITERAL v)
    have "writes (check_that (d = v)) (\<lambda>_. scalar_bits op d) (\<lambda>_. scalar_fits op d)" for d
      using LITERAL writes_check [of "d = v"] by simp
    then show ?thesis using scalar [of "\<lambda>d. check_that (d = v)"] LITERAL by simp
  next
    case (FIXED w)
    then show ?thesis using scalar [of "\<lambda>d b. emit_fixed b d w"] writes_fixed [of _ w] by simp
  next
    case (VBR w)
    then show ?thesis using scalar [of "\<lambda>d b. emit_vbr b d w"] writes_emit_vbr [of _ w] by simp
  next
    case ARRAY
    show ?thesis
    proof (cases "\<exists>e. ops = [e]")
      case True
      then show ?thesis using writes_array ARRAY by blast
    next
      case False
      then have "emit_operands (op # ops) ds = (\<lambda>_. Inl Assertion)" "operands_fit (op # ops) ds = False"
        using ARRAY by (auto split: list.splits)
      then show ?thesis using writes_fail [of "\<lambda>_. Inl Assertion"] by simp
    qed
  next
    case CHAR6
    then show ?thesis using scalar [of "\<lambda>d b. emit_char6 b d"] writes_char6 by simp
  next
    case BLOB
    have "emit_operands (op # ops) ds = (\<lambda>_. Inl Unreachable)" "operands_fit (op # ops) ds = False"
      using BLOB by (auto split: list.splits)
    then show ?thesis using writes_fail [of "\<lambda>_. Inl Unreachable"] by simp
  qed
qed

section \<open>Items\<close>

lemma id_fits: "1 < n \<Longrightarrow> (0 < w \<and> w \<le> 32 \<and> n < 2 ^ w) = (width_ok w \<and> n < (2 :: nat) ^ w)"
  using wide_ids [of w n] by (auto simp: width_ok_def)

lemma width_ok_2: "width_ok w \<Longrightarrow> 3 < (2 :: nat) ^ w"
  using power_increasing [of 2 w "2 :: nat"] by (simp add: width_ok_def)

lemma writes_record_abbrev:
  "writes (emit_record_abbrev i a ds) (\<lambda>w. enc_item w p (Abbreviated i a ds))
     (\<lambda>w. item_fits w (Abbreviated i a ds))"
proof (cases "4 \<le> i")
  case True
  then have f: "emit_record_abbrev i a ds =
      seq [\<lambda>b. dxil_buffer_emit_abbrev_id b i, emit_operands a ds]"
    by (simp add: emit_record_abbrev_def fun_eq_iff linorder_not_less [symmetric])
  have "1 < unat i" using True by (simp add: word_le_nat_alt)
  note i = id_fits [OF this]
  show ?thesis
    unfolding f
    by (rule writes_cong [OF writes_seq_Cons [OF writes_abbrev_id [of i]
        writes_seq_Cons [OF writes_operands [of a ds] writes_seq_Nil]]]) (auto simp: i True)
next
  case False
  then have "emit_record_abbrev i a ds = (\<lambda>_. Inl Assertion)"
    by (simp add: emit_record_abbrev_def fun_eq_iff not_le)
  then show ?thesis using writes_fail [of "\<lambda>_. Inl Assertion"] False by simp
qed

lemma writes_record:
  "writes (emit_record_no_abbrev code ds) (\<lambda>w. enc_item w p (Record code ds))
     (\<lambda>w. item_fits w (Record code ds))"
  unfolding writes_def
proof (intro conjI appends_record)
  have "writes (emit_record_no_abbrev code ds) (\<lambda>w. enc_item w p (Record code ds)) width_ok"
    unfolding emit_record_no_abbrev_def
    apply (rule writes_cong)
      apply (rule writes_seq_append)
       apply (rule writes_seq_Cons [OF writes_fixed_id writes_seq_Cons [OF writes_vbr
             writes_seq_Cons [OF writes_vbr writes_seq_Nil]]])
      apply (rule writes_seq_map [OF writes_vbr])
     apply (simp add: id_fits list_all_iff, use width_ok_2 in blast)
    apply (simp add: len_u64_def unat_ucast_32_64)
    done
  then show "roomy (emit_record_no_abbrev code ds) (\<lambda>w. enc_item w p (Record code ds))
     (\<lambda>w. item_fits w (Record code ds))"
    unfolding writes_def by (auto elim: roomy_cong)
qed

lemma writes_define_operand: "writes (define_operand op) (\<lambda>_. definition_bits op) (\<lambda>_. True)"
proof -
  note one = writes_bits [of 1 1] writes_bits [of 0 1]
  have nb: "nat_bits (Suc 0) (Suc 0) = [True]" "nat_bits (Suc 0) 0 = [False]"
    by (simp_all add: nat_bits_def bit_iff_odd)
  have lit: "writes (seq [\<lambda>b. dxil_buffer_emit_bits b 1 1, \<lambda>b. dxil_buffer_emit_vbr_bits b v 8])
      (\<lambda>_. True # vbr_enc 7 (unat v)) (\<lambda>_. True)" for v
    by (rule writes_cong [OF writes_seq_Cons [OF one(1) writes_seq_Cons [OF writes_vbr
            writes_seq_Nil]]]) (simp_all add: nb)
  have par: "writes (seq [\<lambda>b. dxil_buffer_emit_bits b 0 1, \<lambda>b. dxil_buffer_emit_bits b c 3,
        \<lambda>b. dxil_buffer_emit_vbr_bits b v 5])
      (\<lambda>_. False # nat_bits 3 (unat c) @ vbr_enc 4 (unat v)) (\<lambda>_. True)" if "unat c < 8" for c v
    by (rule writes_cong [OF writes_seq_Cons [OF one(2) writes_seq_Cons [OF writes_bits
            writes_seq_Cons [OF writes_vbr writes_seq_Nil]]]]) (simp_all add: nb that)
  have plain: "writes (seq [\<lambda>b. dxil_buffer_emit_bits b 0 1, \<lambda>b. dxil_buffer_emit_bits b c 3])
      (\<lambda>_. False # nat_bits 3 (unat c)) (\<lambda>_. True)" if "unat c < 8" for c
    by (rule writes_cong [OF writes_seq_Cons [OF one(2) writes_seq_Cons [OF writes_bits
            writes_seq_Nil]]]) (simp_all add: nb that)
  show ?thesis
  proof (cases op)
    case (LITERAL v)
    then show ?thesis using lit by simp
  next
    case (FIXED w)
    then show ?thesis using par [of 1 "of_nat w"] by simp
  next
    case (VBR w)
    then show ?thesis using par [of 2 "of_nat w"] by simp
  next
    case ARRAY
    then show ?thesis using plain [of 3] by simp
  next
    case CHAR6
    then show ?thesis using plain [of 4] by simp
  next
    case BLOB
    then show ?thesis using plain [of 5] by simp
  qed
qed

lemma writes_define_abbrev:
  "writes (seq ([emit_fixed_abbrev_id DXIL_DEFINE_ABBREV,
                   \<lambda>b. dxil_buffer_emit_vbr_bits b (of_nat (length a)) 5] @
                  map define_operand a))
     (\<lambda>w. enc_item w p (Definition a)) (\<lambda>w. item_fits w (Definition a))"
  apply (rule writes_cong)
    apply (rule writes_seq_append)
     apply (rule writes_seq_Cons [OF writes_fixed_id writes_seq_Cons [OF writes_vbr writes_seq_Nil]])
    apply (rule writes_seq_map [OF writes_define_operand])
   apply (simp add: id_fits list_all_iff)
  using width_ok_2 apply fastforce
  apply (simp add: len_u64_def)
  done

section \<open>Emitters\<close>

text \<open>
  \<open>completes d f is\<close>: with memory for the items \<open>is\<close>, which fit their fields, and with \<open>d\<close> levels of
  blocks to spare, \<open>f\<close> returns. \<open>delivers\<close> adds that \<open>is\<close> is what \<open>f\<close> emits.
\<close>

abbreviation (input) items_room :: "writer \<Rightarrow> item list \<Rightarrow> nat \<Rightarrow> bool" where
  "items_room s is k \<equiv>
     buffer_room (wbuf s) (4 * length (enc_items (wwidth s) (length (wstream s)) is) + k)"

definition completes :: "nat \<Rightarrow> (writer \<Rightarrow> writer result) \<Rightarrow> item list \<Rightarrow> bool" where
  "completes d f is \<longleftrightarrow> (\<forall>s k. writer_ok s \<and> length (blocks s) + d < MAX_BLOCKS \<and>
     list_all (item_fits (wwidth s)) is \<and> items_room s is k \<longrightarrow>
     (\<exists>s'. f s = Inr s' \<and> buffer_room (wbuf s') k))"

definition delivers :: "nat \<Rightarrow> (writer \<Rightarrow> writer result) \<Rightarrow> item list \<Rightarrow> bool" where
  "delivers d f is \<longleftrightarrow> emits f is \<and> completes d f is"

lemma completesD:
  "completes d f is \<Longrightarrow> writer_ok s \<Longrightarrow> length (blocks s) + d < MAX_BLOCKS \<Longrightarrow>
   list_all (item_fits (wwidth s)) is \<Longrightarrow> items_room s is k \<Longrightarrow>
   \<exists>s'. f s = Inr s' \<and> buffer_room (wbuf s') k"
  unfolding completes_def by blast

lemma delivers_skip: "delivers d Inr []"
  by (simp add: delivers_def completes_def emits_skip)

lemma delivers_mono: "delivers d f is \<Longrightarrow> d \<le> d' \<Longrightarrow> delivers d' f is"
  unfolding delivers_def completes_def by (meson add_le_mono1 le_less_trans nat_add_left_cancel_le)

lemma delivers_bind:
  assumes f: "delivers d f is" and g: "delivers d g js"
  shows "delivers d (\<lambda>s. bind_result (f s) g) (is @ js)"
  unfolding delivers_def
proof
  have a: "emits f is" "emits g js" "completes d f is" "completes d g js"
    using assms by (simp_all add: delivers_def)
  show "emits (\<lambda>s. bind_result (f s) g) (is @ js)" by (rule emits_bind [OF a(1,2)])
  show "completes d (\<lambda>s. bind_result (f s) g) (is @ js)"
    unfolding completes_def
  proof (intro allI impI, elim conjE)
    fix s k
    assume s: "writer_ok s" "length (blocks s) + d < MAX_BLOCKS"
      "list_all (item_fits (wwidth s)) (is @ js)" "items_room s (is @ js) k"
    let ?p = "length (wstream s) + length (enc_items (wwidth s) (length (wstream s)) is)"
    obtain t where t: "f s = Inr t" "buffer_room (wbuf t) (4 * length (enc_items (wwidth s) ?p js) + k)"
      using completesD [OF a(3) s(1,2), of "4 * length (enc_items (wwidth s) ?p js) + k"] s(3,4)
      by (auto simp: enc_items_append algebra_simps)
    then show "\<exists>s'. bind_result (f s) g = Inr s' \<and> buffer_room (wbuf s') k"
      using emitsD [OF a(1) t(1) s(1)] completesD [OF a(4), of t k] s by simp
  qed
qed

lemma delivers_seq_Nil: "delivers d (seq []) []"
  unfolding seq_fun by (rule delivers_skip)

lemma delivers_seq_Cons:
  "delivers d f is \<Longrightarrow> delivers d (seq fs) js \<Longrightarrow> delivers d (seq (f # fs)) (is @ js)"
  unfolding seq_fun by (rule delivers_bind)

lemma delivers_seq_single: "delivers d f is \<Longrightarrow> delivers d (seq [f]) is"
  using delivers_seq_Cons [OF _ delivers_seq_Nil] by fastforce

lemma delivers_seq_append:
  assumes "delivers d (seq fs) is" and "delivers d (seq gs) js"
  shows "delivers d (seq (fs @ gs)) (is @ js)"
proof -
  have "seq (fs @ gs) = (\<lambda>s. bind_result (seq fs s) (seq gs))" by (rule ext) (rule seq_append)
  then show ?thesis using delivers_bind [OF assms] by simp
qed

lemma delivers_seq_map:
  assumes "\<And>x. x \<in> set xs \<Longrightarrow> delivers d (g x) (e x)"
  shows "delivers d (seq (map g xs)) (concat (map e xs))"
  using assms
proof (induction xs)
  case Nil
  then show ?case using delivers_seq_Nil by (simp del: seq.simps)
next
  case (Cons x xs)
  then show ?case using delivers_seq_Cons [of d "g x" "e x"] by (simp del: seq.simps)
qed

lemma delivers_on_buf:
  assumes "\<And>p. writes f (\<lambda>w. enc_item w p i) (\<lambda>w. item_fits w i)"
  shows "delivers d (on_buf f) [i]"
  unfolding delivers_def
proof
  have a: "appends f (\<lambda>w. enc_item w p i) (\<lambda>w. item_fits w i)"
    "roomy f (\<lambda>w. enc_item w p i) (\<lambda>w. item_fits w i)" for p
    using assms by (simp_all add: writes_def)
  show "emits (on_buf f) [i]" by (rule emits_on_buf) (rule a)
  show "completes d (on_buf f) [i]"
    unfolding completes_def
  proof (intro allI impI, elim conjE)
    fix s k
    assume s: "writer_ok s" "list_all (item_fits (wwidth s)) [i]" "items_room s [i] k"
    then show "\<exists>s'. on_buf f s = Inr s' \<and> buffer_room (wbuf s') k"
      using roomyD [OF a(2) [of "length (wstream s)"], of "wbuf s" k]
      by (auto simp: on_buf_def writer_ok_def wwidth_def)
  qed
qed

lemma delivers_record: "delivers d (emit_record code ds) [Record code ds]"
  unfolding emit_record_def by (rule delivers_on_buf) (rule writes_record)

lemma delivers_record_int: "delivers d (emit_record_int code v) [Record code [scast v]]"
  unfolding emit_record_int_def by (rule delivers_record)

lemma delivers_record_abbrev: "delivers d (on_buf (emit_record_abbrev i a ds)) [Abbreviated i a ds]"
  by (rule delivers_on_buf) (rule writes_record_abbrev)

lemma delivers_define_abbrev: "delivers d (define_abbrev a) [Definition a]"
  unfolding define_abbrev_def by (rule delivers_on_buf) (rule writes_define_abbrev)

section \<open>Blocks\<close>

lemma flush_dword_room:
  assumes "growing (blob b)" and "32 \<le> buf_bits b" and "buf_bits b < 64" and "buffer_room b (4 + k)"
  shows "\<exists>b'. flush_dword b = Inr b' \<and> buffer_room b' k"
proof -
  have "\<exists>bl. blob_put bs (blob b) = Inr bl \<and> blob_room bl k" if "length bs = 4" for bs
    using blob_sink.put_room [OF assms(1), of bs k] assms(4) that by (simp add: buffer_room_def)
  then obtain bl where "blob_put (le_bytes 4 (ucast (buf b AND 0xFFFFFFFF) :: 32 word)) (blob b) = Inr bl"
    "blob_room bl k" by (metis length_le_bytes)
  then show ?thesis using assms(2,3) by (simp add: flush_dword_def Let_def buffer_room_def)
qed

lemma align_room:
  assumes "buffer_ok b" and "buffer_room b (4 * length (pad (length (stream b))) + k)"
  shows "\<exists>b'. dxil_buffer_align b = Inr b' \<and> buffer_room b' k"
proof (cases "buf_bits b = 0")
  case True
  then show ?thesis using assms by (auto simp: dxil_buffer_align_def elim: buffer_room_mono)
next
  case False
  have n: "buf_bits b < 32" "growing (blob b)" using assms(1) by (simp_all add: buffer_ok_def)
  have "length (stream b) mod 32 = buf_bits b" by (rule length_stream_mod [OF assms(1)])
  then have "1 \<le> length (pad (length (stream b)))" using False n by (simp add: pad_def)
  then have "4 + k \<le> 4 * length (pad (length (stream b))) + k" by linarith
  then have "buffer_room b (4 + k)" by (rule buffer_room_mono [OF assms(2)])
  then have "buffer_room (b\<lparr>buf_bits := 32\<rparr>) (4 + k)" by (simp add: buffer_room_def)
  from flush_dword_room [OF _ _ _ this] show ?thesis
    using n False by (simp add: dxil_buffer_align_def)
qed

lemma reserve_uint32_room:
  assumes "growing b" and "blob_size b mod 4 = 0" and "blob_room b (4 + k)"
    and "blob_reserve_uint32 b = (off, b')"
  shows "blob_room b' k"
proof -
  have ok: "blob_ok b" "\<not> fixed_allocation b" "blob_size b < 2 ^ 63"
    using assms(1) by (auto simp: growing_def blob_ok_def)
  obtain g t where g: "grow_to_fit b 4 = (g, t)" by fastforce
  note t = grow_to_fit_cases [OF ok(1) _ g]
  have "g" using grow_to_fit_room [OF ok(1) _ ok(2), of 4] g assms(3) by (simp add: blob_room_def)
  moreover have "blob_align b 4 = (True, b)"
    using align_4 [OF assms(2) ok(3)] by (simp add: blob_align_def)
  ultimately show ?thesis
    using assms(3,4) g t by (auto simp: blob_reserve_uint32_def blob_reserve_bytes_def blob_room_def)
qed

lemma enter_subblock_room:
  assumes "writer_ok s" and "length (blocks s) < MAX_BLOCKS" and "0 < wwidth s" and "wwidth s \<le> 32"
    and "buffer_room (wbuf s) (4 * length (block_header (wwidth s) (length (wstream s)) i w') + 4 + k)"
  shows "\<exists>s'. enter_subblock i w' s = Inr s' \<and> buffer_room (wbuf s') k"
proof -
  let ?b = "wbuf s" and ?w = "wwidth s"
  let ?h = "nat_bits ?w 1 @ vbr_enc 7 (unat i) @ vbr_enc 3 (unat (of_nat w' :: 64 word))"
  have b0: "buffer_ok ?b" "abbrev_width ?b = ?w" "stream ?b = wstream s"
    using assms(1) by (simp_all add: writer_ok_def wwidth_def wstream_def)
  define f where "f = seq [emit_fixed_abbrev_id DXIL_ENTER_SUBBLOCK,
      \<lambda>b. dxil_buffer_emit_vbr_bits b (ucast i) 8, \<lambda>b. dxil_buffer_emit_vbr_bits b (of_nat w') 4]"
  have w: "writes f (\<lambda>w. nat_bits w 1 @ vbr_enc 7 (unat i) @ vbr_enc 3 (unat (of_nat w' :: 64 word)))
      (\<lambda>w. 0 < w \<and> w \<le> 32)"
    unfolding f_def
    by (rule writes_cong [OF writes_seq_Cons [OF writes_fixed_id writes_seq_Cons [OF writes_vbr
            writes_seq_Cons [OF writes_vbr writes_seq_Nil]]]])
      (auto simp: unat_ucast_32_64 intro: one_less_power [of "2 :: nat", simplified])
  let ?l = "4 * length (pad (length (wstream s) + length ?h)) + (4 + k)"
  have "buffer_room ?b (4 * length ?h + ?l)"
    using assms(5) by (simp add: block_header_def Let_def algebra_simps)
  then obtain b3 where b3: "f ?b = Inr b3" "buffer_room b3 ?l"
    using roomyD [OF w [unfolded writes_def, THEN conjunct2] b0(1), of ?l] assms(3,4) b0(2) by auto
  have s3: "buffer_ok b3" "stream b3 = wstream s @ ?h"
    using appendsD [OF w [unfolded writes_def, THEN conjunct1] b3(1) b0(1)] b0(2,3) by simp_all
  obtain b4 where b4: "dxil_buffer_align b3 = Inr b4" "buffer_room b4 (4 + k)"
    using align_room [OF s3(1), of "4 + k"] b3(2) s3(2) by auto
  have ok4: "growing (blob b4)" "blob_size (blob b4) mod 4 = 0"
    using align_ok [OF s3(1) b4(1)] by (auto simp: buffer_ok_def)
  obtain off bl where r: "blob_reserve_uint32 (blob b4) = (off, bl)" by fastforce
  have "blob_room bl k" using reserve_uint32_room [OF ok4 _ r] b4(2) by (simp add: buffer_room_def)
  moreover have "seq [emit_fixed_abbrev_id DXIL_ENTER_SUBBLOCK,
      \<lambda>b. dxil_buffer_emit_vbr_bits b (ucast i) 8, \<lambda>b. dxil_buffer_emit_vbr_bits b (of_nat w') 4,
      dxil_buffer_align] ?b = Inr b4"
    using b3(1) b4(1) by (auto simp: f_def)
  ultimately show ?thesis
    using assms(2) r by (simp add: enter_subblock_def on_buf_def buffer_room_def Let_def del: seq.simps)
qed

lemma exit_block_room:
  assumes "writer_ok s" and "blocks s = (outer, int o') # rest" and "length (blocks s) < MAX_BLOCKS"
    and "o' mod 4 = 0" and "8 * o' + 32 \<le> length (wstream s)" and "0 < wwidth s" and "wwidth s \<le> 32"
    and "buffer_room (wbuf s) (4 * length (block_footer (wwidth s) (length (wstream s))) + k)"
  shows "\<exists>s'. exit_block s = Inr s' \<and> buffer_room (wbuf s') k"
proof -
  let ?b = "wbuf s" and ?w = "wwidth s"
  have b0: "buffer_ok ?b" "abbrev_width ?b = ?w" "stream ?b = wstream s"
    using assms(1) by (simp_all add: writer_ok_def wwidth_def wstream_def)
  let ?l = "4 * length (pad (length (wstream s) + ?w)) + k"
  obtain b1 where b1: "emit_fixed_abbrev_id DXIL_END_BLOCK ?b = Inr b1" "buffer_room b1 ?l"
    using roomyD [OF writes_fixed_id [unfolded writes_def, THEN conjunct2] b0(1), of DXIL_END_BLOCK ?l]
      assms(6-8) b0(2) by (auto simp: block_footer_def algebra_simps)
  have s1: "buffer_ok b1" "stream b1 = wstream s @ nat_bits ?w 0"
    using appendsD [OF appends_fixed_id b1(1) b0(1)] b0(2,3) by simp_all
  obtain b2 where b2: "dxil_buffer_align b1 = Inr b2" "buffer_room b2 k"
    using align_room [OF s1(1), of k] b1(2) s1(2) by auto
  note a2 = align_ok [OF s1(1) b2(1)]
  have g: "growing (blob b2)" "buf_bits b2 = 0" using a2 by (auto simp: buffer_ok_def)
  have sz: "8 * blob_size (blob b2) = length (stream b2)" using g by (simp add: stream_def growing_size)
  have m: "blob_size (blob b2) < 2 ^ 63" using g by (auto simp: growing_def blob_ok_def)
  have "length (wstream s) \<le> length (stream b2)" using a2 s1 by simp
  then have lt: "o' + 4 \<le> blob_size (blob b2)" using assms(5) sz by simp
  then have off: "o' < 2 ^ 63" "nat (int o' mod 2 ^ 64) = o'" using m by simp_all
  define n where "n = nat ((int (blob_size (blob b2)) - int o' - 1) mod 2 ^ 64) div 4"
  obtain ok bl where o: "blob_overwrite_bytes (blob b2) o' (le_bytes 4 (of_nat n :: 32 word)) = (ok, bl)"
    by fastforce
  note ow = blob_overwrite_bytes_ok [OF g(1) o off(1), simplified]
  have "blob_overwrite_uint32 (blob b2) o' (of_nat n) = Inr (True, bl)"
    using o ow(2) lt align_4 [OF assms(4) off(1)]
    by (simp add: blob_overwrite_uint32_def blob_overwrite_type_def)
  moreover have "blob_room bl k" using b2(2) ow by (simp add: buffer_room_def blob_room_def)
  ultimately show ?thesis
    using b1(1) b2(1) assms(2,3) off(2)
    by (simp add: exit_block_def on_buf_def buffer_room_def n_def)
qed

theorem delivers_block:
  assumes "delivers d body is"
  shows "delivers (Suc d) (seq [enter_subblock i w', body, exit_block]) [Block i w' is]"
  unfolding delivers_def
proof
  have a: "emits body is" "completes d body is" using assms by (simp_all add: delivers_def)
  show "emits (seq [enter_subblock i w', body, exit_block]) [Block i w' is]" by (rule emits_block [OF a(1)])
  show "completes (Suc d) (seq [enter_subblock i w', body, exit_block]) [Block i w' is]"
    unfolding completes_def
  proof (intro allI impI, elim conjE)
    fix s k
    assume ok: "writer_ok s" and dp: "length (blocks s) + Suc d < MAX_BLOCKS"
      and f: "list_all (item_fits (wwidth s)) [Block i w' is]" and r: "items_room s [Block i w' is] k"
    define h where "h = block_header (wwidth s) (length (wstream s)) i w'"
    define bd where "bd = enc_items w' 0 is"
    define ft where "ft = block_footer w' (length bd)"
    have fits: "0 < wwidth s" "wwidth s \<le> 32" "0 < w'" "w' \<le> 32" "list_all (item_fits w') is"
      using f by simp_all
    let ?k1 = "4 * length bd + (4 * length ft + k)"
    have "buffer_room (wbuf s) (4 * length h + 4 + ?k1)"
      using r by (auto simp: block_bits_def h_def bd_def ft_def Let_def elim: buffer_room_mono)
    then obtain s1 where s1: "enter_subblock i w' s = Inr s1" "buffer_room (wbuf s1) ?k1"
      using enter_subblock_room [OF ok, of i w' ?k1] fits dp unfolding h_def by auto
    have no: "\<not> oom (wbuf s1)" using s1(2) by (simp add: buffer_room_def blob_room_def oom_def)
    obtain o' j where 1: "writer_ok s1" "wwidth s1 = w'" "blocks s1 = (wwidth s, int o') # blocks s"
      "wstream s1 = wstream s @ h @ j" "8 * o' = length (wstream s @ h)" "o' mod 4 = 0" "length j = 32"
      using enter_subblock_ok [OF ok s1(1) no, folded h_def] by (elim exE conjE) (rule that)
    have p: "length (wstream s1) mod 32 = 0"
    proof -
      have "length (wstream s1) = 8 * o' + 32" using 1 by simp
      then show ?thesis using 1(6) by presburger
    qed
    have bd: "enc_items (wwidth s1) (length (wstream s1)) is = bd"
      using enc_items_cong [of "length (wstream s1)" 0] p 1(2) by (simp add: bd_def)
    obtain s2 where s2: "body s1 = Inr s2" "buffer_room (wbuf s2) (4 * length ft + k)"
      using completesD [OF a(2) 1(1), of "4 * length ft + k"] bd s1(2) fits(5) dp 1(2,3) by auto
    note 2 = emitsD [OF a(1) s2(1) 1(1)]
    have ft: "block_footer w' (length (wstream s2)) = ft"
    proof -
      have "(length (wstream s2) + n) mod 32 = (length bd + n) mod 32" for n
        using 2 bd p by (simp add: mod_simps add.commute) (metis add.commute mod_add_right_eq mod_mod_trivial add_0)
      then show ?thesis by (simp add: block_footer_def pad_def ft_def)
    qed
    have len: "8 * o' + 32 \<le> length (wstream s2)" using 1 2 by simp
    obtain s3 where "exit_block s2 = Inr s3" "buffer_room (wbuf s3) k"
      using exit_block_room [of s2 "wwidth s" o' "blocks s" k] 1 2 len fits dp ft s2(2) by auto
    then show "\<exists>s'. seq [enter_subblock i w', body, exit_block] s = Inr s' \<and> buffer_room (wbuf s') k"
      using s1(1) s2(1) by simp
  qed
qed

lemma delivers_block_seq:
  assumes "delivers d (seq fs) is"
  shows "delivers (Suc d) (seq (enter_subblock i w' # fs @ [exit_block])) [Block i w' is]"
proof -
  have "seq (enter_subblock i w' # fs @ [exit_block]) = seq [enter_subblock i w', seq fs, exit_block]"
  proof -
    have "seq (fs @ [exit_block]) = seq [seq fs, exit_block]" by (rule ext) (simp add: seq_append)
    then show ?thesis by (simp only: seq_fun)
  qed
  then show ?thesis using delivers_block [OF assms] by simp
qed

end
