(* ===== verification/Module_File.thy ===== *)
theory Module_File
  imports Module_Stream Room
begin

text \<open>
  The file that \<open>dxil_emit_module\<close> writes can be read back; for the empty module, given memory, it is
  written.
\<close>

section \<open>The whole file\<close>

lemma magic_bits:
  "nat_bits 8 0x42 @ nat_bits 8 0x43 @ nat_bits 8 0xC0 @ nat_bits 8 0xDE @ [] = nat_bits 32 bitcode_magic"
  by (simp add: nat_bits_def bitcode_magic_def upt_rec bit_0)

lemma emit_magic_ok:
  assumes "emit_magic s = Inr s'" and "writer_ok s"
  shows "writer_ok s' \<and> wwidth s' = wwidth s \<and> blocks s' = blocks s \<and>
    wstream s' = wstream s @ nat_bits 32 bitcode_magic"
proof -
  let ?f = "seq [\<lambda>b. dxil_buffer_emit_bits b 0x42 8, \<lambda>b. dxil_buffer_emit_bits b 0x43 8,
      \<lambda>b. dxil_buffer_emit_bits b 0xC0 8, \<lambda>b. dxil_buffer_emit_bits b 0xDE 8]"
  obtain b where b: "?f (wbuf s) = Inr b" "s' = s\<lparr>wbuf := b\<rparr>"
    using assms(1) by (auto simp: emit_magic_def on_buf_def simp del: seq.simps)
  have "appends ?f (\<lambda>_. nat_bits 8 (unat (0x42 :: 32 word)) @ nat_bits 8 (unat (0x43 :: 32 word)) @
      nat_bits 8 (unat (0xC0 :: 32 word)) @ nat_bits 8 (unat (0xDE :: 32 word)) @ [])
      (\<lambda>_. True)"
    by (rule appends_cong, (rule appends_seq_Cons [OF appends_bits] appends_seq_Nil)+) simp
  from appendsD [OF this b(1)] show ?thesis
    using assms(2) by (simp add: writer_ok_def wwidth_def wstream_def b(2) magic_bits [simplified])
qed

lemma emitted_module:
  assumes "dxil_emit_module m = Inr m'" and "writer_ok (m_writer m)"
    and "wstream (m_writer m) = []" and "wwidth (m_writer m) = 2"
  obtains "is" where "writer_ok (m_writer m')" and "module_items (assign_values m) is"
    and "wstream (m_writer m') = nat_bits 32 bitcode_magic @ enc_item 2 32 (Block 8 3 is)"
    and "item_fits 2 (Block 8 3 is)"
proof -
  define n where "n = assign_values m"
  have w: "m_writer n = m_writer m" by (simp add: n_def assign_values_def Let_def)
  obtain s t where s: "emit_magic (m_writer m) = Inr s" "emit_module_block n s = Inr t"
    "m_writer m' = t"
    using assms(1) w by (auto simp: dxil_emit_module_def Let_def simp flip: n_def)
  note magic = emit_magic_ok [OF s(1) assms(2), unfolded assms(3,4)]
  obtain "is" where "is": "emits (emit_module_block n) [Block 8 3 is]" "module_items n is"
    using emits_module by blast
  from emitsD [OF "is"(1) s(2)] magic
  have "writer_ok t" "wstream t = nat_bits 32 bitcode_magic @ enc_item 2 32 (Block 8 3 is)"
    "item_fits 2 (Block 8 3 is)" by (simp_all del: enc_item.simps item_fits.simps)
  with "is"(2) show thesis unfolding n_def s(3) [symmetric] by (intro that)
qed

lemma emitted_module_read:
  assumes "dxil_emit_module m = Inr m'" and "writer_ok (m_writer m)"
    and "wstream (m_writer m) = []" and "wwidth (m_writer m) = 2"
    and "length (wstream (m_writer m')) < 2 ^ 37"
  shows "\<exists>is. rd_bitcode (wstream (m_writer m')) = Some (Block 8 3 is) \<and>
    module_items (assign_values m) is"
proof -
  obtain "is" where "is": "module_items (assign_values m) is"
    and t: "wstream (m_writer m') = nat_bits 32 bitcode_magic @ enc_item 2 32 (Block 8 3 is)"
      "item_fits 2 (Block 8 3 is)"
    by (rule emitted_module [OF assms(1-4)])
  have "rd_bitcode (wstream (m_writer m')) = Some (Block 8 3 is)"
    unfolding t(1) by (rule rd_bitcode_enc [OF readable_module [OF "is"] t(2)])
      (use assms(5) t(1) in \<open>simp del: enc_item.simps\<close>)
  then show ?thesis using "is" by auto
qed


section \<open>How long items are\<close>

lemma vbr_enc_length: "n < 2 ^ j \<Longrightarrow> 0 < k \<Longrightarrow> length (vbr_enc k n) \<le> Suc j * Suc k"
proof (induction j arbitrary: n)
  case 0
  then show ?case by (subst vbr_enc.simps) simp
next
  case (Suc j)
  have "(2 :: nat) ^ 1 \<le> 2 ^ k" using Suc.prems by (intro power_increasing) auto
  then have "n div 2 ^ k \<le> n div 2" by (metis div_le_mono2 power_one_right zero_less_numeral)
  then have "n div 2 ^ k < 2 ^ j" using Suc.prems by (auto simp: less_mult_imp_div_less mult.commute)
  then have "length (vbr_enc k (n div 2 ^ k)) \<le> Suc j * Suc k" using Suc by blast
  then show ?case by (subst vbr_enc.simps) simp
qed

lemma vbr_enc_word: "0 < k \<Longrightarrow> length (vbr_enc k (unat (d :: 'a::len word))) \<le> Suc LENGTH('a) * Suc k"
  by (rule vbr_enc_length) (rule unsigned_less)

fun items_bound :: "nat \<Rightarrow> item list \<Rightarrow> nat" where
  "items_bound w [] = 0"
| "items_bound w (Record code ds # is) = w + 588 + 390 * length ds + items_bound w is"
| "items_bound w (Definition a # is) = w + 325 + 521 * length a + items_bound w is"
| "items_bound w (Block i w' is' # is) = w + w' + 618 + items_bound w' is' + items_bound w is"
| "items_bound w (Abbreviated i a ds # is) = length (enc_items w 0 [Abbreviated i a ds]) + items_bound w is"

lemma concat_length_le: "(\<And>x. length (f x) \<le> n) \<Longrightarrow> length (concat (map f xs)) \<le> n * length xs"
proof (induction xs)
  case (Cons x xs)
  then have "length (concat (map f xs)) \<le> n * length xs" "length (f x) \<le> n" by blast+
  then show ?case by simp
qed simp

lemma definition_bits_length: "length (definition_bits op) \<le> 521"
  using vbr_enc_word [of 7 "_ :: 64 word"] vbr_enc_word [of 4 "_ :: 64 word"]
  by (cases op) (auto intro: order_trans [of _ 325])

lemma pad_length: "length (pad p) \<le> 31"
  using mod_less_divisor [of 32 "32 - p mod 32"] by (simp add: pad_def)

lemma enc_items_length: "length (enc_items w p is) \<le> items_bound w is"
proof (induction w "is" arbitrary: p rule: items_bound.induct)
  case (2 w code ds "is")
  have "length (vbr_enc 5 (unat code)) \<le> 198" "length (vbr_enc 5 (len_u64 ds)) \<le> 390"
    using vbr_enc_word [of 5 code] vbr_enc_word [of 5 "of_nat (length ds) :: 64 word"]
    by (simp_all add: len_u64_def)
  moreover have "length (concat (map (\<lambda>d. vbr_enc 5 (unat d)) ds)) \<le> 390 * length ds"
  proof (rule concat_length_le)
    show "length (vbr_enc 5 (unat d)) \<le> 390" for d :: "64 word" using vbr_enc_word [of 5 d] by simp
  qed
  ultimately have "length (enc_item w p (Record code ds)) \<le> w + 588 + 390 * length ds" by simp
  then show ?case using 2 [of "p + length (enc_item w p (Record code ds))"]
    by (simp add: Let_def del: enc_item.simps)
next
  case (3 w a "is")
  have "length (vbr_enc 4 (len_u64 a)) \<le> 325"
    using vbr_enc_word [of 4 "of_nat (length a) :: 64 word"] by (simp add: len_u64_def)
  then have "length (enc_item w p (Definition a)) \<le> w + 325 + 521 * length a"
    using concat_length_le [of definition_bits 521 a] definition_bits_length by simp
  then show ?case using 3 [of "p + length (enc_item w p (Definition a))"]
    by (simp add: Let_def del: enc_item.simps)
next
  case (4 w i w' is' "is")
  have "length (vbr_enc 7 (unat i)) \<le> 264" "length (vbr_enc 3 (unat (of_nat w' :: 64 word))) \<le> 260"
    using vbr_enc_word [of 7 i] vbr_enc_word [of 3 "of_nat w' :: 64 word"] by simp_all
  moreover define h where "h = nat_bits w 1 @ vbr_enc 7 (unat i) @ vbr_enc 3 (unat (of_nat w' :: 64 word))"
  ultimately have "length h \<le> w + 524" by simp
  then have "length (block_header w p i w') \<le> w + 555"
    using pad_length [of "p + length h"] unfolding block_header_def Let_def h_def [symmetric] length_append by linarith
  then have "length (enc_item w p (Block i w' is')) \<le> w + w' + 618 + items_bound w' is'"
    using 4(1) [of 0] pad_length [of "length (enc_items w' 0 is') + w'"]
    by (simp add: block_bits_def block_footer_def Let_def)
  then show ?case using 4(2) [of "p + length (enc_item w p (Block i w' is'))"]
    by (simp add: Let_def del: enc_item.simps)
qed (simp_all add: Let_def)


section \<open>The empty module\<close>

definition empty_items :: "item list" where
  "empty_items = [Record 1 [1], Block 0 2 blockinfo_items, Block 10 3 [], Block 9 3 [],
     Block 17 4 (map Definition type_table_abbrevs @ [Record 1 [1], Record 16 []])] @ target_items @
     [Definition (simple_gvar_abbr (dxil_module_init 0 0)),
     Block 11 4 (map Definition module_const_abbrevs), Block 15 3 (map Definition metadata_abbrevs),
     Block 14 4 []]"

lemma delivers_define_abbrevs: "delivers d (seq (map define_abbrev as)) (map Definition as)"
  using delivers_seq_map [of as d define_abbrev "\<lambda>a. [Definition a]"] delivers_define_abbrev by simp

lemma delivers_switch:
  "delivers d (seq (switch_to_block b # map define_abbrev as)) (Record 1 [scast b] # map Definition as)"
  using delivers_seq_Cons [OF delivers_record_int delivers_define_abbrevs, of d 1 b as]
  by (simp add: switch_to_block_def del: seq.simps)

lemma delivers_blockinfo: "delivers 1 emit_blockinfo [Block 0 2 blockinfo_items]"
proof -
  have "delivers 0 (seq [emit_value_symtab_abbrevs, emit_const_abbrevs, emit_function_abbrevs]) blockinfo_items"
    unfolding blockinfo_items_def emit_value_symtab_abbrevs_def emit_const_abbrevs_def
      emit_function_abbrevs_def
    using delivers_seq_Cons [OF delivers_switch delivers_seq_Cons [OF delivers_switch
          delivers_seq_single [OF delivers_switch]],
        of 0 14 value_symtab_abbrevs 11 const_abbrevs 12 func_abbrevs]
    by (simp del: seq.simps)
  from delivers_block [OF this, of 0 2] show ?thesis
    by (simp add: emit_blockinfo_def seq_fun delivers_def emits_def completes_def bind_result_assoc)
qed

lemma init_simps:
  "type_list (dxil_module_init l j) = []" "gvar_list (dxil_module_init l j) = []"
  "func_list (dxil_module_init l j) = []" "func_def_list (dxil_module_init l j) = []"
  "attr_set_list (dxil_module_init l j) = []" "const_list (dxil_module_init l j) = []"
  "mdnode_list (dxil_module_init l j) = []" "md_named_node_list (dxil_module_init l j) = []"
  "m_writer (dxil_module_init l j) = \<lparr>wbuf = dxil_buffer_init l j 2, blocks = []\<rparr>"
  by (simp_all add: dxil_module_init_def)

lemma delivers_table_block:
  assumes "delivers 0 (seq fs) is"
  shows "delivers 1 (seq (enter_subblock k w # seq (map define_abbrev table) # fs @ [exit_block]))
    [Block k w (map Definition table @ is)]"
  using delivers_block_seq [OF delivers_seq_Cons [OF delivers_define_abbrevs assms], of k w table] by simp

lemma delivers_empty: "delivers 2 (emit_module_block (dxil_module_init l j)) [Block 8 3 empty_items]"
proof -
  let ?m = "dxil_module_init l j"
  note nil = delivers_seq_Nil [of 0] and skip = delivers_skip [of 0]
  have v: "delivers 1 (emit_record_int 1 1) [Record 1 [1]]" using delivers_record_int [of 1 1 1] by simp
  have ag: "delivers 1 (emit_attrib_group_table ?m) [Block 10 3 []]"
    "delivers 1 (emit_attribute_table ?m) [Block 9 3 []]"
    "delivers 1 (emit_value_symbol_table ?m) [Block 14 4 []]"
    using delivers_block_seq [OF nil, of 10 3] delivers_block_seq [OF nil, of 9 3]
      delivers_block_seq [OF nil, of 14 4]
    by (simp_all add: emit_attrib_group_table_def emit_attribute_table_def emit_value_symbol_table_def
        init_simps del: seq.simps)
  have t: "delivers 0 (seq [emit_record_int 1 1, emit_record 16 []]) [Record 1 [1], Record 16 []]"
    using delivers_seq_Cons [OF delivers_record_int delivers_seq_single [OF delivers_record], of 0 1 1 16 "[]"]
    by (simp del: seq.simps)
  have ty: "delivers 1 (emit_type_table ?m) [Block 17 4 (map Definition type_table_abbrevs @ [Record 1 [1], Record 16 []])]"
    using delivers_table_block [OF t, of 17 4 type_table_abbrevs]
    by (simp add: emit_type_table_def init_simps emit_metadata_type_def emit_type_table_abbrevs_def
        TYPE_CODE_NUMENTRY_def TYPE_CODE_METADATA_def del: seq.simps)
  have c: "emit_consts ?m = Inr" by (simp add: emit_consts_def init_simps fun_eq_iff)
  have cs: "delivers 1 (emit_module_consts ?m) [Block 11 4 (map Definition module_const_abbrevs)]"
    using delivers_table_block [OF delivers_seq_single [OF skip], of 11 4 module_const_abbrevs]
    by (simp add: emit_module_consts_def emit_module_const_abbrevs_def c del: seq.simps)
  have n: "emit_metadata_nodes ?m = Inr" "emit_metadata_named_nodes ?m = Inr"
    by (simp_all add: emit_metadata_nodes_def emit_metadata_named_nodes_def init_simps fun_eq_iff)
  have md: "delivers 1 (emit_metadata ?m) [Block 15 3 (map Definition metadata_abbrevs)]"
    using delivers_table_block [OF delivers_seq_Cons [OF skip delivers_seq_single [OF skip]], of 15 3 metadata_abbrevs]
    by (simp add: emit_metadata_def emit_metadata_abbrevs_def n del: seq.simps)
  have str: "emit_target_triple ''dxil-ms-dx'' = emit_record 2 (map char_u64 ''dxil-ms-dx'')"
    "emit_datalayout ''e-m:e-p:32:32-i1:32-i8:32-i16:32-i32:32-i64:64-f16:32-f32:32-f64:64-n8:16:32:64''
      = emit_record 3 (map char_u64
          ''e-m:e-p:32:32-i1:32-i8:32-i16:32-i32:32-i64:64-f16:32-f32:32-f64:64-n8:16:32:64'')"
    by (simp_all add: emit_target_triple_def emit_datalayout_def fun_eq_iff del: list.map)
  have a: "simple_gvar_abbr ?m = simple_gvar_abbr (dxil_module_init 0 0)"
    by (simp add: simple_gvar_abbr_def init_simps)
  have mi: "delivers 1 (emit_module_info ?m) (target_items @ [Definition (simple_gvar_abbr (dxil_module_init 0 0))])"
    unfolding emit_module_info_def init_simps Let_def str a
    using delivers_seq_Cons [OF delivers_record delivers_seq_Cons [OF delivers_record
        delivers_seq_single [OF delivers_define_abbrev]]]
    by (simp add: target_items_def del: seq.simps list.map(2))
  have "delivers 1 (seq [emit_record_int 1 1, emit_blockinfo, emit_attrib_group_table ?m,
      emit_attribute_table ?m, emit_type_table ?m, emit_module_info ?m, emit_module_consts ?m,
      emit_metadata ?m, emit_value_symbol_table ?m])
      ([Record 1 [1]] @ [Block 0 2 blockinfo_items] @ [Block 10 3 []] @ [Block 9 3 []] @
       [Block 17 4 (map Definition type_table_abbrevs @ [Record 1 [1], Record 16 []])] @
       (target_items @ [Definition (simple_gvar_abbr (dxil_module_init 0 0))]) @
       [Block 11 4 (map Definition module_const_abbrevs)] @
       [Block 15 3 (map Definition metadata_abbrevs)] @ [Block 14 4 []])"
    by (intro delivers_seq_Cons delivers_seq_single v delivers_blockinfo ag ty mi cs md)
  from delivers_block_seq [OF this, of 8 3] show ?thesis
    by (simp add: emit_module_block_def empty_items_def init_simps numeral_2_eq_2 del: seq.simps)
qed

lemma empty_bound: "items_bound 2 [Block 8 3 empty_items] < 2 ^ 20"
  by (simp add: empty_items_def blockinfo_items_def table_defs target_items_def simple_gvar_abbr_def init_simps)

lemma empty_fits: "item_fits 2 (Block 8 3 empty_items)"
  by (simp add: empty_items_def blockinfo_items_def table_defs target_items_def simple_gvar_abbr_def width_ok_def)

lemma emit_magic_room:
  assumes "writer_ok s" and "buffer_room (wbuf s) (16 + k)"
  shows "\<exists>s'. emit_magic s = Inr s' \<and> buffer_room (wbuf s') k"
proof -
  have "list_all field_ok [(0x42, 8), (0x43, 8), (0xC0, 8), (0xDE, 8)]"
    by simp
  from bit_sink.put_all_room [OF assms(1) [unfolded writer_ok_def] this, of k] assms(2)
  obtain b where "seq [\<lambda>b. dxil_buffer_emit_bits b 0x42 8, \<lambda>b. dxil_buffer_emit_bits b 0x43 8,
      \<lambda>b. dxil_buffer_emit_bits b 0xC0 8, \<lambda>b. dxil_buffer_emit_bits b 0xDE 8] (wbuf s) = Inr b"
    "buffer_room b k" by auto
  then show ?thesis unfolding emit_magic_def on_buf_def by (simp del: seq.simps)
qed

lemma init_writer:
  "writer_ok (m_writer (dxil_module_init (2 ^ 40) 0))" "wstream (m_writer (dxil_module_init (2 ^ 40) 0)) = []"
  "wwidth (m_writer (dxil_module_init (2 ^ 40) 0)) = 2" "blocks (m_writer (dxil_module_init (2 ^ 40) 0)) = []"
  "n < 2 ^ 30 \<Longrightarrow> buffer_room (wbuf (m_writer (dxil_module_init (2 ^ 40) 0))) n"
  using buffer_init_ok [of "2 ^ 40" 0 2]
  by (simp_all add: init_simps writer_ok_def wstream_def wwidth_def dxil_buffer_init_def buffer_room_def
      blob_room_def blob_init_def BLOB_INITIAL_SIZE_def)

lemma init_record_returns:
  assumes "length ds < 1000"
  shows "\<exists>s'. emit_record c ds (m_writer (dxil_module_init (2 ^ 40) 0)) = Inr s'"
proof -
  let ?s = "m_writer (dxil_module_init (2 ^ 40) 0)"
  have "items_bound 2 [Record c ds] < 2 ^ 20" using assms by simp
  then have "length (enc_items 2 0 [Record c ds]) < 2 ^ 20" using enc_items_length by (rule le_less_trans [rotated])
  then have "items_room ?s [Record c ds] 0"
    unfolding init_writer by (intro init_writer) simp
  moreover have "list_all (item_fits (wwidth ?s)) [Record c ds]"
    unfolding init_writer using assms by (simp add: width_ok_def)
  ultimately show ?thesis
    using completesD [OF delivers_record [of 0 c ds, unfolded delivers_def, THEN conjunct2] init_writer(1), of 0]
    unfolding init_writer MAX_BLOCKS_def by auto
qed

lemma block_words: "(p + length (enc_item w p (Block k v is))) mod 32 = 0"
proof -
  let ?h = "block_header w p k v" and ?b = "enc_items v 0 is"
  have mod0: "a mod 32 = 0 \<Longrightarrow> b mod 32 = 0 \<Longrightarrow> (a + 32 + b) mod 32 = 0" for a b :: nat
    by presburger
  have "(p + length ?h) mod 32 = 0"
    using length_pad [of "p + (w + length (vbr_enc 7 (unat k)) + length (vbr_enc 3 (unat (of_nat v :: 64 word))))"]
    by (simp add: block_header_def Let_def add.assoc)
  moreover have "(length ?b + length (block_footer v (length ?b))) mod 32 = 0"
    using length_pad [of "length ?b + v"] by (simp add: block_footer_def add.assoc)
  ultimately have "((p + length ?h) + 32 + (length ?b + length (block_footer v (length ?b)))) mod 32 = 0"
    by (rule mod0)
  then show ?thesis by (simp add: block_bits_def Let_def add.assoc)
qed

lemma init_module_emitted:
  obtains m' where "dxil_emit_module (dxil_module_init (2 ^ 40) 0) = Inr m'"
    and "length (wstream (m_writer m')) < 2 ^ 21" and "length (wstream (m_writer m')) mod 32 = 0"
proof -
  let ?m = "dxil_module_init (2 ^ 40) 0"
  have a: "assign_values ?m = ?m" by (simp add: assign_values_def dxil_module_init_def)
  note s = init_writer(1-4)
  define n where "n = length (enc_items 2 32 [Block 8 3 empty_items])"
  have n: "n < 2 ^ 20" using enc_items_length [of 2 32 "[Block 8 3 empty_items]"] empty_bound by (simp add: n_def)
  then have "buffer_room (wbuf (m_writer ?m)) (16 + (4 * n + 0))"
    by (intro init_writer) simp
  from emit_magic_room [OF s(1) this]
  obtain t where t: "emit_magic (m_writer ?m) = Inr t" "buffer_room (wbuf t) (4 * n + 0)" by auto
  note t' = emit_magic_ok [OF t(1) s(1), unfolded s]
  obtain u where u: "emit_module_block ?m t = Inr u"
    using completesD [OF delivers_empty [unfolded delivers_def, THEN conjunct2], of t 0] t' t(2) empty_fits
    by (auto simp: n_def MAX_BLOCKS_def)
  define m' where "m' = ?m\<lparr>m_writer := u\<rparr>"
  have e: "dxil_emit_module ?m = Inr m'"
    using t(1) u unfolding dxil_emit_module_def a Let_def m'_def by simp
  have w: "wstream u = nat_bits 32 bitcode_magic @ enc_items 2 32 [Block 8 3 empty_items]"
    using emitsD [OF delivers_empty [unfolded delivers_def, THEN conjunct1] u] t' by simp
  have "length (enc_items 2 32 [Block 8 3 empty_items]) mod 32 = 0"
    using block_words [of 32 2 8 3 empty_items] by simp
  with w n have "length (wstream (m_writer m')) < 2 ^ 21" "length (wstream (m_writer m')) mod 32 = 0"
    by (simp_all add: m'_def n_def)
  with e show thesis by (rule that)
qed


end
