(* ===== verification/Operands.thy ===== *)
theory Operands
  imports Values Module_File
begin

text \<open>
  Reading the operands of an instruction back from its record. \<open>read_refs\<close> is what LLVM's reader does
  with a record: most operands are distances from the number of the instruction, those of a phi are
  sign-rotated because they may lie ahead, the size of an \<open>alloca\<close> is absolute.
\<close>

section \<open>The records of one instruction\<close>

fun item_record :: "item \<Rightarrow> nat \<times> 64 word list" where
  "item_record (Record c ds) = (unat c, ds)"
| "item_record (Abbreviated i a ds) = (case ds of [] \<Rightarrow> (0, []) | c # ds \<Rightarrow> (unat c, ds))"
| "item_record _ = (0, [])"

fun every_other :: "'a list \<Rightarrow> 'a list" where
  "every_other (x # y # xs) = x # every_other xs"
| "every_other [x] = [x]"
| "every_other [] = []"

definition read_refs :: "int \<Rightarrow> nat \<times> 64 word list \<Rightarrow> int list" where
  "read_refs n = (\<lambda>(c, ds).
     let rel = map (\<lambda>d. n - sint d) in
     if c \<in> {2, 28, 38, 44} then rel (take 2 ds)
     else if c \<in> {3, 20, 26} then rel (take 1 ds)
     else if c \<in> {11, 43} then rel (drop 2 ds)
     else if c = 16 then rel (map decode_signed (every_other (tl ds)))
     else if c = 19 then map sint (take 1 (drop 2 ds))
     else if c = 29 then rel ds
     else if c = 34 then rel (drop 3 ds)
     else if c = 37 then rel (take 3 ds)
     else [])"

lemma read_refs_simps:
  "c \<in> {2, 28, 38, 44} \<Longrightarrow> read_refs n (c, ds) = map (\<lambda>d. n - sint d) (take 2 ds)"
  "c \<in> {3, 20, 26} \<Longrightarrow> read_refs n (c, ds) = map (\<lambda>d. n - sint d) (take 1 ds)"
  "c \<in> {11, 43} \<Longrightarrow> read_refs n (c, ds) = map (\<lambda>d. n - sint d) (drop 2 ds)"
  "read_refs n (16, ds) = map (\<lambda>d. n - sint d) (map decode_signed (every_other (tl ds)))"
  "read_refs n (19, ds) = map sint (take 1 (drop 2 ds))"
  "read_refs n (29, ds) = map (\<lambda>d. n - sint d) ds"
  "read_refs n (34, ds) = map (\<lambda>d. n - sint d) (drop 3 ds)"
  "read_refs n (37, ds) = map (\<lambda>d. n - sint d) (take 3 ds)"
  "read_refs n (10, ds) = []"
  by (auto simp: read_refs_def)

text \<open>The operands, in the order of the record.\<close>

fun operand_refs :: "instr_data \<Rightarrow> val_ref list" where
  "operand_refs (INSTR_BINOP opcode a b flags) = [a, b]"
| "operand_refs (INSTR_CMP pred a b) = [a, b]"
| "operand_refs (INSTR_SELECT c a b) = [a, b, c]"
| "operand_refs (INSTR_CAST opcode type v) = [v]"
| "operand_refs (INSTR_BR cond succ0 succ1) = (case cond of None \<Rightarrow> [] | Some c \<Rightarrow> [c])"
| "operand_refs (INSTR_PHI type incoming) = map fst incoming"
| "operand_refs (INSTR_CALL f args) = FUNC_REF f # args"
| "operand_refs (INSTR_RET v) = []"
| "operand_refs (INSTR_EXTRACTVAL src type idx) = [src]"
| "operand_refs (INSTR_ALLOCA alloc_type size_type sz align) = [sz]"
| "operand_refs (INSTR_GEP inbounds type vs) = vs"
| "operand_refs (INSTR_LOAD ptr type align vol) = [ptr]"
| "operand_refs (INSTR_STORE v ptr align vol) = [ptr, v]"
| "operand_refs (INSTR_ATOMICRMW v ptr rmw vol order scope) = [ptr, v]"
| "operand_refs (INSTR_CMPXCHG cmp new ptr vol order scope) = [ptr, cmp, new]"

text \<open>\<open>emitted s it s'\<close>: between the two states of the writer stands the one item \<open>it\<close>.\<close>

definition emitted :: "writer \<Rightarrow> item \<Rightarrow> writer \<Rightarrow> bool" where
  "emitted s it s' \<longleftrightarrow> writer_ok s' \<and>
     wstream s' = wstream s @ enc_item (wwidth s) (length (wstream s)) it"

lemma emitted_if_emits: "emits f [it] \<Longrightarrow> f s = Inr s' \<Longrightarrow> writer_ok s \<Longrightarrow> emitted s it s'"
  using emitsD [of f "[it]" s s'] by (simp add: emitted_def)

lemma emitted_plain:
  "on_buf (emit_record_no_abbrev c ds) s = Inr s' \<Longrightarrow> writer_ok s \<Longrightarrow> emitted s (Record c ds) s'"
  using emitted_if_emits [OF emits_record] by (simp add: emit_record_def)

lemma emitted_func_record:
  "emit_func_abbrev_record a ds s = Inr s' \<Longrightarrow> writer_ok s \<Longrightarrow>
   \<exists>i ab. emitted s (Abbreviated i ab ds) s'"
  using emitted_if_emits [OF emits_table_record] unfolding emit_func_abbrev_record_def by blast

lemma sint_u64: "- (2 ^ 63) \<le> x \<Longrightarrow> x < 2 ^ 63 \<Longrightarrow> sint (u64 x) = x"
proof -
  assume "- (2 ^ 63) \<le> x" "x < 2 ^ 63"
  then have "signed_take_bit 63 x = x" by (rule signed_take_bit_int_eq_self)
  then show ?thesis by (simp add: sint_sbintrunc' [where 'a = 64, simplified])
qed

text \<open>The numbers of values are C integers.\<close>

abbreviation (input) c_int :: "int \<Rightarrow> bool" where
  "c_int x \<equiv> - (2 ^ 31) \<le> x \<and> x < 2 ^ 31"

lemma relative_back:
  assumes "c_int (instr_id i)" and "c_int (id_of m v)"
  shows "instr_id i - sint (relative m i v) = id_of m v"
proof -
  have "sint (relative m i v) = instr_id i - id_of m v"
    using assms unfolding relative_def by (intro sint_u64) simp_all
  then show ?thesis by simp
qed

lemma relative_all:
  "c_int (instr_id i) \<Longrightarrow> \<forall>v \<in> set vs. c_int (id_of m v) \<Longrightarrow>
   map (\<lambda>v. instr_id i - sint (relative m i v)) vs = map (\<lambda>v. id_of m v) vs"
  using relative_back by (simp add: map_eq_conv)

lemma phi_entries_refs:
  "phi_entries m func i k incoming = Inr es \<Longrightarrow>
   map decode_signed (every_other es) = map (\<lambda>(v, b). relative m i v) incoming"
proof (induction incoming arbitrary: k es)
  case (Cons vb incoming)
  obtain v b where "vb = (v, b)" by fastforce
  then show ?case
    using Cons by (auto simp: decode_encode_signed split: if_splits)
qed simp

lemmas func_codes = FUNC_CODE_INST_BINOP_def FUNC_CODE_INST_CAST_def FUNC_CODE_INST_RET_def
  FUNC_CODE_INST_BR_def FUNC_CODE_INST_PHI_def FUNC_CODE_INST_ALLOCA_def FUNC_CODE_INST_LOAD_def
  FUNC_CODE_INST_EXTRACTVAL_def FUNC_CODE_INST_CMP2_def FUNC_CODE_INST_VSELECT_def
  FUNC_CODE_INST_CALL_def FUNC_CODE_INST_CMPXCHG_OLD_def FUNC_CODE_INST_ATOMICRMW_def
  FUNC_CODE_INST_GEP_def FUNC_CODE_INST_STORE_def

text \<open>The record of an instruction that is emitted, and that it is the only item.\<close>

definition refs_back :: "dxil_module \<Rightarrow> dxil_instr \<Rightarrow> writer \<Rightarrow> writer \<Rightarrow> bool" where
  "refs_back m i s s' \<longleftrightarrow> (\<exists>it. emitted s it s' \<and>
     read_refs (instr_id i) (item_record it) = map (\<lambda>v. id_of m v) (operand_refs (instr_data i)))"

lemma refs_back_plain:
  assumes "on_buf (emit_record_no_abbrev c ds) s = Inr s'" and "writer_ok s"
    and "read_refs (instr_id i) (unat c, ds) = map (\<lambda>v. id_of m v) (operand_refs (instr_data i))"
  shows "refs_back m i s s'"
  unfolding refs_back_def using emitted_plain [OF assms(1,2)] assms(3)
  by (intro exI [of _ "Record c ds"]) simp

lemma refs_back_func_record:
  assumes "emit_func_abbrev_record a (c # ds) s = Inr s'" and "writer_ok s"
    and "read_refs (instr_id i) (unat c, ds) = map (\<lambda>v. id_of m v) (operand_refs (instr_data i))"
  shows "refs_back m i s s'"
proof -
  obtain j ab where "emitted s (Abbreviated j ab (c # ds)) s'"
    using emitted_func_record [OF assms(1,2)] by blast
  then show ?thesis
    unfolding refs_back_def using assms(3) by (intro exI [of _ "Abbreviated j ab (c # ds)"]) simp
qed

lemma instr_refs_back:
  assumes "emit_instr m func i s = Inr s'" and "writer_ok s" and "c_int (instr_id i)"
    and "\<forall>v \<in> set (operand_refs (instr_data i)). c_int (id_of m v)"
  shows "refs_back m i s s'"
proof -
  note plain = refs_back_plain [OF _ assms(2)] and abbreviated = refs_back_func_record [OF _ assms(2)]
  note refs = read_refs_simps func_codes relative_back [OF assms(3)]
  have em: "emit_instr m func i s = Inr s'" by (rule assms(1))
  have ids: "\<forall>v \<in> set (operand_refs (instr_data i)). c_int (id_of m v)" by (rule assms(4))
  show ?thesis
  proof (cases "instr_data i")
    case (INSTR_BINOP opcode a b flags)
    then obtain x xs where
      "emit_func_abbrev_record x (FUNC_CODE_INST_BINOP # relative m i a # relative m i b # xs) s = Inr s'"
      using em by (auto simp: emit_instr_def emit_binop_def split: if_splits)
    from abbreviated [OF this] show ?thesis using INSTR_BINOP ids by (simp add: refs)
  next
    case (INSTR_CMP pred a b)
    then obtain xs where
      "on_buf (emit_record_no_abbrev FUNC_CODE_INST_CMP2 (relative m i a # relative m i b # xs)) s = Inr s'"
      using em by (auto simp: emit_instr_def emit_cmp_def split: if_splits)
    from plain [OF this] show ?thesis using INSTR_CMP ids by (simp add: refs)
  next
    case (INSTR_SELECT c a b)
    then have "on_buf (emit_record_no_abbrev FUNC_CODE_INST_VSELECT
        [relative m i a, relative m i b, relative m i c]) s = Inr s'"
      using em by (auto simp: emit_instr_def emit_select_def split: if_splits)
    from plain [OF this] show ?thesis using INSTR_SELECT ids by (simp add: refs)
  next
    case (INSTR_CAST opcode type v)
    then obtain x xs where
      "emit_func_abbrev_record x (FUNC_CODE_INST_CAST # relative m i v # xs) s = Inr s'"
      using em by (auto simp: emit_instr_def emit_cast_def split: if_splits)
    from abbreviated [OF this] show ?thesis using INSTR_CAST ids by (simp add: refs)
  next
    case (INSTR_BR cond b0 b1)
    show ?thesis
    proof (cases cond)
      case None
      then obtain x where "on_buf (emit_record_no_abbrev FUNC_CODE_INST_BR [x]) s = Inr s'"
        using em INSTR_BR by (auto simp: emit_instr_def emit_branch_def)
      from plain [OF this] show ?thesis using INSTR_BR None by (simp add: refs)
    next
      case (Some c)
      then obtain x y where "on_buf (emit_record_no_abbrev FUNC_CODE_INST_BR [x, y, relative m i c]) s = Inr s'"
        using em INSTR_BR by (auto simp: emit_instr_def emit_branch_def split: if_splits)
      from plain [OF this] show ?thesis using INSTR_BR Some ids by (simp add: refs)
    qed
  next
    case (INSTR_PHI type incoming)
    then obtain es where es: "phi_entries m func i 0 incoming = Inr es"
      "on_buf (emit_record_no_abbrev FUNC_CODE_INST_PHI (type_id type # es)) s = Inr s'"
      using em by (auto simp: emit_instr_def emit_phi_def split: if_splits)
    have "map (\<lambda>d. instr_id i - sint d) (map decode_signed (every_other es))
        = map (\<lambda>v. instr_id i - sint (relative m i v)) (map fst incoming)"
      unfolding phi_entries_refs [OF es(1)] by (auto simp: comp_def)
    also have "\<dots> = map (\<lambda>v. id_of m v) (map fst incoming)"
      using ids INSTR_PHI by (intro relative_all [OF assms(3)]) simp_all
    finally show ?thesis using INSTR_PHI plain [OF es(2)] by (simp add: refs)
  next
    case (INSTR_CALL f args)
    then obtain x y z where "on_buf (emit_record_no_abbrev FUNC_CODE_INST_CALL
        ([x, y, z] @ map (relative m i) (FUNC_REF f # args))) s = Inr s'"
      using em by (auto simp: emit_instr_def emit_call_def split: if_splits)
    from plain [OF this] show ?thesis
      using INSTR_CALL ids relative_all [OF assms(3), of "FUNC_REF f # args" m] by (simp add: refs comp_def)
  next
    case (INSTR_RET v)
    then obtain x xs where "emit_func_abbrev_record x (FUNC_CODE_INST_RET # xs) s = Inr s'"
      using em by (auto simp: emit_instr_def emit_ret_def split: if_splits option.splits)
    from abbreviated [OF this] show ?thesis using INSTR_RET by (simp add: refs)
  next
    case (INSTR_EXTRACTVAL src type idx)
    then obtain xs where
      "on_buf (emit_record_no_abbrev FUNC_CODE_INST_EXTRACTVAL (relative m i src # xs)) s = Inr s'"
      using em by (auto simp: emit_instr_def emit_extractval_def split: if_splits)
    from plain [OF this] show ?thesis using INSTR_EXTRACTVAL ids by (simp add: refs)
  next
    case (INSTR_ALLOCA alloc_type size_type sz align)
    then obtain x y z where
      "on_buf (emit_record_no_abbrev FUNC_CODE_INST_ALLOCA [x, y, u64 (id_of m sz), z]) s = Inr s'"
      using em by (auto simp: emit_instr_def emit_alloca_def split: if_splits)
    from plain [OF this] show ?thesis using INSTR_ALLOCA ids sint_u64 [of "id_of m sz"] by (simp add: refs)
  next
    case (INSTR_GEP inbounds type vs)
    then obtain x y where "emit_func_abbrev_record FUNC_ABBREV_GEP
        (FUNC_CODE_INST_GEP # [x, y] @ map (relative m i) vs) s = Inr s'"
      using em by (auto simp: emit_instr_def emit_gep_def split: if_splits)
    from abbreviated [OF this] show ?thesis
      using INSTR_GEP ids relative_all [OF assms(3), of vs m] by (simp add: refs comp_def)
  next
    case (INSTR_LOAD ptr type align vol)
    then obtain xs where
      "on_buf (emit_record_no_abbrev (ucast FUNC_CODE_INST_LOAD) (relative m i ptr # xs)) s = Inr s'"
      using em by (auto simp: emit_instr_def emit_load_def split: if_splits)
    from plain [OF this] show ?thesis using INSTR_LOAD ids by (simp add: refs)
  next
    case (INSTR_STORE v ptr align vol)
    then obtain xs where
      "on_buf (emit_record_no_abbrev FUNC_CODE_INST_STORE (relative m i ptr # relative m i v # xs)) s = Inr s'"
      using em by (auto simp: emit_instr_def emit_store_def split: if_splits)
    from plain [OF this] show ?thesis using INSTR_STORE ids by (simp add: refs)
  next
    case (INSTR_ATOMICRMW v ptr rmw vol order scope)
    then obtain xs where
      "on_buf (emit_record_no_abbrev FUNC_CODE_INST_ATOMICRMW (relative m i ptr # relative m i v # xs)) s = Inr s'"
      using em by (auto simp: emit_instr_def emit_atomicrmw_def split: if_splits)
    from plain [OF this] show ?thesis using INSTR_ATOMICRMW ids by (simp add: refs)
  next
    case (INSTR_CMPXCHG cmp new ptr vol order scope)
    then obtain xs where "on_buf (emit_record_no_abbrev FUNC_CODE_INST_CMPXCHG_OLD
        (relative m i ptr # relative m i cmp # relative m i new # xs)) s = Inr s'"
      using em by (auto simp: emit_instr_def emit_cmpxchg_def split: if_splits)
    from plain [OF this] show ?thesis using INSTR_CMPXCHG ids by (simp add: refs)
  qed
qed

section \<open>What a reader finds\<close>


text \<open>A phi that is number 5, with an operand that is number 7.\<close>

definition phi_example :: "dxil_module \<times> dxil_func_def \<times> dxil_instr" where
  "phi_example =
     (let c = \<lparr>const_value = \<lparr>value_id = 7, value_type = 0\<rparr>, const_data = UNDEF\<rparr>
      in ((dxil_module_init (2 ^ 40) 0)\<lparr>const_list := [c]\<rparr>,
          \<lparr>def_func = 0, instr_list = [], basic_block_ids = [0], curr_block = 1\<rparr>,
          \<lparr>instr_data = INSTR_PHI 0 [(CONST_REF 0, 0)], has_value = True,
           instr_value = \<lparr>value_id = 5, value_type = 0\<rparr>\<rparr>))"




end
