(* ===== verification/Io_State.thy ===== *)
theory Io_State
  imports Blob Enums
begin

text \<open>
  The input and output signatures of a shader: the structures of \<open>dxil_signature.h\<close> with the bytes
  they occupy, the string buffer of \<open>src/mesa/src/util/string_buffer.c\<close>, and the part of \<open>struct
  dxil_module\<close> that \<open>dxil_signature.c\<close> fills and \<open>dxil_container.c\<close> writes.

  A C \<open>unsigned\<close> or \<open>uint32_t\<close> is a \<open>32 word\<close>. An array of fixed length is a list of that length.
\<close>

section \<open>String buffers\<close>

text \<open>
  The text of a buffer, terminators included. Its length is a \<open>uint32_t\<close>; appending more than fits is
  refused, except that \<open>len = UINT32_MAX\<close> passes the check for overflow, and the copy then leaves the
  buffer. The capacity, which only says when memory is reallocated, is left out.
\<close>

type_synonym string_buffer = "8 word list"

definition mesa_string_buffer_append_len ::
  "string_buffer \<Rightarrow> 8 word list \<Rightarrow> (bool \<times> string_buffer) result" where
  "mesa_string_buffer_append_len str c =
     (let len = length c mod 2 ^ 32; needed_length = (length str + len + 1) mod 2 ^ 32
      in if needed_length < length str then Inr (False, str)
         else if needed_length < length str + len then Inl Undefined
         else Inr (True, str @ take len c))"

definition string_buffer_ok :: "string_buffer \<Rightarrow> bool" where
  "string_buffer_ok str \<longleftrightarrow> length str < 2 ^ 32"

lemma append_len_ok:
  assumes "string_buffer_ok str" and "mesa_string_buffer_append_len str c = Inr (r, str')"
  shows "string_buffer_ok str'"
proof -
  let ?n = "length c mod 2 ^ 32"
  have "(length str + ?n + 1) mod 2 ^ 32 < 2 ^ 32" by simp
  then show ?thesis
    using assms by (auto simp: mesa_string_buffer_append_len_def string_buffer_ok_def Let_def
      simp del: mod_less_divisor split: if_splits)
qed

lemma append_len_fits:
  "length str + length c + 1 < 2 ^ 32 \<Longrightarrow> mesa_string_buffer_append_len str c = Inr (True, str @ c)"
  by (simp add: mesa_string_buffer_append_len_def Let_def)

text \<open>The callers ignore the result, so a refused append leaves the text as it is.\<close>

definition append_text :: "string_buffer \<Rightarrow> 8 word list \<Rightarrow> string_buffer result" where
  "append_text str c = bind_result (mesa_string_buffer_append_len str c) (\<lambda>(_, str). Inr str)"

lemma append_text_ok: "string_buffer_ok str \<Longrightarrow> append_text str c = Inr str' \<Longrightarrow> string_buffer_ok str'"
  by (auto simp: append_text_def dest: append_len_ok)

lemma append_text_fits: "length str + length c + 1 < 2 ^ 32 \<Longrightarrow> append_text str c = Inr (str @ c)"
  by (simp add: append_text_def append_len_fits)

section \<open>Signatures\<close>

text \<open>\<open>elm_rw_mask\<close> is the union of \<open>never_writes_mask\<close> and \<open>always_reads_mask\<close>.\<close>

record dxil_signature_element =
  elm_stream :: "32 word"
  elm_semantic_name_offset :: "32 word"
  elm_semantic_index :: "32 word"
  elm_system_value :: "32 word"
  elm_comp_type :: "32 word"
  elm_reg :: "32 word"
  elm_mask :: "8 word"
  elm_rw_mask :: "8 word"
  elm_pad :: "16 word"
  elm_min_precision :: "32 word"

definition signature_element_bytes :: "dxil_signature_element \<Rightarrow> 8 word list" where
  "signature_element_bytes e =
     le_bytes 4 (elm_stream e) @ le_bytes 4 (elm_semantic_name_offset e) @
     le_bytes 4 (elm_semantic_index e) @ le_bytes 4 (elm_system_value e) @
     le_bytes 4 (elm_comp_type e) @ le_bytes 4 (elm_reg e) @
     [elm_mask e, elm_rw_mask e] @ le_bytes 2 (elm_pad e) @ le_bytes 4 (elm_min_precision e)"

record dxil_signature_record =
  rec_elements :: "dxil_signature_element list"
  rec_num_elements :: nat
  rec_sysvalue :: "string option"
  rec_name :: string
  rec_sig_comp_type :: "8 word"

record dxil_psv_signature_element =
  psv_semantic_name_offset :: "32 word"
  psv_semantic_indexes_offset :: "32 word"
  psv_rows :: "8 word"
  psv_start_row :: "8 word"
  psv_cols_and_start :: "8 word"
  psv_semantic_kind :: "8 word"
  psv_component_type :: "8 word"
  psv_interpolation_mode :: "8 word"
  psv_dynamic_mask_and_stream :: "8 word"
  psv_reserved :: "8 word"

definition psv_signature_element_bytes :: "dxil_psv_signature_element \<Rightarrow> 8 word list" where
  "psv_signature_element_bytes p =
     le_bytes 4 (psv_semantic_name_offset p) @ le_bytes 4 (psv_semantic_indexes_offset p) @
     [psv_rows p, psv_start_row p, psv_cols_and_start p, psv_semantic_kind p, psv_component_type p,
      psv_interpolation_mode p, psv_dynamic_mask_and_stream p, psv_reserved p]"

text \<open>
  \<open>struct dxil_psv_runtime_info_3\<close> with the smaller structures it starts with. The 24 bytes of
  \<open>struct dxil_psv_runtime_info_0\<close>, a union over the shader stages, are only copied by the code
  modelled, so they are kept as bytes; \<open>max_vertex_count\<close> is the 16-bit union after \<open>uses_view_id\<close>.
\<close>

record dxil_psv_runtime_info =
  psv0 :: "8 word list"
  shader_stage :: "8 word"
  uses_view_id :: "8 word"
  max_vertex_count :: "16 word"
  sig_input_elements :: "8 word"
  sig_output_elements :: "8 word"
  sig_patch_const_or_prim_elements :: "8 word"
  sig_input_vectors :: "8 word"
  sig_output_vectors :: "8 word list"
  num_threads_x :: "32 word"
  num_threads_y :: "32 word"
  num_threads_z :: "32 word"
  entry_function_name :: "32 word"

definition psv_runtime_info_bytes :: "dxil_psv_runtime_info \<Rightarrow> 8 word list" where
  "psv_runtime_info_bytes p =
     psv0 p @ [shader_stage p, uses_view_id p] @ le_bytes 2 (max_vertex_count p) @
     [sig_input_elements p, sig_output_elements p, sig_patch_const_or_prim_elements p,
      sig_input_vectors p] @ sig_output_vectors p @
     le_bytes 4 (num_threads_x p) @ le_bytes 4 (num_threads_y p) @ le_bytes 4 (num_threads_z p) @
     le_bytes 4 (entry_function_name p)"

text \<open>The lengths of the arrays.\<close>

definition psv_runtime_info_ok :: "dxil_psv_runtime_info \<Rightarrow> bool" where
  "psv_runtime_info_ok p \<longleftrightarrow> length (psv0 p) = 24 \<and> length (sig_output_vectors p) = 4"

lemma struct_sizes:
  "length (signature_element_bytes e) = 32"
  "length (psv_signature_element_bytes q) = 16"
  "psv_runtime_info_ok p \<Longrightarrow> length (psv_runtime_info_bytes p) = 52"
  by (simp_all add: signature_element_bytes_def psv_signature_element_bytes_def
      psv_runtime_info_bytes_def psv_runtime_info_ok_def)

section \<open>The signature part of a module\<close>

text \<open>
  The dependency tables lie in \<open>serialized_dependency_table\<close>; \<open>viewid_dependency_table\<close> and
  \<open>io_dependency_table\<close> point into it, as positions (\<open>None\<close> is the null pointer).
\<close>

definition DXIL_SHADER_MAX_IO_ROWS :: nat where
  "DXIL_SHADER_MAX_IO_ROWS = 128"

record dxil_io =
  shader_kind :: dxil_shader_kind
  major_version :: "32 word"
  minor_version :: "32 word"
  minor_validator :: "32 word"
  has_out_position :: bool
  has_out_depth :: bool
  num_sig_inputs :: "32 word"
  num_sig_outputs :: "32 word"
  num_sig_patch_consts :: "32 word"
  num_psv_inputs :: "32 word"
  num_psv_outputs :: "32 word list"
  num_psv_patch_consts :: "32 word"
  inputs :: "dxil_signature_record list"
  outputs :: "dxil_signature_record list"
  patch_consts :: "dxil_signature_record list"
  input_mappings :: "8 word list"
  output_mappings :: "8 word list"
  patch_mappings :: "8 word list"
  psv_inputs :: "dxil_psv_signature_element list"
  psv_outputs :: "dxil_psv_signature_element list"
  psv_patch_consts :: "dxil_psv_signature_element list"
  sem_string_table :: string_buffer
  sem_index_table :: "32 word list"
  serialized_dependency_table :: "32 word list"
  viewid_dependency_table :: "nat option list"
  io_dependency_table :: "nat option list"
  dependency_table_dwords_per_input :: "32 word list"
  io_dependency_table_size :: "32 word list"
  serialized_dependency_table_size :: "32 word"


text \<open>A new module is zeroed. The shader kind 0 is the pixel shader.\<close>

definition zero_element :: dxil_signature_element where
  "zero_element = dxil_signature_element.make 0 0 0 0 0 0 0 0 0 0"

definition zero_record :: dxil_signature_record where
  "zero_record = \<lparr>rec_elements = replicate 32 zero_element, rec_num_elements = 0, rec_sysvalue = None,
     rec_name = [], rec_sig_comp_type = 0\<rparr>"

definition zero_psv_element :: dxil_psv_signature_element where
  "zero_psv_element = dxil_psv_signature_element.make 0 0 0 0 0 0 0 0 0 0"

definition dxil_io_init :: dxil_io where
  "dxil_io_init =
     \<lparr>shader_kind = DXIL_PIXEL_SHADER, major_version = 0, minor_version = 0, minor_validator = 0,
      has_out_position = False, has_out_depth = False,
      num_sig_inputs = 0, num_sig_outputs = 0, num_sig_patch_consts = 0,
      num_psv_inputs = 0, num_psv_outputs = replicate 4 0, num_psv_patch_consts = 0,
      inputs = replicate DXIL_SHADER_MAX_IO_ROWS zero_record,
      outputs = replicate DXIL_SHADER_MAX_IO_ROWS zero_record,
      patch_consts = replicate DXIL_SHADER_MAX_IO_ROWS zero_record,
      input_mappings = replicate (DXIL_SHADER_MAX_IO_ROWS * 4) 0,
      output_mappings = replicate (DXIL_SHADER_MAX_IO_ROWS * 4) 0,
      patch_mappings = replicate (DXIL_SHADER_MAX_IO_ROWS * 4) 0,
      psv_inputs = replicate DXIL_SHADER_MAX_IO_ROWS zero_psv_element,
      psv_outputs = replicate DXIL_SHADER_MAX_IO_ROWS zero_psv_element,
      psv_patch_consts = replicate DXIL_SHADER_MAX_IO_ROWS zero_psv_element,
      sem_string_table = [], sem_index_table = [],
      serialized_dependency_table = [], viewid_dependency_table = replicate 4 None,
      io_dependency_table = replicate 4 None, dependency_table_dwords_per_input = replicate 4 0,
      io_dependency_table_size = replicate 4 0, serialized_dependency_table_size = 0\<rparr>"

end
