(* ===== verification/Container.thy ===== *)
theory Container
  imports Io_State Dxil_Buffer
begin

text \<open>
  The container of \<open>src/mesa/src/microsoft/compiler/dxil_container.c\<close>: parts (features, signatures,
  state validation, the module) are collected in a blob, each behind its name and size, and written
  behind a table of their offsets.

  \<open>part_offsets\<close> holds the first \<open>num_parts\<close> entries of the array of that name; what lies beyond is
  never read. A function that returns \<open>false\<close> is the error \<open>Out_of_memory\<close>.
\<close>

definition DXIL_FOURCC :: "char \<Rightarrow> char \<Rightarrow> char \<Rightarrow> char \<Rightarrow> 32 word" where
  "DXIL_FOURCC ch0 ch1 ch2 ch3 =
     ucast (char_byte ch0) OR push_bit 8 (ucast (char_byte ch1)) OR
     push_bit 16 (ucast (char_byte ch2)) OR push_bit 24 (ucast (char_byte ch3))"

definition DXIL_DXBC :: "32 word" where
  "DXIL_DXBC = DXIL_FOURCC (CHR ''D'') (CHR ''X'') (CHR ''B'') (CHR ''C'')"

datatype dxil_part_fourcc =
  DXIL_RDEF | DXIL_ISG1 | DXIL_OSG1 | DXIL_PSG1 | DXIL_STAT | DXIL_ILDB | DXIL_ILDN |
  DXIL_SFI0 | DXIL_PRIV | DXIL_RTS0 | DXIL_DXIL | DXIL_PSV0 | DXIL_RDAT | DXIL_HASH

primrec dxil_part_fourcc_value :: "dxil_part_fourcc \<Rightarrow> 32 word" where
  "dxil_part_fourcc_value DXIL_RDEF = DXIL_FOURCC (CHR ''R'') (CHR ''D'') (CHR ''E'') (CHR ''F'')"
| "dxil_part_fourcc_value DXIL_ISG1 = DXIL_FOURCC (CHR ''I'') (CHR ''S'') (CHR ''G'') (CHR ''1'')"
| "dxil_part_fourcc_value DXIL_OSG1 = DXIL_FOURCC (CHR ''O'') (CHR ''S'') (CHR ''G'') (CHR ''1'')"
| "dxil_part_fourcc_value DXIL_PSG1 = DXIL_FOURCC (CHR ''P'') (CHR ''S'') (CHR ''G'') (CHR ''1'')"
| "dxil_part_fourcc_value DXIL_STAT = DXIL_FOURCC (CHR ''S'') (CHR ''T'') (CHR ''A'') (CHR ''T'')"
| "dxil_part_fourcc_value DXIL_ILDB = DXIL_FOURCC (CHR ''I'') (CHR ''L'') (CHR ''D'') (CHR ''B'')"
| "dxil_part_fourcc_value DXIL_ILDN = DXIL_FOURCC (CHR ''I'') (CHR ''L'') (CHR ''D'') (CHR ''N'')"
| "dxil_part_fourcc_value DXIL_SFI0 = DXIL_FOURCC (CHR ''S'') (CHR ''F'') (CHR ''I'') (CHR ''0'')"
| "dxil_part_fourcc_value DXIL_PRIV = DXIL_FOURCC (CHR ''P'') (CHR ''R'') (CHR ''I'') (CHR ''V'')"
| "dxil_part_fourcc_value DXIL_RTS0 = DXIL_FOURCC (CHR ''R'') (CHR ''T'') (CHR ''S'') (CHR ''0'')"
| "dxil_part_fourcc_value DXIL_DXIL = DXIL_FOURCC (CHR ''D'') (CHR ''X'') (CHR ''I'') (CHR ''L'')"
| "dxil_part_fourcc_value DXIL_PSV0 = DXIL_FOURCC (CHR ''P'') (CHR ''S'') (CHR ''V'') (CHR ''0'')"
| "dxil_part_fourcc_value DXIL_RDAT = DXIL_FOURCC (CHR ''R'') (CHR ''D'') (CHR ''A'') (CHR ''T'')"
| "dxil_part_fourcc_value DXIL_HASH = DXIL_FOURCC (CHR ''H'') (CHR ''A'') (CHR ''S'') (CHR ''H'')"

definition DXIL_MAX_PARTS :: nat where
  "DXIL_MAX_PARTS = 8"

record dxil_container =
  parts :: blob
  part_offsets :: "32 word list"

definition dxil_container_init :: "nat \<Rightarrow> 8 word \<Rightarrow> dxil_container" where
  "dxil_container_init limit j = \<lparr>parts = blob_init limit j, part_offsets = []\<rparr>"

text \<open>\<open>blob_write_bytes\<close> of a whole object, and of \<open>n\<close> bytes from the start of an object.\<close>

definition put_bytes :: "8 word list \<Rightarrow> dxil_container \<Rightarrow> dxil_container result" where
  "put_bytes bs c = bind_result (blob_put bs (parts c)) (\<lambda>b. Inr (c\<lparr>parts := b\<rparr>))"

definition put_memory :: "8 word list \<Rightarrow> nat \<Rightarrow> dxil_container \<Rightarrow> dxil_container result" where
  "put_memory obj n c = (if length obj < n then Inl Undefined else put_bytes (take n obj) c)"

abbreviation put_uint32 :: "32 word \<Rightarrow> dxil_container \<Rightarrow> dxil_container result" where
  "put_uint32 w \<equiv> put_bytes (le_bytes 4 w)"

definition add_part_header ::
  "dxil_part_fourcc \<Rightarrow> 32 word \<Rightarrow> dxil_container \<Rightarrow> dxil_container result" where
  "add_part_header fourcc part_size c =
     (if blob_size (parts c) < 2 ^ 32 - 1 then
        let offset = of_nat (blob_size (parts c)) in
        bind_result (seq [put_uint32 (dxil_part_fourcc_value fourcc), put_uint32 part_size] c) (\<lambda>c.
          if length (part_offsets c) < DXIL_MAX_PARTS
          then Inr (c\<lparr>part_offsets := part_offsets c @ [offset]\<rparr>)
          else Inl Assertion)
      else Inl Assertion)"

definition add_part ::
  "dxil_part_fourcc \<Rightarrow> 8 word list \<Rightarrow> dxil_container \<Rightarrow> dxil_container result" where
  "add_part fourcc part_data = seq [add_part_header fourcc (of_nat (length part_data)), put_bytes part_data]"

section \<open>Features\<close>

text \<open>One-bit fields, the first in the lowest bit.\<close>

record dxil_features =
  feat_doubles :: bool
  feat_cs_4x_raw_sb :: bool
  feat_uavs_at_every_stage :: bool
  feat_use_64uavs :: bool
  feat_min_precision :: bool
  feat_dx11_1_double_extensions :: bool
  feat_dx11_1_shader_extensions :: bool
  feat_dx9_comparison_filtering :: bool
  feat_tiled_resources :: bool
  feat_stencil_ref :: bool
  feat_inner_coverage :: bool
  feat_typed_uav_load_additional_formats :: bool
  feat_rovs :: bool
  feat_array_layer_from_vs_or_ds :: bool
  feat_wave_ops :: bool
  feat_int64_ops :: bool
  feat_view_id :: bool
  feat_barycentrics :: bool
  feat_native_low_precision :: bool
  feat_shading_rate :: bool
  feat_raytracing_tier_1_1 :: bool
  feat_sampler_feedback :: bool
  feat_atomic_int64_typed :: bool
  feat_atomic_int64_tgsm :: bool
  feat_derivatives_in_mesh_or_amp :: bool
  feat_resource_descriptor_heap_indexing :: bool
  feat_sampler_descriptor_heap_indexing :: bool
  feat_unnamed :: bool
  feat_atomic_int64_heap_resource :: bool
  feat_advanced_texture_ops :: bool
  feat_writable_msaa :: bool
  feat_sample_cmp_bias_gradient :: bool
  feat_extended_command_info :: bool

definition features_bits :: "dxil_features \<Rightarrow> bool list" where
  "features_bits f =
    [feat_doubles f, feat_cs_4x_raw_sb f, feat_uavs_at_every_stage f, feat_use_64uavs f,
     feat_min_precision f, feat_dx11_1_double_extensions f, feat_dx11_1_shader_extensions f,
     feat_dx9_comparison_filtering f, feat_tiled_resources f, feat_stencil_ref f,
     feat_inner_coverage f, feat_typed_uav_load_additional_formats f, feat_rovs f,
     feat_array_layer_from_vs_or_ds f, feat_wave_ops f, feat_int64_ops f, feat_view_id f,
     feat_barycentrics f, feat_native_low_precision f, feat_shading_rate f,
     feat_raytracing_tier_1_1 f, feat_sampler_feedback f, feat_atomic_int64_typed f,
     feat_atomic_int64_tgsm f, feat_derivatives_in_mesh_or_amp f,
     feat_resource_descriptor_heap_indexing f, feat_sampler_descriptor_heap_indexing f,
     feat_unnamed f, feat_atomic_int64_heap_resource f, feat_advanced_texture_ops f,
     feat_writable_msaa f, feat_sample_cmp_bias_gradient f, feat_extended_command_info f]"

definition dxil_container_add_features ::
  "dxil_features \<Rightarrow> dxil_container \<Rightarrow> dxil_container result" where
  "dxil_container_add_features features =
     add_part DXIL_SFI0 (le_bytes 8 (of_nat (bits_nat (features_bits features)) :: 64 word))"

section \<open>Signatures\<close>

text \<open>The cache maps a name to the offset of its first copy.\<close>

type_synonym name_offset_cache = "(string \<times> 32 word) list"

definition get_semantic_name_offset ::
  "name_offset_cache \<Rightarrow> string \<Rightarrow> string_buffer \<Rightarrow> 32 word \<Rightarrow> bool \<Rightarrow>
   (32 word \<times> name_offset_cache \<times> string_buffer) result" where
  "get_semantic_name_offset cache name names buf_offset validator_7 =
     (let offset = of_nat (length names) + buf_offset;
          append = (\<lambda>cache. bind_result (append_text names (string_bytes name @ [0]))
            (\<lambda>names. Inr (offset, cache, names)))
      in if validator_7 \<or> take 3 name = ''SV_'' then
           (case map_of cache name of
              Some offset \<Rightarrow> Inr (offset, cache, names)
            | None \<Rightarrow> if length cache < DXIL_SHADER_MAX_IO_ROWS then append (cache @ [(name, offset)])
                      else Inl Undefined)
         else append cache)"

definition set_name_offset :: "32 word \<Rightarrow> dxil_signature_record \<Rightarrow> dxil_signature_record" where
  "set_name_offset offset io =
     io\<lparr>rec_elements := map (elm_semantic_name_offset_update (\<lambda>_. offset))
          (take (rec_num_elements io) (rec_elements io)) @ drop (rec_num_elements io) (rec_elements io)\<rparr>"

fun collect_names ::
  "name_offset_cache \<Rightarrow> dxil_signature_record list \<Rightarrow> string_buffer \<Rightarrow> 32 word \<Rightarrow> bool \<Rightarrow>
   (dxil_signature_record list \<times> string_buffer) result" where
  "collect_names cache [] names buf_offset validator_7 = Inr ([], names)"
| "collect_names cache (io # ios) names buf_offset validator_7 =
     bind_result (get_semantic_name_offset cache (rec_name io) names buf_offset validator_7)
       (\<lambda>(offset, cache, names).
         if length (rec_elements io) < rec_num_elements io then Inl Undefined
         else bind_result (collect_names cache ios names buf_offset validator_7)
           (\<lambda>(ios, names). Inr (set_name_offset offset io # ios, names)))"

text \<open>The result: the records, the names and the offset after the names.\<close>

definition collect_semantic_names ::
  "dxil_signature_record list \<Rightarrow> 32 word \<Rightarrow> bool \<Rightarrow>
   (dxil_signature_record list \<times> string_buffer \<times> 32 word) result" where
  "collect_semantic_names io_data buf_offset validator_7 =
     bind_result (collect_names [] io_data [] buf_offset validator_7) (\<lambda>(io_data, names).
       bind_result
         (if validator_7 \<and> length names mod 4 \<noteq> 0 then append_text names (replicate (4 - length names mod 4) 0)
          else Inr names)
         (\<lambda>names. Inr (io_data, names, buf_offset + of_nat (length names))))"

definition signature_elements :: "dxil_signature_record \<Rightarrow> dxil_signature_element list" where
  "signature_elements io = take (rec_num_elements io) (rec_elements io)"

text \<open>\<open>io_data\<close> is the array; its first \<open>num_records\<close> records get the offsets of their names.\<close>

definition dxil_container_add_io_signature ::
  "dxil_part_fourcc \<Rightarrow> nat \<Rightarrow> dxil_signature_record list \<Rightarrow> bool \<Rightarrow> dxil_container \<Rightarrow>
   (dxil_container \<times> dxil_signature_record list) result" where
  "dxil_container_add_io_signature part num_records io_data validator_7 c =
     (if length io_data < num_records then Inl Undefined else
      let header_size = 8 :: 32 word;
          records = take num_records io_data;
          fixed_size = fold (\<lambda>io s. s + 32 * of_nat (rec_num_elements io)) records header_size;
          param_count = fold (\<lambda>io n. n + of_nat (rec_num_elements io)) records (0 :: 32 word)
      in bind_result (collect_semantic_names records fixed_size validator_7)
           (\<lambda>(records, names, last_offset).
         bind_result
           (seq ([add_part_header part last_offset,
                  put_bytes (le_bytes 4 param_count @ le_bytes 4 header_size)] @
                 map (put_bytes \<circ> signature_element_bytes) (concat (map signature_elements records)) @
                 [put_bytes names]) c)
           (\<lambda>c. Inr (c, records @ drop num_records io_data))))"

section \<open>State validation\<close>

record dxil_resource_v0 =
  resource_type :: "32 word"
  space :: "32 word"
  lower_bound :: "32 word"
  upper_bound :: "32 word"

record dxil_resource_v1 =
  v0 :: dxil_resource_v0
  resource_kind :: "32 word"
  resource_flags :: "32 word"

definition resource_v0_bytes :: "dxil_resource_v0 \<Rightarrow> 8 word list" where
  "resource_v0_bytes r = le_bytes 4 (resource_type r) @ le_bytes 4 (space r) @
     le_bytes 4 (lower_bound r) @ le_bytes 4 (upper_bound r)"

definition resource_v1_bytes :: "dxil_resource_v1 \<Rightarrow> 8 word list" where
  "resource_v1_bytes r = resource_v0_bytes (v0 r) @
     le_bytes 4 (resource_kind r) @ le_bytes 4 (resource_flags r)"

text \<open>The union of the two array pointers.\<close>

datatype dxil_resources = RESOURCES_V0 "dxil_resource_v0 list" | RESOURCES_V1 "dxil_resource_v1 list"

fun resources_bytes :: "dxil_resources \<Rightarrow> 8 word list" where
  "resources_bytes (RESOURCES_V0 rs) = concat (map resource_v0_bytes rs)"
| "resources_bytes (RESOURCES_V1 rs) = concat (map resource_v1_bytes rs)"

record dxil_validation_state =
  validation_psv :: dxil_psv_runtime_info
  validation_resources :: dxil_resources
  num_resources :: "32 word"

definition psv_size :: "dxil_io \<Rightarrow> 32 word" where
  "psv_size m = (if 8 \<le> minor_validator m then 52 else if 6 \<le> minor_validator m then 48 else 36)"

definition resource_bind_info_size :: "dxil_io \<Rightarrow> 32 word" where
  "resource_bind_info_size m = (if 6 \<le> minor_validator m then 24 else 16)"

definition string_table_size :: "dxil_io \<Rightarrow> 32 word" where
  "string_table_size m = (of_nat (length (sem_string_table m)) + 3) AND NOT 3"

definition has_signatures :: "dxil_io \<Rightarrow> bool" where
  "has_signatures m \<longleftrightarrow>
     num_sig_inputs m \<noteq> 0 \<or> num_sig_outputs m \<noteq> 0 \<or> num_sig_patch_consts m \<noteq> 0"

definition state_validation_size :: "dxil_io \<Rightarrow> dxil_validation_state \<Rightarrow> 32 word" where
  "state_validation_size m state =
     (let resource_count = num_resources state;
          size = psv_size m + 2 * 4;
          size = (if 0 < resource_count then size + (4 + resource_bind_info_size m * resource_count) else size);
          size = size + (4 + string_table_size m);
          size = size + (4 + of_nat (length (sem_index_table m)) * 4);
          size = (if has_signatures m then size + 4 else size);
          size = size + 16 * num_sig_inputs m;
          size = size + 16 * num_sig_outputs m;
          size = size + 16 * num_sig_patch_consts m;
          size = (if uses_view_id (validation_psv state) \<noteq> 0
                  then fold (\<lambda>n s. s + n * 4) (dependency_table_dwords_per_input m) size else size)
      in fold (\<lambda>n s. s + n * 4) (io_dependency_table_size m) size)"

text \<open>The counts of vectors, set in the caller's structure.\<close>

definition set_psv_vectors :: "dxil_io \<Rightarrow> dxil_validation_state \<Rightarrow> dxil_validation_state" where
  "set_psv_vectors m state = state\<lparr>validation_psv := (validation_psv state)
     \<lparr>sig_input_vectors := ucast (num_psv_inputs m),
      sig_output_vectors := map ucast (num_psv_outputs m)\<rparr>\<rparr>"

text \<open>
  The workaround for geometry shaders: every table but the last that is not empty is zeroed.
\<close>

definition memset_dwords :: "nat option \<Rightarrow> 32 word \<Rightarrow> 32 word list \<Rightarrow> 32 word list result" where
  "memset_dwords pos n tab =
     (case pos of
        None \<Rightarrow> Inl Undefined
      | Some p \<Rightarrow> if p + unat n \<le> length tab
          then Inr (take p tab @ replicate (unat n) 0 @ drop (p + unat n) tab) else Inl Undefined)"

definition zero_earlier_step ::
  "(nat option \<times> 32 word) \<Rightarrow> bool \<times> 32 word list \<Rightarrow> (bool \<times> 32 word list) result" where
  "zero_earlier_step = (\<lambda>(pos, n) (zero, tab).
     if n \<noteq> 0 then
       bind_result (if zero then memset_dwords pos n tab else Inr tab) (\<lambda>tab. Inr (True, tab))
     else Inr (zero, tab))"

fun zero_earlier ::
  "bool \<Rightarrow> nat list \<Rightarrow> dxil_io \<Rightarrow> bool \<Rightarrow> bool \<Rightarrow> 32 word list \<Rightarrow> 32 word list result" where
  "zero_earlier uses_view [] m zero_view_id_deps zero_io_deps tab = Inr tab"
| "zero_earlier uses_view (i # is) m zero_view_id_deps zero_io_deps tab =
     bind_result
       (if uses_view then zero_earlier_step
          (viewid_dependency_table m ! i, dependency_table_dwords_per_input m ! i) (zero_view_id_deps, tab)
        else Inr (zero_view_id_deps, tab))
       (\<lambda>(zero_view_id_deps, tab).
         bind_result (zero_earlier_step
            (io_dependency_table m ! i, io_dependency_table_size m ! i) (zero_io_deps, tab))
           (\<lambda>(zero_io_deps, tab). zero_earlier uses_view is m zero_view_id_deps zero_io_deps tab))"

definition zero_earlier_tables :: "bool \<Rightarrow> dxil_io \<Rightarrow> dxil_io result" where
  "zero_earlier_tables uses_view m =
     (if shader_kind m = DXIL_GEOMETRY_SHADER \<and> minor_validator m < 8 then
        bind_result (zero_earlier uses_view [3, 2, 1, 0] m False False (serialized_dependency_table m))
          (\<lambda>tab. Inr (m\<lparr>serialized_dependency_table := tab\<rparr>))
      else Inr m)"

text \<open>A table of \<open>n\<close> dwords; an empty one may be a null pointer.\<close>

definition put_table :: "dxil_io \<Rightarrow> nat option \<Rightarrow> 32 word \<Rightarrow> dxil_container \<Rightarrow> dxil_container result" where
  "put_table m pos n =
     (case pos of
        None \<Rightarrow> if n = 0 then put_bytes [] else (\<lambda>c. Inl Undefined)
      | Some p \<Rightarrow> put_memory (concat (map (le_bytes 4) (drop p (serialized_dependency_table m)))) (4 * unat n))"

definition put_tables :: "dxil_io \<Rightarrow> nat option list \<Rightarrow> 32 word list \<Rightarrow> dxil_container \<Rightarrow> dxil_container result" where
  "put_tables m pos ns = seq (map (\<lambda>i. put_table m (pos ! i) (ns ! i)) [0..<4])"

text \<open>
  The result: the container, the module with the tables zeroed, and the state with the counts set.
\<close>

definition put_psv_part :: "dxil_io \<Rightarrow> dxil_validation_state \<Rightarrow> dxil_container \<Rightarrow> dxil_container result" where
  "put_psv_part m state = seq (
     [put_uint32 (psv_size m),
      put_memory (psv_runtime_info_bytes (validation_psv state)) (unat (psv_size m)),
      put_uint32 (num_resources state)] @
     (if 0 < num_resources state then
        [put_uint32 (resource_bind_info_size m),
         put_memory (resources_bytes (validation_resources state))
           (unat (resource_bind_info_size m * num_resources state))]
      else []) @
     [put_uint32 (string_table_size m),
      put_bytes (sem_string_table m),
      put_memory (le_bytes 4 (0 :: 32 word))
        (unat (string_table_size m - of_nat (length (sem_string_table m)))),
      put_uint32 (of_nat (length (sem_index_table m)))] @
     (if 0 < length (sem_index_table m)
      then [put_bytes (concat (map (le_bytes 4) (sem_index_table m)))] else []) @
     (if has_signatures m then
        [put_uint32 16,
         put_memory (concat (map psv_signature_element_bytes (psv_inputs m))) (unat (16 * num_sig_inputs m)),
         put_memory (concat (map psv_signature_element_bytes (psv_outputs m))) (unat (16 * num_sig_outputs m)),
         put_memory (concat (map psv_signature_element_bytes (psv_patch_consts m)))
           (unat (16 * num_sig_patch_consts m))]
      else []))"

definition dxil_container_add_state_validation ::
  "dxil_io \<Rightarrow> dxil_validation_state \<Rightarrow> dxil_container \<Rightarrow>
   (dxil_container \<times> dxil_io \<times> dxil_validation_state) result" where
  "dxil_container_add_state_validation m state c =
     (let size = state_validation_size m state;
          state = set_psv_vectors m state;
          uses_view = (uses_view_id (validation_psv state) \<noteq> 0)
      in bind_result (seq [add_part_header DXIL_PSV0 size, put_psv_part m state] c) (\<lambda>c.
         bind_result (zero_earlier_tables uses_view m) (\<lambda>m.
         bind_result (seq
           [if uses_view then put_tables m (viewid_dependency_table m) (dependency_table_dwords_per_input m)
            else Inr,
            put_tables m (io_dependency_table m) (io_dependency_table_size m)] c) (\<lambda>c.
         Inr (c, m, state)))))"

section \<open>The module\<close>

definition dxil_container_add_module ::
  "dxil_io \<Rightarrow> dxil_buffer \<Rightarrow> dxil_container \<Rightarrow> dxil_container result" where
  "dxil_container_add_module m b c =
     (if buf_bits b \<noteq> 0 then Inl Assertion else
      let version = push_bit 16 (of_nat (dxil_shader_kind_value (shader_kind m))) OR
            push_bit 4 (major_version m) OR minor_version m;
          size = of_nat (6 * 4 + blob_size (blob b)) :: 32 word
      in if size mod 4 \<noteq> 0 then Inl Assertion else
         let uint32_size = size div 4; magic = 0x4C495844; dxil_version = push_bit 8 1;
             bitcode_offset = 16; bitcode_size = of_nat (blob_size (blob b))
         in seq ([add_part_header DXIL_DXIL size] @
              map put_uint32 [version, uint32_size, magic, dxil_version, bitcode_offset, bitcode_size] @
              [put_bytes (blob_contents (blob b))]) c)"

section \<open>The file\<close>

definition dxil_container_write :: "dxil_container \<Rightarrow> blob \<Rightarrow> blob result" where
  "dxil_container_write c b =
     (if blob_size b \<noteq> 0 then Inl Assertion else
      bind_result (seq [blob_put (le_bytes 4 DXIL_DXBC), blob_put (replicate 16 0),
                        blob_put (le_bytes 2 (1 :: 16 word)), blob_put (le_bytes 2 (0 :: 16 word))] b) (\<lambda>b.
      let num_parts = length (part_offsets c);
          header_size = 32 + 4 * num_parts;
          size = size_add header_size (blob_size (parts c))
      in if \<not> size \<le> 2 ^ 32 - 1 then Inl Assertion else
         bind_result (blob_put (le_bytes 4 (of_nat size :: 32 word)) b) (\<lambda>b.
           let offsets = map (\<lambda>offset. header_size + unat offset) (part_offsets c)
           in if list_ex (\<lambda>offset. \<not> offset \<le> 2 ^ 32 - 1) offsets then Inl Assertion else
              seq [blob_put (le_bytes 4 (of_nat num_parts :: 32 word)),
                   blob_put (concat (map (\<lambda>offset. le_bytes 4 (of_nat offset :: 32 word)) offsets)),
                   blob_put (blob_contents (parts c))] b)))"

end
