(* ===== verification/Container_File.thy ===== *)
theory Container_File
  imports Container
begin

text \<open>
  What a container is and what a reader of the file finds: a list of parts, each a name and its bytes.
  The functions of \<open>dxil_container.c\<close> that add a part each append one, whose bytes are given here as a
  function of their arguments, and \<open>dxil_container_write\<close> writes a file from which the parts are read
  back.
\<close>

section \<open>Parts\<close>

type_synonym part = "32 word \<times> 8 word list"

definition part_bytes :: "part \<Rightarrow> 8 word list" where
  "part_bytes p = le_bytes 4 (fst p) @ le_bytes 4 (of_nat (length (snd p)) :: 32 word) @ snd p"

fun part_positions :: "nat \<Rightarrow> part list \<Rightarrow> nat list" where
  "part_positions k [] = []"
| "part_positions k (p # ps) = k # part_positions (k + length (part_bytes p)) ps"

lemma length_part_bytes [simp]: "length (part_bytes p) = 8 + length (snd p)"
  by (simp add: part_bytes_def)

lemma part_positions_append:
  "part_positions k (ps @ qs) =
   part_positions k ps @ part_positions (k + length (concat (map part_bytes ps))) qs"
  by (induction ps arbitrary: k) (simp_all add: add.assoc)

lemma length_part_positions [simp]: "length (part_positions k ps) = length ps"
  by (induction ps arbitrary: k) simp_all

lemma part_positions_bound:
  "x \<in> set (part_positions k ps) \<Longrightarrow> k \<le> x \<and> x + 8 \<le> k + length (concat (map part_bytes ps))"
proof (induction ps arbitrary: k)
  case (Cons p ps)
  have "x = k \<or> x \<in> set (part_positions (k + length (part_bytes p)) ps)" using Cons.prems by simp
  then show ?case using Cons.IH [of "k + length (part_bytes p)"] by (elim disjE) simp_all
qed simp

text \<open>\<open>contains c ps\<close>: the container holds exactly the parts \<open>ps\<close>, and knows where they are.\<close>

definition contains :: "dxil_container \<Rightarrow> part list \<Rightarrow> bool" where
  "contains c ps \<longleftrightarrow> growing (parts c) \<and>
     blob_contents (parts c) = concat (map part_bytes ps) \<and>
     map unat (part_offsets c) = part_positions 0 ps"

lemma contains_init: "limit < 2 ^ 63 \<Longrightarrow> contains (dxil_container_init limit j) []"
  by (simp add: contains_def dxil_container_init_def blob_init_ok)

section \<open>The bodies of parts\<close>

text \<open>
  \<open>puts f n bs\<close>: if \<open>f\<close> returns, it has appended the bytes \<open>bs\<close>, \<open>n\<close> of them, and nothing else.
\<close>

definition puts :: "(dxil_container \<Rightarrow> dxil_container result) \<Rightarrow> nat \<Rightarrow> 8 word list \<Rightarrow> bool" where
  "puts f n bs \<longleftrightarrow> (\<forall>c c'. growing (parts c) \<longrightarrow> f c = Inr c' \<longrightarrow>
     growing (parts c') \<and> blob_contents (parts c') = blob_contents (parts c) @ bs \<and>
     part_offsets c' = part_offsets c \<and> length bs = n)"

named_theorems puts_intros \<open>rules for the bytes a chain of calls appends\<close>

lemma putsD:
  assumes "puts f n bs" and "growing (parts c)" and "f c = Inr c'"
  shows "growing (parts c')" and "blob_contents (parts c') = blob_contents (parts c) @ bs"
    and "part_offsets c' = part_offsets c" and "length bs = n"
  using assms unfolding puts_def by blast+

lemma putsI:
  assumes "\<And>c c'. growing (parts c) \<Longrightarrow> f c = Inr c' \<Longrightarrow> growing (parts c') \<and>
     blob_contents (parts c') = blob_contents (parts c) @ bs \<and> part_offsets c' = part_offsets c \<and>
     length bs = n"
  shows "puts f n bs"
  using assms unfolding puts_def by blast

lemma puts_bytes [puts_intros]:
  assumes "length bs < 2 ^ 63"
  shows "puts (put_bytes bs) (length bs) bs"
proof (rule putsI)
  fix c c' :: dxil_container
  assume g: "growing (parts c)" and c: "put_bytes bs c = Inr c'"
  then obtain b where b: "blob_put bs (parts c) = Inr b" "c' = c\<lparr>parts := b\<rparr>"
    by (auto simp: put_bytes_def)
  show "growing (parts c') \<and> blob_contents (parts c') = blob_contents (parts c) @ bs \<and>
     part_offsets c' = part_offsets c \<and> length bs = length bs"
    using blob_sink.put_inv [OF g assms b(1)] blob_sink.put_holds [OF g assms b(1)] b(2) by simp
qed

lemma puts_uint32 [puts_intros]: "puts (put_uint32 w) 4 (le_bytes 4 w)"
  using puts_bytes [of "le_bytes 4 w"] by simp

lemma puts_memory [puts_intros]:
  assumes "n < 2 ^ 63"
  shows "puts (put_memory obj n) n (take n obj)"
proof (rule putsI)
  have p: "puts (put_bytes (take n obj)) (length (take n obj)) (take n obj)"
    using assms by (intro puts_bytes) simp
  fix c c' :: dxil_container
  assume g: "growing (parts c)" and "put_memory obj n c = Inr c'"
  then have c: "put_bytes (take n obj) c = Inr c'" "n \<le> length obj"
    by (simp_all add: put_memory_def split: if_splits)
  show "growing (parts c') \<and> blob_contents (parts c') = blob_contents (parts c) @ take n obj \<and>
     part_offsets c' = part_offsets c \<and> length (take n obj) = n"
    using putsD [OF p g c(1)] c(2) by simp
qed

lemma puts_skip [puts_intros]: "puts Inr 0 []"
  by (simp add: puts_def)

lemma puts_Nil [puts_intros]: "puts (seq []) 0 []"
  by (simp add: puts_def)

lemma puts_bind:
  assumes "puts f m bs" and "puts g n cs"
  shows "puts (\<lambda>c. bind_result (f c) g) (m + n) (bs @ cs)"
proof (rule putsI)
  fix c c' :: dxil_container
  assume g: "growing (parts c)" and "bind_result (f c) g = Inr c'"
  then obtain d where d: "f c = Inr d" "g d = Inr c'" by auto
  note p = putsD [OF assms(1) g d(1)]
  show "growing (parts c') \<and> blob_contents (parts c') = blob_contents (parts c) @ bs @ cs \<and>
     part_offsets c' = part_offsets c \<and> length (bs @ cs) = m + n"
    using p putsD [OF assms(2) p(1) d(2)] by simp
qed

lemma puts_Cons [puts_intros]:
  "puts f m bs \<Longrightarrow> puts (seq fs) n cs \<Longrightarrow> puts (seq (f # fs)) (m + n) (bs @ cs)"
  unfolding seq_fun by (rule puts_bind)

lemma puts_append [puts_intros]:
  "puts (seq fs) m bs \<Longrightarrow> puts (seq gs) n cs \<Longrightarrow> puts (seq (fs @ gs)) (m + n) (bs @ cs)"
  using puts_bind [of "seq fs" m bs "seq gs" n cs] by (simp add: seq_append [abs_def] fun_eq_iff [symmetric])

lemma puts_map:
  "(\<And>x. x \<in> set xs \<Longrightarrow> puts (f x) (k x) (g x)) \<Longrightarrow>
   puts (seq (map f xs)) (sum_list (map k xs)) (concat (map g xs))"
proof (induction xs)
  case (Cons x xs)
  then show ?case by (simp only: list.map concat.simps sum_list.Cons) (rule puts_Cons, simp_all)
qed (simp add: puts_def)

lemma puts_if [puts_intros]:
  "(P \<Longrightarrow> puts (seq fs) m bs) \<Longrightarrow> (\<not> P \<Longrightarrow> puts (seq gs) n cs) \<Longrightarrow>
   puts (seq (if P then fs else gs)) (if P then m else n) (if P then bs else cs)"
  by simp

text \<open>A header of the right size and then a body is one more part.\<close>

lemma add_part_header_ok:
  assumes "growing (parts c)" and "add_part_header f n c = Inr c'"
  shows "growing (parts c')"
    and "blob_contents (parts c') = blob_contents (parts c) @ le_bytes 4 (dxil_part_fourcc_value f) @ le_bytes 4 n"
    and "map unat (part_offsets c') = map unat (part_offsets c) @ [length (blob_contents (parts c))]"
    and "length (part_offsets c') \<le> DXIL_MAX_PARTS"
proof -
  let ?h = "seq [put_uint32 (dxil_part_fourcc_value f), put_uint32 n]"
  have h: "puts ?h (4 + (4 + 0)) (le_bytes 4 (dxil_part_fourcc_value f) @ le_bytes 4 n @ [])"
    by (intro puts_intros)
  obtain d where d: "?h c = Inr d" "length (part_offsets d) < DXIL_MAX_PARTS"
    "c' = d\<lparr>part_offsets := part_offsets d @ [of_nat (blob_size (parts c))]\<rparr>"
    and n: "blob_size (parts c) < 2 ^ 32 - 1"
    using assms(2) by (auto simp: add_part_header_def Let_def simp del: seq.simps split: if_splits)
  note p = putsD [OF h assms(1) d(1)]
  show "growing (parts c')" using p d by simp
  show "blob_contents (parts c') = blob_contents (parts c) @ le_bytes 4 (dxil_part_fourcc_value f) @ le_bytes 4 n"
    using p d by simp
  have "unat (of_nat (blob_size (parts c)) :: 32 word) = length (blob_contents (parts c))"
    using n growing_size [OF assms(1)] by (simp add: unat_of_nat take_bit_eq_mod)
  then show "map unat (part_offsets c') = map unat (part_offsets c) @ [length (blob_contents (parts c))]"
    using p d by simp
  show "length (part_offsets c') \<le> DXIL_MAX_PARTS" using d by simp
qed

lemma contains_add:
  assumes "contains c ps" and "add_part_header f w c = Inr d" and "g d = Inr c'" and "puts g n bs"
    and "w = of_nat n"
  shows "contains c' (ps @ [(dxil_part_fourcc_value f, bs)])"
proof -
  have c: "growing (parts c)" "blob_contents (parts c) = concat (map part_bytes ps)"
    "map unat (part_offsets c) = part_positions 0 ps"
    using assms(1) by (simp_all add: contains_def)
  note h = add_part_header_ok [OF c(1) assms(2)]
  note p = putsD [OF assms(4) h(1) assms(3)]
  show ?thesis
    using c h p assms(5) by (simp add: contains_def part_positions_append part_bytes_def)
qed

section \<open>Each part\<close>

definition features_part :: "dxil_features \<Rightarrow> part" where
  "features_part f = (dxil_part_fourcc_value DXIL_SFI0,
     le_bytes 8 (of_nat (bits_nat (features_bits f)) :: 64 word))"

lemma add_features_ok:
  assumes "contains c ps" and "dxil_container_add_features f c = Inr c'"
  shows "contains c' (ps @ [features_part f])"
proof -
  let ?bs = "le_bytes 8 (of_nat (bits_nat (features_bits f)) :: 64 word)"
  obtain d where d: "add_part_header DXIL_SFI0 (of_nat (length ?bs)) c = Inr d" "put_bytes ?bs d = Inr c'"
    using assms(2) by (auto simp: dxil_container_add_features_def add_part_def)
  show ?thesis unfolding features_part_def
    by (rule contains_add [OF assms(1) d puts_bytes]) simp_all
qed

text \<open>The header and the bitcode of the module.\<close>

definition module_part :: "dxil_io \<Rightarrow> dxil_buffer \<Rightarrow> part" where
  "module_part m b = (dxil_part_fourcc_value DXIL_DXIL,
     concat (map (le_bytes 4)
       [push_bit 16 (of_nat (dxil_shader_kind_value (shader_kind m))) OR
          push_bit 4 (major_version m) OR minor_version m :: 32 word,
        of_nat (24 + length (blob_contents (blob b))) div 4, 0x4C495844, 0x100, 16,
        of_nat (length (blob_contents (blob b)))]) @ blob_contents (blob b))"

lemma add_module_ok:
  assumes "contains c ps" and "dxil_container_add_module m b c = Inr c'" and "growing (blob b)"
  shows "contains c' (ps @ [module_part m b])"
proof -
  let ?n = "length (blob_contents (blob b))"
  let ?ws = "[push_bit 16 (of_nat (dxil_shader_kind_value (shader_kind m))) OR
      push_bit 4 (major_version m) OR minor_version m :: 32 word,
    of_nat (24 + ?n) div 4, 0x4C495844, 0x100, 16, of_nat ?n]"
  have n: "blob_size (blob b) = ?n" by (rule growing_size [OF assms(3)])
  have l: "?n < 2 ^ 63" using assms(3) n by (simp add: growing_def blob_ok_def)
  obtain d where d: "add_part_header DXIL_DXIL (of_nat (24 + ?n)) c = Inr d"
    "seq (map put_uint32 ?ws @ [put_bytes (blob_contents (blob b))]) d = Inr c'"
    using assms(2) unfolding dxil_container_add_module_def n Let_def
    by (auto split: if_splits)
  have p: "puts (seq (map put_uint32 ?ws @ [put_bytes (blob_contents (blob b))]))
     (sum_list (map (\<lambda>_. 4) ?ws) + (?n + 0)) (concat (map (le_bytes 4) ?ws) @ blob_contents (blob b) @ [])"
    by (intro puts_append puts_map puts_Cons puts_uint32 puts_bytes puts_Nil) (rule l)
  show ?thesis using contains_add [OF assms(1) d p] unfolding module_part_def by simp
qed

section \<open>Signature parts\<close>

definition signature_part :: "dxil_part_fourcc \<Rightarrow> dxil_signature_record list \<Rightarrow> string_buffer \<Rightarrow> part" where
  "signature_part part records names =
     (let elements = concat (map signature_elements records)
      in (dxil_part_fourcc_value part,
          le_bytes 4 (of_nat (length elements) :: 32 word) @ le_bytes 4 (8 :: 32 word) @
          concat (map signature_element_bytes elements) @ names))"

lemma fold_add: "fold (\<lambda>x s. s + f x) xs a = a + sum_list (map f xs)"
  for a :: "'a::comm_monoid_add"
  by (induction xs arbitrary: a) (simp_all add: add.assoc)

lemma of_nat_sum_list: "of_nat (sum_list ns) = sum_list (map of_nat ns)"
  by (induction ns) simp_all

lemma sum_list_times: "sum_list (map (\<lambda>x. k * f x) xs) = k * sum_list (map f xs)"
  for k :: "'a::comm_semiring_1"
  by (induction xs) (simp_all add: algebra_simps)

lemma get_semantic_name_offset_ok:
  "get_semantic_name_offset cache name names off v7 = Inr (n, cache', names') \<Longrightarrow>
   string_buffer_ok names \<Longrightarrow> string_buffer_ok names'"
  by (auto simp: get_semantic_name_offset_def Let_def append_text_ok split: if_splits option.splits)

lemma collect_names_ok:
  assumes "collect_names cache ios names off v7 = Inr (ios', names')" and "string_buffer_ok names"
  shows "string_buffer_ok names' \<and> map rec_num_elements ios' = map rec_num_elements ios \<and>
    list_all (\<lambda>io. rec_num_elements io \<le> length (rec_elements io)) ios'"
  using assms
proof (induction ios arbitrary: cache names ios')
  case (Cons io ios)
  then obtain offset cache1 names1 ios1
    where g: "get_semantic_name_offset cache (rec_name io) names off v7 = Inr (offset, cache1, names1)"
      and l: "rec_num_elements io \<le> length (rec_elements io)"
      and c: "collect_names cache1 ios names1 off v7 = Inr (ios1, names')"
      and ios': "ios' = set_name_offset offset io # ios1"
    by (auto split: if_splits)
  from Cons.IH [OF c get_semantic_name_offset_ok [OF g Cons.prems(2)]] l
  show ?case by (simp add: ios' set_name_offset_def)
qed simp

lemma collect_semantic_names_ok:
  assumes "collect_semantic_names ios off v7 = Inr (ios', names, endoff)"
  shows "length names < 2 ^ 32" and "endoff = off + of_nat (length names)"
    and "map rec_num_elements ios' = map rec_num_elements ios"
    and "map (length \<circ> signature_elements) ios' = map rec_num_elements ios"
proof -
  obtain names' where n: "collect_names [] ios [] off v7 = Inr (ios', names')"
    and p: "(if v7 \<and> length names' mod 4 \<noteq> 0 then append_text names' (replicate (4 - length names' mod 4) 0)
          else Inr names') = Inr names" and l: "endoff = off + of_nat (length names)"
    using assms by (auto simp: collect_semantic_names_def)
  have "string_buffer_ok []" by (simp add: string_buffer_ok_def)
  note c = collect_names_ok [OF n this]
  show "length names < 2 ^ 32"
    using p c append_text_ok [of names'] by (auto simp: string_buffer_ok_def split: if_splits)
  show "endoff = off + of_nat (length names)" by (rule l)
  show "map rec_num_elements ios' = map rec_num_elements ios" using c by simp
  have "map (length \<circ> signature_elements) ios' = map rec_num_elements ios'"
    using c [THEN conjunct2, THEN conjunct2] by (auto simp: signature_elements_def list_all_iff)
  then show "map (length \<circ> signature_elements) ios' = map rec_num_elements ios" using c by simp
qed

lemma add_io_signature_ok:
  assumes "contains c ps"
    and "dxil_container_add_io_signature part n io_data v7 c = Inr (c', io_data')"
  obtains names where "contains c' (ps @ [signature_part part (take n io_data') names])"
    and "collect_semantic_names (take n io_data)
       (8 + 32 * of_nat (sum_list (map rec_num_elements (take n io_data)))) v7
     = Inr (take n io_data', names, 8 + 32 * of_nat (sum_list (map rec_num_elements (take n io_data))) + of_nat (length names))"
proof -
  let ?rs = "take n io_data" and ?N = "sum_list (map rec_num_elements (take n io_data))"
  have N: "fold (\<lambda>io s. s + 32 * of_nat (rec_num_elements io)) ?rs 8 = (8 + 32 * of_nat ?N :: 32 word)"
    "fold (\<lambda>io s. s + of_nat (rec_num_elements io)) ?rs 0 = (of_nat ?N :: 32 word)"
    by (simp_all only: fold_add of_nat_sum_list map_map comp_def sum_list_times add_0)
  obtain rs names endoff d where le: "n \<le> length io_data"
    and rs: "collect_semantic_names ?rs (8 + 32 * of_nat ?N) v7 = Inr (rs, names, endoff)"
    and d: "add_part_header part endoff c = Inr d"
      "seq ([put_bytes (le_bytes 4 (of_nat ?N :: 32 word) @ le_bytes 4 (8 :: 32 word))] @
         map (put_bytes \<circ> signature_element_bytes) (concat (map signature_elements rs)) @
         [put_bytes names]) d = Inr c'"
    and io': "io_data' = rs @ drop n io_data"
    using assms(2) unfolding dxil_container_add_io_signature_def N Let_def
    by (auto split: if_splits)
  note s = collect_semantic_names_ok [OF rs]
  let ?es = "concat (map signature_elements rs)"
  have es: "length ?es = ?N" unfolding length_concat map_map s(4) ..
  have "length rs = n" using s(3) le by (metis length_map length_take min.absorb2)
  then have io: "take n io_data' = rs" using io' by simp
  have p: "puts (seq ([put_bytes (le_bytes 4 (of_nat ?N :: 32 word) @ le_bytes 4 (8 :: 32 word))] @
         map (put_bytes \<circ> signature_element_bytes) ?es @ [put_bytes names]))
       (length (le_bytes 4 (of_nat ?N :: 32 word) @ le_bytes 4 (8 :: 32 word)) + 0 +
        (sum_list (map (length \<circ> signature_element_bytes) ?es) + (length names + 0)))
       (((le_bytes 4 (of_nat ?N :: 32 word) @ le_bytes 4 (8 :: 32 word)) @ []) @
        concat (map signature_element_bytes ?es) @ names @ [])"
    unfolding comp_def
    by (intro puts_append puts_map puts_Cons puts_bytes puts_Nil) (use s(1) in \<open>simp_all add: struct_sizes\<close>)
  have "sum_list (map (length \<circ> signature_element_bytes) ?es) = 32 * ?N"
    unfolding es [symmetric] by (simp add: comp_def struct_sizes sum_list_triv)
  then have "endoff = of_nat (length (le_bytes 4 (of_nat ?N :: 32 word) @ le_bytes 4 (8 :: 32 word)) + 0 +
        (sum_list (map (length \<circ> signature_element_bytes) ?es) + (length names + 0)))"
    using s(2) by (simp add: algebra_simps)
  from contains_add [OF assms(1) d p this] have "contains c' (ps @ [signature_part part rs names])"
    unfolding signature_part_def Let_def es by simp
  with rs s(2) io that show thesis by simp
qed

section \<open>The state validation part\<close>

definition table_bytes :: "dxil_io \<Rightarrow> nat option \<Rightarrow> 32 word \<Rightarrow> 8 word list" where
  "table_bytes m pos n = (case pos of None \<Rightarrow> []
     | Some p \<Rightarrow> take (4 * unat n) (concat (map (le_bytes 4) (drop p (serialized_dependency_table m)))))"

definition tables_bytes :: "dxil_io \<Rightarrow> nat option list \<Rightarrow> 32 word list \<Rightarrow> 8 word list" where
  "tables_bytes m pos ns = concat (map (\<lambda>i. table_bytes m (pos ! i) (ns ! i)) [0..<4])"

definition psv_fields :: "dxil_io \<Rightarrow> dxil_validation_state \<Rightarrow> 8 word list" where
  "psv_fields m state =
     (le_bytes 4 (psv_size m) @
      take (unat (psv_size m)) (psv_runtime_info_bytes (validation_psv state)) @
      le_bytes 4 (num_resources state) @ []) @
     (if 0 < num_resources state then
        le_bytes 4 (resource_bind_info_size m) @
        take (unat (resource_bind_info_size m * num_resources state))
          (resources_bytes (validation_resources state)) @ []
      else []) @
     (le_bytes 4 (string_table_size m) @ sem_string_table m @
      take (unat (string_table_size m - of_nat (length (sem_string_table m)))) (le_bytes 4 (0 :: 32 word)) @
      le_bytes 4 (of_nat (length (sem_index_table m)) :: 32 word) @ []) @
     (if 0 < length (sem_index_table m)
      then concat (map (le_bytes 4) (sem_index_table m)) @ [] else []) @
     (if has_signatures m then
        le_bytes 4 (16 :: 32 word) @
        take (unat (16 * num_sig_inputs m)) (concat (map psv_signature_element_bytes (psv_inputs m))) @
        take (unat (16 * num_sig_outputs m)) (concat (map psv_signature_element_bytes (psv_outputs m))) @
        take (unat (16 * num_sig_patch_consts m))
          (concat (map psv_signature_element_bytes (psv_patch_consts m))) @ []
      else [])"

definition psv_fields_length :: "dxil_io \<Rightarrow> dxil_validation_state \<Rightarrow> nat" where
  "psv_fields_length m state =
     (4 + (unat (psv_size m) + (4 + 0))) +
     ((if 0 < num_resources state
       then 4 + (unat (resource_bind_info_size m * num_resources state) + 0) else 0) +
      ((4 + (length (sem_string_table m) +
        (unat (string_table_size m - of_nat (length (sem_string_table m))) + (4 + 0)))) +
       ((if 0 < length (sem_index_table m)
         then length (concat (map (le_bytes 4) (sem_index_table m)) :: 8 word list) + 0 else 0) +
        (if has_signatures m
         then 4 + (unat (16 * num_sig_inputs m) + (unat (16 * num_sig_outputs m) +
           (unat (16 * num_sig_patch_consts m) + 0))) else 0))))"

definition psv_body :: "dxil_io \<Rightarrow> dxil_io \<Rightarrow> dxil_validation_state \<Rightarrow> 8 word list" where
  "psv_body m m' state = psv_fields m state @
     (if uses_view_id (validation_psv state) \<noteq> 0
      then tables_bytes m' (viewid_dependency_table m) (dependency_table_dwords_per_input m) else []) @
     tables_bytes m' (io_dependency_table m) (io_dependency_table_size m)"

text \<open>The lengths of the arrays of the module that the tables are kept in.\<close>

definition io_arrays_ok :: "dxil_io \<Rightarrow> bool" where
  "io_arrays_ok m \<longleftrightarrow> length (viewid_dependency_table m) = 4 \<and> length (io_dependency_table m) = 4 \<and>
     length (dependency_table_dwords_per_input m) = 4 \<and> length (io_dependency_table_size m) = 4 \<and>
     length (num_psv_outputs m) = 4 \<and> string_buffer_ok (sem_string_table m) \<and>
     length (sem_index_table m) \<le> 128"

lemma unat_32: "unat (w :: 32 word) < 4294967296"
  using unsigned_less [where 'b = 32 and 'a = nat, of w] by simp

lemma puts_table: "puts (put_table m pos n) (4 * unat n) (table_bytes m pos n)"
proof (cases pos)
  case None
  show ?thesis
  proof (cases "n = 0")
    case True
    then show ?thesis using None puts_bytes [of "[]"] by (simp add: put_table_def table_bytes_def)
  next
    case False
    then show ?thesis using None by (simp add: put_table_def puts_def)
  qed
next
  case (Some p)
  have "4 * unat n < 2 ^ 63" using unat_32 [of n] by simp
  then show ?thesis using Some puts_memory by (simp add: put_table_def table_bytes_def)
qed

lemma puts_tables:
  assumes "length ns = 4"
  shows "puts (put_tables m pos ns) (4 * sum_list (map unat ns)) (tables_bytes m pos ns)"
proof -
  have "map (\<lambda>i. unat (ns ! i)) [0..<4] = map unat (map ((!) ns) [0..<length ns])"
    unfolding map_map comp_def assms ..
  then have "map (\<lambda>i. unat (ns ! i)) [0..<4] = map unat ns" unfolding map_nth .
  then have "sum_list (map (\<lambda>i. 4 * unat (ns ! i)) [0..<4]) = 4 * sum_list (map unat ns)"
    by (simp only: sum_list_times)
  moreover have "puts (put_tables m pos ns) (sum_list (map (\<lambda>i. 4 * unat (ns ! i)) [0..<4])) (tables_bytes m pos ns)"
    unfolding put_tables_def tables_bytes_def by (intro puts_map puts_table)
  ultimately show ?thesis by simp
qed

lemma zero_earlier_tables_same:
  "zero_earlier_tables v m = Inr m' \<Longrightarrow>
   viewid_dependency_table m' = viewid_dependency_table m \<and> io_dependency_table m' = io_dependency_table m \<and>
   dependency_table_dwords_per_input m' = dependency_table_dwords_per_input m \<and>
   io_dependency_table_size m' = io_dependency_table_size m"
  by (auto simp: zero_earlier_tables_def split: if_splits)


lemma sum_dwords: "sum_list (map (\<lambda>n. n * 4) ns) = 4 * of_nat (sum_list (map unat (ns :: 32 word list)))"
  by (induction ns) (simp_all add: algebra_simps)

lemma dwords_length [simp]: "length (concat (map (le_bytes 4) ws) :: 8 word list) = 4 * length ws"
  for ws :: "32 word list"
  by (induction ws) simp_all

lemma psv_size_less: "unat (psv_size m) < 2 ^ 63"
  using unat_32 [of "psv_size m"] by simp

lemma state_validation_size_eq:
  "state_validation_size m state = of_nat (psv_fields_length m state +
      ((if uses_view_id (validation_psv state) \<noteq> 0
        then 4 * sum_list (map unat (dependency_table_dwords_per_input m)) else 0) +
       4 * sum_list (map unat (io_dependency_table_size m))))"
proof -
  have z: "\<not> has_signatures m \<Longrightarrow> num_sig_inputs m = 0 \<and> num_sig_outputs m = 0 \<and> num_sig_patch_consts m = 0"
    by (simp add: has_signatures_def)
  show ?thesis
    unfolding state_validation_size_def Let_def fold_add psv_fields_length_def
    by (cases "has_signatures m"; cases "0 < num_resources state"; cases "uses_view_id (validation_psv state) = 0")
      (simp_all add: sum_dwords z)
qed

lemma puts_psv_part:
  assumes "io_arrays_ok m"
  shows "puts (put_psv_part m state) (psv_fields_length m state) (psv_fields m state)"
proof -
  have u: "unat w < 2 ^ 63" for w :: "32 word" using unat_32 [of w] by simp
  have l: "length (sem_string_table m) < 2 ^ 63" "length (sem_index_table m) \<le> 128"
    using assms by (simp_all add: io_arrays_ok_def string_buffer_ok_def)
  show ?thesis
    unfolding put_psv_part_def psv_fields_def psv_fields_length_def
    by (intro puts_append puts_Cons puts_if puts_uint32 puts_memory puts_bytes puts_Nil u)
      (use l in simp_all)
qed

lemma seq_two: "seq [f, g] s = bind_result (f s) g"
  by (cases "f s"; cases "g (projr (f s))") (auto simp: bind_result_def split: sum.splits)

lemma add_state_validation_ok:
  assumes "contains c ps" and "io_arrays_ok m"
    and "dxil_container_add_state_validation m state c = Inr (c', m', state')"
  shows "contains c' (ps @ [(dxil_part_fourcc_value DXIL_PSV0, psv_body m m' state')])"
    and "state' = set_psv_vectors m state"
    and "zero_earlier_tables (uses_view_id (validation_psv state) \<noteq> 0) m = Inr m'"
proof -
  let ?st = "set_psv_vectors m state"
  let ?v = "uses_view_id (validation_psv state) \<noteq> 0"
  have v: "uses_view_id (validation_psv ?st) = uses_view_id (validation_psv state)"
    by (simp add: set_psv_vectors_def)
  let ?f = "if ?v then put_tables m' (viewid_dependency_table m') (dependency_table_dwords_per_input m') else Inr"
  let ?g = "put_tables m' (io_dependency_table m') (io_dependency_table_size m')"
  obtain d e where d: "add_part_header DXIL_PSV0 (state_validation_size m state) c = Inr d"
    and e: "put_psv_part m ?st d = Inr e" and m': "zero_earlier_tables ?v m = Inr m'"
    and t: "bind_result (?f e) ?g = Inr c'" and st: "state' = ?st"
    using assms(3) unfolding dxil_container_add_state_validation_def Let_def v seq_two by auto
  show "state' = ?st" "zero_earlier_tables ?v m = Inr m'" by (fact st, fact m')
  note same = zero_earlier_tables_same [OF m']
  have l: "length (dependency_table_dwords_per_input m) = 4" "length (io_dependency_table_size m) = 4"
    using assms(2) by (simp_all add: io_arrays_ok_def)
  let ?vn = "if ?v then 4 * sum_list (map unat (dependency_table_dwords_per_input m)) else 0"
  let ?ion = "4 * sum_list (map unat (io_dependency_table_size m))"
  have "puts ?f ?vn (if ?v then tables_bytes m' (viewid_dependency_table m) (dependency_table_dwords_per_input m) else [])"
    using puts_tables [OF l(1)] puts_skip same by simp
  moreover have "puts ?g ?ion (tables_bytes m' (io_dependency_table m) (io_dependency_table_size m))"
    using puts_tables [OF l(2)] same by simp
  ultimately have p: "puts (\<lambda>e. bind_result (put_psv_part m ?st e) (\<lambda>e. bind_result (?f e) ?g))
     (psv_fields_length m ?st + (?vn + ?ion)) (psv_body m m' ?st)"
    unfolding psv_body_def v by (intro puts_bind puts_psv_part assms(2))
  have n: "state_validation_size m state = of_nat (psv_fields_length m ?st + (?vn + ?ion))"
    using state_validation_size_eq [of m state] by (simp add: psv_fields_length_def set_psv_vectors_def)
  have "bind_result (put_psv_part m ?st d) (\<lambda>e. bind_result (?f e) ?g) = Inr c'"
    unfolding e bind_result_simps(2) by (rule t)
  from contains_add [OF assms(1) d this p n]
  show "contains c' (ps @ [(dxil_part_fourcc_value DXIL_PSV0, psv_body m m' state')])" unfolding st .
qed

end
