(* ===== verification/Container_Reader.thy ===== *)
theory Container_Reader
  imports Container_File Blob_Roundtrip
begin

text \<open>
  A reader of container files that follows the offset table, and the round trip: what the functions of
  \<open>dxil_container.c\<close> collected and wrote is what the reader finds.
\<close>

section \<open>The reader\<close>

definition rd_u32 :: "8 word list \<Rightarrow> nat \<Rightarrow> 32 word option" where
  "rd_u32 data k = (if k + 4 \<le> length data then Some (le_word (take 4 (drop k data))) else None)"

definition read_part :: "8 word list \<Rightarrow> nat \<Rightarrow> part option" where
  "read_part data k =
     (case (rd_u32 data k, rd_u32 data (k + 4)) of
        (Some name, Some n) \<Rightarrow>
          if k + 8 + unat n \<le> length data then Some (name, take (unat n) (drop (k + 8) data)) else None
      | _ \<Rightarrow> None)"

definition read_part_at :: "8 word list \<Rightarrow> nat \<Rightarrow> part option" where
  "read_part_at data i =
     (case rd_u32 data (32 + 4 * i) of None \<Rightarrow> None | Some k \<Rightarrow> read_part data (unat k))"

text \<open>
  The file begins with its name, an empty digest, the version 1.0, its size and the number of parts.
\<close>

definition read_container :: "8 word list \<Rightarrow> part list option" where
  "read_container data =
     (if take 24 data = le_bytes 4 DXIL_DXBC @ replicate 16 0 @ [1, 0, 0, 0] \<and>
         rd_u32 data 24 = Some (of_nat (length data))
      then (case rd_u32 data 28 of
              None \<Rightarrow> None
            | Some n \<Rightarrow> those (map (read_part_at data) [0..<unat n]))
      else None)"

section \<open>Reading at a place\<close>

lemma rd_u32_at: "rd_u32 (xs @ le_bytes 4 w @ ys) (length xs) = Some w"
  by (simp add: rd_u32_def le_word_le_bytes)

lemma rd_u32_at':
  assumes "length xs = k"
  shows "rd_u32 (xs @ le_bytes 4 w @ ys) k = Some w"
  using rd_u32_at [of xs w ys] assms by simp

lemma read_part_here:
  assumes "length xs = k" and "length (snd p) < 2 ^ 32"
  shows "read_part (xs @ part_bytes p @ ys) k = Some p"
proof -
  let ?n = "of_nat (length (snd p)) :: 32 word"
  have n: "unat ?n = length (snd p)" using assms(2) by (simp add: unat_of_nat take_bit_eq_mod)
  have "rd_u32 (xs @ part_bytes p @ ys) k = Some (fst p)"
    using rd_u32_at' [OF assms(1)] by (simp add: part_bytes_def)
  moreover have "rd_u32 (xs @ part_bytes p @ ys) (k + 4) = Some ?n"
    using rd_u32_at' [of "xs @ le_bytes 4 (fst p)" "k + 4" ?n "snd p @ ys"] assms(1)
    by (simp add: part_bytes_def)
  ultimately show ?thesis
    using assms by (simp add: read_part_def n part_bytes_def)
qed

lemma read_parts:
  assumes "length xs = k" and "\<forall>p \<in> set ps. length (snd p) < 2 ^ 32"
  shows "map (read_part (xs @ concat (map part_bytes ps) @ ys)) (part_positions k ps) = map Some ps"
  using assms
proof (induction ps arbitrary: xs k)
  case (Cons p ps)
  have "map (read_part ((xs @ part_bytes p) @ concat (map part_bytes ps) @ ys))
      (part_positions (k + length (part_bytes p)) ps) = map Some ps"
    using Cons.prems by (intro Cons.IH) simp_all
  moreover have "read_part (xs @ part_bytes p @ (concat (map part_bytes ps) @ ys)) k = Some p"
    using Cons.prems by (intro read_part_here) simp_all
  ultimately show ?case by simp
qed simp

lemma those_map_Some: "those (map Some xs) = Some xs"
  by (induction xs) simp_all

lemma rd_u32_table:
  assumes "i < length ns" and "length xs = k"
  shows "rd_u32 (xs @ concat (map (le_bytes 4) ns) @ ys) (k + 4 * i) = Some (ns ! i)"
proof -
  have s: "ns = take i ns @ ns ! i # drop (Suc i) ns" using assms(1) by (rule id_take_nth_drop)
  have "concat (map (le_bytes 4) ns) =
      concat (map (le_bytes 4) (take i ns)) @ le_bytes 4 (ns ! i) @ concat (map (le_bytes 4) (drop (Suc i) ns))"
    by (subst s) simp
  then have f: "xs @ concat (map (le_bytes 4) ns) @ ys =
      (xs @ concat (map (le_bytes 4) (take i ns))) @ le_bytes 4 (ns ! i) @
        (concat (map (le_bytes 4) (drop (Suc i) ns)) @ ys)"
    by simp
  show ?thesis unfolding f
    by (rule rd_u32_at') (use assms in simp)
qed

section \<open>Writing\<close>

lemma concat_part_bound: "p \<in> set ps \<Longrightarrow> length (snd p) + 8 \<le> length (concat (map part_bytes ps))"
  by (induction ps) auto

lemma dwords_of_length [simp]:
  "length (concat (map (le_bytes 4 \<circ> (of_nat :: nat \<Rightarrow> 32 word)) ns) :: 8 word list) = 4 * length ns"
  by (induction ns) simp_all

lemma part_positions_shift: "map ((+) h) (part_positions k ps) = part_positions (h + k) ps"
  by (induction ps arbitrary: k) (simp_all add: add.assoc)

lemma parts_count_bound: "8 * length ps \<le> length (concat (map part_bytes ps))"
  by (induction ps) simp_all

lemma puts_blob:
  assumes "growing b" and "seq (map blob_put ds) b = Inr b'" and "\<forall>d \<in> set ds. length d < 2 ^ 63"
  shows "growing b'" and "blob_contents b' = blob_contents b @ concat ds"
  using blob_sink.put_all [OF assms(1) _ assms(2)] assms(3) by (simp_all add: list_all_iff)

lemma write_contents:
  assumes "contains c ps" and "growing b" and "blob_contents b = []" and "dxil_container_write c b = Inr b'"
  defines "n \<equiv> length ps" and "body \<equiv> concat (map part_bytes ps)"
  shows "growing b'" and "32 + 4 * n + length body < 2 ^ 32"
    and "blob_contents b' = le_bytes 4 DXIL_DXBC @ replicate 16 0 @ [1, 0, 0, 0] @
      le_bytes 4 (of_nat (32 + 4 * n + length body) :: 32 word) @ le_bytes 4 (of_nat n :: 32 word) @
      concat (map (le_bytes 4) (map of_nat (part_positions (32 + 4 * n) ps) :: 32 word list)) @ body"
proof -
  have c: "growing (parts c)" "blob_contents (parts c) = body" "map unat (part_offsets c) = part_positions 0 ps"
    using assms(1) by (simp_all add: contains_def body_def)
  have l: "length (part_offsets c) = n" using c(3) by (metis length_map length_part_positions n_def)
  have size: "blob_size (parts c) = length body" using growing_size [OF c(1)] c(2) by simp
  have "length body < 2 ^ 63" using c(1) size by (simp add: growing_def blob_ok_def)
  then have add: "size_add (32 + 4 * n) (length body) = 32 + 4 * n + length body"
    using parts_count_bound [of ps] by (simp add: size_add_def n_def body_def)
  have offsets: "map (\<lambda>offset. 32 + 4 * n + unat offset) (part_offsets c) = part_positions (32 + 4 * n) ps"
    using arg_cong [OF c(3), of "map ((+) (32 + 4 * n))"] part_positions_shift [of "32 + 4 * n" 0 ps]
    by (simp add: comp_def)
  let ?h = "[le_bytes 4 DXIL_DXBC, replicate 16 0, le_bytes 2 (1 :: 16 word), le_bytes 2 (0 :: 16 word)]"
  let ?t = "[le_bytes 4 (of_nat n :: 32 word),
     concat (map (\<lambda>offset. le_bytes 4 (of_nat offset :: 32 word)) (part_positions (32 + 4 * n) ps)), body]"
  obtain b1 b2 where b1: "seq (map blob_put ?h) b = Inr b1"
    and b2: "blob_put (le_bytes 4 (of_nat (32 + 4 * n + length body) :: 32 word)) b1 = Inr b2"
    and b': "seq (map blob_put ?t) b2 = Inr b'" and n: "32 + 4 * n + length body < 2 ^ 32"
    using assms(4) unfolding dxil_container_write_def Let_def l size add offsets c(2)
    by (auto simp del: seq.simps split: if_splits)
  show "32 + 4 * n + length body < 2 ^ 32" by (rule n)
  note p1 = puts_blob [OF assms(2) b1]
  have "seq (map blob_put [le_bytes 4 (of_nat (32 + 4 * n + length body) :: 32 word)]) b1 = Inr b2"
    using b2 by simp
  note p2 = puts_blob [OF p1(1) this]
  note p3 = puts_blob [OF p2(1) b']
  have k: "length (concat (map (\<lambda>offset. le_bytes 4 (of_nat offset :: 32 word)) qs) :: 8 word list) = 4 * length qs"
    for qs by (induction qs) simp_all
  have legal: "\<forall>d \<in> set ?h. length d < 2 ^ 63" "\<forall>d \<in> set ?t. length d < 2 ^ 63"
    using n by (simp_all add: k n_def)
  show "growing b'" using p3(1) legal by simp
  have v: "le_bytes 2 (1 :: 16 word) = [1, 0 :: 8 word]" "le_bytes 2 (0 :: 16 word) = [0, 0 :: 8 word]"
    by (simp_all add: le_bytes_def upt_rec)
  show "blob_contents b' = le_bytes 4 DXIL_DXBC @ replicate 16 0 @ [1, 0, 0, 0] @
      le_bytes 4 (of_nat (32 + 4 * n + length body) :: 32 word) @ le_bytes 4 (of_nat n :: 32 word) @
      concat (map (le_bytes 4) (map of_nat (part_positions (32 + 4 * n) ps) :: 32 word list)) @ body"
    using p3(2) p2(2) p1(2) legal assms(3) by (simp add: v comp_def del: replicate.simps)
qed

text \<open>The file is read back.\<close>

lemma read_written:
  assumes "contains c ps" and "growing b" and "blob_contents b = []" and "dxil_container_write c b = Inr b'"
  shows "read_container (blob_contents b') = Some ps"
proof -
  let ?n = "length ps" and ?body = "concat (map part_bytes ps)"
  note w = write_contents [OF assms]
  let ?h = "le_bytes 4 DXIL_DXBC @ replicate 16 0 @ [1, 0, 0, 0] :: 8 word list"
  let ?size = "of_nat (32 + 4 * ?n + length ?body) :: 32 word"
  let ?offs = "map of_nat (part_positions (32 + 4 * ?n) ps) :: 32 word list"
  define data where "data = blob_contents b'"
  have f: "data = ?h @ le_bytes 4 ?size @ le_bytes 4 (of_nat ?n :: 32 word) @ concat (map (le_bytes 4) ?offs) @ ?body"
    unfolding data_def w(3) by simp
  have h: "length ?h = 24" by simp
  have lf: "length data = 32 + 4 * ?n + length ?body"
    unfolding f by simp
  have n: "unat (of_nat ?n :: 32 word) = ?n" using w(2) by (simp add: unat_of_nat take_bit_eq_mod)
  have 1: "take 24 data = ?h" unfolding f using h by (simp del: replicate.simps)
  have 2: "rd_u32 data 24 = Some (of_nat (length data))" unfolding f
    by (subst rd_u32_at' [OF h]) simp
  have 3: "rd_u32 data 28 = Some (of_nat ?n)"
    unfolding f using rd_u32_at' [of "?h @ le_bytes 4 ?size" 28] h by simp
  have 4: "map (read_part_at data) [0..<?n] = map Some ps"
  proof (rule nth_equalityI)
    fix i assume i: "i < length (map (read_part_at data) [0..<?n])"
    let ?q = "part_positions (32 + 4 * ?n) ps"
    have f1: "data = (?h @ le_bytes 4 ?size @ le_bytes 4 (of_nat ?n :: 32 word)) @ concat (map (le_bytes 4) ?offs) @ ?body"
      unfolding f by simp
    have "rd_u32 data (32 + 4 * i) = Some (?offs ! i)"
      unfolding f1 by (rule rd_u32_table) (use i in simp_all)
    moreover have "?q ! i + 8 \<le> 32 + 4 * ?n + length ?body"
      using part_positions_bound [of "?q ! i" "32 + 4 * ?n" ps] i by simp
    then have "unat (?offs ! i) = ?q ! i" using i w(2) by (simp add: unat_of_nat take_bit_eq_mod)
    ultimately have "read_part_at data i = read_part data (?q ! i)" by (simp add: read_part_at_def)
    moreover have "map (read_part data) ?q = map Some ps"
    proof -
      have f2: "data = (?h @ le_bytes 4 ?size @ le_bytes 4 (of_nat ?n :: 32 word) @ concat (map (le_bytes 4) ?offs)) @ ?body @ []"
        unfolding f by simp
      have small: "\<forall>p \<in> set ps. length (snd p) < 2 ^ 32"
      proof
        fix p assume "p \<in> set ps"
        from concat_part_bound [OF this] w(2) show "length (snd p) < 2 ^ 32" by linarith
      qed
      show ?thesis unfolding f2 by (rule read_parts [OF _ small]) simp
    qed
    from arg_cong [OF this, of "\<lambda>xs. xs ! i"] have "read_part data (?q ! i) = Some (ps ! i)"
      using i by simp
    ultimately show "map (read_part_at data) [0..<?n] ! i = map Some ps ! i" using i by simp
  qed simp
  show ?thesis
    unfolding data_def [symmetric] read_container_def 1 2 3 by (simp add: n 4 those_map_Some)
qed

end
