(* ===== verification/Container_Names.thy ===== *)
theory Container_Names
  imports Container_Reader
begin

text \<open>
  The offsets of names in a signature part lead to the names, and the sequences of calls that fill a
  container.
\<close>

section \<open>Names\<close>

text \<open>A C string stands at a place in a run of bytes.\<close>

definition string_at :: "8 word list \<Rightarrow> nat \<Rightarrow> string \<Rightarrow> bool" where
  "string_at bs k name \<longleftrightarrow> take (length name + 1) (drop k bs) = string_bytes name @ [0]"

lemma string_at_append: "string_at bs k name \<Longrightarrow> string_at (bs @ cs) k name"
proof -
  assume a: "string_at bs k name"
  then have "length (take (length name + 1) (drop k bs)) = length name + 1" by (simp add: string_at_def)
  then show ?thesis using a by (simp add: string_at_def)
qed

lemma string_at_end: "string_at (bs @ string_bytes name @ [0]) (length bs) name"
  by (simp add: string_at_def)

lemma string_at_bound: "string_at bs k name \<Longrightarrow> k + length name + 1 \<le> length bs"
proof -
  assume a: "string_at bs k name"
  then have "length (take (length name + 1) (drop k bs)) = length name + 1" by (simp add: string_at_def)
  then show ?thesis by simp
qed

lemma string_at_prefix: "string_at bs k name \<Longrightarrow> string_at (pre @ bs) (length pre + k) name"
  by (simp add: string_at_def)

text \<open>An offset counts from the start of the signature, whose fixed part has \<open>F\<close> bytes.\<close>

definition resolves :: "nat \<Rightarrow> string_buffer \<Rightarrow> string \<Rightarrow> 32 word \<Rightarrow> bool" where
  "resolves F names name offset \<longleftrightarrow> (\<exists>k. offset = of_nat (F + k) \<and> string_at names k name)"

lemma resolves_append: "resolves F names name offset \<Longrightarrow> resolves F (names @ xs) name offset"
  unfolding resolves_def by (blast intro: string_at_append)

lemma name_offset_resolves:
  assumes "get_semantic_name_offset cache name names (of_nat F) v7 = Inr (offset, cache', names')"
    and "length names + length name + 2 < 2 ^ 32"
    and "\<forall>(n, o') \<in> set cache. resolves F names n o'"
  shows "\<exists>xs. names' = names @ xs \<and> length xs \<le> length name + 1"
    and "resolves F names' name offset" and "\<forall>(n, o') \<in> set cache'. resolves F names' n o'"
proof -
  let ?new = "names @ string_bytes name @ [0]"
  have fits: "append_text names (string_bytes name @ [0]) = Inr ?new"
    using assms(2) by (intro append_text_fits) simp
  have here: "resolves F ?new name (of_nat (length names) + of_nat F)"
    unfolding resolves_def using string_at_end [of names name] by (intro exI [of _ "length names"]) simp
  have old: "\<forall>(n, o') \<in> set cache. resolves F ?new n o'"
    using assms(3) resolves_append [of F names] by fastforce
  have "(names' = names \<and> cache' = cache \<and> (name, offset) \<in> set cache) \<or>
    (names' = ?new \<and> offset = of_nat (length names) + of_nat F \<and>
     (cache' = cache \<or> cache' = cache @ [(name, offset)]))"
    using assms(1) unfolding get_semantic_name_offset_def Let_def fits
    by (auto split: if_splits option.splits dest: map_of_SomeD)
  then show "\<exists>xs. names' = names @ xs \<and> length xs \<le> length name + 1"
    "resolves F names' name offset" "\<forall>(n, o') \<in> set cache'. resolves F names' n o'"
    using here old assms(3) by (elim disjE conjE; force)+
qed

abbreviation names_length :: "dxil_signature_record list \<Rightarrow> nat" where
  "names_length ios \<equiv> sum_list (map (\<lambda>io. length (rec_name io) + 1) ios)"

lemma collect_names_resolve:
  assumes "collect_names cache ios names (of_nat F) v7 = Inr (ios', names')"
    and "length names + names_length ios + 1 < 2 ^ 32"
    and "\<forall>(n, o') \<in> set cache. resolves F names n o'"
  shows "(\<exists>xs. names' = names @ xs \<and> length xs \<le> names_length ios) \<and>
    map rec_name ios' = map rec_name ios \<and>
    (\<forall>io \<in> set ios'. \<forall>e \<in> set (signature_elements io).
       resolves F names' (rec_name io) (elm_semantic_name_offset e))"
  using assms
proof (induction ios arbitrary: cache names ios')
  case (Cons io ios)
  then obtain offset cache1 names1 ios1
    where g: "get_semantic_name_offset cache (rec_name io) names (of_nat F) v7 = Inr (offset, cache1, names1)"
      and l: "rec_num_elements io \<le> length (rec_elements io)"
      and c: "collect_names cache1 ios names1 (of_nat F) v7 = Inr (ios1, names')"
      and ios': "ios' = set_name_offset offset io # ios1"
    by (auto split: if_splits)
  have "length names + length (rec_name io) + 2 < 2 ^ 32" using Cons.prems(2) by simp
  note n = name_offset_resolves [OF g this Cons.prems(3)]
  then obtain xs where xs: "names1 = names @ xs" "length xs \<le> length (rec_name io) + 1" by blast
  then have "length names1 + names_length ios + 1 < 2 ^ 32" using Cons.prems(2) by simp
  note IH = Cons.IH [OF c this n(3)]
  then obtain ys where ys: "names' = names1 @ ys" "length ys \<le> names_length ios" by blast
  have "resolves F names' (rec_name io) offset" using n(2) ys(1) resolves_append by blast
  moreover have "elm_semantic_name_offset e = offset" if "e \<in> set (signature_elements (set_name_offset offset io))" for e
    using that l by (auto simp: signature_elements_def set_name_offset_def)
  ultimately show ?case
    using IH xs ys by (auto simp: ios' set_name_offset_def)
qed simp


lemma collect_semantic_names_resolve:
  assumes "collect_semantic_names ios (of_nat F) v7 = Inr (ios', names, endoff)"
    and "names_length ios + 5 < 2 ^ 32"
  shows "map rec_name ios' = map rec_name ios"
    and "\<forall>io \<in> set ios'. \<forall>e \<in> set (signature_elements io).
       resolves F names (rec_name io) (elm_semantic_name_offset e)"
    and "length names \<le> names_length ios + 3"
proof -
  obtain names' where n: "collect_names [] ios [] (of_nat F) v7 = Inr (ios', names')"
    and p: "(if v7 \<and> length names' mod 4 \<noteq> 0 then append_text names' (replicate (4 - length names' mod 4) 0)
          else Inr names') = Inr names"
    using assms(1) by (auto simp: collect_semantic_names_def)
  have "length ([] :: string_buffer) + names_length ios + 1 < 2 ^ 32" using assms(2) by simp
  note c = collect_names_resolve [OF n this, simplified]
  then have le: "length names' \<le> names_length ios" by auto
  have "length names' mod 4 < 4" by simp
  then have "append_text names' (replicate (4 - length names' mod 4) 0)
      = Inr (names' @ replicate (4 - length names' mod 4) 0)"
    using assms(2) le by (intro append_text_fits) simp
  then obtain xs where xs: "names = names' @ xs" and l: "length xs \<le> 4 \<and> (length xs = 4 \<longrightarrow> length names' mod 4 = 0 \<and> xs = [])"
    using p by (cases "v7 \<and> length names' mod 4 \<noteq> 0") auto
  show "map rec_name ios' = map rec_name ios" using c by blast
  show "length names \<le> names_length ios + 3" using le l by (cases "length xs = 4") (auto simp: xs)
  show "\<forall>io \<in> set ios'. \<forall>e \<in> set (signature_elements io).
       resolves F names (rec_name io) (elm_semantic_name_offset e)"
    unfolding xs using c resolves_append by blast
qed

text \<open>The bytes of a part before the names.\<close>

lemma signature_names_at:
  assumes "contains c ps"
    and "dxil_container_add_io_signature part n io_data v7 c = Inr (c', io_data')"
    and "8 + 32 * sum_list (map rec_num_elements (take n io_data)) + names_length (take n io_data) + 5 < 2 ^ 32"
  shows "\<exists>body. contains c' (ps @ [(dxil_part_fourcc_value part, body)]) \<and>
    map rec_name (take n io_data') = map rec_name (take n io_data) \<and>
    (\<forall>io \<in> set (take n io_data'). \<forall>e \<in> set (signature_elements io).
       string_at body (unat (elm_semantic_name_offset e)) (rec_name io))"
proof -
  let ?N = "sum_list (map rec_num_elements (take n io_data))"
  obtain names where c: "contains c' (ps @ [signature_part part (take n io_data') names])"
    and s: "collect_semantic_names (take n io_data) (8 + 32 * of_nat ?N) v7
      = Inr (take n io_data', names, 8 + 32 * of_nat ?N + of_nat (length names))"
    using add_io_signature_ok [OF assms(1,2)] .
  have F: "8 + 32 * of_nat ?N = (of_nat (8 + 32 * ?N) :: 32 word)" by simp
  have small: "names_length (take n io_data) + 5 < 2 ^ 32" using assms(3) by simp
  note r = collect_semantic_names_resolve [OF s [unfolded F] small]
  let ?es = "concat (map signature_elements (take n io_data'))"
  let ?pre = "le_bytes 4 (of_nat (length ?es) :: 32 word) @ le_bytes 4 (8 :: 32 word) @
     concat (map signature_element_bytes ?es)"
  have "length ?es = ?N"
    using collect_semantic_names_ok(4) [OF s] by (simp add: length_concat)
  moreover have "length (concat (map signature_element_bytes es)) = 32 * length es" for es
    by (induction es) (simp_all add: struct_sizes)
  ultimately have pre: "length ?pre = 8 + 32 * ?N" by (simp only: length_append length_le_bytes)
  have "string_at (?pre @ names) (unat offset) name"
    if res: "resolves (8 + 32 * ?N) names name offset" for name offset
  proof -
    obtain k where k: "offset = of_nat (8 + 32 * ?N + k)" "string_at names k name"
      using res unfolding resolves_def by blast
    have "8 + 32 * ?N + k < 2 ^ 32" using string_at_bound [OF k(2)] r(3) assms(3) by linarith
    then have "unat offset = 8 + 32 * ?N + k"
      unfolding k(1) by (simp only: unat_of_nat) (simp add: take_bit_eq_mod)
    then show ?thesis using string_at_prefix [OF k(2), of ?pre] pre by simp
  qed
  then show ?thesis
    using c r(1,2) by (intro exI [of _ "?pre @ names"]) (simp add: signature_part_def Let_def)
qed


text \<open>C14: The offset in each element of a signature part leads to the name of its record, zero-terminated:
  whether the names are shared or not, and whatever was in the container before. The sizes are below
  \<open>4 GB\<close>.\<close>

theorem io_signature_names_resolve:
  assumes "contains c ps"
    and "dxil_container_add_io_signature part n io_data v7 c = Inr (c', io_data')"
    and "8 + 32 * sum_list (map rec_num_elements (take n io_data)) + names_length (take n io_data) + 5 < 2 ^ 32"
  shows "\<exists>body. contains c' (ps @ [(dxil_part_fourcc_value part, body)]) \<and>
    map rec_name (take n io_data') = map rec_name (take n io_data) \<and>
    (\<forall>io \<in> set (take n io_data'). \<forall>e \<in> set (signature_elements io).
       string_at body (unat (elm_semantic_name_offset e)) (rec_name io))"
  by (rule signature_names_at [OF assms])

section \<open>Sequences of calls\<close>

text \<open>
  \<open>filled c ps\<close>: calls of the functions that add parts, in any order and number, have led from an empty
  container to \<open>c\<close>, and \<open>ps\<close> are the parts they describe.
\<close>

inductive filled :: "dxil_container \<Rightarrow> part list \<Rightarrow> bool" where
  filled_init: "limit < 2 ^ 63 \<Longrightarrow> filled (dxil_container_init limit j) []"
| filled_features: "filled c ps \<Longrightarrow> dxil_container_add_features f c = Inr c' \<Longrightarrow>
    filled c' (ps @ [features_part f])"
| filled_signature: "filled c ps \<Longrightarrow>
    dxil_container_add_io_signature part n io_data v7 c = Inr (c', io_data') \<Longrightarrow>
    collect_semantic_names (take n io_data)
      (8 + 32 * of_nat (sum_list (map rec_num_elements (take n io_data)))) v7 = Inr (ios, names, endoff) \<Longrightarrow>
    filled c' (ps @ [signature_part part ios names])"
| filled_state: "filled c ps \<Longrightarrow> io_arrays_ok m \<Longrightarrow>
    dxil_container_add_state_validation m state c = Inr (c', m', state') \<Longrightarrow>
    filled c' (ps @ [(dxil_part_fourcc_value DXIL_PSV0, psv_body m m' state')])"
| filled_module: "filled c ps \<Longrightarrow> growing (blob b) \<Longrightarrow> dxil_container_add_module m b c = Inr c' \<Longrightarrow>
    filled c' (ps @ [module_part m b])"

lemma filled_contains: "filled c ps \<Longrightarrow> contains c ps"
proof (induction rule: filled.induct)
  case (filled_signature c ps part n io_data v7 c' io_data' ios names endoff)
  obtain names' where "contains c' (ps @ [signature_part part (take n io_data') names'])"
    and "collect_semantic_names (take n io_data)
       (8 + 32 * of_nat (sum_list (map rec_num_elements (take n io_data)))) v7
     = Inr (take n io_data', names', 8 + 32 * of_nat (sum_list (map rec_num_elements (take n io_data))) + of_nat (length names'))"
    using add_io_signature_ok [OF filled_signature.IH filled_signature.hyps(2)] .
  then show ?case using filled_signature.hyps(3) by simp
next
  case (filled_state c ps m state c' m' state')
  then show ?case by (intro add_state_validation_ok(1))
qed (auto intro: contains_init add_features_ok add_module_ok)

section \<open>Memory\<close>

text \<open>The writes of a container are a sink that does not fail while its blob has room.\<close>

interpretation container_sink: roomy_sink put_bytes "\<lambda>c. blob_contents (parts c)" "\<lambda>bs. bs"
  "\<lambda>c. growing (parts c)" "\<lambda>bs. length bs < 2 ^ 63" "\<lambda>c. blob_room (parts c)" length
proof unfold_locales
  fix c c' :: dxil_container and bs :: "8 word list"
  assume l: "growing (parts c)" "length bs < 2 ^ 63"
  show "growing (parts c')" "blob_contents (parts c') = blob_contents (parts c) @ bs"
    if "put_bytes bs c = Inr c'"
    using putsD [OF puts_bytes [OF l(2)] l(1) that] by blast+
  show "\<exists>c'. put_bytes bs c = Inr c' \<and> blob_room (parts c') k"
    if "blob_room (parts c) (length bs + k)" for k
    using blob_sink.put_room [OF l that] by (auto simp: put_bytes_def)
qed

lemma header_returns:
  assumes "growing (parts c)" and "blob_room (parts c) (8 + k)"
    and "blob_size (parts c) < 2 ^ 32 - 1" and "length (part_offsets c) < DXIL_MAX_PARTS"
  shows "\<exists>d. add_part_header f w c = Inr d \<and> growing (parts d) \<and> blob_room (parts d) k"
proof -
  let ?h = "[le_bytes 4 (dxil_part_fourcc_value f), le_bytes 4 w]"
  have l: "list_all (\<lambda>bs. length bs < 2 ^ 63) ?h" by simp
  obtain d where d: "seq (map put_bytes ?h) c = Inr d" "blob_room (parts d) k"
    using container_sink.put_all_room [OF assms(1) l, of k] assms(2) by (auto simp: add.assoc)
  let ?e = "d\<lparr>part_offsets := part_offsets d @ [of_nat (blob_size (parts c))]\<rparr>"
  have g: "growing (parts d)" by (rule container_sink.put_all_inv [OF assms(1) l d(1)])
  have "puts (seq [put_uint32 (dxil_part_fourcc_value f), put_uint32 w]) (4 + (4 + 0))
     (le_bytes 4 (dxil_part_fourcc_value f) @ le_bytes 4 w @ [])"
    by (intro puts_intros)
  from putsD(3) [OF this assms(1)] d(1) have "part_offsets d = part_offsets c" by simp
  then have "add_part_header f w c = Inr ?e"
    using d(1) assms(3,4) unfolding add_part_header_def Let_def by (simp del: seq.simps)
  then show ?thesis using g d(2) by auto
qed

lemma header_body_returns:
  assumes "growing (parts c)" and "blob_room (parts c) (8 + sum_list (map length ds))"
    and "blob_size (parts c) < 2 ^ 32 - 1" and "length (part_offsets c) < DXIL_MAX_PARTS"
    and "list_all (\<lambda>bs. length bs < 2 ^ 63) ds"
  shows "\<exists>c'. seq (add_part_header f w # map put_bytes ds) c = Inr c'"
proof -
  obtain d where d: "add_part_header f w c = Inr d" "growing (parts d)" "blob_room (parts d) (sum_list (map length ds))"
    using header_returns [OF assms(1-4)] by blast
  have "\<exists>c'. seq (map put_bytes ds) d = Inr c' \<and> blob_room (parts c') 0"
    by (rule container_sink.put_all_room [OF d(2) assms(5)]) (use d(3) in simp)
  then show ?thesis using d(1) by auto
qed

lemma write_returns:
  assumes "contains c ps" and "growing b" and "blob_contents b = []"
    and "32 + 4 * length ps + length (concat (map part_bytes ps)) < 2 ^ 32"
    and "blob_room b (32 + 4 * length ps + length (concat (map part_bytes ps)))"
  shows "\<exists>b'. dxil_container_write c b = Inr b'"
proof -
  let ?n = "length ps" and ?body = "concat (map part_bytes ps)"
  have c: "growing (parts c)" "blob_contents (parts c) = ?body" "map unat (part_offsets c) = part_positions 0 ps"
    using assms(1) by (simp_all add: contains_def)
  have l: "length (part_offsets c) = ?n" using c(3) by (metis length_map length_part_positions)
  have size: "blob_size (parts c) = length ?body" "blob_size b = 0"
    using growing_size [OF c(1)] growing_size [OF assms(2)] c(2) assms(3) by simp_all
  have add: "size_add (32 + 4 * ?n) (length ?body) = 32 + 4 * ?n + length ?body"
    using assms(4) by (simp add: size_add_def)
  have offsets: "map (\<lambda>offset. 32 + 4 * ?n + unat offset) (part_offsets c) = part_positions (32 + 4 * ?n) ps"
    using arg_cong [OF c(3), of "map ((+) (32 + 4 * ?n))"] part_positions_shift [of "32 + 4 * ?n" 0 ps]
    by (simp add: comp_def)
  have fits: "\<not> list_ex (\<lambda>offset. \<not> offset \<le> 2 ^ 32 - 1) (part_positions (32 + 4 * ?n) ps)"
    using part_positions_bound [of _ "32 + 4 * ?n" ps] assms(4) by (fastforce simp: list_ex_iff)
  let ?t = "concat (map (\<lambda>offset. le_bytes 4 (of_nat offset :: 32 word)) (part_positions (32 + 4 * ?n) ps)) :: 8 word list"
  let ?ds = "[le_bytes 4 DXIL_DXBC, replicate 16 0, le_bytes 2 (1 :: 16 word), le_bytes 2 (0 :: 16 word),
     le_bytes 4 (of_nat (32 + 4 * ?n + length ?body) :: 32 word), le_bytes 4 (of_nat ?n :: 32 word), ?t, ?body]"
  have t: "length ?t = 4 * ?n"
    using dwords_of_length [of "part_positions (32 + 4 * ?n) ps"] by (simp add: comp_def)
  have "list_all (\<lambda>d. length d < 2 ^ 63) ?ds" using assms(4) t by simp
  moreover have "sum_list (map length ?ds) = 32 + 4 * ?n + length ?body" using t by simp
  ultimately obtain b' where "seq (map blob_put ?ds) b = Inr b'"
    using blob_sink.put_all_room [OF assms(2), of ?ds 0] assms(5) unfolding add_0_right by metis
  then have "dxil_container_write c b = Inr b'"
    using assms(4) fits unfolding dxil_container_write_def Let_def l size add offsets c(2)
    by auto
  then show ?thesis ..
qed

text \<open>C25: Given memory, and less than 4 GB in all, writing a container succeeds, whatever parts were
  added.\<close>

theorem dxil_container_write_returns:
  assumes "filled c ps" and "growing b" and "blob_contents b = []"
    and "32 + 4 * length ps + length (concat (map part_bytes ps)) < 2 ^ 32"
    and "blob_room b (32 + 4 * length ps + length (concat (map part_bytes ps)))"
  shows "\<exists>b'. dxil_container_write c b = Inr b'"
  by (rule write_returns [OF filled_contains [OF assms(1)] assms(2-5)])

text \<open>C13: The file that \<open>dxil_container_write\<close> writes is read back as exactly the parts that were added,
  in their order, whatever calls added them: the table of offsets, the sizes of the parts and the size of
  the file are right. In particular the size that \<open>dxil_container_add_state_validation\<close> computes beforehand
  is the number of bytes it then writes.\<close>

theorem dxil_container_write_readable:
  assumes "filled c ps" and "growing b" and "blob_contents b = []" and "dxil_container_write c b = Inr b'"
  shows "read_container (blob_contents b') = Some ps"
  by (rule read_written [OF filled_contains [OF assms(1)] assms(2-4)])


definition example_features :: dxil_features where
  "example_features = dxil_features.make True False False False False False False False False False
     False False False False False False False False False False False False False False False False
     False False False False False False True"

lemma init_container:
  "growing (parts (dxil_container_init (2 ^ 20) 0))" "blob_room (parts (dxil_container_init (2 ^ 20) 0)) 200"
  "blob_size (parts (dxil_container_init (2 ^ 20) 0)) < 2 ^ 32 - 1"
  "length (part_offsets (dxil_container_init (2 ^ 20) 0)) < DXIL_MAX_PARTS"
  using blob_init_ok [of "2 ^ 20" 0]
  by (simp_all add: dxil_container_init_def blob_init_def blob_room_def BLOB_INITIAL_SIZE_def DXIL_MAX_PARTS_def)

lemma blob_room_mono: "blob_room b n \<Longrightarrow> k \<le> n \<Longrightarrow> blob_room b k"
  by (simp add: blob_room_def)

lemma init_features_return:
  "\<exists>c. dxil_container_add_features f (dxil_container_init (2 ^ 20) 0) = Inr c"
proof -
  let ?bs = "le_bytes 8 (of_nat (bits_nat (features_bits f)) :: 64 word)"
  have "blob_room (parts (dxil_container_init (2 ^ 20) 0)) (8 + sum_list (map length [?bs]))"
    by (rule blob_room_mono [OF init_container(2)]) simp
  from header_body_returns [OF init_container(1) this init_container(3,4)] show ?thesis
    by (simp add: dxil_container_add_features_def add_part_def)
qed

lemma example_file:
  obtains c where "filled c [features_part example_features]"
    and "growing (blob_init (2 ^ 20) 0)" and "blob_contents (blob_init (2 ^ 20) 0) = []"
    and "32 + 4 * length [features_part example_features] +
      length (concat (map part_bytes [features_part example_features])) < 2 ^ 32"
    and "blob_room (blob_init (2 ^ 20) 0) (32 + 4 * length [features_part example_features] +
      length (concat (map part_bytes [features_part example_features])))"
proof -
  obtain c where "dxil_container_add_features example_features (dxil_container_init (2 ^ 20) 0) = Inr c"
    using init_features_return by blast
  from filled_features [OF filled_init [of "2 ^ 20" 0] this]
  have "filled c [features_part example_features]" by simp
  moreover have "growing (blob_init (2 ^ 20) 0)" "blob_contents (blob_init (2 ^ 20) 0) = []"
    using blob_init_ok [of "2 ^ 20" 0] by simp_all
  moreover have "blob_room (blob_init (2 ^ 20) 0) 52"
    by (simp add: blob_init_def blob_room_def BLOB_INITIAL_SIZE_def)
  ultimately show thesis by (intro that) (simp_all add: features_part_def)
qed

lemma dxil_container_write_returns_witness:
  "\<exists>c b'. filled c [features_part example_features] \<and> dxil_container_write c (blob_init (2 ^ 20) 0) = Inr b'"
proof -
  obtain c where c: "filled c [features_part example_features]" and b: "growing (blob_init (2 ^ 20) 0)"
    "blob_contents (blob_init (2 ^ 20) 0) = []"
    "32 + 4 * length [features_part example_features] +
      length (concat (map part_bytes [features_part example_features])) < 2 ^ 32"
    "blob_room (blob_init (2 ^ 20) 0) (32 + 4 * length [features_part example_features] +
      length (concat (map part_bytes [features_part example_features])))"
    by (rule example_file)
  show ?thesis using dxil_container_write_returns [OF c b] c by blast
qed

lemma dxil_container_write_readable_witness:
  "\<exists>c b'. dxil_container_write c (blob_init (2 ^ 20) 0) = Inr b' \<and>
     read_container (blob_contents b') = Some [features_part example_features]"
proof -
  obtain c where c: "filled c [features_part example_features]" and b: "growing (blob_init (2 ^ 20) 0)"
    "blob_contents (blob_init (2 ^ 20) 0) = []"
    "32 + 4 * length [features_part example_features] +
      length (concat (map part_bytes [features_part example_features])) < 2 ^ 32"
    "blob_room (blob_init (2 ^ 20) 0) (32 + 4 * length [features_part example_features] +
      length (concat (map part_bytes [features_part example_features])))"
    by (rule example_file)
  obtain b' where b': "dxil_container_write c (blob_init (2 ^ 20) 0) = Inr b'"
    using write_returns [OF filled_contains [OF c] b] by blast
  show ?thesis using dxil_container_write_readable [OF c b(1,2) b'] b' by blast
qed


text \<open>Two records with the same name, which they share.\<close>

definition example_record :: dxil_signature_record where
  "example_record = zero_record\<lparr>rec_num_elements := 1, rec_name := ''SV_Target''\<rparr>"

lemma io_signature_names_resolve_witness:
  "\<exists>c' io_data' body.
     dxil_container_add_io_signature DXIL_OSG1 2 [example_record, example_record] False
       (dxil_container_init (2 ^ 20) 0) = Inr (c', io_data') \<and>
     contains c' [(dxil_part_fourcc_value DXIL_OSG1, body)] \<and>
     (\<forall>io \<in> set io_data'. \<forall>e \<in> set (signature_elements io).
       string_at body (unat (elm_semantic_name_offset e)) ''SV_Target'')"
proof -
  let ?io = "[example_record, example_record]" and ?c = "dxil_container_init (2 ^ 20) 0"
  let ?new = "[set_name_offset 72 example_record, set_name_offset 72 example_record]"
  let ?names = "string_bytes ''SV_Target'' @ [0]"
  have s: "collect_semantic_names ?io (8 + 32 * of_nat 2) False = Inr (?new, ?names, 82)"
    by (simp add: collect_semantic_names_def get_semantic_name_offset_def example_record_def zero_record_def
        append_text_fits DXIL_SHADER_MAX_IO_ROWS_def)
  let ?ds = "(le_bytes 4 (2 :: 32 word) @ le_bytes 4 (8 :: 32 word)) #
     map signature_element_bytes (concat (map signature_elements ?new)) @ [?names]"
  have n: "rec_num_elements example_record = 1" "rec_name example_record = ''SV_Target''"
    by (simp_all add: example_record_def zero_record_def)
  have es: "length (concat (map signature_elements ?new)) = 2"
    by (simp add: signature_elements_def set_name_offset_def example_record_def zero_record_def)
  have b: "sum_list (map (\<lambda>e. length (signature_element_bytes e)) es) = 32 * length es" for es
    by (induction es) (simp_all add: struct_sizes)
  have "list_all (\<lambda>bs. length bs < 2 ^ 63) ?ds"
    by (simp add: list_all_iff struct_sizes)
  moreover have "blob_room (parts ?c) (8 + sum_list (map length ?ds))"
    by (rule blob_room_mono [OF init_container(2)]) (use b [of "concat (map signature_elements ?new)"] es in \<open>simp add: comp_def\<close>)
  ultimately obtain c' where c': "seq (add_part_header DXIL_OSG1 82 # map put_bytes ?ds) ?c = Inr c'"
    using header_body_returns [OF init_container(1) _ init_container(3,4), of ?ds DXIL_OSG1 82] by blast
  have run: "dxil_container_add_io_signature DXIL_OSG1 2 ?io False ?c = Inr (c', ?new)"
    using c' s by (simp add: dxil_container_add_io_signature_def n comp_def)
  have "contains ?c []" by (rule contains_init) simp
  from io_signature_names_resolve [OF this run]
  obtain body where body: "contains c' [(dxil_part_fourcc_value DXIL_OSG1, body)]"
    "\<forall>io \<in> set ?new. \<forall>e \<in> set (signature_elements io). string_at body (unat (elm_semantic_name_offset e)) (rec_name io)"
    by (auto simp: n)
  have "rec_name io = ''SV_Target''" if "io \<in> set ?new" for io
    using that by (auto simp: set_name_offset_def n)
  then show ?thesis using run body by metis
qed

end
