(* ===== verification/Dxil_File.thy ===== *)
theory Dxil_File
  imports Container_Names Module_File
begin

text \<open>
  From the module to the file: the bitcode that \<open>dxil_emit_module\<close> writes, put into a container, is
  found again by a reader of the file.
\<close>

text \<open>The writer's stream, when no bits wait in the buffer, is the bytes of its blob.\<close>

lemma flushed_stream:
  "buf_bits (wbuf s) = 0 \<Longrightarrow> bytes_bits (blob_contents (blob (wbuf s))) = wstream s"
  by (simp add: wstream_def stream_def)

lemma module_part_bitcode:
  "snd (module_part io b) = take 24 (snd (module_part io b)) @ blob_contents (blob b)"
  by (simp add: module_part_def)

text \<open>C1: A module that was emitted, added to a container that has any other parts, and written to a file
  is found by following the file's table of offsets: behind the 24 bytes of the program header lies a
  complete bitcode file with the blocks of the module. There is no condition on sizes: code that would
  overflow a size fails an assertion instead.\<close>

theorem dxil_file_holds_module:
  assumes "dxil_emit_module m = Inr m'" and "writer_ok (m_writer m)"
    and "wstream (m_writer m) = []" and "wwidth (m_writer m) = 2"
    and "filled c ps" and "dxil_container_add_module io (wbuf (m_writer m')) c = Inr c'"
    and "growing b" and "blob_contents b = []" and "dxil_container_write c' b = Inr b'"
  shows "\<exists>header bitcode is.
    read_container (blob_contents b') = Some (ps @ [(dxil_part_fourcc_value DXIL_DXIL, header @ bitcode)]) \<and>
    length header = 24 \<and> rd_bitcode (bytes_bits bitcode) = Some (Block 8 3 is) \<and>
    module_items (assign_values m) is"
proof -
  let ?w = "m_writer m'" and ?bitcode = "blob_contents (blob (wbuf (m_writer m')))"
  have flushed: "buf_bits (wbuf ?w) = 0"
    using assms(6) by (simp add: dxil_container_add_module_def split: if_splits)
  note bits = flushed_stream [OF flushed]
  have ok: "writer_ok ?w" using emitted_module [OF assms(1-4)] by blast
  have g: "growing (blob (wbuf ?w))" using ok by (simp add: writer_ok_def buffer_ok_def)
  have c': "contains c' (ps @ [module_part io (wbuf ?w)])"
    using add_module_ok [OF filled_contains [OF assms(5)] assms(6) g] .
  have "length (concat (map part_bytes (ps @ [module_part io (wbuf ?w)]))) < 2 ^ 32"
    using write_contents(2) [OF c' assms(7-9)] by linarith
  then have "length ?bitcode < 2 ^ 32" by (simp add: module_part_def)
  then have "length (wstream ?w) < 2 ^ 37" by (simp flip: bits)
  note read = emitted_module_read [OF assms(1-4) this]
  have "read_container (blob_contents b') = Some (ps @ [module_part io (wbuf ?w)])"
    by (rule read_written [OF c' assms(7-9)])
  moreover have "module_part io (wbuf ?w) =
      (dxil_part_fourcc_value DXIL_DXIL, take 24 (snd (module_part io (wbuf ?w))) @ ?bitcode)"
    by (subst module_part_bitcode [symmetric]) (simp add: module_part_def)
  moreover have "length (take 24 (snd (module_part io (wbuf ?w)))) = 24" by (simp add: module_part_def)
  ultimately show ?thesis using read bits by metis
qed


text \<open>The empty module, in a container of its own.\<close>

lemma add_module_returns:
  assumes "growing (parts c)" and "blob_room (parts c) (32 + length (blob_contents (blob b)))"
    and "blob_size (parts c) < 2 ^ 32 - 1" and "length (part_offsets c) < DXIL_MAX_PARTS"
    and "buffer_ok b" and "buf_bits b = 0" and "length (blob_contents (blob b)) < 2 ^ 30"
  shows "\<exists>c'. dxil_container_add_module io b c = Inr c'"
proof -
  let ?n = "length (blob_contents (blob b))"
  have n: "blob_size (blob b) = ?n" "?n mod 4 = 0"
    using assms(5) growing_size [of "blob b"] by (auto simp: buffer_ok_def)
  have "unat (of_nat (24 + ?n) :: 32 word) = 24 + ?n"
    using assms(7) by (simp only: unat_of_nat) (simp add: take_bit_eq_mod)
  moreover have "(24 + ?n) mod 4 = 0" using n(2) by presburger
  ultimately have "unat (of_nat (24 + ?n) :: 32 word) mod 4 = 0" by (simp only:)
  then have "(of_nat (24 + ?n) :: 32 word) mod 4 = 0"
    by (simp add: word_unat_eq_iff unat_mod_distrib del: of_nat_add)
  let ?ds = "map (le_bytes 4)
       [push_bit 16 (of_nat (dxil_shader_kind_value (shader_kind io))) OR
          push_bit 4 (major_version io) OR minor_version io :: 32 word,
        of_nat (24 + ?n) div 4, 0x4C495844, 0x100, 16, of_nat ?n] @ [blob_contents (blob b)]"
  have "\<exists>c'. seq (add_part_header DXIL_DXIL (of_nat (24 + ?n)) # map put_bytes ?ds) c = Inr c'"
    by (rule header_body_returns [OF assms(1) _ assms(3,4)]) (use assms(2,7) in simp_all)
  then show ?thesis
    using assms(6) \<open>(of_nat (24 + ?n) :: 32 word) mod 4 = 0\<close>
    by (simp add: dxil_container_add_module_def n(1) Let_def)
qed


lemma dxil_file_holds_module_witness:
  "\<exists>m' c' b' header bitcode is.
    dxil_emit_module (dxil_module_init (2 ^ 40) 0) = Inr m' \<and>
    dxil_container_add_module dxil_io_init (wbuf (m_writer m')) (dxil_container_init (2 ^ 20) 0) = Inr c' \<and>
    dxil_container_write c' (blob_init (2 ^ 20) 0) = Inr b' \<and>
    read_container (blob_contents b') = Some [(dxil_part_fourcc_value DXIL_DXIL, header @ bitcode)] \<and>
    rd_bitcode (bytes_bits bitcode) = Some (Block 8 3 is)"
proof -
  let ?c = "dxil_container_init (2 ^ 20) 0" and ?b = "blob_init (2 ^ 20) 0"
  obtain m' where m': "dxil_emit_module (dxil_module_init (2 ^ 40) 0) = Inr m'"
    and l: "length (wstream (m_writer m')) < 2 ^ 21" "length (wstream (m_writer m')) mod 32 = 0"
    by (rule init_module_emitted)
  have ok: "buffer_ok (wbuf (m_writer m'))"
    using emitted_module [OF m' init_writer(1-3)] by (auto simp: writer_ok_def)
  then have flushed: "buf_bits (wbuf (m_writer m')) = 0"
    using length_stream_mod l(2) by (simp add: wstream_def)
  let ?bc = "blob_contents (blob (wbuf (m_writer m')))"
  have bc: "length ?bc < 2 ^ 18"
    using l(1) flushed_stream [OF flushed] length_bytes_bits [of ?bc] by simp
  have "blob_room (parts ?c) (32 + length ?bc)"
    using bc by (simp add: dxil_container_init_def blob_init_def blob_room_def BLOB_INITIAL_SIZE_def)
  from add_module_returns [OF init_container(1) this init_container(3,4) ok flushed, of dxil_io_init]
  obtain c' where c': "dxil_container_add_module dxil_io_init (wbuf (m_writer m')) ?c = Inr c'"
    using bc by auto
  have f: "filled ?c []" by (rule filled_init) simp
  have b: "growing ?b" "blob_contents ?b = []" using blob_init_ok [of "2 ^ 20" 0] by simp_all
  have "growing (blob (wbuf (m_writer m')))" using ok by (simp add: buffer_ok_def)
  from add_module_ok [OF filled_contains [OF f] c' this]
  have "contains c' [module_part dxil_io_init (wbuf (m_writer m'))]" by simp
  moreover have "length (snd (module_part dxil_io_init (wbuf (m_writer m')))) = 24 + length ?bc"
    by (simp add: module_part_def)
  ultimately obtain b' where b': "dxil_container_write c' ?b = Inr b'"
    using write_returns [OF _ b, of c' "[module_part dxil_io_init (wbuf (m_writer m'))]"] bc
    by (auto simp: blob_init_def blob_room_def BLOB_INITIAL_SIZE_def)
  from dxil_file_holds_module [OF m' init_writer(1-3) f c' b b'] m' c' b' show ?thesis by auto
qed

end
