(* ===== verification/Functions.thy ===== *)
theory Functions
  imports Named_Types Functions_Globals
begin

text \<open>
  The DXIL operation functions of \<open>src/mesa/src/microsoft/compiler/dxil_function.c\<close>: the table of
  predefined functions, whose signatures are strings with one character for a type, and the declaration
  of a function for an overload when it is first asked for.

  The red-black tree of declared functions is the association list \<open>function_tree\<close>, with the last
  insertion first; the comparison of keys, by overload and then by name, is equality here.
\<close>

definition MAX_FUNC_PARAMS :: nat where
  "MAX_FUNC_PARAMS = 18"

definition DXIL_FUNC_PARAM_INT64 :: char where
  "DXIL_FUNC_PARAM_INT64 = CHR ''l''"

definition DXIL_FUNC_PARAM_INT32 :: char where
  "DXIL_FUNC_PARAM_INT32 = CHR ''i''"

definition DXIL_FUNC_PARAM_INT16 :: char where
  "DXIL_FUNC_PARAM_INT16 = CHR ''h''"

definition DXIL_FUNC_PARAM_INT8 :: char where
  "DXIL_FUNC_PARAM_INT8 = CHR ''c''"

definition DXIL_FUNC_PARAM_BOOL :: char where
  "DXIL_FUNC_PARAM_BOOL = CHR ''b''"

definition DXIL_FUNC_PARAM_FLOAT64 :: char where
  "DXIL_FUNC_PARAM_FLOAT64 = CHR ''g''"

definition DXIL_FUNC_PARAM_FLOAT32 :: char where
  "DXIL_FUNC_PARAM_FLOAT32 = CHR ''f''"

definition DXIL_FUNC_PARAM_FLOAT16 :: char where
  "DXIL_FUNC_PARAM_FLOAT16 = CHR ''e''"

definition DXIL_FUNC_PARAM_HANDLE :: char where
  "DXIL_FUNC_PARAM_HANDLE = CHR ''@''"

definition DXIL_FUNC_PARAM_POINTER :: char where
  "DXIL_FUNC_PARAM_POINTER = CHR ''*''"

definition DXIL_FUNC_PARAM_VOID :: char where
  "DXIL_FUNC_PARAM_VOID = CHR ''v''"

definition DXIL_FUNC_PARAM_FROM_OVERLOAD :: char where
  "DXIL_FUNC_PARAM_FROM_OVERLOAD = CHR ''O''"

definition DXIL_FUNC_PARAM_RESRET :: char where
  "DXIL_FUNC_PARAM_RESRET = CHR ''R''"

definition DXIL_FUNC_PARAM_CBUF_RET :: char where
  "DXIL_FUNC_PARAM_CBUF_RET = CHR ''B''"

definition DXIL_FUNC_PARAM_DIM :: char where
  "DXIL_FUNC_PARAM_DIM = CHR ''D''"

definition DXIL_FUNC_PARAM_SPLIT_DOUBLE :: char where
  "DXIL_FUNC_PARAM_SPLIT_DOUBLE = CHR ''G''"

definition DXIL_FUNC_PARAM_SAMPLE_POS :: char where
  "DXIL_FUNC_PARAM_SAMPLE_POS = CHR ''S''"

definition DXIL_FUNC_PARAM_RES_BIND :: char where
  "DXIL_FUNC_PARAM_RES_BIND = CHR ''#''"

definition DXIL_FUNC_PARAM_RES_PROPS :: char where
  "DXIL_FUNC_PARAM_RES_PROPS = CHR ''P''"

definition DXIL_FUNC_PARAM_FOURI32 :: char where
  "DXIL_FUNC_PARAM_FOURI32 = CHR ''F''"

text \<open>\<open>struct predefined_func_descr\<close>: name, result, parameters, attribute.\<close>

type_synonym predefined_func_descr = "string \<times> string \<times> string \<times> dxil_attr_kind"

definition predefined_funcs :: "predefined_func_descr list" where
  "predefined_funcs =
    [(''dx.op.atomicBinOp'', ''O'', ''i@iiiii'', DXIL_ATTR_KIND_READ_NONE),
     (''dx.op.cbufferLoad'', ''O'', ''i@ii'', DXIL_ATTR_KIND_READ_ONLY),
     (''dx.op.cbufferLoadLegacy'', ''B'', ''i@i'', DXIL_ATTR_KIND_READ_ONLY),
     (''dx.op.createHandle'', ''@'', ''iciib'', DXIL_ATTR_KIND_READ_ONLY),
     (''dx.op.storeOutput'', ''v'', ''iiicO'', DXIL_ATTR_KIND_NO_UNWIND),
     (''dx.op.loadInput'', ''O'', ''iiici'', DXIL_ATTR_KIND_READ_NONE),
     (''dx.op.tertiary'', ''O'', ''iOOO'', DXIL_ATTR_KIND_READ_NONE),
     (''dx.op.quaternary'', ''O'', ''iOOOO'', DXIL_ATTR_KIND_READ_NONE),
     (''dx.op.threadId'', ''i'', ''ii'', DXIL_ATTR_KIND_READ_NONE),
     (''dx.op.threadIdInGroup'', ''i'', ''ii'', DXIL_ATTR_KIND_READ_NONE),
     (''dx.op.flattenedThreadIdInGroup'', ''i'', ''i'', DXIL_ATTR_KIND_READ_NONE),
     (''dx.op.groupId'', ''i'', ''ii'', DXIL_ATTR_KIND_READ_NONE),
     (''dx.op.unary'', ''O'', ''iO'', DXIL_ATTR_KIND_READ_NONE),
     (''dx.op.unaryBits'', ''i'', ''iO'', DXIL_ATTR_KIND_READ_NONE),
     (''dx.op.isSpecialFloat'', ''b'', ''iO'', DXIL_ATTR_KIND_READ_NONE),
     (''dx.op.binary'', ''O'', ''iOO'', DXIL_ATTR_KIND_READ_NONE),
     (''dx.op.bufferStore'', ''v'', ''i@iiOOOOc'', DXIL_ATTR_KIND_NONE),
     (''dx.op.rawBufferStore'', ''v'', ''i@iiOOOOci'', DXIL_ATTR_KIND_NONE),
     (''dx.op.bufferLoad'', ''R'', ''i@ii'', DXIL_ATTR_KIND_READ_ONLY),
     (''dx.op.rawBufferLoad'', ''R'', ''i@iici'', DXIL_ATTR_KIND_READ_ONLY),
     (''dx.op.attributeAtVertex'', ''O'', ''iiicc'', DXIL_ATTR_KIND_READ_NONE),
     (''dx.op.sample'', ''R'', ''i@@ffffiiif'', DXIL_ATTR_KIND_READ_ONLY),
     (''dx.op.sampleBias'', ''R'', ''i@@ffffiiiff'', DXIL_ATTR_KIND_READ_ONLY),
     (''dx.op.sampleLevel'', ''R'', ''i@@ffffiiif'', DXIL_ATTR_KIND_READ_ONLY),
     (''dx.op.sampleGrad'', ''R'', ''i@@ffffiiifffffff'', DXIL_ATTR_KIND_READ_ONLY),
     (''dx.op.sampleCmp'', ''R'', ''i@@ffffiiiff'', DXIL_ATTR_KIND_READ_ONLY),
     (''dx.op.sampleCmpLevel'', ''R'', ''i@@ffffiiiff'', DXIL_ATTR_KIND_READ_ONLY),
     (''dx.op.sampleCmpLevelZero'', ''R'', ''i@@ffffiiif'', DXIL_ATTR_KIND_READ_ONLY),
     (''dx.op.sampleCmpBias'', ''R'', ''i@@ffffiiifff'', DXIL_ATTR_KIND_READ_ONLY),
     (''dx.op.sampleCmpGrad'', ''R'', ''i@@ffffiiiffffffff'', DXIL_ATTR_KIND_READ_ONLY),
     (''dx.op.textureLoad'', ''R'', ''i@iiiiiii'', DXIL_ATTR_KIND_READ_ONLY),
     (''dx.op.textureGather'', ''R'', ''i@@ffffiii'', DXIL_ATTR_KIND_READ_ONLY),
     (''dx.op.textureGatherCmp'', ''R'', ''i@@ffffiiif'', DXIL_ATTR_KIND_READ_ONLY),
     (''dx.op.discard'', ''v'', ''ib'', DXIL_ATTR_KIND_NO_UNWIND),
     (''dx.op.sampleIndex'', ''i'', ''i'', DXIL_ATTR_KIND_READ_NONE),
     (''dx.op.emitStream'', ''v'', ''ic'', DXIL_ATTR_KIND_NONE),
     (''dx.op.cutStream'', ''v'', ''ic'', DXIL_ATTR_KIND_NONE),
     (''dx.op.getDimensions'', ''D'', ''i@i'', DXIL_ATTR_KIND_READ_ONLY),
     (''dx.op.calculateLOD'', ''f'', ''i@@fffb'', DXIL_ATTR_KIND_READ_ONLY),
     (''dx.op.barrier'', ''v'', ''ii'', DXIL_ATTR_KIND_NO_DUPLICATE),
     (''dx.op.atomicCompareExchange'', ''O'', ''i@iiiii'', DXIL_ATTR_KIND_READ_NONE),
     (''dx.op.textureStore'', ''v'', ''i@iiiOOOOc'', DXIL_ATTR_KIND_NONE),
     (''dx.op.primitiveID'', ''i'', ''i'', DXIL_ATTR_KIND_READ_NONE),
     (''dx.op.outputControlPointID'', ''i'', ''i'', DXIL_ATTR_KIND_READ_NONE),
     (''dx.op.gsInstanceID'', ''i'', ''i'', DXIL_ATTR_KIND_READ_NONE),
     (''dx.op.viewID'', ''i'', ''i'', DXIL_ATTR_KIND_READ_NONE),
     (''dx.op.domainLocation'', ''f'', ''ic'', DXIL_ATTR_KIND_READ_NONE),
     (''dx.op.legacyF16ToF32'', ''f'', ''ii'', DXIL_ATTR_KIND_READ_ONLY),
     (''dx.op.legacyF32ToF16'', ''i'', ''if'', DXIL_ATTR_KIND_READ_ONLY),
     (''dx.op.makeDouble'', ''g'', ''iii'', DXIL_ATTR_KIND_READ_NONE),
     (''dx.op.splitDouble'', ''G'', ''ig'', DXIL_ATTR_KIND_READ_NONE),
     (''dx.op.texture2DMSGetSamplePosition'', ''S'', ''i@i'', DXIL_ATTR_KIND_READ_ONLY),
     (''dx.op.renderTargetGetSamplePosition'', ''S'', ''ii'', DXIL_ATTR_KIND_READ_ONLY),
     (''dx.op.evalSnapped'', ''O'', ''iiicii'', DXIL_ATTR_KIND_READ_NONE),
     (''dx.op.evalCentroid'', ''O'', ''iiic'', DXIL_ATTR_KIND_READ_NONE),
     (''dx.op.evalSampleIndex'', ''O'', ''iiici'', DXIL_ATTR_KIND_READ_NONE),
     (''dx.op.coverage'', ''i'', ''i'', DXIL_ATTR_KIND_READ_NONE),
     (''dx.op.storePatchConstant'', ''v'', ''iiicO'', DXIL_ATTR_KIND_NO_UNWIND),
     (''dx.op.loadPatchConstant'', ''O'', ''iiic'', DXIL_ATTR_KIND_READ_NONE),
     (''dx.op.loadOutputControlPoint'', ''O'', ''iiici'', DXIL_ATTR_KIND_READ_NONE),
     (''dx.op.createHandleFromBinding'', ''@'', ''i#ib'', DXIL_ATTR_KIND_READ_NONE),
     (''dx.op.createHandleFromHeap'', ''@'', ''iibb'', DXIL_ATTR_KIND_READ_NONE),
     (''dx.op.annotateHandle'', ''@'', ''i@P'', DXIL_ATTR_KIND_READ_NONE),
     (''dx.op.isHelperLane'', ''b'', ''i'', DXIL_ATTR_KIND_READ_ONLY),
     (''dx.op.waveIsFirstLane'', ''b'', ''i'', DXIL_ATTR_KIND_NO_UNWIND),
     (''dx.op.waveGetLaneIndex'', ''i'', ''i'', DXIL_ATTR_KIND_READ_NONE),
     (''dx.op.waveGetLaneCount'', ''i'', ''i'', DXIL_ATTR_KIND_READ_NONE),
     (''dx.op.waveReadLaneFirst'', ''O'', ''iO'', DXIL_ATTR_KIND_NO_UNWIND),
     (''dx.op.waveReadLaneAt'', ''O'', ''iOi'', DXIL_ATTR_KIND_NO_UNWIND),
     (''dx.op.waveAnyTrue'', ''b'', ''ib'', DXIL_ATTR_KIND_NO_UNWIND),
     (''dx.op.waveAllTrue'', ''b'', ''ib'', DXIL_ATTR_KIND_NO_UNWIND),
     (''dx.op.waveActiveAllEqual'', ''b'', ''iO'', DXIL_ATTR_KIND_NO_UNWIND),
     (''dx.op.waveActiveBallot'', ''F'', ''ib'', DXIL_ATTR_KIND_NO_UNWIND),
     (''dx.op.waveActiveOp'', ''O'', ''iOcc'', DXIL_ATTR_KIND_NO_UNWIND),
     (''dx.op.waveActiveBit'', ''O'', ''iOc'', DXIL_ATTR_KIND_NO_UNWIND),
     (''dx.op.wavePrefixOp'', ''O'', ''iOcc'', DXIL_ATTR_KIND_NO_UNWIND),
     (''dx.op.quadReadLaneAt'', ''O'', ''iOi'', DXIL_ATTR_KIND_NO_UNWIND),
     (''dx.op.quadOp'', ''O'', ''iOc'', DXIL_ATTR_KIND_NO_UNWIND),
     (''dx.op.dot4AddPacked'', ''i'', ''iiii'', DXIL_ATTR_KIND_READ_NONE),
     (''dx.op.startVertexLocation'', ''i'', ''i'', DXIL_ATTR_KIND_READ_NONE),
     (''dx.op.startInstanceLocation'', ''i'', ''i'', DXIL_ATTR_KIND_READ_NONE)]"

section \<open>Types from their letters\<close>

text \<open>The types of one letter.\<close>

definition type_of_letter ::
  "char \<Rightarrow> overload_type \<Rightarrow> dxil_module \<Rightarrow> (ty \<times> dxil_module) result" where
  "type_of_letter type_id overload m =
     (if type_id = DXIL_FUNC_PARAM_INT64 then dxil_module_get_int_type 64 m
      else if type_id = DXIL_FUNC_PARAM_INT32 then dxil_module_get_int_type 32 m
      else if type_id = DXIL_FUNC_PARAM_INT16 then dxil_module_get_int_type 16 m
      else if type_id = DXIL_FUNC_PARAM_INT8 then dxil_module_get_int_type 8 m
      else if type_id = DXIL_FUNC_PARAM_BOOL then dxil_module_get_int_type 1 m
      else if type_id = DXIL_FUNC_PARAM_FLOAT64 then dxil_module_get_float_type 64 m
      else if type_id = DXIL_FUNC_PARAM_FLOAT32 then dxil_module_get_float_type 32 m
      else if type_id = DXIL_FUNC_PARAM_FLOAT16 then dxil_module_get_float_type 16 m
      else if type_id = DXIL_FUNC_PARAM_HANDLE then dxil_module_get_handle_type m
      else if type_id = DXIL_FUNC_PARAM_VOID then Inr (dxil_module_get_void_type m)
      else if type_id = DXIL_FUNC_PARAM_FROM_OVERLOAD then dxil_get_overload_type overload m
      else if type_id = DXIL_FUNC_PARAM_RESRET then dxil_module_get_resret_type overload m
      else if type_id = DXIL_FUNC_PARAM_DIM then dxil_module_get_dimret_type m
      else if type_id = DXIL_FUNC_PARAM_SAMPLE_POS then dxil_module_get_samplepos_type m
      else if type_id = DXIL_FUNC_PARAM_CBUF_RET then dxil_module_get_cbuf_ret_type overload m
      else if type_id = DXIL_FUNC_PARAM_SPLIT_DOUBLE then dxil_module_get_split_double_ret_type m
      else if type_id = DXIL_FUNC_PARAM_RES_BIND then dxil_module_get_res_bind_type m
      else if type_id = DXIL_FUNC_PARAM_RES_PROPS then dxil_module_get_res_props_type m
      else if type_id = DXIL_FUNC_PARAM_FOURI32 then dxil_module_get_fouri32_type m
      else Inl Assertion)"

text \<open>The result is the type, the index of the next letter, and the module.\<close>

function get_type_from_string ::
  "string \<Rightarrow> overload_type \<Rightarrow> nat \<Rightarrow> dxil_module \<Rightarrow> (ty \<times> nat \<times> dxil_module) result" where
  "get_type_from_string param_descr overload idx m =
     (if \<not> idx + 1 \<le> length param_descr then Inl Assertion
      else let type_id = param_descr ! idx in
        if type_id = DXIL_FUNC_PARAM_POINTER then
          bind_result (get_type_from_string param_descr overload (idx + 1) m) (\<lambda>(target, idx, m).
            let (t, m) = dxil_module_get_pointer_type target m in Inr (t, idx, m))
        else bind_result (type_of_letter type_id overload m) (\<lambda>(t, m). Inr (t, idx + 1, m)))"
  by auto
termination by (relation "measure (\<lambda>(descr, overload, idx, m). length descr - idx)") auto

declare get_type_from_string.simps [simp del]

section \<open>Declaring functions\<close>

text \<open>
  The loop over the parameters. Its condition looks at the letter at the number of parameters, not at
  the index of the next letter.
\<close>

function get_param_types ::
  "string \<Rightarrow> overload_type \<Rightarrow> nat \<Rightarrow> nat \<Rightarrow> dxil_module \<Rightarrow> (ty list \<times> dxil_module) result" where
  "get_param_types param_descr overload num_params index m =
     (if length param_descr \<le> num_params then Inr ([], m)
      else bind_result (get_type_from_string param_descr overload index m) (\<lambda>(t, index, m).
        if \<not> num_params < MAX_FUNC_PARAMS then Inl Assertion
        else bind_result (get_param_types param_descr overload (num_params + 1) index m)
          (\<lambda>(ts, m). Inr (t # ts, m))))"
  by auto
termination by (relation "measure (\<lambda>(descr, overload, n, index, m). length descr - n)") auto

declare get_param_types.simps [simp del]

definition dxil_add_function :: "nat \<Rightarrow> string \<Rightarrow> overload_type \<Rightarrow> dxil_module \<Rightarrow> dxil_module" where
  "dxil_add_function func name overload m =
     m\<lparr>function_tree := ((name, overload), func) # function_tree m\<rparr>"

definition dxil_alloc_func_with_rettype ::
  "string \<Rightarrow> overload_type \<Rightarrow> ty \<Rightarrow> string \<Rightarrow> dxil_attr_kind \<Rightarrow> dxil_module \<Rightarrow> (nat \<times> dxil_module) result" where
  "dxil_alloc_func_with_rettype name overload retval_type param_descr attr m =
     bind_result (get_param_types param_descr overload 0 0 m) (\<lambda>(arg_types, m).
     let (func_type, m) = dxil_module_add_function_type retval_type arg_types m in
     bind_result (dxil_overload_suffix overload) (\<lambda>suffix.
     let full_name = snprintf 100 (name @ (if overload = DXIL_NONE then [] else ''.'') @ suffix) in
     bind_result (dxil_add_function_decl full_name func_type attr m) (\<lambda>(func, m).
       Inr (func, dxil_add_function func name overload m))))"

definition dxil_alloc_func ::
  "string \<Rightarrow> overload_type \<Rightarrow> string \<Rightarrow> string \<Rightarrow> dxil_attr_kind \<Rightarrow> dxil_module \<Rightarrow> (nat \<times> dxil_module) result" where
  "dxil_alloc_func name overload retval_type_descr param_descr attr m =
     bind_result (get_type_from_string retval_type_descr overload 0 m) (\<lambda>(retval_type, index, m).
       if index \<noteq> length retval_type_descr then Inl Assertion
       else dxil_alloc_func_with_rettype name overload retval_type param_descr attr m)"

fun find_predefined :: "string \<Rightarrow> predefined_func_descr list \<Rightarrow> (string \<times> string \<times> dxil_attr_kind) option" where
  "find_predefined name [] = None"
| "find_predefined name ((base_name, descr) # ds) = (if base_name = name then Some descr else find_predefined name ds)"

definition allocate_function_from_predefined ::
  "string \<Rightarrow> overload_type \<Rightarrow> dxil_module \<Rightarrow> (nat \<times> dxil_module) result" where
  "allocate_function_from_predefined name overload m =
     (case find_predefined name predefined_funcs of
        Some (retval_descr, param_descr, attr) \<Rightarrow>
          dxil_alloc_func name overload retval_descr param_descr attr m
      | None \<Rightarrow> Inl Unreachable)"

definition dxil_get_function ::
  "string \<Rightarrow> overload_type \<Rightarrow> dxil_module \<Rightarrow> (nat \<times> dxil_module) result" where
  "dxil_get_function name overload m =
     (case map_of (function_tree m) (name, overload) of
        Some func \<Rightarrow> Inr (func, m)
      | None \<Rightarrow> allocate_function_from_predefined name overload m)"

end
