(* ===== verification/Function_Types.thy ===== *)
theory Function_Types
  imports Functions Type_Table
begin

text \<open>
  What the letters of a signature mean, and that a predefined function is declared with exactly the
  type its signature describes, whatever is in the module already.
\<close>

section \<open>Types as trees\<close>

datatype dtype = VOID_T | INT_T nat | FLOAT_T nat | PTR_T dtype | STRUCT_T string "dtype list"

text \<open>\<open>has_type ts t a\<close>: the entry \<open>t\<close> of the type table \<open>ts\<close> stands for \<open>a\<close>.\<close>

fun has_type :: "dxil_type list \<Rightarrow> ty \<Rightarrow> dtype \<Rightarrow> bool"
  and have_types :: "dxil_type list \<Rightarrow> ty list \<Rightarrow> dtype list \<Rightarrow> bool" where
  "has_type ts t VOID_T = (t < length ts \<and> ts ! t = TYPE_VOID)"
| "has_type ts t (INT_T b) = (t < length ts \<and> ts ! t = TYPE_INTEGER b)"
| "has_type ts t (FLOAT_T b) = (t < length ts \<and> ts ! t = TYPE_FLOAT b)"
| "has_type ts t (PTR_T a) =
     (t < length ts \<and> (case ts ! t of TYPE_POINTER p \<Rightarrow> has_type ts p a | _ \<Rightarrow> False))"
| "has_type ts t (STRUCT_T name as) =
     (t < length ts \<and>
      (case ts ! t of TYPE_STRUCT name' es \<Rightarrow> name' = Some name \<and> have_types ts es as | _ \<Rightarrow> False))"
| "have_types ts es [] = (es = [])"
| "have_types ts es (a # as) = (case es of [] \<Rightarrow> False | e # es' \<Rightarrow> has_type ts e a \<and> have_types ts es' as)"

lemma has_type_mono:
  "has_type ts t a \<Longrightarrow> has_type (ts @ us) t a"
  "have_types ts es as \<Longrightarrow> have_types (ts @ us) es as"
  by (induction ts t a and ts es as rule: has_type_have_types.induct)
    (auto simp: nth_append split: dxil_type.splits list.splits)

lemma has_type_less: "has_type ts t a \<Longrightarrow> t < length ts"
  by (cases a) auto

lemma have_types_less: "have_types ts es as \<Longrightarrow> list_all (\<lambda>e. e < length ts) es"
proof (induction as arbitrary: es)
  case (Cons a as)
  then show ?case by (auto simp: has_type_less split: list.splits)
qed simp

lemma have_types_length: "have_types ts es as \<Longrightarrow> length es = length as"
  by (induction as arbitrary: es) (auto split: list.splits)

section \<open>Getters\<close>

text \<open>Between two states only the type table and its caches differ, and the table has grown.\<close>

definition grown :: "dxil_module \<Rightarrow> dxil_module \<Rightarrow> bool" where
  "grown m m' \<longleftrightarrow> types_ok m' \<and> (\<exists>new. type_list m' = type_list m @ new) \<and>
     func_list m' = func_list m \<and> function_tree m' = function_tree m \<and>
     attr_set_list m' = attr_set_list m"

lemma grown_refl: "types_ok m \<Longrightarrow> grown m m"
  by (simp add: grown_def)

lemma grown_trans: "grown m m' \<Longrightarrow> grown m' m'' \<Longrightarrow> grown m m''"
  by (auto simp: grown_def)

lemma grown_has_type: "grown m m' \<Longrightarrow> has_type (type_list m) t a \<Longrightarrow> has_type (type_list m') t a"
  by (auto simp: grown_def has_type_mono)

lemma grown_have_types: "grown m m' \<Longrightarrow> have_types (type_list m) es as \<Longrightarrow> have_types (type_list m') es as"
  by (auto simp: grown_def has_type_mono)

definition gives :: "(dxil_module \<Rightarrow> (ty \<times> dxil_module) result) \<Rightarrow> dtype \<Rightarrow> bool" where
  "gives g a \<longleftrightarrow> (\<forall>m. types_ok m \<longrightarrow>
     (\<exists>t m'. g m = Inr (t, m') \<and> grown m m' \<and> has_type (type_list m') t a))"

lemma givesI: "(\<And>m. types_ok m \<Longrightarrow> \<exists>t m'. g m = Inr (t, m') \<and> grown m m' \<and> has_type (type_list m') t a) \<Longrightarrow> gives g a"
  by (simp add: gives_def)

lemma givesE:
  assumes "gives g a" and "types_ok m"
  obtains t m' where "g m = Inr (t, m')" and "grown m m'" and "types_ok m'" and "has_type (type_list m') t a"
  using assms unfolding gives_def grown_def by blast

text \<open>A scalar getter returns its cache or appends the type.\<close>

lemma scalar_gives:
  assumes "\<And>m. types_ok m \<Longrightarrow> types_ok (snd (g m))"
    and "\<And>m. g m = (case c m of Some t \<Rightarrow> (t, m)
       | None \<Rightarrow> let (t, m) = create_type ty m in (t, u t m))"
    and "\<And>m. types_ok m \<Longrightarrow> c m = find_pos ((=) ty) (type_list m)"
    and "\<And>t m. type_list (u t m) = type_list m \<and> func_list (u t m) = func_list m \<and>
       function_tree (u t m) = function_tree m \<and> attr_set_list (u t m) = attr_set_list m"
    and "\<And>ts t. has_type ts t a = (t < length ts \<and> ts ! t = ty)"
  shows "gives (\<lambda>m. Inr (g m)) a"
proof (rule givesI)
  fix m assume ok: "types_ok m"
  obtain t m' where g: "g m = (t, m')" by fastforce
  have ok': "types_ok m'" using assms(1) [OF ok] g by simp
  have "grown m m' \<and> has_type (type_list m') t a"
  proof (cases "find_pos ((=) ty) (type_list m)")
    case None
    then show ?thesis
      using g ok' assms(4) unfolding assms(2) assms(3) [OF ok] assms(5)
      by (auto simp: create_type_def grown_def nth_append)
  next
    case (Some i)
    then have "t = i" "m' = m" using g unfolding assms(2) assms(3) [OF ok] by simp_all
    then show ?thesis using find_pos_Some [OF Some] ok by (simp add: assms(5) grown_refl)
  qed
  then show "\<exists>t m'. Inr (g m) = Inr (t, m') \<and> grown m m' \<and> has_type (type_list m') t a" using g by simp
qed

lemmas scalar_getter_defs = dxil_module_get_void_type_def get_int1_type_def get_int8_type_def
  get_int16_type_def get_int32_type_def get_int64_type_def get_float16_type_def
  get_float32_type_def get_float64_type_def create_int_type_def create_float_type_def

lemma gives_scalars:
  "gives (\<lambda>m. Inr (dxil_module_get_void_type m)) VOID_T"
  "gives (\<lambda>m. Inr (get_int1_type m)) (INT_T 1)" "gives (\<lambda>m. Inr (get_int8_type m)) (INT_T 8)"
  "gives (\<lambda>m. Inr (get_int16_type m)) (INT_T 16)" "gives (\<lambda>m. Inr (get_int32_type m)) (INT_T 32)"
  "gives (\<lambda>m. Inr (get_int64_type m)) (INT_T 64)" "gives (\<lambda>m. Inr (get_float16_type m)) (FLOAT_T 16)"
  "gives (\<lambda>m. Inr (get_float32_type m)) (FLOAT_T 32)" "gives (\<lambda>m. Inr (get_float64_type m)) (FLOAT_T 64)"
  subgoal by (rule scalar_gives [where ty = "TYPE_VOID" and c = void_type and u = "\<lambda>t. void_type_update (\<lambda>_. Some t)"])
    (erule scalar_getters_ok, simp_all add: scalar_cache_pos scalar_getter_defs split: option.splits)
  subgoal by (rule scalar_gives [where ty = "TYPE_INTEGER 1" and c = int1_type and u = "\<lambda>t. int1_type_update (\<lambda>_. Some t)"])
    (erule scalar_getters_ok, simp_all add: scalar_cache_pos scalar_getter_defs split: option.splits)
  subgoal by (rule scalar_gives [where ty = "TYPE_INTEGER 8" and c = int8_type and u = "\<lambda>t. int8_type_update (\<lambda>_. Some t)"])
    (erule scalar_getters_ok, simp_all add: scalar_cache_pos scalar_getter_defs split: option.splits)
  subgoal by (rule scalar_gives [where ty = "TYPE_INTEGER 16" and c = int16_type and u = "\<lambda>t. int16_type_update (\<lambda>_. Some t)"])
    (erule scalar_getters_ok, simp_all add: scalar_cache_pos scalar_getter_defs split: option.splits)
  subgoal by (rule scalar_gives [where ty = "TYPE_INTEGER 32" and c = int32_type and u = "\<lambda>t. int32_type_update (\<lambda>_. Some t)"])
    (erule scalar_getters_ok, simp_all add: scalar_cache_pos scalar_getter_defs split: option.splits)
  subgoal by (rule scalar_gives [where ty = "TYPE_INTEGER 64" and c = int64_type and u = "\<lambda>t. int64_type_update (\<lambda>_. Some t)"])
    (erule scalar_getters_ok, simp_all add: scalar_cache_pos scalar_getter_defs split: option.splits)
  subgoal by (rule scalar_gives [where ty = "TYPE_FLOAT 16" and c = float16_type and u = "\<lambda>t. float16_type_update (\<lambda>_. Some t)"])
    (erule scalar_getters_ok, simp_all add: scalar_cache_pos scalar_getter_defs split: option.splits)
  subgoal by (rule scalar_gives [where ty = "TYPE_FLOAT 32" and c = float32_type and u = "\<lambda>t. float32_type_update (\<lambda>_. Some t)"])
    (erule scalar_getters_ok, simp_all add: scalar_cache_pos scalar_getter_defs split: option.splits)
  subgoal by (rule scalar_gives [where ty = "TYPE_FLOAT 64" and c = float64_type and u = "\<lambda>t. float64_type_update (\<lambda>_. Some t)"])
    (erule scalar_getters_ok, simp_all add: scalar_cache_pos scalar_getter_defs split: option.splits)
  done

lemma gives_int:
  "b \<in> {1, 8, 16, 32, 64} \<Longrightarrow> gives (dxil_module_get_int_type b) (INT_T b)"
  using gives_scalars(2-6) by (auto simp: dxil_module_get_int_type_def [abs_def])

lemma gives_float:
  "b \<in> {16, 32, 64} \<Longrightarrow> gives (dxil_module_get_float_type b) (FLOAT_T b)"
  using gives_scalars(7-9) by (auto simp: dxil_module_get_float_type_def [abs_def])


lemma gives_bind:
  assumes "gives g a" and "\<And>t m. types_ok m \<Longrightarrow> has_type (type_list m) t a \<Longrightarrow>
     \<exists>t' m'. f t m = Inr (t', m') \<and> grown m m' \<and> has_type (type_list m') t' b"
  shows "gives (\<lambda>m. bind_result (g m) (\<lambda>(t, m). f t m)) b"
proof (rule givesI)
  fix m assume "types_ok m"
  then obtain t m1 where 1: "g m = Inr (t, m1)" "grown m m1" "types_ok m1" "has_type (type_list m1) t a"
    using givesE [OF assms(1)] by metis
  from assms(2) [OF 1(3,4)] obtain t' m2
    where 2: "f t m1 = Inr (t', m2)" "grown m1 m2" "has_type (type_list m2) t' b" by blast
  show "\<exists>t' m'. bind_result (g m) (\<lambda>(t, m). f t m) = Inr (t', m') \<and> grown m m' \<and> has_type (type_list m') t' b"
    using 1 2 grown_trans by auto
qed

lemma pointer_gives:
  assumes "types_ok m" and "has_type (type_list m) t a"
  shows "\<exists>t' m'. dxil_module_get_pointer_type t m = (t', m') \<and> grown m m' \<and> has_type (type_list m') t' (PTR_T a)"
proof -
  obtain t' m' where g: "dxil_module_get_pointer_type t m = (t', m')" by fastforce
  have "types_ok m'" using pointer_type_ok [OF assms(1) has_type_less [OF assms(2)]] g by simp
  moreover have "func_list m' = func_list m \<and> function_tree m' = function_tree m \<and> attr_set_list m' = attr_set_list m"
    using g by (auto simp: dxil_module_get_pointer_type_def create_type_def split: option.splits)
  moreover obtain new where "type_list m' = type_list m @ new" using pointer_types.get_grows [OF g] by blast
  ultimately have "grown m m'" by (simp add: grown_def)
  moreover have "t' < length (type_list m') \<and> type_list m' ! t' = TYPE_POINTER t"
    using pointer_types.get_view [OF g] by auto
  ultimately show ?thesis using g grown_has_type [OF _ assms(2)] by auto
qed

lemma struct_gives:
  assumes "types_ok m" and "have_types (type_list m) es as" and "name \<noteq> []"
  shows "\<exists>t' m'. dxil_module_get_struct_type (Some name) es m = Inr (t', m') \<and> grown m m' \<and>
    has_type (type_list m') t' (STRUCT_T name as)"
proof -
  obtain t' m' where g: "find_struct_type (Some name, es) m = (t', m')" by fastforce
  then have s: "dxil_module_get_struct_type (Some name) es m = Inr (t', m')"
    using assms(3) by (simp add: dxil_module_get_struct_type_def)
  have "types_ok m'" using struct_type_ok [OF assms(1) have_types_less [OF assms(2)] s] .
  moreover have "func_list m' = func_list m \<and> function_tree m' = function_tree m \<and> attr_set_list m' = attr_set_list m"
    using g by (auto simp: find_struct_type_def create_type_def split: option.splits)
  moreover obtain new where "type_list m' = type_list m @ new" using struct_types.get_grows [OF g] by blast
  ultimately have "grown m m'" by (simp add: grown_def)
  moreover have "t' < length (type_list m') \<and> type_list m' ! t' = TYPE_STRUCT (Some name) es"
    using struct_types.get_view [OF g] by auto
  ultimately show ?thesis using s grown_have_types [OF _ assms(2)] by auto
qed

section \<open>What the letters mean\<close>

fun overload_dtype :: "overload_type \<Rightarrow> dtype option" where
  "overload_dtype DXIL_I1 = Some (INT_T 1)"
| "overload_dtype DXIL_I16 = Some (INT_T 16)"
| "overload_dtype DXIL_I32 = Some (INT_T 32)"
| "overload_dtype DXIL_I64 = Some (INT_T 64)"
| "overload_dtype DXIL_F16 = Some (FLOAT_T 16)"
| "overload_dtype DXIL_F32 = Some (FLOAT_T 32)"
| "overload_dtype DXIL_F64 = Some (FLOAT_T 64)"
| "overload_dtype _ = None"

text \<open>The overloads that the results of loads have, with the suffix and the number of fields of a
  constant-buffer load.\<close>

fun load_overload :: "overload_type \<Rightarrow> (string \<times> dtype \<times> nat \<times> string) option" where
  "load_overload DXIL_I16 = Some (''i16'', INT_T 16, 8, ''.8'')"
| "load_overload DXIL_I32 = Some (''i32'', INT_T 32, 4, [])"
| "load_overload DXIL_I64 = Some (''i64'', INT_T 64, 2, [])"
| "load_overload DXIL_F16 = Some (''f16'', FLOAT_T 16, 8, ''.8'')"
| "load_overload DXIL_F32 = Some (''f32'', FLOAT_T 32, 4, [])"
| "load_overload DXIL_F64 = Some (''f64'', FLOAT_T 64, 2, [])"
| "load_overload _ = None"

definition letter_dtype :: "overload_type \<Rightarrow> char \<Rightarrow> dtype option" where
  "letter_dtype overload c =
     (if c = CHR ''O'' then overload_dtype overload
      else if c = CHR ''R'' then
        map_option (\<lambda>(suffix, t, n, lanes). STRUCT_T (''dx.types.ResRet.'' @ suffix) [t, t, t, t, INT_T 32])
          (load_overload overload)
      else if c = CHR ''B'' then
        map_option (\<lambda>(suffix, t, n, lanes). STRUCT_T (''dx.types.CBufRet.'' @ suffix @ lanes) (replicate n t))
          (load_overload overload)
      else map_of
        [(CHR ''l'', INT_T 64), (CHR ''i'', INT_T 32), (CHR ''h'', INT_T 16), (CHR ''c'', INT_T 8),
         (CHR ''b'', INT_T 1), (CHR ''g'', FLOAT_T 64), (CHR ''f'', FLOAT_T 32), (CHR ''e'', FLOAT_T 16),
         (CHR ''@'', STRUCT_T ''dx.types.Handle'' [PTR_T (INT_T 8)]),
         (CHR ''v'', VOID_T),
         (CHR ''D'', STRUCT_T ''dx.types.Dimensions'' [INT_T 32, INT_T 32, INT_T 32, INT_T 32]),
         (CHR ''S'', STRUCT_T ''dx.types.SamplePos'' [FLOAT_T 32, FLOAT_T 32]),
         (CHR ''G'', STRUCT_T ''dx.types.splitdouble'' [INT_T 32, INT_T 32]),
         (CHR ''#'', STRUCT_T ''dx.types.ResBind'' [INT_T 32, INT_T 32, INT_T 32, INT_T 8]),
         (CHR ''P'', STRUCT_T ''dx.types.ResourceProperties'' [INT_T 32, INT_T 32]),
         (CHR ''F'', STRUCT_T ''dx.types.fouri32'' [INT_T 32, INT_T 32, INT_T 32, INT_T 32])] c)"


lemma have_types_replicate: "has_type ts t a \<Longrightarrow> have_types ts (replicate n t) (replicate n a)"
  by (induction n) simp_all

text \<open>A structure with elements of one 32-bit integer type.\<close>

lemma gives_int32_struct:
  assumes "name \<noteq> []"
  shows "gives (\<lambda>m. bind_result (dxil_module_get_int_type 32 m) (\<lambda>(t, m).
     dxil_module_get_struct_type (Some name) (replicate n t) m)) (STRUCT_T name (replicate n (INT_T 32)))"
  by (rule gives_bind [OF gives_int], simp, rule struct_gives, assumption, erule have_types_replicate, rule assms)

lemma gives_fixed:
  "gives dxil_module_get_handle_type (STRUCT_T ''dx.types.Handle'' [PTR_T (INT_T 8)])"
  "gives dxil_module_get_dimret_type (STRUCT_T ''dx.types.Dimensions'' [INT_T 32, INT_T 32, INT_T 32, INT_T 32])"
  "gives dxil_module_get_split_double_ret_type (STRUCT_T ''dx.types.splitdouble'' [INT_T 32, INT_T 32])"
  "gives dxil_module_get_res_props_type (STRUCT_T ''dx.types.ResourceProperties'' [INT_T 32, INT_T 32])"
  "gives dxil_module_get_fouri32_type (STRUCT_T ''dx.types.fouri32'' [INT_T 32, INT_T 32, INT_T 32, INT_T 32])"
  "gives dxil_module_get_samplepos_type (STRUCT_T ''dx.types.SamplePos'' [FLOAT_T 32, FLOAT_T 32])"
proof -
  have "gives (\<lambda>m. bind_result (Inr (get_int8_type m)) (\<lambda>(t, m).
      let (ptr, m) = dxil_module_get_pointer_type t m in dxil_module_get_struct_type (Some ''dx.types.Handle'') [ptr] m))
      (STRUCT_T ''dx.types.Handle'' [PTR_T (INT_T 8)])"
  proof (rule gives_bind [OF gives_scalars(3)])
    fix t m assume "types_ok m" "has_type (type_list m) t (INT_T 8)"
    from pointer_gives [OF this] obtain p m1
      where 1: "dxil_module_get_pointer_type t m = (p, m1)" "grown m m1" "has_type (type_list m1) p (PTR_T (INT_T 8))"
      by blast
    then have "types_ok m1" "have_types (type_list m1) [p] [PTR_T (INT_T 8)]" by (simp_all add: grown_def)
    from struct_gives [OF this, of "''dx.types.Handle''"] 1 grown_trans
    show "\<exists>t' m'. (let (ptr, m) = dxil_module_get_pointer_type t m in
        dxil_module_get_struct_type (Some ''dx.types.Handle'') [ptr] m) = Inr (t', m') \<and>
        grown m m' \<and> has_type (type_list m') t' (STRUCT_T ''dx.types.Handle'' [PTR_T (INT_T 8)])"
      by fastforce
  qed
  then show "gives dxil_module_get_handle_type (STRUCT_T ''dx.types.Handle'' [PTR_T (INT_T 8)])"
    by (simp add: dxil_module_get_handle_type_def [abs_def] Let_def)
  show "gives dxil_module_get_dimret_type (STRUCT_T ''dx.types.Dimensions'' [INT_T 32, INT_T 32, INT_T 32, INT_T 32])"
    using gives_int32_struct [of "''dx.types.Dimensions''" 4]
    by (simp add: dxil_module_get_dimret_type_def [abs_def] numeral_eq_Suc)
  show "gives dxil_module_get_split_double_ret_type (STRUCT_T ''dx.types.splitdouble'' [INT_T 32, INT_T 32])"
    using gives_int32_struct [of "''dx.types.splitdouble''" 2]
    by (simp add: dxil_module_get_split_double_ret_type_def [abs_def] numeral_eq_Suc)
  show "gives dxil_module_get_res_props_type (STRUCT_T ''dx.types.ResourceProperties'' [INT_T 32, INT_T 32])"
    using gives_int32_struct [of "''dx.types.ResourceProperties''" 2]
    by (simp add: dxil_module_get_res_props_type_def [abs_def] numeral_eq_Suc)
  show "gives dxil_module_get_fouri32_type (STRUCT_T ''dx.types.fouri32'' [INT_T 32, INT_T 32, INT_T 32, INT_T 32])"
    using gives_int32_struct [of "''dx.types.fouri32''" 4]
    by (simp add: dxil_module_get_fouri32_type_def [abs_def] numeral_eq_Suc)
  show "gives dxil_module_get_samplepos_type (STRUCT_T ''dx.types.SamplePos'' [FLOAT_T 32, FLOAT_T 32])"
    unfolding dxil_module_get_samplepos_type_def [abs_def]
    by (rule gives_bind [OF gives_float], simp, rule struct_gives, assumption) simp_all
qed

text \<open>Two types and then a structure of both.\<close>

lemma gives_two:
  assumes "gives g a" and "gives h b" and "name \<noteq> []"
    and "\<And>ts t u. has_type ts t a \<Longrightarrow> has_type ts u b \<Longrightarrow> have_types ts (es t u) as"
  shows "gives (\<lambda>m. bind_result (g m) (\<lambda>(t, m). bind_result (h m) (\<lambda>(u, m).
     dxil_module_get_struct_type (Some name) (es t u) m))) (STRUCT_T name as)"
proof (rule gives_bind [OF assms(1)])
  fix t m assume m: "types_ok m" "has_type (type_list m) t a"
  obtain u m1 where 1: "h m = Inr (u, m1)" "grown m m1" "types_ok m1" "has_type (type_list m1) u b"
    by (rule givesE [OF assms(2) m(1)])
  have "have_types (type_list m1) (es t u) as" using assms(4) grown_has_type [OF 1(2) m(2)] 1(4) .
  from struct_gives [OF 1(3) this assms(3)] obtain t' m2
    where 2: "dxil_module_get_struct_type (Some name) (es t u) m1 = Inr (t', m2)" "grown m1 m2"
      "has_type (type_list m2) t' (STRUCT_T name as)" by blast
  show "\<exists>t' m'. bind_result (h m) (\<lambda>(u, m). dxil_module_get_struct_type (Some name) (es t u) m) = Inr (t', m') \<and>
     grown m m' \<and> has_type (type_list m') t' (STRUCT_T name as)"
    using 1(1) 2 grown_trans [OF 1(2) 2(2)] by auto
qed

lemma gives_res_bind:
  "gives dxil_module_get_res_bind_type (STRUCT_T ''dx.types.ResBind'' [INT_T 32, INT_T 32, INT_T 32, INT_T 8])"
  unfolding dxil_module_get_res_bind_type_def [abs_def]
  by (rule gives_two [OF gives_int gives_int]) auto

lemma gives_overload: "overload_dtype overload = Some a \<Longrightarrow> gives (dxil_get_overload_type overload) a"
  using gives_scalars by (cases overload) (simp_all add: dxil_get_overload_type_def [abs_def])

lemma gives_resret:
  assumes "load_overload overload = Some (suffix, a, n, lanes)"
  shows "gives (dxil_module_get_resret_type overload) (STRUCT_T (''dx.types.ResRet.'' @ suffix) [a, a, a, a, INT_T 32])"
proof -
  have g: "gives (dxil_get_overload_type overload) a"
    using assms by (intro gives_overload) (cases overload; simp)
  have "gives (\<lambda>m. bind_result (dxil_get_overload_type overload m) (\<lambda>(t, m).
      bind_result (dxil_module_get_int_type 32 m) (\<lambda>(int32, m).
      dxil_module_get_struct_type (Some (''dx.types.ResRet.'' @ suffix)) [t, t, t, t, int32] m)))
    (STRUCT_T (''dx.types.ResRet.'' @ suffix) [a, a, a, a, INT_T 32])"
    by (rule gives_two [OF g gives_int]) auto
  then show ?thesis
    using assms by (cases overload) (auto simp: dxil_module_get_resret_type_def [abs_def])
qed

lemma gives_cbuf_ret:
  assumes "load_overload overload = Some (suffix, a, n, lanes)"
  shows "gives (dxil_module_get_cbuf_ret_type overload) (STRUCT_T (''dx.types.CBufRet.'' @ suffix @ lanes) (replicate n a))"
proof -
  have g: "gives (dxil_get_overload_type overload) a"
    using assms by (intro gives_overload) (cases overload; simp)
  have "gives (\<lambda>m. bind_result (dxil_get_overload_type overload m) (\<lambda>(t, m).
      dxil_module_get_struct_type (Some (''dx.types.CBufRet.'' @ suffix @ lanes)) (replicate n t) m))
    (STRUCT_T (''dx.types.CBufRet.'' @ suffix @ lanes) (replicate n a))"
    by (rule gives_bind [OF g], rule struct_gives, assumption, erule have_types_replicate) simp
  then show ?thesis
    using assms by (cases overload) (auto simp: dxil_module_get_cbuf_ret_type_def [abs_def] snprintf_def)
qed

lemmas letters = DXIL_FUNC_PARAM_INT64_def DXIL_FUNC_PARAM_INT32_def DXIL_FUNC_PARAM_INT16_def
  DXIL_FUNC_PARAM_INT8_def DXIL_FUNC_PARAM_BOOL_def DXIL_FUNC_PARAM_FLOAT64_def
  DXIL_FUNC_PARAM_FLOAT32_def DXIL_FUNC_PARAM_FLOAT16_def DXIL_FUNC_PARAM_HANDLE_def
  DXIL_FUNC_PARAM_POINTER_def DXIL_FUNC_PARAM_VOID_def DXIL_FUNC_PARAM_FROM_OVERLOAD_def
  DXIL_FUNC_PARAM_RESRET_def DXIL_FUNC_PARAM_CBUF_RET_def DXIL_FUNC_PARAM_DIM_def
  DXIL_FUNC_PARAM_SPLIT_DOUBLE_def DXIL_FUNC_PARAM_SAMPLE_POS_def DXIL_FUNC_PARAM_RES_BIND_def
  DXIL_FUNC_PARAM_RES_PROPS_def DXIL_FUNC_PARAM_FOURI32_def

lemma gives_letter:
  assumes "letter_dtype overload c = Some a"
  shows "gives (type_of_letter c overload) a"
proof -
  consider "c = CHR ''O''" "overload_dtype overload = Some a"
    | suffix t n lanes where "c = CHR ''R''" "load_overload overload = Some (suffix, t, n, lanes)"
        "a = STRUCT_T (''dx.types.ResRet.'' @ suffix) [t, t, t, t, INT_T 32]"
    | suffix t n lanes where "c = CHR ''B''" "load_overload overload = Some (suffix, t, n, lanes)"
        "a = STRUCT_T (''dx.types.CBufRet.'' @ suffix @ lanes) (replicate n t)"
    | "c \<notin> {CHR ''O'', CHR ''R'', CHR ''B''}" "letter_dtype overload c = Some a"
    using assms unfolding letter_dtype_def by (auto split: if_splits)
  then show ?thesis
  proof cases
    case 1
    then show ?thesis using gives_overload by (simp add: type_of_letter_def [abs_def] letters)
  next
    case 2
    then show ?thesis using gives_resret by (simp add: type_of_letter_def [abs_def] letters)
  next
    case 3
    then show ?thesis using gives_cbuf_ret by (simp add: type_of_letter_def [abs_def] letters)
  next
    case 4
    then show ?thesis
      using gives_fixed gives_res_bind gives_scalars(1) gives_int gives_float
      by (auto simp: type_of_letter_def [abs_def] letters letter_dtype_def split: if_splits)
  qed
qed

end
