(* ===== verification/Function_Decls.thy ===== *)
theory Function_Decls
  imports Function_Types
begin

text \<open>
  Declaring functions: attribute sets are interned, signatures are read letter by letter, and asking for
  a predefined function declares it once for each overload with the type its table entry describes.
\<close>

section \<open>Attribute sets\<close>

lemma attrs_equal_iff: "attrs_equal a b \<longleftrightarrow> a = b"
  by (cases a; cases b) simp_all

lemma attr_sets_equal_iff: "length as = length bs \<Longrightarrow> attr_sets_equal as bs \<longleftrightarrow> as = bs"
proof (induction as arbitrary: bs)
  case (Cons a as)
  then show ?case by (cases bs) (simp_all add: attrs_equal_iff)
qed simp

interpretation attr_sets: canonical find_attr_set attr_set_list Suc "\<lambda>as bs. bs = as" "\<lambda>as. as" "\<lambda>as. as"
proof unfold_locales
  have eq: "(\<lambda>as. length as = length attrs \<and> attr_sets_equal as attrs) = (\<lambda>as. as = attrs)" for attrs
    by (auto simp: fun_eq_iff attr_sets_equal_iff)
  show "find_attr_set k s = (Suc i, s)" if "find_pos (\<lambda>bs. bs = k) (attr_set_list s) = Some i" for k s i
    using that by (simp add: find_attr_set_def eq)
  show "r = Suc (length (attr_set_list s)) \<and> attr_set_list s' = attr_set_list s @ [k]"
    if "find_pos (\<lambda>bs. bs = k) (attr_set_list s) = None" and "find_attr_set k s = (r, s')" for k s r s'
    using that by (auto simp: find_attr_set_def eq)
qed auto

lemma find_attr_set_types:
  "find_attr_set k m = (r, m') \<Longrightarrow> type_list m' = type_list m \<and> func_list m' = func_list m \<and>
     function_tree m' = function_tree m \<and> scalar_caches m' = scalar_caches m"
  by (auto simp: find_attr_set_def scalar_caches_def split: option.splits)

section \<open>Reading signatures\<close>

fun parse_dtype :: "overload_type \<Rightarrow> string \<Rightarrow> (dtype \<times> string) option" where
  "parse_dtype overload [] = None"
| "parse_dtype overload (c # cs) =
     (if c = CHR ''*'' then map_option (\<lambda>(a, rest). (PTR_T a, rest)) (parse_dtype overload cs)
      else map_option (\<lambda>a. (a, cs)) (letter_dtype overload c))"

lemma get_type_from_string_gives:
  assumes "types_ok m" and "parse_dtype overload (drop idx descr) = Some (a, rest)"
  shows "\<exists>t m'. get_type_from_string descr overload idx m = Inr (t, length descr - length rest, m') \<and>
     grown m m' \<and> has_type (type_list m') t a \<and> rest = drop (length descr - length rest) descr"
  using assms
proof (induction "length descr - idx" arbitrary: idx a rest rule: less_induct)
  case less
  have "idx < length descr"
  proof (rule ccontr)
    assume "\<not> idx < length descr"
    then show False using less.prems(2) by simp
  qed
  then have d: "drop idx descr = descr ! idx # drop (Suc idx) descr" by (simp add: Cons_nth_drop_Suc)
  have lt: "length descr - Suc idx < length descr - idx" using \<open>idx < length descr\<close> by arith
  show ?case
  proof (cases "descr ! idx = CHR ''*''")
    case True
    then obtain b where b: "parse_dtype overload (drop (Suc idx) descr) = Some (b, rest)" "a = PTR_T b"
      using less.prems(2) d by auto
    then obtain t m1 where 1: "get_type_from_string descr overload (Suc idx) m = Inr (t, length descr - length rest, m1)"
      "grown m m1" "has_type (type_list m1) t b" "rest = drop (length descr - length rest) descr"
      using less.hyps [OF lt less.prems(1) b(1)] by auto
    have "types_ok m1" using 1(2) by (simp add: grown_def)
    from pointer_gives [OF this 1(3)] obtain p m2 where 2: "dxil_module_get_pointer_type t m1 = (p, m2)"
      "grown m1 m2" "has_type (type_list m2) p (PTR_T b)" by blast
    have "get_type_from_string descr overload idx m = Inr (p, length descr - length rest, m2)"
      using \<open>idx < length descr\<close> True 1(1) 2(1)
      by (subst get_type_from_string.simps) (simp add: letters)
    then show ?thesis using grown_trans [OF 1(2) 2(2)] 2(3) 1(4) b(2) by blast
  next
    case False
    then have a: "letter_dtype overload (descr ! idx) = Some a" "rest = drop (Suc idx) descr"
      using less.prems(2) d by auto
    obtain t m1 where 1: "type_of_letter (descr ! idx) overload m = Inr (t, m1)" "grown m m1" "types_ok m1"
      "has_type (type_list m1) t a"
      by (rule givesE [OF gives_letter [OF a(1)] less.prems(1)])
    have "get_type_from_string descr overload idx m = Inr (t, Suc idx, m1)"
      using \<open>idx < length descr\<close> False 1(1) by (subst get_type_from_string.simps) (simp add: letters)
    moreover have "length descr - length rest = Suc idx" using a(2) \<open>idx < length descr\<close> by simp
    ultimately show ?thesis using 1 a(2) by auto
  qed
qed

text \<open>Signatures without pointers: one letter for each parameter.\<close>

definition letters_dtypes :: "overload_type \<Rightarrow> string \<Rightarrow> dtype list" where
  "letters_dtypes overload cs = map (\<lambda>c. the (letter_dtype overload c)) cs"

lemma letter_not_pointer: "letter_dtype overload c = Some a \<Longrightarrow> c \<noteq> CHR ''*''"
  by (auto simp: letter_dtype_def)

lemma get_param_types_gives:
  assumes "types_ok m" and "\<forall>c \<in> set descr. letter_dtype overload c \<noteq> None" and "length descr \<le> MAX_FUNC_PARAMS"
  shows "n \<le> length descr \<Longrightarrow> \<exists>ts m'. get_param_types descr overload n n m = Inr (ts, m') \<and> grown m m' \<and>
     have_types (type_list m') ts (letters_dtypes overload (drop n descr))"
  using assms(1)
proof (induction "length descr - n" arbitrary: n m rule: less_induct)
  case less
  show ?case
  proof (cases "n = length descr")
    case True
    then show ?thesis using less.prems
      by (simp add: get_param_types.simps grown_refl letters_dtypes_def)
  next
    case False
    then have n: "n < length descr" using less.prems(1) by simp
    then obtain a where a: "letter_dtype overload (descr ! n) = Some a" using assms(2) nth_mem by blast
    have d: "drop n descr = descr ! n # drop (Suc n) descr" using n by (simp add: Cons_nth_drop_Suc)
    have "parse_dtype overload (drop n descr) = Some (a, drop (Suc n) descr)"
      using a letter_not_pointer [OF a] by (simp add: d)
    from get_type_from_string_gives [OF less.prems(2) this] n obtain t m1
      where 1: "get_type_from_string descr overload n m = Inr (t, Suc n, m1)" "grown m m1" "has_type (type_list m1) t a"
      by auto
    have "types_ok m1" using 1(2) by (simp add: grown_def)
    moreover have "length descr - Suc n < length descr - n" "Suc n \<le> length descr" using n by arith+
    ultimately obtain ts m2
      where 2: "get_param_types descr overload (Suc n) (Suc n) m1 = Inr (ts, m2)" "grown m1 m2"
        "have_types (type_list m2) ts (letters_dtypes overload (drop (Suc n) descr))"
      using less.hyps by blast
    have "get_param_types descr overload n n m = Inr (t # ts, m2)"
      using n assms(3) 1(1) 2(1) by (subst get_param_types.simps) (simp add: MAX_FUNC_PARAMS_def)
    moreover have "have_types (type_list m2) (t # ts) (letters_dtypes overload (drop n descr))"
      using 2(3) grown_has_type [OF 2(2) 1(3)] a by (simp add: d letters_dtypes_def)
    ultimately show ?thesis using grown_trans [OF 1(2) 2(2)] by blast
  qed
qed


section \<open>The predefined functions\<close>

text \<open>The letters that every load overload gives a meaning.\<close>

lemma letters_known:
  assumes "c \<in> set ''ORBlihcbgfe@vDSG#PF''" and "load_overload overload \<noteq> None"
  shows "letter_dtype overload c \<noteq> None"
  using assms by (cases overload) (auto simp: letter_dtype_def)

definition descr_ok :: "predefined_func_descr \<Rightarrow> bool" where
  "descr_ok = (\<lambda>(name, ret, params, attr). length name < 90 \<and> length ret = 1 \<and> length params \<le> MAX_FUNC_PARAMS \<and>
     list_all (\<lambda>c. c \<in> set ''ORBlihcbgfe@vDSG#PF'') (ret @ params))"

lemma predefined_ok: "list_all descr_ok predefined_funcs"
  unfolding predefined_funcs_def by (simp add: descr_ok_def MAX_FUNC_PARAMS_def)

lemma find_predefined_ok: "find_predefined name ds = Some d \<Longrightarrow> list_all descr_ok ds \<Longrightarrow> descr_ok (name, d)"
  by (induction ds) (auto split: if_splits)

text \<open>The function that is declared, as it appears in the module.\<close>

definition declares ::
  "string \<Rightarrow> dtype \<Rightarrow> dtype list \<Rightarrow> dxil_attr_kind \<Rightarrow> nat \<Rightarrow> dxil_module \<Rightarrow> bool" where
  "declares name ret params attr f m \<longleftrightarrow> f < length (func_list m) \<and>
     (let fn = func_list m ! f in
      func_name fn = name \<and> func_decl fn \<and>
      0 < func_attr_set fn \<and> func_attr_set fn \<le> length (attr_set_list m) \<and>
      attr_set_list m ! (func_attr_set fn - 1) =
        (if attr = DXIL_ATTR_KIND_NONE then [DXIL_ATTR_ENUM DXIL_ATTR_KIND_NO_UNWIND]
         else [DXIL_ATTR_ENUM DXIL_ATTR_KIND_NO_UNWIND, DXIL_ATTR_ENUM attr]) \<and>
      (\<exists>r ts. type_at m (func_type fn) = TYPE_FUNCTION r ts \<and>
         has_type (type_list m) r ret \<and> have_types (type_list m) ts params))"

lemma add_function_type_grown:
  assumes "types_ok m" and "has_type (type_list m) r a" and "have_types (type_list m) ts as"
  shows "\<exists>m'. dxil_module_add_function_type r ts m = (length (type_list m), m') \<and> grown m m' \<and>
     type_list m' = type_list m @ [TYPE_FUNCTION r ts]"
proof -
  let ?m' = "m\<lparr>type_list := type_list m @ [TYPE_FUNCTION r ts]\<rparr>"
  have "dxil_module_add_function_type r ts m = (length (type_list m), ?m')"
    by (simp add: dxil_module_add_function_type_def create_type_def)
  moreover have "types_ok ?m'"
    using function_type_ok [OF assms(1), of r ts] has_type_less [OF assms(2)] have_types_less [OF assms(3)]
    by (simp add: calculation)
  ultimately show ?thesis by (auto simp: grown_def)
qed

lemma types_ok_cong: "types_ok m \<Longrightarrow> type_list m' = type_list m \<Longrightarrow> scalar_caches m' = scalar_caches m \<Longrightarrow> types_ok m'"
  by (simp add: types_ok_def)

lemma add_function_decl_declares:
  assumes "types_ok m" and "type_at m t = TYPE_FUNCTION r ts" and "t < length (type_list m)"
    and "has_type (type_list m) r a" and "have_types (type_list m) ts as" and "length name \<le> 253"
  shows "\<exists>m'. dxil_add_function_decl name t attr m = Inr (length (func_list m), m') \<and> types_ok m' \<and>
     function_tree m' = function_tree m \<and> declares name a as attr (length (func_list m)) m' \<and>
     (\<exists>fn. func_list m' = func_list m @ [fn])"
proof -
  obtain k m1 where k: "get_attr_set attr m = (k, m1)" by fastforce
  let ?as = "if attr = DXIL_ATTR_KIND_NONE then [DXIL_ATTR_ENUM DXIL_ATTR_KIND_NO_UNWIND]
     else [DXIL_ATTR_ENUM DXIL_ATTR_KIND_NO_UNWIND, DXIL_ATTR_ENUM attr]"
  have find: "find_attr_set ?as m = (k, m1)" using k by (simp add: get_attr_set_def split: if_splits)
  obtain i where i: "k = Suc i" "i < length (attr_set_list m1)" "attr_set_list m1 ! i = ?as"
    using attr_sets.get_view [OF find] by blast
  note same = find_attr_set_types [OF find]
  let ?fn = "\<lparr>func_name = name, func_type = t, func_decl = True, func_attr_set = k,
      func_value = \<lparr>value_id = -1, value_type = r\<rparr>\<rparr>"
  let ?m' = "m1\<lparr>func_list := func_list m1 @ [?fn]\<rparr>"
  have "type_at m1 t = TYPE_FUNCTION r ts" using assms(2) same by (simp add: type_at_def)
  then have "dxil_add_function_decl name t attr m = Inr (length (func_list m), ?m')"
    using k i(1) same assms(6) by (simp add: dxil_add_function_decl_def add_function_def)
  moreover have "types_ok ?m'"
    by (rule types_ok_cong [OF assms(1)]) (use same in \<open>simp_all add: scalar_caches_def\<close>)
  moreover have "declares name a as attr (length (func_list m)) ?m'"
    using same i assms(2,4,5) by (auto simp: declares_def Let_def type_at_def)
  ultimately show ?thesis using same by auto
qed


lemma snprintf_fits: "length s < n \<Longrightarrow> snprintf n s = s"
  unfolding snprintf_def by (rule take_all) simp

lemma load_suffix:
  "load_overload overload = Some (suffix, t, n, lanes) \<Longrightarrow>
   dxil_overload_suffix overload = Inr suffix \<and> overload \<noteq> DXIL_NONE \<and> length suffix \<le> 3"
  by (cases overload) auto

lemma declares_tree: "declares name a as attr f (m\<lparr>function_tree := tree\<rparr>) = declares name a as attr f m"
  by (simp add: declares_def type_at_def)

lemma alloc_func_declares:
  assumes "types_ok m" and "descr_ok (name, [ret], params, attr)"
    and "load_overload overload = Some (suffix, t, n, lanes)"
  shows "\<exists>m'. dxil_alloc_func name overload [ret] params attr m = Inr (length (func_list m), m') \<and> types_ok m' \<and>
     function_tree m' = ((name, overload), length (func_list m)) # function_tree m \<and>
     declares (name @ ''.'' @ suffix) (the (letter_dtype overload ret)) (letters_dtypes overload params)
       attr (length (func_list m)) m' \<and> (\<exists>fn. func_list m' = func_list m @ [fn])"
proof -
  note load = load_suffix [OF assms(3)]
  have short: "length name < 90" "length params \<le> MAX_FUNC_PARAMS"
    and letters: "list_all (\<lambda>c. c \<in> set ''ORBlihcbgfe@vDSG#PF'') (ret # params)"
    using assms(2) by (simp_all only: descr_ok_def prod.case append_Cons append_Nil)
  have known: "letter_dtype overload c \<noteq> None" if c: "c \<in> set (ret # params)" for c
  proof (rule letters_known)
    show "c \<in> set ''ORBlihcbgfe@vDSG#PF''" using bspec [OF letters [unfolded list_all_iff] c] .
    show "load_overload overload \<noteq> None" unfolding assms(3) by (rule option.distinct(2))
  qed
  obtain a where a: "letter_dtype overload ret = Some a" using known [of ret] by auto
  have "parse_dtype overload (drop 0 [ret]) = Some (a, [])" using a letter_not_pointer [OF a] by simp
  from get_type_from_string_gives [OF assms(1) this]
  obtain r m1 where 1: "get_type_from_string [ret] overload 0 m = Inr (r, Suc 0, m1)" "grown m m1"
    "has_type (type_list m1) r a" by auto
  have ok1: "types_ok m1" using 1(2) by (simp add: grown_def)
  have "\<forall>c \<in> set params. letter_dtype overload c \<noteq> None" using known by simp
  from get_param_types_gives [OF ok1 this short(2), of 0]
  obtain ts m2 where 2: "get_param_types params overload 0 0 m1 = Inr (ts, m2)" "grown m1 m2"
    "have_types (type_list m2) ts (letters_dtypes overload params)"
    unfolding drop_0 by blast
  have ok2: "types_ok m2" using 2(2) by (simp add: grown_def)
  note r2 = grown_has_type [OF 2(2) 1(3)]
  obtain m3 where 3: "dxil_module_add_function_type r ts m2 = (length (type_list m2), m3)" "grown m2 m3"
    "type_list m3 = type_list m2 @ [TYPE_FUNCTION r ts]"
    using add_function_type_grown [OF ok2 r2 2(3)] by blast
  have ok3: "types_ok m3" using 3(2) by (simp add: grown_def)
  let ?name = "name @ ''.'' @ suffix"
  have at: "type_at m3 (length (type_list m2)) = TYPE_FUNCTION r ts" "length (type_list m2) < length (type_list m3)"
    using 3(3) by (simp_all add: type_at_def nth_or_def)
  have "length ?name \<le> 99" using short(1) load by simp
  then have len: "snprintf 100 ?name = ?name" "length ?name \<le> 253"
    by (auto intro!: snprintf_fits simp del: length_append)
  have "grown m m3" using 1(2) 2(2) 3(2) grown_trans by blast
  then have same: "func_list m3 = func_list m" "function_tree m3 = function_tree m" by (simp_all add: grown_def)
  obtain m4 where 4: "dxil_add_function_decl ?name (length (type_list m2)) attr m3 = Inr (length (func_list m), m4)"
    "types_ok m4" "function_tree m4 = function_tree m"
    "declares ?name a (letters_dtypes overload params) attr (length (func_list m)) m4"
    "\<exists>fn. func_list m4 = func_list m @ [fn]"
    using add_function_decl_declares [OF ok3 at grown_has_type [OF 3(2) r2] grown_have_types [OF 3(2) 2(3)] len(2)]
    unfolding same by blast
  let ?m' = "dxil_add_function (length (func_list m)) name overload m4"
  have "dxil_alloc_func name overload [ret] params attr m = Inr (length (func_list m), ?m')"
    using 1(1) 2(1) 3(1) 4(1) load len(1)
    by (simp add: dxil_alloc_func_def dxil_alloc_func_with_rettype_def)
  moreover have "types_ok ?m'"
    by (rule types_ok_cong [OF 4(2)]) (simp_all add: dxil_add_function_def scalar_caches_def)
  ultimately show ?thesis
    using 4(3-5) a by (simp add: dxil_add_function_def declares_tree)
qed

text \<open>C18: Asking for any of the predefined functions with any overload that a load can have succeeds in
  every module, however many types it has: no assertion fails, the parameters fit the array, and the
  function is declared under its name and suffix with the attributes of its table entry and with the
  result and parameter types that the letters of its entry stand for, the structures included. It is then
  the function found for this name and overload.\<close>

theorem dxil_get_function_declares:
  assumes "types_ok m" and "find_predefined name predefined_funcs = Some (ret, params, attr)"
    and "load_overload overload = Some (suffix, t, n, lanes)" and "map_of (function_tree m) (name, overload) = None"
  shows "\<exists>f m'. dxil_get_function name overload m = Inr (f, m') \<and> types_ok m' \<and>
     declares (name @ ''.'' @ suffix) (the (letter_dtype overload (hd ret))) (letters_dtypes overload params) attr f m' \<and>
     dxil_get_function name overload m' = Inr (f, m')"
proof -
  have ok: "descr_ok (name, ret, params, attr)"
    by (rule find_predefined_ok [OF assms(2) predefined_ok])
  then obtain c where c: "ret = [c]" by (auto simp: descr_ok_def length_Suc_conv)
  from alloc_func_declares [OF assms(1) ok [unfolded c] assms(3)] show ?thesis
    using assms(2,4) by (auto simp: dxil_get_function_def allocate_function_from_predefined_def c)
qed

lemma dxil_get_function_declares_witness:
  "\<exists>f m'. dxil_get_function ''dx.op.bufferLoad'' DXIL_F32 (dxil_module_init 9 0) = Inr (f, m') \<and>
     declares ''dx.op.bufferLoad.f32''
       (STRUCT_T ''dx.types.ResRet.f32'' [FLOAT_T 32, FLOAT_T 32, FLOAT_T 32, FLOAT_T 32, INT_T 32])
       [INT_T 32, STRUCT_T ''dx.types.Handle'' [PTR_T (INT_T 8)], INT_T 32, INT_T 32]
       DXIL_ATTR_KIND_READ_ONLY f m'"
proof -
  let ?m = "dxil_module_init 9 0"
  have p: "find_predefined ''dx.op.bufferLoad'' predefined_funcs = Some (''R'', ''i@ii'', DXIL_ATTR_KIND_READ_ONLY)"
    by (simp add: predefined_funcs_def)
  have l: "load_overload DXIL_F32 = Some (''f32'', FLOAT_T 32, 4, [])" by simp
  have t: "map_of (function_tree ?m) (''dx.op.bufferLoad'', DXIL_F32) = None" by (simp add: dxil_module_init_def)
  from dxil_get_function_declares [OF types_ok_init p l t] show ?thesis
    by (auto simp: letter_dtype_def letters_dtypes_def)
qed

section \<open>Pointers among the parameters\<close>

text \<open>The loop counts parameters where it should count letters.\<close>

lemma get_type_advances:
  "get_type_from_string descr overload idx m = Inr (t, idx', m') \<Longrightarrow>
   idx < idx' \<and> idx' \<le> length descr \<and> (descr ! idx = CHR ''*'' \<longrightarrow> idx + 1 < idx')"
proof (induction descr overload idx m arbitrary: t idx' m' rule: get_type_from_string.induct)
  case (1 descr overload idx m)
  have idx: "idx + 1 \<le> length descr"
    using "1.prems" by (subst (asm) get_type_from_string.simps) (auto split: if_splits)
  show ?case
  proof (cases "descr ! idx = CHR ''*''")
    case True
    then obtain t1 m1 where "get_type_from_string descr overload (idx + 1) m = Inr (t1, idx', m1)"
      using "1.prems" idx
      unfolding get_type_from_string.simps [of descr overload idx m]
      by (auto simp del: get_type_from_string.simps simp: letters case_prod_beta)
    from "1.IH" [OF _ refl _ this] idx True show ?thesis by (simp add: letters)
  next
    case False
    then have "idx' = idx + 1"
      using "1.prems" idx by (subst (asm) get_type_from_string.simps) (auto simp: letters)
    then show ?thesis using idx False by simp
  qed
qed

lemma get_param_types_in_step:
  "get_param_types descr overload n idx m = Inr r \<Longrightarrow>
   length descr \<le> n \<or> (idx \<le> n \<and> (idx = n \<longrightarrow> CHR ''*'' \<notin> set (drop n descr)))"
proof (induction descr overload n idx m arbitrary: r rule: get_param_types.induct)
  case (1 descr overload n idx m)
  show ?case
  proof (cases "length descr \<le> n")
    case False
    then obtain t idx' m1 ts m2 where g: "get_type_from_string descr overload idx m = Inr (t, idx', m1)"
      and p: "get_param_types descr overload (n + 1) idx' m1 = Inr (ts, m2)" and n: "n < MAX_FUNC_PARAMS"
      using "1.prems" by (subst (asm) get_param_types.simps) (auto split: if_splits)
    note step = get_type_advances [OF g]
    have IH: "length descr \<le> n + 1 \<or> (idx' \<le> n + 1 \<and> (idx' = n + 1 \<longrightarrow> CHR ''*'' \<notin> set (drop (n + 1) descr)))"
      using "1.IH" [OF False g refl refl _ p] n by simp
    have d: "drop n descr = descr ! n # drop (n + 1) descr" using False by (simp add: Cons_nth_drop_Suc)
    show ?thesis using IH step False by (auto simp: d)
  qed simp
qed

text \<open>C29: No function with a pointer among its parameters can be declared, although the comment in
  \<open>dxil_function.h\<close> documents such calls (\<open>"*icf"\<close>, \<open>"b*f"\<close>): the loop in \<open>dxil_alloc_func_with_rettype\<close>
  asks for as many types as the signature has letters, and runs out of letters.\<close>

theorem alloc_func_no_pointer_parameters:
  assumes "CHR ''*'' \<in> set params"
  shows "\<exists>e. dxil_alloc_func name overload ret params attr m = Inl e"
proof -
  have "\<exists>e. dxil_alloc_func_with_rettype name overload r params attr m = Inl e" for r m
  proof (cases "get_param_types params overload 0 0 m")
    case (Inl e)
    show ?thesis unfolding dxil_alloc_func_with_rettype_def Inl bind_result_simps by blast
  next
    case (Inr x)
    from get_param_types_in_step [OF this] assms show ?thesis by auto
  qed
  then have no: "\<exists>e. (\<lambda>(r, index, m). if index \<noteq> length ret then Inl Assertion
      else dxil_alloc_func_with_rettype name overload r params attr m) x = Inl e" for x
    by (simp add: case_prod_beta)
  show ?thesis
  proof (cases "get_type_from_string ret overload 0 m")
    case (Inl e)
    then show ?thesis unfolding dxil_alloc_func_def by (simp only: bind_result_simps) blast
  next
    case (Inr x)
    show ?thesis unfolding dxil_alloc_func_def Inr bind_result_simps by (rule no)
  qed
qed

lemma alloc_func_no_pointer_parameters_witness:
  "\<exists>e. dxil_alloc_func ''storeData.f32'' DXIL_NONE ''e'' ''*icf'' DXIL_ATTR_KIND_NONE (dxil_module_init 9 0) = Inl e"
  by (rule alloc_func_no_pointer_parameters) simp

end
