(* ===== verification/Nir_Variables.thy ===== *)
theory Nir_Variables
  imports Enums
begin

text \<open>
  The variables of a shader, as far as \<open>dxil_signature.c\<close> reads them: the members of \<open>nir_variable\<close> and
  \<open>nir_shader\<close> (\<open>src/mesa/src/compiler/nir/nir.h\<close>), the stages and locations of \<open>shader_enums.h\<close>, and the
  functions of NIR that look at variables.

  A variable is identified with its position in the list of the shader. A location is an \<open>int\<close> that is
  compared with the enumerators of several enumerations, so locations are \<open>32 word\<close> constants.
\<close>

section \<open>Stages and locations\<close>

datatype mesa_shader_stage =
  MESA_SHADER_NONE | MESA_SHADER_VERTEX | MESA_SHADER_TESS_CTRL | MESA_SHADER_TESS_EVAL |
  MESA_SHADER_GEOMETRY | MESA_SHADER_FRAGMENT | MESA_SHADER_COMPUTE | MESA_SHADER_TASK |
  MESA_SHADER_MESH | MESA_SHADER_RAYGEN | MESA_SHADER_ANY_HIT | MESA_SHADER_CLOSEST_HIT |
  MESA_SHADER_MISS | MESA_SHADER_INTERSECTION | MESA_SHADER_CALLABLE | MESA_SHADER_KERNEL

datatype glsl_interp_mode =
  INTERP_MODE_NONE | INTERP_MODE_SMOOTH | INTERP_MODE_FLAT | INTERP_MODE_NOPERSPECTIVE |
  INTERP_MODE_EXPLICIT | INTERP_MODE_COUNT

definition VARYING_SLOT_POS :: "32 word" where "VARYING_SLOT_POS = 0"
definition VARYING_SLOT_CLIP_DIST0 :: "32 word" where "VARYING_SLOT_CLIP_DIST0 = 17"
definition VARYING_SLOT_CLIP_DIST1 :: "32 word" where "VARYING_SLOT_CLIP_DIST1 = 18"
definition VARYING_SLOT_PRIMITIVE_ID :: "32 word" where "VARYING_SLOT_PRIMITIVE_ID = 21"
definition VARYING_SLOT_LAYER :: "32 word" where "VARYING_SLOT_LAYER = 22"
definition VARYING_SLOT_VIEWPORT :: "32 word" where "VARYING_SLOT_VIEWPORT = 23"
definition VARYING_SLOT_FACE :: "32 word" where "VARYING_SLOT_FACE = 24"
definition VARYING_SLOT_TESS_LEVEL_OUTER :: "32 word" where "VARYING_SLOT_TESS_LEVEL_OUTER = 26"
definition VARYING_SLOT_TESS_LEVEL_INNER :: "32 word" where "VARYING_SLOT_TESS_LEVEL_INNER = 27"
definition VARYING_SLOT_PRIMITIVE_INDICES :: "32 word" where
  "VARYING_SLOT_PRIMITIVE_INDICES = VARYING_SLOT_TESS_LEVEL_INNER"
definition VARYING_SLOT_VAR0 :: "32 word" where "VARYING_SLOT_VAR0 = 32"
definition MAX_VARYING :: nat where "MAX_VARYING = 32"
definition VARYING_SLOT_MAX :: nat where "VARYING_SLOT_MAX = unat VARYING_SLOT_VAR0 + MAX_VARYING"

definition SYSTEM_VALUE_INSTANCE_ID :: "32 word" where "SYSTEM_VALUE_INSTANCE_ID = 10"
definition SYSTEM_VALUE_VERTEX_ID_ZERO_BASE :: "32 word" where "SYSTEM_VALUE_VERTEX_ID_ZERO_BASE = 12"
definition SYSTEM_VALUE_SAMPLE_ID :: "32 word" where "SYSTEM_VALUE_SAMPLE_ID = 29"
definition SYSTEM_VALUE_PRIMITIVE_ID :: "32 word" where "SYSTEM_VALUE_PRIMITIVE_ID = 37"
definition SYSTEM_VALUE_VIEW_INDEX :: nat where "SYSTEM_VALUE_VIEW_INDEX = 56"

definition FRAG_RESULT_DEPTH :: "32 word" where "FRAG_RESULT_DEPTH = 0"
definition FRAG_RESULT_STENCIL :: "32 word" where "FRAG_RESULT_STENCIL = 1"
definition FRAG_RESULT_COLOR :: "32 word" where "FRAG_RESULT_COLOR = 2"
definition FRAG_RESULT_SAMPLE_MASK :: "32 word" where "FRAG_RESULT_SAMPLE_MASK = 3"
definition FRAG_RESULT_DATA0 :: "32 word" where "FRAG_RESULT_DATA0 = 4"
definition FRAG_RESULT_DATA7 :: "32 word" where "FRAG_RESULT_DATA7 = 11"

lemmas location_defs = VARYING_SLOT_POS_def VARYING_SLOT_CLIP_DIST0_def VARYING_SLOT_CLIP_DIST1_def
  VARYING_SLOT_PRIMITIVE_ID_def VARYING_SLOT_LAYER_def VARYING_SLOT_VIEWPORT_def VARYING_SLOT_FACE_def
  VARYING_SLOT_TESS_LEVEL_OUTER_def VARYING_SLOT_TESS_LEVEL_INNER_def VARYING_SLOT_PRIMITIVE_INDICES_def
  VARYING_SLOT_VAR0_def SYSTEM_VALUE_INSTANCE_ID_def SYSTEM_VALUE_VERTEX_ID_ZERO_BASE_def
  SYSTEM_VALUE_SAMPLE_ID_def SYSTEM_VALUE_PRIMITIVE_ID_def FRAG_RESULT_DEPTH_def FRAG_RESULT_STENCIL_def
  FRAG_RESULT_COLOR_def FRAG_RESULT_SAMPLE_MASK_def FRAG_RESULT_DATA0_def FRAG_RESULT_DATA7_def

section \<open>Variables\<close>

definition nir_var_system_value :: "32 word" where "nir_var_system_value = 1"
definition nir_var_shader_in :: "32 word" where "nir_var_shader_in = 4"
definition nir_var_shader_out :: "32 word" where "nir_var_shader_out = 8"

record nir_variable =
  var_type :: glsl_type
  var_name :: string
  var_mode :: "32 word"
  var_centroid :: bool
  var_sample :: bool
  var_patch :: bool
  var_interpolation :: glsl_interp_mode
  var_location_frac :: "2 word"
  var_compact :: bool
  var_per_view :: bool
  var_per_primitive :: bool
  var_per_vertex :: bool
  var_stream :: "9 word"
  var_index :: "32 word"
  var_location :: "32 word"
  var_driver_location :: "32 word"

record nir_shader =
  shader_variables :: "nir_variable list"
  info_stage :: mesa_shader_stage
  clip_distance_array_size :: "4 word"
  system_values_read :: "nat \<Rightarrow> bool"

definition nir_shader_variable_has_mode :: "nir_variable \<Rightarrow> 32 word \<Rightarrow> bool" where
  "nir_shader_variable_has_mode var modes \<longleftrightarrow> var_mode var AND modes \<noteq> 0"

text \<open>The positions of the variables that \<open>nir_foreach_variable_with_modes\<close> visits, in order.\<close>

definition variables_with_modes :: "nir_shader \<Rightarrow> 32 word \<Rightarrow> nat list" where
  "variables_with_modes s modes =
     filter (\<lambda>i. nir_shader_variable_has_mode (shader_variables s ! i) modes) [0..<length (shader_variables s)]"

definition nir_is_arrayed_io :: "nir_variable \<Rightarrow> mesa_shader_stage \<Rightarrow> bool result" where
  "nir_is_arrayed_io var stage =
     (if var_patch var \<or> \<not> glsl_type_is_array (var_type var) then Inr False
      else if var_per_view var then
        (if stage \<noteq> MESA_SHADER_VERTEX \<or> var_mode var \<noteq> nir_var_shader_out then Inl Assertion else Inr True)
      else if stage = MESA_SHADER_MESH \<and> var_location var = VARYING_SLOT_PRIMITIVE_INDICES then
        Inr (var_per_primitive var)
      else if var_mode var = nir_var_shader_in then
        (if var_per_vertex var then (if stage \<noteq> MESA_SHADER_FRAGMENT then Inl Assertion else Inr True)
         else Inr (stage = MESA_SHADER_GEOMETRY \<or> stage = MESA_SHADER_TESS_CTRL \<or> stage = MESA_SHADER_TESS_EVAL))
      else if var_mode var = nir_var_shader_out then
        Inr (stage = MESA_SHADER_TESS_CTRL \<or> stage = MESA_SHADER_MESH)
      else Inr False)"

text \<open>The first variable of a mode at a location, for one of the modes above.\<close>

definition nir_find_variable_with_location :: "nir_shader \<Rightarrow> 32 word \<Rightarrow> 32 word \<Rightarrow> nat option" where
  "nir_find_variable_with_location s mode location =
     find (\<lambda>i. var_location (shader_variables s ! i) = location) (variables_with_modes s mode)"

text \<open>The type of one element of a variable that is arrayed, of the whole variable otherwise.\<close>

definition io_element_type :: "nir_variable \<Rightarrow> mesa_shader_stage \<Rightarrow> glsl_type result" where
  "io_element_type var stage =
     bind_result (nir_is_arrayed_io var stage) (\<lambda>arrayed.
       if arrayed then glsl_get_array_element (var_type var) else Inr (var_type var))"

end
