(* ===== verification/Signature.thy ===== *)
theory Signature
  imports Nir_Variables Io_State
begin

text \<open>
  The signatures of a shader, from \<open>src/mesa/src/microsoft/compiler/dxil_signature.c\<close>: the semantic of
  each input, output and patch constant, its registers, its elements in the signature and in the pipeline
  state validation (PSV), the tables of semantic names and indexes, and the dependency tables.
\<close>

section \<open>Semantics\<close>

record semantic_info =
  sem_kind :: dxil_semantic_kind
  sem_name :: string
  sem_index :: "32 word"
  sem_comp_type :: dxil_prog_sig_comp_type
  sem_sig_comp_type :: "8 word"
  sem_start_row :: "32 word"
  sem_rows :: "32 word"
  sem_start_col :: "8 word"
  sem_cols :: "8 word"
  sem_interpolation :: "8 word"
  sem_stream :: "8 word"
  sem_sysvalue_name :: "string option"

definition zero_semantic :: semantic_info where
  "zero_semantic = \<lparr>sem_kind = DXIL_SEM_ARBITRARY, sem_name = [], sem_index = 0,
     sem_comp_type = DXIL_PROG_SIG_COMP_TYPE_UNKNOWN, sem_sig_comp_type = 0, sem_start_row = 0, sem_rows = 0,
     sem_start_col = 0, sem_cols = 0, sem_interpolation = 0, sem_stream = 0, sem_sysvalue_name = None\<rparr>"

definition is_depth_output :: "dxil_semantic_kind \<Rightarrow> bool" where
  "is_depth_output kind \<longleftrightarrow> kind = DXIL_SEM_DEPTH \<or> kind = DXIL_SEM_DEPTH_GE \<or>
     kind = DXIL_SEM_DEPTH_LE \<or> kind = DXIL_SEM_STENCIL_REF"

definition get_interpolation :: "nir_variable \<Rightarrow> dxil_interpolation_mode" where
  "get_interpolation var =
     (if var_patch var then DXIL_INTERP_UNDEFINED
      else if glsl_type_is_integer (glsl_without_array_or_matrix (var_type var)) \<or>
        glsl_type_is_64bit (glsl_without_array_or_matrix (var_type var)) then DXIL_INTERP_CONSTANT
      else if var_sample var then
        (if var_location var = VARYING_SLOT_POS then DXIL_INTERP_LINEAR_NOPERSPECTIVE_SAMPLE
         else case var_interpolation var of
           INTERP_MODE_NONE \<Rightarrow> DXIL_INTERP_LINEAR_SAMPLE
         | INTERP_MODE_FLAT \<Rightarrow> DXIL_INTERP_CONSTANT
         | INTERP_MODE_NOPERSPECTIVE \<Rightarrow> DXIL_INTERP_LINEAR_NOPERSPECTIVE_SAMPLE
         | INTERP_MODE_SMOOTH \<Rightarrow> DXIL_INTERP_LINEAR_SAMPLE
         | _ \<Rightarrow> DXIL_INTERP_LINEAR)
      else if var_centroid var then
        (if var_location var = VARYING_SLOT_POS then DXIL_INTERP_LINEAR_NOPERSPECTIVE_CENTROID
         else case var_interpolation var of
           INTERP_MODE_NONE \<Rightarrow> DXIL_INTERP_LINEAR_CENTROID
         | INTERP_MODE_FLAT \<Rightarrow> DXIL_INTERP_CONSTANT
         | INTERP_MODE_NOPERSPECTIVE \<Rightarrow> DXIL_INTERP_LINEAR_NOPERSPECTIVE_CENTROID
         | INTERP_MODE_SMOOTH \<Rightarrow> DXIL_INTERP_LINEAR_CENTROID
         | _ \<Rightarrow> DXIL_INTERP_LINEAR)
      else
        (if var_location var = VARYING_SLOT_POS then DXIL_INTERP_LINEAR_NOPERSPECTIVE
         else case var_interpolation var of
           INTERP_MODE_NONE \<Rightarrow> DXIL_INTERP_LINEAR
         | INTERP_MODE_FLAT \<Rightarrow> DXIL_INTERP_CONSTANT
         | INTERP_MODE_NOPERSPECTIVE \<Rightarrow> DXIL_INTERP_LINEAR_NOPERSPECTIVE
         | INTERP_MODE_SMOOTH \<Rightarrow> DXIL_INTERP_LINEAR
         | _ \<Rightarrow> DXIL_INTERP_LINEAR))"

definition interpolation_byte :: "nir_variable \<Rightarrow> 8 word" where
  "interpolation_byte var = of_nat (dxil_interpolation_mode_value (get_interpolation var))"

definition in_sysvalue_name :: "nir_variable \<Rightarrow> string" where
  "in_sysvalue_name var =
     (if var_location var = VARYING_SLOT_POS then ''POS''
      else if var_location var = VARYING_SLOT_FACE then ''FACE''
      else if var_location var = VARYING_SLOT_LAYER then ''RTINDEX''
      else ''NONE'')"

text \<open>
  The registers and columns of a variable. \<open>next_row\<close> is the first free register; the new one is returned
  with the semantic.
\<close>

definition get_additional_semantic_info ::
  "nir_shader \<Rightarrow> nir_variable \<Rightarrow> semantic_info \<Rightarrow> 32 word \<Rightarrow> 32 word \<Rightarrow> (semantic_info \<times> 32 word) result" where
  "get_additional_semantic_info s var info next_row clip_size =
     bind_result (io_element_type var (info_stage s)) (\<lambda>type.
     let comp_type = dxil_get_prog_sig_comp_type type
     in bind_result (dxil_get_comp_type_from_prog_sig_type comp_type) (\<lambda>sig_comp_type.
     let kind = sem_kind info;
         is_gs_input = (info_stage s = MESA_SHADER_GEOMETRY \<and>
           nir_shader_variable_has_mode var (nir_var_shader_in OR nir_var_system_value));
         info = info\<lparr>sem_comp_type := comp_type,
           sem_sig_comp_type := of_nat (dxil_component_type_value sig_comp_type),
           sem_stream := ucast (var_stream var), sem_rows := 1\<rparr>
     in if kind = DXIL_SEM_TARGET then
          Inr (info\<lparr>sem_start_row := sem_index info, sem_cols := 4\<rparr>, next_row)
        else if is_depth_output kind \<or> (kind = DXIL_SEM_PRIMITIVE_ID \<and> is_gs_input) \<or>
            kind = DXIL_SEM_COVERAGE \<or> kind = DXIL_SEM_SAMPLE_INDEX then
          Inr (info\<lparr>sem_start_row := -1, sem_cols := 1\<rparr>, next_row)
        else if kind = DXIL_SEM_TESS_FACTOR \<or> kind = DXIL_SEM_INSIDE_TESS_FACTOR then
          (if \<not> var_compact var then Inl Assertion
           else Inr (info\<lparr>sem_start_row := next_row, sem_rows := glsl_get_aoa_size type, sem_cols := 1\<rparr>,
                  next_row + glsl_get_aoa_size type))
        else if var_compact var then
          (if \<not> (glsl_type_is_array type \<and> kind = DXIL_SEM_CLIP_DISTANCE) then Inl Assertion
           else
             let start_offset = (var_location var - VARYING_SLOT_CLIP_DIST0) * 4 + ucast (var_location_frac var);
                 info = (if clip_size \<le> start_offset
                   then info\<lparr>sem_kind := DXIL_SEM_CULL_DISTANCE, sem_name := ''SV_CullDistance''\<rparr> else info)
             in Inr (info\<lparr>sem_start_row := next_row, sem_cols := ucast (glsl_get_aoa_size type),
                    sem_start_col := ucast (var_location_frac var)\<rparr>, next_row + 1))
        else
          bind_result (glsl_count_vec4_slots type) (\<lambda>rows.
          bind_result (if glsl_type_is_array type then glsl_get_array_element type else Inr type) (\<lambda>type.
            Inr (info\<lparr>sem_start_row := next_row, sem_rows := rows,
                   sem_start_col := ucast (var_location_frac var),
                   sem_cols := ucast (min (glsl_get_component_slots type) 4)\<rparr>, next_row + rows)))))"

section \<open>Names of semantics\<close>

type_synonym semantic_info_proc = "nir_variable \<Rightarrow> semantic_info \<Rightarrow> mesa_shader_stage \<Rightarrow> semantic_info result"

definition get_semantic_vs_in_name :: semantic_info_proc where
  "get_semantic_vs_in_name var info stage =
     Inr (info\<lparr>sem_name := ''TEXCOORD'', sem_index := var_driver_location var, sem_kind := DXIL_SEM_ARBITRARY\<rparr>)"

definition get_semantic_sv_name :: semantic_info_proc where
  "get_semantic_sv_name var info stage =
     (let info = (if stage \<noteq> MESA_SHADER_VERTEX then info\<lparr>sem_interpolation := interpolation_byte var\<rparr> else info);
          kind = (if var_location var = SYSTEM_VALUE_VERTEX_ID_ZERO_BASE then Some DXIL_SEM_VERTEX_ID
                  else if var_location var = SYSTEM_VALUE_INSTANCE_ID then Some DXIL_SEM_INSTANCE_ID
                  else if var_location var = SYSTEM_VALUE_PRIMITIVE_ID then Some DXIL_SEM_PRIMITIVE_ID
                  else if var_location var = SYSTEM_VALUE_SAMPLE_ID then Some DXIL_SEM_SAMPLE_INDEX
                  else None)
      in case kind of
           None \<Rightarrow> Inl Unreachable
         | Some kind \<Rightarrow> Inr (info\<lparr>sem_kind := kind, sem_name := take 63 (var_name var)\<rparr>))"

definition get_semantic_ps_outname :: "nir_variable \<Rightarrow> semantic_info \<Rightarrow> semantic_info" where
  "get_semantic_ps_outname var info =
     (let info = info\<lparr>sem_kind := DXIL_SEM_INVALID\<rparr>; location = var_location var
      in if location = FRAG_RESULT_COLOR then
           info\<lparr>sem_name := ''SV_Target'', sem_index := var_index var, sem_kind := DXIL_SEM_TARGET\<rparr>
         else if FRAG_RESULT_DATA0 \<le> location \<and> location \<le> FRAG_RESULT_DATA7 then
           info\<lparr>sem_name := ''SV_Target'',
             sem_index := (if location = FRAG_RESULT_DATA0 \<and> 0 < var_index var then var_index var
                           else location - FRAG_RESULT_DATA0),
             sem_kind := DXIL_SEM_TARGET\<rparr>
         else if location = FRAG_RESULT_DEPTH then info\<lparr>sem_name := ''SV_Depth'', sem_kind := DXIL_SEM_DEPTH\<rparr>
         else if location = FRAG_RESULT_STENCIL then
           info\<lparr>sem_name := ''SV_StencilRef'', sem_kind := DXIL_SEM_STENCIL_REF\<rparr>
         else if location = FRAG_RESULT_SAMPLE_MASK then
           info\<lparr>sem_name := ''SV_Coverage'', sem_kind := DXIL_SEM_COVERAGE\<rparr>
         else info\<lparr>sem_name := ''UNDEFINED''\<rparr>)"

definition named_semantic ::
  "bool \<Rightarrow> string \<Rightarrow> dxil_semantic_kind \<Rightarrow> semantic_info \<Rightarrow> semantic_info result" where
  "named_semantic ok name kind info =
     (if \<not> ok then Inl Assertion else Inr (info\<lparr>sem_name := name, sem_kind := kind\<rparr>))"

definition get_semantic_name :: "nir_variable \<Rightarrow> semantic_info \<Rightarrow> glsl_type \<Rightarrow> semantic_info result" where
  "get_semantic_name var info type =
     (let info = info\<lparr>sem_kind := DXIL_SEM_INVALID, sem_interpolation := interpolation_byte var\<rparr>;
          location = var_location var; components = glsl_get_components type
      in if location = VARYING_SLOT_POS then
           named_semantic (components = 4) ''SV_Position'' DXIL_SEM_POSITION info
         else if location = VARYING_SLOT_FACE then
           named_semantic (components = 1) ''SV_IsFrontFace'' DXIL_SEM_IS_FRONT_FACE info
         else if location = VARYING_SLOT_PRIMITIVE_ID then
           named_semantic (components = 1) ''SV_PrimitiveID'' DXIL_SEM_PRIMITIVE_ID info
         else if location = VARYING_SLOT_CLIP_DIST1 then
           named_semantic True ''SV_ClipDistance'' DXIL_SEM_CLIP_DISTANCE (info\<lparr>sem_index := 1\<rparr>)
         else if location = VARYING_SLOT_CLIP_DIST0 then
           named_semantic (sem_index info = 0) ''SV_ClipDistance'' DXIL_SEM_CLIP_DISTANCE info
         else if location = VARYING_SLOT_TESS_LEVEL_INNER then
           named_semantic (components \<le> 2) ''SV_InsideTessFactor'' DXIL_SEM_INSIDE_TESS_FACTOR info
         else if location = VARYING_SLOT_TESS_LEVEL_OUTER then
           named_semantic (components \<le> 4) ''SV_TessFactor'' DXIL_SEM_TESS_FACTOR info
         else if location = VARYING_SLOT_VIEWPORT then
           named_semantic (components = 1) ''SV_ViewportArrayIndex'' DXIL_SEM_VIEWPORT_ARRAY_INDEX info
         else if location = VARYING_SLOT_LAYER then
           named_semantic (components = 1) ''SV_RenderTargetArrayIndex'' DXIL_SEM_RENDERTARGET_ARRAY_INDEX info
         else named_semantic True ''TEXCOORD'' DXIL_SEM_ARBITRARY (info\<lparr>sem_index := var_driver_location var\<rparr>))"

definition get_semantic_in_name :: semantic_info_proc where
  "get_semantic_in_name var info stage =
     bind_result (io_element_type var stage) (\<lambda>type.
     bind_result (get_semantic_name var info type) (\<lambda>info.
       Inr (info\<lparr>sem_sysvalue_name := Some (in_sysvalue_name var)\<rparr>)))"

definition prog_semantic_from_kind ::
  "dxil_semantic_kind \<Rightarrow> 32 word \<Rightarrow> 32 word \<Rightarrow> dxil_prog_sig_semantic result" where
  "prog_semantic_from_kind kind num_vals start_val =
     (case kind of
        DXIL_SEM_ARBITRARY \<Rightarrow> Inr DXIL_PROG_SEM_UNDEFINED
      | DXIL_SEM_VERTEX_ID \<Rightarrow> Inr DXIL_PROG_SEM_VERTEX_ID
      | DXIL_SEM_INSTANCE_ID \<Rightarrow> Inr DXIL_PROG_SEM_INSTANCE_ID
      | DXIL_SEM_POSITION \<Rightarrow> Inr DXIL_PROG_SEM_POSITION
      | DXIL_SEM_COVERAGE \<Rightarrow> Inr DXIL_PROG_SEM_COVERAGE
      | DXIL_SEM_INNER_COVERAGE \<Rightarrow> Inr DXIL_PROG_SEM_INNER_COVERAGE
      | DXIL_SEM_PRIMITIVE_ID \<Rightarrow> Inr DXIL_PROG_SEM_PRIMITIVE_ID
      | DXIL_SEM_SAMPLE_INDEX \<Rightarrow> Inr DXIL_PROG_SEM_SAMPLE_INDEX
      | DXIL_SEM_IS_FRONT_FACE \<Rightarrow> Inr DXIL_PROG_SEM_IS_FRONTFACE
      | DXIL_SEM_RENDERTARGET_ARRAY_INDEX \<Rightarrow> Inr DXIL_PROG_SEM_RENDERTARGET_ARRAY_INDEX
      | DXIL_SEM_VIEWPORT_ARRAY_INDEX \<Rightarrow> Inr DXIL_PROG_SEM_VIEWPORT_ARRAY_INDEX
      | DXIL_SEM_CLIP_DISTANCE \<Rightarrow> Inr DXIL_PROG_SEM_CLIP_DISTANCE
      | DXIL_SEM_CULL_DISTANCE \<Rightarrow> Inr DXIL_PROG_SEM_CULL_DISTANCE
      | DXIL_SEM_BARYCENTRICS \<Rightarrow> Inr DXIL_PROG_SEM_BARYCENTRICS
      | DXIL_SEM_SHADING_RATE \<Rightarrow> Inr DXIL_PROG_SEM_SHADING_RATE
      | DXIL_SEM_CULL_PRIMITIVE \<Rightarrow> Inr DXIL_PROG_SEM_CULL_PRIMITIVE
      | DXIL_SEM_TARGET \<Rightarrow> Inr DXIL_PROG_SEM_TARGET
      | DXIL_SEM_DEPTH \<Rightarrow> Inr DXIL_PROG_SEM_DEPTH
      | DXIL_SEM_DEPTH_LE \<Rightarrow> Inr DXIL_PROG_SEM_DEPTH_LE
      | DXIL_SEM_DEPTH_GE \<Rightarrow> Inr DXIL_PROG_SEM_DEPTH_GE
      | DXIL_SEM_STENCIL_REF \<Rightarrow> Inr DXIL_PROG_SEM_STENCIL_REF
      | DXIL_SEM_TESS_FACTOR \<Rightarrow>
          (if num_vals = 4 then Inr DXIL_PROG_SEM_FINAL_QUAD_EDGE_TESSFACTOR
           else if num_vals = 3 then Inr DXIL_PROG_SEM_FINAL_TRI_EDGE_TESSFACTOR
           else if num_vals = 2 then
             Inr (if start_val = 0 then DXIL_PROG_SEM_FINAL_LINE_DENSITY_TESSFACTOR
                  else DXIL_PROG_SEM_FINAL_LINE_DETAIL_TESSFACTOR)
           else Inl Unreachable)
      | DXIL_SEM_INSIDE_TESS_FACTOR \<Rightarrow>
          (if num_vals = 2 then Inr DXIL_PROG_SEM_FINAL_QUAD_INSIDE_EDGE_TESSFACTOR
           else if num_vals = 1 then Inr DXIL_PROG_SEM_FINAL_TRI_INSIDE_EDGE_TESSFACTOR
           else Inl Unreachable)
      | _ \<Rightarrow> Inr DXIL_PROG_SEM_UNDEFINED)"

section \<open>Tables of names and indexes\<close>

definition copy_semantic_name_to_string :: "string_buffer \<Rightarrow> string \<Rightarrow> (32 word \<times> string_buffer) result" where
  "copy_semantic_name_to_string string_out name =
     bind_result (append_text string_out (string_bytes name @ [0])) (\<lambda>out.
       Inr (of_nat (length string_out), out))"

text \<open>
  How many entries from \<open>i + j\<close> on continue the run \<open>index + j, index + j + 1, \<dots>\<close>: the value of \<open>j\<close> after
  the inner loop. The outer loop continues behind what has matched.
\<close>

function sem_index_match :: "32 word list \<Rightarrow> 32 word \<Rightarrow> nat \<Rightarrow> nat \<Rightarrow> nat \<Rightarrow> nat" where
  "sem_index_match data index num_rows i j =
     (if j < num_rows \<and> i + j < length data then
        if data ! (i + j) \<noteq> index + of_nat j then j else sem_index_match data index num_rows i (j + 1)
      else j)"
  by auto
termination by (relation "measure (\<lambda>(data, index, n, i, j). n - j)") auto

declare sem_index_match.simps [simp del]

function sem_index_search :: "32 word list \<Rightarrow> 32 word \<Rightarrow> nat \<Rightarrow> nat \<Rightarrow> nat option" where
  "sem_index_search data index num_rows i =
     (if i < length data then
        let j = sem_index_match data index num_rows i 0
        in if j = num_rows then Some i
           else if 0 < j then sem_index_search data index num_rows (i + (j - 1) + 1)
           else sem_index_search data index num_rows (i + 1)
      else None)"
  by auto
termination by (relation "measure (\<lambda>(data, index, n, i). length data - i)") auto

declare sem_index_search.simps [simp del]

definition SEM_INDEX_TABLE_SIZE :: nat where
  "SEM_INDEX_TABLE_SIZE = 128"

definition append_semantic_index_to_table ::
  "32 word list \<Rightarrow> 32 word \<Rightarrow> 32 word \<Rightarrow> (32 word \<times> 32 word list) result" where
  "append_semantic_index_to_table table index num_rows =
     (case sem_index_search table index (unat num_rows) 0 of
        Some i \<Rightarrow> Inr (of_nat i, table)
      | None \<Rightarrow>
          if \<not> of_nat (length table) + num_rows \<le> of_nat SEM_INDEX_TABLE_SIZE then Inl Assertion
          else if SEM_INDEX_TABLE_SIZE < length table + unat num_rows then Inl Undefined
          else Inr (of_nat (length table), table @ map (\<lambda>i. index + of_nat i) [0..<unat num_rows]))"

section \<open>Elements\<close>

definition fill_signature_element :: "semantic_info \<Rightarrow> 32 word \<Rightarrow> dxil_signature_element result" where
  "fill_signature_element semantic row =
     bind_result (prog_semantic_from_kind (sem_kind semantic) (sem_rows semantic) row) (\<lambda>sv.
     if \<not> unat (sem_cols semantic) + unat (sem_start_col semantic) \<le> 4 then Inl Assertion
     else Inr (zero_element\<lparr>
       elm_stream := ucast (sem_stream semantic),
       elm_semantic_index := sem_index semantic + row,
       elm_system_value := of_nat (dxil_prog_sig_semantic_value sv),
       elm_comp_type := of_nat (dxil_prog_sig_comp_type_value (sem_comp_type semantic)),
       elm_reg := sem_start_row semantic + row,
       elm_mask := push_bit (unat (sem_start_col semantic)) (mask (unat (sem_cols semantic))),
       elm_min_precision := of_nat (dxil_min_precision_value DXIL_MIN_PREC_DEFAULT)\<rparr>))"

text \<open>The result says whether the function returns \<open>true\<close>; the tables of the module are filled in any case.\<close>

definition fill_psv_signature_element ::
  "semantic_info \<Rightarrow> dxil_io \<Rightarrow> (bool \<times> dxil_psv_signature_element \<times> dxil_io) result" where
  "fill_psv_signature_element semantic m =
     (let psv = zero_psv_element\<lparr>psv_rows := ucast (sem_rows semantic)\<rparr>;
          cols = push_bit 4 (sem_start_col semantic) OR sem_cols semantic
      in if 0 \<le>s sem_start_row semantic \<and> \<not> sem_start_row semantic <s 256 then Inl Assertion
         else
           let psv = (if 0 \<le>s sem_start_row semantic
                 then psv\<lparr>psv_start_row := ucast (sem_start_row semantic), psv_cols_and_start := 64 OR cols\<rparr>
                 else psv\<lparr>psv_start_row := 0, psv_cols_and_start := cols\<rparr>);
               psv = psv\<lparr>psv_semantic_kind := of_nat (dxil_semantic_kind_value (sem_kind semantic)),
                 psv_component_type := of_nat (dxil_prog_sig_comp_type_value (sem_comp_type semantic)),
                 psv_interpolation_mode := sem_interpolation semantic,
                 psv_dynamic_mask_and_stream := push_bit 4 (sem_stream semantic)\<rparr>
           in bind_result
             (if sem_kind semantic = DXIL_SEM_ARBITRARY \<and> sem_name semantic \<noteq> [] then
                bind_result (copy_semantic_name_to_string (sem_string_table m) (sem_name semantic)) (\<lambda>(offset, text).
                  Inr (offset \<noteq> -1, psv\<lparr>psv_semantic_name_offset := offset\<rparr>, m\<lparr>sem_string_table := text\<rparr>))
              else Inr (True, psv, m)) (\<lambda>(ok, psv, m).
             if \<not> ok then Inr (False, psv, m) else
             bind_result (append_semantic_index_to_table (sem_index_table m) (sem_index semantic) (sem_rows semantic))
               (\<lambda>(offset, table).
                 Inr (True, psv\<lparr>psv_semantic_indexes_offset := offset\<rparr>, m\<lparr>sem_index_table := table\<rparr>))))"

fun fill_elements ::
  "semantic_info \<Rightarrow> nat list \<Rightarrow> dxil_signature_element list \<Rightarrow> dxil_signature_element list result" where
  "fill_elements semantic [] elements = Inr elements"
| "fill_elements semantic (i # is) elements =
     (if length elements \<le> i then Inl Undefined else
      bind_result (fill_signature_element semantic (of_nat i)) (\<lambda>e.
        fill_elements semantic is (elements[i := e])))"

definition fill_io_signature ::
  "semantic_info \<Rightarrow> dxil_signature_record \<Rightarrow> dxil_io \<Rightarrow>
   (bool \<times> dxil_signature_record \<times> dxil_psv_signature_element \<times> dxil_io) result" where
  "fill_io_signature semantic rec m =
     (let rec = rec\<lparr>rec_name := sem_name semantic, rec_num_elements := unat (sem_rows semantic),
                    rec_sig_comp_type := sem_sig_comp_type semantic\<rparr>
      in bind_result (fill_elements semantic [0..<unat (sem_rows semantic)] (rec_elements rec)) (\<lambda>es.
         bind_result (fill_psv_signature_element semantic m) (\<lambda>(ok, psv, m).
           Inr (ok, rec\<lparr>rec_elements := es\<rparr>, psv, m))))"

end
