(* ===== verification/Semantic_Index.thy ===== *)
theory Semantic_Index
  imports Signature
begin

text \<open>
  The table of semantic indexes: the search of \<open>append_semantic_index_to_table\<close>, which jumps over what
  has matched, finds the same place as a search of every place, and what the function returns is a place
  of the run it was asked for.
\<close>

section \<open>Runs\<close>

definition run :: "32 word \<Rightarrow> nat \<Rightarrow> 32 word list" where
  "run index n = map (\<lambda>i. index + of_nat i) [0..<n]"

lemma length_index_run [simp]: "length (run index n) = n"
  by (simp add: run_def)

lemma nth_index_run [simp]: "k < n \<Longrightarrow> run index n ! k = index + of_nat k"
  by (simp add: run_def)

definition run_at :: "32 word list \<Rightarrow> 32 word \<Rightarrow> nat \<Rightarrow> nat \<Rightarrow> bool" where
  "run_at data index n i \<longleftrightarrow> take n (drop i data) = run index n"

lemma run_at_iff:
  "run_at data index n i \<longleftrightarrow> (n = 0 \<or> i + n \<le> length data) \<and> (\<forall>k < n. data ! (i + k) = index + of_nat k)"
proof
  assume a: "run_at data index n i"
  then have "length (take n (drop i data)) = n" by (simp add: run_at_def)
  then have len: "n = 0 \<or> i + n \<le> length data" by auto
  moreover have "data ! (i + k) = index + of_nat k" if "k < n" for k
  proof -
    have "take n (drop i data) ! k = data ! (i + k)" using that len by simp
    then show ?thesis unfolding a [unfolded run_at_def] nth_index_run [OF that] by (rule sym)
  qed
  ultimately show "(n = 0 \<or> i + n \<le> length data) \<and> (\<forall>k < n. data ! (i + k) = index + of_nat k)" by blast
next
  assume a: "(n = 0 \<or> i + n \<le> length data) \<and> (\<forall>k < n. data ! (i + k) = index + of_nat k)"
  show "run_at data index n i"
    unfolding run_at_def by (rule nth_equalityI) (use a in auto)
qed

lemma run_at_append: "run_at data index n i \<Longrightarrow> run_at (data @ xs) index n i"
  by (auto simp: run_at_iff nth_append)

lemma run_at_end: "run_at (data @ run index n) index n (length data)"
  by (simp add: run_at_def)

section \<open>The search\<close>

lemma sem_index_match_run:
  assumes "j \<le> n" and "\<forall>k < j. i + k < length data \<and> data ! (i + k) = index + of_nat k"
  shows "sem_index_match data index n i j \<le> n \<and> j \<le> sem_index_match data index n i j \<and>
    (\<forall>k < sem_index_match data index n i j. i + k < length data \<and> data ! (i + k) = index + of_nat k) \<and>
    (sem_index_match data index n i j < n \<longrightarrow> \<not> run_at data index n i)"
  using assms
proof (induction data index n i j rule: sem_index_match.induct)
  case (1 data index n i j)
  show ?case
  proof (cases "j < n \<and> i + j < length data \<and> data ! (i + j) = index + of_nat j")
    case True
    then have eq: "sem_index_match data index n i j = sem_index_match data index n i (j + 1)"
      by (simp add: sem_index_match.simps [of data index n i j])
    have "\<forall>k < j + 1. i + k < length data \<and> data ! (i + k) = index + of_nat k"
      using "1.prems"(2) True by (auto simp: less_Suc_eq)
    then show ?thesis using "1.IH" True unfolding eq by fastforce
  next
    case False
    then have eq: "sem_index_match data index n i j = j"
      by (auto simp: sem_index_match.simps [of data index n i j])
    have "\<not> run_at data index n i" if "j < n"
      using that False by (auto simp: run_at_iff)
    then show ?thesis using "1.prems" unfolding eq by blast
  qed
qed

text \<open>No run starts inside what has matched, since the entries there are different from \<open>index\<close>.\<close>

lemma no_run_inside:
  assumes "\<forall>k < j. data ! (i + k) = index + of_nat k" and "0 < k" and "k < j" and "j < n" and "n < 2 ^ 32"
  shows "\<not> run_at data index n (i + k)"
proof
  assume "run_at data index n (i + k)"
  then have "data ! (i + k) = index" using assms(3,4) by (auto simp: run_at_iff)
  then have "of_nat k = (0 :: 32 word)" using assms(1,3) by simp
  moreover have "unat (of_nat k :: 32 word) = k" using assms(3-5) by (simp add: unat_of_nat)
  ultimately show False using assms(2) by simp
qed

lemma find_append: "find P (xs @ ys) = (case find P xs of None \<Rightarrow> find P ys | Some x \<Rightarrow> Some x)"
  by (induction xs) auto

lemma find_upt_skip:
  assumes "i \<le> k" and "k \<le> n" and "\<And>l. i \<le> l \<Longrightarrow> l < k \<Longrightarrow> \<not> P l"
  shows "find P [i..<n] = find P [k..<n]"
proof -
  have "find P [i..<k] = None" using assms(3) by (auto simp: find_None_iff)
  moreover have "[i..<n] = [i..<k] @ [k..<n]" using assms(1,2) by (metis le_add_diff_inverse upt_add_eq_append)
  ultimately show ?thesis by (simp add: find_append)
qed

lemma sem_index_search_first:
  assumes "n < 2 ^ 32"
  shows "sem_index_search data index n i = find (run_at data index n) [i..<length data]"
  using assms
proof (induction data index n i rule: sem_index_search.induct)
  case (1 data index n i)
  let ?j = "sem_index_match data index n i 0"
  show ?case
  proof (cases "i < length data")
    case False
    then show ?thesis by (simp add: sem_index_search.simps [of data index n i])
  next
    case True
    have "\<forall>k < 0. i + k < length data \<and> data ! (i + k) = index + of_nat k" by simp
    from sem_index_match_run [OF le0 this, of n]
    have j: "?j \<le> n" "\<And>k. k < ?j \<Longrightarrow> i + k < length data \<and> data ! (i + k) = index + of_nat k"
      "?j < n \<Longrightarrow> \<not> run_at data index n i" by blast+
    consider (all) "?j = n" | (some) "0 < ?j" "?j < n" | (none) "?j = 0" "0 < n" using j(1) by linarith
    then show ?thesis
    proof cases
      case all
      have "n = 0 \<or> i + n \<le> length data"
        using j(2) [of "n - 1"] unfolding all by (cases n) auto
      then have "run_at data index n i" using j(2) unfolding all run_at_iff by blast
      then show ?thesis
        using True all by (simp add: sem_index_search.simps [of data index n i] upt_conv_Cons)
    next
      case some
      have skip: "\<not> run_at data index n l" if "i \<le> l" "l < i + ?j" for l
      proof (cases "l = i")
        case True
        then show ?thesis using j(3) some(2) by simp
      next
        case False
        then have k: "l = i + (l - i)" "0 < l - i" "l - i < ?j" using that by linarith+
        have "\<not> run_at data index n (i + (l - i))"
          by (rule no_run_inside [OF _ k(2,3) some(2) "1.prems"]) (use j(2) in blast)
        then show ?thesis unfolding k(1) [symmetric] .
      qed
      have "i + ?j \<le> length data" using j(2) [of "?j - 1"] some(1) by linarith
      then have f: "find (run_at data index n) [i..<length data] = find (run_at data index n) [i + ?j..<length data]"
        using skip by (intro find_upt_skip) auto
      have "sem_index_search data index n i = sem_index_search data index n (i + (?j - 1) + 1)"
        using True some by (simp add: sem_index_search.simps [of data index n i] Let_def)
      also have "\<dots> = find (run_at data index n) [i + (?j - 1) + 1..<length data]"
        by (rule "1.IH"(1) [OF True refl _ some(1) "1.prems"]) (use some in simp)
      finally show ?thesis using f some(1) by simp
    next
      case none
      have "sem_index_search data index n i = sem_index_search data index n (i + 1)"
        using True none by (simp add: sem_index_search.simps [of data index n i] Let_def)
      also have "\<dots> = find (run_at data index n) [i + 1..<length data]"
        by (rule "1.IH"(2) [OF True refl _ _ "1.prems"]) (use none in simp_all)
      finally show ?thesis using True none j(3) by (simp add: upt_conv_Cons)
    qed
  qed
qed

section \<open>The table\<close>

lemma append_index_first:
  assumes "append_semantic_index_to_table table index num_rows = Inr (offset, table')"
    and "length table \<le> SEM_INDEX_TABLE_SIZE"
  shows "(case find (run_at table index (unat num_rows)) [0..<length table] of
      Some i \<Rightarrow> table' = table \<and> unat offset = i
    | None \<Rightarrow> table' = table @ run index (unat num_rows) \<and> unat offset = length table) \<and>
    run_at table' index (unat num_rows) (unat offset) \<and> length table' \<le> SEM_INDEX_TABLE_SIZE"
proof -
  let ?n = "unat num_rows"
  have "?n < 2 ^ LENGTH(32)" by (rule unsigned_less)
  then have search: "sem_index_search table index ?n 0 = find (run_at table index ?n) [0..<length table]"
    by (intro sem_index_search_first) simp
  have small: "unat (of_nat k :: 32 word) = k" if "k \<le> length table" for k
    using that assms(2) by (simp add: SEM_INDEX_TABLE_SIZE_def unat_of_nat)
  show ?thesis
  proof (cases "find (run_at table index ?n) [0..<length table]")
    case None
    then have "table' = table @ run index ?n" "offset = of_nat (length table)"
      "length table + ?n \<le> SEM_INDEX_TABLE_SIZE"
      using assms(1) by (auto simp: append_semantic_index_to_table_def search run_def split: if_splits)
    then show ?thesis using None run_at_end small [of "length table"] by simp
  next
    case (Some i)
    then have i: "i < length table" "run_at table index ?n i" by (auto simp: find_Some_iff)
    have "table' = table" "offset = of_nat i"
      using assms(1) Some by (auto simp: append_semantic_index_to_table_def search)
    then show ?thesis using Some i assms(2) small [of i] by simp
  qed
qed

text \<open>C21: \<open>append_semantic_index_to_table\<close> returns the first place of the table where the indexes
  \<open>index, index + 1, \<dots>\<close> of the rows stand, exactly if there is one, although its search continues behind
  a partial match; otherwise it appends them. The table keeps its entries and its bound, and the result is
  a place where the indexes stand.\<close>

theorem append_semantic_index_finds_first:
  assumes "append_semantic_index_to_table table index num_rows = Inr (offset, table')"
    and "length table \<le> SEM_INDEX_TABLE_SIZE"
  shows "(case find (run_at table index (unat num_rows)) [0..<length table] of
      Some i \<Rightarrow> table' = table \<and> unat offset = i
    | None \<Rightarrow> table' = table @ run index (unat num_rows) \<and> unat offset = length table) \<and>
    run_at table' index (unat num_rows) (unat offset) \<and> length table' \<le> SEM_INDEX_TABLE_SIZE"
  using append_index_first [OF assms] .

lemma append_semantic_index_finds_first_witness:
  "append_semantic_index_to_table [5, 6, 5, 6, 7] 5 3 = Inr (2, [5, 6, 5, 6, 7]) \<and>
   run_at [5, 6, 5, 6, 7] 5 3 2"
proof -
  have "append_semantic_index_to_table [5, 6, 5, 6, 7] 5 3 = Inr (2, [5, 6, 5, 6, 7])"
    by (simp add: append_semantic_index_to_table_def sem_index_search_first run_at_def run_def upt_rec)
  with append_semantic_index_finds_first [OF this] show ?thesis
    by (simp add: SEM_INDEX_TABLE_SIZE_def)
qed

end
