(* ===== verification/Signature_Elements.thy ===== *)
theory Signature_Elements
  imports Semantic_Index Container_Names
begin

text \<open>
  One element of a signature: what \<open>fill_io_signature\<close> writes into the record of the element and into its
  PSV element agrees, and leads to the right places of the tables of names and indexes.
\<close>

section \<open>Agreement\<close>

definition allocated :: "dxil_psv_signature_element \<Rightarrow> bool" where
  "allocated psv \<longleftrightarrow> bit (psv_cols_and_start psv) 6"

definition psv_cols :: "dxil_psv_signature_element \<Rightarrow> nat" where
  "psv_cols psv = unat (psv_cols_and_start psv AND 0xf)"

definition psv_start_col :: "dxil_psv_signature_element \<Rightarrow> nat" where
  "psv_start_col psv = unat (drop_bit 4 (psv_cols_and_start psv) AND 3)"

definition element_agrees :: "dxil_psv_signature_element \<Rightarrow> nat \<Rightarrow> dxil_signature_element \<Rightarrow> bool" where
  "element_agrees psv j e \<longleftrightarrow>
     psv_start_col psv + psv_cols psv \<le> 4 \<and>
     elm_mask e = push_bit (psv_start_col psv) (mask (psv_cols psv)) \<and>
     elm_comp_type e = ucast (psv_component_type psv) \<and>
     (allocated psv \<longrightarrow> elm_reg e = ucast (psv_start_row psv) + of_nat j)"

text \<open>A record and its PSV element, in a module with the tables of names and indexes.\<close>

definition agrees :: "dxil_io \<Rightarrow> dxil_signature_record \<Rightarrow> dxil_psv_signature_element \<Rightarrow> bool" where
  "agrees m rec psv \<longleftrightarrow>
     (let rows = rec_num_elements rec; elements = take rows (rec_elements rec) in
      length (rec_elements rec) = 32 \<and> rows \<le> 32 \<and> unat (psv_rows psv) = rows \<and>
      take rows (drop (unat (psv_semantic_indexes_offset psv)) (sem_index_table m)) = map elm_semantic_index elements \<and>
      (psv_semantic_kind psv = of_nat (dxil_semantic_kind_value DXIL_SEM_ARBITRARY) \<and> rec_name rec \<noteq> [] \<longrightarrow>
        string_at (sem_string_table m) (unat (psv_semantic_name_offset psv)) (rec_name rec)) \<and>
      (\<forall>j < rows. element_agrees psv j (rec_elements rec ! j)))"

text \<open>The tables only grow.\<close>

definition tables_grow :: "dxil_io \<Rightarrow> dxil_io \<Rightarrow> bool" where
  "tables_grow m m' \<longleftrightarrow> (\<exists>xs. sem_string_table m' = sem_string_table m @ xs) \<and>
     (\<exists>ys. sem_index_table m' = sem_index_table m @ ys)"

lemma tables_grow_refl: "sem_string_table m' = sem_string_table m \<Longrightarrow> sem_index_table m' = sem_index_table m \<Longrightarrow>
    tables_grow m m'"
  by (simp add: tables_grow_def)

lemma tables_grow_trans: "tables_grow m m' \<Longrightarrow> tables_grow m' m'' \<Longrightarrow> tables_grow m m''"
  by (auto simp: tables_grow_def)

lemma agrees_grow:
  assumes "agrees m rec psv" and "tables_grow m m'"
  shows "agrees m' rec psv"
proof -
  let ?rows = "rec_num_elements rec" and ?o = "unat (psv_semantic_indexes_offset psv)"
  from assms(2) obtain xs ys where t: "sem_string_table m' = sem_string_table m @ xs"
    "sem_index_table m' = sem_index_table m @ ys" by (auto simp: tables_grow_def)
  note a = assms(1) [unfolded agrees_def Let_def]
  have "length (take ?rows (drop ?o (sem_index_table m))) = ?rows" using a by simp
  then have "take ?rows (drop ?o (sem_index_table m')) = take ?rows (drop ?o (sem_index_table m))"
    by (simp add: t)
  then show ?thesis using a string_at_append [of "sem_string_table m"] unfolding agrees_def Let_def t by simp
qed

section \<open>Filling\<close>

lemma fill_elements_Inr:
  assumes "fill_elements semantic [k..<n] es = Inr es'"
  shows "length es' = length es \<and> (k < n \<longrightarrow> n \<le> length es) \<and>
    (\<forall>j. k \<le> j \<longrightarrow> j < n \<longrightarrow> fill_signature_element semantic (of_nat j) = Inr (es' ! j)) \<and>
    (\<forall>j < k. es' ! j = es ! j)"
  using assms
proof (induction "n - k" arbitrary: k es)
  case 0
  then show ?case by simp
next
  case (Suc d)
  then have kn: "k < n" and upt: "[k..<n] = k # [Suc k..<n]" by (simp_all add: upt_conv_Cons)
  from Suc.prems obtain e where e: "k < length es" "fill_signature_element semantic (of_nat k) = Inr e"
    "fill_elements semantic [Suc k..<n] (es[k := e]) = Inr es'"
    unfolding upt by (auto split: if_splits)
  have "d = n - Suc k" using Suc.hyps(2) by simp
  from Suc.hyps(1) [OF this e(3)]
  have IH: "length es' = length es" "Suc k < n \<longrightarrow> n \<le> length es"
    "\<And>j. Suc k \<le> j \<Longrightarrow> j < n \<Longrightarrow> fill_signature_element semantic (of_nat j) = Inr (es' ! j)"
    "\<And>j. j < Suc k \<Longrightarrow> es' ! j = es[k := e] ! j" by simp_all
  have "n \<le> length es" using IH(2) e(1) kn by (cases "Suc k < n") auto
  moreover have "fill_signature_element semantic (of_nat j) = Inr (es' ! j)" if "k \<le> j" "j < n" for j
    using IH(3) [of j] IH(4) [of k] e that by (cases "j = k") auto
  moreover have "es' ! j = es ! j" if "j < k" for j using IH(4) [of j] that by simp
  ultimately show ?case using IH(1) by blast
qed

text \<open>The byte of columns is taken apart again.\<close>

lemma columns_byte:
  assumes "start \<le> (3 :: 8 word)" and "cols \<le> 4" and "b = push_bit 4 start OR cols \<or> b = 64 OR (push_bit 4 start OR cols)"
  shows "b AND 0xf = cols" and "drop_bit 4 b AND 3 = start" and "bit b 6 \<longleftrightarrow> b = 64 OR (push_bit 4 start OR cols)"
proof -
  have "start \<in> {0, 1, 2, 3}"
    using assms(1) by (auto simp: word_le_nat_alt word_unat_eq_iff)
  moreover have "cols \<in> {0, 1, 2, 3, 4}"
    using assms(2) by (auto simp: word_le_nat_alt word_unat_eq_iff)
  ultimately show "b AND 0xf = cols" "drop_bit 4 b AND 3 = start" "bit b 6 \<longleftrightarrow> b = 64 OR (push_bit 4 start OR cols)"
    using assms(3) by (auto simp: push_bit_eq_mult drop_bit_eq_div bit_iff_odd)
qed

lemma columns_no_flag:
  assumes "start \<le> (3 :: 8 word)" and "cols \<le> 4"
  shows "push_bit 4 start OR cols \<noteq> 64 OR (push_bit 4 start OR cols)"
proof -
  have "start \<in> {0, 1, 2, 3}" "cols \<in> {0, 1, 2, 3, 4}"
    using assms by (auto simp: word_le_nat_alt word_unat_eq_iff)
  then show ?thesis by (auto simp: push_bit_eq_mult)
qed

lemma copy_name_at:
  assumes "copy_semantic_name_to_string str name = Inr (offset, str')" and "length str + length name + 2 < 2 ^ 32"
  shows "str' = str @ string_bytes name @ [0] \<and> unat offset = length str \<and> string_at str' (unat offset) name"
proof -
  have "append_text str (string_bytes name @ [0]) = Inr (str @ string_bytes name @ [0])"
    using assms(2) by (intro append_text_fits) simp
  then have "str' = str @ string_bytes name @ [0]" "offset = of_nat (length str)"
    using assms(1) by (auto simp: copy_semantic_name_to_string_def)
  moreover have "unat (of_nat (length str) :: 32 word) = length str"
    using assms(2) by (simp add: unat_of_nat)
  ultimately show ?thesis using string_at_end [of str name] by simp
qed

text \<open>What the PSV element holds.\<close>

definition psv_columns :: "semantic_info \<Rightarrow> 8 word" where
  "psv_columns semantic =
     (let cols = push_bit 4 (sem_start_col semantic) OR sem_cols semantic
      in if 0 \<le>s sem_start_row semantic then 64 OR cols else cols)"

definition psv_fields :: "semantic_info \<Rightarrow> dxil_psv_signature_element \<Rightarrow> bool" where
  "psv_fields semantic psv \<longleftrightarrow>
     psv_rows psv = ucast (sem_rows semantic) \<and> psv_cols_and_start psv = psv_columns semantic \<and>
     psv_start_row psv = (if 0 \<le>s sem_start_row semantic then ucast (sem_start_row semantic) else 0) \<and>
     psv_semantic_kind psv = of_nat (dxil_semantic_kind_value (sem_kind semantic)) \<and>
     psv_component_type psv = of_nat (dxil_prog_sig_comp_type_value (sem_comp_type semantic)) \<and>
     psv_dynamic_mask_and_stream psv = push_bit 4 (sem_stream semantic)"

definition set_tables :: "string_buffer \<Rightarrow> 32 word list \<Rightarrow> dxil_io \<Rightarrow> dxil_io" where
  "set_tables text table m = m\<lparr>sem_string_table := text, sem_index_table := table\<rparr>"

lemma set_tables_same: "set_tables (sem_string_table m) (sem_index_table m) m = m"
  by (simp add: set_tables_def)

lemma fill_psv_Inr:
  assumes "fill_psv_signature_element semantic m = Inr (ok, psv, m')"
    and "length (sem_string_table m) + length (sem_name semantic) + 2 < 2 ^ 32"
  shows "\<exists>text table. m' = set_tables text table m \<and> ok \<and> psv_fields semantic psv \<and>
    \<not> (0 \<le>s sem_start_row semantic \<and> \<not> sem_start_row semantic <s 256) \<and>
    append_semantic_index_to_table (sem_index_table m) (sem_index semantic) (sem_rows semantic) =
      Inr (psv_semantic_indexes_offset psv, table) \<and>
    (if sem_kind semantic = DXIL_SEM_ARBITRARY \<and> sem_name semantic \<noteq> []
     then copy_semantic_name_to_string (sem_string_table m) (sem_name semantic) =
       Inr (psv_semantic_name_offset psv, text)
     else text = sem_string_table m)"
proof (cases "sem_kind semantic = DXIL_SEM_ARBITRARY \<and> sem_name semantic \<noteq> []")
  case False
  then show ?thesis
    using assms(1) unfolding fill_psv_signature_element_def Let_def
    by (auto simp: psv_fields_def psv_columns_def Let_def set_tables_def zero_psv_element_def
        dxil_psv_signature_element.defs split: if_splits)
next
  case True
  have stop: "\<not> (0 \<le>s sem_start_row semantic \<and> \<not> sem_start_row semantic <s 256)"
    using assms(1) unfolding fill_psv_signature_element_def Let_def by (auto split: if_splits)
  from assms(1) True stop obtain offset str where c:
    "copy_semantic_name_to_string (sem_string_table m) (sem_name semantic) = Inr (offset, str)"
    unfolding fill_psv_signature_element_def Let_def
    by (cases "copy_semantic_name_to_string (sem_string_table m) (sem_name semantic)") (auto split: if_splits)
  have "unat offset = length (sem_string_table m)" using copy_name_at [OF c assms(2)] by simp
  moreover have "unat (-1 :: 32 word) = 4294967295" by (simp add: unsigned_minus_1_eq_mask mask_eq_exp_minus_1)
  ultimately have "unat offset \<noteq> unat (-1 :: 32 word)" using assms(2) by simp
  then have "offset \<noteq> -1" by blast
  then show ?thesis
    using assms(1) True stop c unfolding fill_psv_signature_element_def Let_def
    by (auto simp: psv_fields_def psv_columns_def Let_def set_tables_def zero_psv_element_def
        dxil_psv_signature_element.defs split: if_splits)
qed

lemma kind_is_arbitrary:
  "of_nat (dxil_semantic_kind_value kind) = (0 :: 8 word) \<longleftrightarrow> kind = DXIL_SEM_ARBITRARY"
  by (cases kind) simp_all

lemma comp_type_byte:
  "ucast (of_nat (dxil_prog_sig_comp_type_value c) :: 8 word) = (of_nat (dxil_prog_sig_comp_type_value c) :: 32 word)"
  by (cases c) simp_all

text \<open>A row that the assertion of \<open>fill_psv_signature_element\<close> lets through fits its byte.\<close>

lemma row_byte:
  assumes "0 \<le>s (x :: 32 word)" and "x <s 256"
  shows "ucast (ucast x :: 8 word) = x" and "unat (ucast x :: 8 word) = unat x" and "unat x < 256"
proof -
  have s: "0 \<le> sint x" "sint x < 256" using assms by (simp_all add: word_sle_eq word_sless_alt)
  have "uint x = take_bit 32 (sint x)" by (simp add: uint_sint)
  then have "uint x < 256" using s by (simp add: take_bit_int_eq_self)
  then show x: "unat x < 256" by (simp add: nat_less_iff flip: nat_uint_eq)
  show u: "unat (ucast x :: 8 word) = unat x" using x by (simp add: unsigned_ucast_eq take_bit_nat_eq_self unsigned_take_bit_eq)
  show "ucast (ucast x :: 8 word) = x"
    by (rule word_unat_eq_iff [THEN iffD2]) (use u x in \<open>simp add: unsigned_ucast_eq take_bit_nat_eq_self unsigned_take_bit_eq\<close>)
qed

lemma fill_signature_element_Inr:
  assumes "fill_signature_element semantic row = Inr e"
  shows "unat (sem_cols semantic) + unat (sem_start_col semantic) \<le> 4 \<and>
    elm_semantic_index e = sem_index semantic + row \<and> elm_reg e = sem_start_row semantic + row \<and>
    elm_comp_type e = of_nat (dxil_prog_sig_comp_type_value (sem_comp_type semantic)) \<and>
    elm_mask e = push_bit (unat (sem_start_col semantic)) (mask (unat (sem_cols semantic)))"
  using assms unfolding fill_signature_element_def
  by (auto split: if_splits simp: zero_element_def dxil_signature_element.defs)

text \<open>The elements of the record against the PSV element.\<close>

lemma psv_fields_element:
  assumes "psv_fields semantic psv" and "fill_signature_element semantic (of_nat j) = Inr e"
    and "0 \<le>s sem_start_row semantic \<longrightarrow> sem_start_row semantic <s 256" and "sem_start_col semantic \<le> 3"
  shows "element_agrees psv j e \<and> (allocated psv \<longleftrightarrow> 0 \<le>s sem_start_row semantic)"
proof -
  note e = fill_signature_element_Inr [OF assms(2)]
  note f = assms(1) [unfolded psv_fields_def]
  let ?b = "psv_cols_and_start psv" and ?cols = "push_bit 4 (sem_start_col semantic) OR sem_cols semantic"
  have c: "sem_cols semantic \<le> 4" using e by (simp add: word_le_nat_alt)
  have "?b = ?cols \<or> ?b = 64 OR ?cols" using f by (simp add: psv_columns_def Let_def)
  note b = columns_byte [OF assms(4) c this]
  have a: "allocated psv \<longleftrightarrow> 0 \<le>s sem_start_row semantic"
  proof (cases "0 \<le>s sem_start_row semantic")
    case True
    then show ?thesis using f b(3) by (simp add: allocated_def psv_columns_def)
  next
    case False
    then have "?b = ?cols" using f by (simp add: psv_columns_def)
    moreover have "?cols \<noteq> 64 OR ?cols"
      using columns_no_flag [OF assms(4) c] .
    ultimately show ?thesis using False b(3) by (simp add: allocated_def)
  qed
  moreover have "psv_start_col psv = unat (sem_start_col semantic)" "psv_cols psv = unat (sem_cols semantic)"
    using b(1,2) by (simp_all add: psv_start_col_def psv_cols_def)
  moreover have "elm_comp_type e = ucast (psv_component_type psv)" using e f comp_type_byte by simp
  moreover have "elm_reg e = ucast (psv_start_row psv) + of_nat j" if "0 \<le>s sem_start_row semantic"
    using e f that assms(3) row_byte(1) by simp
  ultimately show ?thesis using e unfolding element_agrees_def by simp
qed

section \<open>A whole element\<close>

text \<open>
  \<open>fill_io_signature\<close> fills the two descriptions so that they agree. It never returns \<open>false\<close>, and it
  touches nothing of the module but the two tables.
\<close>

definition filled_element :: "semantic_info \<Rightarrow> dxil_signature_record \<Rightarrow> dxil_psv_signature_element \<Rightarrow> bool" where
  "filled_element semantic rec psv \<longleftrightarrow>
     rec_num_elements rec = unat (sem_rows semantic) \<and> rec_name rec = sem_name semantic \<and>
     psv_fields semantic psv \<and>
     (0 \<le>s sem_start_row semantic \<longrightarrow> unat (psv_start_row psv) = unat (sem_start_row semantic)) \<and>
     (0 < sem_rows semantic \<longrightarrow> (allocated psv \<longleftrightarrow> 0 \<le>s sem_start_row semantic))"

lemma fill_tables:
  assumes "fill_psv_signature_element semantic m = Inr (ok, psv, m')"
    and room: "length (sem_string_table m) + length (sem_name semantic) + 2 < 2 ^ 32"
    and small: "length (sem_index_table m) \<le> SEM_INDEX_TABLE_SIZE"
  shows "ok \<and> tables_grow m m' \<and> length (sem_index_table m') \<le> SEM_INDEX_TABLE_SIZE \<and>
    length (sem_string_table m') \<le> length (sem_string_table m) + length (sem_name semantic) + 1 \<and>
    run_at (sem_index_table m') (sem_index semantic) (unat (sem_rows semantic))
      (unat (psv_semantic_indexes_offset psv)) \<and>
    (sem_kind semantic = DXIL_SEM_ARBITRARY \<and> sem_name semantic \<noteq> [] \<longrightarrow>
      string_at (sem_string_table m') (unat (psv_semantic_name_offset psv)) (sem_name semantic))"
proof -
  from fill_psv_Inr [OF assms(1) room] obtain str table where f: "m' = set_tables str table m" "ok"
    "append_semantic_index_to_table (sem_index_table m) (sem_index semantic) (sem_rows semantic) =
      Inr (psv_semantic_indexes_offset psv, table)"
    "if sem_kind semantic = DXIL_SEM_ARBITRARY \<and> sem_name semantic \<noteq> []
     then copy_semantic_name_to_string (sem_string_table m) (sem_name semantic) =
       Inr (psv_semantic_name_offset psv, str)
     else str = sem_string_table m" by blast
  note a = append_index_first [OF f(3) small]
  then have "\<exists>ys. table = sem_index_table m @ ys" by (auto split: option.splits)
  moreover have "(\<exists>xs. str = sem_string_table m @ xs) \<and>
      length str \<le> length (sem_string_table m) + length (sem_name semantic) + 1 \<and>
      (sem_kind semantic = DXIL_SEM_ARBITRARY \<and> sem_name semantic \<noteq> [] \<longrightarrow>
        string_at str (unat (psv_semantic_name_offset psv)) (sem_name semantic))"
    using f(4) copy_name_at [OF _ room] by (auto split: if_splits)
  ultimately show ?thesis using f(1,2) a by (simp add: set_tables_def tables_grow_def)
qed

lemma fill_io_signature_agrees:
  assumes fill: "fill_io_signature semantic rec m = Inr (ok, rec', psv, m')"
    and elements: "length (rec_elements rec) = 32"
    and room: "length (sem_string_table m) + length (sem_name semantic) + 2 < 2 ^ 32"
    and small: "length (sem_index_table m) \<le> SEM_INDEX_TABLE_SIZE"
    and col: "sem_start_col semantic \<le> 3"
  shows "ok \<and> agrees m' rec' psv \<and> filled_element semantic rec' psv \<and> tables_grow m m' \<and>
    length (sem_index_table m') \<le> SEM_INDEX_TABLE_SIZE \<and>
    length (sem_string_table m') \<le> length (sem_string_table m) + length (sem_name semantic) + 1 \<and>
    m' = set_tables (sem_string_table m') (sem_index_table m') m"
proof -
  let ?rows = "unat (sem_rows semantic)"
  from fill obtain es where es: "fill_elements semantic [0..<?rows] (rec_elements rec) = Inr es"
    and psv: "fill_psv_signature_element semantic m = Inr (ok, psv, m')"
    and rec': "rec_elements rec' = es" "rec_num_elements rec' = ?rows" "rec_name rec' = sem_name semantic"
    unfolding fill_io_signature_def by (auto simp: Let_def)
  note F = fill_elements_Inr [OF es]
  have e: "length es = 32" "?rows \<le> 32"
    "\<And>j. j < ?rows \<Longrightarrow> fill_signature_element semantic (of_nat j) = Inr (es ! j)"
    using F elements by (simp, cases "0 < ?rows", simp, simp, blast)
  from fill_psv_Inr [OF psv room] have p: "psv_fields semantic psv"
    "0 \<le>s sem_start_row semantic \<longrightarrow> sem_start_row semantic <s 256"
    "m' = set_tables (sem_string_table m') (sem_index_table m') m" by (auto simp: set_tables_def)
  note t = fill_tables [OF psv room small]
  have el: "element_agrees psv j (es ! j) \<and> (allocated psv \<longleftrightarrow> 0 \<le>s sem_start_row semantic)" if "j < ?rows" for j
    using psv_fields_element [OF p(1) e(3) [OF that] p(2) col] .
  have "unat (psv_rows psv) = ?rows"
    using p(1) e(2) by (simp add: psv_fields_def unsigned_ucast_eq unsigned_take_bit_eq take_bit_nat_eq_self)
  moreover have "map elm_semantic_index (take ?rows es) = run (sem_index semantic) ?rows"
    using e(1,2) fill_signature_element_Inr [OF e(3)] by (intro nth_equalityI) simp_all
  moreover have "psv_semantic_kind psv = of_nat (dxil_semantic_kind_value (sem_kind semantic))"
    using p(1) by (simp add: psv_fields_def)
  ultimately have "agrees m' rec' psv"
    using e(1,2) t el rec' unfolding agrees_def Let_def run_at_def by (simp add: kind_is_arbitrary)
  moreover have "filled_element semantic rec' psv"
    unfolding filled_element_def using rec' p(1,2) el [of 0] row_byte(2)
    by (auto simp: psv_fields_def unat_gt_0 word_greater_zero_iff)
  ultimately show ?thesis using t p(3) by blast
qed

end
