(* ===== verification/Shader_Signatures.thy ===== *)
theory Shader_Signatures
  imports Signature Metadata
begin

text \<open>
  The signatures of a whole shader (\<open>dxil_signature.c\<close>, second part): the variables of each group are
  processed in the order of the shader's list, the dependency tables are laid out, and the signatures
  become metadata.

  The state of a loop over variables is the module, the number of signature elements so far and the
  first free register. A step says with \<open>False\<close> that the loop is left early because
  \<open>fill_io_signature\<close> returned \<open>false\<close>.
\<close>

type_synonym group_state = "dxil_io \<times> 32 word \<times> 32 word"

fun run_group :: "(nat \<Rightarrow> group_state \<Rightarrow> (bool \<times> group_state) result) \<Rightarrow> nat list \<Rightarrow> group_state \<Rightarrow>
    (bool \<times> group_state) result" where
  "run_group step [] st = Inr (True, st)"
| "run_group step (i # is) st =
     bind_result (step i st) (\<lambda>(ok, st). if ok then run_group step is st else Inr (False, st))"

section \<open>Inputs\<close>

text \<open>
  The variable whose register a variable that starts at a later component shares: the last one before it
  at its location, or the first that starts at component 0 and leaves room.
\<close>

fun input_base_var :: "nir_shader \<Rightarrow> nat \<Rightarrow> nat list \<Rightarrow> nat \<Rightarrow> nat result" where
  "input_base_var s v [] base = Inr base"
| "input_base_var s v (i # is) base =
     (let var = shader_variables s ! v; test_var = shader_variables s ! i
      in if var_location var = var_location test_var then
           if i = v then Inr base
           else if var_location_frac test_var = 0 then
             bind_result (io_element_type test_var (info_stage s)) (\<lambda>type.
               if glsl_get_component_slots type \<le> ucast (var_location_frac var) then Inr i
               else input_base_var s v is i)
           else input_base_var s v is i
         else input_base_var s v is base)"

text \<open>The registers of a variable: those of the variable it is combined with, or new ones.\<close>

definition assign_registers ::
  "nir_shader \<Rightarrow> nir_variable \<Rightarrow> semantic_info \<Rightarrow> 8 word result option \<Rightarrow> 32 word \<Rightarrow> 32 word \<Rightarrow>
   (semantic_info \<times> 32 word) result" where
  "assign_registers s var semantic combined next_row clip_size =
     (case combined of
        Some start_row \<Rightarrow> bind_result start_row (\<lambda>row.
          bind_result (get_additional_semantic_info s var semantic (ucast row) clip_size) (\<lambda>(semantic, _).
            Inr (semantic, next_row)))
      | None \<Rightarrow> get_additional_semantic_info s var semantic next_row clip_size)"

text \<open>\<open>psv[mappings[var->data.driver_location]].start_row\<close>.\<close>

definition mapped_start_row ::
  "nir_variable \<Rightarrow> 8 word list \<Rightarrow> dxil_psv_signature_element list \<Rightarrow> 8 word result" where
  "mapped_start_row var mappings psvs =
     bind_result (read_at (unat (var_driver_location var)) mappings) (\<lambda>k.
     bind_result (read_at (unat k) psvs) (\<lambda>p. Inr (psv_start_row p)))"

definition input_step ::
  "nir_shader \<Rightarrow> 32 word \<Rightarrow> semantic_info_proc \<Rightarrow> 32 word \<Rightarrow> nat \<Rightarrow> group_state \<Rightarrow> (bool \<times> group_state) result" where
  "input_step s modes get_semantics input_clip_size i = (\<lambda>(m, num_inputs, row_iter).
     let var = shader_variables s ! i; n = unat num_inputs
     in if var_patch var then Inr (True, m, num_inputs, row_iter) else
     bind_result (get_semantics var zero_semantic (info_stage s)) (\<lambda>semantic.
     bind_result (update_at n (rec_sysvalue_update (\<lambda>_. sem_sysvalue_name semantic)) (inputs m)) (\<lambda>recs.
     let m = m\<lparr>inputs := recs\<rparr> in
     bind_result (if var_location_frac var \<noteq> 0 then input_base_var s i (variables_with_modes s modes) i else Inr i)
       (\<lambda>base.
     bind_result (assign_registers s var semantic
         (if base \<noteq> i then Some (mapped_start_row (shader_variables s ! base) (input_mappings m) (psv_inputs m))
          else None) row_iter input_clip_size) (\<lambda>(semantic, row_iter).
     bind_result (update_at (unat (var_driver_location var)) (\<lambda>_. ucast num_inputs) (input_mappings m)) (\<lambda>maps.
     let m = m\<lparr>input_mappings := maps\<rparr> in
     bind_result (read_at n (inputs m)) (\<lambda>rec.
     bind_result (fill_io_signature semantic rec m) (\<lambda>(ok, rec, psv, m).
     bind_result (update_at n (\<lambda>_. rec) (inputs m)) (\<lambda>recs.
     bind_result (update_at n (\<lambda>_. psv) (psv_inputs m)) (\<lambda>psvs.
     let m = m\<lparr>inputs := recs, psv_inputs := psvs\<rparr> in
     if \<not> ok then Inr (False, m, 0, row_iter) else
     let m = m\<lparr>num_psv_inputs := max (num_psv_inputs m) (sem_start_row semantic + sem_rows semantic)\<rparr>
     in if \<not> num_inputs + 1 < of_nat (VARYING_SLOT_MAX * 4) then Inl Assertion
        else Inr (True, m, num_inputs + 1, row_iter)))))))))))"

definition get_input_signature_group ::
  "nir_shader \<Rightarrow> 32 word \<Rightarrow> semantic_info_proc \<Rightarrow> 32 word \<Rightarrow> group_state \<Rightarrow> group_state result" where
  "get_input_signature_group s modes get_semantics input_clip_size st =
     bind_result (run_group (input_step s modes get_semantics input_clip_size) (variables_with_modes s modes) st)
       (\<lambda>(_, st). Inr st)"

definition process_input_signature :: "nir_shader \<Rightarrow> 32 word \<Rightarrow> dxil_io \<Rightarrow> dxil_io result" where
  "process_input_signature s input_clip_size m =
     (if info_stage s = MESA_SHADER_KERNEL then Inr m else
      bind_result (get_input_signature_group s nir_var_shader_in
          (if info_stage s = MESA_SHADER_VERTEX then get_semantic_vs_in_name else get_semantic_in_name)
          input_clip_size (m, 0, 0)) (\<lambda>(m, n, next_row).
      let m = m\<lparr>num_sig_inputs := n\<rparr> in
      bind_result (get_input_signature_group s nir_var_system_value get_semantic_sv_name input_clip_size
          (m, n, next_row)) (\<lambda>(m, n, next_row). Inr (m\<lparr>num_sig_inputs := n\<rparr>))))"

section \<open>Outputs\<close>

definition out_sysvalue_name :: "nir_variable \<Rightarrow> string" where
  "out_sysvalue_name var =
     (if var_location var = VARYING_SLOT_FACE then ''FACE''
      else if var_location var = VARYING_SLOT_POS then ''POS''
      else if var_location var = VARYING_SLOT_CLIP_DIST0 \<or> var_location var = VARYING_SLOT_CLIP_DIST1 then ''CLIPDST''
      else if var_location var = VARYING_SLOT_PRIMITIVE_ID then ''PRIMID''
      else ''NO'')"

text \<open>What an output leaves unwritten, for validators up to 1.4 and after.\<close>

definition set_never_writes :: "dxil_io \<Rightarrow> dxil_signature_element \<Rightarrow> dxil_signature_element" where
  "set_never_writes m elm = elm\<lparr>elm_rw_mask :=
     (if minor_validator m \<le> 4 then 0xff AND NOT (elm_mask elm) else 0xf AND NOT (elm_mask elm))\<rparr>"

definition set_never_writes_masks :: "dxil_io \<Rightarrow> dxil_signature_record \<Rightarrow> dxil_signature_record" where
  "set_never_writes_masks m rec = rec\<lparr>rec_elements :=
     map (set_never_writes m) (take (rec_num_elements rec) (rec_elements rec)) @
     drop (rec_num_elements rec) (rec_elements rec)\<rparr>"

definition output_semantic :: "nir_shader \<Rightarrow> nir_variable \<Rightarrow> (semantic_info \<times> string) result" where
  "output_semantic s var =
     (if info_stage s = MESA_SHADER_FRAGMENT then Inr (get_semantic_ps_outname var zero_semantic, ''TARGET'')
      else bind_result (io_element_type var (info_stage s)) (\<lambda>type.
        bind_result (get_semantic_name var zero_semantic type) (\<lambda>semantic.
          Inr (semantic, out_sysvalue_name var))))"

definition output_base_var :: "nir_shader \<Rightarrow> 32 word \<Rightarrow> nat \<Rightarrow> nat result" where
  "output_base_var s mode i =
     (if var_location_frac (shader_variables s ! i) \<noteq> 0 then
        case nir_find_variable_with_location s mode (var_location (shader_variables s ! i)) of
          Some base \<Rightarrow> Inr base | None \<Rightarrow> Inl Undefined
      else Inr i)"

definition output_step :: "nir_shader \<Rightarrow> nat \<Rightarrow> group_state \<Rightarrow> (bool \<times> group_state) result" where
  "output_step s i = (\<lambda>(m, num_outputs, next_row).
     let var = shader_variables s ! i; n = unat num_outputs
     in if var_patch var then Inr (True, m, num_outputs, next_row) else
     bind_result (output_semantic s var) (\<lambda>(semantic, sysvalue).
     bind_result (update_at n (rec_sysvalue_update (\<lambda>_. Some sysvalue)) (outputs m)) (\<lambda>recs.
     let m = m\<lparr>outputs := recs\<rparr> in
     if var_location_frac var \<noteq> 0 \<and> info_stage s = MESA_SHADER_FRAGMENT then Inr (True, m, num_outputs, next_row)
     else
     bind_result (output_base_var s nir_var_shader_out i) (\<lambda>base.
     bind_result (assign_registers s var semantic
         (if base \<noteq> i \<and> var_stream (shader_variables s ! base) = var_stream var
          then Some (mapped_start_row (shader_variables s ! base) (output_mappings m) (psv_outputs m)) else None)
         next_row (ucast (clip_distance_array_size s))) (\<lambda>(semantic, next_row).
     let m = m\<lparr>has_out_position := has_out_position m \<or> sem_kind semantic = DXIL_SEM_POSITION,
               has_out_depth := has_out_depth m \<or> sem_kind semantic = DXIL_SEM_DEPTH\<rparr> in
     bind_result (update_at (unat (var_driver_location var)) (\<lambda>_. ucast num_outputs) (output_mappings m)) (\<lambda>maps.
     let m = m\<lparr>output_mappings := maps\<rparr> in
     bind_result (read_at n (outputs m)) (\<lambda>rec.
     bind_result (fill_io_signature semantic rec m) (\<lambda>(ok, rec, psv, m).
     bind_result (update_at n (\<lambda>_. if ok then set_never_writes_masks m rec else rec) (outputs m)) (\<lambda>recs.
     bind_result (update_at n (\<lambda>_. psv) (psv_outputs m)) (\<lambda>psvs.
     let m = m\<lparr>outputs := recs, psv_outputs := psvs\<rparr> in
     if \<not> ok then Inr (False, m, num_outputs, next_row) else
     bind_result (update_at (unat (sem_stream semantic))
         (\<lambda>k. max k (sem_start_row semantic + sem_rows semantic)) (num_psv_outputs m)) (\<lambda>counts.
       Inr (True, m\<lparr>num_psv_outputs := counts\<rparr>, num_outputs + 1, next_row))))))))))))"

definition process_output_signature :: "nir_shader \<Rightarrow> dxil_io \<Rightarrow> dxil_io result" where
  "process_output_signature s m =
     bind_result (run_group (output_step s) (variables_with_modes s nir_var_shader_out) (m, 0, 0))
       (\<lambda>(ok, m, n, next_row). Inr (if ok then m\<lparr>num_sig_outputs := n\<rparr> else m))"

section \<open>Patch constants\<close>

definition patch_sysvalue_name :: "nir_variable \<Rightarrow> string result" where
  "patch_sysvalue_name var =
     (let aoa_size = glsl_get_aoa_size (var_type var) in
      if var_location var = VARYING_SLOT_TESS_LEVEL_OUTER then
        (if aoa_size = 4 then Inr ''QUADEDGE''
         else if aoa_size = 3 then Inr ''TRIEDGE''
         else if aoa_size = 2 then Inr (if var_location_frac var = 0 then ''LINEDET'' else ''LINEDEN'')
         else Inl Unreachable)
      else if var_location var = VARYING_SLOT_TESS_LEVEL_INNER then
        (if aoa_size = 2 then Inr ''QUADINT'' else if aoa_size = 1 then Inr ''TRIINT'' else Inl Unreachable)
      else Inr ''NO'')"

definition patch_step :: "nir_shader \<Rightarrow> 32 word \<Rightarrow> nat \<Rightarrow> group_state \<Rightarrow> (bool \<times> group_state) result" where
  "patch_step s mode i = (\<lambda>(m, num_consts, next_row).
     let var = shader_variables s ! i; n = unat num_consts
     in if \<not> var_patch var then Inr (True, m, num_consts, next_row) else
     bind_result (get_semantic_name var zero_semantic (var_type var)) (\<lambda>semantic.
     bind_result (patch_sysvalue_name var) (\<lambda>sysvalue.
     bind_result (update_at n (rec_sysvalue_update (\<lambda>_. Some sysvalue)) (patch_consts m)) (\<lambda>recs.
     let m = m\<lparr>patch_consts := recs\<rparr> in
     bind_result (output_base_var s mode i) (\<lambda>base.
     bind_result (assign_registers s var semantic
         (if base \<noteq> i
          then Some (mapped_start_row (shader_variables s ! base) (patch_mappings m) (psv_patch_consts m)) else None)
         next_row 0) (\<lambda>(semantic, next_row).
     bind_result (update_at (unat (var_driver_location var)) (\<lambda>_. ucast num_consts) (patch_mappings m)) (\<lambda>maps.
     let m = m\<lparr>patch_mappings := maps\<rparr> in
     bind_result (read_at n (patch_consts m)) (\<lambda>rec.
     bind_result (fill_io_signature semantic rec m) (\<lambda>(ok, rec, psv, m).
     bind_result (update_at n
         (\<lambda>_. if ok \<and> mode = nir_var_shader_out then set_never_writes_masks m rec else rec) (patch_consts m)) (\<lambda>recs.
     bind_result (update_at n (\<lambda>_. psv) (psv_patch_consts m)) (\<lambda>psvs.
     let m = m\<lparr>patch_consts := recs, psv_patch_consts := psvs\<rparr> in
     if \<not> ok then Inr (False, m, num_consts, next_row) else
     let m = m\<lparr>num_psv_patch_consts := max (num_psv_patch_consts m) (sem_start_row semantic + sem_rows semantic)\<rparr>
     in Inr (True, m, num_consts + 1, next_row))))))))))))"

definition process_patch_const_signature :: "nir_shader \<Rightarrow> dxil_io \<Rightarrow> dxil_io result" where
  "process_patch_const_signature s m =
     (if info_stage s \<noteq> MESA_SHADER_TESS_CTRL \<and> info_stage s \<noteq> MESA_SHADER_TESS_EVAL then Inr m else
      let mode = (if info_stage s = MESA_SHADER_TESS_CTRL then nir_var_shader_out else nir_var_shader_in)
      in bind_result (run_group (patch_step s mode) (variables_with_modes s mode) (m, 0, 0))
           (\<lambda>(ok, m, n, next_row). Inr (if ok then m\<lparr>num_sig_patch_consts := n\<rparr> else m)))"

end
