(* ===== verification/Signature_Groups.thy ===== *)
theory Signature_Groups
  imports Signature_Elements Shader_Signatures
begin

text \<open>
  The loops over the variables of a signature keep its two descriptions together: every element that has
  been counted has a record and a PSV element that agree, and its registers lie below the number of
  registers that the PSV reports.
\<close>

section \<open>Arrays of elements\<close>

definition within :: "(dxil_psv_signature_element \<Rightarrow> 32 word) \<Rightarrow> dxil_psv_signature_element \<Rightarrow> bool" where
  "within count psv \<longleftrightarrow> (psv_rows psv \<noteq> 0 \<and> allocated psv \<longrightarrow>
     unat (psv_start_row psv) + unat (psv_rows psv) \<le> unat (count psv))"

definition arrays_ok :: "dxil_io \<Rightarrow> (dxil_psv_signature_element \<Rightarrow> 32 word) \<Rightarrow> dxil_signature_record list \<Rightarrow>
    dxil_psv_signature_element list \<Rightarrow> nat \<Rightarrow> bool" where
  "arrays_ok m count recs psvs n \<longleftrightarrow>
     length recs = DXIL_SHADER_MAX_IO_ROWS \<and> length psvs = DXIL_SHADER_MAX_IO_ROWS \<and>
     n \<le> DXIL_SHADER_MAX_IO_ROWS \<and> (\<forall>rec \<in> set recs. length (rec_elements rec) = 32) \<and>
     (\<forall>k < n. agrees m (recs ! k) (psvs ! k) \<and> within count (psvs ! k))"

lemma arrays_ok_sysvalue:
  assumes "arrays_ok m count recs psvs n" and "n < length recs"
  shows "arrays_ok m count (recs[n := rec_sysvalue_update f (recs ! n)]) psvs n"
proof -
  have "length (rec_elements (recs ! n)) = 32" using assms nth_mem by (auto simp: arrays_ok_def)
  then show ?thesis using assms unfolding arrays_ok_def by (auto dest!: set_update_subset_insert [THEN subsetD])
qed

lemma agrees_tables:
  "sem_string_table m' = sem_string_table m \<Longrightarrow> sem_index_table m' = sem_index_table m \<Longrightarrow>
   agrees m' rec psv = agrees m rec psv"
  by (simp add: agrees_def)

lemma arrays_ok_tables:
  "sem_string_table m' = sem_string_table m \<Longrightarrow> sem_index_table m' = sem_index_table m \<Longrightarrow>
   arrays_ok m' count recs psvs n = arrays_ok m count recs psvs n"
  using agrees_tables [of m' m] by (simp add: arrays_ok_def)

lemma agrees_never_writes: "agrees m rec psv \<Longrightarrow> agrees m (set_never_writes_masks io rec) psv"
  unfolding agrees_def Let_def set_never_writes_masks_def
  by (auto simp: set_never_writes_def element_agrees_def nth_append comp_def)

text \<open>The bound on the tables while \<open>n\<close> elements have been appended to a table of names of size \<open>b\<close>.\<close>

definition tables_ok :: "nat \<Rightarrow> nat \<Rightarrow> dxil_io \<Rightarrow> bool" where
  "tables_ok b n m \<longleftrightarrow> b \<le> 2 ^ 31 \<and> length (sem_string_table m) \<le> b + 64 * n \<and>
     length (sem_index_table m) \<le> SEM_INDEX_TABLE_SIZE"

text \<open>The registers of an element that has been filled.\<close>

definition rows_fit :: "semantic_info \<Rightarrow> bool" where
  "rows_fit semantic \<longleftrightarrow> unat (sem_rows semantic) \<le> 32 \<and>
     (0 \<le>s sem_start_row semantic \<longrightarrow> unat (sem_start_row semantic) < 256)"

lemma rows_fit_sum:
  "rows_fit semantic \<Longrightarrow> 0 \<le>s sem_start_row semantic \<Longrightarrow>
   unat (sem_start_row semantic + sem_rows semantic) = unat (sem_start_row semantic) + unat (sem_rows semantic)"
  by (simp add: rows_fit_def unat_word_ariths)

lemma arrays_fill:
  assumes "arrays_ok m count recs psvs n" and "n < DXIL_SHADER_MAX_IO_ROWS"
    and "fill_io_signature semantic (recs ! n) m = Inr (ok, rec, psv, m')" and "tables_ok b n m"
    and "length (sem_name semantic) \<le> 63" and "sem_start_col semantic \<le> 3"
  shows "ok \<and> agrees m' rec psv \<and> filled_element semantic rec psv \<and> tables_grow m m' \<and> tables_ok b (Suc n) m' \<and>
    m' = set_tables (sem_string_table m') (sem_index_table m') m"
proof -
  have "length (sem_string_table m) + length (sem_name semantic) + 2 < 2 ^ 32"
    using assms(2,4,5) by (simp add: tables_ok_def DXIL_SHADER_MAX_IO_ROWS_def)
  moreover have "length (rec_elements (recs ! n)) = 32" using assms(1,2) by (simp add: arrays_ok_def)
  ultimately show ?thesis
    using fill_io_signature_agrees [OF assms(3)] assms(4-6) by (auto simp: tables_ok_def)
qed

lemma arrays_ok_fill:
  assumes arrays: "arrays_ok m count recs psvs n" and n: "n < DXIL_SHADER_MAX_IO_ROWS"
    and fill: "fill_io_signature semantic (recs ! n) m = Inr (ok, rec, psv, m')"
    and tables: "tables_ok b n m"
    and name: "length (sem_name semantic) \<le> 63" and col: "sem_start_col semantic \<le> 3"
    and rec': "rec' = rec \<or> rec' = set_never_writes_masks io rec"
    and grows: "\<And>p. unat (count p) \<le> unat (count' p)"
    and reach: "psv_fields semantic psv \<Longrightarrow> sem_start_row semantic + sem_rows semantic \<le> count' psv"
  shows "ok \<and> arrays_ok m' count' (recs[n := rec']) (psvs[n := psv]) (Suc n) \<and> tables_grow m m' \<and>
    tables_ok b (Suc n) m' \<and> rows_fit semantic \<and> m' = set_tables (sem_string_table m') (sem_index_table m') m"
proof -
  have f: "ok" "agrees m' rec psv" "filled_element semantic rec psv" "tables_grow m m'" "tables_ok b (Suc n) m'"
    "m' = set_tables (sem_string_table m') (sem_index_table m') m"
    using arrays_fill [OF arrays n fill tables name col] by blast+
  have rows: "unat (psv_rows psv) = unat (sem_rows semantic)"
    using f(2,3) by (simp add: agrees_def filled_element_def Let_def)
  have "unat (psv_start_row psv) < 2 ^ LENGTH(8)" by (rule unsigned_less)
  moreover have "unat (sem_rows semantic) \<le> 32" using f(2,3) by (simp add: agrees_def filled_element_def Let_def)
  ultimately have fit: "rows_fit semantic" using f(3) by (auto simp: filled_element_def rows_fit_def)
  have "within count' psv"
  proof (cases "psv_rows psv = 0")
    case False
    then have "unat (sem_rows semantic) \<noteq> 0" unfolding rows [symmetric] by (simp add: unsigned_eq_0_iff)
    then have "0 < sem_rows semantic" by (simp add: word_less_nat_alt)
    moreover have "unat (sem_start_row semantic) + unat (sem_rows semantic) \<le> unat (count' psv)"
      if "0 \<le>s sem_start_row semantic"
      using reach f(3) rows_fit_sum [OF fit that] by (simp add: word_le_nat_alt filled_element_def)
    ultimately show ?thesis using f(3) rows by (auto simp: within_def filled_element_def)
  qed (simp add: within_def)
  moreover have "agrees m' rec' psv" using rec' f(2) agrees_never_writes by blast
  moreover have "within count' p" if "within count p" for p
    using that grows [of p] unfolding within_def by linarith
  moreover have "length (rec_elements rec') = 32"
    using rec' f(2) by (auto simp: agrees_def Let_def set_never_writes_masks_def)
  ultimately have "arrays_ok m' count' (recs[n := rec']) (psvs[n := psv]) (Suc n)"
    using arrays n agrees_grow [OF _ f(4)] unfolding arrays_ok_def
    by (auto simp: nth_list_update less_Suc_eq dest!: set_update_subset_insert [THEN subsetD])
  then show ?thesis using f fit by blast
qed

section \<open>Semantics\<close>

text \<open>What every semantic that the loops compute has.\<close>

definition semantic_ok :: "semantic_info \<Rightarrow> bool" where
  "semantic_ok semantic \<longleftrightarrow> length (sem_name semantic) \<le> 63 \<and> sem_start_col semantic \<le> 3"

lemma location_frac_col: "ucast (frac :: 2 word) \<le> (3 :: 8 word)"
proof -
  have "unat frac < 4" using unsigned_less [of frac] by simp
  then show ?thesis by (simp add: word_le_nat_alt unsigned_ucast_eq unsigned_take_bit_eq take_bit_nat_eq_self)
qed

text \<open>
  The registers: a render target is its index, a value without a register has row -1, and everything else
  starts at the next free register and moves it behind its rows.
\<close>

definition registers_follow :: "semantic_info \<Rightarrow> semantic_info \<Rightarrow> 32 word \<Rightarrow> 32 word \<Rightarrow> bool" where
  "registers_follow info semantic next_row next_row' \<longleftrightarrow>
     sem_kind info = DXIL_SEM_TARGET \<and> sem_start_row semantic = sem_index info \<and> sem_rows semantic = 1 \<and>
       next_row' = next_row \<or>
     sem_start_row semantic = -1 \<and> sem_rows semantic = 1 \<and> next_row' = next_row \<or>
     sem_start_row semantic = next_row \<and> next_row' = next_row + sem_rows semantic"

lemma get_additional_semantic_info_ok:
  assumes "get_additional_semantic_info s var info next_row clip_size = Inr (semantic, next_row')"
    and "semantic_ok info"
  shows "semantic_ok semantic \<and> registers_follow info semantic next_row next_row' \<and> sem_stream semantic = ucast (var_stream var)"
proof -
  obtain type where "io_element_type var (info_stage s) = Inr type"
    using assms(1) unfolding get_additional_semantic_info_def by auto
  moreover obtain c where "dxil_get_comp_type_from_prog_sig_type (dxil_get_prog_sig_comp_type type) = Inr c"
    using assms(1) calculation unfolding get_additional_semantic_info_def Let_def by auto
  ultimately show ?thesis
    using assms unfolding get_additional_semantic_info_def Let_def semantic_ok_def registers_follow_def
    by (simp only: bind_result_simps) (clarsimp simp: location_frac_col split: if_split_asm)+
qed

text \<open>No register is above 287: a start row that is accepted is below 256 and has at most 32 rows.\<close>

definition low :: "32 word \<Rightarrow> bool" where
  "low r \<longleftrightarrow> unat r \<le> 287"

lemma low_sle: "low r \<Longrightarrow> 0 \<le>s r"
proof -
  assume "low r"
  then have "uint r \<le> 287" by (simp add: low_def flip: nat_uint_eq)
  moreover have "- (2 ^ 31) \<le> uint r" by (rule order_trans [OF _ uint_ge_0]) simp
  ultimately have "sint r = uint r" by (simp add: sint_uint signed_take_bit_int_eq_self)
  then show ?thesis by (simp add: word_sle_eq)
qed

lemma registers_follow_low:
  assumes "registers_follow info semantic r r'" and "low r" and "rows_fit semantic"
    and "sem_kind info = DXIL_SEM_TARGET \<longrightarrow> 0 \<le>s sem_index info"
  shows "low r' \<and> low (sem_start_row semantic + sem_rows semantic)"
proof -
  have sum: "low (sem_start_row semantic + sem_rows semantic)" if "0 \<le>s sem_start_row semantic"
    using rows_fit_sum [OF assms(3) that] assms(3) that by (simp add: low_def rows_fit_def)
  show ?thesis
    using assms(1) unfolding registers_follow_def
  proof (elim disjE conjE)
    assume "sem_start_row semantic = - 1" "sem_rows semantic = 1" "r' = r"
    then show ?thesis using assms(2) by (simp add: low_def)
  qed (use sum assms(2,4) low_sle in simp_all)
qed

lemma assign_registers_ok:
  assumes "assign_registers s var info combined r clip_size = Inr (semantic, r')" and "semantic_ok info" and "low r"
  shows "semantic_ok semantic \<and> sem_stream semantic = ucast (var_stream var) \<and>
    (rows_fit semantic \<and> (sem_kind info = DXIL_SEM_TARGET \<longrightarrow> 0 \<le>s sem_index info) \<longrightarrow>
      low r' \<and> low (sem_start_row semantic + sem_rows semantic))"
proof (cases combined)
  case None
  then have "get_additional_semantic_info s var info r clip_size = Inr (semantic, r')"
    using assms(1) by (simp add: assign_registers_def)
  from get_additional_semantic_info_ok [OF this assms(2)] registers_follow_low [OF _ assms(3)]
  show ?thesis by blast
next
  case (Some start)
  then obtain row :: "8 word" and r''
    where a: "get_additional_semantic_info s var info (ucast row) clip_size = Inr (semantic, r'')" "r' = r"
    using assms(1) by (auto simp: assign_registers_def)
  have "unat row < 2 ^ LENGTH(8)" by (rule unsigned_less)
  then have "unat (ucast row :: 32 word) < 256"
    by (simp add: unsigned_ucast_eq unsigned_take_bit_eq take_bit_nat_eq_self)
  then have "low (ucast row)" by (simp add: low_def)
  from get_additional_semantic_info_ok [OF a(1) assms(2)] registers_follow_low [OF _ this] a(2) assms(3)
  show ?thesis by blast
qed

section \<open>The semantics of the groups\<close>

lemma zero_semantic_ok: "sem_name zero_semantic = [] \<and> sem_start_col zero_semantic = 0 \<and> sem_index zero_semantic = 0"
  by (simp add: zero_semantic_def)

lemma get_semantic_name_ok:
  assumes "get_semantic_name var info type = Inr info'" and "sem_start_col info = 0"
  shows "semantic_ok info' \<and> sem_kind info' \<noteq> DXIL_SEM_TARGET"
  using assms unfolding get_semantic_name_def Let_def named_semantic_def semantic_ok_def
  by (clarsimp split: if_split_asm)

lemma get_semantic_vs_in_name_ok:
  "get_semantic_vs_in_name var zero_semantic stage = Inr info \<Longrightarrow> semantic_ok info \<and> sem_kind info \<noteq> DXIL_SEM_TARGET"
  by (auto simp: get_semantic_vs_in_name_def semantic_ok_def zero_semantic_ok)

lemma get_semantic_sv_name_ok:
  "get_semantic_sv_name var zero_semantic stage = Inr info \<Longrightarrow> semantic_ok info \<and> sem_kind info \<noteq> DXIL_SEM_TARGET"
  unfolding get_semantic_sv_name_def Let_def semantic_ok_def
  by (clarsimp simp: zero_semantic_ok split: if_split_asm)

lemma get_semantic_in_name_ok:
  assumes "get_semantic_in_name var zero_semantic stage = Inr info"
  shows "semantic_ok info \<and> sem_kind info \<noteq> DXIL_SEM_TARGET"
proof -
  from assms obtain type info' where g: "get_semantic_name var zero_semantic type = Inr info'"
    "info = info'\<lparr>sem_sysvalue_name := Some (in_sysvalue_name var)\<rparr>"
    by (auto simp: get_semantic_in_name_def)
  from get_semantic_name_ok [OF g(1)] show ?thesis by (simp add: g(2) semantic_ok_def zero_semantic_ok)
qed

text \<open>A shader whose variables have indexes that are not negative when read as \<open>int32_t\<close>.\<close>

definition indexes_ok :: "nir_shader \<Rightarrow> bool" where
  "indexes_ok s \<longleftrightarrow> (\<forall>var \<in> set (shader_variables s). 0 \<le>s var_index var)"

lemma render_target_index: "x - FRAG_RESULT_DATA0 \<le> 7 \<Longrightarrow> 0 \<le>s x - FRAG_RESULT_DATA0"
  by (rule low_sle) (simp add: low_def word_le_nat_alt)

lemma output_semantic_ok:
  assumes "output_semantic s var = Inr (info, sysvalue)"
  shows "semantic_ok info \<and> (sem_kind info = DXIL_SEM_TARGET \<and> 0 \<le>s var_index var \<longrightarrow> 0 \<le>s sem_index info)"
proof (cases "info_stage s = MESA_SHADER_FRAGMENT")
  case True
  have "x - FRAG_RESULT_DATA0 \<le> 7" if "FRAG_RESULT_DATA0 \<le> x" "x \<le> FRAG_RESULT_DATA7" for x
    using that by (simp add: FRAG_RESULT_DATA0_def FRAG_RESULT_DATA7_def word_le_nat_alt unat_sub)
  then show ?thesis
    using assms True render_target_index unfolding output_semantic_def get_semantic_ps_outname_def Let_def semantic_ok_def
    by (clarsimp simp: zero_semantic_ok split: if_split_asm)
next
  case False
  then obtain type where "get_semantic_name var zero_semantic type = Inr info"
    using assms by (auto simp: output_semantic_def)
  from get_semantic_name_ok [OF this] show ?thesis by (simp add: zero_semantic_ok)
qed

end
