(* ===== verification/Signature_Loops.thy ===== *)
theory Signature_Loops
  imports Signature_Groups
begin

text \<open>
  The loops over the variables of the inputs, the outputs and the patch constants have one contract: a step
  keeps the invariant of its group, extends the tables of names and indexes, and leaves the rest of the
  module alone. The contract is a locale, and the three steps provide it.
\<close>

section \<open>The contract\<close>

text \<open>Where a group has its records, its PSV elements and its numbers of registers.\<close>

record group_view =
  view_recs :: "dxil_io \<Rightarrow> dxil_signature_record list"
  view_psvs :: "dxil_io \<Rightarrow> dxil_psv_signature_element list"
  view_count :: "dxil_io \<Rightarrow> dxil_psv_signature_element \<Rightarrow> 32 word"
  view_counts :: "dxil_io \<Rightarrow> 32 word list"

definition group_inv :: "group_view \<Rightarrow> nat \<Rightarrow> group_state \<Rightarrow> bool" where
  "group_inv v b = (\<lambda>(m, n, r).
     arrays_ok m (view_count v m) (view_recs v m) (view_psvs v m) (unat n) \<and> tables_ok b (unat n) m \<and> low r \<and>
     length (view_counts v m) \<le> 4 \<and> (\<forall>c \<in> set (view_counts v m). low c))"

definition step_ok :: "group_view \<Rightarrow> (dxil_io \<Rightarrow> dxil_io) \<Rightarrow> nat \<Rightarrow> group_state \<Rightarrow> bool \<Rightarrow> group_state \<Rightarrow> bool" where
  "step_ok v frame b st ok st' \<longleftrightarrow>
     ok \<and> group_inv v b st' \<and> tables_grow (fst st) (fst st') \<and> frame (fst st') = frame (fst st)"

lemma step_ok_refl: "group_inv v b st \<Longrightarrow> step_ok v frame b st True st"
  by (simp add: step_ok_def tables_grow_refl)

lemma step_ok_trans: "step_ok v frame b st ok st' \<Longrightarrow> step_ok v frame b st' ok' st'' \<Longrightarrow> step_ok v frame b st ok' st''"
  using tables_grow_trans [of "fst st" "fst st'" "fst st''"] by (simp add: step_ok_def)

locale signature_group =
  fixes view :: group_view
    and frame :: "dxil_io \<Rightarrow> dxil_io"
    and vars :: "nat set"
    and step :: "nat \<Rightarrow> group_state \<Rightarrow> (bool \<times> group_state) result"
  assumes step_law: "group_inv view b st \<Longrightarrow> i \<in> vars \<Longrightarrow> step i st = Inr (ok, st') \<Longrightarrow> step_ok view frame b st ok st'"
begin

lemma run_law:
  "group_inv view b st \<Longrightarrow> set is \<subseteq> vars \<Longrightarrow> run_group step is st = Inr (ok, st') \<Longrightarrow> step_ok view frame b st ok st'"
proof (induction "is" arbitrary: st)
  case Nil
  then show ?case using step_ok_refl by simp
next
  case (Cons i "is")
  then obtain ok1 st1 where st1: "step i st = Inr (ok1, st1)"
    "(if ok1 then run_group step is st1 else Inr (False, st1)) = Inr (ok, st')"
    by auto
  have s: "step_ok view frame b st ok1 st1" using step_law [OF Cons.prems(1) _ st1(1)] Cons.prems(2) by simp
  then have "run_group step is st1 = Inr (ok, st')" "group_inv view b st1" using st1(2) by (simp_all add: step_ok_def)
  from Cons.IH [OF this(2) _ this(1)] Cons.prems(2) have "step_ok view frame b st1 ok st'" by simp
  then show ?case by (rule step_ok_trans [OF s])
qed

end

section \<open>Inputs\<close>

definition inputs_view :: group_view where
  "inputs_view = \<lparr>view_recs = inputs, view_psvs = psv_inputs, view_count = (\<lambda>m _. num_psv_inputs m),
     view_counts = (\<lambda>m. [num_psv_inputs m])\<rparr>"

definition inputs_frame :: "dxil_io \<Rightarrow> dxil_io" where
  "inputs_frame m = m\<lparr>num_sig_inputs := 0, inputs := [], psv_inputs := [], input_mappings := [], num_psv_inputs := 0,
     sem_string_table := [], sem_index_table := []\<rparr>"

lemma max_word_grows: "unat (a :: 32 word) \<le> unat (max a b)" "b \<le> max a b"
  by (simp_all add: word_le_nat_alt max_def)

lemma low_max: "low a \<Longrightarrow> low b \<Longrightarrow> low (max a b)"
  by (simp add: max_def)

lemma input_step_law:
  assumes inv: "group_inv inputs_view b (m, n, r)"
    and step: "input_step s modes get_semantics clip i (m, n, r) = Inr (ok, m', n', r')"
    and get: "\<And>var info. get_semantics var zero_semantic (info_stage s) = Inr info \<Longrightarrow>
      semantic_ok info \<and> sem_kind info \<noteq> DXIL_SEM_TARGET"
  shows "step_ok inputs_view inputs_frame b (m, n, r) ok (m', n', r')"
proof (cases "var_patch (shader_variables s ! i)")
  case True
  then show ?thesis using step step_ok_refl [OF inv] by (simp add: input_step_def)
next
  case False
  let ?var = "shader_variables s ! i" and ?n = "unat n"
  from step False obtain info recs combined semantic r1 maps ok1 rec psv m2
    where i: "get_semantics ?var zero_semantic (info_stage s) = Inr info"
      "?n < length (inputs m)" "recs = (inputs m)[?n := rec_sysvalue_update (\<lambda>_. sem_sysvalue_name info) (inputs m ! ?n)]"
      "assign_registers s ?var info combined r clip = Inr (semantic, r1)"
      "fill_io_signature semantic (recs ! ?n) (m\<lparr>inputs := recs, input_mappings := maps\<rparr>) = Inr (ok1, rec, psv, m2)"
    and ok: "?n < length (inputs m2)" "?n < length (psv_inputs m2)" "(let m3 = m2\<lparr>inputs := (inputs m2)[?n := rec], psv_inputs := (psv_inputs m2)[?n := psv]\<rparr>
      in if \<not> ok1 then Inr (False, m3, 0, r1)
      else let m = m3\<lparr>num_psv_inputs := max (num_psv_inputs m3) (sem_start_row semantic + sem_rows semantic)\<rparr>
      in if \<not> n + 1 < of_nat (VARYING_SLOT_MAX * 4) then Inl Assertion
         else Inr (True, m, n + 1, r1)) = Inr (ok, m', n', r')"
    unfolding input_step_def Let_def by (auto simp: nth_list_update_eq)
  let ?m1 = "m\<lparr>inputs := recs, input_mappings := maps\<rparr>"
  let ?stop = "sem_start_row semantic + sem_rows semantic"
  have m: "arrays_ok m (\<lambda>_. num_psv_inputs m) (inputs m) (psv_inputs m) ?n" "tables_ok b ?n m" "low r"
    "low (num_psv_inputs m)" using inv by (simp_all add: group_inv_def inputs_view_def)
  have n: "?n < DXIL_SHADER_MAX_IO_ROWS" using i(2) m(1) by (simp add: arrays_ok_def)
  have sem: "semantic_ok semantic" "rows_fit semantic \<Longrightarrow> low r1 \<and> low ?stop"
    using assign_registers_ok [OF i(4) _ m(3)] get [OF i(1)] by blast+
  have "arrays_ok ?m1 (\<lambda>_. num_psv_inputs m) recs (psv_inputs m) ?n"
    using arrays_ok_sysvalue [OF m(1) i(2)] arrays_ok_tables [of ?m1 m] by (simp add: i(3))
  moreover have "tables_ok b ?n ?m1" using m(2) by (simp add: tables_ok_def)
  ultimately have f: "ok1" "arrays_ok m2 (\<lambda>_. max (num_psv_inputs m) ?stop) (recs[?n := rec]) ((psv_inputs m)[?n := psv]) (Suc ?n)"
    "tables_grow ?m1 m2" "tables_ok b (Suc ?n) m2" "rows_fit semantic"
    "m2 = set_tables (sem_string_table m2) (sem_index_table m2) ?m1"
    using arrays_ok_fill [OF _ n i(5), where rec' = rec and b = b and count' = "\<lambda>_. max (num_psv_inputs m) ?stop"]
      sem(1) max_word_grows by (simp_all add: semantic_ok_def)
  have "unat (n + 1) = Suc ?n" using n by (simp add: unat_word_ariths DXIL_SHADER_MAX_IO_ROWS_def)
  moreover have m2: "inputs m2 = recs" "psv_inputs m2 = psv_inputs m" "num_psv_inputs m2 = num_psv_inputs m"
    "inputs_frame m2 = inputs_frame m"
    by (subst f(6), simp add: set_tables_def inputs_frame_def)+
  define m3 where "m3 = m2\<lparr>inputs := recs[?n := rec], psv_inputs := (psv_inputs m)[?n := psv],
    num_psv_inputs := max (num_psv_inputs m) ?stop\<rparr>"
  have "ok = True" "m' = m3" "n' = n + 1" "r' = r1"
    using ok(3) f(1) m2 by (auto simp: Let_def m3_def split: if_splits)
  moreover have "tables_grow m m3" using f(3) by (simp add: tables_grow_def m3_def)
  moreover have "inputs_frame m3 = inputs_frame m" using m2(4) by (simp add: inputs_frame_def m3_def)
  moreover have "arrays_ok m3 (\<lambda>_. max (num_psv_inputs m) ?stop) (recs[?n := rec]) ((psv_inputs m)[?n := psv]) (Suc ?n)"
    using f(2) arrays_ok_tables [of m3 m2] by (simp add: m3_def)
  moreover have "tables_ok b (Suc ?n) m3" using f(4) by (simp add: tables_ok_def m3_def)
  ultimately show ?thesis
    using sem(2) [OF f(5)] low_max [OF m(4)] unfolding step_ok_def group_inv_def
    by (simp add: inputs_view_def m3_def)
qed

section \<open>Outputs\<close>

text \<open>The stream of an output, which selects the number of registers.\<close>

definition psv_stream :: "dxil_psv_signature_element \<Rightarrow> nat" where
  "psv_stream psv = unat (drop_bit 4 (psv_dynamic_mask_and_stream psv))"

lemma psv_stream_fields:
  assumes "psv_fields semantic psv" and "unat (sem_stream semantic) < 4"
  shows "psv_stream psv = unat (sem_stream semantic)"
proof -
  have "sem_stream semantic \<in> {0, 1, 2, 3}" using assms(2) by (auto simp: word_unat_eq_iff)
  then show ?thesis using assms(1) by (auto simp: psv_stream_def psv_fields_def push_bit_eq_mult drop_bit_eq_div)
qed

definition outputs_view :: group_view where
  "outputs_view = \<lparr>view_recs = outputs, view_psvs = psv_outputs,
     view_count = (\<lambda>m psv. num_psv_outputs m ! psv_stream psv), view_counts = num_psv_outputs\<rparr>"

definition outputs_frame :: "dxil_io \<Rightarrow> dxil_io" where
  "outputs_frame m = m\<lparr>num_sig_outputs := 0, outputs := [], psv_outputs := [], output_mappings := [],
     num_psv_outputs := replicate (length (num_psv_outputs m)) 0, has_out_position := False, has_out_depth := False,
     sem_string_table := [], sem_index_table := []\<rparr>"

lemma max_at_grows:
  "unat (cs ! j) \<le> unat (cs[k := max (cs ! k) (x :: 32 word)] ! j)"
  by (cases "k < length cs"; cases "j = k") (simp_all add: max_word_grows list_update_beyond not_less)

abbreviation set_outputs :: "nat \<Rightarrow> dxil_signature_record \<Rightarrow> dxil_psv_signature_element \<Rightarrow> dxil_io \<Rightarrow> dxil_io" where
  "set_outputs n rec psv m \<equiv> m\<lparr>outputs := (outputs m)[n := rec], psv_outputs := (psv_outputs m)[n := psv]\<rparr>"

lemma output_element_law:
  fixes sysvalue :: string
  assumes inv: "group_inv outputs_view b (m, n, r)" and len: "unat n < length (outputs m)"
    and info: "semantic_ok info \<and> (sem_kind info = DXIL_SEM_TARGET \<longrightarrow> 0 \<le>s sem_index info)"
    and registers: "assign_registers s var info combined r clip = Inr (semantic, r1)"
    and fill: "fill_io_signature semantic
      ((outputs m)[unat n := rec_sysvalue_update (\<lambda>_. Some sysvalue) (outputs m ! unat n)] ! unat n)
      (m\<lparr>outputs := (outputs m)[unat n := rec_sysvalue_update (\<lambda>_. Some sysvalue) (outputs m ! unat n)],
         has_out_position := pos, has_out_depth := depth, output_mappings := maps\<rparr>) = Inr (ok1, rec, psv, m2)"
    and ok: "(let m3 = set_outputs (unat n) (if ok1 then set_never_writes_masks m2 rec else rec) psv m2
      in if \<not> ok1 then Inr (False, m3, n, r1)
      else bind_result (update_at (unat (sem_stream semantic))
          (\<lambda>k. max k (sem_start_row semantic + sem_rows semantic)) (num_psv_outputs m3)) (\<lambda>counts.
        Inr (True, m3\<lparr>num_psv_outputs := counts\<rparr>, n + 1, r1))) = Inr (ok, m', n', r')"
  shows "step_ok outputs_view outputs_frame b (m, n, r) ok (m', n', r')"
proof -
  let ?n = "unat n" and ?k = "unat (sem_stream semantic)" and ?stop = "sem_start_row semantic + sem_rows semantic"
  let ?rec = "set_never_writes_masks m2 rec" and ?count = "\<lambda>psv. num_psv_outputs m ! psv_stream psv"
  define recs where "recs = (outputs m)[?n := rec_sysvalue_update (\<lambda>_. Some sysvalue) (outputs m ! ?n)]"
  define m1 where "m1 = m\<lparr>outputs := recs, has_out_position := pos, has_out_depth := depth, output_mappings := maps\<rparr>"
  define counts where "counts = (num_psv_outputs m)[?k := max (num_psv_outputs m ! ?k) ?stop]"
  let ?count' = "\<lambda>psv. counts ! psv_stream psv"
  note fill = fill [folded recs_def, folded m1_def]
  have m: "arrays_ok m ?count (outputs m) (psv_outputs m) ?n" "tables_ok b ?n m" "low r"
    "length (num_psv_outputs m) \<le> 4" "\<forall>c \<in> set (num_psv_outputs m). low c"
    using inv by (simp_all add: group_inv_def outputs_view_def)
  have n: "?n < DXIL_SHADER_MAX_IO_ROWS" using len m(1) by (simp add: arrays_ok_def)
  have sem: "semantic_ok semantic" "rows_fit semantic \<Longrightarrow> low r1 \<and> low ?stop"
    using assign_registers_ok [OF registers _ m(3)] info by blast+
  have "arrays_ok m1 ?count recs (psv_outputs m) ?n"
    using arrays_ok_sysvalue [OF m(1) len] arrays_ok_tables [of m1 m] by (simp add: m1_def recs_def)
  moreover have "tables_ok b ?n m1" using m(2) by (simp add: tables_ok_def m1_def)
  ultimately have a: "ok1" "m2 = set_tables (sem_string_table m2) (sem_index_table m2) m1" "psv_fields semantic psv"
    "arrays_ok m1 ?count recs (psv_outputs m) ?n" "tables_ok b ?n m1"
    using arrays_fill [OF _ n fill] sem(1) by (auto simp: semantic_ok_def filled_element_def)
  have m2: "outputs m2 = recs" "psv_outputs m2 = psv_outputs m" "num_psv_outputs m2 = num_psv_outputs m"
    "outputs_frame m2 = outputs_frame m"
    by (subst a(2), simp add: set_tables_def outputs_frame_def m1_def)+
  define m3 where "m3 = set_outputs ?n ?rec psv m2\<lparr>num_psv_outputs := counts\<rparr>"
  have e: "ok" "m' = m3" "n' = n + 1" "r' = r1" and k: "?k < length (num_psv_outputs m)"
    using ok a(1) m2 by (auto simp: Let_def m3_def counts_def)
  have "?stop \<le> ?count' psv"
    using k m(4) psv_stream_fields [OF a(3)] max_word_grows(2) by (simp add: counts_def)
  then have f: "arrays_ok m2 ?count' (recs[?n := ?rec]) ((psv_outputs m)[?n := psv]) (Suc ?n)"
      "tables_grow m1 m2" "tables_ok b (Suc ?n) m2" "rows_fit semantic"
    using arrays_ok_fill [OF a(4) n fill a(5), where rec' = ?rec and io = m2 and count' = ?count']
      sem(1) max_at_grows by (simp_all add: semantic_ok_def counts_def)
  have "unat (n + 1) = Suc ?n" using n by (simp add: unat_word_ariths DXIL_SHADER_MAX_IO_ROWS_def)
  moreover have "arrays_ok m3 ?count' (recs[?n := ?rec]) ((psv_outputs m)[?n := psv]) (Suc ?n)"
    using f(1) arrays_ok_tables [of m3 m2] by (simp add: m3_def)
  moreover have "tables_ok b (Suc ?n) m3" "tables_grow m m3" using f(2,3) by (simp_all add: tables_ok_def tables_grow_def m1_def m3_def)
  moreover have "outputs_frame m3 = outputs_frame m" using m2(4) by (simp add: outputs_frame_def m3_def counts_def m2)
  moreover have "\<forall>c \<in> set counts. low c"
    using m(5) low_max [of "num_psv_outputs m ! ?k" ?stop] sem(2) [OF f(4)] k set_update_subset_insert
    by (fastforce simp: counts_def)
  moreover have "length counts \<le> 4" using m(4) by (simp add: counts_def)
  ultimately show ?thesis
    using sem(2) [OF f(4)] e unfolding step_ok_def group_inv_def by (simp add: outputs_view_def m3_def m2)
qed

lemma output_step_law:
  assumes inv: "group_inv outputs_view b (m, n, r)"
    and step: "output_step s i (m, n, r) = Inr (ok, m', n', r')"
    and index: "0 \<le>s var_index (shader_variables s ! i)"
  shows "step_ok outputs_view outputs_frame b (m, n, r) ok (m', n', r')"
proof -
  let ?var = "shader_variables s ! i" and ?n = "unat n"
  let ?recs = "\<lambda>sysvalue. (outputs m)[?n := rec_sysvalue_update (\<lambda>_. Some sysvalue) (outputs m ! ?n)]"
  let ?count = "\<lambda>psv. num_psv_outputs m ! psv_stream psv"
  have m: "arrays_ok m ?count (outputs m) (psv_outputs m) ?n" "tables_ok b ?n m" "low r"
    "length (num_psv_outputs m) \<le> 4" "\<forall>c \<in> set (num_psv_outputs m). low c"
    using inv by (simp_all add: group_inv_def outputs_view_def)
  show ?thesis
  proof (cases "var_patch ?var")
    case True
    then show ?thesis using step step_ok_refl [OF inv] by (simp add: output_step_def)
  next
    case False
    from step False obtain info sysvalue where o: "output_semantic s ?var = Inr (info, sysvalue)" "?n < length (outputs m)"
      unfolding output_step_def Let_def by auto
    show ?thesis
    proof (cases "var_location_frac ?var \<noteq> 0 \<and> info_stage s = MESA_SHADER_FRAGMENT")
      case True
      then have e: "ok" "m' = m\<lparr>outputs := ?recs sysvalue\<rparr>" "n' = n" "r' = r"
        using step False o unfolding output_step_def Let_def by auto
      have "arrays_ok m' ?count (?recs sysvalue) (psv_outputs m) ?n"
        using arrays_ok_sysvalue [OF m(1) o(2)] arrays_ok_tables [of m' m] by (simp add: e(2))
      moreover have "tables_ok b ?n m'" using m(2) by (simp add: tables_ok_def e(2))
      ultimately show ?thesis
        using e m(3-5) unfolding step_ok_def group_inv_def
        by (simp add: outputs_view_def outputs_frame_def tables_grow_refl)
    next
      case frac: False
      from step False o frac obtain combined semantic r1 maps pos depth ok1 rec psv m2
        where i: "assign_registers s ?var info combined r (ucast (clip_distance_array_size s)) = Inr (semantic, r1)"
          "fill_io_signature semantic (?recs sysvalue ! ?n)
             (m\<lparr>outputs := ?recs sysvalue, has_out_position := pos, has_out_depth := depth, output_mappings := maps\<rparr>)
             = Inr (ok1, rec, psv, m2)"
        and ok: "(let m3 = m2\<lparr>outputs := (outputs m2)[?n := if ok1 then set_never_writes_masks m2 rec else rec],
                psv_outputs := (psv_outputs m2)[?n := psv]\<rparr>
            in if \<not> ok1 then Inr (False, m3, n, r1)
            else bind_result (update_at (unat (sem_stream semantic))
                (\<lambda>k. max k (sem_start_row semantic + sem_rows semantic)) (num_psv_outputs m3)) (\<lambda>counts.
              Inr (True, m3\<lparr>num_psv_outputs := counts\<rparr>, n + 1, r1))) = Inr (ok, m', n', r')"
        unfolding output_step_def Let_def by auto
      have unset: "semantic_ok info \<and> (sem_kind info = DXIL_SEM_TARGET \<longrightarrow> 0 \<le>s sem_index info)"
        using output_semantic_ok [OF o(1)] index by blast
      show ?thesis by (rule output_element_law [OF inv o(2) unset i ok])
    qed
  qed
qed

section \<open>Patch constants\<close>

definition patches_view :: group_view where
  "patches_view = \<lparr>view_recs = patch_consts, view_psvs = psv_patch_consts,
     view_count = (\<lambda>m _. num_psv_patch_consts m), view_counts = (\<lambda>m. [num_psv_patch_consts m])\<rparr>"

definition patches_frame :: "dxil_io \<Rightarrow> dxil_io" where
  "patches_frame m = m\<lparr>num_sig_patch_consts := 0, patch_consts := [], psv_patch_consts := [], patch_mappings := [], num_psv_patch_consts := 0,
     sem_string_table := [], sem_index_table := []\<rparr>"

lemma patch_step_law:
  assumes inv: "group_inv patches_view b (m, n, r)"
    and step: "patch_step s mode i (m, n, r) = Inr (ok, m', n', r')"
  shows "step_ok patches_view patches_frame b (m, n, r) ok (m', n', r')"
proof (cases "var_patch (shader_variables s ! i)")
  case False
  then show ?thesis using step step_ok_refl [OF inv] by (simp add: patch_step_def)
next
  case True
  let ?var = "shader_variables s ! i" and ?n = "unat n"
  let ?recs = "\<lambda>sysvalue. (patch_consts m)[?n := rec_sysvalue_update (\<lambda>_. Some sysvalue) (patch_consts m ! ?n)]"
  from step True obtain info sysvalue
    where i: "get_semantic_name ?var zero_semantic (var_type ?var) = Inr info" "patch_sysvalue_name ?var = Inr sysvalue"
      "?n < length (patch_consts m)"
    unfolding patch_step_def Let_def by auto
  from step True i obtain combined semantic r1 maps ok1 rec psv m2
    where j: "assign_registers s ?var info combined r 0 = Inr (semantic, r1)"
      "fill_io_signature semantic (?recs sysvalue ! ?n) (m\<lparr>patch_consts := ?recs sysvalue, patch_mappings := maps\<rparr>) = Inr (ok1, rec, psv, m2)"
    and ok: "(let m3 = m2\<lparr>patch_consts := (patch_consts m2)
            [?n := if ok1 \<and> mode = nir_var_shader_out then set_never_writes_masks m2 rec else rec],
          psv_patch_consts := (psv_patch_consts m2)[?n := psv]\<rparr>
      in if \<not> ok1 then Inr (False, m3, n, r1) :: (bool \<times> group_state) result
      else Inr (True, m3\<lparr>num_psv_patch_consts :=
          max (num_psv_patch_consts m3) (sem_start_row semantic + sem_rows semantic)\<rparr>, n + 1, r1)) = Inr (ok, m', n', r')"
    unfolding patch_step_def Let_def by auto
  define recs where "recs = ?recs sysvalue"
  note fill = j(2) [folded recs_def]
  define rec' where "rec' = (if mode = nir_var_shader_out then set_never_writes_masks m2 rec else rec)"
  let ?m1 = "m\<lparr>patch_consts := recs, patch_mappings := maps\<rparr>"
  let ?stop = "sem_start_row semantic + sem_rows semantic"
  have m: "arrays_ok m (\<lambda>_. num_psv_patch_consts m) (patch_consts m) (psv_patch_consts m) ?n" "tables_ok b ?n m" "low r"
    "low (num_psv_patch_consts m)" using inv by (simp_all add: group_inv_def patches_view_def)
  have n: "?n < DXIL_SHADER_MAX_IO_ROWS" using i(3) m(1) by (simp add: arrays_ok_def)
  have info: "semantic_ok info" "sem_kind info \<noteq> DXIL_SEM_TARGET"
    using get_semantic_name_ok [OF i(1)] by (simp_all add: zero_semantic_ok)
  have sem: "semantic_ok semantic" "rows_fit semantic \<Longrightarrow> low r1 \<and> low ?stop"
    using assign_registers_ok [OF j(1) info(1) m(3)] info(2) by blast+
  have "arrays_ok ?m1 (\<lambda>_. num_psv_patch_consts m) recs (psv_patch_consts m) ?n"
    using arrays_ok_sysvalue [OF m(1) i(3)] arrays_ok_tables [of ?m1 m] by (simp add: recs_def)
  moreover have "tables_ok b ?n ?m1" using m(2) by (simp add: tables_ok_def)
  ultimately have f: "ok1" "arrays_ok m2 (\<lambda>_. max (num_psv_patch_consts m) ?stop)
      (recs[?n := rec']) ((psv_patch_consts m)[?n := psv]) (Suc ?n)"
    "tables_grow ?m1 m2" "tables_ok b (Suc ?n) m2" "rows_fit semantic"
    "m2 = set_tables (sem_string_table m2) (sem_index_table m2) ?m1"
    using arrays_ok_fill [OF _ n fill, where rec' = rec' and io = m2 and b = b
        and count' = "\<lambda>_. max (num_psv_patch_consts m) ?stop"]
      sem(1) max_word_grows by (simp_all add: semantic_ok_def rec'_def)
  have m2: "patch_consts m2 = recs" "psv_patch_consts m2 = psv_patch_consts m"
    "num_psv_patch_consts m2 = num_psv_patch_consts m" "patches_frame m2 = patches_frame m"
    by (subst f(6), simp add: set_tables_def patches_frame_def)+
  define m3 where "m3 = m2\<lparr>patch_consts := recs[?n := rec'], psv_patch_consts := (psv_patch_consts m)[?n := psv],
    num_psv_patch_consts := max (num_psv_patch_consts m) ?stop\<rparr>"
  have "ok = True" "m' = m3" "n' = n + 1" "r' = r1"
    using ok f(1) m2 by (auto simp: Let_def m3_def rec'_def)
  moreover have "unat (n + 1) = Suc ?n" using n by (simp add: unat_word_ariths DXIL_SHADER_MAX_IO_ROWS_def)
  moreover have "tables_grow m m3" using f(3) by (simp add: tables_grow_def m3_def)
  moreover have "patches_frame m3 = patches_frame m" using m2(4) by (simp add: patches_frame_def m3_def)
  moreover have "arrays_ok m3 (\<lambda>_. max (num_psv_patch_consts m) ?stop)
      (recs[?n := rec']) ((psv_patch_consts m)[?n := psv]) (Suc ?n)"
    using f(2) arrays_ok_tables [of m3 m2] by (simp add: m3_def)
  moreover have "tables_ok b (Suc ?n) m3" using f(4) by (simp add: tables_ok_def m3_def)
  ultimately show ?thesis
    using sem(2) [OF f(5)] low_max [OF m(4)] unfolding step_ok_def group_inv_def
    by (simp add: patches_view_def m3_def)
qed

section \<open>The loops\<close>

lemma visited_in_range: "i \<in> set (variables_with_modes s modes) \<Longrightarrow> i < length (shader_variables s)"
  by (auto simp: variables_with_modes_def)

interpretation vs_in: signature_group inputs_view inputs_frame UNIV
  "input_step s modes get_semantic_vs_in_name clip"
  by unfold_locales (metis get_semantic_vs_in_name_ok input_step_law prod_cases3)

interpretation io_in: signature_group inputs_view inputs_frame UNIV
  "input_step s modes get_semantic_in_name clip"
  by unfold_locales (metis get_semantic_in_name_ok input_step_law prod_cases3)

interpretation sv_in: signature_group inputs_view inputs_frame UNIV
  "input_step s modes get_semantic_sv_name clip"
  by unfold_locales (metis get_semantic_sv_name_ok input_step_law prod_cases3)

interpretation outs: signature_group outputs_view outputs_frame
  "{i. 0 \<le>s var_index (shader_variables s ! i)}" "output_step s"
  by unfold_locales (metis mem_Collect_eq output_step_law prod_cases3)

interpretation patches: signature_group patches_view patches_frame UNIV "patch_step s mode"
  by unfold_locales (metis patch_step_law prod_cases3)

end
