(* ===== verification/Dependency_Tables.thy ===== *)
theory Dependency_Tables
  imports Signature
begin

text \<open>
  \<open>prepare_dependency_tables\<close> of \<open>dxil_signature.c\<close>: one block of memory holds, for each stream of
  outputs and for the patch constants, the number of components and two tables. The sizes are computed
  first, and a pointer then runs over the block; the theorem says that it ends exactly at its end.
\<close>

section \<open>The function\<close>

definition div_round_up :: "32 word \<Rightarrow> 32 word \<Rightarrow> 32 word" where
  "div_round_up a b = (a + b - 1) div b"

text \<open>An assignment \<open>xs[i] = f i\<close> for each \<open>i < n\<close>.\<close>

definition set_first :: "nat \<Rightarrow> (nat \<Rightarrow> 'a) \<Rightarrow> 'a list \<Rightarrow> 'a list" where
  "set_first n f xs = map (\<lambda>i. if i < n then f i else xs ! i) [0..<length xs]"

definition num_output_streams :: "nir_shader \<Rightarrow> nat" where
  "num_output_streams s = (if info_stage s = MESA_SHADER_GEOMETRY then 4 else 1)"

definition has_patch_tables :: "nir_shader \<Rightarrow> bool" where
  "has_patch_tables s \<longleftrightarrow> info_stage s = MESA_SHADER_TESS_CTRL \<or> info_stage s = MESA_SHADER_TESS_EVAL"

definition num_tables :: "nir_shader \<Rightarrow> nat" where
  "num_tables s = (if has_patch_tables s then 2 else num_output_streams s)"

definition table_dwords :: "nir_shader \<Rightarrow> dxil_io \<Rightarrow> 32 word list" where
  "table_dwords s m =
     (let d = set_first (num_output_streams s) (\<lambda>i. div_round_up (num_psv_outputs m ! i) 8)
                (dependency_table_dwords_per_input m)
      in if info_stage s = MESA_SHADER_TESS_CTRL then d[1 := div_round_up (num_psv_patch_consts m) 8] else d)"

definition view_id_table_sizes :: "nir_shader \<Rightarrow> 32 word list \<Rightarrow> 32 word list" where
  "view_id_table_sizes s dwords =
     (if system_values_read s SYSTEM_VALUE_VIEW_INDEX then map (\<lambda>i. dwords ! i) [0..<4] else replicate 4 0)"

definition io_table_sizes :: "nir_shader \<Rightarrow> dxil_io \<Rightarrow> 32 word list \<Rightarrow> 32 word list" where
  "io_table_sizes s m dwords =
     (let t = set_first (num_output_streams s) (\<lambda>i. dwords ! i * num_psv_inputs m * 4) (io_dependency_table_size m)
      in if info_stage s = MESA_SHADER_TESS_CTRL then t[1 := dwords ! 1 * num_psv_inputs m * 4]
         else if info_stage s = MESA_SHADER_TESS_EVAL then t[1 := dwords ! 0 * num_psv_patch_consts m * 4]
         else t)"

definition serialized_size :: "nir_shader \<Rightarrow> 32 word list \<Rightarrow> 32 word list \<Rightarrow> 32 word" where
  "serialized_size s views ios =
     fold (\<lambda>i size. size + (views ! i + ios ! i)) [0..<num_tables s] (of_nat (num_tables s) + 1)"

text \<open>The block and the pointer into it.\<close>

definition put_dword :: "32 word \<Rightarrow> 32 word list \<times> nat \<Rightarrow> (32 word list \<times> nat) result" where
  "put_dword x = (\<lambda>(tab, p). if p < length tab then Inr (tab[p := x], p + 1) else Inl Undefined)"

fun stream_tables ::
  "32 word list \<Rightarrow> nat list \<Rightarrow> dxil_io \<Rightarrow> 32 word list \<times> nat \<Rightarrow> (dxil_io \<times> 32 word list \<times> nat) result" where
  "stream_tables views [] m cur = Inr (m, cur)"
| "stream_tables views (i # is) m cur =
     bind_result (put_dword (num_psv_outputs m ! i * 4) cur) (\<lambda>(tab, p).
       let p' = p + unat (views ! i)
       in stream_tables views is
            (m\<lparr>viewid_dependency_table := (viewid_dependency_table m)[i := Some p],
               io_dependency_table := (io_dependency_table m)[i := Some p']\<rparr>)
            (tab, p' + unat (io_dependency_table_size m ! i)))"

definition patch_tables ::
  "nir_shader \<Rightarrow> 32 word list \<Rightarrow> dxil_io \<Rightarrow> 32 word list \<times> nat \<Rightarrow> (dxil_io \<times> 32 word list \<times> nat) result" where
  "patch_tables s views m cur =
     (if \<not> has_patch_tables s then Inr (m, cur) else
      bind_result (put_dword (num_psv_patch_consts m * 4) cur) (\<lambda>(tab, p).
        let (m, p) = (if info_stage s = MESA_SHADER_TESS_CTRL
              then (m\<lparr>viewid_dependency_table := (viewid_dependency_table m)[1 := Some p]\<rparr>, p + unat (views ! 1))
              else (m, p))
        in Inr (m\<lparr>io_dependency_table := (io_dependency_table m)[1 := Some p]\<rparr>,
             tab, p + unat (io_dependency_table_size m ! 1))))"

definition prepare_dependency_tables :: "nir_shader \<Rightarrow> dxil_io \<Rightarrow> dxil_io result" where
  "prepare_dependency_tables s m =
     (let dwords = table_dwords s m; views = view_id_table_sizes s dwords; ios = io_table_sizes s m dwords;
          size = serialized_size s views ios;
          m = m\<lparr>dependency_table_dwords_per_input := dwords, io_dependency_table_size := ios,
                serialized_dependency_table_size := size\<rparr>
      in bind_result (put_dword (num_psv_inputs m * 4) (replicate (unat size) 0, 0)) (\<lambda>cur.
         bind_result (stream_tables views [0..<num_output_streams s] m cur) (\<lambda>(m, cur).
         bind_result (patch_tables s views m cur) (\<lambda>(m, tab, p).
           Inr (m\<lparr>serialized_dependency_table := tab\<rparr>)))))"

text \<open>Nothing but the tables changes.\<close>

definition tables_frame :: "dxil_io \<Rightarrow> dxil_io" where
  "tables_frame m = m\<lparr>dependency_table_dwords_per_input := [], io_dependency_table_size := [],
     serialized_dependency_table_size := 0, viewid_dependency_table := [], io_dependency_table := [],
     serialized_dependency_table := []\<rparr>"

lemma stream_tables_frame: "stream_tables views is m cur = Inr (m', cur') \<Longrightarrow> tables_frame m' = tables_frame m"
proof (induction "is" arbitrary: m cur)
  case (Cons i "is")
  then obtain tab p where "stream_tables views is
      (m\<lparr>viewid_dependency_table := (viewid_dependency_table m)[i := Some p],
        io_dependency_table := (io_dependency_table m)[i := Some (p + unat (views ! i))]\<rparr>)
      (tab, p + unat (views ! i) + unat (io_dependency_table_size m ! i)) = Inr (m', cur')"
    by (auto simp: Let_def)
  from Cons.IH [OF this] show ?case by (simp add: tables_frame_def)
qed simp

lemma patch_tables_frame: "patch_tables s views m cur = Inr (m', cur') \<Longrightarrow> tables_frame m' = tables_frame m"
proof -
  assume p: "patch_tables s views m cur = Inr (m', cur')"
  show ?thesis
  proof (cases "has_patch_tables s")
    case False
    then show ?thesis using p by (simp add: patch_tables_def)
  next
    case True
    from p True obtain x y where "m' = x\<lparr>io_dependency_table := y\<rparr>" "tables_frame x = tables_frame m"
      by (cases "info_stage s = MESA_SHADER_TESS_CTRL") (auto simp: patch_tables_def Let_def tables_frame_def)
    then show ?thesis by (simp add: tables_frame_def)
  qed
qed

lemma prepare_dependency_tables_frame:
  assumes "prepare_dependency_tables s m = Inr m'"
  shows "tables_frame m' = tables_frame m"
proof -
  let ?m = "m\<lparr>dependency_table_dwords_per_input := table_dwords s m,
    io_dependency_table_size := io_table_sizes s m (table_dwords s m),
    serialized_dependency_table_size := serialized_size s (view_id_table_sizes s (table_dwords s m))
      (io_table_sizes s m (table_dwords s m))\<rparr>"
  from assms obtain views cur m1 cur1 m2 tab p where
    "stream_tables views [0..<num_output_streams s] ?m cur = Inr (m1, cur1)"
    "patch_tables s views m1 cur1 = Inr (m2, tab, p)" "m' = m2\<lparr>serialized_dependency_table := tab\<rparr>"
    unfolding prepare_dependency_tables_def Let_def by auto
  then show ?thesis
    using stream_tables_frame [of views _ ?m] patch_tables_frame [of s views m1 cur1 m2] by (simp add: tables_frame_def)
qed

section \<open>The layout\<close>

text \<open>
  The specification: sections of the block, each with a number of components, the number of dwords of
  the table for the view id and of the table for the inputs. A dword of a table stands for 8 registers of
  outputs; each component of an input has a row.
\<close>

definition dwords_for :: "32 word \<Rightarrow> nat" where
  "dwords_for registers = (unat registers + 7) div 8"

definition view_dwords :: "nir_shader \<Rightarrow> 32 word \<Rightarrow> nat" where
  "view_dwords s registers = (if system_values_read s SYSTEM_VALUE_VIEW_INDEX then dwords_for registers else 0)"

definition dependency_sections :: "nir_shader \<Rightarrow> dxil_io \<Rightarrow> (32 word \<times> nat \<times> nat) list" where
  "dependency_sections s m =
     map (\<lambda>out. (out * 4, view_dwords s out, dwords_for out * unat (num_psv_inputs m) * 4))
       (take (num_output_streams s) (num_psv_outputs m)) @
     (let p = num_psv_patch_consts m in
      if info_stage s = MESA_SHADER_TESS_CTRL
      then [(p * 4, view_dwords s p, dwords_for p * unat (num_psv_inputs m) * 4)]
      else if info_stage s = MESA_SHADER_TESS_EVAL
      then [(p * 4, 0, dwords_for (num_psv_outputs m ! 0) * unat p * 4)]
      else [])"

definition section_dwords :: "32 word \<times> nat \<times> nat \<Rightarrow> 32 word list" where
  "section_dwords = (\<lambda>(components, view, io). components # replicate view 0 @ replicate io 0)"

definition section_start :: "(32 word \<times> nat \<times> nat) list \<Rightarrow> nat \<Rightarrow> nat" where
  "section_start secs j = 1 + length (concat (map section_dwords (take j secs)))"

text \<open>A module whose dependency tables have not been set, with registers that fit the tables of PSV.\<close>

definition tables_unset :: "dxil_io \<Rightarrow> bool" where
  "tables_unset m \<longleftrightarrow> dependency_table_dwords_per_input m = replicate 4 0 \<and>
     io_dependency_table_size m = replicate 4 0 \<and> length (viewid_dependency_table m) = 4 \<and>
     length (io_dependency_table m) = 4"

definition registers_ok :: "dxil_io \<Rightarrow> bool" where
  "registers_ok m \<longleftrightarrow> length (num_psv_outputs m) = 4 \<and> num_psv_inputs m \<le> 1024 \<and>
     num_psv_patch_consts m \<le> 1024 \<and> (\<forall>n \<in> set (num_psv_outputs m). n \<le> 1024)"

lemma unat_div_round_up: "a \<le> 1024 \<Longrightarrow> unat (div_round_up a 8) = dwords_for a"
proof -
  assume a: "a \<le> 1024"
  then have "unat a \<le> 1024" by (simp add: word_le_nat_alt)
  then have "unat (a + 7) = unat a + 7" by (simp add: unat_word_ariths)
  moreover have "a + 8 - 1 = a + 7" by simp
  ultimately show ?thesis unfolding div_round_up_def dwords_for_def by (simp only: unat_div) simp
qed

lemma dwords_for_bound: "a \<le> 1024 \<Longrightarrow> dwords_for a \<le> 128"
  by (simp add: dwords_for_def word_le_nat_alt)

lemma unat_table_size:
  assumes "unat d \<le> 128" and "k \<le> (1024 :: 32 word)"
  shows "unat (d * k * 4) = unat d * unat k * 4"
proof -
  have "unat d * unat k \<le> 128 * 1024" using assms by (intro mult_le_mono) (simp_all add: word_le_nat_alt)
  then show ?thesis by (simp add: unat_word_ariths)
qed

text \<open>The pointer runs over the part that is still zero.\<close>

lemma put_dword_at:
  assumes "0 < k"
  shows "put_dword x (pre @ replicate k 0, length pre) = Inr (pre @ x # replicate (k - 1) 0, length pre + 1)"
proof -
  have "replicate k (0 :: 32 word) = 0 # replicate (k - 1) 0" using assms by (cases k) auto
  then show ?thesis by (simp add: put_dword_def list_update_append)
qed

lemma after_section:
  assumes "length (section_dwords (c, v, n)) \<le> k"
  shows "pre @ c # replicate (k - 1) 0 =
    (pre @ section_dwords (c, v, n)) @ replicate (k - length (section_dwords (c, v, n))) 0"
proof -
  have "k - 1 = v + n + (k - (1 + v + n))" using assms by (simp add: section_dwords_def)
  then have "replicate (k - 1) (0 :: 32 word) = replicate v 0 @ replicate n 0 @ replicate (k - (1 + v + n)) 0"
    by (metis replicate_add append.assoc)
  then show ?thesis by (simp add: section_dwords_def)
qed

text \<open>One section is laid out.\<close>

definition stream_section :: "32 word list \<Rightarrow> dxil_io \<Rightarrow> nat \<Rightarrow> 32 word \<times> nat \<times> nat" where
  "stream_section views m i = (num_psv_outputs m ! i * 4, unat (views ! i), unat (io_dependency_table_size m ! i))"

definition point_at :: "nat \<Rightarrow> nat \<Rightarrow> nat \<Rightarrow> dxil_io \<Rightarrow> dxil_io" where
  "point_at i p q m = m\<lparr>viewid_dependency_table := (viewid_dependency_table m)[i := Some p],
     io_dependency_table := (io_dependency_table m)[i := Some q]\<rparr>"

fun point_sections :: "nat list \<Rightarrow> (nat \<Rightarrow> 32 word \<times> nat \<times> nat) \<Rightarrow> nat \<Rightarrow> dxil_io \<Rightarrow> dxil_io" where
  "point_sections [] sec p m = m"
| "point_sections (i # is) sec p m = point_sections is sec (p + length (section_dwords (sec i)))
     (point_at i (p + 1) (p + 1 + fst (snd (sec i))) m)"

lemma point_at_same [simp]:
  "num_psv_outputs (point_at i p q m) = num_psv_outputs m"
  "io_dependency_table_size (point_at i p q m) = io_dependency_table_size m"
  "stream_section views (point_at i p q m) = stream_section views m"
  by (simp_all add: point_at_def stream_section_def fun_eq_iff)

lemma stream_tables_layout:
  "length (concat (map (\<lambda>i. section_dwords (stream_section views m i)) is)) \<le> k \<Longrightarrow>
   stream_tables views is m (pre @ replicate k 0, length pre) =
     (let ds = concat (map (\<lambda>i. section_dwords (stream_section views m i)) is)
      in Inr (point_sections is (stream_section views m) (length pre) m,
           (pre @ ds) @ replicate (k - length ds) 0, length (pre @ ds)))"
proof (induction "is" arbitrary: m k pre)
  case Nil
  then show ?case by simp
next
  case (Cons i "is")
  let ?sec = "stream_section views m i"
  let ?pre = "pre @ section_dwords ?sec" and ?k = "k - length (section_dwords ?sec)"
  obtain c v n where sec: "?sec = (c, v, n)" by (cases ?sec)
  then have cvn: "num_psv_outputs m ! i * 4 = c" "unat (views ! i) = v" "unat (io_dependency_table_size m ! i) = n"
    by (simp_all add: stream_section_def)
  have len: "length (section_dwords ?sec) = 1 + v + n" using sec by (simp add: section_dwords_def)
  have fits: "length (section_dwords ?sec) \<le> k" using Cons.prems by simp
  then have put: "put_dword c (pre @ replicate k 0, length pre) = Inr (?pre @ replicate ?k 0, length pre + 1)"
    using put_dword_at [of k c pre] after_section [of c v n k pre] len sec by simp
  let ?m = "point_at i (length pre + 1) (length pre + 1 + v) m"
  have "stream_tables views (i # is) m (pre @ replicate k 0, length pre) =
      stream_tables views is ?m (?pre @ replicate ?k 0, length ?pre)"
    using put len by (simp add: cvn point_at_def add.assoc)
  also have "\<dots> = (let ds = concat (map (\<lambda>j. section_dwords (stream_section views m j)) is)
      in Inr (point_sections is (stream_section views m) (length ?pre) ?m,
           (?pre @ ds) @ replicate (?k - length ds) 0, length (?pre @ ds)))"
    using Cons.IH [of ?m ?k ?pre] Cons.prems by (simp add: comp_def)
  finally show ?case using sec by (simp add: Let_def)
qed

text \<open>Where the pointers of the sections lead.\<close>

lemma point_sections_other:
  "i \<notin> set is \<Longrightarrow> viewid_dependency_table (point_sections is sec p m) ! i = viewid_dependency_table m ! i \<and>
     io_dependency_table (point_sections is sec p m) ! i = io_dependency_table m ! i"
  by (induction "is" arbitrary: p m) (auto simp: point_at_def)

lemma point_sections_length [simp]:
  "length (viewid_dependency_table (point_sections is sec p m)) = length (viewid_dependency_table m)"
  "length (io_dependency_table (point_sections is sec p m)) = length (io_dependency_table m)"
  by (induction "is" arbitrary: p m) (simp_all add: point_at_def)

lemma point_sections_at:
  assumes "distinct is" and "j < length is" and "\<forall>i \<in> set is. i < length (viewid_dependency_table m)"
    and "length (io_dependency_table m) = length (viewid_dependency_table m)"
    and "q = p + length (concat (map (\<lambda>i. section_dwords (sec i)) (take j is))) + 1"
  shows "viewid_dependency_table (point_sections is sec p m) ! (is ! j) = Some q \<and>
    io_dependency_table (point_sections is sec p m) ! (is ! j) = Some (q + fst (snd (sec (is ! j))))"
  using assms
proof (induction "is" arbitrary: j p m)
  case Nil
  then show ?case by simp
next
  case (Cons i "is")
  let ?m = "point_at i (p + 1) (p + 1 + fst (snd (sec i))) m"
  show ?case
  proof (cases j)
    case 0
    have "i \<notin> set is" using Cons.prems(1) by simp
    from point_sections_other [OF this, of sec "p + length (section_dwords (sec i))" ?m]
    show ?thesis using 0 Cons.prems by (simp add: point_at_def)
  next
    case (Suc j')
    then show ?thesis
      using Cons.IH [of j' ?m "p + length (section_dwords (sec i))"] Cons.prems
      by (simp add: point_at_def)
  qed
qed

lemma point_sections_same [simp]:
  "num_psv_outputs (point_sections is sec p m) = num_psv_outputs m"
  "num_psv_inputs (point_sections is sec p m) = num_psv_inputs m"
  "num_psv_patch_consts (point_sections is sec p m) = num_psv_patch_consts m"
  "io_dependency_table_size (point_sections is sec p m) = io_dependency_table_size m"
  "serialized_dependency_table_size (point_sections is sec p m) = serialized_dependency_table_size m"
  "dependency_table_dwords_per_input (point_sections is sec p m) = dependency_table_dwords_per_input m"
  by (induction "is" arbitrary: p m) (simp_all add: point_at_def)

text \<open>The sizes that the code computes are those of the specification.\<close>

definition table_section :: "nir_shader \<Rightarrow> dxil_io \<Rightarrow> nat \<Rightarrow> 32 word \<times> nat \<times> nat" where
  "table_section s m j =
     (let dwords = table_dwords s m
      in (if j < num_output_streams s then num_psv_outputs m ! j * 4 else num_psv_patch_consts m * 4,
          unat (view_id_table_sizes s dwords ! j), unat (io_table_sizes s m dwords ! j)))"

lemma dependency_sections_eq:
  assumes "tables_unset m" and "registers_ok m"
  shows "dependency_sections s m = map (table_section s m) [0..<num_tables s]"
proof -
  obtain a b c d where outs: "num_psv_outputs m = [a, b, c, d]"
    using assms(2) by (auto simp: registers_ok_def length_Suc_conv numeral_eq_Suc)
  then have le: "a \<le> 1024" "b \<le> 1024" "c \<le> 1024" "d \<le> 1024" "num_psv_inputs m \<le> 1024" "num_psv_patch_consts m \<le> 1024"
    using assms(2) by (simp_all add: registers_ok_def)
  have d8: "unat (div_round_up x 8) = dwords_for x" "unat (div_round_up x 8 * k * 4) = dwords_for x * unat k * 4"
    if "x \<le> 1024" "k \<le> 1024" for x k
    using unat_table_size [of "div_round_up x 8" k] that unat_div_round_up [OF that(1)] dwords_for_bound [OF that(1)]
    by simp_all
  note unset = assms(1) [unfolded tables_unset_def]
  note defs = dependency_sections_def table_section_def Let_def num_tables_def num_output_streams_def
    has_patch_tables_def table_dwords_def view_id_table_sizes_def io_table_sizes_def set_first_def
    view_dwords_def outs unset upt_rec numeral_eq_Suc
  consider "info_stage s = MESA_SHADER_GEOMETRY" | "info_stage s = MESA_SHADER_TESS_CTRL"
    | "info_stage s = MESA_SHADER_TESS_EVAL"
    | "info_stage s \<notin> {MESA_SHADER_GEOMETRY, MESA_SHADER_TESS_CTRL, MESA_SHADER_TESS_EVAL}" by blast
  then show ?thesis
    by cases (use le d8 in \<open>simp_all add: defs\<close>)
qed

lemma serialized_size_eq:
  "serialized_size s views ios =
     of_nat (num_tables s + 1 + sum_list (map (\<lambda>j. unat (views ! j) + unat (ios ! j)) [0..<num_tables s]))"
proof -
  have "fold (\<lambda>i size. size + (views ! i + ios ! i)) is (of_nat k) =
    (of_nat (k + sum_list (map (\<lambda>j. unat (views ! j) + unat (ios ! j)) is)) :: 32 word)" for "is" k
  proof (induction "is" arbitrary: k)
    case (Cons i "is")
    have "of_nat k + (views ! i + ios ! i) = (of_nat (k + (unat (views ! i) + unat (ios ! i))) :: 32 word)" by simp
    then show ?case using Cons.IH [of "k + (unat (views ! i) + unat (ios ! i))"]
      by (simp only: fold_simps list.map sum_list.Cons add.assoc)
  qed simp
  from this [of "[0..<num_tables s]" "num_tables s + 1"] show ?thesis
    unfolding serialized_size_def by (simp only: of_nat_add of_nat_1)
qed

lemma length_sections:
  "length (concat (map section_dwords (map f js))) = length js + sum_list (map (\<lambda>j. fst (snd (f j)) + snd (snd (f j))) js)"
  by (induction js) (simp_all add: section_dwords_def split: prod.split)

lemma section_bound:
  assumes "registers_ok m" and "sec \<in> set (dependency_sections s m)"
  shows "fst (snd sec) + snd (snd sec) \<le> 128 + 128 * 1024 * 4"
proof -
  have n: "dwords_for a * unat k * 4 \<le> 128 * 1024 * 4" if "a \<le> 1024" "k \<le> (1024 :: 32 word)" for a k
    using that dwords_for_bound [OF that(1)] by (intro mult_le_mono) (simp_all add: word_le_nat_alt)
  have v: "view_dwords s a \<le> 128" if "a \<le> 1024" for a
    using dwords_for_bound [OF that] by (simp add: view_dwords_def)
  have o: "a \<le> 1024" if "a \<in> set (take k (num_psv_outputs m))" for a k
    using assms(1) that by (auto simp: registers_ok_def dest: in_set_takeD)
  have o0: "num_psv_outputs m ! 0 \<le> 1024" using assms(1) by (simp add: registers_ok_def)
  have ip: "num_psv_inputs m \<le> 1024" "num_psv_patch_consts m \<le> 1024" using assms(1) by (simp_all add: registers_ok_def)
  consider (stream) a where "a \<in> set (take (num_output_streams s) (num_psv_outputs m))"
      "sec = (a * 4, view_dwords s a, dwords_for a * unat (num_psv_inputs m) * 4)"
    | (tcs) "sec = (num_psv_patch_consts m * 4, view_dwords s (num_psv_patch_consts m),
        dwords_for (num_psv_patch_consts m) * unat (num_psv_inputs m) * 4)"
    | (tes) "sec = (num_psv_patch_consts m * 4, 0, dwords_for (num_psv_outputs m ! 0) * unat (num_psv_patch_consts m) * 4)"
    using assms(2) by (auto simp: dependency_sections_def Let_def split: if_splits)
  then show ?thesis
  proof cases
    case stream
    then show ?thesis using add_mono [OF v [OF o] n [OF o ip(1)]] by simp
  next
    case tcs
    then show ?thesis using add_mono [OF v [OF ip(2)] n [OF ip(2,1)]] by simp
  next
    case tes
    then show ?thesis using n [OF o0 ip(2)] by simp
  qed
qed

lemma sections_total:
  assumes "tables_unset m" and "registers_ok m"
  shows "unat (serialized_size s (view_id_table_sizes s (table_dwords s m)) (io_table_sizes s m (table_dwords s m))) =
    1 + length (concat (map section_dwords (dependency_sections s m)))"
proof -
  let ?d = "table_dwords s m"
  let ?v = "view_id_table_sizes s ?d" and ?n = "io_table_sizes s m ?d"
  let ?f = "\<lambda>j. unat (?v ! j) + unat (?n ! j)"
  have eq: "fst (snd (table_section s m j)) + snd (snd (table_section s m j)) = ?f j" for j
    by (simp add: table_section_def Let_def)
  have total: "length (concat (map section_dwords (dependency_sections s m))) =
      num_tables s + sum_list (map ?f [0..<num_tables s])"
    unfolding dependency_sections_eq [OF assms] length_sections eq by simp
  have "?f j \<le> 128 + 128 * 1024 * 4" if "j \<in> set [0..<num_tables s]" for j
    using section_bound [OF assms(2), of "table_section s m j" s] that
    unfolding dependency_sections_eq [OF assms] eq by simp
  then have "sum_list (map ?f [0..<num_tables s]) \<le> sum_list (map (\<lambda>j. 128 + 128 * 1024 * 4) [0..<num_tables s])"
    by (rule sum_list_mono)
  also have "\<dots> \<le> 4 * (128 + 128 * 1024 * 4)"
    by (simp add: sum_list_triv num_tables_def num_output_streams_def)
  finally have "sum_list (map ?f [0..<num_tables s]) \<le> 4 * (128 + 128 * 1024 * 4)" .
  moreover have "num_tables s \<le> 4" by (simp add: num_tables_def num_output_streams_def)
  ultimately have "num_tables s + 1 + sum_list (map ?f [0..<num_tables s]) < 2 ^ 32" by simp
  moreover have "unat (of_nat N :: 32 word) = N" if "N < 2 ^ 32" for N
    using that by (simp add: unat_of_nat)
  ultimately have "unat (of_nat (num_tables s + 1 + sum_list (map ?f [0..<num_tables s])) :: 32 word) =
      num_tables s + 1 + sum_list (map ?f [0..<num_tables s])" by blast
  then show ?thesis unfolding total serialized_size_eq by simp
qed

text \<open>The state before the block is written.\<close>

definition sized :: "nir_shader \<Rightarrow> dxil_io \<Rightarrow> dxil_io" where
  "sized s m = m\<lparr>dependency_table_dwords_per_input := table_dwords s m,
     io_dependency_table_size := io_table_sizes s m (table_dwords s m),
     serialized_dependency_table_size := serialized_size s (view_id_table_sizes s (table_dwords s m))
       (io_table_sizes s m (table_dwords s m))\<rparr>"

abbreviation sized_views :: "nir_shader \<Rightarrow> dxil_io \<Rightarrow> 32 word list" where
  "sized_views s m \<equiv> view_id_table_sizes s (table_dwords s m)"

lemma sized_streams:
  "map (stream_section (sized_views s m) (sized s m)) [0..<num_output_streams s] =
   map (table_section s m) [0..<num_output_streams s]"
  by (simp add: stream_section_def table_section_def sized_def Let_def)

lemma prepare_eq:
  "prepare_dependency_tables s m =
     bind_result (put_dword (num_psv_inputs m * 4)
       (replicate (unat (serialized_size s (sized_views s m) (io_table_sizes s m (table_dwords s m)))) 0, 0)) (\<lambda>cur.
     bind_result (stream_tables (sized_views s m) [0..<num_output_streams s] (sized s m) cur) (\<lambda>(m', cur).
     bind_result (patch_tables s (sized_views s m) m' cur) (\<lambda>(m', tab, p).
       Inr (m'\<lparr>serialized_dependency_table := tab\<rparr>))))"
  unfolding prepare_dependency_tables_def Let_def sized_def by simp

lemma prepare_tables_streams:
  assumes "tables_unset m" and "registers_ok m"
    and "ds = concat (map section_dwords (map (table_section s m) [0..<num_output_streams s]))"
    and "k = length (concat (map section_dwords (dependency_sections s m)))"
  shows "length ds \<le> k \<and>
    prepare_dependency_tables s m =
      bind_result (patch_tables s (sized_views s m)
        (point_sections [0..<num_output_streams s] (stream_section (sized_views s m) (sized s m)) 1 (sized s m))
        ((num_psv_inputs m * 4 # ds) @ replicate (k - length ds) 0, length (num_psv_inputs m * 4 # ds)))
        (\<lambda>(m, tab, p). Inr (m\<lparr>serialized_dependency_table := tab\<rparr>))"
proof
  have "[0..<num_tables s] = [0..<num_output_streams s] @ [num_output_streams s..<num_tables s]"
    by (auto simp: num_tables_def num_output_streams_def has_patch_tables_def upt_rec numeral_eq_Suc)
  then show fits: "length ds \<le> k" unfolding assms(3,4) dependency_sections_eq [OF assms(1,2)] by simp
  let ?x = "num_psv_inputs m * 4"
  have first: "put_dword ?x (replicate (1 + k) 0, 0) = Inr ([?x] @ replicate k 0, length [?x])"
    using put_dword_at [of "1 + k" ?x "[]"] by simp
  have ds: "concat (map (\<lambda>i. section_dwords (stream_section (sized_views s m) (sized s m) i)) [0..<num_output_streams s]) = ds"
    unfolding assms(3) sized_streams [symmetric] by (simp add: comp_def)
  have size: "unat (serialized_size s (sized_views s m) (io_table_sizes s m (table_dwords s m))) = 1 + k"
    unfolding sections_total [OF assms(1,2)] assms(4) ..
  have "stream_tables (sized_views s m) [0..<num_output_streams s] (sized s m) ([?x] @ replicate k 0, length [?x]) =
      Inr (point_sections [0..<num_output_streams s] (stream_section (sized_views s m) (sized s m)) 1 (sized s m),
        ([?x] @ ds) @ replicate (k - length ds) 0, length ([?x] @ ds))"
    using stream_tables_layout [of "sized_views s m" "sized s m" "[0..<num_output_streams s]" k "[?x]"] fits
    unfolding ds Let_def by simp
  then show "prepare_dependency_tables s m =
      bind_result (patch_tables s (sized_views s m)
        (point_sections [0..<num_output_streams s] (stream_section (sized_views s m) (sized s m)) 1 (sized s m))
        ((?x # ds) @ replicate (k - length ds) 0, length (?x # ds)))
        (\<lambda>(m, tab, p). Inr (m\<lparr>serialized_dependency_table := tab\<rparr>))"
    unfolding prepare_eq size first bind_result_simps case_prod_conv by simp
qed

lemma patch_tables_layout:
  assumes "length (section_dwords (num_psv_patch_consts m * 4, v, n)) \<le> k" and "has_patch_tables s"
    and "v = (if info_stage s = MESA_SHADER_TESS_CTRL then unat (views ! 1) else 0)"
    and "n = unat (io_dependency_table_size m ! 1)"
  shows "\<exists>m'. patch_tables s views m (pre @ replicate k 0, length pre) =
      Inr (m', (pre @ section_dwords (num_psv_patch_consts m * 4, v, n)) @ replicate (k - (1 + v + n)) 0,
        length pre + 1 + v + n) \<and>
     m' = m\<lparr>viewid_dependency_table := (if info_stage s = MESA_SHADER_TESS_CTRL
          then (viewid_dependency_table m)[1 := Some (length pre + 1)] else viewid_dependency_table m),
        io_dependency_table := (io_dependency_table m)[1 := Some (length pre + 1 + v)]\<rparr>"
proof -
  have len: "length (section_dwords (num_psv_patch_consts m * 4, v, n)) = 1 + v + n" by (simp add: section_dwords_def)
  then have "put_dword (num_psv_patch_consts m * 4) (pre @ replicate k 0, length pre) =
      Inr ((pre @ section_dwords (num_psv_patch_consts m * 4, v, n)) @ replicate (k - (1 + v + n)) 0, length pre + 1)"
    using put_dword_at [of k "num_psv_patch_consts m * 4" pre] assms(1)
      after_section [of "num_psv_patch_consts m * 4" v n k pre] by simp
  then show ?thesis using assms(2-4) by (simp add: patch_tables_def Let_def)
qed

text \<open>The module after the call, with sections \<open>secs\<close> behind the number of components of the inputs.\<close>

definition laid_out :: "32 word \<Rightarrow> (32 word \<times> nat \<times> nat) list \<Rightarrow> dxil_io \<Rightarrow> bool" where
  "laid_out in_registers secs m \<longleftrightarrow>
     serialized_dependency_table m = in_registers * 4 # concat (map section_dwords secs) \<and>
     unat (serialized_dependency_table_size m) = length (serialized_dependency_table m) \<and>
     (\<forall>j < length secs. let (components, view, io) = secs ! j in
        io_dependency_table m ! j = Some (section_start secs j + 1 + view) \<and>
        unat (io_dependency_table_size m ! j) = io \<and>
        (0 < view \<longrightarrow> viewid_dependency_table m ! j = Some (section_start secs j + 1) \<and>
           unat (dependency_table_dwords_per_input m ! j) = view))"

lemma table_section_views:
  assumes "j < 4" and "0 < fst (snd (table_section s m j))"
  shows "unat (table_dwords s m ! j) = fst (snd (table_section s m j))"
  using assms by (auto simp: table_section_def view_id_table_sizes_def Let_def split: if_splits)

lemma layout_streams:
  assumes "tables_unset m" and "registers_ok m" and "j < num_output_streams s"
    and "secs = map (table_section s m) [0..<num_tables s]"
    and "P = point_sections [0..<num_output_streams s] (stream_section (sized_views s m) (sized s m)) 1 (sized s m)"
  shows "viewid_dependency_table P ! j = Some (section_start secs j + 1) \<and>
    io_dependency_table P ! j = Some (section_start secs j + 1 + fst (snd (table_section s m j)))"
proof -
  have n: "num_output_streams s \<le> num_tables s" "num_output_streams s \<le> 4" "j \<le> num_tables s"
    using assms(3) by (auto simp: num_tables_def num_output_streams_def has_patch_tables_def)
  have sec: "stream_section (sized_views s m) (sized s m) i = table_section s m i" if "i < num_output_streams s" for i
    using that by (simp add: stream_section_def table_section_def sized_def Let_def)
  have "map section_dwords (take j secs) = map (\<lambda>i. section_dwords (table_section s m i)) [0..<j]"
    unfolding assms(4) using n(3) by (simp add: take_map comp_def)
  also have "\<dots> = map (\<lambda>i. section_dwords (stream_section (sized_views s m) (sized s m) i)) (take j [0..<num_output_streams s])"
    using assms(3) sec by simp
  finally have start: "section_start secs j = 1 + length (concat
      (map (\<lambda>i. section_dwords (stream_section (sized_views s m) (sized s m) i)) (take j [0..<num_output_streams s])))"
    unfolding section_start_def by (rule arg_cong)
  have "length (viewid_dependency_table (sized s m)) = 4" "length (io_dependency_table (sized s m)) = 4"
    using assms(1) by (simp_all add: tables_unset_def sized_def)
  with n assms(3) point_sections_at [of "[0..<num_output_streams s]" j "sized s m" "section_start secs j + 1" 1
      "stream_section (sized_views s m) (sized s m)"] start
  show ?thesis unfolding assms(5) by (simp add: sec)
qed

lemma sized_same [simp]:
  "num_psv_outputs (sized s m) = num_psv_outputs m" "num_psv_inputs (sized s m) = num_psv_inputs m"
  "num_psv_patch_consts (sized s m) = num_psv_patch_consts m"
  "dependency_table_dwords_per_input (sized s m) = table_dwords s m"
  "io_dependency_table_size (sized s m) = io_table_sizes s m (table_dwords s m)"
  "viewid_dependency_table (sized s m) = viewid_dependency_table m"
  "io_dependency_table (sized s m) = io_dependency_table m"
  by (simp_all add: sized_def)

text \<open>What is left to show once the pointers are known.\<close>

lemma laid_outI:
  assumes "tables_unset m" and "registers_ok m"
    and "serialized_dependency_table m' = num_psv_inputs m * 4 # concat (map section_dwords (dependency_sections s m))"
    and "serialized_dependency_table_size m' = serialized_dependency_table_size (sized s m)"
    and "io_dependency_table_size m' = io_table_sizes s m (table_dwords s m)"
    and "dependency_table_dwords_per_input m' = table_dwords s m"
    and "\<And>j. j < num_tables s \<Longrightarrow> io_dependency_table m' ! j =
      Some (section_start (dependency_sections s m) j + 1 + fst (snd (table_section s m j))) \<and>
      (0 < fst (snd (table_section s m j)) \<longrightarrow>
        viewid_dependency_table m' ! j = Some (section_start (dependency_sections s m) j + 1))"
  shows "laid_out (num_psv_inputs m) (dependency_sections s m) m'"
proof -
  have len: "length (dependency_sections s m) = num_tables s" "num_tables s \<le> 4"
    unfolding dependency_sections_eq [OF assms(1,2)] by (simp_all add: num_tables_def num_output_streams_def)
  have nth: "dependency_sections s m ! j = table_section s m j" if "j < num_tables s" for j
    unfolding dependency_sections_eq [OF assms(1,2)] using that by simp
  have sizes: "unat (io_dependency_table_size m' ! j) = snd (snd (table_section s m j))" for j
    unfolding assms(5) by (simp add: table_section_def Let_def)
  have "unat (serialized_dependency_table_size m') = length (serialized_dependency_table m')"
    unfolding assms(3,4) using sections_total [OF assms(1,2)] by (simp add: sized_def)
  moreover have "let (components, view, io) = dependency_sections s m ! j in
      io_dependency_table m' ! j = Some (section_start (dependency_sections s m) j + 1 + view) \<and>
      unat (io_dependency_table_size m' ! j) = io \<and>
      (0 < view \<longrightarrow> viewid_dependency_table m' ! j = Some (section_start (dependency_sections s m) j + 1) \<and>
        unat (dependency_table_dwords_per_input m' ! j) = view)" if j: "j < num_tables s" for j
  proof -
    obtain c v n where sec: "table_section s m j = (c, v, n)" by (cases "table_section s m j")
    show ?thesis
      using assms(7) [OF j] sizes [of j] table_section_views [of j s m] j len(2)
      unfolding nth [OF j] sec assms(6) by simp
  qed
  ultimately show ?thesis unfolding laid_out_def len(1) using assms(3) by blast
qed

lemma prepare_tables_laid_out:
  assumes "tables_unset m" and "registers_ok m"
  shows "\<exists>m'. prepare_dependency_tables s m = Inr m' \<and> laid_out (num_psv_inputs m) (dependency_sections s m) m'"
proof -
  let ?n = "num_output_streams s" and ?secs = "dependency_sections s m" and ?x = "num_psv_inputs m * 4"
  define ds where "ds = concat (map section_dwords (map (table_section s m) [0..<?n]))"
  define P where "P = point_sections [0..<?n] (stream_section (sized_views s m) (sized s m)) 1 (sized s m)"
  note secs = dependency_sections_eq [OF assms]
  from prepare_tables_streams [OF assms ds_def refl]
  have run: "prepare_dependency_tables s m = bind_result (patch_tables s (sized_views s m) P
      ((?x # ds) @ replicate (length (concat (map section_dwords ?secs)) - length ds) 0, length (?x # ds)))
      (\<lambda>(m, tab, p). Inr (m\<lparr>serialized_dependency_table := tab\<rparr>))"
    unfolding P_def by blast
  have P_same: "io_dependency_table_size P = io_table_sizes s m (table_dwords s m)"
    "dependency_table_dwords_per_input P = table_dwords s m" "num_psv_patch_consts P = num_psv_patch_consts m"
    "serialized_dependency_table_size P = serialized_dependency_table_size (sized s m)"
    unfolding P_def by simp_all
  note streams = layout_streams [OF assms _ secs P_def]
  show ?thesis
  proof (cases "has_patch_tables s")
    case False
    then have tables: "num_tables s = ?n" by (simp add: num_tables_def)
    have ds: "concat (map section_dwords ?secs) = ds" unfolding secs ds_def tables ..
    let ?m' = "P\<lparr>serialized_dependency_table := ?x # ds\<rparr>"
    have "prepare_dependency_tables s m = Inr ?m'" unfolding run ds using False by (simp add: patch_tables_def)
    moreover have "laid_out (num_psv_inputs m) ?secs ?m'"
      by (rule laid_outI [OF assms]) (use streams in \<open>simp_all add: ds P_same tables\<close>)
    ultimately show ?thesis by blast
  next
    case True
    then have n: "?n = 1" "num_tables s = 2" by (auto simp: has_patch_tables_def num_tables_def num_output_streams_def)
    define v where "v = unat (sized_views s m ! 1)"
    define k where "k = unat (io_table_sizes s m (table_dwords s m) ! 1)"
    have sec: "table_section s m 1 = (num_psv_patch_consts m * 4, v, k)"
      by (simp add: table_section_def Let_def n v_def k_def)
    have v: "v = (if info_stage s = MESA_SHADER_TESS_CTRL then unat (sized_views s m ! 1) else 0)"
      using assms(1) n(1) by (simp add: v_def view_id_table_sizes_def table_dwords_def set_first_def tables_unset_def Let_def)
    have all: "concat (map section_dwords ?secs) = ds @ section_dwords (num_psv_patch_consts m * 4, v, k)"
      unfolding secs ds_def n by (simp add: upt_rec numeral_eq_Suc sec [unfolded One_nat_def])
    have len: "length (section_dwords (num_psv_patch_consts m * 4, v, k)) = 1 + v + k" by (simp add: section_dwords_def)
    have start: "section_start ?secs 1 = length (?x # ds)"
      unfolding section_start_def secs ds_def n by (simp add: upt_rec numeral_eq_Suc)
    have kP: "k = unat (io_dependency_table_size P ! 1)" unfolding k_def P_same ..
    from patch_tables_layout [of P v k "1 + v + k" s "sized_views s m" "?x # ds", OF _ True v kP]
    obtain m' where patch: "patch_tables s (sized_views s m) P ((?x # ds) @ replicate (1 + v + k) 0, length (?x # ds)) =
        Inr (m', ((?x # ds) @ section_dwords (num_psv_patch_consts m * 4, v, k)) @ replicate 0 0, length (?x # ds) + 1 + v + k)"
      and m': "m' = P\<lparr>viewid_dependency_table := (if info_stage s = MESA_SHADER_TESS_CTRL
          then (viewid_dependency_table P)[1 := Some (length (?x # ds) + 1)] else viewid_dependency_table P),
        io_dependency_table := (io_dependency_table P)[1 := Some (length (?x # ds) + 1 + v)]\<rparr>"
      unfolding P_same len by auto
    have left: "length (concat (map section_dwords ?secs)) - length ds = 1 + v + k" unfolding all by (simp add: len)
    let ?m' = "m'\<lparr>serialized_dependency_table := ?x # concat (map section_dwords ?secs)\<rparr>"
    have "prepare_dependency_tables s m = Inr ?m'" unfolding run left patch bind_result_simps by (simp add: all)
    moreover have "laid_out (num_psv_inputs m) ?secs ?m'"
    proof (rule laid_outI [OF assms])
      fix j assume "j < num_tables s"
      then consider "j = 0" | "j = 1" using n(2) by linarith
      then show "io_dependency_table ?m' ! j = Some (section_start ?secs j + 1 + fst (snd (table_section s m j))) \<and>
          (0 < fst (snd (table_section s m j)) \<longrightarrow> viewid_dependency_table ?m' ! j = Some (section_start ?secs j + 1))"
      proof cases
        case 1
        then show ?thesis using streams [of 0] n(1) by (simp add: m')
      next
        case 2
        have "length (viewid_dependency_table P) = 4" "length (io_dependency_table P) = 4"
          using assms(1) by (simp_all add: P_def tables_unset_def)
        then show ?thesis using 2 start v by (simp add: m' sec [unfolded One_nat_def])
      qed
    qed (simp_all add: m' P_same)
    ultimately show ?thesis by blast
  qed
qed

text \<open>C20: \<open>prepare_dependency_tables\<close> refines the layout of its specification. It never fails, for as many
  registers as the tables of PSV can name: the block that it allocates is the number of components of the
  inputs and then, for each stream of outputs and for the patch constants, the number of components, the
  table for the view id and the table for the inputs, all zero; it has exactly the size computed
  beforehand, and the pointers and sizes of the tables are those of its sections.\<close>

theorem prepare_dependency_tables_layout:
  assumes "tables_unset m" and "registers_ok m"
  shows "\<exists>m'. prepare_dependency_tables s m = Inr m' \<and> laid_out (num_psv_inputs m) (dependency_sections s m) m'"
  using prepare_tables_laid_out [OF assms] .

lemma prepare_dependency_tables_layout_witness:
  "\<exists>m'. prepare_dependency_tables
      \<lparr>shader_variables = [], info_stage = MESA_SHADER_VERTEX, clip_distance_array_size = 0, system_values_read = (\<lambda>_. False)\<rparr>
      (dxil_io_init\<lparr>num_psv_inputs := 2, num_psv_outputs := [9, 0, 0, 0]\<rparr>) = Inr m' \<and>
    serialized_dependency_table m' = 8 # 36 # replicate 16 0 \<and> io_dependency_table m' ! 0 = Some 2"
proof -
  let ?s = "\<lparr>shader_variables = [], info_stage = MESA_SHADER_VERTEX, clip_distance_array_size = 0,
    system_values_read = (\<lambda>_. False)\<rparr>"
  let ?m = "dxil_io_init\<lparr>num_psv_inputs := 2, num_psv_outputs := [9, 0, 0, 0]\<rparr>"
  have "tables_unset ?m" "registers_ok ?m" by (simp_all add: tables_unset_def registers_ok_def dxil_io_init_def)
  from prepare_dependency_tables_layout [OF this, of ?s] obtain m' where
    m': "prepare_dependency_tables ?s ?m = Inr m'" "laid_out (num_psv_inputs ?m) (dependency_sections ?s ?m) m'" by blast
  have secs: "dependency_sections ?s ?m = [(36, 0, 16)]"
    by (simp add: dependency_sections_def num_output_streams_def view_dwords_def dwords_for_def)
  have "serialized_dependency_table m' = num_psv_inputs ?m * 4 # concat (map section_dwords [(36, 0, 16)])"
    and "io_dependency_table m' ! 0 = Some (section_start [(36, 0, 16)] 0 + 1 + 0)"
    using m'(2) unfolding secs laid_out_def Let_def by auto
  then show ?thesis
    by (intro exI [of _ m'] conjI m'(1)) (simp_all add: section_start_def section_dwords_def)
qed

end
