(* ===== verification/Preprocess.thy ===== *)
theory Preprocess
  imports Shader_Signatures Dependency_Tables
begin

text \<open>
  The two functions of \<open>dxil_signature.c\<close> that are called from outside: \<open>preprocess_signatures\<close> and
  \<open>get_signatures\<close>, which turns the signatures into metadata.
\<close>

definition preprocess_signatures :: "nir_shader \<Rightarrow> 32 word \<Rightarrow> dxil_io \<Rightarrow> dxil_io result" where
  "preprocess_signatures s input_clip_size m =
     bind_result (copy_semantic_name_to_string [] []) (\<lambda>(_, text).
     bind_result (process_input_signature s input_clip_size (m\<lparr>sem_string_table := text\<rparr>)) (\<lambda>m.
     bind_result (process_output_signature s m) (\<lambda>m.
     bind_result (process_patch_const_signature s m) (\<lambda>m.
       prepare_dependency_tables s m))))"

section \<open>Metadata\<close>

definition DXIL_SIGNATURE_ELEMENT_OUTPUT_STREAM :: "32 word" where
  "DXIL_SIGNATURE_ELEMENT_OUTPUT_STREAM = 0"

definition DXIL_SIGNATURE_ELEMENT_DYNAMIC_INDEX_COMPONENT_MASK :: "32 word" where
  "DXIL_SIGNATURE_ELEMENT_DYNAMIC_INDEX_COMPONENT_MASK = 2"

definition DXIL_SIGNATURE_ELEMENT_USAGE_COMPONENT_MASK :: "32 word" where
  "DXIL_SIGNATURE_ELEMENT_USAGE_COMPONENT_MASK = 3"

text \<open>Calls that each create a node, one after the other.\<close>

type_synonym 'a builder = "dxil_module \<Rightarrow> ('a \<times> dxil_module) result"

fun build_nodes :: "mdref builder list \<Rightarrow> mdref list builder" where
  "build_nodes [] m = Inr ([], m)"
| "build_nodes (f # fs) m = bind_result (f m) (\<lambda>(n, m). bind_result (build_nodes fs m) (\<lambda>(ns, m). Inr (n # ns, m)))"

definition start_column :: "dxil_psv_signature_element \<Rightarrow> 8 word" where
  "start_column psv = drop_bit 4 (psv_cols_and_start psv) AND 3"

definition usage_mask :: "dxil_signature_element \<Rightarrow> bool \<Rightarrow> 8 word" where
  "usage_mask elm is_input = (if is_input then elm_rw_mask elm else 0xf AND NOT (elm_rw_mask elm))"

definition SV_metadata :: "dxil_io \<Rightarrow> dxil_signature_element \<Rightarrow> dxil_psv_signature_element \<Rightarrow> bool \<Rightarrow> mdref builder list" where
  "SV_metadata io elm psv is_input =
     (if elm_stream elm \<noteq> 0 then
        [dxil_get_metadata_int32 DXIL_SIGNATURE_ELEMENT_OUTPUT_STREAM, dxil_get_metadata_int32 (elm_stream elm)]
      else []) @
     (if usage_mask elm is_input \<noteq> 0 \<and> 5 \<le> minor_validator io then
        [dxil_get_metadata_int32 DXIL_SIGNATURE_ELEMENT_USAGE_COMPONENT_MASK,
         dxil_get_metadata_int8 (drop_bit (unat (start_column psv)) (usage_mask elm is_input))]
      else []) @
     (if psv_dynamic_mask_and_stream psv AND 0xf \<noteq> 0 then
        [dxil_get_metadata_int32 DXIL_SIGNATURE_ELEMENT_DYNAMIC_INDEX_COMPONENT_MASK,
         dxil_get_metadata_int8 (psv_dynamic_mask_and_stream psv AND 0xf)]
      else [])"

definition fill_SV_param_nodes ::
  "dxil_io \<Rightarrow> 32 word \<Rightarrow> dxil_signature_record \<Rightarrow> dxil_psv_signature_element \<Rightarrow> bool \<Rightarrow> mdref builder" where
  "fill_SV_param_nodes io record_id rec psv is_input m =
     (if length (rec_elements rec) < rec_num_elements rec \<or> rec_elements rec = [] then Inl Undefined else
      let elm = rec_elements rec ! 0
      in bind_result (build_nodes (map (\<lambda>e. dxil_get_metadata_int32 (elm_semantic_index e))
             (take (rec_num_elements rec) (rec_elements rec))) m) (\<lambda>(flattened, m).
         bind_result (build_nodes
            [dxil_get_metadata_int32 record_id,
             (\<lambda>m. Inr (dxil_get_metadata_string (rec_name rec) m)),
             dxil_get_metadata_int8 (rec_sig_comp_type rec),
             dxil_get_metadata_int8 (psv_semantic_kind psv),
             (\<lambda>m. Inr (dxil_get_metadata_node (map Some flattened) m)),
             dxil_get_metadata_int8 (psv_interpolation_mode psv),
             dxil_get_metadata_int32 (ucast (psv_rows psv)),
             dxil_get_metadata_int8 (psv_cols_and_start psv AND 0xf),
             dxil_get_metadata_int32 (elm_reg elm),
             dxil_get_metadata_int8 (start_column psv)] m) (\<lambda>(params, m).
         bind_result (build_nodes (SV_metadata io elm psv is_input) m) (\<lambda>(nodes, m).
           let (extra, m) = (if nodes = [] then (None, m)
                 else let (n, m) = dxil_get_metadata_node (map Some nodes) m in (Some n, m))
           in Inr (dxil_get_metadata_node (map Some params @ [extra]) m)))))"

definition get_signature_metadata ::
  "dxil_io \<Rightarrow> dxil_signature_record list \<Rightarrow> dxil_psv_signature_element list \<Rightarrow> 32 word \<Rightarrow> bool \<Rightarrow>
   mdref option builder" where
  "get_signature_metadata io recs psvs num_elements is_input m =
     (if num_elements = 0 then Inr (None, m)
      else if VARYING_SLOT_MAX * 4 < unat num_elements \<or> length recs < unat num_elements \<or>
        length psvs < unat num_elements then Inl Undefined
      else bind_result (build_nodes (map (\<lambda>i. fill_SV_param_nodes io (of_nat i) (recs ! i) (psvs ! i) is_input)
             [0..<unat num_elements]) m) (\<lambda>(nodes, m).
        let (n, m) = dxil_get_metadata_node (map Some nodes) m in Inr (Some n, m)))"

definition get_signatures :: "dxil_io \<Rightarrow> mdref option builder" where
  "get_signatures io m =
     bind_result (get_signature_metadata io (inputs io) (psv_inputs io) (num_sig_inputs io) True m) (\<lambda>(i, m).
     bind_result (get_signature_metadata io (outputs io) (psv_outputs io) (num_sig_outputs io) False m) (\<lambda>(ou, m).
     bind_result (get_signature_metadata io (patch_consts io) (psv_patch_consts io) (num_sig_patch_consts io)
         (shader_kind io = DXIL_DOMAIN_SHADER) m) (\<lambda>(p, m).
       if ou \<noteq> None \<or> i \<noteq> None \<or> p \<noteq> None
       then let (n, m) = dxil_get_metadata_node [i, ou, p] m in Inr (Some n, m)
       else Inr (None, m))))"

end
