(* ===== verification/Signature_Agreement.thy ===== *)
theory Signature_Agreement
  imports Signature_Loops Preprocess
begin

text \<open>
  \<open>preprocess_signatures\<close> as a whole: from a new module, the three signatures end with records and PSV
  elements that agree, within their registers and within the tables, and the dependency tables have the
  layout of their specification.
\<close>

section \<open>Groups that are finished\<close>

definition group_done :: "group_view \<Rightarrow> dxil_io \<Rightarrow> nat \<Rightarrow> bool" where
  "group_done v m n \<longleftrightarrow> n \<le> DXIL_SHADER_MAX_IO_ROWS \<and> n \<le> length (view_recs v m) \<and> n \<le> length (view_psvs v m) \<and>
     (\<forall>k < n. agrees m (view_recs v m ! k) (view_psvs v m ! k) \<and> within (view_count v m) (view_psvs v m ! k)) \<and>
     (\<forall>c \<in> set (view_counts v m). low c)"

lemma group_inv_done: "group_inv v b (m, n, r) \<Longrightarrow> group_done v m (unat n)"
  by (simp add: group_inv_def group_done_def arrays_ok_def)

lemma group_done_mono:
  assumes "group_done v m n" and "tables_grow m m'" and "view_recs v m' = view_recs v m"
    and "view_psvs v m' = view_psvs v m" and "view_count v m' = view_count v m" and "view_counts v m' = view_counts v m"
  shows "group_done v m' n"
  using assms agrees_grow [OF _ assms(2)] by (simp add: group_done_def)

lemma group_inv_start:
  "arrays_ok m (view_count v m) (view_recs v m) (view_psvs v m) 0 \<Longrightarrow> tables_ok b n m \<Longrightarrow> n \<le> DXIL_SHADER_MAX_IO_ROWS \<Longrightarrow>
   b + 64 * n \<le> 2 ^ 31 \<Longrightarrow>
   length (view_counts v m) \<le> 4 \<Longrightarrow> \<forall>c \<in> set (view_counts v m). low c \<Longrightarrow> group_inv v (b + 64 * n) (m, 0, 0)"
  by (simp add: group_inv_def tables_ok_def low_def)

lemma group_inv_num [simp]:
  "group_inv inputs_view b (m\<lparr>num_sig_inputs := x\<rparr>, n, r) = group_inv inputs_view b (m, n, r)"
  "group_inv outputs_view b (m\<lparr>num_sig_outputs := x\<rparr>, n, r) = group_inv outputs_view b (m, n, r)"
  "group_inv patches_view b (m\<lparr>num_sig_patch_consts := x\<rparr>, n, r) = group_inv patches_view b (m, n, r)"
  using arrays_ok_tables [of "m\<lparr>num_sig_inputs := x\<rparr>" m] arrays_ok_tables [of "m\<lparr>num_sig_outputs := x\<rparr>" m]
    arrays_ok_tables [of "m\<lparr>num_sig_patch_consts := x\<rparr>" m]
  by (simp_all add: group_inv_def inputs_view_def outputs_view_def patches_view_def tables_ok_def)

text \<open>What a whole group does to the module.\<close>

definition group_ran :: "group_view \<Rightarrow> (dxil_io \<Rightarrow> dxil_io) \<Rightarrow> nat \<Rightarrow> dxil_io \<Rightarrow> dxil_io \<Rightarrow> 32 word \<Rightarrow> bool" where
  "group_ran v frame b m m' n \<longleftrightarrow> (\<exists>r. group_inv v b (m', n, r)) \<and> tables_grow m m' \<and> frame m' = frame m"

lemma process_input_ran:
  assumes "process_input_signature s clip m = Inr m'" and "group_inv inputs_view b (m, 0, 0)" and "num_sig_inputs m = 0"
  shows "group_ran inputs_view inputs_frame b m m' (num_sig_inputs m')"
proof (cases "info_stage s = MESA_SHADER_KERNEL")
  case True
  then show ?thesis
    using assms tables_grow_refl by (auto simp: process_input_signature_def group_ran_def)
next
  case False
  let ?get = "if info_stage s = MESA_SHADER_VERTEX then get_semantic_vs_in_name else get_semantic_in_name"
  from assms(1) False obtain ok1 m1 n1 r1 ok2 m2 n2 r2 where
    i: "run_group (input_step s nir_var_shader_in ?get clip) (variables_with_modes s nir_var_shader_in) (m, 0, 0) =
      Inr (ok1, m1, n1, r1)" and
    v: "run_group (input_step s nir_var_system_value get_semantic_sv_name clip)
      (variables_with_modes s nir_var_system_value) (m1\<lparr>num_sig_inputs := n1\<rparr>, n1, r1) = Inr (ok2, m2, n2, r2)" and
    m': "m' = m2\<lparr>num_sig_inputs := n2\<rparr>"
    by (auto simp: process_input_signature_def get_input_signature_group_def Let_def)
  have "step_ok inputs_view inputs_frame b (m, 0, 0) ok1 (m1, n1, r1)"
    using i vs_in.run_law [OF assms(2)] io_in.run_law [OF assms(2)] by (cases "info_stage s = MESA_SHADER_VERTEX") auto
  then have a: "group_inv inputs_view b (m1, n1, r1)" "tables_grow m m1" "inputs_frame m1 = inputs_frame m"
    by (simp_all add: step_ok_def)
  have "step_ok inputs_view inputs_frame b (m1\<lparr>num_sig_inputs := n1\<rparr>, n1, r1) ok2 (m2, n2, r2)"
    using sv_in.run_law [OF _ _ v] a(1) by simp
  then have b: "group_inv inputs_view b (m2, n2, r2)" "tables_grow (m1\<lparr>num_sig_inputs := n1\<rparr>) m2"
    "inputs_frame m2 = inputs_frame (m1\<lparr>num_sig_inputs := n1\<rparr>)" by (simp_all add: step_ok_def)
  have "tables_grow m m'" using tables_grow_trans [OF a(2)] b(2) by (simp add: m' tables_grow_def)
  moreover have "inputs_frame m' = inputs_frame m" using a(3) b(3) by (simp add: m' inputs_frame_def)
  ultimately show ?thesis using b(1) by (auto simp: group_ran_def m')
qed

lemma process_output_ran:
  assumes "process_output_signature s m = Inr m'" and "group_inv outputs_view b (m, 0, 0)" and "indexes_ok s"
  shows "group_ran outputs_view outputs_frame b m m' (num_sig_outputs m')"
proof -
  from assms(1) obtain ok m1 n r where
    run: "run_group (output_step s) (variables_with_modes s nir_var_shader_out) (m, 0, 0) = Inr (ok, m1, n, r)" and
    m': "m' = (if ok then m1\<lparr>num_sig_outputs := n\<rparr> else m1)"
    by (auto simp: process_output_signature_def)
  have "set (variables_with_modes s nir_var_shader_out) \<subseteq> {i. 0 \<le>s var_index (shader_variables s ! i)}"
    using assms(3) visited_in_range by (auto simp: indexes_ok_def)
  from outs.run_law [OF assms(2) this run] have
    a: "ok" "group_inv outputs_view b (m1, n, r)" "tables_grow m m1" "outputs_frame m1 = outputs_frame m"
    by (simp_all add: step_ok_def)
  then show ?thesis
    by (auto simp: group_ran_def m' tables_grow_def outputs_frame_def)
qed

lemma process_patch_const_ran:
  assumes "process_patch_const_signature s m = Inr m'" and "group_inv patches_view b (m, 0, 0)"
    and "num_sig_patch_consts m = 0"
  shows "group_ran patches_view patches_frame b m m' (num_sig_patch_consts m')"
proof (cases "info_stage s \<noteq> MESA_SHADER_TESS_CTRL \<and> info_stage s \<noteq> MESA_SHADER_TESS_EVAL")
  case True
  then show ?thesis
    using assms tables_grow_refl by (auto simp: process_patch_const_signature_def group_ran_def)
next
  case False
  define mode where "mode = (if info_stage s = MESA_SHADER_TESS_CTRL then nir_var_shader_out else nir_var_shader_in)"
  from assms(1) False obtain ok m1 n r where
    run: "run_group (patch_step s mode) (variables_with_modes s mode) (m, 0, 0) = Inr (ok, m1, n, r)" and
    m': "m' = (if ok then m1\<lparr>num_sig_patch_consts := n\<rparr> else m1)"
    by (auto simp: process_patch_const_signature_def Let_def mode_def split: prod.splits)
  from patches.run_law [OF assms(2) _ run] have
    a: "ok" "group_inv patches_view b (m1, n, r)" "tables_grow m m1" "patches_frame m1 = patches_frame m"
    by (simp_all add: step_ok_def)
  then show ?thesis
    by (auto simp: group_ran_def m' tables_grow_def patches_frame_def)
qed

section \<open>The whole function\<close>

definition signatures_agree :: "dxil_io \<Rightarrow> bool" where
  "signatures_agree m \<longleftrightarrow> group_done inputs_view m (unat (num_sig_inputs m)) \<and>
     group_done outputs_view m (unat (num_sig_outputs m)) \<and>
     group_done patches_view m (unat (num_sig_patch_consts m))"

definition new_io :: "dxil_shader_kind \<Rightarrow> 32 word \<Rightarrow> 32 word \<Rightarrow> 32 word \<Rightarrow> dxil_io" where
  "new_io kind major minor validator = dxil_io_init\<lparr>shader_kind := kind, major_version := major,
     minor_version := minor, minor_validator := validator\<rparr>"

lemmas views = inputs_view_def outputs_view_def patches_view_def

lemma new_arrays_ok: "arrays_ok m count (replicate 128 zero_record) (replicate 128 zero_psv_element) 0"
  by (simp add: arrays_ok_def DXIL_SHADER_MAX_IO_ROWS_def zero_record_def)

lemma inputs_frame_fields:
  assumes "inputs_frame m' = inputs_frame m"
  shows "outputs m' = outputs m" and "psv_outputs m' = psv_outputs m"
    and "num_psv_outputs m' = num_psv_outputs m" and "num_sig_outputs m' = num_sig_outputs m"
    and "patch_consts m' = patch_consts m" and "psv_patch_consts m' = psv_patch_consts m"
    and "num_psv_patch_consts m' = num_psv_patch_consts m"
    and "num_sig_patch_consts m' = num_sig_patch_consts m"
    and "dependency_table_dwords_per_input m' = dependency_table_dwords_per_input m"
    and "io_dependency_table_size m' = io_dependency_table_size m"
    and "viewid_dependency_table m' = viewid_dependency_table m"
    and "io_dependency_table m' = io_dependency_table m"
  using arg_cong [OF assms, of outputs] arg_cong [OF assms, of psv_outputs]
    arg_cong [OF assms, of num_psv_outputs] arg_cong [OF assms, of num_sig_outputs]
    arg_cong [OF assms, of patch_consts] arg_cong [OF assms, of psv_patch_consts]
    arg_cong [OF assms, of num_psv_patch_consts] arg_cong [OF assms, of num_sig_patch_consts]
    arg_cong [OF assms, of dependency_table_dwords_per_input]
    arg_cong [OF assms, of io_dependency_table_size] arg_cong [OF assms, of viewid_dependency_table]
    arg_cong [OF assms, of io_dependency_table]
  by (simp_all add: inputs_frame_def)

lemma outputs_frame_fields:
  assumes "outputs_frame m' = outputs_frame m"
  shows "inputs m' = inputs m" and "psv_inputs m' = psv_inputs m" and "num_psv_inputs m' = num_psv_inputs m"
    and "num_sig_inputs m' = num_sig_inputs m" and "patch_consts m' = patch_consts m"
    and "psv_patch_consts m' = psv_patch_consts m" and "num_psv_patch_consts m' = num_psv_patch_consts m"
    and "num_sig_patch_consts m' = num_sig_patch_consts m"
    and "dependency_table_dwords_per_input m' = dependency_table_dwords_per_input m"
    and "io_dependency_table_size m' = io_dependency_table_size m"
    and "viewid_dependency_table m' = viewid_dependency_table m"
    and "io_dependency_table m' = io_dependency_table m"
  using arg_cong [OF assms, of inputs] arg_cong [OF assms, of psv_inputs]
    arg_cong [OF assms, of num_psv_inputs] arg_cong [OF assms, of num_sig_inputs]
    arg_cong [OF assms, of patch_consts] arg_cong [OF assms, of psv_patch_consts]
    arg_cong [OF assms, of num_psv_patch_consts] arg_cong [OF assms, of num_sig_patch_consts]
    arg_cong [OF assms, of dependency_table_dwords_per_input]
    arg_cong [OF assms, of io_dependency_table_size] arg_cong [OF assms, of viewid_dependency_table]
    arg_cong [OF assms, of io_dependency_table]
  by (simp_all add: outputs_frame_def)

lemma patches_frame_fields:
  assumes "patches_frame m' = patches_frame m"
  shows "inputs m' = inputs m" and "psv_inputs m' = psv_inputs m" and "num_psv_inputs m' = num_psv_inputs m"
    and "num_sig_inputs m' = num_sig_inputs m" and "outputs m' = outputs m"
    and "psv_outputs m' = psv_outputs m" and "num_psv_outputs m' = num_psv_outputs m"
    and "num_sig_outputs m' = num_sig_outputs m"
    and "dependency_table_dwords_per_input m' = dependency_table_dwords_per_input m"
    and "io_dependency_table_size m' = io_dependency_table_size m"
    and "viewid_dependency_table m' = viewid_dependency_table m"
    and "io_dependency_table m' = io_dependency_table m"
  using arg_cong [OF assms, of inputs] arg_cong [OF assms, of psv_inputs]
    arg_cong [OF assms, of num_psv_inputs] arg_cong [OF assms, of num_sig_inputs]
    arg_cong [OF assms, of outputs] arg_cong [OF assms, of psv_outputs]
    arg_cong [OF assms, of num_psv_outputs] arg_cong [OF assms, of num_sig_outputs]
    arg_cong [OF assms, of dependency_table_dwords_per_input]
    arg_cong [OF assms, of io_dependency_table_size] arg_cong [OF assms, of viewid_dependency_table]
    arg_cong [OF assms, of io_dependency_table]
  by (simp_all add: patches_frame_def)

lemma tables_frame_fields:
  assumes "tables_frame m' = tables_frame m"
  shows "inputs m' = inputs m" and "psv_inputs m' = psv_inputs m" and "num_psv_inputs m' = num_psv_inputs m"
    and "num_sig_inputs m' = num_sig_inputs m" and "outputs m' = outputs m"
    and "psv_outputs m' = psv_outputs m" and "num_psv_outputs m' = num_psv_outputs m"
    and "num_sig_outputs m' = num_sig_outputs m" and "patch_consts m' = patch_consts m"
    and "psv_patch_consts m' = psv_patch_consts m" and "num_psv_patch_consts m' = num_psv_patch_consts m"
    and "num_sig_patch_consts m' = num_sig_patch_consts m" and "sem_string_table m' = sem_string_table m"
    and "sem_index_table m' = sem_index_table m"
  using arg_cong [OF assms, of inputs] arg_cong [OF assms, of psv_inputs]
    arg_cong [OF assms, of num_psv_inputs] arg_cong [OF assms, of num_sig_inputs]
    arg_cong [OF assms, of outputs] arg_cong [OF assms, of psv_outputs]
    arg_cong [OF assms, of num_psv_outputs] arg_cong [OF assms, of num_sig_outputs]
    arg_cong [OF assms, of patch_consts] arg_cong [OF assms, of psv_patch_consts]
    arg_cong [OF assms, of num_psv_patch_consts] arg_cong [OF assms, of num_sig_patch_consts]
    arg_cong [OF assms, of sem_string_table] arg_cong [OF assms, of sem_index_table]
  by (simp_all add: tables_frame_def)

lemma outputs_frame_length:
  assumes "outputs_frame m' = outputs_frame m"
  shows "length (num_psv_outputs m') = length (num_psv_outputs m)"
  using arg_cong [OF assms, of "\<lambda>m. length (num_psv_outputs m)"] by (simp add: outputs_frame_def)

text \<open>One group after the other: the next one starts with the tables that the last one has left.\<close>

lemma group_ran_tables:
  "group_ran v frame b m m' n \<Longrightarrow> tables_ok b (unat n) m' \<and> unat n \<le> 128 \<and> group_done v m' (unat n)"
  using group_inv_done by (auto simp: group_ran_def group_inv_def arrays_ok_def DXIL_SHADER_MAX_IO_ROWS_def)

lemma next_group:
  assumes "group_ran v' frame b m m' n" and "b + 64 * unat n \<le> 2 ^ 31"
    and "view_recs v m' = replicate 128 zero_record" and "view_psvs v m' = replicate 128 zero_psv_element"
    and "length (view_counts v m') \<le> 4" and "set (view_counts v m') \<subseteq> {0}"
  shows "group_inv v (b + 64 * unat n) (m', 0, 0)"
proof (rule group_inv_start)
  show "arrays_ok m' (view_count v m') (view_recs v m') (view_psvs v m') 0"
    unfolding assms(3,4) by (rule new_arrays_ok)
  show "\<forall>c \<in> set (view_counts v m'). low c" using assms(6) by (auto simp: low_def)
qed (use group_ran_tables [OF assms(1)] assms(2,5) in \<open>simp_all add: DXIL_SHADER_MAX_IO_ROWS_def\<close>)

definition signature_parts :: "nir_shader \<Rightarrow> 32 word \<Rightarrow> dxil_io \<Rightarrow> dxil_io result" where
  "signature_parts s clip m =
     bind_result (process_input_signature s clip m) (\<lambda>m.
     bind_result (process_output_signature s m) (process_patch_const_signature s))"

lemma signature_parts_agree:
  assumes "signature_parts s clip (new_io kind major minor validator\<lparr>sem_string_table := [0]\<rparr>) = Inr m"
    and "indexes_ok s"
  shows "signatures_agree m \<and> registers_ok m \<and> tables_unset m"
proof -
  let ?m0 = "new_io kind major minor validator\<lparr>sem_string_table := [0]\<rparr>"
  from assms(1) obtain m1 m2 where m1: "process_input_signature s clip ?m0 = Inr m1"
    and m2: "process_output_signature s m1 = Inr m2" and m3: "process_patch_const_signature s m2 = Inr m"
    by (auto simp: signature_parts_def)
  have fresh: "inputs ?m0 = replicate 128 zero_record" "outputs ?m0 = replicate 128 zero_record"
    "patch_consts ?m0 = replicate 128 zero_record" "psv_inputs ?m0 = replicate 128 zero_psv_element"
    "psv_outputs ?m0 = replicate 128 zero_psv_element" "psv_patch_consts ?m0 = replicate 128 zero_psv_element"
    "num_sig_inputs ?m0 = 0" "num_sig_patch_consts ?m0 = 0" "num_psv_inputs ?m0 = 0"
    "num_psv_outputs ?m0 = replicate 4 0" "num_psv_patch_consts ?m0 = 0" "tables_unset ?m0"
    by (simp_all add: new_io_def dxil_io_init_def DXIL_SHADER_MAX_IO_ROWS_def tables_unset_def)
  have "tables_ok 1 0 ?m0" by (simp add: tables_ok_def new_io_def dxil_io_init_def)
  then have "group_inv inputs_view 1 (?m0, 0, 0)"
    using group_inv_start [of ?m0 inputs_view 1 0] new_arrays_ok fresh by (simp add: views low_def)
  note i = process_input_ran [OF m1 this fresh(7)]
  note ik = i [THEN group_ran_tables]
  have f1: "inputs_frame m1 = inputs_frame ?m0" using i by (simp add: group_ran_def)
  have "group_inv outputs_view (1 + 64 * unat (num_sig_inputs m1)) (m1, 0, 0)"
    by (rule next_group [OF i]) (use ik fresh inputs_frame_fields [OF f1] in \<open>simp_all add: views\<close>)
  note ou = process_output_ran [OF m2 this assms(2)]
  note ok = ou [THEN group_ran_tables]
  have f2: "outputs_frame m2 = outputs_frame m1" "tables_grow m1 m2" using ou by (simp_all add: group_ran_def)
  have "group_inv patches_view (1 + 64 * unat (num_sig_inputs m1) + 64 * unat (num_sig_outputs m2)) (m2, 0, 0)"
    by (rule next_group [OF ou])
      (use ik ok fresh inputs_frame_fields [OF f1] outputs_frame_fields [OF f2(1)] in \<open>simp_all add: views\<close>)
  note p = process_patch_const_ran [OF m3 this]
  have z: "num_sig_patch_consts m2 = 0"
    using fresh inputs_frame_fields [OF f1] outputs_frame_fields [OF f2(1)] by simp
  note pk = p [OF z, THEN group_ran_tables]
  have f3: "patches_frame m = patches_frame m2" "tables_grow m2 m" using p [OF z] by (simp_all add: group_ran_def)
  note same = outputs_frame_fields [OF f2(1)] patches_frame_fields [OF f3(1)]
  have "group_done inputs_view m (unat (num_sig_inputs m1))"
    by (rule group_done_mono [OF conjunct2 [OF conjunct2 [OF ik]] tables_grow_trans [OF f2(2) f3(2)]])
      (use same in \<open>simp_all add: views\<close>)
  moreover have "group_done outputs_view m (unat (num_sig_outputs m2))"
    by (rule group_done_mono [OF conjunct2 [OF conjunct2 [OF ok]] f3(2)]) (use same in \<open>simp_all add: views\<close>)
  ultimately have finished: "signatures_agree m" using pk same by (simp add: signatures_agree_def)
  moreover have "registers_ok m"
    using finished outputs_frame_length [OF f2(1)] same inputs_frame_fields(3) [OF f1] fresh
    by (auto simp: signatures_agree_def group_done_def registers_ok_def views low_def word_le_nat_alt)
  moreover have "tables_unset m" using fresh inputs_frame_fields [OF f1] same by (simp add: tables_unset_def)
  ultimately show ?thesis by blast
qed

text \<open>The parts and the dependency tables are the whole function.\<close>

lemma preprocess_parts:
  assumes "preprocess_signatures s clip m0 = Inr m"
  shows "\<exists>m'. signature_parts s clip (m0\<lparr>sem_string_table := [0]\<rparr>) = Inr m' \<and> prepare_dependency_tables s m' = Inr m"
proof -
  have "copy_semantic_name_to_string [] [] = Inr (0, [0])"
    by (simp add: copy_semantic_name_to_string_def append_text_fits string_bytes_def)
  then show ?thesis using assms by (auto simp: preprocess_signatures_def signature_parts_def)
qed


end
