(* ===== verification/Signature_Example.thy ===== *)
theory Signature_Example
  imports Signature_Agreement
begin

text \<open>A vertex shader with one input and its position as the output, run through \<open>preprocess_signatures\<close>.\<close>

definition example_variable :: "32 word \<Rightarrow> 32 word \<Rightarrow> 32 word \<Rightarrow> nir_variable" where
  "example_variable mode location driver_location =
     \<lparr>var_type = Glsl_basic GLSL_TYPE_FLOAT 4 1 GLSL_TYPE_VOID GLSL_SAMPLER_DIM_1D False, var_name = ''v'', var_mode = mode, var_centroid = False,
      var_sample = False, var_patch = False, var_interpolation = INTERP_MODE_NONE, var_location_frac = 0,
      var_compact = False, var_per_view = False, var_per_primitive = False, var_per_vertex = False,
      var_stream = 0, var_index = 0, var_location = location, var_driver_location = driver_location\<rparr>"

definition example_shader :: nir_shader where
  "example_shader = \<lparr>shader_variables = [example_variable nir_var_shader_in 17 0,
       example_variable nir_var_shader_out VARYING_SLOT_POS 0],
     info_stage = MESA_SHADER_VERTEX, clip_distance_array_size = 0, system_values_read = (\<lambda>_. False)\<rparr>"

lemma new_io_fields [simp]:
  "inputs (new_io k j i v) = replicate 128 zero_record" "outputs (new_io k j i v) = replicate 128 zero_record"
  "input_mappings (new_io k j i v) = replicate 512 0" "output_mappings (new_io k j i v) = replicate 512 0"
  "psv_inputs (new_io k j i v) = replicate 128 zero_psv_element"
  "psv_outputs (new_io k j i v) = replicate 128 zero_psv_element"
  "num_psv_inputs (new_io k j i v) = 0" "num_psv_outputs (new_io k j i v) = replicate 4 0"
  "sem_index_table (new_io k j i v) = []" "minor_validator (new_io k j i v) = v"
  by (simp_all add: new_io_def dxil_io_init_def DXIL_SHADER_MAX_IO_ROWS_def)

lemma example_variables [simp]:
  "variables_with_modes example_shader nir_var_shader_in = [0]"
  "variables_with_modes example_shader nir_var_system_value = []"
  "variables_with_modes example_shader nir_var_shader_out = [1]"
  by (simp_all add: variables_with_modes_def example_shader_def example_variable_def nir_shader_variable_has_mode_def
      nir_var_shader_in_def nir_var_shader_out_def nir_var_system_value_def)

lemma example_type [simp]:
  "io_element_type (example_variable mode location d) MESA_SHADER_VERTEX = Inr (glsl_vector GLSL_TYPE_FLOAT 4)"
  by (simp add: io_element_type_def nir_is_arrayed_io_def example_variable_def glsl_type_is_array_def)

text \<open>The semantics of its variables, with a register each.\<close>

definition placed :: "semantic_info \<Rightarrow> semantic_info" where
  "placed info = info\<lparr>sem_comp_type := DXIL_PROG_SIG_COMP_TYPE_FLOAT32, sem_sig_comp_type := 9, sem_stream := 0,
     sem_rows := 1, sem_start_row := 0, sem_start_col := 0, sem_cols := 4\<rparr>"

lemma example_comp_type:
  "dxil_get_prog_sig_comp_type (glsl_vector GLSL_TYPE_FLOAT 4) = DXIL_PROG_SIG_COMP_TYPE_FLOAT32"
  "dxil_get_comp_type_from_prog_sig_type DXIL_PROG_SIG_COMP_TYPE_FLOAT32 = Inr DXIL_COMP_TYPE_F32"
  by code_simp+

lemma example_slots:
  "glsl_count_vec4_slots (glsl_vector GLSL_TYPE_FLOAT 4) = Inr 1"
  "ucast (min (glsl_get_component_slots (glsl_vector GLSL_TYPE_FLOAT 4)) 4) = (4 :: 8 word)"
  "glsl_type_is_array (glsl_vector GLSL_TYPE_FLOAT 4) = False"
  by code_simp+

lemma example_registers:
  assumes "sem_kind info = DXIL_SEM_ARBITRARY \<or> sem_kind info = DXIL_SEM_POSITION"
  shows "assign_registers example_shader (example_variable mode location d) info None 0 clip = Inr (placed info, 1)"
proof -
  have "var_compact (example_variable mode location d) = False" "var_stream (example_variable mode location d) = 0"
    "var_location_frac (example_variable mode location d) = 0" "info_stage example_shader = MESA_SHADER_VERTEX"
    by (simp_all add: example_variable_def example_shader_def)
  moreover have "\<not> (sem_kind info = DXIL_SEM_TARGET)" "\<not> is_depth_output (sem_kind info)"
    "\<not> (sem_kind info = DXIL_SEM_PRIMITIVE_ID)" "\<not> (sem_kind info = DXIL_SEM_COVERAGE)"
    "\<not> (sem_kind info = DXIL_SEM_SAMPLE_INDEX)" "\<not> (sem_kind info = DXIL_SEM_TESS_FACTOR)"
    "\<not> (sem_kind info = DXIL_SEM_INSIDE_TESS_FACTOR)"
    using assms by (auto simp: is_depth_output_def)
  ultimately show ?thesis
    unfolding assign_registers_def get_additional_semantic_info_def Let_def
    by (simp add: example_comp_type example_slots placed_def)
qed

lemma placed_fields [simp]:
  "sem_kind (placed info) = sem_kind info" "sem_name (placed info) = sem_name info" "sem_index (placed info) = sem_index info"
  "sem_rows (placed info) = 1" "sem_start_row (placed info) = 0" "sem_start_col (placed info) = 0"
  "sem_cols (placed info) = 4" "sem_stream (placed info) = 0"
  by (simp_all add: placed_def)

lemma append_index_returns:
  "length table < 128 \<Longrightarrow> \<exists>offset table'. append_semantic_index_to_table table index 1 = Inr (offset, table')"
proof -
  assume len: "length table < 128"
  then have "(of_nat (length table) + 1 :: 32 word) \<le> 128"
    by (simp add: word_le_nat_alt unat_word_ariths unat_of_nat)
  then show ?thesis
    using len by (auto simp: append_semantic_index_to_table_def SEM_INDEX_TABLE_SIZE_def split: option.splits)
qed

lemma example_fill:
  assumes "sem_kind info = DXIL_SEM_ARBITRARY \<or> sem_kind info = DXIL_SEM_POSITION"
    and "length (rec_elements rec) = 32" and len: "length (sem_index_table m) < 128"
    and room: "length (sem_string_table m) + length (sem_name info) + 2 < 2 ^ 32"
  shows "\<exists>rec' psv str table. fill_io_signature (placed info) rec m = Inr (True, rec', psv, set_tables str table m) \<and>
    length table \<le> length (sem_index_table m) + 1 \<and> length str \<le> length (sem_string_table m) + length (sem_name info) + 1"
proof -
  have e: "rec_elements rec \<noteq> []" using assms(2) by auto
  obtain e0 where e0: "fill_signature_element (placed info) 0 = Inr e0"
    using assms(1) by (auto simp: fill_signature_element_def prog_semantic_from_kind_def)
  obtain offset str where "copy_semantic_name_to_string (sem_string_table m) (sem_name info) = Inr (offset, str)"
    using room by (auto simp: copy_semantic_name_to_string_def append_text_fits)
  moreover obtain o2 table where t: "append_semantic_index_to_table (sem_index_table m) (sem_index info) 1 = Inr (o2, table)"
    using append_index_returns [OF len] by blast
  ultimately have "fill_psv_signature_element (placed info) m \<noteq> Inl e" for e
    by (auto simp: fill_psv_signature_element_def Let_def word_sle_eq word_sless_alt bind_result_Inl_iff split: if_splits)
  then obtain ok psv m' where psv: "fill_psv_signature_element (placed info) m = Inr (ok, psv, m')"
    by (cases "fill_psv_signature_element (placed info) m") auto
  then obtain str' table' where m': "ok" "m' = set_tables str' table' m"
    "append_semantic_index_to_table (sem_index_table m) (sem_index info) 1 = Inr (psv_semantic_indexes_offset psv, table')"
    using fill_psv_Inr [OF psv] room by auto
  have "length table' \<le> length (sem_index_table m) + 1"
    using append_index_first [OF m'(3)] len by (auto simp: SEM_INDEX_TABLE_SIZE_def split: option.splits)
  moreover have "length str' \<le> length (sem_string_table m) + length (sem_name info) + 1"
    using fill_tables [OF psv] room len m'(2) by (simp add: SEM_INDEX_TABLE_SIZE_def set_tables_def)
  moreover have "\<exists>rec'. fill_io_signature (placed info) rec m = Inr (True, rec', psv, set_tables str' table' m)"
    using e e0 psv m'(1,2) by (simp add: fill_io_signature_def Let_def)
  ultimately show ?thesis by blast
qed

text \<open>The two steps.\<close>

lemma example_input: "\<exists>recs psvs maps str table.
    input_step example_shader nir_var_shader_in get_semantic_vs_in_name 0 0
      (new_io DXIL_VERTEX_SHADER 6 0 4\<lparr>sem_string_table := [0]\<rparr>, 0, 0) =
    Inr (True, new_io DXIL_VERTEX_SHADER 6 0 4\<lparr>inputs := recs, psv_inputs := psvs, input_mappings := maps,
      num_psv_inputs := 1, sem_string_table := str, sem_index_table := table\<rparr>, 1, 1) \<and>
    length str \<le> 10 \<and> length table \<le> 1"
proof -
  let ?m0 = "new_io DXIL_VERTEX_SHADER 6 0 4\<lparr>sem_string_table := [0]\<rparr>"
  let ?var = "example_variable nir_var_shader_in 17 0"
  let ?info = "zero_semantic\<lparr>sem_name := ''TEXCOORD'', sem_index := 0, sem_kind := DXIL_SEM_ARBITRARY\<rparr>"
  let ?rec = "zero_record\<lparr>rec_sysvalue := sem_sysvalue_name zero_semantic\<rparr>"
  let ?m1 = "?m0\<lparr>inputs := (replicate 128 zero_record)[0 := ?rec], input_mappings := (replicate 512 0)[0 := 0]\<rparr>"
  have var: "shader_variables example_shader ! 0 = ?var" "info_stage example_shader = MESA_SHADER_VERTEX"
    "var_patch ?var = False" "var_location_frac ?var = 0" "var_driver_location ?var = 0"
    by (simp_all add: example_shader_def example_variable_def)
  have "get_semantic_vs_in_name ?var zero_semantic MESA_SHADER_VERTEX = Inr ?info"
    by (simp add: get_semantic_vs_in_name_def example_variable_def)
  moreover obtain rec psv str table where
    "fill_io_signature (placed ?info) ?rec ?m1 = Inr (True, rec, psv, set_tables str table ?m1)" and
    len: "length str \<le> 10" "length table \<le> 1"
    using example_fill [of ?info ?rec ?m1] by (auto simp: zero_record_def)
  moreover have "assign_registers example_shader ?var ?info None 0 0 = Inr (placed ?info, 1)"
    by (rule example_registers) simp
  moreover have "(1 :: 32 word) < of_nat (VARYING_SLOT_MAX * 4)" by code_simp
  ultimately have "input_step example_shader nir_var_shader_in get_semantic_vs_in_name 0 0 (?m0, 0, 0) =
      Inr (True, new_io DXIL_VERTEX_SHADER 6 0 4\<lparr>inputs := (replicate 128 zero_record)[0 := rec],
        psv_inputs := (replicate 128 zero_psv_element)[0 := psv], input_mappings := (replicate 512 0)[0 := 0],
        num_psv_inputs := 1, sem_string_table := str, sem_index_table := table\<rparr>, 1, 1)"
    using var by (simp add: input_step_def Let_def set_tables_def ex_bool_eq)
  then show ?thesis using len by blast
qed

lemma example_output:
  assumes "length str \<le> 10" and "length table \<le> 1"
  shows "\<exists>m. output_step example_shader 1 (new_io DXIL_VERTEX_SHADER 6 0 4\<lparr>inputs := recs, psv_inputs := psvs,
      input_mappings := maps, num_psv_inputs := 1, sem_string_table := str, sem_index_table := table, num_sig_inputs := 1\<rparr>,
      0, 0) = Inr (True, m, 1, 1) \<and> num_sig_inputs m = 1"
proof -
  let ?m0 = "new_io DXIL_VERTEX_SHADER 6 0 4\<lparr>inputs := recs, psv_inputs := psvs, input_mappings := maps,
    num_psv_inputs := 1, sem_string_table := str, sem_index_table := table, num_sig_inputs := 1\<rparr>"
  let ?var = "example_variable nir_var_shader_out VARYING_SLOT_POS 0"
  let ?info = "zero_semantic\<lparr>sem_kind := DXIL_SEM_POSITION, sem_interpolation := interpolation_byte ?var,
    sem_name := ''SV_Position''\<rparr>"
  let ?rec = "zero_record\<lparr>rec_sysvalue := Some ''POS''\<rparr>"
  let ?m1 = "?m0\<lparr>outputs := (replicate 128 zero_record)[0 := ?rec], has_out_position := True,
    output_mappings := (replicate 512 0)[0 := 0]\<rparr>"
  have var: "shader_variables example_shader ! 1 = ?var" "info_stage example_shader = MESA_SHADER_VERTEX"
    "var_patch ?var = False" "var_location_frac ?var = 0" "var_driver_location ?var = 0"
    by (simp_all add: example_shader_def example_variable_def)
  have loc: "var_location ?var = VARYING_SLOT_POS" by (simp add: example_variable_def)
  have "glsl_get_components (glsl_vector GLSL_TYPE_FLOAT 4) = 4" by code_simp
  then have "output_semantic example_shader ?var = Inr (?info, ''POS'')"
    using var loc by (simp add: output_semantic_def get_semantic_name_def named_semantic_def out_sysvalue_name_def
        location_defs Let_def)
  moreover obtain rec psv str' table' where
    "fill_io_signature (placed ?info) ?rec ?m1 = Inr (True, rec, psv, set_tables str' table' ?m1)"
    using example_fill [of ?info ?rec ?m1] assms by (auto simp: zero_record_def)
  moreover have "assign_registers example_shader ?var ?info None 0 (ucast (clip_distance_array_size example_shader)) =
      Inr (placed ?info, 1)"
    by (rule example_registers) simp
  ultimately have "output_step example_shader 1 (?m0, 0, 0) = Inr (True, set_tables str' table' ?m1\<lparr>
      outputs := (replicate 128 zero_record)[0 := set_never_writes_masks (set_tables str' table' ?m1) rec],
      psv_outputs := (replicate 128 zero_psv_element)[0 := psv], num_psv_outputs := (replicate 4 0)[0 := 1]\<rparr>, 1, 1)"
    using var by (simp add: output_step_def output_base_var_def Let_def set_tables_def) (rule exI, rule TrueI)
  moreover have "num_sig_inputs (set_tables str' table' ?m1\<lparr>
      outputs := (replicate 128 zero_record)[0 := set_never_writes_masks (set_tables str' table' ?m1) rec],
      psv_outputs := (replicate 128 zero_psv_element)[0 := psv], num_psv_outputs := (replicate 4 0)[0 := 1]\<rparr>) = 1"
    by (simp add: set_tables_def)
  ultimately show ?thesis by blast
qed

text \<open>The whole function.\<close>

lemma example_runs:
  "\<exists>m. preprocess_signatures example_shader 0 (new_io DXIL_VERTEX_SHADER 6 0 4) = Inr m \<and>
     num_sig_inputs m = 1 \<and> num_sig_outputs m = 1"
proof -
  let ?m0 = "new_io DXIL_VERTEX_SHADER 6 0 4"
  have stage: "info_stage example_shader = MESA_SHADER_VERTEX" by (simp add: example_shader_def)
  obtain recs psvs maps str table where
    i: "input_step example_shader nir_var_shader_in get_semantic_vs_in_name 0 0 (?m0\<lparr>sem_string_table := [0]\<rparr>, 0, 0) =
      Inr (True, ?m0\<lparr>inputs := recs, psv_inputs := psvs, input_mappings := maps, num_psv_inputs := 1,
        sem_string_table := str, sem_index_table := table\<rparr>, 1, 1)" and
    len: "length str \<le> 10" "length table \<le> 1" using example_input by blast
  let ?m1 = "?m0\<lparr>inputs := recs, psv_inputs := psvs, input_mappings := maps, num_psv_inputs := 1,
    sem_string_table := str, sem_index_table := table, num_sig_inputs := 1\<rparr>"
  obtain m2 where o: "output_step example_shader 1 (?m1, 0, 0) = Inr (True, m2, 1, 1)" "num_sig_inputs m2 = 1"
    using example_output [OF len] by blast
  let ?m3 = "m2\<lparr>num_sig_outputs := 1\<rparr>"
  have parts: "signature_parts example_shader 0 (?m0\<lparr>sem_string_table := [0]\<rparr>) = Inr (m2\<lparr>num_sig_outputs := 1\<rparr>)"
    using i o(1) stage by (simp add: signature_parts_def process_input_signature_def get_input_signature_group_def
        process_output_signature_def process_patch_const_signature_def)
  have "indexes_ok example_shader" by (simp add: indexes_ok_def example_shader_def example_variable_def)
  from signature_parts_agree [OF parts this] obtain m where m: "prepare_dependency_tables example_shader ?m3 = Inr m"
    using prepare_tables_laid_out [of ?m3 example_shader] by blast
  have "num_sig_inputs m = 1" "num_sig_outputs m = 1"
    using tables_frame_fields [OF prepare_dependency_tables_frame [OF m]] o(2) by simp_all
  moreover have "copy_semantic_name_to_string [] [] = Inr (0, [0])"
    by (simp add: copy_semantic_name_to_string_def append_text_fits string_bytes_def)
  then have "preprocess_signatures example_shader 0 ?m0 = Inr m"
    using parts m by (auto simp: preprocess_signatures_def signature_parts_def)
  ultimately show ?thesis by blast
qed


end
