(* ===== verification/Nir_Instrs.thy ===== *)
theory Nir_Instrs
  imports Consts
begin

text \<open>
  What \<open>nir_to_dxil.c\<close> reads of the instructions of NIR (\<open>nir.h\<close>, \<open>nir_defines.h\<close>): definitions and
  sources, constants, arithmetic instructions with the table of operations (\<open>mesa_generated/nir_opcodes.c\<close>,
  for the operations that the code below handles), phis, and the tree of control flow.

  The lists of uses of a definition are reduced to what is asked of them, whether one of the users is a
  phi. A source knows the values of its definition when that is a \<open>load_const\<close>.
\<close>

section \<open>Operations\<close>

text \<open>Moves, vectors and the operations that have their own treatment of the types.\<close>

datatype nir_move_op =
  nir_op_bcsel | nir_op_mov | nir_op_pack_double_2x32_dxil | nir_op_unpack_double_2x32_dxil | nir_op_vec16 |
  nir_op_vec2 | nir_op_vec3 | nir_op_vec4 | nir_op_vec8

text \<open>Conversions that become a cast.\<close>

datatype nir_conversion_op =
  nir_op_b2i16 | nir_op_b2i32 | nir_op_b2i64 | nir_op_f2f16 | nir_op_f2f16_rtz | nir_op_f2f32 | nir_op_f2f64 |
  nir_op_f2fmp | nir_op_f2i16 | nir_op_f2i32 | nir_op_f2i64 | nir_op_f2imp | nir_op_f2u16 | nir_op_f2u32 |
  nir_op_f2u64 | nir_op_f2ump | nir_op_i2f16 | nir_op_i2f32 | nir_op_i2f64 | nir_op_i2fmp | nir_op_i2i1 |
  nir_op_i2i16 | nir_op_i2i32 | nir_op_i2i64 | nir_op_i2imp | nir_op_u2f16 | nir_op_u2f32 | nir_op_u2f64 |
  nir_op_u2fmp | nir_op_u2u1 | nir_op_u2u16 | nir_op_u2u32 | nir_op_u2u64

text \<open>Operations on integers and booleans.\<close>

datatype nir_int_op =
  nir_op_b2f16 | nir_op_b2f32 | nir_op_b2f64 | nir_op_bit_count | nir_op_bitfield_insert |
  nir_op_bitfield_reverse | nir_op_find_lsb | nir_op_iadd | nir_op_iand | nir_op_ibfe | nir_op_idiv |
  nir_op_ieq | nir_op_ifind_msb_rev | nir_op_ige | nir_op_ilt | nir_op_imax | nir_op_imin | nir_op_imod |
  nir_op_imul | nir_op_ine | nir_op_inot | nir_op_ior | nir_op_irem | nir_op_ishl | nir_op_ishr | nir_op_isub |
  nir_op_ixor | nir_op_sdot_4x8_iadd | nir_op_ubfe | nir_op_udiv | nir_op_udot_4x8_uadd |
  nir_op_ufind_msb_rev | nir_op_uge | nir_op_ult | nir_op_umax | nir_op_umin | nir_op_umod |
  nir_op_unpack_half_x_dxil | nir_op_ushr

text \<open>Operations on floating-point numbers.\<close>

datatype nir_float_op =
  nir_op_fabs | nir_op_fadd | nir_op_fceil | nir_op_fcos | nir_op_fdiv | nir_op_feq | nir_op_fexp2 |
  nir_op_ffloor | nir_op_ffma | nir_op_ffract | nir_op_fge | nir_op_fisfinite | nir_op_fisnormal |
  nir_op_flog2 | nir_op_flt | nir_op_fmax | nir_op_fmin | nir_op_fmul | nir_op_fneu | nir_op_frcp |
  nir_op_fround_even | nir_op_frsq | nir_op_fsat | nir_op_fsin | nir_op_fsqrt | nir_op_fsub | nir_op_ftrunc |
  nir_op_pack_half_2x16_split

text \<open>An operation that is none of these is known by its types only.\<close>

datatype nir_op =
  MOVE_OP nir_move_op | CONVERSION_OP nir_conversion_op | INT_OP nir_int_op | FLOAT_OP nir_float_op |
  OTHER_OP nir_alu_type "nir_alu_type list"

text \<open>The type of the result and of the inputs.\<close>

primrec nir_move_op_info :: "nir_move_op \<Rightarrow> nir_alu_type \<times> nir_alu_type list" where
  "nir_move_op_info nir_op_bcsel = (nir_type_uint, [nir_type_bool1, nir_type_uint, nir_type_uint])"
| "nir_move_op_info nir_op_mov = (nir_type_uint, [nir_type_uint])"
| "nir_move_op_info nir_op_pack_double_2x32_dxil = (nir_type_uint64, [nir_type_uint32])"
| "nir_move_op_info nir_op_unpack_double_2x32_dxil = (nir_type_uint32, [nir_type_uint64])"
| "nir_move_op_info nir_op_vec16 = (nir_type_uint, replicate 16 nir_type_uint)"
| "nir_move_op_info nir_op_vec2 = (nir_type_uint, [nir_type_uint, nir_type_uint])"
| "nir_move_op_info nir_op_vec3 = (nir_type_uint, replicate 3 nir_type_uint)"
| "nir_move_op_info nir_op_vec4 = (nir_type_uint, replicate 4 nir_type_uint)"
| "nir_move_op_info nir_op_vec8 = (nir_type_uint, replicate 8 nir_type_uint)"

primrec nir_conversion_op_info :: "nir_conversion_op \<Rightarrow> nir_alu_type \<times> nir_alu_type list" where
  "nir_conversion_op_info nir_op_b2i16 = (nir_type_int16, [nir_type_bool])"
| "nir_conversion_op_info nir_op_b2i32 = (nir_type_int32, [nir_type_bool])"
| "nir_conversion_op_info nir_op_b2i64 = (nir_type_int64, [nir_type_bool])"
| "nir_conversion_op_info nir_op_f2f16 = (nir_type_float16, [nir_type_float])"
| "nir_conversion_op_info nir_op_f2f16_rtz = (nir_type_float16, [nir_type_float])"
| "nir_conversion_op_info nir_op_f2f32 = (nir_type_float32, [nir_type_float])"
| "nir_conversion_op_info nir_op_f2f64 = (nir_type_float64, [nir_type_float])"
| "nir_conversion_op_info nir_op_f2fmp = (nir_type_float16, [nir_type_float32])"
| "nir_conversion_op_info nir_op_f2i16 = (nir_type_int16, [nir_type_float])"
| "nir_conversion_op_info nir_op_f2i32 = (nir_type_int32, [nir_type_float])"
| "nir_conversion_op_info nir_op_f2i64 = (nir_type_int64, [nir_type_float])"
| "nir_conversion_op_info nir_op_f2imp = (nir_type_int16, [nir_type_float32])"
| "nir_conversion_op_info nir_op_f2u16 = (nir_type_uint16, [nir_type_float])"
| "nir_conversion_op_info nir_op_f2u32 = (nir_type_uint32, [nir_type_float])"
| "nir_conversion_op_info nir_op_f2u64 = (nir_type_uint64, [nir_type_float])"
| "nir_conversion_op_info nir_op_f2ump = (nir_type_uint16, [nir_type_float32])"
| "nir_conversion_op_info nir_op_i2f16 = (nir_type_float16, [nir_type_int])"
| "nir_conversion_op_info nir_op_i2f32 = (nir_type_float32, [nir_type_int])"
| "nir_conversion_op_info nir_op_i2f64 = (nir_type_float64, [nir_type_int])"
| "nir_conversion_op_info nir_op_i2fmp = (nir_type_float16, [nir_type_int32])"
| "nir_conversion_op_info nir_op_i2i1 = (nir_type_int1, [nir_type_int])"
| "nir_conversion_op_info nir_op_i2i16 = (nir_type_int16, [nir_type_int])"
| "nir_conversion_op_info nir_op_i2i32 = (nir_type_int32, [nir_type_int])"
| "nir_conversion_op_info nir_op_i2i64 = (nir_type_int64, [nir_type_int])"
| "nir_conversion_op_info nir_op_i2imp = (nir_type_int16, [nir_type_int32])"
| "nir_conversion_op_info nir_op_u2f16 = (nir_type_float16, [nir_type_uint])"
| "nir_conversion_op_info nir_op_u2f32 = (nir_type_float32, [nir_type_uint])"
| "nir_conversion_op_info nir_op_u2f64 = (nir_type_float64, [nir_type_uint])"
| "nir_conversion_op_info nir_op_u2fmp = (nir_type_float16, [nir_type_uint32])"
| "nir_conversion_op_info nir_op_u2u1 = (nir_type_uint1, [nir_type_uint])"
| "nir_conversion_op_info nir_op_u2u16 = (nir_type_uint16, [nir_type_uint])"
| "nir_conversion_op_info nir_op_u2u32 = (nir_type_uint32, [nir_type_uint])"
| "nir_conversion_op_info nir_op_u2u64 = (nir_type_uint64, [nir_type_uint])"

primrec nir_int_op_info :: "nir_int_op \<Rightarrow> nir_alu_type \<times> nir_alu_type list" where
  "nir_int_op_info nir_op_b2f16 = (nir_type_float16, [nir_type_bool])"
| "nir_int_op_info nir_op_b2f32 = (nir_type_float32, [nir_type_bool])"
| "nir_int_op_info nir_op_b2f64 = (nir_type_float64, [nir_type_bool])"
| "nir_int_op_info nir_op_bit_count = (nir_type_uint32, [nir_type_uint])"
| "nir_int_op_info nir_op_bitfield_insert = (nir_type_uint, [nir_type_uint, nir_type_uint, nir_type_int32, nir_type_int32])"
| "nir_int_op_info nir_op_bitfield_reverse = (nir_type_uint, [nir_type_uint])"
| "nir_int_op_info nir_op_find_lsb = (nir_type_int32, [nir_type_int])"
| "nir_int_op_info nir_op_iadd = (nir_type_int, [nir_type_int, nir_type_int])"
| "nir_int_op_info nir_op_iand = (nir_type_uint, [nir_type_uint, nir_type_uint])"
| "nir_int_op_info nir_op_ibfe = (nir_type_int32, [nir_type_int32, nir_type_uint32, nir_type_uint32])"
| "nir_int_op_info nir_op_idiv = (nir_type_int, [nir_type_int, nir_type_int])"
| "nir_int_op_info nir_op_ieq = (nir_type_bool1, [nir_type_int, nir_type_int])"
| "nir_int_op_info nir_op_ifind_msb_rev = (nir_type_int32, [nir_type_int32])"
| "nir_int_op_info nir_op_ige = (nir_type_bool1, [nir_type_int, nir_type_int])"
| "nir_int_op_info nir_op_ilt = (nir_type_bool1, [nir_type_int, nir_type_int])"
| "nir_int_op_info nir_op_imax = (nir_type_int, [nir_type_int, nir_type_int])"
| "nir_int_op_info nir_op_imin = (nir_type_int, [nir_type_int, nir_type_int])"
| "nir_int_op_info nir_op_imod = (nir_type_int, [nir_type_int, nir_type_int])"
| "nir_int_op_info nir_op_imul = (nir_type_int, [nir_type_int, nir_type_int])"
| "nir_int_op_info nir_op_ine = (nir_type_bool1, [nir_type_int, nir_type_int])"
| "nir_int_op_info nir_op_inot = (nir_type_int, [nir_type_int])"
| "nir_int_op_info nir_op_ior = (nir_type_uint, [nir_type_uint, nir_type_uint])"
| "nir_int_op_info nir_op_irem = (nir_type_int, [nir_type_int, nir_type_int])"
| "nir_int_op_info nir_op_ishl = (nir_type_int, [nir_type_int, nir_type_uint32])"
| "nir_int_op_info nir_op_ishr = (nir_type_int, [nir_type_int, nir_type_uint32])"
| "nir_int_op_info nir_op_isub = (nir_type_int, [nir_type_int, nir_type_int])"
| "nir_int_op_info nir_op_ixor = (nir_type_uint, [nir_type_uint, nir_type_uint])"
| "nir_int_op_info nir_op_sdot_4x8_iadd = (nir_type_int32, [nir_type_uint32, nir_type_uint32, nir_type_int32])"
| "nir_int_op_info nir_op_ubfe = (nir_type_uint32, replicate 3 nir_type_uint32)"
| "nir_int_op_info nir_op_udiv = (nir_type_uint, [nir_type_uint, nir_type_uint])"
| "nir_int_op_info nir_op_udot_4x8_uadd = (nir_type_uint32, replicate 3 nir_type_uint32)"
| "nir_int_op_info nir_op_ufind_msb_rev = (nir_type_int32, [nir_type_uint])"
| "nir_int_op_info nir_op_uge = (nir_type_bool1, [nir_type_uint, nir_type_uint])"
| "nir_int_op_info nir_op_ult = (nir_type_bool1, [nir_type_uint, nir_type_uint])"
| "nir_int_op_info nir_op_umax = (nir_type_uint, [nir_type_uint, nir_type_uint])"
| "nir_int_op_info nir_op_umin = (nir_type_uint, [nir_type_uint, nir_type_uint])"
| "nir_int_op_info nir_op_umod = (nir_type_uint, [nir_type_uint, nir_type_uint])"
| "nir_int_op_info nir_op_unpack_half_x_dxil = (nir_type_float32, [nir_type_uint32])"
| "nir_int_op_info nir_op_ushr = (nir_type_uint, [nir_type_uint, nir_type_uint32])"

primrec nir_float_op_info :: "nir_float_op \<Rightarrow> nir_alu_type \<times> nir_alu_type list" where
  "nir_float_op_info nir_op_fabs = (nir_type_float, [nir_type_float])"
| "nir_float_op_info nir_op_fadd = (nir_type_float, [nir_type_float, nir_type_float])"
| "nir_float_op_info nir_op_fceil = (nir_type_float, [nir_type_float])"
| "nir_float_op_info nir_op_fcos = (nir_type_float, [nir_type_float])"
| "nir_float_op_info nir_op_fdiv = (nir_type_float, [nir_type_float, nir_type_float])"
| "nir_float_op_info nir_op_feq = (nir_type_bool1, [nir_type_float, nir_type_float])"
| "nir_float_op_info nir_op_fexp2 = (nir_type_float, [nir_type_float])"
| "nir_float_op_info nir_op_ffloor = (nir_type_float, [nir_type_float])"
| "nir_float_op_info nir_op_ffma = (nir_type_float, replicate 3 nir_type_float)"
| "nir_float_op_info nir_op_ffract = (nir_type_float, [nir_type_float])"
| "nir_float_op_info nir_op_fge = (nir_type_bool1, [nir_type_float, nir_type_float])"
| "nir_float_op_info nir_op_fisfinite = (nir_type_bool1, [nir_type_float])"
| "nir_float_op_info nir_op_fisnormal = (nir_type_bool1, [nir_type_float])"
| "nir_float_op_info nir_op_flog2 = (nir_type_float, [nir_type_float])"
| "nir_float_op_info nir_op_flt = (nir_type_bool1, [nir_type_float, nir_type_float])"
| "nir_float_op_info nir_op_fmax = (nir_type_float, [nir_type_float, nir_type_float])"
| "nir_float_op_info nir_op_fmin = (nir_type_float, [nir_type_float, nir_type_float])"
| "nir_float_op_info nir_op_fmul = (nir_type_float, [nir_type_float, nir_type_float])"
| "nir_float_op_info nir_op_fneu = (nir_type_bool1, [nir_type_float, nir_type_float])"
| "nir_float_op_info nir_op_frcp = (nir_type_float, [nir_type_float])"
| "nir_float_op_info nir_op_fround_even = (nir_type_float, [nir_type_float])"
| "nir_float_op_info nir_op_frsq = (nir_type_float, [nir_type_float])"
| "nir_float_op_info nir_op_fsat = (nir_type_float, [nir_type_float])"
| "nir_float_op_info nir_op_fsin = (nir_type_float, [nir_type_float])"
| "nir_float_op_info nir_op_fsqrt = (nir_type_float, [nir_type_float])"
| "nir_float_op_info nir_op_fsub = (nir_type_float, [nir_type_float, nir_type_float])"
| "nir_float_op_info nir_op_ftrunc = (nir_type_float, [nir_type_float])"
| "nir_float_op_info nir_op_pack_half_2x16_split = (nir_type_uint32, [nir_type_float32, nir_type_float32])"

fun nir_op_infos :: "nir_op \<Rightarrow> nir_alu_type \<times> nir_alu_type list" where
  "nir_op_infos (MOVE_OP op) = nir_move_op_info op"
| "nir_op_infos (CONVERSION_OP op) = nir_conversion_op_info op"
| "nir_op_infos (INT_OP op) = nir_int_op_info op"
| "nir_op_infos (FLOAT_OP op) = nir_float_op_info op"
| "nir_op_infos (OTHER_OP output inputs) = (output, inputs)"

abbreviation output_type :: "nir_op \<Rightarrow> nir_alu_type" where
  "output_type op \<equiv> fst (nir_op_infos op)"

abbreviation input_types :: "nir_op \<Rightarrow> nir_alu_type list" where
  "input_types op \<equiv> snd (nir_op_infos op)"

abbreviation num_inputs :: "nir_op \<Rightarrow> nat" where
  "num_inputs op \<equiv> length (input_types op)"

section \<open>Definitions, sources and constants\<close>

definition NIR_MAX_VEC_COMPONENTS :: nat where
  "NIR_MAX_VEC_COMPONENTS = 16"

record nir_def =
  def_index :: nat
  def_num_components :: nat
  def_bit_size :: nat
  def_is_phi_src :: bool

text \<open>\<open>nir_const_value\<close> is a union; its members are read from the low bytes.\<close>

type_synonym nir_const_value = "64 word"

definition const_b :: "nir_const_value \<Rightarrow> bool" where
  "const_b c \<longleftrightarrow> (ucast c :: 8 word) \<noteq> 0"

definition nir_const_value_as_int :: "nir_const_value \<Rightarrow> nat \<Rightarrow> 64 word result" where
  "nir_const_value_as_int c bit_size =
     (if bit_size = 1 then Inr (- of_bool (const_b c))
      else if bit_size = 8 then Inr (scast (ucast c :: 8 word))
      else if bit_size = 16 then Inr (scast (ucast c :: 16 word))
      else if bit_size = 32 then Inr (scast (ucast c :: 32 word))
      else if bit_size = 64 then Inr c
      else Inl Unreachable)"

definition nir_const_value_as_uint :: "nir_const_value \<Rightarrow> nat \<Rightarrow> 64 word result" where
  "nir_const_value_as_uint c bit_size =
     (if bit_size = 1 then Inr (of_bool (const_b c))
      else if bit_size = 8 then Inr (ucast (ucast c :: 8 word))
      else if bit_size = 16 then Inr (ucast (ucast c :: 16 word))
      else if bit_size = 32 then Inr (ucast (ucast c :: 32 word))
      else if bit_size = 64 then Inr c
      else Inl Unreachable)"

record nir_src =
  src_ssa :: nir_def
  src_const :: "nir_const_value list option"

definition nir_src_bit_size :: "nir_src \<Rightarrow> nat" where
  "nir_src_bit_size src = def_bit_size (src_ssa src)"

definition nir_src_is_const :: "nir_src \<Rightarrow> bool" where
  "nir_src_is_const src \<longleftrightarrow> src_const src \<noteq> None"

text \<open>\<open>nir_scalar_as_const_value\<close> of a component of a source.\<close>

definition nir_src_comp_const :: "nir_src \<Rightarrow> nat \<Rightarrow> nir_const_value result" where
  "nir_src_comp_const src chan =
     (case src_const src of
        None \<Rightarrow> Inl Undefined
      | Some values \<Rightarrow> if chan < length values then Inr (values ! chan) else Inl Assertion)"

definition nir_src_comp_as_int :: "nir_src \<Rightarrow> nat \<Rightarrow> 64 word result" where
  "nir_src_comp_as_int src chan =
     bind_result (nir_src_comp_const src chan) (\<lambda>c. nir_const_value_as_int c (nir_src_bit_size src))"

definition nir_src_comp_as_uint :: "nir_src \<Rightarrow> nat \<Rightarrow> 64 word result" where
  "nir_src_comp_as_uint src chan =
     bind_result (nir_src_comp_const src chan) (\<lambda>c. nir_const_value_as_uint c (nir_src_bit_size src))"

section \<open>Instructions\<close>

record nir_alu_src =
  alu_src :: nir_src
  swizzle :: "nat list"

record nir_alu_instr =
  alu_op :: nir_op
  alu_exact :: bool
  alu_def :: nir_def
  alu_srcs :: "nir_alu_src list"

record nir_load_const_instr =
  load_def :: nir_def
  load_values :: "nir_const_value list"

text \<open>A source of a phi with the index of the block it comes from.\<close>

record nir_phi_instr =
  phi_def :: nir_def
  phi_srcs :: "(nat \<times> nir_def) list"

end
