(* ===== verification/Ntd_Context.thy ===== *)
theory Ntd_Context
  imports Nir_Instrs Instructions Functions Container
begin

text \<open>
  The state of \<open>src/mesa/src/microsoft/compiler/nir_to_dxil.c\<close> (\<open>struct ntd_context\<close>) and the values of
  the definitions of NIR: where an instruction stores its results and how the next one reads them, with
  the casts in between.

  \<open>float_types\<close> and \<open>int_types\<close>, which a pass of NIR fills, are predicates on the index of a definition. The
  dynamic arrays are lists; an element of \<open>resources\<close> always has the members of \<open>dxil_resource_v1\<close>.
\<close>

section \<open>The context\<close>

datatype dxil_environment = DXIL_ENVIRONMENT_GL | DXIL_ENVIRONMENT_CL | DXIL_ENVIRONMENT_VULKAN

record ntd_context =
  ntd_mod :: dxil_module
  ntd_feats :: dxil_features
  raw_and_structured_buffers :: bool
  ntd_shader_kind :: dxil_shader_kind
  ntd_minor_version :: "32 word"
  ntd_minor_validator :: "32 word"
  ntd_environment :: dxil_environment
  srv_metadata_nodes :: "mdref list"
  uav_metadata_nodes :: "mdref list"
  cbv_metadata_nodes :: "mdref list"
  sampler_metadata_nodes :: "mdref list"
  srv_handles :: "val_ref option list"
  ssbo_handles :: "val_ref option list"
  image_handles :: "val_ref option list"
  cbv_handles :: "val_ref option list"
  sampler_handles :: "val_ref option list"
  ntd_resources :: "dxil_resource_v1 list"
  num_uavs :: "32 word"
  unnamed_ubo_count :: "32 word"
  ntd_defs :: "val_ref option list list"
  ntd_phis :: "(nir_phi_instr \<times> val_ref list) list"
  float_types :: "nat \<Rightarrow> bool"
  int_types :: "nat \<Rightarrow> bool"

text \<open>A step that changes the context and may have a result.\<close>

type_synonym 'a ntd = "ntd_context \<Rightarrow> ('a \<times> ntd_context) result"

definition on_mod :: "(dxil_module \<Rightarrow> ('a \<times> dxil_module) result) \<Rightarrow> 'a ntd" where
  "on_mod f ctx = bind_result (f (ntd_mod ctx)) (\<lambda>(x, m). Inr (x, ctx\<lparr>ntd_mod := m\<rparr>))"

definition set_feats :: "(dxil_features \<Rightarrow> dxil_features) \<Rightarrow> bool \<Rightarrow> ntd_context \<Rightarrow> ntd_context" where
  "set_feats f condition ctx = (if condition then ctx\<lparr>ntd_feats := f (ntd_feats ctx)\<rparr> else ctx)"

abbreviation ntd_type_of :: "ntd_context \<Rightarrow> val_ref \<Rightarrow> ty" where
  "ntd_type_of ctx v \<equiv> type_of (ntd_mod ctx) v"

section \<open>Casts\<close>

definition bitcast_to_int :: "nat \<Rightarrow> val_ref \<Rightarrow> val_ref ntd" where
  "bitcast_to_int bit_size v =
     on_mod (\<lambda>m. bind_result (dxil_module_get_int_type bit_size m) (\<lambda>(t, m). dxil_emit_cast DXIL_CAST_BITCAST t v m))"

definition bitcast_to_float :: "nat \<Rightarrow> val_ref \<Rightarrow> val_ref ntd" where
  "bitcast_to_float bit_size v =
     on_mod (\<lambda>m. bind_result (dxil_module_get_float_type bit_size m) (\<lambda>(t, m). dxil_emit_cast DXIL_CAST_BITCAST t v m))"

section \<open>Storing\<close>

text \<open>The type that all the users of a definition expect when one of them is a phi.\<close>

definition expect_type :: "ntd_context \<Rightarrow> nir_def \<Rightarrow> nir_alu_type" where
  "expect_type ctx ssa =
     (if int_types ctx (def_index ssa) then nir_type_int
      else if float_types ctx (def_index ssa) then nir_type_float else nir_type_int)"

definition cast_phi_src :: "nir_def \<Rightarrow> val_ref \<Rightarrow> val_ref ntd" where
  "cast_phi_src ssa v ctx =
     (let expected = expect_type ctx ssa; bits = def_bit_size ssa
      in if \<not> (bits \<noteq> 1 \<or> expected = nir_type_int) then Inl Assertion
         else bind_result
           (if bits = 1 then Inr (v, ctx)
            else bind_result (dxil_type_to_nir_type (ntd_mod ctx) (ntd_type_of ctx v)) (\<lambda>t.
              if expected = t then Inr (v, ctx)
              else if expected = nir_type_int then bitcast_to_int bits v ctx else bitcast_to_float bits v ctx))
           (\<lambda>(v, ctx). Inr (v,
              set_feats (\<lambda>f. f\<lparr>feat_doubles := True\<rparr>) (bits = 64 \<and> expected = nir_type_float)
                (set_feats (\<lambda>f. f\<lparr>feat_int64_ops := True\<rparr>) (bits = 64 \<and> expected = nir_type_int) ctx))))"

definition store_ssa_def :: "nir_def \<Rightarrow> nat \<Rightarrow> val_ref \<Rightarrow> ntd_context \<Rightarrow> ntd_context result" where
  "store_ssa_def ssa chan v ctx =
     (if \<not> def_index ssa < length (ntd_defs ctx) then Inl Assertion
      else if \<not> chan < def_num_components ssa then Inl Assertion
      else bind_result (if def_is_phi_src ssa then cast_phi_src ssa v ctx else Inr (v, ctx)) (\<lambda>(v, ctx).
        bind_result (update_at chan (\<lambda>_. Some v) (ntd_defs ctx ! def_index ssa)) (\<lambda>chans.
          Inr (ctx\<lparr>ntd_defs := (ntd_defs ctx)[def_index ssa := chans]\<rparr>))))"

definition store_def :: "nir_def \<Rightarrow> nat \<Rightarrow> val_ref \<Rightarrow> ntd_context \<Rightarrow> ntd_context result" where
  "store_def def chan v ctx =
     (let m = ntd_mod ctx; type = Some (ntd_type_of ctx v)
      in store_ssa_def def chan v
        (set_feats (\<lambda>f. f\<lparr>feat_int64_ops := True\<rparr>) (type = int64_type m)
          (set_feats (\<lambda>f. f\<lparr>feat_min_precision := True\<rparr>) (type = float16_type m \<or> type = int16_type m)
            (set_feats (\<lambda>f. f\<lparr>feat_doubles := True\<rparr>) (type = float64_type m) ctx))))"

definition store_alu_dest :: "nir_alu_instr \<Rightarrow> nat \<Rightarrow> val_ref \<Rightarrow> ntd_context \<Rightarrow> ntd_context result" where
  "store_alu_dest alu chan v = store_def (alu_def alu) chan v"

section \<open>Reading\<close>

definition get_src_ssa :: "nir_def \<Rightarrow> nat \<Rightarrow> ntd_context \<Rightarrow> val_ref result" where
  "get_src_ssa ssa chan ctx =
     (if \<not> def_index ssa < length (ntd_defs ctx) then Inl Assertion
      else if \<not> chan < def_num_components ssa then Inl Assertion
      else bind_result (read_at chan (ntd_defs ctx ! def_index ssa)) (\<lambda>v.
        case v of None \<Rightarrow> Inl Assertion | Some v \<Rightarrow> Inr v))"

definition src_as_int :: "nat \<Rightarrow> val_ref \<Rightarrow> val_ref ntd" where
  "src_as_int bits v ctx =
     bind_result (on_mod (dxil_module_get_int_type bits) ctx) (\<lambda>(t, ctx).
     bind_result (dxil_value_type_equal_to (ntd_mod ctx) v t) (\<lambda>equal.
       if equal then
         (if \<not> (bits \<noteq> 64 \<or> feat_int64_ops (ntd_feats ctx)) then Inl Assertion else Inr (v, ctx))
       else if bits = 64 \<and> \<not> feat_doubles (ntd_feats ctx) then Inl Assertion
       else
         let ctx = set_feats (\<lambda>f. f\<lparr>feat_native_low_precision := True\<rparr>) (bits = 16)
               (set_feats (\<lambda>f. f\<lparr>feat_int64_ops := True\<rparr>) (bits = 64) ctx)
         in if \<not> dxil_value_type_bitsize_equal_to (ntd_mod ctx) v bits then Inl Assertion
            else bitcast_to_int bits v ctx))"

definition src_as_float :: "nat \<Rightarrow> val_ref \<Rightarrow> val_ref ntd" where
  "src_as_float bits v ctx =
     (if \<not> 16 \<le> bits then Inl Assertion else
      bind_result (on_mod (dxil_module_get_float_type bits) ctx) (\<lambda>(t, ctx).
      bind_result (dxil_value_type_equal_to (ntd_mod ctx) v t) (\<lambda>equal.
        if equal then
          (if \<not> (bits \<noteq> 64 \<or> feat_doubles (ntd_feats ctx)) then Inl Assertion else Inr (v, ctx))
        else if bits = 64 \<and> \<not> feat_int64_ops (ntd_feats ctx) then Inl Assertion
        else
          let ctx = set_feats (\<lambda>f. f\<lparr>feat_native_low_precision := True\<rparr>) (bits = 16)
                (set_feats (\<lambda>f. f\<lparr>feat_doubles := True\<rparr>) (bits = 64) ctx)
          in if \<not> dxil_value_type_bitsize_equal_to (ntd_mod ctx) v bits then Inl Assertion
             else bitcast_to_float bits v ctx)))"

definition src_as_bool :: "val_ref \<Rightarrow> val_ref ntd" where
  "src_as_bool v ctx =
     (if \<not> dxil_value_type_bitsize_equal_to (ntd_mod ctx) v 1 then
        on_mod (\<lambda>m. bind_result (dxil_module_get_int_type 1 m) (\<lambda>(t, m). dxil_emit_cast DXIL_CAST_TRUNC t v m)) ctx
      else Inr (v, ctx))"

definition get_src :: "nir_src \<Rightarrow> nat \<Rightarrow> nir_alu_type \<Rightarrow> val_ref ntd" where
  "get_src src chan type ctx =
     bind_result (get_src_ssa (src_ssa src) chan ctx) (\<lambda>v.
       case nir_alu_type_get_base_type type of
         NIR_INT \<Rightarrow> src_as_int (nir_src_bit_size src) v ctx
       | NIR_UINT \<Rightarrow> src_as_int (nir_src_bit_size src) v ctx
       | NIR_FLOAT \<Rightarrow> src_as_float (nir_src_bit_size src) v ctx
       | NIR_BOOL \<Rightarrow> src_as_bool v ctx
       | NIR_INVALID \<Rightarrow> Inl Unreachable)"

definition get_alu_src :: "nir_alu_instr \<Rightarrow> nat \<Rightarrow> val_ref ntd" where
  "get_alu_src alu i ctx =
     bind_result (read_at i (alu_srcs alu)) (\<lambda>src.
     bind_result (read_at 0 (swizzle src)) (\<lambda>chan.
     bind_result (read_at i (input_types (alu_op alu))) (\<lambda>type.
       get_src (alu_src src) chan type ctx)))"

section \<open>Constants\<close>

text \<open>\<open>get_value_for_const\<close>: the type has been asked for before, so it is compared with the cached ones.\<close>

definition get_value_for_const :: "nir_const_value \<Rightarrow> ty \<Rightarrow> val_ref ntd" where
  "get_value_for_const c type ctx =
     (let m = ntd_mod ctx in
      if Some type = int1_type m then on_mod (dxil_module_get_int1_const (const_b c)) ctx
      else if Some type = float32_type m then on_mod (\<lambda>m. Inr (dxil_module_get_float_const (ucast c) m)) ctx
      else if Some type = int32_type m then on_mod (dxil_module_get_int32_const (ucast c)) ctx
      else if Some type = int16_type m then
        on_mod (dxil_module_get_int16_const (ucast c)) (set_feats (\<lambda>f. f\<lparr>feat_min_precision := True\<rparr>) True ctx)
      else if Some type = int64_type m then
        on_mod (dxil_module_get_int64_const c) (set_feats (\<lambda>f. f\<lparr>feat_int64_ops := True\<rparr>) True ctx)
      else if Some type = float16_type m then
        on_mod (\<lambda>m. Inr (dxil_module_get_float16_const (ucast c) m)) (set_feats (\<lambda>f. f\<lparr>feat_min_precision := True\<rparr>) True ctx)
      else if Some type = float64_type m then
        on_mod (\<lambda>m. Inr (dxil_module_get_double_const c m)) (set_feats (\<lambda>f. f\<lparr>feat_doubles := True\<rparr>) True ctx)
      else Inl Unreachable)"

definition dxil_type_for_const :: "nir_def \<Rightarrow> ty ntd" where
  "dxil_type_for_const def ctx =
     (if int_types ctx (def_index def) \<or> \<not> float_types ctx (def_index def)
      then on_mod (dxil_module_get_int_type (def_bit_size def)) ctx
      else on_mod (dxil_module_get_float_type (def_bit_size def)) ctx)"

fun load_const_from :: "nir_def \<Rightarrow> nat \<Rightarrow> nir_const_value list \<Rightarrow> ntd_context \<Rightarrow> ntd_context result" where
  "load_const_from def i [] ctx = Inr ctx"
| "load_const_from def i (c # cs) ctx =
     bind_result (dxil_type_for_const def ctx) (\<lambda>(type, ctx).
     bind_result (get_value_for_const c type ctx) (\<lambda>(v, ctx).
     bind_result (store_ssa_def def i v ctx) (load_const_from def (Suc i) cs)))"

text \<open>A \<open>load_const\<close> has one value for each component.\<close>

definition emit_load_const :: "nir_load_const_instr \<Rightarrow> ntd_context \<Rightarrow> ntd_context result" where
  "emit_load_const load_const ctx =
     (if length (load_values load_const) < def_num_components (load_def load_const) then Inl Undefined
      else load_const_from (load_def load_const) 0
        (take (def_num_components (load_def load_const)) (load_values load_const)) ctx)"

fun undefined_from :: "nir_def \<Rightarrow> nat list \<Rightarrow> ntd_context \<Rightarrow> ntd_context result" where
  "undefined_from def [] ctx = Inr ctx"
| "undefined_from def (i # is) ctx =
     bind_result (on_mod (dxil_module_get_int32_const 0) ctx) (\<lambda>(v, ctx).
     bind_result (store_ssa_def def i v ctx) (undefined_from def is))"

definition emit_undefined :: "nir_def \<Rightarrow> ntd_context \<Rightarrow> ntd_context result" where
  "emit_undefined def = undefined_from def [0..<def_num_components def]"

end
