(* ===== verification/Ntd_Calls.thy ===== *)
theory Ntd_Calls
  imports Ntd_Context
begin

text \<open>
  The operation codes of DXIL (\<open>enum dxil_intr\<close> of \<open>nir_to_dxil.c\<close>; those used below) and the calls of the
  functions that take one, two, three or four operands of the overloaded type.
\<close>

type_synonym dxil_intr = "32 word"

definition DXIL_INTR_FABS :: dxil_intr where
  "DXIL_INTR_FABS = 6"

definition DXIL_INTR_SATURATE :: dxil_intr where
  "DXIL_INTR_SATURATE = 7"

definition DXIL_INTR_ISFINITE :: dxil_intr where
  "DXIL_INTR_ISFINITE = 10"

definition DXIL_INTR_ISNORMAL :: dxil_intr where
  "DXIL_INTR_ISNORMAL = 11"

definition DXIL_INTR_FCOS :: dxil_intr where
  "DXIL_INTR_FCOS = 12"

definition DXIL_INTR_FSIN :: dxil_intr where
  "DXIL_INTR_FSIN = 13"

definition DXIL_INTR_FEXP2 :: dxil_intr where
  "DXIL_INTR_FEXP2 = 21"

definition DXIL_INTR_FRC :: dxil_intr where
  "DXIL_INTR_FRC = 22"

definition DXIL_INTR_FLOG2 :: dxil_intr where
  "DXIL_INTR_FLOG2 = 23"

definition DXIL_INTR_SQRT :: dxil_intr where
  "DXIL_INTR_SQRT = 24"

definition DXIL_INTR_RSQRT :: dxil_intr where
  "DXIL_INTR_RSQRT = 25"

definition DXIL_INTR_ROUND_NE :: dxil_intr where
  "DXIL_INTR_ROUND_NE = 26"

definition DXIL_INTR_ROUND_NI :: dxil_intr where
  "DXIL_INTR_ROUND_NI = 27"

definition DXIL_INTR_ROUND_PI :: dxil_intr where
  "DXIL_INTR_ROUND_PI = 28"

definition DXIL_INTR_ROUND_Z :: dxil_intr where
  "DXIL_INTR_ROUND_Z = 29"

definition DXIL_INTR_BFREV :: dxil_intr where
  "DXIL_INTR_BFREV = 30"

definition DXIL_INTR_COUNTBITS :: dxil_intr where
  "DXIL_INTR_COUNTBITS = 31"

definition DXIL_INTR_FIRSTBIT_LO :: dxil_intr where
  "DXIL_INTR_FIRSTBIT_LO = 32"

definition DXIL_INTR_FIRSTBIT_HI :: dxil_intr where
  "DXIL_INTR_FIRSTBIT_HI = 33"

definition DXIL_INTR_FIRSTBIT_SHI :: dxil_intr where
  "DXIL_INTR_FIRSTBIT_SHI = 34"

definition DXIL_INTR_FMAX :: dxil_intr where
  "DXIL_INTR_FMAX = 35"

definition DXIL_INTR_FMIN :: dxil_intr where
  "DXIL_INTR_FMIN = 36"

definition DXIL_INTR_IMAX :: dxil_intr where
  "DXIL_INTR_IMAX = 37"

definition DXIL_INTR_IMIN :: dxil_intr where
  "DXIL_INTR_IMIN = 38"

definition DXIL_INTR_UMAX :: dxil_intr where
  "DXIL_INTR_UMAX = 39"

definition DXIL_INTR_UMIN :: dxil_intr where
  "DXIL_INTR_UMIN = 40"

definition DXIL_INTR_FMA :: dxil_intr where
  "DXIL_INTR_FMA = 47"

definition DXIL_INTR_IBFE :: dxil_intr where
  "DXIL_INTR_IBFE = 51"

definition DXIL_INTR_UBFE :: dxil_intr where
  "DXIL_INTR_UBFE = 52"

definition DXIL_INTR_BFI :: dxil_intr where
  "DXIL_INTR_BFI = 53"

definition DXIL_INTR_CREATE_HANDLE :: dxil_intr where
  "DXIL_INTR_CREATE_HANDLE = 57"

definition DXIL_INTR_MAKE_DOUBLE :: dxil_intr where
  "DXIL_INTR_MAKE_DOUBLE = 101"

definition DXIL_INTR_SPLIT_DOUBLE :: dxil_intr where
  "DXIL_INTR_SPLIT_DOUBLE = 102"

definition DXIL_INTR_LEGACY_F32TOF16 :: dxil_intr where
  "DXIL_INTR_LEGACY_F32TOF16 = 130"

definition DXIL_INTR_LEGACY_F16TOF32 :: dxil_intr where
  "DXIL_INTR_LEGACY_F16TOF32 = 131"

definition DXIL_INTR_DOT4_ADD_I8_PACKED :: dxil_intr where
  "DXIL_INTR_DOT4_ADD_I8_PACKED = 163"

definition DXIL_INTR_DOT4_ADD_U8_PACKED :: dxil_intr where
  "DXIL_INTR_DOT4_ADD_U8_PACKED = 164"

definition DXIL_INTR_ANNOTATE_HANDLE :: dxil_intr where
  "DXIL_INTR_ANNOTATE_HANDLE = 216"

definition DXIL_INTR_CREATE_HANDLE_FROM_BINDING :: dxil_intr where
  "DXIL_INTR_CREATE_HANDLE_FROM_BINDING = 217"

definition DXIL_INTR_CREATE_HANDLE_FROM_HEAP :: dxil_intr where
  "DXIL_INTR_CREATE_HANDLE_FROM_HEAP = 218"

section \<open>Calls\<close>

definition unary_func_name :: "dxil_intr \<Rightarrow> string" where
  "unary_func_name intr =
     (if intr \<in> {DXIL_INTR_COUNTBITS, DXIL_INTR_FIRSTBIT_HI, DXIL_INTR_FIRSTBIT_SHI, DXIL_INTR_FIRSTBIT_LO}
      then ''dx.op.unaryBits''
      else if intr \<in> {DXIL_INTR_ISFINITE, DXIL_INTR_ISNORMAL} then ''dx.op.isSpecialFloat''
      else ''dx.op.unary'')"

text \<open>What the calls have in common: the function, the constant with the operation code, the call.\<close>

definition emit_op_call :: "string \<Rightarrow> overload_type \<Rightarrow> dxil_intr \<Rightarrow> val_ref list \<Rightarrow> val_ref ntd" where
  "emit_op_call name overload intr ops =
     on_mod (\<lambda>m.
       bind_result (dxil_get_function name overload m) (\<lambda>(func, m).
       bind_result (dxil_module_get_int32_const intr m) (\<lambda>(opcode, m).
         dxil_emit_call func (opcode # ops) m)))"

definition emit_unary_call :: "overload_type \<Rightarrow> dxil_intr \<Rightarrow> val_ref \<Rightarrow> val_ref ntd" where
  "emit_unary_call overload intr op0 = emit_op_call (unary_func_name intr) overload intr [op0]"

definition emit_binary_call :: "overload_type \<Rightarrow> dxil_intr \<Rightarrow> val_ref \<Rightarrow> val_ref \<Rightarrow> val_ref ntd" where
  "emit_binary_call overload intr op0 op1 = emit_op_call ''dx.op.binary'' overload intr [op0, op1]"

definition emit_tertiary_call ::
  "overload_type \<Rightarrow> dxil_intr \<Rightarrow> val_ref \<Rightarrow> val_ref \<Rightarrow> val_ref \<Rightarrow> val_ref ntd" where
  "emit_tertiary_call overload intr op0 op1 op2 =
     emit_op_call ''dx.op.tertiary'' overload intr [op0, op1, op2]"

definition emit_quaternary_call ::
  "overload_type \<Rightarrow> dxil_intr \<Rightarrow> val_ref \<Rightarrow> val_ref \<Rightarrow> val_ref \<Rightarrow> val_ref \<Rightarrow> val_ref ntd" where
  "emit_quaternary_call overload intr op0 op1 op2 op3 =
     emit_op_call ''dx.op.quaternary'' overload intr [op0, op1, op2, op3]"

end
