(* ===== verification/Ntd_Alu.thy ===== *)
theory Ntd_Alu
  imports Ntd_Calls
begin

text \<open>
  Arithmetic instructions, from \<open>emit_binop\<close> to \<open>emit_alu\<close> of \<open>nir_to_dxil.c\<close>. A function that returns whether
  it succeeded gives that with the new context. The getters and emitters of the module return no null
  pointer, so the only instruction that fails is one that the last switch does not know; everything else
  that can go wrong is an assertion.

  C leaves the order open in which arguments and initialisers are evaluated; here it is from left to right.
\<close>

section \<open>Binary operations, shifts and comparisons\<close>

definition DXIL_UNSAFE_ALGEBRA :: nat where
  "DXIL_UNSAFE_ALGEBRA = 1"

text \<open>\<open>store_alu_dest\<close> and \<open>return true\<close>\<close>

definition alu_result :: "nir_alu_instr \<Rightarrow> nat \<Rightarrow> (val_ref \<times> ntd_context) \<Rightarrow> (bool \<times> ntd_context) result" where
  "alu_result alu chan = (\<lambda>(v, ctx). bind_result (store_alu_dest alu chan v ctx) (\<lambda>ctx. Inr (True, ctx)))"

definition ntd_emit_binop :: "nir_alu_instr \<Rightarrow> dxil_bin_opcode \<Rightarrow> val_ref \<Rightarrow> val_ref \<Rightarrow> bool ntd" where
  "ntd_emit_binop alu opcode op0 op1 ctx =
     (let is_float_op = nir_alu_type_get_base_type (output_type (alu_op alu)) = NIR_FLOAT;
          flags = (if is_float_op \<and> \<not> alu_exact alu then DXIL_UNSAFE_ALGEBRA else 0)
      in bind_result (on_mod (dxil_emit_binop opcode op0 op1 flags) ctx) (alu_result alu 0))"

text \<open>The second operand of a shift, reduced to the width of the first.\<close>

definition shift_amount :: "nir_alu_instr \<Rightarrow> val_ref \<Rightarrow> nir_alu_src \<Rightarrow> nat \<Rightarrow> dxil_module \<Rightarrow> (val_ref \<times> dxil_module) result" where
  "shift_amount alu op1 src1 op0_bit_size m =
     (let op1_bit_size = nir_src_bit_size (alu_src src1); shift_mask = of_nat op0_bit_size - 1 in
      if \<not> nir_src_is_const (alu_src src1) then
        bind_result
          (if op0_bit_size \<noteq> op1_bit_size then
             bind_result (dxil_module_get_int_type op0_bit_size m) (\<lambda>(type, m).
               dxil_emit_cast (if op1_bit_size < op0_bit_size then DXIL_CAST_ZEXT else DXIL_CAST_TRUNC) type op1 m)
           else Inr (op1, m))
          (\<lambda>(op1, m).
             bind_result (dxil_module_get_int_const shift_mask op0_bit_size m) (\<lambda>(c, m).
               dxil_emit_binop DXIL_BINOP_AND op1 c 0 m))
      else
        bind_result (read_at 0 (swizzle src1)) (\<lambda>chan.
        bind_result (nir_src_comp_as_uint (alu_src src1) chan) (\<lambda>val.
          dxil_module_get_int_const (val AND shift_mask) op0_bit_size m)))"

definition emit_shift :: "nir_alu_instr \<Rightarrow> dxil_bin_opcode \<Rightarrow> val_ref \<Rightarrow> val_ref \<Rightarrow> bool ntd" where
  "emit_shift alu opcode op0 op1 ctx =
     bind_result (read_at 0 (alu_srcs alu)) (\<lambda>src0.
     bind_result (read_at 1 (alu_srcs alu)) (\<lambda>src1.
     bind_result (on_mod (shift_amount alu op1 src1 (nir_src_bit_size (alu_src src0))) ctx) (\<lambda>(op1, ctx).
     bind_result (on_mod (dxil_emit_binop opcode op0 op1 0) ctx) (alu_result alu 0))))"

definition ntd_emit_cmp :: "nir_alu_instr \<Rightarrow> dxil_cmp_pred \<Rightarrow> val_ref \<Rightarrow> val_ref \<Rightarrow> bool ntd" where
  "ntd_emit_cmp alu pred op0 op1 ctx =
     bind_result (on_mod (dxil_emit_cmp pred op0 op1) ctx) (alu_result alu 0)"

section \<open>Casts\<close>

definition narrow_or_widen ::
  "nat \<Rightarrow> nat \<Rightarrow> dxil_cast_opcode \<Rightarrow> dxil_cast_opcode \<Rightarrow> dxil_cast_opcode result" where
  "narrow_or_widen dst_bits src_bits narrow widen =
     (if \<not> dst_bits \<noteq> src_bits then Inl Assertion else Inr (if dst_bits < src_bits then narrow else widen))"

primrec conversion_cast :: "nir_conversion_op \<Rightarrow> nat \<Rightarrow> nat \<Rightarrow> dxil_cast_opcode result" where
  "conversion_cast nir_op_b2i16 dst_bits src_bits = Inr DXIL_CAST_ZEXT"
| "conversion_cast nir_op_b2i32 dst_bits src_bits = Inr DXIL_CAST_ZEXT"
| "conversion_cast nir_op_b2i64 dst_bits src_bits = Inr DXIL_CAST_ZEXT"
| "conversion_cast nir_op_f2f16_rtz dst_bits src_bits = narrow_or_widen dst_bits src_bits DXIL_CAST_FPTRUNC DXIL_CAST_FPEXT"
| "conversion_cast nir_op_f2f16 dst_bits src_bits = narrow_or_widen dst_bits src_bits DXIL_CAST_FPTRUNC DXIL_CAST_FPEXT"
| "conversion_cast nir_op_f2fmp dst_bits src_bits = narrow_or_widen dst_bits src_bits DXIL_CAST_FPTRUNC DXIL_CAST_FPEXT"
| "conversion_cast nir_op_f2f32 dst_bits src_bits = narrow_or_widen dst_bits src_bits DXIL_CAST_FPTRUNC DXIL_CAST_FPEXT"
| "conversion_cast nir_op_f2f64 dst_bits src_bits = narrow_or_widen dst_bits src_bits DXIL_CAST_FPTRUNC DXIL_CAST_FPEXT"
| "conversion_cast nir_op_i2i1 dst_bits src_bits = narrow_or_widen dst_bits src_bits DXIL_CAST_TRUNC DXIL_CAST_SEXT"
| "conversion_cast nir_op_i2i16 dst_bits src_bits = narrow_or_widen dst_bits src_bits DXIL_CAST_TRUNC DXIL_CAST_SEXT"
| "conversion_cast nir_op_i2imp dst_bits src_bits = narrow_or_widen dst_bits src_bits DXIL_CAST_TRUNC DXIL_CAST_SEXT"
| "conversion_cast nir_op_i2i32 dst_bits src_bits = narrow_or_widen dst_bits src_bits DXIL_CAST_TRUNC DXIL_CAST_SEXT"
| "conversion_cast nir_op_i2i64 dst_bits src_bits = narrow_or_widen dst_bits src_bits DXIL_CAST_TRUNC DXIL_CAST_SEXT"
| "conversion_cast nir_op_u2u1 dst_bits src_bits = narrow_or_widen dst_bits src_bits DXIL_CAST_TRUNC DXIL_CAST_ZEXT"
| "conversion_cast nir_op_u2u16 dst_bits src_bits = narrow_or_widen dst_bits src_bits DXIL_CAST_TRUNC DXIL_CAST_ZEXT"
| "conversion_cast nir_op_u2u32 dst_bits src_bits = narrow_or_widen dst_bits src_bits DXIL_CAST_TRUNC DXIL_CAST_ZEXT"
| "conversion_cast nir_op_u2u64 dst_bits src_bits = narrow_or_widen dst_bits src_bits DXIL_CAST_TRUNC DXIL_CAST_ZEXT"
| "conversion_cast nir_op_f2i16 dst_bits src_bits = Inr DXIL_CAST_FPTOSI"
| "conversion_cast nir_op_f2imp dst_bits src_bits = Inr DXIL_CAST_FPTOSI"
| "conversion_cast nir_op_f2i32 dst_bits src_bits = Inr DXIL_CAST_FPTOSI"
| "conversion_cast nir_op_f2i64 dst_bits src_bits = Inr DXIL_CAST_FPTOSI"
| "conversion_cast nir_op_f2u16 dst_bits src_bits = Inr DXIL_CAST_FPTOUI"
| "conversion_cast nir_op_f2ump dst_bits src_bits = Inr DXIL_CAST_FPTOUI"
| "conversion_cast nir_op_f2u32 dst_bits src_bits = Inr DXIL_CAST_FPTOUI"
| "conversion_cast nir_op_f2u64 dst_bits src_bits = Inr DXIL_CAST_FPTOUI"
| "conversion_cast nir_op_i2f16 dst_bits src_bits = Inr DXIL_CAST_SITOFP"
| "conversion_cast nir_op_i2fmp dst_bits src_bits = Inr DXIL_CAST_SITOFP"
| "conversion_cast nir_op_i2f32 dst_bits src_bits = Inr DXIL_CAST_SITOFP"
| "conversion_cast nir_op_i2f64 dst_bits src_bits = Inr DXIL_CAST_SITOFP"
| "conversion_cast nir_op_u2f16 dst_bits src_bits = Inr DXIL_CAST_UITOFP"
| "conversion_cast nir_op_u2fmp dst_bits src_bits = Inr DXIL_CAST_UITOFP"
| "conversion_cast nir_op_u2f32 dst_bits src_bits = Inr DXIL_CAST_UITOFP"
| "conversion_cast nir_op_u2f64 dst_bits src_bits = Inr DXIL_CAST_UITOFP"

definition get_cast_op :: "nir_alu_instr \<Rightarrow> dxil_cast_opcode result" where
  "get_cast_op alu =
     bind_result (read_at 0 (alu_srcs alu)) (\<lambda>src0.
       case alu_op alu of
         CONVERSION_OP op \<Rightarrow> conversion_cast op (def_bit_size (alu_def alu)) (nir_src_bit_size (alu_src src0))
       | _ \<Rightarrow> Inl Unreachable)"

definition get_cast_dest_type :: "nir_alu_instr \<Rightarrow> ty ntd" where
  "get_cast_dest_type alu ctx =
     (let dst_bits = def_bit_size (alu_def alu) in
      case nir_alu_type_get_base_type (output_type (alu_op alu)) of
        NIR_BOOL \<Rightarrow> if dst_bits = 1 then on_mod (dxil_module_get_int_type dst_bits) ctx else Inl Assertion
      | NIR_INT \<Rightarrow> on_mod (dxil_module_get_int_type dst_bits) ctx
      | NIR_UINT \<Rightarrow> on_mod (dxil_module_get_int_type dst_bits) ctx
      | NIR_FLOAT \<Rightarrow> on_mod (dxil_module_get_float_type dst_bits) ctx
      | NIR_INVALID \<Rightarrow> Inl Unreachable)"

definition is_double :: "nir_alu_type \<Rightarrow> nat \<Rightarrow> bool" where
  "is_double alu_type bit_size \<longleftrightarrow> nir_alu_type_get_base_type alu_type = NIR_FLOAT \<and> bit_size = 64"

definition ntd_emit_cast :: "nir_alu_instr \<Rightarrow> val_ref \<Rightarrow> bool ntd" where
  "ntd_emit_cast alu v ctx =
     bind_result (get_cast_op alu) (\<lambda>opcode.
     bind_result (get_cast_dest_type alu ctx) (\<lambda>(type, ctx).
     bind_result (read_at 0 (alu_srcs alu)) (\<lambda>src0.
     bind_result (read_at 0 (input_types (alu_op alu))) (\<lambda>input_type.
     let bits = def_bit_size (alu_def alu);
         extensions = (if opcode \<in> {DXIL_CAST_UITOFP, DXIL_CAST_SITOFP} then is_double (output_type (alu_op alu)) bits
           else if opcode \<in> {DXIL_CAST_FPTOUI, DXIL_CAST_FPTOSI}
             then is_double input_type (nir_src_bit_size (alu_src src0))
           else False);
         low_precision = (bits = 16 \<and>
           alu_op alu \<notin> CONVERSION_OP ` {nir_op_f2fmp, nir_op_i2imp, nir_op_f2imp, nir_op_f2ump, nir_op_i2fmp, nir_op_u2fmp});
         ctx = set_feats (\<lambda>f. f\<lparr>feat_native_low_precision := True\<rparr>) low_precision
           (set_feats (\<lambda>f. f\<lparr>feat_dx11_1_double_extensions := True\<rparr>) extensions ctx)
     in bind_result (on_mod (dxil_emit_cast opcode type v) ctx) (alu_result alu 0)))))"

section \<open>Calls of DXIL operations\<close>

definition get_overload :: "nir_alu_type \<Rightarrow> nat \<Rightarrow> overload_type result" where
  "get_overload alu_type bit_size =
     (case nir_alu_type_get_base_type alu_type of
        NIR_FLOAT \<Rightarrow>
          if bit_size = 16 then Inr DXIL_F16 else if bit_size = 32 then Inr DXIL_F32
          else if bit_size = 64 then Inr DXIL_F64 else Inl Unreachable
      | NIR_INVALID \<Rightarrow> Inr DXIL_NONE
      | _ \<Rightarrow>
          if bit_size = 1 then Inr DXIL_I1 else if bit_size = 16 then Inr DXIL_I16
          else if bit_size = 32 then Inr DXIL_I32 else if bit_size = 64 then Inr DXIL_I64 else Inl Unreachable)"

text \<open>The bit sizes of the first sources of an instruction.\<close>

definition src_bits :: "nir_alu_instr \<Rightarrow> nat \<Rightarrow> nat list result" where
  "src_bits alu n =
     (if length (alu_srcs alu) < n then Inl Undefined
      else Inr (map (nir_src_bit_size \<circ> alu_src) (take n (alu_srcs alu))))"

definition emit_unary_intin :: "nir_alu_instr \<Rightarrow> dxil_intr \<Rightarrow> val_ref \<Rightarrow> bool ntd" where
  "emit_unary_intin alu intr op ctx =
     bind_result (src_bits alu 1) (\<lambda>bits.
     bind_result (read_at 0 (input_types (alu_op alu))) (\<lambda>type.
     bind_result (get_overload type (bits ! 0)) (\<lambda>overload.
     bind_result (emit_unary_call overload intr op ctx) (alu_result alu 0))))"

definition emit_binary_intin :: "nir_alu_instr \<Rightarrow> dxil_intr \<Rightarrow> val_ref \<Rightarrow> val_ref \<Rightarrow> bool ntd" where
  "emit_binary_intin alu intr op0 op1 ctx =
     (let type = output_type (alu_op alu); dst_bits = def_bit_size (alu_def alu) in
      if \<not> take 2 (input_types (alu_op alu)) = [type, type] then Inl Assertion
      else bind_result (src_bits alu 2) (\<lambda>bits.
        if \<not> bits = [dst_bits, dst_bits] then Inl Assertion
        else bind_result (get_overload type dst_bits) (\<lambda>overload.
          bind_result (emit_binary_call overload intr op0 op1 ctx) (alu_result alu 0))))"

definition emit_tertiary_intin :: "nir_alu_instr \<Rightarrow> dxil_intr \<Rightarrow> val_ref \<Rightarrow> val_ref \<Rightarrow> val_ref \<Rightarrow> bool ntd" where
  "emit_tertiary_intin alu intr op0 op1 op2 ctx =
     (let type = output_type (alu_op alu); dst_bits = def_bit_size (alu_def alu) in
      bind_result (src_bits alu 3) (\<lambda>bits.
        if \<not> bits = [dst_bits, dst_bits, dst_bits] then Inl Assertion
        else bind_result (get_overload type dst_bits) (\<lambda>overload.
          if \<not> map (\<lambda>t. get_overload t dst_bits) (take 3 (input_types (alu_op alu))) = replicate 3 (Inr overload)
          then Inl Assertion
          else bind_result (emit_tertiary_call overload intr op0 op1 op2 ctx) (alu_result alu 0))))"

definition emit_bitfield_insert :: "nir_alu_instr \<Rightarrow> val_ref \<Rightarrow> val_ref \<Rightarrow> val_ref \<Rightarrow> val_ref \<Rightarrow> bool ntd" where
  "emit_bitfield_insert alu base inserted offset width ctx =
     bind_result (emit_quaternary_call DXIL_I32 DXIL_INTR_BFI width offset inserted base ctx) (\<lambda>(v, ctx).
     bind_result (on_mod (\<lambda>m.
         bind_result (dxil_module_get_int32_const 32 m) (\<lambda>(c, m).
         bind_result (dxil_emit_cmp DXIL_ICMP_SGE width c m) (\<lambda>(compare_width, m).
           dxil_emit_select compare_width inserted v m))) ctx)
       (alu_result alu 0))"

definition emit_dot4add_packed :: "nir_alu_instr \<Rightarrow> dxil_intr \<Rightarrow> val_ref \<Rightarrow> val_ref \<Rightarrow> val_ref \<Rightarrow> bool ntd" where
  "emit_dot4add_packed alu intr src0 src1 accum ctx =
     bind_result (emit_op_call ''dx.op.dot4AddPacked'' DXIL_I32 intr [accum, src0, src1] ctx) (alu_result alu 0)"

section \<open>Selection and the conversion of booleans\<close>

definition ntd_emit_select :: "nir_alu_instr \<Rightarrow> val_ref \<Rightarrow> val_ref \<Rightarrow> val_ref \<Rightarrow> bool ntd" where
  "ntd_emit_select alu sel val_true val_false ctx =
     bind_result (on_mod (dxil_emit_select sel val_true val_false) ctx) (alu_result alu 0)"

definition emit_b2f16 :: "nir_alu_instr \<Rightarrow> val_ref \<Rightarrow> bool ntd" where
  "emit_b2f16 alu v ctx =
     bind_result (on_mod (\<lambda>m. Inr (dxil_module_get_float16_const 0x3C00 m)) ctx) (\<lambda>(c1, ctx).
     bind_result (on_mod (\<lambda>m. Inr (dxil_module_get_float16_const 0 m)) ctx) (\<lambda>(c0, ctx).
       ntd_emit_select alu v c1 c0 ctx))"

definition emit_b2f32 :: "nir_alu_instr \<Rightarrow> val_ref \<Rightarrow> bool ntd" where
  "emit_b2f32 alu v ctx =
     bind_result (on_mod (\<lambda>m. Inr (dxil_module_get_float_const 0x3F800000 m)) ctx) (\<lambda>(c1, ctx).
     bind_result (on_mod (\<lambda>m. Inr (dxil_module_get_float_const 0 m)) ctx) (\<lambda>(c0, ctx).
       ntd_emit_select alu v c1 c0 ctx))"

definition emit_b2f64 :: "nir_alu_instr \<Rightarrow> val_ref \<Rightarrow> bool ntd" where
  "emit_b2f64 alu v ctx =
     bind_result (on_mod (\<lambda>m. Inr (dxil_module_get_double_const 0x3FF0000000000000 m)) ctx) (\<lambda>(c1, ctx).
     bind_result (on_mod (\<lambda>m. Inr (dxil_module_get_double_const 0 m)) ctx) (\<lambda>(c0, ctx).
       ntd_emit_select alu v c1 c0 (set_feats (\<lambda>f. f\<lparr>feat_doubles := True\<rparr>) True ctx)))"

section \<open>Half and double precision\<close>

definition emit_f16tof32 :: "nir_alu_instr \<Rightarrow> val_ref \<Rightarrow> bool ntd" where
  "emit_f16tof32 alu v ctx =
     bind_result (emit_op_call ''dx.op.legacyF16ToF32'' DXIL_NONE DXIL_INTR_LEGACY_F16TOF32 [v] ctx) (alu_result alu 0)"

text \<open>The high half is left out when it is the constant zero.\<close>

definition emit_f32tof16 :: "nir_alu_instr \<Rightarrow> val_ref \<Rightarrow> val_ref \<Rightarrow> bool ntd" where
  "emit_f32tof16 alu val0 val1 ctx =
     bind_result (read_at 1 (alu_srcs alu)) (\<lambda>src1.
     bind_result (on_mod (dxil_get_function ''dx.op.legacyF32ToF16'' DXIL_NONE) ctx) (\<lambda>(func, ctx).
     bind_result (on_mod (dxil_module_get_int32_const DXIL_INTR_LEGACY_F32TOF16) ctx) (\<lambda>(opcode, ctx).
     bind_result (on_mod (dxil_emit_call func [opcode, val0]) ctx) (\<lambda>(v, ctx).
     bind_result
       (if nir_src_is_const (alu_src src1)
        then bind_result (nir_src_comp_as_int (alu_src src1) 0) (\<lambda>i. Inr (i \<noteq> 0)) else Inr True)
       (\<lambda>high. bind_result
         (if \<not> high then Inr (v, ctx)
          else on_mod (\<lambda>m.
            bind_result (dxil_emit_call func [opcode, val1] m) (\<lambda>(v_high, m).
            bind_result (dxil_module_get_int32_const 16 m) (\<lambda>(c, m).
            bind_result (dxil_emit_binop DXIL_BINOP_SHL v_high c 0 m) (\<lambda>(v_high, m).
              dxil_emit_binop DXIL_BINOP_OR v v_high 0 m)))) ctx)
         (alu_result alu 0))))))"

definition emit_frcp :: "nir_alu_instr \<Rightarrow> val_ref \<Rightarrow> bool ntd" where
  "emit_frcp alu v ctx =
     (let bits = def_bit_size (alu_def alu) in
      bind_result
        (if bits = 16 then on_mod (\<lambda>m. Inr (dxil_module_get_float16_const 0x3C00 m)) ctx
         else if bits = 32 then on_mod (\<lambda>m. Inr (dxil_module_get_float_const 0x3F800000 m)) ctx
         else if bits = 64 then on_mod (\<lambda>m. Inr (dxil_module_get_double_const 0x3FF0000000000000 m)) ctx
         else Inl Unreachable)
        (\<lambda>(one, ctx). ntd_emit_binop alu DXIL_BINOP_SDIV one v ctx))"

definition emit_make_double :: "nir_alu_instr \<Rightarrow> bool ntd" where
  "emit_make_double alu ctx =
     bind_result (read_at 0 (alu_srcs alu)) (\<lambda>src.
     bind_result (read_at 0 (swizzle src)) (\<lambda>x.
     bind_result (read_at 1 (swizzle src)) (\<lambda>y.
     bind_result (on_mod (dxil_get_function ''dx.op.makeDouble'' DXIL_F64) ctx) (\<lambda>(func, ctx).
     bind_result (on_mod (dxil_module_get_int32_const DXIL_INTR_MAKE_DOUBLE) ctx) (\<lambda>(opcode, ctx).
     bind_result (get_src (alu_src src) x nir_type_uint32 ctx) (\<lambda>(lo, ctx).
     bind_result (get_src (alu_src src) y nir_type_uint32 ctx) (\<lambda>(hi, ctx).
     bind_result (on_mod (dxil_emit_call func [opcode, lo, hi]) ctx) (alu_result alu 0))))))))"

definition emit_split_double :: "nir_alu_instr \<Rightarrow> bool ntd" where
  "emit_split_double alu ctx =
     bind_result (read_at 0 (alu_srcs alu)) (\<lambda>src.
     bind_result (read_at 0 (swizzle src)) (\<lambda>x.
     bind_result (on_mod (dxil_get_function ''dx.op.splitDouble'' DXIL_F64) ctx) (\<lambda>(func, ctx).
     bind_result (on_mod (dxil_module_get_int32_const DXIL_INTR_SPLIT_DOUBLE) ctx) (\<lambda>(opcode, ctx).
     bind_result (get_src (alu_src src) x nir_type_float64 ctx) (\<lambda>(arg, ctx).
     bind_result (on_mod (dxil_emit_call func [opcode, arg]) ctx) (\<lambda>(v, ctx).
     bind_result (on_mod (dxil_emit_extractval v 0) ctx) (\<lambda>(hi, ctx).
     bind_result (on_mod (dxil_emit_extractval v 1) ctx) (\<lambda>(lo, ctx).
     bind_result (store_def (alu_def alu) 0 hi ctx) (\<lambda>ctx.
       alu_result alu 1 (lo, ctx))))))))))"

section \<open>The instructions\<close>

fun vec_from :: "nir_alu_instr \<Rightarrow> nat \<Rightarrow> nir_alu_src list \<Rightarrow> ntd_context \<Rightarrow> ntd_context result" where
  "vec_from alu i [] ctx = Inr ctx"
| "vec_from alu i (src # srcs) ctx =
     bind_result (read_at 0 (swizzle src)) (\<lambda>chan.
     bind_result (get_src_ssa (src_ssa (alu_src src)) chan ctx) (\<lambda>v.
     bind_result (store_alu_dest alu i v ctx) (vec_from alu (Suc i) srcs)))"

definition emit_vec :: "nir_alu_instr \<Rightarrow> nat \<Rightarrow> bool ntd" where
  "emit_vec alu num ctx =
     (if length (alu_srcs alu) < num then Inl Undefined
      else bind_result (vec_from alu 0 (take num (alu_srcs alu)) ctx) (\<lambda>ctx. Inr (True, ctx)))"

definition emit_mov :: "nir_alu_instr \<Rightarrow> bool ntd" where
  "emit_mov alu ctx =
     (if \<not> def_num_components (alu_def alu) = 1 then Inl Assertion
      else bind_result (read_at 0 (alu_srcs alu)) (\<lambda>src.
        bind_result (read_at 0 (swizzle src)) (\<lambda>chan.
        bind_result (get_src_ssa (src_ssa (alu_src src)) chan ctx) (\<lambda>v.
        bind_result (store_ssa_def (alu_def alu) 0 v ctx) (\<lambda>ctx. Inr (True, ctx))))))"

definition emit_bcsel :: "nir_alu_instr \<Rightarrow> bool ntd" where
  "emit_bcsel alu ctx =
     bind_result (read_at 0 (alu_srcs alu)) (\<lambda>src0.
     bind_result (read_at 1 (alu_srcs alu)) (\<lambda>src1.
     bind_result (read_at 2 (alu_srcs alu)) (\<lambda>src2.
     bind_result (read_at 0 (swizzle src0)) (\<lambda>chan0.
     bind_result (read_at 0 (swizzle src1)) (\<lambda>chan1.
     bind_result (read_at 0 (swizzle src2)) (\<lambda>chan2.
     bind_result (get_src_ssa (src_ssa (alu_src src1)) chan1 ctx) (\<lambda>val_true.
     bind_result (dxil_type_to_nir_type (ntd_mod ctx) (ntd_type_of ctx val_true)) (\<lambda>src1_type.
     bind_result (get_src (alu_src src0) chan0 nir_type_bool ctx) (\<lambda>(sel, ctx).
     bind_result (get_src (alu_src src2) chan2 src1_type ctx) (\<lambda>(val_false, ctx).
       ntd_emit_select alu sel val_true val_false ctx))))))))))"

primrec emit_move_op :: "nir_move_op \<Rightarrow> nir_alu_instr \<Rightarrow> bool ntd" where
  "emit_move_op nir_op_vec2 alu = emit_vec alu 2"
| "emit_move_op nir_op_vec3 alu = emit_vec alu 3"
| "emit_move_op nir_op_vec4 alu = emit_vec alu 4"
| "emit_move_op nir_op_vec8 alu = emit_vec alu 8"
| "emit_move_op nir_op_vec16 alu = emit_vec alu 16"
| "emit_move_op nir_op_mov alu = emit_mov alu"
| "emit_move_op nir_op_pack_double_2x32_dxil alu = emit_make_double alu"
| "emit_move_op nir_op_unpack_double_2x32_dxil alu = emit_split_double alu"
| "emit_move_op nir_op_bcsel alu = emit_bcsel alu"

text \<open>A literal division by zero is illegal in DXIL.\<close>

definition emit_division :: "nir_alu_instr \<Rightarrow> dxil_bin_opcode \<Rightarrow> val_ref \<Rightarrow> val_ref \<Rightarrow> bool ntd" where
  "emit_division alu opcode op0 op1 ctx =
     bind_result (read_at 1 (alu_srcs alu)) (\<lambda>src1.
     bind_result
       (if nir_src_is_const (alu_src src1)
        then bind_result (read_at 0 (swizzle src1)) (\<lambda>chan.
          bind_result (nir_src_comp_as_int (alu_src src1) chan) (\<lambda>divisor. Inr (divisor = 0)))
        else Inr False)
       (\<lambda>by_zero.
          if by_zero then
            bind_result (on_mod (dxil_module_get_int_const 0 (def_bit_size (alu_def alu))) ctx) (alu_result alu 0)
          else ntd_emit_binop alu opcode op0 op1 ctx))"

definition emit_inot :: "nir_alu_instr \<Rightarrow> val_ref \<Rightarrow> bool ntd" where
  "emit_inot alu v ctx =
     (let bit_size = def_bit_size (alu_def alu); val = (if bit_size = 1 then 1 else -1) in
      bind_result (on_mod (dxil_module_get_int_const val bit_size) ctx) (\<lambda>(negative_one, ctx).
        ntd_emit_binop alu DXIL_BINOP_XOR v negative_one ctx))"

primrec emit_int_op :: "nir_int_op \<Rightarrow> nir_alu_instr \<Rightarrow> val_ref list \<Rightarrow> bool ntd" where
  "emit_int_op nir_op_iadd alu src = ntd_emit_binop alu DXIL_BINOP_ADD (src ! 0) (src ! 1)"
| "emit_int_op nir_op_isub alu src = ntd_emit_binop alu DXIL_BINOP_SUB (src ! 0) (src ! 1)"
| "emit_int_op nir_op_imul alu src = ntd_emit_binop alu DXIL_BINOP_MUL (src ! 0) (src ! 1)"
| "emit_int_op nir_op_idiv alu src = emit_division alu DXIL_BINOP_SDIV (src ! 0) (src ! 1)"
| "emit_int_op nir_op_udiv alu src = emit_division alu DXIL_BINOP_UDIV (src ! 0) (src ! 1)"
| "emit_int_op nir_op_irem alu src = ntd_emit_binop alu DXIL_BINOP_SREM (src ! 0) (src ! 1)"
| "emit_int_op nir_op_imod alu src = ntd_emit_binop alu DXIL_BINOP_UREM (src ! 0) (src ! 1)"
| "emit_int_op nir_op_umod alu src = ntd_emit_binop alu DXIL_BINOP_UREM (src ! 0) (src ! 1)"
| "emit_int_op nir_op_ishl alu src = emit_shift alu DXIL_BINOP_SHL (src ! 0) (src ! 1)"
| "emit_int_op nir_op_ishr alu src = emit_shift alu DXIL_BINOP_ASHR (src ! 0) (src ! 1)"
| "emit_int_op nir_op_ushr alu src = emit_shift alu DXIL_BINOP_LSHR (src ! 0) (src ! 1)"
| "emit_int_op nir_op_iand alu src = ntd_emit_binop alu DXIL_BINOP_AND (src ! 0) (src ! 1)"
| "emit_int_op nir_op_ior alu src = ntd_emit_binop alu DXIL_BINOP_OR (src ! 0) (src ! 1)"
| "emit_int_op nir_op_ixor alu src = ntd_emit_binop alu DXIL_BINOP_XOR (src ! 0) (src ! 1)"
| "emit_int_op nir_op_inot alu src = emit_inot alu (src ! 0)"
| "emit_int_op nir_op_ieq alu src = ntd_emit_cmp alu DXIL_ICMP_EQ (src ! 0) (src ! 1)"
| "emit_int_op nir_op_ine alu src = ntd_emit_cmp alu DXIL_ICMP_NE (src ! 0) (src ! 1)"
| "emit_int_op nir_op_ige alu src = ntd_emit_cmp alu DXIL_ICMP_SGE (src ! 0) (src ! 1)"
| "emit_int_op nir_op_uge alu src = ntd_emit_cmp alu DXIL_ICMP_UGE (src ! 0) (src ! 1)"
| "emit_int_op nir_op_ilt alu src = ntd_emit_cmp alu DXIL_ICMP_SLT (src ! 0) (src ! 1)"
| "emit_int_op nir_op_ult alu src = ntd_emit_cmp alu DXIL_ICMP_ULT (src ! 0) (src ! 1)"
| "emit_int_op nir_op_bit_count alu src = emit_unary_intin alu DXIL_INTR_COUNTBITS (src ! 0)"
| "emit_int_op nir_op_bitfield_reverse alu src = emit_unary_intin alu DXIL_INTR_BFREV (src ! 0)"
| "emit_int_op nir_op_ufind_msb_rev alu src = emit_unary_intin alu DXIL_INTR_FIRSTBIT_HI (src ! 0)"
| "emit_int_op nir_op_ifind_msb_rev alu src = emit_unary_intin alu DXIL_INTR_FIRSTBIT_SHI (src ! 0)"
| "emit_int_op nir_op_find_lsb alu src = emit_unary_intin alu DXIL_INTR_FIRSTBIT_LO (src ! 0)"
| "emit_int_op nir_op_imax alu src = emit_binary_intin alu DXIL_INTR_IMAX (src ! 0) (src ! 1)"
| "emit_int_op nir_op_imin alu src = emit_binary_intin alu DXIL_INTR_IMIN (src ! 0) (src ! 1)"
| "emit_int_op nir_op_umax alu src = emit_binary_intin alu DXIL_INTR_UMAX (src ! 0) (src ! 1)"
| "emit_int_op nir_op_umin alu src = emit_binary_intin alu DXIL_INTR_UMIN (src ! 0) (src ! 1)"
| "emit_int_op nir_op_ibfe alu src = emit_tertiary_intin alu DXIL_INTR_IBFE (src ! 2) (src ! 1) (src ! 0)"
| "emit_int_op nir_op_ubfe alu src = emit_tertiary_intin alu DXIL_INTR_UBFE (src ! 2) (src ! 1) (src ! 0)"
| "emit_int_op nir_op_bitfield_insert alu src = emit_bitfield_insert alu (src ! 0) (src ! 1) (src ! 2) (src ! 3)"
| "emit_int_op nir_op_unpack_half_x_dxil alu src = emit_f16tof32 alu (src ! 0)"
| "emit_int_op nir_op_sdot_4x8_iadd alu src = emit_dot4add_packed alu DXIL_INTR_DOT4_ADD_I8_PACKED (src ! 0) (src ! 1) (src ! 2)"
| "emit_int_op nir_op_udot_4x8_uadd alu src = emit_dot4add_packed alu DXIL_INTR_DOT4_ADD_U8_PACKED (src ! 0) (src ! 1) (src ! 2)"
| "emit_int_op nir_op_b2f16 alu src = emit_b2f16 alu (src ! 0)"
| "emit_int_op nir_op_b2f32 alu src = emit_b2f32 alu (src ! 0)"
| "emit_int_op nir_op_b2f64 alu src = emit_b2f64 alu (src ! 0)"

primrec emit_float_op :: "nir_float_op \<Rightarrow> nir_alu_instr \<Rightarrow> val_ref list \<Rightarrow> bool ntd" where
  "emit_float_op nir_op_fadd alu src = ntd_emit_binop alu DXIL_BINOP_ADD (src ! 0) (src ! 1)"
| "emit_float_op nir_op_fsub alu src = ntd_emit_binop alu DXIL_BINOP_SUB (src ! 0) (src ! 1)"
| "emit_float_op nir_op_fmul alu src = ntd_emit_binop alu DXIL_BINOP_MUL (src ! 0) (src ! 1)"
| "emit_float_op nir_op_fdiv alu src = (\<lambda>ctx. ntd_emit_binop alu DXIL_BINOP_SDIV (src ! 0) (src ! 1)
       (set_feats (\<lambda>f. f\<lparr>feat_dx11_1_double_extensions := True\<rparr>) (def_bit_size (alu_def alu) = 64) ctx))"
| "emit_float_op nir_op_feq alu src = ntd_emit_cmp alu DXIL_FCMP_OEQ (src ! 0) (src ! 1)"
| "emit_float_op nir_op_fneu alu src = ntd_emit_cmp alu DXIL_FCMP_UNE (src ! 0) (src ! 1)"
| "emit_float_op nir_op_flt alu src = ntd_emit_cmp alu DXIL_FCMP_OLT (src ! 0) (src ! 1)"
| "emit_float_op nir_op_fge alu src = ntd_emit_cmp alu DXIL_FCMP_OGE (src ! 0) (src ! 1)"
| "emit_float_op nir_op_ftrunc alu src = emit_unary_intin alu DXIL_INTR_ROUND_Z (src ! 0)"
| "emit_float_op nir_op_fabs alu src = emit_unary_intin alu DXIL_INTR_FABS (src ! 0)"
| "emit_float_op nir_op_fcos alu src = emit_unary_intin alu DXIL_INTR_FCOS (src ! 0)"
| "emit_float_op nir_op_fsin alu src = emit_unary_intin alu DXIL_INTR_FSIN (src ! 0)"
| "emit_float_op nir_op_fceil alu src = emit_unary_intin alu DXIL_INTR_ROUND_PI (src ! 0)"
| "emit_float_op nir_op_fexp2 alu src = emit_unary_intin alu DXIL_INTR_FEXP2 (src ! 0)"
| "emit_float_op nir_op_flog2 alu src = emit_unary_intin alu DXIL_INTR_FLOG2 (src ! 0)"
| "emit_float_op nir_op_ffloor alu src = emit_unary_intin alu DXIL_INTR_ROUND_NI (src ! 0)"
| "emit_float_op nir_op_ffract alu src = emit_unary_intin alu DXIL_INTR_FRC (src ! 0)"
| "emit_float_op nir_op_fisnormal alu src = emit_unary_intin alu DXIL_INTR_ISNORMAL (src ! 0)"
| "emit_float_op nir_op_fisfinite alu src = emit_unary_intin alu DXIL_INTR_ISFINITE (src ! 0)"
| "emit_float_op nir_op_fround_even alu src = emit_unary_intin alu DXIL_INTR_ROUND_NE (src ! 0)"
| "emit_float_op nir_op_frcp alu src = emit_frcp alu (src ! 0)"
| "emit_float_op nir_op_fsat alu src = emit_unary_intin alu DXIL_INTR_SATURATE (src ! 0)"
| "emit_float_op nir_op_frsq alu src = emit_unary_intin alu DXIL_INTR_RSQRT (src ! 0)"
| "emit_float_op nir_op_fsqrt alu src = emit_unary_intin alu DXIL_INTR_SQRT (src ! 0)"
| "emit_float_op nir_op_fmax alu src = emit_binary_intin alu DXIL_INTR_FMAX (src ! 0) (src ! 1)"
| "emit_float_op nir_op_fmin alu src = emit_binary_intin alu DXIL_INTR_FMIN (src ! 0) (src ! 1)"
| "emit_float_op nir_op_ffma alu src = (\<lambda>ctx. emit_tertiary_intin alu DXIL_INTR_FMA (src ! 0) (src ! 1) (src ! 2)
       (set_feats (\<lambda>f. f\<lparr>feat_dx11_1_double_extensions := True\<rparr>) (def_bit_size (alu_def alu) = 64) ctx))"
| "emit_float_op nir_op_pack_half_2x16_split alu src = emit_f32tof16 alu (src ! 0) (src ! 1)"

text \<open>The loop that reads the sources into \<open>src\<close>.\<close>

fun get_alu_srcs :: "nir_alu_instr \<Rightarrow> nat list \<Rightarrow> val_ref list ntd" where
  "get_alu_srcs alu [] ctx = Inr ([], ctx)"
| "get_alu_srcs alu (i # is) ctx =
     bind_result (get_alu_src alu i ctx) (\<lambda>(v, ctx).
     bind_result (get_alu_srcs alu is ctx) (\<lambda>(vs, ctx). Inr (v # vs, ctx)))"

definition with_srcs :: "nir_alu_instr \<Rightarrow> (val_ref list \<Rightarrow> bool ntd) \<Rightarrow> bool ntd" where
  "with_srcs alu f ctx =
     (if \<not> num_inputs (alu_op alu) \<le> 4 then Inl Assertion
      else bind_result (get_alu_srcs alu [0..<num_inputs (alu_op alu)] ctx) (\<lambda>(src, ctx). f src ctx))"

definition emit_alu :: "nir_alu_instr \<Rightarrow> bool ntd" where
  "emit_alu alu =
     (case alu_op alu of
        MOVE_OP op \<Rightarrow> emit_move_op op alu
      | CONVERSION_OP op \<Rightarrow> with_srcs alu (\<lambda>src. ntd_emit_cast alu (src ! 0))
      | INT_OP op \<Rightarrow> with_srcs alu (emit_int_op op alu)
      | FLOAT_OP op \<Rightarrow> with_srcs alu (emit_float_op op alu)
      | OTHER_OP result operands \<Rightarrow> with_srcs alu (\<lambda>src ctx. Inr (False, ctx)))"

end
