(* ===== verification/Dxil_Eval.thy ===== *)
theory Dxil_Eval
  imports Instructions "HOL-Library.Signed_Division"
begin

unbundle bit_operations_syntax

text \<open>
  What the instructions that a module holds compute, for integers: the abstract side of the translation.
  The meaning of the operations is that of the LLVM language, on bit patterns; \<open>None\<close> is a result that
  LLVM leaves undefined (a shift by the width or more, a division by zero or one that overflows) or that
  is not an operation on integers.

  A valuation gives each value of the module a bit pattern. It \<open>follows\<close> the module when each constant
  has its own pattern and each instruction whose result is defined has that result; the values of other
  instructions, phis, loads and calls among them, are free.
\<close>

section \<open>Operations on bit patterns\<close>

definition as_signed :: "nat \<Rightarrow> int \<Rightarrow> int" where
  "as_signed w x = signed_take_bit (w - 1) x"

primrec binop_bits :: "dxil_bin_opcode \<Rightarrow> nat \<Rightarrow> int \<Rightarrow> int \<Rightarrow> int option" where
  "binop_bits DXIL_BINOP_ADD w x y = Some (take_bit w (x + y))"
| "binop_bits DXIL_BINOP_SUB w x y = Some (take_bit w (x - y))"
| "binop_bits DXIL_BINOP_MUL w x y = Some (take_bit w (x * y))"
| "binop_bits DXIL_BINOP_UDIV w x y = (if y = 0 then None else Some (x div y))"
| "binop_bits DXIL_BINOP_SDIV w x y =
     (if y = 0 \<or> as_signed w x = - (2 ^ (w - 1)) \<and> as_signed w y = -1 then None
      else Some (take_bit w (as_signed w x sdiv as_signed w y)))"
| "binop_bits DXIL_BINOP_UREM w x y = (if y = 0 then None else Some (x mod y))"
| "binop_bits DXIL_BINOP_SREM w x y =
     (if y = 0 \<or> as_signed w x = - (2 ^ (w - 1)) \<and> as_signed w y = -1 then None
      else Some (take_bit w (as_signed w x smod as_signed w y)))"
| "binop_bits DXIL_BINOP_SHL w x y = (if y < int w then Some (take_bit w (push_bit (nat y) x)) else None)"
| "binop_bits DXIL_BINOP_LSHR w x y = (if y < int w then Some (drop_bit (nat y) x) else None)"
| "binop_bits DXIL_BINOP_ASHR w x y =
     (if y < int w then Some (take_bit w (drop_bit (nat y) (as_signed w x))) else None)"
| "binop_bits DXIL_BINOP_AND w x y = Some (x AND y)"
| "binop_bits DXIL_BINOP_OR w x y = Some (x OR y)"
| "binop_bits DXIL_BINOP_XOR w x y = Some (x XOR y)"
| "binop_bits DXIL_BINOP_INSTR_COUNT w x y = None"

definition cmp_bits :: "dxil_cmp_pred \<Rightarrow> nat \<Rightarrow> int \<Rightarrow> int \<Rightarrow> int option" where
  "cmp_bits pred w x y =
     (case pred of
        DXIL_ICMP_EQ \<Rightarrow> Some (of_bool (x = y)) | DXIL_ICMP_NE \<Rightarrow> Some (of_bool (x \<noteq> y))
      | DXIL_ICMP_UGT \<Rightarrow> Some (of_bool (x > y)) | DXIL_ICMP_UGE \<Rightarrow> Some (of_bool (x \<ge> y))
      | DXIL_ICMP_ULT \<Rightarrow> Some (of_bool (x < y)) | DXIL_ICMP_ULE \<Rightarrow> Some (of_bool (x \<le> y))
      | DXIL_ICMP_SGT \<Rightarrow> Some (of_bool (as_signed w x > as_signed w y))
      | DXIL_ICMP_SGE \<Rightarrow> Some (of_bool (as_signed w x \<ge> as_signed w y))
      | DXIL_ICMP_SLT \<Rightarrow> Some (of_bool (as_signed w x < as_signed w y))
      | DXIL_ICMP_SLE \<Rightarrow> Some (of_bool (as_signed w x \<le> as_signed w y))
      | _ \<Rightarrow> None)"

text \<open>From \<open>v\<close> bits to \<open>w\<close> bits.\<close>

definition cast_bits :: "dxil_cast_opcode \<Rightarrow> nat \<Rightarrow> nat \<Rightarrow> int \<Rightarrow> int option" where
  "cast_bits opcode v w x =
     (case opcode of
        DXIL_CAST_TRUNC \<Rightarrow> Some (take_bit w x)
      | DXIL_CAST_ZEXT \<Rightarrow> Some x
      | DXIL_CAST_SEXT \<Rightarrow> Some (take_bit w (as_signed v x))
      | DXIL_CAST_BITCAST \<Rightarrow> Some x
      | _ \<Rightarrow> None)"

section \<open>Valuations\<close>

type_synonym valuation = "val_ref \<Rightarrow> int option"

definition int_width :: "dxil_module \<Rightarrow> ty \<Rightarrow> nat option" where
  "int_width m t = (case type_at m t of TYPE_INTEGER w \<Rightarrow> Some w | _ \<Rightarrow> None)"

fun scalar_width :: "dxil_type \<Rightarrow> nat option" where
  "scalar_width (TYPE_INTEGER w) = Some w"
| "scalar_width (TYPE_FLOAT w) = Some w"
| "scalar_width _ = None"

text \<open>A constant of 16-bit floating-point type is kept as an integer.\<close>

definition const_bits :: "dxil_module \<Rightarrow> dxil_const \<Rightarrow> int option" where
  "const_bits m c =
     (case (scalar_width (type_at m (value_type (const_value c))), const_data c) of
        (Some w, INT_VALUE v) \<Rightarrow> Some (take_bit w (uint v))
      | (Some w, FLOAT_VALUE v) \<Rightarrow> Some (uint v)
      | (Some w, DOUBLE_VALUE v) \<Rightarrow> Some (uint v)
      | _ \<Rightarrow> None)"

definition instr_bits :: "dxil_module \<Rightarrow> valuation \<Rightarrow> instr_data \<Rightarrow> int option" where
  "instr_bits m rho d =
     (case d of
        INSTR_BINOP opcode a b _ \<Rightarrow>
          (case (int_width m (type_of m a), rho a, rho b) of
             (Some w, Some x, Some y) \<Rightarrow> binop_bits opcode w x y | _ \<Rightarrow> None)
      | INSTR_CMP pred a b \<Rightarrow>
          (case (int_width m (type_of m a), rho a, rho b) of
             (Some w, Some x, Some y) \<Rightarrow> cmp_bits pred w x y | _ \<Rightarrow> None)
      | INSTR_SELECT c a b \<Rightarrow>
          (case rho c of Some x \<Rightarrow> rho (if x = 1 then a else b) | None \<Rightarrow> None)
      | INSTR_CAST opcode t a \<Rightarrow>
          (case (scalar_width (type_at m (type_of m a)), scalar_width (type_at m t), rho a) of
             (Some v, Some w, Some x) \<Rightarrow> cast_bits opcode v w x | _ \<Rightarrow> None)
      | _ \<Rightarrow> None)"

definition follows :: "dxil_module \<Rightarrow> valuation \<Rightarrow> bool" where
  "follows m rho \<longleftrightarrow>
     (\<forall>i < length (const_list m). \<forall>x. const_bits m (const_list m ! i) = Some x \<longrightarrow> rho (CONST_REF i) = Some x) \<and>
     (\<forall>f < length (func_def_list m). \<forall>i < length (instr_list (func_def_list m ! f)). \<forall>x.
        instr_bits m rho (instr_data (instr_list (func_def_list m ! f) ! i)) = Some x \<longrightarrow>
        rho (INSTR_REF f i) = Some x)"

section \<open>Running a module\<close>

text \<open>
  Computing the values of a module without being given any: constants are what they are, and the result of an
  instruction comes from those of its operands. What depends on itself, or on a phi, a load or a call, has no
  value.
\<close>

lemma instr_bits_mono:
  assumes "\<And>v k. rho v = Some k \<Longrightarrow> rho' v = Some k" and "instr_bits m rho d = Some x"
  shows "instr_bits m rho' d = Some x"
  using assms(2) by (auto simp: instr_bits_def dest!: assms(1) split: instr_data.splits option.splits)

lemma instr_bits_monotone [partial_function_mono]:
  "monotone (fun_ord option_ord) option_ord (\<lambda>f. instr_bits m (\<lambda>v. f (m, v)) d)"
proof (rule monotoneI)
  fix f g :: "dxil_module \<times> val_ref \<Rightarrow> int option"
  assume le: "fun_ord option_ord f g"
  have "g (m, v) = Some k" if "f (m, v) = Some k" for v k
  proof -
    have "option_ord (f (m, v)) (g (m, v))" using le unfolding fun_ord_def by blast
    then show ?thesis using that by (auto simp: flat_ord_def)
  qed
  from instr_bits_mono [of "\<lambda>v. f (m, v)" "\<lambda>v. g (m, v)", OF this]
  show "option_ord (instr_bits m (\<lambda>v. f (m, v)) d) (instr_bits m (\<lambda>v. g (m, v)) d)"
    by (cases "instr_bits m (\<lambda>v. f (m, v)) d") (simp_all add: flat_ord_def)
qed

partial_function (option) run_value :: "dxil_module \<Rightarrow> val_ref \<Rightarrow> int option" where
  "run_value m v =
     (case v of
        CONST_REF i \<Rightarrow> if i < length (const_list m) then const_bits m (const_list m ! i) else None
      | INSTR_REF f i \<Rightarrow>
          if f < length (func_def_list m) \<and> i < length (instr_list (func_def_list m ! f))
          then instr_bits m (\<lambda>v. run_value m v) (instr_data (instr_list (func_def_list m ! f) ! i)) else None
      | GVAR_REF i \<Rightarrow> None
      | FUNC_REF i \<Rightarrow> None)"

lemma run_value_follows: "follows m (run_value m)"
proof -
  have "run_value m (CONST_REF i) = const_bits m (const_list m ! i)" if "i < length (const_list m)" for i
    using that by (subst run_value.simps) simp
  moreover have "run_value m (INSTR_REF f i) = instr_bits m (run_value m) (instr_data (instr_list (func_def_list m ! f) ! i))"
    if "f < length (func_def_list m)" "i < length (instr_list (func_def_list m ! f))" for f i
    using that by (subst run_value.simps) simp
  ultimately show ?thesis by (simp add: follows_def)
qed

end
