(* ===== verification/Module_Growth.thy ===== *)
theory Module_Growth
  imports Dxil_Eval Function_Decls "HOL-Library.Sublist"
begin

unbundle bit_operations_syntax

text \<open>
  How a module grows while the instructions of a function are emitted, and what the emitters of
  \<open>dxil_module.c\<close> do to it: each adds at the end of the tables, and the value it returns has a known type
  and, in every valuation that follows a later module, a known meaning.
\<close>

section \<open>Growing\<close>

definition extends :: "dxil_module \<Rightarrow> dxil_module \<Rightarrow> bool" where
  "extends m m' \<longleftrightarrow>
     types_ok m' \<and> prefix (type_list m) (type_list m') \<and> prefix (const_list m) (const_list m') \<and>
     cur_emitting_func m' = cur_emitting_func m \<and>
     list_all2 (\<lambda>d d'. prefix (instr_list d) (instr_list d')) (func_def_list m) (func_def_list m')"

definition ready :: "dxil_module \<Rightarrow> bool" where
  "ready m \<longleftrightarrow> types_ok m \<and> (\<exists>f. cur_emitting_func m = Some f \<and> f < length (func_def_list m))"

lemma extends_refl: "types_ok m \<Longrightarrow> extends m m"
  by (simp add: extends_def list_all2_refl)

lemma extends_trans:
  assumes "extends m m'" and "extends m' m''"
  shows "extends m m''"
proof -
  have "list_all2 (\<lambda>d d'. prefix (instr_list d) (instr_list d')) (func_def_list m) (func_def_list m'')"
    by (rule list_all2_trans [OF prefix_order.order_trans]) (use assms in \<open>auto simp: extends_def\<close>)
  then show ?thesis using assms unfolding extends_def by (auto elim: prefix_order.order_trans)
qed

lemma extends_ready: "extends m m' \<Longrightarrow> ready m \<Longrightarrow> ready m'"
  by (auto simp: extends_def ready_def dest: list_all2_lengthD)

lemma ready_types: "ready m \<Longrightarrow> types_ok m"
  by (simp add: ready_def)

section \<open>Values\<close>

fun in_range :: "dxil_module \<Rightarrow> val_ref \<Rightarrow> bool" where
  "in_range m (CONST_REF i) = (i < length (const_list m))"
| "in_range m (INSTR_REF f i) = (f < length (func_def_list m) \<and> i < length (instr_list (func_def_list m ! f)))"
| "in_range m _ = False"

text \<open>The value is there and its type is \<open>t\<close>.\<close>

definition of_type :: "dxil_module \<Rightarrow> val_ref \<Rightarrow> dxil_type \<Rightarrow> bool" where
  "of_type m v t \<longleftrightarrow> in_range m v \<and> type_of m v < length (type_list m) \<and> type_list m ! type_of m v = t"

lemma prefix_nth: "prefix xs ys \<Longrightarrow> i < length xs \<Longrightarrow> i < length ys \<and> ys ! i = xs ! i"
  by (auto simp: prefix_def nth_append)

lemma extends_get_value:
  assumes "extends m m'" and "in_range m v"
  shows "in_range m' v \<and> get_value m' v = get_value m v"
proof (cases v)
  case (CONST_REF i)
  then show ?thesis using assms prefix_nth [of "const_list m" "const_list m'" i] by (simp add: extends_def)
next
  case (INSTR_REF f i)
  have "list_all2 (\<lambda>d d'. prefix (instr_list d) (instr_list d')) (func_def_list m) (func_def_list m')"
    using assms(1) by (simp add: extends_def)
  then have f: "f < length (func_def_list m')" and p: "prefix (instr_list (func_def_list m ! f)) (instr_list (func_def_list m' ! f))"
    using assms(2) INSTR_REF by (auto simp: list_all2_conv_all_nth)
  from prefix_nth [OF p, of i] show ?thesis using f assms(2) INSTR_REF by simp
qed (use assms in simp_all)

lemma extends_type:
  assumes "extends m m'" and "t < length (type_list m)"
  shows "t < length (type_list m') \<and> type_list m' ! t = type_list m ! t"
  using assms prefix_nth unfolding extends_def by blast

lemma extends_of_type: "extends m m' \<Longrightarrow> of_type m v t \<Longrightarrow> of_type m' v t"
  using extends_get_value extends_type unfolding of_type_def by metis

lemma of_type_at: "of_type m v t \<Longrightarrow> type_at m (type_of m v) = t"
  by (simp add: of_type_def type_at_def nth_or_def)

text \<open>A scalar type is in the table once.\<close>

lemma scalar_unique:
  assumes "types_ok m" and "a < length (type_list m)" and "b < length (type_list m)"
    and "type_list m ! a = type_list m ! b" and "\<not> is_function_type (type_list m ! a)"
  shows "a = b"
proof (rule ccontr)
  assume "a \<noteq> b"
  have d: "distinct (filter (\<lambda>t. \<not> is_function_type t) (type_list m))" using assms(1) by (simp add: types_ok_def)
  have twice: "\<not> distinct (filter P xs)" if "i < j" "j < length xs" "xs ! i = xs ! j" "P (xs ! i)" for P :: "dxil_type \<Rightarrow> bool" and xs i j
  proof -
    have xs: "xs = take j xs @ xs ! j # drop (Suc j) xs" using that(2) by (rule id_take_nth_drop)
    have "xs ! j \<in> set (filter P (take j xs))"
      using that by (auto simp: in_set_conv_nth intro!: exI [of _ i])
    moreover have "filter P xs = filter P (take j xs) @ xs ! j # filter P (drop (Suc j) xs)"
      using arg_cong [OF xs, of "filter P"] that(3,4) by (simp del: append_take_drop_id)
    ultimately show ?thesis by simp
  qed
  show False using \<open>a \<noteq> b\<close> twice [of a b] twice [of b a] assms d by (metis nat_neq_iff)
qed

lemma same_type_refl: "same_type m t t = Inr True"
  by (simp add: same_type_def types_equal.simps)


lemma assert_same_type:
  assumes "types_ok m" and "of_type m a t" and "of_type m b t" and "\<not> is_function_type t"
  shows "type_of m b = type_of m a" and "assert_types_equal m (type_of m a) (type_of m b) = Inr ()"
proof -
  show "type_of m b = type_of m a"
    using assms scalar_unique [OF assms(1), of "type_of m b" "type_of m a"] by (simp add: of_type_def)
  then show "assert_types_equal m (type_of m a) (type_of m b) = Inr ()"
    by (simp add: assert_types_equal_def same_type_refl)
qed

section \<open>Meanings\<close>

text \<open>The value has the type, and the meaning wherever that is defined.\<close>

definition holds :: "dxil_module \<Rightarrow> val_ref \<Rightarrow> dxil_type \<Rightarrow> (valuation \<Rightarrow> int option) \<Rightarrow> bool" where
  "holds m v t x \<longleftrightarrow> of_type m v t \<and>
     (\<forall>m' rho k. extends m m' \<longrightarrow> follows m' rho \<longrightarrow> x rho = Some k \<longrightarrow> rho v = Some k)"

definition mod_emits ::
  "(val_ref \<times> dxil_module) result \<Rightarrow> dxil_module \<Rightarrow> dxil_type \<Rightarrow> (valuation \<Rightarrow> int option) \<Rightarrow> bool" where
  "mod_emits r m t x \<longleftrightarrow> (\<exists>v m'. r = Inr (v, m') \<and> extends m m' \<and> holds m' v t x)"

lemma holds_type: "holds m v t x \<Longrightarrow> of_type m v t"
  by (simp add: holds_def)

lemma holds_self: "of_type m v t \<Longrightarrow> holds m v t (\<lambda>rho. rho v)"
  by (simp add: holds_def)

lemma holds_extends: "holds m v t x \<Longrightarrow> extends m m' \<Longrightarrow> holds m' v t x"
  unfolding holds_def using extends_of_type extends_trans by blast

lemma holds_weaken: "holds m v t x \<Longrightarrow> (\<And>rho k. y rho = Some k \<Longrightarrow> x rho = Some k) \<Longrightarrow> holds m v t y"
  unfolding holds_def by blast

lemma mod_emitsI: "r = Inr (v, m') \<Longrightarrow> extends m m' \<Longrightarrow> holds m' v t x \<Longrightarrow> mod_emits r m t x"
  unfolding mod_emits_def by blast

lemma mod_emitsE:
  assumes "mod_emits r m t x"
  obtains v m' where "r = Inr (v, m')" "extends m m'" "holds m' v t x"
  using assms unfolding mod_emits_def by blast

lemma mod_emits_value: "types_ok m \<Longrightarrow> holds m v t x \<Longrightarrow> mod_emits (Inr (v, m)) m t x"
  by (rule mod_emitsI [OF refl]) (simp_all add: extends_refl)

lemma mod_emits_weaken: "mod_emits r m t x \<Longrightarrow> (\<And>rho k. y rho = Some k \<Longrightarrow> x rho = Some k) \<Longrightarrow> mod_emits r m t y"
  unfolding mod_emits_def using holds_weaken by blast

lemma mod_emits_after: "extends m m' \<Longrightarrow> mod_emits r m' t x \<Longrightarrow> mod_emits r m t x"
  unfolding mod_emits_def using extends_trans by blast

lemma mod_emits_bind:
  assumes "mod_emits r m t x" and "\<And>v m'. extends m m' \<Longrightarrow> holds m' v t x \<Longrightarrow> mod_emits (g v m') m' u y"
  shows "mod_emits (bind_result r (\<lambda>(v, m). g v m)) m u y"
proof -
  obtain v m' where 1: "r = Inr (v, m')" "extends m m'" "holds m' v t x" using assms(1) by (rule mod_emitsE)
  show ?thesis using mod_emits_after [OF 1(2) assms(2) [OF 1(2,3)]] 1(1) by simp
qed

text \<open>The meaning of an operation with two operands.\<close>

definition lift2 ::
  "(int \<Rightarrow> int \<Rightarrow> int option) \<Rightarrow> (valuation \<Rightarrow> int option) \<Rightarrow> (valuation \<Rightarrow> int option) \<Rightarrow> valuation \<Rightarrow> int option" where
  "lift2 g x y rho = Option.bind (x rho) (\<lambda>i. Option.bind (y rho) (g i))"

section \<open>Types and constants\<close>

lemma int_type_frame:
  "dxil_module_get_int_type b m = Inr (t, m') \<Longrightarrow>
   const_list m' = const_list m \<and> func_def_list m' = func_def_list m \<and> cur_emitting_func m' = cur_emitting_func m"
  by (auto simp: dxil_module_get_int_type_def scalar_getter_defs create_type_def split: if_splits option.splits)

lemma float_type_frame:
  "dxil_module_get_float_type b m = Inr (t, m') \<Longrightarrow>
   const_list m' = const_list m \<and> func_def_list m' = func_def_list m \<and> cur_emitting_func m' = cur_emitting_func m"
  by (auto simp: dxil_module_get_float_type_def scalar_getter_defs create_type_def split: if_splits option.splits)

lemma grown_extends:
  "grown m m' \<Longrightarrow> const_list m' = const_list m \<and> func_def_list m' = func_def_list m \<and>
     cur_emitting_func m' = cur_emitting_func m \<Longrightarrow> extends m m'"
  by (auto simp: grown_def extends_def list_all2_refl)

text \<open>A type that is asked for is in the table.\<close>

definition gets_type :: "(ty \<times> dxil_module) result \<Rightarrow> dxil_module \<Rightarrow> dxil_type \<Rightarrow> bool" where
  "gets_type r m t \<longleftrightarrow>
     (\<exists>i m'. r = Inr (i, m') \<and> extends m m' \<and> i < length (type_list m') \<and> type_list m' ! i = t)"

lemma gets_typeE:
  assumes "gets_type r m t"
  obtains i m' where "r = Inr (i, m')" "extends m m'" "i < length (type_list m')" "type_list m' ! i = t"
  using assms unfolding gets_type_def by blast

lemma gets_int_type:
  assumes "types_ok m" and "b \<in> {1, 8, 16, 32, 64}"
  shows "gets_type (dxil_module_get_int_type b m) m (TYPE_INTEGER b)"
proof -
  obtain t m' where "dxil_module_get_int_type b m = Inr (t, m')" "grown m m'" "has_type (type_list m') t (INT_T b)"
    using givesE [OF gives_int [OF assms(2)] assms(1)] by metis
  then show ?thesis using grown_extends int_type_frame unfolding gets_type_def by fastforce
qed

lemma gets_float_type:
  assumes "types_ok m" and "b \<in> {16, 32, 64}"
  shows "gets_type (dxil_module_get_float_type b m) m (TYPE_FLOAT b)"
proof -
  obtain t m' where "dxil_module_get_float_type b m = Inr (t, m')" "grown m m'" "has_type (type_list m') t (FLOAT_T b)"
    using givesE [OF gives_float [OF assms(2)] assms(1)] by metis
  then show ?thesis using grown_extends float_type_frame unfolding gets_type_def by fastforce
qed

end
