(* ===== verification/Module_Emits.thy ===== *)
theory Module_Emits
  imports Module_Growth
begin

unbundle bit_operations_syntax

text \<open>What the constants and the instructions that the emitters of \<open>dxil_module.c\<close> create mean.\<close>

section \<open>Constants\<close>

lemma const_holds:
  assumes "i < length (const_list m)" and "const_list m ! i = c" and "type_list m ! value_type (const_value c) = t"
    and "value_type (const_value c) < length (type_list m)" and "\<And>k. y = Some k \<Longrightarrow> const_bits m c = Some k"
  shows "holds m (CONST_REF i) t (\<lambda>_. y)"
  unfolding holds_def
proof (intro conjI allI impI)
  show "of_type m (CONST_REF i) t" using assms(1-4) by (simp add: of_type_def)
next
  fix M rho j assume M: "extends m M" "follows M rho" and j: "y = Some j"
  have "i < length (const_list M) \<and> const_list M ! i = c"
    using M(1) assms(1,2) prefix_nth unfolding extends_def by blast
  moreover have "const_bits M c = Some j"
    using extends_type [OF M(1) assms(4)] assms(4) assms(5) [OF j] by (simp add: const_bits_def type_at_def nth_or_def)
  ultimately show "rho (CONST_REF i) = Some j" using M(2) j unfolding follows_def by auto
qed

text \<open>The constant that is found may differ from the one asked for in the bits only where \<open>==\<close> does not
  tell them apart.\<close>

lemma intern_const_emits:
  assumes "types_ok m" and "i < length (type_list m)" and "type_list m ! i = t"
    and bits: "\<And>d k. d = data \<or> equal d \<Longrightarrow> y = Some k \<Longrightarrow>
      const_bits m \<lparr>const_value = \<lparr>value_id = n, value_type = i\<rparr>, const_data = d\<rparr> = Some k"
  shows "mod_emits (Inr (intern_const equal i data m)) m t (\<lambda>_. y)"
proof -
  let ?P = "\<lambda>c. value_type (const_value c) = i \<and> const_data c \<noteq> UNDEF \<and> equal (const_data c)"
  have k: "const_bits m c = Some k"
    if "y = Some k" "value_type (const_value c) = i" "const_data c = data \<or> equal (const_data c)" for c k
    using bits [OF that(3,1)] that(2) by (simp add: const_bits_def)
  show ?thesis
  proof (cases "find_pos ?P (const_list m)")
    case (Some j)
    then have j: "j < length (const_list m)" "?P (const_list m ! j)" using find_pos_Some by auto
    have "holds m (CONST_REF j) t (\<lambda>_. y)"
      by (rule const_holds [OF j(1) refl]) (use j assms(2,3) k in simp_all)
    then show ?thesis using Some mod_emits_value [OF assms(1)] by (simp add: intern_const_def)
  next
    case None
    let ?c = "\<lparr>const_value = \<lparr>value_id = -1, value_type = i\<rparr>, const_data = data\<rparr>"
    let ?m = "m\<lparr>const_list := const_list m @ [?c]\<rparr>"
    have "holds ?m (CONST_REF (length (const_list m))) t (\<lambda>_. y)"
      by (rule const_holds [of _ _ ?c]) (use assms(2,3) k [of _ ?c] in \<open>simp_all add: const_bits_def type_at_def\<close>)
    moreover have "extends m ?m"
      using types_ok_cong [OF assms(1), of ?m] by (simp add: extends_def scalar_caches_def list_all2_refl)
    ultimately show ?thesis using None by (auto simp: intern_const_def create_const_def intro: mod_emitsI)
  qed
qed

lemma get_int_const_emits:
  assumes "types_ok m" and "i < length (type_list m)" and "type_list m ! i = TYPE_INTEGER w"
  shows "mod_emits (get_int_const i v m) m (TYPE_INTEGER w) (\<lambda>_. Some (take_bit w (uint v)))"
proof -
  have "mod_emits (Inr (intern_const (\<lambda>d. d = INT_VALUE v) i (INT_VALUE v) m)) m (TYPE_INTEGER w)
    (\<lambda>_. Some (take_bit w (uint v)))"
    by (rule intern_const_emits [OF assms]) (use assms in \<open>auto simp: const_bits_def type_at_def nth_or_def\<close>)
  then show ?thesis using assms(2,3) by (simp add: get_int_const_def type_at_def nth_or_def)
qed

lemma typed_const_emits:
  assumes "types_ok m" and "b \<in> {1, 8, 16, 32, 64}"
  shows "mod_emits (bind_result (dxil_module_get_int_type b m) (\<lambda>(t, m). get_int_const t v m)) m
    (TYPE_INTEGER b) (\<lambda>_. Some (take_bit b (uint v)))"
proof -
  obtain t m' where t: "dxil_module_get_int_type b m = Inr (t, m')" "extends m m'"
    "t < length (type_list m')" "type_list m' ! t = TYPE_INTEGER b"
    using gets_int_type [OF assms] by (rule gets_typeE)
  then have "types_ok m'" by (simp add: extends_def)
  from mod_emits_after [OF t(2) get_int_const_emits [OF this t(3,4)]] show ?thesis using t(1) by simp
qed

lemma take_bit_of_int: "n \<le> 64 \<Longrightarrow> take_bit n (uint (word_of_int i :: 64 word)) = take_bit n i"
  by (simp add: unsigned_of_int min_def)

lemma int32_const_emits:
  assumes "types_ok m"
  shows "mod_emits (dxil_module_get_int32_const v m) m (TYPE_INTEGER 32) (\<lambda>_. Some (uint v))"
proof -
  have "take_bit 32 (uint (scast v :: 64 word)) = uint v"
    using take_bit_of_int [of 32 "sint v"] uint_sint [of v] by simp
  with typed_const_emits [OF assms, of 32 "scast v"] show ?thesis
    by (simp add: dxil_module_get_int32_const_def dxil_module_get_int_type_def)
qed

text \<open>A constant of any size, when the value fits the size as a signed number.\<close>

definition fits_size :: "nat \<Rightarrow> 64 word \<Rightarrow> bool" where
  "fits_size b v \<longleftrightarrow>
     (if b = 1 then v = 0 \<or> v = 1 else - (2 ^ (b - 1)) \<le> sint v \<and> sint v < 2 ^ (b - 1))"


lemma fits_sizeI: "b \<noteq> 1 \<Longrightarrow> - (2 ^ (b - 1)) \<le> sint v \<Longrightarrow> sint v < 2 ^ (b - 1) \<Longrightarrow> fits_size b v"
  by (simp add: fits_size_def)

lemma int_const_emits:
  assumes "types_ok m" and "b \<in> {1, 16, 32, 64}" and "fits_size b v"
  shows "mod_emits (dxil_module_get_int_const v b m) m (TYPE_INTEGER b) (\<lambda>_. Some (take_bit b (uint v)))"
proof -
  have b: "b \<in> {1, 8, 16, 32, 64}" using assms(2) by blast
  consider "b = 1" | "b = 16" | "b = 32" | "b = 64" using assms(2) by blast
  then show ?thesis
  proof cases
    case 1
    then have "v = 0 \<or> v = 1" using assms(3) by (simp add: fits_size_def)
    then have "(of_bool (v \<noteq> 0) :: 64 word) = v" "sint v = 0 \<or> sint v = 1" by auto
    then show ?thesis using typed_const_emits [OF assms(1) b, of v] 1
      by (simp add: dxil_module_get_int_const_def dxil_module_get_int1_const_def dxil_module_get_int_type_def Let_def)
  next
    case 2
    have "take_bit 16 (uint (scast (ucast v :: 16 word) :: 64 word)) = take_bit 16 (uint v)"
      unfolding scast_eq by (simp add: take_bit_of_int signed_ucast_eq take_bit_signed_take_bit)
    then show ?thesis using typed_const_emits [OF assms(1) b, of "scast (ucast v :: 16 word)"] assms(3) 2
      by (simp add: dxil_module_get_int_const_def dxil_module_get_int16_const_def dxil_module_get_int_type_def fits_size_def)
  next
    case 3
    have "take_bit 32 (uint (scast (ucast v :: 32 word) :: 64 word)) = take_bit 32 (uint v)"
      unfolding scast_eq by (simp add: take_bit_of_int signed_ucast_eq take_bit_signed_take_bit)
    then show ?thesis using typed_const_emits [OF assms(1) b, of "scast (ucast v :: 32 word)"] assms(3) 3
      by (simp add: dxil_module_get_int_const_def dxil_module_get_int32_const_def dxil_module_get_int_type_def fits_size_def)
  next
    case 4
    then show ?thesis using typed_const_emits [OF assms(1) b, of v]
      by (simp add: dxil_module_get_int_const_def dxil_module_get_int64_const_def dxil_module_get_int_type_def)
  qed
qed

lemma float16_const_emits:
  assumes "types_ok m"
  shows "mod_emits (Inr (dxil_module_get_float16_const v m)) m (TYPE_FLOAT 16) (\<lambda>_. Some (uint v))"
proof -
  obtain t m' where t: "get_float16_type m = (t, m')" "extends m m'" "t < length (type_list m')" "type_list m' ! t = TYPE_FLOAT 16"
    using gets_float_type [OF assms, of 16] by (auto simp: dxil_module_get_float_type_def elim!: gets_typeE)
  have v: "take_bit 16 (uint v) = uint v" using uint_lt2p [of v] by (simp add: take_bit_int_eq_self)
  have "mod_emits (Inr (intern_const (\<lambda>d. d = INT_VALUE (ucast v)) t (INT_VALUE (ucast v)) m')) m' (TYPE_FLOAT 16) (\<lambda>_. Some (uint v))"
    by (rule intern_const_emits) (use t in \<open>auto simp: extends_def const_bits_def type_at_def nth_or_def unsigned_ucast_eq v\<close>)
  from mod_emits_after [OF t(2) this] show ?thesis using t(1) by (simp add: dxil_module_get_float16_const_def)
qed

text \<open>The comparison \<open>==\<close> takes the two zeros for one, and finds no number that is not a number.\<close>

definition float_exact :: "32 word \<Rightarrow> bool" where
  "float_exact v \<longleftrightarrow> \<not> float_is_nan v \<and> v AND 0x7FFFFFFF \<noteq> 0"

definition double_exact :: "64 word \<Rightarrow> bool" where
  "double_exact v \<longleftrightarrow> \<not> double_is_nan v \<and> v AND 0x7FFFFFFFFFFFFFFF \<noteq> 0"

lemma float_const_emits:
  assumes "types_ok m"
  shows "mod_emits (Inr (dxil_module_get_float_const v m)) m (TYPE_FLOAT 32)
    (\<lambda>_. if float_exact v then Some (uint v) else None)"
proof -
  obtain t m' where t: "get_float32_type m = (t, m')" "extends m m'" "t < length (type_list m')" "type_list m' ! t = TYPE_FLOAT 32"
    using gets_float_type [OF assms, of 32] by (auto simp: dxil_module_get_float_type_def elim!: gets_typeE)
  have "mod_emits (Inr (intern_const (\<lambda>d. case d of FLOAT_VALUE x \<Rightarrow> float_eq x v | _ \<Rightarrow> False) t (FLOAT_VALUE (float_as_double v)) m'))
    m' (TYPE_FLOAT 32) (\<lambda>_. if float_exact v then Some (uint v) else None)"
    by (rule intern_const_emits) (use t in \<open>auto simp: extends_def const_bits_def type_at_def nth_or_def float_exact_def
        float_as_double_def float_eq_def split: const_data.splits if_splits\<close>)
  from mod_emits_after [OF t(2) this] show ?thesis using t(1) by (simp add: dxil_module_get_float_const_def)
qed

lemma double_const_emits:
  assumes "types_ok m"
  shows "mod_emits (Inr (dxil_module_get_double_const v m)) m (TYPE_FLOAT 64)
    (\<lambda>_. if double_exact v then Some (uint v) else None)"
proof -
  obtain t m' where t: "get_float64_type m = (t, m')" "extends m m'" "t < length (type_list m')" "type_list m' ! t = TYPE_FLOAT 64"
    using gets_float_type [OF assms, of 64] by (auto simp: dxil_module_get_float_type_def elim!: gets_typeE)
  have "mod_emits (Inr (intern_const (\<lambda>d. case d of DOUBLE_VALUE x \<Rightarrow> double_eq x v | _ \<Rightarrow> False) t (DOUBLE_VALUE v) m'))
    m' (TYPE_FLOAT 64) (\<lambda>_. if double_exact v then Some (uint v) else None)"
    by (rule intern_const_emits) (use t in \<open>auto simp: extends_def const_bits_def type_at_def nth_or_def double_exact_def
        double_eq_def split: const_data.splits if_splits\<close>)
  from mod_emits_after [OF t(2) this] show ?thesis using t(1) by (simp add: dxil_module_get_double_const_def)
qed

section \<open>Instructions\<close>

lemma create_instr_emits:
  assumes "ready m" and "i < length (type_list m)" and "type_list m ! i = t"
    and sem: "\<And>m' rho k. extends m m' \<Longrightarrow> follows m' rho \<Longrightarrow> x rho = Some k \<Longrightarrow> instr_bits m' rho d = Some k"
  shows "mod_emits (create_instr d i True m) m t x"
proof -
  obtain f where f: "cur_emitting_func m = Some f" "f < length (func_def_list m)" using assms(1) by (auto simp: ready_def)
  let ?def = "func_def_list m ! f" let ?n = "length (instr_list ?def)"
  let ?i = "\<lparr>instr_data = d, has_value = True, instr_value = \<lparr>value_id = -1, value_type = i\<rparr>\<rparr>"
  let ?m = "m\<lparr>func_def_list := (func_def_list m)[f := ?def\<lparr>instr_list := instr_list ?def @ [?i]\<rparr>]\<rparr>"
  have run: "create_instr d i True m = Inr (INSTR_REF f ?n, ?m)" using f by (simp add: create_instr_def Let_def)
  have ok: "types_ok ?m"
    by (rule types_ok_cong [OF ready_types [OF assms(1)]]) (simp_all add: scalar_caches_def)
  have ext: "extends m ?m"
    using ok f(2) by (auto simp: extends_def list_all2_conv_all_nth nth_list_update)
  have "of_type ?m (INSTR_REF f ?n) t" using f assms(2,3) by (simp add: of_type_def)
  moreover have "rho (INSTR_REF f ?n) = Some k"
    if M: "extends ?m M" "follows M rho" and k: "x rho = Some k" for M rho k
  proof -
    have *: "list_all2 (\<lambda>d d'. prefix (instr_list d) (instr_list d')) (func_def_list ?m) (func_def_list M)"
      using M(1) by (simp add: extends_def)
    then have F: "f < length (func_def_list M)" using f(2) by (auto dest: list_all2_lengthD)
    have "prefix (instr_list ?def @ [?i]) (instr_list (func_def_list M ! f))"
      using list_all2_nthD [OF *, of f] f(2) by simp
    from prefix_nth [OF this, of ?n]
    have "?n < length (instr_list (func_def_list M ! f)) \<and> instr_list (func_def_list M ! f) ! ?n = ?i" by simp
    moreover have "instr_bits M rho d = Some k" using sem [OF extends_trans [OF ext M(1)] M(2) k] .
    ultimately show ?thesis using M(2) F unfolding follows_def by auto
  qed
  ultimately have "holds ?m (INSTR_REF f ?n) t x" unfolding holds_def by blast
  then show ?thesis using run ext by (rule mod_emitsI [rotated 2])
qed


abbreviation arith_types :: "dxil_type set" where
  "arith_types \<equiv> {TYPE_INTEGER 1, TYPE_INTEGER 16, TYPE_INTEGER 32, TYPE_INTEGER 64,
     TYPE_FLOAT 16, TYPE_FLOAT 32, TYPE_FLOAT 64}"

lemma legal_scalar:
  assumes "of_type m v t" and "t \<in> arith_types"
  shows "legal_arith_type m (type_of m v)"
  using assms of_type_at [OF assms(1)] by (auto simp: legal_arith_type_def)

text \<open>An operation on integers has no meaning on floating-point numbers.\<close>

fun on_ints :: "(nat \<Rightarrow> int \<Rightarrow> int \<Rightarrow> int option) \<Rightarrow> dxil_type \<Rightarrow> int \<Rightarrow> int \<Rightarrow> int option" where
  "on_ints g (TYPE_INTEGER w) i j = g w i j"
| "on_ints g _ i j = None"

lemma on_ints_integer [simp]: "on_ints g (TYPE_INTEGER w) = g w"
  by (intro ext) simp

lemma on_ints_Some: "on_ints g t i j = Some k \<Longrightarrow> \<exists>w. t = TYPE_INTEGER w \<and> g w i j = Some k"
  by (cases t) simp_all

lemma binop_emits:
  assumes "ready m" and "holds m a t x" and "holds m b t y" and "t \<in> arith_types"
  shows "mod_emits (dxil_emit_binop opcode a b flags m) m t (lift2 (on_ints (binop_bits opcode) t) x y)"
proof -
  note t = holds_type [OF assms(2)] holds_type [OF assms(3)]
  note ok = ready_types [OF assms(1)]
  have "mod_emits (create_instr (INSTR_BINOP opcode a b flags) (type_of m a) True m) m t
    (lift2 (on_ints (binop_bits opcode) t) x y)"
  proof (rule create_instr_emits [OF assms(1)])
    fix M rho k assume M: "extends m M" "follows M rho" and k: "lift2 (on_ints (binop_bits opcode) t) x y rho = Some k"
    obtain i j w where ij: "x rho = Some i" "y rho = Some j" "t = TYPE_INTEGER w" "binop_bits opcode w i j = Some k"
      using k by (auto simp: lift2_def bind_eq_Some_conv dest: on_ints_Some)
    have "rho a = Some i" "rho b = Some j" using M ij assms(2,3) unfolding holds_def by blast+
    moreover have "int_width M (type_of M a) = Some w"
      using of_type_at [OF extends_of_type [OF M(1) t(1)]] ij(3) by (simp add: int_width_def)
    ultimately show "instr_bits M rho (INSTR_BINOP opcode a b flags) = Some k" using ij by (simp add: instr_bits_def)
  qed (use t in \<open>simp_all add: of_type_def\<close>)
  then show ?thesis
    using assert_same_type(2) [OF ok t] legal_scalar [OF t(1)] assms(4) by (auto simp: dxil_emit_binop_def assert_def)
qed

lemma cmp_emits:
  assumes "ready m" and "holds m a t x" and "holds m b t y" and "t \<in> arith_types"
  shows "mod_emits (dxil_emit_cmp pred a b m) m (TYPE_INTEGER 1) (lift2 (on_ints (cmp_bits pred) t) x y)"
proof -
  note t = holds_type [OF assms(2)] holds_type [OF assms(3)]
  note ok = ready_types [OF assms(1)]
  obtain i m1 where int1: "get_int1_type m = (i, m1)" "extends m m1" "i < length (type_list m1)" "type_list m1 ! i = TYPE_INTEGER 1"
    using gets_int_type [OF ok, of 1] by (auto simp: dxil_module_get_int_type_def elim!: gets_typeE)
  have "mod_emits (create_instr (INSTR_CMP pred a b) i True m1) m1 (TYPE_INTEGER 1)
    (lift2 (on_ints (cmp_bits pred) t) x y)"
  proof (rule create_instr_emits [OF extends_ready [OF int1(2) assms(1)] int1(3,4)])
    fix M rho k assume M: "extends m1 M" "follows M rho" and k: "lift2 (on_ints (cmp_bits pred) t) x y rho = Some k"
    obtain i j w where ij: "x rho = Some i" "y rho = Some j" "t = TYPE_INTEGER w" "cmp_bits pred w i j = Some k"
      using k by (auto simp: lift2_def bind_eq_Some_conv dest: on_ints_Some)
    note M0 = extends_trans [OF int1(2) M(1)]
    have "rho a = Some i" "rho b = Some j" using M0 M(2) ij assms(2,3) unfolding holds_def by blast+
    moreover have "int_width M (type_of M a) = Some w"
      using of_type_at [OF extends_of_type [OF M0 t(1)]] ij(3) by (simp add: int_width_def)
    ultimately show "instr_bits M rho (INSTR_CMP pred a b) = Some k" using ij by (simp add: instr_bits_def)
  qed
  then show ?thesis
    using mod_emits_after [OF int1(2)] assert_same_type(2) [OF ok t] legal_scalar [OF t(1)] assms(4) int1(1)
    by (auto simp: dxil_emit_cmp_def assert_def)
qed

definition select_bits ::
  "(valuation \<Rightarrow> int option) \<Rightarrow> (valuation \<Rightarrow> int option) \<Rightarrow> (valuation \<Rightarrow> int option) \<Rightarrow> valuation \<Rightarrow> int option" where
  "select_bits z x y rho = Option.bind (z rho) (\<lambda>c. if c = 1 then x rho else y rho)"

lemma select_emits:
  assumes "ready m" and "holds m c (TYPE_INTEGER 1) z" and "holds m a t x" and "holds m b t y" and "t \<in> arith_types"
  shows "mod_emits (dxil_emit_select c a b m) m t (select_bits z x y)"
proof -
  note ok = ready_types [OF assms(1)]
  obtain i m1 where int1: "get_int1_type m = (i, m1)" "extends m m1" "i < length (type_list m1)" "type_list m1 ! i = TYPE_INTEGER 1"
    using gets_int_type [OF ok, of 1] by (auto simp: dxil_module_get_int_type_def elim!: gets_typeE)
  note h = assms(2-4) [THEN holds_extends, OF int1(2)]
  note ht = h [THEN holds_type]
  note ready1 = extends_ready [OF int1(2) assms(1)]
  have "mod_emits (create_instr (INSTR_SELECT c a b) (type_of m1 a) True m1) m1 t (select_bits z x y)"
  proof (rule create_instr_emits [OF ready1])
    fix M rho k assume M: "extends m1 M" "follows M rho" and k: "select_bits z x y rho = Some k"
    obtain j where j: "z rho = Some j" "(if j = 1 then x rho else y rho) = Some k"
      using k by (auto simp: select_bits_def bind_eq_Some_conv)
    have "rho c = Some j" using M j(1) h(1) unfolding holds_def by blast
    moreover have "rho (if j = 1 then a else b) = Some k"
      using M j(2) h(2,3) unfolding holds_def by (cases "j = 1") auto
    ultimately show "instr_bits M rho (INSTR_SELECT c a b) = Some k" by (simp add: instr_bits_def)
  qed (use ht in \<open>simp_all add: of_type_def\<close>)
  moreover have "assert_types_equal m1 (type_of m1 c) i = Inr ()"
    using scalar_unique [OF ready_types [OF ready1], of "type_of m1 c" i] ht(1) int1(3,4)
    by (simp add: of_type_def assert_types_equal_def same_type_refl)
  ultimately show ?thesis
    using mod_emits_after [OF int1(2)] assert_same_type(2) [OF ready_types [OF ready1] ht(2,3)] legal_scalar [OF ht(2)] assms(5) int1(1)
    by (auto simp: dxil_emit_select_def assert_def)
qed

lemma cast_emits:
  assumes "ready m" and "holds m a t x" and "t \<in> arith_types" and "scalar_width t = Some v"
    and "i < length (type_list m)" and "type_list m ! i = u" and "u \<in> arith_types" and "scalar_width u = Some w"
  shows "mod_emits (dxil_emit_cast opcode i a m) m u (\<lambda>rho. Option.bind (x rho) (cast_bits opcode v w))"
proof -
  note t = holds_type [OF assms(2)]
  have "mod_emits (create_instr (INSTR_CAST opcode i a) i True m) m u (\<lambda>rho. Option.bind (x rho) (cast_bits opcode v w))"
  proof (rule create_instr_emits [OF assms(1,5,6)])
    fix M rho k assume M: "extends m M" "follows M rho" and k: "Option.bind (x rho) (cast_bits opcode v w) = Some k"
    obtain j where j: "x rho = Some j" "cast_bits opcode v w j = Some k" using k by (auto simp: bind_eq_Some_conv)
    have "rho a = Some j" using M j(1) assms(2) unfolding holds_def by blast
    moreover have "type_at M (type_of M a) = t" using of_type_at [OF extends_of_type [OF M(1) t]] .
    moreover have "type_at M i = u" using extends_type [OF M(1) assms(5)] assms(6) by (simp add: type_at_def nth_or_def)
    ultimately show "instr_bits M rho (INSTR_CAST opcode i a) = Some k" using j(2) assms(4,8) by (simp add: instr_bits_def)
  qed
  moreover have "legal_arith_type m i" using assms(5-7) by (auto simp: legal_arith_type_def type_at_def nth_or_def)
  ultimately show ?thesis using legal_scalar [OF t assms(3)] by (simp add: dxil_emit_cast_def assert_def)
qed

end
