(* ===== verification/Ntd_Values.thy ===== *)
theory Ntd_Values
  imports Ntd_Alu Module_Emits
begin

unbundle bit_operations_syntax

text \<open>
  Reading a source and storing a result: the value of a source has the type that is asked for, with the
  casts it takes, and the bits of what was stored, and no assertion on the way fails.
\<close>

section \<open>States of the context\<close>

text \<open>What is stored for a component of a definition.\<close>

definition stored :: "ntd_context \<Rightarrow> nat \<Rightarrow> nat \<Rightarrow> val_ref option" where
  "stored ctx d c =
     (if d < length (ntd_defs ctx) \<and> c < length (ntd_defs ctx ! d) then ntd_defs ctx ! d ! c else None)"

text \<open>64-bit values are accompanied by the feature that allows them.\<close>

definition flags_ok :: "ntd_context \<Rightarrow> dxil_type \<Rightarrow> bool" where
  "flags_ok ctx t \<longleftrightarrow> (t = TYPE_INTEGER 64 \<longrightarrow> feat_int64_ops (ntd_feats ctx)) \<and>
     (t = TYPE_FLOAT 64 \<longrightarrow> feat_doubles (ntd_feats ctx))"

definition value_ok :: "ntd_context \<Rightarrow> val_ref \<Rightarrow> nat \<Rightarrow> bool" where
  "value_ok ctx v b \<longleftrightarrow>
     (\<exists>t \<in> arith_types. of_type (ntd_mod ctx) v t \<and> scalar_width t = Some b \<and> flags_ok ctx t)"

text \<open>\<open>sizes\<close> gives the bit size of each definition.\<close>

definition ctx_ok :: "(nat \<Rightarrow> nat) \<Rightarrow> ntd_context \<Rightarrow> bool" where
  "ctx_ok sizes ctx \<longleftrightarrow> ready (ntd_mod ctx) \<and>
     (\<forall>d c v. stored ctx d c = Some v \<longrightarrow> value_ok ctx v (sizes d))"

definition ctx_extends :: "ntd_context \<Rightarrow> ntd_context \<Rightarrow> bool" where
  "ctx_extends ctx ctx' \<longleftrightarrow>
     extends (ntd_mod ctx) (ntd_mod ctx') \<and> ntd_defs ctx' = ntd_defs ctx \<and>
     int_types ctx' = int_types ctx \<and> float_types ctx' = float_types ctx \<and>
     (feat_int64_ops (ntd_feats ctx) \<longrightarrow> feat_int64_ops (ntd_feats ctx')) \<and>
     (feat_doubles (ntd_feats ctx) \<longrightarrow> feat_doubles (ntd_feats ctx'))"

lemma ctx_extends_refl: "types_ok (ntd_mod ctx) \<Longrightarrow> ctx_extends ctx ctx"
  by (simp add: ctx_extends_def extends_refl)

lemma ctx_extends_trans: "ctx_extends ctx ctx' \<Longrightarrow> ctx_extends ctx' ctx'' \<Longrightarrow> ctx_extends ctx ctx''"
  unfolding ctx_extends_def using extends_trans by auto

lemma ctx_extends_mod: "ctx_extends ctx ctx' \<Longrightarrow> extends (ntd_mod ctx) (ntd_mod ctx')"
  by (simp add: ctx_extends_def)

lemma value_ok_extends: "ctx_extends ctx ctx' \<Longrightarrow> value_ok ctx v b \<Longrightarrow> value_ok ctx' v b"
  unfolding value_ok_def ctx_extends_def flags_ok_def using extends_of_type by blast

lemma stored_extends: "ctx_extends ctx ctx' \<Longrightarrow> stored ctx' d c = stored ctx d c"
  by (simp add: ctx_extends_def stored_def)

lemma ctx_ok_extends: "ctx_extends ctx ctx' \<Longrightarrow> ctx_ok sizes ctx \<Longrightarrow> ctx_ok sizes ctx'"
  unfolding ctx_ok_def using extends_ready ctx_extends_mod value_ok_extends stored_extends by metis

lemma ctx_ok_ready: "ctx_ok sizes ctx \<Longrightarrow> ready (ntd_mod ctx)"
  by (simp add: ctx_ok_def)

lemma set_feats_simps [simp]:
  "ntd_mod (set_feats f c ctx) = ntd_mod ctx" "ntd_defs (set_feats f c ctx) = ntd_defs ctx"
  "int_types (set_feats f c ctx) = int_types ctx" "float_types (set_feats f c ctx) = float_types ctx"
  "ntd_feats (set_feats f c ctx) = (if c then f (ntd_feats ctx) else ntd_feats ctx)"
  by (simp_all add: set_feats_def)

section \<open>Values of the context\<close>

definition ctx_emits ::
  "(val_ref \<times> ntd_context) result \<Rightarrow> ntd_context \<Rightarrow> dxil_type \<Rightarrow> (valuation \<Rightarrow> int option) \<Rightarrow> bool" where
  "ctx_emits r ctx t x \<longleftrightarrow>
     (\<exists>v ctx'. r = Inr (v, ctx') \<and> ctx_extends ctx ctx' \<and> holds (ntd_mod ctx') v t x)"

lemma ctx_emitsI: "r = Inr (v, ctx') \<Longrightarrow> ctx_extends ctx ctx' \<Longrightarrow> holds (ntd_mod ctx') v t x \<Longrightarrow> ctx_emits r ctx t x"
  unfolding ctx_emits_def by blast

lemma ctx_emitsE:
  assumes "ctx_emits r ctx t x"
  obtains v ctx' where "r = Inr (v, ctx')" "ctx_extends ctx ctx'" "holds (ntd_mod ctx') v t x"
  using assms unfolding ctx_emits_def by blast

lemma ctx_emits_after: "ctx_extends ctx ctx' \<Longrightarrow> ctx_emits r ctx' t x \<Longrightarrow> ctx_emits r ctx t x"
  unfolding ctx_emits_def using ctx_extends_trans by blast

lemma ctx_emits_weaken: "ctx_emits r ctx t x \<Longrightarrow> (\<And>rho k. y rho = Some k \<Longrightarrow> x rho = Some k) \<Longrightarrow> ctx_emits r ctx t y"
  unfolding ctx_emits_def using holds_weaken by blast

lemma on_mod_emits: "mod_emits (f (ntd_mod ctx)) (ntd_mod ctx) t x \<Longrightarrow> ctx_emits (on_mod f ctx) ctx t x"
  by (auto simp: on_mod_def ctx_extends_def elim!: mod_emitsE intro!: ctx_emitsI)

lemma ctx_emits_bind:
  assumes "ctx_emits r ctx t x"
    and "\<And>v ctx'. ctx_extends ctx ctx' \<Longrightarrow> holds (ntd_mod ctx') v t x \<Longrightarrow> ctx_emits (g v ctx') ctx' u y"
  shows "ctx_emits (bind_result r (\<lambda>(v, ctx). g v ctx)) ctx u y"
proof -
  obtain v ctx' where 1: "r = Inr (v, ctx')" "ctx_extends ctx ctx'" "holds (ntd_mod ctx') v t x"
    using assms(1) by (rule ctx_emitsE)
  show ?thesis using ctx_emits_after [OF 1(2) assms(2) [OF 1(2,3)]] 1(1) by simp
qed

section \<open>Casts\<close>

lemma bitcast_emits:
  assumes "ready m" and "holds m v t x" and "t \<in> arith_types" and "scalar_width t = Some b"
    and "gets_type (g m) m u" and "u \<in> arith_types" and "scalar_width u = Some b"
  shows "mod_emits (bind_result (g m) (\<lambda>(t, m). dxil_emit_cast DXIL_CAST_BITCAST t v m)) m u x"
proof -
  obtain i m' where i: "g m = Inr (i, m')" "extends m m'" "i < length (type_list m')" "type_list m' ! i = u"
    using assms(5) by (rule gets_typeE)
  have "mod_emits (dxil_emit_cast DXIL_CAST_BITCAST i v m') m' u (\<lambda>rho. Option.bind (x rho) (cast_bits DXIL_CAST_BITCAST b b))"
    by (rule cast_emits [OF extends_ready [OF i(2) assms(1)] holds_extends [OF assms(2) i(2)] assms(3,4) i(3,4) assms(6,7)])
  then have "mod_emits (dxil_emit_cast DXIL_CAST_BITCAST i v m') m' u x"
    by (rule mod_emits_weaken) (simp add: cast_bits_def)
  then show ?thesis using mod_emits_after [OF i(2)] i(1) by simp
qed

lemma bitcast_to_int_emits:
  assumes "ready (ntd_mod ctx)" and "holds (ntd_mod ctx) v t x" and "t \<in> arith_types" and "scalar_width t = Some b"
  shows "ctx_emits (bitcast_to_int b v ctx) ctx (TYPE_INTEGER b) x"
proof -
  have b: "b \<in> {1, 16, 32, 64}" using assms(3,4) by auto
  then have "b \<in> {1, 8, 16, 32, 64}" by blast
  note g = gets_int_type [OF ready_types [OF assms(1)] this]
  show ?thesis unfolding bitcast_to_int_def
    by (rule on_mod_emits, rule bitcast_emits [where g = "dxil_module_get_int_type b", OF assms g]) (use b in auto)
qed

lemma bitcast_to_float_emits:
  assumes "ready (ntd_mod ctx)" and "holds (ntd_mod ctx) v t x" and "t \<in> arith_types" and "scalar_width t = Some b" and "b \<noteq> 1"
  shows "ctx_emits (bitcast_to_float b v ctx) ctx (TYPE_FLOAT b) x"
proof -
  have b: "b \<in> {16, 32, 64}" using assms(3-5) by auto
  note g = gets_float_type [OF ready_types [OF assms(1)] b]
  show ?thesis unfolding bitcast_to_float_def
    by (rule on_mod_emits, rule bitcast_emits [where g = "dxil_module_get_float_type b", OF assms(1-4) g]) (use b in auto)
qed


text \<open>Asking for a type gives its index and changes nothing else.\<close>

lemma on_mod_gets_type:
  assumes "gets_type (f (ntd_mod ctx)) (ntd_mod ctx) t"
  obtains i ctx' where "on_mod f ctx = Inr (i, ctx')" "ctx_extends ctx ctx'" "ntd_feats ctx' = ntd_feats ctx"
    "i < length (type_list (ntd_mod ctx'))" "type_list (ntd_mod ctx') ! i = t"
proof -
  obtain i m' where "f (ntd_mod ctx) = Inr (i, m')" "extends (ntd_mod ctx) m'" "i < length (type_list m')" "type_list m' ! i = t"
    using assms by (rule gets_typeE)
  then show ?thesis using that [of i "ctx\<lparr>ntd_mod := m'\<rparr>"] by (simp add: on_mod_def ctx_extends_def)
qed

lemma value_type_equal:
  assumes "types_ok m" and "of_type m v t" and "t \<in> arith_types" and "i < length (type_list m)"
    and "type_list m ! i = u" and "u \<in> arith_types"
  shows "dxil_value_type_equal_to m v i = Inr (t = u)"
proof (cases "t = u")
  case True
  then have "type_of m v = i" using scalar_unique [OF assms(1), of "type_of m v" i] assms by (auto simp: of_type_def)
  then show ?thesis using True by (simp add: dxil_value_type_equal_to_def same_type_refl)
next
  case False
  then have "type_of m v \<noteq> i" using assms by (auto simp: of_type_def)
  moreover have "type_at m i = u" using assms(4,5) by (simp add: type_at_def nth_or_def)
  moreover have "(\<exists>b. t = TYPE_INTEGER b) \<or> (\<exists>b. t = TYPE_FLOAT b)" "(\<exists>b. u = TYPE_INTEGER b) \<or> (\<exists>b. u = TYPE_FLOAT b)"
    using assms(3,6) by auto
  ultimately have "same_type m (type_of m v) i = Inr False"
    unfolding same_type_def types_equal.simps [of "Suc (length (type_list m))"]
    using False of_type_at [OF assms(2)] by (elim disjE exE) simp_all
  then show ?thesis using False by (simp add: dxil_value_type_equal_to_def)
qed

lemma bitsize_equal: "of_type m v t \<Longrightarrow> scalar_width t = Some b \<Longrightarrow> dxil_value_type_bitsize_equal_to m v b"
  using of_type_at [of m v t] by (cases t) (simp_all add: dxil_value_type_bitsize_equal_to_def)

lemma src_as_int_emits:
  assumes "ready (ntd_mod ctx)" and "holds (ntd_mod ctx) v t x" and "t \<in> arith_types" and "scalar_width t = Some b"
    and "flags_ok ctx t"
  shows "ctx_emits (src_as_int b v ctx) ctx (TYPE_INTEGER b) x"
proof -
  have b: "b \<in> {1, 8, 16, 32, 64}" "TYPE_INTEGER b \<in> arith_types" using assms(3,4) by auto
  obtain i ctx1 where 1: "on_mod (dxil_module_get_int_type b) ctx = Inr (i, ctx1)" "ctx_extends ctx ctx1"
    "ntd_feats ctx1 = ntd_feats ctx" "i < length (type_list (ntd_mod ctx1))" "type_list (ntd_mod ctx1) ! i = TYPE_INTEGER b"
    using gets_int_type [OF ready_types [OF assms(1)] b(1)] by (rule on_mod_gets_type)
  note h = holds_extends [OF assms(2) ctx_extends_mod [OF 1(2)]]
  note r = extends_ready [OF ctx_extends_mod [OF 1(2)] assms(1)]
  note eq = value_type_equal [OF ready_types [OF r] holds_type [OF h] assms(3) 1(4,5) b(2)]
  let ?ctx = "set_feats (\<lambda>f. f\<lparr>feat_native_low_precision := True\<rparr>) (b = 16)
               (set_feats (\<lambda>f. f\<lparr>feat_int64_ops := True\<rparr>) (b = 64) ctx1)"
  show ?thesis
  proof (cases "t = TYPE_INTEGER b")
    case True
    have "src_as_int b v ctx = Inr (v, ctx1)"
      using 1(1,3) eq True assms(5) by (simp add: src_as_int_def flags_ok_def)
    then show ?thesis using 1(2) h True by (auto intro: ctx_emitsI)
  next
    case False
    then have "t = TYPE_FLOAT b" using assms(3,4) by auto
    then have "src_as_int b v ctx = bitcast_to_int b v ?ctx"
      using 1(1,3) eq assms(5) bitsize_equal [OF holds_type [OF h] assms(4)]
      by (cases "b = 64") (simp_all add: src_as_int_def flags_ok_def Let_def)
    moreover have "ctx_extends ctx ?ctx" using 1(2) by (simp add: ctx_extends_def)
    ultimately show ?thesis
      using ctx_emits_after [OF _ bitcast_to_int_emits [of ?ctx v t x b]] r h assms(3,4) by simp
  qed
qed

lemma src_as_float_emits:
  assumes "ready (ntd_mod ctx)" and "holds (ntd_mod ctx) v t x" and "t \<in> arith_types" and "scalar_width t = Some b"
    and "flags_ok ctx t" and "b \<noteq> 1"
  shows "ctx_emits (src_as_float b v ctx) ctx (TYPE_FLOAT b) x"
proof -
  have b: "b \<in> {16, 32, 64}" "TYPE_FLOAT b \<in> arith_types" "16 \<le> b" using assms(3,4,6) by auto
  obtain i ctx1 where 1: "on_mod (dxil_module_get_float_type b) ctx = Inr (i, ctx1)" "ctx_extends ctx ctx1"
    "ntd_feats ctx1 = ntd_feats ctx" "i < length (type_list (ntd_mod ctx1))" "type_list (ntd_mod ctx1) ! i = TYPE_FLOAT b"
    using gets_float_type [OF ready_types [OF assms(1)] b(1)] by (rule on_mod_gets_type)
  note h = holds_extends [OF assms(2) ctx_extends_mod [OF 1(2)]]
  note r = extends_ready [OF ctx_extends_mod [OF 1(2)] assms(1)]
  note eq = value_type_equal [OF ready_types [OF r] holds_type [OF h] assms(3) 1(4,5) b(2)]
  let ?ctx = "set_feats (\<lambda>f. f\<lparr>feat_native_low_precision := True\<rparr>) (b = 16)
               (set_feats (\<lambda>f. f\<lparr>feat_doubles := True\<rparr>) (b = 64) ctx1)"
  show ?thesis
  proof (cases "t = TYPE_FLOAT b")
    case True
    have "src_as_float b v ctx = Inr (v, ctx1)"
      using 1(1,3) eq True assms(5) b(3) by (simp add: src_as_float_def flags_ok_def)
    then show ?thesis using 1(2) h True by (auto intro: ctx_emitsI)
  next
    case False
    then have "t = TYPE_INTEGER b" using assms(3,4) by auto
    then have "src_as_float b v ctx = bitcast_to_float b v ?ctx"
      using 1(1,3) eq assms(5) b(3) bitsize_equal [OF holds_type [OF h] assms(4)]
      by (cases "b = 64") (simp_all add: src_as_float_def flags_ok_def Let_def)
    moreover have "ctx_extends ctx ?ctx" using 1(2) by (simp add: ctx_extends_def)
    ultimately show ?thesis
      using ctx_emits_after [OF _ bitcast_to_float_emits [of ?ctx v t x b]] r h assms(3,4,6) by simp
  qed
qed

lemma src_as_bool_emits:
  assumes "ready (ntd_mod ctx)" and "holds (ntd_mod ctx) v (TYPE_INTEGER 1) x"
  shows "ctx_emits (src_as_bool v ctx) ctx (TYPE_INTEGER 1) x"
  using assms bitsize_equal [OF holds_type [OF assms(2)], of 1] ctx_extends_refl [OF ready_types [OF assms(1)]]
  by (auto simp: src_as_bool_def intro: ctx_emitsI)

section \<open>Sources\<close>

text \<open>A source can be read: a value is stored for the component, and the bit size is the one of the
  definition.\<close>

definition src_readable :: "(nat \<Rightarrow> nat) \<Rightarrow> ntd_context \<Rightarrow> nir_src \<Rightarrow> nat \<Rightarrow> val_ref \<Rightarrow> bool" where
  "src_readable sizes ctx src chan v \<longleftrightarrow>
     stored ctx (def_index (src_ssa src)) chan = Some v \<and> chan < def_num_components (src_ssa src) \<and>
     nir_src_bit_size src = sizes (def_index (src_ssa src))"

text \<open>The type of a source that is read as one of the base types.\<close>

fun src_type :: "nir_base_type \<Rightarrow> nat \<Rightarrow> dxil_type" where
  "src_type NIR_FLOAT b = TYPE_FLOAT b"
| "src_type _ b = TYPE_INTEGER b"

definition base_fits :: "nir_base_type \<Rightarrow> nat \<Rightarrow> bool" where
  "base_fits base b \<longleftrightarrow> (base = NIR_BOOL \<longrightarrow> b = 1) \<and> (base = NIR_FLOAT \<longrightarrow> b \<noteq> 1) \<and> base \<noteq> NIR_INVALID"

lemma src_readable_extends: "ctx_extends ctx ctx' \<Longrightarrow> src_readable sizes ctx src chan v \<Longrightarrow> src_readable sizes ctx' src chan v"
  using stored_extends by (simp add: src_readable_def)

lemma get_src_ssa_readable:
  "src_readable sizes ctx src chan v \<Longrightarrow> get_src_ssa (src_ssa src) chan ctx = Inr v"
  by (auto simp: src_readable_def stored_def get_src_ssa_def read_at_def split: if_splits)

lemma get_src_emits:
  assumes "ctx_ok sizes ctx" and "src_readable sizes ctx src chan v"
    and "base_fits (nir_alu_type_get_base_type type) (nir_src_bit_size src)"
  shows "ctx_emits (get_src src chan type ctx) ctx
    (src_type (nir_alu_type_get_base_type type) (nir_src_bit_size src)) (\<lambda>rho. rho v)"
proof -
  note read = get_src_ssa_readable [OF assms(2)]
  have "stored ctx (def_index (src_ssa src)) chan = Some v" "nir_src_bit_size src = sizes (def_index (src_ssa src))"
    using assms(2) by (simp_all add: src_readable_def)
  then have "value_ok ctx v (nir_src_bit_size src)" using assms(1) unfolding ctx_ok_def by metis
  then obtain t where t: "t \<in> arith_types" "of_type (ntd_mod ctx) v t" "scalar_width t = Some (nir_src_bit_size src)"
    "flags_ok ctx t" unfolding value_ok_def by blast
  note h = holds_self [OF t(2)]
  note r = ctx_ok_ready [OF assms(1)]
  show ?thesis
  proof (cases "nir_alu_type_get_base_type type")
    case NIR_BOOL
    then have "nir_src_bit_size src = 1" using assms(3) by (simp add: base_fits_def)
    moreover from this have "t = TYPE_INTEGER 1" using t(1,3) by auto
    ultimately show ?thesis using src_as_bool_emits [OF r] h read NIR_BOOL by (simp add: get_src_def)
  next
    case NIR_FLOAT
    then show ?thesis using src_as_float_emits [OF r h t(1,3,4)] assms(3) read by (simp add: get_src_def base_fits_def)
  qed (use src_as_int_emits [OF r h t(1,3,4)] assms(3) read in \<open>simp_all add: get_src_def base_fits_def\<close>)
qed

end
