(* ===== verification/Ntd_Stores.thy ===== *)
theory Ntd_Stores
  imports Ntd_Values
begin

text \<open>
  Storing a result: a phi user may ask for a cast, the features of 64-bit types are set, and the value that is
  then stored for the component has the bits of the one given.
\<close>

section \<open>What a store does\<close>

definition place_ok :: "(nat \<Rightarrow> nat) \<Rightarrow> ntd_context \<Rightarrow> nir_def \<Rightarrow> nat \<Rightarrow> bool" where
  "place_ok sizes ctx ssa chan \<longleftrightarrow>
     def_index ssa < length (ntd_defs ctx) \<and> chan < length (ntd_defs ctx ! def_index ssa) \<and>
     chan < def_num_components ssa \<and> def_bit_size ssa = sizes (def_index ssa) \<and>
     (def_is_phi_src ssa \<and> def_bit_size ssa = 1 \<longrightarrow> expect_type ctx ssa = nir_type_int)"

definition stores ::
  "(nat \<Rightarrow> nat) \<Rightarrow> ntd_context \<Rightarrow> ntd_context \<Rightarrow> nat \<Rightarrow> nat \<Rightarrow> (valuation \<Rightarrow> int option) \<Rightarrow> bool" where
  "stores sizes ctx ctx' d c x \<longleftrightarrow>
     (\<exists>ctx1 v t. ctx_extends ctx ctx1 \<and> holds (ntd_mod ctx1) v t x \<and> value_ok ctx1 v (sizes d) \<and>
        ctx' = ctx1\<lparr>ntd_defs := (ntd_defs ctx)[d := (ntd_defs ctx ! d)[c := Some v]]\<rparr>)"

lemma stored_update:
  assumes "d < length (ntd_defs ctx)" and "c < length (ntd_defs ctx ! d)"
    and "ntd_defs ctx' = (ntd_defs ctx)[d := (ntd_defs ctx ! d)[c := v]]"
  shows "stored ctx' d' c' = (if d' = d \<and> c' = c then v else stored ctx d' c')"
  using assms by (auto simp: stored_def nth_list_update)

lemma stores_after:
  assumes "ctx_extends ctx ctx1" and "stores sizes ctx1 ctx' d c x"
  shows "stores sizes ctx ctx' d c x"
proof -
  have "ntd_defs ctx1 = ntd_defs ctx" using assms(1) by (simp add: ctx_extends_def)
  then show ?thesis using assms(2) ctx_extends_trans [OF assms(1)] unfolding stores_def by metis
qed

lemma stores_ctx_ok:
  assumes "stores sizes ctx ctx' d c x" and "ctx_ok sizes ctx" and "d < length (ntd_defs ctx)" and "c < length (ntd_defs ctx ! d)"
  shows "ctx_ok sizes ctx'"
proof -
  obtain ctx1 v t where 1: "ctx_extends ctx ctx1" "value_ok ctx1 v (sizes d)"
    "ctx' = ctx1\<lparr>ntd_defs := (ntd_defs ctx)[d := (ntd_defs ctx ! d)[c := Some v]]\<rparr>"
    using assms(1) unfolding stores_def by blast
  have ok: "ctx_ok sizes ctx1" using ctx_ok_extends [OF 1(1) assms(2)] .
  have stored: "stored ctx' d' c' = (if d' = d \<and> c' = c then Some v else stored ctx1 d' c')" for d' c'
    using stored_update [OF assms(3,4), of ctx' "Some v"] stored_extends [OF 1(1)] 1(3) by simp
  have same: "value_ok ctx' w b = value_ok ctx1 w b" for w b using 1(3) by (simp add: value_ok_def flags_ok_def)
  show ?thesis using ok 1(2,3) unfolding ctx_ok_def stored same by auto
qed

lemma dxil_type_to_nir_type_eq:
  assumes "of_type m v t" and "t \<in> arith_types" and "t \<noteq> TYPE_INTEGER 1"
  shows "dxil_type_to_nir_type m (type_of m v) =
    Inr (case t of TYPE_INTEGER b \<Rightarrow> nir_type_int | _ \<Rightarrow> nir_type_float)"
  using of_type_at [OF assms(1)] assms(2,3) by (auto simp: dxil_type_to_nir_type_def)

text \<open>The cast for a phi: the type that the phi expects, and its feature.\<close>

lemma cast_phi_src_stores:
  assumes "ready (ntd_mod ctx)" and "holds (ntd_mod ctx) v t x" and "t \<in> arith_types" and "scalar_width t = Some b"
    and "def_bit_size ssa = b" and "b = 1 \<Longrightarrow> expect_type ctx ssa = nir_type_int"
  shows "\<exists>v' ctx' t'. cast_phi_src ssa v ctx = Inr (v', ctx') \<and> ctx_extends ctx ctx' \<and>
    holds (ntd_mod ctx') v' t' x \<and> t' \<in> arith_types \<and> scalar_width t' = Some b \<and> flags_ok ctx' t'"
proof (cases "b = 1")
  case True
  then have "cast_phi_src ssa v ctx = Inr (v, ctx)" using assms(5,6) by (simp add: cast_phi_src_def set_feats_def)
  moreover have "t = TYPE_INTEGER 1" using assms(3,4) True by auto
  ultimately show ?thesis
    using assms(1,2,4) ctx_extends_refl [OF ready_types [OF assms(1)]] by (auto simp: flags_ok_def)
next
  case False
  define expected where "expected = expect_type ctx ssa"
  let ?feats = "\<lambda>ctx. set_feats (\<lambda>f. f\<lparr>feat_doubles := True\<rparr>) (b = 64 \<and> expected = nir_type_float)
                (set_feats (\<lambda>f. f\<lparr>feat_int64_ops := True\<rparr>) (b = 64 \<and> expected = nir_type_int) ctx)"
  let ?u = "if expected = nir_type_int then TYPE_INTEGER b else TYPE_FLOAT b"
  let ?s = "case t of TYPE_INTEGER b \<Rightarrow> nir_type_int | _ \<Rightarrow> nir_type_float"
  have kinds: "expected = nir_type_int \<or> expected = nir_type_float" by (simp add: expected_def expect_type_def)
  have not1: "t \<noteq> TYPE_INTEGER 1" using False assms(4) by auto
  have u: "?u \<in> arith_types" "scalar_width ?u = Some b" using False assms(3,4) by auto
  let ?r = "if expected = ?s then Inr (v, ctx)
     else if expected = nir_type_int then bitcast_to_int b v ctx else bitcast_to_float b v ctx"
  have run: "cast_phi_src ssa v ctx = bind_result ?r (\<lambda>(v, ctx). Inr (v, ?feats ctx))"
    using False assms(5) dxil_type_to_nir_type_eq [OF holds_type [OF assms(2)] assms(3) not1]
    by (simp add: cast_phi_src_def expected_def Let_def)
  have "ctx_emits ?r ctx ?u x"
  proof (cases "expected = ?s")
    case True
    then have "?u = t" using assms(3,4) by auto
    then show ?thesis using True assms(2) ctx_extends_refl [OF ready_types [OF assms(1)]] by (auto intro: ctx_emitsI)
  next
    case False': False
    then show ?thesis
      using bitcast_to_int_emits [OF assms(1-4)] bitcast_to_float_emits [OF assms(1-4) False] kinds by simp
  qed
  then obtain v' ctx1 where 1: "?r = Inr (v', ctx1)" "ctx_extends ctx ctx1" "holds (ntd_mod ctx1) v' ?u x"
    by (rule ctx_emitsE)
  have "ctx_extends ctx (?feats ctx1)" using 1(2) by (simp add: ctx_extends_def)
  moreover have "flags_ok (?feats ctx1) ?u" using kinds by (auto simp: flags_ok_def)
  moreover have "holds (ntd_mod (?feats ctx1)) v' ?u x" using 1(3) by simp
  moreover have "cast_phi_src ssa v ctx = Inr (v', ?feats ctx1)" using run 1(1) by simp
  ultimately show ?thesis using u by blast
qed

lemma store_ssa_def_stores:
  assumes "ctx_ok sizes ctx" and "holds (ntd_mod ctx) v t x" and "t \<in> arith_types"
    and "scalar_width t = Some (sizes (def_index ssa))" and "flags_ok ctx t" and "place_ok sizes ctx ssa chan"
  shows "\<exists>ctx'. store_ssa_def ssa chan v ctx = Inr ctx' \<and> stores sizes ctx ctx' (def_index ssa) chan x"
proof -
  note r = ctx_ok_ready [OF assms(1)]
  have "\<exists>v' ctx' t'. (if def_is_phi_src ssa then cast_phi_src ssa v ctx else Inr (v, ctx)) = Inr (v', ctx') \<and>
    ctx_extends ctx ctx' \<and> holds (ntd_mod ctx') v' t' x \<and> t' \<in> arith_types \<and>
    scalar_width t' = Some (sizes (def_index ssa)) \<and> flags_ok ctx' t'"
  proof (cases "def_is_phi_src ssa")
    case True
    then show ?thesis
      using cast_phi_src_stores [OF r assms(2,3,4), of ssa] assms(6) by (simp add: place_ok_def)
  next
    case False
    then show ?thesis using assms(2-5) ctx_extends_refl [OF ready_types [OF r]] by auto
  qed
  then obtain v' ctx' t' where 1: "(if def_is_phi_src ssa then cast_phi_src ssa v ctx else Inr (v, ctx)) = Inr (v', ctx')"
    "ctx_extends ctx ctx'" "holds (ntd_mod ctx') v' t' x" "t' \<in> arith_types"
    "scalar_width t' = Some (sizes (def_index ssa))" "flags_ok ctx' t'" by blast
  have same: "ntd_defs ctx' = ntd_defs ctx" using 1(2) by (simp add: ctx_extends_def)
  let ?ctx = "ctx'\<lparr>ntd_defs := (ntd_defs ctx)[def_index ssa := (ntd_defs ctx ! def_index ssa)[chan := Some v']]\<rparr>"
  have "store_ssa_def ssa chan v ctx = Inr ?ctx"
    using 1(1) assms(6) same by (simp add: store_ssa_def_def place_ok_def update_at_def)
  moreover have "value_ok ctx' v' (sizes (def_index ssa))"
    unfolding value_ok_def using 1(4-6) holds_type [OF 1(3)] by blast
  ultimately show ?thesis using 1(2,3) unfolding stores_def by blast
qed

text \<open>The caches of the 64-bit types know the type of every value of these types.\<close>

lemma cached_type:
  assumes "types_ok m" and "of_type m v t"
  shows "t = TYPE_INTEGER 64 \<Longrightarrow> int64_type m = Some (type_of m v)"
    and "t = TYPE_FLOAT 64 \<Longrightarrow> float64_type m = Some (type_of m v)"
proof -
  have pos: "find_pos ((=) t) (type_list m) = Some (type_of m v)" if "\<not> is_function_type t"
  proof (cases "find_pos ((=) t) (type_list m)")
    case None
    then show ?thesis using assms(2) by (auto simp: of_type_def find_pos_eq_None)
  next
    case (Some i)
    have "i < length (type_list m)" "type_list m ! i = t" using find_pos_Some [OF Some] by auto
    then show ?thesis using Some scalar_unique [OF assms(1), of i "type_of m v"] assms(2) that by (simp add: of_type_def)
  qed
  show "t = TYPE_INTEGER 64 \<Longrightarrow> int64_type m = Some (type_of m v)"
    using pos by (simp add: scalar_cache_pos [OF assms(1)])
  show "t = TYPE_FLOAT 64 \<Longrightarrow> float64_type m = Some (type_of m v)"
    using pos by (simp add: scalar_cache_pos [OF assms(1)])
qed

lemma store_def_stores:
  assumes "ctx_ok sizes ctx" and "holds (ntd_mod ctx) v t x" and "t \<in> arith_types"
    and "scalar_width t = Some (sizes (def_index ssa))" and "place_ok sizes ctx ssa chan"
  shows "\<exists>ctx'. store_def ssa chan v ctx = Inr ctx' \<and> stores sizes ctx ctx' (def_index ssa) chan x"
proof -
  let ?m = "ntd_mod ctx" let ?type = "Some (type_of (ntd_mod ctx) v)"
  let ?ctx = "set_feats (\<lambda>f. f\<lparr>feat_int64_ops := True\<rparr>) (?type = int64_type ?m)
        (set_feats (\<lambda>f. f\<lparr>feat_min_precision := True\<rparr>) (?type = float16_type ?m \<or> ?type = int16_type ?m)
          (set_feats (\<lambda>f. f\<lparr>feat_doubles := True\<rparr>) (?type = float64_type ?m) ctx))"
  note ty = ready_types [OF ctx_ok_ready [OF assms(1)]]
  have ext: "ctx_extends ctx ?ctx" using extends_refl [OF ty] by (simp add: ctx_extends_def)
  have "flags_ok ?ctx t" using cached_type [OF ty holds_type [OF assms(2)]] by (simp add: flags_ok_def)
  moreover have "place_ok sizes ?ctx ssa chan" using assms(5) by (auto simp: place_ok_def expect_type_def)
  moreover have "holds (ntd_mod ?ctx) v t x" using assms(2) by simp
  ultimately obtain ctx' where 1: "store_ssa_def ssa chan v ?ctx = Inr ctx'" "stores sizes ?ctx ctx' (def_index ssa) chan x"
    using store_ssa_def_stores [OF ctx_ok_extends [OF ext assms(1)] _ assms(3,4)] by blast
  have "stores sizes ctx ctx' (def_index ssa) chan x" using stores_after [OF ext 1(2)] .
  then show ?thesis using 1(1) by (simp add: store_def_def Let_def)
qed

end
