(* ===== verification/Nir_Eval.thy ===== *)
theory Nir_Eval
  imports Nir_Instrs "HOL-Library.Signed_Division"
begin

unbundle bit_operations_syntax

text \<open>
  The meaning of the integer operations of NIR, as NIR itself computes them when it folds constants: the
  functions \<open>evaluate_...\<close> of \<open>mesa_generated/nir_constant_expressions.c\<close>. Each has a \<open>switch\<close> over the bit
  size whose cases differ in the types of their variables only; here the bit size is a number, and a
  component of a \<open>nir_const_value\<close> is the number that its bits make. The loop over the components repeats
  the definition for each of them.

  In the case of one bit a signed source is 0 or -1, which is what reading one bit as signed gives.
\<close>

section \<open>Sources and destinations\<close>

definition at_size :: "nat list \<Rightarrow> nat \<Rightarrow> int \<Rightarrow> int result" where
  "at_size sizes bit_size dst = (if bit_size \<in> set sizes then Inr dst else Inl Unreachable)"

definition signed_src :: "nat \<Rightarrow> int \<Rightarrow> int" where
  "signed_src bit_size x = signed_take_bit (bit_size - 1) x"

definition unsigned_src :: "nat \<Rightarrow> int \<Rightarrow> int" where
  "unsigned_src bit_size x = take_bit bit_size x"

definition dst_bits :: "nat \<Rightarrow> int \<Rightarrow> int" where
  "dst_bits bit_size x = take_bit bit_size x"

definition u_intN_min :: "nat \<Rightarrow> int" where
  "u_intN_min bit_size = - (2 ^ (bit_size - 1))"

text \<open>\<open>src1 & (sizeof(src0) * 8 - 1)\<close>; one bit takes a byte.\<close>

definition shift_count :: "nat \<Rightarrow> int \<Rightarrow> nat" where
  "shift_count bit_size src1 =
     nat (unsigned_src 32 src1 AND (if bit_size = 1 then 7 else int bit_size - 1))"

section \<open>Operations\<close>

definition evaluate_iadd :: "nat \<Rightarrow> int \<Rightarrow> int \<Rightarrow> int result" where
  "evaluate_iadd bit_size src0 src1 =
     (at_size [1, 8, 16, 32, 64] bit_size (dst_bits bit_size (signed_src bit_size src0 + signed_src bit_size src1)))"

definition evaluate_isub :: "nat \<Rightarrow> int \<Rightarrow> int \<Rightarrow> int result" where
  "evaluate_isub bit_size src0 src1 =
     (at_size [1, 8, 16, 32, 64] bit_size (dst_bits bit_size (signed_src bit_size src0 - signed_src bit_size src1)))"

definition evaluate_imul :: "nat \<Rightarrow> int \<Rightarrow> int \<Rightarrow> int result" where
  "evaluate_imul bit_size src0 src1 =
     (at_size [1, 8, 16, 32, 64] bit_size (dst_bits bit_size (signed_src bit_size src0 * signed_src bit_size src1)))"

definition evaluate_idiv :: "nat \<Rightarrow> int \<Rightarrow> int \<Rightarrow> int result" where
  "evaluate_idiv bit_size src0 src1 =
     (let src0 = signed_src bit_size src0; src1 = signed_src bit_size src1 in at_size [1, 8, 16, 32, 64] bit_size (dst_bits bit_size (if src1 = 0 \<or> src0 = u_intN_min bit_size \<and> src1 = -1 then 0 else src0 sdiv src1)))"

definition evaluate_irem :: "nat \<Rightarrow> int \<Rightarrow> int \<Rightarrow> int result" where
  "evaluate_irem bit_size src0 src1 =
     (let src0 = signed_src bit_size src0; src1 = signed_src bit_size src1 in at_size [1, 8, 16, 32, 64] bit_size (dst_bits bit_size (if src1 = 0 \<or> src0 = u_intN_min bit_size \<and> src1 = -1 then 0 else src0 smod src1)))"

definition evaluate_imod :: "nat \<Rightarrow> int \<Rightarrow> int \<Rightarrow> int result" where
  "evaluate_imod bit_size src0 src1 =
     (let src0 = signed_src bit_size src0; src1 = signed_src bit_size src1 in at_size [1, 8, 16, 32, 64] bit_size (dst_bits bit_size (if src1 = 0 \<or> src0 = u_intN_min bit_size \<and> src1 = -1 then 0 else if src0 smod src1 = 0 \<or> (0 \<le> src0) = (0 \<le> src1) then src0 smod src1 else src0 smod src1 + src1)))"

definition evaluate_udiv :: "nat \<Rightarrow> int \<Rightarrow> int \<Rightarrow> int result" where
  "evaluate_udiv bit_size src0 src1 =
     (let src0 = unsigned_src bit_size src0; src1 = unsigned_src bit_size src1 in at_size [1, 8, 16, 32, 64] bit_size (dst_bits bit_size (if src1 = 0 then 0 else src0 div src1)))"

definition evaluate_umod :: "nat \<Rightarrow> int \<Rightarrow> int \<Rightarrow> int result" where
  "evaluate_umod bit_size src0 src1 =
     (let src0 = unsigned_src bit_size src0; src1 = unsigned_src bit_size src1 in at_size [1, 8, 16, 32, 64] bit_size (dst_bits bit_size (if src1 = 0 then 0 else src0 mod src1)))"

definition evaluate_ishl :: "nat \<Rightarrow> int \<Rightarrow> int \<Rightarrow> int result" where
  "evaluate_ishl bit_size src0 src1 =
     (at_size [1, 8, 16, 32, 64] bit_size (dst_bits bit_size (push_bit (shift_count bit_size src1) (signed_src bit_size src0))))"

definition evaluate_ishr :: "nat \<Rightarrow> int \<Rightarrow> int \<Rightarrow> int result" where
  "evaluate_ishr bit_size src0 src1 =
     (at_size [1, 8, 16, 32, 64] bit_size (dst_bits bit_size (drop_bit (shift_count bit_size src1) (signed_src bit_size src0))))"

definition evaluate_ushr :: "nat \<Rightarrow> int \<Rightarrow> int \<Rightarrow> int result" where
  "evaluate_ushr bit_size src0 src1 =
     (at_size [1, 8, 16, 32, 64] bit_size (dst_bits bit_size (drop_bit (shift_count bit_size src1) (unsigned_src bit_size src0))))"

definition evaluate_iand :: "nat \<Rightarrow> int \<Rightarrow> int \<Rightarrow> int result" where
  "evaluate_iand bit_size src0 src1 =
     (at_size [1, 8, 16, 32, 64] bit_size (dst_bits bit_size (unsigned_src bit_size src0 AND unsigned_src bit_size src1)))"

definition evaluate_ior :: "nat \<Rightarrow> int \<Rightarrow> int \<Rightarrow> int result" where
  "evaluate_ior bit_size src0 src1 =
     (at_size [1, 8, 16, 32, 64] bit_size (dst_bits bit_size (unsigned_src bit_size src0 OR unsigned_src bit_size src1)))"

definition evaluate_ixor :: "nat \<Rightarrow> int \<Rightarrow> int \<Rightarrow> int result" where
  "evaluate_ixor bit_size src0 src1 =
     (at_size [1, 8, 16, 32, 64] bit_size (dst_bits bit_size (unsigned_src bit_size src0 XOR unsigned_src bit_size src1)))"

definition evaluate_ieq :: "nat \<Rightarrow> int \<Rightarrow> int \<Rightarrow> int result" where
  "evaluate_ieq bit_size src0 src1 =
     (at_size [1, 8, 16, 32, 64] bit_size (of_bool (signed_src bit_size src0 = signed_src bit_size src1)))"

definition evaluate_ine :: "nat \<Rightarrow> int \<Rightarrow> int \<Rightarrow> int result" where
  "evaluate_ine bit_size src0 src1 =
     (at_size [1, 8, 16, 32, 64] bit_size (of_bool (signed_src bit_size src0 \<noteq> signed_src bit_size src1)))"

definition evaluate_ige :: "nat \<Rightarrow> int \<Rightarrow> int \<Rightarrow> int result" where
  "evaluate_ige bit_size src0 src1 =
     (at_size [1, 8, 16, 32, 64] bit_size (of_bool (signed_src bit_size src0 \<ge> signed_src bit_size src1)))"

definition evaluate_uge :: "nat \<Rightarrow> int \<Rightarrow> int \<Rightarrow> int result" where
  "evaluate_uge bit_size src0 src1 =
     (at_size [1, 8, 16, 32, 64] bit_size (of_bool (unsigned_src bit_size src0 \<ge> unsigned_src bit_size src1)))"

definition evaluate_ilt :: "nat \<Rightarrow> int \<Rightarrow> int \<Rightarrow> int result" where
  "evaluate_ilt bit_size src0 src1 =
     (at_size [1, 8, 16, 32, 64] bit_size (of_bool (signed_src bit_size src0 < signed_src bit_size src1)))"

definition evaluate_ult :: "nat \<Rightarrow> int \<Rightarrow> int \<Rightarrow> int result" where
  "evaluate_ult bit_size src0 src1 =
     (at_size [1, 8, 16, 32, 64] bit_size (of_bool (unsigned_src bit_size src0 < unsigned_src bit_size src1)))"

definition evaluate_imax :: "nat \<Rightarrow> int \<Rightarrow> int \<Rightarrow> int result" where
  "evaluate_imax bit_size src0 src1 =
     (at_size [1, 8, 16, 32, 64] bit_size (dst_bits bit_size (max (signed_src bit_size src0) (signed_src bit_size src1))))"

definition evaluate_imin :: "nat \<Rightarrow> int \<Rightarrow> int \<Rightarrow> int result" where
  "evaluate_imin bit_size src0 src1 =
     (at_size [1, 8, 16, 32, 64] bit_size (dst_bits bit_size (min (signed_src bit_size src0) (signed_src bit_size src1))))"

definition evaluate_umax :: "nat \<Rightarrow> int \<Rightarrow> int \<Rightarrow> int result" where
  "evaluate_umax bit_size src0 src1 =
     (at_size [1, 8, 16, 32, 64] bit_size (dst_bits bit_size (max (unsigned_src bit_size src0) (unsigned_src bit_size src1))))"

definition evaluate_umin :: "nat \<Rightarrow> int \<Rightarrow> int \<Rightarrow> int result" where
  "evaluate_umin bit_size src0 src1 =
     (at_size [1, 8, 16, 32, 64] bit_size (dst_bits bit_size (min (unsigned_src bit_size src0) (unsigned_src bit_size src1))))"

definition evaluate_inot :: "nat \<Rightarrow> int \<Rightarrow> int result" where
  "evaluate_inot bit_size src0 = at_size [1, 8, 16, 32, 64] bit_size (dst_bits bit_size (NOT (signed_src bit_size src0)))"

definition evaluate_mov :: "nat \<Rightarrow> int \<Rightarrow> int result" where
  "evaluate_mov bit_size src0 = at_size [1, 8, 16, 32, 64] bit_size (dst_bits bit_size (unsigned_src bit_size src0))"

definition evaluate_bcsel :: "nat \<Rightarrow> int \<Rightarrow> int \<Rightarrow> int \<Rightarrow> int result" where
  "evaluate_bcsel bit_size src0 src1 src2 =
     at_size [1, 8, 16, 32, 64] bit_size (dst_bits bit_size (if unsigned_src 1 src0 \<noteq> 0 then unsigned_src bit_size src1 else unsigned_src bit_size src2))"

section \<open>Conversions; the bit size is that of the source\<close>

definition evaluate_b2i16 :: "nat \<Rightarrow> int \<Rightarrow> int result" where
  "evaluate_b2i16 bit_size src0 = at_size [1, 32] bit_size (of_bool (unsigned_src bit_size src0 \<noteq> 0))"

definition evaluate_b2i32 :: "nat \<Rightarrow> int \<Rightarrow> int result" where
  "evaluate_b2i32 bit_size src0 = at_size [1, 32] bit_size (of_bool (unsigned_src bit_size src0 \<noteq> 0))"

definition evaluate_b2i64 :: "nat \<Rightarrow> int \<Rightarrow> int result" where
  "evaluate_b2i64 bit_size src0 = at_size [1, 32] bit_size (of_bool (unsigned_src bit_size src0 \<noteq> 0))"

definition evaluate_b2f16 :: "nat \<Rightarrow> int \<Rightarrow> int result" where
  "evaluate_b2f16 bit_size src0 =
     at_size [1, 32] bit_size (if unsigned_src bit_size src0 \<noteq> 0 then 0x3C00 else 0)"

definition evaluate_b2f32 :: "nat \<Rightarrow> int \<Rightarrow> int result" where
  "evaluate_b2f32 bit_size src0 =
     at_size [1, 32] bit_size (if unsigned_src bit_size src0 \<noteq> 0 then 0x3F800000 else 0)"

definition evaluate_b2f64 :: "nat \<Rightarrow> int \<Rightarrow> int result" where
  "evaluate_b2f64 bit_size src0 =
     at_size [1, 32] bit_size (if unsigned_src bit_size src0 \<noteq> 0 then 0x3FF0000000000000 else 0)"

definition evaluate_i2i1 :: "nat \<Rightarrow> int \<Rightarrow> int result" where
  "evaluate_i2i1 bit_size src0 = at_size [1, 8, 16, 32, 64] bit_size (dst_bits 1 (signed_src bit_size src0))"

definition evaluate_i2i16 :: "nat \<Rightarrow> int \<Rightarrow> int result" where
  "evaluate_i2i16 bit_size src0 = at_size [1, 8, 16, 32, 64] bit_size (dst_bits 16 (signed_src bit_size src0))"

definition evaluate_i2i32 :: "nat \<Rightarrow> int \<Rightarrow> int result" where
  "evaluate_i2i32 bit_size src0 = at_size [1, 8, 16, 32, 64] bit_size (dst_bits 32 (signed_src bit_size src0))"

definition evaluate_i2i64 :: "nat \<Rightarrow> int \<Rightarrow> int result" where
  "evaluate_i2i64 bit_size src0 = at_size [1, 8, 16, 32, 64] bit_size (dst_bits 64 (signed_src bit_size src0))"

definition evaluate_i2imp :: "nat \<Rightarrow> int \<Rightarrow> int result" where
  "evaluate_i2imp bit_size src0 = Inr (dst_bits 16 (signed_src 32 src0))"

definition evaluate_u2u1 :: "nat \<Rightarrow> int \<Rightarrow> int result" where
  "evaluate_u2u1 bit_size src0 = at_size [1, 8, 16, 32, 64] bit_size (dst_bits 1 (unsigned_src bit_size src0))"

definition evaluate_u2u16 :: "nat \<Rightarrow> int \<Rightarrow> int result" where
  "evaluate_u2u16 bit_size src0 = at_size [1, 8, 16, 32, 64] bit_size (dst_bits 16 (unsigned_src bit_size src0))"

definition evaluate_u2u32 :: "nat \<Rightarrow> int \<Rightarrow> int result" where
  "evaluate_u2u32 bit_size src0 = at_size [1, 8, 16, 32, 64] bit_size (dst_bits 32 (unsigned_src bit_size src0))"

definition evaluate_u2u64 :: "nat \<Rightarrow> int \<Rightarrow> int result" where
  "evaluate_u2u64 bit_size src0 = at_size [1, 8, 16, 32, 64] bit_size (dst_bits 64 (unsigned_src bit_size src0))"

section \<open>One component of an operation\<close>

text \<open>
  \<open>nir_eval_const_opcode\<close> for the operations above; \<open>Undefined\<close> stands for the ones that are not modelled,
  those on floating-point numbers and those that look at the bits of an integer.
\<close>

primrec eval_int_op :: "nir_int_op \<Rightarrow> nat \<Rightarrow> int list \<Rightarrow> int result" where
  "eval_int_op nir_op_b2f16 bit_size src = evaluate_b2f16 bit_size (src ! 0)"
| "eval_int_op nir_op_b2f32 bit_size src = evaluate_b2f32 bit_size (src ! 0)"
| "eval_int_op nir_op_b2f64 bit_size src = evaluate_b2f64 bit_size (src ! 0)"
| "eval_int_op nir_op_bit_count bit_size src = Inl Undefined"
| "eval_int_op nir_op_bitfield_insert bit_size src = Inl Undefined"
| "eval_int_op nir_op_bitfield_reverse bit_size src = Inl Undefined"
| "eval_int_op nir_op_find_lsb bit_size src = Inl Undefined"
| "eval_int_op nir_op_iadd bit_size src = evaluate_iadd bit_size (src ! 0) (src ! 1)"
| "eval_int_op nir_op_iand bit_size src = evaluate_iand bit_size (src ! 0) (src ! 1)"
| "eval_int_op nir_op_ibfe bit_size src = Inl Undefined"
| "eval_int_op nir_op_idiv bit_size src = evaluate_idiv bit_size (src ! 0) (src ! 1)"
| "eval_int_op nir_op_ieq bit_size src = evaluate_ieq bit_size (src ! 0) (src ! 1)"
| "eval_int_op nir_op_ifind_msb_rev bit_size src = Inl Undefined"
| "eval_int_op nir_op_ige bit_size src = evaluate_ige bit_size (src ! 0) (src ! 1)"
| "eval_int_op nir_op_ilt bit_size src = evaluate_ilt bit_size (src ! 0) (src ! 1)"
| "eval_int_op nir_op_imax bit_size src = evaluate_imax bit_size (src ! 0) (src ! 1)"
| "eval_int_op nir_op_imin bit_size src = evaluate_imin bit_size (src ! 0) (src ! 1)"
| "eval_int_op nir_op_imod bit_size src = evaluate_imod bit_size (src ! 0) (src ! 1)"
| "eval_int_op nir_op_imul bit_size src = evaluate_imul bit_size (src ! 0) (src ! 1)"
| "eval_int_op nir_op_ine bit_size src = evaluate_ine bit_size (src ! 0) (src ! 1)"
| "eval_int_op nir_op_inot bit_size src = evaluate_inot bit_size (src ! 0)"
| "eval_int_op nir_op_ior bit_size src = evaluate_ior bit_size (src ! 0) (src ! 1)"
| "eval_int_op nir_op_irem bit_size src = evaluate_irem bit_size (src ! 0) (src ! 1)"
| "eval_int_op nir_op_ishl bit_size src = evaluate_ishl bit_size (src ! 0) (src ! 1)"
| "eval_int_op nir_op_ishr bit_size src = evaluate_ishr bit_size (src ! 0) (src ! 1)"
| "eval_int_op nir_op_isub bit_size src = evaluate_isub bit_size (src ! 0) (src ! 1)"
| "eval_int_op nir_op_ixor bit_size src = evaluate_ixor bit_size (src ! 0) (src ! 1)"
| "eval_int_op nir_op_sdot_4x8_iadd bit_size src = Inl Undefined"
| "eval_int_op nir_op_ubfe bit_size src = Inl Undefined"
| "eval_int_op nir_op_udiv bit_size src = evaluate_udiv bit_size (src ! 0) (src ! 1)"
| "eval_int_op nir_op_udot_4x8_uadd bit_size src = Inl Undefined"
| "eval_int_op nir_op_ufind_msb_rev bit_size src = Inl Undefined"
| "eval_int_op nir_op_uge bit_size src = evaluate_uge bit_size (src ! 0) (src ! 1)"
| "eval_int_op nir_op_ult bit_size src = evaluate_ult bit_size (src ! 0) (src ! 1)"
| "eval_int_op nir_op_umax bit_size src = evaluate_umax bit_size (src ! 0) (src ! 1)"
| "eval_int_op nir_op_umin bit_size src = evaluate_umin bit_size (src ! 0) (src ! 1)"
| "eval_int_op nir_op_umod bit_size src = evaluate_umod bit_size (src ! 0) (src ! 1)"
| "eval_int_op nir_op_unpack_half_x_dxil bit_size src = Inl Undefined"
| "eval_int_op nir_op_ushr bit_size src = evaluate_ushr bit_size (src ! 0) (src ! 1)"

primrec eval_conversion_op :: "nir_conversion_op \<Rightarrow> nat \<Rightarrow> int list \<Rightarrow> int result" where
  "eval_conversion_op nir_op_b2i16 bit_size src = evaluate_b2i16 bit_size (src ! 0)"
| "eval_conversion_op nir_op_b2i32 bit_size src = evaluate_b2i32 bit_size (src ! 0)"
| "eval_conversion_op nir_op_b2i64 bit_size src = evaluate_b2i64 bit_size (src ! 0)"
| "eval_conversion_op nir_op_f2f16 bit_size src = Inl Undefined"
| "eval_conversion_op nir_op_f2f16_rtz bit_size src = Inl Undefined"
| "eval_conversion_op nir_op_f2f32 bit_size src = Inl Undefined"
| "eval_conversion_op nir_op_f2f64 bit_size src = Inl Undefined"
| "eval_conversion_op nir_op_f2fmp bit_size src = Inl Undefined"
| "eval_conversion_op nir_op_f2i16 bit_size src = Inl Undefined"
| "eval_conversion_op nir_op_f2i32 bit_size src = Inl Undefined"
| "eval_conversion_op nir_op_f2i64 bit_size src = Inl Undefined"
| "eval_conversion_op nir_op_f2imp bit_size src = Inl Undefined"
| "eval_conversion_op nir_op_f2u16 bit_size src = Inl Undefined"
| "eval_conversion_op nir_op_f2u32 bit_size src = Inl Undefined"
| "eval_conversion_op nir_op_f2u64 bit_size src = Inl Undefined"
| "eval_conversion_op nir_op_f2ump bit_size src = Inl Undefined"
| "eval_conversion_op nir_op_i2f16 bit_size src = Inl Undefined"
| "eval_conversion_op nir_op_i2f32 bit_size src = Inl Undefined"
| "eval_conversion_op nir_op_i2f64 bit_size src = Inl Undefined"
| "eval_conversion_op nir_op_i2fmp bit_size src = Inl Undefined"
| "eval_conversion_op nir_op_i2i1 bit_size src = evaluate_i2i1 bit_size (src ! 0)"
| "eval_conversion_op nir_op_i2i16 bit_size src = evaluate_i2i16 bit_size (src ! 0)"
| "eval_conversion_op nir_op_i2i32 bit_size src = evaluate_i2i32 bit_size (src ! 0)"
| "eval_conversion_op nir_op_i2i64 bit_size src = evaluate_i2i64 bit_size (src ! 0)"
| "eval_conversion_op nir_op_i2imp bit_size src = evaluate_i2imp bit_size (src ! 0)"
| "eval_conversion_op nir_op_u2f16 bit_size src = Inl Undefined"
| "eval_conversion_op nir_op_u2f32 bit_size src = Inl Undefined"
| "eval_conversion_op nir_op_u2f64 bit_size src = Inl Undefined"
| "eval_conversion_op nir_op_u2fmp bit_size src = Inl Undefined"
| "eval_conversion_op nir_op_u2u1 bit_size src = evaluate_u2u1 bit_size (src ! 0)"
| "eval_conversion_op nir_op_u2u16 bit_size src = evaluate_u2u16 bit_size (src ! 0)"
| "eval_conversion_op nir_op_u2u32 bit_size src = evaluate_u2u32 bit_size (src ! 0)"
| "eval_conversion_op nir_op_u2u64 bit_size src = evaluate_u2u64 bit_size (src ! 0)"

end
