(* ===== verification/Nir_Agree.thy ===== *)
theory Nir_Agree
  imports Nir_Eval Dxil_Eval Ntd_Alu
begin

unbundle bit_operations_syntax

text \<open>
  The operations of NIR and the instructions of DXIL that they are translated to agree on bit patterns.
\<close>

abbreviation pattern :: "nat \<Rightarrow> int \<Rightarrow> bool" where
  "pattern w i \<equiv> 0 \<le> i \<and> i < 2 ^ w"

lemma pattern_take_bit: "pattern w i \<Longrightarrow> take_bit w i = i"
  by (simp add: take_bit_int_eq_self)

lemma take_bit_pattern: "pattern w (take_bit w i)"
  by simp

lemma signed_bits: "0 < w \<Longrightarrow> take_bit w (signed_src w i) = take_bit w i"
  by (simp add: signed_src_def take_bit_signed_take_bit)

lemma as_signed_eq: "as_signed w i = signed_src w i"
  by (simp add: as_signed_def signed_src_def)

lemma signed_inj: "0 < w \<Longrightarrow> pattern w i \<Longrightarrow> pattern w j \<Longrightarrow> signed_src w i = signed_src w j \<longleftrightarrow> i = j"
  by (metis signed_bits pattern_take_bit)

lemma unsigned_bits: "pattern w i \<Longrightarrow> unsigned_src w i = i"
  by (simp add: unsigned_src_def pattern_take_bit)

lemma at_size_Inr: "at_size sizes b dst = Inr k \<longleftrightarrow> b \<in> set sizes \<and> k = dst"
  by (auto simp: at_size_def)

section \<open>Arithmetic\<close>

lemma take_bit_cong2:
  fixes f :: "int \<Rightarrow> int \<Rightarrow> int"
  assumes "\<And>a b. take_bit w (f (take_bit w a) (take_bit w b)) = take_bit w (f a b)" and "0 < w"
  shows "take_bit w (f (signed_src w i) (signed_src w j)) = take_bit w (f i j)"
  by (metis assms signed_bits)

lemma arithmetic_agrees:
  assumes "pattern w i" and "pattern w j" and "0 < w"
  shows "evaluate_iadd w i j = Inr k \<Longrightarrow> binop_bits DXIL_BINOP_ADD w i j = Some k"
    and "evaluate_isub w i j = Inr k \<Longrightarrow> binop_bits DXIL_BINOP_SUB w i j = Some k"
    and "evaluate_imul w i j = Inr k \<Longrightarrow> binop_bits DXIL_BINOP_MUL w i j = Some k"
  using take_bit_cong2 [of w "(+)" i j] take_bit_cong2 [of w "(-)" i j] take_bit_cong2 [of w "(*)" i j] assms(3)
  by (simp_all add: evaluate_iadd_def evaluate_isub_def evaluate_imul_def at_size_Inr dst_bits_def
      take_bit_add take_bit_diff take_bit_mult)

lemma logic_agrees:
  assumes "pattern w i" and "pattern w j"
  shows "evaluate_iand w i j = Inr k \<Longrightarrow> binop_bits DXIL_BINOP_AND w i j = Some k"
    and "evaluate_ior w i j = Inr k \<Longrightarrow> binop_bits DXIL_BINOP_OR w i j = Some k"
    and "evaluate_ixor w i j = Inr k \<Longrightarrow> binop_bits DXIL_BINOP_XOR w i j = Some k"
  using assms by (simp_all add: evaluate_iand_def evaluate_ior_def evaluate_ixor_def at_size_Inr dst_bits_def
      unsigned_bits pattern_take_bit take_bit_and take_bit_or take_bit_xor)

lemma not_agrees:
  assumes "pattern w i" and "0 < w" and "evaluate_inot w i = Inr k"
  shows "binop_bits DXIL_BINOP_XOR w i (mask w) = Some k"
proof -
  have "k = take_bit w (NOT (signed_src w i))" using assms(3) by (simp add: evaluate_inot_def at_size_Inr dst_bits_def)
  also have "\<dots> = take_bit w (NOT (take_bit w (signed_src w i)))" by (simp add: take_bit_not_take_bit)
  also have "\<dots> = take_bit w (NOT i)" using assms(1,2) by (simp add: signed_bits pattern_take_bit)
  also have "\<dots> = take_bit w i XOR mask w"
    by (rule bit_eqI) (auto simp: bit_simps)
  finally show ?thesis using assms(1) by (simp add: pattern_take_bit)
qed

section \<open>Division\<close>

text \<open>What LLVM asks of a signed division.\<close>

definition division_defined :: "nat \<Rightarrow> int \<Rightarrow> int \<Rightarrow> bool" where
  "division_defined w i j \<longleftrightarrow> j \<noteq> 0 \<and> \<not> (signed_src w i = u_intN_min w \<and> signed_src w j = -1)"

lemma division_agrees:
  assumes "pattern w i" and "pattern w j" and "0 < w"
  shows "evaluate_idiv w i j = Inr k \<Longrightarrow> division_defined w i j \<Longrightarrow> binop_bits DXIL_BINOP_SDIV w i j = Some k"
    and "evaluate_irem w i j = Inr k \<Longrightarrow> division_defined w i j \<Longrightarrow> binop_bits DXIL_BINOP_SREM w i j = Some k"
    and "evaluate_udiv w i j = Inr k \<Longrightarrow> j \<noteq> 0 \<Longrightarrow> binop_bits DXIL_BINOP_UDIV w i j = Some k"
    and "evaluate_umod w i j = Inr k \<Longrightarrow> j \<noteq> 0 \<Longrightarrow> binop_bits DXIL_BINOP_UREM w i j = Some k"
proof -
  have zero: "signed_src w j = 0 \<longleftrightarrow> j = 0"
    using signed_inj [OF assms(3,2), of 0] by (simp add: signed_src_def)
  show "evaluate_idiv w i j = Inr k \<Longrightarrow> division_defined w i j \<Longrightarrow> binop_bits DXIL_BINOP_SDIV w i j = Some k"
    by (auto simp: evaluate_idiv_def at_size_Inr dst_bits_def division_defined_def zero as_signed_eq u_intN_min_def Let_def)
  show "evaluate_irem w i j = Inr k \<Longrightarrow> division_defined w i j \<Longrightarrow> binop_bits DXIL_BINOP_SREM w i j = Some k"
    by (auto simp: evaluate_irem_def at_size_Inr dst_bits_def division_defined_def zero as_signed_eq u_intN_min_def Let_def)
  have le: "0 \<le> i div j \<and> i div j \<le> i \<and> 0 \<le> i mod j \<and> i mod j \<le> i" if "j \<noteq> 0"
    using assms(1,2) that zdiv_mono2 [of i 1 j]
    by (simp add: pos_imp_zdiv_nonneg_iff zmod_le_nonneg_dividend)
  show "evaluate_udiv w i j = Inr k \<Longrightarrow> j \<noteq> 0 \<Longrightarrow> binop_bits DXIL_BINOP_UDIV w i j = Some k"
    using le assms(1,2) pattern_take_bit [where w = w and i = "i div j"] by (simp add: evaluate_udiv_def at_size_Inr dst_bits_def unsigned_bits)
  show "evaluate_umod w i j = Inr k \<Longrightarrow> j \<noteq> 0 \<Longrightarrow> binop_bits DXIL_BINOP_UREM w i j = Some k"
    using le assms(1,2) pattern_take_bit [where w = w and i = "i mod j"] by (simp add: evaluate_umod_def at_size_Inr dst_bits_def unsigned_bits)
qed

section \<open>Comparisons\<close>

lemma comparison_agrees:
  assumes "pattern w i" and "pattern w j" and "0 < w"
  shows "evaluate_ieq w i j = Inr k \<Longrightarrow> cmp_bits DXIL_ICMP_EQ w i j = Some k"
    and "evaluate_ine w i j = Inr k \<Longrightarrow> cmp_bits DXIL_ICMP_NE w i j = Some k"
    and "evaluate_ige w i j = Inr k \<Longrightarrow> cmp_bits DXIL_ICMP_SGE w i j = Some k"
    and "evaluate_uge w i j = Inr k \<Longrightarrow> cmp_bits DXIL_ICMP_UGE w i j = Some k"
    and "evaluate_ilt w i j = Inr k \<Longrightarrow> cmp_bits DXIL_ICMP_SLT w i j = Some k"
    and "evaluate_ult w i j = Inr k \<Longrightarrow> cmp_bits DXIL_ICMP_ULT w i j = Some k"
  using assms signed_inj [OF assms(3,1,2)]
  by (simp_all add: evaluate_ieq_def evaluate_ine_def evaluate_ige_def evaluate_uge_def evaluate_ilt_def
      evaluate_ult_def at_size_Inr cmp_bits_def as_signed_eq unsigned_bits)


text \<open>The translation of \<open>imod\<close> is right where the two kinds of remainder agree.\<close>

lemma signed_nonneg:
  assumes "pattern w i" and "0 < w" and "0 \<le> signed_src w i"
  shows "signed_src w i = i"
proof -
  have "(2::int) ^ (w - 1) \<le> 2 ^ w" by (rule power_increasing) simp_all
  moreover have "signed_src w i < 2 ^ (w - 1)"
    unfolding signed_src_def by (rule signed_take_bit_int_less_exp)
  ultimately have "pattern w (signed_src w i)" using assms(3) by linarith
  from pattern_take_bit [OF this] show ?thesis using assms by (simp add: signed_bits pattern_take_bit)
qed

lemma imod_agrees:
  assumes "pattern w i" and "pattern w j" and "0 < w" and "0 \<le> signed_src w i" and "0 < signed_src w j"
    and "evaluate_imod w i j = Inr k"
  shows "binop_bits DXIL_BINOP_UREM w i j = Some k"
proof -
  have same: "signed_src w i = i" "signed_src w j = j" using assms signed_nonneg by simp_all
  have "i smod j = i mod j" using assms(4,5) same by (cases "i = 0") (simp_all add: signed_modulo_int_def)
  moreover have "0 \<le> i mod j" "i mod j < 2 ^ w"
    using assms(1,2) zmod_le_nonneg_dividend [of i j] assms(5) same by auto
  ultimately show ?thesis using assms(4-6) pattern_take_bit [where w = w and i = "i mod j"]
    by (auto simp: evaluate_imod_def at_size_Inr dst_bits_def same Let_def split: if_splits)
qed

section \<open>Shifts\<close>

lemma shift_agrees:
  assumes "pattern w i" and "pattern 32 j" and "w \<in> {16, 32, 64}"
  shows "evaluate_ishl w i j = Inr k \<Longrightarrow> binop_bits DXIL_BINOP_SHL w i (j AND (int w - 1)) = Some k"
    and "evaluate_ishr w i j = Inr k \<Longrightarrow> binop_bits DXIL_BINOP_ASHR w i (j AND (int w - 1)) = Some k"
    and "evaluate_ushr w i j = Inr k \<Longrightarrow> binop_bits DXIL_BINOP_LSHR w i (j AND (int w - 1)) = Some k"
proof -
  have less: "j AND (int w - 1) < int w"
    using AND_upper2 [of "int w - 1" j] assms(3) by auto
  have count: "shift_count w j = nat (j AND (int w - 1))"
    using assms(2,3) by (auto simp: shift_count_def unsigned_bits)
  show "evaluate_ishl w i j = Inr k \<Longrightarrow> binop_bits DXIL_BINOP_SHL w i (j AND (int w - 1)) = Some k"
    using less count assms(3)
    by (auto simp: evaluate_ishl_def at_size_Inr dst_bits_def take_bit_push_bit signed_src_def take_bit_signed_take_bit)
  show "evaluate_ishr w i j = Inr k \<Longrightarrow> binop_bits DXIL_BINOP_ASHR w i (j AND (int w - 1)) = Some k"
    using less count by (simp add: evaluate_ishr_def at_size_Inr dst_bits_def as_signed_eq)
  have "drop_bit n i \<le> i" "0 \<le> drop_bit n i" for n
    using assms(1) zdiv_mono2 [of i 1 "2 ^ n"] by (simp_all add: drop_bit_eq_div pos_imp_zdiv_nonneg_iff)
  then have "pattern w (drop_bit n i)" for n using assms(1) by (meson order_le_less_trans)
  then show "evaluate_ushr w i j = Inr k \<Longrightarrow> binop_bits DXIL_BINOP_LSHR w i (j AND (int w - 1)) = Some k"
    using less count assms(1) by (simp add: evaluate_ushr_def at_size_Inr dst_bits_def unsigned_bits pattern_take_bit)
qed

section \<open>Conversions\<close>

lemma widen_agrees:
  assumes "pattern w i" and "0 < w"
  shows "narrow_or_widen n w DXIL_CAST_TRUNC DXIL_CAST_SEXT = Inr opcode \<Longrightarrow>
      cast_bits opcode w n i = Some (dst_bits n (signed_src w i))"
    and "narrow_or_widen n w DXIL_CAST_TRUNC DXIL_CAST_ZEXT = Inr opcode \<Longrightarrow>
      cast_bits opcode w n i = Some (dst_bits n (unsigned_src w i))"
proof -
  show "narrow_or_widen n w DXIL_CAST_TRUNC DXIL_CAST_SEXT = Inr opcode \<Longrightarrow>
      cast_bits opcode w n i = Some (dst_bits n (signed_src w i))"
    using assms(2) by (auto simp: narrow_or_widen_def cast_bits_def dst_bits_def as_signed_eq signed_src_def
        take_bit_signed_take_bit split: if_splits)
  have "take_bit n i = i" if "w \<le> n"
  proof -
    have "(2::int) ^ w \<le> 2 ^ n" using that by (rule power_increasing) simp
    then have "pattern n i" using assms(1) by linarith
    then show ?thesis by (rule pattern_take_bit)
  qed
  then show "narrow_or_widen n w DXIL_CAST_TRUNC DXIL_CAST_ZEXT = Inr opcode \<Longrightarrow>
      cast_bits opcode w n i = Some (dst_bits n (unsigned_src w i))"
    using assms by (auto simp: narrow_or_widen_def cast_bits_def dst_bits_def unsigned_bits split: if_splits)
qed

lemma bool_pattern: "pattern 1 i \<Longrightarrow> i = 0 \<or> i = 1"
  by auto

text \<open>A conversion that has a meaning on integers has the one of the cast that it becomes.\<close>

lemma conversion_agrees:
  assumes "pattern w i" and "0 < w" and "n = nir_alu_type_get_type_size (fst (nir_conversion_op_info op))"
    and "nir_alu_type_get_base_type (hd (snd (nir_conversion_op_info op))) = NIR_BOOL \<Longrightarrow> w = 1"
    and "op = nir_op_i2imp \<Longrightarrow> w = 32"
    and "conversion_cast op n w = Inr opcode" and "eval_conversion_op op w [i] = Inr k"
  shows "cast_bits opcode w n i = Some k"
proof -
  note widen = widen_agrees [OF assms(1,2), of n opcode]
  have bool: "w = 1 \<Longrightarrow> of_bool (unsigned_src w i \<noteq> 0) = i" using assms(1) bool_pattern [of i] unsigned_bits [of i w] by auto
  show ?thesis
    using assms(3-7) widen bool
    by (cases op) (simp_all add: evaluate_b2i16_def evaluate_b2i32_def evaluate_b2i64_def evaluate_i2i1_def
        evaluate_i2i16_def evaluate_i2i32_def evaluate_i2i64_def evaluate_i2imp_def evaluate_u2u1_def
        evaluate_u2u16_def evaluate_u2u32_def evaluate_u2u64_def at_size_Inr cast_bits_def)
qed

end
