(* ===== verification/Ntd_Alu_Ops.thy ===== *)
theory Ntd_Alu_Ops
  imports Ntd_Stores Nir_Agree
begin

unbundle bit_operations_syntax

text \<open>
  Each way of translating an arithmetic instruction: it returns without failing an assertion, and the value
  it stores has the meaning of the instructions it mod_emits.
\<close>

definition computes ::
  "(nat \<Rightarrow> nat) \<Rightarrow> nir_alu_instr \<Rightarrow> ntd_context \<Rightarrow> (bool \<times> ntd_context) result \<Rightarrow> (valuation \<Rightarrow> int option) \<Rightarrow> bool" where
  "computes sizes alu ctx r x \<longleftrightarrow>
     (\<exists>ctx'. r = Inr (True, ctx') \<and> stores sizes ctx ctx' (def_index (alu_def alu)) 0 x)"

lemma stores_weaken: "stores sizes ctx ctx' d c x \<Longrightarrow> (\<And>rho k. y rho = Some k \<Longrightarrow> x rho = Some k) \<Longrightarrow> stores sizes ctx ctx' d c y"
  unfolding stores_def using holds_weaken by blast

lemma computes_weaken: "computes sizes alu ctx r x \<Longrightarrow> (\<And>rho k. y rho = Some k \<Longrightarrow> x rho = Some k) \<Longrightarrow> computes sizes alu ctx r y"
  unfolding computes_def using stores_weaken by blast

lemma computes_after: "ctx_extends ctx ctx1 \<Longrightarrow> computes sizes alu ctx1 r x \<Longrightarrow> computes sizes alu ctx r x"
  unfolding computes_def using stores_after by blast

text \<open>The place for the result, with the bit size it needs.\<close>

definition result_ok :: "(nat \<Rightarrow> nat) \<Rightarrow> ntd_context \<Rightarrow> nir_alu_instr \<Rightarrow> nat \<Rightarrow> bool" where
  "result_ok sizes ctx alu b \<longleftrightarrow> place_ok sizes ctx (alu_def alu) 0 \<and> def_bit_size (alu_def alu) = b"

lemma place_ok_extends: "ctx_extends ctx ctx' \<Longrightarrow> place_ok sizes ctx ssa chan \<Longrightarrow> place_ok sizes ctx' ssa chan"
  by (auto simp: place_ok_def ctx_extends_def expect_type_def)

lemma result_ok_extends: "ctx_extends ctx ctx' \<Longrightarrow> result_ok sizes ctx alu b \<Longrightarrow> result_ok sizes ctx' alu b"
  using place_ok_extends by (simp add: result_ok_def)

lemma alu_result_computes:
  assumes "ctx_ok sizes ctx" and "ctx_emits r ctx t x" and "t \<in> arith_types" and "scalar_width t = Some b"
    and "result_ok sizes ctx alu b"
  shows "computes sizes alu ctx (bind_result r (alu_result alu 0)) x"
proof -
  obtain v ctx1 where 1: "r = Inr (v, ctx1)" "ctx_extends ctx ctx1" "holds (ntd_mod ctx1) v t x"
    using assms(2) by (rule ctx_emitsE)
  have "scalar_width t = Some (sizes (def_index (alu_def alu)))" "place_ok sizes ctx1 (alu_def alu) 0"
    using result_ok_extends [OF 1(2) assms(5)] assms(4) by (simp_all add: result_ok_def place_ok_def)
  from store_def_stores [OF ctx_ok_extends [OF 1(2) assms(1)] 1(3) assms(3) this]
  obtain ctx' where "store_def (alu_def alu) 0 v ctx1 = Inr ctx'" "stores sizes ctx1 ctx' (def_index (alu_def alu)) 0 x"
    by blast
  then show ?thesis using 1(1) stores_after [OF 1(2)] by (auto simp: computes_def alu_result_def store_alu_dest_def)
qed

lemma bind_computes:
  assumes "ctx_emits r ctx t x"
    and "\<And>v ctx'. ctx_extends ctx ctx' \<Longrightarrow> holds (ntd_mod ctx') v t x \<Longrightarrow> computes sizes alu ctx' (g v ctx') y"
  shows "computes sizes alu ctx (bind_result r (\<lambda>(v, ctx). g v ctx)) y"
proof -
  obtain v ctx' where 1: "r = Inr (v, ctx')" "ctx_extends ctx ctx'" "holds (ntd_mod ctx') v t x"
    using assms(1) by (rule ctx_emitsE)
  show ?thesis using computes_after [OF 1(2) assms(2) [OF 1(2,3)]] 1(1) by simp
qed

section \<open>Binary operations and comparisons\<close>

lemma binop_computes:
  assumes "ctx_ok sizes ctx" and "holds (ntd_mod ctx) a t x" and "holds (ntd_mod ctx) b t y"
    and "t \<in> arith_types" and "scalar_width t = Some w" and "result_ok sizes ctx alu w"
  shows "computes sizes alu ctx (ntd_emit_binop alu opcode a b ctx) (lift2 (on_ints (binop_bits opcode) t) x y)"
  unfolding ntd_emit_binop_def Let_def
  by (rule alu_result_computes [OF assms(1) _ assms(4-6)], rule on_mod_emits,
      rule binop_emits [OF ctx_ok_ready [OF assms(1)] assms(2-4)])

lemma cmp_computes:
  assumes "ctx_ok sizes ctx" and "holds (ntd_mod ctx) a t x" and "holds (ntd_mod ctx) b t y"
    and "t \<in> arith_types" and "result_ok sizes ctx alu 1"
  shows "computes sizes alu ctx (ntd_emit_cmp alu pred a b ctx) (lift2 (on_ints (cmp_bits pred) t) x y)"
  unfolding ntd_emit_cmp_def
  by (rule alu_result_computes [OF assms(1) _ _ _ assms(5)], rule on_mod_emits,
      rule cmp_emits [OF ctx_ok_ready [OF assms(1)] assms(2-4)]) simp_all

lemma select_computes:
  assumes "ctx_ok sizes ctx" and "holds (ntd_mod ctx) c (TYPE_INTEGER 1) z" and "holds (ntd_mod ctx) a t x"
    and "holds (ntd_mod ctx) b t y" and "t \<in> arith_types" and "scalar_width t = Some w" and "result_ok sizes ctx alu w"
  shows "computes sizes alu ctx (ntd_emit_select alu c a b ctx) (select_bits z x y)"
  unfolding ntd_emit_select_def
  by (rule alu_result_computes [OF assms(1) _ assms(5-7)], rule on_mod_emits,
      rule select_emits [OF ctx_ok_ready [OF assms(1)] assms(2-5)])

section \<open>Shifts\<close>

definition const_matches :: "nir_src \<Rightarrow> nat \<Rightarrow> int \<Rightarrow> bool" where
  "const_matches src chan j \<longleftrightarrow>
     (case src_const src of
        None \<Rightarrow> True
      | Some values \<Rightarrow> (case nir_src_comp_as_uint src chan of Inr u \<Rightarrow> uint u = j | Inl _ \<Rightarrow> False))"

lemma mask_const:
  assumes "w \<in> {16, 32, 64}"
  shows "take_bit w (uint (of_nat w - 1 :: 64 word)) = int w - 1" and "fits_size w (of_nat w - 1)"
  using assms by (auto simp: fits_size_def)

lemma and_mask_range:
  fixes j :: int
  assumes "w \<in> {16, 32, 64}"
  shows "0 \<le> j AND (int w - 1)" and "j AND (int w - 1) < 2 ^ (w - 1)" and "j AND (int w - 1) < 64"
proof -
  have "j AND (int w - 1) \<le> int w - 1" using assms by (intro AND_upper2) auto
  then show "j AND (int w - 1) < 2 ^ (w - 1)" and "j AND (int w - 1) < 64" using assms by auto
qed (use assms in auto)

lemma take_bit_and_mask:
  assumes "w \<in> {16, 32, 64}"
  shows "take_bit w (j AND (int w - 1)) = j AND (int w - 1)"
proof (rule pattern_take_bit)
  have "(2::int) ^ (w - 1) \<le> 2 ^ w" by (rule power_increasing) simp_all
  then show "pattern w (j AND (int w - 1))" using and_mask_range [OF assms, of j] by linarith
qed

lemma shift_amount_emits:
  assumes "ready m" and "holds m b (TYPE_INTEGER 32) y" and "w \<in> {16, 32, 64}"
    and "nir_src_bit_size (alu_src src1) = 32" and "swizzle src1 \<noteq> []"
    and const: "nir_src_is_const (alu_src src1) \<Longrightarrow> \<exists>u. nir_src_comp_as_uint (alu_src src1) (hd (swizzle src1)) = Inr u"
  shows "mod_emits (shift_amount alu b src1 w m) m (TYPE_INTEGER w)
    (\<lambda>rho. Option.bind (y rho) (\<lambda>j. if pattern 32 j \<and> const_matches (alu_src src1) (hd (swizzle src1)) j
       then Some (j AND (int w - 1)) else None))"
    (is "mod_emits _ _ _ ?y")
proof (cases "nir_src_is_const (alu_src src1)")
  case True
  then obtain u where u: "nir_src_comp_as_uint (alu_src src1) (hd (swizzle src1)) = Inr u" using const by blast
  let ?v = "u AND (of_nat w - 1)"
  have uint: "uint ?v = uint u AND (int w - 1)" using assms(3) by (auto simp: uint_and)
  have "uint ?v < 64" unfolding uint using and_mask_range [OF assms(3), of "uint u"] by simp_all
  then have "sint ?v = uint ?v" unfolding sint_uint
    by (intro signed_take_bit_int_eq_self order_trans [OF _ uint_nonnegative]) simp_all
  note same = this
  have "w \<noteq> 1" using assms(3) by auto
  moreover have "- (2 ^ (w - 1)) \<le> sint ?v" unfolding same by (rule order_trans [OF _ uint_nonnegative]) simp
  moreover have "sint ?v < 2 ^ (w - 1)" unfolding same uint by (rule and_mask_range(2) [OF assms(3)])
  ultimately have "fits_size w ?v" by (rule fits_sizeI)
  moreover have "w \<in> {1, 16, 32, 64}" using assms(3) by blast
  ultimately have "mod_emits (dxil_module_get_int_const ?v w m) m (TYPE_INTEGER w) (\<lambda>_. Some (uint u AND (int w - 1)))"
    using int_const_emits [OF ready_types [OF assms(1)], of w ?v] take_bit_and_mask [OF assms(3), of "uint u"] uint by simp
  then have "mod_emits (dxil_module_get_int_const ?v w m) m (TYPE_INTEGER w) ?y"
    by (rule mod_emits_weaken) (use True u in \<open>auto simp: const_matches_def nir_src_is_const_def bind_eq_Some_conv split: if_splits\<close>)
  then show ?thesis using True u assms(5) by (simp add: shift_amount_def read_at_def hd_conv_nth)
next
  case False
  let ?r = "if w \<noteq> 32 then bind_result (dxil_module_get_int_type w m) (\<lambda>(type, m).
       dxil_emit_cast (if 32 < w then DXIL_CAST_ZEXT else DXIL_CAST_TRUNC) type b m) else Inr (b, m)"
  have w: "w \<in> {1, 8, 16, 32, 64}" "w \<in> {1, 16, 32, 64}" "TYPE_INTEGER w \<in> arith_types" using assms(3) by auto
  have resized: "mod_emits ?r m (TYPE_INTEGER w) (\<lambda>rho. Option.bind (y rho) (\<lambda>j. if pattern 32 j then Some (take_bit w j) else None))"
  proof (cases "w = 32")
    case True
    then show ?thesis using mod_emits_value [OF ready_types [OF assms(1)] assms(2)]
      by (auto simp: bind_eq_Some_conv pattern_take_bit split: if_splits elim!: mod_emits_weaken)
  next
    case False
    obtain i m1 where 1: "dxil_module_get_int_type w m = Inr (i, m1)" "extends m m1" "i < length (type_list m1)" "type_list m1 ! i = TYPE_INTEGER w"
      using gets_int_type [OF ready_types [OF assms(1)] w(1)] by (rule gets_typeE)
    let ?op = "if 32 < w then DXIL_CAST_ZEXT else DXIL_CAST_TRUNC"
    have "mod_emits (dxil_emit_cast ?op i b m1) m1 (TYPE_INTEGER w) (\<lambda>rho. Option.bind (y rho) (cast_bits ?op 32 w))"
      by (rule cast_emits [OF extends_ready [OF 1(2) assms(1)] holds_extends [OF assms(2) 1(2)] _ _ 1(3,4) w(3)]) simp_all
    then have "mod_emits (dxil_emit_cast ?op i b m1) m1 (TYPE_INTEGER w)
      (\<lambda>rho. Option.bind (y rho) (\<lambda>j. if pattern 32 j then Some (take_bit w j) else None))"
    proof (rule mod_emits_weaken)
      fix rho k assume "Option.bind (y rho) (\<lambda>j. if pattern 32 j then Some (take_bit w j) else None) = Some k"
      then obtain j where j: "y rho = Some j" "pattern 32 j" "k = take_bit w j" by (auto simp: bind_eq_Some_conv split: if_splits)
      have "pattern 64 j" using j(2) by auto
      then show "Option.bind (y rho) (cast_bits ?op 32 w) = Some k"
        using j assms(3) pattern_take_bit [where w = 64 and i = j] by (auto simp: cast_bits_def)
    qed
    from mod_emits_after [OF 1(2) this] show ?thesis using 1(1) False by simp
  qed
  have "mod_emits (bind_result ?r (\<lambda>(op1, m). bind_result (dxil_module_get_int_const (of_nat w - 1) w m) (\<lambda>(c, m).
      dxil_emit_binop DXIL_BINOP_AND op1 c 0 m))) m (TYPE_INTEGER w) ?y"
  proof (rule mod_emits_bind [OF resized])
    fix v m1 assume m1: "extends m m1"
      and v: "holds m1 v (TYPE_INTEGER w) (\<lambda>rho. Option.bind (y rho) (\<lambda>j. if pattern 32 j then Some (take_bit w j) else None))"
    note ready1 = extends_ready [OF m1 assms(1)]
    have const: "mod_emits (dxil_module_get_int_const (of_nat w - 1) w m1) m1 (TYPE_INTEGER w) (\<lambda>_. Some (int w - 1))"
      using int_const_emits [OF ready_types [OF ready1] w(2) mask_const(2) [OF assms(3)]] mask_const(1) [OF assms(3)] by simp
    show "mod_emits (bind_result (dxil_module_get_int_const (of_nat w - 1) w m1) (\<lambda>(c, m). dxil_emit_binop DXIL_BINOP_AND v c 0 m))
      m1 (TYPE_INTEGER w) ?y"
    proof (rule mod_emits_bind [OF const])
      fix c m2 assume m2: "extends m1 m2" and c: "holds m2 c (TYPE_INTEGER w) (\<lambda>_. Some (int w - 1))"
      have *: "take_bit w j AND (int w - 1) = j AND (int w - 1)" for j
        using take_bit_and_mask [OF assms(3), of j] assms(3) by (auto simp: take_bit_and)
      show "mod_emits (dxil_emit_binop DXIL_BINOP_AND v c 0 m2) m2 (TYPE_INTEGER w) ?y"
        by (rule mod_emits_weaken [OF binop_emits [OF extends_ready [OF m2 ready1] holds_extends [OF v m2] c w(3)]])
          (auto simp: lift2_def bind_eq_Some_conv * split: if_splits)
    qed
  qed
  then show ?thesis using False assms(4) by (simp add: shift_amount_def)
qed


text \<open>A constant source has its value.\<close>

definition const_src_ok :: "nir_alu_src \<Rightarrow> bool" where
  "const_src_ok s \<longleftrightarrow>
     (nir_src_is_const (alu_src s) \<longrightarrow>
      (case nir_src_comp_as_uint (alu_src s) (hd (swizzle s)) of Inr u \<Rightarrow> True | Inl e \<Rightarrow> False))"

lemma const_src_okD:
  "const_src_ok s \<Longrightarrow> nir_src_is_const (alu_src s) \<Longrightarrow> \<exists>u. nir_src_comp_as_uint (alu_src s) (hd (swizzle s)) = Inr u"
  unfolding const_src_ok_def by (cases "nir_src_comp_as_uint (alu_src s) (hd (swizzle s))") auto

lemma shift_computes:
  assumes "ctx_ok sizes ctx" and "holds (ntd_mod ctx) a (TYPE_INTEGER w) x" and "holds (ntd_mod ctx) b (TYPE_INTEGER 32) y"
    and "w \<in> {16, 32, 64}" and "result_ok sizes ctx alu w" and "alu_srcs alu = [s0, s1]"
    and "nir_src_bit_size (alu_src s0) = w" and "nir_src_bit_size (alu_src s1) = 32" and "swizzle s1 \<noteq> []" and "const_src_ok s1"
  shows "computes sizes alu ctx (emit_shift alu opcode a b ctx)
    (lift2 (\<lambda>i j. if pattern 32 j \<and> const_matches (alu_src s1) (hd (swizzle s1)) j
       then binop_bits opcode w i (j AND (int w - 1)) else None) x y)"
proof -
  note r = ctx_ok_ready [OF assms(1)]
  have t: "TYPE_INTEGER w \<in> arith_types" using assms(4) by auto
  let ?y = "\<lambda>rho. Option.bind (y rho) (\<lambda>j. if pattern 32 j \<and> const_matches (alu_src s1) (hd (swizzle s1)) j
       then Some (j AND (int w - 1)) else None)"
  have amount: "ctx_emits (on_mod (shift_amount alu b s1 w) ctx) ctx (TYPE_INTEGER w) ?y"
    by (rule on_mod_emits, rule shift_amount_emits [OF r assms(3,4,8,9) const_src_okD [OF assms(10)]])
  have "computes sizes alu ctx (bind_result (on_mod (shift_amount alu b s1 w) ctx)
      (\<lambda>(op1, ctx). bind_result (on_mod (dxil_emit_binop opcode a op1 0) ctx) (alu_result alu 0)))
    (lift2 (on_ints (binop_bits opcode) (TYPE_INTEGER w)) x ?y)"
  proof (rule bind_computes [OF amount])
    fix v ctx1 assume ctx1: "ctx_extends ctx ctx1" and v: "holds (ntd_mod ctx1) v (TYPE_INTEGER w) ?y"
    note a = holds_extends [OF assms(2) ctx_extends_mod [OF ctx1]]
    show "computes sizes alu ctx1 (bind_result (on_mod (dxil_emit_binop opcode a v 0) ctx1) (alu_result alu 0))
      (lift2 (on_ints (binop_bits opcode) (TYPE_INTEGER w)) x ?y)"
      by (rule alu_result_computes [OF ctx_ok_extends [OF ctx1 assms(1)] _ t _ result_ok_extends [OF ctx1 assms(5)]],
          rule on_mod_emits, rule binop_emits [OF extends_ready [OF ctx_extends_mod [OF ctx1] r] a v t]) simp
  qed
  then have "computes sizes alu ctx (emit_shift alu opcode a b ctx)
    (lift2 (on_ints (binop_bits opcode) (TYPE_INTEGER w)) x ?y)"
    using assms(6,7) by (simp add: emit_shift_def read_at_def)
  then show ?thesis
    by (rule computes_weaken) (auto simp: lift2_def bind_eq_Some_conv split: if_splits)
qed

section \<open>Division and complement\<close>

lemma cast_zero:
  fixes v :: "'a::len word"
  assumes "LENGTH('a) \<le> 64"
  shows "scast v = (0 :: 64 word) \<longleftrightarrow> v = 0" and "ucast v = (0 :: 64 word) \<longleftrightarrow> v = 0"
  using assms scast_up_scast_id [where w = v and 'b = 64] ucast_up_ucast_id [where w = v and 'b = 64]
  by (auto simp: is_up)

lemma as_int_zero:
  assumes "nir_const_value_as_uint c b = Inr u"
  shows "\<exists>i. nir_const_value_as_int c b = Inr i \<and> (i = 0 \<longleftrightarrow> u = 0)"
  using assms
  by (auto simp: nir_const_value_as_uint_def nir_const_value_as_int_def cast_zero split: if_splits)

lemma comp_as_int_zero:
  assumes "nir_src_comp_as_uint src chan = Inr u"
  shows "\<exists>i. nir_src_comp_as_int src chan = Inr i \<and> (i = 0 \<longleftrightarrow> u = 0)"
  using assms as_int_zero by (auto simp: nir_src_comp_as_uint_def nir_src_comp_as_int_def bind_result_Inr_iff)

lemma division_computes:
  assumes "ctx_ok sizes ctx" and "holds (ntd_mod ctx) a (TYPE_INTEGER w) x" and "holds (ntd_mod ctx) b (TYPE_INTEGER w) y"
    and "w \<in> {1, 16, 32, 64}" and "result_ok sizes ctx alu w" and "alu_srcs alu = [s0, s1]"
    and "swizzle s1 \<noteq> []" and "const_src_ok s1"
  shows "computes sizes alu ctx (emit_division alu opcode a b ctx)
    (lift2 (\<lambda>i j. if \<not> const_matches (alu_src s1) (hd (swizzle s1)) j then None
       else if j = 0 \<and> nir_src_is_const (alu_src s1) then Some 0 else binop_bits opcode w i j) x y)"
    (is "computes _ _ _ _ (lift2 ?g x y)")
proof -
  have t: "TYPE_INTEGER w \<in> arith_types" using assms(4) by auto
  have chan: "read_at 0 (swizzle s1) = Inr (hd (swizzle s1))" using assms(7) by (simp add: hd_conv_nth)
  have divide: "computes sizes alu ctx (ntd_emit_binop alu opcode a b ctx) (lift2 (binop_bits opcode w) x y)"
    by (rule computes_weaken [OF binop_computes [OF assms(1-3) t _ assms(5)]]) (simp_all add: lift2_def)
  show ?thesis
  proof (cases "nir_src_is_const (alu_src s1)")
    case False
    have "emit_division alu opcode a b ctx = ntd_emit_binop alu opcode a b ctx"
      using False assms(6) by (simp add: emit_division_def read_at_def)
    then show ?thesis using divide False
      by (auto elim!: computes_weaken simp: lift2_def bind_eq_Some_conv split: if_splits)
  next
    case True
    then obtain u where u: "nir_src_comp_as_uint (alu_src s1) (hd (swizzle s1)) = Inr u"
      using const_src_okD [OF assms(8)] by blast
    obtain i where i: "nir_src_comp_as_int (alu_src s1) (hd (swizzle s1)) = Inr i" "i = 0 \<longleftrightarrow> u = 0"
      using comp_as_int_zero [OF u] by blast
    have match: "const_matches (alu_src s1) (hd (swizzle s1)) j \<longleftrightarrow> uint u = j" for j
      using True u by (auto simp: const_matches_def nir_src_is_const_def)
    show ?thesis
    proof (cases "u = 0")
      case zero: False
      have "emit_division alu opcode a b ctx = ntd_emit_binop alu opcode a b ctx"
        using True i zero assms(6) chan by (simp add: emit_division_def read_at_def)
      then show ?thesis using divide zero
        by (auto elim!: computes_weaken simp: lift2_def bind_eq_Some_conv match uint_0_iff split: if_splits)
    next
      case zero: True
      have "emit_division alu opcode a b ctx = bind_result (on_mod (dxil_module_get_int_const 0 w) ctx) (alu_result alu 0)"
        using True i zero assms(5,6) chan by (simp add: emit_division_def read_at_def result_ok_def)
      moreover have "ctx_emits (on_mod (dxil_module_get_int_const 0 w) ctx) ctx (TYPE_INTEGER w) (\<lambda>_. Some 0)"
        using int_const_emits [OF ready_types [OF ctx_ok_ready [OF assms(1)]] assms(4), of 0]
        by (intro on_mod_emits) (simp add: fits_size_def)
      ultimately have "computes sizes alu ctx (emit_division alu opcode a b ctx) (\<lambda>_. Some 0)"
        using alu_result_computes [OF assms(1) _ t _ assms(5)] by simp
      then show ?thesis
        by (rule computes_weaken) (use True zero in \<open>auto simp: lift2_def bind_eq_Some_conv match split: if_splits\<close>)
    qed
  qed
qed

lemma ones_const:
  assumes "w \<in> {1, 16, 32, 64}"
  shows "fits_size w (if w = 1 then 1 else -1)" and "take_bit w (uint (if w = 1 then 1 else -1 :: 64 word)) = mask w"
proof -
  show "fits_size w (if w = 1 then 1 else -1)" using assms by (auto simp: fits_size_def)
  show "take_bit w (uint (if w = 1 then 1 else -1 :: 64 word)) = mask w"
    using assms by (auto simp: unsigned_minus_1_eq_mask take_bit_of_mask)
qed

lemma inot_computes:
  assumes "ctx_ok sizes ctx" and "holds (ntd_mod ctx) a (TYPE_INTEGER w) x" and "w \<in> {1, 16, 32, 64}"
    and "result_ok sizes ctx alu w"
  shows "computes sizes alu ctx (emit_inot alu a ctx) (\<lambda>rho. Option.bind (x rho) (\<lambda>i. binop_bits DXIL_BINOP_XOR w i (mask w)))"
proof -
  have t: "TYPE_INTEGER w \<in> arith_types" using assms(3) by auto
  have const: "ctx_emits (on_mod (dxil_module_get_int_const (if w = 1 then 1 else -1) w) ctx) ctx (TYPE_INTEGER w) (\<lambda>_. Some (mask w))"
    using int_const_emits [OF ready_types [OF ctx_ok_ready [OF assms(1)]] assms(3) ones_const(1) [OF assms(3)]]
      ones_const(2) [OF assms(3)] by (intro on_mod_emits) simp
  have "def_bit_size (alu_def alu) = w" using assms(4) by (simp add: result_ok_def)
  then have run: "emit_inot alu a ctx = bind_result (on_mod (dxil_module_get_int_const (if w = 1 then 1 else -1) w) ctx)
      (\<lambda>(c, ctx). ntd_emit_binop alu DXIL_BINOP_XOR a c ctx)"
    by (simp add: emit_inot_def Let_def)
  show ?thesis unfolding run
  proof (rule bind_computes [OF const])
    fix c ctx1 assume ctx1: "ctx_extends ctx ctx1" and c: "holds (ntd_mod ctx1) c (TYPE_INTEGER w) (\<lambda>_. Some (mask w))"
    show "computes sizes alu ctx1 (ntd_emit_binop alu DXIL_BINOP_XOR a c ctx1)
      (\<lambda>rho. Option.bind (x rho) (\<lambda>i. binop_bits DXIL_BINOP_XOR w i (mask w)))"
      by (rule computes_weaken [OF binop_computes [OF ctx_ok_extends [OF ctx1 assms(1)]
            holds_extends [OF assms(2) ctx_extends_mod [OF ctx1]] c t _ result_ok_extends [OF ctx1 assms(4)]]])
        (simp_all add: lift2_def)
  qed
qed

end
