(* ===== verification/Ntd_Alu_Casts.thy ===== *)
theory Ntd_Alu_Casts
  imports Ntd_Alu_Ops
begin

unbundle bit_operations_syntax

text \<open>The conversions: those that become a cast, and those of booleans to floating-point numbers, which become
  a selection. The reciprocal is here too, for its constant.\<close>

section \<open>Selecting one of two constants\<close>

lemma float_const_ctx:
  "ready (ntd_mod ctx) \<Longrightarrow> ctx_emits (on_mod (\<lambda>m. Inr (dxil_module_get_float16_const v m)) ctx) ctx (TYPE_FLOAT 16) (\<lambda>_. Some (uint v))"
  "ready (ntd_mod ctx) \<Longrightarrow> ctx_emits (on_mod (\<lambda>m. Inr (dxil_module_get_float_const w m)) ctx) ctx (TYPE_FLOAT 32)
     (\<lambda>_. if float_exact w then Some (uint w) else None)"
  "ready (ntd_mod ctx) \<Longrightarrow> ctx_emits (on_mod (\<lambda>m. Inr (dxil_module_get_double_const d m)) ctx) ctx (TYPE_FLOAT 64)
     (\<lambda>_. if double_exact d then Some (uint d) else None)"
  by (rule on_mod_emits, rule float16_const_emits float_const_emits double_const_emits, erule ready_types)+

lemma ones_exact: "float_exact 0x3F800000" "double_exact 0x3FF0000000000000" "\<not> float_exact 0" "\<not> double_exact 0"
  by (simp_all add: float_exact_def double_exact_def float_is_nan_def double_is_nan_def)

lemma select_consts_computes:
  assumes ok: "ctx_ok sizes ctx" and v: "holds (ntd_mod ctx) v (TYPE_INTEGER 1) z"
    and g1: "\<And>ctx. ready (ntd_mod ctx) \<Longrightarrow> ctx_emits (g1 ctx) ctx t (\<lambda>_. y1)"
    and g0: "\<And>ctx. ready (ntd_mod ctx) \<Longrightarrow> ctx_emits (g0 ctx) ctx t (\<lambda>_. y0)"
    and h: "\<And>ctx. types_ok (ntd_mod ctx) \<Longrightarrow> ctx_extends ctx (h ctx)"
    and t: "t \<in> arith_types" "scalar_width t = Some w" and res: "result_ok sizes ctx alu w"
  shows "computes sizes alu ctx
    (bind_result (g1 ctx) (\<lambda>(c1, ctx). bind_result (g0 ctx) (\<lambda>(c0, ctx). ntd_emit_select alu v c1 c0 (h ctx))))
    (\<lambda>rho. Option.bind (z rho) (\<lambda>i. if i = 1 then y1 else y0))"
proof (rule bind_computes [OF g1 [OF ctx_ok_ready [OF ok]]])
  fix c1 ctx1 assume 1: "ctx_extends ctx ctx1" "holds (ntd_mod ctx1) c1 t (\<lambda>_. y1)"
  note ok1 = ctx_ok_extends [OF 1(1) ok]
  show "computes sizes alu ctx1 (bind_result (g0 ctx1) (\<lambda>(c0, ctx). ntd_emit_select alu v c1 c0 (h ctx)))
    (\<lambda>rho. Option.bind (z rho) (\<lambda>i. if i = 1 then y1 else y0))"
  proof (rule bind_computes [OF g0 [OF ctx_ok_ready [OF ok1]]])
    fix c0 ctx2 assume 2: "ctx_extends ctx1 ctx2" "holds (ntd_mod ctx2) c0 t (\<lambda>_. y0)"
    note ok2 = ctx_ok_extends [OF 2(1) ok1]
    note 3 = h [OF ready_types [OF ctx_ok_ready [OF ok2]]]
    note e02 = ctx_extends_trans [OF 1(1) 2(1)]
    note e03 = ctx_extends_trans [OF e02 3] and e13 = ctx_extends_trans [OF 2(1) 3]
    have "computes sizes alu (h ctx2) (ntd_emit_select alu v c1 c0 (h ctx2)) (select_bits z (\<lambda>_. y1) (\<lambda>_. y0))"
      by (rule select_computes [OF ctx_ok_extends [OF 3 ok2] holds_extends [OF v ctx_extends_mod [OF e03]]
            holds_extends [OF 1(2) ctx_extends_mod [OF e13]] holds_extends [OF 2(2) ctx_extends_mod [OF 3]] t
            result_ok_extends [OF e03 res]])
    then have "computes sizes alu ctx2 (ntd_emit_select alu v c1 c0 (h ctx2)) (select_bits z (\<lambda>_. y1) (\<lambda>_. y0))"
      by (rule computes_after [OF 3])
    then show "computes sizes alu ctx2 (ntd_emit_select alu v c1 c0 (h ctx2)) (\<lambda>rho. Option.bind (z rho) (\<lambda>i. if i = 1 then y1 else y0))"
      by (rule computes_weaken) (simp add: select_bits_def)
  qed
qed

lemma set_feats_extends:
  assumes "types_ok (ntd_mod ctx)" and "\<And>f. feat_int64_ops f \<Longrightarrow> feat_int64_ops (g f)" and "\<And>f. feat_doubles f \<Longrightarrow> feat_doubles (g f)"
  shows "ctx_extends ctx (set_feats g c ctx)"
  using assms extends_refl by (simp add: ctx_extends_def)

lemma b2f_computes:
  assumes "ctx_ok sizes ctx" and "holds (ntd_mod ctx) v (TYPE_INTEGER 1) z"
  shows "result_ok sizes ctx alu 16 \<Longrightarrow> computes sizes alu ctx (emit_b2f16 alu v ctx)
      (\<lambda>rho. Option.bind (z rho) (\<lambda>i. if i = 1 then Some 0x3C00 else Some 0))"
    and "result_ok sizes ctx alu 32 \<Longrightarrow> computes sizes alu ctx (emit_b2f32 alu v ctx)
      (\<lambda>rho. Option.bind (z rho) (\<lambda>i. if i = 1 then Some 0x3F800000 else None))"
    and "result_ok sizes ctx alu 64 \<Longrightarrow> computes sizes alu ctx (emit_b2f64 alu v ctx)
      (\<lambda>rho. Option.bind (z rho) (\<lambda>i. if i = 1 then Some 0x3FF0000000000000 else None))"
proof -
  note select = select_consts_computes [OF assms]
  show "result_ok sizes ctx alu 16 \<Longrightarrow> computes sizes alu ctx (emit_b2f16 alu v ctx)
      (\<lambda>rho. Option.bind (z rho) (\<lambda>i. if i = 1 then Some 0x3C00 else Some 0))"
    unfolding emit_b2f16_def
    by (rule select [where t = "TYPE_FLOAT 16" and h = "\<lambda>ctx. ctx" and w = 16]) (use float_const_ctx(1) [of _ "0x3C00"] float_const_ctx(1) [of _ 0] ctx_extends_refl in simp_all)
  show "result_ok sizes ctx alu 32 \<Longrightarrow> computes sizes alu ctx (emit_b2f32 alu v ctx)
      (\<lambda>rho. Option.bind (z rho) (\<lambda>i. if i = 1 then Some 0x3F800000 else None))"
    unfolding emit_b2f32_def
    by (rule select [where t = "TYPE_FLOAT 32" and h = "\<lambda>ctx. ctx" and w = 32])
      (use float_const_ctx(2) [of _ "0x3F800000"] float_const_ctx(2) [of _ 0] ctx_extends_refl in \<open>simp_all add: ones_exact\<close>)
  show "result_ok sizes ctx alu 64 \<Longrightarrow> computes sizes alu ctx (emit_b2f64 alu v ctx)
      (\<lambda>rho. Option.bind (z rho) (\<lambda>i. if i = 1 then Some 0x3FF0000000000000 else None))"
    unfolding emit_b2f64_def
    by (rule select [where t = "TYPE_FLOAT 64" and w = 64])
      (use float_const_ctx(3) [of _ "0x3FF0000000000000"] float_const_ctx(3) [of _ 0]
        in \<open>simp_all add: ones_exact set_feats_extends\<close>)
qed

section \<open>The reciprocal\<close>

lemma no_meaning: "ctx_emits r ctx t x \<Longrightarrow> ctx_emits r ctx t (\<lambda>_. None)"
  by (erule ctx_emits_weaken) simp

lemma frcp_computes:
  assumes ok: "ctx_ok sizes ctx" and v: "holds (ntd_mod ctx) v (TYPE_FLOAT w) x" and w: "w \<in> {16, 32, 64}"
    and res: "result_ok sizes ctx alu w"
  shows "computes sizes alu ctx (emit_frcp alu v ctx) (\<lambda>_. None)"
proof -
  have t: "TYPE_FLOAT w \<in> arith_types" using w by auto
  let ?one = "if w = 16 then on_mod (\<lambda>m. Inr (dxil_module_get_float16_const 0x3C00 m)) ctx
         else if w = 32 then on_mod (\<lambda>m. Inr (dxil_module_get_float_const 0x3F800000 m)) ctx
         else if w = 64 then on_mod (\<lambda>m. Inr (dxil_module_get_double_const 0x3FF0000000000000 m)) ctx
         else Inl Unreachable"
  have one: "ctx_emits ?one ctx (TYPE_FLOAT w) (\<lambda>_. None)"
    using w float_const_ctx [OF ctx_ok_ready [OF ok], THEN no_meaning] by auto
  have run: "emit_frcp alu v ctx = bind_result ?one (\<lambda>(one, ctx). ntd_emit_binop alu DXIL_BINOP_SDIV one v ctx)"
    using res by (simp add: emit_frcp_def result_ok_def Let_def)
  show ?thesis unfolding run
  proof (rule bind_computes [OF one])
    fix c ctx1 assume 1: "ctx_extends ctx ctx1" "holds (ntd_mod ctx1) c (TYPE_FLOAT w) (\<lambda>_. None)"
    show "computes sizes alu ctx1 (ntd_emit_binop alu DXIL_BINOP_SDIV c v ctx1) (\<lambda>_. None)"
      by (rule computes_weaken [OF binop_computes [OF ctx_ok_extends [OF 1(1) ok] 1(2)
            holds_extends [OF v ctx_extends_mod [OF 1(1)]] t _ result_ok_extends [OF 1(1) res]]]) simp_all
  qed
qed

section \<open>Casts\<close>

lemma conversion_output:
  "nir_alu_type_get_base_type (fst (nir_conversion_op_info op)) \<in> {NIR_INT, NIR_UINT, NIR_FLOAT}"
  "nir_alu_type_get_base_type (fst (nir_conversion_op_info op)) = NIR_FLOAT \<Longrightarrow>
   nir_alu_type_get_type_size (fst (nir_conversion_op_info op)) \<in> {16, 32, 64}"
  "nir_alu_type_get_type_size (fst (nir_conversion_op_info op)) \<in> {1, 16, 32, 64}"
  "\<exists>t. snd (nir_conversion_op_info op) = [t]"
  by (cases op; simp)+

lemma cast_computes:
  assumes ok: "ctx_ok sizes ctx" and v: "holds (ntd_mod ctx) v t x" and t: "t \<in> arith_types" "scalar_width t = Some w"
    and alu: "alu_op alu = CONVERSION_OP op" "alu_srcs alu = [s0]" "nir_src_bit_size (alu_src s0) = w"
    and n: "n = nir_alu_type_get_type_size (fst (nir_conversion_op_info op))" and res: "result_ok sizes ctx alu n"
    and opcode: "conversion_cast op n w = Inr opcode"
  shows "computes sizes alu ctx (ntd_emit_cast alu v ctx) (\<lambda>rho. Option.bind (x rho) (cast_bits opcode w n))"
proof -
  let ?base = "nir_alu_type_get_base_type (fst (nir_conversion_op_info op))"
  let ?u = "if ?base = NIR_FLOAT then TYPE_FLOAT n else TYPE_INTEGER n"
  have u: "?u \<in> arith_types" "scalar_width ?u = Some n" using conversion_output(2,3) [of op] n by auto
  have bits: "def_bit_size (alu_def alu) = n" using res by (simp add: result_ok_def)
  note ty = ready_types [OF ctx_ok_ready [OF ok]]
  obtain i ctx1 where 1: "get_cast_dest_type alu ctx = Inr (i, ctx1)" "ctx_extends ctx ctx1"
    "i < length (type_list (ntd_mod ctx1))" "type_list (ntd_mod ctx1) ! i = ?u"
  proof (cases "?base = NIR_FLOAT")
    case True
    then have "n \<in> {16, 32, 64}" using conversion_output(2) [of op] n by simp
    from gets_float_type [OF ty this] show ?thesis
      using that True bits alu(1) by (auto simp: get_cast_dest_type_def elim!: on_mod_gets_type)
  next
    case False
    then have "?base = NIR_INT \<or> ?base = NIR_UINT" "n \<in> {1, 8, 16, 32, 64}"
      using conversion_output(1,3) [of op] n by auto
    from gets_int_type [OF ty this(2)] this(1) show ?thesis
      using that bits alu(1) by (auto simp: get_cast_dest_type_def elim!: on_mod_gets_type)
  qed
  obtain in_t where in_t: "snd (nir_conversion_op_info op) = [in_t]" using conversion_output(4) [of op] by blast
  let ?ext = "if opcode \<in> {DXIL_CAST_UITOFP, DXIL_CAST_SITOFP} then is_double (output_type (alu_op alu)) (def_bit_size (alu_def alu))
           else if opcode \<in> {DXIL_CAST_FPTOUI, DXIL_CAST_FPTOSI} then is_double in_t (nir_src_bit_size (alu_src s0))
           else False"
  let ?low = "def_bit_size (alu_def alu) = 16 \<and>
     alu_op alu \<notin> CONVERSION_OP ` {nir_op_f2fmp, nir_op_i2imp, nir_op_f2imp, nir_op_f2ump, nir_op_i2fmp, nir_op_u2fmp}"
  let ?ctx = "set_feats (\<lambda>f. f\<lparr>feat_native_low_precision := True\<rparr>) ?low
     (set_feats (\<lambda>f. f\<lparr>feat_dx11_1_double_extensions := True\<rparr>) ?ext ctx1)"
  have ext: "ctx_extends ctx ?ctx" using 1(2) by (simp add: ctx_extends_def)
  have run: "ntd_emit_cast alu v ctx = bind_result (on_mod (dxil_emit_cast opcode i v) ?ctx) (alu_result alu 0)"
    using 1(1) alu in_t bits opcode by (simp add: ntd_emit_cast_def get_cast_op_def read_at_def Let_def)
  have "ctx_emits (on_mod (dxil_emit_cast opcode i v) ?ctx) ?ctx ?u (\<lambda>rho. Option.bind (x rho) (cast_bits opcode w n))"
    by (rule on_mod_emits, rule cast_emits [where t = t])
      (use extends_ready [OF ctx_extends_mod [OF 1(2)] ctx_ok_ready [OF ok]] holds_extends [OF v ctx_extends_mod [OF 1(2)]]
        t u 1(3,4) in simp_all)
  from alu_result_computes [OF ctx_ok_extends [OF ext ok] this u result_ok_extends [OF ext res]]
  show ?thesis using computes_after [OF ext] run by simp
qed

end
