(* ===== verification/Ntd_Alu_Correct.thy ===== *)
theory Ntd_Alu_Correct
  imports Ntd_Alu_Casts
begin

unbundle bit_operations_syntax

text \<open>
  The translation of an arithmetic instruction: for every operation that is not a call of a DXIL function,
  \<open>emit_alu\<close> succeeds without failing an assertion, and what it stores is the value that NIR computes.
\<close>

section \<open>Well-formed instructions\<close>

abbreviation src_size :: "nir_alu_src \<Rightarrow> nat" where
  "src_size s \<equiv> nir_src_bit_size (alu_src s)"

definition sized_as :: "nir_alu_type \<Rightarrow> nat \<Rightarrow> nat" where
  "sized_as t w = (if nir_alu_type_get_type_size t = 0 then w else nir_alu_type_get_type_size t)"

text \<open>The rules of NIR for bit sizes: operands and results without a size of their own share one.\<close>

definition alu_typed :: "nir_alu_instr \<Rightarrow> nat \<Rightarrow> bool" where
  "alu_typed alu w \<longleftrightarrow>
     list_all2 (\<lambda>s t. src_size s = sized_as t w \<and> base_fits (nir_alu_type_get_base_type t) (src_size s))
       (alu_srcs alu) (input_types (alu_op alu)) \<and>
     def_bit_size (alu_def alu) = sized_as (output_type (alu_op alu)) w \<and> w \<in> {1, 16, 32, 64}"

definition readable_srcs :: "(nat \<Rightarrow> nat) \<Rightarrow> ntd_context \<Rightarrow> nir_alu_instr \<Rightarrow> val_ref list \<Rightarrow> bool" where
  "readable_srcs sizes ctx alu vs \<longleftrightarrow>
     list_all2 (\<lambda>s v. swizzle s \<noteq> [] \<and> src_readable sizes ctx (alu_src s) (hd (swizzle s)) v \<and> const_src_ok s)
       (alu_srcs alu) vs"

text \<open>The operations that are not calls. A conversion between sizes has two different sizes, and a shift is
  not one of booleans.\<close>

definition calls_function :: "nir_int_op \<Rightarrow> bool" where
  "calls_function op \<longleftrightarrow> op \<in> {nir_op_bit_count, nir_op_bitfield_insert, nir_op_bitfield_reverse, nir_op_find_lsb,
     nir_op_ibfe, nir_op_ifind_msb_rev, nir_op_imax, nir_op_imin, nir_op_sdot_4x8_iadd, nir_op_ubfe,
     nir_op_udot_4x8_uadd, nir_op_ufind_msb_rev, nir_op_umax, nir_op_umin, nir_op_unpack_half_x_dxil}"

definition direct_op :: "nir_alu_instr \<Rightarrow> nat \<Rightarrow> bool" where
  "direct_op alu w \<longleftrightarrow>
     (case alu_op alu of
        MOVE_OP op \<Rightarrow> op = nir_op_mov \<and> def_num_components (alu_def alu) = 1 \<or> op = nir_op_bcsel
      | CONVERSION_OP op \<Rightarrow>
          (case conversion_cast op (def_bit_size (alu_def alu)) (src_size (hd (alu_srcs alu))) of
             Inr opcode \<Rightarrow> True | Inl e \<Rightarrow> False)
      | INT_OP op \<Rightarrow> \<not> calls_function op \<and> (op \<in> {nir_op_ishl, nir_op_ishr, nir_op_ushr} \<longrightarrow> w \<noteq> 1)
      | FLOAT_OP op \<Rightarrow> op \<in> {nir_op_fadd, nir_op_fsub, nir_op_fmul, nir_op_fdiv, nir_op_feq, nir_op_fneu, nir_op_flt,
          nir_op_fge, nir_op_frcp}
      | OTHER_OP _ _ \<Rightarrow> False)"

section \<open>The value of an instruction\<close>

definition alu_eval :: "nir_alu_instr \<Rightarrow> nat \<Rightarrow> int list \<Rightarrow> int result" where
  "alu_eval alu w src =
     (case alu_op alu of
        MOVE_OP op \<Rightarrow>
          if op = nir_op_mov then evaluate_mov w (src ! 0)
          else if op = nir_op_bcsel then evaluate_bcsel w (src ! 0) (src ! 1) (src ! 2) else Inl Undefined
      | CONVERSION_OP op \<Rightarrow> eval_conversion_op op w src
      | INT_OP op \<Rightarrow> eval_int_op op w src
      | _ \<Rightarrow> Inl Undefined)"

text \<open>
  Where the value is promised: a division is by a number other than zero, unless the zero is a constant, and
  does not overflow; \<open>imod\<close>, which becomes an unsigned remainder, has operands that are not negative. False is
  not promised to become 0.0 when 32 or 64 bits wide, since a constant -0.0 may be found instead.
\<close>

definition alu_defined :: "nir_alu_instr \<Rightarrow> nat \<Rightarrow> int list \<Rightarrow> bool" where
  "alu_defined alu w src \<longleftrightarrow>
     (case alu_op alu of
        INT_OP op \<Rightarrow>
          (case op of
             nir_op_idiv \<Rightarrow> division_defined w (src ! 0) (src ! 1) \<or>
               src ! 1 = 0 \<and> nir_src_is_const (alu_src (alu_srcs alu ! 1))
           | nir_op_udiv \<Rightarrow> src ! 1 \<noteq> 0 \<or> nir_src_is_const (alu_src (alu_srcs alu ! 1))
           | nir_op_irem \<Rightarrow> division_defined w (src ! 0) (src ! 1)
           | nir_op_umod \<Rightarrow> src ! 1 \<noteq> 0
           | nir_op_imod \<Rightarrow> 0 \<le> signed_src w (src ! 0) \<and> 0 < signed_src w (src ! 1)
           | nir_op_b2f32 \<Rightarrow> src ! 0 = 1
           | nir_op_b2f64 \<Rightarrow> src ! 0 = 1
           | _ \<Rightarrow> True)
      | _ \<Rightarrow> True)"

text \<open>The bits of a source are a number of its size, and that of the constant when it is one.\<close>

definition src_fits :: "nir_alu_src \<Rightarrow> int \<Rightarrow> bool" where
  "src_fits s j \<longleftrightarrow> pattern (src_size s) j \<and> const_matches (alu_src s) (hd (swizzle s)) j"

definition alu_meaning :: "nir_alu_instr \<Rightarrow> nat \<Rightarrow> val_ref list \<Rightarrow> valuation \<Rightarrow> int option" where
  "alu_meaning alu w vs rho =
     (case those (map rho vs) of
        None \<Rightarrow> None
      | Some src \<Rightarrow>
          if list_all2 src_fits (alu_srcs alu) src \<and> alu_defined alu w src
          then (case alu_eval alu w src of Inr k \<Rightarrow> Some k | Inl e \<Rightarrow> None) else None)"

lemma those_Some: "those xs = Some ys \<longleftrightarrow> xs = map Some ys"
proof
  show "those xs = Some ys \<Longrightarrow> xs = map Some ys"
    by (induction xs arbitrary: ys) (auto split: option.splits)
  have "those (map Some ys) = Some ys" by (induction ys) simp_all
  then show "xs = map Some ys \<Longrightarrow> those xs = Some ys" by simp
qed

lemma alu_meaningD:
  assumes "alu_meaning alu w vs rho = Some k"
  obtains src where "map rho vs = map Some src" "list_all2 src_fits (alu_srcs alu) src" "alu_defined alu w src"
    "alu_eval alu w src = Inr k"
  using assms by (auto simp: alu_meaning_def those_Some split: option.splits if_splits sum.splits)

lemma meaning1:
  assumes "alu_meaning alu w [a] rho = Some k" and "alu_srcs alu = [s]"
  obtains i where "rho a = Some i" "src_fits s i" "alu_defined alu w [i]" "alu_eval alu w [i] = Inr k"
proof -
  obtain src where src: "map rho [a] = map Some src" "list_all2 src_fits (alu_srcs alu) src" "alu_defined alu w src"
    "alu_eval alu w src = Inr k" using assms(1) by (rule alu_meaningD)
  then obtain i where "src = [i]" by (auto simp: Cons_eq_map_conv)
  then show ?thesis using that src assms(2) by simp
qed

lemma meaning2:
  assumes "alu_meaning alu w [a, b] rho = Some k" and "alu_srcs alu = [s, t]"
  obtains i j where "rho a = Some i" "rho b = Some j" "src_fits s i" "src_fits t j" "alu_defined alu w [i, j]"
    "alu_eval alu w [i, j] = Inr k"
proof -
  obtain src where src: "map rho [a, b] = map Some src" "list_all2 src_fits (alu_srcs alu) src" "alu_defined alu w src"
    "alu_eval alu w src = Inr k" using assms(1) by (rule alu_meaningD)
  then obtain i j where "src = [i, j]" by (auto simp: Cons_eq_map_conv)
  then show ?thesis using that src assms(2) by simp
qed

section \<open>The sources\<close>

definition read_type :: "nir_alu_instr \<Rightarrow> nat \<Rightarrow> dxil_type" where
  "read_type alu i = src_type (nir_alu_type_get_base_type (input_types (alu_op alu) ! i)) (src_size (alu_srcs alu ! i))"

lemma get_alu_src_emits:
  assumes "ctx_ok sizes ctx" and "alu_typed alu w" and "readable_srcs sizes ctx alu vs" and "i < num_inputs (alu_op alu)"
  shows "ctx_emits (get_alu_src alu i ctx) ctx (read_type alu i) (\<lambda>rho. rho (vs ! i))"
proof -
  have i: "i < length (alu_srcs alu)" using assms(2,4) by (auto simp: alu_typed_def dest: list_all2_lengthD)
  have fits: "base_fits (nir_alu_type_get_base_type (input_types (alu_op alu) ! i)) (src_size (alu_srcs alu ! i))"
    using assms(2) i by (auto simp: alu_typed_def list_all2_conv_all_nth)
  have s: "swizzle (alu_srcs alu ! i) \<noteq> []"
    "src_readable sizes ctx (alu_src (alu_srcs alu ! i)) (hd (swizzle (alu_srcs alu ! i))) (vs ! i)"
    using assms(3) i by (auto simp: readable_srcs_def list_all2_conv_all_nth)
  show ?thesis using get_src_emits [OF assms(1) s(2) fits] i s(1) assms(4)
    by (simp add: get_alu_src_def read_at_def read_type_def hd_conv_nth)
qed

lemma readable_srcs_extends: "ctx_extends ctx ctx' \<Longrightarrow> readable_srcs sizes ctx alu vs \<Longrightarrow> readable_srcs sizes ctx' alu vs"
  unfolding readable_srcs_def by (erule list_all2_mono) (use src_readable_extends in blast)

lemma get_alu_srcs_emits:
  assumes "ctx_ok sizes ctx" and "alu_typed alu w" and "readable_srcs sizes ctx alu vs" and "\<forall>i \<in> set is. i < num_inputs (alu_op alu)"
  shows "\<exists>vals ctx'. get_alu_srcs alu is ctx = Inr (vals, ctx') \<and> ctx_extends ctx ctx' \<and>
    list_all2 (\<lambda>i v. holds (ntd_mod ctx') v (read_type alu i) (\<lambda>rho. rho (vs ! i))) is vals"
  using assms(1,3,4)
proof (induction "is" arbitrary: ctx)
  case Nil
  then show ?case using ctx_extends_refl [OF ready_types [OF ctx_ok_ready]] by auto
next
  case (Cons i "is")
  obtain v ctx1 where 1: "get_alu_src alu i ctx = Inr (v, ctx1)" "ctx_extends ctx ctx1"
    "holds (ntd_mod ctx1) v (read_type alu i) (\<lambda>rho. rho (vs ! i))"
    using get_alu_src_emits [OF Cons.prems(1) assms(2) Cons.prems(2), of i] Cons.prems(3) by (auto elim: ctx_emitsE)
  obtain vals ctx2 where 2: "get_alu_srcs alu is ctx1 = Inr (vals, ctx2)" "ctx_extends ctx1 ctx2"
    "list_all2 (\<lambda>i v. holds (ntd_mod ctx2) v (read_type alu i) (\<lambda>rho. rho (vs ! i))) is vals"
    using Cons.IH [OF ctx_ok_extends [OF 1(2) Cons.prems(1)] readable_srcs_extends [OF 1(2) Cons.prems(2)]] Cons.prems(3) by auto
  have "get_alu_srcs alu (i # is) ctx = Inr (v # vals, ctx2)" using 1(1) 2(1) by simp
  moreover have "holds (ntd_mod ctx2) v (read_type alu i) (\<lambda>rho. rho (vs ! i))"
    using holds_extends [OF 1(3) ctx_extends_mod [OF 2(2)]] .
  ultimately show ?case using 2(3) ctx_extends_trans [OF 1(2) 2(2)] by auto
qed

lemma with_srcs_computes:
  assumes "ctx_ok sizes ctx" and "alu_typed alu w" and "readable_srcs sizes ctx alu vs" and "num_inputs (alu_op alu) \<le> 4"
    and "\<And>vals ctx'. ctx_extends ctx ctx' \<Longrightarrow>
      list_all2 (\<lambda>i v. holds (ntd_mod ctx') v (read_type alu i) (\<lambda>rho. rho (vs ! i))) [0..<num_inputs (alu_op alu)] vals \<Longrightarrow>
      computes sizes alu ctx' (f vals ctx') x"
  shows "computes sizes alu ctx (with_srcs alu f ctx) x"
proof -
  obtain vals ctx' where "get_alu_srcs alu [0..<num_inputs (alu_op alu)] ctx = Inr (vals, ctx')" "ctx_extends ctx ctx'"
    "list_all2 (\<lambda>i v. holds (ntd_mod ctx') v (read_type alu i) (\<lambda>rho. rho (vs ! i))) [0..<num_inputs (alu_op alu)] vals"
    using get_alu_srcs_emits [OF assms(1-3), of "[0..<num_inputs (alu_op alu)]"] by auto
  then show ?thesis using computes_after [OF _ assms(5)] assms(4) by (simp add: with_srcs_def)
qed

end
