(* ===== verification/Ntd_Alu_Emit.thy ===== *)
theory Ntd_Alu_Emit
  imports Ntd_Alu_Correct
begin

unbundle bit_operations_syntax

text \<open>\<open>emit_alu\<close>, one family of operations after the other, and all of them together.\<close>

section \<open>Operands\<close>

lemma two_srcs:
  assumes "alu_typed alu w" and "readable_srcs sizes ctx alu vs" and "input_types (alu_op alu) = [t0, t1]"
  obtains s0 s1 v0 v1 where "alu_srcs alu = [s0, s1]" "vs = [v0, v1]" "src_size s0 = sized_as t0 w" "src_size s1 = sized_as t1 w"
    "swizzle s1 \<noteq> []" "const_src_ok s1"
    "base_fits (nir_alu_type_get_base_type t0) (src_size s0)" "base_fits (nir_alu_type_get_base_type t1) (src_size s1)"
proof -
  obtain s0 s1 where s: "alu_srcs alu = [s0, s1]" using assms(1,3) by (auto simp: alu_typed_def list_all2_Cons2)
  moreover obtain v0 v1 where "vs = [v0, v1]" using assms(2) s by (auto simp: readable_srcs_def list_all2_Cons1)
  ultimately show ?thesis using that assms by (auto simp: alu_typed_def readable_srcs_def)
qed

lemma one_src:
  assumes "alu_typed alu w" and "readable_srcs sizes ctx alu vs" and "input_types (alu_op alu) = [t0]"
  obtains s0 v0 where "alu_srcs alu = [s0]" "vs = [v0]" "src_size s0 = sized_as t0 w"
    "base_fits (nir_alu_type_get_base_type t0) (src_size s0)"
proof -
  obtain s0 where s: "alu_srcs alu = [s0]" using assms(1,3) by (auto simp: alu_typed_def list_all2_Cons2)
  moreover obtain v0 where "vs = [v0]" using assms(2) s by (auto simp: readable_srcs_def list_all2_Cons1)
  ultimately show ?thesis using that assms by (auto simp: alu_typed_def readable_srcs_def)
qed

lemma two_values:
  assumes "list_all2 P [0..<length [t0, t1]] vals"
  obtains a b where "vals = [a, b]" "P 0 a" "P 1 b"
  using assms by (auto simp: upt_rec list_all2_Cons1)

lemma one_value:
  assumes "list_all2 P [0..<length [t0]] vals"
  obtains a where "vals = [a]" "P 0 a"
  using assms by (auto simp: upt_rec list_all2_Cons1)

lemma result_ok_typed:
  "alu_typed alu w \<Longrightarrow> place_ok sizes ctx (alu_def alu) 0 \<Longrightarrow> result_ok sizes ctx alu (sized_as (output_type (alu_op alu)) w)"
  by (simp add: alu_typed_def result_ok_def)

lemma alu_typed_size: "alu_typed alu w \<Longrightarrow> w \<in> {1, 16, 32, 64}"
  by (simp add: alu_typed_def)

section \<open>Two operands\<close>

text \<open>With the two values at hand, in a context that may have grown.\<close>

lemma two_operand_op:
  assumes "ctx_ok sizes ctx" and "alu_typed alu w" and "readable_srcs sizes ctx alu vs" and "place_ok sizes ctx (alu_def alu) 0"
    and "input_types (alu_op alu) = [t0, t1]"
    and "\<And>s0 s1 v0 v1 a b ctx'. alu_srcs alu = [s0, s1] \<Longrightarrow> vs = [v0, v1] \<Longrightarrow> src_size s0 = sized_as t0 w \<Longrightarrow>
      src_size s1 = sized_as t1 w \<Longrightarrow> swizzle s1 \<noteq> [] \<Longrightarrow> const_src_ok s1 \<Longrightarrow>
      base_fits (nir_alu_type_get_base_type t0) (src_size s0) \<Longrightarrow> base_fits (nir_alu_type_get_base_type t1) (src_size s1) \<Longrightarrow>
      ctx_ok sizes ctx' \<Longrightarrow> result_ok sizes ctx' alu (sized_as (output_type (alu_op alu)) w) \<Longrightarrow>
      holds (ntd_mod ctx') a (src_type (nir_alu_type_get_base_type t0) (src_size s0)) (\<lambda>rho. rho v0) \<Longrightarrow>
      holds (ntd_mod ctx') b (src_type (nir_alu_type_get_base_type t1) (src_size s1)) (\<lambda>rho. rho v1) \<Longrightarrow>
      computes sizes alu ctx' (f [a, b] ctx') x"
  shows "computes sizes alu ctx (with_srcs alu f ctx) x"
proof (rule with_srcs_computes [OF assms(1-3)])
  show "num_inputs (alu_op alu) \<le> 4" using assms(5) by simp
  fix vals ctx' assume ext: "ctx_extends ctx ctx'"
    and vals: "list_all2 (\<lambda>i v. holds (ntd_mod ctx') v (read_type alu i) (\<lambda>rho. rho (vs ! i))) [0..<num_inputs (alu_op alu)] vals"
  obtain s0 s1 v0 v1 where s: "alu_srcs alu = [s0, s1]" "vs = [v0, v1]" "src_size s0 = sized_as t0 w" "src_size s1 = sized_as t1 w"
    "swizzle s1 \<noteq> []" "const_src_ok s1"
    "base_fits (nir_alu_type_get_base_type t0) (src_size s0)" "base_fits (nir_alu_type_get_base_type t1) (src_size s1)"
    using two_srcs [OF assms(2,3,5)] .
  obtain a b where ab: "vals = [a, b]" "holds (ntd_mod ctx') a (read_type alu 0) (\<lambda>rho. rho (vs ! 0))"
    "holds (ntd_mod ctx') b (read_type alu 1) (\<lambda>rho. rho (vs ! 1))"
    using vals unfolding assms(5) by (rule two_values)
  show "computes sizes alu ctx' (f vals ctx') x"
    unfolding ab(1) by (rule assms(6) [OF s ctx_ok_extends [OF ext assms(1)] result_ok_extends [OF ext result_ok_typed [OF assms(2,4)]]])
      (use ab(2,3) s assms(5) in \<open>simp_all add: read_type_def\<close>)
qed

lemma one_operand_op:
  assumes "ctx_ok sizes ctx" and "alu_typed alu w" and "readable_srcs sizes ctx alu vs" and "place_ok sizes ctx (alu_def alu) 0"
    and "input_types (alu_op alu) = [t0]"
    and "\<And>s0 v0 a ctx'. alu_srcs alu = [s0] \<Longrightarrow> vs = [v0] \<Longrightarrow> src_size s0 = sized_as t0 w \<Longrightarrow>
      base_fits (nir_alu_type_get_base_type t0) (src_size s0) \<Longrightarrow>
      ctx_ok sizes ctx' \<Longrightarrow> result_ok sizes ctx' alu (sized_as (output_type (alu_op alu)) w) \<Longrightarrow>
      holds (ntd_mod ctx') a (src_type (nir_alu_type_get_base_type t0) (src_size s0)) (\<lambda>rho. rho v0) \<Longrightarrow>
      computes sizes alu ctx' (f [a] ctx') x"
  shows "computes sizes alu ctx (with_srcs alu f ctx) x"
proof (rule with_srcs_computes [OF assms(1-3)])
  show "num_inputs (alu_op alu) \<le> 4" using assms(5) by simp
  fix vals ctx' assume ext: "ctx_extends ctx ctx'"
    and vals: "list_all2 (\<lambda>i v. holds (ntd_mod ctx') v (read_type alu i) (\<lambda>rho. rho (vs ! i))) [0..<num_inputs (alu_op alu)] vals"
  obtain s0 v0 where s: "alu_srcs alu = [s0]" "vs = [v0]" "src_size s0 = sized_as t0 w"
    "base_fits (nir_alu_type_get_base_type t0) (src_size s0)"
    using one_src [OF assms(2,3,5)] .
  obtain a where a: "vals = [a]" "holds (ntd_mod ctx') a (read_type alu 0) (\<lambda>rho. rho (vs ! 0))"
    using vals unfolding assms(5) by (rule one_value)
  show "computes sizes alu ctx' (f vals ctx') x"
    unfolding a(1) by (rule assms(6) [OF s ctx_ok_extends [OF ext assms(1)] result_ok_extends [OF ext result_ok_typed [OF assms(2,4)]]])
      (use a(2) s assms(5) in \<open>simp_all add: read_type_def\<close>)
qed

text \<open>What an instruction is assumed to be.\<close>

definition alu_ok :: "(nat \<Rightarrow> nat) \<Rightarrow> ntd_context \<Rightarrow> nir_alu_instr \<Rightarrow> nat \<Rightarrow> val_ref list \<Rightarrow> bool" where
  "alu_ok sizes ctx alu w vs \<longleftrightarrow>
     ctx_ok sizes ctx \<and> alu_typed alu w \<and> readable_srcs sizes ctx alu vs \<and> place_ok sizes ctx (alu_def alu) 0"

lemma alu_okD:
  assumes "alu_ok sizes ctx alu w vs"
  shows "ctx_ok sizes ctx" and "alu_typed alu w" and "readable_srcs sizes ctx alu vs" and "place_ok sizes ctx (alu_def alu) 0"
  using assms by (simp_all add: alu_ok_def)

abbreviation int_pair :: "(nir_alu_type \<times> nir_alu_type list) set" where
  "int_pair \<equiv> {(nir_type_int, [nir_type_int, nir_type_int]), (nir_type_uint, [nir_type_uint, nir_type_uint])}"

lemma int_binop_op:
  assumes "alu_ok sizes ctx alu w vs" and op: "alu_op alu = INT_OP op" and info: "nir_int_op_info op \<in> int_pair"
    and emit: "\<And>src. emit_int_op op alu src = ntd_emit_binop alu opcode (src ! 0) (src ! 1)"
    and agrees: "\<And>i j k. pattern w i \<Longrightarrow> pattern w j \<Longrightarrow> alu_defined alu w [i, j] \<Longrightarrow>
      eval_int_op op w [i, j] = Inr k \<Longrightarrow> binop_bits opcode w i j = Some k"
  shows "computes sizes alu ctx (with_srcs alu (emit_int_op op alu) ctx) (alu_meaning alu w vs)"
proof -
  obtain t where inputs: "input_types (alu_op alu) = [t, t]" "output_type (alu_op alu) = t" "sized_as t w = w"
    "src_type (nir_alu_type_get_base_type t) w = TYPE_INTEGER w"
    using info op by (auto simp: sized_as_def)
  show ?thesis
  proof (rule two_operand_op [OF alu_okD [OF assms(1)] inputs(1)])
    fix s0 s1 v0 v1 a b ctx'
    assume s: "alu_srcs alu = [s0, s1]" "vs = [v0, v1]" "src_size s0 = sized_as t w" "src_size s1 = sized_as t w"
      and ok: "ctx_ok sizes ctx'" "result_ok sizes ctx' alu (sized_as (output_type (alu_op alu)) w)"
      and a: "holds (ntd_mod ctx') a (src_type (nir_alu_type_get_base_type t) (src_size s0)) (\<lambda>rho. rho v0)"
      and b: "holds (ntd_mod ctx') b (src_type (nir_alu_type_get_base_type t) (src_size s1)) (\<lambda>rho. rho v1)"
    have ty: "TYPE_INTEGER w \<in> arith_types" using alu_typed_size [OF alu_okD(2) [OF assms(1)]] by auto
    have "computes sizes alu ctx' (ntd_emit_binop alu opcode a b ctx') (lift2 (binop_bits opcode w) (\<lambda>rho. rho v0) (\<lambda>rho. rho v1))"
      using binop_computes [OF ok(1) _ _ ty _ ok(2), of a "\<lambda>rho. rho v0" b "\<lambda>rho. rho v1" opcode] a b s(3,4) inputs by simp
    then show "computes sizes alu ctx' (emit_int_op op alu [a, b] ctx') (alu_meaning alu w vs)"
      unfolding emit nth_Cons_0 nth_Cons_Suc One_nat_def
    proof (rule computes_weaken)
      fix rho k assume m: "alu_meaning alu w vs rho = Some k"
      then obtain i j where ij: "rho v0 = Some i" "rho v1 = Some j" "src_fits s0 i" "src_fits s1 j" "alu_defined alu w [i, j]"
        "alu_eval alu w [i, j] = Inr k" using meaning2 [OF m [unfolded s(2)] s(1)] by blast
      have "binop_bits opcode w i j = Some k"
        by (rule agrees) (use ij s(3,4) inputs(3) op in \<open>simp_all add: src_fits_def alu_eval_def\<close>)
      then show "lift2 (binop_bits opcode w) (\<lambda>rho. rho v0) (\<lambda>rho. rho v1) rho = Some k" using ij(1,2) by (simp add: lift2_def)
    qed
  qed
qed


lemma int_cmp_op:
  assumes "alu_ok sizes ctx alu w vs" and op: "alu_op alu = INT_OP op"
    and info: "nir_int_op_info op \<in> {(nir_type_bool1, [nir_type_int, nir_type_int]), (nir_type_bool1, [nir_type_uint, nir_type_uint])}"
    and emit: "\<And>src. emit_int_op op alu src = ntd_emit_cmp alu pred (src ! 0) (src ! 1)"
    and agrees: "\<And>i j k. pattern w i \<Longrightarrow> pattern w j \<Longrightarrow> eval_int_op op w [i, j] = Inr k \<Longrightarrow> cmp_bits pred w i j = Some k"
  shows "computes sizes alu ctx (with_srcs alu (emit_int_op op alu) ctx) (alu_meaning alu w vs)"
proof -
  obtain t where inputs: "input_types (alu_op alu) = [t, t]" "output_type (alu_op alu) = nir_type_bool1" "sized_as t w = w"
    "src_type (nir_alu_type_get_base_type t) w = TYPE_INTEGER w"
    using info op by (auto simp: sized_as_def)
  show ?thesis
  proof (rule two_operand_op [OF alu_okD [OF assms(1)] inputs(1)])
    fix s0 s1 v0 v1 a b ctx'
    assume s: "alu_srcs alu = [s0, s1]" "vs = [v0, v1]" "src_size s0 = sized_as t w" "src_size s1 = sized_as t w"
      and ok: "ctx_ok sizes ctx'" "result_ok sizes ctx' alu (sized_as (output_type (alu_op alu)) w)"
      and a: "holds (ntd_mod ctx') a (src_type (nir_alu_type_get_base_type t) (src_size s0)) (\<lambda>rho. rho v0)"
      and b: "holds (ntd_mod ctx') b (src_type (nir_alu_type_get_base_type t) (src_size s1)) (\<lambda>rho. rho v1)"
    have ty: "TYPE_INTEGER w \<in> arith_types" using alu_typed_size [OF alu_okD(2) [OF assms(1)]] by auto
    have "result_ok sizes ctx' alu 1" using ok(2) inputs(2) by (simp add: sized_as_def)
    then have "computes sizes alu ctx' (ntd_emit_cmp alu pred a b ctx') (lift2 (cmp_bits pred w) (\<lambda>rho. rho v0) (\<lambda>rho. rho v1))"
      using cmp_computes [OF ok(1) _ _ ty, of a "\<lambda>rho. rho v0" b "\<lambda>rho. rho v1" alu pred] a b s(3,4) inputs by simp
    then show "computes sizes alu ctx' (emit_int_op op alu [a, b] ctx') (alu_meaning alu w vs)"
      unfolding emit nth_Cons_0 nth_Cons_Suc One_nat_def
    proof (rule computes_weaken)
      fix rho k assume m: "alu_meaning alu w vs rho = Some k"
      then obtain i j where ij: "rho v0 = Some i" "rho v1 = Some j" "src_fits s0 i" "src_fits s1 j"
        "alu_eval alu w [i, j] = Inr k" using meaning2 [OF m [unfolded s(2)] s(1)] by blast
      have "cmp_bits pred w i j = Some k"
        by (rule agrees) (use ij s(3,4) inputs(3) op in \<open>simp_all add: src_fits_def alu_eval_def\<close>)
      then show "lift2 (cmp_bits pred w) (\<lambda>rho. rho v0) (\<lambda>rho. rho v1) rho = Some k" using ij(1,2) by (simp add: lift2_def)
    qed
  qed
qed

lemma int_shift_op:
  assumes "alu_ok sizes ctx alu w vs" and op: "alu_op alu = INT_OP op" and w: "w \<noteq> 1"
    and info: "nir_int_op_info op \<in> {(nir_type_int, [nir_type_int, nir_type_uint32]), (nir_type_uint, [nir_type_uint, nir_type_uint32])}"
    and emit: "\<And>src. emit_int_op op alu src = emit_shift alu opcode (src ! 0) (src ! 1)"
    and agrees: "\<And>i j k. pattern w i \<Longrightarrow> pattern 32 j \<Longrightarrow> eval_int_op op w [i, j] = Inr k \<Longrightarrow>
      binop_bits opcode w i (j AND (int w - 1)) = Some k"
  shows "computes sizes alu ctx (with_srcs alu (emit_int_op op alu) ctx) (alu_meaning alu w vs)"
proof -
  obtain t where inputs: "input_types (alu_op alu) = [t, nir_type_uint32]" "output_type (alu_op alu) = t" "sized_as t w = w"
    "src_type (nir_alu_type_get_base_type t) w = TYPE_INTEGER w"
    using info op by (auto simp: sized_as_def)
  have w3: "w \<in> {16, 32, 64}" using alu_typed_size [OF alu_okD(2) [OF assms(1)]] w by auto
  show ?thesis
  proof (rule two_operand_op [OF alu_okD [OF assms(1)] inputs(1)])
    fix s0 s1 v0 v1 a b ctx'
    assume s: "alu_srcs alu = [s0, s1]" "vs = [v0, v1]" "src_size s0 = sized_as t w" "src_size s1 = sized_as nir_type_uint32 w"
      "swizzle s1 \<noteq> []" "const_src_ok s1"
      and ok: "ctx_ok sizes ctx'" "result_ok sizes ctx' alu (sized_as (output_type (alu_op alu)) w)"
      and a: "holds (ntd_mod ctx') a (src_type (nir_alu_type_get_base_type t) (src_size s0)) (\<lambda>rho. rho v0)"
      and b: "holds (ntd_mod ctx') b (src_type (nir_alu_type_get_base_type nir_type_uint32) (src_size s1)) (\<lambda>rho. rho v1)"
    have s1: "src_size s1 = 32" using s(4) by (simp add: sized_as_def)
    have "computes sizes alu ctx' (emit_shift alu opcode a b ctx')
        (lift2 (\<lambda>i j. if pattern 32 j \<and> const_matches (alu_src s1) (hd (swizzle s1)) j
           then binop_bits opcode w i (j AND (int w - 1)) else None) (\<lambda>rho. rho v0) (\<lambda>rho. rho v1))"
      using shift_computes [OF ok(1) _ _ w3 _ s(1) _ s1 s(5,6), of a "\<lambda>rho. rho v0" b "\<lambda>rho. rho v1" opcode]
        ok(2) a b s(3) s1 inputs by simp
    then show "computes sizes alu ctx' (emit_int_op op alu [a, b] ctx') (alu_meaning alu w vs)"
      unfolding emit nth_Cons_0 nth_Cons_Suc One_nat_def
    proof (rule computes_weaken)
      fix rho k assume m: "alu_meaning alu w vs rho = Some k"
      then obtain i j where ij: "rho v0 = Some i" "rho v1 = Some j" "src_fits s0 i" "src_fits s1 j"
        "alu_eval alu w [i, j] = Inr k" using meaning2 [OF m [unfolded s(2)] s(1)] by blast
      have "binop_bits opcode w i (j AND (int w - 1)) = Some k"
        by (rule agrees) (use ij s(3) s1 inputs(3) op in \<open>simp_all add: src_fits_def alu_eval_def\<close>)
      then show "lift2 (\<lambda>i j. if pattern 32 j \<and> const_matches (alu_src s1) (hd (swizzle s1)) j
           then binop_bits opcode w i (j AND (int w - 1)) else None) (\<lambda>rho. rho v0) (\<lambda>rho. rho v1) rho = Some k"
        using ij(1,2,4) s1 by (simp add: lift2_def src_fits_def)
    qed
  qed
qed

lemma int_division_op:
  assumes "alu_ok sizes ctx alu w vs" and op: "alu_op alu = INT_OP op" and info: "nir_int_op_info op \<in> int_pair"
    and emit: "\<And>src. emit_int_op op alu src = emit_division alu opcode (src ! 0) (src ! 1)"
    and agrees: "\<And>i j k. pattern w i \<Longrightarrow> pattern w j \<Longrightarrow> alu_defined alu w [i, j] \<Longrightarrow>
      eval_int_op op w [i, j] = Inr k \<Longrightarrow>
      (if j = 0 \<and> nir_src_is_const (alu_src (alu_srcs alu ! 1)) then Some 0 else binop_bits opcode w i j) = Some k"
  shows "computes sizes alu ctx (with_srcs alu (emit_int_op op alu) ctx) (alu_meaning alu w vs)"
proof -
  obtain t where inputs: "input_types (alu_op alu) = [t, t]" "output_type (alu_op alu) = t" "sized_as t w = w"
    "src_type (nir_alu_type_get_base_type t) w = TYPE_INTEGER w"
    using info op by (auto simp: sized_as_def)
  show ?thesis
  proof (rule two_operand_op [OF alu_okD [OF assms(1)] inputs(1)])
    fix s0 s1 v0 v1 a b ctx'
    assume s: "alu_srcs alu = [s0, s1]" "vs = [v0, v1]" "src_size s0 = sized_as t w" "src_size s1 = sized_as t w"
      "swizzle s1 \<noteq> []" "const_src_ok s1"
      and ok: "ctx_ok sizes ctx'" "result_ok sizes ctx' alu (sized_as (output_type (alu_op alu)) w)"
      and a: "holds (ntd_mod ctx') a (src_type (nir_alu_type_get_base_type t) (src_size s0)) (\<lambda>rho. rho v0)"
      and b: "holds (ntd_mod ctx') b (src_type (nir_alu_type_get_base_type t) (src_size s1)) (\<lambda>rho. rho v1)"
    have "computes sizes alu ctx' (emit_division alu opcode a b ctx')
        (lift2 (\<lambda>i j. if \<not> const_matches (alu_src s1) (hd (swizzle s1)) j then None
           else if j = 0 \<and> nir_src_is_const (alu_src s1) then Some 0 else binop_bits opcode w i j) (\<lambda>rho. rho v0) (\<lambda>rho. rho v1))"
      using division_computes [OF ok(1) _ _ alu_typed_size [OF alu_okD(2) [OF assms(1)]] _ s(1,5,6), of a "\<lambda>rho. rho v0" b "\<lambda>rho. rho v1" opcode]
        ok(2) a b s(3,4) inputs by simp
    then show "computes sizes alu ctx' (emit_int_op op alu [a, b] ctx') (alu_meaning alu w vs)"
      unfolding emit nth_Cons_0 nth_Cons_Suc One_nat_def
    proof (rule computes_weaken)
      fix rho k assume m: "alu_meaning alu w vs rho = Some k"
      then obtain i j where ij: "rho v0 = Some i" "rho v1 = Some j" "src_fits s0 i" "src_fits s1 j" "alu_defined alu w [i, j]"
        "alu_eval alu w [i, j] = Inr k" using meaning2 [OF m [unfolded s(2)] s(1)] by blast
      have "(if j = 0 \<and> nir_src_is_const (alu_src (alu_srcs alu ! 1)) then Some 0 else binop_bits opcode w i j) = Some k"
        by (rule agrees) (use ij s(3,4) inputs(3) op in \<open>simp_all add: src_fits_def alu_eval_def\<close>)
      then show "lift2 (\<lambda>i j. if \<not> const_matches (alu_src s1) (hd (swizzle s1)) j then None
           else if j = 0 \<and> nir_src_is_const (alu_src s1) then Some 0 else binop_bits opcode w i j)
           (\<lambda>rho. rho v0) (\<lambda>rho. rho v1) rho = Some k"
        using ij(1,2,4) s(1) by (simp add: lift2_def src_fits_def)
    qed
  qed
qed


section \<open>One operand\<close>

lemma inot_op:
  assumes "alu_ok sizes ctx alu w vs" and op: "alu_op alu = INT_OP nir_op_inot"
  shows "computes sizes alu ctx (with_srcs alu (emit_int_op nir_op_inot alu) ctx) (alu_meaning alu w vs)"
proof -
  have inputs: "input_types (alu_op alu) = [nir_type_int]" "output_type (alu_op alu) = nir_type_int" using op by simp_all
  note w = alu_typed_size [OF alu_okD(2) [OF assms(1)]]
  have "0 < w" using w by auto
  show ?thesis
  proof (rule one_operand_op [OF alu_okD [OF assms(1)] inputs(1)])
    fix s0 v0 a ctx'
    assume s: "alu_srcs alu = [s0]" "vs = [v0]" "src_size s0 = sized_as nir_type_int w"
      and ok: "ctx_ok sizes ctx'" "result_ok sizes ctx' alu (sized_as (output_type (alu_op alu)) w)"
      and a: "holds (ntd_mod ctx') a (src_type (nir_alu_type_get_base_type nir_type_int) (src_size s0)) (\<lambda>rho. rho v0)"
    have "computes sizes alu ctx' (emit_inot alu a ctx') (\<lambda>rho. Option.bind (rho v0) (\<lambda>i. binop_bits DXIL_BINOP_XOR w i (mask w)))"
      by (rule inot_computes [OF ok(1) _ w]) (use a s(3) ok(2) inputs in \<open>simp_all add: sized_as_def\<close>)
    then show "computes sizes alu ctx' (emit_int_op nir_op_inot alu [a] ctx') (alu_meaning alu w vs)"
      unfolding emit_int_op.simps nth_Cons_0
    proof (rule computes_weaken)
      fix rho k assume m: "alu_meaning alu w vs rho = Some k"
      then obtain i where i: "rho v0 = Some i" "src_fits s0 i" "alu_eval alu w [i] = Inr k"
        using meaning1 [OF m [unfolded s(2)] s(1)] by blast
      have "binop_bits DXIL_BINOP_XOR w i (mask w) = Some k"
        by (rule not_agrees [OF _ \<open>0 < w\<close>]) (use i s(3) op in \<open>simp_all add: src_fits_def alu_eval_def sized_as_def\<close>)
      then show "Option.bind (rho v0) (\<lambda>i. binop_bits DXIL_BINOP_XOR w i (mask w)) = Some k" using i(1) by simp
    qed
  qed
qed

lemma b2f_op:
  assumes "alu_ok sizes ctx alu w vs" and op: "alu_op alu = INT_OP op" "op \<in> {nir_op_b2f16, nir_op_b2f32, nir_op_b2f64}"
  shows "computes sizes alu ctx (with_srcs alu (emit_int_op op alu) ctx) (alu_meaning alu w vs)"
proof -
  have inputs: "input_types (alu_op alu) = [nir_type_bool]" using op by auto
  let ?y1 = "if op = nir_op_b2f16 then 0x3C00 else if op = nir_op_b2f32 then 0x3F800000 else 0x3FF0000000000000 :: int"
  let ?y0 = "if op = nir_op_b2f16 then Some 0 else None :: int option"
  show ?thesis
  proof (rule one_operand_op [OF alu_okD [OF assms(1)] inputs(1)])
    fix s0 v0 a ctx'
    assume s: "alu_srcs alu = [s0]" "vs = [v0]" "src_size s0 = sized_as nir_type_bool w"
      "base_fits (nir_alu_type_get_base_type nir_type_bool) (src_size s0)"
      and ok: "ctx_ok sizes ctx'" "result_ok sizes ctx' alu (sized_as (output_type (alu_op alu)) w)"
      and a: "holds (ntd_mod ctx') a (src_type (nir_alu_type_get_base_type nir_type_bool) (src_size s0)) (\<lambda>rho. rho v0)"
    have size: "w = 1" "src_size s0 = 1" using s(3,4) by (simp_all add: base_fits_def sized_as_def)
    have a1: "holds (ntd_mod ctx') a (TYPE_INTEGER 1) (\<lambda>rho. rho v0)" using a size by simp
    have "computes sizes alu ctx' (emit_int_op op alu [a] ctx') (\<lambda>rho. Option.bind (rho v0) (\<lambda>i. if i = 1 then Some ?y1 else ?y0))"
      using op(2) ok(2) b2f_computes [OF ok(1) a1] by (auto simp: op(1) sized_as_def)
    then show "computes sizes alu ctx' (emit_int_op op alu [a] ctx') (alu_meaning alu w vs)"
    proof (rule computes_weaken)
      fix rho k assume m: "alu_meaning alu w vs rho = Some k"
      then obtain i where i: "rho v0 = Some i" "src_fits s0 i" "alu_defined alu w [i]" "alu_eval alu w [i] = Inr k"
        using meaning1 [OF m [unfolded s(2)] s(1)] by blast
      have "i = 0 \<or> i = 1" using i(2) size bool_pattern [of i] by (simp add: src_fits_def)
      then show "Option.bind (rho v0) (\<lambda>i. if i = 1 then Some ?y1 else ?y0) = Some k"
        using op i(1,3,4) size
        by (auto simp: alu_defined_def alu_eval_def evaluate_b2f16_def evaluate_b2f32_def evaluate_b2f64_def at_size_Inr unsigned_src_def)
    qed
  qed
qed

lemma conversion_op:
  assumes "alu_ok sizes ctx alu w vs" and op: "alu_op alu = CONVERSION_OP op" and direct: "direct_op alu w"
  shows "computes sizes alu ctx (with_srcs alu (\<lambda>src. ntd_emit_cast alu (src ! 0)) ctx) (alu_meaning alu w vs)"
proof -
  obtain t0 where info: "snd (nir_conversion_op_info op) = [t0]" using conversion_output(4) by blast
  then have inputs: "input_types (alu_op alu) = [t0]" using op by simp
  let ?n = "nir_alu_type_get_type_size (fst (nir_conversion_op_info op))"
  have n: "sized_as (output_type (alu_op alu)) w = ?n" using conversion_output(3) [of op] op by (auto simp: sized_as_def)
  have bits: "def_bit_size (alu_def alu) = ?n" using alu_okD(2) [OF assms(1)] n by (simp add: alu_typed_def)
  have w: "w \<in> {1, 16, 32, 64}" using alu_typed_size [OF alu_okD(2) [OF assms(1)]] .
  show ?thesis
  proof (rule one_operand_op [OF alu_okD [OF assms(1)] inputs])
    fix s0 v0 a ctx'
    assume s: "alu_srcs alu = [s0]" "vs = [v0]" "src_size s0 = sized_as t0 w"
      "base_fits (nir_alu_type_get_base_type t0) (src_size s0)"
      and ok: "ctx_ok sizes ctx'" "result_ok sizes ctx' alu (sized_as (output_type (alu_op alu)) w)"
      and a: "holds (ntd_mod ctx') a (src_type (nir_alu_type_get_base_type t0) (src_size s0)) (\<lambda>rho. rho v0)"
    obtain opcode where opcode: "conversion_cast op ?n (src_size s0) = Inr opcode"
      using direct op bits s(1) by (auto simp: direct_op_def split: sum.splits)
    have sized0: "sized_as t0 w \<in> {1, 16, 32, 64}" "sized_as t0 w \<noteq> 0" "nir_op_i2imp = op \<Longrightarrow> sized_as t0 w = 32"
      using info w by (cases op; auto simp: sized_as_def)+
    have t: "src_type (nir_alu_type_get_base_type t0) (src_size s0) \<in> arith_types"
      "scalar_width (src_type (nir_alu_type_get_base_type t0) (src_size s0)) = Some (src_size s0)"
      using s(3,4) sized0(1) by (cases "nir_alu_type_get_base_type t0"; auto simp: base_fits_def)+
    have "computes sizes alu ctx' (ntd_emit_cast alu a ctx') (\<lambda>rho. Option.bind (rho v0) (cast_bits opcode (src_size s0) ?n))"
      using cast_computes [OF ok(1) a t op s(1) refl refl _ opcode] ok(2) n by simp
    then show "computes sizes alu ctx' (ntd_emit_cast alu ([a] ! 0) ctx') (alu_meaning alu w vs)"
      unfolding nth_Cons_0
    proof (rule computes_weaken)
      fix rho k assume m: "alu_meaning alu w vs rho = Some k"
      then obtain i where i: "rho v0 = Some i" "src_fits s0 i" "alu_eval alu w [i] = Inr k"
        using meaning1 [OF m [unfolded s(2)] s(1)] by blast
      have eval: "eval_conversion_op op (src_size s0) [i] = Inr k"
        using i(3) op s(3) info by (cases op) (auto simp: alu_eval_def sized_as_def evaluate_i2imp_def)
      have "cast_bits opcode (src_size s0) ?n i = Some k"
        by (rule conversion_agrees [OF _ _ refl _ _ opcode eval])
          (use i(2) s(3,4) sized0 info in \<open>simp_all add: src_fits_def base_fits_def\<close>)
      then show "Option.bind (rho v0) (cast_bits opcode (src_size s0) ?n) = Some k" using i(1) by simp
    qed
  qed
qed


section \<open>Floating-point numbers\<close>

lemma float_meaning: "alu_op alu = FLOAT_OP op \<Longrightarrow> alu_meaning alu w vs rho = None"
  by (simp add: alu_meaning_def alu_eval_def split: option.split)

lemma computes_float: "computes sizes alu ctx r x \<Longrightarrow> alu_op alu = FLOAT_OP op \<Longrightarrow> computes sizes alu ctx r (alu_meaning alu w vs)"
  by (erule computes_weaken) (simp add: float_meaning)

lemma float_binop_op:
  assumes "alu_ok sizes ctx alu w vs" and op: "alu_op alu = FLOAT_OP op"
    and info: "nir_float_op_info op = (nir_type_float, [nir_type_float, nir_type_float])"
    and emit: "\<And>src ctx. emit_float_op op alu src ctx = ntd_emit_binop alu opcode (src ! 0) (src ! 1) (h ctx)"
    and h: "\<And>ctx. types_ok (ntd_mod ctx) \<Longrightarrow> ctx_extends ctx (h ctx)"
  shows "computes sizes alu ctx (with_srcs alu (emit_float_op op alu) ctx) (alu_meaning alu w vs)"
proof -
  have inputs: "input_types (alu_op alu) = [nir_type_float, nir_type_float]" "output_type (alu_op alu) = nir_type_float"
    using info op by simp_all
  show ?thesis
  proof (rule two_operand_op [OF alu_okD [OF assms(1)] inputs(1)])
    fix s0 s1 v0 v1 a b ctx'
    assume s: "src_size s0 = sized_as nir_type_float w" "src_size s1 = sized_as nir_type_float w"
      "base_fits (nir_alu_type_get_base_type nir_type_float) (src_size s0)"
      and ok: "ctx_ok sizes ctx'" "result_ok sizes ctx' alu (sized_as (output_type (alu_op alu)) w)"
      and a: "holds (ntd_mod ctx') a (src_type (nir_alu_type_get_base_type nir_type_float) (src_size s0)) (\<lambda>rho. rho v0)"
      and b: "holds (ntd_mod ctx') b (src_type (nir_alu_type_get_base_type nir_type_float) (src_size s1)) (\<lambda>rho. rho v1)"
    have ty: "TYPE_FLOAT w \<in> arith_types"
      using alu_typed_size [OF alu_okD(2) [OF assms(1)]] s(1,3) by (auto simp: base_fits_def sized_as_def)
    note ext = h [OF ready_types [OF ctx_ok_ready [OF ok(1)]]]
    have "computes sizes alu (h ctx') (ntd_emit_binop alu opcode a b (h ctx'))
      (lift2 (on_ints (binop_bits opcode) (TYPE_FLOAT w)) (\<lambda>rho. rho v0) (\<lambda>rho. rho v1))"
      by (rule binop_computes [OF ctx_ok_extends [OF ext ok(1)] _ _ ty _ result_ok_extends [OF ext], where w = w])
        (use holds_extends [OF a ctx_extends_mod [OF ext]] holds_extends [OF b ctx_extends_mod [OF ext]] s ok(2) inputs
          in \<open>simp_all add: sized_as_def\<close>)
    from computes_after [OF ext this]
    show "computes sizes alu ctx' (emit_float_op op alu [a, b] ctx') (alu_meaning alu w vs)"
      unfolding emit nth_Cons_0 nth_Cons_Suc One_nat_def by (rule computes_float [OF _ op])
  qed
qed

lemma float_cmp_op:
  assumes "alu_ok sizes ctx alu w vs" and op: "alu_op alu = FLOAT_OP op"
    and info: "nir_float_op_info op = (nir_type_bool1, [nir_type_float, nir_type_float])"
    and emit: "\<And>src. emit_float_op op alu src = ntd_emit_cmp alu pred (src ! 0) (src ! 1)"
  shows "computes sizes alu ctx (with_srcs alu (emit_float_op op alu) ctx) (alu_meaning alu w vs)"
proof -
  have inputs: "input_types (alu_op alu) = [nir_type_float, nir_type_float]" "output_type (alu_op alu) = nir_type_bool1"
    using info op by simp_all
  show ?thesis
  proof (rule two_operand_op [OF alu_okD [OF assms(1)] inputs(1)])
    fix s0 s1 v0 v1 a b ctx'
    assume s: "src_size s0 = sized_as nir_type_float w" "src_size s1 = sized_as nir_type_float w"
      "base_fits (nir_alu_type_get_base_type nir_type_float) (src_size s0)"
      and ok: "ctx_ok sizes ctx'" "result_ok sizes ctx' alu (sized_as (output_type (alu_op alu)) w)"
      and a: "holds (ntd_mod ctx') a (src_type (nir_alu_type_get_base_type nir_type_float) (src_size s0)) (\<lambda>rho. rho v0)"
      and b: "holds (ntd_mod ctx') b (src_type (nir_alu_type_get_base_type nir_type_float) (src_size s1)) (\<lambda>rho. rho v1)"
    have ty: "TYPE_FLOAT w \<in> arith_types"
      using alu_typed_size [OF alu_okD(2) [OF assms(1)]] s(1,3) by (auto simp: base_fits_def sized_as_def)
    have "computes sizes alu ctx' (ntd_emit_cmp alu pred a b ctx')
      (lift2 (on_ints (cmp_bits pred) (TYPE_FLOAT w)) (\<lambda>rho. rho v0) (\<lambda>rho. rho v1))"
      by (rule cmp_computes [OF ok(1) _ _ ty]) (use a b s ok(2) inputs in \<open>simp_all add: sized_as_def\<close>)
    then show "computes sizes alu ctx' (emit_float_op op alu [a, b] ctx') (alu_meaning alu w vs)"
      unfolding emit nth_Cons_0 nth_Cons_Suc One_nat_def by (rule computes_float [OF _ op])
  qed
qed

lemma frcp_op:
  assumes "alu_ok sizes ctx alu w vs" and op: "alu_op alu = FLOAT_OP nir_op_frcp"
  shows "computes sizes alu ctx (with_srcs alu (emit_float_op nir_op_frcp alu) ctx) (alu_meaning alu w vs)"
proof -
  have inputs: "input_types (alu_op alu) = [nir_type_float]" "output_type (alu_op alu) = nir_type_float" using op by simp_all
  show ?thesis
  proof (rule one_operand_op [OF alu_okD [OF assms(1)] inputs(1)])
    fix s0 v0 a ctx'
    assume s: "src_size s0 = sized_as nir_type_float w" "base_fits (nir_alu_type_get_base_type nir_type_float) (src_size s0)"
      and ok: "ctx_ok sizes ctx'" "result_ok sizes ctx' alu (sized_as (output_type (alu_op alu)) w)"
      and a: "holds (ntd_mod ctx') a (src_type (nir_alu_type_get_base_type nir_type_float) (src_size s0)) (\<lambda>rho. rho v0)"
    have w: "w \<in> {16, 32, 64}"
      using alu_typed_size [OF alu_okD(2) [OF assms(1)]] s by (auto simp: base_fits_def sized_as_def)
    have "computes sizes alu ctx' (emit_frcp alu a ctx') (\<lambda>_. None)"
      by (rule frcp_computes [OF ok(1) _ w]) (use a s ok(2) inputs in \<open>simp_all add: sized_as_def\<close>)
    then show "computes sizes alu ctx' (emit_float_op nir_op_frcp alu [a] ctx') (alu_meaning alu w vs)"
      unfolding emit_float_op.simps nth_Cons_0 by (rule computes_float [OF _ op])
  qed
qed

section \<open>Moves and selections\<close>

lemma stored_value_type:
  assumes "ctx_ok sizes ctx" and "src_readable sizes ctx src chan v"
  obtains t where "t \<in> arith_types" "of_type (ntd_mod ctx) v t" "scalar_width t = Some (nir_src_bit_size src)" "flags_ok ctx t"
  using assms unfolding ctx_ok_def src_readable_def value_ok_def by metis

lemma mov_op:
  assumes "alu_ok sizes ctx alu w vs" and op: "alu_op alu = MOVE_OP nir_op_mov" and "def_num_components (alu_def alu) = 1"
  shows "computes sizes alu ctx (emit_mov alu ctx) (alu_meaning alu w vs)"
proof -
  note ok = alu_okD [OF assms(1)]
  have inputs: "input_types (alu_op alu) = [nir_type_uint]" using op by simp
  obtain s0 v0 where s: "alu_srcs alu = [s0]" "vs = [v0]" "src_size s0 = sized_as nir_type_uint w"
    using one_src [OF ok(2,3) inputs] by metis
  have r: "swizzle s0 \<noteq> []" "src_readable sizes ctx (alu_src s0) (hd (swizzle s0)) v0"
    using ok(3) s(1,2) by (simp_all add: readable_srcs_def)
  obtain t where t: "t \<in> arith_types" "of_type (ntd_mod ctx) v0 t" "scalar_width t = Some (src_size s0)" "flags_ok ctx t"
    using stored_value_type [OF ok(1) r(2)] .
  have "src_size s0 = sizes (def_index (alu_def alu))"
    using ok(2,4) op s(3) by (simp add: alu_typed_def place_ok_def)
  then obtain ctx' where "store_ssa_def (alu_def alu) 0 v0 ctx = Inr ctx'"
    "stores sizes ctx ctx' (def_index (alu_def alu)) 0 (\<lambda>rho. rho v0)"
    using store_ssa_def_stores [OF ok(1) holds_self [OF t(2)] t(1) _ t(4) ok(4)] t(3) by auto
  then have "computes sizes alu ctx (emit_mov alu ctx) (\<lambda>rho. rho v0)"
    using assms(3) s(1) r(1) get_src_ssa_readable [OF r(2)] by (simp add: computes_def emit_mov_def read_at_def hd_conv_nth)
  then show ?thesis
  proof (rule computes_weaken)
    fix rho k assume m: "alu_meaning alu w vs rho = Some k"
    then obtain i where i: "rho v0 = Some i" "src_fits s0 i" "alu_eval alu w [i] = Inr k"
      using meaning1 [OF m [unfolded s(2)] s(1)] by blast
    have "pattern w i" using i(2) s(3) by (simp add: src_fits_def sized_as_def)
    then show "rho v0 = Some k"
      using i(1,3) op by (simp add: alu_eval_def evaluate_mov_def at_size_Inr dst_bits_def unsigned_bits pattern_take_bit)
  qed
qed

lemma bcsel_op:
  assumes "alu_ok sizes ctx alu w vs" and op: "alu_op alu = MOVE_OP nir_op_bcsel"
  shows "computes sizes alu ctx (emit_bcsel alu ctx) (alu_meaning alu w vs)"
proof -
  note ok = alu_okD [OF assms(1)]
  note w = alu_typed_size [OF ok(2)]
  obtain s0 s1 s2 where srcs: "alu_srcs alu = [s0, s1, s2]" using ok(2) op by (auto simp: alu_typed_def list_all2_Cons2)
  obtain v0 v1 v2 where vs: "vs = [v0, v1, v2]" using ok(3) srcs by (auto simp: readable_srcs_def list_all2_Cons1)
  have size: "src_size s0 = 1" "src_size s1 = w" "src_size s2 = w"
    using ok(2) op srcs by (simp_all add: alu_typed_def sized_as_def)
  have r: "swizzle s0 \<noteq> []" "swizzle s1 \<noteq> []" "swizzle s2 \<noteq> []"
    "src_readable sizes ctx (alu_src s0) (hd (swizzle s0)) v0" "src_readable sizes ctx (alu_src s1) (hd (swizzle s1)) v1"
    "src_readable sizes ctx (alu_src s2) (hd (swizzle s2)) v2"
    using ok(3) srcs vs by (simp_all add: readable_srcs_def)
  obtain t where t: "t \<in> arith_types" "of_type (ntd_mod ctx) v1 t" "scalar_width t = Some w"
    using stored_value_type [OF ok(1) r(5)] size(2) by auto
  let ?type = "if t = TYPE_INTEGER 1 then nir_type_bool else case t of TYPE_INTEGER b \<Rightarrow> nir_type_int | _ \<Rightarrow> nir_type_float"
  have type: "dxil_type_to_nir_type (ntd_mod ctx) (ntd_type_of ctx v1) = Inr ?type"
    using of_type_at [OF t(2)] dxil_type_to_nir_type_eq [OF t(2,1)] by (simp add: dxil_type_to_nir_type_def)
  have base: "base_fits (nir_alu_type_get_base_type ?type) (src_size s2)"
    "src_type (nir_alu_type_get_base_type ?type) (src_size s2) = t"
    using t(1,3) size(3) by (auto simp: base_fits_def)
  have sel: "ctx_emits (get_src (alu_src s0) (hd (swizzle s0)) nir_type_bool ctx) ctx (TYPE_INTEGER 1) (\<lambda>rho. rho v0)"
    using get_src_emits [OF ok(1) r(4), of nir_type_bool] size(1) by (simp add: base_fits_def)
  have "computes sizes alu ctx
    (bind_result (get_src (alu_src s0) (hd (swizzle s0)) nir_type_bool ctx) (\<lambda>(sel, ctx).
       bind_result (get_src (alu_src s2) (hd (swizzle s2)) ?type ctx) (\<lambda>(val_false, ctx). ntd_emit_select alu sel v1 val_false ctx)))
    (select_bits (\<lambda>rho. rho v0) (\<lambda>rho. rho v1) (\<lambda>rho. rho v2))"
  proof (rule bind_computes [OF sel])
    fix c ctx1 assume 1: "ctx_extends ctx ctx1" "holds (ntd_mod ctx1) c (TYPE_INTEGER 1) (\<lambda>rho. rho v0)"
    note ok1 = ctx_ok_extends [OF 1(1) ok(1)]
    have false: "ctx_emits (get_src (alu_src s2) (hd (swizzle s2)) ?type ctx1) ctx1 t (\<lambda>rho. rho v2)"
      using get_src_emits [OF ok1 src_readable_extends [OF 1(1) r(6)] base(1)] unfolding base(2) .
    show "computes sizes alu ctx1 (bind_result (get_src (alu_src s2) (hd (swizzle s2)) ?type ctx1)
        (\<lambda>(val_false, ctx). ntd_emit_select alu c v1 val_false ctx)) (select_bits (\<lambda>rho. rho v0) (\<lambda>rho. rho v1) (\<lambda>rho. rho v2))"
    proof (rule bind_computes [OF false])
      fix b ctx2 assume 2: "ctx_extends ctx1 ctx2" "holds (ntd_mod ctx2) b t (\<lambda>rho. rho v2)"
      note e = ctx_extends_trans [OF 1(1) 2(1)]
      have "result_ok sizes ctx2 alu w"
        using result_ok_extends [OF e result_ok_typed [OF ok(2,4)]] op by (simp add: sized_as_def)
      then show "computes sizes alu ctx2 (ntd_emit_select alu c v1 b ctx2) (select_bits (\<lambda>rho. rho v0) (\<lambda>rho. rho v1) (\<lambda>rho. rho v2))"
        by (rule select_computes [OF ctx_ok_extends [OF 2(1) ok1] holds_extends [OF 1(2) ctx_extends_mod [OF 2(1)]]
              holds_extends [OF holds_self [OF t(2)] ctx_extends_mod [OF e]] 2(2) t(1,3)])
    qed
  qed
  then have "computes sizes alu ctx (emit_bcsel alu ctx) (select_bits (\<lambda>rho. rho v0) (\<lambda>rho. rho v1) (\<lambda>rho. rho v2))"
    using srcs r type get_src_ssa_readable [OF r(5)] by (simp add: emit_bcsel_def read_at_def hd_conv_nth)
  then show ?thesis
  proof (rule computes_weaken)
    fix rho k assume "alu_meaning alu w vs rho = Some k"
    then obtain src where src: "map rho vs = map Some src" "list_all2 src_fits (alu_srcs alu) src" "alu_eval alu w src = Inr k"
      by (rule alu_meaningD)
    then obtain c i j where cij: "src = [c, i, j]" unfolding vs by (auto simp: Cons_eq_map_conv)
    have fits: "pattern 1 c" "pattern w i" "pattern w j" using src(2) srcs size unfolding cij by (simp_all add: src_fits_def)
    have "k = (if c = 1 then i else j)"
      using src(3) op fits bool_pattern [OF fits(1)] pattern_take_bit [OF fits(2)] pattern_take_bit [OF fits(3)]
      by (auto simp: cij alu_eval_def evaluate_bcsel_def at_size_Inr dst_bits_def unsigned_src_def)
    then show "select_bits (\<lambda>rho. rho v0) (\<lambda>rho. rho v1) (\<lambda>rho. rho v2) rho = Some k"
      using src(1) by (simp add: vs cij select_bits_def)
  qed
qed


section \<open>All of them\<close>

lemma int_op_computes:
  assumes ok: "alu_ok sizes ctx alu w vs" and op: "alu_op alu = INT_OP op" and direct: "direct_op alu w"
  shows "computes sizes alu ctx (with_srcs alu (emit_int_op op alu) ctx) (alu_meaning alu w vs)"
proof -
  have w0: "0 < w" using alu_typed_size [OF alu_okD(2) [OF ok]] by auto
  have shift: "op \<in> {nir_op_ishl, nir_op_ishr, nir_op_ushr} \<Longrightarrow> w \<noteq> 1" using direct op by (simp add: direct_op_def)
  have shift_size: "w \<noteq> 1 \<Longrightarrow> w \<in> {16, 32, 64}" using alu_typed_size [OF alu_okD(2) [OF ok]] by auto
  note binop = int_binop_op [OF ok op] and cmp = int_cmp_op [OF ok op] and shift_op = int_shift_op [OF ok op]
    and division = int_division_op [OF ok op]
  note defined = alu_defined_def op
  show ?thesis
  proof (cases op)
    case nir_op_iadd then show ?thesis using arithmetic_agrees(1) [OF _ _ w0] by (intro binop [of DXIL_BINOP_ADD]) simp_all
  next
    case nir_op_isub then show ?thesis using arithmetic_agrees(2) [OF _ _ w0] by (intro binop [of DXIL_BINOP_SUB]) simp_all
  next
    case nir_op_imul then show ?thesis using arithmetic_agrees(3) [OF _ _ w0] by (intro binop [of DXIL_BINOP_MUL]) simp_all
  next
    case nir_op_iand then show ?thesis using logic_agrees(1) by (intro binop [of DXIL_BINOP_AND]) simp_all
  next
    case nir_op_ior then show ?thesis using logic_agrees(2) by (intro binop [of DXIL_BINOP_OR]) simp_all
  next
    case nir_op_ixor then show ?thesis using logic_agrees(3) by (intro binop [of DXIL_BINOP_XOR]) simp_all
  next
    case nir_op_irem then show ?thesis using division_agrees(2) [OF _ _ w0] by (intro binop [of DXIL_BINOP_SREM]) (simp_all add: defined)
  next
    case nir_op_umod then show ?thesis using division_agrees(4) [OF _ _ w0] by (intro binop [of DXIL_BINOP_UREM]) (simp_all add: defined)
  next
    case nir_op_imod then show ?thesis using imod_agrees [OF _ _ w0] by (intro binop [of DXIL_BINOP_UREM]) (simp_all add: defined)
  next
    case nir_op_idiv
    show ?thesis unfolding nir_op_idiv
    proof (rule division [unfolded nir_op_idiv, of DXIL_BINOP_SDIV])
      fix i j k assume a: "pattern w i" "pattern w j" "alu_defined alu w [i, j]" "eval_int_op nir_op_idiv w [i, j] = Inr k"
      have zero: "j = 0 \<Longrightarrow> k = 0"
        using a(4) by (simp add: evaluate_idiv_def at_size_Inr dst_bits_def signed_src_def)
      show "(if j = 0 \<and> nir_src_is_const (alu_src (alu_srcs alu ! 1)) then Some 0 else binop_bits DXIL_BINOP_SDIV w i j) = Some k"
        using a zero division_agrees(1) [OF a(1,2) w0] by (auto simp: defined nir_op_idiv division_defined_def)
    qed simp_all
  next
    case nir_op_udiv
    show ?thesis unfolding nir_op_udiv
    proof (rule division [unfolded nir_op_udiv, of DXIL_BINOP_UDIV])
      fix i j k assume a: "pattern w i" "pattern w j" "alu_defined alu w [i, j]" "eval_int_op nir_op_udiv w [i, j] = Inr k"
      have zero: "j = 0 \<Longrightarrow> k = 0" using a(4) by (simp add: evaluate_udiv_def at_size_Inr dst_bits_def unsigned_src_def)
      show "(if j = 0 \<and> nir_src_is_const (alu_src (alu_srcs alu ! 1)) then Some 0 else binop_bits DXIL_BINOP_UDIV w i j) = Some k"
        using a zero division_agrees(3) [OF a(1,2) w0] by (auto simp: defined nir_op_udiv)
    qed simp_all
  next
    case nir_op_ishl
    then show ?thesis using shift_agrees(1) [OF _ _ shift_size] shift by (intro shift_op [of DXIL_BINOP_SHL]) simp_all
  next
    case nir_op_ishr
    then show ?thesis using shift_agrees(2) [OF _ _ shift_size] shift by (intro shift_op [of DXIL_BINOP_ASHR]) simp_all
  next
    case nir_op_ushr
    then show ?thesis using shift_agrees(3) [OF _ _ shift_size] shift by (intro shift_op [of DXIL_BINOP_LSHR]) simp_all
  next
    case nir_op_ieq then show ?thesis using comparison_agrees(1) [OF _ _ w0] by (intro cmp [of DXIL_ICMP_EQ]) simp_all
  next
    case nir_op_ine then show ?thesis using comparison_agrees(2) [OF _ _ w0] by (intro cmp [of DXIL_ICMP_NE]) simp_all
  next
    case nir_op_ige then show ?thesis using comparison_agrees(3) [OF _ _ w0] by (intro cmp [of DXIL_ICMP_SGE]) simp_all
  next
    case nir_op_uge then show ?thesis using comparison_agrees(4) [OF _ _ w0] by (intro cmp [of DXIL_ICMP_UGE]) simp_all
  next
    case nir_op_ilt then show ?thesis using comparison_agrees(5) [OF _ _ w0] by (intro cmp [of DXIL_ICMP_SLT]) simp_all
  next
    case nir_op_ult then show ?thesis using comparison_agrees(6) [OF _ _ w0] by (intro cmp [of DXIL_ICMP_ULT]) simp_all
  next
    case nir_op_inot then show ?thesis using inot_op [OF ok] op by simp
  next
    case nir_op_b2f16 then show ?thesis using b2f_op [OF ok op] by simp
  next
    case nir_op_b2f32 then show ?thesis using b2f_op [OF ok op] by simp
  next
    case nir_op_b2f64 then show ?thesis using b2f_op [OF ok op] by simp
  qed (use direct op in \<open>simp_all add: direct_op_def calls_function_def\<close>)
qed

lemma float_op_computes:
  assumes ok: "alu_ok sizes ctx alu w vs" and op: "alu_op alu = FLOAT_OP op" and direct: "direct_op alu w"
  shows "computes sizes alu ctx (with_srcs alu (emit_float_op op alu) ctx) (alu_meaning alu w vs)"
proof -
  note binop = float_binop_op [OF ok op] and cmp = float_cmp_op [OF ok op]
  show ?thesis
  proof (cases op)
    case nir_op_fadd then show ?thesis by (intro binop [of DXIL_BINOP_ADD "\<lambda>ctx. ctx"]) (simp_all add: ctx_extends_refl)
  next
    case nir_op_fsub then show ?thesis by (intro binop [of DXIL_BINOP_SUB "\<lambda>ctx. ctx"]) (simp_all add: ctx_extends_refl)
  next
    case nir_op_fmul then show ?thesis by (intro binop [of DXIL_BINOP_MUL "\<lambda>ctx. ctx"]) (simp_all add: ctx_extends_refl)
  next
    case nir_op_fdiv
    then show ?thesis
      by (intro binop [of DXIL_BINOP_SDIV "set_feats (\<lambda>f. f\<lparr>feat_dx11_1_double_extensions := True\<rparr>) (def_bit_size (alu_def alu) = 64)"])
        (simp_all add: set_feats_extends)
  next
    case nir_op_feq then show ?thesis by (intro cmp [of DXIL_FCMP_OEQ]) simp_all
  next
    case nir_op_fneu then show ?thesis by (intro cmp [of DXIL_FCMP_UNE]) simp_all
  next
    case nir_op_flt then show ?thesis by (intro cmp [of DXIL_FCMP_OLT]) simp_all
  next
    case nir_op_fge then show ?thesis by (intro cmp [of DXIL_FCMP_OGE]) simp_all
  next
    case nir_op_frcp then show ?thesis using frcp_op [OF ok] op by simp
  qed (use direct op in \<open>simp_all add: direct_op_def\<close>)
qed

lemma emit_alu_computes:
  assumes ok: "alu_ok sizes ctx alu w vs" and direct: "direct_op alu w"
  shows "computes sizes alu ctx (emit_alu alu ctx) (alu_meaning alu w vs)"
proof (cases "alu_op alu")
  case (MOVE_OP op)
  then consider "op = nir_op_mov" "def_num_components (alu_def alu) = 1" | "op = nir_op_bcsel"
    using direct by (auto simp: direct_op_def)
  then show ?thesis
  proof cases
    case 1
    then show ?thesis using mov_op [OF ok] MOVE_OP by (simp add: emit_alu_def)
  next
    case 2
    then show ?thesis using bcsel_op [OF ok] MOVE_OP by (simp add: emit_alu_def)
  qed
next
  case (CONVERSION_OP op)
  then show ?thesis using conversion_op [OF ok _ direct] by (simp add: emit_alu_def)
next
  case (INT_OP op)
  then show ?thesis using int_op_computes [OF ok _ direct] by (simp add: emit_alu_def)
next
  case (FLOAT_OP op)
  then show ?thesis using float_op_computes [OF ok _ direct] by (simp add: emit_alu_def)
qed (use direct in \<open>simp add: direct_op_def\<close>)

end
