(* ===== verification/Ntd_Consts.thy ===== *)
theory Ntd_Consts
  imports Ntd_Alu_Correct
begin

unbundle bit_operations_syntax

text \<open>Several results at once: constants and vectors store one component after the other.\<close>

section \<open>Stores in a row\<close>

fun stores_all ::
  "(nat \<Rightarrow> nat) \<Rightarrow> ntd_context \<Rightarrow> ntd_context \<Rightarrow> nat \<Rightarrow> nat \<Rightarrow> (valuation \<Rightarrow> int option) list \<Rightarrow> bool" where
  "stores_all sizes ctx ctx' d c [] \<longleftrightarrow> ctx_extends ctx ctx'"
| "stores_all sizes ctx ctx' d c (x # xs) \<longleftrightarrow>
     (\<exists>ctx1. stores sizes ctx ctx1 d c x \<and> stores_all sizes ctx1 ctx' d (Suc c) xs)"

lemma stores_mod: "stores sizes ctx ctx' d c x \<Longrightarrow> extends (ntd_mod ctx) (ntd_mod ctx')"
  by (auto simp: stores_def ctx_extends_def)

lemma stores_all_mod: "stores_all sizes ctx ctx' d c xs \<Longrightarrow> extends (ntd_mod ctx) (ntd_mod ctx')"
  by (induction xs arbitrary: ctx c) (use ctx_extends_mod stores_mod extends_trans in \<open>simp; blast\<close>)+

text \<open>What a step leaves as it is: the number of definitions and components, and what the phis expect.\<close>

definition same_shape :: "ntd_context \<Rightarrow> ntd_context \<Rightarrow> bool" where
  "same_shape ctx ctx' \<longleftrightarrow> map length (ntd_defs ctx') = map length (ntd_defs ctx) \<and>
     int_types ctx' = int_types ctx \<and> float_types ctx' = float_types ctx"

lemma same_shape_trans: "same_shape ctx ctx' \<Longrightarrow> same_shape ctx' ctx'' \<Longrightarrow> same_shape ctx ctx''"
  by (simp add: same_shape_def)

lemma ctx_extends_shape: "ctx_extends ctx ctx' \<Longrightarrow> same_shape ctx ctx'"
  by (simp add: same_shape_def ctx_extends_def)

lemma map_length_update: "map length (xss[d := (xss ! d)[c := v]]) = map length xss"
  by (cases "d < length xss") (auto intro!: nth_equalityI simp: nth_list_update)

lemma stores_shape: "stores sizes ctx ctx' d c x \<Longrightarrow> same_shape ctx ctx'"
  by (auto simp: stores_def same_shape_def ctx_extends_def map_length_update)

lemma stores_all_shape: "stores_all sizes ctx ctx' d c xs \<Longrightarrow> same_shape ctx ctx'"
  by (induction xs arbitrary: ctx c) (use ctx_extends_shape stores_shape same_shape_trans in \<open>simp; blast\<close>)+

lemma shape_lengths:
  assumes "same_shape ctx ctx'"
  shows "length (ntd_defs ctx') = length (ntd_defs ctx)"
    and "d < length (ntd_defs ctx) \<Longrightarrow> length (ntd_defs ctx' ! d) = length (ntd_defs ctx ! d)"
proof -
  have *: "map length (ntd_defs ctx') = map length (ntd_defs ctx)" using assms by (simp add: same_shape_def)
  show l: "length (ntd_defs ctx') = length (ntd_defs ctx)" using arg_cong [OF *, of length] by simp
  show "d < length (ntd_defs ctx) \<Longrightarrow> length (ntd_defs ctx' ! d) = length (ntd_defs ctx ! d)"
    using arg_cong [OF *, of "\<lambda>xs. xs ! d"] l by simp
qed

lemma place_ok_shape: "same_shape ctx ctx' \<Longrightarrow> place_ok sizes ctx ssa chan \<Longrightarrow> place_ok sizes ctx' ssa chan"
  using shape_lengths [of ctx ctx'] by (auto simp: place_ok_def expect_type_def same_shape_def)

lemma place_ok_bounds:
  "place_ok sizes ctx ssa chan \<Longrightarrow> def_index ssa < length (ntd_defs ctx) \<and> chan < length (ntd_defs ctx ! def_index ssa)"
  by (simp add: place_ok_def)

section \<open>Constants\<close>

definition const_pattern :: "nat \<Rightarrow> nir_const_value \<Rightarrow> int" where
  "const_pattern b c = (if b = 1 then of_bool (const_b c) else take_bit b (uint c))"

text \<open>The type of a constant, and whether \<open>==\<close> tells it from every other of its type.\<close>

definition float_def :: "ntd_context \<Rightarrow> nat \<Rightarrow> bool" where
  "float_def ctx d \<longleftrightarrow> float_types ctx d \<and> \<not> int_types ctx d"

definition const_exact :: "nat \<Rightarrow> nir_const_value \<Rightarrow> bool" where
  "const_exact b c \<longleftrightarrow> (b = 32 \<longrightarrow> float_exact (ucast c)) \<and> (b = 64 \<longrightarrow> double_exact c)"

definition const_meaning :: "bool \<Rightarrow> nat \<Rightarrow> nir_const_value \<Rightarrow> int option" where
  "const_meaning float b c = (if float \<and> \<not> const_exact b c then None else Some (const_pattern b c))"

lemma cache_iff:
  assumes "types_ok m" and "i < length (type_list m)"
  shows "Some i = int1_type m \<longleftrightarrow> type_list m ! i = TYPE_INTEGER 1"
    and "Some i = int16_type m \<longleftrightarrow> type_list m ! i = TYPE_INTEGER 16"
    and "Some i = int32_type m \<longleftrightarrow> type_list m ! i = TYPE_INTEGER 32"
    and "Some i = int64_type m \<longleftrightarrow> type_list m ! i = TYPE_INTEGER 64"
    and "Some i = float16_type m \<longleftrightarrow> type_list m ! i = TYPE_FLOAT 16"
    and "Some i = float32_type m \<longleftrightarrow> type_list m ! i = TYPE_FLOAT 32"
    and "Some i = float64_type m \<longleftrightarrow> type_list m ! i = TYPE_FLOAT 64"
proof -
  have *: "Some i = find_pos ((=) t) (type_list m) \<longleftrightarrow> type_list m ! i = t" if t: "\<not> is_function_type t" for t
  proof
    assume "Some i = find_pos ((=) t) (type_list m)"
    then show "type_list m ! i = t" using find_pos_Some [of "(=) t" "type_list m" i] by simp
  next
    assume at: "type_list m ! i = t"
    show "Some i = find_pos ((=) t) (type_list m)"
    proof (cases "find_pos ((=) t) (type_list m)")
      case None
      then show ?thesis using at assms(2) by (auto simp: find_pos_eq_None)
    next
      case (Some j)
      have "j < length (type_list m)" "type_list m ! j = t" using find_pos_Some [OF Some] by auto
      then show ?thesis using Some scalar_unique [OF assms(1), of i j] assms(2) at t by simp
    qed
  qed
  show "Some i = int1_type m \<longleftrightarrow> type_list m ! i = TYPE_INTEGER 1"
    and "Some i = int16_type m \<longleftrightarrow> type_list m ! i = TYPE_INTEGER 16"
    and "Some i = int32_type m \<longleftrightarrow> type_list m ! i = TYPE_INTEGER 32"
    and "Some i = int64_type m \<longleftrightarrow> type_list m ! i = TYPE_INTEGER 64"
    and "Some i = float16_type m \<longleftrightarrow> type_list m ! i = TYPE_FLOAT 16"
    and "Some i = float32_type m \<longleftrightarrow> type_list m ! i = TYPE_FLOAT 32"
    and "Some i = float64_type m \<longleftrightarrow> type_list m ! i = TYPE_FLOAT 64"
    unfolding scalar_cache_pos [OF assms(1)] by (simp_all add: *)
qed

text \<open>A value that can be stored: its type has the width, and its feature is set.\<close>

definition gives_value ::
  "(val_ref \<times> ntd_context) result \<Rightarrow> ntd_context \<Rightarrow> nat \<Rightarrow> (valuation \<Rightarrow> int option) \<Rightarrow> bool" where
  "gives_value r ctx b x \<longleftrightarrow>
     (\<exists>v ctx' t. r = Inr (v, ctx') \<and> ctx_extends ctx ctx' \<and> holds (ntd_mod ctx') v t x \<and> t \<in> arith_types \<and>
        scalar_width t = Some b \<and> flags_ok ctx' t)"

lemma on_mod_gives_value:
  assumes "mod_emits (f (ntd_mod ctx')) (ntd_mod ctx') t x" and "t \<in> arith_types" and "scalar_width t = Some b"
    and "ctx_extends ctx ctx'" and "flags_ok ctx' t" and "\<And>rho k. y rho = Some k \<Longrightarrow> x rho = Some k"
  shows "gives_value (on_mod f ctx') ctx b y"
proof -
  obtain v m where 1: "f (ntd_mod ctx') = Inr (v, m)" "extends (ntd_mod ctx') m" "holds m v t y"
    using mod_emits_weaken [OF assms(1,6)] by (rule mod_emitsE)
  let ?ctx = "ctx'\<lparr>ntd_mod := m\<rparr>"
  have "on_mod f ctx' = Inr (v, ?ctx)" using 1(1) by (simp add: on_mod_def)
  moreover have "ctx_extends ctx ?ctx"
    by (rule ctx_extends_trans [OF assms(4)]) (use 1(2) in \<open>simp add: ctx_extends_def\<close>)
  moreover have "holds (ntd_mod ?ctx) v t y" using 1(3) by simp
  moreover have "flags_ok ?ctx t" using assms(5) by (simp add: flags_ok_def)
  ultimately show ?thesis unfolding gives_value_def using assms(2,3) by blast
qed

lemma int_consts_emit:
  assumes "types_ok m"
  shows "mod_emits (dxil_module_get_int1_const (const_b c) m) m (TYPE_INTEGER 1) (\<lambda>_. Some (const_pattern 1 c))"
    and "mod_emits (dxil_module_get_int16_const (ucast c) m) m (TYPE_INTEGER 16) (\<lambda>_. Some (const_pattern 16 c))"
    and "mod_emits (dxil_module_get_int32_const (ucast c) m) m (TYPE_INTEGER 32) (\<lambda>_. Some (const_pattern 32 c))"
    and "mod_emits (dxil_module_get_int64_const c m) m (TYPE_INTEGER 64) (\<lambda>_. Some (const_pattern 64 c))"
proof -
  have 1: "mod_emits (dxil_module_get_int1_const b m) m (TYPE_INTEGER 1) (\<lambda>_. Some (of_bool b))" for b
    using typed_const_emits [OF assms, of 1 "of_bool b"]
    by (cases b) (simp_all add: dxil_module_get_int1_const_def dxil_module_get_int_type_def)
  show "mod_emits (dxil_module_get_int1_const (const_b c) m) m (TYPE_INTEGER 1) (\<lambda>_. Some (const_pattern 1 c))"
    using 1 [of "const_b c"] by (simp add: const_pattern_def)
  have 16: "take_bit 16 (uint (scast (ucast c :: 16 word) :: 64 word)) = take_bit 16 (uint c)"
    unfolding scast_eq by (simp add: take_bit_of_int signed_ucast_eq take_bit_signed_take_bit)
  show "mod_emits (dxil_module_get_int16_const (ucast c) m) m (TYPE_INTEGER 16) (\<lambda>_. Some (const_pattern 16 c))"
    using typed_const_emits [OF assms, of 16 "scast (ucast c :: 16 word)"] 16
    by (simp add: dxil_module_get_int16_const_def dxil_module_get_int_type_def const_pattern_def)
  show "mod_emits (dxil_module_get_int32_const (ucast c) m) m (TYPE_INTEGER 32) (\<lambda>_. Some (const_pattern 32 c))"
    using int32_const_emits [OF assms, of "ucast c"] by (simp add: const_pattern_def unsigned_ucast_eq)
  show "mod_emits (dxil_module_get_int64_const c m) m (TYPE_INTEGER 64) (\<lambda>_. Some (const_pattern 64 c))"
    using typed_const_emits [OF assms, of 64 c]
    by (simp add: dxil_module_get_int64_const_def dxil_module_get_int_type_def const_pattern_def)
qed

lemma set_feats_ctx_extends:
  "types_ok (ntd_mod ctx) \<Longrightarrow> (\<And>fs. feat_int64_ops fs \<longrightarrow> feat_int64_ops (f fs)) \<Longrightarrow>
   (\<And>fs. feat_doubles fs \<longrightarrow> feat_doubles (f fs)) \<Longrightarrow> ctx_extends ctx (set_feats f c ctx)"
  by (simp add: ctx_extends_def extends_refl)

fun is_float :: "dxil_type \<Rightarrow> bool" where
  "is_float (TYPE_FLOAT b) = True"
| "is_float _ = False"

lemma get_value_for_const_gives:
  assumes "types_ok (ntd_mod ctx)" and "i < length (type_list (ntd_mod ctx))" and "type_list (ntd_mod ctx) ! i = t"
    and "t \<in> arith_types" and "scalar_width t = Some b"
  shows "gives_value (get_value_for_const c i ctx) ctx b (\<lambda>_. const_meaning (is_float t) b c)"
proof -
  note cache = cache_iff [OF assms(1,2), unfolded assms(3)]
  note refl = ctx_extends_refl [OF assms(1)]
  note run = get_value_for_const_def Let_def cache
  consider "t = TYPE_INTEGER 1" | "t = TYPE_INTEGER 16" | "t = TYPE_INTEGER 32" | "t = TYPE_INTEGER 64"
    | "t = TYPE_FLOAT 16" | "t = TYPE_FLOAT 32" | "t = TYPE_FLOAT 64" using assms(4) by blast
  then show ?thesis
  proof cases
    case 1
    then have b: "b = 1" using assms(5) by simp
    show ?thesis unfolding run
      by (simp add: 1 b, rule on_mod_gives_value, rule int_consts_emit(1)) (simp_all add: assms refl flags_ok_def const_meaning_def)
  next
    case 2
    then have b: "b = 16" using assms(5) by simp
    show ?thesis unfolding run
      by (simp add: 2 b, rule on_mod_gives_value, rule int_consts_emit(2))
        (simp_all add: assms set_feats_ctx_extends flags_ok_def const_meaning_def)
  next
    case 3
    then have b: "b = 32" using assms(5) by simp
    show ?thesis unfolding run
      by (simp add: 3 b, rule on_mod_gives_value, rule int_consts_emit(3)) (simp_all add: assms refl flags_ok_def const_meaning_def)
  next
    case 4
    then have b: "b = 64" using assms(5) by simp
    show ?thesis unfolding run
      by (simp add: 4 b, rule on_mod_gives_value, rule int_consts_emit(4))
        (simp_all add: assms set_feats_ctx_extends flags_ok_def const_meaning_def)
  next
    case 5
    then have b: "b = 16" using assms(5) by simp
    show ?thesis unfolding run
      by (simp add: 5 b, rule on_mod_gives_value, rule float16_const_emits)
        (simp_all add: assms set_feats_ctx_extends flags_ok_def const_meaning_def const_pattern_def unsigned_ucast_eq split: if_splits)
  next
    case 6
    then have b: "b = 32" using assms(5) by simp
    show ?thesis unfolding run
      by (simp add: 6 b, rule on_mod_gives_value, rule float_const_emits)
        (simp_all add: assms refl flags_ok_def const_meaning_def const_pattern_def const_exact_def unsigned_ucast_eq split: if_splits)
  next
    case 7
    then have b: "b = 64" using assms(5) by simp
    have c: "take_bit 64 (uint c) = uint c" using uint_lt2p [of c] by (simp add: take_bit_int_eq_self)
    show ?thesis unfolding run
      by (simp add: 7 b, rule on_mod_gives_value, rule double_const_emits)
        (simp_all add: assms set_feats_ctx_extends flags_ok_def const_meaning_def const_pattern_def const_exact_def c split: if_splits)
  qed
qed

text \<open>A constant is stored component by component.\<close>

lemma dxil_type_for_const_gets:
  assumes "types_ok (ntd_mod ctx)" and "def_bit_size def = b" and "b \<in> {1, 16, 32, 64}"
    and "b = 1 \<Longrightarrow> \<not> float_def ctx (def_index def)"
  shows "\<exists>i ctx' t. dxil_type_for_const def ctx = Inr (i, ctx') \<and> ctx_extends ctx ctx' \<and>
    i < length (type_list (ntd_mod ctx')) \<and> type_list (ntd_mod ctx') ! i = t \<and> t \<in> arith_types \<and>
    scalar_width t = Some b \<and> is_float t = float_def ctx (def_index def)"
proof (cases "float_def ctx (def_index def)")
  case True
  then have "b \<in> {16, 32, 64}" using assms(3,4) by auto
  from gets_float_type [OF assms(1) this] obtain i ctx' where
    "on_mod (dxil_module_get_float_type b) ctx = Inr (i, ctx')" "ctx_extends ctx ctx'" "ntd_feats ctx' = ntd_feats ctx"
    "i < length (type_list (ntd_mod ctx'))" "type_list (ntd_mod ctx') ! i = TYPE_FLOAT b" by (rule on_mod_gets_type)
  moreover have "TYPE_FLOAT b \<in> arith_types" using \<open>b \<in> {16, 32, 64}\<close> by auto
  ultimately show ?thesis using True assms(2) by (simp add: dxil_type_for_const_def float_def_def)
next
  case False
  have "b \<in> {1, 8, 16, 32, 64}" using assms(3) by blast
  from gets_int_type [OF assms(1) this] obtain i ctx' where
    "on_mod (dxil_module_get_int_type b) ctx = Inr (i, ctx')" "ctx_extends ctx ctx'" "ntd_feats ctx' = ntd_feats ctx"
    "i < length (type_list (ntd_mod ctx'))" "type_list (ntd_mod ctx') ! i = TYPE_INTEGER b" by (rule on_mod_gets_type)
  moreover have "TYPE_INTEGER b \<in> arith_types" using assms(3) by auto
  ultimately show ?thesis using False assms(2) by (auto simp: dxil_type_for_const_def float_def_def)
qed

definition components_ok :: "(nat \<Rightarrow> nat) \<Rightarrow> ntd_context \<Rightarrow> nir_def \<Rightarrow> nat \<Rightarrow> nat \<Rightarrow> bool" where
  "components_ok sizes ctx def c n \<longleftrightarrow> (\<forall>i < n. place_ok sizes ctx def (c + i))"

lemma components_ok_Suc:
  "components_ok sizes ctx def c (Suc n) \<longleftrightarrow> place_ok sizes ctx def c \<and> components_ok sizes ctx def (Suc c) n"
  unfolding components_ok_def less_Suc_eq_0_disj by auto

lemma components_ok_shape: "same_shape ctx ctx' \<Longrightarrow> components_ok sizes ctx def c n \<Longrightarrow> components_ok sizes ctx' def c n"
  unfolding components_ok_def using place_ok_shape by blast

lemma float_def_shape: "same_shape ctx ctx' \<Longrightarrow> float_def ctx' d = float_def ctx d"
  by (simp add: float_def_def same_shape_def)

lemma store_value_stores:
  assumes "ctx_ok sizes ctx" and "gives_value r ctx b x" and "place_ok sizes ctx def c" and "def_bit_size def = b"
  shows "\<exists>ctx'. bind_result r (\<lambda>(v, ctx). store_ssa_def def c v ctx) = Inr ctx' \<and>
    stores sizes ctx ctx' (def_index def) c x"
proof -
  obtain v ctx1 t where 1: "r = Inr (v, ctx1)" "ctx_extends ctx ctx1" "holds (ntd_mod ctx1) v t x" "t \<in> arith_types"
    "scalar_width t = Some b" "flags_ok ctx1 t" using assms(2) unfolding gives_value_def by blast
  have "scalar_width t = Some (sizes (def_index def))" using 1(5) assms(3,4) by (simp add: place_ok_def)
  from store_ssa_def_stores [OF ctx_ok_extends [OF 1(2) assms(1)] 1(3,4) this 1(6) place_ok_extends [OF 1(2) assms(3)]]
  obtain ctx' where "store_ssa_def def c v ctx1 = Inr ctx'" "stores sizes ctx1 ctx' (def_index def) c x" by blast
  then show ?thesis using 1(1) stores_after [OF 1(2)] by auto
qed

lemma load_const_from_stores:
  assumes "ctx_ok sizes ctx" and "components_ok sizes ctx def c (length cs)" and "def_bit_size def = b"
    and "b \<in> {1, 16, 32, 64}" and "b = 1 \<Longrightarrow> \<not> float_def ctx (def_index def)"
  shows "\<exists>ctx'. load_const_from def c cs ctx = Inr ctx' \<and> ctx_ok sizes ctx' \<and>
    stores_all sizes ctx ctx' (def_index def) c
      (map (\<lambda>k rho. const_meaning (float_def ctx (def_index def)) b k) cs)"
  using assms(1,2,5)
proof (induction cs arbitrary: ctx c)
  case Nil
  then show ?case using ctx_extends_refl [OF ready_types [OF ctx_ok_ready]] by auto
next
  case (Cons k ks)
  let ?d = "def_index def"
  have ok: "place_ok sizes ctx def c" "components_ok sizes ctx def (Suc c) (length ks)"
    using Cons.prems(2) by (simp_all add: components_ok_Suc)
  note ty = ready_types [OF ctx_ok_ready [OF Cons.prems(1)]]
  obtain i ctx1 t where 1: "dxil_type_for_const def ctx = Inr (i, ctx1)" "ctx_extends ctx ctx1"
    "i < length (type_list (ntd_mod ctx1))" "type_list (ntd_mod ctx1) ! i = t" "t \<in> arith_types"
    "scalar_width t = Some b" "is_float t = float_def ctx ?d"
    using dxil_type_for_const_gets [OF ty assms(3,4) Cons.prems(3)] by auto
  note ok1 = ctx_ok_extends [OF 1(2) Cons.prems(1)]
  have "gives_value (get_value_for_const k i ctx1) ctx1 b (\<lambda>_. const_meaning (float_def ctx ?d) b k)"
    using get_value_for_const_gives [OF ready_types [OF ctx_ok_ready [OF ok1]] 1(3-6)] 1(7) by simp
  from store_value_stores [OF ok1 this place_ok_extends [OF 1(2) ok(1)] assms(3)]
  obtain ctx2 where 2: "bind_result (get_value_for_const k i ctx1) (\<lambda>(v, ctx). store_ssa_def def c v ctx) = Inr ctx2"
    "stores sizes ctx1 ctx2 ?d c (\<lambda>_. const_meaning (float_def ctx ?d) b k)" by blast
  note s = stores_after [OF 1(2) 2(2)]
  note shape = stores_shape [OF s]
  have ok2: "ctx_ok sizes ctx2" using stores_ctx_ok [OF s Cons.prems(1)] place_ok_bounds [OF ok(1)] by blast
  have "b = 1 \<Longrightarrow> \<not> float_def ctx2 ?d" using Cons.prems(3) float_def_shape [OF shape] by simp
  from Cons.IH [OF ok2 components_ok_shape [OF shape ok(2)] this]
  obtain ctx' where 3: "load_const_from def (Suc c) ks ctx2 = Inr ctx'" "ctx_ok sizes ctx'"
    "stores_all sizes ctx2 ctx' ?d (Suc c) (map (\<lambda>k rho. const_meaning (float_def ctx2 ?d) b k) ks)" by blast
  have "load_const_from def c (k # ks) ctx = Inr ctx'"
    using 1(1) 2(1) 3(1) by (auto simp: bind_result_Inr_iff split: prod.splits)
  then show ?case using 3(2,3) s unfolding float_def_shape [OF shape] by auto
qed

lemma emit_load_const_stores:
  assumes "ctx_ok sizes ctx" and "components_ok sizes ctx (load_def lc) 0 (def_num_components (load_def lc))"
    and "length (load_values lc) = def_num_components (load_def lc)" and "def_bit_size (load_def lc) = b"
    and "b \<in> {1, 16, 32, 64}" and "b = 1 \<Longrightarrow> \<not> float_def ctx (def_index (load_def lc))"
  shows "\<exists>ctx'. emit_load_const lc ctx = Inr ctx' \<and> ctx_ok sizes ctx' \<and>
    stores_all sizes ctx ctx' (def_index (load_def lc)) 0
      (map (\<lambda>k rho. const_meaning (float_def ctx (def_index (load_def lc))) b k) (load_values lc))"
  using load_const_from_stores [OF assms(1) _ assms(4-6), of 0 "load_values lc"] assms(2,3)
  by (simp add: emit_load_const_def)

end
