(* ===== verification/Ntd_Control.thy ===== *)
theory Ntd_Control
  imports Ntd_Alu
begin

text \<open>
  Blocks and control flow (\<open>nir_to_dxil.c\<close>, \<open>emit_instr\<close>, \<open>emit_phi\<close>, \<open>emit_block\<close>, \<open>emit_if\<close>,
  \<open>emit_loop\<close>, \<open>emit_cf_list\<close>), over the tree of control flow of \<open>nir.h\<close>. The branches of \<open>emit_instr\<close> for
  intrinsics, dereferences and textures are the argument \<open>other\<close>, and a function may return false, which
  stops everything after it.
\<close>

section \<open>The tree of control flow\<close>

datatype nir_jump_type =
  nir_jump_return | nir_jump_halt | nir_jump_break | nir_jump_continue | nir_jump_goto | nir_jump_goto_if

text \<open>\<open>'i\<close> are the instructions that \<open>other\<close> stands for; \<open>UNSUPPORTED_INSTR\<close> are those of other types.\<close>

datatype 'i nir_instr =
  ALU_INSTR nir_alu_instr
| LOAD_CONST_INSTR nir_load_const_instr
| JUMP_INSTR nir_jump_type
| PHI_INSTR nir_phi_instr
| UNDEF_INSTR nir_def
| OTHER_INSTR 'i
| UNSUPPORTED_INSTR

text \<open>The successors of a block are known by their indices.\<close>

record 'i nir_block =
  block_index :: nat
  block_instrs :: "'i nir_instr list"
  successor0 :: "nat option"
  successor1 :: "nat option"

datatype 'i nir_cf_node =
  CF_BLOCK "'i nir_block"
| CF_IF (condition: nir_src) (then_list: "'i nir_cf_node list") (else_list: "'i nir_cf_node list")
| CF_LOOP (loop_body: "'i nir_cf_node list") (continue_list: "'i nir_cf_node list")

definition nir_cf_node_as_block :: "'i nir_cf_node \<Rightarrow> 'i nir_block result" where
  "nir_cf_node_as_block node = (case node of CF_BLOCK block \<Rightarrow> Inr block | _ \<Rightarrow> Inl Assertion)"

text \<open>\<open>nir_if_first_then_block\<close>, \<open>nir_loop_first_block\<close> and the like, of a list that is not empty.\<close>

definition cf_first_block :: "'i nir_cf_node list \<Rightarrow> 'i nir_block result" where
  "cf_first_block nodes = (if nodes = [] then Inl Undefined else nir_cf_node_as_block (hd nodes))"

definition cf_last_block :: "'i nir_cf_node list \<Rightarrow> 'i nir_block result" where
  "cf_last_block nodes = (if nodes = [] then Inl Undefined else nir_cf_node_as_block (List.last nodes))"

definition nir_block_ends_in_jump :: "'i nir_block \<Rightarrow> bool" where
  "nir_block_ends_in_jump block \<longleftrightarrow>
     block_instrs block \<noteq> [] \<and> (case List.last (block_instrs block) of JUMP_INSTR _ \<Rightarrow> True | _ \<Rightarrow> False)"

text \<open>The only successor of a block.\<close>

definition single_successor :: "'i nir_block \<Rightarrow> nat result" where
  "single_successor block =
     (case (successor0 block, successor1 block) of (Some b, None) \<Rightarrow> Inr b | _ \<Rightarrow> Inl Assertion)"

section \<open>Steps that may fail\<close>

text \<open>\<open>if (!f(...)) return false;\<close>\<close>

definition and_then :: "(bool \<times> ntd_context) result \<Rightarrow> bool ntd \<Rightarrow> (bool \<times> ntd_context) result" where
  "and_then r f = bind_result r (\<lambda>(ok, ctx). if ok then f ctx else Inr (False, ctx))"

definition succeed :: "ntd_context result \<Rightarrow> (bool \<times> ntd_context) result" where
  "succeed r = bind_result r (\<lambda>ctx. Inr (True, ctx))"

section \<open>Branches\<close>

definition change_mod :: "(dxil_module \<Rightarrow> dxil_module result) \<Rightarrow> ntd_context \<Rightarrow> ntd_context result" where
  "change_mod f ctx = bind_result (f (ntd_mod ctx)) (\<lambda>m. Inr (ctx\<lparr>ntd_mod := m\<rparr>))"

definition ntd_emit_cond_branch :: "val_ref \<Rightarrow> nat \<Rightarrow> nat \<Rightarrow> bool ntd" where
  "ntd_emit_cond_branch cond_value true_block false_block ctx =
     succeed (change_mod (dxil_emit_branch (Some cond_value) true_block false_block) ctx)"

text \<open>The second block of an unconditional branch, \<open>-1\<close> in the code, is not used.\<close>

definition ntd_emit_branch :: "nat \<Rightarrow> bool ntd" where
  "ntd_emit_branch block ctx = succeed (change_mod (dxil_emit_branch None block 0) ctx)"

definition emit_jump :: "'i nir_block \<Rightarrow> nir_jump_type \<Rightarrow> bool ntd" where
  "emit_jump block type ctx =
     (if type = nir_jump_break \<or> type = nir_jump_continue
      then bind_result (single_successor block) (\<lambda>b. ntd_emit_branch b ctx)
      else Inl Unreachable)"

section \<open>Phis\<close>

text \<open>The type of the first source that has been emitted.\<close>

fun first_source_type :: "ntd_context \<Rightarrow> (nat \<times> nir_def) list \<Rightarrow> ty result" where
  "first_source_type ctx [] = Inl Assertion"
| "first_source_type ctx ((pred, def) # srcs) =
     bind_result (read_at (def_index def) (ntd_defs ctx)) (\<lambda>chans.
     bind_result (read_at 0 chans) (\<lambda>v.
       case v of Some v \<Rightarrow> Inr (ntd_type_of ctx v) | None \<Rightarrow> first_source_type ctx srcs))"

fun phi_components :: "nir_def \<Rightarrow> ty \<Rightarrow> nat list \<Rightarrow> val_ref list ntd" where
  "phi_components def type [] ctx = Inr ([], ctx)"
| "phi_components def type (i # is) ctx =
     bind_result (on_mod (dxil_emit_phi type) ctx) (\<lambda>(phi, ctx).
     bind_result (dxil_instr_get_return_value (ntd_mod ctx) phi) (\<lambda>v.
     bind_result (case v of None \<Rightarrow> Inl Undefined | Some v \<Rightarrow> store_ssa_def def i v ctx) (\<lambda>ctx.
     bind_result (phi_components def type is ctx) (\<lambda>(phis, ctx). Inr (phi # phis, ctx)))))"

definition ntd_emit_phi :: "nir_phi_instr \<Rightarrow> bool ntd" where
  "ntd_emit_phi phi ctx =
     bind_result (first_source_type ctx (phi_srcs phi)) (\<lambda>type.
       if def_num_components (phi_def phi) > NIR_MAX_VEC_COMPONENTS then Inl Undefined else
       bind_result (phi_components (phi_def phi) type [0..<def_num_components (phi_def phi)] ctx) (\<lambda>(comps, ctx).
         Inr (True, ctx\<lparr>ntd_phis := ntd_phis ctx @ [(phi, comps)]\<rparr>)))"

text \<open>The incoming values of a component, handed over sixteen at a time.\<close>

definition fixup_batch :: nat where
  "fixup_batch = 16"

fun fixup_component ::
  "val_ref \<Rightarrow> nat \<Rightarrow> (nat \<times> nir_def) list \<Rightarrow> (val_ref option \<times> nat) list \<Rightarrow> ntd_context \<Rightarrow> ntd_context result" where
  "fixup_component phi_val i [] incoming ctx =
     (if incoming = [] then Inr ctx else change_mod (dxil_phi_add_incoming phi_val incoming) ctx)"
| "fixup_component phi_val i ((pred, def) # srcs) incoming ctx =
     bind_result (get_src_ssa def i ctx) (\<lambda>v.
       let incoming = incoming @ [(Some v, pred)]
       in if length incoming = fixup_batch
          then bind_result (change_mod (dxil_phi_add_incoming phi_val incoming) ctx) (fixup_component phi_val i srcs [])
          else fixup_component phi_val i srcs incoming ctx)"

fun fixup_components ::
  "nir_phi_instr \<Rightarrow> nat \<Rightarrow> val_ref list \<Rightarrow> ntd_context \<Rightarrow> ntd_context result" where
  "fixup_components phi i [] ctx = Inr ctx"
| "fixup_components phi i (phi_val # comps) ctx =
     bind_result (fixup_component phi_val i (phi_srcs phi) [] ctx) (fixup_components phi (Suc i) comps)"

definition fixup_phi :: "nir_phi_instr \<Rightarrow> val_ref list \<Rightarrow> ntd_context \<Rightarrow> ntd_context result" where
  "fixup_phi phi comps = fixup_components phi 0 comps"

section \<open>Instructions and blocks\<close>

definition ntd_emit_instr :: "('i \<Rightarrow> bool ntd) \<Rightarrow> 'i nir_block \<Rightarrow> 'i nir_instr \<Rightarrow> bool ntd" where
  "ntd_emit_instr other block instr ctx =
     (case instr of
        ALU_INSTR alu \<Rightarrow> emit_alu alu ctx
      | LOAD_CONST_INSTR load_const \<Rightarrow> succeed (emit_load_const load_const ctx)
      | JUMP_INSTR type \<Rightarrow> emit_jump block type ctx
      | PHI_INSTR phi \<Rightarrow> ntd_emit_phi phi ctx
      | UNDEF_INSTR def \<Rightarrow> succeed (emit_undefined def ctx)
      | OTHER_INSTR instr \<Rightarrow> other instr ctx
      | UNSUPPORTED_INSTR \<Rightarrow> Inr (False, ctx))"

fun emit_instrs :: "('i \<Rightarrow> bool ntd) \<Rightarrow> 'i nir_block \<Rightarrow> 'i nir_instr list \<Rightarrow> bool ntd" where
  "emit_instrs other block [] ctx = Inr (True, ctx)"
| "emit_instrs other block (instr # instrs) ctx =
     and_then (ntd_emit_instr other block instr ctx) (emit_instrs other block instrs)"

text \<open>\<open>basic_block_ids[block->index] = curr_block\<close>\<close>

definition set_block_id :: "nat \<Rightarrow> dxil_module \<Rightarrow> dxil_module result" where
  "set_block_id b m =
     (case cur_emitting_func m of
        None \<Rightarrow> Inl Undefined
      | Some f \<Rightarrow>
          bind_result (read_at f (func_def_list m)) (\<lambda>def.
            if b < length (basic_block_ids def)
            then Inr (m\<lparr>func_def_list := (func_def_list m)
                   [f := def\<lparr>basic_block_ids := (basic_block_ids def)[b := int (curr_block def)]\<rparr>]\<rparr>)
            else Inl Assertion))"

definition emit_block :: "('i \<Rightarrow> bool ntd) \<Rightarrow> 'i nir_block \<Rightarrow> bool ntd" where
  "emit_block other block ctx =
     bind_result (change_mod (set_block_id (block_index block)) ctx)
       (emit_instrs other block (block_instrs block))"

section \<open>Conditionals and loops\<close>

text \<open>What \<open>emit_if\<close> asks of its blocks before it branches: the targets, and where each side goes on.\<close>

definition if_targets ::
  "'i nir_cf_node list \<Rightarrow> 'i nir_cf_node list \<Rightarrow> (nat \<times> nat \<times> nat \<times> nat) result" where
  "if_targets thens elses =
     bind_result (cf_first_block thens) (\<lambda>then_block.
     bind_result (cf_last_block thens) (\<lambda>last_then.
     bind_result (single_successor last_then) (\<lambda>then_succ.
       if elses = [] then Inr (block_index then_block, then_succ, then_succ, 0)
       else
         bind_result (cf_first_block elses) (\<lambda>else_block.
         bind_result (cf_last_block elses) (\<lambda>last_else.
         bind_result (single_successor last_else) (\<lambda>else_succ.
           Inr (block_index then_block, block_index else_block, then_succ, else_succ)))))))"

text \<open>A branch at the end of a list unless its last block has jumped.\<close>

definition leave_list :: "'i nir_cf_node list \<Rightarrow> nat \<Rightarrow> bool ntd" where
  "leave_list nodes succ ctx =
     bind_result (cf_last_block nodes) (\<lambda>block.
       if nir_block_ends_in_jump block then Inr (True, ctx) else ntd_emit_branch succ ctx)"

fun emit_cf_node :: "('i \<Rightarrow> bool ntd) \<Rightarrow> 'i nir_cf_node \<Rightarrow> bool ntd"
and emit_cf_list :: "('i \<Rightarrow> bool ntd) \<Rightarrow> 'i nir_cf_node list \<Rightarrow> bool ntd" where
  "emit_cf_node other (CF_BLOCK block) ctx = emit_block other block ctx"
| "emit_cf_node other (CF_IF cond_src thens elses) ctx =
     (if def_num_components (src_ssa cond_src) \<noteq> 1 then Inl Assertion else
      bind_result (get_src cond_src 0 nir_type_bool ctx) (\<lambda>(cond_value, ctx).
      bind_result (if_targets thens elses) (\<lambda>(then_block, else_target, then_succ, else_succ).
        and_then (and_then (and_then (ntd_emit_cond_branch cond_value then_block else_target ctx)
          (\<lambda>ctx. emit_cf_list other thens ctx))
          (leave_list thens then_succ))
          (\<lambda>ctx. if elses = [] then Inr (True, ctx)
                 else and_then (emit_cf_list other elses ctx) (leave_list elses else_succ)))))"
| "emit_cf_node other (CF_LOOP body continues) ctx =
     (if continues \<noteq> [] then Inl Assertion else
      bind_result (cf_first_block body) (\<lambda>first_block.
      bind_result (cf_last_block body) (\<lambda>last_block.
      bind_result (single_successor last_block) (\<lambda>_.
        and_then (and_then (ntd_emit_branch (block_index first_block) ctx)
          (\<lambda>ctx. emit_cf_list other body ctx))
          (leave_list body (block_index first_block))))))"
| "emit_cf_list other [] ctx = Inr (True, ctx)"
| "emit_cf_list other (node # nodes) ctx =
     and_then (emit_cf_node other node ctx) (\<lambda>ctx. emit_cf_list other nodes ctx)"

section \<open>The body of a function\<close>

fun fixup_phis :: "(nir_phi_instr \<times> val_ref list) list \<Rightarrow> ntd_context \<Rightarrow> ntd_context result" where
  "fixup_phis [] ctx = Inr ctx"
| "fixup_phis ((phi, comps) # phis) ctx = bind_result (fixup_phi phi comps ctx) (fixup_phis phis)"

text \<open>
  The end of \<open>emit_function\<close>. The phis, which the code keeps in a hash table, are completed in the order in
  which they were emitted; each is changed on its own.
\<close>

definition emit_function_body :: "('i \<Rightarrow> bool ntd) \<Rightarrow> 'i nir_cf_node list \<Rightarrow> bool ntd" where
  "emit_function_body other body ctx =
     and_then (emit_cf_list other body ctx) (\<lambda>ctx.
       bind_result (fixup_phis (ntd_phis ctx) ctx) (\<lambda>ctx. succeed (change_mod dxil_emit_ret_void ctx)))"

end
