(* ===== verification/Ntd_Block.thy ===== *)
theory Ntd_Block
  imports Ntd_Alu_Emit Ntd_Consts Ntd_Control
begin

unbundle bit_operations_syntax

text \<open>
  The translation of a block without calls: if the definitions that the context holds have the values that NIR
  gives them, the ones of the block have them after it.
\<close>

section \<open>The values that NIR gives\<close>

text \<open>The bits of each component of each definition, where they are promised.\<close>

type_synonym nir_env = "nat \<Rightarrow> nat \<Rightarrow> int option"

definition src_value :: "nir_env \<Rightarrow> nir_alu_src \<Rightarrow> int option" where
  "src_value env s = env (def_index (src_ssa (alu_src s))) (hd (swizzle s))"

text \<open>The bit size that \<open>nir_try_constant_fold_alu\<close> hands to \<open>nir_eval_const_opcode\<close>.\<close>

fun first_unsized :: "nir_alu_type list \<Rightarrow> nir_alu_src list \<Rightarrow> nat" where
  "first_unsized (t # ts) (s # ss) =
     (if nir_alu_type_get_type_size t = 0 then src_size s else first_unsized ts ss)"
| "first_unsized _ _ = 32"

definition alu_bit_size :: "nir_alu_instr \<Rightarrow> nat" where
  "alu_bit_size alu =
     (if nir_alu_type_get_type_size (output_type (alu_op alu)) = 0 then def_bit_size (alu_def alu)
      else first_unsized (input_types (alu_op alu)) (alu_srcs alu))"

definition alu_value :: "nir_env \<Rightarrow> nir_alu_instr \<Rightarrow> int option" where
  "alu_value env alu =
     (case those (map (src_value env) (alu_srcs alu)) of
        None \<Rightarrow> None
      | Some src \<Rightarrow>
          if alu_defined alu (alu_bit_size alu) src
          then (case alu_eval alu (alu_bit_size alu) src of Inr k \<Rightarrow> Some k | Inl e \<Rightarrow> None) else None)"

definition vec_size :: "nir_op \<Rightarrow> nat option" where
  "vec_size op =
     (if op = MOVE_OP nir_op_vec2 then Some 2 else if op = MOVE_OP nir_op_vec3 then Some 3
      else if op = MOVE_OP nir_op_vec4 then Some 4 else if op = MOVE_OP nir_op_vec8 then Some 8
      else if op = MOVE_OP nir_op_vec16 then Some 16 else None)"

text \<open>The definition of an instruction, how many components it has, and their values, given whether it is used
  as a floating-point number.\<close>

fun dest :: "'i nir_instr \<Rightarrow> nat" where
  "dest (ALU_INSTR alu) = def_index (alu_def alu)"
| "dest (LOAD_CONST_INSTR lc) = def_index (load_def lc)"
| "dest (UNDEF_INSTR def) = def_index def"
| "dest _ = 0"

fun num_results :: "'i nir_instr \<Rightarrow> nat" where
  "num_results (ALU_INSTR alu) = (case vec_size (alu_op alu) of None \<Rightarrow> 1 | Some n \<Rightarrow> n)"
| "num_results (LOAD_CONST_INSTR lc) = length (load_values lc)"
| "num_results (UNDEF_INSTR def) = def_num_components def"
| "num_results _ = 0"

fun results :: "(nat \<Rightarrow> bool) \<Rightarrow> nir_env \<Rightarrow> 'i nir_instr \<Rightarrow> int option list" where
  "results fl env (ALU_INSTR alu) =
     (if vec_size (alu_op alu) = None then [alu_value env alu] else map (src_value env) (alu_srcs alu))"
| "results fl env (LOAD_CONST_INSTR lc) =
     map (const_meaning (fl (def_index (load_def lc))) (def_bit_size (load_def lc))) (load_values lc)"
| "results fl env (UNDEF_INSTR def) = replicate (def_num_components def) None"
| "results fl env _ = []"

definition exec_instr :: "(nat \<Rightarrow> bool) \<Rightarrow> 'i nir_instr \<Rightarrow> nir_env \<Rightarrow> nir_env" where
  "exec_instr fl instr env =
     (let ks = results fl env instr in (\<lambda>d c. if d = dest instr \<and> c < length ks then ks ! c else env d c))"

fun exec_instrs :: "(nat \<Rightarrow> bool) \<Rightarrow> 'i nir_instr list \<Rightarrow> nir_env \<Rightarrow> nir_env" where
  "exec_instrs fl [] env = env"
| "exec_instrs fl (instr # instrs) env = exec_instrs fl instrs (exec_instr fl instr env)"

section \<open>Well-formed blocks\<close>

text \<open>
  \<open>known\<close> gives the values of the definitions that are a \<open>load_const\<close>; \<open>avail\<close> is what has been defined
  before.
\<close>

definition src_ok ::
  "(nat \<Rightarrow> nat) \<Rightarrow> (nat \<Rightarrow> nir_const_value list option) \<Rightarrow> (nat \<times> nat) list \<Rightarrow> nir_alu_src \<Rightarrow> bool" where
  "src_ok sizes known avail s \<longleftrightarrow>
     swizzle s \<noteq> [] \<and>
     (let def = src_ssa (alu_src s) in
      (def_index def, hd (swizzle s)) \<in> set avail \<and> hd (swizzle s) < def_num_components def \<and>
      def_bit_size def = sizes (def_index def) \<and> def_bit_size def \<in> {1, 16, 32, 64} \<and>
      src_const (alu_src s) = known (def_index def) \<and>
      (case known (def_index def) of None \<Rightarrow> True | Some vals \<Rightarrow> hd (swizzle s) < length vals))"

fun instr_ok ::
  "(nat \<Rightarrow> nat) \<Rightarrow> (nat \<Rightarrow> nir_const_value list option) \<Rightarrow> ntd_context \<Rightarrow> (nat \<times> nat) list \<Rightarrow> 'i nir_instr \<Rightarrow> bool" where
  "instr_ok sizes known ctx avail (ALU_INSTR alu) \<longleftrightarrow>
     (\<forall>s \<in> set (alu_srcs alu). src_ok sizes known avail s) \<and> known (def_index (alu_def alu)) = None \<and>
     (case vec_size (alu_op alu) of
        None \<Rightarrow> alu_typed alu (alu_bit_size alu) \<and> direct_op alu (alu_bit_size alu) \<and> place_ok sizes ctx (alu_def alu) 0
      | Some n \<Rightarrow>
          length (alu_srcs alu) = n \<and> components_ok sizes ctx (alu_def alu) 0 n \<and>
          (\<forall>s \<in> set (alu_srcs alu). src_size s = def_bit_size (alu_def alu) \<and>
             def_index (src_ssa (alu_src s)) \<noteq> def_index (alu_def alu)))"
| "instr_ok sizes known ctx avail (LOAD_CONST_INSTR lc) \<longleftrightarrow>
     components_ok sizes ctx (load_def lc) 0 (def_num_components (load_def lc)) \<and>
     length (load_values lc) = def_num_components (load_def lc) \<and> def_bit_size (load_def lc) \<in> {1, 16, 32, 64} \<and>
     (def_bit_size (load_def lc) = 1 \<longrightarrow> \<not> float_def ctx (def_index (load_def lc))) \<and>
     def_bit_size (load_def lc) = sizes (def_index (load_def lc)) \<and>
     known (def_index (load_def lc)) = Some (load_values lc)"
| "instr_ok sizes known ctx avail (UNDEF_INSTR def) \<longleftrightarrow>
     components_ok sizes ctx def 0 (def_num_components def) \<and> def_bit_size def = 32 \<and> known (def_index def) = None"
| "instr_ok sizes known ctx avail _ \<longleftrightarrow> False"

definition written :: "'i nir_instr \<Rightarrow> (nat \<times> nat) list" where
  "written instr = map (Pair (dest instr)) [0..<num_results instr]"

fun block_ok ::
  "(nat \<Rightarrow> nat) \<Rightarrow> (nat \<Rightarrow> nir_const_value list option) \<Rightarrow> ntd_context \<Rightarrow> (nat \<times> nat) list \<Rightarrow> 'i nir_instr list \<Rightarrow> bool" where
  "block_ok sizes known ctx avail [] \<longleftrightarrow> True"
| "block_ok sizes known ctx avail (instr # instrs) \<longleftrightarrow>
     instr_ok sizes known ctx avail instr \<and> block_ok sizes known ctx (written instr @ avail) instrs"

text \<open>The context has a value for everything that is available.\<close>

definition defined :: "ntd_context \<Rightarrow> (nat \<times> nat) list \<Rightarrow> bool" where
  "defined ctx avail \<longleftrightarrow> (\<forall>(d, c) \<in> set avail. stored ctx d c \<noteq> None)"

text \<open>Values have their sizes, and those of a \<open>load_const\<close> are its own.\<close>

definition env_ok :: "(nat \<Rightarrow> nat) \<Rightarrow> (nat \<Rightarrow> nir_const_value list option) \<Rightarrow> nir_env \<Rightarrow> bool" where
  "env_ok sizes known env \<longleftrightarrow>
     (\<forall>d c k. env d c = Some k \<longrightarrow> pattern (sizes d) k \<and>
        (\<forall>vals. known d = Some vals \<longrightarrow> c < length vals \<longrightarrow> k = const_pattern (sizes d) (vals ! c)))"

text \<open>The values of the module are those of NIR.\<close>

definition env_holds :: "valuation \<Rightarrow> ntd_context \<Rightarrow> nir_env \<Rightarrow> bool" where
  "env_holds rho ctx env \<longleftrightarrow> (\<forall>d c k. env d c = Some k \<longrightarrow> (\<exists>v. stored ctx d c = Some v \<and> rho v = Some k))"

section \<open>What a row of stores leaves\<close>

lemma stores_stored:
  assumes "stores sizes ctx ctx' d c x" and "d < length (ntd_defs ctx)" and "c < length (ntd_defs ctx ! d)"
  shows "\<exists>v t. stored ctx' d c = Some v \<and> holds (ntd_mod ctx') v t x"
    and "\<not> (d' = d \<and> c' = c) \<Longrightarrow> stored ctx' d' c' = stored ctx d' c'"
proof -
  obtain ctx1 v t where 1: "ctx_extends ctx ctx1" "holds (ntd_mod ctx1) v t x"
    "ctx' = ctx1\<lparr>ntd_defs := (ntd_defs ctx)[d := (ntd_defs ctx ! d)[c := Some v]]\<rparr>"
    using assms(1) unfolding stores_def by blast
  note st = stored_update [OF assms(2,3), of ctx' "Some v"]
  show "\<exists>v t. stored ctx' d c = Some v \<and> holds (ntd_mod ctx') v t x"
    using st [of d c] 1(2,3) by auto
  show "\<not> (d' = d \<and> c' = c) \<Longrightarrow> stored ctx' d' c' = stored ctx d' c'"
    using st [of d' c'] 1(3) by auto
qed

lemma stores_all_stored:
  assumes "stores_all sizes ctx ctx' d c xs" and "d < length (ntd_defs ctx)" and "c + length xs \<le> length (ntd_defs ctx ! d)"
  shows "(\<forall>i < length xs. \<exists>v t. stored ctx' d (c + i) = Some v \<and> holds (ntd_mod ctx') v t (xs ! i)) \<and>
    (\<forall>d' c'. \<not> (d' = d \<and> c \<le> c' \<and> c' < c + length xs) \<longrightarrow> stored ctx' d' c' = stored ctx d' c')"
  using assms
proof (induction xs arbitrary: ctx c)
  case Nil
  then show ?case using stored_extends by simp
next
  case (Cons x xs)
  obtain ctx1 where 1: "stores sizes ctx ctx1 d c x" "stores_all sizes ctx1 ctx' d (Suc c) xs"
    using Cons.prems(1) by auto
  have c: "c < length (ntd_defs ctx ! d)" using Cons.prems(3) by simp
  note shape = stores_shape [OF 1(1)]
  have l: "d < length (ntd_defs ctx1)" "Suc c + length xs \<le> length (ntd_defs ctx1 ! d)"
    using shape_lengths [OF shape] Cons.prems(2,3) by simp_all
  note rest = Cons.IH [OF 1(2) l]
  note here = stores_stored [OF 1(1) Cons.prems(2) c]
  obtain v t where v: "stored ctx1 d c = Some v" "holds (ntd_mod ctx1) v t x" using here(1) by blast
  have head: "stored ctx' d c = Some v" using rest v(1) by simp
  have hv: "holds (ntd_mod ctx') v t x" using holds_extends [OF v(2) stores_all_mod [OF 1(2)]] .
  show ?case
  proof (intro conjI allI impI)
    fix i assume "i < length (x # xs)"
    then show "\<exists>v t. stored ctx' d (c + i) = Some v \<and> holds (ntd_mod ctx') v t ((x # xs) ! i)"
      using head hv rest by (cases i) auto
  next
    fix d' c' assume "\<not> (d' = d \<and> c \<le> c' \<and> c' < c + length (x # xs))"
    then show "stored ctx' d' c' = stored ctx d' c'" using rest here(2) [of d' c'] by auto
  qed
qed

section \<open>Each kind of instruction\<close>

definition performs ::
  "(nat \<Rightarrow> nat) \<Rightarrow> ntd_context \<Rightarrow> (bool \<times> ntd_context) result \<Rightarrow> nat \<Rightarrow> (valuation \<Rightarrow> int option) list \<Rightarrow> bool" where
  "performs sizes ctx r d xs \<longleftrightarrow>
     (\<exists>ctx'. r = Inr (True, ctx') \<and> ctx_ok sizes ctx' \<and> stores_all sizes ctx ctx' d 0 xs)"

lemma src_readable_stores:
  assumes "stores sizes ctx ctx' d c x" and "d < length (ntd_defs ctx)" and "c < length (ntd_defs ctx ! d)"
    and "src_readable sizes ctx src chan v" and "def_index (src_ssa src) \<noteq> d"
  shows "src_readable sizes ctx' src chan v"
  using assms(4,5) stores_stored(2) [OF assms(1-3)] by (simp add: src_readable_def)

definition vec_src :: "(nat \<Rightarrow> nat) \<Rightarrow> ntd_context \<Rightarrow> nir_def \<Rightarrow> nir_alu_src \<Rightarrow> val_ref \<Rightarrow> bool" where
  "vec_src sizes ctx def s v \<longleftrightarrow> swizzle s \<noteq> [] \<and> src_readable sizes ctx (alu_src s) (hd (swizzle s)) v \<and>
     src_size s = def_bit_size def \<and> def_index (src_ssa (alu_src s)) \<noteq> def_index def"

lemma vec_from_stores:
  assumes "ctx_ok sizes ctx" and "components_ok sizes ctx (alu_def alu) c (length srcs)"
    and "list_all2 (vec_src sizes ctx (alu_def alu)) srcs vs"
  shows "\<exists>ctx'. vec_from alu c srcs ctx = Inr ctx' \<and> ctx_ok sizes ctx' \<and>
    stores_all sizes ctx ctx' (def_index (alu_def alu)) c (map (\<lambda>v rho. rho v) vs)"
  using assms
proof (induction srcs arbitrary: ctx c vs)
  case Nil
  then show ?case using ctx_extends_refl [OF ready_types [OF ctx_ok_ready]] by auto
next
  case (Cons s srcs)
  let ?def = "alu_def alu"
  obtain v vs' where vs: "vs = v # vs'" and s: "vec_src sizes ctx ?def s v"
    and rest: "list_all2 (vec_src sizes ctx ?def) srcs vs'" using Cons.prems(3) by (auto simp: list_all2_Cons1)
  have r: "swizzle s \<noteq> []" "src_readable sizes ctx (alu_src s) (hd (swizzle s)) v" "src_size s = def_bit_size ?def"
    using s by (simp_all add: vec_src_def)
  have place: "place_ok sizes ctx ?def c" "components_ok sizes ctx ?def (Suc c) (length srcs)"
    using Cons.prems(2) by (simp_all add: components_ok_Suc)
  obtain t where t: "t \<in> arith_types" "of_type (ntd_mod ctx) v t" "scalar_width t = Some (src_size s)" "flags_ok ctx t"
    using stored_value_type [OF Cons.prems(1) r(2)] by blast
  have "scalar_width t = Some (sizes (def_index ?def))" using t(3) r(3) place(1) by (simp add: place_ok_def)
  from store_def_stores [OF Cons.prems(1) holds_self [OF t(2)] t(1) this place(1)]
  obtain ctx1 where 1: "store_def ?def c v ctx = Inr ctx1" "stores sizes ctx ctx1 (def_index ?def) c (\<lambda>rho. rho v)" by blast
  note bounds = place_ok_bounds [OF place(1)]
  have ok1: "ctx_ok sizes ctx1" using stores_ctx_ok [OF 1(2) Cons.prems(1)] bounds by blast
  have rest1: "list_all2 (vec_src sizes ctx1 ?def) srcs vs'"
    by (rule list_all2_mono [OF rest]) (use src_readable_stores [OF 1(2)] bounds in \<open>auto simp: vec_src_def\<close>)
  obtain ctx' where 2: "vec_from alu (Suc c) srcs ctx1 = Inr ctx'" "ctx_ok sizes ctx'"
    "stores_all sizes ctx1 ctx' (def_index ?def) (Suc c) (map (\<lambda>v rho. rho v) vs')"
    using Cons.IH [OF ok1 components_ok_shape [OF stores_shape [OF 1(2)] place(2)] rest1] by blast
  have "vec_from alu c (s # srcs) ctx = Inr ctx'"
    using r(1) get_src_ssa_readable [OF r(2)] 1(1) 2(1) by (simp add: read_at_def hd_conv_nth store_alu_dest_def)
  then show ?case using 1(2) 2(2,3) by (auto simp: vs)
qed

text \<open>The value that the context has for a source.\<close>

definition src_ref :: "ntd_context \<Rightarrow> nir_alu_src \<Rightarrow> val_ref" where
  "src_ref ctx s = the (stored ctx (def_index (src_ssa (alu_src s))) (hd (swizzle s)))"

lemma src_ok_readable:
  assumes "defined ctx avail" and "src_ok sizes known avail s"
  shows "swizzle s \<noteq> []" and "src_readable sizes ctx (alu_src s) (hd (swizzle s)) (src_ref ctx s)" and "const_src_ok s"
proof -
  note src = assms(2) [unfolded src_ok_def Let_def]
  show "swizzle s \<noteq> []" using src by blast
  have "stored ctx (def_index (src_ssa (alu_src s))) (hd (swizzle s)) \<noteq> None"
    using assms(1) src unfolding defined_def by blast
  then show "src_readable sizes ctx (alu_src s) (hd (swizzle s)) (src_ref ctx s)"
    using src by (auto simp: src_readable_def src_ref_def nir_src_bit_size_def)
  show "const_src_ok s"
    using src by (auto simp: const_src_ok_def nir_src_is_const_def nir_src_comp_as_uint_def nir_src_comp_const_def
        nir_const_value_as_uint_def nir_src_bit_size_def split: option.splits)
qed

lemma src_value_holds:
  assumes "defined ctx avail" and "src_ok sizes known avail s" and "env_holds rho ctx env" and "env_ok sizes known env"
    and "src_value env s = Some k"
  shows "rho (src_ref ctx s) = Some k" and "src_fits s k"
proof -
  note src = assms(2) [unfolded src_ok_def Let_def]
  let ?d = "def_index (src_ssa (alu_src s))" let ?c = "hd (swizzle s)"
  have k: "env ?d ?c = Some k" using assms(5) by (simp add: src_value_def)
  then obtain v where "stored ctx ?d ?c = Some v" "rho v = Some k" using assms(3) unfolding env_holds_def by blast
  then show "rho (src_ref ctx s) = Some k" by (simp add: src_ref_def)
  have p: "pattern (sizes ?d) k" using assms(4) k unfolding env_ok_def by blast
  have "const_matches (alu_src s) ?c k"
  proof (cases "known ?d")
    case None
    then show ?thesis using src by (simp add: const_matches_def)
  next
    case (Some vals)
    then have c: "?c < length vals" "src_const (alu_src s) = Some vals" using src by auto
    have "k = const_pattern (sizes ?d) (vals ! ?c)" using assms(4) k Some c(1) unfolding env_ok_def by blast
    moreover have "sizes ?d \<in> {1, 16, 32, 64}" "src_size s = sizes ?d" using src by (auto simp: nir_src_bit_size_def)
    moreover have "uint (take_bit n u) = take_bit n (uint u)" "take_bit 64 (uint u) = uint u" for n and u :: "64 word"
      using uint_lt2p [of u] by (simp_all add: unsigned_take_bit_eq take_bit_int_eq_self)
    ultimately show ?thesis using c
      by (auto simp: const_matches_def nir_src_comp_as_uint_def nir_src_comp_const_def nir_const_value_as_uint_def
          const_pattern_def unsigned_ucast_eq take_bit_int_eq_self)
  qed
  then show "src_fits s k" using p src by (simp add: src_fits_def nir_src_bit_size_def)
qed

lemma single_performs:
  assumes "ctx_ok sizes ctx" and "computes sizes alu ctx r x" and "place_ok sizes ctx (alu_def alu) 0"
  shows "performs sizes ctx r (def_index (alu_def alu)) [x]"
proof -
  obtain ctx' where 1: "r = Inr (True, ctx')" "stores sizes ctx ctx' (def_index (alu_def alu)) 0 x"
    using assms(2) unfolding computes_def by blast
  have "ctx_ok sizes ctx'" using stores_ctx_ok [OF 1(2) assms(1)] place_ok_bounds [OF assms(3)] by blast
  moreover from this have "ctx_extends ctx' ctx'" by (rule ctx_extends_refl [OF ready_types [OF ctx_ok_ready]])
  ultimately show ?thesis using 1 by (auto simp: performs_def)
qed

lemma list_all2_map_self: "list_all2 P xs (map f xs) \<longleftrightarrow> (\<forall>x \<in> set xs. P x (f x))"
  by (induction xs) auto

lemma alu_performs:
  assumes "ctx_ok sizes ctx" and "defined ctx avail" and ok: "instr_ok sizes known ctx avail (ALU_INSTR alu)"
    and "vec_size (alu_op alu) = None"
  shows "performs sizes ctx (emit_alu alu ctx) (def_index (alu_def alu))
    [alu_meaning alu (alu_bit_size alu) (map (src_ref ctx) (alu_srcs alu))]"
proof -
  have place: "place_ok sizes ctx (alu_def alu) 0" and direct: "direct_op alu (alu_bit_size alu)"
    and typed: "alu_typed alu (alu_bit_size alu)" using ok assms(4) by simp_all
  have "readable_srcs sizes ctx alu (map (src_ref ctx) (alu_srcs alu))"
    unfolding readable_srcs_def list_all2_map_self using ok src_ok_readable [OF assms(2)] by auto
  then have "alu_ok sizes ctx alu (alu_bit_size alu) (map (src_ref ctx) (alu_srcs alu))"
    using assms(1) typed place by (simp add: alu_ok_def)
  from single_performs [OF assms(1) emit_alu_computes [OF this direct] place] show ?thesis .
qed

lemma alu_value_meaning:
  assumes "defined ctx avail" and srcs: "\<forall>s \<in> set (alu_srcs alu). src_ok sizes known avail s"
    and "env_holds rho ctx env" and "env_ok sizes known env" and "alu_value env alu = Some k"
  shows "alu_meaning alu (alu_bit_size alu) (map (src_ref ctx) (alu_srcs alu)) rho = Some k"
proof -
  obtain src where src: "map (src_value env) (alu_srcs alu) = map Some src" "alu_defined alu (alu_bit_size alu) src"
    "alu_eval alu (alu_bit_size alu) src = Inr k"
    using assms(5) by (auto simp: alu_value_def those_Some split: option.splits if_splits sum.splits)
  have l: "length src = length (alu_srcs alu)" using arg_cong [OF src(1), of length] by simp
  have each: "rho (src_ref ctx (alu_srcs alu ! i)) = Some (src ! i) \<and> src_fits (alu_srcs alu ! i) (src ! i)"
    if i: "i < length (alu_srcs alu)" for i
  proof -
    have "src_value env (alu_srcs alu ! i) = Some (src ! i)"
      using arg_cong [OF src(1), of "\<lambda>xs. xs ! i"] i l by simp
    then show ?thesis using src_value_holds [OF assms(1) _ assms(3,4)] srcs i by auto
  qed
  have "map rho (map (src_ref ctx) (alu_srcs alu)) = map Some src"
    by (rule nth_equalityI) (use l each in simp_all)
  then have "those (map rho (map (src_ref ctx) (alu_srcs alu))) = Some src" unfolding those_Some .
  moreover have "list_all2 src_fits (alu_srcs alu) src" using l each by (simp add: list_all2_conv_all_nth)
  ultimately show ?thesis using src(2,3) by (simp add: alu_meaning_def del: map_map)
qed

lemma vec_size_emit:
  assumes "vec_size (alu_op alu) = Some n" and "length (alu_srcs alu) = n"
  shows "emit_alu alu ctx = succeed (vec_from alu 0 (alu_srcs alu) ctx)"
  using assms by (auto simp: vec_size_def emit_alu_def emit_vec_def succeed_def split: if_splits)

lemma vec_performs:
  assumes "ctx_ok sizes ctx" and "defined ctx avail" and ok: "instr_ok sizes known ctx avail (ALU_INSTR alu)"
    and "vec_size (alu_op alu) = Some n"
  shows "performs sizes ctx (emit_alu alu ctx) (def_index (alu_def alu))
    (map (\<lambda>s rho. rho (src_ref ctx s)) (alu_srcs alu))"
proof -
  have l: "length (alu_srcs alu) = n" using ok assms(4) by simp
  have "list_all2 (vec_src sizes ctx (alu_def alu)) (alu_srcs alu) (map (src_ref ctx) (alu_srcs alu))"
    unfolding list_all2_map_self vec_src_def using ok assms(4) src_ok_readable [OF assms(2)] by auto
  from vec_from_stores [OF assms(1) _ this, of 0] obtain ctx' where
    "vec_from alu 0 (alu_srcs alu) ctx = Inr ctx'" "ctx_ok sizes ctx'"
    "stores_all sizes ctx ctx' (def_index (alu_def alu)) 0 (map (\<lambda>v rho. rho v) (map (src_ref ctx) (alu_srcs alu)))"
    using ok assms(4) l by auto
  then show ?thesis
    unfolding performs_def vec_size_emit [OF assms(4) l] by (simp add: succeed_def comp_def)
qed

lemma undefined_from_stores:
  assumes "ctx_ok sizes ctx" and "\<forall>i \<in> set is. place_ok sizes ctx def i" and "def_bit_size def = 32" and "is = [c..<c + n]"
  shows "\<exists>ctx'. undefined_from def is ctx = Inr ctx' \<and> ctx_ok sizes ctx' \<and>
    stores_all sizes ctx ctx' (def_index def) c (replicate n (\<lambda>rho. None))"
  using assms
proof (induction n arbitrary: ctx c "is")
  case 0
  then show ?case using ctx_extends_refl [OF ready_types [OF ctx_ok_ready]] by auto
next
  case (Suc n)
  have "is": "is = c # [Suc c..<Suc c + n]" using Suc.prems(4) by (simp add: upt_conv_Cons)
  have place: "place_ok sizes ctx def c" using Suc.prems(2) "is" by simp
  note ty = ready_types [OF ctx_ok_ready [OF Suc.prems(1)]]
  have "gives_value (on_mod (dxil_module_get_int32_const 0) ctx) ctx 32 (\<lambda>rho. None)"
    by (rule on_mod_gives_value, rule int32_const_emits [OF ty]) (simp_all add: ctx_extends_refl [OF ty] flags_ok_def)
  from store_value_stores [OF Suc.prems(1) this place Suc.prems(3)] obtain ctx1 where
    1: "bind_result (on_mod (dxil_module_get_int32_const 0) ctx) (\<lambda>(v, ctx). store_ssa_def def c v ctx) = Inr ctx1"
    "stores sizes ctx ctx1 (def_index def) c (\<lambda>rho. None)" by blast
  have ok1: "ctx_ok sizes ctx1" using stores_ctx_ok [OF 1(2) Suc.prems(1)] place_ok_bounds [OF place] by blast
  have "\<forall>i \<in> set [Suc c..<Suc c + n]. place_ok sizes ctx1 def i"
    using Suc.prems(2) place_ok_shape [OF stores_shape [OF 1(2)]] unfolding "is" by simp
  from Suc.IH [OF ok1 this Suc.prems(3) refl] obtain ctx' where
    2: "undefined_from def [Suc c..<Suc c + n] ctx1 = Inr ctx'" "ctx_ok sizes ctx'"
    "stores_all sizes ctx1 ctx' (def_index def) (Suc c) (replicate n (\<lambda>rho. None))" by blast
  have "undefined_from def is ctx = Inr ctx'"
    using 1(1) 2(1) unfolding "is" by (auto simp: bind_result_Inr_iff split: prod.splits)
  then show ?case using 1(2) 2(2,3) by auto
qed

section \<open>The values have their sizes\<close>

lemma at_size_dst: "at_size ws w (dst_bits v x) = Inr k \<Longrightarrow> pattern v k"
  using take_bit_pattern [of v x] by (auto simp: at_size_def dst_bits_def split: if_splits)

lemma at_size_of_bool: "at_size ws w (of_bool b) = Inr k \<Longrightarrow> pattern 1 k"
  by (auto simp: at_size_def split: if_splits)

lemma at_size_if: "at_size ws w (if b then x else y) = Inr k \<Longrightarrow> k = x \<or> k = y"
  by (auto simp: at_size_def split: if_splits)

lemma eval_int_op_pattern:
  "eval_int_op op w src = Inr k \<Longrightarrow> pattern (sized_as (output_type (INT_OP op)) w) k"
  by (cases op) (auto simp: sized_as_def Let_def
      evaluate_iadd_def evaluate_isub_def evaluate_imul_def evaluate_idiv_def evaluate_irem_def evaluate_imod_def
      evaluate_udiv_def evaluate_umod_def evaluate_ishl_def evaluate_ishr_def evaluate_ushr_def evaluate_iand_def
      evaluate_ior_def evaluate_ixor_def evaluate_ieq_def evaluate_ine_def evaluate_ige_def evaluate_uge_def
      evaluate_ilt_def evaluate_ult_def evaluate_imax_def evaluate_imin_def evaluate_umax_def evaluate_umin_def
      evaluate_inot_def evaluate_b2f16_def evaluate_b2f32_def evaluate_b2f64_def
      dest: at_size_dst at_size_of_bool at_size_if)

lemma eval_conversion_op_pattern:
  "eval_conversion_op op w src = Inr k \<Longrightarrow> pattern (sized_as (output_type (CONVERSION_OP op)) w) k"
  using take_bit_pattern [of 16 "signed_src 32 (src ! 0)"]
  by (cases op) (auto simp: sized_as_def
      evaluate_b2i16_def evaluate_b2i32_def evaluate_b2i64_def evaluate_i2i1_def evaluate_i2i16_def evaluate_i2i32_def
      evaluate_i2i64_def evaluate_i2imp_def evaluate_u2u1_def evaluate_u2u16_def evaluate_u2u32_def evaluate_u2u64_def
      dst_bits_def [of 16 "signed_src 32 (src ! 0)"]
      dest: at_size_dst at_size_of_bool at_size_if)

lemma alu_eval_pattern:
  assumes "alu_typed alu w" and "alu_eval alu w src = Inr k"
  shows "pattern (def_bit_size (alu_def alu)) k"
proof -
  have size: "def_bit_size (alu_def alu) = sized_as (output_type (alu_op alu)) w" using assms(1) by (simp add: alu_typed_def)
  show ?thesis
  proof (cases "alu_op alu")
    case (MOVE_OP op)
    then show ?thesis using assms(2) size take_bit_pattern [of w]
      by (auto simp: alu_eval_def evaluate_mov_def evaluate_bcsel_def at_size_Inr dst_bits_def sized_as_def split: if_splits)
  next
    case (CONVERSION_OP op)
    then show ?thesis using assms(2) size eval_conversion_op_pattern [of op w src k] by (simp add: alu_eval_def)
  next
    case (INT_OP op)
    then show ?thesis using assms(2) size eval_int_op_pattern [of op w src k] by (simp add: alu_eval_def)
  qed (use assms(2) in \<open>simp_all add: alu_eval_def\<close>)
qed

lemma const_meaning_pattern:
  assumes "const_meaning float b c = Some k" and "b \<in> {1, 16, 32, 64}"
  shows "k = const_pattern b c" and "pattern b k"
proof -
  show k: "k = const_pattern b c" using assms(1) by (simp add: const_meaning_def split: if_splits)
  show "pattern b k" using take_bit_pattern [of b "uint c"] unfolding k const_pattern_def by auto
qed

lemma results_length:
  "instr_ok sizes known ctx avail instr \<Longrightarrow> length (results fl env instr) = num_results instr"
  by (cases instr) (auto split: option.splits)

lemma results_ok:
  assumes ok: "instr_ok sizes known ctx avail instr" and env: "env_ok sizes known env"
    and c: "c < length (results fl env instr)" and k: "results fl env instr ! c = Some k"
  shows "pattern (sizes (dest instr)) k \<and>
    (\<forall>vals. known (dest instr) = Some vals \<longrightarrow> c < length vals \<longrightarrow> k = const_pattern (sizes (dest instr)) (vals ! c))"
proof (cases instr)
  case (ALU_INSTR alu)
  have known: "known (dest instr) = None" using ok ALU_INSTR by simp
  have "pattern (sizes (dest instr)) k"
  proof (cases "vec_size (alu_op alu)")
    case None
    then have "alu_value env alu = Some k" using ALU_INSTR c k by simp
    then obtain src where eval: "alu_eval alu (alu_bit_size alu) src = Inr k"
      by (auto simp: alu_value_def split: option.splits if_splits sum.splits)
    have typed: "alu_typed alu (alu_bit_size alu)" and "place_ok sizes ctx (alu_def alu) 0" using ok None ALU_INSTR by simp_all
    then have "def_bit_size (alu_def alu) = sizes (dest instr)" using ALU_INSTR by (simp add: place_ok_def)
    then show ?thesis using alu_eval_pattern [OF typed eval] by simp
  next
    case (Some n)
    then have c': "c < length (alu_srcs alu)" "src_value env (alu_srcs alu ! c) = Some k" using ALU_INSTR c k by simp_all
    let ?s = "alu_srcs alu ! c"
    have s: "src_ok sizes known avail ?s" "src_size ?s = def_bit_size (alu_def alu)" "place_ok sizes ctx (alu_def alu) c"
      using ok Some ALU_INSTR c'(1) by (auto simp: components_ok_def)
    have "pattern (sizes (def_index (src_ssa (alu_src ?s)))) k"
      using env c'(2) unfolding env_ok_def src_value_def by blast
    moreover have "sizes (def_index (src_ssa (alu_src ?s))) = src_size ?s"
      using s(1) by (simp add: src_ok_def Let_def nir_src_bit_size_def)
    ultimately show ?thesis using s(2,3) ALU_INSTR by (simp add: place_ok_def)
  qed
  then show ?thesis using known by simp
next
  case (LOAD_CONST_INSTR lc)
  then have m: "const_meaning (fl (dest instr)) (def_bit_size (load_def lc)) (load_values lc ! c) = Some k"
    using c k by simp
  have b: "def_bit_size (load_def lc) \<in> {1, 16, 32, 64}" and size: "def_bit_size (load_def lc) = sizes (dest instr)"
    and known: "known (dest instr) = Some (load_values lc)" using ok LOAD_CONST_INSTR by auto
  show ?thesis
    using const_meaning_pattern [OF m b] unfolding size known by simp
qed (use ok c k in simp_all)

lemma exec_instr_ok:
  assumes "instr_ok sizes known ctx avail instr" and "env_ok sizes known env"
  shows "env_ok sizes known (exec_instr fl instr env)"
  unfolding env_ok_def
proof (intro allI impI)
  fix d c k assume k: "exec_instr fl instr env d c = Some k"
  show "pattern (sizes d) k \<and>
    (\<forall>vals. known d = Some vals \<longrightarrow> c < length vals \<longrightarrow> k = const_pattern (sizes d) (vals ! c))"
  proof (cases "d = dest instr \<and> c < length (results fl env instr)")
    case True
    then show ?thesis using results_ok [OF assms, of c fl k] k by (simp add: exec_instr_def Let_def)
  next
    case False
    then have "env d c = Some k" using k by (auto simp: exec_instr_def Let_def split: if_splits)
    then show ?thesis using assms(2) unfolding env_ok_def by blast
  qed
qed

section \<open>One instruction\<close>

definition promises ::
  "(nat \<Rightarrow> nat) \<Rightarrow> (nat \<Rightarrow> nir_const_value list option) \<Rightarrow> ntd_context \<Rightarrow> 'i nir_instr \<Rightarrow> (valuation \<Rightarrow> int option) list \<Rightarrow> bool" where
  "promises sizes known ctx instr xs \<longleftrightarrow>
     length xs = num_results instr \<and>
     (\<forall>rho env i k. env_holds rho ctx env \<longrightarrow> env_ok sizes known env \<longrightarrow> i < num_results instr \<longrightarrow>
        results (float_def ctx) env instr ! i = Some k \<longrightarrow> (xs ! i) rho = Some k)"

lemma instr_performs:
  assumes "ctx_ok sizes ctx" and "defined ctx avail" and ok: "instr_ok sizes known ctx avail instr"
  shows "\<exists>xs. performs sizes ctx (ntd_emit_instr other block instr ctx) (dest instr) xs \<and> promises sizes known ctx instr xs"
proof (cases instr)
  case (ALU_INSTR alu)
  have srcs: "\<forall>s \<in> set (alu_srcs alu). src_ok sizes known avail s" using ok ALU_INSTR by simp
  note alu_ok = ok [unfolded ALU_INSTR]
  show ?thesis
  proof (cases "vec_size (alu_op alu)")
    case None
    show ?thesis
    proof (intro exI conjI)
      show "performs sizes ctx (ntd_emit_instr other block instr ctx) (dest instr)
          [alu_meaning alu (alu_bit_size alu) (map (src_ref ctx) (alu_srcs alu))]"
        using alu_performs [OF assms(1,2) alu_ok None] ALU_INSTR by (simp add: ntd_emit_instr_def)
      show "promises sizes known ctx instr [alu_meaning alu (alu_bit_size alu) (map (src_ref ctx) (alu_srcs alu))]"
        using alu_value_meaning [OF assms(2) srcs] ALU_INSTR None by (auto simp: promises_def)
    qed
  next
    case (Some n)
    then have l: "length (alu_srcs alu) = n" using alu_ok by simp
    have holds: "rho (src_ref ctx (alu_srcs alu ! i)) = Some k"
      if "env_holds rho ctx env" "env_ok sizes known env" "i < n" "src_value env (alu_srcs alu ! i) = Some k" for rho env i k
      using src_value_holds(1) [OF assms(2) _ that(1,2,4)] srcs that(3) l by auto
    show ?thesis
    proof (intro exI conjI)
      show "performs sizes ctx (ntd_emit_instr other block instr ctx) (dest instr)
          (map (\<lambda>s rho. rho (src_ref ctx s)) (alu_srcs alu))"
        using vec_performs [OF assms(1,2) alu_ok Some] ALU_INSTR by (simp add: ntd_emit_instr_def)
      show "promises sizes known ctx instr (map (\<lambda>s rho. rho (src_ref ctx s)) (alu_srcs alu))"
        unfolding promises_def using ALU_INSTR Some l holds by auto
    qed
  qed
next
  case (LOAD_CONST_INSTR lc)
  let ?xs = "map (\<lambda>k rho. const_meaning (float_def ctx (dest instr)) (def_bit_size (load_def lc)) k) (load_values lc)"
  have lc: "components_ok sizes ctx (load_def lc) 0 (def_num_components (load_def lc))"
    "length (load_values lc) = def_num_components (load_def lc)" "def_bit_size (load_def lc) \<in> {1, 16, 32, 64}"
    "def_bit_size (load_def lc) = 1 \<Longrightarrow> \<not> float_def ctx (def_index (load_def lc))"
    using ok unfolding LOAD_CONST_INSTR instr_ok.simps by blast+
  obtain ctx' where "emit_load_const lc ctx = Inr ctx'" "ctx_ok sizes ctx'" "stores_all sizes ctx ctx' (dest instr) 0 ?xs"
    using emit_load_const_stores [OF assms(1) lc(1,2) refl lc(3,4)] LOAD_CONST_INSTR by auto
  then have "performs sizes ctx (ntd_emit_instr other block instr ctx) (dest instr) ?xs"
    using LOAD_CONST_INSTR by (simp add: performs_def ntd_emit_instr_def succeed_def)
  moreover have "promises sizes known ctx instr ?xs"
    unfolding promises_def using LOAD_CONST_INSTR by simp
  ultimately show ?thesis by (intro exI conjI)
next
  case (UNDEF_INSTR def)
  let ?n = "def_num_components def"
  have "components_ok sizes ctx def 0 ?n" and bits: "def_bit_size def = 32"
    using ok unfolding UNDEF_INSTR instr_ok.simps by blast+
  then have place: "\<forall>i \<in> set [0..<?n]. place_ok sizes ctx def i" by (simp add: components_ok_def)
  have upt: "[0..<?n] = [0..<0 + ?n]" by simp
  obtain ctx' where "undefined_from def [0..<?n] ctx = Inr ctx'" "ctx_ok sizes ctx'"
    "stores_all sizes ctx ctx' (def_index def) 0 (replicate ?n (\<lambda>rho. None))"
    using undefined_from_stores [OF assms(1) place bits upt] by blast
  then have "performs sizes ctx (ntd_emit_instr other block instr ctx) (dest instr) (replicate ?n (\<lambda>rho. None))"
    using UNDEF_INSTR by (simp add: performs_def ntd_emit_instr_def succeed_def emit_undefined_def)
  moreover have "promises sizes known ctx instr (replicate ?n (\<lambda>rho. None))"
    unfolding promises_def using UNDEF_INSTR by simp
  ultimately show ?thesis by (intro exI conjI)
qed (use ok in simp_all)

section \<open>Blocks\<close>

lemma instr_ok_shape:
  assumes "same_shape ctx ctx'" and "instr_ok sizes known ctx avail instr"
  shows "instr_ok sizes known ctx' avail instr"
  using assms(2) components_ok_shape [OF assms(1)] place_ok_shape [OF assms(1)] float_def_shape [OF assms(1)]
  by (cases instr) (auto split: option.splits)

lemma block_ok_shape:
  "same_shape ctx ctx' \<Longrightarrow> block_ok sizes known ctx avail instrs \<Longrightarrow> block_ok sizes known ctx' avail instrs"
  using instr_ok_shape by (induction instrs arbitrary: avail) auto

lemma place_ok_components: "components_ok sizes ctx def 0 n \<Longrightarrow> 0 < n \<Longrightarrow>
  def_index def < length (ntd_defs ctx) \<and> n \<le> length (ntd_defs ctx ! def_index def)"
proof -
  assume ok: "components_ok sizes ctx def 0 n" and n: "0 < n"
  then have "place_ok sizes ctx def (n - 1)" by (simp add: components_ok_def)
  from place_ok_bounds [OF this] n show ?thesis by auto
qed

lemma instr_ok_bounds:
  assumes "instr_ok sizes known ctx avail instr" and "0 < num_results instr"
  shows "dest instr < length (ntd_defs ctx) \<and> num_results instr \<le> length (ntd_defs ctx ! dest instr)"
proof (cases instr)
  case (ALU_INSTR alu)
  show ?thesis
  proof (cases "vec_size (alu_op alu)")
    case None
    then show ?thesis using assms ALU_INSTR place_ok_bounds [of sizes ctx "alu_def alu" 0] by (auto simp: Suc_le_eq)
  next
    case (Some n)
    then show ?thesis using assms ALU_INSTR place_ok_components [of sizes ctx "alu_def alu" n] by simp
  qed
next
  case (LOAD_CONST_INSTR lc)
  then show ?thesis using assms place_ok_components [of sizes ctx "load_def lc" "def_num_components (load_def lc)"] by simp
next
  case (UNDEF_INSTR def)
  then show ?thesis using assms place_ok_components [of sizes ctx "def" "def_num_components def"] by simp
qed (use assms in simp_all)

lemma instr_step:
  assumes "ctx_ok sizes ctx" and "defined ctx avail" and ok: "instr_ok sizes known ctx avail instr"
  shows "\<exists>ctx'. ntd_emit_instr other block instr ctx = Inr (True, ctx') \<and> ctx_ok sizes ctx' \<and> same_shape ctx ctx' \<and>
    extends (ntd_mod ctx) (ntd_mod ctx') \<and> defined ctx' (written instr @ avail) \<and>
    (\<forall>m rho env. extends (ntd_mod ctx') m \<longrightarrow> follows m rho \<longrightarrow> env_ok sizes known env \<longrightarrow> env_holds rho ctx env \<longrightarrow>
       env_holds rho ctx' (exec_instr (float_def ctx) instr env))"
proof -
  obtain xs where xs: "performs sizes ctx (ntd_emit_instr other block instr ctx) (dest instr) xs"
    "promises sizes known ctx instr xs" using instr_performs [OF assms, of other block] by blast
  then obtain ctx' where 1: "ntd_emit_instr other block instr ctx = Inr (True, ctx')" "ctx_ok sizes ctx'"
    "stores_all sizes ctx ctx' (dest instr) 0 xs" unfolding performs_def by blast
  have n: "length xs = num_results instr" using xs(2) by (simp add: promises_def)
  have st: "(\<forall>i < length xs. \<exists>v t. stored ctx' (dest instr) i = Some v \<and> holds (ntd_mod ctx') v t (xs ! i)) \<and>
    (\<forall>d c. \<not> (d = dest instr \<and> c < length xs) \<longrightarrow> stored ctx' d c = stored ctx d c)"
  proof (cases "num_results instr = 0")
    case True
    then have "ctx_extends ctx ctx'" using 1(3) n by simp
    then show ?thesis using True n stored_extends by simp
  next
    case False
    then show ?thesis using stores_all_stored [OF 1(3)] instr_ok_bounds [OF ok] n by simp
  qed
  have kept: "stored ctx' d c = stored ctx d c" if "\<not> (d = dest instr \<and> c < length xs)" for d c
    using st that by blast
  have "stored ctx' d c \<noteq> None" if dc: "(d, c) \<in> set (written instr @ avail)" for d c
  proof (cases "d = dest instr \<and> c < length xs")
    case True
    then show ?thesis using st by force
  next
    case False
    then have "(d, c) \<in> set avail" using dc n by (auto simp: written_def)
    then show ?thesis using assms(2) kept [OF False] unfolding defined_def by auto
  qed
  then have "defined ctx' (written instr @ avail)" unfolding defined_def by blast
  moreover have "env_holds rho ctx' (exec_instr (float_def ctx) instr env)"
    if m: "extends (ntd_mod ctx') m" "follows m rho" and env: "env_ok sizes known env" "env_holds rho ctx env" for m rho env
    unfolding env_holds_def
  proof (intro allI impI)
    fix d c k assume k: "exec_instr (float_def ctx) instr env d c = Some k"
    note l = results_length [OF ok, of "float_def ctx" env]
    show "\<exists>v. stored ctx' d c = Some v \<and> rho v = Some k"
    proof (cases "d = dest instr \<and> c < length xs")
      case True
      then have "results (float_def ctx) env instr ! c = Some k" using k l n by (simp add: exec_instr_def Let_def)
      then have "(xs ! c) rho = Some k" using xs(2) env True n unfolding promises_def by simp
      moreover obtain v t where "stored ctx' d c = Some v" "holds (ntd_mod ctx') v t (xs ! c)" using st True by blast
      ultimately show ?thesis using m unfolding holds_def by blast
    next
      case False
      then have "env d c = Some k" using k l n by (auto simp: exec_instr_def Let_def split: if_splits)
      then show ?thesis using env(2) kept [OF False] unfolding env_holds_def by simp
    qed
  qed
  ultimately show ?thesis using 1 stores_all_shape stores_all_mod by blast
qed

lemma emit_instrs_holds:
  assumes "ctx_ok sizes ctx" and "defined ctx avail" and "block_ok sizes known ctx avail instrs"
  shows "\<exists>ctx'. emit_instrs other block instrs ctx = Inr (True, ctx') \<and> ctx_ok sizes ctx' \<and>
    extends (ntd_mod ctx) (ntd_mod ctx') \<and>
    (\<forall>m rho env. extends (ntd_mod ctx') m \<longrightarrow> follows m rho \<longrightarrow> env_ok sizes known env \<longrightarrow> env_holds rho ctx env \<longrightarrow>
       env_holds rho ctx' (exec_instrs (float_def ctx) instrs env))"
  using assms
proof (induction instrs arbitrary: ctx avail)
  case Nil
  then show ?case using extends_refl [OF ready_types [OF ctx_ok_ready]] by auto
next
  case (Cons instr instrs)
  have ok: "instr_ok sizes known ctx avail instr" and rest: "block_ok sizes known ctx (written instr @ avail) instrs"
    using Cons.prems(3) by simp_all
  obtain ctx1 where 1: "ntd_emit_instr other block instr ctx = Inr (True, ctx1)" "ctx_ok sizes ctx1" "same_shape ctx ctx1"
    "extends (ntd_mod ctx) (ntd_mod ctx1)" "defined ctx1 (written instr @ avail)"
    "\<forall>m rho env. extends (ntd_mod ctx1) m \<longrightarrow> follows m rho \<longrightarrow> env_ok sizes known env \<longrightarrow> env_holds rho ctx env \<longrightarrow>
       env_holds rho ctx1 (exec_instr (float_def ctx) instr env)"
    using instr_step [OF Cons.prems(1,2) ok, of other block] by blast
  obtain ctx' where 2: "emit_instrs other block instrs ctx1 = Inr (True, ctx')" "ctx_ok sizes ctx'"
    "extends (ntd_mod ctx1) (ntd_mod ctx')"
    "\<forall>m rho env. extends (ntd_mod ctx') m \<longrightarrow> follows m rho \<longrightarrow> env_ok sizes known env \<longrightarrow> env_holds rho ctx1 env \<longrightarrow>
       env_holds rho ctx' (exec_instrs (float_def ctx1) instrs env)"
    using Cons.IH [OF 1(2,5) block_ok_shape [OF 1(3) rest]] by blast
  have fl: "float_def ctx1 = float_def ctx" using float_def_shape [OF 1(3)] by blast
  have "env_holds rho ctx' (exec_instrs (float_def ctx) (instr # instrs) env)"
    if "extends (ntd_mod ctx') m" "follows m rho" "env_ok sizes known env" "env_holds rho ctx env" for m rho env
    using 1(6) 2(4) that extends_trans [OF 2(3) that(1)] exec_instr_ok [OF ok that(3), of "float_def ctx"] by (simp add: fl)
  moreover have "emit_instrs other block (instr # instrs) ctx = Inr (True, ctx')"
    using 1(1) 2(1) by (simp add: and_then_def)
  ultimately show ?case using 2(2) extends_trans [OF 1(4) 2(3)] by blast
qed

text \<open>The number of the block is noted before its instructions.\<close>

lemma set_block_id_extends:
  assumes "ready m" and "cur_emitting_func m = Some f" and "b < length (basic_block_ids (func_def_list m ! f))"
  shows "\<exists>m'. set_block_id b m = Inr m' \<and> extends m m' \<and> extends m' m"
proof -
  let ?def = "func_def_list m ! f"
  let ?m = "m\<lparr>func_def_list := (func_def_list m)[f := ?def\<lparr>basic_block_ids := (basic_block_ids ?def)[b := int (curr_block ?def)]\<rparr>]\<rparr>"
  have f: "f < length (func_def_list m)" using assms(1,2) by (auto simp: ready_def)
  have ok: "types_ok ?m" by (rule types_ok_cong [OF ready_types [OF assms(1)]]) (simp_all add: scalar_caches_def)
  have "set_block_id b m = Inr ?m" using f assms(2,3) by (simp add: set_block_id_def read_at_def)
  moreover have "extends m ?m" "extends ?m m"
    using ok ready_types [OF assms(1)] f by (auto simp: extends_def list_all2_conv_all_nth nth_list_update)
  ultimately show ?thesis by blast
qed

lemma emit_block_holds:
  assumes ok: "ctx_ok sizes ctx" and avail: "defined ctx avail" and block: "block_ok sizes known ctx avail (block_instrs block)"
    and f: "cur_emitting_func (ntd_mod ctx) = Some f"
    and index: "block_index block < length (basic_block_ids (func_def_list (ntd_mod ctx) ! f))"
  shows "\<exists>ctx'. emit_block other block ctx = Inr (True, ctx') \<and> ctx_ok sizes ctx' \<and>
    (\<forall>rho env. follows (ntd_mod ctx') rho \<longrightarrow> env_ok sizes known env \<longrightarrow> env_holds rho ctx env \<longrightarrow>
       env_holds rho ctx' (exec_instrs (float_def ctx) (block_instrs block) env))"
proof -
  obtain m where m: "set_block_id (block_index block) (ntd_mod ctx) = Inr m" "extends (ntd_mod ctx) m"
    using set_block_id_extends [OF ctx_ok_ready [OF ok] f index] by blast
  let ?ctx = "ctx\<lparr>ntd_mod := m\<rparr>"
  have ext: "ctx_extends ctx ?ctx" using m(2) by (simp add: ctx_extends_def)
  have same: "stored ?ctx d c = stored ctx d c" for d c using stored_extends [OF ext] .
  have "defined ?ctx avail" using avail unfolding defined_def same .
  from emit_instrs_holds [OF ctx_ok_extends [OF ext ok] this block_ok_shape [OF ctx_extends_shape [OF ext] block], of other block]
  obtain ctx' where 1: "emit_instrs other block (block_instrs block) ?ctx = Inr (True, ctx')" "ctx_ok sizes ctx'"
    "\<forall>m rho env. extends (ntd_mod ctx') m \<longrightarrow> follows m rho \<longrightarrow> env_ok sizes known env \<longrightarrow> env_holds rho ?ctx env \<longrightarrow>
       env_holds rho ctx' (exec_instrs (float_def ?ctx) (block_instrs block) env)" by blast
  have fl: "float_def ?ctx = float_def ctx" by (simp add: float_def_def fun_eq_iff)
  have env: "env_holds rho ?ctx env = env_holds rho ctx env" for rho env unfolding env_holds_def same ..
  have "extends (ntd_mod ctx') (ntd_mod ctx')" using extends_refl [OF ready_types [OF ctx_ok_ready [OF 1(2)]]] .
  then have "\<forall>rho env. follows (ntd_mod ctx') rho \<longrightarrow> env_ok sizes known env \<longrightarrow> env_holds rho ctx env \<longrightarrow>
       env_holds rho ctx' (exec_instrs (float_def ctx) (block_instrs block) env)"
    using 1(3) unfolding fl env by blast
  moreover have "emit_block other block ctx = Inr (True, ctx')"
    using m(1) 1(1) by (simp add: emit_block_def change_mod_def)
  ultimately show ?thesis using 1(2) by blast
qed

end
