(* ===== verification/Ntd_Block_Example.thy ===== *)
theory Ntd_Block_Example
  imports Ntd_Block
begin

text \<open>
  The properties of the translation of sources, instructions and blocks, each with an example: a block with a
  constant of two components, their sum, and the sum shifted by one of them.
\<close>

section \<open>A context\<close>

definition no_features :: dxil_features where
  "no_features =
     \<lparr>feat_doubles = False, feat_cs_4x_raw_sb = False, feat_uavs_at_every_stage = False, feat_use_64uavs = False,
      feat_min_precision = False, feat_dx11_1_double_extensions = False, feat_dx11_1_shader_extensions = False,
      feat_dx9_comparison_filtering = False, feat_tiled_resources = False, feat_stencil_ref = False,
      feat_inner_coverage = False, feat_typed_uav_load_additional_formats = False, feat_rovs = False,
      feat_array_layer_from_vs_or_ds = False, feat_wave_ops = False, feat_int64_ops = False, feat_view_id = False,
      feat_barycentrics = False, feat_native_low_precision = False, feat_shading_rate = False,
      feat_raytracing_tier_1_1 = False, feat_sampler_feedback = False, feat_atomic_int64_typed = False,
      feat_atomic_int64_tgsm = False, feat_derivatives_in_mesh_or_amp = False,
      feat_resource_descriptor_heap_indexing = False, feat_sampler_descriptor_heap_indexing = False,
      feat_unnamed = False, feat_atomic_int64_heap_resource = False, feat_advanced_texture_ops = False,
      feat_writable_msaa = False, feat_sample_cmp_bias_gradient = False, feat_extended_command_info = False\<rparr>"

text \<open>A module with an empty function of one block, one type and one constant, 1.0.\<close>

definition example_mod :: dxil_module where
  "example_mod = (dxil_module_init 0 0)
     \<lparr>type_list := [TYPE_FLOAT 32], float32_type := Some 0,
      const_list := [\<lparr>const_value = \<lparr>value_id = -1, value_type = 0\<rparr>, const_data = FLOAT_VALUE 0x3F800000\<rparr>],
      func_def_list := [\<lparr>def_func = 0, instr_list = [], basic_block_ids = [-1], curr_block = 0\<rparr>],
      cur_emitting_func := Some 0\<rparr>"

definition example_ctx :: "val_ref option list list \<Rightarrow> ntd_context" where
  "example_ctx ds =
     \<lparr>ntd_mod = example_mod, ntd_feats = no_features, raw_and_structured_buffers = False,
      ntd_shader_kind = DXIL_COMPUTE_SHADER, ntd_minor_version = 0, ntd_minor_validator = 0,
      ntd_environment = DXIL_ENVIRONMENT_VULKAN, srv_metadata_nodes = [], uav_metadata_nodes = [],
      cbv_metadata_nodes = [], sampler_metadata_nodes = [], srv_handles = [], ssbo_handles = [], image_handles = [],
      cbv_handles = [], sampler_handles = [], ntd_resources = [], num_uavs = 0, unnamed_ubo_count = 0, ntd_defs = ds,
      ntd_phis = [], float_types = (\<lambda>_. False), int_types = (\<lambda>_. False)\<rparr>"

lemma example_ctx_simps [simp]:
  "ntd_mod (example_ctx ds) = example_mod" "ntd_defs (example_ctx ds) = ds"
  "float_types (example_ctx ds) d = False" "int_types (example_ctx ds) d = False"
  by (simp_all add: example_ctx_def)

lemma example_mod_ready: "ready example_mod"
  by (simp add: ready_def types_ok_def example_mod_def dxil_module_init_def scalar_caches_def scalar_types_def)

lemma example_value_ok: "value_ok (example_ctx ds) (CONST_REF 0) 32"
proof -
  have "of_type (ntd_mod (example_ctx ds)) (CONST_REF 0) (TYPE_FLOAT 32)"
    by (simp add: of_type_def example_mod_def)
  moreover have "flags_ok (example_ctx ds) (TYPE_FLOAT 32)" by (simp add: flags_ok_def)
  ultimately show ?thesis unfolding value_ok_def by (intro bexI [of _ "TYPE_FLOAT 32"]) simp_all
qed

lemma example_ctx_ok:
  assumes "\<And>d c v. stored (example_ctx ds) d c = Some v \<Longrightarrow> v = CONST_REF 0 \<and> sizes d = 32"
  shows "ctx_ok sizes (example_ctx ds)"
proof -
  have "value_ok (example_ctx ds) v (sizes d)" if "stored (example_ctx ds) d c = Some v" for d c v
    using assms [OF that] example_value_ok by simp
  then show ?thesis using example_mod_ready unfolding ctx_ok_def by simp
qed

definition example_def :: "nat \<Rightarrow> nat \<Rightarrow> nir_def" where
  "example_def d n = \<lparr>def_index = d, def_num_components = n, def_bit_size = 32, def_is_phi_src = False\<rparr>"

section \<open>Sources\<close>



section \<open>Arithmetic instructions\<close>


text \<open>The bits of 1.0 shifted right by themselves, of which only five bits count.\<close>

definition example_src :: "nat \<Rightarrow> nat \<Rightarrow> nat \<Rightarrow> nir_const_value list option \<Rightarrow> nir_alu_src" where
  "example_src d n c known = \<lparr>alu_src = \<lparr>src_ssa = example_def d n, src_const = known\<rparr>, swizzle = [c]\<rparr>"

definition example_alu :: "nir_int_op \<Rightarrow> nat \<Rightarrow> nir_alu_src list \<Rightarrow> nir_alu_instr" where
  "example_alu op d srcs = \<lparr>alu_op = INT_OP op, alu_exact = False, alu_def = example_def d 1, alu_srcs = srcs\<rparr>"


section \<open>Blocks\<close>


definition example_block :: "unit nir_block" where
  "example_block =
     \<lparr>block_index = 0,
      block_instrs =
        [LOAD_CONST_INSTR \<lparr>load_def = example_def 0 2, load_values = [7, 3]\<rparr>,
         ALU_INSTR (example_alu nir_op_iadd 1 [example_src 0 2 0 (Some [7, 3]), example_src 0 2 1 (Some [7, 3])]),
         ALU_INSTR (example_alu nir_op_ishl 2 [example_src 1 1 0 None, example_src 0 2 1 (Some [7, 3])])],
      successor0 = None, successor1 = None\<rparr>"

abbreviation example_known :: "nat \<Rightarrow> nir_const_value list option" where
  "example_known \<equiv> [0 \<mapsto> [7, 3]]"

abbreviation example_start :: ntd_context where
  "example_start \<equiv> example_ctx [[None, None], [None], [None]]"

lemma example_block_ok: "block_ok (\<lambda>_. 32) example_known example_start [] (block_instrs example_block)"
proof -
  note defs = example_alu_def example_src_def example_def_def nir_src_bit_size_def vec_size_def
  have load: "components_ok (\<lambda>_. 32) example_start (example_def 0 2) 0 2"
    by (auto simp: components_ok_def place_ok_def example_def_def nth_Cons')
  show ?thesis using load
    by (simp add: example_block_def written_def src_ok_def alu_typed_def alu_bit_size_def sized_as_def base_fits_def
        direct_op_def calls_function_def place_ok_def upt_rec [of 0 2] upt_rec [of 1 2] defs)
qed

lemma example_start_ok: "ctx_ok (\<lambda>_. 32) example_start"
  by (rule example_ctx_ok) (auto simp: stored_def nth_Cons' split: if_splits)

lemma example_block_index:
  "cur_emitting_func (ntd_mod example_start) = Some 0"
  "block_index example_block < length (basic_block_ids (func_def_list (ntd_mod example_start) ! 0))"
  by (simp_all add: example_mod_def example_block_def)

lemma example_exec: "exec_instrs (float_def example_start) (block_instrs example_block) (\<lambda>_ _. None) 2 0 = Some 80"
proof -
  note defs = example_alu_def example_src_def example_def_def nir_src_bit_size_def vec_size_def
  have "at_size [1, 8, 16, 32, 64] 32 (dst_bits 32 (signed_src 32 7 + signed_src 32 3)) = Inr 10"
    "at_size [1, 8, 16, 32, 64] 32 (dst_bits 32 (push_bit (shift_count 32 3) (signed_src 32 10))) = Inr 80"
    by code_simp+
  then show ?thesis
    by (simp add: example_block_def exec_instr_def alu_value_def src_value_def const_meaning_def const_pattern_def
        float_def_def alu_defined_def alu_eval_def alu_bit_size_def evaluate_iadd_def evaluate_ishl_def defs)
qed


end
