(* ===== verification/Ntd_Flow.thy ===== *)
theory Ntd_Flow
  imports Ntd_Control
begin

text \<open>
  What the translation of an instruction leaves alone: the function that is emitted, the branches of every
  function and the numbers of its blocks. Only \<open>emit_block\<close> and the branches change them.
\<close>

named_theorems flow \<open>operations that leave the flow of control alone\<close>

fun is_terminator :: "instr_data \<Rightarrow> bool" where
  "is_terminator (INSTR_BR c t f) = True"
| "is_terminator (INSTR_RET v) = True"
| "is_terminator _ = False"

definition terminators :: "dxil_func_def \<Rightarrow> instr_data list" where
  "terminators def = filter is_terminator (map instr_data (instr_list def))"

definition flow_of :: "dxil_func_def \<Rightarrow> int list \<times> nat \<times> instr_data list" where
  "flow_of def = (basic_block_ids def, curr_block def, terminators def)"

definition flow_view :: "dxil_module \<Rightarrow> nat option \<times> (int list \<times> nat \<times> instr_data list) list" where
  "flow_view m = (cur_emitting_func m, map flow_of (func_def_list m))"

abbreviation ntd_flow :: "ntd_context \<Rightarrow> nat option \<times> (int list \<times> nat \<times> instr_data list) list" where
  "ntd_flow ctx \<equiv> flow_view (ntd_mod ctx)"

section \<open>Types, constants and functions\<close>

lemma flow_view_cong:
  "func_def_list m' = func_def_list m \<Longrightarrow> cur_emitting_func m' = cur_emitting_func m \<Longrightarrow> flow_view m' = flow_view m"
  by (simp add: flow_view_def)

lemma create_type_flow [flow]: "create_type t m = (x, m') \<Longrightarrow> flow_view m' = flow_view m"
  by (auto simp: create_type_def intro!: flow_view_cong)

lemma cache_flow [simp]:
  "flow_view (m\<lparr>void_type := a\<rparr>) = flow_view m" "flow_view (m\<lparr>int1_type := a\<rparr>) = flow_view m"
  "flow_view (m\<lparr>int8_type := a\<rparr>) = flow_view m" "flow_view (m\<lparr>int16_type := a\<rparr>) = flow_view m"
  "flow_view (m\<lparr>int32_type := a\<rparr>) = flow_view m" "flow_view (m\<lparr>int64_type := a\<rparr>) = flow_view m"
  "flow_view (m\<lparr>float16_type := a\<rparr>) = flow_view m" "flow_view (m\<lparr>float32_type := a\<rparr>) = flow_view m"
  "flow_view (m\<lparr>float64_type := a\<rparr>) = flow_view m" "flow_view (m\<lparr>const_list := cs\<rparr>) = flow_view m"
  "flow_view (m\<lparr>func_list := fs\<rparr>) = flow_view m" "flow_view (m\<lparr>attr_set_list := as\<rparr>) = flow_view m"
  "flow_view (m\<lparr>function_tree := ft\<rparr>) = flow_view m"
  by (simp_all add: flow_view_def)

lemma dxil_module_get_void_type_flow [flow]: "dxil_module_get_void_type m = (x, m') \<Longrightarrow> flow_view m' = flow_view m"
  by (auto simp: dxil_module_get_void_type_def create_int_type_def create_float_type_def Let_def split: if_splits option.splits prod.split_asm dest!: flow)

lemma get_int1_type_flow [flow]: "get_int1_type m = (x, m') \<Longrightarrow> flow_view m' = flow_view m"
  by (auto simp: get_int1_type_def create_int_type_def create_float_type_def Let_def split: if_splits option.splits prod.split_asm dest!: flow)

lemma get_int8_type_flow [flow]: "get_int8_type m = (x, m') \<Longrightarrow> flow_view m' = flow_view m"
  by (auto simp: get_int8_type_def create_int_type_def create_float_type_def Let_def split: if_splits option.splits prod.split_asm dest!: flow)

lemma get_int16_type_flow [flow]: "get_int16_type m = (x, m') \<Longrightarrow> flow_view m' = flow_view m"
  by (auto simp: get_int16_type_def create_int_type_def create_float_type_def Let_def split: if_splits option.splits prod.split_asm dest!: flow)

lemma get_int32_type_flow [flow]: "get_int32_type m = (x, m') \<Longrightarrow> flow_view m' = flow_view m"
  by (auto simp: get_int32_type_def create_int_type_def create_float_type_def Let_def split: if_splits option.splits prod.split_asm dest!: flow)

lemma get_int64_type_flow [flow]: "get_int64_type m = (x, m') \<Longrightarrow> flow_view m' = flow_view m"
  by (auto simp: get_int64_type_def create_int_type_def create_float_type_def Let_def split: if_splits option.splits prod.split_asm dest!: flow)

lemma get_float16_type_flow [flow]: "get_float16_type m = (x, m') \<Longrightarrow> flow_view m' = flow_view m"
  by (auto simp: get_float16_type_def create_int_type_def create_float_type_def Let_def split: if_splits option.splits prod.split_asm dest!: flow)

lemma get_float32_type_flow [flow]: "get_float32_type m = (x, m') \<Longrightarrow> flow_view m' = flow_view m"
  by (auto simp: get_float32_type_def create_int_type_def create_float_type_def Let_def split: if_splits option.splits prod.split_asm dest!: flow)

lemma get_float64_type_flow [flow]: "get_float64_type m = (x, m') \<Longrightarrow> flow_view m' = flow_view m"
  by (auto simp: get_float64_type_def create_int_type_def create_float_type_def Let_def split: if_splits option.splits prod.split_asm dest!: flow)

lemma dxil_module_get_pointer_type_flow [flow]: "dxil_module_get_pointer_type t m = (x, m') \<Longrightarrow> flow_view m' = flow_view m"
  by (auto simp: dxil_module_get_pointer_type_def split: if_splits option.splits prod.split_asm dest!: flow)

lemma find_struct_type_flow [flow]: "find_struct_type k m = (x, m') \<Longrightarrow> flow_view m' = flow_view m"
  by (auto simp: find_struct_type_def split: if_splits option.splits prod.split_asm dest!: flow)

lemma dxil_module_get_array_type_flow [flow]: "dxil_module_get_array_type t n m = (x, m') \<Longrightarrow> flow_view m' = flow_view m"
  by (auto simp: dxil_module_get_array_type_def split: if_splits option.splits prod.split_asm dest!: flow)

lemma dxil_module_get_vector_type_flow [flow]: "dxil_module_get_vector_type t n m = (x, m') \<Longrightarrow> flow_view m' = flow_view m"
  by (auto simp: dxil_module_get_vector_type_def split: if_splits option.splits prod.split_asm dest!: flow)

lemma dxil_module_add_function_type_flow [flow]: "dxil_module_add_function_type t ts m = (x, m') \<Longrightarrow> flow_view m' = flow_view m"
  by (auto simp: dxil_module_add_function_type_def split: if_splits option.splits prod.split_asm dest!: flow)

lemma dxil_module_get_int_type_flow [flow]: "dxil_module_get_int_type b m = Inr (x, m') \<Longrightarrow> flow_view m' = flow_view m"
  by (auto simp: dxil_module_get_int_type_def Let_def  split: if_splits option.splits prod.split_asm dest!: flow)

lemma dxil_module_get_float_type_flow [flow]: "dxil_module_get_float_type b m = Inr (x, m') \<Longrightarrow> flow_view m' = flow_view m"
  by (auto simp: dxil_module_get_float_type_def Let_def  split: if_splits option.splits prod.split_asm dest!: flow)

lemma dxil_module_get_struct_type_flow [flow]: "dxil_module_get_struct_type k ts m = Inr (x, m') \<Longrightarrow> flow_view m' = flow_view m"
  by (auto simp: dxil_module_get_struct_type_def Let_def  split: if_splits option.splits prod.split_asm dest!: flow)

lemma dxil_get_overload_type_flow [flow]: "dxil_get_overload_type ov m = Inr (x, m') \<Longrightarrow> flow_view m' = flow_view m"
  by (auto simp: dxil_get_overload_type_def Let_def split: overload_type.split_asm split: if_splits option.splits prod.split_asm dest!: flow)

lemma dxil_module_get_handle_type_flow [flow]: "dxil_module_get_handle_type m = Inr (x, m') \<Longrightarrow> flow_view m' = flow_view m"
  by (auto simp: dxil_module_get_handle_type_def Let_def  split: if_splits option.splits prod.split_asm dest!: flow)

lemma dxil_module_get_cbuf_ret_type_flow [flow]: "dxil_module_get_cbuf_ret_type ov m = Inr (x, m') \<Longrightarrow> flow_view m' = flow_view m"
  by (auto simp: dxil_module_get_cbuf_ret_type_def Let_def split: overload_type.split_asm split: if_splits option.splits prod.split_asm dest!: flow)

lemma dxil_module_get_split_double_ret_type_flow [flow]: "dxil_module_get_split_double_ret_type m = Inr (x, m') \<Longrightarrow> flow_view m' = flow_view m"
  by (auto simp: dxil_module_get_split_double_ret_type_def Let_def  split: if_splits option.splits prod.split_asm dest!: flow)

lemma dxil_module_get_resret_type_flow [flow]: "dxil_module_get_resret_type ov m = Inr (x, m') \<Longrightarrow> flow_view m' = flow_view m"
  by (auto simp: dxil_module_get_resret_type_def Let_def split: overload_type.split_asm split: if_splits option.splits prod.split_asm dest!: flow)

lemma dxil_module_get_dimret_type_flow [flow]: "dxil_module_get_dimret_type m = Inr (x, m') \<Longrightarrow> flow_view m' = flow_view m"
  by (auto simp: dxil_module_get_dimret_type_def Let_def  split: if_splits option.splits prod.split_asm dest!: flow)

lemma dxil_module_get_samplepos_type_flow [flow]: "dxil_module_get_samplepos_type m = Inr (x, m') \<Longrightarrow> flow_view m' = flow_view m"
  by (auto simp: dxil_module_get_samplepos_type_def Let_def  split: if_splits option.splits prod.split_asm dest!: flow)

lemma dxil_module_get_res_bind_type_flow [flow]: "dxil_module_get_res_bind_type m = Inr (x, m') \<Longrightarrow> flow_view m' = flow_view m"
  by (auto simp: dxil_module_get_res_bind_type_def Let_def  split: if_splits option.splits prod.split_asm dest!: flow)

lemma dxil_module_get_res_props_type_flow [flow]: "dxil_module_get_res_props_type m = Inr (x, m') \<Longrightarrow> flow_view m' = flow_view m"
  by (auto simp: dxil_module_get_res_props_type_def Let_def  split: if_splits option.splits prod.split_asm dest!: flow)

lemma dxil_module_get_fouri32_type_flow [flow]: "dxil_module_get_fouri32_type m = Inr (x, m') \<Longrightarrow> flow_view m' = flow_view m"
  by (auto simp: dxil_module_get_fouri32_type_def Let_def  split: if_splits option.splits prod.split_asm dest!: flow)

lemma type_of_letter_flow [flow]: "type_of_letter c ov m = Inr (x, m') \<Longrightarrow> flow_view m' = flow_view m"
  by (auto simp: type_of_letter_def Let_def  split: if_splits option.splits prod.split_asm dest!: flow)

lemma snd_flow [simp]:
  "flow_view (snd (dxil_module_get_pointer_type t m)) = flow_view m"
  "flow_view (snd (dxil_module_add_function_type t ts m)) = flow_view m"
  using dxil_module_get_pointer_type_flow dxil_module_add_function_type_flow prod.collapse by metis+

lemma get_type_from_string_flow [flow]:
  "get_type_from_string s ov i m = Inr (t, j, m') \<Longrightarrow> flow_view m' = flow_view m"
proof (induction s ov i m arbitrary: t j m' rule: get_type_from_string.induct)
  case (1 s ov i m)
  show ?case
    using "1.prems" "1.IH" unfolding get_type_from_string.simps [of s ov i m]
    by (auto simp: Let_def case_prod_unfold split: if_splits dest!: flow)
qed

lemma get_param_types_flow [flow]:
  "get_param_types s ov n i m = Inr (ts, m') \<Longrightarrow> flow_view m' = flow_view m"
proof (induction s ov n i m arbitrary: ts m' rule: get_param_types.induct)
  case (1 s ov n i m)
  show ?case
    using "1.prems" "1.IH" unfolding get_param_types.simps [of s ov n i m]
    by (auto split: if_splits prod.split_asm dest!: flow)
qed

lemma find_attr_set_flow [flow]: "find_attr_set as m = (x, m') \<Longrightarrow> flow_view m' = flow_view m"
  by (auto simp: find_attr_set_def split: option.splits)

lemma get_attr_set_flow [flow]: "get_attr_set a m = (x, m') \<Longrightarrow> flow_view m' = flow_view m"
  unfolding get_attr_set_def by (rule find_attr_set_flow)

lemma add_function_flow [flow]: "add_function s t d a m = Inr (x, m') \<Longrightarrow> flow_view m' = flow_view m"
  by (auto simp: add_function_def split: dxil_type.splits)

lemma dxil_add_function_decl_flow [flow]: "dxil_add_function_decl s t a m = Inr (x, m') \<Longrightarrow> flow_view m' = flow_view m"
  by (auto simp: dxil_add_function_decl_def split: if_splits prod.split_asm dest!: flow)

lemma dxil_alloc_func_with_rettype_flow [flow]:
  "dxil_alloc_func_with_rettype s ov t d a m = Inr (x, m') \<Longrightarrow> flow_view m' = flow_view m"
  by (auto simp: dxil_alloc_func_with_rettype_def dxil_add_function_def Let_def case_prod_unfold dest!: flow)

lemma dxil_alloc_func_flow [flow]: "dxil_alloc_func s ov r d a m = Inr (x, m') \<Longrightarrow> flow_view m' = flow_view m"
  by (auto simp: dxil_alloc_func_def split: if_splits prod.split_asm dest!: flow)

lemma dxil_get_function_flow [flow]: "dxil_get_function s ov m = Inr (x, m') \<Longrightarrow> flow_view m' = flow_view m"
  by (auto simp: dxil_get_function_def allocate_function_from_predefined_def split: option.splits prod.split_asm dest!: flow)

lemma intern_const_flow [flow]: "intern_const p t d m = (x, m') \<Longrightarrow> flow_view m' = flow_view m"
  by (auto simp: intern_const_def create_const_def split: option.splits)

lemma get_int_const_flow [flow]: "get_int_const t v m = Inr (x, m') \<Longrightarrow> flow_view m' = flow_view m"
  by (auto simp: get_int_const_def Let_def split: dxil_type.splits if_splits prod.split_asm dest!: flow)

lemma dxil_module_get_int1_const_flow [flow]: "dxil_module_get_int1_const v m = Inr (x, m') \<Longrightarrow> flow_view m' = flow_view m"
  by (auto simp: dxil_module_get_int1_const_def Let_def split: dxil_type.splits if_splits prod.split_asm dest!: flow)

lemma dxil_module_get_int8_const_flow [flow]: "dxil_module_get_int8_const v m = Inr (x, m') \<Longrightarrow> flow_view m' = flow_view m"
  by (auto simp: dxil_module_get_int8_const_def Let_def split: dxil_type.splits if_splits prod.split_asm dest!: flow)

lemma dxil_module_get_int16_const_flow [flow]: "dxil_module_get_int16_const v m = Inr (x, m') \<Longrightarrow> flow_view m' = flow_view m"
  by (auto simp: dxil_module_get_int16_const_def Let_def split: dxil_type.splits if_splits prod.split_asm dest!: flow)

lemma dxil_module_get_int32_const_flow [flow]: "dxil_module_get_int32_const v m = Inr (x, m') \<Longrightarrow> flow_view m' = flow_view m"
  by (auto simp: dxil_module_get_int32_const_def Let_def split: dxil_type.splits if_splits prod.split_asm dest!: flow)

lemma dxil_module_get_int64_const_flow [flow]: "dxil_module_get_int64_const v m = Inr (x, m') \<Longrightarrow> flow_view m' = flow_view m"
  by (auto simp: dxil_module_get_int64_const_def Let_def split: dxil_type.splits if_splits prod.split_asm dest!: flow)

lemma dxil_module_get_int_const_flow [flow]: "dxil_module_get_int_const v b m = Inr (x, m') \<Longrightarrow> flow_view m' = flow_view m"
  by (auto simp: dxil_module_get_int_const_def Let_def split: dxil_type.splits if_splits prod.split_asm dest!: flow)

lemma dxil_module_get_float16_const_flow [flow]: "dxil_module_get_float16_const v m = (x, m') \<Longrightarrow> flow_view m' = flow_view m"
  by (auto simp: dxil_module_get_float16_const_def Let_def split: if_splits option.splits prod.split_asm dest!: flow)

lemma dxil_module_get_float_const_flow [flow]: "dxil_module_get_float_const v m = (x, m') \<Longrightarrow> flow_view m' = flow_view m"
  by (auto simp: dxil_module_get_float_const_def Let_def split: if_splits option.splits prod.split_asm dest!: flow)

lemma dxil_module_get_double_const_flow [flow]: "dxil_module_get_double_const v m = (x, m') \<Longrightarrow> flow_view m' = flow_view m"
  by (auto simp: dxil_module_get_double_const_def Let_def split: if_splits option.splits prod.split_asm dest!: flow)

section \<open>Instructions\<close>

lemma create_instr_flow [flow]:
  "create_instr d t hv m = Inr (x, m') \<Longrightarrow> \<not> is_terminator d \<Longrightarrow> flow_view m' = flow_view m"
  by (auto simp: create_instr_def Let_def flow_view_def flow_of_def terminators_def intro!: nth_equalityI
      simp: nth_list_update split: option.splits if_splits)

lemma assert_Inr [simp]: "assert c = Inr u \<longleftrightarrow> c"
  by (simp add: assert_def)

lemma dxil_emit_binop_flow [flow]: "dxil_emit_binop op a b f m = Inr (x, m') \<Longrightarrow> flow_view m' = flow_view m"
  by (auto simp: dxil_emit_binop_def Let_def split: if_splits option.splits prod.split_asm dest!: flow)

lemma dxil_emit_cmp_flow [flow]: "dxil_emit_cmp p a b m = Inr (x, m') \<Longrightarrow> flow_view m' = flow_view m"
  by (auto simp: dxil_emit_cmp_def Let_def split: if_splits option.splits prod.split_asm dest!: flow)

lemma dxil_emit_select_flow [flow]: "dxil_emit_select a b c m = Inr (x, m') \<Longrightarrow> flow_view m' = flow_view m"
  by (auto simp: dxil_emit_select_def Let_def split: if_splits option.splits prod.split_asm dest!: flow)

lemma dxil_emit_cast_flow [flow]: "dxil_emit_cast op t a m = Inr (x, m') \<Longrightarrow> flow_view m' = flow_view m"
  by (auto simp: dxil_emit_cast_def Let_def split: if_splits option.splits prod.split_asm dest!: flow)

lemma dxil_emit_phi_flow [flow]: "dxil_emit_phi t m = Inr (x, m') \<Longrightarrow> flow_view m' = flow_view m"
  by (auto simp: dxil_emit_phi_def Let_def split: if_splits option.splits prod.split_asm dest!: flow)

lemma create_call_instr_flow [flow]: "create_call_instr f as hv m = Inr (x, m') \<Longrightarrow> flow_view m' = flow_view m"
  by (auto simp: create_call_instr_def dest!: flow)

lemma dxil_emit_call_flow [flow]: "dxil_emit_call f as m = Inr (x, m') \<Longrightarrow> flow_view m' = flow_view m"
  by (auto simp: dxil_emit_call_def dest!: flow)

lemma dxil_emit_extractval_flow [flow]: "dxil_emit_extractval v i m = Inr (x, m') \<Longrightarrow> flow_view m' = flow_view m"
  by (auto simp: dxil_emit_extractval_def split: dxil_type.splits if_splits dest!: flow)

end
