(* ===== verification/Ntd_Flow_Ops.thy ===== *)
theory Ntd_Flow_Ops
  imports Ntd_Flow Ntd_Values
begin

text \<open>The translation of an instruction other than a jump leaves the flow of control alone.\<close>

section \<open>Values\<close>

lemma defs_flow [simp]:
  "ntd_flow (ctx\<lparr>ntd_defs := ds\<rparr>) = ntd_flow ctx" "ntd_flow (ctx\<lparr>ntd_phis := ps\<rparr>) = ntd_flow ctx"
  "ntd_flow (ctx\<lparr>ntd_feats := fs\<rparr>) = ntd_flow ctx"
  by simp_all

lemma bitcast_to_int_flow [flow]: "bitcast_to_int b v ctx = Inr (x, ctx') \<Longrightarrow> ntd_flow ctx' = ntd_flow ctx"
  by (auto simp: bitcast_to_int_def on_mod_def Let_def  split: if_splits option.splits prod.split_asm dest!: flow)

lemma bitcast_to_float_flow [flow]: "bitcast_to_float b v ctx = Inr (x, ctx') \<Longrightarrow> ntd_flow ctx' = ntd_flow ctx"
  by (auto simp: bitcast_to_float_def on_mod_def Let_def  split: if_splits option.splits prod.split_asm dest!: flow)

lemma cast_phi_src_flow [flow]: "cast_phi_src ssa v ctx = Inr (x, ctx') \<Longrightarrow> ntd_flow ctx' = ntd_flow ctx"
  by (auto simp: cast_phi_src_def on_mod_def Let_def  split: if_splits option.splits prod.split_asm dest!: flow)

lemma store_ssa_def_flow [flow]: "store_ssa_def ssa c v ctx = Inr ctx' \<Longrightarrow> ntd_flow ctx' = ntd_flow ctx"
  by (auto simp: store_ssa_def_def on_mod_def Let_def  split: if_splits option.splits prod.split_asm dest!: flow)

lemma store_def_flow [flow]: "store_def ssa c v ctx = Inr ctx' \<Longrightarrow> ntd_flow ctx' = ntd_flow ctx"
  by (auto simp: store_def_def on_mod_def Let_def  split: if_splits option.splits prod.split_asm dest!: flow)

lemma store_alu_dest_flow [flow]: "store_alu_dest alu c v ctx = Inr ctx' \<Longrightarrow> ntd_flow ctx' = ntd_flow ctx"
  by (auto simp: store_alu_dest_def on_mod_def Let_def  split: if_splits option.splits prod.split_asm dest!: flow)

lemma src_as_int_flow [flow]: "src_as_int b v ctx = Inr (x, ctx') \<Longrightarrow> ntd_flow ctx' = ntd_flow ctx"
  by (auto simp: src_as_int_def on_mod_def Let_def  split: if_splits option.splits prod.split_asm dest!: flow)

lemma src_as_float_flow [flow]: "src_as_float b v ctx = Inr (x, ctx') \<Longrightarrow> ntd_flow ctx' = ntd_flow ctx"
  by (auto simp: src_as_float_def on_mod_def Let_def  split: if_splits option.splits prod.split_asm dest!: flow)

lemma src_as_bool_flow [flow]: "src_as_bool v ctx = Inr (x, ctx') \<Longrightarrow> ntd_flow ctx' = ntd_flow ctx"
  by (auto simp: src_as_bool_def on_mod_def Let_def  split: if_splits option.splits prod.split_asm dest!: flow)

lemma get_src_flow [flow]: "get_src s c t ctx = Inr (x, ctx') \<Longrightarrow> ntd_flow ctx' = ntd_flow ctx"
  by (cases "nir_alu_type_get_base_type t") (auto simp: get_src_def dest!: flow)

lemma get_alu_src_flow [flow]: "get_alu_src alu i ctx = Inr (x, ctx') \<Longrightarrow> ntd_flow ctx' = ntd_flow ctx"
  by (auto simp: get_alu_src_def on_mod_def Let_def  split: if_splits option.splits prod.split_asm dest!: flow)

lemma get_value_for_const_flow [flow]: "get_value_for_const c t ctx = Inr (x, ctx') \<Longrightarrow> ntd_flow ctx' = ntd_flow ctx"
  by (auto simp: get_value_for_const_def on_mod_def Let_def  split: if_splits option.splits prod.split_asm dest!: flow)

lemma dxil_type_for_const_flow [flow]: "dxil_type_for_const d ctx = Inr (x, ctx') \<Longrightarrow> ntd_flow ctx' = ntd_flow ctx"
  by (auto simp: dxil_type_for_const_def on_mod_def Let_def  split: if_splits option.splits prod.split_asm dest!: flow)

lemma load_const_from_flow [flow]: "load_const_from def i cs ctx = Inr ctx' \<Longrightarrow> ntd_flow ctx' = ntd_flow ctx"
  by (induction cs arbitrary: i ctx) (auto split: prod.split_asm dest!: flow)

lemma emit_load_const_flow [flow]: "emit_load_const lc ctx = Inr ctx' \<Longrightarrow> ntd_flow ctx' = ntd_flow ctx"
  by (auto simp: emit_load_const_def split: if_splits dest!: flow)

lemma undefined_from_flow [flow]: "undefined_from def is ctx = Inr ctx' \<Longrightarrow> ntd_flow ctx' = ntd_flow ctx"
  by (induction "is" arbitrary: ctx) (auto simp: on_mod_def split: prod.split_asm dest!: flow)

lemma emit_undefined_flow [flow]: "emit_undefined def ctx = Inr ctx' \<Longrightarrow> ntd_flow ctx' = ntd_flow ctx"
  unfolding emit_undefined_def by (rule undefined_from_flow)

section \<open>Arithmetic\<close>

lemma emit_op_call_flow [flow]: "emit_op_call s ov intr ops ctx = Inr (x, ctx') \<Longrightarrow> ntd_flow ctx' = ntd_flow ctx"
  by (auto simp: emit_op_call_def on_mod_def Let_def  split: if_splits option.splits prod.split_asm dest!: flow)

lemma emit_unary_call_flow [flow]: "emit_unary_call ov intr a1 ctx = Inr (x, ctx') \<Longrightarrow> ntd_flow ctx' = ntd_flow ctx"
  by (simp add: emit_unary_call_def emit_op_call_flow)

lemma emit_binary_call_flow [flow]: "emit_binary_call ov intr a1 a2 ctx = Inr (x, ctx') \<Longrightarrow> ntd_flow ctx' = ntd_flow ctx"
  by (simp add: emit_binary_call_def emit_op_call_flow)

lemma emit_tertiary_call_flow [flow]: "emit_tertiary_call ov intr a1 a2 a3 ctx = Inr (x, ctx') \<Longrightarrow> ntd_flow ctx' = ntd_flow ctx"
  by (simp add: emit_tertiary_call_def emit_op_call_flow)

lemma emit_quaternary_call_flow [flow]: "emit_quaternary_call ov intr a1 a2 a3 a4 ctx = Inr (x, ctx') \<Longrightarrow> ntd_flow ctx' = ntd_flow ctx"
  by (simp add: emit_quaternary_call_def emit_op_call_flow)

lemma alu_result_flow [flow]: "alu_result alu c p = Inr (x, ctx') \<Longrightarrow> ntd_flow ctx' = ntd_flow (snd p)"
  by (auto simp: alu_result_def split: prod.split_asm dest!: flow)

lemma shift_amount_flow [flow]: "shift_amount alu v s b m = Inr (x, m') \<Longrightarrow> flow_view m' = flow_view m"
  by (auto simp: shift_amount_def Let_def split: if_splits prod.split_asm dest!: flow)

lemma ntd_emit_binop_flow [flow]: "ntd_emit_binop alu op v w ctx = Inr (x, ctx') \<Longrightarrow> ntd_flow ctx' = ntd_flow ctx"
  by (auto simp: ntd_emit_binop_def on_mod_def Let_def  split: if_splits option.splits prod.split_asm dest!: flow)

lemma emit_shift_flow [flow]: "emit_shift alu op v w ctx = Inr (x, ctx') \<Longrightarrow> ntd_flow ctx' = ntd_flow ctx"
  by (auto simp: emit_shift_def on_mod_def Let_def  split: if_splits option.splits prod.split_asm dest!: flow)

lemma ntd_emit_cmp_flow [flow]: "ntd_emit_cmp alu p v w ctx = Inr (x, ctx') \<Longrightarrow> ntd_flow ctx' = ntd_flow ctx"
  by (auto simp: ntd_emit_cmp_def on_mod_def Let_def  split: if_splits option.splits prod.split_asm dest!: flow)

lemma get_cast_dest_type_flow [flow]: "get_cast_dest_type alu ctx = Inr (x, ctx') \<Longrightarrow> ntd_flow ctx' = ntd_flow ctx"
  by (auto simp: get_cast_dest_type_def on_mod_def Let_def split: nir_base_type.split_asm split: if_splits option.splits prod.split_asm dest!: flow)

lemma ntd_emit_cast_flow [flow]: "ntd_emit_cast alu v ctx = Inr (x, ctx') \<Longrightarrow> ntd_flow ctx' = ntd_flow ctx"
  by (auto simp: ntd_emit_cast_def on_mod_def Let_def  split: if_splits option.splits prod.split_asm dest!: flow)

lemma emit_unary_intin_flow [flow]: "emit_unary_intin alu i v ctx = Inr (x, ctx') \<Longrightarrow> ntd_flow ctx' = ntd_flow ctx"
  by (auto simp: emit_unary_intin_def on_mod_def Let_def  split: if_splits option.splits prod.split_asm dest!: flow)

lemma emit_binary_intin_flow [flow]: "emit_binary_intin alu i v w ctx = Inr (x, ctx') \<Longrightarrow> ntd_flow ctx' = ntd_flow ctx"
  by (auto simp: emit_binary_intin_def on_mod_def Let_def  split: if_splits option.splits prod.split_asm dest!: flow)

lemma emit_tertiary_intin_flow [flow]: "emit_tertiary_intin alu i v w u ctx = Inr (x, ctx') \<Longrightarrow> ntd_flow ctx' = ntd_flow ctx"
  by (auto simp: emit_tertiary_intin_def on_mod_def Let_def  split: if_splits option.splits prod.split_asm dest!: flow)

lemma emit_bitfield_insert_flow [flow]: "emit_bitfield_insert alu v w u y ctx = Inr (x, ctx') \<Longrightarrow> ntd_flow ctx' = ntd_flow ctx"
  by (auto simp: emit_bitfield_insert_def on_mod_def Let_def  split: if_splits option.splits prod.split_asm dest!: flow)

lemma emit_dot4add_packed_flow [flow]: "emit_dot4add_packed alu i v w u ctx = Inr (x, ctx') \<Longrightarrow> ntd_flow ctx' = ntd_flow ctx"
  by (auto simp: emit_dot4add_packed_def on_mod_def Let_def  split: if_splits option.splits prod.split_asm dest!: flow)

lemma ntd_emit_select_flow [flow]: "ntd_emit_select alu v w u ctx = Inr (x, ctx') \<Longrightarrow> ntd_flow ctx' = ntd_flow ctx"
  by (auto simp: ntd_emit_select_def on_mod_def Let_def  split: if_splits option.splits prod.split_asm dest!: flow)

lemma emit_b2f16_flow [flow]: "emit_b2f16 alu v ctx = Inr (x, ctx') \<Longrightarrow> ntd_flow ctx' = ntd_flow ctx"
  by (auto simp: emit_b2f16_def on_mod_def Let_def  split: if_splits option.splits prod.split_asm dest!: flow)

lemma emit_b2f32_flow [flow]: "emit_b2f32 alu v ctx = Inr (x, ctx') \<Longrightarrow> ntd_flow ctx' = ntd_flow ctx"
  by (auto simp: emit_b2f32_def on_mod_def Let_def  split: if_splits option.splits prod.split_asm dest!: flow)

lemma emit_b2f64_flow [flow]: "emit_b2f64 alu v ctx = Inr (x, ctx') \<Longrightarrow> ntd_flow ctx' = ntd_flow ctx"
  by (auto simp: emit_b2f64_def on_mod_def Let_def  split: if_splits option.splits prod.split_asm dest!: flow)

lemma emit_f16tof32_flow [flow]: "emit_f16tof32 alu v ctx = Inr (x, ctx') \<Longrightarrow> ntd_flow ctx' = ntd_flow ctx"
  by (auto simp: emit_f16tof32_def on_mod_def Let_def  split: if_splits option.splits prod.split_asm dest!: flow)

lemma emit_f32tof16_flow [flow]: "emit_f32tof16 alu v w ctx = Inr (x, ctx') \<Longrightarrow> ntd_flow ctx' = ntd_flow ctx"
  by (auto simp: emit_f32tof16_def on_mod_def Let_def  split: if_splits option.splits prod.split_asm dest!: flow)

lemma emit_frcp_flow [flow]: "emit_frcp alu v ctx = Inr (x, ctx') \<Longrightarrow> ntd_flow ctx' = ntd_flow ctx"
  by (auto simp: emit_frcp_def on_mod_def Let_def  split: if_splits option.splits prod.split_asm dest!: flow)

lemma emit_make_double_flow [flow]: "emit_make_double alu ctx = Inr (x, ctx') \<Longrightarrow> ntd_flow ctx' = ntd_flow ctx"
  by (auto simp: emit_make_double_def on_mod_def Let_def  split: if_splits option.splits prod.split_asm dest!: flow)

lemma emit_split_double_flow [flow]: "emit_split_double alu ctx = Inr (x, ctx') \<Longrightarrow> ntd_flow ctx' = ntd_flow ctx"
  by (auto simp: emit_split_double_def on_mod_def Let_def  split: if_splits option.splits prod.split_asm dest!: flow)

lemma vec_from_flow [flow]: "vec_from alu i srcs ctx = Inr ctx' \<Longrightarrow> ntd_flow ctx' = ntd_flow ctx"
  by (induction srcs arbitrary: i ctx) (auto dest!: flow)

lemma emit_vec_flow [flow]: "emit_vec alu n ctx = Inr (x, ctx') \<Longrightarrow> ntd_flow ctx' = ntd_flow ctx"
  by (auto simp: emit_vec_def on_mod_def Let_def  split: if_splits option.splits prod.split_asm dest!: flow)

lemma emit_mov_flow [flow]: "emit_mov alu ctx = Inr (x, ctx') \<Longrightarrow> ntd_flow ctx' = ntd_flow ctx"
  by (auto simp: emit_mov_def on_mod_def Let_def  split: if_splits option.splits prod.split_asm dest!: flow)

lemma emit_bcsel_flow [flow]: "emit_bcsel alu ctx = Inr (x, ctx') \<Longrightarrow> ntd_flow ctx' = ntd_flow ctx"
  by (auto simp: emit_bcsel_def on_mod_def Let_def  split: if_splits option.splits prod.split_asm dest!: flow)

lemma emit_division_flow [flow]: "emit_division alu op v w ctx = Inr (x, ctx') \<Longrightarrow> ntd_flow ctx' = ntd_flow ctx"
  by (auto simp: emit_division_def on_mod_def Let_def  split: if_splits option.splits prod.split_asm dest!: flow)

lemma emit_inot_flow [flow]: "emit_inot alu v ctx = Inr (x, ctx') \<Longrightarrow> ntd_flow ctx' = ntd_flow ctx"
  by (auto simp: emit_inot_def on_mod_def Let_def  split: if_splits option.splits prod.split_asm dest!: flow)

lemma emit_move_op_flow [flow]: "emit_move_op op alu ctx = Inr (x, ctx') \<Longrightarrow> ntd_flow ctx' = ntd_flow ctx"
  by (cases op) (auto dest!: flow)

lemma emit_int_op_flow [flow]: "emit_int_op op alu vs ctx = Inr (x, ctx') \<Longrightarrow> ntd_flow ctx' = ntd_flow ctx"
  by (cases op) (auto dest!: flow)

lemma emit_float_op_flow [flow]: "emit_float_op op alu vs ctx = Inr (x, ctx') \<Longrightarrow> ntd_flow ctx' = ntd_flow ctx"
  by (cases op) (auto dest!: flow)

lemma get_alu_srcs_flow [flow]: "get_alu_srcs alu is ctx = Inr (vs, ctx') \<Longrightarrow> ntd_flow ctx' = ntd_flow ctx"
  by (induction "is" arbitrary: vs ctx ctx') (auto split: prod.split_asm dest!: flow)

lemma with_srcs_flow:
  "with_srcs alu f ctx = Inr (x, ctx') \<Longrightarrow> (\<And>vs ctx x ctx'. f vs ctx = Inr (x, ctx') \<Longrightarrow> ntd_flow ctx' = ntd_flow ctx) \<Longrightarrow>
   ntd_flow ctx' = ntd_flow ctx"
  by (auto simp: with_srcs_def split: if_splits prod.split_asm dest!: get_alu_srcs_flow)

lemma emit_alu_flow [flow]: "emit_alu alu ctx = Inr (x, ctx') \<Longrightarrow> ntd_flow ctx' = ntd_flow ctx"
  by (cases "alu_op alu") (auto simp: emit_alu_def dest!: with_srcs_flow emit_move_op_flow intro: flow)

section \<open>Phis\<close>

lemma phi_components_flow [flow]: "phi_components def t is ctx = Inr (ps, ctx') \<Longrightarrow> ntd_flow ctx' = ntd_flow ctx"
  by (induction "is" arbitrary: ps ctx ctx') (auto simp: on_mod_def split: option.splits prod.split_asm dest!: flow)

lemma ntd_emit_phi_flow [flow]: "ntd_emit_phi phi ctx = Inr (x, ctx') \<Longrightarrow> ntd_flow ctx' = ntd_flow ctx"
  by (auto simp: ntd_emit_phi_def split: if_splits prod.split_asm dest!: flow)

text \<open>Completing a phi changes its own entry only.\<close>

lemma dxil_phi_add_incoming_flow [flow]: "dxil_phi_add_incoming v as m = Inr m' \<Longrightarrow> flow_view m' = flow_view m"
proof -
  assume run: "dxil_phi_add_incoming v as m = Inr m'"
  then obtain instr where read: "get_instr m v = Inr instr" by (auto simp: dxil_phi_add_incoming_def)
  then obtain t srcs new where data: "instr_data instr = INSTR_PHI t srcs"
    and m': "m' = set_instr_data v (INSTR_PHI t (srcs @ new)) m"
    using run by (auto simp: dxil_phi_add_incoming_def split: instr_data.split_asm if_splits)
  from read data obtain f i where v: "v = INSTR_REF f i" "f < length (func_def_list m)"
    "i < length (instr_list (func_def_list m ! f))" "instr_data (instr_list (func_def_list m ! f) ! i) = INSTR_PHI t srcs"
    by (cases v) (auto simp: get_instr_def split: if_splits)
  let ?def = "func_def_list m ! f"
  let ?is = "(instr_list ?def)[i := (instr_list ?def ! i)\<lparr>instr_data := INSTR_PHI t (srcs @ new)\<rparr>]"
  have is_eq: "instr_list ?def = take i (instr_list ?def) @ (instr_list ?def ! i) # drop (Suc i) (instr_list ?def)"
    using v(3) by (rule id_take_nth_drop)
  have "filter is_terminator (map instr_data ?is) = filter is_terminator (map instr_data (instr_list ?def))"
    using v(3,4) by (subst (2) is_eq) (simp add: upd_conv_take_nth_drop)
  then have "flow_of (?def\<lparr>instr_list := ?is\<rparr>) = flow_of ?def" by (simp add: flow_of_def terminators_def)
  then show ?thesis
    using m' v by (auto simp: set_instr_data_def Let_def flow_view_def nth_list_update intro!: nth_equalityI)
qed

lemma change_mod_incoming_flow:
  "change_mod (dxil_phi_add_incoming v as) ctx = Inr ctx' \<Longrightarrow> ntd_flow ctx' = ntd_flow ctx"
  by (auto simp: change_mod_def dest!: dxil_phi_add_incoming_flow)

lemma fixup_component_flow [flow]: "fixup_component v i srcs as ctx = Inr ctx' \<Longrightarrow> ntd_flow ctx' = ntd_flow ctx"
proof (induction srcs arbitrary: as ctx)
  case Nil
  then show ?case by (auto split: if_splits dest!: change_mod_incoming_flow)
next
  case (Cons src srcs)
  then show ?case
    by (cases src) (auto simp: Let_def split: if_splits dest!: change_mod_incoming_flow)
qed

lemma fixup_components_flow [flow]: "fixup_components phi i comps ctx = Inr ctx' \<Longrightarrow> ntd_flow ctx' = ntd_flow ctx"
  by (induction comps arbitrary: i ctx) (auto dest!: flow)

lemma fixup_phi_flow [flow]: "fixup_phi phi comps ctx = Inr ctx' \<Longrightarrow> ntd_flow ctx' = ntd_flow ctx"
  unfolding fixup_phi_def by (rule fixup_components_flow)

lemma fixup_phis_flow [flow]: "fixup_phis phis ctx = Inr ctx' \<Longrightarrow> ntd_flow ctx' = ntd_flow ctx"
  by (induction phis arbitrary: ctx) (auto dest!: fixup_phi_flow)

end
