(* ===== verification/Ntd_Blocks.thy ===== *)
theory Ntd_Blocks
  imports Ntd_Flow_Ops
begin

text \<open>
  The branches of a function. A body that is a tree of control flow of NIR (blocks, conditionals and loops, the
  jumps at the ends of blocks) becomes one block of DXIL for every block of NIR, numbered in the order in which
  they stand, and each is left to exactly the blocks that NIR names as its successors.
\<close>

section \<open>Trees of control flow\<close>

fun cf_node_blocks :: "'i nir_cf_node \<Rightarrow> 'i nir_block list"
and cf_blocks :: "'i nir_cf_node list \<Rightarrow> 'i nir_block list" where
  "cf_node_blocks (CF_BLOCK b) = [b]"
| "cf_node_blocks (CF_IF c thens elses) = cf_blocks thens @ cf_blocks elses"
| "cf_node_blocks (CF_LOOP body continues) = cf_blocks body @ cf_blocks continues"
| "cf_blocks [] = []"
| "cf_blocks (node # nodes) = cf_node_blocks node @ cf_blocks nodes"

definition nir_successors :: "'i nir_block \<Rightarrow> nat list" where
  "nir_successors b = (case successor0 b of None \<Rightarrow> [] | Some s \<Rightarrow> [s]) @ (case successor1 b of None \<Rightarrow> [] | Some s \<Rightarrow> [s])"

definition is_jump :: "'i nir_instr \<Rightarrow> bool" where
  "is_jump i = (case i of JUMP_INSTR _ \<Rightarrow> True | _ \<Rightarrow> False)"

definition block_wf :: "'i nir_block \<Rightarrow> bool" where
  "block_wf b = list_all (\<lambda>i. \<not> is_jump i) (butlast (block_instrs b))"

text \<open>
  The conditions of \<open>nir_validate\<close> that the branches rest on: lists begin and end with blocks, the block before
  a conditional goes to the first blocks of its sides, the block before a loop and the last one in it, unless it
  jumps, go to the first block of the loop.
\<close>

definition first_index :: "'i nir_cf_node list \<Rightarrow> nat" where
  "first_index nodes = block_index (hd (cf_blocks nodes))"

definition ends_in_jump :: "'i nir_cf_node list \<Rightarrow> bool" where
  "ends_in_jump nodes = nir_block_ends_in_jump (List.last (cf_blocks nodes))"

fun cf_wf :: "'i nir_cf_node list \<Rightarrow> bool" where
  "cf_wf [CF_BLOCK b] = block_wf b"
| "cf_wf (CF_BLOCK b # CF_IF c thens elses # nodes) =
     (block_wf b \<and> \<not> nir_block_ends_in_jump b \<and> nir_successors b = [first_index thens, first_index elses] \<and>
      cf_wf thens \<and> cf_wf elses \<and> cf_wf nodes)"
| "cf_wf (CF_BLOCK b # CF_LOOP body continues # nodes) =
     (block_wf b \<and> \<not> nir_block_ends_in_jump b \<and> nir_successors b = [first_index body] \<and> cf_wf body \<and>
      (ends_in_jump body \<or> nir_successors (List.last (cf_blocks body)) = [first_index body]) \<and> cf_wf nodes)"
| "cf_wf _ = False"

lemma cf_blocks_not_Nil [simp]: "cf_wf nodes \<Longrightarrow> cf_blocks nodes \<noteq> []"
  by (induction nodes rule: cf_wf.induct) simp_all

lemma cf_wf_not_Nil: "cf_wf nodes \<Longrightarrow> nodes \<noteq> []"
  by auto

lemma cf_first_block_wf: "cf_wf nodes \<Longrightarrow> cf_first_block nodes = Inr (hd (cf_blocks nodes))"
  by (cases nodes rule: cf_wf.cases) (simp_all add: cf_first_block_def nir_cf_node_as_block_def)

lemma cf_last_block_wf: "cf_wf nodes \<Longrightarrow> cf_last_block nodes = Inr (List.last (cf_blocks nodes))"
  by (induction nodes rule: cf_wf.induct) (simp_all add: cf_last_block_def nir_cf_node_as_block_def cf_wf_not_Nil split: if_splits)

lemma single_successor_Inr: "single_successor b = Inr s \<Longrightarrow> nir_successors b = [s]"
  by (auto simp: single_successor_def nir_successors_def split: option.splits)

section \<open>The blocks of the function that is emitted\<close>

definition branch_targets :: "instr_data \<Rightarrow> nat list" where
  "branch_targets d = (case d of INSTR_BR None t f \<Rightarrow> [t] | INSTR_BR (Some c) t f \<Rightarrow> [t, f] | _ \<Rightarrow> [])"

definition flow_at :: "ntd_context \<Rightarrow> nat \<Rightarrow> int list \<times> nat \<times> instr_data list \<Rightarrow> bool" where
  "flow_at ctx f fl \<longleftrightarrow> cur_emitting_func (ntd_mod ctx) = Some f \<and> f < length (func_def_list (ntd_mod ctx)) \<and>
     flow_of (func_def_list (ntd_mod ctx) ! f) = fl"

text \<open>Blocks numbered from \<open>k\<close> on.\<close>

fun number_blocks :: "nat \<Rightarrow> 'i nir_block list \<Rightarrow> int list \<Rightarrow> int list" where
  "number_blocks k [] ids = ids"
| "number_blocks k (b # bs) ids = number_blocks (Suc k) bs (ids[block_index b := int k])"

lemma number_blocks_append: "number_blocks k (as @ bs) ids = number_blocks (k + length as) bs (number_blocks k as ids)"
  by (induction as arbitrary: k ids) simp_all

lemma number_blocks_length [simp]: "length (number_blocks k bs ids) = length ids"
  by (induction bs arbitrary: k ids) simp_all

lemma number_blocks_other: "b \<notin> block_index ` set bs \<Longrightarrow> number_blocks k bs ids ! b = ids ! b"
  by (induction bs arbitrary: k ids) auto

lemma number_blocks_nth:
  "distinct (map block_index bs) \<Longrightarrow> \<forall>b\<in>set bs. block_index b < length ids \<Longrightarrow> i < length bs \<Longrightarrow>
   number_blocks k bs ids ! block_index (bs ! i) = int (k + i)"
proof (induction bs arbitrary: k ids i)
  case (Cons b bs)
  show ?case
  proof (cases i)
    case 0
    have "block_index b \<notin> block_index ` set bs" using Cons.prems(1) by simp
    from number_blocks_other [OF this, of "Suc k" "ids[block_index b := int k]"] 0 Cons.prems(2) show ?thesis by simp
  next
    case (Suc j)
    then show ?thesis using Cons.IH [of "ids[block_index b := int k]" j "Suc k"] Cons.prems by simp
  qed
qed simp

section \<open>The steps of the emission\<close>

lemma flow_at_view: "ntd_flow ctx' = ntd_flow ctx \<Longrightarrow> flow_at ctx f fl \<Longrightarrow> flow_at ctx' f fl"
proof -
  assume v: "ntd_flow ctx' = ntd_flow ctx" and at: "flow_at ctx f fl"
  from v have l: "map flow_of (func_def_list (ntd_mod ctx')) = map flow_of (func_def_list (ntd_mod ctx))"
    by (simp add: flow_view_def)
  then have n: "length (func_def_list (ntd_mod ctx')) = length (func_def_list (ntd_mod ctx))" by (rule map_eq_imp_length_eq)
  have "map flow_of (func_def_list (ntd_mod ctx')) ! f = map flow_of (func_def_list (ntd_mod ctx)) ! f" using l by simp
  then have "flow_of (func_def_list (ntd_mod ctx') ! f) = fl" using at n by (simp add: flow_at_def)
  moreover have "cur_emitting_func (ntd_mod ctx') = Some f" using v at by (simp add: flow_at_def flow_view_def)
  ultimately show ?thesis using at n by (simp add: flow_at_def)
qed

lemma and_then_True:
  "and_then r g = Inr (True, ctx') \<longleftrightarrow> (\<exists>ctx. r = Inr (True, ctx) \<and> g ctx = Inr (True, ctx'))"
  by (cases r) (auto simp: and_then_def split: if_splits)

lemma succeed_True: "succeed r = Inr (ok, ctx') \<longleftrightarrow> ok \<and> r = Inr ctx'"
  by (cases r) (auto simp: succeed_def)

lemma terminate_flow:
  assumes "create_instr d t hv m = Inr (x, m1)" and "end_block m1 = Inr m2" and "is_terminator d"
    and "cur_emitting_func m = Some f" and "flow_of (func_def_list m ! f) = (ids, k, ts)"
  shows "cur_emitting_func m2 = Some f" and "f < length (func_def_list m2)"
    and "flow_of (func_def_list m2 ! f) = (ids, Suc k, ts @ [d])"
  using assms by (auto simp: create_instr_def end_block_def Let_def flow_of_def terminators_def split: if_splits)

lemma flow_view_nth:
  assumes "flow_view m' = flow_view m" and "cur_emitting_func m = Some f" and "f < length (func_def_list m)"
    and "flow_of (func_def_list m ! f) = fl"
  shows "cur_emitting_func m' = Some f" and "flow_of (func_def_list m' ! f) = fl"
  using flow_at_view [of "undefined\<lparr>ntd_mod := m'\<rparr>" "undefined\<lparr>ntd_mod := m\<rparr>" f fl] assms by (simp_all add: flow_at_def)

lemma dxil_emit_branch_flow:
  assumes "dxil_emit_branch c t e m = Inr m'" and "cur_emitting_func m = Some f" and "f < length (func_def_list m)"
    and "flow_of (func_def_list m ! f) = (ids, k, ts)"
  shows "cur_emitting_func m' = Some f \<and> f < length (func_def_list m') \<and>
    flow_of (func_def_list m' ! f) = (ids, Suc k, ts @ [INSTR_BR c t e])"
proof -
  obtain m0 void m1 x m2 where 0: "flow_view m0 = flow_view m" and 1: "dxil_module_get_void_type m0 = (void, m1)"
    and 2: "create_instr (INSTR_BR c t e) void False m1 = Inr (x, m2)" and 3: "end_block m2 = Inr m'"
    using assms(1) by (auto simp: dxil_emit_branch_def Let_def split: option.split_asm prod.split_asm dest!: get_int1_type_flow)
  have v: "flow_view m1 = flow_view m" using dxil_module_get_void_type_flow [OF 1] 0 by simp
  note at = flow_view_nth [OF v assms(2-4)]
  show ?thesis using terminate_flow [OF 2 3 _ at] by simp
qed


lemma ntd_emit_branch_at:
  assumes "ntd_emit_branch t ctx = Inr (True, ctx')" and "flow_at ctx f (ids, k, ts)"
  shows "flow_at ctx' f (ids, Suc k, ts @ [INSTR_BR None t 0])"
proof -
  obtain m where m: "dxil_emit_branch None t 0 (ntd_mod ctx) = Inr m" and c: "ctx' = ctx\<lparr>ntd_mod := m\<rparr>"
    using assms(1) by (auto simp: ntd_emit_branch_def change_mod_def succeed_True)
  show ?thesis using dxil_emit_branch_flow [OF m] assms(2) unfolding c by (simp add: flow_at_def)
qed

lemma ntd_emit_cond_branch_at:
  assumes "ntd_emit_cond_branch v t e ctx = Inr (True, ctx')" and "flow_at ctx f (ids, k, ts)"
  shows "flow_at ctx' f (ids, Suc k, ts @ [INSTR_BR (Some v) t e])"
proof -
  obtain m where m: "dxil_emit_branch (Some v) t e (ntd_mod ctx) = Inr m" and c: "ctx' = ctx\<lparr>ntd_mod := m\<rparr>"
    using assms(1) by (auto simp: ntd_emit_cond_branch_def change_mod_def succeed_True)
  show ?thesis using dxil_emit_branch_flow [OF m] assms(2) unfolding c by (simp add: flow_at_def)
qed

lemma set_block_id_at:
  assumes "change_mod (set_block_id b) ctx = Inr ctx'" and "flow_at ctx f (ids, k, ts)"
  shows "flow_at ctx' f (ids[b := int k], k, ts) \<and> b < length ids"
  using assms by (auto simp: change_mod_def set_block_id_def flow_at_def flow_of_def terminators_def split: if_splits)

section \<open>Instructions\<close>

text \<open>What the emission of the instructions of other kinds is relied on for: it emits no branches.\<close>

definition keeps_flow :: "('i \<Rightarrow> bool ntd) \<Rightarrow> bool" where
  "keeps_flow other \<longleftrightarrow> (\<forall>i ctx ok ctx'. other i ctx = Inr (ok, ctx') \<longrightarrow> ntd_flow ctx' = ntd_flow ctx)"

lemma ntd_emit_instr_flow:
  assumes "ntd_emit_instr other block i ctx = Inr (ok, ctx')" and "keeps_flow other" and "\<not> is_jump i"
  shows "ntd_flow ctx' = ntd_flow ctx"
proof (cases i)
  case (OTHER_INSTR j)
  then have "other j ctx = Inr (ok, ctx')" using assms(1) by (simp add: ntd_emit_instr_def)
  then show ?thesis using assms(2) unfolding keeps_flow_def by blast
qed (use assms in \<open>auto simp: ntd_emit_instr_def is_jump_def succeed_True dest: flow\<close>)

lemma emit_instrs_flow:
  assumes "emit_instrs other block is ctx = Inr (True, ctx')" and "keeps_flow other" and "list_all (\<lambda>i. \<not> is_jump i) is"
  shows "ntd_flow ctx' = ntd_flow ctx"
  using assms(1,3)
proof (induction "is" arbitrary: ctx)
  case (Cons i "is")
  then obtain ctx1 where 1: "ntd_emit_instr other block i ctx = Inr (True, ctx1)" and 2: "emit_instrs other block is ctx1 = Inr (True, ctx')"
    by (auto simp: and_then_True)
  have "ntd_flow ctx' = ntd_flow ctx1" using Cons.IH [OF 2] Cons.prems(2) by simp
  also have "\<dots> = ntd_flow ctx" using ntd_emit_instr_flow [OF 1 assms(2)] Cons.prems(2) by simp
  finally show ?case .
qed simp

lemma emit_instrs_append:
  "emit_instrs other block (is @ js) ctx = and_then (emit_instrs other block is ctx) (emit_instrs other block js)"
proof (induction "is" arbitrary: ctx)
  case (Cons i "is")
  show ?case
    by (cases "ntd_emit_instr other block i ctx") (auto simp: and_then_def Cons.IH)
qed (simp add: and_then_def)

lemma emit_jump_at:
  assumes "emit_jump block t ctx = Inr (True, ctx')" and "flow_at ctx f (ids, k, ts)"
  shows "\<exists>s. nir_successors block = [s] \<and> flow_at ctx' f (ids, Suc k, ts @ [INSTR_BR None s 0])"
proof -
  obtain s where s: "single_successor block = Inr s" "ntd_emit_branch s ctx = Inr (True, ctx')"
    using assms(1) by (auto simp: emit_jump_def split: if_splits)
  show ?thesis using single_successor_Inr [OF s(1)] ntd_emit_branch_at [OF s(2) assms(2)] by blast
qed

text \<open>Instructions are left by the jump at their end, if there is one.\<close>

definition jump_branches :: "'i nir_block \<Rightarrow> instr_data list \<Rightarrow> bool" where
  "jump_branches b ts \<longleftrightarrow> map branch_targets ts = (if nir_block_ends_in_jump b then [nir_successors b] else [])"

lemma emit_block_at:
  assumes em: "emit_block other b ctx = Inr (True, ctx')" and keep: "keeps_flow other" and wf: "block_wf b"
    and at: "flow_at ctx f (ids, k, ts)"
  shows "\<exists>new. flow_at ctx' f (ids[block_index b := int k], k + length new, ts @ new) \<and> jump_branches b new \<and>
    block_index b < length ids"
proof -
  let ?ids = "ids[block_index b := int k]"
  obtain ctx1 where 1: "change_mod (set_block_id (block_index b)) ctx = Inr ctx1"
    and 2: "emit_instrs other b (block_instrs b) ctx1 = Inr (True, ctx')"
    using em by (auto simp: emit_block_def)
  have at1: "flow_at ctx1 f (?ids, k, ts)" and lt: "block_index b < length ids" using set_block_id_at [OF 1 at] by auto
  show ?thesis
  proof (cases "nir_block_ends_in_jump b")
    case False
    have "list_all (\<lambda>i. \<not> is_jump i) (block_instrs b)"
    proof (cases "block_instrs b" rule: rev_cases)
      case (snoc init i)
      then show ?thesis using wf False by (cases i) (auto simp: block_wf_def nir_block_ends_in_jump_def is_jump_def)
    qed simp
    from flow_at_view [OF emit_instrs_flow [OF 2 keep this] at1] have "flow_at ctx' f (?ids, k + length [], ts @ [])" by simp
    then show ?thesis using False lt by (auto simp: jump_branches_def intro!: exI [of _ "[]"])
  next
    case True
    obtain init t where i: "block_instrs b = init @ [JUMP_INSTR t]" "list_all (\<lambda>i. \<not> is_jump i) init"
      using True wf by (cases "block_instrs b" rule: rev_cases)
        (auto simp: block_wf_def nir_block_ends_in_jump_def split: nir_instr.splits)
    obtain ctx2 where 3: "emit_instrs other b init ctx1 = Inr (True, ctx2)" and 4: "emit_jump b t ctx2 = Inr (True, ctx')"
      using 2 unfolding i(1) emit_instrs_append by (auto simp: and_then_True ntd_emit_instr_def)
    obtain s where "nir_successors b = [s]" "flow_at ctx' f (?ids, Suc k, ts @ [INSTR_BR None s 0])"
      using emit_jump_at [OF 4 flow_at_view [OF emit_instrs_flow [OF 3 keep i(2)] at1]] by blast
    then show ?thesis using True lt
      by (intro exI [of _ "[INSTR_BR None s 0]"]) (simp add: jump_branches_def branch_targets_def)
  qed
qed


section \<open>Lists of control flow\<close>

text \<open>The blocks \<open>bs\<close> have been numbered in their order, and branches with the targets \<open>outs\<close> been added.\<close>

definition emitted :: "ntd_context \<Rightarrow> ntd_context \<Rightarrow> 'i nir_block list \<Rightarrow> nat list list \<Rightarrow> bool" where
  "emitted ctx ctx' bs outs \<longleftrightarrow>
     (\<forall>f ids k ts. flow_at ctx f (ids, k, ts) \<longrightarrow>
        (\<exists>new. flow_at ctx' f (number_blocks k bs ids, k + length new, ts @ new) \<and> map branch_targets new = outs \<and>
           (\<forall>b\<in>set bs. block_index b < length ids)))"

lemma emittedE:
  assumes "emitted ctx ctx' bs outs" and "flow_at ctx f (ids, k, ts)"
  obtains new where "flow_at ctx' f (number_blocks k bs ids, k + length new, ts @ new)"
    and "map branch_targets new = outs" and "\<forall>b\<in>set bs. block_index b < length ids"
  using assms unfolding emitted_def by blast

lemma emitted_trans:
  assumes "emitted ctx ctx1 as outs" and "emitted ctx1 ctx2 bs outs'" and "length outs = length as \<or> bs = []"
  shows "emitted ctx ctx2 (as @ bs) (outs @ outs')"
  unfolding emitted_def
proof (intro allI impI)
  fix f ids k ts assume at: "flow_at ctx f (ids, k, ts)"
  obtain n1 where n1: "flow_at ctx1 f (number_blocks k as ids, k + length n1, ts @ n1)" "map branch_targets n1 = outs"
    "\<forall>b\<in>set as. block_index b < length ids" by (rule emittedE [OF assms(1) at])
  obtain n2 where n2: "flow_at ctx2 f (number_blocks (k + length n1) bs (number_blocks k as ids), k + length n1 + length n2, (ts @ n1) @ n2)"
    "map branch_targets n2 = outs'" "\<forall>b\<in>set bs. block_index b < length (number_blocks k as ids)"
    by (rule emittedE [OF assms(2) n1(1)])
  have "length n1 = length outs" using n1(2) by auto
  then have "number_blocks (k + length n1) bs (number_blocks k as ids) = number_blocks k (as @ bs) ids"
    using assms(3) by (auto simp: number_blocks_append)
  then show "\<exists>new. flow_at ctx2 f (number_blocks k (as @ bs) ids, k + length new, ts @ new) \<and>
      map branch_targets new = outs @ outs' \<and> (\<forall>b\<in>set (as @ bs). block_index b < length ids)"
    using n1 n2 by (intro exI [of _ "n1 @ n2"]) (auto simp: add.assoc)
qed

lemma emitted_flow: "ntd_flow ctx' = ntd_flow ctx \<Longrightarrow> emitted ctx ctx' [] []"
  unfolding emitted_def using flow_at_view by (auto intro!: exI [of _ "[]"])

lemma emitted_branch: "ntd_emit_branch t ctx = Inr (True, ctx') \<Longrightarrow> emitted ctx ctx' [] [[t]]"
  unfolding emitted_def using ntd_emit_branch_at
  by (intro allI impI, intro exI [of _ "[INSTR_BR None t 0]"]) (simp add: branch_targets_def)

lemma emitted_cond_branch: "ntd_emit_cond_branch v t e ctx = Inr (True, ctx') \<Longrightarrow> emitted ctx ctx' [] [[t, e]]"
  unfolding emitted_def using ntd_emit_cond_branch_at
  by (intro allI impI, intro exI [of _ "[INSTR_BR (Some v) t e]"]) (simp add: branch_targets_def)

text \<open>The blocks of a list that have been left when it has been emitted: its last one may not have been.\<close>

definition exits :: "'i nir_cf_node list \<Rightarrow> 'i nir_block list" where
  "exits nodes = (if ends_in_jump nodes then cf_blocks nodes else butlast (cf_blocks nodes))"

lemma emitted_block:
  assumes "emit_block other b ctx = Inr (True, ctx')" and "keeps_flow other" and "block_wf b"
  shows "emitted ctx ctx' [b] (map nir_successors (exits [CF_BLOCK b]))"
  unfolding emitted_def
proof (intro allI impI)
  fix f ids k ts assume at: "flow_at ctx f (ids, k, ts)"
  have "map nir_successors (exits [CF_BLOCK b]) = (if nir_block_ends_in_jump b then [nir_successors b] else [])"
    by (simp add: exits_def ends_in_jump_def)
  then show "\<exists>new. flow_at ctx' f (number_blocks k [b] ids, k + length new, ts @ new) \<and>
      map branch_targets new = map nir_successors (exits [CF_BLOCK b]) \<and> (\<forall>b\<in>set [b]. block_index b < length ids)"
    using emit_block_at [OF assms at] by (auto simp: jump_branches_def)
qed

lemma emitted_leave:
  assumes em: "emitted ctx ctx1 (cf_blocks nodes) (map nir_successors (exits nodes))"
    and leave: "leave_list nodes s ctx1 = Inr (True, ctx')" and wf: "cf_wf nodes"
    and s: "ends_in_jump nodes \<or> nir_successors (List.last (cf_blocks nodes)) = [s]"
  shows "emitted ctx ctx' (cf_blocks nodes) (map nir_successors (cf_blocks nodes))"
proof (cases "ends_in_jump nodes")
  case True
  then have "ctx' = ctx1" using leave by (simp add: leave_list_def cf_last_block_wf [OF wf] ends_in_jump_def)
  then show ?thesis using em True by (simp add: exits_def)
next
  case False
  then have "ntd_emit_branch s ctx1 = Inr (True, ctx')"
    using leave by (simp add: leave_list_def cf_last_block_wf [OF wf] ends_in_jump_def)
  from emitted_trans [OF em emitted_branch [OF this]]
  have "emitted ctx ctx' (cf_blocks nodes) (map nir_successors (butlast (cf_blocks nodes)) @ [[s]])"
    using False by (simp add: exits_def)
  moreover have "map nir_successors (butlast (cf_blocks nodes)) @ [[s]] = map nir_successors (cf_blocks nodes)"
    using s False cf_blocks_not_Nil [OF wf]
    by (subst append_butlast_last_id [symmetric, of "cf_blocks nodes"]) (simp_all del: append_butlast_last_id)
  ultimately show ?thesis by simp
qed

text \<open>A block that is left by one branch, followed by more.\<close>

lemma emitted_after:
  fixes b :: "'i nir_block"
  assumes "emit_block other b ctx = Inr (True, ctx1)" and "keeps_flow other" and "block_wf b"
    and "\<not> nir_block_ends_in_jump b" and "emitted ctx1 ctx2 ([] :: 'i nir_block list) [out]" and "nir_successors b = out"
  shows "emitted ctx ctx2 [b] (map nir_successors [b])"
proof -
  have "emitted ctx ctx1 [b] []"
    using emitted_block [OF assms(1-3)] assms(4) by (simp add: exits_def ends_in_jump_def)
  from emitted_trans [OF this assms(5)] show ?thesis using assms(6) by simp
qed

lemma exits_append:
  "cf_wf nodes \<Longrightarrow> cf_blocks all = bs @ cf_blocks nodes \<Longrightarrow> exits all = bs @ exits nodes"
  by (simp add: exits_def ends_in_jump_def butlast_append)


lemma cf_list_two:
  "emit_cf_list other (CF_BLOCK b # node # nodes) ctx = Inr (True, ctx') \<Longrightarrow>
   \<exists>ctx1 ctx2. emit_block other b ctx = Inr (True, ctx1) \<and> emit_cf_node other node ctx1 = Inr (True, ctx2) \<and>
     emit_cf_list other nodes ctx2 = Inr (True, ctx')"
  unfolding emit_cf_list.simps emit_cf_node.simps(1) and_then_True by blast

lemma cf_if_steps:
  assumes "emit_cf_node other (CF_IF c thens elses) ctx = Inr (True, ctx')" and "elses \<noteq> []"
  shows "\<exists>v ctx1 t e ts es ctx2 ctx3 ctx4 ctx5. get_src c 0 nir_type_bool ctx = Inr (v, ctx1) \<and>
    if_targets thens elses = Inr (t, e, ts, es) \<and> ntd_emit_cond_branch v t e ctx1 = Inr (True, ctx2) \<and>
    emit_cf_list other thens ctx2 = Inr (True, ctx3) \<and> leave_list thens ts ctx3 = Inr (True, ctx4) \<and>
    emit_cf_list other elses ctx4 = Inr (True, ctx5) \<and> leave_list elses es ctx5 = Inr (True, ctx')"
proof -
  obtain v ctx1 where 1: "get_src c 0 nir_type_bool ctx = Inr (v, ctx1)"
    using assms(1) by (cases "get_src c 0 nir_type_bool ctx") (auto split: if_splits)
  obtain t e ts es where 2: "if_targets thens elses = Inr (t, e, ts, es)"
    using assms(1) 1 by (cases "if_targets thens elses") (auto split: if_splits)
  have "and_then (and_then (and_then (ntd_emit_cond_branch v t e ctx1) (\<lambda>ctx. emit_cf_list other thens ctx))
      (leave_list thens ts)) (\<lambda>ctx. and_then (emit_cf_list other elses ctx) (leave_list elses es)) = Inr (True, ctx')"
    using assms 1 2 by (simp split: if_splits)
  then show ?thesis unfolding and_then_True using 1 2 by blast
qed

lemma emit_cf_node_blocks:
  fixes nodes :: "'i nir_cf_node list"
  assumes "keeps_flow other"
  shows "cf_wf nodes \<Longrightarrow> emit_cf_list other nodes ctx = Inr (True, ctx') \<Longrightarrow>
    emitted ctx ctx' (cf_blocks nodes) (map nir_successors (exits nodes))"
proof (induction nodes arbitrary: ctx ctx' rule: cf_wf.induct)
  case (1 b)
  then show ?case using emitted_block [OF _ assms] by (simp add: and_then_True)
next
  case (2 b c thens elses nodes)
  note wf = 2(4)
  have ne: "elses \<noteq> []" using wf cf_wf_not_Nil by auto
  obtain ctx1 ctx5 where blk: "emit_block other b ctx = Inr (True, ctx1)"
    and node: "emit_cf_node other (CF_IF c thens elses) ctx1 = Inr (True, ctx5)"
    and rest: "emit_cf_list other nodes ctx5 = Inr (True, ctx')"
    using cf_list_two [OF 2(5)] by blast
  have targets: "if_targets thens elses = Inr (t, e, ts, es) \<Longrightarrow>
      t = first_index thens \<and> e = first_index elses \<and> nir_successors (List.last (cf_blocks thens)) = [ts] \<and>
      nir_successors (List.last (cf_blocks elses)) = [es]" for t e ts es
    using wf ne by (auto simp: if_targets_def cf_first_block_wf cf_last_block_wf first_index_def dest!: single_successor_Inr)
  obtain v ctx2 t e ts es cond_ctx ctx3 ctx4 else_ctx where
    src: "get_src c 0 nir_type_bool ctx1 = Inr (v, ctx2)" and t: "if_targets thens elses = Inr (t, e, ts, es)"
    and "ntd_emit_cond_branch v t e ctx2 = Inr (True, cond_ctx)"
    and th: "emit_cf_list other thens cond_ctx = Inr (True, ctx3)" "leave_list thens ts ctx3 = Inr (True, ctx4)"
    and el: "emit_cf_list other elses ctx4 = Inr (True, else_ctx)" "leave_list elses es else_ctx = Inr (True, ctx5)"
    using cf_if_steps [OF node ne] by blast
  then have br: "ntd_emit_cond_branch v (first_index thens) (first_index elses) ctx2 = Inr (True, cond_ctx)"
    using targets [OF t] by simp
  have c: "emitted ctx1 cond_ctx ([] :: 'i nir_block list) [[first_index thens, first_index elses]]"
    using emitted_trans [OF emitted_flow [OF get_src_flow [OF src]] emitted_cond_branch [OF br]] by simp
  have b: "emitted ctx cond_ctx [b] (map nir_successors [b])"
    using emitted_after [OF blk assms _ _ c] wf by simp
  have s: "nir_successors (List.last (cf_blocks thens)) = [ts]" "nir_successors (List.last (cf_blocks elses)) = [es]"
    using targets [OF t] by auto
  have 3: "emitted cond_ctx ctx4 (cf_blocks thens) (map nir_successors (cf_blocks thens))"
    using emitted_leave [OF 2(1) [OF _ th(1)] th(2)] wf s by simp
  have 4: "emitted ctx4 ctx5 (cf_blocks elses) (map nir_successors (cf_blocks elses))"
    using emitted_leave [OF 2(2) [OF _ el(1)] el(2)] wf s by simp
  have 5: "emitted ctx5 ctx' (cf_blocks nodes) (map nir_successors (exits nodes))" using 2(3) [OF _ rest] wf by simp
  have all: "cf_blocks (CF_BLOCK b # CF_IF c thens elses # nodes) = ([b] @ cf_blocks thens @ cf_blocks elses) @ cf_blocks nodes"
    by simp
  have ex: "exits (CF_BLOCK b # CF_IF c thens elses # nodes) = ([b] @ cf_blocks thens @ cf_blocks elses) @ exits nodes"
    using exits_append [OF _ all] wf by simp
  from emitted_trans [OF emitted_trans [OF b emitted_trans [OF 3 4]] 5] show ?case
    unfolding all ex by simp
next
  case (3 b body continues nodes)
  note wf = 3(3)
  obtain ctx1 ctx4 where blk: "emit_block other b ctx = Inr (True, ctx1)"
    and node: "emit_cf_node other (CF_LOOP body continues) ctx1 = Inr (True, ctx4)"
    and rest: "emit_cf_list other nodes ctx4 = Inr (True, ctx')"
    using cf_list_two [OF 3(4)] by blast
  have body: "cf_wf body" using wf by simp
  obtain ctx2 ctx3 where nc: "continues = []" and br: "ntd_emit_branch (first_index body) ctx1 = Inr (True, ctx2)"
    and em: "emit_cf_list other body ctx2 = Inr (True, ctx3)" and leave: "leave_list body (first_index body) ctx3 = Inr (True, ctx4)"
    using node by (auto simp: and_then_True cf_first_block_wf [OF body] first_index_def split: if_splits)
  have b: "emitted ctx ctx2 [b] (map nir_successors [b])"
    using emitted_after [OF blk assms _ _ emitted_branch [OF br]] wf by simp
  have l: "emitted ctx2 ctx4 (cf_blocks body) (map nir_successors (cf_blocks body))"
    using emitted_leave [OF 3(1) [OF body em] leave body] wf by simp
  have r: "emitted ctx4 ctx' (cf_blocks nodes) (map nir_successors (exits nodes))" using 3(2) [OF _ rest] wf by simp
  have all: "cf_blocks (CF_BLOCK b # CF_LOOP body continues # nodes) = ([b] @ cf_blocks body) @ cf_blocks nodes"
    by (simp add: nc)
  have ex: "exits (CF_BLOCK b # CF_LOOP body continues # nodes) = ([b] @ cf_blocks body) @ exits nodes"
    using exits_append [OF _ all] wf by simp
  from emitted_trans [OF emitted_trans [OF b l] r] show ?case unfolding all ex by simp
qed simp_all

section \<open>The body of a function\<close>

text \<open>The body has been emitted: every block of it has its number and is left to its successors, the last one returns.\<close>

lemma emit_function_body_flow:
  assumes em: "emit_function_body other body ctx = Inr (True, ctx')" and keep: "keeps_flow other"
    and wf: "cf_wf body" and last: "\<not> ends_in_jump body" and at: "flow_at ctx f (ids, 0, [])"
  shows "\<exists>new. flow_at ctx' f (number_blocks 0 (cf_blocks body) ids, length (cf_blocks body), new @ [INSTR_RET None]) \<and>
    map branch_targets new = map nir_successors (butlast (cf_blocks body)) \<and> (\<forall>b\<in>set (cf_blocks body). block_index b < length ids)"
proof -
  obtain ctx1 ctx2 where 1: "emit_cf_list other body ctx = Inr (True, ctx1)" and 2: "fixup_phis (ntd_phis ctx1) ctx1 = Inr ctx2"
    and 3: "change_mod dxil_emit_ret_void ctx2 = Inr ctx'"
    using em by (auto simp: emit_function_body_def and_then_True succeed_True)
  obtain new where new: "flow_at ctx1 f (number_blocks 0 (cf_blocks body) ids, length new, new)"
      "map branch_targets new = map nir_successors (exits body)" "\<forall>b\<in>set (cf_blocks body). block_index b < length ids"
    using emittedE [OF emit_cf_node_blocks [OF keep wf 1] at] by auto
  have outs: "exits body = butlast (cf_blocks body)" using last by (simp add: exits_def)
  have "length new = length (butlast (cf_blocks body))" using arg_cong [OF new(2), of length] outs by simp
  then have len: "Suc (length new) = length (cf_blocks body)" using cf_blocks_not_Nil [OF wf] by (cases "cf_blocks body") auto
  have at2: "flow_at ctx2 f (number_blocks 0 (cf_blocks body) ids, length new, new)"
    using flow_at_view [OF fixup_phis_flow [OF 2] new(1)] .
  obtain m where m: "dxil_emit_ret_void (ntd_mod ctx2) = Inr m" and c: "ctx' = ctx2\<lparr>ntd_mod := m\<rparr>"
    using 3 by (auto simp: change_mod_def)
  obtain void m1 x m2 where r: "dxil_module_get_void_type (ntd_mod ctx2) = (void, m1)"
    "create_instr (INSTR_RET None) void False m1 = Inr (x, m2)" "end_block m2 = Inr m"
    using m by (auto simp: dxil_emit_ret_void_def Let_def split: prod.split_asm)
  note at1 = flow_view_nth [OF dxil_module_get_void_type_flow [OF r(1)]]
  have "flow_at ctx' f (number_blocks 0 (cf_blocks body) ids, Suc (length new), new @ [INSTR_RET None])"
    using terminate_flow [OF r(2,3) _ at1] at2 c by (simp add: flow_at_def)
  then show ?thesis using new(2,3) len outs by auto
qed

end
