(* ===== verification/Ntd_Blocks_Example.thy ===== *)
theory Ntd_Blocks_Example
  imports Ntd_Blocks Ntd_Block_Example
begin

text \<open>The property of the branches of a function, with an example: a loop that is left by a break in a conditional.\<close>

section \<open>The branches of a function\<close>

text \<open>C5: when the body of a function has been emitted, the function has one block for every block of NIR, numbered
  in their order, and their last instructions are branches to exactly the successors that NIR gives each of them:
  conditionals and loops have become the branches between them, no block is left twice or never, and the last
  one returns.\<close>

theorem emit_function_body_blocks:
  assumes "emit_function_body other body ctx = Inr (True, ctx')" and "keeps_flow other"
    and "cf_wf body" and "\<not> ends_in_jump body" and "distinct (map block_index (cf_blocks body))"
    and "flow_at ctx f (ids, 0, [])"
  shows "\<exists>ids' branches. flow_at ctx' f (ids', length (cf_blocks body), branches @ [INSTR_RET None]) \<and>
    map branch_targets branches = map nir_successors (butlast (cf_blocks body)) \<and>
    (\<forall>i<length (cf_blocks body). ids' ! block_index (cf_blocks body ! i) = int i)"
proof -
  obtain new where new: "flow_at ctx' f (number_blocks 0 (cf_blocks body) ids, length (cf_blocks body), new @ [INSTR_RET None])"
    "map branch_targets new = map nir_successors (butlast (cf_blocks body))" "\<forall>b\<in>set (cf_blocks body). block_index b < length ids"
    using emit_function_body_flow [OF assms(1-4,6)] by blast
  have "\<forall>i<length (cf_blocks body). number_blocks 0 (cf_blocks body) ids ! block_index (cf_blocks body ! i) = int i"
    using number_blocks_nth [OF assms(5) new(3)] by simp
  then show ?thesis using new(1,2) by blast
qed

definition flow_block :: "nat \<Rightarrow> unit nir_instr list \<Rightarrow> nat option \<Rightarrow> nat option \<Rightarrow> unit nir_block" where
  "flow_block b is s0 s1 = \<lparr>block_index = b, block_instrs = is, successor0 = s0, successor1 = s1\<rparr>"

definition example_cond :: nir_def where
  "example_cond = \<lparr>def_index = 0, def_num_components = 1, def_bit_size = 1, def_is_phi_src = False\<rparr>"

text \<open>\<open>c = true; loop { if (c) { break; } else { } }\<close>\<close>

definition example_body :: "unit nir_cf_node list" where
  "example_body =
     [CF_BLOCK (flow_block 0 [LOAD_CONST_INSTR \<lparr>load_def = example_cond, load_values = [1]\<rparr>] (Some 1) None),
      CF_LOOP
        [CF_BLOCK (flow_block 1 [] (Some 2) (Some 3)),
         CF_IF \<lparr>src_ssa = example_cond, src_const = None\<rparr>
           [CF_BLOCK (flow_block 2 [JUMP_INSTR nir_jump_break] (Some 5) None)]
           [CF_BLOCK (flow_block 3 [] (Some 4) None)],
         CF_BLOCK (flow_block 4 [] (Some 1) None)] [],
      CF_BLOCK (flow_block 5 [] (Some 6) None)]"

definition example_func_ctx :: ntd_context where
  "example_func_ctx = (example_ctx [[None]])\<lparr>ntd_mod := example_mod\<lparr>func_def_list :=
     [\<lparr>def_func = 0, instr_list = [], basic_block_ids = replicate 6 (-1), curr_block = 0\<rparr>]\<rparr>\<rparr>"

definition no_other :: "unit \<Rightarrow> bool ntd" where
  "no_other i ctx = Inr (False, ctx)"

lemma example_body_emitted: "\<exists>ctx'. emit_function_body no_other example_body example_func_ctx = Inr (True, ctx')"
proof -
  have "case emit_function_body no_other example_body example_func_ctx of Inr (True, _) \<Rightarrow> True | _ \<Rightarrow> False"
    by code_simp
  then show ?thesis by (auto split: sum.splits bool.splits)
qed


lemma example_func_fresh: "flow_at example_func_ctx 0 (replicate 6 (-1), 0, [])"
  by (simp add: flow_at_def example_func_ctx_def flow_of_def terminators_def example_mod_def)

lemma emit_function_body_blocks_witness:
  "\<exists>ctx' ids' branches. emit_function_body no_other example_body example_func_ctx = Inr (True, ctx') \<and>
    flow_at ctx' 0 (ids', 6, branches @ [INSTR_RET None]) \<and>
    map branch_targets branches = [[1], [2, 3], [5], [4], [1]] \<and> (\<forall>i<6. ids' ! i = int i)"
proof -
  obtain ctx' where em: "emit_function_body no_other example_body example_func_ctx = Inr (True, ctx')"
    using example_body_emitted by blast
  have other: "keeps_flow no_other" by (simp add: keeps_flow_def no_other_def)
  have wf: "cf_wf example_body" "\<not> ends_in_jump example_body" "distinct (map block_index (cf_blocks example_body))"
    by code_simp+
  have bs: "map nir_successors (butlast (cf_blocks example_body)) = [[1], [2, 3], [5], [4], [1]]"
    "map block_index (cf_blocks example_body) = [0..<6]" by code_simp+
  have len: "length (cf_blocks example_body) = 6" using arg_cong [OF bs(2), of length] by simp
  have ix: "block_index (cf_blocks example_body ! i) = i" if "i < 6" for i
    using arg_cong [OF bs(2), of "\<lambda>xs. xs ! i"] that len by simp
  obtain ids' branches where r: "flow_at ctx' 0 (ids', length (cf_blocks example_body), branches @ [INSTR_RET None])"
    "map branch_targets branches = map nir_successors (butlast (cf_blocks example_body))"
    "\<forall>i<length (cf_blocks example_body). ids' ! block_index (cf_blocks example_body ! i) = int i"
    using emit_function_body_blocks [OF em other wf example_func_fresh] by blast
  have "\<forall>i<6. ids' ! i = int i" using r(3) ix len by simp
  with em r(1,2)[unfolded len bs(1)] show ?thesis by (intro exI conjI)
qed

end
