(* ===== verification/Ntd_Resources.thy ===== *)
theory Ntd_Resources
  imports Ntd_Calls Metadata Nir_Variables
begin

unbundle bit_operations_syntax

text \<open>
  The resources of a shader (\<open>nir_to_dxil.c\<close>, \<open>fill_resource_metadata\<close> to \<open>emit_sampler_metadata\<close>,
  \<open>add_resource\<close>, \<open>emit_srv\<close>, \<open>emit_uav\<close>, \<open>emit_cbv\<close>, \<open>emit_sampler\<close> and the part of \<open>emit_module\<close> that calls
  them): every constant buffer, sampler, texture, image and storage buffer becomes a node of the metadata of the
  module and an entry of the table of resources that goes into the validation part of the file.
\<close>

section \<open>Variables\<close>

text \<open>
  What is read of a variable: its members, the number of components of its image format, \<open>sampler_shadow\<close> of its
  type without arrays, and \<open>glsl_get_explicit_size\<close> of that type.
\<close>

record nir_resource_var =
  res_var_type :: glsl_type
  res_var_name :: string
  res_var_mode :: "32 word"
  res_var_binding :: "32 word"
  res_var_descriptor_set :: "32 word"
  res_var_driver_location :: "32 word"
  res_var_access :: "32 word"
  res_var_format_components :: "32 word"
  res_var_sampler_shadow :: bool
  res_var_explicit_size :: "32 word"

definition nir_var_uniform :: "32 word" where "nir_var_uniform = 2"
definition nir_var_image :: "32 word" where "nir_var_image = 16"
definition nir_var_mem_ubo :: "32 word" where "nir_var_mem_ubo = 128"
definition nir_var_mem_ssbo :: "32 word" where "nir_var_mem_ssbo = 512"

definition ACCESS_COHERENT :: "32 word" where "ACCESS_COHERENT = 1"
definition ACCESS_NON_WRITEABLE :: "32 word" where "ACCESS_NON_WRITEABLE = 16"

text \<open>\<open>nir_foreach_variable_with_modes\<close> for one mode.\<close>

definition resource_vars :: "32 word \<Rightarrow> nir_resource_var list \<Rightarrow> nir_resource_var list" where
  "resource_vars mode vars = filter (\<lambda>v. res_var_mode v AND mode \<noteq> 0) vars"

fun glsl_type_count :: "glsl_base_type \<Rightarrow> glsl_type \<Rightarrow> 32 word"
  and fields_count :: "glsl_base_type \<Rightarrow> glsl_type list \<Rightarrow> 32 word" where
  "glsl_type_count b (Glsl_array n t) = n * glsl_type_count b t"
| "glsl_type_count b (Glsl_struct ts) = fields_count b ts"
| "glsl_type_count b (Glsl_interface ts) = (if GLSL_TYPE_INTERFACE = b then 1 else 0)"
| "glsl_type_count b (Glsl_basic b' rows cols r dim is_array) = (if b' = b then 1 else 0)"
| "fields_count b [] = 0"
| "fields_count b (t # ts) = glsl_type_count b t + fields_count b ts"

definition glsl_type_get_sampler_count :: "glsl_type \<Rightarrow> 32 word" where
  "glsl_type_get_sampler_count = glsl_type_count GLSL_TYPE_SAMPLER"

definition glsl_type_get_texture_count :: "glsl_type \<Rightarrow> 32 word" where
  "glsl_type_get_texture_count = glsl_type_count GLSL_TYPE_TEXTURE"

definition glsl_type_get_image_count :: "glsl_type \<Rightarrow> 32 word" where
  "glsl_type_get_image_count = glsl_type_count GLSL_TYPE_IMAGE"

definition glsl_type_is_unsized_array :: "glsl_type \<Rightarrow> bool" where
  "glsl_type_is_unsized_array t = (case t of Glsl_array n _ \<Rightarrow> n = 0 | _ \<Rightarrow> False)"

definition glsl_type_is_bare_sampler :: "glsl_type \<Rightarrow> bool" where
  "glsl_type_is_bare_sampler t \<longleftrightarrow> glsl_type_is_sampler t \<and> sampled_type t = GLSL_TYPE_VOID"

text \<open>The length of an array, 1 for other types.\<close>

definition array_count :: "glsl_type \<Rightarrow> 32 word" where
  "array_count t = (case t of Glsl_array n _ \<Rightarrow> n | _ \<Rightarrow> 1)"

section \<open>Metadata\<close>

definition DXIL_TYPED_BUFFER_ELEMENT_TYPE_TAG :: "32 word" where "DXIL_TYPED_BUFFER_ELEMENT_TYPE_TAG = 0"

record resource_array_layout =
  layout_id :: "32 word"
  layout_binding :: "32 word"
  layout_size :: "32 word"
  layout_space :: "32 word"

definition fill_resource_metadata ::
  "ty \<Rightarrow> string \<Rightarrow> resource_array_layout \<Rightarrow> dxil_module \<Rightarrow> (mdref list \<times> dxil_module) result" where
  "fill_resource_metadata struct_type name layout m =
     (let (pointer_type, m) = dxil_module_get_pointer_type struct_type m;
          (pointer_undef, m) = dxil_module_get_undef pointer_type m
      in bind_result (dxil_get_metadata_int32 (layout_id layout) m) (\<lambda>(f0, m).
         let (f1, m) = dxil_get_metadata_value pointer_type pointer_undef m;
             (f2, m) = dxil_get_metadata_string name m
         in bind_result (dxil_get_metadata_int32 (layout_space layout) m) (\<lambda>(f3, m).
            bind_result (dxil_get_metadata_int32 (layout_binding layout) m) (\<lambda>(f4, m).
            bind_result (dxil_get_metadata_int32 (layout_size layout) m) (\<lambda>(f5, m).
              Inr ([f0, f1, f2, f3, f4, f5], m))))))"

text \<open>The last field of a shader resource or unordered access view: the type of the elements, unless it is raw.\<close>

definition element_type_metadata ::
  "dxil_component_type \<Rightarrow> dxil_resource_kind \<Rightarrow> dxil_module \<Rightarrow> (mdref option \<times> dxil_module) result" where
  "element_type_metadata comp_type res_kind m =
     (if res_kind \<noteq> DXIL_RESOURCE_KIND_RAW_BUFFER \<and> res_kind \<noteq> DXIL_RESOURCE_KIND_STRUCTURED_BUFFER then
        bind_result (dxil_get_metadata_int32 DXIL_TYPED_BUFFER_ELEMENT_TYPE_TAG m) (\<lambda>(tag, m).
        bind_result (dxil_get_metadata_int32 (of_nat (dxil_component_type_value comp_type)) m) (\<lambda>(comp, m).
          let (node, m) = dxil_get_metadata_node [Some tag, Some comp] m in Inr (Some node, m)))
      else if res_kind = DXIL_RESOURCE_KIND_RAW_BUFFER then Inr (None, m)
      else Inl Unreachable)"

definition emit_srv_metadata ::
  "ty \<Rightarrow> string \<Rightarrow> resource_array_layout \<Rightarrow> dxil_component_type \<Rightarrow> dxil_resource_kind \<Rightarrow> dxil_module
   \<Rightarrow> (mdref \<times> dxil_module) result" where
  "emit_srv_metadata elem_type name layout comp_type res_kind m =
     bind_result (fill_resource_metadata elem_type name layout m) (\<lambda>(fields, m).
     bind_result (dxil_get_metadata_int32 (of_nat (dxil_resource_kind_value res_kind)) m) (\<lambda>(f6, m).
     bind_result (dxil_get_metadata_int1 False m) (\<lambda>(f7, m).
     bind_result (element_type_metadata comp_type res_kind m) (\<lambda>(f8, m).
       Inr (dxil_get_metadata_node (map Some (fields @ [f6, f7]) @ [f8]) m)))))"

definition emit_uav_metadata ::
  "ty \<Rightarrow> string \<Rightarrow> resource_array_layout \<Rightarrow> dxil_component_type \<Rightarrow> dxil_resource_kind \<Rightarrow> 32 word \<Rightarrow> dxil_module
   \<Rightarrow> (mdref \<times> dxil_module) result" where
  "emit_uav_metadata struct_type name layout comp_type res_kind access m =
     bind_result (fill_resource_metadata struct_type name layout m) (\<lambda>(fields, m).
     bind_result (dxil_get_metadata_int32 (of_nat (dxil_resource_kind_value res_kind)) m) (\<lambda>(f6, m).
     bind_result (dxil_get_metadata_int1 (access AND ACCESS_COHERENT \<noteq> 0) m) (\<lambda>(f7, m).
     bind_result (dxil_get_metadata_int1 False m) (\<lambda>(f8, m).
     bind_result (dxil_get_metadata_int1 False m) (\<lambda>(f9, m).
     bind_result (element_type_metadata comp_type res_kind m) (\<lambda>(f10, m).
       Inr (dxil_get_metadata_node (map Some (fields @ [f6, f7, f8, f9]) @ [f10]) m)))))))"

definition emit_cbv_metadata ::
  "ty \<Rightarrow> string \<Rightarrow> resource_array_layout \<Rightarrow> 32 word \<Rightarrow> dxil_module \<Rightarrow> (mdref \<times> dxil_module) result" where
  "emit_cbv_metadata struct_type name layout bytes m =
     bind_result (fill_resource_metadata struct_type name layout m) (\<lambda>(fields, m).
     bind_result (dxil_get_metadata_int32 bytes m) (\<lambda>(f6, m).
       Inr (dxil_get_metadata_node (map Some (fields @ [f6]) @ [None]) m)))"

definition emit_sampler_metadata ::
  "ty \<Rightarrow> nir_resource_var \<Rightarrow> resource_array_layout \<Rightarrow> dxil_module \<Rightarrow> (mdref \<times> dxil_module) result" where
  "emit_sampler_metadata struct_type var layout m =
     bind_result (fill_resource_metadata struct_type (res_var_name var) layout m) (\<lambda>(fields, m).
       if \<not> glsl_type_is_sampler (glsl_without_array (res_var_type var)) then Inl Assertion else
       let sampler_kind = (if res_var_sampler_shadow var then DXIL_SAMPLER_KIND_COMPARISON else DXIL_SAMPLER_KIND_DEFAULT)
       in bind_result (dxil_get_metadata_int32 (of_nat (dxil_sampler_kind_value sampler_kind)) m) (\<lambda>(f6, m).
            Inr (dxil_get_metadata_node (map Some (fields @ [f6]) @ [None]) m)))"

section \<open>The table of resources\<close>

datatype dxil_resource_type =
  DXIL_RES_INVALID | DXIL_RES_SAMPLER | DXIL_RES_CBV | DXIL_RES_SRV_TYPED | DXIL_RES_SRV_RAW | DXIL_RES_SRV_STRUCTURED |
  DXIL_RES_UAV_TYPED | DXIL_RES_UAV_RAW | DXIL_RES_UAV_STRUCTURED | DXIL_RES_UAV_STRUCTURED_WITH_COUNTER

primrec dxil_resource_type_value :: "dxil_resource_type \<Rightarrow> nat" where
  "dxil_resource_type_value DXIL_RES_INVALID = 0"
| "dxil_resource_type_value DXIL_RES_SAMPLER = 1"
| "dxil_resource_type_value DXIL_RES_CBV = 2"
| "dxil_resource_type_value DXIL_RES_SRV_TYPED = 3"
| "dxil_resource_type_value DXIL_RES_SRV_RAW = 4"
| "dxil_resource_type_value DXIL_RES_SRV_STRUCTURED = 5"
| "dxil_resource_type_value DXIL_RES_UAV_TYPED = 6"
| "dxil_resource_type_value DXIL_RES_UAV_RAW = 7"
| "dxil_resource_type_value DXIL_RES_UAV_STRUCTURED = 8"
| "dxil_resource_type_value DXIL_RES_UAV_STRUCTURED_WITH_COUNTER = 9"

text \<open>The sum of size and binding is one of 64 bits.\<close>

definition resource_upper_bound :: "32 word \<Rightarrow> 32 word \<Rightarrow> 32 word" where
  "resource_upper_bound binding count =
     (if count = 0 \<or> (ucast count :: 64 word) + ucast binding \<ge> 0xFFFFFFFF then 0xFFFFFFFF else binding + count - 1)"

definition count_uavs :: "32 word \<Rightarrow> 32 word \<Rightarrow> 32 word" where
  "count_uavs n count = (if count = 0 \<or> n + count < n then 0xFFFFFFFF else n + count)"

definition is_uav_resource :: "dxil_resource_type \<Rightarrow> bool" where
  "is_uav_resource type \<longleftrightarrow> type \<in> {DXIL_RES_UAV_TYPED, DXIL_RES_UAV_RAW, DXIL_RES_UAV_STRUCTURED}"

definition add_resource ::
  "dxil_resource_type \<Rightarrow> dxil_resource_kind \<Rightarrow> resource_array_layout \<Rightarrow> ntd_context \<Rightarrow> ntd_context" where
  "add_resource type kind layout ctx =
     (let validator_6 = (6 \<le> ntd_minor_validator ctx);
          res = \<lparr>v0 = \<lparr>resource_type = of_nat (dxil_resource_type_value type), space = layout_space layout,
                   lower_bound = layout_binding layout,
                   upper_bound = resource_upper_bound (layout_binding layout) (layout_size layout)\<rparr>,
                 resource_kind = (if validator_6 then of_nat (dxil_resource_kind_value kind) else 0), resource_flags = 0\<rparr>;
          ctx = ctx\<lparr>ntd_resources := ntd_resources ctx @ [res]\<rparr>
      in if is_uav_resource type then
           let n = count_uavs (num_uavs ctx) (layout_size layout)
           in set_feats (\<lambda>f. f\<lparr>feat_use_64uavs := True\<rparr>) (validator_6 \<and> 8 < n) (ctx\<lparr>num_uavs := n\<rparr>)
         else ctx)"

text \<open>What \<open>dxil_fill_validation_state\<close> hands to the container.\<close>

definition validation_table :: "ntd_context \<Rightarrow> dxil_resources" where
  "validation_table ctx =
     (if 6 \<le> ntd_minor_validator ctx then RESOURCES_V1 (ntd_resources ctx) else RESOURCES_V0 (map v0 (ntd_resources ctx)))"


section \<open>Resources of each class\<close>

definition emit_srv :: "nir_resource_var \<Rightarrow> 32 word \<Rightarrow> bool ntd" where
  "emit_srv var count ctx =
     (let layout = \<lparr>layout_id = of_nat (length (srv_metadata_nodes ctx)), layout_binding = res_var_binding var,
                     layout_size = count, layout_space = res_var_descriptor_set var\<rparr>;
          raw = (res_var_mode var = nir_var_mem_ssbo)
      in bind_result (if raw then Inr DXIL_COMP_TYPE_INVALID else dxil_get_comp_type (res_var_type var)) (\<lambda>comp_type.
         bind_result (if raw then Inr DXIL_RESOURCE_KIND_RAW_BUFFER else dxil_get_resource_kind (res_var_type var)) (\<lambda>res_kind.
         bind_result (dxil_module_get_res_type res_kind comp_type 4 False (ntd_mod ctx)) (\<lambda>(type, m).
         let (type, m) = (if glsl_type_is_array (res_var_type var) \<and> 0 < count
                          then dxil_module_get_array_type type (unat count) m else (type, m))
         in bind_result (emit_srv_metadata type (res_var_name var) layout comp_type res_kind m) (\<lambda>(srv_meta, m).
           let ctx = add_resource (if raw then DXIL_RES_SRV_RAW else DXIL_RES_SRV_TYPED) res_kind layout
                 (ctx\<lparr>ntd_mod := m, srv_metadata_nodes := srv_metadata_nodes ctx @ [srv_meta]\<rparr>)
           in Inr (True, if raw then ctx\<lparr>raw_and_structured_buffers := True\<rparr> else ctx))))))"

definition emit_uav ::
  "32 word \<Rightarrow> 32 word \<Rightarrow> 32 word \<Rightarrow> dxil_component_type \<Rightarrow> 32 word \<Rightarrow> dxil_resource_kind \<Rightarrow> 32 word \<Rightarrow> string \<Rightarrow> bool ntd" where
  "emit_uav binding space_id count comp_type num_comps res_kind access name ctx =
     (let layout = \<lparr>layout_id = of_nat (length (uav_metadata_nodes ctx)), layout_binding = binding,
                     layout_size = count, layout_space = space_id\<rparr>;
          raw = (res_kind = DXIL_RESOURCE_KIND_RAW_BUFFER)
      in bind_result (dxil_module_get_res_type res_kind comp_type num_comps True (ntd_mod ctx)) (\<lambda>(type, m).
         let (type, m) = dxil_module_get_array_type type (unat count) m
         in bind_result (emit_uav_metadata type name layout comp_type res_kind access m) (\<lambda>(uav_meta, m).
           let ctx = ctx\<lparr>ntd_mod := m, uav_metadata_nodes := uav_metadata_nodes ctx @ [uav_meta]\<rparr>;
               ctx = set_feats (\<lambda>f. f\<lparr>feat_use_64uavs := True\<rparr>)
                       (ntd_minor_validator ctx < 6 \<and> 8 < length (uav_metadata_nodes ctx)) ctx;
               ctx = add_resource (if raw then DXIL_RES_UAV_RAW else DXIL_RES_UAV_TYPED) res_kind layout ctx;
               ctx = (if raw then ctx\<lparr>raw_and_structured_buffers := True\<rparr> else ctx)
           in Inr (True, set_feats (\<lambda>f. f\<lparr>feat_uavs_at_every_stage := True\<rparr>)
                (ntd_shader_kind ctx \<noteq> DXIL_PIXEL_SHADER \<and> ntd_shader_kind ctx \<noteq> DXIL_COMPUTE_SHADER) ctx))))"

definition emit_globals :: "nir_resource_var list \<Rightarrow> 32 word \<Rightarrow> bool ntd" where
  "emit_globals vars num_globals ctx =
     (let n = num_globals + of_nat (length (resource_vars nir_var_mem_ssbo vars))
      in if n = 0 then Inr (True, ctx)
         else emit_uav 0 0 n DXIL_COMP_TYPE_INVALID 1 DXIL_RESOURCE_KIND_RAW_BUFFER 0 ''globals'' ctx)"

definition emit_uav_var :: "nir_resource_var \<Rightarrow> 32 word \<Rightarrow> bool ntd" where
  "emit_uav_var var count ctx =
     (let (binding, space_id) = (if ntd_environment ctx = DXIL_ENVIRONMENT_GL then (res_var_driver_location var, 1)
                            else (res_var_binding var, res_var_descriptor_set var))
      in bind_result (dxil_get_comp_type (res_var_type var)) (\<lambda>comp_type.
         bind_result (dxil_get_resource_kind (res_var_type var)) (\<lambda>res_kind.
           emit_uav binding space_id count comp_type (res_var_format_components var) res_kind (res_var_access var)
             (res_var_name var) ctx)))"

definition emit_cbv :: "32 word \<Rightarrow> 32 word \<Rightarrow> 32 word \<Rightarrow> 32 word \<Rightarrow> string \<Rightarrow> bool ntd" where
  "emit_cbv binding space_id dwords count name ctx =
     (if count = 0 then Inl Assertion else
      bind_result (dxil_module_get_float_type 32 (ntd_mod ctx)) (\<lambda>(float32, m).
      let (array_type, m) = dxil_module_get_array_type float32 (unat dwords) m
      in bind_result (dxil_module_get_struct_type (Some name) [array_type] m) (\<lambda>(buffer_type, m).
      let (final_type, m) = (if count \<noteq> 1 then dxil_module_get_array_type buffer_type (unat count) m else (buffer_type, m));
          layout = \<lparr>layout_id = of_nat (length (cbv_metadata_nodes ctx)), layout_binding = binding,
                     layout_size = count, layout_space = space_id\<rparr>
      in bind_result (emit_cbv_metadata final_type name layout (4 * dwords) m) (\<lambda>(cbv_meta, m).
           Inr (True, add_resource DXIL_RES_CBV DXIL_RESOURCE_KIND_CBUFFER layout
             (ctx\<lparr>ntd_mod := m, cbv_metadata_nodes := cbv_metadata_nodes ctx @ [cbv_meta]\<rparr>))))))"

definition emit_ubo_var :: "nir_resource_var \<Rightarrow> bool ntd" where
  "emit_ubo_var var ctx =
     (let count = array_count (res_var_type var);
          unnamed = (res_var_name var = []);
          name = (if unnamed then snprintf 30 (''__unnamed_ubo_'' @ print_d (unnamed_ubo_count ctx)) else res_var_name var);
          ctx = (if unnamed then ctx\<lparr>unnamed_ubo_count := unnamed_ubo_count ctx + 1\<rparr> else ctx);
          type = base_type (glsl_without_array (res_var_type var))
      in if type \<noteq> GLSL_TYPE_STRUCT \<and> type \<noteq> GLSL_TYPE_INTERFACE then Inl Assertion
         else emit_cbv (res_var_binding var) (res_var_descriptor_set var)
                (((res_var_explicit_size var + 15) AND NOT 15) div 4) count name ctx)"

definition emit_sampler :: "nir_resource_var \<Rightarrow> 32 word \<Rightarrow> bool ntd" where
  "emit_sampler var count ctx =
     (let layout = \<lparr>layout_id = of_nat (length (sampler_metadata_nodes ctx)), layout_binding = res_var_binding var,
                     layout_size = count, layout_space = res_var_descriptor_set var\<rparr>
      in bind_result (dxil_module_get_int_type 32 (ntd_mod ctx)) (\<lambda>(int32, m).
         bind_result (dxil_module_get_struct_type (Some ''struct.SamplerState'') [int32] m) (\<lambda>(type, m).
         let (type, m) = (if glsl_type_is_array (res_var_type var) \<and> 0 < count
                          then dxil_module_get_array_type type (unat count) m else (type, m))
         in bind_result (emit_sampler_metadata type var layout m) (\<lambda>(sampler_meta, m).
              Inr (True, add_resource DXIL_RES_SAMPLER DXIL_RESOURCE_KIND_SAMPLER layout
                (ctx\<lparr>ntd_mod := m, sampler_metadata_nodes := sampler_metadata_nodes ctx @ [sampler_meta]\<rparr>))))))"

section \<open>All resources of a module\<close>

text \<open>What is read of the shader and the options.\<close>

record resource_info =
  res_vars :: "nir_resource_var list"
  is_kernel :: bool
  info_num_ubos :: "32 word"
  info_num_ssbos :: "32 word"
  first_ubo_is_default_ubo :: bool
  num_uniforms :: "32 word"
  last_ubo_is_not_arrayed :: bool
  num_kernel_globals :: "32 word"

text \<open>\<open>if (!f(x)) return false;\<close> for every element.\<close>

fun all_of :: "('a \<Rightarrow> bool ntd) \<Rightarrow> 'a list \<Rightarrow> bool ntd" where
  "all_of f [] ctx = Inr (True, ctx)"
| "all_of f (x # xs) ctx =
     bind_result (f x ctx) (\<lambda>(ok, ctx). if ok then all_of f xs ctx else Inr (False, ctx))"

fun insert_sorted_by_binding :: "nir_resource_var list \<Rightarrow> nir_resource_var \<Rightarrow> nir_resource_var list" where
  "insert_sorted_by_binding [] new_var = [new_var]"
| "insert_sorted_by_binding (v # vs) new_var =
     (if res_var_binding v > res_var_binding new_var then new_var # v # vs else v # insert_sorted_by_binding vs new_var)"

definition sort_uniforms_by_binding_and_remove_structs :: "nir_resource_var list \<Rightarrow> nir_resource_var list" where
  "sort_uniforms_by_binding_and_remove_structs vars =
     filter (\<lambda>v. res_var_mode v AND nir_var_uniform = 0) vars @
     fold (\<lambda>v new_list. if base_type (glsl_without_array (res_var_type v)) = GLSL_TYPE_STRUCT then new_list
                         else insert_sorted_by_binding new_list v)
       (resource_vars nir_var_uniform vars) []"

definition emit_cbvs :: "resource_info \<Rightarrow> bool ntd" where
  "emit_cbvs info ctx =
     (if ntd_environment ctx \<noteq> DXIL_ENVIRONMENT_GL then all_of emit_ubo_var (resource_vars nir_var_mem_ubo (res_vars info)) ctx
      else if info_num_ubos info = 0 then Inr (True, ctx)
      else
        let ubo_size = 16384;
            array_base = (if first_ubo_is_default_ubo info then 1 else 0);
            has_ubo0 = (0 < num_uniforms info \<and> first_ubo_is_default_ubo info);
            has_state_vars = last_ubo_is_not_arrayed info;
            ubo1_array_size = info_num_ubos info - array_base - (if has_state_vars then 1 else 0)
        in all_of (\<lambda>(needed, binding, count, name) ctx. if needed then emit_cbv binding 0 ubo_size count name ctx else Inr (True, ctx))
             [(has_ubo0, 0, 1, ''__ubo_uniforms''),
              (ubo1_array_size \<noteq> 0, array_base, ubo1_array_size, ''__ubos''),
              (has_state_vars, info_num_ubos info - 1, 1, ''__ubo_state_vars'')] ctx)"

text \<open>A uniform of a kind of type that there is at least one of, or an array of unknown length where they are allowed.\<close>

definition emit_uniform ::
  "(glsl_type \<Rightarrow> 32 word) \<Rightarrow> (glsl_type \<Rightarrow> bool) \<Rightarrow> (nir_resource_var \<Rightarrow> 32 word \<Rightarrow> bool ntd) \<Rightarrow> nir_resource_var \<Rightarrow> bool ntd" where
  "emit_uniform type_count is_kind emit var ctx =
     (let count = type_count (res_var_type var);
          of_kind = is_kind (glsl_without_array (res_var_type var))
      in if \<not> (count = 0 \<or> of_kind) then Inl Assertion
         else if 0 < count \<or>
             (ntd_environment ctx = DXIL_ENVIRONMENT_VULKAN \<and> glsl_type_is_unsized_array (res_var_type var) \<and> of_kind)
         then emit var count ctx else Inr (True, ctx))"

definition emit_samplers :: "resource_info \<Rightarrow> bool ntd" where
  "emit_samplers info =
     all_of (emit_uniform glsl_type_get_sampler_count glsl_type_is_bare_sampler emit_sampler)
       (resource_vars nir_var_uniform (res_vars info))"

definition emit_srvs :: "resource_info \<Rightarrow> bool ntd" where
  "emit_srvs info =
     all_of (emit_uniform glsl_type_get_texture_count glsl_type_is_texture emit_srv)
       (resource_vars nir_var_uniform (res_vars info))"

definition emit_ssbo_srvs :: "resource_info \<Rightarrow> bool ntd" where
  "emit_ssbo_srvs info ctx =
     (if ntd_environment ctx = DXIL_ENVIRONMENT_VULKAN then
        all_of (\<lambda>var. emit_srv var (array_count (res_var_type var)))
          (filter (\<lambda>v. res_var_access v AND ACCESS_NON_WRITEABLE \<noteq> 0) (resource_vars nir_var_mem_ssbo (res_vars info))) ctx
      else Inr (True, ctx))"

definition emit_raw_uav :: "32 word \<Rightarrow> 32 word \<Rightarrow> 32 word \<Rightarrow> 32 word \<Rightarrow> string \<Rightarrow> bool ntd" where
  "emit_raw_uav binding space_id count access name =
     emit_uav binding space_id count DXIL_COMP_TYPE_INVALID 1 DXIL_RESOURCE_KIND_RAW_BUFFER access name"

definition emit_ssbos :: "resource_info \<Rightarrow> bool ntd" where
  "emit_ssbos info ctx =
     (if is_kernel info then emit_globals (res_vars info) (num_kernel_globals info) ctx
      else if ntd_environment ctx = DXIL_ENVIRONMENT_VULKAN then
        all_of (\<lambda>v. emit_raw_uav (res_var_binding v) (res_var_descriptor_set v) (array_count (res_var_type v))
            (res_var_access v) (res_var_name v))
          (filter (\<lambda>v. res_var_access v AND ACCESS_NON_WRITEABLE = 0) (resource_vars nir_var_mem_ssbo (res_vars info))) ctx
      else
        bind_result (all_of (\<lambda>i. emit_raw_uav (of_nat i) 0 1 0 (snprintf 64 (''__ssbo'' @ print_d (of_nat i))))
          [0..<unat (info_num_ssbos info)] ctx) (\<lambda>(ok, ctx).
            if ok \<and> info_num_ssbos info \<noteq> 0 then emit_raw_uav 0 2 (info_num_ssbos info) 0 ''__ssbo_dynamic'' ctx
            else Inr (ok, ctx)))"

definition emit_images :: "resource_info \<Rightarrow> bool ntd" where
  "emit_images info =
     all_of (\<lambda>v. emit_uav_var v (glsl_type_get_image_count (res_var_type v))) (resource_vars nir_var_image (res_vars info))"

text \<open>
  The start of \<open>emit_module\<close>. \<open>globals\<close> stands for the calls of \<open>emit_shared_vars\<close> and
  \<open>emit_global_consts\<close> in between.
\<close>

definition emit_module_resources :: "bool ntd \<Rightarrow> resource_info \<Rightarrow> bool ntd" where
  "emit_module_resources globals info ctx =
     (let info = info\<lparr>res_vars := sort_uniforms_by_binding_and_remove_structs (res_vars info)\<rparr>
      in all_of (\<lambda>f. f) [emit_cbvs info, emit_samplers info, emit_srvs info, emit_ssbo_srvs info, globals,
           emit_ssbos info, emit_images info] ctx)"

definition resource_list_node :: "mdref list \<Rightarrow> dxil_module \<Rightarrow> mdref option \<times> dxil_module" where
  "resource_list_node nodes m =
     (if nodes = [] then (None, m) else let (n, m) = dxil_get_metadata_node (map Some nodes) m in (Some n, m))"

text \<open>The node of \<open>dx.resources\<close>, if there are resources.\<close>

definition emit_resources :: "ntd_context \<Rightarrow> mdref option \<times> ntd_context" where
  "emit_resources ctx =
     (let (srvs, m) = resource_list_node (srv_metadata_nodes ctx) (ntd_mod ctx);
          (uavs, m) = resource_list_node (uav_metadata_nodes ctx) m;
          (cbvs, m) = resource_list_node (cbv_metadata_nodes ctx) m;
          (samplers, m) = resource_list_node (sampler_metadata_nodes ctx) m
      in if srvs = None \<and> uavs = None \<and> cbvs = None \<and> samplers = None then (None, ctx\<lparr>ntd_mod := m\<rparr>)
         else let (n, m) = dxil_get_metadata_node [srvs, uavs, cbvs, samplers] m in (Some n, ctx\<lparr>ntd_mod := m\<rparr>))"

end
