(* ===== verification/Ntd_Resource_Nodes.thy ===== *)
theory Ntd_Resource_Nodes
  imports Ntd_Resources "HOL-Library.Sublist"
begin

text \<open>
  What the nodes of the metadata of resources say. A module only grows at the ends of its tables, so a number
  that can be read from a node is read from it for ever; the four numbers of a layout can be read from the node
  that was made for it.
\<close>

named_theorems grow \<open>operations that add at the ends of the tables of types, constants and nodes\<close>

section \<open>Chains of calls\<close>

lemma bind_pairE:
  assumes "bind_result r (\<lambda>(x, m). f x m) = Inr y"
  obtains x m where "r = Inr (x, m)" "f x m = Inr y"
  using assms by (cases r) auto

lemma case_pairE:
  assumes "(case t of (x, m) \<Rightarrow> f x m) = y"
  obtains x m where "t = (x, m)" "f x m = y"
  using assms by (cases t) auto

section \<open>Growing tables\<close>

definition md_grows :: "dxil_module \<Rightarrow> dxil_module \<Rightarrow> bool" where
  "md_grows m m' \<longleftrightarrow> prefix (type_list m) (type_list m') \<and> prefix (const_list m) (const_list m') \<and>
     prefix (mdnode_list m) (mdnode_list m')"

lemma md_grows_refl [simp]: "md_grows m m"
  by (simp add: md_grows_def)

lemma md_grows_trans: "md_grows m m' \<Longrightarrow> md_grows m' m'' \<Longrightarrow> md_grows m m''"
  unfolding md_grows_def by (auto elim: prefix_order.order_trans)

lemma md_grows_cache [simp]:
  "md_grows m (m'\<lparr>void_type := a\<rparr>) = md_grows m m'" "md_grows m (m'\<lparr>int1_type := a\<rparr>) = md_grows m m'"
  "md_grows m (m'\<lparr>int8_type := a\<rparr>) = md_grows m m'" "md_grows m (m'\<lparr>int16_type := a\<rparr>) = md_grows m m'"
  "md_grows m (m'\<lparr>int32_type := a\<rparr>) = md_grows m m'" "md_grows m (m'\<lparr>int64_type := a\<rparr>) = md_grows m m'"
  "md_grows m (m'\<lparr>float16_type := a\<rparr>) = md_grows m m'" "md_grows m (m'\<lparr>float32_type := a\<rparr>) = md_grows m m'"
  "md_grows m (m'\<lparr>float64_type := a\<rparr>) = md_grows m m'"
  by (simp_all add: md_grows_def)

lemma create_type_grow [grow]: "create_type t m = (x, m') \<Longrightarrow> md_grows m m'"
  by (auto simp: create_type_def md_grows_def)

lemma get_int1_type_grow [grow]: "get_int1_type m = (x, m') \<Longrightarrow> md_grows m m'"
  by (auto simp: get_int1_type_def create_int_type_def split: option.splits prod.split_asm dest!: grow)

lemma get_int8_type_grow [grow]: "get_int8_type m = (x, m') \<Longrightarrow> md_grows m m'"
  by (auto simp: get_int8_type_def create_int_type_def split: option.splits prod.split_asm dest!: grow)

lemma get_int16_type_grow [grow]: "get_int16_type m = (x, m') \<Longrightarrow> md_grows m m'"
  by (auto simp: get_int16_type_def create_int_type_def split: option.splits prod.split_asm dest!: grow)

lemma get_int32_type_grow [grow]: "get_int32_type m = (x, m') \<Longrightarrow> md_grows m m'"
  by (auto simp: get_int32_type_def create_int_type_def split: option.splits prod.split_asm dest!: grow)

lemma get_int64_type_grow [grow]: "get_int64_type m = (x, m') \<Longrightarrow> md_grows m m'"
  by (auto simp: get_int64_type_def create_int_type_def split: option.splits prod.split_asm dest!: grow)

lemma get_float16_type_grow [grow]: "get_float16_type m = (x, m') \<Longrightarrow> md_grows m m'"
  by (auto simp: get_float16_type_def create_float_type_def split: option.splits prod.split_asm dest!: grow)

lemma get_float32_type_grow [grow]: "get_float32_type m = (x, m') \<Longrightarrow> md_grows m m'"
  by (auto simp: get_float32_type_def create_float_type_def split: option.splits prod.split_asm dest!: grow)

lemma get_float64_type_grow [grow]: "get_float64_type m = (x, m') \<Longrightarrow> md_grows m m'"
  by (auto simp: get_float64_type_def create_float_type_def split: option.splits prod.split_asm dest!: grow)

lemma pointer_type_grow [grow]: "dxil_module_get_pointer_type t m = (x, m') \<Longrightarrow> md_grows m m'"
  by (auto simp: dxil_module_get_pointer_type_def split: option.splits dest!: grow)

lemma array_type_grow [grow]: "dxil_module_get_array_type t n m = (x, m') \<Longrightarrow> md_grows m m'"
  by (auto simp: dxil_module_get_array_type_def split: option.splits dest!: grow)

lemma vector_type_grow [grow]: "dxil_module_get_vector_type t n m = (x, m') \<Longrightarrow> md_grows m m'"
  by (auto simp: dxil_module_get_vector_type_def split: option.splits dest!: grow)

lemma find_struct_grow [grow]: "find_struct_type k m = (x, m') \<Longrightarrow> md_grows m m'"
  by (auto simp: find_struct_type_def split: option.splits prod.splits dest!: grow)

lemma struct_type_grow [grow]: "dxil_module_get_struct_type k ts m = Inr (x, m') \<Longrightarrow> md_grows m m'"
  by (auto simp: dxil_module_get_struct_type_def split: if_splits dest!: grow)

lemma int_type_grow [grow]: "dxil_module_get_int_type b m = Inr (x, m') \<Longrightarrow> md_grows m m'"
  by (auto simp: dxil_module_get_int_type_def split: if_splits dest!: grow)

lemma float_type_grow [grow]: "dxil_module_get_float_type b m = Inr (x, m') \<Longrightarrow> md_grows m m'"
  by (auto simp: dxil_module_get_float_type_def split: if_splits dest!: grow)

lemma comp_type_grow [grow]: "dxil_module_get_type_from_comp_type c m = Inr (x, m') \<Longrightarrow> md_grows m m'"
  by (cases c) (auto simp: dxil_module_get_type_from_comp_type_def dest!: grow)

lemma res_type_grow [grow]: "dxil_module_get_res_type k c n rw m = Inr (x, m') \<Longrightarrow> md_grows m m'"
  by (auto simp: dxil_module_get_res_type_def Let_def split: if_splits prod.split_asm dest!: grow intro: md_grows_trans)

section \<open>Constants and nodes\<close>

lemma create_const_grow [grow]: "create_const t d m = (x, m') \<Longrightarrow> md_grows m m'"
  by (auto simp: create_const_def md_grows_def)

lemma undef_grow [grow]: "dxil_module_get_undef t m = (x, m') \<Longrightarrow> md_grows m m'"
  by (auto simp: dxil_module_get_undef_def split: option.splits dest!: grow)

lemma create_mdnode_grow [grow]: "create_mdnode n m = (x, m') \<Longrightarrow> md_grows m m'"
  by (auto simp: create_mdnode_def md_grows_def)

lemma string_grow [grow]: "dxil_get_metadata_string s m = (x, m') \<Longrightarrow> md_grows m m'"
  by (auto simp: dxil_get_metadata_string_def split: option.splits dest!: grow)

text \<open>A node is there, and says what was asked for.\<close>

definition has_node :: "dxil_module \<Rightarrow> mdref \<Rightarrow> dxil_mdnode \<Rightarrow> bool" where
  "has_node m n node \<longleftrightarrow> n < length (mdnode_list m) \<and> mdnode_list m ! n = node"

lemma create_mdnode_has: "create_mdnode node m = (n, m') \<Longrightarrow> has_node m' n node"
  by (auto simp: create_mdnode_def has_node_def)

lemma find_node_has:
  assumes "(case find_pos P (mdnode_list m) of Some n \<Rightarrow> (n, m) | None \<Rightarrow> create_mdnode node m) = (n, m')"
    and "\<And>x. P x \<Longrightarrow> x = node"
  shows "md_grows m m' \<and> has_node m' n node"
proof (cases "find_pos P (mdnode_list m)")
  case None
  then have "create_mdnode node m = (n, m')" using assms(1) by simp
  then show ?thesis using create_mdnode_grow create_mdnode_has by blast
next
  case (Some k)
  then have k: "n = k" "m' = m" using assms(1) by simp_all
  have "k < length (mdnode_list m)" "P (mdnode_list m ! k)" using find_pos_Some [OF Some] by auto
  then show ?thesis using assms(2) k by (simp add: has_node_def)
qed

lemma metadata_node_has: "dxil_get_metadata_node subs m = (n, m') \<Longrightarrow> md_grows m m' \<and> has_node m' n (MD_NODE subs)"
  unfolding dxil_get_metadata_node_def by (erule find_node_has) (simp split: dxil_mdnode.split_asm)

lemma metadata_value_has: "dxil_get_metadata_value t v m = (n, m') \<Longrightarrow> md_grows m m' \<and> has_node m' n (MD_VALUE t v)"
  unfolding dxil_get_metadata_value_def by (erule find_node_has) (simp split: dxil_mdnode.split_asm)

lemmas metadata_grow [grow] = metadata_node_has [THEN conjunct1] metadata_value_has [THEN conjunct1]

lemma has_node_grows: "has_node m n node \<Longrightarrow> md_grows m m' \<Longrightarrow> has_node m' n node"
  by (auto simp: has_node_def md_grows_def prefix_def nth_append)

section \<open>Numbers in the metadata\<close>

definition int_const :: "dxil_module \<Rightarrow> val_ref \<Rightarrow> 64 word \<Rightarrow> bool" where
  "int_const m c w \<longleftrightarrow> get_int_from_const_value m c = Inr w"

lemma int_const_iff:
  "int_const m c w \<longleftrightarrow> (\<exists>i b. c = CONST_REF i \<and> i < length (const_list m) \<and> const_data (const_list m ! i) = INT_VALUE w \<and>
     value_type (const_value (const_list m ! i)) < length (type_list m) \<and>
     type_list m ! value_type (const_value (const_list m ! i)) = TYPE_INTEGER b)"
  by (cases c) (auto simp: int_const_def get_int_from_const_value_def type_at_def nth_or_def
      split: dxil_type.split_asm dxil_type.split const_data.split_asm const_data.split if_splits)

lemma int_const_grows: "int_const m c w \<Longrightarrow> md_grows m m' \<Longrightarrow> int_const m' c w"
  unfolding int_const_iff by (auto simp: md_grows_def prefix_def nth_append)

lemma get_int_const_has:
  assumes "get_int_const t w m = Inr (c, m')"
  shows "md_grows m m' \<and> int_const m' c w"
proof -
  obtain b where t: "type_at m t = TYPE_INTEGER b" and i: "intern_const (\<lambda>d. d = INT_VALUE w) t (INT_VALUE w) m = (c, m')"
    using assms by (auto simp: get_int_const_def split: dxil_type.split_asm)
  have ty: "t < length (type_list m)" "type_list m ! t = TYPE_INTEGER b"
    using t by (auto simp: type_at_def nth_or_def split: if_splits)
  let ?P = "\<lambda>c. value_type (const_value c) = t \<and> const_data c \<noteq> UNDEF \<and> const_data c = INT_VALUE w"
  show ?thesis
  proof (cases "find_pos ?P (const_list m)")
    case None
    then have "create_const t (INT_VALUE w) m = (c, m')" using i by (simp add: intern_const_def)
    then show ?thesis using ty create_const_grow unfolding int_const_iff by (auto simp: create_const_def md_grows_def)
  next
    case (Some k)
    then have "c = CONST_REF k" "m' = m" using i by (simp_all add: intern_const_def)
    then show ?thesis using find_pos_Some [OF Some] ty unfolding int_const_iff by auto
  qed
qed

text \<open>The node holds a number.\<close>

definition int_node :: "dxil_module \<Rightarrow> mdref \<Rightarrow> 64 word \<Rightarrow> bool" where
  "int_node m n w \<longleftrightarrow> (\<exists>t c. has_node m n (MD_VALUE t c) \<and> int_const m c w)"

lemma int_node_grows: "int_node m n w \<Longrightarrow> md_grows m m' \<Longrightarrow> int_node m' n w"
  unfolding int_node_def using has_node_grows int_const_grows by blast

lemma metadata_int_has:
  assumes "metadata_int t w m = Inr (n, m')"
  shows "md_grows m m' \<and> int_node m' n w"
proof -
  obtain c m1 where 1: "get_int_const t w m = Inr (c, m1)" and 2: "dxil_get_metadata_value t c m1 = (n, m')"
    using assms by (auto simp: metadata_int_def)
  have c: "md_grows m m1" "int_const m1 c w" using get_int_const_has [OF 1] by auto
  have v: "md_grows m1 m'" "has_node m' n (MD_VALUE t c)" using metadata_value_has [OF 2] by auto
  show ?thesis using md_grows_trans [OF c(1) v(1)] v(2) int_const_grows [OF c(2) v(1)] unfolding int_node_def by blast
qed

lemma metadata_int32_has: "dxil_get_metadata_int32 w m = Inr (n, m') \<Longrightarrow> md_grows m m' \<and> int_node m' n (scast w)"
  using metadata_int_has get_int32_type_grow md_grows_trans
  by (fastforce simp: dxil_get_metadata_int32_def split: prod.split_asm)

lemma metadata_int1_has: "dxil_get_metadata_int1 b m = Inr (n, m') \<Longrightarrow> md_grows m m' \<and> int_node m' n (of_bool b)"
  using metadata_int_has get_int1_type_grow md_grows_trans
  by (fastforce simp: dxil_get_metadata_int1_def split: prod.split_asm)

lemmas metadata_int_grow [grow] = metadata_int32_has [THEN conjunct1] metadata_int1_has [THEN conjunct1]

text \<open>A field of a node.\<close>

definition node_field :: "dxil_module \<Rightarrow> mdref \<Rightarrow> nat \<Rightarrow> 64 word \<Rightarrow> bool" where
  "node_field m n k w \<longleftrightarrow> get_int_from_mdnode m n k = Inr w"

lemma node_fieldI:
  "has_node m n (MD_NODE subs) \<Longrightarrow> k < length subs \<Longrightarrow> subs ! k = Some f \<Longrightarrow> int_node m f w \<Longrightarrow> node_field m n k w"
  by (auto simp: node_field_def get_int_from_mdnode_def md_subnode_def has_node_def int_node_def int_const_def)


lemma node_field_grows:
  assumes "node_field m n k w" and "md_grows m m'"
  shows "node_field m' n k w"
proof -
  obtain f subs where f: "has_node m n (MD_NODE subs)" "k < length subs" "subs ! k = Some f" "int_node m f w"
    using assms(1)
    by (auto simp: node_field_def get_int_from_mdnode_def md_subnode_def has_node_def int_node_def int_const_def
        split: if_splits dxil_mdnode.split_asm option.split_asm)
  show ?thesis by (rule node_fieldI [OF has_node_grows [OF f(1) assms(2)] f(2,3) int_node_grows [OF f(4) assms(2)]])
qed

section \<open>The nodes of resources\<close>

text \<open>The four numbers of a layout, in the fields of the node and in the nodes of these fields.\<close>

definition layout_fields :: "resource_array_layout \<Rightarrow> (nat \<times> 32 word) list" where
  "layout_fields layout =
     [(0, layout_id layout), (3, layout_space layout), (4, layout_binding layout), (5, layout_size layout)]"

definition fields_hold :: "dxil_module \<Rightarrow> mdref list \<Rightarrow> resource_array_layout \<Rightarrow> bool" where
  "fields_hold m fs layout \<longleftrightarrow> length fs = 6 \<and> (\<forall>(k, w)\<in>set (layout_fields layout). int_node m (fs ! k) (scast w))"

definition node_describes :: "dxil_module \<Rightarrow> mdref \<Rightarrow> resource_array_layout \<Rightarrow> bool" where
  "node_describes m n layout \<longleftrightarrow> (\<forall>(k, w)\<in>set (layout_fields layout). node_field m n k (scast w))"

lemma fields_hold_grows: "fields_hold m fs layout \<Longrightarrow> md_grows m m' \<Longrightarrow> fields_hold m' fs layout"
  using int_node_grows unfolding fields_hold_def by blast

lemma node_describes_grows: "node_describes m n layout \<Longrightarrow> md_grows m m' \<Longrightarrow> node_describes m' n layout"
  using node_field_grows unfolding node_describes_def by blast

lemma fill_resource_metadata_has:
  assumes "fill_resource_metadata t name layout m = Inr (fs, m')"
  shows "md_grows m m' \<and> fields_hold m' fs layout"
proof -
  obtain p m1 u m2 f0 m3 f1 m4 f2 m5 f3 m6 f4 m7 f5 where
    1: "dxil_module_get_pointer_type t m = (p, m1)" "dxil_module_get_undef p m1 = (u, m2)"
    and 3: "dxil_get_metadata_int32 (layout_id layout) m2 = Inr (f0, m3)"
    and 4: "dxil_get_metadata_value p u m3 = (f1, m4)" "dxil_get_metadata_string name m4 = (f2, m5)"
    and 5: "dxil_get_metadata_int32 (layout_space layout) m5 = Inr (f3, m6)"
    and 6: "dxil_get_metadata_int32 (layout_binding layout) m6 = Inr (f4, m7)"
    and 7: "dxil_get_metadata_int32 (layout_size layout) m7 = Inr (f5, m')"
    and fs: "fs = [f0, f1, f2, f3, f4, f5]"
    using assms unfolding fill_resource_metadata_def Let_def by (auto elim!: bind_pairE case_pairE)
  have g7: "md_grows m7 m'" and n5: "int_node m' f5 (scast (layout_size layout))" using metadata_int32_has [OF 7] by auto
  have g6: "md_grows m6 m'" and n4: "int_node m' f4 (scast (layout_binding layout))"
    using metadata_int32_has [OF 6] md_grows_trans [OF _ g7] int_node_grows [OF _ g7] by auto
  have g5: "md_grows m5 m'" and n3: "int_node m' f3 (scast (layout_space layout))"
    using metadata_int32_has [OF 5] md_grows_trans [OF _ g6] int_node_grows [OF _ g6] by auto
  have g3: "md_grows m3 m'" using md_grows_trans [OF metadata_grow(2) [OF 4(1)] md_grows_trans [OF string_grow [OF 4(2)] g5]] .
  have g2: "md_grows m2 m'" and n0: "int_node m' f0 (scast (layout_id layout))"
    using metadata_int32_has [OF 3] md_grows_trans [OF _ g3] int_node_grows [OF _ g3] by auto
  have "md_grows m m'" using md_grows_trans [OF pointer_type_grow [OF 1(1)] md_grows_trans [OF undef_grow [OF 1(2)] g2]] .
  then show ?thesis using n0 n3 n4 n5 unfolding fs by (simp add: fields_hold_def layout_fields_def)
qed

lemma node_of_fields:
  assumes "dxil_get_metadata_node (map Some (fs @ gs) @ hs) m = (n, m')" and "fields_hold m fs layout"
  shows "md_grows m m' \<and> node_describes m' n layout"
proof -
  have g: "md_grows m m'" and n: "has_node m' n (MD_NODE (map Some (fs @ gs) @ hs))"
    using metadata_node_has [OF assms(1)] by auto
  have l: "length fs = 6" using assms(2) by (simp add: fields_hold_def)
  have "node_field m' n k (scast w)" if kw: "(k, w) \<in> set (layout_fields layout)" for k w
  proof (rule node_fieldI [OF n])
    have k: "k < 6" using kw by (auto simp: layout_fields_def)
    then show "k < length (map Some (fs @ gs) @ hs)" using l by simp
    show "(map Some (fs @ gs) @ hs) ! k = Some (fs ! k)" using k l by (simp add: nth_append)
    show "int_node m' (fs ! k) (scast w)"
      using kw fields_hold_grows [OF assms(2) g] by (auto simp: fields_hold_def)
  qed
  then show ?thesis using g by (auto simp: node_describes_def)
qed

lemma element_type_metadata_grow [grow]:
  assumes "element_type_metadata c k m = Inr (x, m')"
  shows "md_grows m m'"
proof (cases "k \<noteq> DXIL_RESOURCE_KIND_RAW_BUFFER \<and> k \<noteq> DXIL_RESOURCE_KIND_STRUCTURED_BUFFER")
  case True
  then have "bind_result (dxil_get_metadata_int32 DXIL_TYPED_BUFFER_ELEMENT_TYPE_TAG m) (\<lambda>(tag, m).
        bind_result (dxil_get_metadata_int32 (of_nat (dxil_component_type_value c)) m) (\<lambda>(comp, m).
          let (node, m) = dxil_get_metadata_node [Some tag, Some comp] m in Inr (Some node, m))) = Inr (x, m')"
    using assms by (simp add: element_type_metadata_def)
  then obtain t m1 d m2 n where 1: "dxil_get_metadata_int32 DXIL_TYPED_BUFFER_ELEMENT_TYPE_TAG m = Inr (t, m1)"
    "dxil_get_metadata_int32 (of_nat (dxil_component_type_value c)) m1 = Inr (d, m2)"
    "dxil_get_metadata_node [Some t, Some d] m2 = (n, m')"
    unfolding Let_def by (auto elim!: bind_pairE case_pairE)
  show ?thesis
    by (rule md_grows_trans [OF metadata_int_grow(1) [OF 1(1)] md_grows_trans [OF metadata_int_grow(1) [OF 1(2)] metadata_grow(1) [OF 1(3)]]])
next
  case False
  then show ?thesis using assms by (auto simp: element_type_metadata_def split: if_splits)
qed

lemma emit_srv_metadata_has:
  assumes "emit_srv_metadata t name layout c k m = Inr (n, m')"
  shows "md_grows m m' \<and> node_describes m' n layout"
proof -
  obtain fs m1 f6 m2 f7 m3 f8 m4 where 1: "fill_resource_metadata t name layout m = Inr (fs, m1)"
    and 2: "dxil_get_metadata_int32 (of_nat (dxil_resource_kind_value k)) m1 = Inr (f6, m2)"
    and 3: "dxil_get_metadata_int1 False m2 = Inr (f7, m3)" and 4: "element_type_metadata c k m3 = Inr (f8, m4)"
    and 5: "dxil_get_metadata_node (map Some (fs @ [f6, f7]) @ [f8]) m4 = (n, m')"
    using assms unfolding emit_srv_metadata_def by (auto elim!: bind_pairE)
  have f: "md_grows m m1" "fields_hold m1 fs layout" using fill_resource_metadata_has [OF 1] by auto
  have g: "md_grows m1 m4"
    by (rule md_grows_trans [OF metadata_int_grow(1) [OF 2] md_grows_trans [OF metadata_int_grow(2) [OF 3] element_type_metadata_grow [OF 4]]])
  have n: "md_grows m4 m'" "node_describes m' n layout" using node_of_fields [OF 5 fields_hold_grows [OF f(2) g]] by auto
  show ?thesis using md_grows_trans [OF f(1) md_grows_trans [OF g n(1)]] n(2) by blast
qed

lemma emit_uav_metadata_has:
  assumes "emit_uav_metadata t name layout c k access m = Inr (n, m')"
  shows "md_grows m m' \<and> node_describes m' n layout"
proof -
  obtain fs m1 f6 m2 f7 m3 f8 m4 f9 m5 f10 m6 where 1: "fill_resource_metadata t name layout m = Inr (fs, m1)"
    and 2: "dxil_get_metadata_int32 (of_nat (dxil_resource_kind_value k)) m1 = Inr (f6, m2)"
    and 3: "dxil_get_metadata_int1 (access AND ACCESS_COHERENT \<noteq> 0) m2 = Inr (f7, m3)"
    and 4: "dxil_get_metadata_int1 False m3 = Inr (f8, m4)" "dxil_get_metadata_int1 False m4 = Inr (f9, m5)"
      "element_type_metadata c k m5 = Inr (f10, m6)"
    and 5: "dxil_get_metadata_node (map Some (fs @ [f6, f7, f8, f9]) @ [f10]) m6 = (n, m')"
    using assms unfolding emit_uav_metadata_def by (auto elim!: bind_pairE)
  have f: "md_grows m m1" "fields_hold m1 fs layout" using fill_resource_metadata_has [OF 1] by auto
  have g: "md_grows m1 m6"
    by (rule md_grows_trans [OF metadata_int_grow(1) [OF 2] md_grows_trans [OF metadata_int_grow(2) [OF 3]
      md_grows_trans [OF metadata_int_grow(2) [OF 4(1)] md_grows_trans [OF metadata_int_grow(2) [OF 4(2)] element_type_metadata_grow [OF 4(3)]]]]])
  have n: "md_grows m6 m'" "node_describes m' n layout" using node_of_fields [OF 5 fields_hold_grows [OF f(2) g]] by auto
  show ?thesis using md_grows_trans [OF f(1) md_grows_trans [OF g n(1)]] n(2) by blast
qed

lemma node_of_fields_and_size:
  assumes "fill_resource_metadata t name layout m = Inr (fs, m1)" and "dxil_get_metadata_int32 w m1 = Inr (f6, m2)"
    and "dxil_get_metadata_node (map Some (fs @ [f6]) @ [None]) m2 = (n, m')"
  shows "md_grows m m' \<and> node_describes m' n layout"
proof -
  have f: "md_grows m m1" "fields_hold m1 fs layout" using fill_resource_metadata_has [OF assms(1)] by auto
  have g: "md_grows m1 m2" by (rule metadata_int_grow(1) [OF assms(2)])
  have n: "md_grows m2 m'" "node_describes m' n layout" using node_of_fields [OF assms(3) fields_hold_grows [OF f(2) g]] by auto
  show ?thesis using md_grows_trans [OF f(1) md_grows_trans [OF g n(1)]] n(2) by blast
qed

lemma emit_cbv_metadata_has:
  assumes "emit_cbv_metadata t name layout bytes m = Inr (n, m')"
  shows "md_grows m m' \<and> node_describes m' n layout"
proof -
  obtain fs m1 f6 m2 where 1: "fill_resource_metadata t name layout m = Inr (fs, m1)"
    "dxil_get_metadata_int32 bytes m1 = Inr (f6, m2)" "dxil_get_metadata_node (map Some (fs @ [f6]) @ [None]) m2 = (n, m')"
    using assms unfolding emit_cbv_metadata_def by (auto elim!: bind_pairE)
  show ?thesis by (rule node_of_fields_and_size [OF 1])
qed

lemma emit_sampler_metadata_has:
  assumes "emit_sampler_metadata t var layout m = Inr (n, m')"
  shows "md_grows m m' \<and> node_describes m' n layout"
proof -
  obtain fs m1 w f6 m2 where 1: "fill_resource_metadata t (res_var_name var) layout m = Inr (fs, m1)"
    "dxil_get_metadata_int32 w m1 = Inr (f6, m2)" "dxil_get_metadata_node (map Some (fs @ [f6]) @ [None]) m2 = (n, m')"
    using assms unfolding emit_sampler_metadata_def Let_def
    by (auto elim!: bind_pairE split: if_split_asm)
  show ?thesis by (rule node_of_fields_and_size [OF 1])
qed

end
