(* ===== verification/Ntd_Handles.thy ===== *)
theory Ntd_Handles
  imports Ntd_Resources
begin

unbundle bit_operations_syntax

text \<open>
  Handles of resources (\<open>nir_to_dxil.c\<close>, \<open>emit_createhandle_call_pre_6_6\<close> to \<open>emit_createhandle_heap\<close>,
  \<open>emit_createhandle_call_dynamic\<close>, \<open>emit_static_indexing_handles\<close>): the calls that create them, the search of
  the table of resources for the range that a binding is in, and the handles that are made in advance.
\<close>

section \<open>Calls\<close>

definition emit_createhandle_call_pre_6_6 ::
  "dxil_resource_class \<Rightarrow> 32 word \<Rightarrow> val_ref \<Rightarrow> bool \<Rightarrow> val_ref ntd" where
  "emit_createhandle_call_pre_6_6 class range_id range_index non_uniform =
     on_mod (\<lambda>m.
       bind_result (dxil_module_get_int32_const DXIL_INTR_CREATE_HANDLE m) (\<lambda>(opcode, m).
       bind_result (dxil_module_get_int8_const (of_nat (dxil_resource_class_value class)) m) (\<lambda>(class_value, m).
       bind_result (dxil_module_get_int32_const range_id m) (\<lambda>(range_id_value, m).
       bind_result (dxil_module_get_int1_const non_uniform m) (\<lambda>(non_uniform_value, m).
       bind_result (dxil_get_function ''dx.op.createHandle'' DXIL_NONE m) (\<lambda>(func, m).
         dxil_emit_call func [opcode, class_value, range_id_value, range_index, non_uniform_value] m))))))"

definition emit_annotate_handle :: "val_ref \<Rightarrow> val_ref \<Rightarrow> val_ref ntd" where
  "emit_annotate_handle unannotated_handle res_props =
     on_mod (\<lambda>m.
       bind_result (dxil_module_get_int32_const DXIL_INTR_ANNOTATE_HANDLE m) (\<lambda>(opcode, m).
       bind_result (dxil_get_function ''dx.op.annotateHandle'' DXIL_NONE m) (\<lambda>(func, m).
         dxil_emit_call func [opcode, unannotated_handle, res_props] m)))"

definition metadata_nodes :: "dxil_resource_class \<Rightarrow> ntd_context \<Rightarrow> mdref list" where
  "metadata_nodes class ctx =
     (case class of
        DXIL_RESOURCE_CLASS_SRV \<Rightarrow> srv_metadata_nodes ctx
      | DXIL_RESOURCE_CLASS_UAV \<Rightarrow> uav_metadata_nodes ctx
      | DXIL_RESOURCE_CLASS_CBV \<Rightarrow> cbv_metadata_nodes ctx
      | DXIL_RESOURCE_CLASS_SAMPLER \<Rightarrow> sampler_metadata_nodes ctx)"

definition emit_annotate_handle_from_metadata :: "dxil_resource_class \<Rightarrow> 32 word \<Rightarrow> val_ref \<Rightarrow> val_ref ntd" where
  "emit_annotate_handle_from_metadata class range_id unannotated_handle ctx =
     bind_result (read_at (unat range_id) (metadata_nodes class ctx)) (\<lambda>mdnode.
     bind_result (on_mod (dxil_module_get_res_props_const class mdnode) ctx) (\<lambda>(res_props, ctx).
       emit_annotate_handle unannotated_handle res_props ctx))"

definition emit_createhandle_and_annotate ::
  "dxil_resource_class \<Rightarrow> 32 word \<Rightarrow> 32 word \<Rightarrow> 32 word \<Rightarrow> 32 word \<Rightarrow> val_ref \<Rightarrow> bool \<Rightarrow> val_ref ntd" where
  "emit_createhandle_and_annotate class lower upper space_id range_id range_index non_uniform ctx =
     bind_result (on_mod (\<lambda>m.
       bind_result (dxil_module_get_int32_const DXIL_INTR_CREATE_HANDLE_FROM_BINDING m) (\<lambda>(opcode, m).
       bind_result (dxil_module_get_res_bind_const lower upper space_id (of_nat (dxil_resource_class_value class)) m) (\<lambda>(res_bind, m).
       bind_result (dxil_module_get_int1_const non_uniform m) (\<lambda>(non_uniform_value, m).
       bind_result (dxil_get_function ''dx.op.createHandleFromBinding'' DXIL_NONE m) (\<lambda>(func, m).
         dxil_emit_call func [opcode, res_bind, range_index, non_uniform_value] m))))) ctx) (\<lambda>(handle, ctx).
       emit_annotate_handle_from_metadata class range_id handle ctx)"

definition emit_createhandle_call ::
  "dxil_resource_class \<Rightarrow> 32 word \<Rightarrow> 32 word \<Rightarrow> 32 word \<Rightarrow> 32 word \<Rightarrow> val_ref \<Rightarrow> bool \<Rightarrow> val_ref ntd" where
  "emit_createhandle_call class lower upper space_id range_id range_index non_uniform ctx =
     (if ntd_minor_version ctx < 6 then emit_createhandle_call_pre_6_6 class range_id range_index non_uniform ctx
      else emit_createhandle_and_annotate class lower upper space_id range_id range_index non_uniform ctx)"

definition emit_createhandle_call_const_index ::
  "dxil_resource_class \<Rightarrow> 32 word \<Rightarrow> 32 word \<Rightarrow> 32 word \<Rightarrow> 32 word \<Rightarrow> 32 word \<Rightarrow> bool \<Rightarrow> val_ref ntd" where
  "emit_createhandle_call_const_index class lower upper space_id range_id range_index non_uniform ctx =
     bind_result (on_mod (dxil_module_get_int32_const range_index) ctx) (\<lambda>(index, ctx).
       emit_createhandle_call class lower upper space_id range_id index non_uniform ctx)"

definition emit_createhandle_heap :: "val_ref \<Rightarrow> bool \<Rightarrow> bool \<Rightarrow> val_ref ntd" where
  "emit_createhandle_heap range_index is_sampler non_uniform ctx =
     on_mod (\<lambda>m.
       bind_result (dxil_module_get_int32_const DXIL_INTR_CREATE_HANDLE_FROM_HEAP m) (\<lambda>(opcode, m).
       bind_result (dxil_module_get_int1_const is_sampler m) (\<lambda>(sampler, m).
       bind_result (dxil_module_get_int1_const non_uniform m) (\<lambda>(non_uniform_value, m).
       bind_result (dxil_get_function ''dx.op.createHandleFromHeap'' DXIL_NONE m) (\<lambda>(func, m).
         dxil_emit_call func [opcode, range_index, sampler, non_uniform_value] m)))))
       (set_feats (\<lambda>f. if is_sampler then f\<lparr>feat_sampler_descriptor_heap_indexing := True\<rparr>
                        else f\<lparr>feat_resource_descriptor_heap_indexing := True\<rparr>) True ctx)"

section \<open>The range of a binding\<close>

text \<open>Where the entries of a class are in the table: its first one and how many there are.\<close>

definition resource_section :: "dxil_resource_class \<Rightarrow> ntd_context \<Rightarrow> nat \<times> nat" where
  "resource_section class ctx =
     (let num_srvs = length (srv_metadata_nodes ctx); num_uavs = length (uav_metadata_nodes ctx);
          num_cbvs = length (cbv_metadata_nodes ctx); num_samplers = length (sampler_metadata_nodes ctx)
      in case class of
           DXIL_RESOURCE_CLASS_UAV \<Rightarrow> (num_srvs + num_samplers + num_cbvs, num_uavs)
         | DXIL_RESOURCE_CLASS_SRV \<Rightarrow> (num_samplers + num_cbvs, num_srvs)
         | DXIL_RESOURCE_CLASS_SAMPLER \<Rightarrow> (num_cbvs, num_samplers)
         | DXIL_RESOURCE_CLASS_CBV \<Rightarrow> (0, num_cbvs))"

definition in_range_of :: "32 word \<Rightarrow> 32 word \<Rightarrow> dxil_resource_v1 \<Rightarrow> bool" where
  "in_range_of space_id binding r \<longleftrightarrow>
     space (v0 r) = space_id \<and> lower_bound (v0 r) \<le> binding \<and> upper_bound (v0 r) \<ge> binding"

definition emit_createhandle_call_dynamic ::
  "dxil_resource_class \<Rightarrow> 32 word \<Rightarrow> 32 word \<Rightarrow> val_ref \<Rightarrow> bool \<Rightarrow> val_ref ntd" where
  "emit_createhandle_call_dynamic class space_id binding range_index non_uniform ctx =
     (let (offset, count) = resource_section class ctx
      in if \<not> offset + count \<le> length (ntd_resources ctx) then Inl Assertion
         else case find (\<lambda>i. in_range_of space_id binding (ntd_resources ctx ! i)) [offset..<offset + count] of
           None \<Rightarrow> Inl Unreachable
         | Some i \<Rightarrow>
             let r = v0 (ntd_resources ctx ! i)
             in emit_createhandle_call class (lower_bound r) (upper_bound r) space_id (of_nat (i - offset))
                  range_index non_uniform ctx)"

section \<open>Handles made in advance\<close>

datatype handle_array = SRV_HANDLES | CBV_HANDLES | SAMPLER_HANDLES | SSBO_HANDLES | IMAGE_HANDLES

definition handles_of_type :: "32 word \<Rightarrow> (dxil_resource_class \<times> handle_array) result" where
  "handles_of_type type =
     (let is = \<lambda>t. type = of_nat (dxil_resource_type_value t)
      in if is DXIL_RES_SRV_TYPED \<or> is DXIL_RES_SRV_RAW \<or> is DXIL_RES_SRV_STRUCTURED
         then Inr (DXIL_RESOURCE_CLASS_SRV, SRV_HANDLES)
         else if is DXIL_RES_CBV then Inr (DXIL_RESOURCE_CLASS_CBV, CBV_HANDLES)
         else if is DXIL_RES_SAMPLER then Inr (DXIL_RESOURCE_CLASS_SAMPLER, SAMPLER_HANDLES)
         else if is DXIL_RES_UAV_RAW then Inr (DXIL_RESOURCE_CLASS_UAV, SSBO_HANDLES)
         else if is DXIL_RES_UAV_TYPED \<or> is DXIL_RES_UAV_STRUCTURED \<or> is DXIL_RES_UAV_STRUCTURED_WITH_COUNTER
         then Inr (DXIL_RESOURCE_CLASS_UAV, IMAGE_HANDLES)
         else Inl Unreachable)"

definition set_handle :: "handle_array \<Rightarrow> nat \<Rightarrow> val_ref \<Rightarrow> ntd_context \<Rightarrow> ntd_context result" where
  "set_handle slot i v ctx =
     (case slot of
        SRV_HANDLES \<Rightarrow> bind_result (update_at i (\<lambda>_. Some v) (srv_handles ctx)) (\<lambda>hs. Inr (ctx\<lparr>srv_handles := hs\<rparr>))
      | CBV_HANDLES \<Rightarrow> bind_result (update_at i (\<lambda>_. Some v) (cbv_handles ctx)) (\<lambda>hs. Inr (ctx\<lparr>cbv_handles := hs\<rparr>))
      | SAMPLER_HANDLES \<Rightarrow> bind_result (update_at i (\<lambda>_. Some v) (sampler_handles ctx)) (\<lambda>hs. Inr (ctx\<lparr>sampler_handles := hs\<rparr>))
      | SSBO_HANDLES \<Rightarrow> bind_result (update_at i (\<lambda>_. Some v) (ssbo_handles ctx)) (\<lambda>hs. Inr (ctx\<lparr>ssbo_handles := hs\<rparr>))
      | IMAGE_HANDLES \<Rightarrow> bind_result (update_at i (\<lambda>_. Some v) (image_handles ctx)) (\<lambda>hs. Inr (ctx\<lparr>image_handles := hs\<rparr>)))"

text \<open>
  The inner loop. In the code its counter wraps around after \<open>UINT_MAX\<close>; a write outside of the array, which is
  shorter than that, comes first and is undefined.
\<close>

function emit_handle_range ::
  "dxil_resource_class \<Rightarrow> handle_array \<Rightarrow> dxil_resource_v0 \<Rightarrow> 32 word \<Rightarrow> nat \<Rightarrow> ntd_context \<Rightarrow> ntd_context result" where
  "emit_handle_range class slot r range_id i ctx =
     (if i \<le> unat (upper_bound r) then
        bind_result (emit_createhandle_call_const_index class (lower_bound r) (upper_bound r) (space r) range_id (of_nat i) False ctx)
          (\<lambda>(v, ctx). bind_result (set_handle slot i v ctx) (emit_handle_range class slot r range_id (Suc i)))
      else Inr ctx)"
  by pat_completeness auto
termination by (relation "measure (\<lambda>(class, slot, r, range_id, i, ctx). Suc (unat (upper_bound r)) - i)") auto

text \<open>The handles of one entry of the table, which is the number \<open>range_id\<close> of its class.\<close>

definition emit_resource_handles ::
  "dxil_resource_class \<Rightarrow> handle_array \<Rightarrow> 32 word \<Rightarrow> dxil_resource_v0 \<Rightarrow> ntd_context \<Rightarrow> ntd_context result" where
  "emit_resource_handles class slot range_id r ctx =
     (let raw_uav = (resource_type r = of_nat (dxil_resource_type_value DXIL_RES_UAV_RAW))
      in if 1 < space r then Inr ctx
         else if \<not> (space r = 0 \<or> (space r = 1 \<and> \<not> raw_uav \<and> ntd_environment ctx = DXIL_ENVIRONMENT_GL)) then Inl Assertion
         else if ntd_environment ctx = DXIL_ENVIRONMENT_CL \<and> raw_uav then Inr ctx
         else emit_handle_range class slot r range_id (unat (lower_bound r)) ctx)"

fun emit_static_handles ::
  "dxil_resource_class option \<Rightarrow> 32 word \<Rightarrow> dxil_resource_v0 list \<Rightarrow> ntd_context \<Rightarrow> ntd_context result" where
  "emit_static_handles last_class range_id [] ctx = Inr ctx"
| "emit_static_handles last_class range_id (r # rs) ctx =
     bind_result (handles_of_type (resource_type r)) (\<lambda>(class, slot).
       let range_id = (if last_class \<noteq> Some class then 0 else range_id + 1)
       in bind_result (emit_resource_handles class slot range_id r ctx) (emit_static_handles (Some class) range_id rs))"

definition emit_static_indexing_handles :: "ntd_context \<Rightarrow> ntd_context result" where
  "emit_static_indexing_handles ctx =
     (if ntd_environment ctx = DXIL_ENVIRONMENT_VULKAN then Inr ctx
      else emit_static_handles None 0 (map v0 (ntd_resources ctx)) ctx)"

end
