(* ===== verification/Ntd_Resource_Table.thy ===== *)
theory Ntd_Resource_Table
  imports Ntd_Resource_Nodes Ntd_Handles
begin

text \<open>
  The table of resources and the metadata agree, whatever resources are emitted: the entries of a class stand
  together, in the order of the classes, and the entry and the node of a resource give the same range.
\<close>

declare emit_handle_range.simps [simp del]

section \<open>Agreement\<close>

definition matches :: "resource_array_layout \<Rightarrow> dxil_resource_v0 \<Rightarrow> bool" where
  "matches layout r \<longleftrightarrow> space r = layout_space layout \<and> lower_bound r = layout_binding layout \<and>
     upper_bound r = resource_upper_bound (layout_binding layout) (layout_size layout)"

text \<open>A node and an entry that are the number \<open>i\<close> of their class.\<close>

definition agree :: "dxil_module \<Rightarrow> dxil_resource_class \<Rightarrow> nat \<Rightarrow> mdref \<Rightarrow> dxil_resource_v0 \<Rightarrow> bool" where
  "agree m cls i n r \<longleftrightarrow> (\<exists>slot. handles_of_type (resource_type r) = Inr (cls, slot)) \<and>
     (\<exists>layout. layout_id layout = of_nat i \<and> node_describes m n layout \<and> matches layout r)"

definition class_table :: "dxil_module \<Rightarrow> dxil_resource_class \<Rightarrow> mdref list \<Rightarrow> dxil_resource_v1 list \<Rightarrow> bool" where
  "class_table m cls nodes rs \<longleftrightarrow> length nodes = length rs \<and> (\<forall>i<length rs. agree m cls i (nodes ! i) (v0 (rs ! i)))"

definition resources_agree :: "ntd_context \<Rightarrow> bool" where
  "resources_agree ctx \<longleftrightarrow> (\<exists>cs ss rs us. ntd_resources ctx = cs @ ss @ rs @ us \<and>
     class_table (ntd_mod ctx) DXIL_RESOURCE_CLASS_CBV (cbv_metadata_nodes ctx) cs \<and>
     class_table (ntd_mod ctx) DXIL_RESOURCE_CLASS_SAMPLER (sampler_metadata_nodes ctx) ss \<and>
     class_table (ntd_mod ctx) DXIL_RESOURCE_CLASS_SRV (srv_metadata_nodes ctx) rs \<and>
     class_table (ntd_mod ctx) DXIL_RESOURCE_CLASS_UAV (uav_metadata_nodes ctx) us)"

lemma agree_grows: "agree m cls i n r \<Longrightarrow> md_grows m m' \<Longrightarrow> agree m' cls i n r"
  unfolding agree_def using node_describes_grows by blast

lemma class_table_grows: "class_table m cls nodes rs \<Longrightarrow> md_grows m m' \<Longrightarrow> class_table m' cls nodes rs"
  unfolding class_table_def using agree_grows by blast

lemma class_table_Nil: "class_table m cls [] rs \<longleftrightarrow> rs = []"
  by (auto simp: class_table_def)

lemma class_table_snoc:
  "class_table m cls nodes rs \<Longrightarrow> agree m cls (length nodes) n (v0 r) \<Longrightarrow> class_table m cls (nodes @ [n]) (rs @ [r])"
  by (auto simp: class_table_def nth_append less_Suc_eq)

section \<open>Steps\<close>

text \<open>What the metadata nodes of a class are added to; \<open>class_rank\<close> is the order in which the classes are emitted.\<close>

definition keeps_resources :: "ntd_context \<Rightarrow> ntd_context \<Rightarrow> bool" where
  "keeps_resources ctx ctx' \<longleftrightarrow> md_grows (ntd_mod ctx) (ntd_mod ctx') \<and> ntd_resources ctx' = ntd_resources ctx \<and>
     (\<forall>cls. metadata_nodes cls ctx' = metadata_nodes cls ctx)"

definition declares_one :: "dxil_resource_class \<Rightarrow> ntd_context \<Rightarrow> ntd_context \<Rightarrow> bool" where
  "declares_one cls ctx ctx' \<longleftrightarrow> md_grows (ntd_mod ctx) (ntd_mod ctx') \<and>
     (\<exists>n r. ntd_resources ctx' = ntd_resources ctx @ [r] \<and> metadata_nodes cls ctx' = metadata_nodes cls ctx @ [n] \<and>
        (\<forall>c. c \<noteq> cls \<longrightarrow> metadata_nodes c ctx' = metadata_nodes c ctx) \<and>
        agree (ntd_mod ctx') cls (length (metadata_nodes cls ctx)) n (v0 r))"

definition resource_step :: "dxil_resource_class \<Rightarrow> ntd_context \<Rightarrow> ntd_context \<Rightarrow> bool" where
  "resource_step cls ctx ctx' \<longleftrightarrow> keeps_resources ctx ctx' \<or> declares_one cls ctx ctx'"

abbreviation declares_class :: "dxil_resource_class \<Rightarrow> ntd_context \<Rightarrow> ntd_context \<Rightarrow> bool" where
  "declares_class cls \<equiv> (resource_step cls)\<^sup>*\<^sup>*"

definition class_rank :: "dxil_resource_class \<Rightarrow> nat" where
  "class_rank cls = (case cls of DXIL_RESOURCE_CLASS_CBV \<Rightarrow> 0 | DXIL_RESOURCE_CLASS_SAMPLER \<Rightarrow> 1
     | DXIL_RESOURCE_CLASS_SRV \<Rightarrow> 2 | DXIL_RESOURCE_CLASS_UAV \<Rightarrow> 3)"

definition emitted_upto :: "dxil_resource_class \<Rightarrow> ntd_context \<Rightarrow> bool" where
  "emitted_upto cls ctx \<longleftrightarrow> resources_agree ctx \<and> (\<forall>c. class_rank cls < class_rank c \<longrightarrow> metadata_nodes c ctx = [])"

lemma resources_agree_nodes:
  "resources_agree ctx \<longleftrightarrow> (\<exists>cs ss rs us. ntd_resources ctx = cs @ ss @ rs @ us \<and>
     class_table (ntd_mod ctx) DXIL_RESOURCE_CLASS_CBV (metadata_nodes DXIL_RESOURCE_CLASS_CBV ctx) cs \<and>
     class_table (ntd_mod ctx) DXIL_RESOURCE_CLASS_SAMPLER (metadata_nodes DXIL_RESOURCE_CLASS_SAMPLER ctx) ss \<and>
     class_table (ntd_mod ctx) DXIL_RESOURCE_CLASS_SRV (metadata_nodes DXIL_RESOURCE_CLASS_SRV ctx) rs \<and>
     class_table (ntd_mod ctx) DXIL_RESOURCE_CLASS_UAV (metadata_nodes DXIL_RESOURCE_CLASS_UAV ctx) us)"
  by (simp add: resources_agree_def metadata_nodes_def)

lemma keeps_resources_agree: "keeps_resources ctx ctx' \<Longrightarrow> resources_agree ctx \<Longrightarrow> resources_agree ctx'"
  unfolding resources_agree_nodes keeps_resources_def using class_table_grows by metis

lemma keeps_emitted: "keeps_resources ctx ctx' \<Longrightarrow> emitted_upto cls ctx \<Longrightarrow> emitted_upto cls ctx'"
  unfolding emitted_upto_def using keeps_resources_agree by (auto simp: keeps_resources_def)

lemma declares_one_agree:
  assumes "declares_one cls ctx ctx'" and "emitted_upto cls ctx"
  shows "resources_agree ctx'"
proof -
  obtain n r where g: "md_grows (ntd_mod ctx) (ntd_mod ctx')" and r: "ntd_resources ctx' = ntd_resources ctx @ [r]"
    and n: "metadata_nodes cls ctx' = metadata_nodes cls ctx @ [n]"
    and oth: "\<And>c. c \<noteq> cls \<Longrightarrow> metadata_nodes c ctx' = metadata_nodes c ctx"
    and a: "agree (ntd_mod ctx') cls (length (metadata_nodes cls ctx)) n (v0 r)"
    using assms(1) unfolding declares_one_def by blast
  obtain cs ss rs us where t: "ntd_resources ctx = cs @ ss @ rs @ us"
    "class_table (ntd_mod ctx') DXIL_RESOURCE_CLASS_CBV (metadata_nodes DXIL_RESOURCE_CLASS_CBV ctx) cs"
    "class_table (ntd_mod ctx') DXIL_RESOURCE_CLASS_SAMPLER (metadata_nodes DXIL_RESOURCE_CLASS_SAMPLER ctx) ss"
    "class_table (ntd_mod ctx') DXIL_RESOURCE_CLASS_SRV (metadata_nodes DXIL_RESOURCE_CLASS_SRV ctx) rs"
    "class_table (ntd_mod ctx') DXIL_RESOURCE_CLASS_UAV (metadata_nodes DXIL_RESOURCE_CLASS_UAV ctx) us"
    using assms(2) class_table_grows [OF _ g] unfolding emitted_upto_def resources_agree_nodes by blast
  have e: "metadata_nodes c ctx = []" if "class_rank cls < class_rank c" for c using assms(2) that by (simp add: emitted_upto_def)
  show ?thesis
  proof (cases cls)
    case DXIL_RESOURCE_CLASS_CBV
    have "ss = [] \<and> rs = [] \<and> us = []" using t e by (simp add: class_table_Nil class_rank_def DXIL_RESOURCE_CLASS_CBV)
    then show ?thesis unfolding resources_agree_nodes using t oth n r a DXIL_RESOURCE_CLASS_CBV
      by (intro exI [of _ "cs @ [r]"] exI [of _ "[]"]) (simp add: class_table_snoc)
  next
    case DXIL_RESOURCE_CLASS_SAMPLER
    have "rs = [] \<and> us = []" using t e by (simp add: class_table_Nil class_rank_def DXIL_RESOURCE_CLASS_SAMPLER)
    then show ?thesis unfolding resources_agree_nodes using t oth n r a DXIL_RESOURCE_CLASS_SAMPLER
      by (intro exI [of _ cs] exI [of _ "ss @ [r]"] exI [of _ "[]"]) (simp add: class_table_snoc)
  next
    case DXIL_RESOURCE_CLASS_SRV
    have "us = []" using t e by (simp add: class_table_Nil class_rank_def DXIL_RESOURCE_CLASS_SRV)
    then show ?thesis unfolding resources_agree_nodes using t oth n r a DXIL_RESOURCE_CLASS_SRV
      by (intro exI [of _ cs] exI [of _ ss] exI [of _ "rs @ [r]"] exI [of _ "[]"]) (simp add: class_table_snoc)
  next
    case DXIL_RESOURCE_CLASS_UAV
    then show ?thesis unfolding resources_agree_nodes using t oth n r a
      by (intro exI [of _ cs] exI [of _ ss] exI [of _ rs] exI [of _ "us @ [r]"]) (simp add: class_table_snoc)
  qed
qed

lemma step_emitted: "resource_step cls ctx ctx' \<Longrightarrow> emitted_upto cls ctx \<Longrightarrow> emitted_upto cls ctx'"
  unfolding resource_step_def
proof (elim disjE)
  assume d: "declares_one cls ctx ctx'" and u: "emitted_upto cls ctx"
  have "metadata_nodes c ctx' = []" if c: "class_rank cls < class_rank c" for c
  proof -
    have "c \<noteq> cls" using c by auto
    then show ?thesis using d u c by (auto simp: declares_one_def emitted_upto_def)
  qed
  then show "emitted_upto cls ctx'" using declares_one_agree [OF d u] by (simp add: emitted_upto_def)
qed (rule keeps_emitted)

lemma class_emitted: "declares_class cls ctx ctx' \<Longrightarrow> emitted_upto cls ctx \<Longrightarrow> emitted_upto cls ctx'"
  by (induction rule: rtranclp_induct) (auto intro: step_emitted)

lemma emitted_later: "emitted_upto cls ctx \<Longrightarrow> class_rank cls \<le> class_rank cls' \<Longrightarrow> emitted_upto cls' ctx"
  by (simp add: emitted_upto_def)


section \<open>The resources that are emitted\<close>

definition entry_of :: "dxil_resource_type \<Rightarrow> dxil_resource_kind \<Rightarrow> resource_array_layout \<Rightarrow> bool \<Rightarrow> dxil_resource_v1" where
  "entry_of type kind layout validator_6 =
     \<lparr>v0 = \<lparr>resource_type = of_nat (dxil_resource_type_value type), space = layout_space layout,
       lower_bound = layout_binding layout, upper_bound = resource_upper_bound (layout_binding layout) (layout_size layout)\<rparr>,
      resource_kind = (if validator_6 then of_nat (dxil_resource_kind_value kind) else 0), resource_flags = 0\<rparr>"

lemma metadata_nodes_simps:
  "metadata_nodes DXIL_RESOURCE_CLASS_SRV ctx = srv_metadata_nodes ctx"
  "metadata_nodes DXIL_RESOURCE_CLASS_UAV ctx = uav_metadata_nodes ctx"
  "metadata_nodes DXIL_RESOURCE_CLASS_CBV ctx = cbv_metadata_nodes ctx"
  "metadata_nodes DXIL_RESOURCE_CLASS_SAMPLER ctx = sampler_metadata_nodes ctx"
  by (simp_all add: metadata_nodes_def)

lemma nodes_frame [simp]:
  "metadata_nodes c (ctx\<lparr>raw_and_structured_buffers := b\<rparr>) = metadata_nodes c ctx"
  "metadata_nodes c (ctx\<lparr>num_uavs := n\<rparr>) = metadata_nodes c ctx" "metadata_nodes c (ctx\<lparr>ntd_resources := rs\<rparr>) = metadata_nodes c ctx"
  "metadata_nodes c (ctx\<lparr>unnamed_ubo_count := n\<rparr>) = metadata_nodes c ctx" "metadata_nodes c (ctx\<lparr>ntd_mod := m\<rparr>) = metadata_nodes c ctx"
  "metadata_nodes c (ctx\<lparr>ntd_feats := fs\<rparr>) = metadata_nodes c ctx"
  by (cases c, simp_all add: metadata_nodes_simps)+

lemma nodes_added [simp]:
  "metadata_nodes c (ctx\<lparr>srv_metadata_nodes := ns\<rparr>) = (if c = DXIL_RESOURCE_CLASS_SRV then ns else metadata_nodes c ctx)"
  "metadata_nodes c (ctx\<lparr>uav_metadata_nodes := ns\<rparr>) = (if c = DXIL_RESOURCE_CLASS_UAV then ns else metadata_nodes c ctx)"
  "metadata_nodes c (ctx\<lparr>cbv_metadata_nodes := ns\<rparr>) = (if c = DXIL_RESOURCE_CLASS_CBV then ns else metadata_nodes c ctx)"
  "metadata_nodes c (ctx\<lparr>sampler_metadata_nodes := ns\<rparr>) = (if c = DXIL_RESOURCE_CLASS_SAMPLER then ns else metadata_nodes c ctx)"
  by (cases c, simp_all add: metadata_nodes_simps)+

lemma set_feats_frame [simp]:
  "ntd_mod (set_feats f b ctx) = ntd_mod ctx" "ntd_resources (set_feats f b ctx) = ntd_resources ctx"
  "metadata_nodes c (set_feats f b ctx) = metadata_nodes c ctx" "ntd_minor_validator (set_feats f b ctx) = ntd_minor_validator ctx"
  by (simp_all add: set_feats_def)

lemma add_resource_frame [simp]:
  "ntd_mod (add_resource t k layout ctx) = ntd_mod ctx"
  "metadata_nodes c (add_resource t k layout ctx) = metadata_nodes c ctx"
  "ntd_resources (add_resource t k layout ctx) = ntd_resources ctx @ [entry_of t k layout (6 \<le> ntd_minor_validator ctx)]"
  by (simp_all add: add_resource_def entry_of_def Let_def)

lemma entry_agrees:
  assumes "node_describes m n layout" and "layout_id layout = of_nat i"
    and "\<exists>slot. handles_of_type (of_nat (dxil_resource_type_value t)) = Inr (cls, slot)"
  shows "agree m cls i n (v0 (entry_of t k layout b))"
  using assms by (auto simp: agree_def matches_def entry_of_def)

lemma add_declares_one:
  assumes "md_grows (ntd_mod ctx) (ntd_mod ctx')" and "node_describes (ntd_mod ctx') n layout"
    and "ntd_resources ctx' = ntd_resources ctx @ [entry_of t k layout b]"
    and "metadata_nodes cls ctx' = metadata_nodes cls ctx @ [n]" and "\<And>c. c \<noteq> cls \<Longrightarrow> metadata_nodes c ctx' = metadata_nodes c ctx"
    and "layout_id layout = of_nat (length (metadata_nodes cls ctx))"
    and "\<exists>slot. handles_of_type (of_nat (dxil_resource_type_value t)) = Inr (cls, slot)"
  shows "resource_step cls ctx ctx'"
  using assms entry_agrees [OF assms(2,6,7)] unfolding resource_step_def declares_one_def by blast

lemma array_type_if_grow: "(if b then dxil_module_get_array_type t n m else (t, m)) = (x, m') \<Longrightarrow> md_grows m m'"
  by (auto split: if_splits dest: array_type_grow)

lemma emit_srv_step:
  assumes "emit_srv var count ctx = Inr (ok, ctx')"
  shows "resource_step DXIL_RESOURCE_CLASS_SRV ctx ctx'"
proof -
  let ?layout = "\<lparr>layout_id = of_nat (length (srv_metadata_nodes ctx)), layout_binding = res_var_binding var,
                   layout_size = count, layout_space = res_var_descriptor_set var\<rparr>"
  let ?raw = "res_var_mode var = nir_var_mem_ssbo"
  obtain c k t m1 t' m2 n m3 where 1: "dxil_module_get_res_type k c 4 False (ntd_mod ctx) = Inr (t, m1)"
    and 2: "(if glsl_type_is_array (res_var_type var) \<and> 0 < count then dxil_module_get_array_type t (unat count) m1 else (t, m1)) = (t', m2)"
    and 3: "emit_srv_metadata t' (res_var_name var) ?layout c k m2 = Inr (n, m3)"
    and 4: "ctx' = (let ctx = add_resource (if ?raw then DXIL_RES_SRV_RAW else DXIL_RES_SRV_TYPED) k ?layout
                 (ctx\<lparr>ntd_mod := m3, srv_metadata_nodes := srv_metadata_nodes ctx @ [n]\<rparr>)
           in if ?raw then ctx\<lparr>raw_and_structured_buffers := True\<rparr> else ctx)"
    using assms unfolding emit_srv_def Let_def by (auto elim!: bind_pairE case_pairE)
  note has = emit_srv_metadata_has [OF 3]
  have g: "md_grows (ntd_mod ctx) m3"
    by (rule md_grows_trans [OF res_type_grow [OF 1] md_grows_trans [OF array_type_if_grow [OF 2] has [THEN conjunct1]]])
  show ?thesis unfolding 4
    by (rule add_declares_one [of _ _ n ?layout "if ?raw then DXIL_RES_SRV_RAW else DXIL_RES_SRV_TYPED" k "6 \<le> ntd_minor_validator ctx"])
      (use g has in \<open>simp_all add: Let_def handles_of_type_def metadata_nodes_simps(1) [of ctx]\<close>)
qed


lemma emit_uav_step:
  assumes "emit_uav binding space_id count c nc k access name ctx = Inr (ok, ctx')"
  shows "resource_step DXIL_RESOURCE_CLASS_UAV ctx ctx'"
proof -
  let ?layout = "\<lparr>layout_id = of_nat (length (uav_metadata_nodes ctx)), layout_binding = binding, layout_size = count,
                   layout_space = space_id\<rparr>"
  let ?t = "if k = DXIL_RESOURCE_KIND_RAW_BUFFER then DXIL_RES_UAV_RAW else DXIL_RES_UAV_TYPED"
  obtain t m1 t' m2 n m3 where 1: "dxil_module_get_res_type k c nc True (ntd_mod ctx) = Inr (t, m1)"
    and 2: "dxil_module_get_array_type t (unat count) m1 = (t', m2)"
    and 3: "emit_uav_metadata t' name ?layout c k access m2 = Inr (n, m3)"
    and 4: "ctx' = (let ctx = ctx\<lparr>ntd_mod := m3, uav_metadata_nodes := uav_metadata_nodes ctx @ [n]\<rparr>;
               ctx = set_feats (\<lambda>f. f\<lparr>feat_use_64uavs := True\<rparr>)
                       (ntd_minor_validator ctx < 6 \<and> 8 < length (uav_metadata_nodes ctx)) ctx;
               ctx = add_resource ?t k ?layout ctx;
               ctx = (if k = DXIL_RESOURCE_KIND_RAW_BUFFER then ctx\<lparr>raw_and_structured_buffers := True\<rparr> else ctx)
           in set_feats (\<lambda>f. f\<lparr>feat_uavs_at_every_stage := True\<rparr>)
                (ntd_shader_kind ctx \<noteq> DXIL_PIXEL_SHADER \<and> ntd_shader_kind ctx \<noteq> DXIL_COMPUTE_SHADER) ctx)"
    using assms unfolding emit_uav_def Let_def by (auto elim!: bind_pairE case_pairE)
  note has = emit_uav_metadata_has [OF 3]
  have g: "md_grows (ntd_mod ctx) m3"
    by (rule md_grows_trans [OF res_type_grow [OF 1] md_grows_trans [OF array_type_grow [OF 2] has [THEN conjunct1]]])
  show ?thesis unfolding 4
    by (rule add_declares_one [of _ _ n ?layout ?t k "6 \<le> ntd_minor_validator ctx"])
      (use g has in \<open>simp_all add: Let_def handles_of_type_def metadata_nodes_simps(2) [of ctx]\<close>)
qed

lemma emit_cbv_step:
  assumes "emit_cbv binding space_id dwords count name ctx = Inr (ok, ctx')"
  shows "resource_step DXIL_RESOURCE_CLASS_CBV ctx ctx'"
proof -
  let ?layout = "\<lparr>layout_id = of_nat (length (cbv_metadata_nodes ctx)), layout_binding = binding, layout_size = count,
                   layout_space = space_id\<rparr>"
  obtain f m1 a m2 b m3 t m4 n m5 where 1: "dxil_module_get_float_type 32 (ntd_mod ctx) = Inr (f, m1)"
    and 2: "dxil_module_get_array_type f (unat dwords) m1 = (a, m2)" "dxil_module_get_struct_type (Some name) [a] m2 = Inr (b, m3)"
      "(if count \<noteq> 1 then dxil_module_get_array_type b (unat count) m3 else (b, m3)) = (t, m4)"
    and 3: "emit_cbv_metadata t name ?layout (4 * dwords) m4 = Inr (n, m5)"
    and 4: "ctx' = add_resource DXIL_RES_CBV DXIL_RESOURCE_KIND_CBUFFER ?layout
             (ctx\<lparr>ntd_mod := m5, cbv_metadata_nodes := cbv_metadata_nodes ctx @ [n]\<rparr>)"
    using assms unfolding emit_cbv_def Let_def by (auto elim!: bind_pairE case_pairE split: if_split_asm)
  note has = emit_cbv_metadata_has [OF 3]
  have g: "md_grows (ntd_mod ctx) m5"
    by (rule md_grows_trans [OF float_type_grow [OF 1] md_grows_trans [OF array_type_grow [OF 2(1)]
      md_grows_trans [OF struct_type_grow [OF 2(2)] md_grows_trans [OF array_type_if_grow [OF 2(3)] has [THEN conjunct1]]]]])
  show ?thesis unfolding 4
    by (rule add_declares_one [of _ _ n ?layout DXIL_RES_CBV DXIL_RESOURCE_KIND_CBUFFER "6 \<le> ntd_minor_validator ctx"])
      (use g has in \<open>simp_all add: handles_of_type_def metadata_nodes_simps(3) [of ctx]\<close>)
qed

lemma emit_sampler_step:
  assumes "emit_sampler var count ctx = Inr (ok, ctx')"
  shows "resource_step DXIL_RESOURCE_CLASS_SAMPLER ctx ctx'"
proof -
  let ?layout = "\<lparr>layout_id = of_nat (length (sampler_metadata_nodes ctx)), layout_binding = res_var_binding var,
                   layout_size = count, layout_space = res_var_descriptor_set var\<rparr>"
  obtain i m1 b m2 t m3 n m4 where 1: "dxil_module_get_int_type 32 (ntd_mod ctx) = Inr (i, m1)"
    and 2: "dxil_module_get_struct_type (Some ''struct.SamplerState'') [i] m1 = Inr (b, m2)"
      "(if glsl_type_is_array (res_var_type var) \<and> 0 < count then dxil_module_get_array_type b (unat count) m2 else (b, m2)) = (t, m3)"
    and 3: "emit_sampler_metadata t var ?layout m3 = Inr (n, m4)"
    and 4: "ctx' = add_resource DXIL_RES_SAMPLER DXIL_RESOURCE_KIND_SAMPLER ?layout
             (ctx\<lparr>ntd_mod := m4, sampler_metadata_nodes := sampler_metadata_nodes ctx @ [n]\<rparr>)"
    using assms unfolding emit_sampler_def Let_def by (auto elim!: bind_pairE case_pairE)
  note has = emit_sampler_metadata_has [OF 3]
  have g: "md_grows (ntd_mod ctx) m4"
    by (rule md_grows_trans [OF int_type_grow [OF 1] md_grows_trans [OF struct_type_grow [OF 2(1)]
      md_grows_trans [OF array_type_if_grow [OF 2(2)] has [THEN conjunct1]]]])
  show ?thesis unfolding 4
    by (rule add_declares_one [of _ _ n ?layout DXIL_RES_SAMPLER DXIL_RESOURCE_KIND_SAMPLER "6 \<le> ntd_minor_validator ctx"])
      (use g has in \<open>simp_all add: handles_of_type_def metadata_nodes_simps(4) [of ctx]\<close>)
qed

section \<open>The phases of the module\<close>

lemma keeps_refl [simp]: "keeps_resources ctx ctx"
  by (simp add: keeps_resources_def)

lemma step_keeps: "keeps_resources ctx ctx' \<Longrightarrow> resource_step cls ctx ctx'"
  by (simp add: resource_step_def)

lemma all_of_declares:
  assumes "all_of f xs ctx = Inr (True, ctx')"
    and "\<And>x ctx ctx'. f x ctx = Inr (True, ctx') \<Longrightarrow> declares_class cls ctx ctx'"
  shows "declares_class cls ctx ctx'"
  using assms(1)
proof (induction xs arbitrary: ctx)
  case (Cons x xs)
  then obtain ctx1 where "f x ctx = Inr (True, ctx1)" "all_of f xs ctx1 = Inr (True, ctx')"
    by (auto split: if_splits)
  then show ?case using assms(2) Cons.IH rtranclp_trans by metis
qed simp

lemma emit_ubo_var_declares:
  assumes "emit_ubo_var var ctx = Inr (ok, ctx')"
  shows "declares_class DXIL_RESOURCE_CLASS_CBV ctx ctx'"
proof -
  obtain d name where "emit_cbv (res_var_binding var) (res_var_descriptor_set var) d (array_count (res_var_type var)) name
      (if res_var_name var = [] then ctx\<lparr>unnamed_ubo_count := unnamed_ubo_count ctx + 1\<rparr> else ctx) = Inr (ok, ctx')"
    using assms unfolding emit_ubo_var_def Let_def by (auto split: if_split_asm)
  from emit_cbv_step [OF this]
  have "resource_step DXIL_RESOURCE_CLASS_CBV
    (if res_var_name var = [] then ctx\<lparr>unnamed_ubo_count := unnamed_ubo_count ctx + 1\<rparr> else ctx) ctx'" .
  moreover have "resource_step DXIL_RESOURCE_CLASS_CBV ctx
      (if res_var_name var = [] then ctx\<lparr>unnamed_ubo_count := unnamed_ubo_count ctx + 1\<rparr> else ctx)"
    by (rule step_keeps) (simp add: keeps_resources_def)
  ultimately show ?thesis by (meson r_into_rtranclp rtranclp.rtrancl_into_rtrancl)
qed


lemma emit_some_cbvs_declares:
  assumes "all_of (\<lambda>(needed, binding, count, name) ctx. if needed then emit_cbv binding 0 d count name ctx else Inr (True, ctx)) xs ctx =
    Inr (True, ctx')"
  shows "declares_class DXIL_RESOURCE_CLASS_CBV ctx ctx'"
  by (rule all_of_declares [OF assms]) (auto split: if_splits prod.split_asm intro: emit_cbv_step)

lemma emit_cbvs_declares:
  assumes "emit_cbvs info ctx = Inr (True, ctx')"
  shows "declares_class DXIL_RESOURCE_CLASS_CBV ctx ctx'"
proof (cases "ntd_environment ctx \<noteq> DXIL_ENVIRONMENT_GL")
  case True
  then have "all_of emit_ubo_var (resource_vars nir_var_mem_ubo (res_vars info)) ctx = Inr (True, ctx')"
    using assms by (simp add: emit_cbvs_def)
  then show ?thesis by (rule all_of_declares) (rule emit_ubo_var_declares)
next
  case gl: False
  show ?thesis
  proof (cases "info_num_ubos info = 0")
    case False
    show ?thesis
      using assms gl False unfolding emit_cbvs_def Let_def
      by (simp only: if_False if_True simp_thms) (erule emit_some_cbvs_declares)
  qed (use assms gl in \<open>simp add: emit_cbvs_def\<close>)
qed

lemma emit_uniform_declares:
  assumes "emit_uniform type_count is_kind emit var ctx = Inr (True, ctx')"
    and "\<And>var count ctx ok ctx'. emit var count ctx = Inr (ok, ctx') \<Longrightarrow> resource_step cls ctx ctx'"
  shows "declares_class cls ctx ctx'"
  using assms unfolding emit_uniform_def Let_def by (auto split: if_split_asm)

lemma emit_samplers_declares: "emit_samplers info ctx = Inr (True, ctx') \<Longrightarrow> declares_class DXIL_RESOURCE_CLASS_SAMPLER ctx ctx'"
  unfolding emit_samplers_def by (erule all_of_declares) (erule emit_uniform_declares, rule emit_sampler_step)

lemma emit_srvs_declares: "emit_srvs info ctx = Inr (True, ctx') \<Longrightarrow> declares_class DXIL_RESOURCE_CLASS_SRV ctx ctx'"
  unfolding emit_srvs_def by (erule all_of_declares) (erule emit_uniform_declares, rule emit_srv_step)

lemma emit_ssbo_srvs_declares:
  assumes "emit_ssbo_srvs info ctx = Inr (True, ctx')"
  shows "declares_class DXIL_RESOURCE_CLASS_SRV ctx ctx'"
proof (cases "ntd_environment ctx = DXIL_ENVIRONMENT_VULKAN")
  case True
  then show ?thesis using assms unfolding emit_ssbo_srvs_def
    by simp (erule all_of_declares, rule r_into_rtranclp, erule emit_srv_step)
qed (use assms in \<open>simp add: emit_ssbo_srvs_def\<close>)

lemma emit_raw_uav_step:
  "emit_raw_uav binding space_id count access name ctx = Inr (ok, ctx') \<Longrightarrow> declares_class DXIL_RESOURCE_CLASS_UAV ctx ctx'"
  unfolding emit_raw_uav_def by (rule r_into_rtranclp, erule emit_uav_step)

lemma emit_ssbos_declares:
  assumes "emit_ssbos info ctx = Inr (True, ctx')"
  shows "declares_class DXIL_RESOURCE_CLASS_UAV ctx ctx'"
proof (cases "is_kernel info")
  case True
  then show ?thesis using assms
    by (auto simp: emit_ssbos_def emit_globals_def Let_def split: if_split_asm intro: emit_uav_step)
next
  case kernel: False
  show ?thesis
  proof (cases "ntd_environment ctx = DXIL_ENVIRONMENT_VULKAN")
    case True
    then show ?thesis using assms kernel unfolding emit_ssbos_def
      by simp (erule all_of_declares, erule emit_raw_uav_step)
  next
    case False
    then obtain ok ctx1 where 1: "all_of (\<lambda>i. emit_raw_uav (of_nat i) 0 1 0 (snprintf 64 (''__ssbo'' @ print_d (of_nat i))))
          [0..<unat (info_num_ssbos info)] ctx = Inr (ok, ctx1)"
      and 2: "(if ok \<and> info_num_ssbos info \<noteq> 0 then emit_raw_uav 0 2 (info_num_ssbos info) 0 ''__ssbo_dynamic'' ctx1
            else Inr (ok, ctx1)) = Inr (True, ctx')"
      using assms kernel unfolding emit_ssbos_def by (auto elim!: bind_pairE)
    have ok: "ok" using 2 by (auto split: if_splits)
    have "declares_class DXIL_RESOURCE_CLASS_UAV ctx ctx1"
      using 1 ok by simp (erule all_of_declares, erule emit_raw_uav_step)
    moreover have "declares_class DXIL_RESOURCE_CLASS_UAV ctx1 ctx'" using 2 by (auto split: if_splits intro: emit_raw_uav_step)
    ultimately show ?thesis by (rule rtranclp_trans)
  qed
qed

lemma emit_uav_var_step: "emit_uav_var var count ctx = Inr (ok, ctx') \<Longrightarrow> declares_class DXIL_RESOURCE_CLASS_UAV ctx ctx'"
  unfolding emit_uav_var_def by (auto split: if_split_asm prod.split_asm intro: emit_uav_step)

lemma emit_images_declares: "emit_images info ctx = Inr (True, ctx') \<Longrightarrow> declares_class DXIL_RESOURCE_CLASS_UAV ctx ctx'"
  unfolding emit_images_def by (erule all_of_declares) (erule emit_uav_var_step)

text \<open>What the emission of global variables in between is relied on for.\<close>

definition keeps_table :: "bool ntd \<Rightarrow> bool" where
  "keeps_table f \<longleftrightarrow> (\<forall>ctx ok ctx'. f ctx = Inr (ok, ctx') \<longrightarrow> keeps_resources ctx ctx')"

lemma emit_module_resources_agree:
  assumes "emit_module_resources globals info ctx = Inr (True, ctx')" and "keeps_table globals"
    and "ntd_resources ctx = []" and "\<forall>cls. metadata_nodes cls ctx = []"
  shows "resources_agree ctx'"
proof -
  let ?info = "info\<lparr>res_vars := sort_uniforms_by_binding_and_remove_structs (res_vars info)\<rparr>"
  obtain c1 c2 c3 c4 c5 c6 where c: "emit_cbvs ?info ctx = Inr (True, c1)" "emit_samplers ?info c1 = Inr (True, c2)"
    "emit_srvs ?info c2 = Inr (True, c3)" "emit_ssbo_srvs ?info c3 = Inr (True, c4)" "globals c4 = Inr (True, c5)"
    "emit_ssbos ?info c5 = Inr (True, c6)" "emit_images ?info c6 = Inr (True, ctx')"
    using assms(1) unfolding emit_module_resources_def Let_def by (auto split: if_split_asm)
  have "class_table m cls [] []" for m cls by (simp add: class_table_Nil)
  then have "resources_agree ctx" unfolding resources_agree_nodes using assms(3,4) by simp
  then have "emitted_upto DXIL_RESOURCE_CLASS_CBV ctx" using assms(4) by (simp add: emitted_upto_def)
  from class_emitted [OF emit_cbvs_declares [OF c(1)] this] have "emitted_upto DXIL_RESOURCE_CLASS_SAMPLER c1"
    by (rule emitted_later) (simp add: class_rank_def)
  from class_emitted [OF emit_samplers_declares [OF c(2)] this] have "emitted_upto DXIL_RESOURCE_CLASS_SRV c2"
    by (rule emitted_later) (simp add: class_rank_def)
  from class_emitted [OF emit_srvs_declares [OF c(3)] this] have "emitted_upto DXIL_RESOURCE_CLASS_SRV c3" .
  from class_emitted [OF emit_ssbo_srvs_declares [OF c(4)] this] have "emitted_upto DXIL_RESOURCE_CLASS_UAV c4"
    by (rule emitted_later) (simp add: class_rank_def)
  moreover have "keeps_resources c4 c5" using assms(2) c(5) by (simp add: keeps_table_def)
  ultimately have "emitted_upto DXIL_RESOURCE_CLASS_UAV c5" using keeps_emitted by blast
  from class_emitted [OF emit_ssbos_declares [OF c(6)] this] have "emitted_upto DXIL_RESOURCE_CLASS_UAV c6" .
  from class_emitted [OF emit_images_declares [OF c(7)] this] show ?thesis by (simp add: emitted_upto_def)
qed

end
