(* ===== verification/Ntd_Handle_Calls.thy ===== *)
theory Ntd_Handle_Calls
  imports Ntd_Resource_Table
begin

text \<open>
  Which resource a handle is of: the search in the table finds a range that has the binding, the number that the
  call passes is the one that the metadata of that range has, and the handles that are made in advance are given
  these numbers too.
\<close>

section \<open>Functions and calls\<close>

lemma void_type_grow [grow]: "dxil_module_get_void_type m = (x, m') \<Longrightarrow> md_grows m m'"
  by (auto simp: dxil_module_get_void_type_def split: option.splits prod.split_asm dest!: grow)

lemma overload_type_grow [grow]: "dxil_get_overload_type ov m = Inr (x, m') \<Longrightarrow> md_grows m m'"
  by (cases ov) (auto simp: dxil_get_overload_type_def dest!: grow)

lemma handle_type_grow [grow]: "dxil_module_get_handle_type m = Inr (x, m') \<Longrightarrow> md_grows m m'"
  by (auto simp: dxil_module_get_handle_type_def Let_def split: if_splits prod.split_asm dest!: grow intro: md_grows_trans)

lemma cbuf_ret_type_grow [grow]: "dxil_module_get_cbuf_ret_type ov m = Inr (x, m') \<Longrightarrow> md_grows m m'"
  by (cases ov) (auto simp: dxil_module_get_cbuf_ret_type_def Let_def split: if_splits prod.split_asm dest!: grow intro: md_grows_trans)

lemma split_double_type_grow [grow]: "dxil_module_get_split_double_ret_type m = Inr (x, m') \<Longrightarrow> md_grows m m'"
  by (auto simp: dxil_module_get_split_double_ret_type_def Let_def split: if_splits prod.split_asm dest!: grow intro: md_grows_trans)

lemma resret_type_grow [grow]: "dxil_module_get_resret_type ov m = Inr (x, m') \<Longrightarrow> md_grows m m'"
  unfolding dxil_module_get_resret_type_def by (auto split: if_splits prod.split_asm dest!: grow intro: md_grows_trans)

lemma dimret_type_grow [grow]: "dxil_module_get_dimret_type m = Inr (x, m') \<Longrightarrow> md_grows m m'"
  by (auto simp: dxil_module_get_dimret_type_def Let_def split: if_splits prod.split_asm dest!: grow intro: md_grows_trans)

lemma samplepos_type_grow [grow]: "dxil_module_get_samplepos_type m = Inr (x, m') \<Longrightarrow> md_grows m m'"
  by (auto simp: dxil_module_get_samplepos_type_def Let_def split: if_splits prod.split_asm dest!: grow intro: md_grows_trans)

lemma res_bind_type_grow [grow]: "dxil_module_get_res_bind_type m = Inr (x, m') \<Longrightarrow> md_grows m m'"
  by (auto simp: dxil_module_get_res_bind_type_def Let_def split: if_splits prod.split_asm dest!: grow intro: md_grows_trans)

lemma res_props_type_grow [grow]: "dxil_module_get_res_props_type m = Inr (x, m') \<Longrightarrow> md_grows m m'"
  by (auto simp: dxil_module_get_res_props_type_def Let_def split: if_splits prod.split_asm dest!: grow intro: md_grows_trans)

lemma fouri32_type_grow [grow]: "dxil_module_get_fouri32_type m = Inr (x, m') \<Longrightarrow> md_grows m m'"
  by (auto simp: dxil_module_get_fouri32_type_def Let_def split: if_splits prod.split_asm dest!: grow intro: md_grows_trans)

lemma type_of_letter_grow [grow]: "type_of_letter c ov m = Inr (x, m') \<Longrightarrow> md_grows m m'"
  by (auto simp: type_of_letter_def Let_def split: if_splits prod.split_asm dest!: grow intro: md_grows_trans)

lemma get_type_from_string_grow [grow]:
  "get_type_from_string s ov i m = Inr (t, j, m') \<Longrightarrow> md_grows m m'"
proof (induction s ov i m arbitrary: t j m' rule: get_type_from_string.induct)
  case (1 s ov i m)
  show ?case
    using "1.prems" "1.IH" unfolding get_type_from_string.simps [of s ov i m]
    by (auto simp: Let_def split: if_splits elim!: bind_pairE case_pairE dest!: grow) (blast intro: md_grows_trans)
qed

lemma get_param_types_grow [grow]:
  "get_param_types s ov n i m = Inr (ts, m') \<Longrightarrow> md_grows m m'"
proof (induction s ov n i m arbitrary: ts m' rule: get_param_types.induct)
  case (1 s ov n i m)
  show ?case
    using "1.prems" "1.IH" unfolding get_param_types.simps [of s ov n i m]
    by (auto split: if_splits prod.split_asm dest!: grow intro: md_grows_trans)
qed


lemma md_grows_func [simp]:
  "md_grows m (m'\<lparr>func_list := fs\<rparr>) = md_grows m m'" "md_grows m (m'\<lparr>attr_set_list := as\<rparr>) = md_grows m m'"
  "md_grows m (m'\<lparr>function_tree := ft\<rparr>) = md_grows m m'" "md_grows m (m'\<lparr>func_def_list := ds\<rparr>) = md_grows m m'"
  by (simp_all add: md_grows_def)

lemma add_function_type_grow [grow]: "dxil_module_add_function_type t ts m = (x, m') \<Longrightarrow> md_grows m m'"
  unfolding dxil_module_add_function_type_def by (rule create_type_grow)

lemma find_attr_set_grow [grow]: "find_attr_set as m = (x, m') \<Longrightarrow> md_grows m m'"
  by (auto simp: find_attr_set_def split: option.splits)

lemma get_attr_set_grow [grow]: "get_attr_set a m = (x, m') \<Longrightarrow> md_grows m m'"
  unfolding get_attr_set_def by (rule find_attr_set_grow)

lemma add_function_grow [grow]: "add_function s t d a m = Inr (x, m') \<Longrightarrow> md_grows m m'"
  by (auto simp: add_function_def split: dxil_type.splits)

lemma dxil_add_function_decl_grow [grow]: "dxil_add_function_decl s t a m = Inr (x, m') \<Longrightarrow> md_grows m m'"
  by (auto simp: dxil_add_function_decl_def split: if_splits prod.split_asm dest!: grow intro: md_grows_trans)

lemma dxil_alloc_func_with_rettype_grow [grow]:
  assumes "dxil_alloc_func_with_rettype s ov t d a m = Inr (x, m')"
  shows "md_grows m m'"
proof -
  obtain ts m1 ft m2 m3 sfx where "get_param_types d ov 0 0 m = Inr (ts, m1)" "dxil_module_add_function_type t ts m1 = (ft, m2)"
    "dxil_add_function_decl sfx ft a m2 = Inr (x, m3)" "m' = dxil_add_function x s ov m3"
    using assms unfolding dxil_alloc_func_with_rettype_def Let_def by (auto elim!: bind_pairE case_pairE)
  then show ?thesis by (auto simp: dxil_add_function_def dest!: grow intro: md_grows_trans)
qed

lemma dxil_alloc_func_grow [grow]: "dxil_alloc_func s ov r d a m = Inr (x, m') \<Longrightarrow> md_grows m m'"
  by (auto simp: dxil_alloc_func_def split: if_splits prod.split_asm dest!: grow intro: md_grows_trans)

lemma dxil_get_function_grow [grow]: "dxil_get_function s ov m = Inr (x, m') \<Longrightarrow> md_grows m m'"
  by (auto simp: dxil_get_function_def allocate_function_from_predefined_def split: option.splits prod.split_asm dest!: grow)

lemma int32_const_has: "dxil_module_get_int32_const w m = Inr (c, m') \<Longrightarrow> md_grows m m' \<and> int_const m' c (scast w)"
  using get_int_const_has get_int32_type_grow md_grows_trans
  by (fastforce simp: dxil_module_get_int32_const_def split: prod.split_asm)

lemma int8_const_has: "dxil_module_get_int8_const w m = Inr (c, m') \<Longrightarrow> md_grows m m' \<and> int_const m' c (scast w)"
  using get_int_const_has get_int8_type_grow md_grows_trans
  by (fastforce simp: dxil_module_get_int8_const_def split: prod.split_asm)

lemma int1_const_has: "dxil_module_get_int1_const b m = Inr (c, m') \<Longrightarrow> md_grows m m' \<and> int_const m' c (of_bool b)"
  using get_int_const_has get_int1_type_grow md_grows_trans
  by (fastforce simp: dxil_module_get_int1_const_def split: prod.split_asm)

text \<open>A call stands in the module under the value it returns.\<close>

lemma dxil_emit_call_instr:
  assumes "dxil_emit_call func args m = Inr (v, m')"
  shows "md_grows m m' \<and> (\<exists>i. get_instr m' v = Inr i \<and> instr_data i = INSTR_CALL func args)"
proof -
  obtain t where c: "create_instr (INSTR_CALL func args) t True m = Inr (v, m')"
    using assms by (auto simp: dxil_emit_call_def create_call_instr_def)
  then show ?thesis
    by (auto simp: create_instr_def Let_def get_instr_def split: option.splits if_splits)
qed

section \<open>The call that creates a handle\<close>

text \<open>The value is a call of \<open>dx.op.createHandle\<close> for a range of a class, by its number.\<close>

definition creates_handle ::
  "dxil_module \<Rightarrow> val_ref \<Rightarrow> dxil_resource_class \<Rightarrow> 32 word \<Rightarrow> val_ref \<Rightarrow> bool \<Rightarrow> bool" where
  "creates_handle m v cls range_id index non_uniform \<longleftrightarrow>
     (\<exists>i func opcode class_value range_value uniform_value.
        get_instr m v = Inr i \<and> instr_data i = INSTR_CALL func [opcode, class_value, range_value, index, uniform_value] \<and>
        int_const m opcode (scast DXIL_INTR_CREATE_HANDLE) \<and> int_const m class_value (of_nat (dxil_resource_class_value cls)) \<and>
        int_const m range_value (scast range_id) \<and> int_const m uniform_value (of_bool non_uniform))"

lemma createhandle_pre_6_6:
  assumes "emit_createhandle_call_pre_6_6 cls range_id index non_uniform ctx = Inr (v, ctx')"
  shows "creates_handle (ntd_mod ctx') v cls range_id index non_uniform"
proof -
  obtain c0 m1 c1 m2 c2 m3 c3 m4 f m5 where
    1: "dxil_module_get_int32_const DXIL_INTR_CREATE_HANDLE (ntd_mod ctx) = Inr (c0, m1)"
    and 2: "dxil_module_get_int8_const (of_nat (dxil_resource_class_value cls)) m1 = Inr (c1, m2)"
    and 3: "dxil_module_get_int32_const range_id m2 = Inr (c2, m3)" and 4: "dxil_module_get_int1_const non_uniform m3 = Inr (c3, m4)"
    and 5: "dxil_get_function ''dx.op.createHandle'' DXIL_NONE m4 = Inr (f, m5)"
    and 6: "dxil_emit_call f [c0, c1, c2, index, c3] m5 = Inr (v, ntd_mod ctx')"
    using assms unfolding emit_createhandle_call_pre_6_6_def on_mod_def by (auto elim!: bind_pairE)
  note call = dxil_emit_call_instr [OF 6]
  have g4: "md_grows m4 (ntd_mod ctx')" using md_grows_trans [OF dxil_get_function_grow [OF 5]] call by blast
  have g3: "md_grows m3 (ntd_mod ctx')" using int1_const_has [OF 4] md_grows_trans [OF _ g4] by blast
  have g2: "md_grows m2 (ntd_mod ctx')" using int32_const_has [OF 3] md_grows_trans [OF _ g3] by blast
  have g1: "md_grows m1 (ntd_mod ctx')" using int8_const_has [OF 2] md_grows_trans [OF _ g2] by blast
  have cls: "scast (of_nat (dxil_resource_class_value cls) :: 8 word) = (of_nat (dxil_resource_class_value cls) :: 64 word)"
    by (cases cls) simp_all
  show ?thesis
    using call int_const_grows [OF int32_const_has [OF 1, THEN conjunct2] g1]
      int_const_grows [OF int8_const_has [OF 2, THEN conjunct2] g2, unfolded cls]
      int_const_grows [OF int32_const_has [OF 3, THEN conjunct2] g3] int_const_grows [OF int1_const_has [OF 4, THEN conjunct2] g4]
    unfolding creates_handle_def by blast
qed


section \<open>The range that is found\<close>

lemma class_table_at:
  "class_table m cls nodes rs \<Longrightarrow> length nodes = length rs"
  "class_table m cls nodes rs \<Longrightarrow> i < length nodes \<Longrightarrow> agree m cls i (nodes ! i) (v0 (rs ! i))"
  by (simp_all add: class_table_def)

lemma section_agrees:
  assumes "resources_agree ctx" and "resource_section cls ctx = (offset, count)"
  shows "offset + count \<le> length (ntd_resources ctx)" and "count = length (metadata_nodes cls ctx)"
    and "i < count \<Longrightarrow> agree (ntd_mod ctx) cls i (metadata_nodes cls ctx ! i) (v0 (ntd_resources ctx ! (offset + i)))"
proof -
  obtain cs ss rs us where t: "ntd_resources ctx = cs @ ss @ rs @ us"
    "class_table (ntd_mod ctx) DXIL_RESOURCE_CLASS_CBV (cbv_metadata_nodes ctx) cs"
    "class_table (ntd_mod ctx) DXIL_RESOURCE_CLASS_SAMPLER (sampler_metadata_nodes ctx) ss"
    "class_table (ntd_mod ctx) DXIL_RESOURCE_CLASS_SRV (srv_metadata_nodes ctx) rs"
    "class_table (ntd_mod ctx) DXIL_RESOURCE_CLASS_UAV (uav_metadata_nodes ctx) us"
    using assms(1) unfolding resources_agree_def by blast
  note len = t(2-5) [THEN class_table_at(1)]
  show "count = length (metadata_nodes cls ctx)"
    using assms(2) by (cases cls) (auto simp: resource_section_def Let_def metadata_nodes_simps)
  show "offset + count \<le> length (ntd_resources ctx)"
    using assms(2) t(1) len by (cases cls) (auto simp: resource_section_def Let_def)
  show "agree (ntd_mod ctx) cls i (metadata_nodes cls ctx ! i) (v0 (ntd_resources ctx ! (offset + i)))" if "i < count"
    using assms(2) that len t(2-5) [THEN class_table_at(2), of i] unfolding t(1)
    by (cases cls) (auto simp: resource_section_def Let_def metadata_nodes_simps nth_append)
qed

text \<open>The bindings of a layout.\<close>

definition layout_covers :: "resource_array_layout \<Rightarrow> 32 word \<Rightarrow> 32 word \<Rightarrow> bool" where
  "layout_covers layout space_id binding \<longleftrightarrow> layout_space layout = space_id \<and> layout_binding layout \<le> binding \<and>
     binding \<le> resource_upper_bound (layout_binding layout) (layout_size layout)"

lemma dynamic_finds:
  assumes ok: "resources_agree ctx" and em: "emit_createhandle_call_dynamic cls space_id binding index nu ctx = Inr (v, ctx')"
  shows "\<exists>i layout. i < length (metadata_nodes cls ctx) \<and> node_describes (ntd_mod ctx) (metadata_nodes cls ctx ! i) layout \<and>
    layout_id layout = of_nat i \<and> layout_covers layout space_id binding \<and>
    emit_createhandle_call cls (layout_binding layout) (resource_upper_bound (layout_binding layout) (layout_size layout))
      space_id (layout_id layout) index nu ctx = Inr (v, ctx')"
proof -
  obtain offset count where s: "resource_section cls ctx = (offset, count)" by (cases "resource_section cls ctx")
  note sec = section_agrees [OF ok s]
  let ?P = "\<lambda>i. in_range_of space_id binding (ntd_resources ctx ! i)"
  obtain k where k: "find ?P [offset..<offset + count] = Some k"
    and call: "emit_createhandle_call cls (lower_bound (v0 (ntd_resources ctx ! k))) (upper_bound (v0 (ntd_resources ctx ! k)))
      space_id (of_nat (k - offset)) index nu ctx = Inr (v, ctx')"
    using em sec(1) s by (auto simp: emit_createhandle_call_dynamic_def Let_def split: option.split_asm if_split_asm)
  have "?P k \<and> k \<in> set [offset..<offset + count]"
    using k unfolding find_Some_iff by (metis nth_mem)
  then have k2: "?P k" "offset \<le> k" "k - offset < count" by auto
  obtain layout where l: "layout_id layout = of_nat (k - offset)"
    "node_describes (ntd_mod ctx) (metadata_nodes cls ctx ! (k - offset)) layout" "matches layout (v0 (ntd_resources ctx ! k))"
    using sec(3) [OF k2(3)] k2(2) unfolding agree_def by auto
  have "layout_covers layout space_id binding"
    using k2(1) l(3) by (simp add: layout_covers_def in_range_of_def matches_def)
  then show ?thesis using k2(3) sec(2) l call by (intro exI [of _ "k - offset"] exI [of _ layout]) (simp add: matches_def)
qed

text \<open>A binding that no range of the class has is never looked up in vain.\<close>

lemma dynamic_undeclared:
  assumes ok: "resources_agree ctx" and none: "\<And>n layout. n \<in> set (metadata_nodes cls ctx) \<Longrightarrow>
      node_describes (ntd_mod ctx) n layout \<Longrightarrow> \<not> layout_covers layout space_id binding"
  shows "emit_createhandle_call_dynamic cls space_id binding index nu ctx = Inl Unreachable"
proof -
  obtain offset count where s: "resource_section cls ctx = (offset, count)" by (cases "resource_section cls ctx")
  note sec = section_agrees [OF ok s]
  have "\<not> in_range_of space_id binding (ntd_resources ctx ! k)" if k: "offset \<le> k" "k < offset + count" for k
  proof
    assume r: "in_range_of space_id binding (ntd_resources ctx ! k)"
    have i: "k - offset < count" using k by simp
    obtain layout where l: "node_describes (ntd_mod ctx) (metadata_nodes cls ctx ! (k - offset)) layout"
        "matches layout (v0 (ntd_resources ctx ! k))"
      using sec(3) [OF i] k(1) unfolding agree_def by auto
    have "layout_covers layout space_id binding" using r l(2) by (simp add: layout_covers_def in_range_of_def matches_def)
    then show False using none [OF _ l(1)] i sec(2) by simp
  qed
  then have "find (\<lambda>i. in_range_of space_id binding (ntd_resources ctx ! i)) [offset..<offset + count] = None"
    unfolding find_None_iff by auto
  then show ?thesis using s sec(1) by (simp add: emit_createhandle_call_dynamic_def)
qed

section \<open>The handles that are made in advance\<close>

text \<open>The entry \<open>i\<close> of a class, with the number \<open>i\<close>.\<close>

definition static_handle :: "dxil_resource_class \<Rightarrow> nat \<Rightarrow> dxil_resource_v0 \<Rightarrow> ntd_context \<Rightarrow> ntd_context result" where
  "static_handle cls i r ctx =
     bind_result (handles_of_type (resource_type r)) (\<lambda>(_, slot). emit_resource_handles cls slot (of_nat i) r ctx)"

definition class_entry :: "ntd_context \<Rightarrow> dxil_resource_class \<Rightarrow> nat \<Rightarrow> dxil_resource_v0" where
  "class_entry ctx cls i = v0 (ntd_resources ctx ! (fst (resource_section cls ctx) + i))"

definition static_handles_of :: "ntd_context \<Rightarrow> dxil_resource_class \<Rightarrow> (ntd_context \<Rightarrow> ntd_context result) list" where
  "static_handles_of ctx cls = map (\<lambda>i. static_handle cls i (class_entry ctx cls i)) [0..<length (metadata_nodes cls ctx)]"

lemma static_section:
  assumes "\<forall>r\<in>set rs. \<exists>slot. handles_of_type (resource_type r) = Inr (cls, slot)"
    and "if k = 0 then last_class \<noteq> Some cls else last_class = Some cls \<and> range_id + 1 = of_nat k"
  shows "\<exists>range_id'. emit_static_handles last_class range_id (rs @ more_rs) ctx =
    bind_result (seq (map (\<lambda>i. static_handle cls (k + i) (rs ! i)) [0..<length rs]) ctx)
      (emit_static_handles (if rs = [] then last_class else Some cls) range_id' more_rs)"
  using assms
proof (induction rs arbitrary: k last_class range_id ctx)
  case Nil
  then show ?case by auto
next
  case (Cons r rs)
  obtain slot where slot: "handles_of_type (resource_type r) = Inr (cls, slot)" using Cons.prems(1) by auto
  let ?id = "of_nat k :: 32 word"
  have id: "(if last_class \<noteq> Some cls then 0 else range_id + 1) = ?id" using Cons.prems(2) by (auto split: if_splits)
  have one: "static_handle cls k r ctx = emit_resource_handles cls slot ?id r ctx" by (simp add: static_handle_def slot)
  have shift: "map (\<lambda>i. static_handle cls (k + i) ((r # rs) ! i)) [0..<length (r # rs)] =
      static_handle cls k r # map (\<lambda>i. static_handle cls (Suc k + i) (rs ! i)) [0..<length rs]"
    by (simp add: upt_conv_Cons map_Suc_upt [symmetric] comp_def del: upt_Suc)
  have run: "emit_static_handles last_class range_id ((r # rs) @ more_rs) ctx =
      bind_result (static_handle cls k r ctx) (emit_static_handles (Some cls) ?id (rs @ more_rs))"
    by (simp add: slot id one Let_def)
  show ?case
  proof (cases "static_handle cls k r ctx")
    case (Inl e)
    then show ?thesis unfolding run shift by simp
  next
    case (Inr ctx1)
    obtain range_id' where "emit_static_handles (Some cls) ?id (rs @ more_rs) ctx1 =
      bind_result (seq (map (\<lambda>i. static_handle cls (Suc k + i) (rs ! i)) [0..<length rs]) ctx1)
        (emit_static_handles (Some cls) range_id' more_rs)"
      using Cons.IH [of "Suc k" "Some cls" ?id ctx1] Cons.prems(1) by (auto simp: add.commute split: if_splits)
    then show ?thesis unfolding run shift by (auto simp: Inr bind_result_assoc)
  qed
qed


lemma static_class:
  assumes "class_table m cls nodes es" and "last_class \<noteq> Some cls"
    and "\<And>l i. l \<in> {last_class, Some cls} \<Longrightarrow> emit_static_handles l i more_rs = next_step"
  shows "emit_static_handles last_class range_id (map v0 es @ more_rs) ctx =
    bind_result (seq (map (\<lambda>i. static_handle cls i (v0 (es ! i))) [0..<length es]) ctx) next_step"
proof -
  have h: "\<forall>r\<in>set (map v0 es). \<exists>slot. handles_of_type (resource_type r) = Inr (cls, slot)"
    using assms(1) by (auto simp: class_table_def agree_def in_set_conv_nth)
  have e: "map (\<lambda>i. static_handle cls (0 + i) (map v0 es ! i)) [0..<length (map v0 es)] =
      map (\<lambda>i. static_handle cls i (v0 (es ! i))) [0..<length es]"
    by (rule map_cong) simp_all
  obtain range_id' where r: "emit_static_handles last_class range_id (map v0 es @ more_rs) ctx =
      bind_result (seq (map (\<lambda>i. static_handle cls (0 + i) (map v0 es ! i)) [0..<length (map v0 es)]) ctx)
        (emit_static_handles (if map v0 es = [] then last_class else Some cls) range_id' more_rs)"
    using static_section [OF h, of 0 last_class range_id more_rs ctx] assms(2) by fastforce
  have "emit_static_handles (if map v0 es = [] then last_class else Some cls) range_id' more_rs = next_step"
    by (rule assms(3)) simp
  then show ?thesis using r unfolding e by simp
qed

lemma static_handles_numbered:
  assumes "resources_agree ctx"
  shows "emit_static_handles None 0 (map v0 (ntd_resources ctx)) ctx =
    seq (concat (map (static_handles_of ctx) [DXIL_RESOURCE_CLASS_CBV, DXIL_RESOURCE_CLASS_SAMPLER,
      DXIL_RESOURCE_CLASS_SRV, DXIL_RESOURCE_CLASS_UAV])) ctx"
proof -
  obtain cs ss rs us where t: "ntd_resources ctx = cs @ ss @ rs @ us"
    "class_table (ntd_mod ctx) DXIL_RESOURCE_CLASS_CBV (cbv_metadata_nodes ctx) cs"
    "class_table (ntd_mod ctx) DXIL_RESOURCE_CLASS_SAMPLER (sampler_metadata_nodes ctx) ss"
    "class_table (ntd_mod ctx) DXIL_RESOURCE_CLASS_SRV (srv_metadata_nodes ctx) rs"
    "class_table (ntd_mod ctx) DXIL_RESOURCE_CLASS_UAV (uav_metadata_nodes ctx) us"
    using assms unfolding resources_agree_def by blast
  note len = t(2-5) [THEN class_table_at(1)]
  let ?steps = "\<lambda>cls es. map (\<lambda>i. static_handle cls i (v0 (es ! i))) [0..<length es]"
  have steps: "static_handles_of ctx DXIL_RESOURCE_CLASS_CBV = ?steps DXIL_RESOURCE_CLASS_CBV cs"
    "static_handles_of ctx DXIL_RESOURCE_CLASS_SAMPLER = ?steps DXIL_RESOURCE_CLASS_SAMPLER ss"
    "static_handles_of ctx DXIL_RESOURCE_CLASS_SRV = ?steps DXIL_RESOURCE_CLASS_SRV rs"
    "static_handles_of ctx DXIL_RESOURCE_CLASS_UAV = ?steps DXIL_RESOURCE_CLASS_UAV us"
    using len by (simp_all add: static_handles_of_def class_entry_def resource_section_def metadata_nodes_simps t(1) nth_append)
  have bind: "bind_result r Inr = r" for r :: "ntd_context result" by (cases r) simp_all
  have 4: "emit_static_handles l i (map v0 us) = seq (?steps DXIL_RESOURCE_CLASS_UAV us)"
    if "l \<noteq> Some DXIL_RESOURCE_CLASS_UAV" for l i
  proof
    fix c
    have "emit_static_handles l i [] = Inr" for l i by (rule ext) simp
    from static_class [OF t(5) that this, of i c]
    show "emit_static_handles l i (map v0 us) c = seq (?steps DXIL_RESOURCE_CLASS_UAV us) c" by (simp add: bind)
  qed
  have 3: "emit_static_handles l i (map v0 rs @ map v0 us) = seq (?steps DXIL_RESOURCE_CLASS_SRV rs @ ?steps DXIL_RESOURCE_CLASS_UAV us)"
    if "l \<notin> {Some DXIL_RESOURCE_CLASS_SRV, Some DXIL_RESOURCE_CLASS_UAV}" for l i
    unfolding fun_eq_iff seq_append by (intro allI static_class [OF t(4)] 4) (use that in auto)
  have 2: "emit_static_handles l i (map v0 ss @ map v0 rs @ map v0 us) =
      seq (?steps DXIL_RESOURCE_CLASS_SAMPLER ss @ ?steps DXIL_RESOURCE_CLASS_SRV rs @ ?steps DXIL_RESOURCE_CLASS_UAV us)"
    if "l \<notin> {Some DXIL_RESOURCE_CLASS_SAMPLER, Some DXIL_RESOURCE_CLASS_SRV, Some DXIL_RESOURCE_CLASS_UAV}" for l i
    unfolding fun_eq_iff seq_append [of "?steps DXIL_RESOURCE_CLASS_SAMPLER ss"]
    by (intro allI static_class [OF t(3)] 3) (use that in auto)
  have "emit_static_handles None 0 (map v0 cs @ map v0 ss @ map v0 rs @ map v0 us) ctx =
      bind_result (seq (?steps DXIL_RESOURCE_CLASS_CBV cs) ctx)
        (seq (?steps DXIL_RESOURCE_CLASS_SAMPLER ss @ ?steps DXIL_RESOURCE_CLASS_SRV rs @ ?steps DXIL_RESOURCE_CLASS_UAV us))"
    by (intro static_class [OF t(2)] 2) auto
  then show ?thesis by (simp add: t(1) steps seq_append)
qed

section \<open>Bounds\<close>

text \<open>The last binding of a range.\<close>

lemma upper_bound_exact:
  fixes lower count binding :: "32 word"
  assumes "count \<noteq> 0" and "unat lower + unat count \<noteq> 2 ^ 32 - 1"
  shows "lower \<le> binding \<and> binding \<le> resource_upper_bound lower count \<longleftrightarrow>
    unat lower \<le> unat binding \<and> unat binding < unat lower + unat count"
proof -
  have l: "unat lower < 2 ^ 32" "unat count < 2 ^ 32" "unat binding < 2 ^ 32"
    using unsigned_less [of lower] unsigned_less [of count] unsigned_less [of binding] by simp_all
  have s: "unat ((ucast count :: 64 word) + ucast lower) = unat count + unat lower"
    using l by (simp add: unat_word_ariths unsigned_ucast_eq take_bit_nat_eq_self)
  have n: "unat count \<noteq> 0" using assms(1) by (simp add: unat_eq_0)
  show ?thesis
  proof (cases "unat lower + unat count < 2 ^ 32 - 1")
    case True
    have "\<not> (0xFFFFFFFF :: 64 word) \<le> ucast count + ucast lower" using True s by (simp add: word_le_nat_alt)
    then have u: "resource_upper_bound lower count = lower + count - 1" using assms(1) by (simp add: resource_upper_bound_def)
    have "unat (lower + count - 1) = unat lower + unat count - 1"
    proof -
      have a: "unat (lower + count) = unat lower + unat count"
        by (rule unat_add_lem [THEN iffD1]) (use True in simp)
      then have "1 \<le> lower + count" using n by (simp add: word_le_nat_alt)
      then show ?thesis using a by (simp add: unat_sub)
    qed
    then show ?thesis unfolding u word_le_nat_alt using n by auto
  next
    case False
    then have "resource_upper_bound lower count = 0xFFFFFFFF"
      using s by (simp add: resource_upper_bound_def word_le_nat_alt)
    moreover have "binding \<le> 0xFFFFFFFF" using l(3) by (simp add: word_le_nat_alt)
    ultimately show ?thesis using False assms(2) l(3) by (simp add: word_le_nat_alt)
  qed
qed

lemma count_uavs_saturates:
  "unat (count_uavs n count) = (if count = 0 then 2 ^ 32 - 1 else min (2 ^ 32 - 1) (unat n + unat count))"
proof -
  have l: "unat n < 2 ^ 32" "unat count < 2 ^ 32" using unsigned_less [of n] unsigned_less [of count] by simp_all
  show ?thesis
  proof (cases "unat n + unat count < 2 ^ 32")
    case True
    then have "unat (n + count) = unat n + unat count" by (intro unat_add_lem [THEN iffD1]) simp
    then show ?thesis using True by (auto simp: count_uavs_def word_less_nat_alt)
  next
    case False
    then have "unat (n + count) = unat n + unat count - 2 ^ 32" using l by (simp add: unat_word_ariths mod_if)
    then show ?thesis using False l by (auto simp: count_uavs_def word_less_nat_alt)
  qed
qed

end
