(* ===== verification/Ntd_Resource_Example.thy ===== *)
theory Ntd_Resource_Example
  imports Ntd_Handle_Calls Ntd_Block_Example
begin

unbundle bit_operations_syntax

text \<open>
  The properties of resources and handles, each with an example: a shader of Vulkan with a constant buffer, a
  sampler, a texture, and two arrays of storage buffers, of which one is only read.
\<close>

lemma case_InrE:
  assumes "case r of Inl e \<Rightarrow> False | Inr x \<Rightarrow> P x"
  obtains x where "r = Inr x" "P x"
  using assms by (cases r) auto

section \<open>A shader\<close>

definition example_var :: "glsl_type \<Rightarrow> string \<Rightarrow> 32 word \<Rightarrow> 32 word \<Rightarrow> 32 word \<Rightarrow> nir_resource_var" where
  "example_var type name mode binding access =
     \<lparr>res_var_type = type, res_var_name = name, res_var_mode = mode, res_var_binding = binding,
      res_var_descriptor_set = 0, res_var_driver_location = 0, res_var_access = access, res_var_format_components = 1,
      res_var_sampler_shadow = False, res_var_explicit_size = 20\<rparr>"

definition example_block_type :: glsl_type where
  "example_block_type = Glsl_interface [glsl_vector GLSL_TYPE_UINT 1]"

definition example_info :: resource_info where
  "example_info =
     \<lparr>res_vars =
        [example_var (Glsl_array 3 example_block_type) ''written'' nir_var_mem_ssbo 4 0,
         example_var (Glsl_basic GLSL_TYPE_TEXTURE 1 1 GLSL_TYPE_FLOAT GLSL_SAMPLER_DIM_2D False) ''image'' nir_var_uniform 2 0,
         example_var (Glsl_basic GLSL_TYPE_SAMPLER 1 1 GLSL_TYPE_VOID GLSL_SAMPLER_DIM_2D False) ''nearest'' nir_var_uniform 1 0,
         example_var example_block_type ''read'' nir_var_mem_ssbo 8 ACCESS_NON_WRITEABLE,
         example_var example_block_type ''matrices'' nir_var_mem_ubo 0 0],
      is_kernel = False, info_num_ubos = 1, info_num_ssbos = 2, first_ubo_is_default_ubo = False, num_uniforms = 0,
      last_ubo_is_not_arrayed = False, num_kernel_globals = 0\<rparr>"

definition no_globals :: "bool ntd" where
  "no_globals ctx = Inr (True, ctx)"

lemma no_globals_keep: "keeps_table no_globals"
  by (simp add: keeps_table_def no_globals_def)

lemma example_empty: "ntd_resources (example_ctx []) = []" "\<forall>cls. metadata_nodes cls (example_ctx []) = []"
  by (simp_all add: example_ctx_def metadata_nodes_def split: dxil_resource_class.split)

text \<open>A handle for binding 5, the second one of the array, after the resources.\<close>

definition example_handle :: "(val_ref \<times> val_ref \<times> ntd_context \<times> ntd_context) result" where
  "example_handle =
     bind_result (emit_module_resources no_globals example_info (example_ctx [])) (\<lambda>(ok, ctx).
     bind_result (on_mod (dxil_module_get_int32_const 1) ctx) (\<lambda>(index, ctx1).
     bind_result (emit_createhandle_call_dynamic DXIL_RESOURCE_CLASS_UAV 0 5 index False ctx1) (\<lambda>(v, ctx2).
       if ok then Inr (index, v, ctx1, ctx2) else Inl Undefined)))"

lemma example_handle_returns: "\<exists>index v ctx1 ctx2. example_handle = Inr (index, v, ctx1, ctx2) \<and>
    length (ntd_resources ctx1) = 5 \<and> length (uav_metadata_nodes ctx1) = 1 \<and> ntd_minor_version ctx1 < 6"
proof -
  have "case example_handle of Inr (index, v, ctx1, ctx2) \<Rightarrow> length (ntd_resources ctx1) = 5 \<and>
      length (uav_metadata_nodes ctx1) = 1 \<and> ntd_minor_version ctx1 < 6 | _ \<Rightarrow> False"
    by code_simp
  then show ?thesis by (auto split: sum.splits)
qed


section \<open>The table and the metadata\<close>

text \<open>C6: whatever resources a shader has, when \<open>emit_module\<close> has emitted them the table of resources and the
  metadata agree: the entries of each class stand together, in the order of the classes, as many as the class has
  nodes, and the entry and the node that are the number \<open>i\<close> of a class have the number, the space, the first
  binding and the size of the same range.\<close>

theorem resources_and_metadata_agree:
  assumes "emit_module_resources globals info ctx = Inr (True, ctx')" and "keeps_table globals"
    and "ntd_resources ctx = []" and "\<forall>cls. metadata_nodes cls ctx = []"
  shows "resources_agree ctx'"
  by (rule emit_module_resources_agree [OF assms])

lemma resources_and_metadata_agree_witness:
  "\<exists>ctx'. emit_module_resources no_globals example_info (example_ctx []) = Inr (True, ctx') \<and>
    length (ntd_resources ctx') = 5 \<and> resources_agree ctx'"
proof -
  have "case emit_module_resources no_globals example_info (example_ctx []) of
      Inr (ok, ctx') \<Rightarrow> ok \<and> length (ntd_resources ctx') = 5 | _ \<Rightarrow> False"
    by code_simp
  then obtain ctx' where em: "emit_module_resources no_globals example_info (example_ctx []) = Inr (True, ctx')"
    "length (ntd_resources ctx') = 5"
    by (auto split: sum.splits)
  from resources_and_metadata_agree [OF em(1) no_globals_keep example_empty] em show ?thesis by blast
qed

section \<open>Handles\<close>



text \<open>C10: the handles that are made in advance are given the numbers that the metadata has: going through the table
  once and counting while the class stays the same gives the entry \<open>i\<close> of every class the number \<open>i\<close>.\<close>

theorem static_handles_numbers:
  assumes "resources_agree ctx" and "ntd_environment ctx \<noteq> DXIL_ENVIRONMENT_VULKAN"
  shows "emit_static_indexing_handles ctx =
    seq (concat (map (static_handles_of ctx) [DXIL_RESOURCE_CLASS_CBV, DXIL_RESOURCE_CLASS_SAMPLER,
      DXIL_RESOURCE_CLASS_SRV, DXIL_RESOURCE_CLASS_UAV])) ctx"
  using static_handles_numbered [OF assms(1)] assms(2) by (simp add: emit_static_indexing_handles_def)

definition example_gl :: ntd_context where
  "example_gl = (example_ctx [])\<lparr>ntd_environment := DXIL_ENVIRONMENT_GL, cbv_handles := replicate 8 None,
     sampler_handles := replicate 8 None, srv_handles := replicate 8 None, ssbo_handles := replicate 8 None\<rparr>"

definition example_gl_info :: resource_info where
  "example_gl_info = example_info\<lparr>info_num_ubos := 0\<rparr>"

lemma example_gl_empty: "ntd_resources example_gl = []" "\<forall>cls. metadata_nodes cls example_gl = []"
  by (simp_all add: example_gl_def example_ctx_def metadata_nodes_def split: dxil_resource_class.split)

text \<open>Two storage buffers: the second one, binding 1, has the number 1 of its class.\<close>

lemma static_handles_numbers_witness:
  "\<exists>ctx ctx' v. emit_module_resources no_globals example_gl_info example_gl = Inr (True, ctx) \<and>
    emit_static_indexing_handles ctx = Inr ctx' \<and> ssbo_handles ctx' ! 1 = Some v \<and>
    seq (concat (map (static_handles_of ctx) [DXIL_RESOURCE_CLASS_CBV, DXIL_RESOURCE_CLASS_SAMPLER,
      DXIL_RESOURCE_CLASS_SRV, DXIL_RESOURCE_CLASS_UAV])) ctx = Inr ctx'"
proof -
  have run: "case emit_module_resources no_globals example_gl_info example_gl of
      Inl _ \<Rightarrow> False
    | Inr p \<Rightarrow> fst p \<and> ntd_environment (snd p) = DXIL_ENVIRONMENT_GL \<and>
        (case emit_static_indexing_handles (snd p) of Inl _ \<Rightarrow> False | Inr ctx' \<Rightarrow> ssbo_handles ctx' ! 1 \<noteq> None)"
    by code_simp
  obtain p where em': "emit_module_resources no_globals example_gl_info example_gl = Inr p" and p: "fst p"
    and env: "ntd_environment (snd p) = DXIL_ENVIRONMENT_GL"
    and run2: "case emit_static_indexing_handles (snd p) of Inl _ \<Rightarrow> False | Inr ctx' \<Rightarrow> ssbo_handles ctx' ! 1 \<noteq> None"
    by (rule case_InrE [OF run]) blast
  define ctx where "ctx = snd p"
  have em: "emit_module_resources no_globals example_gl_info example_gl = Inr (True, ctx)"
    using em' p by (simp add: ctx_def prod_eq_iff)
  obtain ctx' where st: "emit_static_indexing_handles ctx = Inr ctx'" and "ssbo_handles ctx' ! 1 \<noteq> None"
    unfolding ctx_def by (rule case_InrE [OF run2])
  then obtain v where v: "ssbo_handles ctx' ! 1 = Some v" by blast
  have ok: "resources_agree ctx" by (rule emit_module_resources_agree [OF em no_globals_keep example_gl_empty])
  have "ntd_environment ctx \<noteq> DXIL_ENVIRONMENT_VULKAN" using env by (simp add: ctx_def)
  from static_handles_numbers [OF ok this] st have "seq (concat (map (static_handles_of ctx) [DXIL_RESOURCE_CLASS_CBV,
      DXIL_RESOURCE_CLASS_SAMPLER, DXIL_RESOURCE_CLASS_SRV, DXIL_RESOURCE_CLASS_UAV])) ctx = Inr ctx'"
    by simp
  with em st v show ?thesis by (intro exI conjI)
qed

section \<open>Ranges and counts\<close>

text \<open>C23: the range of an entry of the table has exactly the bindings that the layout has, without an overflow: from
  the first one on, as many as the size says, in its space, unless the size is zero, for an array of unknown
  length, or the range ends just before \<open>UINT_MAX\<close>.\<close>

theorem resource_range_exact:
  assumes "layout_size layout \<noteq> 0" and "unat (layout_binding layout) + unat (layout_size layout) \<noteq> 2 ^ 32 - 1"
  shows "in_range_of space_id binding (List.last (ntd_resources (add_resource type kind layout ctx))) \<longleftrightarrow>
    space_id = layout_space layout \<and> unat (layout_binding layout) \<le> unat binding \<and>
    unat binding < unat (layout_binding layout) + unat (layout_size layout)"
  using upper_bound_exact [OF assms, of binding] by (auto simp: in_range_of_def entry_of_def)

lemma resource_range_exact_witness:
  "in_range_of 0 6 (List.last (ntd_resources (add_resource DXIL_RES_UAV_RAW DXIL_RESOURCE_KIND_RAW_BUFFER
      \<lparr>layout_id = 0, layout_binding = 4, layout_size = 3, layout_space = 0\<rparr> (example_ctx [])))) \<and>
   \<not> in_range_of 0 7 (List.last (ntd_resources (add_resource DXIL_RES_UAV_RAW DXIL_RESOURCE_KIND_RAW_BUFFER
      \<lparr>layout_id = 0, layout_binding = 4, layout_size = 3, layout_space = 0\<rparr> (example_ctx []))))"
  using resource_range_exact [of "\<lparr>layout_id = 0, layout_binding = 4, layout_size = 3, layout_space = 0\<rparr>" 0 6]
    resource_range_exact [of "\<lparr>layout_id = 0, layout_binding = 4, layout_size = 3, layout_space = 0\<rparr>" 0 7]
  by simp

text \<open>The last range of them all is one binding longer in the table than it is.\<close>

lemma resource_range_too_long:
  "in_range_of 0 0xFFFFFFFF (List.last (ntd_resources (add_resource type kind
     \<lparr>layout_id = 0, layout_binding = 0xFFFFFFFE, layout_size = 1, layout_space = 0\<rparr> ctx)))"
  by (simp add: in_range_of_def entry_of_def resource_upper_bound_def)

text \<open>The sizes that count as unordered access views.\<close>

definition uav_sizes :: "(dxil_resource_type \<times> dxil_resource_kind \<times> resource_array_layout) list \<Rightarrow> nat list" where
  "uav_sizes rs = map (\<lambda>(t, k, layout). if layout_size layout = 0 then 2 ^ 32 - 1 else unat (layout_size layout))
     (filter (is_uav_resource \<circ> fst) rs)"

text \<open>C24: the number of unordered access views, on which the feature of more than eight of them rests, is the sum of
  the sizes of their ranges and saturates at \<open>UINT_MAX\<close>, which a range of unknown length counts for; entries of
  other classes do not count.\<close>

theorem num_uavs_saturates:
  "unat (num_uavs (fold (\<lambda>(t, k, layout). add_resource t k layout) rs ctx)) =
     min (2 ^ 32 - 1) (unat (num_uavs ctx) + sum_list (uav_sizes rs))"
proof (induction rs arbitrary: ctx)
  case Nil
  have "unat (num_uavs ctx) < 2 ^ 32" using unsigned_less [of "num_uavs ctx"] by simp
  then show ?case by (simp add: uav_sizes_def)
next
  case (Cons r rs)
  obtain t k layout where r: "r = (t, k, layout)" by (cases r)
  have n: "unat (num_uavs (add_resource t k layout ctx)) =
      (if is_uav_resource t then (if layout_size layout = 0 then 2 ^ 32 - 1
         else min (2 ^ 32 - 1) (unat (num_uavs ctx) + unat (layout_size layout))) else unat (num_uavs ctx))"
    by (simp add: add_resource_def Let_def set_feats_def count_uavs_saturates)
  have "unat (num_uavs ctx) < 2 ^ 32" using unsigned_less [of "num_uavs ctx"] by simp
  then show ?case unfolding r using Cons.IH [of "add_resource t k layout ctx", unfolded n]
    by (auto simp: uav_sizes_def split: if_splits)
qed

end
