(* ===== verification/Mem_Access.thy ===== *)
theory Mem_Access
  imports Prelude
begin

text \<open>
  The sizes of memory accesses (\<open>nir_to_dxil.c\<close>, \<open>lower_mem_access_bit_sizes_cb\<close>): which vector a load or a
  store of a buffer is split into, given what is known of its alignment. The pass that asks,
  \<open>nir_lower_mem_access_bit_sizes.c\<close>, asserts what it relies on; the answers keep to it.
\<close>

section \<open>The callback\<close>

text \<open>\<open>1 << (ffs(n) - 1)\<close>, the lowest bit of a number that is not zero.\<close>

fun lowest_bit :: "nat \<Rightarrow> nat" where
  "lowest_bit n = (if n = 0 then 0 else if odd n then 1 else 2 * lowest_bit (n div 2))"

declare lowest_bit.simps [simp del]

definition is_power_of_two :: "nat \<Rightarrow> bool" where
  "is_power_of_two n \<longleftrightarrow> n \<noteq> 0 \<and> lowest_bit n = n"

definition nir_combined_align :: "nat \<Rightarrow> nat \<Rightarrow> nat result" where
  "nir_combined_align align_mul align_offset =
     (if \<not> is_power_of_two align_mul \<or> \<not> align_offset < align_mul then Inl Assertion
      else Inr (if align_offset \<noteq> 0 then lowest_bit align_offset else align_mul))"

datatype mem_intrinsic = load_ubo | load_ssbo | store_ssbo | other_mem_intrinsic

text \<open>\<open>nir_mem_access_size_align\<close>; the method of shifting is the same for all.\<close>

record mem_access =
  access_align :: nat
  access_bit_size :: nat
  access_components :: nat

definition div_round_up_nat :: "nat \<Rightarrow> nat \<Rightarrow> nat" where
  "div_round_up_nat a b = (a + b - 1) div b"

text \<open>The two loops.\<close>

function shrink_bit_size :: "nat \<Rightarrow> nat \<Rightarrow> nat \<Rightarrow> nat" where
  "shrink_bit_size target min_bit_size bit_size =
     (if target < bit_size div 8 \<and> min_bit_size < bit_size then shrink_bit_size target min_bit_size (bit_size div 2) else bit_size)"
  by pat_completeness auto
termination by (relation "measure (\<lambda>(_, _, n). n)") auto

function widen_bit_size :: "nat \<Rightarrow> nat \<Rightarrow> nat \<Rightarrow> nat" where
  "widen_bit_size target max_bit_size bit_size =
     (if bit_size div 8 * 4 < target \<and> bit_size < max_bit_size \<and> 0 < bit_size
      then widen_bit_size target max_bit_size (bit_size * 2) else bit_size)"
  by pat_completeness auto
termination by (relation "measure (\<lambda>(_, m, n). m - n)") auto

declare shrink_bit_size.simps [simp del] widen_bit_size.simps [simp del]

definition lower_mem_access_bit_sizes_cb ::
  "bool \<Rightarrow> mem_intrinsic \<Rightarrow> nat \<Rightarrow> nat \<Rightarrow> nat \<Rightarrow> nat \<Rightarrow> mem_access result" where
  "lower_mem_access_bit_sizes_cb lower_int16 intrin bytes bit_size_in align_mul align_offset =
     (let max_bit_size = 32;
          min_bit_size = (if lower_int16 then 32 else 16);
          closest_bit_size = max min_bit_size (min max_bit_size bit_size_in)
      in if intrin = load_ubo then
           Inr \<lparr>access_align = closest_bit_size div 8, access_bit_size = closest_bit_size,
                access_components = div_round_up_nat (min bytes 16 * 8) closest_bit_size\<rparr>
         else if intrin \<noteq> load_ssbo \<and> intrin \<noteq> store_ssbo then Inl Assertion
         else bind_result (nir_combined_align align_mul align_offset) (\<lambda>align.
           if align < min_bit_size div 8 then
             let ideal = (if intrin = load_ssbo then div_round_up_nat (bytes * 8) min_bit_size else 32 div min_bit_size)
             in Inr \<lparr>access_align = min_bit_size div 8, access_bit_size = min_bit_size, access_components = min 4 ideal\<rparr>
           else
             let target = min bytes align;
                 bit_size = widen_bit_size target max_bit_size (shrink_bit_size target min_bit_size closest_bit_size);
                 n = (if intrin = load_ssbo then div_round_up_nat (bytes * 8) bit_size else max 1 (bytes * 8 div bit_size))
             in Inr \<lparr>access_align = bit_size div 8, access_bit_size = bit_size, access_components = min 4 n\<rparr>))"

section \<open>What the pass relies on\<close>

text \<open>
  The assertions of \<open>lower_mem_load\<close> and \<open>lower_mem_store\<close>, with the two subtractions there that must not wrap
  around, and that every step takes at least one byte.
\<close>

definition access_bytes :: "mem_access \<Rightarrow> nat" where
  "access_bytes r = access_components r * (access_bit_size r div 8)"

definition load_ok :: "nat \<Rightarrow> nat \<Rightarrow> nat \<Rightarrow> mem_access \<Rightarrow> bool" where
  "load_ok align align_mul align_offset r \<longleftrightarrow>
     (if align_mul < access_align r then access_align r * 8 \<le> access_bit_size r \<and> access_align r - align < access_bytes r
      else align_offset mod access_align r < access_bytes r)"

definition store_ok :: "nat \<Rightarrow> nat \<Rightarrow> mem_access \<Rightarrow> bool" where
  "store_ok align max_chunk_bytes r \<longleftrightarrow>
     (if align < access_align r \<or> max_chunk_bytes < access_bytes r then access_bytes r \<le> 4 else 0 < access_bytes r)"

section \<open>Alignments\<close>

lemma lowest_bit_bounds: "n \<noteq> 0 \<Longrightarrow> 0 < lowest_bit n \<and> lowest_bit n \<le> n"
proof (induction n rule: lowest_bit.induct)
  case (1 n)
  show ?case
  proof (cases "odd n")
    case False
    have "n div 2 \<noteq> 0" using False 1(2) by auto
    then have "0 < lowest_bit (n div 2)" "lowest_bit (n div 2) \<le> n div 2" using 1(1) [OF 1(2) False] by auto
    then show ?thesis using False 1(2) by (subst (1 2) lowest_bit.simps) auto
  qed (use 1(2) in \<open>simp add: lowest_bit.simps [of n]\<close>)
qed

lemma bit_sizes:
  assumes "m \<in> {16, 32}" and "b \<in> {m, 32}" and "0 < target"
  shows "let r = widen_bit_size target 32 (shrink_bit_size target m b) in r \<in> {m, 32} \<and> (r = m \<or> r div 8 \<le> target)"
proof -
  have s: "shrink_bit_size target m b \<in> {m, 32} \<and> (shrink_bit_size target m b = m \<or> 4 \<le> target)"
    using assms by (auto simp: shrink_bit_size.simps [of target _ 32] shrink_bit_size.simps [of target _ 16] split: if_splits)
  show ?thesis using s assms
    by (auto simp: Let_def widen_bit_size.simps [of target 32 16] widen_bit_size.simps [of target 32 32])
qed

lemma div_round_up_nat_pos: "0 < a \<Longrightarrow> 0 < b \<Longrightarrow> 0 < div_round_up_nat a b"
  by (simp add: div_round_up_nat_def div_greater_zero_iff)


lemma unaligned_ok:
  assumes "m \<in> {16, 32}" and "0 < n" and "0 < align" and "align < m div 8" and "align \<le> align_mul"
  shows "load_ok align align_mul align_offset \<lparr>access_align = m div 8, access_bit_size = m, access_components = n\<rparr>"
proof -
  have "m div 8 \<le> n * (m div 8)" using assms(2) by simp
  moreover have "align_offset mod (m div 8) < m div 8" using assms(3,4) by (intro mod_less_divisor) simp
  ultimately show ?thesis using assms(1,3,4) by (auto simp: load_ok_def access_bytes_def)
qed

lemma aligned_ok:
  assumes "0 < n" and "0 < b div 8" and "b div 8 \<le> align_mul"
  shows "load_ok align align_mul align_offset \<lparr>access_align = b div 8, access_bit_size = b, access_components = n\<rparr>"
proof -
  have "align_offset mod (b div 8) < b div 8" using assms(2) by (rule mod_less_divisor)
  also have "\<dots> \<le> n * (b div 8)" using assms(1) by simp
  finally show ?thesis using assms(3) by (simp add: load_ok_def access_bytes_def)
qed

lemma store_fits:
  assumes "0 < bytes" and "b \<in> {16, 32}" and "b div 8 \<le> align"
  shows "store_ok align bytes \<lparr>access_align = b div 8, access_bit_size = b, access_components = min 4 (max 1 (bytes * 8 div b))\<rparr>"
proof -
  have "bytes * 8 div b * (b div 8) \<le> bytes" using assms(2) by auto
  then have "min 4 (max 1 (bytes * 8 div b)) * (b div 8) \<le> max bytes 4"
    using assms(2) by (auto simp: min_def max_def)
  then show ?thesis using assms by (auto simp: store_ok_def access_bytes_def)
qed

text \<open>C22: \<open>lower_mem_access_bit_sizes_cb\<close> answers every access of a buffer, whatever its size and alignment, without
  failing its assertions, and its answer keeps to all that the pass asserts: an alignment that is known, or one
  that is made up for by shifting components that are wide enough; loads that reach past what they skip, so that
  the loop ends; stores that write no more than was asked for, or a single dword that is changed in place.\<close>

theorem mem_access_keeps_contract:
  assumes "intrin \<in> {load_ubo, load_ssbo, store_ssbo}" and "0 < bytes" and "bit_size \<in> {8, 16, 32, 64}"
    and "is_power_of_two align_mul" and "align_offset < align_mul"
  shows "\<exists>r align. lower_mem_access_bit_sizes_cb lower_int16 intrin bytes bit_size align_mul align_offset = Inr r \<and>
    nir_combined_align align_mul align_offset = Inr align \<and> access_align r \<in> {2, 4} \<and>
    0 < access_components r \<and> (intrin \<noteq> load_ubo \<longrightarrow> access_components r \<le> 4) \<and>
    (if intrin = store_ssbo then store_ok align bytes r else load_ok align align_mul align_offset r)"
proof -
  define align where "align = (if align_offset \<noteq> 0 then lowest_bit align_offset else align_mul)"
  define m :: nat where "m = (if lower_int16 then 32 else 16)"
  define c where "c = max m (min 32 bit_size)"
  have m: "m \<in> {16, 32}" and c: "c \<in> {m, 32}" using assms(3) by (auto simp: m_def c_def)
  have al: "nir_combined_align align_mul align_offset = Inr align" using assms(4,5) by (simp add: nir_combined_align_def align_def)
  have pos: "0 < align" "align \<le> align_mul"
    using assms(5) lowest_bit_bounds [of align_offset] by (auto simp: align_def split: if_splits)
  consider (ubo) "intrin = load_ubo" | (unaligned) "intrin \<noteq> load_ubo" "align < m div 8" | (aligned) "intrin \<noteq> load_ubo" "m div 8 \<le> align"
    by fastforce
  then show ?thesis
  proof cases
    case ubo
    have "0 < min bytes 16 * 8" "0 < c" using assms(2) m c by auto
    then have n: "0 < div_round_up_nat (min bytes 16 * 8) c" by (rule div_round_up_nat_pos)
    have cc: "c \<in> {16, 32}" using m c by auto
    have "load_ok align align_mul align_offset
        \<lparr>access_align = c div 8, access_bit_size = c, access_components = div_round_up_nat (min bytes 16 * 8) c\<rparr>"
    proof (cases "align_mul < c div 8")
      case True
      then show ?thesis using unaligned_ok [OF cc n pos(1) _ pos(2)] pos(2) by simp
    next
      case False
      have "0 < c div 8" "c div 8 \<le> align_mul" using cc False by auto
      then show ?thesis by (rule aligned_ok [OF n])
    qed
    then show ?thesis using ubo al n cc by (auto simp: lower_mem_access_bit_sizes_cb_def Let_def m_def c_def)
  next
    case unaligned
    let ?n = "min 4 (if intrin = load_ssbo then div_round_up_nat (bytes * 8) m else 32 div m)"
    let ?r = "\<lparr>access_align = m div 8, access_bit_size = m, access_components = ?n\<rparr>"
    have "0 < div_round_up_nat (bytes * 8) m" by (rule div_round_up_nat_pos) (use assms(2) m in auto)
    then have n: "0 < ?n" using m by auto
    have "lower_mem_access_bit_sizes_cb lower_int16 intrin bytes bit_size align_mul align_offset = Inr ?r"
      using unaligned al assms(1) by (auto simp: lower_mem_access_bit_sizes_cb_def Let_def m_def)
    moreover have "store_ok align bytes ?r" if "intrin = store_ssbo"
      using unaligned(2) m that by (auto simp: store_ok_def access_bytes_def)
    moreover have "load_ok align align_mul align_offset ?r" by (rule unaligned_ok [OF m n pos(1) unaligned(2) pos(2)])
    ultimately show ?thesis using al n m by auto
  next
    case aligned
    let ?t = "min bytes align"
    define b where "b = widen_bit_size ?t 32 (shrink_bit_size ?t m c)"
    let ?n = "min 4 (if intrin = load_ssbo then div_round_up_nat (bytes * 8) b else max 1 (bytes * 8 div b))"
    let ?r = "\<lparr>access_align = b div 8, access_bit_size = b, access_components = ?n\<rparr>"
    have t: "0 < ?t" using assms(2) pos by simp
    have b: "b \<in> {m, 32}" "b = m \<or> b div 8 \<le> ?t" using bit_sizes [OF m c t] by (simp_all add: b_def Let_def)
    have bb: "b \<in> {16, 32}" using b(1) m by auto
    have ba: "b div 8 \<le> align" using b(2) aligned(2) by auto
    have "0 < div_round_up_nat (bytes * 8) b" by (rule div_round_up_nat_pos) (use assms(2) bb in auto)
    then have n: "0 < ?n" by (auto simp: less_max_iff_disj)
    have "lower_mem_access_bit_sizes_cb lower_int16 intrin bytes bit_size align_mul align_offset = Inr ?r"
      unfolding lower_mem_access_bit_sizes_cb_def Let_def m_def [symmetric] c_def [symmetric] al bind_result_simps
        b_def [symmetric] using aligned assms(1) by auto
    moreover have "store_ok align bytes ?r" if "intrin = store_ssbo"
      using store_fits [OF assms(2) bb ba] that by simp
    moreover have "load_ok align align_mul align_offset ?r"
      by (rule aligned_ok [OF n]) (use bb ba pos in auto)
    ultimately show ?thesis using al n bb by auto
  qed
qed

text \<open>A store of seven bytes at an address that is four more than a multiple of eight: three words of sixteen bits first.\<close>

lemma mem_access_keeps_contract_witness:
  "lower_mem_access_bit_sizes_cb False store_ssbo 7 8 8 4 =
     Inr \<lparr>access_align = 2, access_bit_size = 16, access_components = 3\<rparr> \<and>
   store_ok 4 7 \<lparr>access_align = 2, access_bit_size = 16, access_components = 3\<rparr>"
proof -
  have p: "is_power_of_two 8" "nir_combined_align 8 4 = Inr 4" by code_simp+
  have r: "lower_mem_access_bit_sizes_cb False store_ssbo 7 8 8 4 =
     Inr \<lparr>access_align = 2, access_bit_size = 16, access_components = 3\<rparr>" by code_simp
  show ?thesis using mem_access_keeps_contract [of store_ssbo 7 8 8 4 False] p r by auto
qed

end
